(* ===== verification/Prelude.thy ===== *)
theory Prelude
  imports
    Complex_Main
    "HOL-Library.Char_ord"
    "HOL-Library.List_Lexorder"
    "HOL-Library.Multiset"
    "HOL-Library.Sublist"
begin

text \<open>
  Shared vocabulary of the development: the error values of every package, the shape of
  a fallible stateful operation, Go's clock arithmetic, what a \<open>for range\<close> over a Go map
  may visit, the selection loop the stores use, and the contract of \<open>sort.Slice\<close>.
  Nothing here is specific to one component; each component theory imports it.
\<close>

named_theorems store_simps \<open>unfolding rules of the stores' operations\<close>

section \<open>Errors\<close>

text \<open>
  The sentinel errors of the packages under \<open>internal/\<close>, one constructor per
  \<open>errors.New\<close> variable (names that two packages share carry the package), and
  \<open>ErrOther\<close> for an error built on the spot (\<open>fmt.Errorf\<close>, a failed read of random
  bytes, an error of a library).
\<close>

datatype err =
    ErrInvalidScope | ErrTenancyNotFound
  | ErrInvalidJob | ErrJobConflict | ErrJobNotFound
  | ErrInvalidAlert | ErrAlertNotFound | ErrAlertConflict
  | ErrInvalidToken | ErrTokenConsumed | ErrInvalidRequest | ErrInvalidIdentity
  | ErrAlreadyBootstrapped | ErrInvalidBootstrapSecret | ErrInviteNotFound | ErrInviteExpired
  | ErrInvalidCredentials | ErrTOTPAlreadyConfirmed | ErrInvalidTOTPCode | ErrInvalidInviteRole
  | ErrOIDCNotConfigured | ErrInviteWrongIdentityType
  | ErrSessionNotFound | ErrSessionRevoked | ErrSessionExpired | ErrSessionIdle | ErrUserInactive
  | ErrMembershipNotFound
  | ErrInvalidRole | ErrInvalidExpiry | ErrAccountNotFound | ErrAccountDisabled
  | ErrSATokenNotFound | ErrSATokenRevoked | ErrSATokenExpired
  | ErrInvalidLogs | ErrInvalidSnapshot | ErrInvalidFacts | ErrInvalidSample
  | ErrInvalidQuery | ErrInvalidActivity | ErrInvalidCloudInventory | ErrCloudAccountNotFound
  | ErrOther string

text \<open>A Go pair \<open>(value, error)\<close>: \<open>Inl\<close> carries a non-nil error.\<close>

type_synonym 'a res = "err + 'a"

text \<open>
  An operation on a store: the outcome together with the store afterwards. An error does
  not undo what was written before it, so the store is part of the outcome in both cases.
\<close>

type_synonym ('a, 's) op = "'a res \<times> 's"

section \<open>Time\<close>

text \<open>
  A \<open>time.Time\<close> is an instant, counted in nanoseconds from Go's zero time (January 1 of
  year 1, UTC), so \<open>IsZero\<close> is \<open>t = 0\<close>, \<open>Before\<close>, \<open>After\<close> and \<open>Equal\<close> are
  \<open><\<close>, \<open>>\<close> and \<open>=\<close>, and \<open>UTC\<close> does not change the instant. A
  \<open>time.Duration\<close> is a signed 64-bit count of nanoseconds; \<open>Sub\<close> saturates at its
  bounds.
\<close>

type_synonym time = int
type_synonym duration = int

definition second :: duration where "second = 1000000000"
definition minute :: duration where "minute = 60 * second"
definition hour :: duration where "hour = 60 * minute"
definition max_duration :: duration where "max_duration = 9223372036854775807"
definition min_duration :: duration where "min_duration = - 9223372036854775808"

lemmas duration_simps = second_def minute_def hour_def max_duration_def min_duration_def

definition truncate_micro :: "time \<Rightarrow> time" where
  "truncate_micro t = t - t mod 1000"

definition sub_time :: "time \<Rightarrow> time \<Rightarrow> duration" where
  "sub_time t u = max min_duration (min max_duration (t - u))"

lemma truncate_micro_le [simp]: "truncate_micro t \<le> t"
  by (simp add: truncate_micro_def)

lemma truncate_micro_close: "t - 1000 < truncate_micro t"
  by (simp add: truncate_micro_def)

lemma truncate_micro_idem [simp]: "truncate_micro (truncate_micro t) = truncate_micro t"
  by (simp add: truncate_micro_def minus_mod_eq_mult_div)

lemma truncate_micro_mono: "t \<le> u \<Longrightarrow> truncate_micro t \<le> truncate_micro u"
  by (simp add: truncate_micro_def minus_mod_eq_mult_div zdiv_mono1)

lemma sub_time_gt:
  "d < max_duration \<Longrightarrow> min_duration \<le> d \<Longrightarrow> d < sub_time t u \<longleftrightarrow> d < t - u"
  by (auto simp: sub_time_def duration_simps max_def min_def)

section \<open>Ranging over a Go map\<close>

text \<open>
  Go visits the entries of a map in an unspecified order, each entry once. An operation
  that ranges over a map therefore takes the sequence of entries \<open>it\<close> its loop visits,
  and \<open>ranges it m\<close> says that \<open>it\<close> is such a sequence for \<open>m\<close>.
\<close>

definition ranges :: "('k \<times> 'v) list \<Rightarrow> ('k \<rightharpoonup> 'v) \<Rightarrow> bool" where
  "ranges it m \<longleftrightarrow> distinct (map fst it) \<and> map_of it = m"

lemma ranges_entry: "ranges it m \<Longrightarrow> (k, v) \<in> set it \<longleftrightarrow> m k = Some v"
  by (auto simp: ranges_def)

lemma ranges_values: "ranges it m \<Longrightarrow> set (map snd it) = ran m"
  by (auto simp: ran_def ranges_entry image_iff) (metis ranges_entry snd_conv)

lemma ranges_key: "ranges it m \<Longrightarrow> k \<in> set (map fst it) \<longleftrightarrow> k \<in> dom m"
  unfolding ranges_def by (metis dom_map_of_conv_image_fst list.set_map)

lemma ranges_finite: "ranges it m \<Longrightarrow> finite (dom m)"
  by (auto simp: ranges_def finite_dom_map_of)

lemma ranges_mset:
  assumes "ranges it m" and "ranges it' m"
  shows "mset it = mset it'"
proof -
  from assms have "distinct it" "distinct it'"
    by (auto simp: ranges_def distinct_map)
  moreover have "set it = set it'"
    using assms by (auto simp: ranges_entry)
  ultimately show ?thesis by (simp add: set_eq_iff_mset_eq_distinct)
qed

lemma ranges_filter_mset:
  assumes "ranges it m" and "ranges it' m"
  shows "mset (filter P (map snd it)) = mset (filter P (map snd it'))"
  using arg_cong [OF ranges_mset [OF assms], of "\<lambda>M. filter_mset P (image_mset snd M)"]
  by simp

text \<open>Every finite map has a sequence of visits.\<close>

lemma ranges_exists:
  assumes "finite (dom m)"
  shows "\<exists>it. ranges it m"
proof -
  obtain ks where ks: "set ks = dom m" "distinct ks"
    using finite_distinct_list [OF assms] by blast
  let ?it = "map (\<lambda>k. (k, the (m k))) ks"
  have "map_of ?it = m"
  proof
    fix k
    show "map_of ?it k = m k"
      using ks by (cases "m k") (auto simp: map_of_map_restrict restrict_map_def)
  qed
  with ks(2) have "ranges ?it m" by (simp add: ranges_def comp_def)
  then show ?thesis by blast
qed

lemma ranges_Nil [simp]: "ranges [] m \<longleftrightarrow> m = Map.empty"
  by (auto simp: ranges_def)

lemma ranges_singleton [simp]: "ranges [(k, v)] [k \<mapsto> v]"
  by (simp add: ranges_def)

section \<open>The selection loop\<close>

text \<open>
  \<open>pick lt None xs\<close> is the loop by which the stores select one entry: keep the first, and
  replace it by a later one that comes before it in \<open>lt\<close>.
\<close>

fun pick :: "('a \<Rightarrow> 'a \<Rightarrow> bool) \<Rightarrow> 'a option \<Rightarrow> 'a list \<Rightarrow> 'a option" where
  "pick lt sel [] = sel"
| "pick lt sel (x # xs) =
     pick lt (case sel of None \<Rightarrow> Some x | Some y \<Rightarrow> if lt x y then Some x else sel) xs"

lemma pick_None_iff: "pick lt sel xs = None \<longleftrightarrow> sel = None \<and> xs = []"
  by (induction xs arbitrary: sel) (auto split: option.splits)

lemma pick_in: "pick lt sel xs = Some x \<Longrightarrow> x \<in> set xs \<or> sel = Some x"
  by (induction xs arbitrary: sel) (fastforce split: option.splits if_splits)+

lemma pick_in_list: "pick lt None xs = Some x \<Longrightarrow> x \<in> set xs"
  using pick_in by fastforce

text \<open>With a total preorder behind \<open>lt\<close>, nothing visited comes before the selected entry.\<close>

lemma pick_least:
  assumes trans: "\<And>a b c. \<not> lt b a \<Longrightarrow> \<not> lt c b \<Longrightarrow> \<not> lt c a"
    and asym: "\<And>a b. lt a b \<Longrightarrow> \<not> lt b a"
    and sel: "pick lt sel xs = Some x"
    and y: "y \<in> set xs \<or> sel = Some y"
  shows "\<not> lt y x"
  using sel y
proof (induction xs arbitrary: sel y)
  case Nil
  then show ?case using asym by auto
next
  case (Cons z zs)
  define sel' where "sel' = (case sel of None \<Rightarrow> Some z | Some y \<Rightarrow> if lt z y then Some z else sel)"
  have picked: "pick lt sel' zs = Some x" using Cons.prems(1) by (simp add: sel'_def)
  have "sel' \<noteq> None" by (simp add: sel'_def split: option.splits)
  then obtain w where w: "sel' = Some w" by blast
  have wx: "\<not> lt w x" using Cons.IH [OF picked] w by blast
  consider "y \<in> set zs" | "y = z" | "sel = Some y" using Cons.prems(2) by auto
  then show ?case
  proof cases
    case 1
    then show ?thesis using Cons.IH [OF picked] by blast
  next
    case 2
    then have "\<not> lt y w" using w asym by (auto simp: sel'_def split: option.splits if_splits)
    then show ?thesis using wx trans by blast
  next
    case 3
    then have "\<not> lt y w" using w asym by (auto simp: sel'_def split: option.splits if_splits)
    then show ?thesis using wx trans by blast
  qed
qed

section \<open>Sorting\<close>

text \<open>
  \<open>sort.Slice(xs, less)\<close> returns the elements of \<open>xs\<close> in an order that \<open>less\<close> does
  not contradict; it is not stable, so elements that \<open>less\<close> does not separate may come
  in either order. Operations that sort take the sorting function as an argument, and
  \<open>slice_sort\<close> states what \<open>sort.Slice\<close> documents.
\<close>

definition weak_order :: "('a \<Rightarrow> 'a \<Rightarrow> bool) \<Rightarrow> bool" where
  "weak_order lt \<longleftrightarrow>
     (\<forall>a b. lt a b \<longrightarrow> \<not> lt b a) \<and> (\<forall>a b c. \<not> lt b a \<longrightarrow> \<not> lt c b \<longrightarrow> \<not> lt c a)"

lemma pick_first:
  assumes "weak_order lt" "pick lt None xs = Some x" "y \<in> set xs"
  shows "\<not> lt y x"
  using assms(1) unfolding weak_order_def
  by (intro pick_least [OF _ _ assms(2)]) (use assms(3) in blast)+

type_synonym 'a sorter = "('a \<Rightarrow> 'a \<Rightarrow> bool) \<Rightarrow> 'a list \<Rightarrow> 'a list"

text \<open>
  \<open>top_of lt n xs ys\<close>: \<open>ys\<close> is the result of sorting \<open>xs\<close> and keeping the first \<open>n\<close>: it is
  ordered, comes from \<open>xs\<close>, is as long as \<open>n\<close> allows, and nothing left out comes before
  anything kept.
\<close>

definition top_of :: "('a \<Rightarrow> 'a \<Rightarrow> bool) \<Rightarrow> nat \<Rightarrow> 'a list \<Rightarrow> 'a list \<Rightarrow> bool" where
  "top_of lt n xs ys \<longleftrightarrow>
     sorted_wrt (\<lambda>a b. \<not> lt b a) ys \<and> mset ys \<subseteq># mset xs \<and> length ys = min n (length xs)
     \<and> (\<forall>x \<in># mset xs - mset ys. \<forall>y \<in> set ys. \<not> lt x y)"

lemma top_of_set: "top_of lt n xs ys \<Longrightarrow> set ys \<subseteq> set xs"
  unfolding top_of_def by (metis set_mset_mono set_mset_mset)

lemma top_of_mono: "top_of lt n xs ys \<Longrightarrow> mset xs = mset zs \<Longrightarrow> top_of lt n zs ys"
  unfolding top_of_def by (metis size_mset)

lemma top_of_left_out:
  assumes "top_of lt n xs ys" "x \<in> set xs" "x \<notin> set ys"
  shows "length ys = n \<and> (\<forall>y \<in> set ys. \<not> lt x y)"
proof -
  have x: "x \<in># mset xs - mset ys"
    using assms(2,3) by (simp add: in_diff_count count_mset_0_iff [symmetric] del: count_mset_0_iff)
  have "length ys = n"
  proof (rule ccontr)
    assume "length ys \<noteq> n"
    with assms(1) have "size (mset xs) = size (mset ys)" by (auto simp: top_of_def)
    with assms(1) have "mset ys = mset xs" unfolding top_of_def
      by (metis mset_subset_size nless_le subset_mset.nless_le)
    with x show False by simp
  qed
  with x assms(1) show ?thesis by (auto simp: top_of_def)
qed

locale slice_sort =
  fixes srt :: "'a sorter"
  assumes mset_srt: "mset (srt lt xs) = mset xs"
    and ordered_srt: "weak_order lt \<Longrightarrow> sorted_wrt (\<lambda>a b. \<not> lt b a) (srt lt xs)"
begin

lemma set_srt: "set (srt lt xs) = set xs"
  by (metis mset_srt set_mset_mset)

lemma length_srt: "length (srt lt xs) = length xs"
  by (metis mset_srt size_mset)

lemma take_srt:
  assumes "weak_order lt"
  shows "top_of lt n xs (take n (srt lt xs))"
proof -
  let ?ys = "srt lt xs"
  have sorted: "sorted_wrt (\<lambda>a b. \<not> lt b a) (take n ?ys)"
    "\<forall>a \<in> set (take n ?ys). \<forall>b \<in> set (drop n ?ys). \<not> lt b a"
    using ordered_srt [OF assms] by (metis append_take_drop_id sorted_wrt_append)+
  have split: "mset xs = mset (take n ?ys) + mset (drop n ?ys)"
    by (metis append_take_drop_id mset_append mset_srt)
  then have "mset xs - mset (take n ?ys) = mset (drop n ?ys)" by simp
  moreover have "mset (take n ?ys) \<subseteq># mset xs" unfolding split by simp
  ultimately show ?thesis
    using sorted by (simp add: top_of_def length_srt min.commute)
qed

lemma distinct_srt: "distinct (srt lt xs) \<longleftrightarrow> distinct xs"
  by (metis mset_srt mset_eq_imp_distinct_iff)

end

text \<open>
  Keeping the last \<open>n\<close> of a sorted slice keeps the \<open>n\<close> greatest elements: \<open>newest_of\<close> is
  \<open>top_of\<close> for the reverse order, read from the end.
\<close>

definition last_n :: "nat \<Rightarrow> 'a list \<Rightarrow> 'a list" where
  "last_n n xs = (if n < length xs then drop (length xs - n) xs else xs)"

definition newest_of :: "('a \<Rightarrow> 'a \<Rightarrow> bool) \<Rightarrow> nat \<Rightarrow> 'a list \<Rightarrow> 'a list \<Rightarrow> bool" where
  "newest_of lt n xs ys \<longleftrightarrow>
     sorted_wrt (\<lambda>a b. \<not> lt b a) ys \<and> mset ys \<subseteq># mset xs \<and> length ys = min n (length xs)
     \<and> (\<forall>x \<in># mset xs - mset ys. \<forall>y \<in> set ys. \<not> lt y x)"

lemma last_n_drop: "last_n n xs = drop (length xs - n) xs"
  by (simp add: last_n_def)

lemma newest_of_set: "newest_of lt n xs ys \<Longrightarrow> set ys \<subseteq> set xs"
  unfolding newest_of_def by (metis set_mset_mono set_mset_mset)

lemma newest_of_all: "newest_of lt n xs ys \<Longrightarrow> length xs \<le> n \<Longrightarrow> mset ys = mset xs"
  unfolding newest_of_def by (metis min.absorb2 mset_subset_size nat_less_le size_mset subset_mset.nless_le)

context slice_sort
begin

lemma last_n_srt:
  assumes "weak_order lt"
  shows "newest_of lt n xs (last_n n (srt lt xs))"
proof -
  let ?ys = "srt lt xs"
  let ?k = "length ?ys - n"
  have sorted: "sorted_wrt (\<lambda>a b. \<not> lt b a) (drop ?k ?ys)"
    "\<forall>a \<in> set (take ?k ?ys). \<forall>b \<in> set (drop ?k ?ys). \<not> lt b a"
    using ordered_srt [OF assms] by (metis append_take_drop_id sorted_wrt_append)+
  have split: "mset xs = mset (take ?k ?ys) + mset (drop ?k ?ys)"
    by (metis append_take_drop_id mset_append mset_srt)
  then have "mset xs - mset (drop ?k ?ys) = mset (take ?k ?ys)" by simp
  moreover have "mset (drop ?k ?ys) \<subseteq># mset xs" unfolding split by simp
  ultimately show ?thesis
    using sorted by (simp add: newest_of_def last_n_drop length_srt)
qed

end

text \<open>A sorting function that meets the contract: insertion.\<close>

fun insert_by :: "('a \<Rightarrow> 'a \<Rightarrow> bool) \<Rightarrow> 'a \<Rightarrow> 'a list \<Rightarrow> 'a list" where
  "insert_by lt x [] = [x]"
| "insert_by lt x (y # ys) = (if lt y x then y # insert_by lt x ys else x # y # ys)"

definition insertion_sort :: "'a sorter" where
  "insertion_sort lt xs = foldr (insert_by lt) xs []"

lemma mset_insert_by [simp]: "mset (insert_by lt x xs) = add_mset x (mset xs)"
  by (induction xs) auto

lemma set_insert_by [simp]: "set (insert_by lt x xs) = insert x (set xs)"
  by (metis mset_insert_by set_mset_mset set_mset_add_mset_insert)

lemma sorted_insert_by:
  assumes "weak_order lt" and "sorted_wrt (\<lambda>a b. \<not> lt b a) xs"
  shows "sorted_wrt (\<lambda>a b. \<not> lt b a) (insert_by lt x xs)"
  using assms(2)
proof (induction xs)
  case Nil
  then show ?case by simp
next
  case (Cons y ys)
  have asym: "lt y x \<Longrightarrow> \<not> lt x y"
    and trans: "\<And>c. \<not> lt y x \<Longrightarrow> \<not> lt c y \<Longrightarrow> \<not> lt c x"
    using assms(1) unfolding weak_order_def by blast+
  from Cons show ?case
    by (cases "lt y x") (simp_all add: asym trans)
qed

interpretation insertion: slice_sort insertion_sort
proof
  show "mset (insertion_sort lt xs) = mset xs" for lt and xs :: "'a list"
    by (induction xs) (simp_all add: insertion_sort_def)
  show "weak_order lt \<Longrightarrow> sorted_wrt (\<lambda>a b. \<not> lt b a) (insertion_sort lt xs)"
    for lt and xs :: "'a list"
    by (induction xs) (simp_all add: insertion_sort_def sorted_insert_by)
qed

text \<open>The usual comparison functions are weak orders.\<close>

lemma weak_order_key [intro, simp]: "weak_order (\<lambda>a b. f a < (f b :: 'b :: linorder))"
  by (auto simp: weak_order_def)

lemma weak_order_key_desc [intro, simp]: "weak_order (\<lambda>a b. f b < (f a :: 'b :: linorder))"
  by (auto simp: weak_order_def)

lemma weak_order_lex [intro, simp]:
  "weak_order (\<lambda>a b. f a < (f b :: 'b :: linorder) \<or> f a = f b \<and> g a < (g b :: 'c :: linorder))"
  by (auto simp: weak_order_def)

section \<open>Credentials that end\<close>

text \<open>
  The contract of every credential of the hub (session tokens, service account tokens,
  enrollment tokens, invites): a store has an invariant its operations keep, a credential
  that is dead (revoked, consumed, expired) stays dead, and a dead one is not accepted. Then
  a dead credential is refused in every later store.
\<close>

locale revocation =
  fixes inv :: "'s \<Rightarrow> bool"
    and step :: "'s \<Rightarrow> 's \<Rightarrow> bool"
    and dead :: "'s \<Rightarrow> 'h \<Rightarrow> bool"
    and accepted :: "'s \<Rightarrow> 'h \<Rightarrow> bool"
  assumes inv_step: "step st st' \<Longrightarrow> inv st \<Longrightarrow> inv st'"
    and dead_step: "step st st' \<Longrightarrow> inv st \<Longrightarrow> dead st h \<Longrightarrow> dead st' h"
    and dead_refused: "inv st \<Longrightarrow> dead st h \<Longrightarrow> \<not> accepted st h"
begin

lemma inv_steps: "rtranclp step st st' \<Longrightarrow> inv st \<Longrightarrow> inv st'"
  by (induction rule: rtranclp_induct) (blast intro: inv_step)+

lemma dead_steps: "rtranclp step st st' \<Longrightarrow> inv st \<Longrightarrow> dead st h \<Longrightarrow> dead st' h"
proof (induction rule: rtranclp_induct)
  case (step y z)
  then show ?case using inv_steps dead_step by blast
qed

lemma refused_forever: "rtranclp step st st' \<Longrightarrow> inv st \<Longrightarrow> dead st h \<Longrightarrow> \<not> accepted st' h"
  using inv_steps dead_steps dead_refused by blast

end

section \<open>Small facts\<close>

text \<open>Store keys are tuples; quantifiers over them are kept whole.\<close>

declare split_paired_All [simp del] split_paired_Ex [simp del]

lemma map_upd_ran: "ran (m(k \<mapsto> v)) \<subseteq> insert v (ran m)"
  by (auto simp: ran_def split: if_splits)

lemma distinct_sub_mset:
  assumes "mset ys \<subseteq># mset xs" and "distinct xs"
  shows "distinct ys"
proof -
  obtain zs where "mset xs = mset ys + mset zs"
    using assms(1) by (metis ex_mset mset_subset_eq_exists_conv)
  then have "mset xs = mset (ys @ zs)" by simp
  with assms(2) show ?thesis by (metis distinct_append mset_eq_imp_distinct_iff)
qed

lemma last_n_suffix: "\<exists>ys. xs = ys @ drop (length xs - n) xs"
  by (metis append_take_drop_id)

end
