(* ===== verification/GoText.thy ===== *)
theory GoText
  imports Prelude
begin

text \<open>
  The parts of Go's string handling the program uses, on strings of bytes (a \<open>char\<close> is a
  byte, so \<open>length\<close> is Go's \<open>len\<close>): \<open>strings.TrimSpace\<close>, \<open>strings.ToLower\<close>,
  \<open>unicode/utf8\<close> validity, \<open>encoding/hex\<close>, \<open>encoding/base64\<close>, the string encoder of
  \<open>encoding/json\<close>, and the two regular expressions the hub and the agent share.
\<close>

section \<open>White space\<close>

text \<open>
  The UTF-8 encodings of the runes for which \<open>unicode.IsSpace\<close> holds. A string starts
  (ends) with a space rune exactly when it starts (ends) with one of them.
\<close>

definition space_runes :: "string list" where
  "space_runes =
     [[CHR 0x09], [CHR 0x0A], [CHR 0x0B], [CHR 0x0C], [CHR 0x0D], [CHR 0x20],
      [CHR 0xC2, CHR 0x85], [CHR 0xC2, CHR 0xA0], [CHR 0xE1, CHR 0x9A, CHR 0x80]]
     @ map (\<lambda>n. [CHR 0xE2, CHR 0x80, char_of n]) ([128..<139] @ [168, 169, 175 :: nat])
     @ [[CHR 0xE2, CHR 0x81, CHR 0x9F], [CHR 0xE3, CHR 0x80, CHR 0x80]]"

fun strip_any :: "string list \<Rightarrow> string \<Rightarrow> string option" where
  "strip_any [] s = None"
| "strip_any (p # ps) s =
     (if take (length p) s = p then Some (drop (length p) s) else strip_any ps s)"

function trim_left_by :: "string list \<Rightarrow> string \<Rightarrow> string" where
  "trim_left_by ps s =
     (case strip_any ps s of None \<Rightarrow> s
      | Some r \<Rightarrow> if length r < length s then trim_left_by ps r else s)"
  by pat_completeness auto
termination
  by (relation "measure (\<lambda>(ps, s). length s)") auto

declare trim_left_by.simps [simp del]

definition trim_space :: "string \<Rightarrow> string" where
  "trim_space s =
     rev (trim_left_by (map rev space_runes) (rev (trim_left_by space_runes s)))"

lemma strip_any_Some: "strip_any ps s = Some r \<Longrightarrow> \<exists>p\<in>set ps. s = p @ r"
  by (induction ps) (auto split: if_splits, metis append_take_drop_id)

lemma strip_any_None: "strip_any ps s = None \<longleftrightarrow> (\<forall>p\<in>set ps. \<not> prefix p s)"
proof (induction ps)
  case (Cons p ps)
  have "take (length p) s = p \<longleftrightarrow> prefix p s"
    by (metis append_eq_conv_conj prefix_def)
  with Cons show ?case by auto
qed simp

lemma trim_left_by_suffix: "suffix (trim_left_by ps s) s"
proof (induction ps s rule: trim_left_by.induct)
  case (1 ps s)
  show ?case
  proof (cases "strip_any ps s")
    case None
    then show ?thesis by (subst trim_left_by.simps) simp
  next
    case (Some r)
    then have "suffix r s" unfolding suffix_def by (blast dest: strip_any_Some)
    with 1 Some show ?thesis
      by (subst trim_left_by.simps) (auto intro: suffix_order.trans)
  qed
qed

lemma trim_left_by_fixed:
  assumes "[] \<notin> set ps"
  shows "strip_any ps (trim_left_by ps s) = None"
  using assms
proof (induction ps s rule: trim_left_by.induct)
  case (1 ps s)
  show ?case
  proof (cases "strip_any ps s")
    case None
    then show ?thesis by (subst trim_left_by.simps) simp
  next
    case (Some r)
    then obtain p where "p \<in> set ps" "s = p @ r" using strip_any_Some by blast
    with "1.prems" have "length r < length s" by (cases p) auto
    with 1 Some show ?thesis by (subst trim_left_by.simps) simp
  qed
qed

lemma trim_left_by_id: "strip_any ps s = None \<Longrightarrow> trim_left_by ps s = s"
  by (simp add: trim_left_by.simps)

lemma Nil_space_runes: "[] \<notin> set space_runes" "[] \<notin> set (map rev space_runes)"
  by (auto simp: space_runes_def)

text \<open>A trimmed string has no space rune at either end, so trimming again changes nothing.\<close>

lemma trim_space_fixed:
  "strip_any space_runes (trim_space s) = None"
  "strip_any (map rev space_runes) (rev (trim_space s)) = None"
proof -
  let ?l = "trim_left_by space_runes s"
  have "suffix (trim_left_by (map rev space_runes) (rev ?l)) (rev ?l)"
    by (rule trim_left_by_suffix)
  then have pre: "prefix (trim_space s) ?l"
    by (metis trim_space_def suffix_to_prefix rev_rev_ident)
  have "strip_any space_runes ?l = None"
    by (rule trim_left_by_fixed) (rule Nil_space_runes)
  with pre show "strip_any space_runes (trim_space s) = None"
    by (auto simp: strip_any_None intro: prefix_order.trans)
  show "strip_any (map rev space_runes) (rev (trim_space s)) = None"
    by (simp add: trim_space_def trim_left_by_fixed Nil_space_runes del: set_map)
qed

lemma trim_space_idem [simp]: "trim_space (trim_space s) = trim_space s"
  using trim_space_fixed [of s] by (simp add: trim_space_def [of "trim_space s"] trim_left_by_id)

lemma length_trim_space: "length (trim_space s) \<le> length s"
  unfolding trim_space_def
  by (metis length_rev suffix_length_le trim_left_by_suffix order_trans)

lemma trim_space_Nil [simp]: "trim_space [] = []"
  using length_trim_space [of "[]"] by simp

lemma set_trim_space: "set (trim_space s) \<subseteq> set s"
  unfolding trim_space_def
  by (metis set_rev set_mono_suffix trim_left_by_suffix order_trans)

section \<open>Lower case\<close>

text \<open>
  \<open>strings.ToLower\<close> lowers the letters of an ASCII string byte by byte and maps any other
  string rune by rune through the Unicode tables, which are the parameter \<open>uni\<close>.
\<close>

definition is_ascii :: "string \<Rightarrow> bool" where
  "is_ascii s \<longleftrightarrow> list_all (\<lambda>c. (of_char c :: nat) < 128) s"

definition lower_char :: "char \<Rightarrow> char" where
  "lower_char c = (let n = (of_char c :: nat) in if 65 \<le> n \<and> n \<le> 90 then char_of (n + 32) else c)"

definition to_lower :: "(string \<Rightarrow> string) \<Rightarrow> string \<Rightarrow> string" where
  "to_lower uni s = (if is_ascii s then map lower_char s else uni s)"

lemma of_char_lower_char:
  "(of_char (lower_char c) :: nat) =
     (if 65 \<le> (of_char c :: nat) \<and> (of_char c :: nat) \<le> 90 then of_char c + 32 else of_char c)"
  by (simp add: lower_char_def Let_def)

lemma lower_char_idem [simp]: "lower_char (lower_char c) = lower_char c"
  by (subst lower_char_def) (auto simp: of_char_lower_char Let_def)

lemma is_ascii_lower [simp]: "is_ascii s \<Longrightarrow> is_ascii (map lower_char s)"
  by (auto simp: is_ascii_def list_all_iff of_char_lower_char)

lemma to_lower_idem_ascii: "is_ascii s \<Longrightarrow> to_lower uni (to_lower uni s) = to_lower uni s"
  by (simp add: to_lower_def)

section \<open>Hexadecimal and random identifiers\<close>

definition hex_digit :: "nat \<Rightarrow> char" where
  "hex_digit n = (if n < 10 then char_of (48 + n) else char_of (87 + n))"

definition hex_encode :: "string \<Rightarrow> string" where
  "hex_encode s = concat (map (\<lambda>c. [hex_digit (of_char c div 16), hex_digit (of_char c mod 16)]) s)"

definition is_lower_hex :: "char \<Rightarrow> bool" where
  "is_lower_hex c \<longleftrightarrow>
     (let n = (of_char c :: nat) in (97 \<le> n \<and> n \<le> 102) \<or> (48 \<le> n \<and> n \<le> 57))"

lemma hex_digit_lower [simp]: "n < 16 \<Longrightarrow> is_lower_hex (hex_digit n)"
  by (auto simp: is_lower_hex_def hex_digit_def Let_def)

lemma hex_digit_inj: "m < 16 \<Longrightarrow> n < 16 \<Longrightarrow> hex_digit m = hex_digit n \<longleftrightarrow> m = n"
  by (auto simp: hex_digit_def char_of_eq_iff [symmetric] dest: arg_cong [of _ _ "of_char :: char \<Rightarrow> nat"]
      split: if_splits)

lemma length_hex_encode [simp]: "length (hex_encode s) = 2 * length s"
  by (induction s) (auto simp: hex_encode_def)

lemma hex_encode_lower: "list_all is_lower_hex (hex_encode s)"
proof (induction s)
  case (Cons c s)
  have "(of_char c :: nat) div 16 < 16"
    using nat_of_char_less_256 [of c] by linarith
  with Cons show ?case by (simp add: hex_encode_def)
qed (simp add: hex_encode_def)

lemma hex_encode_inj: "hex_encode s = hex_encode t \<longleftrightarrow> s = t"
proof (induction s arbitrary: t)
  case Nil
  then show ?case by (cases t) (auto simp: hex_encode_def)
next
  case (Cons c s)
  show ?case
  proof (cases t)
    case Nil
    then show ?thesis by (simp add: hex_encode_def)
  next
    case (Cons d u)
    have "(of_char c :: nat) div 16 < 16" "(of_char d :: nat) div 16 < 16"
      using nat_of_char_less_256 [of c] nat_of_char_less_256 [of d] by linarith+
    then have "hex_encode [c] = hex_encode [d] \<longleftrightarrow> c = d"
      by (auto simp: hex_encode_def hex_digit_inj) (metis div_mod_decomp of_char_eq_iff)
    then have "hex_encode (c # s) = hex_encode (d # u) \<longleftrightarrow> c = d \<and> hex_encode s = hex_encode u"
      by (auto simp: hex_encode_def)
    with Cons Cons.IH [of u] show ?thesis by simp
  qed
qed

text \<open>
  What \<open>rand.Read\<close> leaves in a buffer: the byte at each index, or None when it fails.
  Every \<open>newID\<close> of the program fills a buffer of a fixed length and encodes it.
\<close>

type_synonym entropy = "(nat \<Rightarrow> char) option"

definition rand_hex :: "nat \<Rightarrow> entropy \<Rightarrow> string res" where
  "rand_hex n r = (case r of None \<Rightarrow> Inl (ErrOther ''rand'') | Some f \<Rightarrow> Inr (hex_encode (map f [0..<n])))"

lemma rand_hex_Inr:
  "rand_hex n r = Inr s \<Longrightarrow> length s = 2 * n \<and> list_all is_lower_hex s"
  by (auto simp: rand_hex_def hex_encode_lower split: option.splits)

lemma rand_hex_nonempty: "rand_hex n r = Inr s \<Longrightarrow> 0 < n \<Longrightarrow> s \<noteq> []"
  by (auto dest!: rand_hex_Inr)

section \<open>The shared regular expressions\<close>

text \<open>\<open>^[A-Za-z0-9_.@:-]+$\<close> and \<open>^[a-f0-9]{32}$\<close>.\<close>

definition target_char :: "char \<Rightarrow> bool" where
  "target_char c \<longleftrightarrow>
     (let n = (of_char c :: nat) in
        (65 \<le> n \<and> n \<le> 90) \<or> (97 \<le> n \<and> n \<le> 122) \<or> (48 \<le> n \<and> n \<le> 57) \<or> c \<in> set ''_.@:-'')"

definition serviceTargetPattern :: "string \<Rightarrow> bool" where
  "serviceTargetPattern s \<longleftrightarrow> s \<noteq> [] \<and> list_all target_char s"

definition hex32_pattern :: "string \<Rightarrow> bool" where
  "hex32_pattern s \<longleftrightarrow> length s = 32 \<and> list_all is_lower_hex s"

lemma rand_hex_hex32: "rand_hex 16 r = Inr s \<Longrightarrow> hex32_pattern s"
  using rand_hex_Inr [of 16 r s] by (simp add: hex32_pattern_def)

section \<open>UTF-8\<close>

text \<open>
  \<open>rune_len s\<close> is the number of bytes of the rune that \<open>utf8.DecodeRune\<close> reads at the
  start of \<open>s\<close>, None where it reports an invalid encoding.
\<close>

definition byte_in :: "nat \<Rightarrow> nat \<Rightarrow> char \<Rightarrow> bool" where
  "byte_in lo hi c \<longleftrightarrow> lo \<le> (of_char c :: nat) \<and> of_char c \<le> hi"

abbreviation cont :: "char \<Rightarrow> bool" where
  "cont \<equiv> byte_in 128 191"

fun rune_len :: "string \<Rightarrow> nat option" where
  "rune_len [] = None"
| "rune_len (a # s) =
     (if byte_in 0 127 a then Some 1
      else if byte_in 194 223 a then
        (case s of b # _ \<Rightarrow> if cont b then Some 2 else None | [] \<Rightarrow> None)
      else if byte_in 224 239 a then
        (case s of b # c # _ \<Rightarrow>
           if byte_in (if of_char a = (224 :: nat) then 160 else 128)
                      (if of_char a = (237 :: nat) then 159 else 191) b \<and> cont c
           then Some 3 else None | _ \<Rightarrow> None)
      else if byte_in 240 244 a then
        (case s of b # c # d # _ \<Rightarrow>
           if byte_in (if of_char a = (240 :: nat) then 144 else 128)
                      (if of_char a = (244 :: nat) then 143 else 191) b \<and> cont c \<and> cont d
           then Some 4 else None | _ \<Rightarrow> None)
      else None)"

lemma rune_len_bounds: "rune_len s = Some n \<Longrightarrow> 0 < n \<and> n \<le> 4 \<and> n \<le> length s"
  by (cases s) (auto split: if_splits list.splits)

lemma rune_len_append: "rune_len s = Some n \<Longrightarrow> rune_len (s @ t) = Some n"
  by (cases s) (auto split: if_splits list.splits)

lemma rune_len_take: "rune_len s = Some n \<Longrightarrow> rune_len (take n s) = Some n"
  by (cases s) (auto split: if_splits list.splits simp: numeral_eq_Suc)

declare rune_len.simps [simp del]

lemma rune_len_Nil [simp]: "rune_len [] = None"
  by (simp add: rune_len.simps)

lemma rune_len_ascii [simp]: "byte_in 0 127 c \<Longrightarrow> rune_len (c # s) = Some 1"
  by (simp add: rune_len.simps)

function valid_utf8 :: "string \<Rightarrow> bool" where
  "valid_utf8 s =
     (if s = [] then True
      else case rune_len s of None \<Rightarrow> False | Some n \<Rightarrow> valid_utf8 (drop n s))"
  by pat_completeness auto
termination
  by (relation "measure length") (auto dest: rune_len_bounds simp: neq_Nil_conv)

declare valid_utf8.simps [simp del]

lemma valid_utf8_Nil [simp]: "valid_utf8 []"
  by (simp add: valid_utf8.simps)

lemma valid_utf8_rune: "rune_len s = Some n \<Longrightarrow> valid_utf8 s = valid_utf8 (drop n s)"
  by (subst valid_utf8.simps) auto

lemma valid_utf8_ascii: "is_ascii s \<Longrightarrow> valid_utf8 s"
proof (induction s)
  case (Cons c s)
  then have "rune_len (c # s) = Some 1" by (simp add: is_ascii_def byte_in_def)
  from valid_utf8_rune [OF this] Cons show ?case by (simp add: is_ascii_def)
qed simp

section \<open>JSON strings\<close>

text \<open>
  The string encoder of \<open>encoding/json\<close>: the quote, the backslash, control characters and
  the characters that are unsafe in HTML are escaped, an invalid byte is replaced, and any
  other rune is copied.
\<close>

definition quote :: char where "quote = CHR 0x22"
definition backslash :: char where "backslash = CHR 0x5C"

definition json_ascii :: "char \<Rightarrow> string" where
  "json_ascii c =
     (if c = quote \<or> c = backslash then [backslash, c]
      else if c = CHR 0x08 then [backslash, CHR ''b'']
      else if c = CHR 0x0C then [backslash, CHR ''f'']
      else if c = CHR 0x0A then [backslash, CHR ''n'']
      else if c = CHR 0x0D then [backslash, CHR ''r'']
      else if c = CHR 0x09 then [backslash, CHR ''t'']
      else if (of_char c :: nat) < 32 \<or> c \<in> {CHR 0x3C, CHR 0x3E, CHR 0x26}
        then [backslash, CHR ''u'', CHR ''0'', CHR ''0'',
              hex_digit (of_char c div 16), hex_digit (of_char c mod 16)]
      else [c])"

definition json_rune :: "string \<Rightarrow> string" where
  "json_rune r =
     (case r of
        [c] \<Rightarrow> json_ascii c
      | _ \<Rightarrow> if r = [CHR 0xE2, CHR 0x80, CHR 0xA8] then backslash # ''u2028''
            else if r = [CHR 0xE2, CHR 0x80, CHR 0xA9] then backslash # ''u2029''
            else r)"

function json_body :: "string \<Rightarrow> string" where
  "json_body s =
     (case s of [] \<Rightarrow> []
      | c # cs \<Rightarrow>
          (case rune_len s of
             None \<Rightarrow> backslash # ''ufffd'' @ json_body cs
           | Some n \<Rightarrow> json_rune (take n s) @ json_body (drop n s)))"
  by pat_completeness auto
termination
  by (relation "measure length") (auto dest!: rune_len_bounds)

declare json_body.simps [simp del]

definition json_string :: "string \<Rightarrow> string" where
  "json_string s = quote # json_body s @ [quote]"

text \<open>
  Distinct valid runes have distinct, prefix-free encodings that do not start with the
  closing quote, so the encoding of a valid string can be read back from any text that
  starts with it.
\<close>

definition rune :: "string \<Rightarrow> bool" where
  "rune r \<longleftrightarrow> rune_len r = Some (length r)"

lemma json_ascii_shape:
  "(\<exists>d. json_ascii c = [d] \<and> d \<noteq> backslash \<and> d = c) \<or>
   (\<exists>d. json_ascii c = [backslash, d] \<and> d \<noteq> CHR ''u'') \<or>
   (\<exists>h l. json_ascii c = [backslash, CHR ''u'', CHR ''0'', CHR ''0'', h, l])"
  by (auto simp: json_ascii_def quote_def backslash_def)

lemma json_ascii_inj: "json_ascii c = json_ascii d \<Longrightarrow> c = d"
proof -
  assume eq: "json_ascii c = json_ascii d"
  have "(of_char c :: nat) div 16 < 16" "(of_char d :: nat) div 16 < 16"
    using nat_of_char_less_256 [of c] nat_of_char_less_256 [of d] by linarith+
  then have "hex_digit (of_char c div 16) = hex_digit (of_char d div 16) \<Longrightarrow>
      hex_digit (of_char c mod 16) = hex_digit (of_char d mod 16) \<Longrightarrow> c = d"
    by (simp add: hex_digit_inj) (metis div_mod_decomp of_char_eq_iff)
  with eq show ?thesis
    by (auto simp: json_ascii_def quote_def backslash_def split: if_splits)
qed


lemma rune_one: "rune [c] \<Longrightarrow> byte_in 0 127 c"
  by (auto simp: rune_def rune_len.simps split: if_splits)

lemma rune_cases:
  assumes "rune r"
  obtains (ascii) c where "r = [c]" "byte_in 0 127 c" "json_rune r = json_ascii c"
  | (ls) "r = [CHR 0xE2, CHR 0x80, CHR 0xA8]" "json_rune r = backslash # ''u2028''"
  | (ps) "r = [CHR 0xE2, CHR 0x80, CHR 0xA9]" "json_rune r = backslash # ''u2029''"
  | (multi) a s where "r = a # s" "byte_in 194 244 a" "json_rune r = r"
proof -
  obtain a s where r: "r = a # s"
    using assms by (cases r) (auto simp: rune_def)
  show thesis
  proof (cases "s = []")
    case True
    with assms r show ?thesis
      by (intro ascii [of a]) (auto simp: rune_one json_rune_def)
  next
    case False
    have "byte_in 194 244 a"
      using assms r False by (auto simp: rune_def rune_len.simps byte_in_def split: if_splits)
    from False obtain b u where s: "s = b # u" by (cases s) auto
    consider "r = [CHR 0xE2, CHR 0x80, CHR 0xA8]" | "r = [CHR 0xE2, CHR 0x80, CHR 0xA9]"
      | "r \<noteq> [CHR 0xE2, CHR 0x80, CHR 0xA8]" "r \<noteq> [CHR 0xE2, CHR 0x80, CHR 0xA9]" by blast
    then show ?thesis
    proof cases
      case 1
      then show ?thesis by (intro ls) (simp_all add: json_rune_def)
    next
      case 2
      then show ?thesis by (intro ps) (simp_all add: json_rune_def)
    next
      case 3
      have "json_rune r = r" using 3 r s by (simp add: json_rune_def)
      then show ?thesis using r \<open>byte_in 194 244 a\<close> by (intro multi)
    qed
  qed
qed

lemma json_ascii_no_quote: "json_ascii c @ x \<noteq> quote # y"
  by (auto simp: json_ascii_def quote_def backslash_def)

lemma json_rune_no_quote:
  assumes "rune r"
  shows "json_rune r @ x \<noteq> quote # y"
  using assms
proof (cases rule: rune_cases)
  case (ascii c)
  then show ?thesis by (simp add: json_ascii_no_quote)
qed (auto simp: quote_def backslash_def byte_in_def)

lemma json_ascii_prefix_free:
  assumes "json_ascii c @ x = json_ascii d @ y"
  shows "c = d \<and> x = y"
proof -
  have "length (json_ascii c) = length (json_ascii d)"
    using json_ascii_shape [of c] json_ascii_shape [of d] assms by auto
  with assms have "json_ascii c = json_ascii d" "x = y" by auto
  then show ?thesis by (simp add: json_ascii_inj)
qed

lemma json_ascii_head: "\<exists>t. json_ascii c = c # t \<or> json_ascii c = backslash # t"
  using json_ascii_shape [of c] by blast

lemma byte_in_not_backslash: "byte_in 194 244 a \<Longrightarrow> a \<noteq> backslash"
  by (auto simp: byte_in_def backslash_def)

lemma json_ascii_not_multi:
  assumes "byte_in 0 127 c" and "byte_in 194 244 a"
  shows "json_ascii c @ x \<noteq> a # y"
proof -
  have "a \<noteq> c" using assms by (auto simp: byte_in_def)
  then show ?thesis using json_ascii_head [of c] byte_in_not_backslash [OF assms(2)] by auto
qed

lemma json_ascii_not_sep: "json_ascii c @ x \<noteq> backslash # CHR ''u'' # CHR ''2'' # y"
  using json_ascii_shape [of c] by auto

lemma json_rune_ascii_other:
  assumes "byte_in 0 127 c" and "rune t" and "json_ascii c @ x = json_rune t @ y"
  shows "t = [c] \<and> x = y"
  using assms(2)
proof (cases rule: rune_cases)
  case (ascii d)
  with assms(3) show ?thesis using json_ascii_prefix_free [of c x d y] by simp
next
  case ls
  with assms(3) show ?thesis using json_ascii_not_sep [of c x "''028'' @ y"] by simp
next
  case ps
  with assms(3) show ?thesis using json_ascii_not_sep [of c x "''029'' @ y"] by simp
next
  case (multi a s)
  with assms(1,3) show ?thesis using json_ascii_not_multi [of c a x "s @ y"] by simp
qed

lemma json_rune_prefix_free:
  assumes "rune r" and "rune t" and "json_rune r @ x = json_rune t @ y"
  shows "r = t \<and> x = y"
proof (cases "length r = 1 \<or> length t = 1")
  case True
  then obtain c where "r = [c] \<or> t = [c]"
    by (auto simp: length_Suc_conv)
  then show ?thesis
  proof
    assume r: "r = [c]"
    with assms(1) have "byte_in 0 127 c" by (simp add: rune_one)
    moreover have "json_ascii c @ x = json_rune t @ y" using assms(3) r by (simp add: json_rune_def)
    ultimately show ?thesis using json_rune_ascii_other [OF _ assms(2)] r by auto
  next
    assume t: "t = [c]"
    with assms(2) have "byte_in 0 127 c" by (simp add: rune_one)
    moreover have "json_ascii c @ y = json_rune r @ x" using assms(3) t by (simp add: json_rune_def)
    ultimately show ?thesis using json_rune_ascii_other [OF _ assms(1)] t by auto
  qed
next
  case False
  from assms(1) show ?thesis
  proof (cases rule: rune_cases)
    case (multi a s)
    note r = multi
    from assms(2) show ?thesis
    proof (cases rule: rune_cases)
      case (multi b u)
      from assms have "rune_len (r @ x) = Some (length r)" "rune_len (t @ y) = Some (length t)"
        by (auto simp: rune_def intro: rune_len_append)
      with assms(3) multi(3) r(3) show ?thesis by simp
    qed (use r assms(3) False byte_in_not_backslash [OF r(2)] in simp_all)
  next
    case ls
    note r = ls
    from assms(2) show ?thesis
    proof (cases rule: rune_cases)
      case (multi b u)
      with r assms(3) byte_in_not_backslash [OF multi(2)] show ?thesis by simp
    qed (use r assms(3) False in simp_all)
  next
    case ps
    note r = ps
    from assms(2) show ?thesis
    proof (cases rule: rune_cases)
      case (multi b u)
      with r assms(3) byte_in_not_backslash [OF multi(2)] show ?thesis by simp
    qed (use r assms(3) False in simp_all)
  qed (use False in simp)
qed

lemma json_body_rune:
  "rune_len s = Some n \<Longrightarrow> json_body s = json_rune (take n s) @ json_body (drop n s)"
  by (subst json_body.simps) (auto split: list.splits)

lemma json_body_Nil [simp]: "json_body [] = []"
  by (simp add: json_body.simps)

lemma valid_utf8_cases:
  assumes "valid_utf8 s"
  obtains "s = []" | n where "rune_len s = Some n" "rune (take n s)" "valid_utf8 (drop n s)"
    "length (drop n s) < length s"
proof (cases "s = []")
  case False
  then obtain n where n: "rune_len s = Some n"
    using assms by (auto simp: valid_utf8.simps [of s] split: option.splits)
  moreover have "rune (take n s)"
    using n rune_len_bounds [OF n] rune_len_take [OF n] by (simp add: rune_def min_def)
  ultimately show ?thesis
    using that(2) [OF n] assms n rune_len_bounds [OF n] valid_utf8_rune [OF n] by auto
qed (rule that(1))

lemma json_body_inj:
  assumes "valid_utf8 s" and "valid_utf8 t" and "json_body s @ quote # x = json_body t @ quote # y"
  shows "s = t \<and> x = y"
  using assms
proof (induction "length s" arbitrary: s t rule: less_induct)
  case less
  from less.prems(1) show ?case
  proof (cases rule: valid_utf8_cases)
    case 1
    from less.prems(2) show ?thesis
    proof (cases rule: valid_utf8_cases)
      case (2 m)
      with json_rune_no_quote [of "take m t" "json_body (drop m t) @ quote # y" x] 1
        less.prems(3)
      have False by (simp add: json_body_rune)
      then show ?thesis ..
    qed (use 1 less.prems(3) in simp)
  next
    case (2 n)
    from less.prems(2) show ?thesis
    proof (cases rule: valid_utf8_cases)
      case 1
      with 2 less.prems(3) json_rune_no_quote [of "take n s" "json_body (drop n s) @ quote # x"]
      show ?thesis by (auto simp: json_body_rune)
    next
      case (2 m)
      note s = \<open>rune_len s = Some n\<close> \<open>rune (take n s)\<close>
      from s 2 less.prems(3)
      have "take n s = take m t \<and>
          json_body (drop n s) @ quote # x = json_body (drop m t) @ quote # y"
        by (intro json_rune_prefix_free) (simp_all add: json_body_rune)
      moreover from this have "drop n s = drop m t \<and> x = y"
        using less.hyps [of "drop n s" "drop m t"] 2
          \<open>valid_utf8 (drop n s)\<close> \<open>length (drop n s) < length s\<close> by blast
      ultimately show ?thesis by (metis append_take_drop_id)
    qed
  qed
qed

lemma json_string_inj:
  assumes "valid_utf8 s" and "valid_utf8 t" and "json_string s @ x = json_string t @ y"
  shows "s = t \<and> x = y"
  using json_body_inj [OF assms(1,2)] assms(3) by (simp add: json_string_def)

text \<open>An encoded string has at most six bytes for each of the string, and plain text stays as it is.\<close>

lemma length_json_rune: "r \<noteq> [] \<Longrightarrow> length (json_rune r) \<le> 6 * length r"
proof (induction r rule: induct_list012)
  case (2 c)
  then show ?case by (simp add: json_rune_def json_ascii_def)
next
  case (3 c d x)
  then show ?case by (simp add: json_rune_def)
qed simp

lemma length_json_body: "length (json_body s) \<le> 6 * length s"
proof (induction s rule: json_body.induct)
  case (1 s)
  show ?case
  proof (cases s)
    case Nil
    then show ?thesis by (simp add: json_body.simps)
  next
    case (Cons c cs)
    show ?thesis
    proof (cases "rune_len s")
      case None
      then show ?thesis using 1(1) [OF Cons] Cons by (subst json_body.simps) simp
    next
      case (Some n)
      have n: "1 \<le> n" "n \<le> length s" using rune_len_bounds [OF Some] by auto
      have "length (json_rune (take n s)) \<le> 6 * n"
        using n length_json_rune [of "take n s"] by fastforce
      moreover have "length (json_body (drop n s)) \<le> 6 * (length s - n)"
        using 1(2) [OF Cons Some] n by simp
      ultimately show ?thesis using Some Cons n by (subst json_body.simps) simp
    qed
  qed
qed

lemma length_json_string: "length (json_string s) \<le> 6 * length s + 2"
  using length_json_body [of s] by (simp add: json_string_def)

definition json_plain :: "string \<Rightarrow> bool" where
  "json_plain s \<longleftrightarrow> list_all (\<lambda>c. byte_in 0 127 c \<and> json_ascii c = [c]) s"

lemma json_body_plain: "json_plain s \<Longrightarrow> json_body s = s"
proof (induction s)
  case (Cons c s)
  then have "rune_len (c # s) = Some 1" "json_rune [c] = [c]" "json_body s = s"
    by (simp_all add: json_plain_def json_rune_def)
  then show ?case using json_body_rune [of "c # s" 1] by simp
qed simp

lemma json_string_plain: "json_plain s \<Longrightarrow> json_string s = quote # s @ [quote]"
  by (simp add: json_string_def json_body_plain)

end
