(* ===== verification/Encoding.thy ===== *)
theory Encoding
  imports GoText
begin

text \<open>
  The encodings of the wire formats: \<open>base64.StdEncoding\<close> and its unpadded form, decimal
  numbers, splitting and joining, and the cut that keeps a UTF-8 string within a number of
  bytes. The round trips and the injectivity that the signature and token properties need
  are proved here.
\<close>

section \<open>Base64\<close>

definition b64_digit :: "nat \<Rightarrow> char" where
  "b64_digit n =
     (if n < 26 then char_of (65 + n) else if n < 52 then char_of (71 + n)
      else if n < 62 then char_of (n - 4) else if n = 62 then CHR ''+'' else CHR ''/'')"

definition b64_val :: "char \<Rightarrow> nat option" where
  "b64_val c =
     (let n = (of_char c :: nat) in
      if 65 \<le> n \<and> n \<le> 90 then Some (n - 65) else if 97 \<le> n \<and> n \<le> 122 then Some (n - 71)
      else if 48 \<le> n \<and> n \<le> 57 then Some (n + 4) else if c = CHR ''+'' then Some 62
      else if c = CHR ''/'' then Some 63 else None)"

fun b64_encode :: "string \<Rightarrow> string" where
  "b64_encode [] = []"
| "b64_encode [a] =
     [b64_digit (of_char a div 4), b64_digit (of_char a mod 4 * 16), CHR ''='', CHR ''='']"
| "b64_encode [a, b] =
     [b64_digit (of_char a div 4), b64_digit (of_char a mod 4 * 16 + of_char b div 16),
      b64_digit (of_char b mod 16 * 4), CHR ''='']"
| "b64_encode (a # b # c # s) =
     b64_digit (of_char a div 4) # b64_digit (of_char a mod 4 * 16 + of_char b div 16)
     # b64_digit (of_char b mod 16 * 4 + of_char c div 64) # b64_digit (of_char c mod 64)
     # b64_encode s"

text \<open>
  The decoder reads one quantum of four digits at a time; only the last may be padded, and
  the bits a padded quantum leaves over are not checked.
\<close>

fun b64_quanta :: "string \<Rightarrow> string option" where
  "b64_quanta [] = Some []"
| "b64_quanta (p # q # r # s # rest) =
     (case (b64_val p, b64_val q) of
        (Some w, Some x) \<Rightarrow>
          if r = CHR ''='' then
            (if s = CHR ''='' \<and> rest = [] then Some [char_of (w * 4 + x div 16)] else None)
          else (case b64_val r of
              None \<Rightarrow> None
            | Some y \<Rightarrow>
                if s = CHR ''='' then
                  (if rest = []
                   then Some [char_of (w * 4 + x div 16), char_of (x mod 16 * 16 + y div 4)]
                   else None)
                else (case (b64_val s, b64_quanta rest) of
                    (Some z, Some out) \<Rightarrow>
                      Some (char_of (w * 4 + x div 16) # char_of (x mod 16 * 16 + y div 4)
                            # char_of (y mod 4 * 64 + z) # out)
                  | _ \<Rightarrow> None))
      | _ \<Rightarrow> None)"
| "b64_quanta _ = None"

definition b64_decode :: "string \<Rightarrow> string option" where
  "b64_decode s = b64_quanta (filter (\<lambda>c. c \<noteq> CHR 0x0D \<and> c \<noteq> CHR 0x0A) s)"

lemma of_char_b64_digit:
  "n < 64 \<Longrightarrow> (of_char (b64_digit n) :: nat) =
     (if n < 26 then 65 + n else if n < 52 then 71 + n
      else if n < 62 then n - 4 else if n = 62 then 43 else 47)"
  by (simp add: b64_digit_def)

lemma b64_val_digit [simp]:
  assumes "n < 64"
  shows "b64_val (b64_digit n) = Some n"
proof -
  consider "n < 26" | "26 \<le> n" "n < 52" | "52 \<le> n" "n < 62" | "n = 62" | "n = 63"
    using assms by linarith
  then show ?thesis
  proof cases
    case 3
    then have "48 \<le> n - 4" "n - 4 \<le> 57" by linarith+
    with 3 show ?thesis by (simp add: b64_val_def b64_digit_def Let_def)
  qed (simp_all add: b64_val_def b64_digit_def Let_def)
qed

lemma b64_digit_plain [simp]:
  assumes "n < 64"
  shows "b64_digit n \<noteq> CHR ''=''" "b64_digit n \<noteq> CHR 0x0D" "b64_digit n \<noteq> CHR 0x0A"
  using of_char_b64_digit [OF assms] by (auto split: if_splits)

lemma of_char_div [simp]:
  "(of_char c :: nat) div 4 < 64" "(of_char c :: nat) div 16 < 16" "(of_char c :: nat) div 64 < 4"
  using nat_of_char_less_256 [of c] by (simp_all add: less_mult_imp_div_less)

lemma of_char_div_div [simp]:
  "(of_char c :: nat) div 16 div 16 = 0" "(of_char c :: nat) div 64 div 4 = 0"
  "(of_char c :: nat) div 16 mod 16 = of_char c div 16"
  "(of_char c :: nat) div 64 mod 4 = of_char c div 64"
  using of_char_div [of c] by (simp_all del: of_char_div)

lemma of_char_bounds [simp]:
  "(of_char c :: nat) mod 4 * 16 + of_char d div 16 < 64"
  "(of_char c :: nat) mod 16 * 4 + of_char d div 64 < 64"
  "(of_char c :: nat) mod 4 * 16 < 64" "(of_char c :: nat) mod 16 * 4 < 64"
proof -
  have "(of_char c :: nat) mod 4 < 4" "(of_char c :: nat) mod 16 < 16" by simp_all
  with of_char_div [of d] show
    "(of_char c :: nat) mod 4 * 16 + of_char d div 16 < 64"
    "(of_char c :: nat) mod 16 * 4 + of_char d div 64 < 64"
    "(of_char c :: nat) mod 4 * 16 < 64" "(of_char c :: nat) mod 16 * 4 < 64"
    by linarith+
qed

lemma b64_filter [simp]:
  "filter (\<lambda>c. c \<noteq> CHR 0x0D \<and> c \<noteq> CHR 0x0A) (b64_encode s) = b64_encode s"
  by (induction s rule: b64_encode.induct) simp_all

theorem b64_roundtrip: "b64_decode (b64_encode s) = Some s"
proof -
  have "b64_quanta (b64_encode s) = Some s"
    by (induction s rule: b64_encode.induct) (simp_all)
  then show ?thesis by (simp add: b64_decode_def)
qed

lemma b64_encode_inj: "b64_encode s = b64_encode t \<longleftrightarrow> s = t"
  by (metis b64_roundtrip option.inject)

section \<open>Base64 without padding\<close>

text \<open>
  \<open>base64.RawStdEncoding\<close> and \<open>base64.RawURLEncoding\<close>: the last quantum may have two or
  three digits, and there is no padding. The alphabet is given by the values of its digits.
\<close>

definition b64url_digit :: "nat \<Rightarrow> char" where
  "b64url_digit n = (if n = 62 then CHR ''-'' else if n = 63 then CHR ''_'' else b64_digit n)"

definition b64url_val :: "char \<Rightarrow> nat option" where
  "b64url_val c =
     (if c = CHR ''-'' then Some 62 else if c = CHR ''_'' then Some 63
      else if c = CHR ''+'' \<or> c = CHR ''/'' then None else b64_val c)"

fun b64_raw_encode :: "(nat \<Rightarrow> char) \<Rightarrow> string \<Rightarrow> string" where
  "b64_raw_encode dig [] = []"
| "b64_raw_encode dig [a] = [dig (of_char a div 4), dig (of_char a mod 4 * 16)]"
| "b64_raw_encode dig [a, b] =
     [dig (of_char a div 4), dig (of_char a mod 4 * 16 + of_char b div 16), dig (of_char b mod 16 * 4)]"
| "b64_raw_encode dig (a # b # c # s) =
     dig (of_char a div 4) # dig (of_char a mod 4 * 16 + of_char b div 16)
     # dig (of_char b mod 16 * 4 + of_char c div 64) # dig (of_char c mod 64)
     # b64_raw_encode dig s"

fun b64_raw_quanta :: "(char \<Rightarrow> nat option) \<Rightarrow> string \<Rightarrow> string option" where
  "b64_raw_quanta val [] = Some []"
| "b64_raw_quanta val [p] = None"
| "b64_raw_quanta val [p, q] =
     (case (val p, val q) of (Some w, Some x) \<Rightarrow> Some [char_of (w * 4 + x div 16)] | _ \<Rightarrow> None)"
| "b64_raw_quanta val [p, q, r] =
     (case (val p, val q, val r) of
        (Some w, Some x, Some y) \<Rightarrow> Some [char_of (w * 4 + x div 16), char_of (x mod 16 * 16 + y div 4)]
      | _ \<Rightarrow> None)"
| "b64_raw_quanta val (p # q # r # s # rest) =
     (case (val p, val q, val r, val s, b64_raw_quanta val rest) of
        (Some w, Some x, Some y, Some z, Some out) \<Rightarrow>
          Some (char_of (w * 4 + x div 16) # char_of (x mod 16 * 16 + y div 4)
                # char_of (y mod 4 * 64 + z) # out)
      | _ \<Rightarrow> None)"

definition b64_raw_decode :: "(char \<Rightarrow> nat option) \<Rightarrow> string \<Rightarrow> string option" where
  "b64_raw_decode val s = b64_raw_quanta val (filter (\<lambda>c. c \<noteq> CHR 0x0D \<and> c \<noteq> CHR 0x0A) s)"

definition b64_alphabet :: "(nat \<Rightarrow> char) \<Rightarrow> (char \<Rightarrow> nat option) \<Rightarrow> bool" where
  "b64_alphabet dig val \<longleftrightarrow>
     (\<forall>n < 64. val (dig n) = Some n \<and> dig n \<noteq> CHR 0x0D \<and> dig n \<noteq> CHR 0x0A \<and> dig n \<noteq> CHR ''$'')"

lemma b64_digit_dollar [simp]: "n < 64 \<Longrightarrow> b64_digit n \<noteq> CHR ''$''"
  using of_char_b64_digit [of n] by (auto split: if_splits)

lemma b64_alphabet_std [simp]: "b64_alphabet b64_digit b64_val"
  by (simp add: b64_alphabet_def)

lemma b64_alphabet_url [simp]: "b64_alphabet b64url_digit b64url_val"
  unfolding b64_alphabet_def
proof (intro allI impI)
  fix n :: nat assume n: "n < 64"
  show "b64url_val (b64url_digit n) = Some n \<and> b64url_digit n \<noteq> CHR 0x0D \<and> b64url_digit n \<noteq> CHR 0x0A
      \<and> b64url_digit n \<noteq> CHR ''$''"
  proof (cases "n = 62 \<or> n = 63")
    case False
    with n have small: "n < 62" by simp
    then have "(of_char (b64_digit n) :: nat) \<in> {48..57} \<union> {65..90} \<union> {97..122}"
      using of_char_b64_digit [OF n] by (auto split: if_splits)
    then have "b64_digit n \<notin> {CHR ''-'', CHR ''_'', CHR ''+'', CHR ''/''}" by auto
    with False n show ?thesis by (simp add: b64url_val_def b64url_digit_def)
  qed (auto simp: b64url_val_def b64url_digit_def)
qed

lemma b64_raw_all:
  assumes dig: "\<And>n. n < 64 \<Longrightarrow> P (dig n)"
  shows "list_all P (b64_raw_encode dig s)"
  using dig by (induction dig s rule: b64_raw_encode.induct) simp_all

lemma b64_raw_set:
  assumes "b64_alphabet dig val" "c \<in> set (b64_raw_encode dig s)"
  shows "c \<noteq> CHR ''$'' \<and> c \<noteq> CHR 0x0D \<and> c \<noteq> CHR 0x0A"
proof -
  have "list_all (\<lambda>c. c \<noteq> CHR ''$'' \<and> c \<noteq> CHR 0x0D \<and> c \<noteq> CHR 0x0A) (b64_raw_encode dig s)"
    by (rule b64_raw_all) (use assms(1) in \<open>unfold b64_alphabet_def, blast\<close>)
  with assms(2) show ?thesis unfolding list_all_iff by blast
qed

lemma b64_raw_roundtrip:
  assumes "b64_alphabet dig val"
  shows "b64_raw_decode val (b64_raw_encode dig s) = Some s"
proof -
  have "filter (\<lambda>c. c \<noteq> CHR 0x0D \<and> c \<noteq> CHR 0x0A) (b64_raw_encode dig s) = b64_raw_encode dig s"
    using b64_raw_set [OF assms] by (simp add: filter_id_conv)
  moreover have "b64_raw_quanta val (b64_raw_encode dig s) = Some s"
  proof -
    have "\<And>n. n < 64 \<Longrightarrow> val (dig n) = Some n" using assms unfolding b64_alphabet_def by blast
    then show ?thesis by (induction dig s rule: b64_raw_encode.induct) simp_all
  qed
  ultimately show ?thesis by (simp add: b64_raw_decode_def)
qed

section \<open>Decimal numbers\<close>

function dec_nat :: "nat \<Rightarrow> string" where
  "dec_nat n = (if n < 10 then [char_of (48 + n)] else dec_nat (n div 10) @ [char_of (48 + n mod 10)])"
  by pat_completeness auto
termination
  by (relation "measure id") auto

declare dec_nat.simps [simp del]

definition itoa :: "int \<Rightarrow> string" where
  "itoa i = (if i < 0 then CHR ''-'' # dec_nat (nat (- i)) else dec_nat (nat i))"

fun undec :: "nat \<Rightarrow> string \<Rightarrow> nat" where
  "undec n [] = n"
| "undec n (c # s) = undec (10 * n + (of_char c - 48)) s"

lemma undec_append: "undec n (s @ t) = undec (undec n s) t"
  by (induction s arbitrary: n) simp_all

lemma undec_dec_nat: "undec 0 (dec_nat n) = n"
proof (induction n rule: dec_nat.induct)
  case (1 n)
  then show ?case by (subst dec_nat.simps) (simp add: undec_append)
qed

lemma dec_nat_digits: "list_all (byte_in 48 57) (dec_nat n)"
proof (induction n rule: dec_nat.induct)
  case (1 n)
  have "n mod 10 \<le> 9" using mod_less_divisor [of 10 n] by linarith
  then have d: "byte_in 48 57 (char_of (48 + n mod 10))" by (simp add: byte_in_def)
  show ?case
  proof (cases "n < 10")
    case True
    with d show ?thesis by (simp add: dec_nat.simps [of n])
  next
    case False
    with d 1 show ?thesis by (simp add: dec_nat.simps [of n])
  qed
qed

lemma dec_nat_inj [simp]: "dec_nat m = dec_nat n \<longleftrightarrow> m = n"
  by (metis undec_dec_nat)

lemma dec_nat_nonempty [simp]: "dec_nat n \<noteq> []"
  by (subst dec_nat.simps) simp

text \<open>A number is followed by a byte that is not a digit, so it can be read back.\<close>

lemma digits_prefix_free:
  assumes "list_all P s" "list_all P t" "\<not> P c" "\<not> P d" "s @ c # x = t @ d # y"
  shows "s = t \<and> c = d \<and> x = y"
  using assms
proof (induction s arbitrary: t)
  case Nil
  then show ?case by (cases t) auto
next
  case (Cons a s)
  then show ?case by (cases t) auto
qed

lemma itoa_prefix_free:
  assumes "itoa i @ c # x = itoa j @ d # y" "\<not> byte_in 48 57 c" "\<not> byte_in 48 57 d"
  shows "i = j \<and> c = d \<and> x = y"
proof -
  have minus: "\<not> byte_in 48 57 (CHR ''-'')" by (simp add: byte_in_def)
  have ne: "dec_nat m @ u \<noteq> CHR ''-'' # v" for m u v
    using dec_nat_digits [of m] minus by (cases "dec_nat m") auto
  have eq: "m = n \<and> c = d \<and> x = y" if "dec_nat m @ c # x = dec_nat n @ d # y" for m n
    using digits_prefix_free [OF dec_nat_digits dec_nat_digits assms(2,3) that] by simp
  show ?thesis
  proof (cases "i < 0")
    case True
    with assms(1) have dash: "CHR ''-'' # dec_nat (nat (- i)) @ c # x = itoa j @ d # y"
      by (simp add: itoa_def)
    have "j < 0"
    proof (rule ccontr)
      assume "\<not> j < 0"
      with dash have "dec_nat (nat j) @ d # y = CHR ''-'' # dec_nat (nat (- i)) @ c # x"
        by (simp add: itoa_def)
      with ne show False by blast
    qed
    then show ?thesis
      using dash True eq [of "nat (- i)" "nat (- j)"] eq_nat_nat_iff [of "- i" "- j"]
      by (simp add: itoa_def)
  next
    case False
    with assms(1) have plain: "dec_nat (nat i) @ c # x = itoa j @ d # y" by (simp add: itoa_def)
    have "\<not> j < 0"
    proof
      assume "j < 0"
      with plain have "dec_nat (nat i) @ c # x = CHR ''-'' # dec_nat (nat (- j)) @ d # y"
        by (simp add: itoa_def)
      with ne show False by blast
    qed
    then show ?thesis
      using plain False eq [of "nat i" "nat j"] eq_nat_nat_iff [of i j] by (simp add: itoa_def)
  qed
qed

section \<open>JSON objects\<close>

text \<open>
  \<open>json.Marshal\<close> of a struct: its fields in order, each already encoded. Values that can
  be read back in front of a comma or a closing brace (\<open>separable\<close>) can be read back from
  the object.
\<close>

fun json_tail :: "(string \<times> string) list \<Rightarrow> string" where
  "json_tail [] = ''}''"
| "json_tail ((k, v) # fs) = CHR '','' # json_string k @ CHR '':'' # v @ json_tail fs"

fun json_object :: "(string \<times> string) list \<Rightarrow> string" where
  "json_object [] = ''{}''"
| "json_object ((k, v) # fs) = CHR ''{'' # json_string k @ CHR '':'' # v @ json_tail fs"

definition separable :: "string \<Rightarrow> string \<Rightarrow> bool" where
  "separable v w \<longleftrightarrow>
     (\<forall>c d x y. c \<in> set '',}'' \<and> d \<in> set '',}'' \<and> v @ c # x = w @ d # y \<longrightarrow> v = w \<and> c = d \<and> x = y)"

lemma separable_json_string: "valid_utf8 s \<Longrightarrow> valid_utf8 t \<Longrightarrow> separable (json_string s) (json_string t)"
  by (auto simp: separable_def dest: json_string_inj)

lemma separable_itoa: "separable (itoa i) (itoa j)"
  unfolding separable_def
proof (intro allI impI, elim conjE)
  fix c d x y
  assume "c \<in> set '',}''" "d \<in> set '',}''" and eq: "itoa i @ c # x = itoa j @ d # y"
  then have "\<not> byte_in 48 57 c" "\<not> byte_in 48 57 d" by (auto simp: byte_in_def)
  from itoa_prefix_free [OF eq this] show "itoa i = itoa j \<and> c = d \<and> x = y" by simp
qed

lemma json_tail_head: "\<exists>c x. json_tail fs = c # x \<and> c \<in> set '',}''"
  by (cases fs rule: json_tail.cases) auto

lemma separable_tail:
  assumes "separable v w" and "v @ json_tail fs = w @ json_tail gs"
  shows "v = w \<and> json_tail fs = json_tail gs"
proof -
  obtain c x d y where "json_tail fs = c # x" "c \<in> set '',}''" "json_tail gs = d # y" "d \<in> set '',}''"
    using json_tail_head [of fs] json_tail_head [of gs] by blast
  with assms show ?thesis unfolding separable_def by metis
qed

lemma json_tail_inj:
  assumes "list_all2 (\<lambda>f g. fst f = fst g \<and> separable (snd f) (snd g)) fs gs"
    and "json_tail fs = json_tail gs"
  shows "fs = gs"
  using assms
proof (induction rule: list_all2_induct)
  case (Cons f fs g gs)
  obtain k v l w where fg: "f = (k, v)" "g = (l, w)" by (cases f, cases g)
  with Cons have "k = l" "separable v w" by simp_all
  with Cons.prems fg have "v @ json_tail fs = w @ json_tail gs" by simp
  from separable_tail [OF \<open>separable v w\<close> this] have "v = w" "json_tail fs = json_tail gs"
    by simp_all
  then show ?case using Cons.IH fg \<open>k = l\<close> by simp
qed simp

lemma json_object_inj:
  assumes "list_all2 (\<lambda>f g. fst f = fst g \<and> separable (snd f) (snd g)) fs gs"
    and "json_object fs = json_object gs"
  shows "fs = gs"
proof (cases fs)
  case Nil
  with assms(1) show ?thesis by simp
next
  case (Cons f fs')
  with assms(1) obtain g gs' where gs: "gs = g # gs'" by (auto simp: list_all2_Cons1)
  obtain k v l w where fg: "f = (k, v)" "g = (l, w)" by (cases f, cases g)
  have "json_tail fs = json_tail gs" using assms(1,2) Cons gs fg by simp
  with assms(1) show ?thesis by (rule json_tail_inj)
qed

lemma json_object_first:
  assumes "json_object ((k, v) # fs) = json_object ((k, w) # gs)" and "separable v w"
  shows "v = w"
proof -
  from assms(1) have "v @ json_tail fs = w @ json_tail gs" by simp
  from separable_tail [OF assms(2) this] show ?thesis by simp
qed

lemma length_tail: "length (json_tail fs) = (\<Sum>(k, v) \<leftarrow> fs. length (json_string k) + length v + 2) + 1"
  by (induction fs rule: json_tail.induct) auto

lemma length_object: "length (json_object fs) \<le> (\<Sum>(k, v) \<leftarrow> fs. length (json_string k) + length v + 2) + 2"
  by (cases fs rule: json_object.cases) (auto simp: length_tail)

section \<open>Splitting, joining and cutting\<close>

text \<open>\<open>strings.Split(s, sep)\<close> for a separator of one byte; the result is never empty.\<close>

fun split_on :: "char \<Rightarrow> string \<Rightarrow> string list" where
  "split_on sep [] = [[]]"
| "split_on sep (c # s) =
     (if c = sep then [] # split_on sep s
      else case split_on sep s of [] \<Rightarrow> [[c]] | w # ws \<Rightarrow> (c # w) # ws)"

fun join_with :: "string \<Rightarrow> string list \<Rightarrow> string" where
  "join_with sep [] = []"
| "join_with sep [s] = s"
| "join_with sep (s # t # ss) = s @ sep @ join_with sep (t # ss)"

text \<open>\<open>strings.SplitN(s, sep, 2)\<close>, with None where the separator does not occur.\<close>

fun cut_at :: "char \<Rightarrow> string \<Rightarrow> (string \<times> string) option" where
  "cut_at sep [] = None"
| "cut_at sep (c # s) =
     (if c = sep then Some ([], s)
      else map_option (\<lambda>(a, b). (c # a, b)) (cut_at sep s))"

lemma cut_at_Some: "cut_at sep s = Some (a, b) \<Longrightarrow> s = a @ sep # b \<and> sep \<notin> set a"
  by (induction s arbitrary: a) (auto split: if_splits)

lemma cut_at_append [simp]: "sep \<notin> set a \<Longrightarrow> cut_at sep (a @ sep # b) = Some (a, b)"
  by (induction a) auto

lemma split_on_plain: "sep \<notin> set s \<Longrightarrow> split_on sep s = [s]"
  by (induction s) auto

lemma split_on_append: "sep \<notin> set a \<Longrightarrow> split_on sep (a @ sep # b) = a # split_on sep b"
  by (induction a) auto

lemma split_on_ne [simp]: "split_on sep s \<noteq> []"
  by (induction s) (auto split: list.splits)

lemma join_split [simp]: "join_with [sep] (split_on sep s) = s"
proof (induction s)
  case (Cons c s)
  obtain w ws where "split_on sep s = w # ws" by (cases "split_on sep s") auto
  with Cons show ?case by (cases ws) auto
qed simp

definition has_prefix :: "string \<Rightarrow> string \<Rightarrow> bool" where
  "has_prefix s p \<longleftrightarrow> take (length p) s = p"

lemma has_prefix_iff: "has_prefix s p \<longleftrightarrow> (\<exists>t. s = p @ t)"
  by (metis append_eq_conv_conj append_take_drop_id has_prefix_def)

definition has_suffix :: "string \<Rightarrow> string \<Rightarrow> bool" where
  "has_suffix s p \<longleftrightarrow> has_prefix (rev s) (rev p)"

definition contains :: "string \<Rightarrow> string \<Rightarrow> bool" where
  "contains s sub \<longleftrightarrow> sublist sub s"

end
