(* ===== verification/Tenancy.thy ===== *)
theory Tenancy
  imports Encoding
begin

text \<open>
  \<open>internal/tenancy\<close>: the organization and site that every record of the hub belongs to,
  the agent identity that carries them, and their validation. Go's \<open>error\<close> results without
  a value are options here: None is a nil error.
\<close>

definition DefaultOrganizationID :: string where "DefaultOrganizationID = ''org_default''"
definition DefaultSiteID :: string where "DefaultSiteID = ''site_default''"

record Scope =
  Scope_OrganizationID :: string
  Scope_SiteID :: string

definition DefaultScope :: Scope where
  "DefaultScope = \<lparr>Scope_OrganizationID = DefaultOrganizationID, Scope_SiteID = DefaultSiteID\<rparr>"

definition nul :: char where "nul = CHR 0x00"

definition Scope_Validate :: "Scope \<Rightarrow> err option" where
  "Scope_Validate scope =
     (if trim_space (Scope_OrganizationID scope) = [] \<or> trim_space (Scope_SiteID scope) = [] \<or>
         length (Scope_OrganizationID scope) > 128 \<or> length (Scope_SiteID scope) > 128 \<or>
         nul \<in> set (Scope_OrganizationID scope) \<or> nul \<in> set (Scope_SiteID scope)
      then Some ErrInvalidScope else None)"

record Organization =
  Organization_ID :: string
  Organization_Name :: string
  Organization_CreatedAt :: time

record Site =
  Site_ID :: string
  Site_OrganizationID :: string
  Site_Name :: string
  Site_Slug :: string
  Site_CreatedAt :: time

record Agent =
  Agent_ID :: string
  Agent_OrganizationID :: string
  Agent_SiteID :: string

definition Agent_Scope :: "Agent \<Rightarrow> Scope" where
  "Agent_Scope agent =
     \<lparr>Scope_OrganizationID = Agent_OrganizationID agent, Scope_SiteID = Agent_SiteID agent\<rparr>"

definition Agent_Validate :: "Agent \<Rightarrow> err option" where
  "Agent_Validate agent =
     (if trim_space (Agent_ID agent) = [] \<or> length (Agent_ID agent) > 128 \<or> nul \<in> set (Agent_ID agent)
      then Some ErrInvalidScope
      else Scope_Validate (Agent_Scope agent))"

abbreviation valid_scope :: "Scope \<Rightarrow> bool" where
  "valid_scope s \<equiv> Scope_Validate s = None"

abbreviation valid_agent :: "Agent \<Rightarrow> bool" where
  "valid_agent a \<equiv> Agent_Validate a = None"

lemma Agent_Scope_simps [simp]:
  "Scope_OrganizationID (Agent_Scope a) = Agent_OrganizationID a"
  "Scope_SiteID (Agent_Scope a) = Agent_SiteID a"
  by (simp_all add: Agent_Scope_def)

lemma scope_eq_iff:
  fixes s t :: Scope
  shows "s = t \<longleftrightarrow> Scope_OrganizationID s = Scope_OrganizationID t \<and> Scope_SiteID s = Scope_SiteID t"
  by (cases s, cases t) simp

lemma Scope_Validate_Some [simp]: "Scope_Validate s = Some e \<Longrightarrow> e = ErrInvalidScope"
  by (auto simp: Scope_Validate_def split: if_splits)

lemma Agent_Validate_Some: "Agent_Validate a = Some e \<Longrightarrow> e = ErrInvalidScope"
  by (auto simp: Agent_Validate_def split: if_splits)

lemma valid_agent_scope [simp]: "valid_agent a \<Longrightarrow> valid_scope (Agent_Scope a)"
  by (simp add: Agent_Validate_def split: if_splits)

lemma valid_scope_nonempty:
  "valid_scope s \<Longrightarrow> Scope_OrganizationID s \<noteq> [] \<and> Scope_SiteID s \<noteq> []"
  by (auto simp: Scope_Validate_def split: if_splits)

lemma valid_agent_nonempty: "valid_agent a \<Longrightarrow> Agent_ID a \<noteq> []"
  by (auto simp: Agent_Validate_def split: if_splits)

text \<open>Evaluating \<open>trim_space\<close> on a literal, for the witnesses.\<close>

definition plain_char :: "char \<Rightarrow> bool" where
  "plain_char c \<longleftrightarrow> 32 < (of_char c :: nat) \<and> (of_char c :: nat) < 127"

lemma trim_space_plain:
  assumes "s \<noteq> []" "plain_char (hd s)" "plain_char (last s)"
  shows "trim_space s = s"
proof -
  have ascii_or_high: "p \<noteq> [] \<and> \<not> plain_char (hd p) \<and> \<not> plain_char (last p)"
    if "p \<in> set space_runes" for p
    using that by (auto simp: space_runes_def plain_char_def)
  have "strip_any space_runes s = None"
    unfolding strip_any_None
  proof (intro ballI notI)
    fix p assume p: "p \<in> set space_runes" "prefix p s"
    then have "hd p = hd s" using ascii_or_high [OF p(1)] assms(1) by (auto simp: prefix_def)
    with ascii_or_high [OF p(1)] assms(2) show False by simp
  qed
  moreover have "strip_any (map rev space_runes) (rev s) = None"
    unfolding strip_any_None
  proof (intro ballI notI)
    fix q assume q: "q \<in> set (map rev space_runes)" "prefix q (rev s)"
    then obtain p where p: "p \<in> set space_runes" "q = rev p" by auto
    then have "last p = last s"
      using q(2) ascii_or_high [OF p(1)] assms(1)
      by (auto simp: prefix_def rev_swap [symmetric] rev_eq_append_conv)
    with ascii_or_high [OF p(1)] assms(3) show False by simp
  qed
  ultimately show ?thesis by (simp add: trim_space_def trim_left_by_id)
qed

lemma trim_space_hex:
  assumes "list_all is_lower_hex s"
  shows "trim_space s = s"
proof (cases "s = []")
  case False
  have "plain_char c" if "is_lower_hex c" for c
    using that by (auto simp: is_lower_hex_def plain_char_def Let_def)
  with assms False show ?thesis
    by (intro trim_space_plain) (auto simp: list_all_iff)
qed simp

lemma hex32_trim [simp]: "hex32_pattern s \<Longrightarrow> trim_space s = s"
  by (simp add: hex32_pattern_def trim_space_hex)

lemma hex32_nonempty [simp]: "hex32_pattern s \<Longrightarrow> s \<noteq> []"
  by (auto simp: hex32_pattern_def)

lemma valid_DefaultScope [simp]: "valid_scope DefaultScope"
proof -
  have "trim_space DefaultOrganizationID = DefaultOrganizationID" "trim_space DefaultSiteID = DefaultSiteID"
    by (rule trim_space_plain; simp add: DefaultOrganizationID_def DefaultSiteID_def plain_char_def)+
  then show ?thesis
    by (simp add: Scope_Validate_def DefaultScope_def) (simp add: DefaultOrganizationID_def DefaultSiteID_def nul_def)
qed

section \<open>Listings within a scope\<close>

text \<open>
  The contract every listing of the hub keeps towards the tenant that asks: an invalid
  scope is refused with its validation error, and every row returned is stored and belongs
  to the scope of the request. \<open>ok\<close> says which arguments a listing may be called with
  (that the visits are visits of the store's map, that the sort is a sort).
\<close>

locale scoped_listing =
  fixes listing :: "'q \<Rightarrow> Scope \<Rightarrow> 's \<Rightarrow> 'row list res"
    and ok :: "'q \<Rightarrow> 's \<Rightarrow> bool"
    and stored :: "'s \<Rightarrow> 'row \<Rightarrow> bool"
    and row_scope :: "'row \<Rightarrow> Scope"
  assumes rejects: "Scope_Validate scope = Some e \<Longrightarrow> listing q scope st = Inl e"
    and sound: "ok q st \<Longrightarrow> listing q scope st = Inr rows \<Longrightarrow> row \<in> set rows \<Longrightarrow>
      stored st row \<and> row_scope row = scope"
begin

lemma valid: "listing q scope st = Inr rows \<Longrightarrow> valid_scope scope"
  using rejects [of scope _ q st] by (cases "Scope_Validate scope") auto

text \<open>Two tenants never see the same row.\<close>

lemma isolated:
  assumes "ok q st" "ok q' st'" "listing q scope st = Inr rows" "listing q' scope' st' = Inr rows'"
    and "scope \<noteq> scope'"
  shows "set rows \<inter> set rows' = {}"
  using sound [OF assms(1,3)] sound [OF assms(2,4)] assms(5) by blast

text \<open>A tenant that has stored nothing sees nothing.\<close>

lemma empty_scope:
  assumes "ok q st" "listing q scope st = Inr rows" "\<And>row. stored st row \<Longrightarrow> row_scope row \<noteq> scope"
  shows "rows = []"
proof (cases rows)
  case (Cons r rs)
  then show ?thesis using sound [OF assms(1,2), of r] assms(3) by auto
qed

end

end
