(* ===== verification/Jobs.thy ===== *)
theory Jobs
  imports Tenancy
begin

text \<open>
  \<open>internal/jobs\<close>: signed, approved jobs for agents. The theory has the job and event
  records, the signing payload in its two versions, the service operations and the
  in-memory store behind them. The theorems here are about single operations;
  \<open>Jobs_Lifecycle\<close> has the state machine they form together.

  Parameters: ed25519 (\<open>Ed25519\<close>), the rendering of a time as RFC 3339 (\<open>rfc3339\<close>), the
  host lookup the service is configured with (\<open>hostExists\<close>), the random bytes of a new
  identifier, the clock readings, and the sequences in which a loop over the job map
  visits it.
\<close>

section \<open>Data\<close>

text \<open>\<open>Action\<close> is an open string type in Go: a request may carry any string.\<close>

type_synonym Action = string

definition ActionServiceRestart :: Action where "ActionServiceRestart = ''service.restart''"
definition ActionHostReboot :: Action where "ActionHostReboot = ''host.reboot''"

definition defaultJobLease :: duration where "defaultJobLease = 2 * minute"

datatype JobStatus = StatusQueued | StatusRunning | StatusSucceeded | StatusFailed

datatype JobEventType =
  EventApproved | EventClaimed | EventOutput | EventSucceeded | EventFailed
  | EventUnknown string

record CreateRequest =
  CreateRequest_Action :: Action
  CreateRequest_Target :: string
  CreateRequest_ApprovedBy :: string
  CreateRequest_Reason :: string

record Job =
  Job_ID :: string
  Job_OrganizationID :: string
  Job_SiteID :: string
  Job_AgentID :: string
  Job_Action :: Action
  Job_Target :: string
  Job_ApprovedBy :: string
  Job_Reason :: string
  Job_RequestedAt :: time
  Job_Status :: JobStatus
  Job_LastSequence :: int
  Job_Signature :: string
  Job_SigningPublicKey :: string
  Job_Resumed :: bool

record EventRequest =
  EventRequest_Sequence :: int
  EventRequest_Type :: JobEventType
  EventRequest_Message :: string

record JobEvent =
  JobEvent_JobID :: string
  JobEvent_OrganizationID :: string
  JobEvent_SiteID :: string
  JobEvent_Sequence :: int
  JobEvent_Type :: JobEventType
  JobEvent_Message :: string
  JobEvent_Actor :: string
  JobEvent_OccurredAt :: time

definition Job_Scope :: "Job \<Rightarrow> Scope" where
  "Job_Scope job = \<lparr>Scope_OrganizationID = Job_OrganizationID job, Scope_SiteID = Job_SiteID job\<rparr>"

section \<open>Signing\<close>

text \<open>\<open>crypto/ed25519\<close>: signing with a private key, verifying with a public key.\<close>

record Ed25519 =
  Ed_Sign :: "string \<Rightarrow> string \<Rightarrow> string"
  Ed_Verify :: "string \<Rightarrow> string \<Rightarrow> string \<Rightarrow> bool"

definition PublicKeySize :: nat where "PublicKeySize = 32"
definition PrivateKeySize :: nat where "PrivateKeySize = 64"

type_synonym rfc3339 = "time \<Rightarrow> string"

definition signingPayload :: "rfc3339 \<Rightarrow> Job \<Rightarrow> string" where
  "signingPayload fmt job = json_object
     [(''version'', itoa 2),
      (''id'', json_string (Job_ID job)),
      (''organization_id'', json_string (Job_OrganizationID job)),
      (''site_id'', json_string (Job_SiteID job)),
      (''agent_id'', json_string (Job_AgentID job)),
      (''action'', json_string (Job_Action job)),
      (''target'', json_string (Job_Target job)),
      (''approved_by'', json_string (Job_ApprovedBy job)),
      (''reason'', json_string (Job_Reason job)),
      (''requested_at'', json_string (fmt (Job_RequestedAt job)))]"

definition signingPayloadV1 :: "rfc3339 \<Rightarrow> Job \<Rightarrow> string" where
  "signingPayloadV1 fmt job = json_object
     [(''version'', itoa 1),
      (''id'', json_string (Job_ID job)),
      (''agent_id'', json_string (Job_AgentID job)),
      (''action'', json_string (Job_Action job)),
      (''target'', json_string (Job_Target job)),
      (''approved_by'', json_string (Job_ApprovedBy job)),
      (''reason'', json_string (Job_Reason job)),
      (''requested_at'', json_string (fmt (Job_RequestedAt job)))]"

definition Verify :: "Ed25519 \<Rightarrow> rfc3339 \<Rightarrow> Job \<Rightarrow> bool" where
  "Verify ed fmt job =
     (case b64_decode (Job_SigningPublicKey job) of
        None \<Rightarrow> False
      | Some publicKey \<Rightarrow>
          if length publicKey \<noteq> PublicKeySize then False
          else case b64_decode (Job_Signature job) of
              None \<Rightarrow> False
            | Some signature \<Rightarrow>
                if Ed_Verify ed publicKey (signingPayload fmt job) signature then True
                else if Job_OrganizationID job \<noteq> DefaultOrganizationID
                      \<or> Job_SiteID job \<noteq> DefaultSiteID then False
                else Ed_Verify ed publicKey (signingPayloadV1 fmt job) signature)"

definition validActionTarget :: "Action \<Rightarrow> string \<Rightarrow> bool" where
  "validActionTarget action target \<longleftrightarrow>
     (action = ActionServiceRestart \<and> serviceTargetPattern target \<and> \<not> has_prefix target ''-'')
     \<or> (action = ActionHostReboot \<and> target = [])"

section \<open>The in-memory store\<close>

type_synonym jobKey = "Scope \<times> string"

record JobStore =
  JobStore_jobs :: "jobKey \<rightharpoonup> Job"
  JobStore_events :: "jobKey \<rightharpoonup> JobEvent list"

definition NewJobStore :: JobStore where
  "NewJobStore = \<lparr>JobStore_jobs = Map.empty, JobStore_events = Map.empty\<rparr>"

text \<open>Indexing a Go map of slices yields nil, the empty slice, for an absent key.\<close>

definition events_at :: "JobStore \<Rightarrow> jobKey \<Rightarrow> JobEvent list" where
  "events_at st key = (case JobStore_events st key of None \<Rightarrow> [] | Some es \<Rightarrow> es)"

definition CreateJob :: "Job \<Rightarrow> JobEvent \<Rightarrow> JobStore \<Rightarrow> (unit, JobStore) op" where
  "CreateJob job event st =
     (let scope = Job_Scope job in
      if Scope_Validate scope \<noteq> None \<or> JobEvent_OrganizationID event \<noteq> Scope_OrganizationID scope
         \<or> JobEvent_SiteID event \<noteq> Scope_SiteID scope
      then (Inl ErrInvalidScope, st)
      else
        let key = (scope, Job_ID job) in
        (Inr (), st\<lparr>JobStore_jobs := (JobStore_jobs st)(key \<mapsto> job),
                    JobStore_events := (JobStore_events st)(key \<mapsto> [event])\<rparr>))"

definition job_before :: "Job \<Rightarrow> Job \<Rightarrow> bool" where
  "job_before candidate selected \<longleftrightarrow>
     Job_RequestedAt candidate < Job_RequestedAt selected
     \<or> Job_RequestedAt candidate = Job_RequestedAt selected \<and> Job_ID candidate < Job_ID selected"

definition is_candidate :: "Agent \<Rightarrow> JobStatus \<Rightarrow> Job \<Rightarrow> bool" where
  "is_candidate agent status candidate \<longleftrightarrow>
     \<not> (Job_AgentID candidate \<noteq> Agent_ID agent
         \<or> Job_OrganizationID candidate \<noteq> Agent_OrganizationID agent
         \<or> Job_SiteID candidate \<noteq> Agent_SiteID agent \<or> Job_Status candidate \<noteq> status)"

definition agent_event :: "Agent \<Rightarrow> string \<Rightarrow> int \<Rightarrow> JobEventType \<Rightarrow> string \<Rightarrow> time \<Rightarrow> JobEvent" where
  "agent_event agent jobID seq typ message tm =
     \<lparr>JobEvent_JobID = jobID, JobEvent_OrganizationID = Agent_OrganizationID agent,
      JobEvent_SiteID = Agent_SiteID agent, JobEvent_Sequence = seq, JobEvent_Type = typ,
      JobEvent_Message = message, JobEvent_Actor = ''agent:'' @ Agent_ID agent,
      JobEvent_OccurredAt = tm\<rparr>"

text \<open>\<open>it1\<close> and \<open>it2\<close> are the visits of the two loops over the job map.\<close>

definition ClaimNextJob ::
  "(jobKey \<times> Job) list \<Rightarrow> (jobKey \<times> Job) list \<Rightarrow> Agent \<Rightarrow> time \<Rightarrow> time \<Rightarrow> JobStore
   \<Rightarrow> (Job option, JobStore) op" where
  "ClaimNextJob it1 it2 agent occurredAt resumeBefore st =
     (case Agent_Validate agent of
        Some e \<Rightarrow> (Inl e, st)
      | None \<Rightarrow>
          (case pick job_before None (filter (is_candidate agent StatusRunning) (map snd it1)) of
             Some selected \<Rightarrow>
               if \<exists>event \<in> set (events_at st (Agent_Scope agent, Job_ID selected)).
                    JobEvent_Type event = EventClaimed \<and> resumeBefore < JobEvent_OccurredAt event
               then (Inr None, st)
               else (Inr (Some (selected\<lparr>Job_Resumed := True\<rparr>)), st)
           | None \<Rightarrow>
               (case pick job_before None (filter (is_candidate agent StatusQueued) (map snd it2)) of
                  None \<Rightarrow> (Inr None, st)
                | Some queued \<Rightarrow>
                    let selected = queued\<lparr>Job_Status := StatusRunning, Job_LastSequence := 1\<rparr>;
                        key = (Agent_Scope agent, Job_ID selected)
                    in (Inr (Some selected),
                        st\<lparr>JobStore_jobs := (JobStore_jobs st)(key \<mapsto> selected),
                           JobStore_events := (JobStore_events st)(key \<mapsto>
                             events_at st key @ [agent_event agent (Job_ID selected) 1 EventClaimed
                                                  ''agent claimed job'' occurredAt])\<rparr>))))"

definition same_report :: "EventRequest \<Rightarrow> JobEvent \<Rightarrow> bool" where
  "same_report request event \<longleftrightarrow>
     JobEvent_Sequence event = EventRequest_Sequence request
     \<and> JobEvent_Type event = EventRequest_Type request
     \<and> JobEvent_Message event = EventRequest_Message request"

definition status_after :: "JobEventType \<Rightarrow> JobStatus \<Rightarrow> JobStatus" where
  "status_after typ status =
     (if typ = EventSucceeded then StatusSucceeded
      else if typ = EventFailed then StatusFailed else status)"

definition RecordJobEvent ::
  "Agent \<Rightarrow> string \<Rightarrow> EventRequest \<Rightarrow> time \<Rightarrow> JobStore \<Rightarrow> (Job \<times> JobEvent, JobStore) op" where
  "RecordJobEvent agent jobID request occurredAt st =
     (case Agent_Validate agent of
        Some e \<Rightarrow> (Inl e, st)
      | None \<Rightarrow>
          let key = (Agent_Scope agent, jobID) in
          (case JobStore_jobs st key of
             None \<Rightarrow> (Inl ErrJobNotFound, st)
           | Some job \<Rightarrow>
               if Job_AgentID job \<noteq> Agent_ID agent then (Inl ErrJobNotFound, st)
               else if EventRequest_Sequence request \<le> Job_LastSequence job then
                 (case find (same_report request) (events_at st key) of
                    Some event \<Rightarrow> (Inr (job, event), st)
                  | None \<Rightarrow> (Inl ErrJobConflict, st))
               else if Job_Status job \<noteq> StatusRunning
                       \<or> EventRequest_Sequence request \<noteq> Job_LastSequence job + 1
                 then (Inl ErrJobConflict, st)
               else
                 let job' = job\<lparr>Job_Status := status_after (EventRequest_Type request) (Job_Status job),
                                Job_LastSequence := EventRequest_Sequence request\<rparr>;
                     event = agent_event agent jobID (EventRequest_Sequence request)
                               (EventRequest_Type request) (EventRequest_Message request) occurredAt
                 in (Inr (job', event),
                     st\<lparr>JobStore_jobs := (JobStore_jobs st)(key \<mapsto> job'),
                        JobStore_events := (JobStore_events st)(key \<mapsto> events_at st key @ [event])\<rparr>)))"

definition ListJobs ::
  "Job sorter \<Rightarrow> (jobKey \<times> Job) list \<Rightarrow> Scope \<Rightarrow> string \<Rightarrow> int \<Rightarrow> Job list res" where
  "ListJobs srt it scope agentID limit =
     (case Scope_Validate scope of
        Some e \<Rightarrow> Inl e
      | None \<Rightarrow>
          let result = srt (\<lambda>l r. Job_RequestedAt r < Job_RequestedAt l)
                (filter (\<lambda>job. Job_AgentID job = agentID
                            \<and> Job_OrganizationID job = Scope_OrganizationID scope
                            \<and> Job_SiteID job = Scope_SiteID scope) (map snd it))
          in Inr (if int (length result) > limit then take (nat limit) result else result))"

definition ListJobEvents :: "Scope \<Rightarrow> string \<Rightarrow> string \<Rightarrow> JobStore \<Rightarrow> JobEvent list res" where
  "ListJobEvents scope agentID jobID st =
     (case Scope_Validate scope of
        Some e \<Rightarrow> Inl e
      | None \<Rightarrow>
          (case JobStore_jobs st (scope, jobID) of
             None \<Rightarrow> Inl ErrJobNotFound
           | Some job \<Rightarrow>
               if Job_AgentID job \<noteq> agentID then Inl ErrJobNotFound
               else Inr (events_at st (scope, jobID))))"

record JobEventRecord =
  JobEventRecord_Event :: JobEvent
  JobEventRecord_AgentID :: string

definition job_agent_at :: "JobStore \<Rightarrow> jobKey \<Rightarrow> string" where
  "job_agent_at st key = (case JobStore_jobs st key of None \<Rightarrow> [] | Some job \<Rightarrow> Job_AgentID job)"

definition AllJobEvents ::
  "(jobKey \<times> JobEvent list) list \<Rightarrow> Scope \<Rightarrow> JobStore \<Rightarrow> JobEventRecord list res" where
  "AllJobEvents it scope st =
     (case Scope_Validate scope of
        Some e \<Rightarrow> Inl e
      | None \<Rightarrow> Inr (concat (map (\<lambda>(key, events).
          if fst key \<noteq> scope then []
          else map (\<lambda>event. \<lparr>JobEventRecord_Event = event,
                              JobEventRecord_AgentID = job_agent_at st key\<rparr>) events) it)))"

lemmas [store_simps] = CreateJob_def ClaimNextJob_def RecordJobEvent_def ListJobs_def
  ListJobEvents_def AllJobEvents_def

section \<open>The service\<close>

type_synonym HostScopeChecker = "Scope \<Rightarrow> string \<Rightarrow> bool res"

record JobsService =
  JobsService_privateKey :: string
  JobsService_publicKey :: string
  JobsService_jobLease :: duration
  JobsService_hostExists :: "HostScopeChecker option"

text \<open>The checks with which \<open>NewService\<close> ends, once the options are applied.\<close>

definition Jobs_NewService :: "JobsService \<Rightarrow> JobsService res" where
  "Jobs_NewService service =
     (if length (JobsService_privateKey service) \<noteq> PrivateKeySize
         \<or> length (JobsService_publicKey service) \<noteq> PublicKeySize
         \<or> JobsService_jobLease service \<le> 0
      then Inl (ErrOther ''job signing key is invalid'')
      else if JobsService_hostExists service = None
      then Inl (ErrOther ''job host scope checker is required'')
      else Inr service)"

text \<open>
  The new job and its approval event, for a request that passed the checks (\<open>Create\<close>
  builds the job without its signature, signs the payload and stores the signature).
\<close>

definition unsigned_job :: "JobsService \<Rightarrow> string \<Rightarrow> Scope \<Rightarrow> string \<Rightarrow> CreateRequest \<Rightarrow> time \<Rightarrow> Job" where
  "unsigned_job service jid scope agentID request now =
     \<lparr>Job_ID = jid, Job_OrganizationID = Scope_OrganizationID scope,
      Job_SiteID = Scope_SiteID scope, Job_AgentID = agentID,
      Job_Action = CreateRequest_Action request, Job_Target = CreateRequest_Target request,
      Job_ApprovedBy = CreateRequest_ApprovedBy request, Job_Reason = CreateRequest_Reason request,
      Job_RequestedAt = truncate_micro now, Job_Status = StatusQueued, Job_LastSequence = 0,
      Job_Signature = [], Job_SigningPublicKey = b64_encode (JobsService_publicKey service),
      Job_Resumed = False\<rparr>"

definition sign_job :: "Ed25519 \<Rightarrow> rfc3339 \<Rightarrow> JobsService \<Rightarrow> Job \<Rightarrow> Job" where
  "sign_job ed fmt service job =
     job\<lparr>Job_Signature := b64_encode (Ed_Sign ed (JobsService_privateKey service) (signingPayload fmt job))\<rparr>"

definition approved_event :: "Job \<Rightarrow> JobEvent" where
  "approved_event job =
     \<lparr>JobEvent_JobID = Job_ID job, JobEvent_OrganizationID = Job_OrganizationID job,
      JobEvent_SiteID = Job_SiteID job, JobEvent_Sequence = 0, JobEvent_Type = EventApproved,
      JobEvent_Message = Job_Reason job, JobEvent_Actor = Job_ApprovedBy job,
      JobEvent_OccurredAt = Job_RequestedAt job\<rparr>"

definition trim_request :: "CreateRequest \<Rightarrow> CreateRequest" where
  "trim_request request =
     request\<lparr>CreateRequest_Target := trim_space (CreateRequest_Target request),
             CreateRequest_ApprovedBy := trim_space (CreateRequest_ApprovedBy request),
             CreateRequest_Reason := trim_space (CreateRequest_Reason request)\<rparr>"

definition invalid_request :: "string \<Rightarrow> CreateRequest \<Rightarrow> bool" where
  "invalid_request agentID request \<longleftrightarrow>
     agentID = [] \<or> CreateRequest_ApprovedBy request = [] \<or> CreateRequest_Reason request = []
     \<or> length (CreateRequest_ApprovedBy request) > 128
     \<or> length (CreateRequest_Reason request) > 1024
     \<or> length (CreateRequest_Target request) > 256
     \<or> \<not> validActionTarget (CreateRequest_Action request) (CreateRequest_Target request)"

definition host_exists :: "JobsService \<Rightarrow> Scope \<Rightarrow> string \<Rightarrow> bool res" where
  "host_exists service scope agentID =
     (case JobsService_hostExists service of
        None \<Rightarrow> Inl (ErrOther ''nil host checker'') | Some check \<Rightarrow> check scope agentID)"

definition Jobs_Create ::
  "Ed25519 \<Rightarrow> rfc3339 \<Rightarrow> JobsService \<Rightarrow> entropy \<Rightarrow> time \<Rightarrow> Scope \<Rightarrow> string \<Rightarrow> CreateRequest \<Rightarrow> JobStore
   \<Rightarrow> (Job, JobStore) op" where
  "Jobs_Create ed fmt service r now scope agentID0 request0 st =
     (let agentID = trim_space agentID0; request = trim_request request0 in
      case Scope_Validate scope of
        Some e \<Rightarrow> (Inl e, st)
      | None \<Rightarrow>
          if invalid_request agentID request then (Inl ErrInvalidJob, st)
          else (case host_exists service scope agentID of
              Inl e \<Rightarrow> (Inl e, st)
            | Inr found \<Rightarrow>
                if \<not> found then (Inl ErrJobNotFound, st)
                else (case rand_hex 16 r of
                    Inl e \<Rightarrow> (Inl e, st)
                  | Inr jid \<Rightarrow>
                      let job = sign_job ed fmt service (unsigned_job service jid scope agentID request now)
                      in (case CreateJob job (approved_event job) st of
                            (Inl e, st') \<Rightarrow> (Inl e, st')
                          | (Inr _, st') \<Rightarrow> (Inr job, st')))))"

definition Jobs_ClaimNext ::
  "JobsService \<Rightarrow> (jobKey \<times> Job) list \<Rightarrow> (jobKey \<times> Job) list \<Rightarrow> time \<Rightarrow> Agent \<Rightarrow> JobStore
   \<Rightarrow> (Job option, JobStore) op" where
  "Jobs_ClaimNext service it1 it2 now agent st =
     (case Agent_Validate agent of
        Some e \<Rightarrow> (Inl e, st)
      | None \<Rightarrow> ClaimNextJob it1 it2 agent now (now - JobsService_jobLease service) st)"

definition Jobs_Report ::
  "time \<Rightarrow> Agent \<Rightarrow> string \<Rightarrow> EventRequest \<Rightarrow> JobStore \<Rightarrow> (Job, JobStore) op" where
  "Jobs_Report now agent jobID0 request0 st =
     (let jobID = trim_space jobID0;
          request = request0\<lparr>EventRequest_Message := trim_space (EventRequest_Message request0)\<rparr> in
      case Agent_Validate agent of
        Some e \<Rightarrow> (Inl e, st)
      | None \<Rightarrow>
          if jobID = [] \<or> EventRequest_Sequence request < 2 \<or> EventRequest_Message request = []
             \<or> length (EventRequest_Message request) > 32 * 1024
             \<or> (EventRequest_Type request \<noteq> EventOutput \<and> EventRequest_Type request \<noteq> EventSucceeded
                 \<and> EventRequest_Type request \<noteq> EventFailed)
          then (Inl ErrInvalidJob, st)
          else (case RecordJobEvent agent jobID request now st of
              (Inl e, st') \<Rightarrow> (Inl e, st')
            | (Inr (job, _), st') \<Rightarrow> (Inr job, st')))"

definition Jobs_List ::
  "Job sorter \<Rightarrow> (jobKey \<times> Job) list \<Rightarrow> Scope \<Rightarrow> string \<Rightarrow> int \<Rightarrow> Job list res" where
  "Jobs_List srt it scope agentID0 limit =
     (let agentID = trim_space agentID0 in
      case Scope_Validate scope of
        Some e \<Rightarrow> Inl e
      | None \<Rightarrow>
          if agentID = [] \<or> limit < 1 \<or> limit > 200 then Inl ErrInvalidJob
          else ListJobs srt it scope agentID limit)"

definition Jobs_Events :: "Scope \<Rightarrow> string \<Rightarrow> string \<Rightarrow> JobStore \<Rightarrow> JobEvent list res" where
  "Jobs_Events scope agentID0 jobID0 st =
     (let agentID = trim_space agentID0; jobID = trim_space jobID0 in
      case Scope_Validate scope of
        Some e \<Rightarrow> Inl e
      | None \<Rightarrow>
          if agentID = [] \<or> jobID = [] then Inl ErrInvalidJob
          else ListJobEvents scope agentID jobID st)"

section \<open>The signature\<close>

text \<open>
  What a signature covers can be read back from the payload when the signed strings are
  valid UTF-8: the JSON encoder replaces the bytes of an invalid one.
\<close>

definition signable :: "rfc3339 \<Rightarrow> Job \<Rightarrow> bool" where
  "signable fmt job \<longleftrightarrow>
     list_all valid_utf8
       [Job_ID job, Job_OrganizationID job, Job_SiteID job, Job_AgentID job, Job_Action job,
        Job_Target job, Job_ApprovedBy job, Job_Reason job, fmt (Job_RequestedAt job)]"

definition same_signed_fields :: "Job \<Rightarrow> Job \<Rightarrow> bool" where
  "same_signed_fields job other \<longleftrightarrow>
     Job_ID job = Job_ID other \<and> Job_OrganizationID job = Job_OrganizationID other
     \<and> Job_SiteID job = Job_SiteID other \<and> Job_AgentID job = Job_AgentID other
     \<and> Job_Action job = Job_Action other \<and> Job_Target job = Job_Target other
     \<and> Job_ApprovedBy job = Job_ApprovedBy other \<and> Job_Reason job = Job_Reason other
     \<and> Job_RequestedAt job = Job_RequestedAt other"

lemma json_string_eq_iff:
  "valid_utf8 s \<Longrightarrow> valid_utf8 t \<Longrightarrow> json_string s = json_string t \<longleftrightarrow> s = t"
  using json_string_inj [of s t "[]" "[]"] by auto

lemma signingPayload_inj:
  assumes "signable fmt job" "signable fmt other" "inj fmt"
    and "signingPayload fmt job = signingPayload fmt other"
  shows "same_signed_fields job other"
proof -
  from assms(1,2) have valid: "valid_utf8 (Job_ID job)" "valid_utf8 (Job_ID other)"
    "valid_utf8 (Job_OrganizationID job)" "valid_utf8 (Job_OrganizationID other)"
    "valid_utf8 (Job_SiteID job)" "valid_utf8 (Job_SiteID other)"
    "valid_utf8 (Job_AgentID job)" "valid_utf8 (Job_AgentID other)"
    "valid_utf8 (Job_Action job)" "valid_utf8 (Job_Action other)"
    "valid_utf8 (Job_Target job)" "valid_utf8 (Job_Target other)"
    "valid_utf8 (Job_ApprovedBy job)" "valid_utf8 (Job_ApprovedBy other)"
    "valid_utf8 (Job_Reason job)" "valid_utf8 (Job_Reason other)"
    "valid_utf8 (fmt (Job_RequestedAt job))" "valid_utf8 (fmt (Job_RequestedAt other))"
    by (simp_all add: signable_def)
  from assms(4) show ?thesis
    unfolding signingPayload_def
    by (rule json_object_inj [rotated, elim_format])
      (simp_all add: separable_json_string separable_itoa valid json_string_eq_iff
        inj_eq [OF assms(3)] same_signed_fields_def)
qed

lemma signingPayload_not_V1: "signingPayload fmt job \<noteq> signingPayloadV1 fmt other"
proof
  assume "signingPayload fmt job = signingPayloadV1 fmt other"
  then have "itoa 2 = itoa 1"
    unfolding signingPayload_def signingPayloadV1_def
    by (rule json_object_first) (rule separable_itoa)
  then show False by (simp add: itoa_def)
qed

lemma signingPayload_signature [simp]:
  "signingPayload fmt (job\<lparr>Job_Signature := s\<rparr>) = signingPayload fmt job"
  "signingPayloadV1 fmt (job\<lparr>Job_Signature := s\<rparr>) = signingPayloadV1 fmt job"
  by (simp_all add: signingPayload_def signingPayloadV1_def)

section \<open>Creating jobs\<close>

lemma Job_Scope_sign [simp]: "Job_Scope (sign_job ed fmt service job) = Job_Scope job"
  by (simp add: Job_Scope_def sign_job_def)

lemma Job_Scope_unsigned [simp]:
  "Job_Scope (unsigned_job service jid scope agentID request now) = scope"
  by (simp add: Job_Scope_def unsigned_job_def)

lemma sign_job_simps [simp]:
  "Job_ID (sign_job ed fmt service job) = Job_ID job"
  "Job_OrganizationID (sign_job ed fmt service job) = Job_OrganizationID job"
  "Job_SiteID (sign_job ed fmt service job) = Job_SiteID job"
  "Job_AgentID (sign_job ed fmt service job) = Job_AgentID job"
  "Job_Action (sign_job ed fmt service job) = Job_Action job"
  "Job_Target (sign_job ed fmt service job) = Job_Target job"
  "Job_ApprovedBy (sign_job ed fmt service job) = Job_ApprovedBy job"
  "Job_Reason (sign_job ed fmt service job) = Job_Reason job"
  "Job_RequestedAt (sign_job ed fmt service job) = Job_RequestedAt job"
  "Job_Status (sign_job ed fmt service job) = Job_Status job"
  "Job_LastSequence (sign_job ed fmt service job) = Job_LastSequence job"
  "Job_SigningPublicKey (sign_job ed fmt service job) = Job_SigningPublicKey job"
  "signingPayload fmt (sign_job ed fmt service job) = signingPayload fmt job"
  by (simp_all add: sign_job_def)

lemma unsigned_job_simps [simp]:
  "Job_ID (unsigned_job service jid scope agentID request now) = jid"
  "Job_AgentID (unsigned_job service jid scope agentID request now) = agentID"
  "Job_Status (unsigned_job service jid scope agentID request now) = StatusQueued"
  "Job_LastSequence (unsigned_job service jid scope agentID request now) = 0"
  "Job_SigningPublicKey (unsigned_job service jid scope agentID request now)
     = b64_encode (JobsService_publicKey service)"
  by (simp_all add: unsigned_job_def)

lemma approved_event_simps [simp]:
  "JobEvent_JobID (approved_event job) = Job_ID job"
  "JobEvent_OrganizationID (approved_event job) = Job_OrganizationID job"
  "JobEvent_SiteID (approved_event job) = Job_SiteID job"
  "JobEvent_Sequence (approved_event job) = 0"
  "JobEvent_Type (approved_event job) = EventApproved"
  by (simp_all add: approved_event_def)

lemma Job_Scope_simps [simp]:
  "Scope_OrganizationID (Job_Scope job) = Job_OrganizationID job"
  "Scope_SiteID (Job_Scope job) = Job_SiteID job"
  by (simp_all add: Job_Scope_def)

lemma CreateJob_approved:
  "CreateJob job (approved_event job) st =
     (if valid_scope (Job_Scope job)
      then (Inr (), st\<lparr>JobStore_jobs := (JobStore_jobs st)((Job_Scope job, Job_ID job) \<mapsto> job),
                       JobStore_events :=
                         (JobStore_events st)((Job_Scope job, Job_ID job) \<mapsto> [approved_event job])\<rparr>)
      else (Inl ErrInvalidScope, st))"
  by (simp add: store_simps Let_def)

text \<open>When \<open>Create\<close> succeeds, and what it then stores.\<close>

lemma Jobs_Create_Inr:
  "Jobs_Create ed fmt service r now scope agentID request st = (Inr job, st') \<longleftrightarrow>
     valid_scope scope
     \<and> \<not> invalid_request (trim_space agentID) (trim_request request)
     \<and> host_exists service scope (trim_space agentID) = Inr True
     \<and> (\<exists>jid. rand_hex 16 r = Inr jid
          \<and> job = sign_job ed fmt service
                (unsigned_job service jid scope (trim_space agentID) (trim_request request) now))
     \<and> st' = st\<lparr>JobStore_jobs := (JobStore_jobs st)((scope, Job_ID job) \<mapsto> job),
                JobStore_events := (JobStore_events st)((scope, Job_ID job) \<mapsto> [approved_event job])\<rparr>"
  by (auto simp: Jobs_Create_def CreateJob_approved Let_def split: option.splits sum.splits)

lemma Jobs_Create_Inl:
  "Jobs_Create ed fmt service r now scope agentID request st = (Inl e, st') \<Longrightarrow> st' = st"
  by (auto simp: Jobs_Create_def store_simps Let_def split: option.splits sum.splits if_splits)

text \<open>A job the service signed verifies, whatever happens to its state afterwards.\<close>

definition keypair :: "Ed25519 \<Rightarrow> JobsService \<Rightarrow> bool" where
  "keypair ed service \<longleftrightarrow>
     length (JobsService_publicKey service) = PublicKeySize
     \<and> (\<forall>m. Ed_Verify ed (JobsService_publicKey service) m (Ed_Sign ed (JobsService_privateKey service) m))"

lemma Verify_signed:
  assumes "keypair ed service" and "Job_SigningPublicKey job = b64_encode (JobsService_publicKey service)"
  shows "Verify ed fmt (sign_job ed fmt service job)"
  using assms
  by (simp add: Verify_def b64_roundtrip keypair_def) (simp add: sign_job_def b64_roundtrip)

text \<open>
  A signature of one payload does not verify another one: the property of ed25519 that
  the agent relies on when it refuses a changed job.
\<close>

definition unforgeable :: "Ed25519 \<Rightarrow> JobsService \<Rightarrow> bool" where
  "unforgeable ed service \<longleftrightarrow>
     (\<forall>m m'. Ed_Verify ed (JobsService_publicKey service) m'
               (Ed_Sign ed (JobsService_privateKey service) m) \<longrightarrow> m' = m)"

lemma Verify_binds:
  assumes "unforgeable ed service"
    and signed: "signed = sign_job ed fmt service job"
    and "Job_SigningPublicKey other = b64_encode (JobsService_publicKey service)"
    and "Job_Signature other = Job_Signature signed"
    and "signable fmt signed" "signable fmt other" "inj fmt"
    and "Verify ed fmt other"
  shows "same_signed_fields other signed"
proof -
  let ?sig = "Ed_Sign ed (JobsService_privateKey service) (signingPayload fmt job)"
  have sig: "b64_decode (Job_Signature other) = Some ?sig"
    using assms(4) by (simp add: signed sign_job_def b64_roundtrip)
  have "signingPayloadV1 fmt other \<noteq> signingPayload fmt job"
    using signingPayload_not_V1 by metis
  then have "\<not> Ed_Verify ed (JobsService_publicKey service) (signingPayloadV1 fmt other) ?sig"
    using assms(1) unfolding unforgeable_def by blast
  with assms(8) have "Ed_Verify ed (JobsService_publicKey service) (signingPayload fmt other) ?sig"
    by (auto simp: Verify_def assms(3) b64_roundtrip sig split: if_splits)
  then have "signingPayload fmt other = signingPayload fmt signed"
    using assms(1) unfolding unforgeable_def signed by (metis sign_job_simps(13))
  with assms(5-7) show ?thesis by (blast intro: signingPayload_inj)
qed

end
