(* ===== verification/Jobs_Lifecycle.thy ===== *)
theory Jobs_Lifecycle
  imports Jobs
begin

text \<open>
  The state machine of \<open>internal/jobs\<close>: the job store under any sequence of the service's
  operations. An abstract automaton says which event logs a job may have and the status
  each log stands for; the invariant says that every stored job is the outcome of its own
  log, that logs are numbered without gaps, and that an agent has at most one running job.
\<close>

section \<open>The abstract automaton\<close>

fun job_next :: "JobEventType \<Rightarrow> JobStatus \<Rightarrow> JobStatus option" where
  "job_next EventClaimed StatusQueued = Some StatusRunning"
| "job_next EventOutput StatusRunning = Some StatusRunning"
| "job_next EventSucceeded StatusRunning = Some StatusSucceeded"
| "job_next EventFailed StatusRunning = Some StatusFailed"
| "job_next _ _ = None"

fun job_run :: "JobEventType list \<Rightarrow> JobStatus option" where
  "job_run [] = None"
| "job_run (t # ts) =
     (if t = EventApproved then foldl (\<lambda>s u. Option.bind s (job_next u)) (Some StatusQueued) ts
      else None)"

definition terminal :: "JobStatus \<Rightarrow> bool" where
  "terminal s \<longleftrightarrow> s = StatusSucceeded \<or> s = StatusFailed"

lemma job_run_snoc: "ts \<noteq> [] \<Longrightarrow> job_run (ts @ [t]) = Option.bind (job_run ts) (job_next t)"
  by (cases ts) auto

lemma job_next_terminal: "terminal s \<Longrightarrow> job_next t s = None"
  by (cases t; cases s) (auto simp: terminal_def)

lemma job_run_nonempty: "job_run ts = Some s \<Longrightarrow> ts \<noteq> []"
  by auto

lemma job_run_queued: "job_run ts = Some StatusQueued \<Longrightarrow> length ts = 1"
proof (induction ts rule: rev_induct)
  case (snoc t ts)
  then show ?case
  proof (cases "ts = []")
    case False
    with snoc.prems obtain s where "job_next t s = Some StatusQueued"
      by (auto simp: job_run_snoc bind_eq_Some_conv)
    then show ?thesis by (cases t; cases s) auto
  qed simp
qed simp

text \<open>A log ends a job with at most one outcome, and nothing follows it.\<close>

lemma job_run_append_terminal:
  assumes "job_run ts = Some s" "terminal s" "job_run (ts @ us) \<noteq> None"
  shows "us = []"
proof (rule ccontr)
  assume "us \<noteq> []"
  then obtain u us' where us: "us = u # us'" by (cases us) auto
  have "ts \<noteq> []" using assms(1) by auto
  then have none: "job_run (ts @ [u]) = None"
    using assms(1,2) by (simp add: job_run_snoc job_next_terminal)
  have "job_run ((ts @ [u]) @ us') = None" for us'
  proof (induction us' rule: rev_induct)
    case (snoc v vs)
    then show ?case using job_run_snoc [of "(ts @ [u]) @ vs" v] by simp
  qed (simp add: none)
  with assms(3) us show False by simp
qed

section \<open>Steps and reachable stores\<close>

text \<open>
  The steps: a job is created under an identifier not in use (the identifiers are 128
  random bits), an agent asks for its next job, an agent reports an event. The crypto, the
  time format and the service's configuration are fixed along a run.
\<close>

inductive job_step :: "Ed25519 \<Rightarrow> rfc3339 \<Rightarrow> JobsService \<Rightarrow> JobStore \<Rightarrow> JobStore \<Rightarrow> bool"
  for ed fmt service where
  create: "Jobs_Create ed fmt service r now scope agentID request st = (res, st') \<Longrightarrow>
    (\<And>jid. rand_hex 16 r = Inr jid \<Longrightarrow> JobStore_jobs st (scope, jid) = None) \<Longrightarrow>
    job_step ed fmt service st st'"
| claim: "Jobs_ClaimNext service it1 it2 now agent st = (res, st') \<Longrightarrow>
    ranges it1 (JobStore_jobs st) \<Longrightarrow> ranges it2 (JobStore_jobs st) \<Longrightarrow>
    job_step ed fmt service st st'"
| report: "Jobs_Report now agent jobID request st = (res, st') \<Longrightarrow> job_step ed fmt service st st'"

inductive job_reach :: "Ed25519 \<Rightarrow> rfc3339 \<Rightarrow> JobsService \<Rightarrow> JobStore \<Rightarrow> bool"
  for ed fmt service where
  init: "job_reach ed fmt service NewJobStore"
| step: "job_reach ed fmt service st \<Longrightarrow> job_step ed fmt service st st' \<Longrightarrow>
    job_reach ed fmt service st'"

inductive_cases job_stepE: "job_step ed fmt service st st'"

section \<open>The invariant\<close>

definition job_log_ok :: "Job \<Rightarrow> JobEvent list \<Rightarrow> bool" where
  "job_log_ok job es \<longleftrightarrow>
     job_run (map JobEvent_Type es) = Some (Job_Status job)
     \<and> map JobEvent_Sequence es = map int [0..<length es]
     \<and> Job_LastSequence job + 1 = int (length es)
     \<and> (\<forall>e \<in> set es. JobEvent_JobID e = Job_ID job
           \<and> JobEvent_OrganizationID e = Job_OrganizationID job
           \<and> JobEvent_SiteID e = Job_SiteID job)"

definition job_at_key :: "jobKey \<Rightarrow> Job \<Rightarrow> bool" where
  "job_at_key key job \<longleftrightarrow> key = (Job_Scope job, Job_ID job) \<and> valid_scope (Job_Scope job)
     \<and> hex32_pattern (Job_ID job)"

definition one_running :: "JobStore \<Rightarrow> bool" where
  "one_running st \<longleftrightarrow>
     (\<forall>k l job other. JobStore_jobs st k = Some job \<longrightarrow> JobStore_jobs st l = Some other \<longrightarrow>
        Job_Status job = StatusRunning \<longrightarrow> Job_Status other = StatusRunning \<longrightarrow>
        Job_Scope job = Job_Scope other \<longrightarrow> Job_AgentID job = Job_AgentID other \<longrightarrow> k = l)"

definition job_inv :: "JobStore \<Rightarrow> bool" where
  "job_inv st \<longleftrightarrow>
     dom (JobStore_events st) = dom (JobStore_jobs st)
     \<and> (\<forall>key job. JobStore_jobs st key = Some job \<longrightarrow>
          job_at_key key job \<and> job_log_ok job (events_at st key))
     \<and> one_running st"

lemma job_invD:
  assumes "job_inv st" and "JobStore_jobs st key = Some job"
  shows "job_at_key key job" "job_log_ok job (events_at st key)"
  using assms by (simp_all add: job_inv_def)

lemma job_inv_init: "job_inv NewJobStore"
  by (simp add: job_inv_def NewJobStore_def one_running_def)

text \<open>The two shapes of a write: both maps at one key.\<close>

abbreviation put_job :: "jobKey \<Rightarrow> Job \<Rightarrow> JobEvent list \<Rightarrow> JobStore \<Rightarrow> JobStore" where
  "put_job key job es st \<equiv>
     st\<lparr>JobStore_jobs := (JobStore_jobs st)(key \<mapsto> job),
        JobStore_events := (JobStore_events st)(key \<mapsto> es)\<rparr>"

lemma events_at_put [simp]:
  "events_at (put_job key job es st) k = (if k = key then es else events_at st k)"
  by (simp add: events_at_def)

lemma job_inv_put:
  assumes "job_inv st" "job_at_key key job" "job_log_ok job es"
    and running: "Job_Status job = StatusRunning \<Longrightarrow>
      \<forall>k other. k \<noteq> key \<longrightarrow> JobStore_jobs st k = Some other \<longrightarrow> Job_Status other = StatusRunning \<longrightarrow>
        Job_Scope other = Job_Scope job \<longrightarrow> Job_AgentID other \<noteq> Job_AgentID job"
  shows "job_inv (put_job key job es st)"
proof -
  have "one_running (put_job key job es st)"
    unfolding one_running_def
  proof (intro allI impI)
    fix k l a b
    assume a: "JobStore_jobs (put_job key job es st) k = Some a" "Job_Status a = StatusRunning"
      and b: "JobStore_jobs (put_job key job es st) l = Some b" "Job_Status b = StatusRunning"
      and same: "Job_Scope a = Job_Scope b" "Job_AgentID a = Job_AgentID b"
    show "k = l"
    proof (cases "k = key \<or> l = key")
      case True
      show ?thesis
      proof (rule ccontr)
        assume "k \<noteq> l"
        with True consider "k = key" "l \<noteq> key" | "l = key" "k \<noteq> key" by blast
        then show False
        proof cases
          case 1
          with a b same running show False by auto
        next
          case 2
          with a b same running show False by auto
        qed
      qed
    next
      case False
      with a b same assms(1) show ?thesis by (auto simp: job_inv_def one_running_def)
    qed
  qed
  then show ?thesis
    using assms(1-3) unfolding job_inv_def by (auto split: if_splits)
qed

lemma job_log_ok_approved: "job_log_ok job [approved_event job]"
  if "Job_Status job = StatusQueued" "Job_LastSequence job = 0"
  using that by (simp add: job_log_ok_def approved_event_def)

lemma job_log_ok_append:
  assumes ok: "job_log_ok job es"
    and next_status: "job_next (JobEvent_Type e) (Job_Status job) = Some (Job_Status job')"
    and same: "Job_ID job' = Job_ID job" "Job_OrganizationID job' = Job_OrganizationID job"
      "Job_SiteID job' = Job_SiteID job"
    and seq: "Job_LastSequence job' = Job_LastSequence job + 1"
      "JobEvent_Sequence e = Job_LastSequence job + 1"
    and ids: "JobEvent_JobID e = Job_ID job" "JobEvent_OrganizationID e = Job_OrganizationID job"
      "JobEvent_SiteID e = Job_SiteID job"
  shows "job_log_ok job' (es @ [e])"
proof -
  have "es \<noteq> []" using ok by (auto simp: job_log_ok_def)
  with ok next_status have "job_run (map JobEvent_Type (es @ [e])) = Some (Job_Status job')"
    by (simp add: job_log_ok_def job_run_snoc)
  then show ?thesis using ok same seq ids by (auto simp: job_log_ok_def)
qed

section \<open>Every step keeps the invariant\<close>

lemma create_inv:
  assumes "job_inv st" and "Jobs_Create ed fmt service r now scope agentID request st = (res, st')"
    and fresh: "\<And>jid. rand_hex 16 r = Inr jid \<Longrightarrow> JobStore_jobs st (scope, jid) = None"
  shows "job_inv st'"
proof (cases res)
  case (Inl e)
  with assms show ?thesis using Jobs_Create_Inl by metis
next
  case (Inr job)
  with assms(2) have st': "st' = put_job (scope, Job_ID job) job [approved_event job] st"
    and job: "Job_Scope job = scope" "valid_scope scope" "Job_Status job = StatusQueued"
      "Job_LastSequence job = 0" "hex32_pattern (Job_ID job)"
    by (auto simp: Jobs_Create_Inr rand_hex_hex32)
  show ?thesis
    unfolding st' using assms(1) job
    by (intro job_inv_put) (simp_all add: job_at_key_def job_log_ok_approved)
qed

text \<open>What the two selection loops of \<open>ClaimNextJob\<close> return.\<close>

lemma weak_order_job_before: "weak_order job_before"
  unfolding job_before_def [abs_def] by (rule weak_order_lex)

lemma job_before_least:
  assumes "pick job_before None (filter P (map snd it)) = Some job" "ranges it m"
  shows "job \<in> ran m" "P job" "\<And>other. other \<in> ran m \<Longrightarrow> P other \<Longrightarrow> \<not> job_before other job"
proof -
  have "job \<in> set (filter P (map snd it))" using assms(1) by (rule pick_in_list)
  then show "job \<in> ran m" "P job" using ranges_values [OF assms(2)] by auto
  fix other assume "other \<in> ran m" "P other"
  then have "other \<in> set (filter P (map snd it))" using ranges_values [OF assms(2)] by auto
  with weak_order_job_before assms(1) show "\<not> job_before other job" by (rule pick_first)
qed

lemma pick_job_None:
  assumes "pick job_before None (filter P (map snd it)) = None" "ranges it m" "m key = Some job"
  shows "\<not> P job"
proof -
  have "(key, job) \<in> set it" using assms(2,3) by (simp add: ranges_entry)
  with assms(1) show ?thesis by (force simp: pick_None_iff filter_empty_conv)
qed

lemma is_candidate_iff:
  "is_candidate agent status job \<longleftrightarrow>
     Job_Scope job = Agent_Scope agent \<and> Job_AgentID job = Agent_ID agent \<and> Job_Status job = status"
  by (auto simp: is_candidate_def Job_Scope_def Agent_Scope_def)

text \<open>
  The outcomes of \<open>ClaimNextJob\<close>: nothing, a running job whose lease is over, or the
  first queued job, which becomes running.
\<close>

lemma ClaimNextJob_cases:
  assumes "ClaimNextJob it1 it2 agent tm before st = (res, st')"
    and "job_inv st" "ranges it1 (JobStore_jobs st)" "ranges it2 (JobStore_jobs st)"
  obtains (refused) e where "res = Inl e" "st' = st" "Agent_Validate agent = Some e"
  | (leased) job where "res = Inr None" "st' = st" "JobStore_jobs st (Agent_Scope agent, Job_ID job) = Some job"
      "is_candidate agent StatusRunning job"
      "\<exists>e \<in> set (events_at st (Agent_Scope agent, Job_ID job)).
         JobEvent_Type e = EventClaimed \<and> before < JobEvent_OccurredAt e"
  | (resumed) job where "res = Inr (Some (job\<lparr>Job_Resumed := True\<rparr>))" "st' = st"
      "JobStore_jobs st (Agent_Scope agent, Job_ID job) = Some job" "is_candidate agent StatusRunning job"
      "\<forall>e \<in> set (events_at st (Agent_Scope agent, Job_ID job)).
         JobEvent_Type e = EventClaimed \<longrightarrow> JobEvent_OccurredAt e \<le> before"
  | (idle) "res = Inr None" "st' = st"
      "\<And>key job. JobStore_jobs st key = Some job \<Longrightarrow> \<not> is_candidate agent StatusRunning job"
      "\<And>key job. JobStore_jobs st key = Some job \<Longrightarrow> \<not> is_candidate agent StatusQueued job"
  | (claimed) job job' key where "res = Inr (Some job')"
      "job' = job\<lparr>Job_Status := StatusRunning, Job_LastSequence := 1\<rparr>"
      "key = (Agent_Scope agent, Job_ID job)" "JobStore_jobs st key = Some job"
      "is_candidate agent StatusQueued job"
      "st' = put_job key job' (events_at st key @
         [agent_event agent (Job_ID job) 1 EventClaimed ''agent claimed job'' tm]) st"
      "\<And>key other. JobStore_jobs st key = Some other \<Longrightarrow> \<not> is_candidate agent StatusRunning other"
      "\<And>key other. JobStore_jobs st key = Some other \<Longrightarrow> is_candidate agent StatusQueued other \<Longrightarrow>
         \<not> job_before other job"
proof (cases "Agent_Validate agent")
  case (Some e)
  with assms(1) show ?thesis by (intro refused [of e]) (simp_all add: store_simps)
next
  case None
  note valid = this
  have at_key: "JobStore_jobs st (Agent_Scope agent, Job_ID job) = Some job"
    if "job \<in> ran (JobStore_jobs st)" "is_candidate agent status job" for job status
  proof -
    from that(1) obtain key where "JobStore_jobs st key = Some job" by (auto simp: ran_def)
    with job_invD(1) [OF assms(2) this] that(2) show ?thesis
      by (simp add: job_at_key_def is_candidate_iff)
  qed
  let ?running = "pick job_before None (filter (is_candidate agent StatusRunning) (map snd it1))"
  let ?queued = "pick job_before None (filter (is_candidate agent StatusQueued) (map snd it2))"
  show ?thesis
  proof (cases ?running)
    case (Some job)
    note least = job_before_least [OF Some assms(3)]
    show ?thesis
    proof (cases "\<exists>e \<in> set (events_at st (Agent_Scope agent, Job_ID job)).
         JobEvent_Type e = EventClaimed \<and> before < JobEvent_OccurredAt e")
      case True
      with assms(1) valid Some least show ?thesis
        by (intro leased [of job] at_key [OF least(1,2)]) (simp_all add: store_simps)
    next
      case False
      with assms(1) valid Some least show ?thesis
        by (intro resumed [of job] at_key [OF least(1,2)]) (auto simp add: store_simps not_less)
    qed
  next
    case None
    note no_running = pick_job_None [OF None assms(3)]
    show ?thesis
    proof (cases ?queued)
      case None
      note no_queued = pick_job_None [OF None assms(4)]
      from assms(1) valid None \<open>?running = None\<close> show ?thesis
        by (intro idle) (simp_all add: store_simps no_running no_queued)
    next
      case (Some job)
      note least = job_before_least [OF Some assms(4)]
      show ?thesis
      proof (rule claimed [OF _ refl refl])
        show "JobStore_jobs st (Agent_Scope agent, Job_ID job) = Some job"
          using least(1,2) by (rule at_key)
      qed (use assms(1) valid Some None least no_running in
          \<open>auto simp: ClaimNextJob_def Let_def ranI\<close>)
    qed
  qed
qed

lemma put_job_other [simp]:
  "JobStore_jobs (put_job key job es st) k = (if k = key then Some job else JobStore_jobs st k)"
  by simp

lemma job_log_ok_queued: "job_log_ok job es \<Longrightarrow> Job_Status job = StatusQueued \<Longrightarrow> Job_LastSequence job = 0"
  using job_run_queued by (fastforce simp: job_log_ok_def)

lemma agent_event_simps [simp]:
  "JobEvent_JobID (agent_event agent jid n t m tm) = jid"
  "JobEvent_OrganizationID (agent_event agent jid n t m tm) = Agent_OrganizationID agent"
  "JobEvent_SiteID (agent_event agent jid n t m tm) = Agent_SiteID agent"
  "JobEvent_Sequence (agent_event agent jid n t m tm) = n"
  "JobEvent_Type (agent_event agent jid n t m tm) = t"
  "JobEvent_Message (agent_event agent jid n t m tm) = m"
  "JobEvent_OccurredAt (agent_event agent jid n t m tm) = tm"
  by (simp_all add: agent_event_def)

lemma Job_Scope_update [simp]:
  "Job_Scope (job\<lparr>Job_Status := s\<rparr>) = Job_Scope job"
  "Job_Scope (job\<lparr>Job_LastSequence := n\<rparr>) = Job_Scope job"
  "Job_Scope (job\<lparr>Job_Resumed := r\<rparr>) = Job_Scope job"
  by (simp_all add: Job_Scope_def)

lemma scope_of_agent:
  "Job_Scope job = Agent_Scope agent \<Longrightarrow>
     Job_OrganizationID job = Agent_OrganizationID agent \<and> Job_SiteID job = Agent_SiteID agent"
  by (simp add: Job_Scope_def Agent_Scope_def)

lemma ClaimNextJob_inv:
  assumes "ClaimNextJob it1 it2 agent tm before st = (res, st')" "job_inv st"
    and "ranges it1 (JobStore_jobs st)" "ranges it2 (JobStore_jobs st)"
  shows "job_inv st'"
  using assms
proof (cases rule: ClaimNextJob_cases)
  case (claimed job job' key)
  from claimed(5) have cand: "Job_Scope job = Agent_Scope agent" "Job_AgentID job = Agent_ID agent"
    "Job_Status job = StatusQueued" by (simp_all add: is_candidate_iff)
  note inv = job_invD [OF assms(2) claimed(4)]
  have "Job_LastSequence job = 0" using inv(2) cand(3) by (rule job_log_ok_queued)
  with inv(2) claimed(2) cand have "job_log_ok job' (events_at st key @
       [agent_event agent (Job_ID job) 1 EventClaimed ''agent claimed job'' tm])"
    by (intro job_log_ok_append) (auto dest!: scope_of_agent)
  then show ?thesis
    unfolding claimed(6) using assms(2) inv(1) claimed(2,7) cand
    by (intro job_inv_put) (auto simp: job_at_key_def is_candidate_iff)
qed (use assms(2) in simp_all)

lemma claim_inv:
  assumes "job_inv st" and "Jobs_ClaimNext service it1 it2 now agent st = (res, st')"
    and "ranges it1 (JobStore_jobs st)" "ranges it2 (JobStore_jobs st)"
  shows "job_inv st'"
proof (cases "Agent_Validate agent")
  case None
  with assms(2) have "ClaimNextJob it1 it2 agent now (now - JobsService_jobLease service) st = (res, st')"
    by (simp add: Jobs_ClaimNext_def)
  then show ?thesis using assms(1,3,4) by (rule ClaimNextJob_inv)
qed (use assms(1,2) in \<open>simp add: Jobs_ClaimNext_def\<close>)

text \<open>The outcomes of \<open>RecordJobEvent\<close>: refused, already recorded, recorded now.\<close>

lemma RecordJobEvent_cases:
  assumes "RecordJobEvent agent jobID request tm st = (res, st')"
  obtains (refused) e where "res = Inl e" "st' = st"
  | (repeated) job event where "res = Inr (job, event)" "st' = st" "valid_agent agent"
      "JobStore_jobs st (Agent_Scope agent, jobID) = Some job" "Job_AgentID job = Agent_ID agent"
      "EventRequest_Sequence request \<le> Job_LastSequence job"
      "event \<in> set (events_at st (Agent_Scope agent, jobID))" "same_report request event"
  | (recorded) job job' event where "res = Inr (job', event)" "valid_agent agent"
      "JobStore_jobs st (Agent_Scope agent, jobID) = Some job" "Job_AgentID job = Agent_ID agent"
      "Job_Status job = StatusRunning" "EventRequest_Sequence request = Job_LastSequence job + 1"
      "job' = job\<lparr>Job_Status := status_after (EventRequest_Type request) StatusRunning,
                   Job_LastSequence := Job_LastSequence job + 1\<rparr>"
      "event = agent_event agent jobID (Job_LastSequence job + 1) (EventRequest_Type request)
                 (EventRequest_Message request) tm"
      "st' = put_job (Agent_Scope agent, jobID) job'
               (events_at st (Agent_Scope agent, jobID) @ [event]) st"
proof (cases "Agent_Validate agent")
  case None
  let ?key = "(Agent_Scope agent, jobID)"
  show ?thesis
  proof (cases "JobStore_jobs st ?key")
    case (Some job)
    note job = this
    show ?thesis
    proof (cases "Job_AgentID job = Agent_ID agent")
      case True
      note agent = this
      show ?thesis
      proof (cases "EventRequest_Sequence request \<le> Job_LastSequence job")
        case True
        show ?thesis
        proof (cases "find (same_report request) (events_at st ?key)")
          case (Some event)
          then have "event \<in> set (events_at st ?key)" "same_report request event"
            by (auto simp: find_Some_iff)
          with assms None job agent True Some show ?thesis
            by (intro repeated [of job event]) (simp_all add: RecordJobEvent_def)
        qed (use assms None job agent True in \<open>auto simp: RecordJobEvent_def intro: refused\<close>)
      next
        case False
        show ?thesis
        proof (cases "Job_Status job = StatusRunning
            \<and> EventRequest_Sequence request = Job_LastSequence job + 1")
          case True
          with assms None job agent False show ?thesis
            by (intro recorded [OF _ None job agent _ _ refl refl])
              (simp_all add: RecordJobEvent_def Let_def)
        qed (use assms None job agent False in \<open>auto simp: RecordJobEvent_def intro: refused\<close>)
      qed
    qed (use assms None job in \<open>auto simp: RecordJobEvent_def intro: refused\<close>)
  qed (use assms None in \<open>auto simp: RecordJobEvent_def intro: refused\<close>)
qed (use assms in \<open>auto simp: RecordJobEvent_def intro: refused\<close>)

abbreviation trim_report :: "EventRequest \<Rightarrow> EventRequest" where
  "trim_report request \<equiv> request\<lparr>EventRequest_Message := trim_space (EventRequest_Message request)\<rparr>"

definition report_types :: "JobEventType set" where
  "report_types = {EventOutput, EventSucceeded, EventFailed}"

lemma Jobs_Report_cases:
  assumes "Jobs_Report now agent jobID request st = (res, st')"
  obtains (refused) e where "res = Inl e" "st' = st"
  | (stored) job event where "res = Inr job" "valid_agent agent"
      "EventRequest_Type request \<in> report_types" "2 \<le> EventRequest_Sequence request"
      "RecordJobEvent agent (trim_space jobID) (trim_report request) now st = (Inr (job, event), st')"
proof (cases "RecordJobEvent agent (trim_space jobID) (trim_report request) now st")
  case (Pair out s)
  show ?thesis
  proof (cases out)
    case (Inl e)
    from Pair have "s = st" by (cases rule: RecordJobEvent_cases) (use Inl in auto)
    with assms Pair Inl show ?thesis
      by (auto simp: Jobs_Report_def Let_def intro: refused split: option.splits if_splits)
  next
    case (Inr je)
    with assms Pair show ?thesis
      by (cases je) (auto simp: Jobs_Report_def Let_def report_types_def
          intro: refused stored split: option.splits if_splits)
  qed
qed

lemma job_next_report:
  "t \<in> report_types \<Longrightarrow> job_next t StatusRunning = Some (status_after t StatusRunning)"
  by (auto simp: report_types_def status_after_def)

lemma RecordJobEvent_inv:
  assumes "RecordJobEvent agent jobID request tm st = (res, st')" "job_inv st"
    and "EventRequest_Type request \<in> report_types"
  shows "job_inv st'"
  using assms(1)
proof (cases rule: RecordJobEvent_cases)
  case (recorded old new event)
  note inv = job_invD [OF assms(2) recorded(3)]
  then have key: "Job_Scope old = Agent_Scope agent" "Job_ID old = jobID"
    "valid_scope (Job_Scope old)" "hex32_pattern (Job_ID old)" by (simp_all add: job_at_key_def)
  have "job_log_ok new (events_at st (Agent_Scope agent, jobID) @ [event])"
    using inv(2) recorded assms(3) key
    by (intro job_log_ok_append) (auto simp: job_next_report dest!: scope_of_agent)
  moreover have "Job_AgentID other \<noteq> Job_AgentID new"
    if "k \<noteq> (Agent_Scope agent, jobID)" "JobStore_jobs st k = Some other"
      "Job_Status other = StatusRunning" "Job_Scope other = Job_Scope new" for k other
    using that assms(2) recorded(3,5,7) unfolding job_inv_def one_running_def by auto
  ultimately show ?thesis
    unfolding recorded(9) using assms(2) key recorded(7)
    by (intro job_inv_put) (auto simp: job_at_key_def)
qed (use assms(2) in simp_all)

lemma report_inv:
  assumes "job_inv st" and "Jobs_Report now agent jobID request st = (res, st')"
  shows "job_inv st'"
  using assms(2)
proof (cases rule: Jobs_Report_cases)
  case (stored job event)
  from stored(5) assms(1) show ?thesis by (rule RecordJobEvent_inv) (use stored(3) in simp)
qed (use assms(1) in simp)

lemma job_step_inv: "job_step ed fmt service st st' \<Longrightarrow> job_inv st \<Longrightarrow> job_inv st'"
  by (induction rule: job_step.induct) (blast intro: create_inv claim_inv report_inv)+

lemma job_reach_inv: "job_reach ed fmt service st \<Longrightarrow> job_inv st"
  by (induction rule: job_reach.induct) (simp_all add: job_inv_init job_step_inv)

section \<open>What a step may change\<close>

text \<open>
  Logs only grow, the signed fields and the signature of a job never change, and a job
  that ended stays as it is.
\<close>

definition job_extends :: "JobStore \<Rightarrow> JobStore \<Rightarrow> bool" where
  "job_extends st st' \<longleftrightarrow>
     (\<forall>key job. JobStore_jobs st key = Some job \<longrightarrow>
        (\<exists>job' es. JobStore_jobs st' key = Some job' \<and> events_at st' key = events_at st key @ es
           \<and> job' = job\<lparr>Job_Status := Job_Status job', Job_LastSequence := Job_LastSequence job'\<rparr>
           \<and> Job_LastSequence job' = Job_LastSequence job + int (length es)
           \<and> (terminal (Job_Status job) \<longrightarrow> job' = job \<and> es = [])))"

lemma job_extends_refl: "job_extends st st"
  by (simp add: job_extends_def)

lemma job_extends_put:
  assumes "JobStore_jobs st key = Some job" and "\<not> terminal (Job_Status job)"
    and "job' = job\<lparr>Job_Status := s, Job_LastSequence := Job_LastSequence job + 1\<rparr>"
  shows "job_extends st (put_job key job' (events_at st key @ [e]) st)"
  using assms by (auto simp: job_extends_def)

lemma job_extends_new:
  assumes "JobStore_jobs st key = None"
  shows "job_extends st (put_job key job es st)"
  using assms by (auto simp: job_extends_def)

lemma job_step_extends:
  assumes "job_step ed fmt service st st'" and "job_inv st"
  shows "job_extends st st'"
  using assms
proof (induction rule: job_step.induct)
  case (create r now scope agentID request st res st')
  show ?case
  proof (cases res)
    case (Inl e)
    with create show ?thesis by (metis Jobs_Create_Inl job_extends_refl)
  next
    case (Inr job)
    with create.hyps(1) have st': "st' = put_job (scope, Job_ID job) job [approved_event job] st"
      and jid: "\<exists>jid. rand_hex 16 r = Inr jid \<and> Job_ID job = jid"
      by (auto simp: Jobs_Create_Inr)
    show ?thesis unfolding st' using jid create.hyps(2) by (intro job_extends_new) auto
  qed
next
  case (claim it1 it2 now agent st res st')
  show ?case
  proof (cases "Agent_Validate agent")
    case None
    with claim.hyps(1)
    have "ClaimNextJob it1 it2 agent now (now - JobsService_jobLease service) st = (res, st')"
      by (simp add: Jobs_ClaimNext_def)
    then show ?thesis
      using claim.prems claim.hyps(2,3)
    proof (cases rule: ClaimNextJob_cases)
      case (claimed job job' key)
      have queued: "Job_Status job = StatusQueued" using claimed(5) by (simp add: is_candidate_iff)
      then have "Job_LastSequence job = 0"
        using job_invD(2) [OF claim.prems claimed(4)] job_log_ok_queued by blast
      with claimed(2) have "job' = job\<lparr>Job_Status := StatusRunning,
          Job_LastSequence := Job_LastSequence job + 1\<rparr>" by simp
      then show ?thesis
        unfolding claimed(6) using queued
        by (intro job_extends_put [OF claimed(4)]) (simp_all add: terminal_def)
    qed (simp_all add: job_extends_refl)
  qed (use claim.hyps(1) in \<open>simp add: Jobs_ClaimNext_def job_extends_refl\<close>)
next
  case (report now agent jobID request st res st')
  from report.hyps show ?case
  proof (cases rule: Jobs_Report_cases)
    case (stored job event)
    from stored(5) show ?thesis
    proof (cases rule: RecordJobEvent_cases)
      case (recorded old new event)
      then show ?thesis
        unfolding recorded(9)
        by (intro job_extends_put [OF recorded(3) _ recorded(7)]) (simp add: terminal_def)
    qed (simp_all add: job_extends_refl)
  qed (simp add: job_extends_refl)
qed

text \<open>Any number of steps.\<close>

inductive job_steps :: "Ed25519 \<Rightarrow> rfc3339 \<Rightarrow> JobsService \<Rightarrow> JobStore \<Rightarrow> JobStore \<Rightarrow> bool"
  for ed fmt service where
  none: "job_steps ed fmt service st st"
| more: "job_steps ed fmt service st st' \<Longrightarrow> job_step ed fmt service st' st'' \<Longrightarrow>
    job_steps ed fmt service st st''"

lemma job_steps_inv: "job_steps ed fmt service st st' \<Longrightarrow> job_inv st \<Longrightarrow> job_inv st'"
  by (induction rule: job_steps.induct) (auto intro: job_step_inv)

lemma job_steps_keep:
  assumes "job_steps ed fmt service st st'" and "job_inv st" and "JobStore_jobs st key = Some job"
  shows "\<exists>job' es. JobStore_jobs st' key = Some job' \<and> events_at st' key = events_at st key @ es
    \<and> job' = job\<lparr>Job_Status := Job_Status job', Job_LastSequence := Job_LastSequence job'\<rparr>
    \<and> (terminal (Job_Status job) \<longrightarrow> job' = job \<and> es = [])"
  using assms
proof (induction rule: job_steps.induct)
  case (none st)
  then show ?case by auto
next
  case (more st st' st'')
  then obtain job' es where one: "JobStore_jobs st' key = Some job'"
    "events_at st' key = events_at st key @ es"
    "job' = job\<lparr>Job_Status := Job_Status job', Job_LastSequence := Job_LastSequence job'\<rparr>"
    "terminal (Job_Status job) \<longrightarrow> job' = job \<and> es = []" by blast
  have "job_extends st' st''"
    using more.hyps job_steps_inv more.prems(1) by (blast intro: job_step_extends)
  with one(1) obtain job'' fs where two: "JobStore_jobs st'' key = Some job''"
    "events_at st'' key = events_at st' key @ fs"
    "job'' = job'\<lparr>Job_Status := Job_Status job'', Job_LastSequence := Job_LastSequence job''\<rparr>"
    "terminal (Job_Status job') \<longrightarrow> job'' = job' \<and> fs = []"
    unfolding job_extends_def by blast
  have "job'' = job\<lparr>Job_Status := Job_Status job'', Job_LastSequence := Job_LastSequence job''\<rparr>"
    by (subst two(3), subst one(3)) simp
  then show ?case using one two by auto
qed

section \<open>Reports can be repeated\<close>

lemma RecordJobEvent_repeat:
  assumes inv: "job_inv st" and "RecordJobEvent agent jobID request tm st = (Inr (job, event), st')"
  shows "\<exists>event'. RecordJobEvent agent jobID request tm' st' = (Inr (job, event'), st')
    \<and> same_report request event'"
  using assms(2)
proof (cases rule: RecordJobEvent_cases)
  case (repeated j e)
  then obtain e' where e': "find (same_report request) (events_at st (Agent_Scope agent, jobID)) = Some e'"
    by (metis find_None_iff not_None_eq)
  then have "same_report request e'" by (auto simp: find_Some_iff)
  with repeated e' show ?thesis by (simp add: RecordJobEvent_def)
next
  case (recorded old new e)
  have "same_report request e" using recorded(6,8) by (simp add: same_report_def)
  then obtain e' where e': "find (same_report request) (events_at st (Agent_Scope agent, jobID) @ [e]) = Some e'"
    by (metis find_None_iff not_None_eq in_set_conv_decomp)
  then have "same_report request e'" by (auto simp: find_Some_iff)
  with recorded e' show ?thesis by (simp add: RecordJobEvent_def Let_def)
qed simp

section \<open>Jobs are finished\<close>

text \<open>
  An agent with a queued job and none running gets one, and a report that it succeeded or
  failed ends it.
\<close>

lemma claim_gets_job:
  assumes inv: "job_inv st" and it: "ranges it1 (JobStore_jobs st)" "ranges it2 (JobStore_jobs st)"
    and agent: "valid_agent agent"
    and queued: "JobStore_jobs st key = Some other" "is_candidate agent StatusQueued other"
    and none_running: "\<And>key job. JobStore_jobs st key = Some job \<Longrightarrow> \<not> is_candidate agent StatusRunning job"
  obtains job st' where "Jobs_ClaimNext service it1 it2 now agent st = (Inr (Some job), st')"
    "job_inv st'" "JobStore_jobs st' (Agent_Scope agent, Job_ID job) = Some job"
    "Job_AgentID job = Agent_ID agent" "Job_Status job = StatusRunning" "Job_LastSequence job = 1"
    "hex32_pattern (Job_ID job)"
proof -
  obtain res st' where out: "Jobs_ClaimNext service it1 it2 now agent st = (res, st')" by fastforce
  then have "ClaimNextJob it1 it2 agent now (now - JobsService_jobLease service) st = (res, st')"
    using agent by (simp add: Jobs_ClaimNext_def)
  then show thesis
    using inv it
  proof (cases rule: ClaimNextJob_cases)
    case (claimed job job' key)
    show thesis
    proof (rule that [of job' st'])
      show "job_inv st'" using inv out it by (rule claim_inv)
      show "hex32_pattern (Job_ID job')"
        using job_invD(1) [OF inv claimed(4)] claimed(2) by (simp add: job_at_key_def)
    qed (use claimed out in \<open>auto simp: is_candidate_iff\<close>)
  qed (use agent queued none_running in auto)
qed

lemma report_finishes:
  assumes "valid_agent agent" "JobStore_jobs st (Agent_Scope agent, jid) = Some job"
    and "Job_AgentID job = Agent_ID agent" "Job_Status job = StatusRunning"
    and "trim_space jid = jid" "jid \<noteq> []" "trim_space m \<noteq> []" "length (trim_space m) \<le> 32 * 1024"
    and "t = EventSucceeded \<or> t = EventFailed" "1 \<le> Job_LastSequence job"
  shows "\<exists>job' st'. Jobs_Report now agent jid
      \<lparr>EventRequest_Sequence = Job_LastSequence job + 1, EventRequest_Type = t, EventRequest_Message = m\<rparr> st
      = (Inr job', st') \<and> JobStore_jobs st' (Agent_Scope agent, jid) = Some job' \<and> terminal (Job_Status job')"
  using assms
  by (auto simp: Jobs_Report_def RecordJobEvent_def Let_def terminal_def status_after_def)

section \<open>Listings\<close>

definition job_list_ok :: "Job sorter \<times> (jobKey \<times> Job) list \<times> string \<times> int \<Rightarrow> JobStore \<Rightarrow> bool" where
  "job_list_ok q st = (case q of (srt, it, _) \<Rightarrow> slice_sort srt \<and> ranges it (JobStore_jobs st))"

text \<open>
  The rows of a listing: the agent's jobs in the scope, newest first, the oldest left out
  when there are more than the limit.
\<close>

definition agent_jobs :: "Scope \<Rightarrow> string \<Rightarrow> (jobKey \<times> Job) list \<Rightarrow> Job list" where
  "agent_jobs scope agentID it =
     filter (\<lambda>job. Job_Scope job = scope \<and> Job_AgentID job = agentID) (map snd it)"

lemma Jobs_List_rows:
  assumes "slice_sort srt" and "Jobs_List srt it scope agentID limit = Inr rows"
  shows "1 \<le> limit \<and> limit \<le> 200 \<and> top_of (\<lambda>l r. Job_RequestedAt r < Job_RequestedAt l) (nat limit)
           (agent_jobs scope (trim_space agentID) it) rows"
proof -
  have mine: "filter (\<lambda>job. Job_AgentID job = trim_space agentID
      \<and> Job_OrganizationID job = Scope_OrganizationID scope \<and> Job_SiteID job = Scope_SiteID scope) (map snd it)
      = agent_jobs scope (trim_space agentID) it"
    unfolding agent_jobs_def by (rule filter_cong) (auto simp: scope_eq_iff)
  have "rows = take (nat limit) (srt (\<lambda>l r. Job_RequestedAt r < Job_RequestedAt l)
      (agent_jobs scope (trim_space agentID) it))" and "1 \<le> limit" "limit \<le> 200"
    using assms(2) by (auto simp: Jobs_List_def ListJobs_def mine Let_def split: option.splits if_splits)
  then show ?thesis using slice_sort.take_srt [OF assms(1)] by simp
qed

lemma agent_jobs_stored:
  assumes "ranges it m" "job \<in> set (agent_jobs scope agentID it)"
  shows "job \<in> ran m \<and> Job_Scope job = scope \<and> Job_AgentID job = agentID"
  using assms ranges_values [OF assms(1)] by (auto simp: agent_jobs_def)

lemma Jobs_List_rejects: "Scope_Validate scope = Some e \<Longrightarrow> Jobs_List srt it scope agentID limit = Inl e"
  by (simp add: Jobs_List_def)

interpretation job_listing: scoped_listing
  "\<lambda>(srt, it, agentID, limit) scope (st :: JobStore). Jobs_List srt it scope agentID limit"
  job_list_ok "\<lambda>st job. job \<in> ran (JobStore_jobs st)" Job_Scope
proof
  show "Scope_Validate scope = Some e \<Longrightarrow>
      (case q of (srt, it, agentID, limit) \<Rightarrow> \<lambda>scope st. Jobs_List srt it scope agentID limit) scope st = Inl e"
    for scope e q and st :: JobStore
    by (simp add: Jobs_List_rejects split: prod.splits)
next
  fix q :: "Job sorter \<times> (jobKey \<times> Job) list \<times> string \<times> int" and scope rows row and st :: JobStore
  assume ok: "job_list_ok q st" and row: "row \<in> set rows"
    and "(case q of (srt, it, agentID, limit) \<Rightarrow> \<lambda>scope st. Jobs_List srt it scope agentID limit) scope st = Inr rows"
  then obtain srt it agentID limit where "slice_sort srt" "ranges it (JobStore_jobs st)"
    "Jobs_List srt it scope agentID limit = Inr rows"
    by (cases q) (auto simp: job_list_ok_def)
  with Jobs_List_rows row have "row \<in> set (agent_jobs scope (trim_space agentID) it)"
    using top_of_set by blast
  with \<open>ranges it (JobStore_jobs st)\<close> show "row \<in> ran (JobStore_jobs st) \<and> Job_Scope row = scope"
    by (blast dest: agent_jobs_stored)
qed

end
