(* ===== verification/Jobs_Properties.thy ===== *)
theory Jobs_Properties
  imports Jobs_Lifecycle
begin

text \<open>
  The properties of the job queue, each with the concrete run that shows its hypotheses
  can hold: one service, one host, one approved restart of a unit.
\<close>

section \<open>A concrete run\<close>

definition ex_ed :: Ed25519 where
  "ex_ed = \<lparr>Ed_Sign = (\<lambda>k m. m), Ed_Verify = (\<lambda>p m s. s = m)\<rparr>"

definition ex_service :: JobsService where
  "ex_service =
     \<lparr>JobsService_privateKey = replicate 64 (CHR ''k''), JobsService_publicKey = replicate 32 (CHR ''p''),
      JobsService_jobLease = defaultJobLease, JobsService_hostExists = Some (\<lambda>scope agentID. Inr True)\<rparr>"

definition ex_request :: CreateRequest where
  "ex_request = \<lparr>CreateRequest_Action = ActionServiceRestart, CreateRequest_Target = ''nginx.service'',
     CreateRequest_ApprovedBy = ''alice'', CreateRequest_Reason = ''patch''\<rparr>"

definition ex_agent :: Agent where
  "ex_agent = \<lparr>Agent_ID = ''web-1'', Agent_OrganizationID = DefaultOrganizationID, Agent_SiteID = DefaultSiteID\<rparr>"

definition ex_entropy :: entropy where "ex_entropy = Some (\<lambda>i. CHR ''a'')"
definition ex_id :: string where "ex_id = hex_encode (replicate 16 (CHR ''a''))"

definition ex_job :: Job where
  "ex_job = sign_job ex_ed itoa ex_service
     (unsigned_job ex_service ex_id DefaultScope ''web-1'' ex_request 5000)"

definition ex_key :: jobKey where "ex_key = (DefaultScope, ex_id)"

definition ex_store :: JobStore where
  "ex_store = put_job ex_key ex_job [approved_event ex_job] NewJobStore"

lemma ex_rand: "rand_hex 16 ex_entropy = Inr ex_id"
  by (simp add: rand_hex_def ex_entropy_def ex_id_def map_replicate_const)

lemma ex_trim:
  "trim_space ''web-1'' = ''web-1''" "trim_space ''nginx.service'' = ''nginx.service''"
  "trim_space ''alice'' = ''alice''" "trim_space ''patch'' = ''patch''"
  by (rule trim_space_plain; simp add: plain_char_def)+

lemma ex_trim_request: "trim_request ex_request = ex_request"
  by (simp add: trim_request_def ex_request_def ex_trim)

lemma ex_valid_request: "\<not> invalid_request ''web-1'' ex_request"
  by (simp add: invalid_request_def ex_request_def validActionTarget_def serviceTargetPattern_def
      target_char_def has_prefix_def Let_def)

lemma ex_create:
  "Jobs_Create ex_ed itoa ex_service ex_entropy 5000 DefaultScope ''web-1'' ex_request NewJobStore
     = (Inr ex_job, ex_store)"
  by (simp add: Jobs_Create_Inr ex_trim ex_trim_request ex_valid_request ex_rand)
    (simp add: host_exists_def ex_service_def ex_store_def ex_key_def ex_job_def)

lemma ex_reach: "job_reach ex_ed itoa ex_service ex_store"
  by (rule job_reach.step [OF job_reach.init job_step.create [OF ex_create]]) (simp add: NewJobStore_def)

lemma ex_agent_simps [simp]: "Agent_Scope ex_agent = DefaultScope" "Agent_ID ex_agent = ''web-1''"
  by (simp_all add: ex_agent_def Agent_Scope_def DefaultScope_def)

lemma ex_valid_agent [simp]: "valid_agent ex_agent"
  by (simp add: Agent_Validate_def ex_trim nul_def)

lemma ex_ranges: "ranges [(ex_key, ex_job)] (JobStore_jobs ex_store)"
  by (simp add: ex_store_def NewJobStore_def)

lemma ex_keypair: "keypair ex_ed ex_service" "unforgeable ex_ed ex_service"
  by (simp_all add: keypair_def unforgeable_def ex_ed_def ex_service_def PublicKeySize_def)

lemma inj_itoa: "inj itoa"
proof (rule injI)
  fix i j assume "itoa i = itoa j"
  then have eq: "itoa i @ CHR '','' # [] = itoa j @ CHR '','' # []" by simp
  have "\<not> byte_in 48 57 (CHR '','')" by (simp add: byte_in_def)
  from itoa_prefix_free [OF eq this this] show "i = j" by simp
qed

lemma ascii_json_digits: "valid_utf8 (itoa i)"
proof (rule valid_utf8_ascii)
  have "is_ascii (dec_nat n)" for n
    using dec_nat_digits [of n] by (auto simp: is_ascii_def list_all_iff byte_in_def)
  then show "is_ascii (itoa i)" by (simp add: itoa_def is_ascii_def)
qed

lemma ex_signable: "signable itoa ex_job"
proof -
  have "is_ascii ex_id"
    using hex_encode_lower [of "replicate 16 (CHR ''a'')"]
    by (auto simp: ex_id_def is_ascii_def list_all_iff is_lower_hex_def Let_def)
  then show ?thesis
    by (simp add: signable_def ascii_json_digits ex_job_def unsigned_job_def ex_request_def
        DefaultScope_def DefaultOrganizationID_def DefaultSiteID_def ActionServiceRestart_def
        valid_utf8_ascii is_ascii_def)
qed

section \<open>Properties\<close>

text \<open>
  Creating a job. \<open>Create\<close> succeeds exactly when the scope is valid, the trimmed
  request is complete, within its bounds and names an allowed action and target, the host
  exists in that scope and random bytes were read. It then stores one queued job under
  that scope and identifier with the trimmed fields, the creation time in microseconds, a
  fresh 32-digit identifier and one approval event naming who approved it. Otherwise it
  stores nothing.
\<close>

theorem job_create_spec:
  "case Jobs_Create ed fmt service r now scope agentID request st of
     (Inl e, st') \<Rightarrow> st' = st \<and>
       \<not> (valid_scope scope \<and> \<not> invalid_request (trim_space agentID) (trim_request request)
          \<and> host_exists service scope (trim_space agentID) = Inr True \<and> r \<noteq> None)
   | (Inr job, st') \<Rightarrow>
       valid_scope scope \<and> \<not> invalid_request (trim_space agentID) (trim_request request)
       \<and> host_exists service scope (trim_space agentID) = Inr True
       \<and> rand_hex 16 r = Inr (Job_ID job) \<and> hex32_pattern (Job_ID job)
       \<and> job = sign_job ed fmt service
             (unsigned_job service (Job_ID job) scope (trim_space agentID) (trim_request request) now)
       \<and> st' = put_job (scope, Job_ID job) job [approved_event job] st"
proof (cases "Jobs_Create ed fmt service r now scope agentID request st")
  case (Pair res st')
  show ?thesis
  proof (cases res)
    case (Inl e)
    have "\<not> (valid_scope scope \<and> \<not> invalid_request (trim_space agentID) (trim_request request)
          \<and> host_exists service scope (trim_space agentID) = Inr True \<and> r \<noteq> None)"
    proof
      assume "valid_scope scope \<and> \<not> invalid_request (trim_space agentID) (trim_request request)
          \<and> host_exists service scope (trim_space agentID) = Inr True \<and> r \<noteq> None"
      with Pair Inl show False
        by (auto simp: Jobs_Create_def Let_def CreateJob_approved rand_hex_def)
    qed
    with Pair Inl show ?thesis by (simp add: Jobs_Create_Inl)
  next
    case (Inr job)
    with Pair have "Jobs_Create ed fmt service r now scope agentID request st = (Inr job, st')" by simp
    then have "valid_scope scope \<and> \<not> invalid_request (trim_space agentID) (trim_request request)
       \<and> host_exists service scope (trim_space agentID) = Inr True
       \<and> rand_hex 16 r = Inr (Job_ID job) \<and> hex32_pattern (Job_ID job)
       \<and> job = sign_job ed fmt service
             (unsigned_job service (Job_ID job) scope (trim_space agentID) (trim_request request) now)
       \<and> st' = put_job (scope, Job_ID job) job [approved_event job] st"
      by (auto simp: Jobs_Create_Inr rand_hex_hex32)
    then show ?thesis unfolding Pair Inr by simp
  qed
qed

text \<open>
  C2. What a signature authorises. Take a job the hub created and any job that carries its
  key and signature. With a signature scheme that verifies its own signatures and no
  other's, and signed strings that are valid UTF-8, the agent's check \<open>Verify\<close> accepts it
  exactly when identifier, organization, site, agent, action, target, approver, reason and
  time are those of the created job: a job moved to another site or changed in any of them
  is refused, and the compatibility with the older payload gives no way around it.
  (\<open>docs/API.md\<close> still describes the older payload, without organization and site.)
\<close>

theorem job_signature_binds:
  assumes "keypair ed service" and "unforgeable ed service" and "inj fmt"
    and "Jobs_Create ed fmt service r now scope agentID request st = (Inr job, st')"
    and "Job_SigningPublicKey other = Job_SigningPublicKey job"
    and "Job_Signature other = Job_Signature job"
    and "signable fmt job" and "signable fmt other"
  shows "Verify ed fmt other \<longleftrightarrow> same_signed_fields other job"
proof -
  obtain plain where plain: "job = sign_job ed fmt service plain"
    "Job_SigningPublicKey plain = b64_encode (JobsService_publicKey service)"
    using assms(4) by (auto simp: Jobs_Create_Inr)
  show ?thesis
  proof
    assume "Verify ed fmt other"
    with assms plain show "same_signed_fields other job"
      by (intro Verify_binds [OF assms(2) plain(1)]) simp_all
  next
    assume same: "same_signed_fields other job"
    then have "signingPayload fmt other = signingPayload fmt plain"
      by (simp add: same_signed_fields_def signingPayload_def plain)
    then show "Verify ed fmt other"
      using assms(1,5,6) plain
      by (simp add: Verify_def b64_roundtrip keypair_def) (simp add: sign_job_def b64_roundtrip)
  qed
qed

theorem job_signature_binds_witness:
  "Verify ex_ed itoa ex_job
   \<and> \<not> Verify ex_ed itoa (ex_job\<lparr>Job_SiteID := ''site_other''\<rparr>)"
proof -
  note binds = job_signature_binds [OF ex_keypair inj_itoa ex_create]
  have "signable itoa (ex_job\<lparr>Job_SiteID := ''site_other''\<rparr>)"
    using ex_signable by (simp add: signable_def valid_utf8_ascii is_ascii_def)
  moreover have "Job_SiteID ex_job = DefaultSiteID"
    by (simp add: ex_job_def unsigned_job_def DefaultScope_def)
  ultimately show ?thesis
    using binds [of ex_job] binds [of "ex_job\<lparr>Job_SiteID := ''site_other''\<rparr>"] ex_signable
    by (simp add: same_signed_fields_def DefaultSiteID_def)
qed

text \<open>
  C3. The state machine. In every store the operations can reach, each job is kept under
  its own scope and identifier, its status is the one its event log leads to in the
  automaton approved, claimed, output*, succeeded or failed, the events are numbered
  0, 1, 2, ... up to its last sequence and carry its scope and identifier, and no agent has
  two running jobs.
\<close>

theorem job_lifecycle_invariant:
  assumes "job_reach ed fmt service st"
  shows "job_inv st"
  using assms by (rule job_reach_inv)

theorem job_lifecycle_invariant_witness:
  "job_inv ex_store \<and> JobStore_jobs ex_store ex_key = Some ex_job \<and> Job_Status ex_job = StatusQueued"
  using job_lifecycle_invariant [OF ex_reach] by (simp add: ex_store_def ex_job_def)

text \<open>
  Nothing recorded is lost or rewritten. Through any sequence of operations a stored
  job keeps its scope, agent, action, target, approval and signature, its log only grows
  at the end, and once it succeeded or failed neither it nor its log changes again.
\<close>

theorem job_history_append_only:
  assumes "job_reach ed fmt service st" and "job_steps ed fmt service st st'"
    and "JobStore_jobs st key = Some job"
  shows "\<exists>job' es. JobStore_jobs st' key = Some job' \<and> events_at st' key = events_at st key @ es
    \<and> job' = job\<lparr>Job_Status := Job_Status job', Job_LastSequence := Job_LastSequence job'\<rparr>
    \<and> (terminal (Job_Status job) \<longrightarrow> job' = job \<and> es = [])"
  using assms(2) job_reach_inv [OF assms(1)] assms(3) by (rule job_steps_keep)

lemma ex_steps:
  "job_steps ex_ed itoa ex_service ex_store
     (snd (Jobs_ClaimNext ex_service [(ex_key, ex_job)] [(ex_key, ex_job)] 9000 ex_agent ex_store))"
  by (rule job_steps.more [OF job_steps.none job_step.claim])
    (auto simp: ex_ranges intro: surjective_pairing)

theorem job_history_append_only_witness:
  "\<exists>job' es. JobStore_jobs
       (snd (Jobs_ClaimNext ex_service [(ex_key, ex_job)] [(ex_key, ex_job)] 9000 ex_agent ex_store)) ex_key = Some job'
     \<and> Job_Signature job' = Job_Signature ex_job
     \<and> events_at (snd (Jobs_ClaimNext ex_service [(ex_key, ex_job)] [(ex_key, ex_job)] 9000 ex_agent ex_store)) ex_key
         = approved_event ex_job # es"
proof -
  have "JobStore_jobs ex_store ex_key = Some ex_job" by (simp add: ex_store_def)
  moreover have "events_at ex_store ex_key = [approved_event ex_job]" by (simp add: ex_store_def)
  ultimately show ?thesis
    using job_history_append_only [OF ex_reach ex_steps, of ex_key ex_job]
    by (metis Job.select_convs(12) Job.surjective Job.update_convs(10,11) append_Cons append_Nil)
qed

text \<open>
  Which job an agent gets. Whatever the order in which the map is visited, a claim
  returns a job of that agent in its scope. Either it was running already, every claim of
  it is at least one lease old, and it comes back marked as resumed with the store
  unchanged; or no job of the agent is running, no queued job of the agent was requested
  earlier (or at the same time with a smaller identifier), and the job becomes running
  with one claim event at the end of its log.
\<close>

theorem job_claim_spec:
  assumes "job_reach ed fmt service st"
    and "ranges it1 (JobStore_jobs st)" and "ranges it2 (JobStore_jobs st)"
    and "Jobs_ClaimNext service it1 it2 now agent st = (Inr (Some job), st')"
  shows "\<exists>old. JobStore_jobs st (Agent_Scope agent, Job_ID job) = Some old
    \<and> Job_AgentID old = Agent_ID agent
    \<and> (Job_Status old = StatusRunning \<and> job = old\<lparr>Job_Resumed := True\<rparr> \<and> st' = st
         \<and> (\<forall>e \<in> set (events_at st (Agent_Scope agent, Job_ID job)).
              JobEvent_Type e = EventClaimed \<longrightarrow> JobEvent_OccurredAt e + JobsService_jobLease service \<le> now)
       \<or> Job_Status old = StatusQueued
         \<and> job = old\<lparr>Job_Status := StatusRunning, Job_LastSequence := 1\<rparr>
         \<and> st' = put_job (Agent_Scope agent, Job_ID job) job
               (events_at st (Agent_Scope agent, Job_ID job) @
                 [agent_event agent (Job_ID job) 1 EventClaimed ''agent claimed job'' now]) st
         \<and> (\<forall>key other. JobStore_jobs st key = Some other \<and> Job_Scope other = Agent_Scope agent
                \<and> Job_AgentID other = Agent_ID agent \<longrightarrow>
                Job_Status other \<noteq> StatusRunning
                \<and> (Job_Status other = StatusQueued \<longrightarrow> \<not> job_before other old)))"
proof (cases "Agent_Validate agent")
  case None
  with assms(4)
  have "ClaimNextJob it1 it2 agent now (now - JobsService_jobLease service) st = (Inr (Some job), st')"
    by (simp add: Jobs_ClaimNext_def)
  then show ?thesis
    using job_reach_inv [OF assms(1)] assms(2,3)
  proof (cases rule: ClaimNextJob_cases)
    case (resumed old)
    then show ?thesis by (intro exI [of _ old]) (auto simp: is_candidate_iff algebra_simps)
  next
    case (claimed old job' key)
    have "Job_AgentID old = Agent_ID agent" "Job_Status old = StatusQueued"
      using claimed(5) by (simp_all add: is_candidate_iff)
    moreover have "Job_Status other \<noteq> StatusRunning
        \<and> (Job_Status other = StatusQueued \<longrightarrow> \<not> job_before other old)"
      if "JobStore_jobs st k = Some other" "Job_Scope other = Agent_Scope agent"
        "Job_AgentID other = Agent_ID agent" for k other
      using claimed(7) [OF that(1)] claimed(8) [OF that(1)] that(2,3) by (auto simp: is_candidate_iff)
    ultimately show ?thesis using claimed(1-4,6) by (intro exI [of _ old]) auto
  qed auto
qed (use assms(4) in \<open>simp add: Jobs_ClaimNext_def\<close>)

definition ex_running :: Job where
  "ex_running = ex_job\<lparr>Job_Status := StatusRunning, Job_LastSequence := 1\<rparr>"

lemma ex_claim:
  "Jobs_ClaimNext ex_service [(ex_key, ex_job)] [(ex_key, ex_job)] 9000 ex_agent ex_store
     = (Inr (Some ex_running), put_job ex_key ex_running
          [approved_event ex_job, agent_event ex_agent ex_id 1 EventClaimed ''agent claimed job'' 9000] ex_store)"
proof -
  have "\<not> is_candidate ex_agent StatusRunning ex_job" "is_candidate ex_agent StatusQueued ex_job"
    "Job_ID ex_job = ex_id"
    by (simp_all add: is_candidate_iff ex_job_def)
  then show ?thesis
    by (simp add: Jobs_ClaimNext_def ClaimNextJob_def Let_def ex_running_def ex_key_def)
      (simp add: ex_store_def ex_key_def)
qed

theorem job_claim_spec_witness:
  "\<exists>old. JobStore_jobs ex_store (DefaultScope, ex_id) = Some old \<and> Job_AgentID old = ''web-1''
     \<and> Job_Status old = StatusQueued"
proof -
  have jid: "Job_ID ex_running = ex_id" by (simp add: ex_running_def ex_job_def)
  have "Job_Status ex_job \<noteq> StatusRunning" by (simp add: ex_job_def)
  then show ?thesis
    using job_claim_spec [OF ex_reach ex_ranges ex_ranges ex_claim] jid by (auto simp: ex_store_def ex_key_def)
qed

text \<open>
  A report can be sent again. When a report was accepted, sending the same report
  again, at any later time, returns the same job and leaves the store as it is, so an
  agent that lost the answer may retry.
\<close>

theorem job_report_idempotent:
  assumes "job_reach ed fmt service st"
    and "Jobs_Report now agent jobID request st = (Inr job, st')"
  shows "Jobs_Report now' agent jobID request st' = (Inr job, st')"
  using assms(2)
proof (cases rule: Jobs_Report_cases)
  case (stored job' event)
  from RecordJobEvent_repeat [OF job_reach_inv [OF assms(1)] stored(5), of now'] obtain event' where
    "RecordJobEvent agent (trim_space jobID) (trim_report request) now' st' = (Inr (job', event'), st')"
    by blast
  with assms(2) stored(1,2) show ?thesis
    by (auto simp: Jobs_Report_def Let_def split: if_splits)
qed simp

definition ex_report :: EventRequest where
  "ex_report = \<lparr>EventRequest_Sequence = 2, EventRequest_Type = EventSucceeded, EventRequest_Message = ''restarted''\<rparr>"

definition ex_claimed_store :: JobStore where
  "ex_claimed_store = put_job ex_key ex_running
     [approved_event ex_job, agent_event ex_agent ex_id 1 EventClaimed ''agent claimed job'' 9000] ex_store"

lemma ex_reach_claimed: "job_reach ex_ed itoa ex_service ex_claimed_store"
  unfolding ex_claimed_store_def
  by (rule job_reach.step [OF ex_reach job_step.claim [OF ex_claim ex_ranges ex_ranges]])

lemma ex_id_trim: "trim_space ex_id = ex_id"
  by (simp add: ex_id_def hex_encode_lower trim_space_hex)

lemma ex_reported:
  "\<exists>st'. Jobs_Report 9500 ex_agent ex_id ex_report ex_claimed_store =
     (Inr (ex_job\<lparr>Job_Status := StatusSucceeded, Job_LastSequence := 2\<rparr>), st')"
proof -
  have "trim_space ''restarted'' = ''restarted''" by (rule trim_space_plain) (simp_all add: plain_char_def)
  moreover have "ex_id \<noteq> []" by (simp add: ex_id_def hex_encode_def)
  moreover have "Job_AgentID ex_job = ''web-1''" by (simp add: ex_job_def)
  ultimately show ?thesis
    by (simp add: Jobs_Report_def RecordJobEvent_def Let_def ex_report_def ex_id_trim
        ex_claimed_store_def ex_key_def ex_running_def status_after_def)
qed

theorem job_report_idempotent_witness:
  "\<exists>st'. Jobs_Report 9700 ex_agent ex_id ex_report st' =
     (Inr (ex_job\<lparr>Job_Status := StatusSucceeded, Job_LastSequence := 2\<rparr>), st')"
  using ex_reported job_report_idempotent [OF ex_reach_claimed] by blast

text \<open>
  Jobs come to an end. An agent that has queued jobs and none running is given one by
  the next claim, and its report of success or failure, numbered two, ends that job.
\<close>

theorem job_claimed_and_finished:
  assumes "job_reach ed fmt service st"
    and "ranges it1 (JobStore_jobs st)" and "ranges it2 (JobStore_jobs st)"
    and "valid_agent agent"
    and "JobStore_jobs st key = Some queued" and "is_candidate agent StatusQueued queued"
    and "\<forall>key job. JobStore_jobs st key = Some job \<longrightarrow> \<not> is_candidate agent StatusRunning job"
    and "trim_space message \<noteq> []" and "length (trim_space message) \<le> 32 * 1024"
    and "outcome = EventSucceeded \<or> outcome = EventFailed"
  shows "\<exists>job job' st' st''. Jobs_ClaimNext service it1 it2 now agent st = (Inr (Some job), st')
    \<and> Jobs_Report now' agent (Job_ID job)
        \<lparr>EventRequest_Sequence = 2, EventRequest_Type = outcome, EventRequest_Message = message\<rparr> st'
      = (Inr job', st'')
    \<and> JobStore_jobs st'' (Agent_Scope agent, Job_ID job) = Some job' \<and> terminal (Job_Status job')"
proof -
  obtain job st' where claim: "Jobs_ClaimNext service it1 it2 now agent st = (Inr (Some job), st')"
    "JobStore_jobs st' (Agent_Scope agent, Job_ID job) = Some job"
    "Job_AgentID job = Agent_ID agent" "Job_Status job = StatusRunning" "Job_LastSequence job = 1"
    "hex32_pattern (Job_ID job)"
    using claim_gets_job [OF job_reach_inv [OF assms(1)] assms(2-6)] assms(7) by metis
  then have "trim_space (Job_ID job) = Job_ID job" "Job_ID job \<noteq> []" by simp_all
  from report_finishes [OF assms(4) claim(2-4) this assms(8-10), of now'] claim(1,5) show ?thesis
    by fastforce
qed

theorem job_claimed_and_finished_witness:
  "\<exists>job job' st' st''. Jobs_ClaimNext ex_service [(ex_key, ex_job)] [(ex_key, ex_job)] 9000 ex_agent ex_store
      = (Inr (Some job), st')
    \<and> Jobs_Report 9500 ex_agent (Job_ID job)
        \<lparr>EventRequest_Sequence = 2, EventRequest_Type = EventFailed, EventRequest_Message = ''exit 1''\<rparr> st'
      = (Inr job', st'') \<and> terminal (Job_Status job')"
proof -
  have stored: "JobStore_jobs ex_store ex_key = Some ex_job" by (simp add: ex_store_def)
  have queued: "is_candidate ex_agent StatusQueued ex_job" by (simp add: is_candidate_iff ex_job_def)
  have none: "\<forall>key job. JobStore_jobs ex_store key = Some job \<longrightarrow> \<not> is_candidate ex_agent StatusRunning job"
    by (simp add: ex_store_def NewJobStore_def is_candidate_iff ex_job_def)
  have trim: "trim_space ''exit 1'' = ''exit 1''" by (rule trim_space_plain) (simp_all add: plain_char_def)
  have "trim_space ''exit 1'' \<noteq> []" "length (trim_space ''exit 1'') \<le> 32 * 1024" by (simp_all add: trim)
  from job_claimed_and_finished [OF ex_reach ex_ranges ex_ranges ex_valid_agent stored queued none this,
      of EventFailed 9000 9500] show ?thesis by blast
qed

end
