(* ===== verification/Float64.thy ===== *)
theory Float64
  imports Tenancy
begin

text \<open>
  Go's \<open>float64\<close>: the values and IEEE comparisons the program uses, with the rounding of an
  arithmetic result as a parameter. The sign of zero is not kept: no operation here tells
  the zeros apart (there is no division by zero and no formatting of one). Also Go's order
  of visiting a map as a function of the map, for loops that run once per rule.
\<close>

section \<open>Floating point\<close>

datatype f64 = NaN | PosInf | NegInf | Fin rat

fun f64_lt :: "f64 \<Rightarrow> f64 \<Rightarrow> bool" where
  "f64_lt (Fin a) (Fin b) \<longleftrightarrow> a < b"
| "f64_lt (Fin a) PosInf \<longleftrightarrow> True"
| "f64_lt NegInf (Fin a) \<longleftrightarrow> True"
| "f64_lt NegInf PosInf \<longleftrightarrow> True"
| "f64_lt _ _ \<longleftrightarrow> False"

definition f64_le :: "f64 \<Rightarrow> f64 \<Rightarrow> bool" where
  "f64_le a b \<longleftrightarrow> f64_lt a b \<or> (a = b \<and> a \<noteq> NaN)"

text \<open>\<open>rnd\<close> rounds an exact finite result to the nearest \<open>float64\<close>, or to an infinity.\<close>

type_synonym rounding = "rat \<Rightarrow> f64"

fun f64_add :: "rounding \<Rightarrow> f64 \<Rightarrow> f64 \<Rightarrow> f64" where
  "f64_add rnd (Fin a) (Fin b) = rnd (a + b)"
| "f64_add rnd NaN _ = NaN"
| "f64_add rnd _ NaN = NaN"
| "f64_add rnd PosInf NegInf = NaN"
| "f64_add rnd NegInf PosInf = NaN"
| "f64_add rnd PosInf _ = PosInf"
| "f64_add rnd _ PosInf = PosInf"
| "f64_add rnd NegInf _ = NegInf"
| "f64_add rnd _ NegInf = NegInf"

text \<open>Division by a finite number that is not zero, the only kind the program performs.\<close>

fun f64_div :: "rounding \<Rightarrow> f64 \<Rightarrow> rat \<Rightarrow> f64" where
  "f64_div rnd (Fin a) b = rnd (a / b)"
| "f64_div rnd NaN b = NaN"
| "f64_div rnd PosInf b = (if 0 < b then PosInf else NegInf)"
| "f64_div rnd NegInf b = (if 0 < b then NegInf else PosInf)"

text \<open>
  What IEEE rounding guarantees and the bounds below use: it is monotone, and a whole
  number of at most 53 bits is its own rounding.
\<close>

definition ieee_rounding :: "rounding \<Rightarrow> bool" where
  "ieee_rounding rnd \<longleftrightarrow>
     (\<forall>a b. a \<le> b \<longrightarrow> f64_le (rnd a) (rnd b))
     \<and> (\<forall>n :: int. \<bar>n\<bar> \<le> 2 ^ 53 \<longrightarrow> rnd (of_int n) = Fin (of_int n))"

lemma f64_le_Fin [simp]: "f64_le (Fin a) (Fin b) \<longleftrightarrow> a \<le> b"
  by (auto simp: f64_le_def)

lemma f64_le_bounds:
  assumes "f64_le (Fin a) x" "f64_le x (Fin b)"
  shows "\<exists>c. x = Fin c \<and> a \<le> c \<and> c \<le> b"
  using assms by (cases x) (auto simp: f64_le_def)

lemma rounding_bounds:
  assumes "ieee_rounding rnd" "of_int m \<le> a" "a \<le> of_int n" "\<bar>m\<bar> \<le> 2 ^ 53" "\<bar>n\<bar> \<le> 2 ^ 53"
  shows "\<exists>c. rnd a = Fin c \<and> of_int m \<le> c \<and> c \<le> of_int n"
proof (rule f64_le_bounds)
  show "f64_le (Fin (of_int m)) (rnd a)" "f64_le (rnd a) (Fin (of_int n))"
    using assms unfolding ieee_rounding_def by metis+
qed

text \<open>\<open>Duration.Seconds\<close>: whole seconds plus the rest, with Go's truncating division.\<close>

definition tquot :: "int \<Rightarrow> int \<Rightarrow> int" where
  "tquot a b = sgn a * sgn b * (\<bar>a\<bar> div \<bar>b\<bar>)"

definition trem :: "int \<Rightarrow> int \<Rightarrow> int" where
  "trem a b = a - b * tquot a b"

definition seconds_of :: "rounding \<Rightarrow> duration \<Rightarrow> f64" where
  "seconds_of rnd d =
     f64_add rnd (rnd (of_int (tquot d second))) (f64_div rnd (rnd (of_int (trem d second))) 1000000000)"

section \<open>Orders of visiting a map\<close>

type_synonym ('k, 'v) visit = "('k \<rightharpoonup> 'v) \<Rightarrow> ('k \<times> 'v) list"

definition visits :: "('k, 'v) visit \<Rightarrow> bool" where
  "visits vis \<longleftrightarrow> (\<forall>m. finite (dom m) \<longrightarrow> ranges (vis m) m)"

definition visit_by_key :: "('k :: linorder, 'v) visit" where
  "visit_by_key m = map (\<lambda>k. (k, the (m k))) (sorted_list_of_set (dom m))"

lemma visitsD: "visits vis \<Longrightarrow> finite (dom m) \<Longrightarrow> ranges (vis m) m"
  by (simp add: visits_def)

lemma visits_by_key: "visits visit_by_key"
  unfolding visits_def
proof (intro allI impI)
  fix m :: "'a \<rightharpoonup> 'b" assume fin: "finite (dom m)"
  have "map_of (visit_by_key m) k = m k" for k
    using fin by (cases "m k") (auto simp: visit_by_key_def map_of_map_restrict restrict_map_def)
  then show "ranges (visit_by_key m) m"
    using fin by (auto simp: ranges_def visit_by_key_def comp_def)
qed

end
