(* ===== verification/Alerting.thy ===== *)
theory Alerting
  imports Float64
begin

text \<open>
  \<open>internal/alerting\<close>: rules, maintenance windows and incidents. The theory has the data,
  the in-memory store, the service operations and the evaluation of telemetry and
  reachability against the rules. Parameters: random bytes, clock readings, the order in
  which maps are visited, the sort, the rounding of \<open>float64\<close> and the rendering of a number
  in a message (\<open>%.1f\<close> and \<open>%.0f\<close>).
\<close>

section \<open>Data\<close>

datatype Kind = KindMetric | KindReachability | KindUnknown string
datatype Metric = MetricCPU | MetricMemory | MetricDisk | MetricUnknown string
datatype Severity = SeverityWarning | SeverityCritical | SeverityUnknown string
datatype IncidentStatus = StatusOpen | StatusAcknowledged | StatusResolved
datatype AlertEventType = EventOpened | EventAcknowledged | EventResolved

record RuleRequest =
  RuleRequest_Name :: string
  RuleRequest_Kind :: Kind
  RuleRequest_Metric :: Metric
  RuleRequest_Threshold :: f64
  RuleRequest_StaleAfterSeconds :: int
  RuleRequest_Severity :: Severity
  RuleRequest_Enabled :: bool

record Rule =
  Rule_OrganizationID :: string
  Rule_SiteID :: string
  Rule_ID :: string
  Rule_Request :: RuleRequest
  Rule_CreatedAt :: time

record MaintenanceRequest =
  MaintenanceRequest_Name :: string
  MaintenanceRequest_AgentID :: string
  MaintenanceRequest_StartsAt :: time
  MaintenanceRequest_EndsAt :: time
  MaintenanceRequest_CreatedBy :: string

record MaintenanceWindow =
  MaintenanceWindow_OrganizationID :: string
  MaintenanceWindow_SiteID :: string
  MaintenanceWindow_ID :: string
  MaintenanceWindow_Request :: MaintenanceRequest
  MaintenanceWindow_CreatedAt :: time

record Incident =
  Incident_OrganizationID :: string
  Incident_SiteID :: string
  Incident_ID :: string
  Incident_RuleID :: string
  Incident_RuleName :: string
  Incident_AgentID :: string
  Incident_Severity :: Severity
  Incident_Status :: IncidentStatus
  Incident_Message :: string
  Incident_LatestValue :: f64
  Incident_OpenedAt :: time
  Incident_AcknowledgedAt :: "time option"
  Incident_AcknowledgedBy :: string
  Incident_ResolvedAt :: "time option"

record AlertEvent =
  AlertEvent_OrganizationID :: string
  AlertEvent_SiteID :: string
  AlertEvent_ID :: string
  AlertEvent_IncidentID :: string
  AlertEvent_Type :: AlertEventType
  AlertEvent_Actor :: string
  AlertEvent_Message :: string
  AlertEvent_OccurredAt :: time

record AlertTelemetry =
  AlertTelemetry_CPUPercent :: f64
  AlertTelemetry_MemoryPercent :: f64
  AlertTelemetry_DiskPercent :: f64

definition Rule_Scope :: "Rule \<Rightarrow> Scope" where
  "Rule_Scope rule = \<lparr>Scope_OrganizationID = Rule_OrganizationID rule, Scope_SiteID = Rule_SiteID rule\<rparr>"

definition Window_Scope :: "MaintenanceWindow \<Rightarrow> Scope" where
  "Window_Scope window = \<lparr>Scope_OrganizationID = MaintenanceWindow_OrganizationID window,
     Scope_SiteID = MaintenanceWindow_SiteID window\<rparr>"

definition Incident_Scope :: "Incident \<Rightarrow> Scope" where
  "Incident_Scope incident = \<lparr>Scope_OrganizationID = Incident_OrganizationID incident,
     Scope_SiteID = Incident_SiteID incident\<rparr>"

section \<open>The in-memory store\<close>

record AlertStore =
  AlertStore_rules :: "string \<rightharpoonup> Rule"
  AlertStore_windows :: "string \<rightharpoonup> MaintenanceWindow"
  AlertStore_incidents :: "string \<rightharpoonup> Incident"
  AlertStore_events :: "string \<rightharpoonup> AlertEvent list"
  AlertStore_hosts :: "string \<rightharpoonup> string set"

definition NewAlertStore :: AlertStore where
  "NewAlertStore = \<lparr>AlertStore_rules = Map.empty, AlertStore_windows = Map.empty,
     AlertStore_incidents = Map.empty, AlertStore_events = Map.empty, AlertStore_hosts = Map.empty\<rparr>"

definition scopeKey :: "Scope \<Rightarrow> string" where
  "scopeKey scope = Scope_OrganizationID scope @ nul # Scope_SiteID scope"

definition hosts_at :: "AlertStore \<Rightarrow> Scope \<Rightarrow> string set" where
  "hosts_at st scope = (case AlertStore_hosts st (scopeKey scope) of None \<Rightarrow> {} | Some hs \<Rightarrow> hs)"

definition RegisterHost :: "Scope \<Rightarrow> string \<Rightarrow> AlertStore \<Rightarrow> AlertStore" where
  "RegisterHost scope agentID st =
     st\<lparr>AlertStore_hosts := (AlertStore_hosts st)(scopeKey scope \<mapsto> insert agentID (hosts_at st scope))\<rparr>"

definition HasHost :: "Scope \<Rightarrow> string \<Rightarrow> AlertStore \<Rightarrow> bool res" where
  "HasHost scope agentID st =
     (case Scope_Validate scope of Some e \<Rightarrow> Inl e | None \<Rightarrow> Inr (agentID \<in> hosts_at st scope))"

definition CreateAlertRule :: "Scope \<Rightarrow> Rule \<Rightarrow> AlertStore \<Rightarrow> (unit, AlertStore) op" where
  "CreateAlertRule scope rule st =
     (case Scope_Validate scope of
        Some e \<Rightarrow> (Inl e, st)
      | None \<Rightarrow>
          if Rule_OrganizationID rule \<noteq> Scope_OrganizationID scope \<or> Rule_SiteID rule \<noteq> Scope_SiteID scope
          then (Inl ErrInvalidScope, st)
          else (Inr (), st\<lparr>AlertStore_rules := (AlertStore_rules st)(Rule_ID rule \<mapsto> rule)\<rparr>))"

definition ListAlertRules ::
  "Rule sorter \<Rightarrow> (string, Rule) visit \<Rightarrow> Scope \<Rightarrow> AlertStore \<Rightarrow> Rule list res" where
  "ListAlertRules srt vis scope st =
     (case Scope_Validate scope of
        Some e \<Rightarrow> Inl e
      | None \<Rightarrow> Inr (srt (\<lambda>a b. Rule_CreatedAt a < Rule_CreatedAt b)
          (filter (\<lambda>v. \<not> (Rule_OrganizationID v \<noteq> Scope_OrganizationID scope \<or> Rule_SiteID v \<noteq> Scope_SiteID scope))
             (map snd (vis (AlertStore_rules st))))))"

definition CreateMaintenanceWindow ::
  "Scope \<Rightarrow> MaintenanceWindow \<Rightarrow> AlertStore \<Rightarrow> (unit, AlertStore) op" where
  "CreateMaintenanceWindow scope window st =
     (case Scope_Validate scope of
        Some e \<Rightarrow> (Inl e, st)
      | None \<Rightarrow>
          if MaintenanceWindow_OrganizationID window \<noteq> Scope_OrganizationID scope
             \<or> MaintenanceWindow_SiteID window \<noteq> Scope_SiteID scope
          then (Inl ErrInvalidScope, st)
          else (Inr (), st\<lparr>AlertStore_windows :=
                 (AlertStore_windows st)(MaintenanceWindow_ID window \<mapsto> window)\<rparr>))"

definition ListMaintenanceWindows ::
  "MaintenanceWindow sorter \<Rightarrow> (string, MaintenanceWindow) visit \<Rightarrow> Scope \<Rightarrow> AlertStore
   \<Rightarrow> MaintenanceWindow list res" where
  "ListMaintenanceWindows srt vis scope st =
     (case Scope_Validate scope of
        Some e \<Rightarrow> Inl e
      | None \<Rightarrow> Inr (srt (\<lambda>a b. MaintenanceRequest_StartsAt (MaintenanceWindow_Request a)
                                < MaintenanceRequest_StartsAt (MaintenanceWindow_Request b))
          (filter (\<lambda>v. \<not> (MaintenanceWindow_OrganizationID v \<noteq> Scope_OrganizationID scope
                        \<or> MaintenanceWindow_SiteID v \<noteq> Scope_SiteID scope))
             (map snd (vis (AlertStore_windows st))))))"

definition unresolved :: "Scope \<Rightarrow> string \<Rightarrow> string \<Rightarrow> Incident \<Rightarrow> bool" where
  "unresolved scope ruleID agentID v \<longleftrightarrow>
     Incident_OrganizationID v = Scope_OrganizationID scope \<and> Incident_SiteID v = Scope_SiteID scope
     \<and> Incident_RuleID v = ruleID \<and> Incident_AgentID v = agentID \<and> Incident_Status v \<noteq> StatusResolved"

definition EnsureIncident ::
  "(string, Incident) visit \<Rightarrow> Scope \<Rightarrow> Incident \<Rightarrow> AlertEvent \<Rightarrow> AlertStore
   \<Rightarrow> (Incident \<times> bool, AlertStore) op" where
  "EnsureIncident vis scope incident event st =
     (case Scope_Validate scope of
        Some e \<Rightarrow> (Inl e, st)
      | None \<Rightarrow>
          if Incident_OrganizationID incident \<noteq> Scope_OrganizationID scope
             \<or> Incident_SiteID incident \<noteq> Scope_SiteID scope
             \<or> AlertEvent_OrganizationID event \<noteq> Scope_OrganizationID scope
             \<or> AlertEvent_SiteID event \<noteq> Scope_SiteID scope
          then (Inl ErrInvalidScope, st)
          else (case find (unresolved scope (Incident_RuleID incident) (Incident_AgentID incident))
                       (map snd (vis (AlertStore_incidents st))) of
              Some v \<Rightarrow> (Inr (v, False), st)
            | None \<Rightarrow>
                (Inr (incident, True),
                 st\<lparr>AlertStore_incidents := (AlertStore_incidents st)(Incident_ID incident \<mapsto> incident),
                    AlertStore_events := (AlertStore_events st)(Incident_ID incident \<mapsto>
                      [event\<lparr>AlertEvent_IncidentID := Incident_ID incident\<rparr>])\<rparr>)))"

definition alert_events_at :: "AlertStore \<Rightarrow> string \<Rightarrow> AlertEvent list" where
  "alert_events_at st i = (case AlertStore_events st i of None \<Rightarrow> [] | Some es \<Rightarrow> es)"

definition ResolveIncident ::
  "(string, Incident) visit \<Rightarrow> Scope \<Rightarrow> string \<Rightarrow> string \<Rightarrow> f64 \<Rightarrow> string \<Rightarrow> AlertEvent \<Rightarrow> AlertStore
   \<Rightarrow> (Incident option, AlertStore) op" where
  "ResolveIncident vis scope ruleID agentID val message event st =
     (case Scope_Validate scope of
        Some e \<Rightarrow> (Inl e, st)
      | None \<Rightarrow>
          if AlertEvent_OrganizationID event \<noteq> Scope_OrganizationID scope
             \<or> AlertEvent_SiteID event \<noteq> Scope_SiteID scope
          then (Inl ErrInvalidScope, st)
          else (case find (\<lambda>(i, v). unresolved scope ruleID agentID v) (vis (AlertStore_incidents st)) of
              None \<Rightarrow> (Inr None, st)
            | Some (i, v) \<Rightarrow>
                let v' = v\<lparr>Incident_Status := StatusResolved,
                           Incident_ResolvedAt := Some (AlertEvent_OccurredAt event),
                           Incident_LatestValue := val, Incident_Message := message\<rparr>
                in (Inr (Some v'),
                    st\<lparr>AlertStore_incidents := (AlertStore_incidents st)(i \<mapsto> v'),
                       AlertStore_events := (AlertStore_events st)(i \<mapsto>
                         alert_events_at st i @ [event\<lparr>AlertEvent_IncidentID := Incident_ID v\<rparr>])\<rparr>)))"

definition AcknowledgeIncident ::
  "Scope \<Rightarrow> string \<Rightarrow> string \<Rightarrow> time \<Rightarrow> AlertEvent \<Rightarrow> AlertStore \<Rightarrow> (Incident, AlertStore) op" where
  "AcknowledgeIncident scope i actor tm event st =
     (case Scope_Validate scope of
        Some e \<Rightarrow> (Inl e, st)
      | None \<Rightarrow>
          if AlertEvent_OrganizationID event \<noteq> Scope_OrganizationID scope
             \<or> AlertEvent_SiteID event \<noteq> Scope_SiteID scope
          then (Inl ErrInvalidScope, st)
          else (case AlertStore_incidents st i of
              None \<Rightarrow> (Inl ErrAlertNotFound, st)
            | Some v \<Rightarrow>
                if Incident_OrganizationID v \<noteq> Scope_OrganizationID scope
                   \<or> Incident_SiteID v \<noteq> Scope_SiteID scope
                then (Inl ErrAlertNotFound, st)
                else if Incident_Status v \<noteq> StatusOpen then (Inl ErrAlertConflict, st)
                else
                  let v' = v\<lparr>Incident_Status := StatusAcknowledged, Incident_AcknowledgedAt := Some tm,
                             Incident_AcknowledgedBy := actor\<rparr>
                  in (Inr v',
                      st\<lparr>AlertStore_incidents := (AlertStore_incidents st)(i \<mapsto> v'),
                         AlertStore_events := (AlertStore_events st)(i \<mapsto>
                           alert_events_at st i @ [event\<lparr>AlertEvent_IncidentID := Incident_ID v\<rparr>])\<rparr>)))"

definition ListAlertIncidents ::
  "Incident sorter \<Rightarrow> (string, Incident) visit \<Rightarrow> Scope \<Rightarrow> int \<Rightarrow> AlertStore \<Rightarrow> Incident list res" where
  "ListAlertIncidents srt vis scope limit st =
     (case Scope_Validate scope of
        Some e \<Rightarrow> Inl e
      | None \<Rightarrow>
          let result = srt (\<lambda>a b. Incident_OpenedAt b < Incident_OpenedAt a)
                (filter (\<lambda>v. \<not> (Incident_OrganizationID v \<noteq> Scope_OrganizationID scope
                              \<or> Incident_SiteID v \<noteq> Scope_SiteID scope))
                   (map snd (vis (AlertStore_incidents st))))
          in Inr (if int (length result) > limit then take (nat limit) result else result))"

definition ListAlertEvents :: "Scope \<Rightarrow> string \<Rightarrow> AlertStore \<Rightarrow> AlertEvent list res" where
  "ListAlertEvents scope i st =
     (case Scope_Validate scope of
        Some e \<Rightarrow> Inl e
      | None \<Rightarrow>
          (case AlertStore_incidents st i of
             None \<Rightarrow> Inl ErrAlertNotFound
           | Some incident \<Rightarrow>
               if Incident_OrganizationID incident \<noteq> Scope_OrganizationID scope
                  \<or> Incident_SiteID incident \<noteq> Scope_SiteID scope
               then Inl ErrAlertNotFound
               else Inr (alert_events_at st i)))"

record AlertEventRecord =
  AlertEventRecord_Event :: AlertEvent
  AlertEventRecord_AgentID :: string

definition AllAlertEvents ::
  "(string, AlertEvent list) visit \<Rightarrow> Scope \<Rightarrow> AlertStore \<Rightarrow> AlertEventRecord list res" where
  "AllAlertEvents vis scope st =
     (case Scope_Validate scope of
        Some e \<Rightarrow> Inl e
      | None \<Rightarrow> Inr (concat (map (\<lambda>(i, events).
          case AlertStore_incidents st i of
            None \<Rightarrow> []
          | Some incident \<Rightarrow>
              if Incident_OrganizationID incident \<noteq> Scope_OrganizationID scope
                 \<or> Incident_SiteID incident \<noteq> Scope_SiteID scope then []
              else map (\<lambda>event. \<lparr>AlertEventRecord_Event = event,
                                  AlertEventRecord_AgentID = Incident_AgentID incident\<rparr>) events)
          (vis (AlertStore_events st)))))"

section \<open>The service\<close>

text \<open>\<open>NewService\<close> refuses to build a service without a host checker.\<close>

type_synonym AlertHostChecker = "Scope \<Rightarrow> string \<Rightarrow> bool res"

definition Alerting_NewService :: "AlertHostChecker option \<Rightarrow> AlertHostChecker res" where
  "Alerting_NewService hostExists =
     (case hostExists of None \<Rightarrow> Inl (ErrOther ''alert host scope checker is required'')
      | Some check \<Rightarrow> Inr check)"

text \<open>An identifier whose error is dropped is empty when the random bytes fail.\<close>

definition mustID :: "entropy \<Rightarrow> string" where
  "mustID r = (case rand_hex 16 r of Inl _ \<Rightarrow> [] | Inr i \<Rightarrow> i)"

definition validRule :: "RuleRequest \<Rightarrow> bool" where
  "validRule request =
     (if RuleRequest_Name request = [] \<or> length (RuleRequest_Name request) > 128
         \<or> (RuleRequest_Severity request \<noteq> SeverityWarning \<and> RuleRequest_Severity request \<noteq> SeverityCritical)
      then False
      else if RuleRequest_Kind request = KindMetric then
        (RuleRequest_Metric request = MetricCPU \<or> RuleRequest_Metric request = MetricMemory
          \<or> RuleRequest_Metric request = MetricDisk)
        \<and> f64_lt (Fin 0) (RuleRequest_Threshold request) \<and> f64_le (RuleRequest_Threshold request) (Fin 100)
        \<and> RuleRequest_StaleAfterSeconds request = 0
      else RuleRequest_Kind request = KindReachability \<and> RuleRequest_Metric request = MetricUnknown []
        \<and> RuleRequest_Threshold request = Fin 0
        \<and> 60 \<le> RuleRequest_StaleAfterSeconds request \<and> RuleRequest_StaleAfterSeconds request \<le> 86400)"

definition metricLabel :: "Metric \<Rightarrow> string" where
  "metricLabel metric =
     (case metric of MetricCPU \<Rightarrow> ''CPU'' | MetricMemory \<Rightarrow> ''Bellek'' | MetricDisk \<Rightarrow> ''Disk''
      | MetricUnknown _ \<Rightarrow> [])"

definition new_rule :: "Scope \<Rightarrow> string \<Rightarrow> RuleRequest \<Rightarrow> time \<Rightarrow> Rule" where
  "new_rule scope i request now =
     \<lparr>Rule_OrganizationID = Scope_OrganizationID scope, Rule_SiteID = Scope_SiteID scope, Rule_ID = i,
      Rule_Request = request, Rule_CreatedAt = truncate_micro now\<rparr>"

definition new_window :: "Scope \<Rightarrow> string \<Rightarrow> MaintenanceRequest \<Rightarrow> time \<Rightarrow> MaintenanceWindow" where
  "new_window scope i request now =
     \<lparr>MaintenanceWindow_OrganizationID = Scope_OrganizationID scope,
      MaintenanceWindow_SiteID = Scope_SiteID scope, MaintenanceWindow_ID = i,
      MaintenanceWindow_Request = request, MaintenanceWindow_CreatedAt = truncate_micro now\<rparr>"

definition CreateRule ::
  "entropy \<Rightarrow> time \<Rightarrow> Scope \<Rightarrow> RuleRequest \<Rightarrow> AlertStore \<Rightarrow> (Rule, AlertStore) op" where
  "CreateRule r now scope request0 st =
     (case Scope_Validate scope of
        Some e \<Rightarrow> (Inl e, st)
      | None \<Rightarrow>
          let request = request0\<lparr>RuleRequest_Name := trim_space (RuleRequest_Name request0)\<rparr> in
          if \<not> validRule request then (Inl ErrInvalidAlert, st)
          else (case rand_hex 16 r of
              Inl e \<Rightarrow> (Inl e, st)
            | Inr i \<Rightarrow>
                let rule = new_rule scope i request now
                in (case CreateAlertRule scope rule st of
                      (Inl e, st') \<Rightarrow> (Inl e, st') | (Inr _, st') \<Rightarrow> (Inr rule, st'))))"

definition ListRules ::
  "Rule sorter \<Rightarrow> (string, Rule) visit \<Rightarrow> Scope \<Rightarrow> AlertStore \<Rightarrow> Rule list res" where
  "ListRules srt vis scope st =
     (case Scope_Validate scope of Some e \<Rightarrow> Inl e | None \<Rightarrow> ListAlertRules srt vis scope st)"

definition trim_maintenance :: "MaintenanceRequest \<Rightarrow> MaintenanceRequest" where
  "trim_maintenance request =
     \<lparr>MaintenanceRequest_Name = trim_space (MaintenanceRequest_Name request),
      MaintenanceRequest_AgentID = trim_space (MaintenanceRequest_AgentID request),
      MaintenanceRequest_StartsAt = truncate_micro (MaintenanceRequest_StartsAt request),
      MaintenanceRequest_EndsAt = truncate_micro (MaintenanceRequest_EndsAt request),
      MaintenanceRequest_CreatedBy = trim_space (MaintenanceRequest_CreatedBy request)\<rparr>"

definition CreateMaintenance ::
  "AlertHostChecker \<Rightarrow> entropy \<Rightarrow> time \<Rightarrow> Scope \<Rightarrow> MaintenanceRequest \<Rightarrow> AlertStore
   \<Rightarrow> (MaintenanceWindow, AlertStore) op" where
  "CreateMaintenance hostExists r now scope request0 st =
     (case Scope_Validate scope of
        Some e \<Rightarrow> (Inl e, st)
      | None \<Rightarrow>
          let request = trim_maintenance request0 in
          if MaintenanceRequest_Name request = [] \<or> MaintenanceRequest_CreatedBy request = []
             \<or> MaintenanceRequest_StartsAt request = 0
             \<or> \<not> MaintenanceRequest_StartsAt request < MaintenanceRequest_EndsAt request
             \<or> length (MaintenanceRequest_Name request) > 128
             \<or> length (MaintenanceRequest_AgentID request) > 128
          then (Inl ErrInvalidAlert, st)
          else (case (if MaintenanceRequest_AgentID request \<noteq> []
                      then hostExists scope (MaintenanceRequest_AgentID request) else Inr True) of
              Inl e \<Rightarrow> (Inl e, st)
            | Inr found \<Rightarrow>
                if \<not> found then (Inl ErrAlertNotFound, st)
                else (case rand_hex 16 r of
                    Inl e \<Rightarrow> (Inl e, st)
                  | Inr i \<Rightarrow>
                      let window = new_window scope i request now
                      in (case CreateMaintenanceWindow scope window st of
                            (Inl e, st') \<Rightarrow> (Inl e, st') | (Inr _, st') \<Rightarrow> (Inr window, st')))))"

definition ListMaintenance ::
  "MaintenanceWindow sorter \<Rightarrow> (string, MaintenanceWindow) visit \<Rightarrow> Scope \<Rightarrow> AlertStore
   \<Rightarrow> MaintenanceWindow list res" where
  "ListMaintenance srt vis scope st =
     (case Scope_Validate scope of Some e \<Rightarrow> Inl e | None \<Rightarrow> ListMaintenanceWindows srt vis scope st)"

text \<open>
  What one evaluation reads from outside: the clock, the random bytes of the incident and
  the event identifier, and the orders in which it visits and sorts.
\<close>

record EvalEnv =
  Eval_now :: time
  Eval_incidentID :: entropy
  Eval_eventID :: entropy
  Eval_sort :: "MaintenanceWindow sorter"
  Eval_windows :: "(string, MaintenanceWindow) visit"
  Eval_incidents :: "(string, Incident) visit"

definition covers :: "string \<Rightarrow> time \<Rightarrow> MaintenanceWindow \<Rightarrow> bool" where
  "covers agentID now window \<longleftrightarrow>
     (MaintenanceRequest_AgentID (MaintenanceWindow_Request window) = []
       \<or> MaintenanceRequest_AgentID (MaintenanceWindow_Request window) = agentID)
     \<and> \<not> now < MaintenanceRequest_StartsAt (MaintenanceWindow_Request window)
     \<and> now < MaintenanceRequest_EndsAt (MaintenanceWindow_Request window)"

definition hub_event :: "Scope \<Rightarrow> string \<Rightarrow> string \<Rightarrow> AlertEventType \<Rightarrow> string \<Rightarrow> time \<Rightarrow> AlertEvent" where
  "hub_event scope i incidentID typ message now =
     \<lparr>AlertEvent_OrganizationID = Scope_OrganizationID scope, AlertEvent_SiteID = Scope_SiteID scope,
      AlertEvent_ID = i, AlertEvent_IncidentID = incidentID, AlertEvent_Type = typ,
      AlertEvent_Actor = ''hub'', AlertEvent_Message = message, AlertEvent_OccurredAt = now\<rparr>"

definition new_incident ::
  "Scope \<Rightarrow> Rule \<Rightarrow> string \<Rightarrow> string \<Rightarrow> f64 \<Rightarrow> string \<Rightarrow> time \<Rightarrow> Incident" where
  "new_incident scope rule i agentID val message now =
     \<lparr>Incident_OrganizationID = Scope_OrganizationID scope, Incident_SiteID = Scope_SiteID scope,
      Incident_ID = i, Incident_RuleID = Rule_ID rule,
      Incident_RuleName = RuleRequest_Name (Rule_Request rule), Incident_AgentID = agentID,
      Incident_Severity = RuleRequest_Severity (Rule_Request rule), Incident_Status = StatusOpen,
      Incident_Message = message, Incident_LatestValue = val, Incident_OpenedAt = now,
      Incident_AcknowledgedAt = None, Incident_AcknowledgedBy = [], Incident_ResolvedAt = None\<rparr>"

text \<open>The resolution message, in UTF-8.\<close>

definition back_to_normal :: string where
  "back_to_normal = ''Ko'' @ [CHR 0xC5, CHR 0x9F] @ ''ul normale d'' @ [CHR 0xC3, CHR 0xB6]
     @ ''nd'' @ [CHR 0xC3, CHR 0xBC]"

definition evaluate ::
  "EvalEnv \<Rightarrow> Scope \<Rightarrow> Rule \<Rightarrow> string \<Rightarrow> bool \<Rightarrow> f64 \<Rightarrow> string \<Rightarrow> AlertStore \<Rightarrow> (unit, AlertStore) op" where
  "evaluate env scope rule agentID breached val message st =
     (if agentID = [] then (Inl ErrInvalidAlert, st)
      else
        let now = truncate_micro (Eval_now env) in
        if breached then
          (case ListMaintenanceWindows (Eval_sort env) (Eval_windows env) scope st of
             Inl e \<Rightarrow> (Inl e, st)
           | Inr windows \<Rightarrow>
               if \<exists>window \<in> set windows. covers agentID now window then (Inr (), st)
               else (case rand_hex 16 (Eval_incidentID env) of
                   Inl e \<Rightarrow> (Inl e, st)
                 | Inr i \<Rightarrow>
                     (case EnsureIncident (Eval_incidents env) scope
                             (new_incident scope rule i agentID val message now)
                             (hub_event scope (mustID (Eval_eventID env)) i EventOpened message now) st of
                        (Inl e, st') \<Rightarrow> (Inl e, st')
                      | (Inr _, st') \<Rightarrow> (Inr (), st'))))
        else
          (case ResolveIncident (Eval_incidents env) scope (Rule_ID rule) agentID val back_to_normal
                  (hub_event scope (mustID (Eval_eventID env)) [] EventResolved back_to_normal now) st of
             (Inl e, st') \<Rightarrow> (Inl e, st')
           | (Inr _, st') \<Rightarrow> (Inr (), st')))"

definition metric_value :: "AlertTelemetry \<Rightarrow> Metric \<Rightarrow> f64" where
  "metric_value telemetry metric =
     (case metric of MetricCPU \<Rightarrow> AlertTelemetry_CPUPercent telemetry
      | MetricMemory \<Rightarrow> AlertTelemetry_MemoryPercent telemetry
      | MetricDisk \<Rightarrow> AlertTelemetry_DiskPercent telemetry
      | MetricUnknown _ \<Rightarrow> Fin 0)"

definition threshold_message :: "(f64 \<Rightarrow> string) \<Rightarrow> Metric \<Rightarrow> f64 \<Rightarrow> f64 \<Rightarrow> string" where
  "threshold_message fmt1 metric val threshold =
     metricLabel metric @ '' '' @ fmt1 val @ ''%; e'' @ [CHR 0xC5, CHR 0x9F] @ ''ik '' @ fmt1 threshold @ ''%''"

text \<open>
  The loops over the rules. \<open>env n\<close> is what the evaluation of the \<open>n\<close>-th rule of the list
  reads; the first error ends the loop.
\<close>

fun telemetry_loop ::
  "(f64 \<Rightarrow> string) \<Rightarrow> (nat \<Rightarrow> EvalEnv) \<Rightarrow> Scope \<Rightarrow> string \<Rightarrow> AlertTelemetry \<Rightarrow> nat \<Rightarrow> Rule list \<Rightarrow> AlertStore
   \<Rightarrow> (unit, AlertStore) op" where
  "telemetry_loop fmt1 env scope agentID telemetry n [] st = (Inr (), st)"
| "telemetry_loop fmt1 env scope agentID telemetry n (rule # rules) st =
     (if \<not> RuleRequest_Enabled (Rule_Request rule) \<or> RuleRequest_Kind (Rule_Request rule) \<noteq> KindMetric
      then telemetry_loop fmt1 env scope agentID telemetry (Suc n) rules st
      else
        let metric = RuleRequest_Metric (Rule_Request rule);
            threshold = RuleRequest_Threshold (Rule_Request rule);
            val = metric_value telemetry metric in
        (case evaluate (env n) scope rule (trim_space agentID) (f64_lt threshold val) val
                (threshold_message fmt1 metric val threshold) st of
           (Inl e, st') \<Rightarrow> (Inl e, st')
         | (Inr _, st') \<Rightarrow> telemetry_loop fmt1 env scope agentID telemetry (Suc n) rules st'))"

definition EvaluateTelemetry ::
  "(f64 \<Rightarrow> string) \<Rightarrow> Rule sorter \<Rightarrow> (string, Rule) visit \<Rightarrow> (nat \<Rightarrow> EvalEnv) \<Rightarrow> Scope \<Rightarrow> string
   \<Rightarrow> AlertTelemetry \<Rightarrow> AlertStore \<Rightarrow> (unit, AlertStore) op" where
  "EvaluateTelemetry fmt1 srt vis env scope agentID telemetry st =
     (case Scope_Validate scope of
        Some e \<Rightarrow> (Inl e, st)
      | None \<Rightarrow>
          (case ListAlertRules srt vis scope st of
             Inl e \<Rightarrow> (Inl e, st)
           | Inr rules \<Rightarrow> telemetry_loop fmt1 env scope agentID telemetry 0 rules st))"

text \<open>\<open>stale n\<close> is the clock reading for the age of the \<open>n\<close>-th rule.\<close>

definition stale_seconds :: "rounding \<Rightarrow> time \<Rightarrow> time \<Rightarrow> f64" where
  "stale_seconds rnd now lastSeen =
     (let s = seconds_of rnd (sub_time now lastSeen) in if f64_lt s (Fin 0) then Fin 0 else s)"

definition stale_message :: "(f64 \<Rightarrow> string) \<Rightarrow> f64 \<Rightarrow> string" where
  "stale_message fmt0 s = ''Agent '' @ fmt0 s @ '' saniyedir rapor vermiyor''"

fun reachability_loop ::
  "rounding \<Rightarrow> (f64 \<Rightarrow> string) \<Rightarrow> (nat \<Rightarrow> time) \<Rightarrow> (nat \<Rightarrow> EvalEnv) \<Rightarrow> Scope \<Rightarrow> string \<Rightarrow> time \<Rightarrow> nat
   \<Rightarrow> Rule list \<Rightarrow> AlertStore \<Rightarrow> (unit, AlertStore) op" where
  "reachability_loop rnd fmt0 stale env scope agentID lastSeen n [] st = (Inr (), st)"
| "reachability_loop rnd fmt0 stale env scope agentID lastSeen n (rule # rules) st =
     (if \<not> RuleRequest_Enabled (Rule_Request rule) \<or> RuleRequest_Kind (Rule_Request rule) \<noteq> KindReachability
      then reachability_loop rnd fmt0 stale env scope agentID lastSeen (Suc n) rules st
      else
        let s = stale_seconds rnd (stale n) lastSeen in
        (case evaluate (env n) scope rule (trim_space agentID)
                (f64_lt (Fin (of_int (RuleRequest_StaleAfterSeconds (Rule_Request rule)))) s) s
                (stale_message fmt0 s) st of
           (Inl e, st') \<Rightarrow> (Inl e, st')
         | (Inr _, st') \<Rightarrow> reachability_loop rnd fmt0 stale env scope agentID lastSeen (Suc n) rules st'))"

definition EvaluateReachability ::
  "rounding \<Rightarrow> (f64 \<Rightarrow> string) \<Rightarrow> Rule sorter \<Rightarrow> (string, Rule) visit \<Rightarrow> (nat \<Rightarrow> time) \<Rightarrow> (nat \<Rightarrow> EvalEnv)
   \<Rightarrow> Scope \<Rightarrow> string \<Rightarrow> time \<Rightarrow> AlertStore \<Rightarrow> (unit, AlertStore) op" where
  "EvaluateReachability rnd fmt0 srt vis stale env scope agentID lastSeen st =
     (case Scope_Validate scope of
        Some e \<Rightarrow> (Inl e, st)
      | None \<Rightarrow>
          (case ListAlertRules srt vis scope st of
             Inl e \<Rightarrow> (Inl e, st)
           | Inr rules \<Rightarrow> reachability_loop rnd fmt0 stale env scope agentID lastSeen 0 rules st))"

text \<open>The operator's message, in UTF-8.\<close>

definition acknowledged_message :: string where
  "acknowledged_message = ''Olay operat'' @ [CHR 0xC3, CHR 0xB6] @ ''r taraf'' @ [CHR 0xC4, CHR 0xB1]
     @ ''ndan onayland'' @ [CHR 0xC4, CHR 0xB1]"

definition Acknowledge ::
  "entropy \<Rightarrow> time \<Rightarrow> Scope \<Rightarrow> string \<Rightarrow> string \<Rightarrow> AlertStore \<Rightarrow> (Incident, AlertStore) op" where
  "Acknowledge r now0 scope incidentID0 actor0 st =
     (case Scope_Validate scope of
        Some e \<Rightarrow> (Inl e, st)
      | None \<Rightarrow>
          let incidentID = trim_space incidentID0; actor = trim_space actor0 in
          if incidentID = [] \<or> actor = [] \<or> length actor > 128 then (Inl ErrInvalidAlert, st)
          else
            let now = truncate_micro now0 in
            AcknowledgeIncident scope incidentID actor now
              ((hub_event scope (mustID r) incidentID EventAcknowledged acknowledged_message now)
                 \<lparr>AlertEvent_Actor := actor\<rparr>) st)"

definition ListIncidents ::
  "Incident sorter \<Rightarrow> (string, Incident) visit \<Rightarrow> Scope \<Rightarrow> int \<Rightarrow> AlertStore \<Rightarrow> Incident list res" where
  "ListIncidents srt vis scope limit st =
     (case Scope_Validate scope of
        Some e \<Rightarrow> Inl e
      | None \<Rightarrow>
          if limit < 1 \<or> limit > 500 then Inl ErrInvalidAlert
          else ListAlertIncidents srt vis scope limit st)"

definition ListEvents :: "Scope \<Rightarrow> string \<Rightarrow> AlertStore \<Rightarrow> AlertEvent list res" where
  "ListEvents scope incidentID st =
     (case Scope_Validate scope of
        Some e \<Rightarrow> Inl e
      | None \<Rightarrow>
          if trim_space incidentID = [] then Inl ErrInvalidAlert
          else ListAlertEvents scope incidentID st)"

end
