(* ===== verification/Alerting_Lifecycle.thy ===== *)
theory Alerting_Lifecycle
  imports Alerting
begin

text \<open>
  Incidents under any sequence of the operations of \<open>internal/alerting\<close>: the automaton of an
  incident's log, the invariant of the store, the outcomes of one evaluation, and what a
  telemetry report leaves behind once all rules were evaluated.
\<close>

section \<open>The incident automaton\<close>

fun incident_next :: "AlertEventType \<Rightarrow> IncidentStatus \<Rightarrow> IncidentStatus option" where
  "incident_next EventAcknowledged StatusOpen = Some StatusAcknowledged"
| "incident_next EventResolved StatusOpen = Some StatusResolved"
| "incident_next EventResolved StatusAcknowledged = Some StatusResolved"
| "incident_next _ _ = None"

fun incident_run :: "AlertEventType list \<Rightarrow> IncidentStatus option" where
  "incident_run [] = None"
| "incident_run (t # ts) =
     (if t = EventOpened then foldl (\<lambda>s u. Option.bind s (incident_next u)) (Some StatusOpen) ts
      else None)"

lemma incident_run_snoc:
  "ts \<noteq> [] \<Longrightarrow> incident_run (ts @ [t]) = Option.bind (incident_run ts) (incident_next t)"
  by (cases ts) auto

section \<open>The invariant\<close>

definition incident_log_ok :: "Incident \<Rightarrow> AlertEvent list \<Rightarrow> bool" where
  "incident_log_ok v es \<longleftrightarrow>
     incident_run (map AlertEvent_Type es) = Some (Incident_Status v)
     \<and> (\<forall>e \<in> set es. AlertEvent_IncidentID e = Incident_ID v
           \<and> AlertEvent_OrganizationID e = Incident_OrganizationID v
           \<and> AlertEvent_SiteID e = Incident_SiteID v)
     \<and> (Incident_ResolvedAt v \<noteq> None \<longleftrightarrow> Incident_Status v = StatusResolved)
     \<and> (Incident_AcknowledgedAt v \<noteq> None \<longleftrightarrow> EventAcknowledged \<in> AlertEvent_Type ` set es)"

definition one_unresolved :: "AlertStore \<Rightarrow> bool" where
  "one_unresolved st \<longleftrightarrow>
     (\<forall>i j v w scope ruleID agentID. AlertStore_incidents st i = Some v \<longrightarrow> AlertStore_incidents st j = Some w \<longrightarrow>
        unresolved scope ruleID agentID v \<longrightarrow> unresolved scope ruleID agentID w \<longrightarrow> i = j)"

definition alert_inv :: "AlertStore \<Rightarrow> bool" where
  "alert_inv st \<longleftrightarrow>
     finite (dom (AlertStore_rules st)) \<and> finite (dom (AlertStore_windows st))
     \<and> finite (dom (AlertStore_incidents st))
     \<and> dom (AlertStore_events st) = dom (AlertStore_incidents st)
     \<and> (\<forall>i rule. AlertStore_rules st i = Some rule \<longrightarrow>
          Rule_ID rule = i \<and> validRule (Rule_Request rule) \<and> valid_scope (Rule_Scope rule))
     \<and> (\<forall>i v. AlertStore_incidents st i = Some v \<longrightarrow>
          Incident_ID v = i \<and> valid_scope (Incident_Scope v) \<and> incident_log_ok v (alert_events_at st i))
     \<and> one_unresolved st"

lemma alert_inv_init: "alert_inv NewAlertStore"
  by (simp add: alert_inv_def NewAlertStore_def one_unresolved_def)

abbreviation put_incident :: "string \<Rightarrow> Incident \<Rightarrow> AlertEvent list \<Rightarrow> AlertStore \<Rightarrow> AlertStore" where
  "put_incident i v es st \<equiv>
     st\<lparr>AlertStore_incidents := (AlertStore_incidents st)(i \<mapsto> v),
        AlertStore_events := (AlertStore_events st)(i \<mapsto> es)\<rparr>"

lemma alert_events_at_put [simp]:
  "alert_events_at (put_incident i v es st) j = (if j = i then es else alert_events_at st j)"
  by (simp add: alert_events_at_def)

lemma alert_events_at_other [simp]:
  "alert_events_at (st\<lparr>AlertStore_rules := x\<rparr>) i = alert_events_at st i"
  "alert_events_at (st\<lparr>AlertStore_windows := y\<rparr>) i = alert_events_at st i"
  "alert_events_at (st\<lparr>AlertStore_hosts := z\<rparr>) i = alert_events_at st i"
  by (simp_all add: alert_events_at_def)

lemma alert_invD:
  assumes "alert_inv st"
  shows "finite (dom (AlertStore_rules st))" "finite (dom (AlertStore_windows st))"
    "finite (dom (AlertStore_incidents st))" "one_unresolved st"
    "AlertStore_rules st i = Some rule \<Longrightarrow> Rule_ID rule = i"
    "AlertStore_rules st i = Some rule \<Longrightarrow> validRule (Rule_Request rule)"
    "AlertStore_incidents st i = Some v \<Longrightarrow> Incident_ID v = i"
    "AlertStore_incidents st i = Some v \<Longrightarrow> incident_log_ok v (alert_events_at st i)"
    "AlertStore_incidents st i = Some v \<Longrightarrow> valid_scope (Incident_Scope v)"
  using assms by (auto simp: alert_inv_def)

lemma alert_inv_put:
  assumes "alert_inv st" "Incident_ID v = i" "valid_scope (Incident_Scope v)" "incident_log_ok v es"
    and only: "\<And>scope ruleID agentID j w. unresolved scope ruleID agentID v \<Longrightarrow>
      AlertStore_incidents st j = Some w \<Longrightarrow> unresolved scope ruleID agentID w \<Longrightarrow> j = i"
  shows "alert_inv (put_incident i v es st)"
proof -
  have "one_unresolved (put_incident i v es st)"
    unfolding one_unresolved_def
  proof (intro allI impI)
    fix j k a b scope ruleID agentID
    assume a: "AlertStore_incidents (put_incident i v es st) j = Some a" "unresolved scope ruleID agentID a"
      and b: "AlertStore_incidents (put_incident i v es st) k = Some b" "unresolved scope ruleID agentID b"
    have old: "one_unresolved st" using assms(1) by (rule alert_invD)
    consider "j = i" "k = i" | "j = i" "k \<noteq> i" | "j \<noteq> i" "k = i" | "j \<noteq> i" "k \<noteq> i" by blast
    then show "j = k"
    proof cases
      case 2
      with a b only show ?thesis by (auto split: if_splits)
    next
      case 3
      with a b only show ?thesis by (auto split: if_splits)
    next
      case 4
      with a b old show ?thesis unfolding one_unresolved_def by auto
    qed simp
  qed
  then show ?thesis
    using assms(1-4) unfolding alert_inv_def by auto
qed

section \<open>The outcomes of one evaluation\<close>

definition has_unresolved :: "AlertStore \<Rightarrow> Scope \<Rightarrow> string \<Rightarrow> string \<Rightarrow> bool" where
  "has_unresolved st scope ruleID agentID \<longleftrightarrow>
     (\<exists>i v. AlertStore_incidents st i = Some v \<and> unresolved scope ruleID agentID v)"

definition in_maintenance :: "AlertStore \<Rightarrow> Scope \<Rightarrow> string \<Rightarrow> time \<Rightarrow> bool" where
  "in_maintenance st scope agentID now \<longleftrightarrow>
     (\<exists>w \<in> ran (AlertStore_windows st). Window_Scope w = scope \<and> covers agentID now w)"

definition env_ok :: "EvalEnv \<Rightarrow> bool" where
  "env_ok env \<longleftrightarrow> slice_sort (Eval_sort env) \<and> visits (Eval_windows env) \<and> visits (Eval_incidents env)"

lemma find_unresolved:
  assumes "alert_inv st" "visits vis"
  shows "find (\<lambda>(i, v). unresolved scope ruleID agentID v) (vis (AlertStore_incidents st)) = None
      \<Longrightarrow> \<not> has_unresolved st scope ruleID agentID"
    and "find (\<lambda>(i, v). unresolved scope ruleID agentID v) (vis (AlertStore_incidents st)) = Some (i, v)
      \<Longrightarrow> AlertStore_incidents st i = Some v \<and> unresolved scope ruleID agentID v"
proof -
  have rng: "ranges (vis (AlertStore_incidents st)) (AlertStore_incidents st)"
    using assms(2) alert_invD(3) [OF assms(1)] by (rule visitsD)
  show "find (\<lambda>(i, v). unresolved scope ruleID agentID v) (vis (AlertStore_incidents st)) = None
      \<Longrightarrow> \<not> has_unresolved st scope ruleID agentID"
    by (force simp: find_None_iff has_unresolved_def ranges_entry [OF rng, symmetric])
  show "find (\<lambda>(i, v). unresolved scope ruleID agentID v) (vis (AlertStore_incidents st)) = Some (i, v)
      \<Longrightarrow> AlertStore_incidents st i = Some v \<and> unresolved scope ruleID agentID v"
    using ranges_entry [OF rng, of i v] by (auto simp: find_Some_iff in_set_conv_nth)
qed

lemma find_map_snd: "find P (map snd xs) = map_option snd (find (\<lambda>(i, v). P v) xs)"
  by (induction xs) auto

lemma Incident_Scope_simps [simp]:
  "Incident_Scope (new_incident scope rule i agentID val message now) = scope"
  by (simp add: Incident_Scope_def new_incident_def)

lemma unresolved_new [simp]:
  "unresolved scope' ruleID agentID' (new_incident scope rule i agentID val message now) \<longleftrightarrow>
     scope' = scope \<and> ruleID = Rule_ID rule \<and> agentID' = agentID"
  by (auto simp: unresolved_def new_incident_def scope_eq_iff)

lemma windows_listed:
  assumes "valid_scope scope" "env_ok env" "finite (dom (AlertStore_windows st))"
  obtains ws where "ListMaintenanceWindows (Eval_sort env) (Eval_windows env) scope st = Inr ws"
    "set ws = {w \<in> ran (AlertStore_windows st). Window_Scope w = scope}"
proof -
  have srt: "slice_sort (Eval_sort env)" and vis: "visits (Eval_windows env)"
    using assms(2) by (simp_all add: env_ok_def)
  have stored: "set (map snd (Eval_windows env (AlertStore_windows st))) = ran (AlertStore_windows st)"
    using visitsD [OF vis assms(3)] by (rule ranges_values)
  show thesis
    by (rule that) (use assms(1) stored in
        \<open>auto simp: ListMaintenanceWindows_def slice_sort.set_srt [OF srt] Window_Scope_def scope_eq_iff\<close>)
qed

lemma evaluate_cases:
  assumes "evaluate env scope rule agentID breached val message st = (res, st')"
    and "valid_scope scope" "alert_inv st" "env_ok env"
  obtains (refused) e where "res = Inl e" "st' = st"
  | (suppressed) "res = Inr ()" "st' = st" "breached" "in_maintenance st scope agentID (truncate_micro (Eval_now env))"
  | (already) "res = Inr ()" "st' = st" "breached" "has_unresolved st scope (Rule_ID rule) agentID"
  | (opened) i where "res = Inr ()" "breached" "\<not> has_unresolved st scope (Rule_ID rule) agentID"
      "\<not> in_maintenance st scope agentID (truncate_micro (Eval_now env))"
      "rand_hex 16 (Eval_incidentID env) = Inr i"
      "st' = put_incident i (new_incident scope rule i agentID val message (truncate_micro (Eval_now env)))
         [hub_event scope (mustID (Eval_eventID env)) i EventOpened message (truncate_micro (Eval_now env))] st"
  | (calm) "res = Inr ()" "st' = st" "\<not> breached" "\<not> has_unresolved st scope (Rule_ID rule) agentID"
  | (resolved) i v where "res = Inr ()" "\<not> breached" "AlertStore_incidents st i = Some v"
      "unresolved scope (Rule_ID rule) agentID v"
      "st' = put_incident i
         (v\<lparr>Incident_Status := StatusResolved, Incident_ResolvedAt := Some (truncate_micro (Eval_now env)),
            Incident_LatestValue := val, Incident_Message := back_to_normal\<rparr>)
         (alert_events_at st i @ [hub_event scope (mustID (Eval_eventID env)) (Incident_ID v) EventResolved
            back_to_normal (truncate_micro (Eval_now env))]) st"
proof (cases "agentID = []")
  case True
  with assms(1) show ?thesis by (intro refused) (auto simp: evaluate_def)
next
  case False
  let ?now = "truncate_micro (Eval_now env)"
  have vis: "visits (Eval_incidents env)" using assms(4) by (simp add: env_ok_def)
  note found = find_unresolved [OF assms(3) vis]
  show ?thesis
  proof (cases breached)
    case True
    obtain ws where ws: "ListMaintenanceWindows (Eval_sort env) (Eval_windows env) scope st = Inr ws"
      "set ws = {w \<in> ran (AlertStore_windows st). Window_Scope w = scope}"
      using windows_listed [OF assms(2,4) alert_invD(2) [OF assms(3)]] .
    have maint: "(\<exists>w \<in> set ws. covers agentID ?now w) = in_maintenance st scope agentID ?now"
      unfolding ws(2) in_maintenance_def by blast
    note eval = evaluate_def Let_def ws(1) maint
    show ?thesis
    proof (cases "in_maintenance st scope agentID ?now")
      case quiet: True
      with assms(1) False True show ?thesis
        by (intro suppressed) (simp_all add: eval)
    next
      case noisy: False
      show ?thesis
      proof (cases "rand_hex 16 (Eval_incidentID env)")
        case (Inl e)
        with assms(1) False True noisy show ?thesis by (intro refused [of e]) (simp_all add: eval)
      next
        case (Inr i)
        show ?thesis
        proof (cases "find (\<lambda>(i, v). unresolved scope (Rule_ID rule) agentID v)
            (Eval_incidents env (AlertStore_incidents st))")
          case None
          with assms(1,2) False True noisy Inr found(1) show ?thesis
            by (intro opened [of i]) (auto simp: eval EnsureIncident_def find_map_snd
                hub_event_def new_incident_def)
        next
          case (Some iv)
          then have "has_unresolved st scope (Rule_ID rule) agentID"
            using found(2) [of scope "Rule_ID rule" agentID "fst iv" "snd iv"]
            by (auto simp: has_unresolved_def)
          with assms(1,2) False True noisy Inr Some show ?thesis
            by (intro already) (simp_all add: eval EnsureIncident_def find_map_snd
                hub_event_def new_incident_def split: prod.splits)
        qed
      qed
    qed
  next
    case calm_now: False
    show ?thesis
    proof (cases "find (\<lambda>(i, v). unresolved scope (Rule_ID rule) agentID v)
        (Eval_incidents env (AlertStore_incidents st))")
      case None
      with assms(1,2) False calm_now found(1) show ?thesis
        by (intro calm) (auto simp: evaluate_def Let_def ResolveIncident_def hub_event_def)
    next
      case (Some iv)
      obtain i v where iv: "iv = (i, v)" by (cases iv)
      note here = found(2) [OF Some [unfolded iv]]
      from assms(1,2) False calm_now Some iv show ?thesis
        by (intro resolved [OF _ _ conjunct1 [OF here] conjunct2 [OF here]])
          (auto simp: evaluate_def Let_def ResolveIncident_def hub_event_def)
    qed
  qed
qed

section \<open>Evaluations keep the invariant\<close>

text \<open>Identifiers are 128 random bits; a run is one in which a new one is not in use.\<close>

definition fresh_id :: "EvalEnv \<Rightarrow> AlertStore \<Rightarrow> bool" where
  "fresh_id env st \<longleftrightarrow>
     (\<forall>i. rand_hex 16 (Eval_incidentID env) = Inr i \<longrightarrow> AlertStore_incidents st i = None)"

lemma evaluate_inv:
  assumes "evaluate env scope rule agentID breached val message st = (res, st')"
    and "valid_scope scope" "alert_inv st" "env_ok env" "fresh_id env st"
  shows "alert_inv st'"
  using assms(1-4)
proof (cases rule: evaluate_cases)
  case (opened i)
  have "incident_log_ok (new_incident scope rule i agentID val message now)
      [hub_event scope e i EventOpened message now]" for e now
    by (simp add: incident_log_ok_def hub_event_def new_incident_def)
  then show ?thesis
    unfolding opened(6)
  proof (intro alert_inv_put [OF assms(3)])
    show "Incident_ID (new_incident scope rule i agentID val message (truncate_micro (Eval_now env))) = i"
      by (simp add: new_incident_def)
  qed (use assms(2) opened(3) in \<open>simp_all add: has_unresolved_def\<close>)
next
  case (resolved i v)
  note ok = alert_invD(8) [OF assms(3) resolved(3)] and vid = alert_invD(7) [OF assms(3) resolved(3)]
  have open_status: "Incident_Status v = StatusOpen \<or> Incident_Status v = StatusAcknowledged"
    using resolved(4) by (cases "Incident_Status v") (auto simp: unresolved_def)
  have "alert_events_at st i \<noteq> []" using ok by (auto simp: incident_log_ok_def)
  then have log: "incident_log_ok (v\<lparr>Incident_Status := StatusResolved, Incident_ResolvedAt := Some now,
        Incident_LatestValue := val, Incident_Message := back_to_normal\<rparr>)
      (alert_events_at st i @ [hub_event scope e (Incident_ID v) EventResolved back_to_normal now])" for e now
    using ok open_status resolved(4)
    by (auto simp: incident_log_ok_def hub_event_def incident_run_snoc unresolved_def)
  show ?thesis
    unfolding resolved(5)
  proof (rule alert_inv_put [OF assms(3) _ _ log])
    show "valid_scope (Incident_Scope (v\<lparr>Incident_Status := StatusResolved,
        Incident_ResolvedAt := Some (truncate_micro (Eval_now env)), Incident_LatestValue := val,
        Incident_Message := back_to_normal\<rparr>))"
      using alert_invD(9) [OF assms(3) resolved(3)] by (simp add: Incident_Scope_def)
  qed (use vid in \<open>auto simp: unresolved_def\<close>)
qed (use assms(3) in simp_all)

lemma has_unresolved_put:
  "has_unresolved (put_incident i v es st) scope ruleID agentID \<longleftrightarrow>
     unresolved scope ruleID agentID v
     \<or> (\<exists>j w. j \<noteq> i \<and> AlertStore_incidents st j = Some w \<and> unresolved scope ruleID agentID w)"
  by (auto simp: has_unresolved_def)

lemma has_unresolved_except:
  assumes "\<And>v. AlertStore_incidents st i = Some v \<Longrightarrow> \<not> unresolved scope ruleID agentID v"
  shows "(\<exists>j w. j \<noteq> i \<and> AlertStore_incidents st j = Some w \<and> unresolved scope ruleID agentID w)
    \<longleftrightarrow> has_unresolved st scope ruleID agentID"
  using assms unfolding has_unresolved_def by metis

text \<open>An evaluation touches incidents only, and only those of its rule and agent.\<close>

lemma evaluate_frame:
  assumes "evaluate env scope rule agentID breached val message st = (res, st')"
    and "valid_scope scope" "alert_inv st" "env_ok env" "fresh_id env st"
  shows "AlertStore_rules st' = AlertStore_rules st" "AlertStore_windows st' = AlertStore_windows st"
    and "(scope', ruleID, agentID') \<noteq> (scope, Rule_ID rule, agentID) \<Longrightarrow>
      has_unresolved st' scope' ruleID agentID' = has_unresolved st scope' ruleID agentID'"
proof -
  from assms(1-4) show "AlertStore_rules st' = AlertStore_rules st" "AlertStore_windows st' = AlertStore_windows st"
    by (cases rule: evaluate_cases; simp)+
  assume other: "(scope', ruleID, agentID') \<noteq> (scope, Rule_ID rule, agentID)"
  from assms(1-4) show "has_unresolved st' scope' ruleID agentID' = has_unresolved st scope' ruleID agentID'"
  proof (cases rule: evaluate_cases)
    case (opened i)
    have "AlertStore_incidents st i = None" using opened(5) assms(5) by (simp add: fresh_id_def)
    then have "\<And>v. AlertStore_incidents st i = Some v \<Longrightarrow> \<not> unresolved scope' ruleID agentID' v" by simp
    from has_unresolved_except [OF this] other show ?thesis
      unfolding opened(6) has_unresolved_put unresolved_new by blast
  next
    case (resolved i v)
    have "\<not> unresolved scope' ruleID agentID' v"
      using resolved(4) other by (auto simp: unresolved_def scope_eq_iff)
    then have "\<And>w. AlertStore_incidents st i = Some w \<Longrightarrow> \<not> unresolved scope' ruleID agentID' w"
      using resolved(3) by simp
    from has_unresolved_except [OF this] show ?thesis
      unfolding resolved(5) has_unresolved_put by (simp add: unresolved_def)
  qed simp_all
qed

text \<open>Whether an incident is unresolved afterwards.\<close>

lemma evaluate_effect:
  assumes "evaluate env scope rule agentID breached val message st = (Inr (), st')"
    and "valid_scope scope" "alert_inv st" "env_ok env"
  shows "has_unresolved st' scope (Rule_ID rule) agentID \<longleftrightarrow>
    breached \<and> (has_unresolved st scope (Rule_ID rule) agentID
                  \<or> \<not> in_maintenance st scope agentID (truncate_micro (Eval_now env)))"
  using assms
proof (cases rule: evaluate_cases)
  case (opened i)
  have "AlertStore_incidents st' i = Some (new_incident scope rule i agentID val message (truncate_micro (Eval_now env)))"
    unfolding opened(6) by simp
  then have "has_unresolved st' scope (Rule_ID rule) agentID"
    unfolding has_unresolved_def using unresolved_new by blast
  with opened show ?thesis by simp
next
  case (resolved i v)
  have "j = i" if "AlertStore_incidents st j = Some w" "unresolved scope (Rule_ID rule) agentID w" for j w
    using alert_invD(4) [OF assms(3)] resolved(3,4) that unfolding one_unresolved_def by blast
  then have "\<not> has_unresolved st' scope (Rule_ID rule) agentID"
    unfolding resolved(5) has_unresolved_def by (auto simp: unresolved_def split: if_splits)
  with resolved(2) show ?thesis by simp
qed simp_all

lemma in_maintenance_cong:
  "AlertStore_windows st' = AlertStore_windows st \<Longrightarrow>
     in_maintenance st' scope agentID now = in_maintenance st scope agentID now"
  by (simp add: in_maintenance_def)

section \<open>Evaluating all rules\<close>

text \<open>
  One evaluation per rule that applies: \<open>plan\<close> gives the breach, the value and the message of
  a rule, or None where the rule is skipped. Both loops of the service are such a loop.
\<close>

fun rule_loop ::
  "(nat \<Rightarrow> Rule \<Rightarrow> (bool \<times> f64 \<times> string) option) \<Rightarrow> (nat \<Rightarrow> EvalEnv) \<Rightarrow> Scope \<Rightarrow> string \<Rightarrow> nat \<Rightarrow> Rule list
   \<Rightarrow> AlertStore \<Rightarrow> (unit, AlertStore) op" where
  "rule_loop plan env scope agentID n [] st = (Inr (), st)"
| "rule_loop plan env scope agentID n (rule # rules) st =
     (case plan n rule of
        None \<Rightarrow> rule_loop plan env scope agentID (Suc n) rules st
      | Some (breached, val, message) \<Rightarrow>
          (case evaluate (env n) scope rule agentID breached val message st of
             (Inl e, st') \<Rightarrow> (Inl e, st')
           | (Inr _, st') \<Rightarrow> rule_loop plan env scope agentID (Suc n) rules st'))"

definition telemetry_plan ::
  "(f64 \<Rightarrow> string) \<Rightarrow> AlertTelemetry \<Rightarrow> nat \<Rightarrow> Rule \<Rightarrow> (bool \<times> f64 \<times> string) option" where
  "telemetry_plan fmt1 telemetry n rule =
     (let request = Rule_Request rule;
          val = metric_value telemetry (RuleRequest_Metric request);
          threshold = RuleRequest_Threshold request in
      if RuleRequest_Enabled request \<and> RuleRequest_Kind request = KindMetric
      then Some (f64_lt threshold val, val, threshold_message fmt1 (RuleRequest_Metric request) val threshold)
      else None)"

definition reachability_plan ::
  "rounding \<Rightarrow> (f64 \<Rightarrow> string) \<Rightarrow> (nat \<Rightarrow> time) \<Rightarrow> time \<Rightarrow> nat \<Rightarrow> Rule \<Rightarrow> (bool \<times> f64 \<times> string) option" where
  "reachability_plan rnd fmt0 stale lastSeen n rule =
     (let request = Rule_Request rule; s = stale_seconds rnd (stale n) lastSeen in
      if RuleRequest_Enabled request \<and> RuleRequest_Kind request = KindReachability
      then Some (f64_lt (Fin (of_int (RuleRequest_StaleAfterSeconds request))) s, s, stale_message fmt0 s)
      else None)"

lemma telemetry_loop_plan:
  "telemetry_loop fmt1 env scope agentID telemetry n rules st
     = rule_loop (telemetry_plan fmt1 telemetry) env scope (trim_space agentID) n rules st"
  by (induction rules arbitrary: n st)
    (auto simp: telemetry_plan_def Let_def split: prod.splits sum.splits)

lemma reachability_loop_plan:
  "reachability_loop rnd fmt0 stale env scope agentID lastSeen n rules st
     = rule_loop (reachability_plan rnd fmt0 stale lastSeen) env scope (trim_space agentID) n rules st"
  by (induction rules arbitrary: n st)
    (auto simp: reachability_plan_def Let_def split: prod.splits sum.splits)

text \<open>From the \<open>n\<close>-th evaluation on, the new identifiers are unused and distinct.\<close>

definition distinct_ids :: "nat \<Rightarrow> (nat \<Rightarrow> EvalEnv) \<Rightarrow> bool" where
  "distinct_ids n env \<longleftrightarrow>
     (\<forall>k l i. n \<le> k \<and> k < l \<and> rand_hex 16 (Eval_incidentID (env k)) = Inr i \<longrightarrow>
        rand_hex 16 (Eval_incidentID (env l)) \<noteq> Inr i)"

definition fresh_ids :: "nat \<Rightarrow> (nat \<Rightarrow> EvalEnv) \<Rightarrow> AlertStore \<Rightarrow> bool" where
  "fresh_ids n env st \<longleftrightarrow> (\<forall>k \<ge> n. fresh_id (env k) st) \<and> distinct_ids n env"

lemma distinct_ids_Suc: "distinct_ids n env \<Longrightarrow> distinct_ids (Suc n) env"
  unfolding distinct_ids_def by (meson Suc_leD)

lemma fresh_ids_Suc: "fresh_ids n env st \<Longrightarrow> fresh_ids (Suc n) env st"
  by (simp add: fresh_ids_def distinct_ids_Suc)

lemma fresh_ids_id: "fresh_ids n env st \<Longrightarrow> fresh_id (env n) st"
  by (simp add: fresh_ids_def)

lemma evaluate_fresh:
  assumes "evaluate (env n) scope rule agentID breached val message st = (res, st')"
    and "valid_scope scope" "alert_inv st" "env_ok (env n)" "fresh_ids n env st"
  shows "fresh_ids (Suc n) env st'"
  using assms(1-4)
proof (cases rule: evaluate_cases)
  case (opened i)
  have "fresh_id (env k) st'" if "Suc n \<le> k" for k
    unfolding fresh_id_def
  proof (intro allI impI)
    fix j assume j: "rand_hex 16 (Eval_incidentID (env k)) = Inr j"
    have "j \<noteq> i"
      using assms(5) opened(5) j that unfolding fresh_ids_def distinct_ids_def
      by (metis Suc_le_lessD order.refl)
    moreover have "AlertStore_incidents st j = None"
      using assms(5) j that unfolding fresh_ids_def fresh_id_def by (metis Suc_leD)
    ultimately show "AlertStore_incidents st' j = None" unfolding opened(6) by simp
  qed
  with assms(5) show ?thesis by (simp add: fresh_ids_def distinct_ids_Suc)
next
  case (resolved i v)
  have "fresh_id (env k) st'" if "Suc n \<le> k" for k
  proof -
    have "fresh_id (env k) st" using assms(5) that by (simp add: fresh_ids_def)
    with resolved(3) show ?thesis unfolding resolved(5) fresh_id_def by auto
  qed
  with assms(5) show ?thesis by (simp add: fresh_ids_def distinct_ids_Suc)
qed (use fresh_ids_Suc [OF assms(5)] in simp_all)

lemma rule_loop_inv:
  assumes "rule_loop plan env scope agentID n rules st = (res, st')"
    and "valid_scope scope" "alert_inv st" "\<And>k. env_ok (env k)" "fresh_ids n env st"
  shows "alert_inv st' \<and> AlertStore_rules st' = AlertStore_rules st
    \<and> AlertStore_windows st' = AlertStore_windows st"
  using assms(1,3,5)
proof (induction rules arbitrary: n st)
  case (Cons rule rules)
  show ?case
  proof (cases "plan n rule")
    case None
    with Cons show ?thesis by (simp add: fresh_ids_Suc)
  next
    case (Some p)
    obtain breached val message where p: "p = (breached, val, message)" by (cases p)
    obtain out st1 where out: "evaluate (env n) scope rule agentID breached val message st = (out, st1)"
      by fastforce
    note one = out assms(2) Cons.prems(2) assms(4)
    note inv1 = evaluate_inv [OF one fresh_ids_id [OF Cons.prems(3)]]
      and frame1 = evaluate_frame(1,2) [OF one fresh_ids_id [OF Cons.prems(3)]]
      and fresh1 = evaluate_fresh [OF one Cons.prems(3)]
    show ?thesis
    proof (cases out)
      case (Inl e)
      with Cons.prems(1) Some p out inv1 frame1 show ?thesis by simp
    next
      case (Inr u)
      with Cons.prems(1) Some p out have "rule_loop plan env scope agentID (Suc n) rules st1 = (res, st')"
        by simp
      from Cons.IH [OF this inv1 fresh1] frame1 show ?thesis by simp
    qed
  qed
qed simp

lemma rule_loop_frame:
  assumes "rule_loop plan env scope agentID n rules st = (Inr (), st')"
    and "valid_scope scope" "alert_inv st" "\<And>k. env_ok (env k)" "fresh_ids n env st"
    and "ruleID \<notin> set (map Rule_ID rules) \<or> scope' \<noteq> scope \<or> agentID' \<noteq> agentID"
  shows "has_unresolved st' scope' ruleID agentID' = has_unresolved st scope' ruleID agentID'"
  using assms(1,3,5,6)
proof (induction rules arbitrary: n st)
  case (Cons rule rules)
  show ?case
  proof (cases "plan n rule")
    case None
    with Cons.prems Cons.IH [of "Suc n" st] show ?thesis by (auto simp: fresh_ids_Suc)
  next
    case (Some p)
    obtain b v msg where p: "p = (b, v, msg)" by (cases p)
    from Cons.prems(1) Some p obtain st1 where
      out: "evaluate (env n) scope rule agentID b v msg st = (Inr (), st1)" and
      rest: "rule_loop plan env scope agentID (Suc n) rules st1 = (Inr (), st')"
      by (auto split: prod.splits sum.splits)
    note one = out assms(2) Cons.prems(2) assms(4)
    note inv1 = evaluate_inv [OF one fresh_ids_id [OF Cons.prems(3)]]
      and frame1 = evaluate_frame(3) [OF one fresh_ids_id [OF Cons.prems(3)]]
      and fresh1 = evaluate_fresh [OF one Cons.prems(3)]
    have "has_unresolved st' scope' ruleID agentID' = has_unresolved st1 scope' ruleID agentID'"
      using Cons.IH [OF rest inv1 fresh1] Cons.prems(4) by auto
    also have "\<dots> = has_unresolved st scope' ruleID agentID'"
      using Cons.prems(4) by (intro frame1) auto
    finally show ?thesis .
  qed
qed simp

text \<open>
  After the loop a rule has an unresolved incident for the agent exactly when it was
  breached and either had one before or no maintenance window covered the evaluation.
\<close>

lemma rule_loop_effect:
  assumes "rule_loop plan env scope agentID n rules st = (Inr (), st')"
    and "valid_scope scope" "alert_inv st" "\<And>k. env_ok (env k)" "fresh_ids n env st"
    and "distinct (map Rule_ID rules)"
    and "m < length rules" "plan (n + m) (rules ! m) = Some (breached, val, message)"
  shows "has_unresolved st' scope (Rule_ID (rules ! m)) agentID \<longleftrightarrow>
        breached \<and> (has_unresolved st scope (Rule_ID (rules ! m)) agentID
          \<or> \<not> in_maintenance st scope agentID (truncate_micro (Eval_now (env (n + m)))))"
  using assms(1,3,5-8)
proof (induction rules arbitrary: n st m)
  case (Cons rule rules)
  note prems = Cons.prems
  show ?case
  proof (cases "plan n rule")
    case None
    with prems(6) obtain m' where "m = Suc m'" by (cases m) auto
    with None prems Cons.IH [of "Suc n" st m'] show ?thesis by (simp add: fresh_ids_Suc)
  next
    case (Some p)
    obtain b v msg where p: "p = (b, v, msg)" by (cases p)
    from prems(1) Some p obtain st1 where
      out: "evaluate (env n) scope rule agentID b v msg st = (Inr (), st1)" and
      rest: "rule_loop plan env scope agentID (Suc n) rules st1 = (Inr (), st')"
      by (auto split: prod.splits sum.splits)
    note one = out assms(2) prems(2) assms(4)
    note inv1 = evaluate_inv [OF one fresh_ids_id [OF prems(3)]]
      and frame1 = evaluate_frame [OF one fresh_ids_id [OF prems(3)]]
      and fresh1 = evaluate_fresh [OF one prems(3)]
    show ?thesis
    proof (cases m)
      case 0
      have "Rule_ID rule \<notin> set (map Rule_ID rules)" using prems(4) by simp
      then have "has_unresolved st' scope (Rule_ID rule) agentID = has_unresolved st1 scope (Rule_ID rule) agentID"
        by (intro rule_loop_frame [OF rest assms(2) inv1 assms(4) fresh1]) simp
      with evaluate_effect [OF one] 0 Some p prems(6) show ?thesis by simp
    next
      case (Suc m')
      then have m': "m' < length rules" and "plan (Suc n + m') (rules ! m') = Some (breached, val, message)"
        and "distinct (map Rule_ID rules)"
        using prems(4-6) by simp_all
      from Cons.IH [OF rest inv1 fresh1 this(3,1,2)] have
        "has_unresolved st' scope (Rule_ID (rules ! m')) agentID \<longleftrightarrow>
          breached \<and> (has_unresolved st1 scope (Rule_ID (rules ! m')) agentID
            \<or> \<not> in_maintenance st1 scope agentID (truncate_micro (Eval_now (env (Suc n + m')))))" .
      moreover have "Rule_ID (rules ! m') \<noteq> Rule_ID rule"
      proof
        assume same: "Rule_ID (rules ! m') = Rule_ID rule"
        have "Rule_ID (rules ! m') \<in> set (map Rule_ID rules)" using m' by simp
        with prems(4) same show False by simp
      qed
      ultimately show ?thesis
        using frame1(3) [of scope "Rule_ID (rules ! m')" agentID] in_maintenance_cong [OF frame1(2)] Suc
        by simp
    qed
  qed
qed simp

section \<open>The other operations\<close>

lemma alert_inv_rules:
  assumes "alert_inv st" "Rule_ID rule = i" "validRule (Rule_Request rule)" "valid_scope (Rule_Scope rule)"
  shows "alert_inv (st\<lparr>AlertStore_rules := (AlertStore_rules st)(i \<mapsto> rule)\<rparr>)"
  using assms by (simp add: alert_inv_def one_unresolved_def)

lemma alert_inv_windows:
  "alert_inv st \<Longrightarrow> alert_inv (st\<lparr>AlertStore_windows := (AlertStore_windows st)(i \<mapsto> w)\<rparr>)"
  by (simp add: alert_inv_def one_unresolved_def)

lemma alert_inv_hosts: "alert_inv st \<Longrightarrow> alert_inv (st\<lparr>AlertStore_hosts := h\<rparr>)"
  by (simp add: alert_inv_def one_unresolved_def)

lemma Scope_new [simp]:
  "Rule_Scope (new_rule scope i request now) = scope" "Rule_ID (new_rule scope i request now) = i"
  "Rule_Request (new_rule scope i request now) = request"
  "Window_Scope (new_window scope i mrequest now) = scope"
  "MaintenanceWindow_ID (new_window scope i mrequest now) = i"
  "MaintenanceWindow_Request (new_window scope i mrequest now) = mrequest"
  by (simp_all add: Rule_Scope_def new_rule_def Window_Scope_def new_window_def)

lemma CreateAlertRule_new:
  "valid_scope scope \<Longrightarrow> CreateAlertRule scope (new_rule scope i request now) st =
     (Inr (), st\<lparr>AlertStore_rules := (AlertStore_rules st)(i \<mapsto> new_rule scope i request now)\<rparr>)"
  by (simp add: CreateAlertRule_def new_rule_def)

lemma CreateMaintenanceWindow_new:
  "valid_scope scope \<Longrightarrow> CreateMaintenanceWindow scope (new_window scope i request now) st =
     (Inr (), st\<lparr>AlertStore_windows := (AlertStore_windows st)(i \<mapsto> new_window scope i request now)\<rparr>)"
  by (simp add: CreateMaintenanceWindow_def new_window_def)

text \<open>What creating a rule or a window leaves behind, when it is not refused.\<close>

lemma CreateRule_cases:
  assumes "CreateRule r now scope request st = (res, st')"
  obtains (refused) e where "res = Inl e" "st' = st"
  | (created) i rule where "rule = new_rule scope i
        (request\<lparr>RuleRequest_Name := trim_space (RuleRequest_Name request)\<rparr>) now"
      "res = Inr rule" "rand_hex 16 r = Inr i" "valid_scope scope" "validRule (Rule_Request rule)"
      "st' = st\<lparr>AlertStore_rules := (AlertStore_rules st)(i \<mapsto> rule)\<rparr>"
proof (cases res)
  case (Inl e)
  with assms have "st' = st"
    by (auto simp: CreateRule_def CreateAlertRule_def Let_def split: option.splits if_splits sum.splits)
  with Inl show ?thesis by (rule refused)
next
  case (Inr rule)
  then obtain i where "rand_hex 16 r = Inr i" "valid_scope scope"
    using assms by (auto simp: CreateRule_def Let_def split: option.splits if_splits sum.splits)
  with assms Inr show ?thesis
    by (intro created [of rule i])
      (auto simp: CreateRule_def Let_def CreateAlertRule_new split: if_splits)
qed

lemma CreateMaintenance_cases:
  assumes "CreateMaintenance hostExists r now scope request st = (res, st')"
  obtains (refused) e where "res = Inl e" "st' = st"
  | (created) i w where "w = new_window scope i (trim_maintenance request) now" "res = Inr w"
      "rand_hex 16 r = Inr i" "st' = st\<lparr>AlertStore_windows := (AlertStore_windows st)(i \<mapsto> w)\<rparr>"
proof (cases res)
  case (Inl e)
  with assms have "st' = st"
    by (auto simp: CreateMaintenance_def CreateMaintenanceWindow_def Let_def
        split: option.splits if_splits sum.splits)
  with Inl show ?thesis by (rule refused)
next
  case (Inr w)
  then obtain i where "rand_hex 16 r = Inr i" "valid_scope scope"
    using assms by (auto simp: CreateMaintenance_def Let_def split: option.splits if_splits sum.splits)
  with assms Inr show ?thesis
    by (intro created [of w i])
      (auto simp: CreateMaintenance_def Let_def CreateMaintenanceWindow_new split: if_splits sum.splits)
qed

lemma Acknowledge_cases:
  assumes "Acknowledge r now scope incidentID actor st = (res, st')"
  obtains (refused) e where "res = Inl e" "st' = st"
  | (acknowledged) i v v' where "res = Inr v'" "i = trim_space incidentID" "AlertStore_incidents st i = Some v"
      "Incident_Scope v = scope" "Incident_Status v = StatusOpen"
      "v' = v\<lparr>Incident_Status := StatusAcknowledged, Incident_AcknowledgedAt := Some (truncate_micro now),
              Incident_AcknowledgedBy := trim_space actor\<rparr>"
      "trim_space actor \<noteq> []"
      "st' = put_incident i v' (alert_events_at st i @
         [(hub_event scope (mustID r) (Incident_ID v) EventAcknowledged acknowledged_message (truncate_micro now))
            \<lparr>AlertEvent_Actor := trim_space actor\<rparr>]) st"
proof (cases "Scope_Validate scope")
  case (Some e)
  with assms show ?thesis by (intro refused) (auto simp: Acknowledge_def)
next
  case None
  let ?i = "trim_space incidentID"
  show ?thesis
  proof (cases "?i = [] \<or> trim_space actor = [] \<or> length (trim_space actor) > 128")
    case True
    with None assms show ?thesis by (intro refused) (auto simp: Acknowledge_def Let_def)
  next
    case args: False
    show ?thesis
    proof (cases "AlertStore_incidents st ?i")
      case None
      with args \<open>valid_scope scope\<close> assms show ?thesis
        by (intro refused) (auto simp: Acknowledge_def Let_def AcknowledgeIncident_def hub_event_def)
    next
      case (Some v)
      show ?thesis
      proof (cases "Incident_Scope v = scope \<and> Incident_Status v = StatusOpen")
        case True
        then have "Incident_OrganizationID v = Scope_OrganizationID scope" "Incident_SiteID v = Scope_SiteID scope"
          by (auto simp: Incident_Scope_def)
        with args None assms Some True show ?thesis
          by (intro acknowledged [OF _ refl Some]) (auto simp: Acknowledge_def Let_def AcknowledgeIncident_def hub_event_def)
      next
        case False
        with args None assms Some have "(\<exists>e. res = Inl e) \<and> st' = st"
          by (auto simp: Acknowledge_def Let_def AcknowledgeIncident_def hub_event_def
              Incident_Scope_def scope_eq_iff split: if_splits)
        then show ?thesis using refused by blast
      qed
    qed
  qed
qed

lemma acknowledge_inv:
  assumes "alert_inv st" "Acknowledge r now scope incidentID actor st = (res, st')"
  shows "alert_inv st'"
  using assms(2)
proof (cases rule: Acknowledge_cases)
  case (acknowledged i v v')
  note ok = alert_invD(8) [OF assms(1) acknowledged(3)] and vid = alert_invD(7) [OF assms(1) acknowledged(3)]
  have "alert_events_at st i \<noteq> []" using ok by (auto simp: incident_log_ok_def)
  then have log: "incident_log_ok v' (alert_events_at st i @
      [(hub_event scope (mustID r) (Incident_ID v) EventAcknowledged acknowledged_message (truncate_micro now))
         \<lparr>AlertEvent_Actor := trim_space actor\<rparr>])"
    using ok acknowledged(4-6)
    by (auto simp: incident_log_ok_def hub_event_def incident_run_snoc Incident_Scope_def)
  show ?thesis
    unfolding acknowledged(8)
  proof (rule alert_inv_put [OF assms(1) _ _ log])
    show "Incident_ID v' = i" "valid_scope (Incident_Scope v')"
      using vid acknowledged(6) alert_invD(9) [OF assms(1) acknowledged(3)] by (simp_all add: Incident_Scope_def)
    fix scope' ruleID agentID j w
    assume "unresolved scope' ruleID agentID v'" "AlertStore_incidents st j = Some w"
      "unresolved scope' ruleID agentID w"
    moreover from this(1) have "unresolved scope' ruleID agentID v"
      using acknowledged(5,6) by (simp add: unresolved_def)
    ultimately show "j = i"
      using alert_invD(4) [OF assms(1)] acknowledged(3) unfolding one_unresolved_def by blast
  qed
qed (use assms(1) in simp)

section \<open>Steps and reachable stores\<close>

lemma EvaluateTelemetry_plan:
  "EvaluateTelemetry fmt1 srt vis env scope agentID telemetry st =
     (case ListAlertRules srt vis scope st of
        Inl e \<Rightarrow> (Inl e, st)
      | Inr rules \<Rightarrow> rule_loop (telemetry_plan fmt1 telemetry) env scope (trim_space agentID) 0 rules st)"
  by (simp add: EvaluateTelemetry_def ListAlertRules_def telemetry_loop_plan split: option.splits)

lemma EvaluateReachability_plan:
  "EvaluateReachability rnd fmt0 srt vis stale env scope agentID lastSeen st =
     (case ListAlertRules srt vis scope st of
        Inl e \<Rightarrow> (Inl e, st)
      | Inr rules \<Rightarrow>
          rule_loop (reachability_plan rnd fmt0 stale lastSeen) env scope (trim_space agentID) 0 rules st)"
  by (simp add: EvaluateReachability_def ListAlertRules_def reachability_loop_plan split: option.splits)

lemma ListAlertRules_valid: "ListAlertRules srt vis scope st = Inr rules \<Longrightarrow> valid_scope scope"
  by (auto simp: ListAlertRules_def split: option.splits)

lemma evaluate_rules_inv:
  assumes "(case ListAlertRules srt vis scope st of
        Inl e \<Rightarrow> (Inl e, st) | Inr rules \<Rightarrow> rule_loop plan env scope agentID 0 rules st) = (res, st')"
    and "alert_inv st" "\<And>k. env_ok (env k)" "fresh_ids 0 env st"
  shows "alert_inv st'"
proof (cases "ListAlertRules srt vis scope st")
  case (Inr rules)
  with assms(1) have "rule_loop plan env scope agentID 0 rules st = (res, st')" by simp
  from rule_loop_inv [OF this ListAlertRules_valid [OF Inr] assms(2-4)] show ?thesis ..
qed (use assms(1,2) in simp)

inductive alert_step :: "AlertStore \<Rightarrow> AlertStore \<Rightarrow> bool" where
  create_rule: "CreateRule r now scope request st = (res, st') \<Longrightarrow> alert_step st st'"
| create_maintenance: "CreateMaintenance hostExists r now scope mrequest st = (mres, st') \<Longrightarrow> alert_step st st'"
| register_host: "alert_step st (RegisterHost scope agentID st)"
| telemetry: "EvaluateTelemetry fmt1 srt vis env scope agentID sample st = (eres, st') \<Longrightarrow>
    (\<And>k. env_ok (env k)) \<Longrightarrow> fresh_ids 0 env st \<Longrightarrow> alert_step st st'"
| reachability: "EvaluateReachability rnd fmt0 srt vis stale env scope agentID lastSeen st = (eres, st') \<Longrightarrow>
    (\<And>k. env_ok (env k)) \<Longrightarrow> fresh_ids 0 env st \<Longrightarrow> alert_step st st'"
| acknowledge: "Acknowledge r now scope incidentID actor st = (ares, st') \<Longrightarrow> alert_step st st'"

inductive alert_reach :: "AlertStore \<Rightarrow> bool" where
  init: "alert_reach NewAlertStore"
| step: "alert_reach st \<Longrightarrow> alert_step st st' \<Longrightarrow> alert_reach st'"

lemma alert_step_inv: "alert_step st st' \<Longrightarrow> alert_inv st \<Longrightarrow> alert_inv st'"
proof (induction rule: alert_step.induct)
  case (create_rule r now scope request st res st')
  from create_rule.hyps show ?case
    by (cases rule: CreateRule_cases) (use create_rule.prems in \<open>simp_all add: alert_inv_rules\<close>)
next
  case (create_maintenance hostExists r now scope mrequest st mres st')
  from create_maintenance.hyps show ?case
    by (cases rule: CreateMaintenance_cases) (use create_maintenance.prems in \<open>simp_all add: alert_inv_windows\<close>)
next
  case (telemetry fmt1 srt vis env scope agentID sample st eres st')
  then show ?case unfolding EvaluateTelemetry_plan by (blast intro: evaluate_rules_inv)
next
  case (reachability rnd fmt0 srt vis stale env scope agentID lastSeen st eres st')
  then show ?case unfolding EvaluateReachability_plan by (blast intro: evaluate_rules_inv)
qed (simp_all add: RegisterHost_def alert_inv_hosts acknowledge_inv)

lemma alert_reach_inv: "alert_reach st \<Longrightarrow> alert_inv st"
  by (induction rule: alert_reach.induct) (simp_all add: alert_inv_init alert_step_inv)

section \<open>Listings\<close>

lemma ListAlertRules_set:
  assumes "ListAlertRules srt vis scope st = Inr rules" "slice_sort srt" "visits vis" "alert_inv st"
  shows "set rules = {rule \<in> ran (AlertStore_rules st). Rule_Scope rule = scope}"
    and "distinct (map Rule_ID rules)"
proof -
  let ?it = "vis (AlertStore_rules st)"
  let ?mine = "filter (\<lambda>v. \<not> (Rule_OrganizationID v \<noteq> Scope_OrganizationID scope
      \<or> Rule_SiteID v \<noteq> Scope_SiteID scope)) (map snd ?it)"
  have rng: "ranges ?it (AlertStore_rules st)" using assms(3) alert_invD(1) [OF assms(4)] by (rule visitsD)
  have rules: "rules = srt (\<lambda>a b. Rule_CreatedAt a < Rule_CreatedAt b) ?mine"
    using assms(1) by (auto simp: ListAlertRules_def split: option.splits)
  show "set rules = {rule \<in> ran (AlertStore_rules st). Rule_Scope rule = scope}"
    unfolding rules slice_sort.set_srt [OF assms(2)] ranges_values [OF rng, symmetric]
    by (auto simp: Rule_Scope_def scope_eq_iff)
  have "map (\<lambda>e. Rule_ID (snd e)) ?it = map fst ?it"
    using alert_invD(5) [OF assms(4)] ranges_entry [OF rng] by auto
  then have "map Rule_ID (map snd ?it) = map fst ?it" by simp
  then have "distinct (map Rule_ID (map snd ?it))" using rng unfolding ranges_def by (simp only:)
  then have "distinct (map Rule_ID ?mine)" by (rule distinct_map_filter)
  moreover have "mset (map Rule_ID rules) = mset (map Rule_ID ?mine)"
    unfolding rules mset_map slice_sort.mset_srt [OF assms(2)] ..
  from mset_eq_imp_distinct_iff [OF this] calculation
  show "distinct (map Rule_ID rules)" by (rule iffD2)
qed

definition scope_incidents :: "Scope \<Rightarrow> (string \<times> Incident) list \<Rightarrow> Incident list" where
  "scope_incidents scope it = filter (\<lambda>v. Incident_Scope v = scope) (map snd it)"

lemma ListIncidents_rows:
  assumes "slice_sort srt" "ListIncidents srt vis scope limit st = Inr rows"
  shows "1 \<le> limit \<and> limit \<le> 500 \<and> top_of (\<lambda>a b. Incident_OpenedAt b < Incident_OpenedAt a) (nat limit)
    (scope_incidents scope (vis (AlertStore_incidents st))) rows"
proof -
  have mine: "filter (\<lambda>v. Incident_OrganizationID v = Scope_OrganizationID scope
      \<and> Incident_SiteID v = Scope_SiteID scope) (map snd it) = scope_incidents scope it" for it
    unfolding scope_incidents_def by (rule filter_cong) (auto simp: Incident_Scope_def scope_eq_iff)
  have "rows = take (nat limit) (srt (\<lambda>a b. Incident_OpenedAt b < Incident_OpenedAt a)
      (scope_incidents scope (vis (AlertStore_incidents st))))" "1 \<le> limit" "limit \<le> 500"
    using assms(2) by (auto simp: ListIncidents_def ListAlertIncidents_def mine Let_def
        split: option.splits if_splits)
  then show ?thesis using slice_sort.take_srt [OF assms(1)] by simp
qed

definition incident_list_ok ::
  "Incident sorter \<times> (string, Incident) visit \<times> int \<Rightarrow> AlertStore \<Rightarrow> bool" where
  "incident_list_ok q st = (case q of (srt, vis, _) \<Rightarrow> slice_sort srt \<and> ranges (vis (AlertStore_incidents st)) (AlertStore_incidents st))"

interpretation incident_listing: scoped_listing
  "\<lambda>(srt, vis, limit) scope st. ListIncidents srt vis scope limit st"
  incident_list_ok "\<lambda>st v. v \<in> ran (AlertStore_incidents st)" Incident_Scope
proof
  show "Scope_Validate scope = Some e \<Longrightarrow>
      (case q of (srt, vis, limit) \<Rightarrow> \<lambda>scope st. ListIncidents srt vis scope limit st) scope st = Inl e"
    for scope e q and st :: AlertStore
    by (simp add: ListIncidents_def split: prod.splits)
next
  fix q :: "Incident sorter \<times> (string, Incident) visit \<times> int" and scope rows row and st :: AlertStore
  assume ok: "incident_list_ok q st" and row: "row \<in> set rows"
    and out: "(case q of (srt, vis, limit) \<Rightarrow> \<lambda>scope st. ListIncidents srt vis scope limit st) scope st = Inr rows"
  obtain srt vis limit where q: "q = (srt, vis, limit)" by (cases q)
  have srt: "slice_sort srt"
    and rng: "ranges (vis (AlertStore_incidents st)) (AlertStore_incidents st)"
    using ok unfolding q incident_list_ok_def by simp_all
  have "ListIncidents srt vis scope limit st = Inr rows" using out unfolding q by simp
  with srt have "top_of (\<lambda>a b. Incident_OpenedAt b < Incident_OpenedAt a) (nat limit)
      (scope_incidents scope (vis (AlertStore_incidents st))) rows"
    by (blast dest: ListIncidents_rows)
  from top_of_set [OF this] row
  have "row \<in> set (scope_incidents scope (vis (AlertStore_incidents st)))" by blast
  then show "row \<in> ran (AlertStore_incidents st) \<and> Incident_Scope row = scope"
    using ranges_values [OF rng] unfolding scope_incidents_def by auto
qed

section \<open>Incidents are not rewritten\<close>

text \<open>
  From one store to a later one every incident keeps its identity, its log grows at the end
  only, and a resolved incident stays as it is.
\<close>

definition same_incident :: "Incident \<Rightarrow> Incident \<Rightarrow> bool" where
  "same_incident v w \<longleftrightarrow>
     Incident_ID v = Incident_ID w \<and> Incident_Scope v = Incident_Scope w
     \<and> Incident_RuleID v = Incident_RuleID w \<and> Incident_RuleName v = Incident_RuleName w
     \<and> Incident_AgentID v = Incident_AgentID w
     \<and> Incident_Severity v = Incident_Severity w \<and> Incident_OpenedAt v = Incident_OpenedAt w"

definition alert_extends :: "AlertStore \<Rightarrow> AlertStore \<Rightarrow> bool" where
  "alert_extends st st' \<longleftrightarrow>
     (\<forall>i v. AlertStore_incidents st i = Some v \<longrightarrow>
        (\<exists>v' es. AlertStore_incidents st' i = Some v' \<and> alert_events_at st' i = alert_events_at st i @ es
           \<and> same_incident v v' \<and> (Incident_Status v = StatusResolved \<longrightarrow> v' = v \<and> es = [])))"

lemma alert_extends_refl: "alert_extends st st"
  by (simp add: alert_extends_def same_incident_def)

lemma alert_extends_same:
  "AlertStore_incidents st' = AlertStore_incidents st \<Longrightarrow> AlertStore_events st' = AlertStore_events st \<Longrightarrow>
     alert_extends st st'"
  by (simp add: alert_extends_def same_incident_def alert_events_at_def)

lemma alert_extends_trans:
  assumes "alert_extends st st'" "alert_extends st' st''"
  shows "alert_extends st st''"
  unfolding alert_extends_def
proof (intro allI impI)
  fix i v assume "AlertStore_incidents st i = Some v"
  with assms(1) obtain v' es where one: "AlertStore_incidents st' i = Some v'"
    "alert_events_at st' i = alert_events_at st i @ es" "same_incident v v'"
    "Incident_Status v = StatusResolved \<longrightarrow> v' = v \<and> es = []"
    unfolding alert_extends_def by blast
  with assms(2) obtain v'' fs where two: "AlertStore_incidents st'' i = Some v''"
    "alert_events_at st'' i = alert_events_at st' i @ fs" "same_incident v' v''"
    "Incident_Status v' = StatusResolved \<longrightarrow> v'' = v' \<and> fs = []"
    unfolding alert_extends_def by blast
  from one(3) two(3) have "same_incident v v''" by (simp add: same_incident_def)
  with one two show "\<exists>v' es. AlertStore_incidents st'' i = Some v'
      \<and> alert_events_at st'' i = alert_events_at st i @ es \<and> same_incident v v'
      \<and> (Incident_Status v = StatusResolved \<longrightarrow> v' = v \<and> es = [])" by auto
qed

lemma alert_extends_put:
  assumes "AlertStore_incidents st i = Some v" "Incident_Status v \<noteq> StatusResolved" "same_incident v v'"
  shows "alert_extends st (put_incident i v' (alert_events_at st i @ [e]) st)"
  using assms by (auto simp: alert_extends_def same_incident_def)

lemma alert_extends_new:
  "AlertStore_incidents st i = None \<Longrightarrow> alert_extends st (put_incident i v es st)"
  by (auto simp: alert_extends_def same_incident_def)

lemma evaluate_extends:
  assumes "evaluate env scope rule agentID breached val message st = (res, st')"
    and "valid_scope scope" "alert_inv st" "env_ok env" "fresh_id env st"
  shows "alert_extends st st'"
  using assms(1-4)
proof (cases rule: evaluate_cases)
  case (opened i)
  then show ?thesis unfolding opened(6) using assms(5) by (intro alert_extends_new) (simp add: fresh_id_def)
next
  case (resolved i v)
  then show ?thesis
    unfolding resolved(5)
    by (intro alert_extends_put) (auto simp: unresolved_def same_incident_def Incident_Scope_def)
qed (simp_all add: alert_extends_refl)

lemma rule_loop_extends:
  assumes "rule_loop plan env scope agentID n rules st = (res, st')"
    and "valid_scope scope" "alert_inv st" "\<And>k. env_ok (env k)" "fresh_ids n env st"
  shows "alert_extends st st'"
  using assms(1,3,5)
proof (induction rules arbitrary: n st)
  case (Cons rule rules)
  show ?case
  proof (cases "plan n rule")
    case None
    with Cons show ?thesis by (simp add: fresh_ids_Suc)
  next
    case (Some p)
    obtain breached val message where p: "p = (breached, val, message)" by (cases p)
    obtain out st1 where out: "evaluate (env n) scope rule agentID breached val message st = (out, st1)"
      by fastforce
    note one = out assms(2) Cons.prems(2) assms(4)
    note inv1 = evaluate_inv [OF one fresh_ids_id [OF Cons.prems(3)]]
      and ext1 = evaluate_extends [OF one fresh_ids_id [OF Cons.prems(3)]]
      and fresh1 = evaluate_fresh [OF one Cons.prems(3)]
    show ?thesis
    proof (cases out)
      case (Inl e)
      with Cons.prems(1) Some p out ext1 show ?thesis by simp
    next
      case (Inr u)
      with Cons.prems(1) Some p out have "rule_loop plan env scope agentID (Suc n) rules st1 = (res, st')"
        by simp
      from alert_extends_trans [OF ext1 Cons.IH [OF this inv1 fresh1]] show ?thesis .
    qed
  qed
qed (simp add: alert_extends_refl)

lemma evaluate_rules_extends:
  assumes "(case ListAlertRules srt vis scope st of
        Inl e \<Rightarrow> (Inl e, st) | Inr rules \<Rightarrow> rule_loop plan env scope agentID 0 rules st) = (res, st')"
    and "alert_inv st" "\<And>k. env_ok (env k)" "fresh_ids 0 env st"
  shows "alert_extends st st'"
proof (cases "ListAlertRules srt vis scope st")
  case (Inr rules)
  with assms(1) have "rule_loop plan env scope agentID 0 rules st = (res, st')" by simp
  from rule_loop_extends [OF this ListAlertRules_valid [OF Inr] assms(2-4)] show ?thesis .
qed (use assms(1) in \<open>simp add: alert_extends_refl\<close>)

lemma acknowledge_extends:
  assumes "Acknowledge r now scope incidentID actor st = (res, st')"
  shows "alert_extends st st'"
  using assms
proof (cases rule: Acknowledge_cases)
  case (acknowledged i v v')
  then show ?thesis
    unfolding acknowledged(8)
    by (intro alert_extends_put) (simp_all add: same_incident_def Incident_Scope_def)
qed (simp add: alert_extends_refl)

lemma alert_step_extends: "alert_step st st' \<Longrightarrow> alert_inv st \<Longrightarrow> alert_extends st st'"
proof (induction rule: alert_step.induct)
  case (create_rule r now scope request st res st')
  from create_rule.hyps show ?case
    by (cases rule: CreateRule_cases) (simp_all add: alert_extends_same)
next
  case (create_maintenance hostExists r now scope mrequest st mres st')
  from create_maintenance.hyps show ?case
    by (cases rule: CreateMaintenance_cases) (simp_all add: alert_extends_same)
next
  case (telemetry fmt1 srt vis env scope agentID sample st eres st')
  then show ?case unfolding EvaluateTelemetry_plan by (blast intro: evaluate_rules_extends)
next
  case (reachability rnd fmt0 srt vis stale env scope agentID lastSeen st eres st')
  then show ?case unfolding EvaluateReachability_plan by (blast intro: evaluate_rules_extends)
qed (simp_all add: RegisterHost_def alert_extends_same acknowledge_extends)

inductive alert_steps :: "AlertStore \<Rightarrow> AlertStore \<Rightarrow> bool" where
  none: "alert_steps st st"
| more: "alert_steps st st' \<Longrightarrow> alert_step st' st'' \<Longrightarrow> alert_steps st st''"

lemma alert_steps_keep:
  "alert_steps st st' \<Longrightarrow> alert_inv st \<Longrightarrow> alert_inv st' \<and> alert_extends st st'"
proof (induction rule: alert_steps.induct)
  case (more st st' st'')
  then show ?case using alert_step_inv alert_step_extends alert_extends_trans by blast
qed (simp add: alert_extends_refl)

section \<open>What a report leaves behind\<close>

lemma rules_effect:
  assumes "(case ListAlertRules srt vis scope st of
        Inl e \<Rightarrow> (Inl e, st) | Inr rules \<Rightarrow> rule_loop plan env scope agentID 0 rules st) = (Inr (), st')"
    and inv: "alert_inv st" and env: "\<And>k. env_ok (env k)" "fresh_ids 0 env st"
    and sort: "slice_sort srt" "visits vis"
    and rule: "rule \<in> ran (AlertStore_rules st)" "Rule_Scope rule = scope"
    and plan: "\<And>n. \<exists>val message. plan n rule = Some (breached n, val, message)"
  shows "\<exists>n. has_unresolved st' scope (Rule_ID rule) agentID \<longleftrightarrow>
    breached n \<and> (has_unresolved st scope (Rule_ID rule) agentID
      \<or> \<not> in_maintenance st scope agentID (truncate_micro (Eval_now (env n))))"
proof (cases "ListAlertRules srt vis scope st")
  case (Inr rules)
  with assms(1) have loop: "rule_loop plan env scope agentID 0 rules st = (Inr (), st')" by simp
  have "rule \<in> set rules" using ListAlertRules_set(1) [OF Inr sort inv] rule by simp
  then obtain m where m: "m < length rules" "rules ! m = rule" by (auto simp: in_set_conv_nth)
  obtain val message where "plan (0 + m) (rules ! m) = Some (breached m, val, message)"
    using plan [of m] m by auto
  from rule_loop_effect [OF loop ListAlertRules_valid [OF Inr] inv env
      ListAlertRules_set(2) [OF Inr sort inv] m(1) this] m(2) show ?thesis by auto
qed (use assms(1) in simp)

lemma rules_frame:
  assumes "(case ListAlertRules srt vis scope st of
        Inl e \<Rightarrow> (Inl e, st) | Inr rules \<Rightarrow> rule_loop plan env scope agentID 0 rules st) = (Inr (), st')"
    and inv: "alert_inv st" and env: "\<And>k. env_ok (env k)" "fresh_ids 0 env st"
    and "scope' \<noteq> scope \<or> agentID' \<noteq> agentID"
  shows "has_unresolved st' scope' ruleID agentID' = has_unresolved st scope' ruleID agentID'"
proof (cases "ListAlertRules srt vis scope st")
  case (Inr rules)
  with assms(1) have loop: "rule_loop plan env scope agentID 0 rules st = (Inr (), st')" by simp
  from rule_loop_frame [OF loop ListAlertRules_valid [OF Inr] inv env] assms(5) show ?thesis by blast
qed (use assms(1) in simp)

end
