(* ===== verification/Alerting_Properties.thy ===== *)
theory Alerting_Properties
  imports Alerting_Lifecycle
begin

text \<open>
  The properties of alerting, with a run that shows their hypotheses can hold: one rule on
  the processor load, one report above and one below its threshold.
\<close>

section \<open>A concrete run\<close>

definition ex_rule_request :: RuleRequest where
  "ex_rule_request = \<lparr>RuleRequest_Name = ''cpu'', RuleRequest_Kind = KindMetric, RuleRequest_Metric = MetricCPU,
     RuleRequest_Threshold = Fin 90, RuleRequest_StaleAfterSeconds = 0,
     RuleRequest_Severity = SeverityCritical, RuleRequest_Enabled = True\<rparr>"

definition ex_rule_id :: string where "ex_rule_id = hex_encode (replicate 16 (CHR ''b''))"
definition ex_incident_id :: string where "ex_incident_id = hex_encode (replicate 16 (CHR ''c''))"

definition ex_rule :: Rule where "ex_rule = new_rule DefaultScope ex_rule_id ex_rule_request 7000"

definition ex_alerts :: AlertStore where
  "ex_alerts = NewAlertStore\<lparr>AlertStore_rules := [ex_rule_id \<mapsto> ex_rule]\<rparr>"

definition ex_env :: "nat \<Rightarrow> EvalEnv" where
  "ex_env n = \<lparr>Eval_now = 8000, Eval_incidentID = (if n = 0 then Some (\<lambda>i. CHR ''c'') else None),
     Eval_eventID = Some (\<lambda>i. CHR ''d''), Eval_sort = insertion_sort, Eval_windows = visit_by_key,
     Eval_incidents = visit_by_key\<rparr>"

definition ex_sample :: "rat \<Rightarrow> AlertTelemetry" where
  "ex_sample cpu = \<lparr>AlertTelemetry_CPUPercent = Fin cpu, AlertTelemetry_MemoryPercent = Fin 10,
     AlertTelemetry_DiskPercent = Fin 10\<rparr>"

lemma ex_alert_rand:
  "rand_hex 16 (Some (\<lambda>i. CHR ''b'')) = Inr ex_rule_id"
  "rand_hex 16 (Some (\<lambda>i. CHR ''c'')) = Inr ex_incident_id"
  by (simp_all add: rand_hex_def ex_rule_id_def ex_incident_id_def map_replicate_const)

lemma ex_alert_trim: "trim_space ''cpu'' = ''cpu''" "trim_space ''web-1'' = ''web-1''"
  by (rule trim_space_plain; simp add: plain_char_def)+

lemma ex_valid_rule: "validRule ex_rule_request"
  by (simp add: validRule_def ex_rule_request_def)

lemma ex_create_rule:
  "CreateRule (Some (\<lambda>i. CHR ''b'')) 7000 DefaultScope ex_rule_request NewAlertStore = (Inr ex_rule, ex_alerts)"
proof -
  have "ex_rule_request\<lparr>RuleRequest_Name := trim_space (RuleRequest_Name ex_rule_request)\<rparr> = ex_rule_request"
    by (simp add: ex_rule_request_def ex_alert_trim)
  then show ?thesis
    by (simp add: CreateRule_def ex_valid_rule ex_alert_rand CreateAlertRule_new Let_def)
      (simp add: ex_rule_def ex_alerts_def NewAlertStore_def)
qed

lemma ex_alert_reach: "alert_reach ex_alerts"
  by (rule alert_reach.step [OF alert_reach.init alert_step.create_rule [OF ex_create_rule]])

lemma ex_env_ok: "env_ok (ex_env k)"
  by (simp add: env_ok_def ex_env_def insertion.slice_sort_axioms visits_by_key)

lemma ex_env_fresh: "fresh_ids 0 ex_env ex_alerts"
  by (auto simp: fresh_ids_def fresh_id_def distinct_ids_def ex_env_def ex_alerts_def NewAlertStore_def
      rand_hex_def)

lemma visit_by_key_simps [simp]:
  "visit_by_key Map.empty = []" "visit_by_key [k \<mapsto> v] = [(k, v)]"
  by (simp_all add: visit_by_key_def)

lemma insertion_sort_singleton [simp]: "insertion_sort lt [x] = [x]" "insertion_sort lt [] = []"
  by (simp_all add: insertion_sort_def)

definition ex_incident :: Incident where
  "ex_incident = new_incident DefaultScope ex_rule ex_incident_id ''web-1'' (Fin 95)
     (threshold_message (\<lambda>x. ''n'') MetricCPU (Fin 95) (Fin 90)) 8000"

definition ex_opened :: AlertStore where
  "ex_opened = put_incident ex_incident_id ex_incident
     [hub_event DefaultScope (mustID (Some (\<lambda>i. CHR ''d''))) ex_incident_id EventOpened
        (threshold_message (\<lambda>x. ''n'') MetricCPU (Fin 95) (Fin 90)) 8000] ex_alerts"

lemma ex_rule_simps [simp]: "Rule_ID ex_rule = ex_rule_id" "Rule_Request ex_rule = ex_rule_request"
  "Rule_Scope ex_rule = DefaultScope" "Rule_OrganizationID ex_rule = Scope_OrganizationID DefaultScope"
  "Rule_SiteID ex_rule = Scope_SiteID DefaultScope"
  by (simp_all add: ex_rule_def) (simp_all add: new_rule_def)

lemma ex_evaluated:
  "EvaluateTelemetry (\<lambda>x. ''n'') insertion_sort visit_by_key ex_env DefaultScope ''web-1'' (ex_sample 95) ex_alerts
     = (Inr (), ex_opened)"
proof -
  have stored: "AlertStore_rules ex_alerts = [ex_rule_id \<mapsto> ex_rule]"
    "AlertStore_windows ex_alerts = Map.empty" "AlertStore_incidents ex_alerts = Map.empty"
    by (simp_all add: ex_alerts_def NewAlertStore_def)
  have listed: "ListAlertRules insertion_sort visit_by_key DefaultScope ex_alerts = Inr [ex_rule]"
    "ListMaintenanceWindows insertion_sort visit_by_key DefaultScope ex_alerts = Inr []"
    by (simp_all add: ListAlertRules_def ListMaintenanceWindows_def stored)
  have ensured: "EnsureIncident visit_by_key DefaultScope ex_incident
      (hub_event DefaultScope e ex_incident_id EventOpened m 8000) ex_alerts
      = (Inr (ex_incident, True), put_incident ex_incident_id ex_incident
           [hub_event DefaultScope e ex_incident_id EventOpened m 8000] ex_alerts)" for e m
    by (simp add: EnsureIncident_def stored ex_incident_def new_incident_def hub_event_def)
  show ?thesis
    by (simp add: EvaluateTelemetry_plan listed telemetry_plan_def Let_def ex_rule_request_def
        metric_value_def ex_sample_def evaluate_def ex_env_def ex_alert_rand ex_alert_trim
        truncate_micro_def ex_incident_def [symmetric] ensured ex_opened_def)
qed

section \<open>Properties\<close>

text \<open>
  C33. Incidents. In every store the operations can reach, every incident has a log that the
  automaton opened, acknowledged?, resolved accepts and that leads to its status; it has a
  resolution time exactly when it is resolved and an acknowledgement exactly when its log
  has one; and no rule has two unresolved incidents for the same agent in the same scope.
\<close>

theorem incident_invariant:
  assumes "alert_reach st"
  shows "(\<forall>i v. AlertStore_incidents st i = Some v \<longrightarrow>
            Incident_ID v = i \<and> incident_log_ok v (alert_events_at st i))
    \<and> (\<forall>i j v w scope ruleID agentID.
         AlertStore_incidents st i = Some v \<and> AlertStore_incidents st j = Some w
         \<and> unresolved scope ruleID agentID v \<and> unresolved scope ruleID agentID w \<longrightarrow> i = j)"
  using alert_invD(4,7,8) [OF alert_reach_inv [OF assms]] unfolding one_unresolved_def by blast

lemma ex_opened_reach: "alert_reach ex_opened"
  by (rule alert_reach.step [OF ex_alert_reach alert_step.telemetry [OF ex_evaluated ex_env_ok ex_env_fresh]])

theorem incident_invariant_witness:
  "incident_log_ok ex_incident (alert_events_at ex_opened ex_incident_id)
   \<and> Incident_Status ex_incident = StatusOpen"
proof -
  have "AlertStore_incidents ex_opened ex_incident_id = Some ex_incident" by (simp add: ex_opened_def)
  with incident_invariant [OF ex_opened_reach]
  have "incident_log_ok ex_incident (alert_events_at ex_opened ex_incident_id)" by blast
  then show ?thesis by (simp add: ex_incident_def new_incident_def)
qed

text \<open>
  What a telemetry report leaves behind. When the evaluation of a report returns without
  an error, every enabled metric rule of the scope whose threshold the reported value does
  not exceed has no unresolved incident for that agent, and one whose threshold it exceeds
  has one unless a maintenance window covers an evaluation. Incidents of other agents and
  other scopes are not opened or resolved.
\<close>

theorem telemetry_report_effect:
  assumes "alert_reach st" and "slice_sort srt" and "visits vis"
    and "\<forall>k. env_ok (env k)" and "fresh_ids 0 env st"
    and "EvaluateTelemetry fmt1 srt vis env scope agentID telemetry st = (Inr (), st')"
    and "rule \<in> ran (AlertStore_rules st)" and "Rule_Scope rule = scope"
    and "RuleRequest_Enabled (Rule_Request rule)" and "RuleRequest_Kind (Rule_Request rule) = KindMetric"
  shows "(\<not> f64_lt (RuleRequest_Threshold (Rule_Request rule))
              (metric_value telemetry (RuleRequest_Metric (Rule_Request rule))) \<longrightarrow>
            \<not> has_unresolved st' scope (Rule_ID rule) (trim_space agentID))
    \<and> (f64_lt (RuleRequest_Threshold (Rule_Request rule))
          (metric_value telemetry (RuleRequest_Metric (Rule_Request rule)))
        \<and> (\<forall>n. \<not> in_maintenance st scope (trim_space agentID) (truncate_micro (Eval_now (env n)))) \<longrightarrow>
          has_unresolved st' scope (Rule_ID rule) (trim_space agentID))
    \<and> (\<forall>scope' agentID' ruleID. scope' \<noteq> scope \<or> agentID' \<noteq> trim_space agentID \<longrightarrow>
          has_unresolved st' scope' ruleID agentID' = has_unresolved st scope' ruleID agentID')"
proof -
  note loop = assms(6) [unfolded EvaluateTelemetry_plan]
  let ?breached = "f64_lt (RuleRequest_Threshold (Rule_Request rule))
      (metric_value telemetry (RuleRequest_Metric (Rule_Request rule)))"
  have plan: "\<exists>val message. telemetry_plan fmt1 telemetry n rule = Some (?breached, val, message)" for n
    using assms(9,10) by (simp add: telemetry_plan_def Let_def)
  have env: "\<And>k. env_ok (env k)" using assms(4) by simp
  from rules_effect [OF loop alert_reach_inv [OF assms(1)] env assms(5,2,3,7,8) plan]
    rules_frame [OF loop alert_reach_inv [OF assms(1)] env assms(5)]
  show ?thesis by blast
qed

theorem telemetry_report_effect_witness: "has_unresolved ex_opened DefaultScope ex_rule_id ''web-1''"
proof -
  have rule: "ex_rule \<in> ran (AlertStore_rules ex_alerts)" by (simp add: ex_alerts_def)
  have quiet: "\<not> in_maintenance ex_alerts DefaultScope ''web-1'' now" for now
    by (simp add: in_maintenance_def ex_alerts_def NewAlertStore_def)
  have "RuleRequest_Enabled (Rule_Request ex_rule)" "RuleRequest_Kind (Rule_Request ex_rule) = KindMetric"
    by (simp_all add: ex_rule_request_def)
  from telemetry_report_effect [OF ex_alert_reach insertion.slice_sort_axioms visits_by_key _ ex_env_fresh
      ex_evaluated rule _ this] quiet
  show ?thesis
    by (simp add: ex_env_ok ex_alert_trim) (simp add: ex_rule_request_def ex_sample_def metric_value_def)
qed

text \<open>
  Incidents are history. Through any sequence of operations an incident keeps its
  identity, scope, rule, agent, severity and opening time, its log only grows at the end,
  and once it is resolved neither it nor its log changes again: a later breach opens a new
  incident.
\<close>

theorem incident_history:
  assumes "alert_reach st" and "alert_steps st st'" and "AlertStore_incidents st i = Some v"
  shows "\<exists>v' es. AlertStore_incidents st' i = Some v' \<and> alert_events_at st' i = alert_events_at st i @ es
    \<and> same_incident v v' \<and> (Incident_Status v = StatusResolved \<longrightarrow> v' = v \<and> es = [])"
  using alert_steps_keep [OF assms(2) alert_reach_inv [OF assms(1)]] assms(3)
  unfolding alert_extends_def by blast

theorem incident_history_witness:
  "\<exists>v' es. AlertStore_incidents (snd (Acknowledge None 9000 DefaultScope ex_incident_id ''alice'' ex_opened)) ex_incident_id
      = Some v' \<and> same_incident ex_incident v'"
proof -
  obtain res st' where out: "Acknowledge None 9000 DefaultScope ex_incident_id ''alice'' ex_opened = (res, st')"
    by fastforce
  have "AlertStore_incidents ex_opened ex_incident_id = Some ex_incident" by (simp add: ex_opened_def)
  from incident_history [OF ex_opened_reach
      alert_steps.more [OF alert_steps.none alert_step.acknowledge [OF out]] this] out
  show ?thesis by auto
qed

text \<open>
  Acknowledging. An operator can acknowledge an incident of the requested scope only,
  and only while it is open: the incident then names the operator and the time and its log
  ends with one acknowledgement by that operator. In every other case (invalid scope, empty
  or overlong actor, unknown incident, incident of another scope, incident already
  acknowledged or resolved) the store does not change.
\<close>

theorem acknowledge_spec:
  assumes "alert_reach st"
  shows "case Acknowledge r now scope incidentID actor st of
     (Inl e, st') \<Rightarrow> st' = st
   | (Inr v', st') \<Rightarrow>
       \<exists>v. AlertStore_incidents st (trim_space incidentID) = Some v \<and> Incident_Scope v = scope
         \<and> Incident_Status v = StatusOpen \<and> Incident_Status v' = StatusAcknowledged
         \<and> Incident_AcknowledgedBy v' = trim_space actor \<and> trim_space actor \<noteq> []
         \<and> Incident_AcknowledgedAt v' = Some (truncate_micro now) \<and> same_incident v v'
         \<and> AlertStore_incidents st' = (AlertStore_incidents st)(trim_space incidentID \<mapsto> v')
         \<and> (\<exists>e. alert_events_at st' (trim_space incidentID) = alert_events_at st (trim_space incidentID) @ [e]
              \<and> AlertEvent_Type e = EventAcknowledged \<and> AlertEvent_Actor e = trim_space actor
              \<and> AlertEvent_IncidentID e = trim_space incidentID)"
proof (cases "Acknowledge r now scope incidentID actor st")
  case (Pair res st')
  then show ?thesis
  proof (cases rule: Acknowledge_cases)
    case (acknowledged i v v')
    have "Incident_ID v = i" using alert_invD(7) [OF alert_reach_inv [OF assms] acknowledged(3)] .
    with Pair acknowledged show ?thesis
      by (auto simp: same_incident_def Incident_Scope_def hub_event_def)
  qed (use Pair in simp)
qed

theorem acknowledge_spec_witness:
  "case Acknowledge None 9000 DefaultScope ex_incident_id ''alice'' ex_opened of
     (Inl e, st') \<Rightarrow> st' = ex_opened | (Inr v', st') \<Rightarrow> Incident_Status v' = StatusAcknowledged"
proof (cases "Acknowledge None 9000 DefaultScope ex_incident_id ''alice'' ex_opened")
  case (Pair res st')
  then show ?thesis
    using acknowledge_spec [where r = None and now = 9000 and scope = DefaultScope
        and incidentID = ex_incident_id and actor = "''alice''", OF ex_opened_reach]
    by (cases res) auto
qed

end
