(* ===== verification/Sessions.thy ===== *)
theory Sessions
  imports Tenancy
begin

text \<open>
  \<open>internal/sessions\<close>: browser sessions, found by the hash of an opaque token, with an idle
  and an absolute timeout. Parameters: SHA-256, the check that a user is still active, the
  random bytes and the clock readings. \<open>Rotate\<close> and \<open>Validate\<close> are modelled with every
  write they make, errors included.
\<close>

section \<open>Data and store\<close>

record Session =
  Session_ID :: string
  Session_UserID :: string
  Session_OrganizationID :: string
  Session_CSRFToken :: string
  Session_CreatedAt :: time
  Session_LastSeenAt :: time
  Session_AbsoluteExpiresAt :: time
  Session_RevokedAt :: "time option"

definition no_session :: Session where
  "no_session = \<lparr>Session_ID = [], Session_UserID = [], Session_OrganizationID = [], Session_CSRFToken = [],
     Session_CreatedAt = 0, Session_LastSeenAt = 0, Session_AbsoluteExpiresAt = 0, Session_RevokedAt = None\<rparr>"

record sessionRecord =
  sessionRecord_session :: Session
  sessionRecord_tokenHash :: string

record SessionStore =
  SessionStore_byTokenHash :: "string \<rightharpoonup> sessionRecord"
  SessionStore_byID :: "string \<rightharpoonup> string"

definition NewSessionStore :: SessionStore where
  "NewSessionStore = \<lparr>SessionStore_byTokenHash = Map.empty, SessionStore_byID = Map.empty\<rparr>"

definition CreateSession :: "Session \<Rightarrow> string \<Rightarrow> SessionStore \<Rightarrow> SessionStore" where
  "CreateSession session tokenHash st =
     st\<lparr>SessionStore_byTokenHash := (SessionStore_byTokenHash st)(tokenHash \<mapsto>
          \<lparr>sessionRecord_session = session, sessionRecord_tokenHash = tokenHash\<rparr>),
        SessionStore_byID := (SessionStore_byID st)(Session_ID session \<mapsto> tokenHash)\<rparr>"

definition SessionByTokenHash :: "string \<Rightarrow> SessionStore \<Rightarrow> Session res" where
  "SessionByTokenHash tokenHash st =
     (case SessionStore_byTokenHash st tokenHash of
        None \<Rightarrow> Inl ErrSessionNotFound | Some rcd \<Rightarrow> Inr (sessionRecord_session rcd))"

text \<open>Indexing the Go map yields the zero record for an absent hash.\<close>

definition record_at :: "SessionStore \<Rightarrow> string \<Rightarrow> sessionRecord" where
  "record_at st tokenHash = (case SessionStore_byTokenHash st tokenHash of
     None \<Rightarrow> \<lparr>sessionRecord_session = no_session, sessionRecord_tokenHash = []\<rparr> | Some rcd \<Rightarrow> rcd)"

definition update_session :: "(Session \<Rightarrow> Session) \<Rightarrow> string \<Rightarrow> SessionStore \<Rightarrow> (unit, SessionStore) op" where
  "update_session f sessionID st =
     (case SessionStore_byID st sessionID of
        None \<Rightarrow> (Inl ErrSessionNotFound, st)
      | Some tokenHash \<Rightarrow>
          (Inr (), st\<lparr>SessionStore_byTokenHash := (SessionStore_byTokenHash st)(tokenHash \<mapsto>
             (record_at st tokenHash)\<lparr>sessionRecord_session := f (sessionRecord_session (record_at st tokenHash))\<rparr>)\<rparr>))"

definition Touch :: "string \<Rightarrow> time \<Rightarrow> SessionStore \<Rightarrow> (unit, SessionStore) op" where
  "Touch sessionID lastSeenAt = update_session (\<lambda>session. session\<lparr>Session_LastSeenAt := lastSeenAt\<rparr>) sessionID"

definition RevokeSession :: "string \<Rightarrow> time \<Rightarrow> SessionStore \<Rightarrow> (unit, SessionStore) op" where
  "RevokeSession sessionID tm = update_session (\<lambda>session. session\<lparr>Session_RevokedAt := Some tm\<rparr>) sessionID"

text \<open>
  The two bulk revocations visit every entry once and replace it where it matches and is not
  revoked; the order of the visits does not matter, as no entry affects another.
\<close>

definition revoke_where :: "(Session \<Rightarrow> bool) \<Rightarrow> time \<Rightarrow> SessionStore \<Rightarrow> SessionStore" where
  "revoke_where P tm st =
     st\<lparr>SessionStore_byTokenHash := (\<lambda>tokenHash.
          map_option (\<lambda>rcd. if P (sessionRecord_session rcd)
                              \<and> Session_RevokedAt (sessionRecord_session rcd) = None
                            then rcd\<lparr>sessionRecord_session :=
                                   (sessionRecord_session rcd)\<lparr>Session_RevokedAt := Some tm\<rparr>\<rparr>
                            else rcd)
            (SessionStore_byTokenHash st tokenHash))\<rparr>"

definition RevokeAllForUser :: "string \<Rightarrow> time \<Rightarrow> SessionStore \<Rightarrow> SessionStore" where
  "RevokeAllForUser userID = revoke_where (\<lambda>session. Session_UserID session = userID)"

definition RevokeAllForOrganization :: "string \<Rightarrow> time \<Rightarrow> SessionStore \<Rightarrow> SessionStore" where
  "RevokeAllForOrganization organizationID =
     revoke_where (\<lambda>session. Session_OrganizationID session = organizationID)"

section \<open>The service\<close>

type_synonym sha256 = "string \<Rightarrow> string"
type_synonym UserActiveChecker = "string \<Rightarrow> bool res"

record SessionsService =
  SessionsService_userActive :: "UserActiveChecker option"
  SessionsService_idleTimeout :: duration
  SessionsService_absoluteTimeout :: duration

definition Sessions_NewService :: "UserActiveChecker option \<Rightarrow> SessionsService res" where
  "Sessions_NewService userActive =
     (let service = \<lparr>SessionsService_userActive = userActive, SessionsService_idleTimeout = 30 * minute,
                     SessionsService_absoluteTimeout = 8 * hour\<rparr> in
      if SessionsService_userActive service = None
      then Inl (ErrOther ''session user-active checker is required'') else Inr service)"

definition user_active :: "SessionsService \<Rightarrow> string \<Rightarrow> bool res" where
  "user_active service userID =
     (case SessionsService_userActive service of
        None \<Rightarrow> Inl (ErrOther ''nil user-active checker'') | Some check \<Rightarrow> check userID)"

definition newOpaqueID :: "entropy \<Rightarrow> string res" where
  "newOpaqueID r = rand_hex 32 r"

definition hashToken :: "sha256 \<Rightarrow> string \<Rightarrow> string" where
  "hashToken sha token = hex_encode (sha token)"

definition new_session :: "SessionsService \<Rightarrow> string \<Rightarrow> string \<Rightarrow> string \<Rightarrow> string \<Rightarrow> time \<Rightarrow> Session" where
  "new_session service i userID organizationID csrfToken now =
     \<lparr>Session_ID = i, Session_UserID = userID, Session_OrganizationID = organizationID,
      Session_CSRFToken = csrfToken, Session_CreatedAt = now, Session_LastSeenAt = now,
      Session_AbsoluteExpiresAt = now + SessionsService_absoluteTimeout service, Session_RevokedAt = None\<rparr>"

text \<open>\<open>Create\<close> reads three identifiers: of the session, the token and the CSRF token.\<close>

definition Sessions_Create ::
  "sha256 \<Rightarrow> SessionsService \<Rightarrow> entropy \<Rightarrow> entropy \<Rightarrow> entropy \<Rightarrow> time \<Rightarrow> string \<Rightarrow> string \<Rightarrow> SessionStore
   \<Rightarrow> (Session \<times> string \<times> string, SessionStore) op" where
  "Sessions_Create sha service r1 r2 r3 now userID organizationID st =
     (case newOpaqueID r1 of
        Inl e \<Rightarrow> (Inl e, st)
      | Inr i \<Rightarrow>
          (case newOpaqueID r2 of
             Inl e \<Rightarrow> (Inl e, st)
           | Inr token \<Rightarrow>
               (case newOpaqueID r3 of
                  Inl e \<Rightarrow> (Inl e, st)
                | Inr csrfToken \<Rightarrow>
                    let session = new_session service i userID organizationID csrfToken now
                    in (Inr (session, token, csrfToken), CreateSession session (hashToken sha token) st))))"

definition Sessions_Validate ::
  "sha256 \<Rightarrow> SessionsService \<Rightarrow> time \<Rightarrow> string \<Rightarrow> SessionStore \<Rightarrow> (Session, SessionStore) op" where
  "Sessions_Validate sha service now token st =
     (case SessionByTokenHash (hashToken sha token) st of
        Inl e \<Rightarrow> (Inl e, st)
      | Inr session \<Rightarrow>
          if Session_RevokedAt session \<noteq> None then (Inl ErrSessionRevoked, st)
          else if Session_AbsoluteExpiresAt session < now then (Inl ErrSessionExpired, st)
          else if SessionsService_idleTimeout service < sub_time now (Session_LastSeenAt session)
          then (Inl ErrSessionIdle, st)
          else (case user_active service (Session_UserID session) of
              Inl e \<Rightarrow> (Inl e, st)
            | Inr active \<Rightarrow>
                if \<not> active then (Inl ErrUserInactive, st)
                else (case Touch (Session_ID session) now st of
                    (Inl e, st') \<Rightarrow> (Inl e, st')
                  | (Inr _, st') \<Rightarrow> (Inr (session\<lparr>Session_LastSeenAt := now\<rparr>), st'))))"

definition Sessions_Rotate ::
  "sha256 \<Rightarrow> SessionsService \<Rightarrow> entropy \<Rightarrow> entropy \<Rightarrow> entropy \<Rightarrow> time \<Rightarrow> time \<Rightarrow> time \<Rightarrow> string \<Rightarrow> SessionStore
   \<Rightarrow> (Session \<times> string \<times> string, SessionStore) op" where
  "Sessions_Rotate sha service r1 r2 r3 now1 now2 now3 token st =
     (case Sessions_Validate sha service now1 token st of
        (Inl e, st1) \<Rightarrow> (Inl e, st1)
      | (Inr session, st1) \<Rightarrow>
          (case Sessions_Create sha service r1 r2 r3 now2 (Session_UserID session) (Session_OrganizationID session) st1 of
             (Inl e, st2) \<Rightarrow> (Inl e, st2)
           | (Inr created, st2) \<Rightarrow>
               (case RevokeSession (Session_ID session) now3 st2 of
                  (Inl e, st3) \<Rightarrow> (Inl e, st3)
                | (Inr _, st3) \<Rightarrow> (Inr created, st3))))"

definition Sessions_Revoke :: "sha256 \<Rightarrow> time \<Rightarrow> string \<Rightarrow> SessionStore \<Rightarrow> (unit, SessionStore) op" where
  "Sessions_Revoke sha now token st =
     (case SessionByTokenHash (hashToken sha token) st of
        Inl e \<Rightarrow> (Inl e, st)
      | Inr session \<Rightarrow> RevokeSession (Session_ID session) now st)"

section \<open>The invariant\<close>

definition session_inv :: "SessionStore \<Rightarrow> bool" where
  "session_inv st \<longleftrightarrow>
     (\<forall>h rcd. SessionStore_byTokenHash st h = Some rcd \<longrightarrow> sessionRecord_tokenHash rcd = h)
     \<and> (\<forall>i h. SessionStore_byID st i = Some h \<longleftrightarrow>
          (\<exists>rcd. SessionStore_byTokenHash st h = Some rcd \<and> Session_ID (sessionRecord_session rcd) = i))"

abbreviation session_at :: "SessionStore \<Rightarrow> string \<Rightarrow> Session option" where
  "session_at st h \<equiv> map_option sessionRecord_session (SessionStore_byTokenHash st h)"

text \<open>What never changes in a session.\<close>

definition same_session :: "Session \<Rightarrow> Session \<Rightarrow> bool" where
  "same_session s t \<longleftrightarrow>
     Session_ID t = Session_ID s \<and> Session_UserID t = Session_UserID s
     \<and> Session_OrganizationID t = Session_OrganizationID s \<and> Session_CSRFToken t = Session_CSRFToken s
     \<and> Session_CreatedAt t = Session_CreatedAt s
     \<and> Session_AbsoluteExpiresAt t = Session_AbsoluteExpiresAt s"

lemma same_session_refl [simp]: "same_session s s"
  by (simp add: same_session_def)

lemma same_session_trans: "same_session s t \<Longrightarrow> same_session t u \<Longrightarrow> same_session s u"
  by (simp add: same_session_def)

lemma same_session_update [simp]:
  "same_session s (s\<lparr>Session_LastSeenAt := l\<rparr>)" "same_session s (s\<lparr>Session_RevokedAt := r\<rparr>)"
  by (simp_all add: same_session_def)

lemma session_inv_init: "session_inv NewSessionStore"
  by (simp add: session_inv_def NewSessionStore_def)

lemma session_at_create [simp]:
  "SessionStore_byTokenHash (CreateSession session h st) =
     (SessionStore_byTokenHash st)(h \<mapsto> \<lparr>sessionRecord_session = session, sessionRecord_tokenHash = h\<rparr>)"
  "SessionStore_byID (CreateSession session h st) = (SessionStore_byID st)(Session_ID session \<mapsto> h)"
  by (simp_all add: CreateSession_def)

lemma session_inv_create:
  assumes inv: "session_inv st" and fresh: "SessionStore_byTokenHash st h = None"
    "SessionStore_byID st (Session_ID session) = None"
  shows "session_inv (CreateSession session h st)"
proof -
  have unused: "Session_ID (sessionRecord_session rcd) \<noteq> Session_ID session"
    if "SessionStore_byTokenHash st k = Some rcd" for k rcd
    using inv that fresh(2) unfolding session_inv_def by (metis option.distinct(1))
  have no_hash: "SessionStore_byID st i \<noteq> Some h" for i
    using inv fresh(1) unfolding session_inv_def by (metis option.distinct(1))
  show ?thesis
    using inv no_hash unused unfolding session_inv_def by simp
qed

lemma byID_record:
  assumes "session_inv st" "SessionStore_byID st i = Some h"
  obtains rcd where "SessionStore_byTokenHash st h = Some rcd" "record_at st h = rcd"
    "Session_ID (sessionRecord_session rcd) = i" "sessionRecord_tokenHash rcd = h"
proof -
  from assms obtain rcd where "SessionStore_byTokenHash st h = Some rcd"
    "Session_ID (sessionRecord_session rcd) = i" "sessionRecord_tokenHash rcd = h"
    unfolding session_inv_def by blast
  then show thesis by (intro that [of rcd]) (simp_all add: record_at_def)
qed

lemma update_session_cases:
  assumes "session_inv st" "update_session f i st = (res, st')"
  obtains (missing) "res = Inl ErrSessionNotFound" "st' = st" "SessionStore_byID st i = None"
  | (updated) h rcd where "res = Inr ()" "SessionStore_byID st i = Some h"
      "SessionStore_byTokenHash st h = Some rcd" "Session_ID (sessionRecord_session rcd) = i"
      "st' = st\<lparr>SessionStore_byTokenHash := (SessionStore_byTokenHash st)(h \<mapsto>
                 rcd\<lparr>sessionRecord_session := f (sessionRecord_session rcd)\<rparr>)\<rparr>"
proof (cases "SessionStore_byID st i")
  case None
  with assms(2) show ?thesis by (intro missing) (simp_all add: update_session_def)
next
  case (Some h)
  then obtain rcd where rcd: "SessionStore_byTokenHash st h = Some rcd" "record_at st h = rcd"
    "Session_ID (sessionRecord_session rcd) = i" using byID_record [OF assms(1)] by metis
  with assms(2) Some show ?thesis
    by (intro updated [of h rcd]) (simp_all add: update_session_def)
qed

lemma session_inv_update:
  assumes "session_inv st" "update_session f i st = (res, st')" "\<And>s. Session_ID (f s) = Session_ID s"
  shows "session_inv st'"
  using assms(1,2)
proof (cases rule: update_session_cases)
  case (updated h rcd)
  show ?thesis
    unfolding updated(5) session_inv_def
  proof (intro conjI allI impI)
    fix k r assume "SessionStore_byTokenHash (st\<lparr>SessionStore_byTokenHash :=
        (SessionStore_byTokenHash st)(h \<mapsto> rcd\<lparr>sessionRecord_session := f (sessionRecord_session rcd)\<rparr>)\<rparr>) k = Some r"
    then show "sessionRecord_tokenHash r = k"
      using assms(1) updated(3) unfolding session_inv_def by (auto split: if_splits)
  next
    fix j k
    have "SessionStore_byID st j = Some k \<longleftrightarrow>
        (\<exists>r. SessionStore_byTokenHash st k = Some r \<and> Session_ID (sessionRecord_session r) = j)"
      using assms(1) unfolding session_inv_def by blast
    then show "(SessionStore_byID (st\<lparr>SessionStore_byTokenHash :=
        (SessionStore_byTokenHash st)(h \<mapsto> rcd\<lparr>sessionRecord_session := f (sessionRecord_session rcd)\<rparr>)\<rparr>) j = Some k)
      = (\<exists>r. SessionStore_byTokenHash (st\<lparr>SessionStore_byTokenHash :=
          (SessionStore_byTokenHash st)(h \<mapsto> rcd\<lparr>sessionRecord_session := f (sessionRecord_session rcd)\<rparr>)\<rparr>) k = Some r
          \<and> Session_ID (sessionRecord_session r) = j)"
      using updated(3) assms(3) by simp
  qed
qed (use assms(1) in simp)

definition revoked_record :: "(Session \<Rightarrow> bool) \<Rightarrow> time \<Rightarrow> sessionRecord \<Rightarrow> sessionRecord" where
  "revoked_record P tm rcd =
     (if P (sessionRecord_session rcd) \<and> Session_RevokedAt (sessionRecord_session rcd) = None
      then rcd\<lparr>sessionRecord_session := (sessionRecord_session rcd)\<lparr>Session_RevokedAt := Some tm\<rparr>\<rparr> else rcd)"

lemma revoke_where_simps [simp]:
  "SessionStore_byTokenHash (revoke_where P tm st) h
     = map_option (revoked_record P tm) (SessionStore_byTokenHash st h)"
  "SessionStore_byID (revoke_where P tm st) = SessionStore_byID st"
  by (cases "SessionStore_byTokenHash st h"; simp add: revoke_where_def revoked_record_def)+

lemma revoked_record_simps [simp]:
  "sessionRecord_tokenHash (revoked_record P tm rcd) = sessionRecord_tokenHash rcd"
  "same_session (sessionRecord_session rcd) (sessionRecord_session (revoked_record P tm rcd))"
  "Session_ID (sessionRecord_session (revoked_record P tm rcd)) = Session_ID (sessionRecord_session rcd)"
  "Session_RevokedAt (sessionRecord_session (revoked_record P tm rcd)) = None \<longleftrightarrow>
     Session_RevokedAt (sessionRecord_session rcd) = None \<and> \<not> P (sessionRecord_session rcd)"
  by (auto simp: revoked_record_def)

lemma session_inv_revoke: "session_inv st \<Longrightarrow> session_inv (revoke_where P tm st)"
  by (auto simp: session_inv_def)

text \<open>A store that extends another one: no session is lost, changed or revived.\<close>

definition sessions_extend :: "SessionStore \<Rightarrow> SessionStore \<Rightarrow> bool" where
  "sessions_extend st st' \<longleftrightarrow>
     (\<forall>h rcd. SessionStore_byTokenHash st h = Some rcd \<longrightarrow>
        (\<exists>rcd'. SessionStore_byTokenHash st' h = Some rcd'
           \<and> same_session (sessionRecord_session rcd) (sessionRecord_session rcd')
           \<and> (Session_RevokedAt (sessionRecord_session rcd) \<noteq> None \<longrightarrow>
                Session_RevokedAt (sessionRecord_session rcd') \<noteq> None)))"

lemma sessions_extend_refl: "sessions_extend st st"
  by (simp add: sessions_extend_def)

lemma sessions_extend_trans:
  "sessions_extend st st' \<Longrightarrow> sessions_extend st' st'' \<Longrightarrow> sessions_extend st st''"
  unfolding sessions_extend_def by (meson same_session_trans)

lemma sessions_extend_create:
  "SessionStore_byTokenHash st h = None \<Longrightarrow> sessions_extend st (CreateSession session h st)"
  by (auto simp: sessions_extend_def)

lemma sessions_extend_update:
  assumes "session_inv st" "update_session f i st = (res, st')"
    and "\<And>s. same_session s (f s)" "\<And>s. Session_RevokedAt s \<noteq> None \<Longrightarrow> Session_RevokedAt (f s) \<noteq> None"
  shows "sessions_extend st st'"
  using assms(1,2)
proof (cases rule: update_session_cases)
  case (updated h rcd)
  then show ?thesis using assms(3,4) unfolding updated(5) by (simp add: sessions_extend_def)
qed (simp add: sessions_extend_refl)

lemma sessions_extend_revoke: "sessions_extend st (revoke_where P tm st)"
  unfolding sessions_extend_def
proof (intro allI impI)
  fix h rcd assume "SessionStore_byTokenHash st h = Some rcd"
  then show "\<exists>rcd'. SessionStore_byTokenHash (revoke_where P tm st) h = Some rcd'
      \<and> same_session (sessionRecord_session rcd) (sessionRecord_session rcd')
      \<and> (Session_RevokedAt (sessionRecord_session rcd) \<noteq> None \<longrightarrow>
           Session_RevokedAt (sessionRecord_session rcd') \<noteq> None)"
    by (intro exI [of _ "revoked_record P tm rcd"]) (simp del: not_None_eq)
qed

section \<open>The service's operations\<close>

text \<open>What a validation finds, and what it writes.\<close>

lemma Sessions_Validate_Inr:
  assumes "session_inv st"
  shows "Sessions_Validate sha service now token st = (Inr session, st') \<longleftrightarrow>
     (\<exists>rcd. SessionStore_byTokenHash st (hashToken sha token) = Some rcd
        \<and> Session_RevokedAt (sessionRecord_session rcd) = None
        \<and> now \<le> Session_AbsoluteExpiresAt (sessionRecord_session rcd)
        \<and> sub_time now (Session_LastSeenAt (sessionRecord_session rcd)) \<le> SessionsService_idleTimeout service
        \<and> user_active service (Session_UserID (sessionRecord_session rcd)) = Inr True
        \<and> session = (sessionRecord_session rcd)\<lparr>Session_LastSeenAt := now\<rparr>
        \<and> st' = st\<lparr>SessionStore_byTokenHash := (SessionStore_byTokenHash st)(hashToken sha token \<mapsto>
             rcd\<lparr>sessionRecord_session := session\<rparr>)\<rparr>)"
    (is "?lhs \<longleftrightarrow> ?rhs")
proof (cases "SessionStore_byTokenHash st (hashToken sha token)")
  case None
  then show ?thesis by (simp add: Sessions_Validate_def SessionByTokenHash_def)
next
  case (Some rcd)
  let ?s = "sessionRecord_session rcd"
  have "SessionStore_byID st (Session_ID ?s) = Some (hashToken sha token)"
    using assms Some unfolding session_inv_def by blast
  then have touch: "Touch (Session_ID ?s) now st = (Inr (), st\<lparr>SessionStore_byTokenHash :=
      (SessionStore_byTokenHash st)(hashToken sha token \<mapsto>
         rcd\<lparr>sessionRecord_session := ?s\<lparr>Session_LastSeenAt := now\<rparr>\<rparr>)\<rparr>)"
    by (simp add: Touch_def update_session_def record_at_def Some)
  show ?thesis
    by (auto simp: Sessions_Validate_def SessionByTokenHash_def Some touch not_less
        split: sum.splits if_splits)
qed

lemma Sessions_Validate_store:
  assumes "session_inv st" "Sessions_Validate sha service now token st = (res, st')"
  shows "session_inv st' \<and> sessions_extend st st'"
proof (cases "st' = st")
  case False
  then have "\<exists>i. Touch i now st = (Inr (), st')"
  proof (cases res)
    case (Inl e)
    have "st' = st"
      using assms(2) Inl
      by (auto simp: Sessions_Validate_def Touch_def update_session_def
          split: option.splits sum.splits if_splits prod.splits)
    with False show ?thesis ..
  next
    case (Inr session)
    then show ?thesis
      using assms(2) by (auto simp: Sessions_Validate_def split: sum.splits if_splits prod.splits)
  qed
  then obtain i where "update_session (\<lambda>s. s\<lparr>Session_LastSeenAt := now\<rparr>) i st = (Inr (), st')"
    by (metis Touch_def)
  from session_inv_update [OF assms(1) this] sessions_extend_update [OF assms(1) this]
  show ?thesis by simp
qed (use assms(1) in \<open>simp add: sessions_extend_refl\<close>)

lemma RevokeSession_store:
  assumes "session_inv st" "RevokeSession i tm st = (res, st')"
  shows "session_inv st' \<and> sessions_extend st st'"
  using session_inv_update [OF assms(1) assms(2) [unfolded RevokeSession_def]]
    sessions_extend_update [OF assms(1) assms(2) [unfolded RevokeSession_def]] by simp

text \<open>The identifiers a new session draws are not in use.\<close>

definition fresh_session :: "sha256 \<Rightarrow> entropy \<Rightarrow> entropy \<Rightarrow> SessionStore \<Rightarrow> bool" where
  "fresh_session sha r1 r2 st \<longleftrightarrow>
     (\<forall>i. newOpaqueID r1 = Inr i \<longrightarrow> SessionStore_byID st i = None)
     \<and> (\<forall>token. newOpaqueID r2 = Inr token \<longrightarrow> SessionStore_byTokenHash st (hashToken sha token) = None)"

lemma Sessions_Create_Inr:
  "Sessions_Create sha service r1 r2 r3 now userID organizationID st = (Inr (session, token, csrf), st') \<longleftrightarrow>
     (\<exists>i. newOpaqueID r1 = Inr i \<and> newOpaqueID r2 = Inr token \<and> newOpaqueID r3 = Inr csrf
        \<and> session = new_session service i userID organizationID csrf now
        \<and> st' = CreateSession session (hashToken sha token) st)"
  by (auto simp: Sessions_Create_def Let_def split: sum.splits)

lemma Sessions_Create_store:
  assumes "session_inv st" "fresh_session sha r1 r2 st"
    and "Sessions_Create sha service r1 r2 r3 now userID organizationID st = (res, st')"
  shows "session_inv st' \<and> sessions_extend st st'"
proof (cases res)
  case (Inl e)
  with assms(1,3) show ?thesis
    by (auto simp: Sessions_Create_def Let_def sessions_extend_refl split: sum.splits)
next
  case (Inr out)
  obtain session token csrf where "out = (session, token, csrf)" by (cases out)
  with assms(3) Inr obtain i where i: "newOpaqueID r1 = Inr i" "newOpaqueID r2 = Inr token"
    "session = new_session service i userID organizationID csrf now"
    "st' = CreateSession session (hashToken sha token) st"
    by (auto simp: Sessions_Create_Inr)
  then show ?thesis
    using assms(1,2) unfolding fresh_session_def
    by (auto intro: session_inv_create sessions_extend_create simp: new_session_def)
qed

lemma fresh_session_touch:
  assumes "session_inv st" "Sessions_Validate sha service now token st = (Inr session, st')"
    "fresh_session sha r1 r2 st"
  shows "fresh_session sha r1 r2 st'"
  using assms by (auto simp: Sessions_Validate_Inr fresh_session_def)

lemma Sessions_Rotate_store:
  assumes "session_inv st" "fresh_session sha r1 r2 st"
    and "Sessions_Rotate sha service r1 r2 r3 now1 now2 now3 token st = (res, st')"
  shows "session_inv st' \<and> sessions_extend st st'"
proof -
  obtain out1 st1 where v: "Sessions_Validate sha service now1 token st = (out1, st1)" by fastforce
  note one = Sessions_Validate_store [OF assms(1) v]
  show ?thesis
  proof (cases out1)
    case (Inl e)
    with v assms(3) one show ?thesis by (simp add: Sessions_Rotate_def)
  next
    case (Inr s)
    obtain out2 st2 where c: "Sessions_Create sha service r1 r2 r3 now2 (Session_UserID s)
        (Session_OrganizationID s) st1 = (out2, st2)" by fastforce
    have "fresh_session sha r1 r2 st1" using v Inr assms(1,2) by (auto intro: fresh_session_touch)
    note two = Sessions_Create_store [OF conjunct1 [OF one] this c]
    show ?thesis
    proof (cases out2)
      case (Inl e)
      with v c Inr assms(3) one two show ?thesis
        by (auto simp: Sessions_Rotate_def intro: sessions_extend_trans)
    next
      case created: (Inr x)
      obtain out3 st3 where r: "RevokeSession (Session_ID s) now3 st2 = (out3, st3)" by fastforce
      note three = RevokeSession_store [OF conjunct1 [OF two] r]
      have "st' = st3" using v c r Inr created assms(3) by (simp add: Sessions_Rotate_def split: sum.splits)
      with one two three show ?thesis by (blast intro: sessions_extend_trans)
    qed
  qed
qed

section \<open>Steps\<close>

inductive session_step :: "sha256 \<Rightarrow> SessionsService \<Rightarrow> SessionStore \<Rightarrow> SessionStore \<Rightarrow> bool"
  for sha service where
  create: "fresh_session sha r1 r2 st \<Longrightarrow>
    Sessions_Create sha service r1 r2 r3 now userID organizationID st = (res, st') \<Longrightarrow>
    session_step sha service st st'"
| validate: "Sessions_Validate sha service now token st = (vres, st') \<Longrightarrow> session_step sha service st st'"
| rotate: "fresh_session sha r1 r2 st \<Longrightarrow>
    Sessions_Rotate sha service r1 r2 r3 now1 now2 now3 token st = (res, st') \<Longrightarrow>
    session_step sha service st st'"
| revoke: "Sessions_Revoke sha now token st = (rres, st') \<Longrightarrow> session_step sha service st st'"
| revoke_user: "session_step sha service st (RevokeAllForUser userID now st)"
| revoke_organization: "session_step sha service st (RevokeAllForOrganization organizationID now st)"

lemma session_step_keeps:
  "session_step sha service st st' \<Longrightarrow> session_inv st \<Longrightarrow> session_inv st' \<and> sessions_extend st st'"
proof (induction rule: session_step.induct)
  case (revoke now token st rres st')
  then show ?case
    using RevokeSession_store
    by (auto simp: Sessions_Revoke_def sessions_extend_refl split: sum.splits)
qed (auto simp: RevokeAllForUser_def RevokeAllForOrganization_def session_inv_revoke sessions_extend_revoke
    dest: Sessions_Create_store Sessions_Validate_store Sessions_Rotate_store)

text \<open>
  A session is over once it is revoked or its absolute lifetime has passed at a time
  \<open>now\<close>; \<open>session_ended\<close> is about the hash of its token.
\<close>

definition session_ended :: "time \<Rightarrow> SessionStore \<Rightarrow> string \<Rightarrow> bool" where
  "session_ended now st h \<longleftrightarrow>
     (\<exists>rcd. SessionStore_byTokenHash st h = Some rcd
        \<and> (Session_RevokedAt (sessionRecord_session rcd) \<noteq> None
             \<or> Session_AbsoluteExpiresAt (sessionRecord_session rcd) < now))"

definition session_accepted :: "sha256 \<Rightarrow> SessionsService \<Rightarrow> time \<Rightarrow> SessionStore \<Rightarrow> string \<Rightarrow> bool" where
  "session_accepted sha service now st h \<longleftrightarrow>
     (\<exists>tm token session st'. now \<le> tm \<and> hashToken sha token = h
        \<and> Sessions_Validate sha service tm token st = (Inr session, st'))"

interpretation session_tokens: revocation session_inv "session_step sha service" "session_ended now"
  "session_accepted sha service now"
proof
  show "session_step sha service st st' \<Longrightarrow> session_inv st \<Longrightarrow> session_inv st'" for st st'
    by (simp add: session_step_keeps)
  show "session_ended now st' h"
    if "session_step sha service st st'" "session_inv st" "session_ended now st h" for st st' h
  proof -
    have "sessions_extend st st'" using that(1,2) session_step_keeps by blast
    with that(3) show ?thesis
      unfolding session_ended_def sessions_extend_def same_session_def by metis
  qed
  show "session_inv st \<Longrightarrow> session_ended now st h \<Longrightarrow> \<not> session_accepted sha service now st h" for st h
    by (auto simp: session_ended_def session_accepted_def Sessions_Validate_Inr)
qed

end
