(* ===== verification/Sessions_Properties.thy ===== *)
theory Sessions_Properties
  imports Sessions
begin

text \<open>
  The properties of browser sessions, with a run that shows their hypotheses can hold: a
  session is created, validated, rotated and revoked.
\<close>

section \<open>Rotation\<close>

lemma new_session_simps [simp]:
  "Session_ID (new_session service i userID organizationID csrf now) = i"
  "Session_UserID (new_session service i userID organizationID csrf now) = userID"
  "Session_OrganizationID (new_session service i userID organizationID csrf now) = organizationID"
  "Session_LastSeenAt (new_session service i userID organizationID csrf now) = now"
  "Session_AbsoluteExpiresAt (new_session service i userID organizationID csrf now)
     = now + SessionsService_absoluteTimeout service"
  "Session_RevokedAt (new_session service i userID organizationID csrf now) = None"
  by (simp_all add: new_session_def)

lemma rotate_outcome:
  assumes "session_inv st" "fresh_session sha r1 r2 st"
    and "Sessions_Rotate sha service r1 r2 r3 now1 now2 now3 token st = (Inr (session, token', csrf), st')"
  obtains old old' where "SessionStore_byTokenHash st (hashToken sha token) = Some old"
    "Session_UserID session = Session_UserID (sessionRecord_session old)"
    "Session_OrganizationID session = Session_OrganizationID (sessionRecord_session old)"
    "user_active service (Session_UserID session) = Inr True"
    "SessionStore_byTokenHash st' (hashToken sha token) = Some old'"
    "Session_RevokedAt (sessionRecord_session old') = Some now3"
    "SessionStore_byTokenHash st' (hashToken sha token') =
       Some \<lparr>sessionRecord_session = session, sessionRecord_tokenHash = hashToken sha token'\<rparr>"
    "Session_RevokedAt session = None" "Session_LastSeenAt session = now2"
    "Session_AbsoluteExpiresAt session = now2 + SessionsService_absoluteTimeout service"
    "hashToken sha token' \<noteq> hashToken sha token"
proof -
  let ?h = "hashToken sha token"
  from assms(3) obtain s st1 st2 where
    v: "Sessions_Validate sha service now1 token st = (Inr s, st1)" and
    c: "Sessions_Create sha service r1 r2 r3 now2 (Session_UserID s) (Session_OrganizationID s) st1
          = (Inr (session, token', csrf), st2)" and
    r: "RevokeSession (Session_ID s) now3 st2 = (Inr (), st')"
    by (auto simp: Sessions_Rotate_def split: sum.splits prod.splits)
  from v obtain old where old: "SessionStore_byTokenHash st ?h = Some old"
    "user_active service (Session_UserID (sessionRecord_session old)) = Inr True"
    "s = (sessionRecord_session old)\<lparr>Session_LastSeenAt := now1\<rparr>"
    "st1 = st\<lparr>SessionStore_byTokenHash := (SessionStore_byTokenHash st)(?h \<mapsto> old\<lparr>sessionRecord_session := s\<rparr>)\<rparr>"
    unfolding Sessions_Validate_Inr [OF assms(1)] by blast
  from c obtain i where i: "newOpaqueID r1 = Inr i" "newOpaqueID r2 = Inr token'"
    "session = new_session service i (Session_UserID s) (Session_OrganizationID s) csrf now2"
    "st2 = CreateSession session (hashToken sha token') st1"
    unfolding Sessions_Create_Inr by blast
  have unused: "SessionStore_byTokenHash st (hashToken sha token') = None" "SessionStore_byID st i = None"
    using assms(2) i(1,2) by (simp_all add: fresh_session_def)
  then have differ: "hashToken sha token' \<noteq> ?h" using old(1) by auto
  have "SessionStore_byID st (Session_ID s) = Some ?h"
    using assms(1) old(1,3) unfolding session_inv_def by (metis Session.select_convs(1) Session.surjective Session.update_convs(6))
  then have "Session_ID s \<noteq> i" "SessionStore_byID st2 (Session_ID s) = Some ?h"
    using unused(2) i(3,4) old(4) by (auto simp: new_session_def)
  moreover have "SessionStore_byTokenHash st2 ?h = Some (old\<lparr>sessionRecord_session := s\<rparr>)"
    using i(4) old(4) differ by simp
  ultimately have "st' = st2\<lparr>SessionStore_byTokenHash := (SessionStore_byTokenHash st2)(?h \<mapsto>
      old\<lparr>sessionRecord_session := s\<lparr>Session_RevokedAt := Some now3\<rparr>\<rparr>)\<rparr>"
    using r by (simp add: RevokeSession_def update_session_def record_at_def)
  then show thesis
    using old(2,3) i(3,4) differ
    by (intro that [OF old(1), of "old\<lparr>sessionRecord_session := s\<lparr>Session_RevokedAt := Some now3\<rparr>\<rparr>"])
      simp_all
qed

section \<open>A concrete run\<close>

definition ex_sessions :: SessionsService where
  "ex_sessions = \<lparr>SessionsService_userActive = Some (\<lambda>userID. Inr True),
     SessionsService_idleTimeout = 30 * minute, SessionsService_absoluteTimeout = 8 * hour\<rparr>"

definition ex_bytes :: "char \<Rightarrow> entropy" where "ex_bytes c = Some (\<lambda>i. c)"
definition ex_opaque :: "char \<Rightarrow> string" where "ex_opaque c = hex_encode (replicate 32 c)"

lemma ex_newOpaqueID: "newOpaqueID (ex_bytes c) = Inr (ex_opaque c)"
  by (simp add: newOpaqueID_def rand_hex_def ex_bytes_def ex_opaque_def map_replicate_const)

lemma ex_opaque_inj [simp]: "ex_opaque c = ex_opaque d \<longleftrightarrow> c = d"
  by (simp add: ex_opaque_def hex_encode_inj)

lemma hashToken_id [simp]: "hashToken id s = hashToken id t \<longleftrightarrow> s = t"
  by (simp add: hashToken_def hex_encode_inj)

definition ex_session :: Session where
  "ex_session = new_session ex_sessions (ex_opaque (CHR ''a'')) ''u1'' ''org'' (ex_opaque (CHR ''c'')) 1000"

definition ex_session_store :: SessionStore where
  "ex_session_store = CreateSession ex_session (hashToken id (ex_opaque (CHR ''b''))) NewSessionStore"

lemma ex_session_created:
  "Sessions_Create id ex_sessions (ex_bytes (CHR ''a'')) (ex_bytes (CHR ''b'')) (ex_bytes (CHR ''c'')) 1000 ''u1'' ''org''
     NewSessionStore = (Inr (ex_session, ex_opaque (CHR ''b''), ex_opaque (CHR ''c'')), ex_session_store)"
  by (simp add: Sessions_Create_Inr ex_newOpaqueID ex_session_def ex_session_store_def)

lemma ex_session_reach: "rtranclp (session_step id ex_sessions) NewSessionStore ex_session_store"
proof -
  have "session_step id ex_sessions NewSessionStore ex_session_store"
    by (rule session_step.create [OF _ ex_session_created]) (simp add: fresh_session_def NewSessionStore_def)
  then show ?thesis ..
qed

lemma ex_session_fresh: "fresh_session id (ex_bytes (CHR ''d'')) (ex_bytes (CHR ''e'')) ex_session_store"
  by (simp add: fresh_session_def ex_newOpaqueID ex_session_store_def NewSessionStore_def ex_session_def new_session_def)

lemma session_reach_inv: "rtranclp (session_step sha service) NewSessionStore st \<Longrightarrow> session_inv st"
  using session_tokens.inv_steps session_inv_init by blast

section \<open>Properties\<close>

text \<open>
  When a session token is accepted. A token is accepted exactly when a session is
  stored under its hash that is not revoked, whose absolute expiry has not passed, whose
  last use is no longer ago than the idle timeout and whose user is active. Acceptance
  moves the last use to now and changes nothing else: neither the expiry nor any other
  session.
\<close>

theorem session_validate_spec:
  assumes "rtranclp (session_step sha service) NewSessionStore st"
  shows "Sessions_Validate sha service now token st = (Inr session, st') \<longleftrightarrow>
     (\<exists>rcd. SessionStore_byTokenHash st (hashToken sha token) = Some rcd
        \<and> Session_RevokedAt (sessionRecord_session rcd) = None
        \<and> now \<le> Session_AbsoluteExpiresAt (sessionRecord_session rcd)
        \<and> sub_time now (Session_LastSeenAt (sessionRecord_session rcd)) \<le> SessionsService_idleTimeout service
        \<and> user_active service (Session_UserID (sessionRecord_session rcd)) = Inr True
        \<and> session = (sessionRecord_session rcd)\<lparr>Session_LastSeenAt := now\<rparr>
        \<and> st' = st\<lparr>SessionStore_byTokenHash := (SessionStore_byTokenHash st)(hashToken sha token \<mapsto>
             rcd\<lparr>sessionRecord_session := session\<rparr>)\<rparr>)"
  by (rule Sessions_Validate_Inr [OF session_reach_inv [OF assms]])

theorem session_validate_spec_witness:
  "\<exists>session st'. Sessions_Validate id ex_sessions 2000 (ex_opaque (CHR ''b'')) ex_session_store = (Inr session, st')
     \<and> Session_UserID session = ''u1''"
proof -
  have stored: "SessionStore_byTokenHash ex_session_store (hashToken id (ex_opaque (CHR ''b'')))
      = Some \<lparr>sessionRecord_session = ex_session, sessionRecord_tokenHash = hashToken id (ex_opaque (CHR ''b''))\<rparr>"
    by (simp add: ex_session_store_def)
  have "\<exists>st'. Sessions_Validate id ex_sessions 2000 (ex_opaque (CHR ''b'')) ex_session_store
      = (Inr (ex_session\<lparr>Session_LastSeenAt := 2000\<rparr>), st')"
    unfolding session_validate_spec [OF ex_session_reach] stored
    by (simp add: ex_session_def ex_sessions_def user_active_def duration_simps sub_time_def)
  moreover have "Session_UserID (ex_session\<lparr>Session_LastSeenAt := 2000\<rparr>) = ''u1''" by (simp add: ex_session_def)
  ultimately show ?thesis by blast
qed

text \<open>
  A session that is over stays over. Once the session behind a token is revoked, or
  its absolute lifetime has passed at some time, then after any further operations
  (including attempts to use it, rotations and bulk revocations) the token is refused at
  every later time: using a session never extends its absolute lifetime.
\<close>

theorem session_ended_is_final:
  assumes "rtranclp (session_step sha service) NewSessionStore st"
    and "session_ended now st (hashToken sha token)"
    and "rtranclp (session_step sha service) st st'" and "now \<le> tm"
  shows "\<exists>e st''. Sessions_Validate sha service tm token st' = (Inl e, st'')"
proof -
  have "\<not> session_accepted sha service now st' (hashToken sha token)"
    using session_tokens.refused_forever [OF assms(3) session_reach_inv [OF assms(1)] assms(2)] .
  moreover obtain res st'' where out: "Sessions_Validate sha service tm token st' = (res, st'')" by fastforce
  ultimately have "\<nexists>session. res = Inr session" using assms(4) unfolding session_accepted_def by blast
  then show ?thesis using out by (cases res) auto
qed

theorem session_ended_is_final_witness:
  "\<exists>e st''. Sessions_Validate id ex_sessions (1000 + 9 * hour) (ex_opaque (CHR ''b'')) ex_session_store = (Inl e, st'')"
proof (rule session_ended_is_final [OF ex_session_reach _ rtranclp.rtrancl_refl order.refl])
  show "session_ended (1000 + 9 * hour) ex_session_store (hashToken id (ex_opaque (CHR ''b'')))"
    by (simp add: session_ended_def ex_session_store_def ex_session_def new_session_def ex_sessions_def duration_simps)
qed

text \<open>
  Rotation replaces a session. A successful rotation returns a session of the same user
  and organization; from then on, through any further operations, the old token is refused,
  while the new token is accepted right away and lives for the full absolute timeout.
\<close>

theorem session_rotate_replaces:
  assumes "rtranclp (session_step sha service) NewSessionStore st"
    and "fresh_session sha r1 r2 st"
    and "0 \<le> SessionsService_idleTimeout service" and "0 \<le> SessionsService_absoluteTimeout service"
    and "Sessions_Rotate sha service r1 r2 r3 now1 now2 now3 token st = (Inr (session, token', csrf), st')"
    and "rtranclp (session_step sha service) st' st''"
  shows "(\<exists>e st3. Sessions_Validate sha service tm token st'' = (Inl e, st3))
    \<and> (\<exists>st3. Sessions_Validate sha service now2 token' st' = (Inr session, st3))
    \<and> (\<exists>old. SessionStore_byTokenHash st (hashToken sha token) = Some old
         \<and> Session_UserID session = Session_UserID (sessionRecord_session old)
         \<and> Session_OrganizationID session = Session_OrganizationID (sessionRecord_session old))
    \<and> Session_AbsoluteExpiresAt session = now2 + SessionsService_absoluteTimeout service"
proof -
  note inv = session_reach_inv [OF assms(1)]
  note inv' = conjunct1 [OF Sessions_Rotate_store [OF inv assms(2,5)]]
  obtain old old' where o: "SessionStore_byTokenHash st (hashToken sha token) = Some old"
    "Session_UserID session = Session_UserID (sessionRecord_session old)"
    "Session_OrganizationID session = Session_OrganizationID (sessionRecord_session old)"
    "user_active service (Session_UserID session) = Inr True"
    "SessionStore_byTokenHash st' (hashToken sha token) = Some old'"
    "Session_RevokedAt (sessionRecord_session old') = Some now3"
    "SessionStore_byTokenHash st' (hashToken sha token') =
       Some \<lparr>sessionRecord_session = session, sessionRecord_tokenHash = hashToken sha token'\<rparr>"
    "Session_RevokedAt session = None" "Session_LastSeenAt session = now2"
    "Session_AbsoluteExpiresAt session = now2 + SessionsService_absoluteTimeout service"
    using rotate_outcome [OF inv assms(2,5)] by metis
  have "session_ended tm st' (hashToken sha token)" using o(5,6) by (simp add: session_ended_def)
  from session_tokens.refused_forever [OF assms(6) inv' this]
  have refused: "\<not> session_accepted sha service tm st'' (hashToken sha token)" .
  obtain res st3 where out: "Sessions_Validate sha service tm token st'' = (res, st3)" by fastforce
  with refused have "\<nexists>s. res = Inr s" unfolding session_accepted_def by blast
  then have "\<exists>e st3. Sessions_Validate sha service tm token st'' = (Inl e, st3)" using out by (cases res) auto
  moreover have "session\<lparr>Session_LastSeenAt := now2\<rparr> = session" using o(9) by simp
  then have "\<exists>st3. Sessions_Validate sha service now2 token' st' = (Inr session, st3)"
    using o(4,7-10) assms(3,4) unfolding Sessions_Validate_Inr [OF inv']
    by (simp add: sub_time_def duration_simps)
  ultimately show ?thesis using o(1-3,10) by blast
qed

theorem session_rotate_replaces_witness:
  "\<exists>session token' csrf st'. Sessions_Rotate id ex_sessions (ex_bytes (CHR ''d'')) (ex_bytes (CHR ''e'')) (ex_bytes (CHR ''f''))
      2000 2000 2000 (ex_opaque (CHR ''b'')) ex_session_store = (Inr (session, token', csrf), st')
    \<and> (\<exists>e st3. Sessions_Validate id ex_sessions 2500 (ex_opaque (CHR ''b'')) st' = (Inl e, st3))"
proof -
  have timeouts: "0 \<le> SessionsService_idleTimeout ex_sessions" "0 \<le> SessionsService_absoluteTimeout ex_sessions"
    by (simp_all add: ex_sessions_def duration_simps)
  have "\<exists>session token' csrf st'. Sessions_Rotate id ex_sessions (ex_bytes (CHR ''d'')) (ex_bytes (CHR ''e''))
      (ex_bytes (CHR ''f'')) 2000 2000 2000 (ex_opaque (CHR ''b'')) ex_session_store = (Inr (session, token', csrf), st')"
    by (simp add: Sessions_Rotate_def Sessions_Validate_def SessionByTokenHash_def ex_session_store_def
        ex_session_def new_session_def ex_sessions_def user_active_def duration_simps sub_time_def
        Touch_def update_session_def record_at_def Sessions_Create_def ex_newOpaqueID Let_def RevokeSession_def
        CreateSession_def NewSessionStore_def)
  then obtain session token' csrf st' where out: "Sessions_Rotate id ex_sessions (ex_bytes (CHR ''d''))
      (ex_bytes (CHR ''e'')) (ex_bytes (CHR ''f'')) 2000 2000 2000 (ex_opaque (CHR ''b'')) ex_session_store
      = (Inr (session, token', csrf), st')" by blast
  from session_rotate_replaces [OF ex_session_reach ex_session_fresh timeouts out rtranclp.rtrancl_refl, of 2500] out
  show ?thesis by blast
qed

end
