(* ===== verification/Authorization.thy ===== *)
theory Authorization
  imports Tenancy
begin

text \<open>
  \<open>internal/authorization\<close>: the fixed matrix of permissions and site roles, the memberships
  that give a user a role at a site, and the decision \<open>Can\<close>. The check that a user is a
  platform administrator belongs to \<open>internal/identity\<close> and is a parameter here.
\<close>

section \<open>Permissions and roles\<close>

datatype Permission =
    PermissionManageUsers | PermissionManageOrgSecurity | PermissionViewSite
  | PermissionManageAgents | PermissionManageAlerts | PermissionManageCloudAccounts
  | PermissionCreateJobs | PermissionAcknowledgeIncidents | PermissionViewActivity
  | PermissionViewAuditEvents | PermissionManageServiceAccounts
  | PermissionUnknown string

datatype SiteRole = SiteRoleAdmin | SiteRoleOperator | SiteRoleViewer | SiteRoleUnknown string

record SiteMembership =
  SiteMembership_ID :: string
  SiteMembership_UserID :: string
  SiteMembership_OrganizationID :: string
  SiteMembership_SiteID :: string
  SiteMembership_Role :: SiteRole
  SiteMembership_CreatedAt :: time

fun orgScopedPermissions :: "Permission \<Rightarrow> bool" where
  "orgScopedPermissions PermissionManageUsers = True"
| "orgScopedPermissions PermissionManageOrgSecurity = True"
| "orgScopedPermissions _ = False"

fun siteRolePermissions :: "Permission \<Rightarrow> SiteRole set option" where
  "siteRolePermissions PermissionViewSite = Some {SiteRoleAdmin, SiteRoleOperator, SiteRoleViewer}"
| "siteRolePermissions PermissionManageAgents = Some {SiteRoleAdmin}"
| "siteRolePermissions PermissionManageAlerts = Some {SiteRoleAdmin}"
| "siteRolePermissions PermissionManageCloudAccounts = Some {SiteRoleAdmin}"
| "siteRolePermissions PermissionCreateJobs = Some {SiteRoleAdmin, SiteRoleOperator}"
| "siteRolePermissions PermissionAcknowledgeIncidents = Some {SiteRoleAdmin, SiteRoleOperator}"
| "siteRolePermissions PermissionViewActivity = Some {SiteRoleAdmin, SiteRoleOperator, SiteRoleViewer}"
| "siteRolePermissions PermissionViewAuditEvents = Some {SiteRoleAdmin, SiteRoleOperator}"
| "siteRolePermissions PermissionManageServiceAccounts = Some {SiteRoleAdmin}"
| "siteRolePermissions _ = None"

definition PermissionAllowsRole :: "Permission \<Rightarrow> SiteRole \<Rightarrow> bool" where
  "PermissionAllowsRole permission role =
     (if orgScopedPermissions permission then False
      else case siteRolePermissions permission of
          None \<Rightarrow> False | Some allowedRoles \<Rightarrow> role \<in> allowedRoles)"

section \<open>The in-memory store\<close>

type_synonym MembershipStore = "string \<rightharpoonup> SiteMembership"

definition NewMembershipStore :: MembershipStore where "NewMembershipStore = Map.empty"

definition membershipKey :: "string \<Rightarrow> string \<Rightarrow> string" where
  "membershipKey userID siteID = userID @ nul # siteID"

definition AssignMembership :: "SiteMembership \<Rightarrow> MembershipStore \<Rightarrow> MembershipStore" where
  "AssignMembership membership st =
     (let key = membershipKey (SiteMembership_UserID membership) (SiteMembership_SiteID membership) in
      case st key of
        Some existing \<Rightarrow>
          st(key \<mapsto> membership\<lparr>SiteMembership_ID := SiteMembership_ID existing,
                              SiteMembership_CreatedAt := SiteMembership_CreatedAt existing\<rparr>)
      | None \<Rightarrow> st(key \<mapsto> membership))"

definition RevokeMembership :: "string \<Rightarrow> string \<Rightarrow> MembershipStore \<Rightarrow> MembershipStore" where
  "RevokeMembership userID siteID st = st(membershipKey userID siteID := None)"

definition RoleForUserAtSite :: "string \<Rightarrow> string \<Rightarrow> MembershipStore \<Rightarrow> SiteRole res" where
  "RoleForUserAtSite userID siteID st =
     (case st (membershipKey userID siteID) of
        None \<Rightarrow> Inl ErrMembershipNotFound | Some membership \<Rightarrow> Inr (SiteMembership_Role membership))"

definition MembershipsForUser ::
  "(string \<times> SiteMembership) list \<Rightarrow> string \<Rightarrow> SiteMembership list" where
  "MembershipsForUser it userID = filter (\<lambda>membership. SiteMembership_UserID membership = userID) (map snd it)"

section \<open>The service\<close>

type_synonym PlatformAdminChecker = "string \<Rightarrow> bool res"

definition Authorization_NewService :: "PlatformAdminChecker option \<Rightarrow> PlatformAdminChecker res" where
  "Authorization_NewService platformAdmin =
     (case platformAdmin of
        None \<Rightarrow> Inl (ErrOther ''authorization platform-admin checker is required'') | Some check \<Rightarrow> Inr check)"

definition Can ::
  "PlatformAdminChecker \<Rightarrow> string \<Rightarrow> Permission \<Rightarrow> string \<Rightarrow> MembershipStore \<Rightarrow> bool res" where
  "Can platformAdmin userID permission siteID st =
     (case platformAdmin userID of
        Inl e \<Rightarrow> Inl e
      | Inr isPlatformAdmin \<Rightarrow>
          if isPlatformAdmin then Inr True
          else (case RoleForUserAtSite userID siteID st of
              Inl e \<Rightarrow> if e = ErrMembershipNotFound then Inr False else Inl e
            | Inr role \<Rightarrow> Inr (PermissionAllowsRole permission role)))"

definition AssignRole ::
  "entropy \<Rightarrow> time \<Rightarrow> string \<Rightarrow> string \<Rightarrow> string \<Rightarrow> SiteRole \<Rightarrow> MembershipStore \<Rightarrow> (unit, MembershipStore) op" where
  "AssignRole r now userID organizationID siteID role st =
     (case rand_hex 16 r of
        Inl e \<Rightarrow> (Inl e, st)
      | Inr i \<Rightarrow> (Inr (), AssignMembership
          \<lparr>SiteMembership_ID = i, SiteMembership_UserID = userID,
           SiteMembership_OrganizationID = organizationID, SiteMembership_SiteID = siteID,
           SiteMembership_Role = role, SiteMembership_CreatedAt = now\<rparr> st))"

definition RevokeRole :: "string \<Rightarrow> string \<Rightarrow> MembershipStore \<Rightarrow> MembershipStore" where
  "RevokeRole userID siteID st = RevokeMembership userID siteID st"

section \<open>Lemmas\<close>

text \<open>The matrix, row by row of roles.\<close>

lemma PermissionAllowsRole_iff:
  "PermissionAllowsRole permission SiteRoleViewer \<longleftrightarrow>
     permission \<in> {PermissionViewSite, PermissionViewActivity}"
  "PermissionAllowsRole permission SiteRoleOperator \<longleftrightarrow>
     permission \<in> {PermissionViewSite, PermissionViewActivity, PermissionCreateJobs,
                   PermissionAcknowledgeIncidents, PermissionViewAuditEvents}"
  "PermissionAllowsRole permission SiteRoleAdmin \<longleftrightarrow>
     permission \<notin> {PermissionManageUsers, PermissionManageOrgSecurity} \<union> range PermissionUnknown"
  "\<not> PermissionAllowsRole permission (SiteRoleUnknown s)"
  by (cases permission; auto simp: PermissionAllowsRole_def)+

text \<open>Keys of different users or sites differ when user identifiers hold no NUL byte.\<close>

lemma membershipKey_inj:
  assumes "nul \<notin> set userID" "nul \<notin> set userID'"
  shows "membershipKey userID siteID = membershipKey userID' siteID' \<longleftrightarrow> userID = userID' \<and> siteID = siteID'"
  using assms cut_at_append [of nul userID siteID] cut_at_append [of nul userID' siteID']
  unfolding membershipKey_def by (metis Pair_inject option.inject)

lemma Can_Inr_True:
  "Can platformAdmin userID permission siteID st = Inr True \<longleftrightarrow>
     platformAdmin userID = Inr True
     \<or> platformAdmin userID = Inr False
       \<and> (\<exists>m. st (membershipKey userID siteID) = Some m \<and> PermissionAllowsRole permission (SiteMembership_Role m))"
  by (auto simp: Can_def RoleForUserAtSite_def split: sum.splits option.splits)

section \<open>Properties\<close>

text \<open>
  Who may do what. A request is allowed exactly when the user is a platform
  administrator, or is not and holds a membership at that very site whose role the matrix
  allows: a viewer may view the site and its activity, an operator may also create jobs,
  acknowledge incidents and read the audit trail, a site administrator may do everything
  but manage users and organization security, and any other role and any permission
  outside the matrix is denied. An error of a lookup never allows.
\<close>

theorem rbac_decision:
  "Can platformAdmin userID permission siteID st = Inr True \<longleftrightarrow>
     platformAdmin userID = Inr True
     \<or> platformAdmin userID = Inr False
       \<and> (case st (membershipKey userID siteID) of
            None \<Rightarrow> False
          | Some m \<Rightarrow>
              (case SiteMembership_Role m of
                 SiteRoleViewer \<Rightarrow> permission \<in> {PermissionViewSite, PermissionViewActivity}
               | SiteRoleOperator \<Rightarrow>
                   permission \<in> {PermissionViewSite, PermissionViewActivity, PermissionCreateJobs,
                                 PermissionAcknowledgeIncidents, PermissionViewAuditEvents}
               | SiteRoleAdmin \<Rightarrow>
                   permission \<notin> {PermissionManageUsers, PermissionManageOrgSecurity} \<union> range PermissionUnknown
               | SiteRoleUnknown _ \<Rightarrow> False))"
  unfolding Can_Inr_True
  by (cases "st (membershipKey userID siteID)")
    (auto simp: PermissionAllowsRole_iff split: SiteRole.splits)

text \<open>
  Assigning and revoking a role. Assigning gives the user that role at that site, keeps
  the identifier and the creation time of an existing membership, and does not change what
  any other user or site has; revoking it afterwards leaves the user without any permission
  there unless the user is a platform administrator. User identifiers hold no NUL byte.
\<close>

theorem role_assignment:
  assumes "nul \<notin> set userID" and "AssignRole r now userID organizationID siteID role st = (Inr (), st')"
  shows "RoleForUserAtSite userID siteID st' = Inr role
    \<and> (\<forall>m. st (membershipKey userID siteID) = Some m \<longrightarrow>
         (\<exists>m'. st' (membershipKey userID siteID) = Some m' \<and> SiteMembership_ID m' = SiteMembership_ID m
             \<and> SiteMembership_CreatedAt m' = SiteMembership_CreatedAt m))
    \<and> (\<forall>other site. nul \<notin> set other \<and> (other \<noteq> userID \<or> site \<noteq> siteID) \<longrightarrow>
         RoleForUserAtSite other site st' = RoleForUserAtSite other site st
         \<and> RoleForUserAtSite other site (RevokeRole userID siteID st') = RoleForUserAtSite other site st)
    \<and> (platformAdmin userID = Inr False \<longrightarrow>
         Can platformAdmin userID permission siteID (RevokeRole userID siteID st') = Inr False)"
proof -
  obtain i where "rand_hex 16 r = Inr i" and st': "st' = AssignMembership
      \<lparr>SiteMembership_ID = i, SiteMembership_UserID = userID, SiteMembership_OrganizationID = organizationID,
       SiteMembership_SiteID = siteID, SiteMembership_Role = role, SiteMembership_CreatedAt = now\<rparr> st"
    using assms(2) by (auto simp: AssignRole_def split: sum.splits)
  show ?thesis
    unfolding st' using membershipKey_inj [OF _ assms(1)]
    by (cases "st (membershipKey userID siteID)")
      (auto simp: AssignMembership_def Let_def RoleForUserAtSite_def RevokeRole_def RevokeMembership_def Can_def)
qed

theorem role_assignment_witness:
  "RoleForUserAtSite ''u1'' ''site'' (snd (AssignRole (Some (\<lambda>i. CHR ''a'')) 5 ''u1'' ''org'' ''site'' SiteRoleViewer Map.empty))
     = Inr SiteRoleViewer"
proof -
  obtain st' where "AssignRole (Some (\<lambda>i. CHR ''a'')) 5 ''u1'' ''org'' ''site'' SiteRoleViewer Map.empty = (Inr (), st')"
    by (simp add: AssignRole_def rand_hex_def)
  moreover have "nul \<notin> set ''u1''" by (simp add: nul_def)
  ultimately show ?thesis using role_assignment by fastforce
qed

end
