(* ===== verification/Ratelimit.thy ===== *)
theory Ratelimit
  imports Tenancy
begin

text \<open>
  \<open>internal/ratelimit\<close>: the sliding-window limiter before login, confirmation of the second
  factor and invites. The model keeps the slice of accepted times per key and filters it as
  the code does; the specification decides from the whole history of calls.
\<close>

section \<open>The limiter\<close>

record Limiter =
  Limiter_attempts :: "string \<rightharpoonup> time list"
  Limiter_max :: int
  Limiter_window :: duration

definition Ratelimit_New :: "int \<Rightarrow> duration \<Rightarrow> Limiter" where
  "Ratelimit_New mx window = \<lparr>Limiter_attempts = Map.empty, Limiter_max = mx, Limiter_window = window\<rparr>"

definition attempts_at :: "Limiter \<Rightarrow> string \<Rightarrow> time list" where
  "attempts_at limiter key = (case Limiter_attempts limiter key of None \<Rightarrow> [] | Some ts \<Rightarrow> ts)"

definition Allow :: "time \<Rightarrow> string \<Rightarrow> Limiter \<Rightarrow> bool \<times> Limiter" where
  "Allow now key limiter =
     (let cutoff = now - Limiter_window limiter;
          kept = filter (\<lambda>tm. cutoff < tm) (attempts_at limiter key) in
      if int (length kept) \<ge> Limiter_max limiter
      then (False, limiter\<lparr>Limiter_attempts := (Limiter_attempts limiter)(key \<mapsto> kept)\<rparr>)
      else (True, limiter\<lparr>Limiter_attempts := (Limiter_attempts limiter)(key \<mapsto> kept @ [now])\<rparr>))"

section \<open>A run and its specification\<close>

text \<open>
  A run is a sequence of calls, each with its key and its clock reading; its log has the
  decision of each call. The specification looks at the log so far and nothing else.
\<close>

fun limiter_run :: "(string \<times> time) list \<Rightarrow> Limiter \<Rightarrow> bool list \<times> Limiter" where
  "limiter_run [] limiter = ([], limiter)"
| "limiter_run ((key, now) # calls) limiter =
     (let (ok, limiter1) = Allow now key limiter;
          (oks, limiter2) = limiter_run calls limiter1 in (ok # oks, limiter2))"

type_synonym call_log = "((string \<times> time) \<times> bool) list"

definition allowed_times :: "string \<Rightarrow> call_log \<Rightarrow> time list" where
  "allowed_times key hist = map (\<lambda>((k, tm), ok). tm) (filter (\<lambda>((k, tm), ok). k = key \<and> ok) hist)"

definition in_window :: "duration \<Rightarrow> time \<Rightarrow> string \<Rightarrow> call_log \<Rightarrow> nat" where
  "in_window window now key hist = length (filter (\<lambda>tm. now - window < tm \<and> tm \<le> now) (allowed_times key hist))"

fun spec_run :: "int \<Rightarrow> duration \<Rightarrow> call_log \<Rightarrow> (string \<times> time) list \<Rightarrow> bool list" where
  "spec_run mx window hist [] = []"
| "spec_run mx window hist ((key, now) # calls) =
     (let ok = int (in_window window now key hist) < mx
      in ok # spec_run mx window (hist @ [((key, now), ok)]) calls)"

section \<open>The limiter implements its specification\<close>

text \<open>
  The kept times of a key are, from the cutoff of the last call on, the accepted times of
  the log.
\<close>

definition tracks :: "Limiter \<Rightarrow> call_log \<Rightarrow> time \<Rightarrow> bool" where
  "tracks limiter hist now \<longleftrightarrow>
     (\<forall>key cutoff. now - Limiter_window limiter \<le> cutoff \<longrightarrow>
        filter (\<lambda>tm. cutoff < tm) (attempts_at limiter key)
          = filter (\<lambda>tm. cutoff < tm) (allowed_times key hist))
     \<and> (\<forall>key. \<forall>tm \<in> set (allowed_times key hist). tm \<le> now)"

lemma allowed_times_snoc:
  "allowed_times key (hist @ [((k, tm), ok)]) = allowed_times key hist @ (if k = key \<and> ok then [tm] else [])"
  by (simp add: allowed_times_def)

lemma filter_above: "c \<le> d \<Longrightarrow> filter (\<lambda>tm. d < tm) (filter (\<lambda>tm. c < tm) ts) = filter (\<lambda>tm. d < (tm :: int)) ts"
  by (induction ts) auto

lemma attempts_at_Allow:
  "attempts_at (snd (Allow now key limiter)) k =
     (if k = key
      then filter (\<lambda>tm. now - Limiter_window limiter < tm) (attempts_at limiter key)
             @ (if fst (Allow now key limiter) then [now] else [])
      else attempts_at limiter k)"
  by (simp add: Allow_def Let_def attempts_at_def)

lemma Allow_window [simp]: "Limiter_window (snd (Allow now key limiter)) = Limiter_window limiter"
  "Limiter_max (snd (Allow now key limiter)) = Limiter_max limiter"
  by (simp_all add: Allow_def Let_def)

lemma Allow_decision:
  assumes "tracks limiter hist prev" "prev \<le> now"
  shows "fst (Allow now key limiter) \<longleftrightarrow> int (in_window (Limiter_window limiter) now key hist) < Limiter_max limiter"
proof -
  have "filter (\<lambda>tm. now - Limiter_window limiter < tm) (attempts_at limiter key)
      = filter (\<lambda>tm. now - Limiter_window limiter < tm) (allowed_times key hist)"
    using assms unfolding tracks_def by auto
  also have "\<dots> = filter (\<lambda>tm. now - Limiter_window limiter < tm \<and> tm \<le> now) (allowed_times key hist)"
    using assms unfolding tracks_def by (intro filter_cong) force+
  finally show ?thesis by (simp add: Allow_def Let_def in_window_def)
qed

lemma Allow_tracks:
  assumes "tracks limiter hist prev" "prev \<le> now"
  shows "tracks (snd (Allow now key limiter)) (hist @ [((key, now), fst (Allow now key limiter))]) now"
  unfolding tracks_def
proof (intro conjI allI impI)
  fix k cutoff assume c: "now - Limiter_window (snd (Allow now key limiter)) \<le> cutoff"
  then have old: "filter (\<lambda>tm. cutoff < tm) (attempts_at limiter k) = filter (\<lambda>tm. cutoff < tm) (allowed_times k hist)"
    using assms unfolding tracks_def by simp
  show "filter (\<lambda>tm. cutoff < tm) (attempts_at (snd (Allow now key limiter)) k)
      = filter (\<lambda>tm. cutoff < tm) (allowed_times k (hist @ [((key, now), fst (Allow now key limiter))]))"
    using c old
    by (auto simp: attempts_at_Allow allowed_times_snoc filter_above simp del: filter_filter)
next
  fix k show "\<forall>tm \<in> set (allowed_times k (hist @ [((key, now), fst (Allow now key limiter))])). tm \<le> now"
    using assms unfolding tracks_def allowed_times_snoc by force
qed

lemma tracks_later: "tracks limiter hist prev \<Longrightarrow> prev \<le> now \<Longrightarrow> tracks limiter hist now"
  unfolding tracks_def by force

lemma limiter_run_spec:
  assumes "tracks limiter hist prev" "sorted (prev # map snd calls)"
  shows "fst (limiter_run calls limiter) = spec_run (Limiter_max limiter) (Limiter_window limiter) hist calls"
  using assms
proof (induction calls arbitrary: limiter hist prev)
  case (Cons c calls)
  obtain key now where c: "c = (key, now)" by (cases c)
  have "prev \<le> now" using Cons.prems(2) c by simp
  note decision = Allow_decision [OF Cons.prems(1) this, of key]
    and tr = Allow_tracks [OF Cons.prems(1) this, of key]
  have "sorted (now # map snd calls)" using Cons.prems(2) c by simp
  from Cons.IH [OF tr this] decision show ?case by (simp add: c Let_def case_prod_unfold)
qed simp

lemma tracks_init: "tracks (Ratelimit_New mx window) [] now"
  by (simp add: tracks_def Ratelimit_New_def attempts_at_def allowed_times_def)

text \<open>The specification never lets more than \<open>mx\<close> calls through in a window.\<close>

definition bounded :: "int \<Rightarrow> duration \<Rightarrow> call_log \<Rightarrow> bool" where
  "bounded mx window hist \<longleftrightarrow> (\<forall>key now. int (in_window window now key hist) \<le> mx)"

lemma in_window_snoc:
  "in_window window now key (hist @ [((k, tm), ok)]) =
     in_window window now key hist + (if k = key \<and> ok \<and> now - window < tm \<and> tm \<le> now then 1 else 0)"
  by (simp add: in_window_def allowed_times_snoc)

lemma in_window_later:
  assumes "\<forall>tm \<in> set (allowed_times key hist). tm \<le> prev" "prev \<le> now"
  shows "in_window window now key hist \<le> in_window window prev key hist"
proof -
  have "filter (\<lambda>tm. now - window < tm \<and> tm \<le> now) (allowed_times key hist)
      = filter (\<lambda>tm. now - window < tm) (filter (\<lambda>tm. prev - window < tm \<and> tm \<le> prev) (allowed_times key hist))"
    unfolding filter_filter using assms by (intro filter_cong) auto
  then show ?thesis unfolding in_window_def by (metis length_filter_le)
qed

lemma spec_run_bounded:
  assumes "bounded mx window hist" "sorted (prev # map snd calls)"
    and "\<forall>key. \<forall>tm \<in> set (allowed_times key hist). tm \<le> prev"
  shows "bounded mx window (hist @ zip calls (spec_run mx window hist calls))"
  using assms
proof (induction calls arbitrary: hist prev)
  case (Cons c calls)
  obtain key now where c: "c = (key, now)" by (cases c)
  let ?ok = "int (in_window window now key hist) < mx"
  let ?hist = "hist @ [((key, now), ?ok)]"
  have now: "prev \<le> now" "sorted (now # map snd calls)" using Cons.prems(2) c by simp_all
  have "bounded mx window ?hist"
    unfolding bounded_def
  proof (intro allI)
    fix k u
    show "int (in_window window u k ?hist) \<le> mx"
    proof (cases "key = k \<and> ?ok \<and> u - window < now \<and> now \<le> u")
      case True
      have "\<forall>tm \<in> set (allowed_times k hist). tm \<le> now" using Cons.prems(3) now(1) by force
      from in_window_later [OF this, of u window] True have "in_window window u k hist \<le> in_window window now k hist"
        by blast
      with True show ?thesis by (auto simp: in_window_snoc)
    next
      case False
      then have "in_window window u k ?hist = in_window window u k hist" by (auto simp: in_window_snoc)
      then show ?thesis using Cons.prems(1) unfolding bounded_def by simp
    qed
  qed
  moreover have "\<forall>k. \<forall>tm \<in> set (allowed_times k ?hist). tm \<le> now"
    using Cons.prems(3) now(1) by (force simp: allowed_times_snoc)
  ultimately have "bounded mx window (?hist @ zip calls (spec_run mx window ?hist calls))"
    using now(2) by (intro Cons.IH)
  then show ?case by (simp add: c Let_def)
qed simp

section \<open>Properties\<close>

text \<open>
  C34. The rate limiter. On every sequence of calls whose clock does not run backwards, the
  limiter lets a call through exactly when fewer than \<open>mx\<close> calls of that key were let through
  in the window before it, counting all calls ever made (forgetting old attempts loses
  nothing, refused calls do not count, keys do not affect each other); hence no window of
  that length ever holds more than \<open>mx\<close> accepted calls of a key.
\<close>

theorem rate_limit_spec:
  assumes "sorted (map snd calls)" and "0 \<le> mx"
  shows "fst (limiter_run calls (Ratelimit_New mx window)) = spec_run mx window [] calls
    \<and> (\<forall>key now. int (in_window window now key
          (zip calls (fst (limiter_run calls (Ratelimit_New mx window))))) \<le> mx)"
proof -
  let ?first = "case calls of [] \<Rightarrow> 0 | c # _ \<Rightarrow> snd c"
  have sorted: "sorted (?first # map snd calls)" using assms(1) by (cases calls) auto
  have run: "fst (limiter_run calls (Ratelimit_New mx window)) = spec_run mx window [] calls"
    using limiter_run_spec [OF tracks_init sorted, of mx window] by (simp add: Ratelimit_New_def)
  have "bounded mx window []" using assms(2) by (simp add: bounded_def in_window_def allowed_times_def)
  from spec_run_bounded [OF this sorted] have "bounded mx window (zip calls (spec_run mx window [] calls))"
    by (simp add: allowed_times_def)
  then show ?thesis unfolding run bounded_def by simp
qed

theorem rate_limit_spec_witness:
  "fst (limiter_run [(''ip'', 1), (''ip'', 2), (''ip'', 3), (''other'', 4), (''ip'', 12)] (Ratelimit_New 2 10))
     = [True, True, False, True, True]"
proof -
  have "sorted (map snd [(''ip'', 1 :: int), (''ip'', 2), (''ip'', 3), (''other'', 4), (''ip'', 12)])" by simp
  from rate_limit_spec [OF this, of 2 10] show ?thesis
    by (simp add: in_window_def allowed_times_def Let_def)
qed

end
