(* ===== verification/Credentials.thy ===== *)
theory Credentials
  imports Encoding "HOL-Library.Word" "HOL-Library.Monad_Syntax"
begin

text \<open>
  \<open>internal/identity/password.go\<close>, \<open>recoverycodes.go\<close> and \<open>totp.go\<close>: password hashes,
  recovery codes, one-time codes and the encryption of secrets at rest. The primitives
  (Argon2id, SHA-256, HMAC-SHA1, AES-GCM) are fields of \<open>Crypto\<close>; \<open>crypto_ok\<close> states what the
  code relies on: their output lengths and that opening undoes sealing.
\<close>

unbundle bit_operations_syntax

section \<open>Primitives\<close>

record Crypto =
  Crypto_argon2 :: "string \<Rightarrow> string \<Rightarrow> 32 word \<Rightarrow> 32 word \<Rightarrow> 8 word \<Rightarrow> 32 word \<Rightarrow> string"
  Crypto_sha256 :: "string \<Rightarrow> string"
  Crypto_hmac_sha1 :: "string \<Rightarrow> string \<Rightarrow> string"
  Crypto_seal :: "string \<Rightarrow> string \<Rightarrow> string \<Rightarrow> string"
  Crypto_open :: "string \<Rightarrow> string \<Rightarrow> string \<Rightarrow> string option"

definition crypto_ok :: "Crypto \<Rightarrow> bool" where
  "crypto_ok c \<longleftrightarrow>
     (\<forall>pw salt t m p n. length (Crypto_argon2 c pw salt t m p n) = unat n)
     \<and> (\<forall>s. length (Crypto_sha256 c s) = 32)
     \<and> (\<forall>k s. length (Crypto_hmac_sha1 c k s) = 20)
     \<and> (\<forall>k n s. Crypto_open c k n (Crypto_seal c k n s) = Some s)"

text \<open>Random bytes: the first \<open>n\<close> of the buffer.\<close>

definition rand_bytes :: "nat \<Rightarrow> entropy \<Rightarrow> string res" where
  "rand_bytes n r = (case r of None \<Rightarrow> Inl (ErrOther ''rand'') | Some f \<Rightarrow> Inr (map f [0..<n]))"

lemma length_rand_bytes: "rand_bytes n r = Inr s \<Longrightarrow> length s = n"
  by (auto simp: rand_bytes_def split: option.splits)

section \<open>Scanning \<open>m=%d,t=%d,p=%d\<close>\<close>

text \<open>
  \<open>fmt.Sscanf\<close> with three unsigned verbs: the literals match byte by byte, spaces other than
  a newline may precede a number, a number is a run of decimal digits that fits its
  variable, and what follows the last number is ignored.
\<close>

function skip_space :: "string \<Rightarrow> string option" where
  "skip_space s =
     (if has_prefix s [CHR 0x0A] then None
      else case strip_any space_runes s of
          None \<Rightarrow> Some s
        | Some r \<Rightarrow> if length r < length s then skip_space r else Some s)"
  by pat_completeness auto
termination
  by (relation "measure length") auto

declare skip_space.simps [simp del]

definition scan_uint :: "nat \<Rightarrow> string \<Rightarrow> (nat \<times> string) option" where
  "scan_uint bits s =
     (case skip_space s of
        None \<Rightarrow> None
      | Some r \<Rightarrow>
          let digits = takeWhile (byte_in 48 57) r in
          if digits = [] \<or> 2 ^ bits \<le> undec 0 digits then None
          else Some (undec 0 digits, dropWhile (byte_in 48 57) r))"

definition scan_literal :: "string \<Rightarrow> string \<Rightarrow> string option" where
  "scan_literal p s = (if has_prefix s p then Some (drop (length p) s) else None)"

definition scan_parameters :: "string \<Rightarrow> (32 word \<times> 32 word \<times> 8 word) option" where
  "scan_parameters s = do {
     s1 \<leftarrow> scan_literal ''m='' s;
     (memory, s2) \<leftarrow> scan_uint 32 s1;
     s3 \<leftarrow> scan_literal '',t='' s2;
     (tm, s4) \<leftarrow> scan_uint 32 s3;
     s5 \<leftarrow> scan_literal '',p='' s4;
     (threads, _) \<leftarrow> scan_uint 8 s5;
     Some (of_nat memory, of_nat tm, of_nat threads)
   }"

lemma skip_space_digit:
  assumes "byte_in 48 57 c"
  shows "skip_space (c # s) = Some (c # s)"
proof -
  have c: "48 \<le> (of_char c :: nat)" "(of_char c :: nat) \<le> 57" using assms by (auto simp: byte_in_def)
  then have "c \<noteq> CHR 0x0A" by auto
  moreover have "\<not> prefix p (c # s)" if "p \<in> set space_runes" for p
    using that c by (auto simp: space_runes_def)
  ultimately show ?thesis
    by (subst skip_space.simps) (simp add: has_prefix_def strip_any_None [THEN iffD2])
qed

lemma scan_uint_dec:
  assumes "n < 2 ^ bits" "rest = [] \<or> \<not> byte_in 48 57 (hd rest)"
  shows "scan_uint bits (dec_nat n @ rest) = Some (n, rest)"
proof -
  obtain c cs where d: "dec_nat n = c # cs" by (cases "dec_nat n") auto
  have digits: "\<And>x. x \<in> set (dec_nat n) \<Longrightarrow> byte_in 48 57 x"
    using dec_nat_digits [of n] by (simp add: list_all_iff)
  then have "skip_space (dec_nat n @ rest) = Some (dec_nat n @ rest)"
    unfolding d by (simp add: skip_space_digit)
  moreover have "takeWhile (byte_in 48 57) (dec_nat n @ rest) = dec_nat n"
    "dropWhile (byte_in 48 57) (dec_nat n @ rest) = rest"
    using digits assms(2) by (cases rest; simp add: takeWhile_append2 dropWhile_append2)+
  ultimately show ?thesis using assms(1) by (simp add: scan_uint_def undec_dec_nat)
qed

lemma scan_literal_append [simp]: "scan_literal p (p @ s) = Some s"
  by (simp add: scan_literal_def has_prefix_iff)

lemma scan_parameters_dec:
  assumes "m < 2 ^ 32" "t < 2 ^ 32" "p < 2 ^ 8"
  shows "scan_parameters (''m='' @ dec_nat m @ '',t='' @ dec_nat t @ '',p='' @ dec_nat p)
    = Some (of_nat m, of_nat t, of_nat p)"
proof -
  have "\<not> byte_in 48 57 (CHR '','')" by (simp add: byte_in_def)
  then have
    "scan_uint 32 (dec_nat m @ '',t='' @ dec_nat t @ '',p='' @ dec_nat p) = Some (m, '',t='' @ dec_nat t @ '',p='' @ dec_nat p)"
    "scan_uint 32 (dec_nat t @ '',p='' @ dec_nat p) = Some (t, '',p='' @ dec_nat p)"
    "scan_uint 8 (dec_nat p) = Some (p, [])"
    using scan_uint_dec [OF assms(1)] scan_uint_dec [OF assms(2)] scan_uint_dec [OF assms(3), of "[]"]
    by simp_all
  then show ?thesis
    unfolding scan_parameters_def
    by (simp only: scan_literal_append bind.bind_lunit prod.case)
qed

section \<open>Passwords\<close>

definition argon2Time :: nat where "argon2Time = 1"
definition argon2Memory :: nat where "argon2Memory = 64 * 1024"
definition argon2Threads :: nat where "argon2Threads = 4"
definition argon2KeyLen :: nat where "argon2KeyLen = 32"
definition saltLen :: nat where "saltLen = 16"

lemmas argon2_params = argon2Time_def argon2Memory_def argon2Threads_def argon2KeyLen_def saltLen_def

definition HashPassword :: "Crypto \<Rightarrow> entropy \<Rightarrow> string \<Rightarrow> string res" where
  "HashPassword c r password =
     (case rand_bytes saltLen r of
        Inl e \<Rightarrow> Inl (ErrOther ''generate salt'')
      | Inr salt \<Rightarrow>
          let hash = Crypto_argon2 c password salt (of_nat argon2Time) (of_nat argon2Memory)
                       (of_nat argon2Threads) (of_nat argon2KeyLen) in
          Inr (''$argon2id$v=19$m='' @ dec_nat argon2Memory @ '',t='' @ dec_nat argon2Time
               @ '',p='' @ dec_nat argon2Threads
               @ ''$'' @ b64_raw_encode b64_digit salt @ ''$'' @ b64_raw_encode b64_digit hash))"

definition VerifyPassword :: "Crypto \<Rightarrow> string \<Rightarrow> string \<Rightarrow> bool res" where
  "VerifyPassword c encodedHash password =
     (let parts = split_on (CHR ''$'') encodedHash in
      if length parts \<noteq> 6 \<or> parts ! 1 \<noteq> ''argon2id'' then Inl (ErrOther ''malformed encoded hash'')
      else case scan_parameters (parts ! 3) of
          None \<Rightarrow> Inl (ErrOther ''malformed argon2id parameters'')
        | Some (memory, tm, threads) \<Rightarrow>
            (case b64_raw_decode b64_val (parts ! 4) of
               None \<Rightarrow> Inl (ErrOther ''malformed salt'')
             | Some salt \<Rightarrow>
                 (case b64_raw_decode b64_val (parts ! 5) of
                    None \<Rightarrow> Inl (ErrOther ''malformed hash'')
                  | Some expected \<Rightarrow>
                      Inr (Crypto_argon2 c password salt tm memory threads (of_nat (length expected))
                           = expected))))"

lemma dec_params: "dec_nat 65536 = ''65536''" "dec_nat (Suc 0) = ''1''" "dec_nat 4 = ''4''"
  by (simp_all add: dec_nat.simps char_of_def bit_Suc_0_iff)

lemma HashPassword_Inr:
  assumes "HashPassword c r password = Inr encoded"
  obtains salt where "length salt = 16"
    "encoded = ''$argon2id$v=19$m=65536,t=1,p=4$'' @ b64_raw_encode b64_digit salt @ ''$''
       @ b64_raw_encode b64_digit (Crypto_argon2 c password salt 1 65536 4 32)"
proof -
  from assms obtain salt where salt: "rand_bytes saltLen r = Inr salt"
    by (auto simp: HashPassword_def split: sum.splits)
  with assms length_rand_bytes [OF salt] show thesis
    by (intro that [of salt]) (simp_all add: HashPassword_def argon2_params dec_params)
qed

lemma VerifyPassword_hashed:
  assumes ok: "crypto_ok c" and hash: "HashPassword c r password = Inr encoded"
  obtains salt where "length salt = 16"
    "\<And>other. VerifyPassword c encoded other
       = Inr (Crypto_argon2 c other salt 1 65536 4 32 = Crypto_argon2 c password salt 1 65536 4 32)"
proof -
  obtain salt where salt: "length salt = 16"
    "encoded = ''$argon2id$v=19$m=65536,t=1,p=4$'' @ b64_raw_encode b64_digit salt @ ''$''
       @ b64_raw_encode b64_digit (Crypto_argon2 c password salt 1 65536 4 32)"
    using HashPassword_Inr [OF hash] .
  let ?h = "Crypto_argon2 c password salt 1 65536 4 32"
  have len: "length ?h = 32" using ok by (simp add: crypto_ok_def)
  have plain: "CHR ''$'' \<notin> set (b64_raw_encode b64_digit s)" for s
    using b64_raw_set [OF b64_alphabet_std] by blast
  have parts: "split_on (CHR ''$'') encoded
      = ['''', ''argon2id'', ''v=19'', ''m=65536,t=1,p=4'',
         b64_raw_encode b64_digit salt, b64_raw_encode b64_digit ?h]"
    using split_on_append [OF plain, of salt "b64_raw_encode b64_digit ?h"]
    by (simp add: salt(2) split_on_plain [OF plain])
  have "scan_parameters ''m=65536,t=1,p=4'' = Some (65536, 1, 4)"
    using scan_parameters_dec [of 65536 1 4] by (simp add: dec_params)
  with parts len have "VerifyPassword c encoded other = Inr (Crypto_argon2 c other salt 1 65536 4 32 = ?h)" for other
    by (simp add: VerifyPassword_def b64_raw_roundtrip [OF b64_alphabet_std])
  with salt(1) show thesis by (intro that) 
qed

section \<open>Recovery codes\<close>

fun GenerateRecoveryCodes :: "entropy list \<Rightarrow> string list res" where
  "GenerateRecoveryCodes [] = Inr []"
| "GenerateRecoveryCodes (r # rs) =
     (case rand_hex 8 r of
        Inl e \<Rightarrow> Inl (ErrOther ''generate recovery code'')
      | Inr code \<Rightarrow>
          (case GenerateRecoveryCodes rs of Inl e \<Rightarrow> Inl e | Inr codes \<Rightarrow> Inr (code # codes)))"

definition HashRecoveryCode :: "Crypto \<Rightarrow> string \<Rightarrow> string" where
  "HashRecoveryCode c code = hex_encode (Crypto_sha256 c code)"

lemma GenerateRecoveryCodes_Inr:
  "GenerateRecoveryCodes rs = Inr codes \<Longrightarrow>
     length codes = length rs \<and> list_all (\<lambda>code. length code = 16 \<and> list_all is_lower_hex code) codes"
  by (induction rs arbitrary: codes) (auto split: sum.splits dest: rand_hex_Inr)

section \<open>One-time codes\<close>

text \<open>
  \<open>Unix\<close> counts seconds from 1970, rounded down; the counter is that number at 64 bits,
  in steps of 30 seconds, and its neighbours wrap around.
\<close>

definition unix_epoch :: time where "unix_epoch = 62135596800 * second"

definition unix_seconds :: "time \<Rightarrow> int" where
  "unix_seconds tm = (tm - unix_epoch) div second"

definition totpStep :: duration where "totpStep = 30 * second"

definition totp_counter :: "time \<Rightarrow> 64 word" where
  "totp_counter tm = of_int (unix_seconds tm) div of_int (totpStep div second)"

definition put_uint64 :: "64 word \<Rightarrow> string" where
  "put_uint64 counter = map (\<lambda>i. char_of (unat (drop_bit (8 * (7 - i)) counter) mod 256)) [0..<8]"

definition get_uint32 :: "string \<Rightarrow> 32 word" where
  "get_uint32 s = foldl (\<lambda>w c. push_bit 8 w OR of_char c) 0 (take 4 s)"

definition pad06 :: "nat \<Rightarrow> string" where
  "pad06 n = replicate (6 - length (dec_nat n)) (CHR ''0'') @ dec_nat n"

definition hotpCode :: "Crypto \<Rightarrow> string \<Rightarrow> 64 word \<Rightarrow> string" where
  "hotpCode c secret counter =
     (let counterBytes = put_uint64 counter;
          sum = Crypto_hmac_sha1 c secret counterBytes;
          offset = unat (of_char (sum ! (length sum - 1)) AND (0x0F :: 8 word));
          truncated = get_uint32 (drop offset sum) AND 0x7FFFFFFF
      in pad06 (unat (truncated mod 1000000)))"

definition GenerateTOTPSecret :: "entropy \<Rightarrow> string res" where
  "GenerateTOTPSecret r = (case rand_bytes 20 r of
     Inl e \<Rightarrow> Inl (ErrOther ''generate TOTP secret'') | Inr secret \<Rightarrow> Inr secret)"

definition GenerateTOTPCode :: "Crypto \<Rightarrow> string \<Rightarrow> time \<Rightarrow> string" where
  "GenerateTOTPCode c secret tm = hotpCode c secret (totp_counter tm)"

definition VerifyTOTPCode :: "Crypto \<Rightarrow> string \<Rightarrow> string \<Rightarrow> time \<Rightarrow> bool" where
  "VerifyTOTPCode c secret code tm =
     (let counter = totp_counter tm in
      list_ex (\<lambda>candidate. hotpCode c secret candidate = code) [counter - 1, counter, counter + 1])"

lemma dec_nat_length: "n < 10 ^ k \<Longrightarrow> 0 < k \<Longrightarrow> length (dec_nat n) \<le> k"
proof (induction k arbitrary: n)
  case (Suc k)
  show ?case
  proof (cases "n < 10")
    case False
    with Suc.prems have "n div 10 < 10 ^ k" "0 < k" by (auto intro: gr0I)
    then have "length (dec_nat (n div 10)) \<le> k" by (rule Suc.IH)
    with False show ?thesis by (simp add: dec_nat.simps [of n])
  qed (simp add: dec_nat.simps [of n])
qed simp

lemma pad06_digits:
  assumes "n < 1000000"
  shows "length (pad06 n) = 6 \<and> list_all (byte_in 48 57) (pad06 n)"
proof -
  have "length (dec_nat n) \<le> 6" using dec_nat_length [of n 6] assms by simp
  moreover have "list_all (byte_in 48 57) (replicate k (CHR ''0''))" for k
    by (induction k) (simp_all add: byte_in_def)
  ultimately show ?thesis using dec_nat_digits [of n] by (simp add: pad06_def)
qed

lemma hotpCode_digits: "length (hotpCode c secret counter) = 6 \<and> list_all (byte_in 48 57) (hotpCode c secret counter)"
proof -
  have "unat (w mod 1000000) < 1000000" for w :: "32 word"
    using word_mod_less_divisor [of 1000000 w] by (simp add: word_less_nat_alt)
  then show ?thesis unfolding hotpCode_def Let_def by (intro pad06_digits)
qed

text \<open>After the epoch, the counter is the number of whole steps.\<close>

lemma totp_counter_eq:
  assumes "0 \<le> unix_seconds tm" "unix_seconds tm < 2 ^ 63"
  shows "totp_counter tm = of_int (unix_seconds tm div 30)"
proof -
  have "uint (of_int (unix_seconds tm) :: 64 word) = unix_seconds tm"
    using assms by (simp add: uint_word_of_int take_bit_eq_mod)
  then have "totp_counter tm = word_of_int (unix_seconds tm div 30)"
    by (simp add: totp_counter_def totpStep_def duration_simps word_div_def)
  then show ?thesis by simp
qed

lemma unix_seconds_step:
  "unix_seconds (tm - totpStep) = unix_seconds tm - 30"
  "unix_seconds (tm + totpStep) = unix_seconds tm + 30"
proof -
  have "second \<noteq> 0" by (simp add: duration_simps)
  then have "(tm - unix_epoch + k * second) div second = k + (tm - unix_epoch) div second" for k
    by (rule div_mult_self1)
  from this [of "- 30"] this [of 30]
  show "unix_seconds (tm - totpStep) = unix_seconds tm - 30"
    "unix_seconds (tm + totpStep) = unix_seconds tm + 30"
    by (simp_all add: unix_seconds_def totpStep_def algebra_simps)
qed

lemma totp_counter_step:
  assumes "30 \<le> unix_seconds tm" "unix_seconds tm < 2 ^ 63 - 30"
  shows "totp_counter (tm - totpStep) = totp_counter tm - 1"
    and "totp_counter (tm + totpStep) = totp_counter tm + 1"
proof -
  have eqs: "totp_counter (tm - totpStep) = of_int ((unix_seconds tm - 30) div 30)"
    "totp_counter (tm + totpStep) = of_int ((unix_seconds tm + 30) div 30)"
    "totp_counter tm = of_int (unix_seconds tm div 30)"
    using assms by (subst totp_counter_eq; simp add: unix_seconds_step)+
  have "(y + 30) div 30 = y div 30 + 1" for y :: int by simp
  from this [of "unix_seconds tm - 30"] this [of "unix_seconds tm"]
  have divs: "(unix_seconds tm - 30) div 30 = unix_seconds tm div 30 - 1"
    "(unix_seconds tm + 30) div 30 = unix_seconds tm div 30 + 1"
    by simp_all
  show "totp_counter (tm - totpStep) = totp_counter tm - 1"
    "totp_counter (tm + totpStep) = totp_counter tm + 1"
    by (simp_all only: eqs divs of_int_diff of_int_add of_int_1)
qed

lemma VerifyTOTPCode_iff:
  assumes "30 \<le> unix_seconds tm" "unix_seconds tm < 2 ^ 63 - 30"
  shows "VerifyTOTPCode c secret code tm \<longleftrightarrow>
    code \<in> {GenerateTOTPCode c secret (tm - totpStep), GenerateTOTPCode c secret tm,
             GenerateTOTPCode c secret (tm + totpStep)}"
  by (auto simp: VerifyTOTPCode_def GenerateTOTPCode_def totp_counter_step [OF assms])

text \<open>The counter at a moment within one step is one of the three.\<close>

lemma totp_counter_near:
  assumes "30 \<le> unix_seconds tm" "unix_seconds tm < 2 ^ 63 - 30" "\<bar>tm' - tm\<bar> \<le> totpStep"
  shows "totp_counter tm' \<in> {totp_counter tm - 1, totp_counter tm, totp_counter tm + 1}"
proof -
  have "second > 0" by (simp add: duration_simps)
  then have mono: "a \<le> b \<Longrightarrow> unix_seconds a \<le> unix_seconds b" for a b
    by (simp add: unix_seconds_def zdiv_mono1)
  have lo: "unix_seconds tm - 30 \<le> unix_seconds tm'"
    using mono [of "tm - totpStep" tm'] assms(3) by (simp add: unix_seconds_step)
  have hi: "unix_seconds tm' \<le> unix_seconds tm + 30"
    using mono [of tm' "tm + totpStep"] assms(3) by (simp add: unix_seconds_step)
  from lo hi have "(unix_seconds tm - 30) div 30 \<le> unix_seconds tm' div 30"
    "unix_seconds tm' div 30 \<le> (unix_seconds tm + 30) div 30"
    by (simp_all only: zdiv_mono1 zero_less_numeral)
  moreover have "(y + 30) div 30 = y div 30 + 1" for y :: int by simp
  from this [of "unix_seconds tm - 30"] this [of "unix_seconds tm"]
  have "(unix_seconds tm - 30) div 30 = unix_seconds tm div 30 - 1"
    "(unix_seconds tm + 30) div 30 = unix_seconds tm div 30 + 1"
    by simp_all
  ultimately have "unix_seconds tm' div 30 \<in> {unix_seconds tm div 30 - 1, unix_seconds tm div 30, unix_seconds tm div 30 + 1}"
    by auto
  moreover have "totp_counter tm' = of_int (unix_seconds tm' div 30)"
    "totp_counter tm = of_int (unix_seconds tm div 30)"
    using lo hi assms(1,2) by (simp_all add: totp_counter_eq)
  ultimately show ?thesis by auto
qed

lemma VerifyTOTPCode_near:
  assumes "30 \<le> unix_seconds tm" "unix_seconds tm < 2 ^ 63 - 30"
  shows "VerifyTOTPCode c secret code tm \<longleftrightarrow>
    (\<exists>tm'. \<bar>tm' - tm\<bar> \<le> totpStep \<and> code = GenerateTOTPCode c secret tm')"
proof
  assume "VerifyTOTPCode c secret code tm"
  then consider "code = GenerateTOTPCode c secret (tm - totpStep)" | "code = GenerateTOTPCode c secret tm"
    | "code = GenerateTOTPCode c secret (tm + totpStep)"
    using VerifyTOTPCode_iff [OF assms] by blast
  then show "\<exists>tm'. \<bar>tm' - tm\<bar> \<le> totpStep \<and> code = GenerateTOTPCode c secret tm'"
  proof cases
    case 1
    then show ?thesis by (intro exI [of _ "tm - totpStep"]) (simp add: totpStep_def duration_simps)
  next
    case 2
    then show ?thesis by (intro exI [of _ tm]) (simp add: totpStep_def duration_simps)
  next
    case 3
    then show ?thesis by (intro exI [of _ "tm + totpStep"]) (simp add: totpStep_def duration_simps)
  qed
next
  assume "\<exists>tm'. \<bar>tm' - tm\<bar> \<le> totpStep \<and> code = GenerateTOTPCode c secret tm'"
  then obtain tm' where near: "\<bar>tm' - tm\<bar> \<le> totpStep" and code: "code = GenerateTOTPCode c secret tm'" by blast
  have "totp_counter tm' \<in> {totp_counter tm - 1, totp_counter tm, totp_counter tm + 1}"
    by (rule totp_counter_near [OF assms near])
  then show "VerifyTOTPCode c secret code tm"
    unfolding VerifyTOTPCode_def Let_def code GenerateTOTPCode_def by auto
qed

section \<open>Secrets at rest\<close>

definition aesCipher :: "Crypto \<Rightarrow> string \<Rightarrow> string res" where
  "aesCipher c encryptionKey =
     (let key = Crypto_sha256 c encryptionKey in
      if length key = 16 \<or> length key = 24 \<or> length key = 32 then Inr key
      else Inl (ErrOther ''build AES cipher''))"

definition totpKeyVersion :: char where "totpKeyVersion = CHR 0x01"
definition gcm_nonce_size :: nat where "gcm_nonce_size = 12"

definition EncryptTOTPSecret :: "Crypto \<Rightarrow> entropy \<Rightarrow> string \<Rightarrow> string \<Rightarrow> string res" where
  "EncryptTOTPSecret c r secret encryptionKey =
     (case aesCipher c encryptionKey of
        Inl e \<Rightarrow> Inl e
      | Inr key \<Rightarrow>
          (case rand_bytes gcm_nonce_size r of
             Inl e \<Rightarrow> Inl (ErrOther ''generate nonce'')
           | Inr nonce \<Rightarrow> Inr (totpKeyVersion # nonce @ Crypto_seal c key nonce secret)))"

definition DecryptTOTPSecret :: "Crypto \<Rightarrow> string \<Rightarrow> string \<Rightarrow> string res" where
  "DecryptTOTPSecret c ciphertext encryptionKey =
     (if length ciphertext < 1 \<or> ciphertext ! 0 \<noteq> totpKeyVersion
      then Inl (ErrOther ''unsupported TOTP secret key version'')
      else case aesCipher c encryptionKey of
          Inl e \<Rightarrow> Inl e
        | Inr key \<Rightarrow>
            let sealed = drop 1 ciphertext in
            if length sealed < gcm_nonce_size then Inl (ErrOther ''truncated TOTP ciphertext'')
            else (case Crypto_open c key (take gcm_nonce_size sealed) (drop gcm_nonce_size sealed) of
                None \<Rightarrow> Inl (ErrOther ''decrypt TOTP secret'')
              | Some secret \<Rightarrow> Inr secret))"

lemma DecryptTOTPSecret_encrypted:
  assumes "crypto_ok c" "EncryptTOTPSecret c r secret encryptionKey = Inr ciphertext"
  shows "DecryptTOTPSecret c ciphertext encryptionKey = Inr secret"
proof -
  have key: "aesCipher c encryptionKey = Inr (Crypto_sha256 c encryptionKey)"
    using assms(1) by (simp add: aesCipher_def crypto_ok_def)
  with assms(2) obtain nonce where nonce: "rand_bytes gcm_nonce_size r = Inr nonce"
    "ciphertext = totpKeyVersion # nonce @ Crypto_seal c (Crypto_sha256 c encryptionKey) nonce secret"
    by (auto simp: EncryptTOTPSecret_def split: sum.splits)
  from length_rand_bytes [OF nonce(1)] show ?thesis
    using assms(1) by (simp add: DecryptTOTPSecret_def key nonce(2) crypto_ok_def)
qed

section \<open>The provisioning URI\<close>

text \<open>
  \<open>url.PathEscape\<close>, \<open>url.QueryEscape\<close> and base32 without padding. \<open>Values.Encode\<close> writes
  the parameters in the order of their names.
\<close>

definition unreserved :: "char \<Rightarrow> bool" where
  "unreserved ch \<longleftrightarrow> byte_in 48 57 ch \<or> byte_in 65 90 ch \<or> byte_in 97 122 ch \<or> ch \<in> set ''-_.~''"

definition upper_hex :: "nat \<Rightarrow> char" where
  "upper_hex n = (if n < 10 then char_of (48 + n) else char_of (55 + n))"

definition percent :: "char \<Rightarrow> string" where
  "percent ch = [CHR ''%'', upper_hex (of_char ch div 16), upper_hex (of_char ch mod 16)]"

definition path_escape :: "string \<Rightarrow> string" where
  "path_escape s = concat (map (\<lambda>ch. if unreserved ch \<or> ch \<in> set ''$&+:=@'' then [ch] else percent ch) s)"

definition query_escape :: "string \<Rightarrow> string" where
  "query_escape s = concat (map (\<lambda>ch. if unreserved ch then [ch] else if ch = CHR '' '' then ''+'' else percent ch) s)"

definition byte_bits :: "char \<Rightarrow> bool list" where
  "byte_bits ch = map (\<lambda>i. odd ((of_char ch :: nat) div 2 ^ (7 - i))) [0..<8]"

definition b32_digit :: "bool list \<Rightarrow> char" where
  "b32_digit bs = (let n = foldl (\<lambda>m b. 2 * m + (if b then 1 else 0)) (0 :: nat) bs in
     if n < 26 then char_of (65 + n) else char_of (24 + n))"

function b32_groups :: "bool list \<Rightarrow> string" where
  "b32_groups bs = (if bs = [] then []
     else b32_digit (take 5 (bs @ replicate 4 False)) # b32_groups (drop 5 bs))"
  by pat_completeness auto
termination
  by (relation "measure length") auto

declare b32_groups.simps [simp del]

definition b32_encode :: "string \<Rightarrow> string" where
  "b32_encode s = b32_groups (concat (map byte_bits s))"

definition TOTPProvisioningURI :: "string \<Rightarrow> string \<Rightarrow> string \<Rightarrow> string" where
  "TOTPProvisioningURI issuer accountEmail secret =
     (let label = path_escape issuer @ '':'' @ path_escape accountEmail
      in ''otpauth://totp/'' @ label @ ''?'' @ ''digits=6'' @ ''&issuer='' @ query_escape issuer
         @ ''&period='' @ dec_nat (nat (totpStep div second)) @ ''&secret='' @ query_escape (b32_encode secret))"

end
