(* ===== verification/Identity.thy ===== *)
theory Identity
  imports Credentials Tenancy
begin

text \<open>
  \<open>internal/identity/identity.go\<close> and \<open>memorystore.go\<close>: users, the bootstrap of the first
  administrator, invites, login with password and one-time or recovery code, and the
  login or linking of users of an identity provider. The callback that grants site roles works
  on a state of its own (\<open>'g\<close>); an operation that calls it returns that state too. The
  random bytes and clock readings of a call are the record \<open>IdentityEnv\<close>.
\<close>

section \<open>Data\<close>

datatype Role = RolePlatformAdmin | RoleOther string

record User =
  User_ID :: string
  User_OrganizationID :: string
  User_Email :: string
  User_Role :: Role
  User_PasswordHash :: string
  User_TOTPSecretEncrypted :: string
  User_TOTPConfirmedAt :: "time option"
  User_OIDCIssuer :: string
  User_OIDCSubject :: string
  User_CreatedAt :: time
  User_DisabledAt :: "time option"

definition no_user :: User where
  "no_user = \<lparr>User_ID = [], User_OrganizationID = [], User_Email = [], User_Role = RoleOther [],
     User_PasswordHash = [], User_TOTPSecretEncrypted = [], User_TOTPConfirmedAt = None,
     User_OIDCIssuer = [], User_OIDCSubject = [], User_CreatedAt = 0, User_DisabledAt = None\<rparr>"

datatype IdentityType = IdentityTypeLocal | IdentityTypeOIDC | IdentityTypeOther string

record SiteRoleGrant =
  SiteRoleGrant_SiteID :: string
  SiteRoleGrant_Role :: string

record Invite =
  Invite_ID :: string
  Invite_OrganizationID :: string
  Invite_Email :: string
  Invite_Role :: Role
  Invite_SiteRoleGrants :: "SiteRoleGrant list"
  Invite_IdentityType :: IdentityType
  Invite_CreatedBy :: string
  Invite_ExpiresAt :: time
  Invite_ConsumedAt :: "time option"
  Invite_RevokedAt :: "time option"
  Invite_CreatedAt :: time

record OIDCConfiguration =
  OIDCConfiguration_OrganizationID :: string
  OIDCConfiguration_DiscoveryURL :: string
  OIDCConfiguration_Issuer :: string
  OIDCConfiguration_ClientID :: string
  OIDCConfiguration_ClientSecretEncrypted :: string
  OIDCConfiguration_RedirectURL :: string
  OIDCConfiguration_UpdatedAt :: time
  OIDCConfiguration_UpdatedBy :: string

record TOTPEnrollment =
  TOTPEnrollment_ProvisioningURI :: string
  TOTPEnrollment_RecoveryCodes :: "string list"

section \<open>The in-memory store\<close>

record inviteRecord =
  inviteRecord_invite :: Invite
  inviteRecord_tokenHash :: string

record IdentityStore =
  IdentityStore_bootstrapped :: bool
  IdentityStore_usersByID :: "string \<rightharpoonup> User"
  IdentityStore_usersByEmail :: "string \<rightharpoonup> string"
  IdentityStore_usersByOIDC :: "string \<rightharpoonup> string"
  IdentityStore_invites :: "string \<rightharpoonup> inviteRecord"
  IdentityStore_recoveryHashes :: "string \<rightharpoonup> (string \<rightharpoonup> bool)"
  IdentityStore_oidcConfigs :: "string \<rightharpoonup> OIDCConfiguration"

definition NewIdentityStore :: IdentityStore where
  "NewIdentityStore = \<lparr>IdentityStore_bootstrapped = False, IdentityStore_usersByID = Map.empty,
     IdentityStore_usersByEmail = Map.empty, IdentityStore_usersByOIDC = Map.empty,
     IdentityStore_invites = Map.empty, IdentityStore_recoveryHashes = Map.empty,
     IdentityStore_oidcConfigs = Map.empty\<rparr>"

definition emailKey :: "string \<Rightarrow> string \<Rightarrow> string" where
  "emailKey organizationID email = organizationID @ CHR 0x00 # email"

definition oidcKey :: "string \<Rightarrow> string \<Rightarrow> string \<Rightarrow> string" where
  "oidcKey organizationID issuer subject = organizationID @ CHR 0x00 # issuer @ CHR 0x00 # subject"

definition put_user :: "User \<Rightarrow> IdentityStore \<Rightarrow> IdentityStore" where
  "put_user user st =
     st\<lparr>IdentityStore_usersByID := (IdentityStore_usersByID st)(User_ID user \<mapsto> user),
        IdentityStore_usersByEmail := (IdentityStore_usersByEmail st)
          (emailKey (User_OrganizationID user) (User_Email user) \<mapsto> User_ID user)\<rparr>"

definition CompleteBootstrap :: "User \<Rightarrow> IdentityStore \<Rightarrow> (unit, IdentityStore) op" where
  "CompleteBootstrap user st =
     (if IdentityStore_bootstrapped st then (Inl ErrAlreadyBootstrapped, st)
      else (Inr (), put_user user (st\<lparr>IdentityStore_bootstrapped := True\<rparr>)))"

definition CreateUser :: "User \<Rightarrow> IdentityStore \<Rightarrow> IdentityStore" where
  "CreateUser user st =
     (let st1 = put_user user st in
      if User_OIDCSubject user \<noteq> []
      then st1\<lparr>IdentityStore_usersByOIDC := (IdentityStore_usersByOIDC st1)
             (oidcKey (User_OrganizationID user) (User_OIDCIssuer user) (User_OIDCSubject user) \<mapsto> User_ID user)\<rparr>
      else st1)"

text \<open>Indexing the map of users yields the zero user for an absent identifier.\<close>

definition user_at :: "IdentityStore \<Rightarrow> string \<Rightarrow> User" where
  "user_at st i = (case IdentityStore_usersByID st i of None \<Rightarrow> no_user | Some user \<Rightarrow> user)"

definition UserByEmail :: "string \<Rightarrow> string \<Rightarrow> IdentityStore \<Rightarrow> User res" where
  "UserByEmail organizationID email st =
     (case IdentityStore_usersByEmail st (emailKey organizationID email) of
        None \<Rightarrow> Inl ErrInvalidCredentials | Some i \<Rightarrow> Inr (user_at st i))"

definition UserByOIDCIdentity :: "string \<Rightarrow> string \<Rightarrow> string \<Rightarrow> IdentityStore \<Rightarrow> User res" where
  "UserByOIDCIdentity organizationID issuer subject st =
     (case IdentityStore_usersByOIDC st (oidcKey organizationID issuer subject) of
        None \<Rightarrow> Inl ErrInvalidCredentials | Some i \<Rightarrow> Inr (user_at st i))"

definition UserByID :: "string \<Rightarrow> IdentityStore \<Rightarrow> User res" where
  "UserByID i st =
     (case IdentityStore_usersByID st i of None \<Rightarrow> Inl ErrInvalidCredentials | Some user \<Rightarrow> Inr user)"

definition UpdateUser :: "User \<Rightarrow> IdentityStore \<Rightarrow> IdentityStore" where
  "UpdateUser user st =
     st\<lparr>IdentityStore_usersByID := (IdentityStore_usersByID st)(User_ID user \<mapsto> user)\<rparr>"

definition SaveInvite :: "Invite \<Rightarrow> string \<Rightarrow> IdentityStore \<Rightarrow> IdentityStore" where
  "SaveInvite invite tokenHash st =
     st\<lparr>IdentityStore_invites := (IdentityStore_invites st)
          (tokenHash \<mapsto> \<lparr>inviteRecord_invite = invite, inviteRecord_tokenHash = tokenHash\<rparr>)\<rparr>"

definition InviteByTokenHash :: "string \<Rightarrow> IdentityStore \<Rightarrow> Invite res" where
  "InviteByTokenHash tokenHash st =
     (case IdentityStore_invites st tokenHash of
        None \<Rightarrow> Inl ErrInviteNotFound | Some rcd \<Rightarrow> Inr (inviteRecord_invite rcd))"

definition consumed_record :: "time \<Rightarrow> inviteRecord \<Rightarrow> inviteRecord" where
  "consumed_record tm rcd =
     rcd\<lparr>inviteRecord_invite := (inviteRecord_invite rcd)\<lparr>Invite_ConsumedAt := Some tm\<rparr>\<rparr>"

definition ConsumeInvite :: "string \<Rightarrow> time \<Rightarrow> IdentityStore \<Rightarrow> (unit, IdentityStore) op" where
  "ConsumeInvite tokenHash tm st =
     (case IdentityStore_invites st tokenHash of
        None \<Rightarrow> (Inl ErrInviteNotFound, st)
      | Some rcd \<Rightarrow> (Inr (), st\<lparr>IdentityStore_invites :=
                               (IdentityStore_invites st)(tokenHash \<mapsto> consumed_record tm rcd)\<rparr>))"

definition InviteByEmail ::
  "(string \<times> inviteRecord) list \<Rightarrow> string \<Rightarrow> string \<Rightarrow> Invite res" where
  "InviteByEmail it organizationID email =
     (case pick (\<lambda>a b. Invite_CreatedAt b < Invite_CreatedAt a) None
             (filter (\<lambda>invite. Invite_OrganizationID invite = organizationID \<and> Invite_Email invite = email)
               (map (inviteRecord_invite \<circ> snd) it)) of
        None \<Rightarrow> Inl ErrInviteNotFound
      | Some found \<Rightarrow> Inr found)"

definition ConsumeInviteByID ::
  "(string \<times> inviteRecord) list \<Rightarrow> string \<Rightarrow> time \<Rightarrow> IdentityStore \<Rightarrow> (unit, IdentityStore) op" where
  "ConsumeInviteByID it inviteID tm st =
     (case find (\<lambda>(_, rcd). Invite_ID (inviteRecord_invite rcd) = inviteID) it of
        None \<Rightarrow> (Inl ErrInviteNotFound, st)
      | Some (tokenHash, rcd) \<Rightarrow>
          (Inr (), st\<lparr>IdentityStore_invites :=
                       (IdentityStore_invites st)(tokenHash \<mapsto> consumed_record tm rcd)\<rparr>))"

definition SaveOIDCConfiguration :: "OIDCConfiguration \<Rightarrow> IdentityStore \<Rightarrow> IdentityStore" where
  "SaveOIDCConfiguration config st =
     st\<lparr>IdentityStore_oidcConfigs :=
          (IdentityStore_oidcConfigs st)(OIDCConfiguration_OrganizationID config \<mapsto> config)\<rparr>"

definition OIDCConfigurationByOrganization :: "string \<Rightarrow> IdentityStore \<Rightarrow> OIDCConfiguration res" where
  "OIDCConfigurationByOrganization organizationID st =
     (case IdentityStore_oidcConfigs st organizationID of
        None \<Rightarrow> Inl ErrOIDCNotConfigured | Some config \<Rightarrow> Inr config)"

definition SaveRecoveryCodes :: "string \<Rightarrow> string list \<Rightarrow> IdentityStore \<Rightarrow> IdentityStore" where
  "SaveRecoveryCodes userID codeHashes st =
     st\<lparr>IdentityStore_recoveryHashes := (IdentityStore_recoveryHashes st)
          (userID \<mapsto> fold (\<lambda>hash m. m(hash \<mapsto> False)) codeHashes Map.empty)\<rparr>"

definition ConsumeRecoveryCode :: "string \<Rightarrow> string \<Rightarrow> IdentityStore \<Rightarrow> bool \<times> IdentityStore" where
  "ConsumeRecoveryCode userID codeHash st =
     (case IdentityStore_recoveryHashes st userID of
        None \<Rightarrow> (False, st)
      | Some hashes \<Rightarrow>
          (if hashes codeHash = Some False
           then (True, st\<lparr>IdentityStore_recoveryHashes :=
                          (IdentityStore_recoveryHashes st)(userID \<mapsto> hashes(codeHash \<mapsto> True))\<rparr>)
           else (False, st)))"

definition UsersForOrganization ::
  "User sorter \<Rightarrow> (string \<times> User) list \<Rightarrow> string \<Rightarrow> User list" where
  "UsersForOrganization srt it organizationID =
     srt (\<lambda>a b. User_Email a < User_Email b)
       (filter (\<lambda>user. User_OrganizationID user = organizationID) (map snd it))"

section \<open>The service\<close>

type_synonym 'g SiteRoleGrantor = "string \<Rightarrow> SiteRoleGrant list \<Rightarrow> 'g \<Rightarrow> (unit, 'g) op"

record 'g IdentityService =
  IdentityService_totpEncryptionKey :: string
  IdentityService_siteRoleGrantor :: "'g SiteRoleGrantor option"

text \<open>
  What one call reads: the salt, the secret, the nonce, the identifiers, the recovery codes and
  the clock, at each of its calls of \<open>now\<close>.
\<close>

record IdentityEnv =
  IdentityEnv_salt :: entropy
  IdentityEnv_secret :: entropy
  IdentityEnv_nonce :: entropy
  IdentityEnv_id :: entropy
  IdentityEnv_token :: entropy
  IdentityEnv_codes :: "nat \<Rightarrow> entropy"
  IdentityEnv_now :: "nat \<Rightarrow> time"

definition identity_newID :: "entropy \<Rightarrow> string res" where
  "identity_newID r = rand_hex 16 r"

definition identity_hashToken :: "Crypto \<Rightarrow> string \<Rightarrow> string" where
  "identity_hashToken c token = HashRecoveryCode c token"

text \<open>The credentials of a new local user, generated in this order: password hash, secret,
  encrypted secret, identifier.\<close>

definition new_credentials ::
  "Crypto \<Rightarrow> string \<Rightarrow> IdentityEnv \<Rightarrow> string \<Rightarrow> (string \<times> string \<times> string \<times> string) res" where
  "new_credentials c totpEncryptionKey env password =
     (case HashPassword c (IdentityEnv_salt env) password of
        Inl e \<Rightarrow> Inl e
      | Inr passwordHash \<Rightarrow>
          (case GenerateTOTPSecret (IdentityEnv_secret env) of
             Inl e \<Rightarrow> Inl e
           | Inr totpSecret \<Rightarrow>
               (case EncryptTOTPSecret c (IdentityEnv_nonce env) totpSecret totpEncryptionKey of
                  Inl e \<Rightarrow> Inl e
                | Inr encryptedSecret \<Rightarrow>
                    (case identity_newID (IdentityEnv_id env) of
                       Inl e \<Rightarrow> Inl e
                     | Inr i \<Rightarrow> Inr (passwordHash, totpSecret, encryptedSecret, i)))))"

definition issue_recovery_codes ::
  "Crypto \<Rightarrow> IdentityEnv \<Rightarrow> string \<Rightarrow> IdentityStore \<Rightarrow> (string list, IdentityStore) op" where
  "issue_recovery_codes c env userID st =
     (case GenerateRecoveryCodes (map (IdentityEnv_codes env) [0..<10]) of
        Inl e \<Rightarrow> (Inl e, st)
      | Inr codes \<Rightarrow> (Inr codes, SaveRecoveryCodes userID (map (HashRecoveryCode c) codes) st))"

definition Bootstrap ::
  "Crypto \<Rightarrow> 'g IdentityService \<Rightarrow> IdentityEnv \<Rightarrow> string \<Rightarrow> string \<Rightarrow> string \<Rightarrow> IdentityStore
   \<Rightarrow> (User \<times> TOTPEnrollment, IdentityStore) op" where
  "Bootstrap c service env organizationID email password st =
     (if IdentityStore_bootstrapped st then (Inl ErrAlreadyBootstrapped, st)
      else case new_credentials c (IdentityService_totpEncryptionKey service) env password of
          Inl e \<Rightarrow> (Inl e, st)
        | Inr (passwordHash, totpSecret, encryptedSecret, i) \<Rightarrow>
            let confirmedAt = IdentityEnv_now env 0;
                user = no_user\<lparr>User_ID := i, User_OrganizationID := organizationID, User_Email := email,
                         User_Role := RolePlatformAdmin, User_PasswordHash := passwordHash,
                         User_TOTPSecretEncrypted := encryptedSecret,
                         User_TOTPConfirmedAt := Some confirmedAt, User_CreatedAt := confirmedAt\<rparr> in
            (case CompleteBootstrap user st of
               (Inl e, st1) \<Rightarrow> (Inl e, st1)
             | (Inr _, st1) \<Rightarrow>
                 (case issue_recovery_codes c env i st1 of
                    (Inl e, st2) \<Rightarrow> (Inl e, st2)
                  | (Inr codes, st2) \<Rightarrow>
                      (Inr (user, \<lparr>TOTPEnrollment_ProvisioningURI = TOTPProvisioningURI ''bazUSOP'' email totpSecret,
                                    TOTPEnrollment_RecoveryCodes = codes\<rparr>), st2))))"

definition CreateInvite ::
  "Crypto \<Rightarrow> IdentityEnv \<Rightarrow> string \<Rightarrow> string \<Rightarrow> string \<Rightarrow> Role \<Rightarrow> SiteRoleGrant list \<Rightarrow> IdentityType
   \<Rightarrow> IdentityStore \<Rightarrow> (Invite \<times> string, IdentityStore) op" where
  "CreateInvite c env createdBy organizationID email role siteRoleGrants identityType st =
     (if role = RolePlatformAdmin \<and> 0 < length siteRoleGrants then (Inl ErrInvalidInviteRole, st)
      else if role \<noteq> RolePlatformAdmin \<and> length siteRoleGrants = 0 then (Inl ErrInvalidInviteRole, st)
      else
        let identityType = (if identityType = IdentityTypeOther [] then IdentityTypeLocal else identityType) in
        case identity_newID (IdentityEnv_token env) of
          Inl e \<Rightarrow> (Inl e, st)
        | Inr token \<Rightarrow>
            (case identity_newID (IdentityEnv_id env) of
               Inl e \<Rightarrow> (Inl e, st)
             | Inr i \<Rightarrow>
                 let invite = \<lparr>Invite_ID = i, Invite_OrganizationID = organizationID, Invite_Email = email,
                       Invite_Role = role, Invite_SiteRoleGrants = siteRoleGrants,
                       Invite_IdentityType = identityType, Invite_CreatedBy = createdBy,
                       Invite_ExpiresAt = IdentityEnv_now env 0 + 24 * hour, Invite_ConsumedAt = None,
                       Invite_RevokedAt = None, Invite_CreatedAt = IdentityEnv_now env 1\<rparr>
                 in (Inr (invite, token), SaveInvite invite (identity_hashToken c token) st)))"

definition invite_ended :: "time \<Rightarrow> Invite \<Rightarrow> bool" where
  "invite_ended now invite \<longleftrightarrow>
     Invite_ConsumedAt invite \<noteq> None \<or> Invite_RevokedAt invite \<noteq> None \<or> Invite_ExpiresAt invite < now"

definition run_grantor ::
  "'g IdentityService \<Rightarrow> string \<Rightarrow> SiteRoleGrant list \<Rightarrow> 'g \<Rightarrow> (unit, 'g) op" where
  "run_grantor service userID grants g =
     (case IdentityService_siteRoleGrantor service of
        Some grantor \<Rightarrow> if 0 < length grants then grantor userID grants g else (Inr (), g)
      | None \<Rightarrow> (Inr (), g))"

definition Identity_ConsumeInvite ::
  "Crypto \<Rightarrow> 'g IdentityService \<Rightarrow> IdentityEnv \<Rightarrow> string \<Rightarrow> string \<Rightarrow> IdentityStore \<times> 'g
   \<Rightarrow> (User \<times> TOTPEnrollment, IdentityStore \<times> 'g) op" where
  "Identity_ConsumeInvite c service env token password w =
     (let (st, g) = w; tokenHash = identity_hashToken c token in
      case InviteByTokenHash tokenHash st of
        Inl e \<Rightarrow> (Inl e, st, g)
      | Inr invite \<Rightarrow>
          if invite_ended (IdentityEnv_now env 0) invite then (Inl ErrInviteExpired, st, g)
          else if Invite_IdentityType invite = IdentityTypeOIDC then (Inl ErrInviteWrongIdentityType, st, g)
          else (case new_credentials c (IdentityService_totpEncryptionKey service) env password of
              Inl e \<Rightarrow> (Inl e, st, g)
            | Inr (passwordHash, totpSecret, encryptedSecret, i) \<Rightarrow>
                let user = no_user\<lparr>User_ID := i, User_OrganizationID := Invite_OrganizationID invite,
                             User_Email := Invite_Email invite, User_Role := Invite_Role invite,
                             User_PasswordHash := passwordHash,
                             User_TOTPSecretEncrypted := encryptedSecret,
                             User_CreatedAt := IdentityEnv_now env 1\<rparr>;
                    st1 = CreateUser user st in
                (case run_grantor service (User_ID user) (Invite_SiteRoleGrants invite) g of
                   (Inl e, g1) \<Rightarrow> (Inl e, st1, g1)
                 | (Inr _, g1) \<Rightarrow>
                     (case ConsumeInvite tokenHash (IdentityEnv_now env 2) st1 of
                        (Inl e, st2) \<Rightarrow> (Inl e, st2, g1)
                      | (Inr _, st2) \<Rightarrow>
                          (Inr (user, \<lparr>TOTPEnrollment_ProvisioningURI =
                                         TOTPProvisioningURI ''bazUSOP'' (Invite_Email invite) totpSecret,
                                       TOTPEnrollment_RecoveryCodes = []\<rparr>), st2, g1)))))"

definition ConfirmTOTP ::
  "Crypto \<Rightarrow> 'g IdentityService \<Rightarrow> IdentityEnv \<Rightarrow> string \<Rightarrow> (string \<Rightarrow> string) \<Rightarrow> time \<Rightarrow> IdentityStore
   \<Rightarrow> (TOTPEnrollment, IdentityStore) op" where
  "ConfirmTOTP c service env userID codeFromSecret tm st =
     (case UserByID userID st of
        Inl e \<Rightarrow> (Inl e, st)
      | Inr user \<Rightarrow>
          if User_TOTPConfirmedAt user \<noteq> None then (Inl ErrTOTPAlreadyConfirmed, st)
          else (case DecryptTOTPSecret c (User_TOTPSecretEncrypted user) (IdentityService_totpEncryptionKey service) of
              Inl e \<Rightarrow> (Inl e, st)
            | Inr secret \<Rightarrow>
                if \<not> VerifyTOTPCode c secret (codeFromSecret secret) tm then (Inl ErrInvalidTOTPCode, st)
                else
                  let st1 = UpdateUser (user\<lparr>User_TOTPConfirmedAt := Some tm\<rparr>) st in
                  (case issue_recovery_codes c env userID st1 of
                     (Inl e, st2) \<Rightarrow> (Inl e, st2)
                   | (Inr codes, st2) \<Rightarrow>
                       (Inr \<lparr>TOTPEnrollment_ProvisioningURI = TOTPProvisioningURI ''bazUSOP'' (User_Email user) secret,
                             TOTPEnrollment_RecoveryCodes = codes\<rparr>, st2))))"

text \<open>The password check both logins begin with.\<close>

definition check_password :: "Crypto \<Rightarrow> string \<Rightarrow> string \<Rightarrow> string \<Rightarrow> IdentityStore \<Rightarrow> User res" where
  "check_password c organizationID email password st =
     (case UserByEmail organizationID email st of
        Inl _ \<Rightarrow> Inl ErrInvalidCredentials
      | Inr user \<Rightarrow>
          if VerifyPassword c (User_PasswordHash user) password = Inr True then Inr user
          else Inl ErrInvalidCredentials)"

definition VerifyCredentials ::
  "Crypto \<Rightarrow> 'g IdentityService \<Rightarrow> time \<Rightarrow> string \<Rightarrow> string \<Rightarrow> string \<Rightarrow> string \<Rightarrow> IdentityStore \<Rightarrow> User res" where
  "VerifyCredentials c service now organizationID email password totpCode st =
     (case check_password c organizationID email password st of
        Inl e \<Rightarrow> Inl e
      | Inr user \<Rightarrow>
          (case DecryptTOTPSecret c (User_TOTPSecretEncrypted user) (IdentityService_totpEncryptionKey service) of
             Inl _ \<Rightarrow> Inl ErrInvalidCredentials
           | Inr secret \<Rightarrow>
               if \<not> VerifyTOTPCode c secret totpCode now then Inl ErrInvalidTOTPCode else Inr user))"

definition VerifyCredentialsWithRecoveryCode ::
  "Crypto \<Rightarrow> string \<Rightarrow> string \<Rightarrow> string \<Rightarrow> string \<Rightarrow> IdentityStore \<Rightarrow> (User, IdentityStore) op" where
  "VerifyCredentialsWithRecoveryCode c organizationID email password recoveryCode st =
     (case check_password c organizationID email password st of
        Inl e \<Rightarrow> (Inl e, st)
      | Inr user \<Rightarrow>
          (case ConsumeRecoveryCode (User_ID user) (HashRecoveryCode c recoveryCode) st of
             (consumed, st1) \<Rightarrow> if \<not> consumed then (Inl ErrInvalidCredentials, st1) else (Inr user, st1)))"

definition IsUserActive :: "string \<Rightarrow> IdentityStore \<Rightarrow> bool res" where
  "IsUserActive i st =
     (case UserByID i st of
        Inl e \<Rightarrow> if e = ErrInvalidCredentials then Inr False else Inl e
      | Inr user \<Rightarrow> Inr (User_DisabledAt user = None))"

definition IsPlatformAdmin :: "string \<Rightarrow> IdentityStore \<Rightarrow> bool res" where
  "IsPlatformAdmin i st =
     (case UserByID i st of
        Inl e \<Rightarrow> if e = ErrInvalidCredentials then Inr False else Inl e
      | Inr user \<Rightarrow> Inr (User_Role user = RolePlatformAdmin))"

text \<open>The two visits are those of the lookup by address and of the consumption.\<close>

definition LoginOrLinkOIDCUser ::
  "'g IdentityService \<Rightarrow> IdentityEnv \<Rightarrow> (string \<times> inviteRecord) list \<Rightarrow> (string \<times> inviteRecord) list
   \<Rightarrow> string \<Rightarrow> string \<Rightarrow> string \<Rightarrow> string \<Rightarrow> IdentityStore \<times> 'g \<Rightarrow> (User, IdentityStore \<times> 'g) op" where
  "LoginOrLinkOIDCUser service env it1 it2 organizationID issuer subject email w =
     (let (st, g) = w in
      case UserByOIDCIdentity organizationID issuer subject st of
        Inr existing \<Rightarrow> (Inr existing, st, g)
      | Inl e \<Rightarrow>
          if e \<noteq> ErrInvalidCredentials then (Inl e, st, g)
          else (case InviteByEmail it1 organizationID email of
              Inl _ \<Rightarrow> (Inl ErrInviteNotFound, st, g)
            | Inr invite \<Rightarrow>
                if invite_ended (IdentityEnv_now env 0) invite then (Inl ErrInviteExpired, st, g)
                else if Invite_IdentityType invite \<noteq> IdentityTypeOIDC
                then (Inl ErrInviteWrongIdentityType, st, g)
                else (case identity_newID (IdentityEnv_id env) of
                    Inl e \<Rightarrow> (Inl e, st, g)
                  | Inr i \<Rightarrow>
                      let user = no_user\<lparr>User_ID := i, User_OrganizationID := Invite_OrganizationID invite,
                                   User_Email := Invite_Email invite, User_Role := Invite_Role invite,
                                   User_OIDCIssuer := issuer, User_OIDCSubject := subject,
                                   User_CreatedAt := IdentityEnv_now env 1\<rparr>;
                          st1 = CreateUser user st in
                      (case run_grantor service (User_ID user) (Invite_SiteRoleGrants invite) g of
                         (Inl e, g1) \<Rightarrow> (Inl e, st1, g1)
                       | (Inr _, g1) \<Rightarrow>
                           (case ConsumeInviteByID it2 (Invite_ID invite) (IdentityEnv_now env 2) st1 of
                              (Inl e, st2) \<Rightarrow> (Inl e, st2, g1)
                            | (Inr _, st2) \<Rightarrow> (Inr user, st2, g1))))))"

definition SetOIDCConfiguration ::
  "Crypto \<Rightarrow> 'g IdentityService \<Rightarrow> IdentityEnv \<Rightarrow> string \<Rightarrow> string \<Rightarrow> string \<Rightarrow> string \<Rightarrow> string \<Rightarrow> string \<Rightarrow> string
   \<Rightarrow> IdentityStore \<Rightarrow> (OIDCConfiguration, IdentityStore) op" where
  "SetOIDCConfiguration c service env organizationID discoveryURL issuer clientID clientSecret redirectURL updatedBy st =
     (case EncryptTOTPSecret c (IdentityEnv_nonce env) clientSecret (IdentityService_totpEncryptionKey service) of
        Inl e \<Rightarrow> (Inl e, st)
      | Inr encrypted \<Rightarrow>
          let config = \<lparr>OIDCConfiguration_OrganizationID = organizationID,
                OIDCConfiguration_DiscoveryURL = discoveryURL, OIDCConfiguration_Issuer = issuer,
                OIDCConfiguration_ClientID = clientID, OIDCConfiguration_ClientSecretEncrypted = encrypted,
                OIDCConfiguration_RedirectURL = redirectURL,
                OIDCConfiguration_UpdatedAt = IdentityEnv_now env 0, OIDCConfiguration_UpdatedBy = updatedBy\<rparr>
          in (Inr config, SaveOIDCConfiguration config st))"

definition Identity_OIDCConfiguration :: "string \<Rightarrow> IdentityStore \<Rightarrow> OIDCConfiguration res" where
  "Identity_OIDCConfiguration organizationID st =
     (case OIDCConfigurationByOrganization organizationID st of
        Inl e \<Rightarrow> Inl e
      | Inr config \<Rightarrow> Inr (config\<lparr>OIDCConfiguration_ClientSecretEncrypted := []\<rparr>))"

definition OIDCConfigurationWithSecret ::
  "Crypto \<Rightarrow> 'g IdentityService \<Rightarrow> string \<Rightarrow> IdentityStore \<Rightarrow> (OIDCConfiguration \<times> string) res" where
  "OIDCConfigurationWithSecret c service organizationID st =
     (case OIDCConfigurationByOrganization organizationID st of
        Inl e \<Rightarrow> Inl e
      | Inr config \<Rightarrow>
          (case DecryptTOTPSecret c (OIDCConfiguration_ClientSecretEncrypted config)
                  (IdentityService_totpEncryptionKey service) of
             Inl e \<Rightarrow> Inl e
           | Inr secret \<Rightarrow> Inr (config\<lparr>OIDCConfiguration_ClientSecretEncrypted := []\<rparr>, secret)))"

end
