(* ===== verification/Identity_Lifecycle.thy ===== *)
theory Identity_Lifecycle
  imports Identity
begin

text \<open>
  How the store of users changes. \<open>identity_change\<close> lists the writes the operations make, each
  with the condition under which they make it; every operation is a sequence of them
  (\<open>identity_step_changes\<close>), so the invariant and the facts that last are proved once per
  write. Two interpretations of \<open>revocation\<close> follow: invites and recovery codes.
\<close>

section \<open>The writes\<close>

inductive identity_change :: "IdentityStore \<Rightarrow> IdentityStore \<Rightarrow> bool" where
  flag: "\<not> IdentityStore_bootstrapped st \<Longrightarrow> identity_change st (st\<lparr>IdentityStore_bootstrapped := True\<rparr>)"
| user: "IdentityStore_usersByID st (User_ID u) = None \<Longrightarrow>
    (User_OIDCSubject u \<noteq> [] \<Longrightarrow> IdentityStore_usersByOIDC st
       (oidcKey (User_OrganizationID u) (User_OIDCIssuer u) (User_OIDCSubject u)) = None) \<Longrightarrow>
    identity_change st (CreateUser u st)"
| confirm: "IdentityStore_usersByID st i = Some u \<Longrightarrow> User_TOTPConfirmedAt u = None \<Longrightarrow>
    identity_change st (UpdateUser (u\<lparr>User_TOTPConfirmedAt := Some tm\<rparr>) st)"
| codes: "IdentityStore_usersByID st i = Some u \<Longrightarrow> User_TOTPConfirmedAt u \<noteq> None \<Longrightarrow>
    IdentityStore_recoveryHashes st i = None \<Longrightarrow> identity_change st (SaveRecoveryCodes i hs st)"
| use_code: "IdentityStore_recoveryHashes st i = Some m \<Longrightarrow> m h = Some False \<Longrightarrow>
    identity_change st (st\<lparr>IdentityStore_recoveryHashes := (IdentityStore_recoveryHashes st)(i \<mapsto> m(h \<mapsto> True))\<rparr>)"
| invite: "IdentityStore_invites st h = None \<Longrightarrow>
    (\<And>k rcd. IdentityStore_invites st k = Some rcd \<Longrightarrow> Invite_ID (inviteRecord_invite rcd) \<noteq> Invite_ID v) \<Longrightarrow>
    identity_change st (SaveInvite v h st)"
| consume: "IdentityStore_invites st h = Some rcd \<Longrightarrow>
    identity_change st (st\<lparr>IdentityStore_invites := (IdentityStore_invites st)(h \<mapsto> consumed_record tm rcd)\<rparr>)"
| config: "identity_change st (SaveOIDCConfiguration cfg st)"

lemmas write_defs = CreateUser_def put_user_def UpdateUser_def SaveRecoveryCodes_def SaveInvite_def
  SaveOIDCConfiguration_def Let_def consumed_record_def

abbreviation identity_changes :: "IdentityStore \<Rightarrow> IdentityStore \<Rightarrow> bool" where
  "identity_changes \<equiv> rtranclp identity_change"

lemma changes_one: "identity_change st st' \<Longrightarrow> identity_changes st st'"
  by (rule r_into_rtranclp)

lemma changes_two: "identity_change st st1 \<Longrightarrow> identity_change st1 st' \<Longrightarrow> identity_changes st st'"
  by (drule changes_one) (rule rtranclp.rtrancl_into_rtrancl)

lemmas changes_more = rtranclp.rtrancl_into_rtrancl [of identity_change]

section \<open>The invariant\<close>

definition users_ok :: "IdentityStore \<Rightarrow> bool" where
  "users_ok st \<longleftrightarrow>
     (\<forall>i u. IdentityStore_usersByID st i = Some u \<longrightarrow> User_ID u = i)
     \<and> (\<forall>k i. IdentityStore_usersByEmail st k = Some i \<longrightarrow>
          (\<exists>u. IdentityStore_usersByID st i = Some u \<and> k = emailKey (User_OrganizationID u) (User_Email u)))
     \<and> (\<forall>k i. IdentityStore_usersByOIDC st k = Some i \<longrightarrow>
          (\<exists>u. IdentityStore_usersByID st i = Some u
             \<and> k = oidcKey (User_OrganizationID u) (User_OIDCIssuer u) (User_OIDCSubject u)))"

definition codes_ok :: "IdentityStore \<Rightarrow> bool" where
  "codes_ok st \<longleftrightarrow>
     (\<forall>i m. IdentityStore_recoveryHashes st i = Some m \<longrightarrow>
        (\<exists>u. IdentityStore_usersByID st i = Some u \<and> User_TOTPConfirmedAt u \<noteq> None))"

definition invites_ok :: "IdentityStore \<Rightarrow> bool" where
  "invites_ok st \<longleftrightarrow>
     (\<forall>h rcd. IdentityStore_invites st h = Some rcd \<longrightarrow> inviteRecord_tokenHash rcd = h)
     \<and> (\<forall>h k r s. IdentityStore_invites st h = Some r \<longrightarrow> IdentityStore_invites st k = Some s \<longrightarrow>
          Invite_ID (inviteRecord_invite r) = Invite_ID (inviteRecord_invite s) \<longrightarrow> h = k)"

definition identity_inv :: "IdentityStore \<Rightarrow> bool" where
  "identity_inv st \<longleftrightarrow> users_ok st \<and> codes_ok st \<and> invites_ok st"

lemma identity_inv_init: "identity_inv NewIdentityStore"
  by (simp add: identity_inv_def users_ok_def codes_ok_def invites_ok_def NewIdentityStore_def)

lemma users_ok_user:
  assumes "users_ok st" "IdentityStore_usersByID st (User_ID u) = None"
  shows "users_ok (CreateUser u st)"
proof -
  have "i \<noteq> User_ID u" if "IdentityStore_usersByEmail st k = Some i \<or> IdentityStore_usersByOIDC st k = Some i" for i k
    using assms that unfolding users_ok_def by (metis option.distinct(1))
  with assms show ?thesis
    unfolding users_ok_def by (auto simp: write_defs)
qed

lemma users_ok_replace:
  assumes ok: "users_ok st" and u: "IdentityStore_usersByID st i = Some u"
    and same: "User_ID v = User_ID u" "User_OrganizationID v = User_OrganizationID u" "User_Email v = User_Email u"
      "User_OIDCIssuer v = User_OIDCIssuer u" "User_OIDCSubject v = User_OIDCSubject u"
  shows "users_ok (UpdateUser v st)"
proof -
  have i: "User_ID v = i" using ok u same(1) by (simp add: users_ok_def)
  then have byID: "IdentityStore_usersByID (UpdateUser v st) = (IdentityStore_usersByID st)(i \<mapsto> v)"
    by (simp add: UpdateUser_def)
  show ?thesis
    unfolding users_ok_def byID
  proof (intro conjI allI impI)
    fix j w assume "((IdentityStore_usersByID st)(i \<mapsto> v)) j = Some w"
    then show "User_ID w = j" using ok i by (auto simp: users_ok_def split: if_splits)
  next
    fix k j assume "IdentityStore_usersByEmail (UpdateUser v st) k = Some j"
    then have "IdentityStore_usersByEmail st k = Some j" by (simp add: UpdateUser_def)
    then obtain w where "IdentityStore_usersByID st j = Some w" "k = emailKey (User_OrganizationID w) (User_Email w)"
      using ok unfolding users_ok_def by blast
    then show "\<exists>w. ((IdentityStore_usersByID st)(i \<mapsto> v)) j = Some w \<and> k = emailKey (User_OrganizationID w) (User_Email w)"
      using u same by (cases "j = i") simp_all
  next
    fix k j assume "IdentityStore_usersByOIDC (UpdateUser v st) k = Some j"
    then have "IdentityStore_usersByOIDC st k = Some j" by (simp add: UpdateUser_def)
    then obtain w where "IdentityStore_usersByID st j = Some w"
      "k = oidcKey (User_OrganizationID w) (User_OIDCIssuer w) (User_OIDCSubject w)"
      using ok unfolding users_ok_def by blast
    then show "\<exists>w. ((IdentityStore_usersByID st)(i \<mapsto> v)) j = Some w
        \<and> k = oidcKey (User_OrganizationID w) (User_OIDCIssuer w) (User_OIDCSubject w)"
      using u same by (cases "j = i") simp_all
  qed
qed

lemma users_ok_change: "identity_change st st' \<Longrightarrow> users_ok st \<Longrightarrow> users_ok st'"
proof (induction rule: identity_change.induct)
  case (user st u)
  then show ?case by (blast intro: users_ok_user)
next
  case (confirm st i u tm)
  show ?case by (rule users_ok_replace [OF confirm(3,1)]) simp_all
qed (auto simp: users_ok_def write_defs)

lemma codes_ok_change: "identity_change st st' \<Longrightarrow> users_ok st \<Longrightarrow> codes_ok st \<Longrightarrow> codes_ok st'"
proof (induction rule: identity_change.induct)
  case (user st u)
  then show ?case unfolding codes_ok_def by (fastforce simp: write_defs)
next
  case (confirm st i u tm)
  then have "User_ID u = i" by (simp add: users_ok_def)
  with confirm show ?case unfolding codes_ok_def by (fastforce simp: write_defs)
qed (auto simp: codes_ok_def write_defs split: if_splits)

lemma invites_ok_change: "identity_change st st' \<Longrightarrow> invites_ok st \<Longrightarrow> invites_ok st'"
proof (induction rule: identity_change.induct)
  case (invite st h v)
  then show ?case unfolding invites_ok_def by (simp add: write_defs) metis
next
  case (consume st h rcd tm)
  then show ?case unfolding invites_ok_def by (simp add: write_defs) metis
qed (simp_all add: invites_ok_def write_defs)

lemma identity_inv_change: "identity_change st st' \<Longrightarrow> identity_inv st \<Longrightarrow> identity_inv st'"
  using users_ok_change codes_ok_change invites_ok_change unfolding identity_inv_def by blast

lemma identity_inv_changes: "identity_changes st st' \<Longrightarrow> identity_inv st \<Longrightarrow> identity_inv st'"
  by (induction rule: rtranclp_induct) (blast intro: identity_inv_change)+

section \<open>What lasts\<close>

lemma flag_change: "identity_change st st' \<Longrightarrow> IdentityStore_bootstrapped st \<Longrightarrow> IdentityStore_bootstrapped st'"
  by (induction rule: identity_change.induct) (simp_all add: write_defs)

text \<open>A user never changes except for the confirmation of the second factor.\<close>

definition same_user :: "User \<Rightarrow> User \<Rightarrow> bool" where
  "same_user u v \<longleftrightarrow> v = u \<or> (User_TOTPConfirmedAt u = None \<and> (\<exists>tm. v = u\<lparr>User_TOTPConfirmedAt := Some tm\<rparr>))"

lemma same_user_trans: "same_user u v \<Longrightarrow> same_user v w \<Longrightarrow> same_user u w"
  by (auto simp: same_user_def)

lemma user_change:
  "identity_change st st' \<Longrightarrow> users_ok st \<Longrightarrow> IdentityStore_usersByID st i = Some u \<Longrightarrow>
     \<exists>v. IdentityStore_usersByID st' i = Some v \<and> same_user u v"
proof (induction rule: identity_change.induct)
  case (confirm st j w tm)
  then have "User_ID w = j" by (simp add: users_ok_def)
  with confirm show ?case by (auto simp: write_defs same_user_def)
qed (auto simp: write_defs same_user_def)

lemma oidc_change:
  "identity_change st st' \<Longrightarrow> IdentityStore_usersByOIDC st k = Some i \<Longrightarrow> IdentityStore_usersByOIDC st' k = Some i"
  by (induction rule: identity_change.induct) (auto simp: write_defs)

text \<open>An invite never changes except for its consumption, and that is final.\<close>

definition same_invite :: "Invite \<Rightarrow> Invite \<Rightarrow> bool" where
  "same_invite v w \<longleftrightarrow> w = v \<or> (\<exists>tm. w = v\<lparr>Invite_ConsumedAt := Some tm\<rparr>)"

lemma invite_change:
  "identity_change st st' \<Longrightarrow> IdentityStore_invites st h = Some r \<Longrightarrow>
     \<exists>s. IdentityStore_invites st' h = Some s \<and> same_invite (inviteRecord_invite r) (inviteRecord_invite s)"
  by (induction rule: identity_change.induct) (auto simp: write_defs same_invite_def)

lemma used_code_change:
  "identity_change st st' \<Longrightarrow> IdentityStore_recoveryHashes st i = Some m \<Longrightarrow> m h \<noteq> Some False \<Longrightarrow>
     \<exists>m'. IdentityStore_recoveryHashes st' i = Some m' \<and> m' h \<noteq> Some False"
  by (induction rule: identity_change.induct) (auto simp: write_defs)

section \<open>The operations as sequences of writes\<close>

definition fresh_user_id :: "IdentityEnv \<Rightarrow> IdentityStore \<Rightarrow> bool" where
  "fresh_user_id env st \<longleftrightarrow>
     (\<forall>i. identity_newID (IdentityEnv_id env) = Inr i \<longrightarrow> IdentityStore_usersByID st i = None)"

definition fresh_invite :: "Crypto \<Rightarrow> IdentityEnv \<Rightarrow> IdentityStore \<Rightarrow> bool" where
  "fresh_invite c env st \<longleftrightarrow>
     (\<forall>token. identity_newID (IdentityEnv_token env) = Inr token \<longrightarrow>
        IdentityStore_invites st (identity_hashToken c token) = None)
     \<and> (\<forall>i h rcd. identity_newID (IdentityEnv_id env) = Inr i \<longrightarrow> IdentityStore_invites st h = Some rcd \<longrightarrow>
          Invite_ID (inviteRecord_invite rcd) \<noteq> i)"

definition new_local_user :: "string \<Rightarrow> string \<Rightarrow> string \<Rightarrow> Role \<Rightarrow> string \<Rightarrow> string \<Rightarrow> time option \<Rightarrow> time \<Rightarrow> User" where
  "new_local_user i organizationID email role passwordHash encryptedSecret confirmedAt createdAt =
     no_user\<lparr>User_ID := i, User_OrganizationID := organizationID, User_Email := email, User_Role := role,
       User_PasswordHash := passwordHash, User_TOTPSecretEncrypted := encryptedSecret,
       User_TOTPConfirmedAt := confirmedAt, User_CreatedAt := createdAt\<rparr>"

lemma new_credentials_id:
  "new_credentials c key env password = Inr (passwordHash, totpSecret, encryptedSecret, i) \<Longrightarrow>
     HashPassword c (IdentityEnv_salt env) password = Inr passwordHash
     \<and> EncryptTOTPSecret c (IdentityEnv_nonce env) totpSecret key = Inr encryptedSecret
     \<and> identity_newID (IdentityEnv_id env) = Inr i"
  by (auto simp: new_credentials_def split: sum.splits)

lemma Bootstrap_cases:
  assumes "Bootstrap c service env organizationID email password st = (res, st')"
  obtains (refused) e where "res = Inl e" "st' = st"
      "IdentityStore_bootstrapped st \<Longrightarrow> e = ErrAlreadyBootstrapped"
  | (created) passwordHash totpSecret encryptedSecret i user where
      "\<not> IdentityStore_bootstrapped st"
      "new_credentials c (IdentityService_totpEncryptionKey service) env password
         = Inr (passwordHash, totpSecret, encryptedSecret, i)"
      "user = new_local_user i organizationID email RolePlatformAdmin passwordHash encryptedSecret
         (Some (IdentityEnv_now env 0)) (IdentityEnv_now env 0)"
      "(\<exists>e. res = Inl e \<and> st' = CreateUser user (st\<lparr>IdentityStore_bootstrapped := True\<rparr>))
       \<or> (\<exists>codes enrollment. GenerateRecoveryCodes (map (IdentityEnv_codes env) [0..<10]) = Inr codes
            \<and> enrollment = \<lparr>TOTPEnrollment_ProvisioningURI = TOTPProvisioningURI ''bazUSOP'' email totpSecret,
                    TOTPEnrollment_RecoveryCodes = codes\<rparr> \<and> res = Inr (user, enrollment)
            \<and> st' = SaveRecoveryCodes i (map (HashRecoveryCode c) codes)
                      (CreateUser user (st\<lparr>IdentityStore_bootstrapped := True\<rparr>)))"
proof (cases "IdentityStore_bootstrapped st")
  case True
  with assms show ?thesis by (intro refused [of ErrAlreadyBootstrapped]) (auto simp: Bootstrap_def)
next
  case False
  show ?thesis
  proof (cases "new_credentials c (IdentityService_totpEncryptionKey service) env password")
    case (Inl e)
    with assms False show ?thesis by (intro refused [of e]) (auto simp: Bootstrap_def)
  next
    case (Inr cr)
    obtain passwordHash totpSecret encryptedSecret i where cr: "cr = (passwordHash, totpSecret, encryptedSecret, i)"
      by (metis surj_pair)
    define user where "user = new_local_user i organizationID email RolePlatformAdmin passwordHash encryptedSecret
         (Some (IdentityEnv_now env 0)) (IdentityEnv_now env 0)"
    have step: "CompleteBootstrap user st = (Inr (), CreateUser user (st\<lparr>IdentityStore_bootstrapped := True\<rparr>))"
      using False by (simp add: CompleteBootstrap_def CreateUser_def user_def new_local_user_def no_user_def)
    show ?thesis
    proof (rule created [OF False _ user_def])
      show "new_credentials c (IdentityService_totpEncryptionKey service) env password
         = Inr (passwordHash, totpSecret, encryptedSecret, i)" by (simp add: Inr cr)
      show "(\<exists>e. res = Inl e \<and> st' = CreateUser user (st\<lparr>IdentityStore_bootstrapped := True\<rparr>))
       \<or> (\<exists>codes enrollment. GenerateRecoveryCodes (map (IdentityEnv_codes env) [0..<10]) = Inr codes
            \<and> enrollment = \<lparr>TOTPEnrollment_ProvisioningURI = TOTPProvisioningURI ''bazUSOP'' email totpSecret,
                    TOTPEnrollment_RecoveryCodes = codes\<rparr> \<and> res = Inr (user, enrollment)
            \<and> st' = SaveRecoveryCodes i (map (HashRecoveryCode c) codes)
                      (CreateUser user (st\<lparr>IdentityStore_bootstrapped := True\<rparr>)))"
        using assms False Inr cr step
        by (auto simp: Bootstrap_def issue_recovery_codes_def Let_def user_def new_local_user_def
            split: sum.splits)
    qed
  qed
qed

lemma Bootstrap_changes:
  assumes inv: "identity_inv st" and fresh: "fresh_user_id env st"
    and op: "Bootstrap c service env organizationID email password st = (res, st')"
  shows "identity_changes st st'"
  using op
proof (cases rule: Bootstrap_cases)
  case (created passwordHash totpSecret encryptedSecret i user)
  let ?st1 = "st\<lparr>IdentityStore_bootstrapped := True\<rparr>"
  have i: "User_ID user = i" "User_OIDCSubject user = []" "User_TOTPConfirmedAt user \<noteq> None"
    using created(3) by (simp_all add: new_local_user_def no_user_def)
  have none: "IdentityStore_usersByID st i = None"
    using fresh new_credentials_id [OF created(2)] by (simp add: fresh_user_id_def)
  have nocodes: "IdentityStore_recoveryHashes st i = None"
    using inv none unfolding identity_inv_def codes_ok_def by (metis not_Some_eq)
  have set: "identity_change st ?st1" using created(1) by (rule identity_change.flag)
  have new: "identity_change ?st1 (CreateUser user ?st1)"
    by (rule identity_change.user) (use none i in simp_all)
  have base: "identity_changes st (CreateUser user ?st1)"
    by (rule changes_two [OF set new])
  have codes: "identity_change (CreateUser user ?st1) (SaveRecoveryCodes i hs (CreateUser user ?st1))" for hs
    by (rule identity_change.codes [of _ _ user]) (use i nocodes in \<open>simp_all add: write_defs\<close>)
  from created(4) show ?thesis
    using base changes_more [OF base codes] by (elim disjE exE conjE) simp_all
qed simp

lemma CreateUser_invites [simp]: "IdentityStore_invites (CreateUser u st) = IdentityStore_invites st"
  by (simp add: write_defs)

lemma Identity_ConsumeInvite_cases:
  assumes "Identity_ConsumeInvite c service env token password (st, g) = (res, st', g')"
  obtains (refused) e where "res = Inl e" "st' = st" "g' = g"
  | (consumed) rcd invite passwordHash totpSecret encryptedSecret i user where
      "IdentityStore_invites st (identity_hashToken c token) = Some rcd" "invite = inviteRecord_invite rcd"
      "\<not> invite_ended (IdentityEnv_now env 0) invite" "Invite_IdentityType invite \<noteq> IdentityTypeOIDC"
      "new_credentials c (IdentityService_totpEncryptionKey service) env password
         = Inr (passwordHash, totpSecret, encryptedSecret, i)"
      "user = new_local_user i (Invite_OrganizationID invite) (Invite_Email invite) (Invite_Role invite)
         passwordHash encryptedSecret None (IdentityEnv_now env 1)"
      "(\<exists>e. run_grantor service i (Invite_SiteRoleGrants invite) g = (Inl e, g') \<and> res = Inl e
          \<and> st' = CreateUser user st)
       \<or> (\<exists>enrollment. run_grantor service i (Invite_SiteRoleGrants invite) g = (Inr (), g')
          \<and> enrollment = \<lparr>TOTPEnrollment_ProvisioningURI =
                 TOTPProvisioningURI ''bazUSOP'' (Invite_Email invite) totpSecret,
               TOTPEnrollment_RecoveryCodes = []\<rparr>
          \<and> res = Inr (user, enrollment)
          \<and> st' = (CreateUser user st)\<lparr>IdentityStore_invites := (IdentityStore_invites st)
                    (identity_hashToken c token \<mapsto> consumed_record (IdentityEnv_now env 2) rcd)\<rparr>)"
proof (cases "IdentityStore_invites st (identity_hashToken c token)")
  case None
  with assms show ?thesis
    by (intro refused) (auto simp: Identity_ConsumeInvite_def InviteByTokenHash_def Let_def)
next
  case (Some rcd)
  define invite where "invite = inviteRecord_invite rcd"
  have found: "InviteByTokenHash (identity_hashToken c token) st = Inr invite"
    by (simp add: InviteByTokenHash_def Some invite_def)
  show ?thesis
  proof (cases "invite_ended (IdentityEnv_now env 0) invite \<or> Invite_IdentityType invite = IdentityTypeOIDC")
    case True
    with assms found have "\<exists>e. res = Inl e \<and> st' = st \<and> g' = g"
      by (auto simp: Identity_ConsumeInvite_def Let_def split: if_splits)
    then show ?thesis using refused by blast
  next
    case False
    show ?thesis
    proof (cases "new_credentials c (IdentityService_totpEncryptionKey service) env password")
      case (Inl e)
      with assms found False show ?thesis
        by (intro refused) (auto simp: Identity_ConsumeInvite_def Let_def)
    next
      case (Inr cr)
      obtain passwordHash totpSecret encryptedSecret i where cr: "cr = (passwordHash, totpSecret, encryptedSecret, i)"
        by (metis surj_pair)
      define user where "user = new_local_user i (Invite_OrganizationID invite) (Invite_Email invite)
         (Invite_Role invite) passwordHash encryptedSecret None (IdentityEnv_now env 1)"
      have user: "no_user\<lparr>User_ID := i, User_OrganizationID := Invite_OrganizationID invite,
          User_Email := Invite_Email invite, User_Role := Invite_Role invite, User_PasswordHash := passwordHash,
          User_TOTPSecretEncrypted := encryptedSecret, User_CreatedAt := IdentityEnv_now env 1\<rparr> = user"
        by (simp add: user_def new_local_user_def no_user_def)
      have ends: "(\<exists>e. run_grantor service i (Invite_SiteRoleGrants invite) g = (Inl e, g') \<and> res = Inl e
          \<and> st' = CreateUser user st)
       \<or> (\<exists>enrollment. run_grantor service i (Invite_SiteRoleGrants invite) g = (Inr (), g')
          \<and> enrollment = \<lparr>TOTPEnrollment_ProvisioningURI =
                 TOTPProvisioningURI ''bazUSOP'' (Invite_Email invite) totpSecret,
               TOTPEnrollment_RecoveryCodes = []\<rparr>
          \<and> res = Inr (user, enrollment)
          \<and> st' = (CreateUser user st)\<lparr>IdentityStore_invites := (IdentityStore_invites st)
                    (identity_hashToken c token \<mapsto> consumed_record (IdentityEnv_now env 2) rcd)\<rparr>)"
      proof (cases "run_grantor service i (Invite_SiteRoleGrants invite) g")
        case (Pair r g1)
        have "User_ID user = i" by (simp add: user_def new_local_user_def no_user_def)
        with assms found False Inr cr user Some Pair show ?thesis
          by (cases r) (auto simp: Identity_ConsumeInvite_def ConsumeInvite_def Let_def)
      qed
      from False have live: "\<not> invite_ended (IdentityEnv_now env 0) invite"
        "Invite_IdentityType invite \<noteq> IdentityTypeOIDC" by simp_all
      show ?thesis by (rule consumed [OF Some invite_def live Inr [unfolded cr] user_def ends])
    qed
  qed
qed

lemma Identity_ConsumeInvite_changes:
  assumes fresh: "fresh_user_id env st"
    and op: "Identity_ConsumeInvite c service env token password (st, g) = (res, st', g')"
  shows "identity_changes st st'"
  using op
proof (cases rule: Identity_ConsumeInvite_cases)
  case (consumed rcd invite passwordHash totpSecret encryptedSecret i user)
  let ?h = "identity_hashToken c token"
  have "User_ID user = i" "User_OIDCSubject user = []"
    using consumed(6) by (simp_all add: new_local_user_def no_user_def)
  then have new: "identity_change st (CreateUser user st)"
    using fresh new_credentials_id [OF consumed(5)]
    by (intro identity_change.user) (simp_all add: fresh_user_id_def)
  have "identity_change (CreateUser user st) ((CreateUser user st)\<lparr>IdentityStore_invites :=
      (IdentityStore_invites (CreateUser user st))(?h \<mapsto> consumed_record (IdentityEnv_now env 2) rcd)\<rparr>)"
    by (rule identity_change.consume) (simp add: consumed(1))
  with new consumed(7) show ?thesis
    using changes_one [OF new] changes_two [OF new] by (elim disjE exE conjE) simp_all
qed simp

lemma ConfirmTOTP_cases:
  assumes "ConfirmTOTP c service env userID codeFromSecret tm st = (res, st')"
  obtains (refused) e where "res = Inl e" "st' = st"
  | (confirmed) user secret where "IdentityStore_usersByID st userID = Some user"
      "User_TOTPConfirmedAt user = None"
      "DecryptTOTPSecret c (User_TOTPSecretEncrypted user) (IdentityService_totpEncryptionKey service) = Inr secret"
      "VerifyTOTPCode c secret (codeFromSecret secret) tm"
      "(\<exists>e. res = Inl e \<and> st' = UpdateUser (user\<lparr>User_TOTPConfirmedAt := Some tm\<rparr>) st)
       \<or> (\<exists>codes enrollment. GenerateRecoveryCodes (map (IdentityEnv_codes env) [0..<10]) = Inr codes
            \<and> TOTPEnrollment_RecoveryCodes enrollment = codes \<and> res = Inr enrollment
            \<and> st' = SaveRecoveryCodes userID (map (HashRecoveryCode c) codes)
                      (UpdateUser (user\<lparr>User_TOTPConfirmedAt := Some tm\<rparr>) st))"
proof (cases "IdentityStore_usersByID st userID")
  case None
  with assms show ?thesis by (intro refused) (auto simp: ConfirmTOTP_def UserByID_def)
next
  case (Some user)
  show ?thesis
  proof (cases "User_TOTPConfirmedAt user = None
      \<and> (\<exists>secret. DecryptTOTPSecret c (User_TOTPSecretEncrypted user) (IdentityService_totpEncryptionKey service)
           = Inr secret \<and> VerifyTOTPCode c secret (codeFromSecret secret) tm)")
    case False
    then have "st' = st \<and> (\<exists>e. res = Inl e)"
      using assms Some
      by (cases "DecryptTOTPSecret c (User_TOTPSecretEncrypted user) (IdentityService_totpEncryptionKey service)")
        (auto simp: ConfirmTOTP_def UserByID_def split: if_splits)
    then show ?thesis using refused by blast
  next
    case True
    then obtain secret where s: "User_TOTPConfirmedAt user = None"
      "DecryptTOTPSecret c (User_TOTPSecretEncrypted user) (IdentityService_totpEncryptionKey service) = Inr secret"
      "VerifyTOTPCode c secret (codeFromSecret secret) tm" by blast
    show ?thesis
    proof (rule confirmed [OF Some s])
      show "(\<exists>e. res = Inl e \<and> st' = UpdateUser (user\<lparr>User_TOTPConfirmedAt := Some tm\<rparr>) st)
       \<or> (\<exists>codes enrollment. GenerateRecoveryCodes (map (IdentityEnv_codes env) [0..<10]) = Inr codes
            \<and> TOTPEnrollment_RecoveryCodes enrollment = codes \<and> res = Inr enrollment
            \<and> st' = SaveRecoveryCodes userID (map (HashRecoveryCode c) codes)
                      (UpdateUser (user\<lparr>User_TOTPConfirmedAt := Some tm\<rparr>) st))"
        using assms Some s
        by (cases "GenerateRecoveryCodes (map (IdentityEnv_codes env) [0..<10])")
          (auto simp: ConfirmTOTP_def UserByID_def issue_recovery_codes_def Let_def)
    qed
  qed
qed

lemma ConfirmTOTP_changes:
  assumes inv: "identity_inv st" and op: "ConfirmTOTP c service env userID codeFromSecret tm st = (res, st')"
  shows "identity_changes st st'"
  using op
proof (cases rule: ConfirmTOTP_cases)
  case (confirmed user secret)
  let ?user = "user\<lparr>User_TOTPConfirmedAt := Some tm\<rparr>"
  have i: "User_ID user = userID" using inv confirmed(1) by (simp add: identity_inv_def users_ok_def)
  have upd: "identity_change st (UpdateUser ?user st)"
    by (rule identity_change.confirm [OF confirmed(1,2)])
  have "IdentityStore_recoveryHashes st userID = None"
    using inv confirmed(1,2) unfolding identity_inv_def codes_ok_def by (metis not_Some_eq option.inject)
  then have "identity_change (UpdateUser ?user st) (SaveRecoveryCodes userID hs (UpdateUser ?user st))" for hs
    by (intro identity_change.codes [of _ _ ?user]) (simp_all add: UpdateUser_def i)
  from changes_two [OF upd this] confirmed(5) changes_one [OF upd] show ?thesis
    by (elim disjE exE conjE) simp_all
qed simp

text \<open>The invite found by address is the newest one for it, and its record is the only one
  with its identifier.\<close>

lemma InviteByEmail_Inr:
  assumes "ranges it (IdentityStore_invites st)" "InviteByEmail it organizationID email = Inr invite"
  obtains h rcd where "IdentityStore_invites st h = Some rcd" "inviteRecord_invite rcd = invite"
    "Invite_OrganizationID invite = organizationID" "Invite_Email invite = email"
proof -
  from assms(2) have "invite \<in> set (filter (\<lambda>invite. Invite_OrganizationID invite = organizationID \<and> Invite_Email invite = email)
               (map (inviteRecord_invite \<circ> snd) it))"
    unfolding InviteByEmail_def by (auto split: option.splits dest: pick_in_list)
  then obtain h rcd where "(h, rcd) \<in> set it" "inviteRecord_invite rcd = invite"
    "Invite_OrganizationID invite = organizationID" "Invite_Email invite = email" by auto
  then show thesis using that ranges_entry [OF assms(1)] by blast
qed

lemma ConsumeInviteByID_found:
  assumes "invites_ok st" "IdentityStore_invites st h = Some rcd" "ranges it (IdentityStore_invites st)"
  shows "find (\<lambda>(_, r). Invite_ID (inviteRecord_invite r) = Invite_ID (inviteRecord_invite rcd)) it = Some (h, rcd)"
proof -
  have mem: "(h, rcd) \<in> set it" using assms(2,3) by (simp add: ranges_entry)
  then have "find (\<lambda>(_, r). Invite_ID (inviteRecord_invite r) = Invite_ID (inviteRecord_invite rcd)) it \<noteq> None"
    by (auto simp: find_None_iff)
  then obtain k s where ks: "find (\<lambda>(_, r). Invite_ID (inviteRecord_invite r) = Invite_ID (inviteRecord_invite rcd)) it = Some (k, s)"
    by auto
  then have "(k, s) \<in> set it" "Invite_ID (inviteRecord_invite s) = Invite_ID (inviteRecord_invite rcd)"
    by (auto simp: find_Some_iff in_set_conv_nth)
  then have "IdentityStore_invites st k = Some s" using assms(3) by (simp add: ranges_entry)
  then have "k = h" "s = rcd"
    using assms(1,2) \<open>Invite_ID (inviteRecord_invite s) = Invite_ID (inviteRecord_invite rcd)\<close>
    unfolding invites_ok_def by (metis, metis option.inject)
  with ks show ?thesis by simp
qed

definition new_oidc_user :: "string \<Rightarrow> Invite \<Rightarrow> string \<Rightarrow> string \<Rightarrow> time \<Rightarrow> User" where
  "new_oidc_user i invite issuer subject createdAt =
     no_user\<lparr>User_ID := i, User_OrganizationID := Invite_OrganizationID invite,
       User_Email := Invite_Email invite, User_Role := Invite_Role invite,
       User_OIDCIssuer := issuer, User_OIDCSubject := subject, User_CreatedAt := createdAt\<rparr>"

lemma LoginOrLinkOIDCUser_cases:
  assumes ok: "invites_ok st"
    and it: "ranges it1 (IdentityStore_invites st)" "ranges it2 (IdentityStore_invites st)"
    and op: "LoginOrLinkOIDCUser service env it1 it2 organizationID issuer subject email (st, g) = (res, st', g')"
  obtains (known) i where
      "IdentityStore_usersByOIDC st (oidcKey organizationID issuer subject) = Some i"
      "res = Inr (user_at st i)" "st' = st" "g' = g"
  | (refused) e where
      "IdentityStore_usersByOIDC st (oidcKey organizationID issuer subject) = None"
      "res = Inl e" "st' = st" "g' = g"
  | (linked) h rcd invite i user where
      "IdentityStore_usersByOIDC st (oidcKey organizationID issuer subject) = None"
      "IdentityStore_invites st h = Some rcd" "invite = inviteRecord_invite rcd"
      "Invite_OrganizationID invite = organizationID" "Invite_Email invite = email"
      "\<not> invite_ended (IdentityEnv_now env 0) invite" "Invite_IdentityType invite = IdentityTypeOIDC"
      "identity_newID (IdentityEnv_id env) = Inr i"
      "user = new_oidc_user i invite issuer subject (IdentityEnv_now env 1)"
      "(\<exists>e. run_grantor service i (Invite_SiteRoleGrants invite) g = (Inl e, g') \<and> res = Inl e
          \<and> st' = CreateUser user st)
       \<or> (run_grantor service i (Invite_SiteRoleGrants invite) g = (Inr (), g') \<and> res = Inr user
          \<and> st' = (CreateUser user st)\<lparr>IdentityStore_invites := (IdentityStore_invites st)
                    (h \<mapsto> consumed_record (IdentityEnv_now env 2) rcd)\<rparr>)"
proof (cases "IdentityStore_usersByOIDC st (oidcKey organizationID issuer subject)")
  case (Some i)
  with op show ?thesis
    by (intro known [of i]) (auto simp: LoginOrLinkOIDCUser_def UserByOIDCIdentity_def)
next
  case None
  then have unknown: "UserByOIDCIdentity organizationID issuer subject st = Inl ErrInvalidCredentials"
    by (simp add: UserByOIDCIdentity_def)
  show ?thesis
  proof (cases "\<exists>invite i. InviteByEmail it1 organizationID email = Inr invite
      \<and> \<not> invite_ended (IdentityEnv_now env 0) invite \<and> Invite_IdentityType invite = IdentityTypeOIDC
      \<and> identity_newID (IdentityEnv_id env) = Inr i")
    case False
    then have "\<exists>e. res = Inl e \<and> st' = st \<and> g' = g"
      using op unknown by (auto simp: LoginOrLinkOIDCUser_def split: if_splits sum.splits)
    with None show ?thesis using refused by blast
  next
    case True
    then obtain invite i where live: "InviteByEmail it1 organizationID email = Inr invite"
      "\<not> invite_ended (IdentityEnv_now env 0) invite" "Invite_IdentityType invite = IdentityTypeOIDC"
      "identity_newID (IdentityEnv_id env) = Inr i" by blast
    obtain h rcd where rcd: "IdentityStore_invites st h = Some rcd" "inviteRecord_invite rcd = invite"
      "Invite_OrganizationID invite = organizationID" "Invite_Email invite = email"
      using InviteByEmail_Inr [OF it(1) live(1)] .
    have found: "find (\<lambda>(_, r). Invite_ID (inviteRecord_invite r) = Invite_ID invite) it2 = Some (h, rcd)"
      using ConsumeInviteByID_found [OF ok rcd(1) it(2)] by (simp add: rcd(2))
    have i: "User_ID (new_oidc_user i invite issuer subject (IdentityEnv_now env 1)) = i"
      by (simp add: new_oidc_user_def no_user_def)
    show ?thesis
    proof (rule linked [OF None rcd(1) rcd(2) [symmetric] rcd(3,4) live(2,3,4) refl])
      show "(\<exists>e. run_grantor service i (Invite_SiteRoleGrants invite) g = (Inl e, g') \<and> res = Inl e
          \<and> st' = CreateUser (new_oidc_user i invite issuer subject (IdentityEnv_now env 1)) st)
       \<or> (run_grantor service i (Invite_SiteRoleGrants invite) g = (Inr (), g')
          \<and> res = Inr (new_oidc_user i invite issuer subject (IdentityEnv_now env 1))
          \<and> st' = (CreateUser (new_oidc_user i invite issuer subject (IdentityEnv_now env 1)) st)
                    \<lparr>IdentityStore_invites := (IdentityStore_invites st)
                    (h \<mapsto> consumed_record (IdentityEnv_now env 2) rcd)\<rparr>)"
      proof (cases "run_grantor service i (Invite_SiteRoleGrants invite) g")
        case (Pair r g1)
        with op unknown live found i show ?thesis
          by (cases r) (auto simp: LoginOrLinkOIDCUser_def ConsumeInviteByID_def new_oidc_user_def [symmetric] Let_def)
      qed
    qed
  qed
qed

lemma LoginOrLinkOIDCUser_changes:
  assumes inv: "identity_inv st" and fresh: "fresh_user_id env st"
    and it: "ranges it1 (IdentityStore_invites st)" "ranges it2 (IdentityStore_invites st)"
    and op: "LoginOrLinkOIDCUser service env it1 it2 organizationID issuer subject email (st, g) = (res, st', g')"
  shows "identity_changes st st'"
proof -
  have ok: "invites_ok st" using inv by (simp add: identity_inv_def)
  from ok it op show ?thesis
  proof (cases rule: LoginOrLinkOIDCUser_cases)
    case (linked h rcd invite i user)
    have fields: "User_ID user = i" "User_OrganizationID user = organizationID" "User_OIDCIssuer user = issuer"
      "User_OIDCSubject user = subject"
      using linked(4,9) by (simp_all add: new_oidc_user_def no_user_def)
    have new: "identity_change st (CreateUser user st)"
      by (rule identity_change.user) (use fresh linked(1,8) fields in \<open>simp_all add: fresh_user_id_def\<close>)
    have "identity_change (CreateUser user st) ((CreateUser user st)\<lparr>IdentityStore_invites :=
        (IdentityStore_invites (CreateUser user st))(h \<mapsto> consumed_record (IdentityEnv_now env 2) rcd)\<rparr>)"
      by (rule identity_change.consume) (simp add: linked(2))
    with new linked(10) show ?thesis
      using changes_one [OF new] changes_two [OF new] by (elim disjE exE conjE) simp_all
  qed simp_all
qed

lemma VerifyCredentialsWithRecoveryCode_cases:
  assumes "VerifyCredentialsWithRecoveryCode c organizationID email password recoveryCode st = (res, st')"
  obtains (refused) "res = Inl ErrInvalidCredentials" "st' = st"
  | (used) user m where "check_password c organizationID email password st = Inr user" "res = Inr user"
      "IdentityStore_recoveryHashes st (User_ID user) = Some m" "m (HashRecoveryCode c recoveryCode) = Some False"
      "st' = st\<lparr>IdentityStore_recoveryHashes := (IdentityStore_recoveryHashes st)
               (User_ID user \<mapsto> m(HashRecoveryCode c recoveryCode \<mapsto> True))\<rparr>"
proof (cases "check_password c organizationID email password st")
  case (Inl e)
  then have "e = ErrInvalidCredentials" by (auto simp: check_password_def split: sum.splits if_splits)
  with assms Inl show ?thesis by (intro refused) (auto simp: VerifyCredentialsWithRecoveryCode_def)
next
  case (Inr user)
  show ?thesis
  proof (cases "\<exists>m. IdentityStore_recoveryHashes st (User_ID user) = Some m \<and> m (HashRecoveryCode c recoveryCode) = Some False")
    case True
    then obtain m where m: "IdentityStore_recoveryHashes st (User_ID user) = Some m"
      "m (HashRecoveryCode c recoveryCode) = Some False" by blast
    with assms Inr show ?thesis
      by (intro used [OF Inr _ m]) (auto simp: VerifyCredentialsWithRecoveryCode_def ConsumeRecoveryCode_def)
  next
    case False
    with assms Inr show ?thesis
      by (intro refused)
        (auto simp: VerifyCredentialsWithRecoveryCode_def ConsumeRecoveryCode_def split: option.splits if_splits)
  qed
qed

lemma VerifyCredentialsWithRecoveryCode_changes:
  assumes "VerifyCredentialsWithRecoveryCode c organizationID email password recoveryCode st = (res, st')"
  shows "identity_changes st st'"
  using assms
proof (cases rule: VerifyCredentialsWithRecoveryCode_cases)
  case (used user m)
  show ?thesis unfolding used(5) by (rule changes_one, rule identity_change.use_code [OF used(3,4)])
qed simp

lemma CreateInvite_changes:
  assumes fresh: "fresh_invite c env st"
    and op: "CreateInvite c env createdBy organizationID email role grants identityType st = (res, st')"
  shows "identity_changes st st'"
proof (cases "\<exists>token i. identity_newID (IdentityEnv_token env) = Inr token \<and> identity_newID (IdentityEnv_id env) = Inr i")
  case True
  then obtain token i where ids: "identity_newID (IdentityEnv_token env) = Inr token"
    "identity_newID (IdentityEnv_id env) = Inr i" by blast
  have new: "identity_change st (SaveInvite v (identity_hashToken c token) st)" if "Invite_ID v = i" for v
    using fresh ids that by (intro identity_change.invite) (auto simp: fresh_invite_def)
  have "st' = st \<or> (\<exists>v. res = Inr (v, token) \<and> Invite_ID v = i \<and> st' = SaveInvite v (identity_hashToken c token) st)"
    using op ids by (auto simp: CreateInvite_def Let_def split: if_splits)
  then show ?thesis using changes_one [OF new] by auto
next
  case False
  with op have "st' = st" by (auto simp: CreateInvite_def Let_def split: if_splits sum.splits)
  then show ?thesis by simp
qed

lemma SetOIDCConfiguration_changes:
  assumes "SetOIDCConfiguration c service env org durl iss cid sec rurl updatedBy st = (res, st')"
  shows "identity_changes st st'"
proof -
  have "st' = st \<or> (\<exists>cfg. st' = SaveOIDCConfiguration cfg st)"
    using assms by (auto simp: SetOIDCConfiguration_def Let_def split: sum.splits)
  then show ?thesis using changes_one [OF identity_change.config] by auto
qed

section \<open>The steps of the service\<close>

inductive identity_step :: "Crypto \<Rightarrow> 'g IdentityService \<Rightarrow> IdentityStore \<Rightarrow> IdentityStore \<Rightarrow> bool"
  for c service where
  bootstrap: "fresh_user_id env st \<Longrightarrow>
    Bootstrap c service env organizationID email password st = (res, st') \<Longrightarrow> identity_step c service st st'"
| create_invite: "fresh_invite c env st \<Longrightarrow>
    CreateInvite c env createdBy organizationID email role grants identityType st = (res', st') \<Longrightarrow>
    identity_step c service st st'"
| consume_invite: "fresh_user_id env st \<Longrightarrow>
    Identity_ConsumeInvite c service env token password (st, g) = (res, st', g') \<Longrightarrow> identity_step c service st st'"
| confirm_totp: "ConfirmTOTP c service env userID codeFromSecret tm st = (res'', st') \<Longrightarrow> identity_step c service st st'"
| recovery_login: "VerifyCredentialsWithRecoveryCode c organizationID email password recoveryCode st = (res3, st') \<Longrightarrow>
    identity_step c service st st'"
| oidc_login: "fresh_user_id env st \<Longrightarrow>
    ranges it1 (IdentityStore_invites st) \<Longrightarrow> ranges it2 (IdentityStore_invites st) \<Longrightarrow>
    LoginOrLinkOIDCUser service env it1 it2 organizationID issuer subject email (st, g) = (res3, st', g') \<Longrightarrow>
    identity_step c service st st'"
| set_oidc: "SetOIDCConfiguration c service env organizationID discoveryURL issuer clientID clientSecret redirectURL
      updatedBy st = (res4, st') \<Longrightarrow> identity_step c service st st'"

lemma identity_step_changes:
  assumes "identity_step c service st st'" "identity_inv st"
  shows "identity_changes st st'"
  using assms(1)
proof cases
  case bootstrap
  then show ?thesis using Bootstrap_changes [OF assms(2)] by blast
next
  case create_invite
  then show ?thesis using CreateInvite_changes by blast
next
  case consume_invite
  then show ?thesis by (rule Identity_ConsumeInvite_changes)
next
  case confirm_totp
  then show ?thesis using ConfirmTOTP_changes [OF assms(2)] by blast
next
  case recovery_login
  then show ?thesis using VerifyCredentialsWithRecoveryCode_changes by blast
next
  case oidc_login
  then show ?thesis by (rule LoginOrLinkOIDCUser_changes [OF assms(2)])
next
  case set_oidc
  then show ?thesis using SetOIDCConfiguration_changes by blast
qed

abbreviation identity_steps :: "Crypto \<Rightarrow> 'g IdentityService \<Rightarrow> IdentityStore \<Rightarrow> IdentityStore \<Rightarrow> bool" where
  "identity_steps c service \<equiv> rtranclp (identity_step c service)"

lemma identity_steps_changes:
  "identity_steps c service st st' \<Longrightarrow> identity_inv st \<Longrightarrow> identity_changes st st' \<and> identity_inv st'"
proof (induction rule: rtranclp_induct)
  case (step y z)
  then have "identity_changes y z" using identity_step_changes by blast
  with step show ?case using identity_inv_changes by (meson rtranclp_trans)
qed simp

lemma identity_reach_inv: "identity_steps c service NewIdentityStore st \<Longrightarrow> identity_inv st"
  using identity_steps_changes identity_inv_init by blast

section \<open>What lasts through any operations\<close>

lemma flag_changes: "identity_changes st st' \<Longrightarrow> IdentityStore_bootstrapped st \<Longrightarrow> IdentityStore_bootstrapped st'"
  by (induction rule: rtranclp_induct) (blast intro: flag_change)+

lemma oidc_changes:
  "identity_changes st st' \<Longrightarrow> IdentityStore_usersByOIDC st k = Some i \<Longrightarrow> IdentityStore_usersByOIDC st' k = Some i"
  by (induction rule: rtranclp_induct) (blast intro: oidc_change)+

lemma user_changes:
  "identity_changes st st' \<Longrightarrow> identity_inv st \<Longrightarrow> IdentityStore_usersByID st i = Some u \<Longrightarrow>
     \<exists>v. IdentityStore_usersByID st' i = Some v \<and> same_user u v"
proof (induction rule: rtranclp_induct)
  case (step y z)
  then obtain v where v: "IdentityStore_usersByID y i = Some v" "same_user u v" by blast
  have "users_ok y" using identity_inv_changes [OF step(1,4)] by (simp add: identity_inv_def)
  then obtain w where "IdentityStore_usersByID z i = Some w" "same_user v w"
    using user_change [OF step(2) _ v(1)] by blast
  with v(2) show ?case using same_user_trans by blast
qed (simp add: same_user_def)

definition invite_dead :: "time \<Rightarrow> IdentityStore \<Rightarrow> string \<Rightarrow> bool" where
  "invite_dead now st h \<longleftrightarrow>
     (\<exists>rcd. IdentityStore_invites st h = Some rcd \<and> invite_ended now (inviteRecord_invite rcd))"

definition invite_accepted :: "Crypto \<Rightarrow> 'g IdentityService \<Rightarrow> time \<Rightarrow> IdentityStore \<Rightarrow> string \<Rightarrow> bool" where
  "invite_accepted c service now st h \<longleftrightarrow>
     (\<exists>env token password g user w. identity_hashToken c token = h \<and> now \<le> IdentityEnv_now env 0
        \<and> Identity_ConsumeInvite c service env token password (st, g) = (Inr user, w))"

lemma invite_dead_refused:
  assumes "invite_dead now st (identity_hashToken c token)" "now \<le> IdentityEnv_now env 0"
  shows "Identity_ConsumeInvite c service env token password (st, g) = (Inl ErrInviteExpired, st, g)"
proof -
  from assms obtain rcd where "IdentityStore_invites st (identity_hashToken c token) = Some rcd"
    "invite_ended (IdentityEnv_now env 0) (inviteRecord_invite rcd)"
    by (auto simp: invite_dead_def invite_ended_def)
  then show ?thesis by (simp add: Identity_ConsumeInvite_def InviteByTokenHash_def Let_def)
qed

lemma invite_dead_change: "identity_change st st' \<Longrightarrow> invite_dead now st h \<Longrightarrow> invite_dead now st' h"
  unfolding invite_dead_def
  by (elim exE conjE, drule (1) invite_change) (auto simp: same_invite_def invite_ended_def)

lemma invite_dead_changes: "identity_changes st st' \<Longrightarrow> invite_dead now st h \<Longrightarrow> invite_dead now st' h"
  by (induction rule: rtranclp_induct) (blast intro: invite_dead_change)+

interpretation invites: revocation identity_inv "identity_step c service" "invite_dead now" "invite_accepted c service now"
  for c service now
proof
  show "identity_step c service st st' \<Longrightarrow> identity_inv st \<Longrightarrow> identity_inv st'" for st st'
    using identity_step_changes identity_inv_changes by blast
  show "identity_step c service st st' \<Longrightarrow> identity_inv st \<Longrightarrow> invite_dead now st h \<Longrightarrow> invite_dead now st' h"
    for st st' h using identity_step_changes invite_dead_changes by blast
  show "identity_inv st \<Longrightarrow> invite_dead now st h \<Longrightarrow> \<not> invite_accepted c service now st h" for st h
    unfolding invite_accepted_def by (auto simp: invite_dead_refused)
qed

text \<open>A recovery code of a user that has codes but not this one, unused.\<close>

definition code_dead :: "IdentityStore \<Rightarrow> string \<times> string \<Rightarrow> bool" where
  "code_dead st ih \<longleftrightarrow>
     (\<exists>m. IdentityStore_recoveryHashes st (fst ih) = Some m \<and> m (snd ih) \<noteq> Some False)"

definition code_accepted :: "Crypto \<Rightarrow> IdentityStore \<Rightarrow> string \<times> string \<Rightarrow> bool" where
  "code_accepted c st ih \<longleftrightarrow>
     (\<exists>organizationID email password code user st'. HashRecoveryCode c code = snd ih \<and> User_ID user = fst ih
        \<and> VerifyCredentialsWithRecoveryCode c organizationID email password code st = (Inr user, st'))"

lemma code_dead_change: "identity_change st st' \<Longrightarrow> code_dead st ih \<Longrightarrow> code_dead st' ih"
  unfolding code_dead_def using used_code_change by blast

lemma code_dead_changes: "identity_changes st st' \<Longrightarrow> code_dead st ih \<Longrightarrow> code_dead st' ih"
  by (induction rule: rtranclp_induct) (blast intro: code_dead_change)+

interpretation recovery_codes: revocation identity_inv "identity_step c service" code_dead "code_accepted c"
  for c :: Crypto and service :: "'g IdentityService"
proof
  show "identity_step c service st st' \<Longrightarrow> identity_inv st \<Longrightarrow> identity_inv st'" for st st'
    using identity_step_changes identity_inv_changes by blast
  show "identity_step c service st st' \<Longrightarrow> identity_inv st \<Longrightarrow> code_dead st h \<Longrightarrow> code_dead st' h"
    for st st' h using identity_step_changes code_dead_changes by blast
  show "\<not> code_accepted c st h" if "code_dead st h" for st h
  proof
    assume "code_accepted c st h"
    then obtain organizationID email password code user st' where
      "HashRecoveryCode c code = snd h" "User_ID user = fst h"
      "VerifyCredentialsWithRecoveryCode c organizationID email password code st = (Inr user, st')"
      unfolding code_accepted_def by blast
    then show False using that
      by (elim VerifyCredentialsWithRecoveryCode_cases) (auto simp: code_dead_def)
  qed
qed

text \<open>The user a password check finds is the one stored under the address.\<close>

lemma check_password_Inr:
  assumes "users_ok st"
  shows "check_password c organizationID email password st = Inr user \<longleftrightarrow>
    (\<exists>i. IdentityStore_usersByEmail st (emailKey organizationID email) = Some i
       \<and> IdentityStore_usersByID st i = Some user \<and> VerifyPassword c (User_PasswordHash user) password = Inr True)"
proof (cases "IdentityStore_usersByEmail st (emailKey organizationID email)")
  case None
  then show ?thesis by (simp add: check_password_def UserByEmail_def)
next
  case (Some i)
  then obtain u where "IdentityStore_usersByID st i = Some u" using assms unfolding users_ok_def by blast
  with Some show ?thesis by (auto simp: check_password_def UserByEmail_def user_at_def)
qed

lemma check_password_Inl: "check_password c organizationID email password st = Inl e \<Longrightarrow> e = ErrInvalidCredentials"
  by (auto simp: check_password_def split: sum.splits if_splits)

end
