(* ===== verification/Identity_Properties.thy ===== *)
theory Identity_Properties
  imports Identity_Lifecycle
begin

text \<open>
  What users, invites, one-time codes and recovery codes promise. The witnesses use
  \<open>toy_crypto\<close>, concrete functions with the lengths and the inverse the code relies on.
\<close>

section \<open>A concrete set of primitives\<close>

definition toy_crypto :: Crypto where
  "toy_crypto = \<lparr>Crypto_argon2 = (\<lambda>pw salt t m p n. take (unat n) (pw @ replicate (unat n) (CHR ''.''))),
     Crypto_sha256 = (\<lambda>s. take 32 (s @ replicate 32 (CHR ''.''))),
     Crypto_hmac_sha1 = (\<lambda>k s. replicate 19 (CHR ''k'') @ [CHR 0x00]),
     Crypto_seal = (\<lambda>k n s. s), Crypto_open = (\<lambda>k n s. Some s)\<rparr>"

lemma toy_crypto_ok: "crypto_ok toy_crypto"
  by (auto simp: crypto_ok_def toy_crypto_def min_def)

definition toy_env :: IdentityEnv where
  "toy_env = \<lparr>IdentityEnv_salt = Some (\<lambda>_. CHR ''s''), IdentityEnv_secret = Some (\<lambda>_. CHR ''t''),
     IdentityEnv_nonce = Some (\<lambda>_. CHR ''n''), IdentityEnv_id = Some (\<lambda>_. CHR ''i''),
     IdentityEnv_token = Some (\<lambda>_. CHR ''o''), IdentityEnv_codes = (\<lambda>k. Some (\<lambda>_. char_of k)),
     IdentityEnv_now = (\<lambda>_. unix_epoch)\<rparr>"

definition toy_service :: "unit IdentityService" where
  "toy_service = \<lparr>IdentityService_totpEncryptionKey = ''key'', IdentityService_siteRoleGrantor = None\<rparr>"

section \<open>Logging in\<close>

lemma login_new_user:
  assumes ok: "crypto_ok c" and users: "users_ok st"
    and cred: "new_credentials c (IdentityService_totpEncryptionKey service) env password
       = Inr (passwordHash, totpSecret, encryptedSecret, i)"
    and user: "User_PasswordHash user = passwordHash" "User_TOTPSecretEncrypted user = encryptedSecret"
    and stored: "IdentityStore_usersByID st i = Some user"
      "IdentityStore_usersByEmail st (emailKey organizationID email) = Some i"
  shows "check_password c organizationID email password st = Inr user"
    and "VerifyTOTPCode c totpSecret code now \<Longrightarrow>
      VerifyCredentials c service now organizationID email password code st = Inr user"
proof -
  note parts = new_credentials_id [OF cred]
  obtain salt where "\<And>other. VerifyPassword c passwordHash other
       = Inr (Crypto_argon2 c other salt 1 65536 4 32 = Crypto_argon2 c password salt 1 65536 4 32)"
    using VerifyPassword_hashed [OF ok] parts by blast
  then have "VerifyPassword c (User_PasswordHash user) password = Inr True" using user(1) by simp
  with users stored show login: "check_password c organizationID email password st = Inr user"
    by (simp add: check_password_Inr)
  have "DecryptTOTPSecret c encryptedSecret (IdentityService_totpEncryptionKey service) = Inr totpSecret"
    using DecryptTOTPSecret_encrypted [OF ok] parts by blast
  with login user(2) show "VerifyTOTPCode c totpSecret code now \<Longrightarrow>
      VerifyCredentials c service now organizationID email password code st = Inr user"
    by (simp add: VerifyCredentials_def)
qed

lemma saved_codes: "fold (\<lambda>hash m. m(hash \<mapsto> False)) hs m0 h = (if h \<in> set hs then Some False else m0 h)"
  by (induction hs arbitrary: m0) auto

lemma VerifyTOTPCode_now: "VerifyTOTPCode c secret (GenerateTOTPCode c secret now) now"
  by (simp add: VerifyTOTPCode_def GenerateTOTPCode_def Let_def)

text \<open>
  Passwords. Checking the stored hash of a password answers, for any password, whether
  Argon2id with the salt and the parameters kept in that hash gives the same key: the
  password itself is accepted, and no other unless Argon2id does not tell them apart.
\<close>

theorem password_check:
  assumes "crypto_ok c" and "HashPassword c r password = Inr encoded"
  shows "\<exists>salt. length salt = saltLen
    \<and> (\<forall>other. VerifyPassword c encoded other = Inr (Crypto_argon2 c other salt 1 65536 4 32
           = Crypto_argon2 c password salt 1 65536 4 32))
    \<and> VerifyPassword c encoded password = Inr True"
proof -
  obtain salt where salt: "length salt = 16"
    "\<And>other. VerifyPassword c encoded other
       = Inr (Crypto_argon2 c other salt 1 65536 4 32 = Crypto_argon2 c password salt 1 65536 4 32)"
    using VerifyPassword_hashed [OF assms] by blast
  then show ?thesis by (intro exI [of _ salt]) (simp add: saltLen_def)
qed

theorem password_check_witness:
  "\<exists>encoded. HashPassword toy_crypto (Some (\<lambda>_. CHR ''s'')) ''secret'' = Inr encoded
    \<and> VerifyPassword toy_crypto encoded ''secret'' = Inr True
    \<and> VerifyPassword toy_crypto encoded ''Secret'' = Inr False"
proof -
  obtain encoded where h: "HashPassword toy_crypto (Some (\<lambda>_. CHR ''s'')) ''secret'' = Inr encoded"
    by (simp add: HashPassword_def rand_bytes_def)
  from password_check [OF toy_crypto_ok h] obtain salt where
    "\<forall>other. VerifyPassword toy_crypto encoded other = Inr (Crypto_argon2 toy_crypto other salt 1 65536 4 32
           = Crypto_argon2 toy_crypto ''secret'' salt 1 65536 4 32)" by blast
  then have "VerifyPassword toy_crypto encoded ''secret'' = Inr True"
    "VerifyPassword toy_crypto encoded ''Secret'' = Inr False"
    by (simp_all add: toy_crypto_def)
  with h show ?thesis by blast
qed

text \<open>
  One-time codes. Every code is six decimal digits. A code is accepted exactly when it is
  what the authenticator shows at some moment at most 30 seconds before or after the clock
  of the hub, the 64-bit counter arithmetic included.
\<close>

theorem totp_window:
  assumes "30 \<le> unix_seconds now" and "unix_seconds now < 2 ^ 63 - 30"
  shows "(VerifyTOTPCode c secret code now \<longleftrightarrow>
      (\<exists>shown. \<bar>shown - now\<bar> \<le> totpStep \<and> code = GenerateTOTPCode c secret shown))
    \<and> length (GenerateTOTPCode c secret now) = 6
    \<and> list_all (\<lambda>d. CHR ''0'' \<le> d \<and> d \<le> CHR ''9'') (GenerateTOTPCode c secret now)"
proof -
  have "byte_in 48 57 d \<Longrightarrow> CHR ''0'' \<le> d \<and> d \<le> CHR ''9''" for d
    by (simp add: byte_in_def less_eq_char_def)
  then have "list_all (byte_in 48 57) s \<Longrightarrow> list_all (\<lambda>d. CHR ''0'' \<le> d \<and> d \<le> CHR ''9'') s" for s
    by (auto simp: list_all_iff)
  then show ?thesis
    using VerifyTOTPCode_near [OF assms] hotpCode_digits by (auto simp: GenerateTOTPCode_def)
qed

theorem totp_window_witness:
  "VerifyTOTPCode toy_crypto ''seed'' (GenerateTOTPCode toy_crypto ''seed'' (unix_epoch + 90 * second))
     (unix_epoch + 60 * second)
   \<and> length (GenerateTOTPCode toy_crypto ''seed'' (unix_epoch + 60 * second)) = 6"
proof -
  have s: "unix_seconds (unix_epoch + 60 * second) = 60" by (simp add: unix_seconds_def duration_simps)
  have near: "\<bar>unix_epoch + 90 * second - (unix_epoch + 60 * second)\<bar> \<le> totpStep"
    by (simp add: totpStep_def duration_simps)
  have "30 \<le> unix_seconds (unix_epoch + 60 * second)" "unix_seconds (unix_epoch + 60 * second) < 2 ^ 63 - 30"
    by (simp_all add: s)
  note window = totp_window [OF this, of toy_crypto "''seed''"]
  show ?thesis
    by (intro conjI window [THEN conjunct1, THEN iffD2] exI [of _ "unix_epoch + 90 * second"] near refl
        window [THEN conjunct2, THEN conjunct1])
qed

section \<open>A hub just bootstrapped\<close>

lemma toy_credentials:
  obtains passwordHash totpSecret encryptedSecret where
    "new_credentials toy_crypto ''key'' toy_env password = Inr (passwordHash, totpSecret, encryptedSecret, hex_encode (replicate 16 (CHR ''i'')))"
proof -
  have up: "map (\<lambda>_. CHR ''i'') [0..<16] = replicate 16 (CHR ''i'')" by (simp add: map_replicate_const)
  have "\<exists>h t x. new_credentials toy_crypto ''key'' toy_env password = Inr (h, t, x, hex_encode (map (\<lambda>_. CHR ''i'') [0..<16]))"
    by (simp add: new_credentials_def toy_env_def HashPassword_def GenerateTOTPSecret_def EncryptTOTPSecret_def
        rand_bytes_def aesCipher_def identity_newID_def rand_hex_def Let_def toy_crypto_def)
  then show thesis using that unfolding up by blast
qed

lemma toy_bootstrap:
  obtains user enrollment st1 where "Bootstrap toy_crypto toy_service toy_env ''org'' ''a@b'' ''pw'' NewIdentityStore = (Inr (user, enrollment), st1)"
    "User_ID user = hex_encode (replicate 16 (CHR ''i''))"
    "fresh_user_id toy_env NewIdentityStore"
proof -
  obtain h t x where cred: "new_credentials toy_crypto ''key'' toy_env ''pw'' = Inr (h, t, x, hex_encode (replicate 16 (CHR ''i'')))"
    using toy_credentials .
  have "\<exists>codes. GenerateRecoveryCodes (map (\<lambda>k. Some (f k)) ks) = Inr codes" for f :: "nat \<Rightarrow> nat \<Rightarrow> char" and ks
    by (induction ks) (auto simp: rand_hex_def)
  from this [of "\<lambda>k _. char_of k" "[0..<10]"]
  obtain codes where codes: "GenerateRecoveryCodes (map (IdentityEnv_codes toy_env) [0..<10]) = Inr codes"
    by (auto simp: toy_env_def)
  have "\<exists>user enrollment st1. Bootstrap toy_crypto toy_service toy_env ''org'' ''a@b'' ''pw'' NewIdentityStore
      = (Inr (user, enrollment), st1) \<and> User_ID user = hex_encode (replicate 16 (CHR ''i''))"
    using cred codes
    by (simp add: Bootstrap_def toy_service_def NewIdentityStore_def CompleteBootstrap_def issue_recovery_codes_def Let_def)
  then show thesis using that by (auto simp: fresh_user_id_def NewIdentityStore_def)
qed

text \<open>
  Password and one-time code. A login is accepted exactly for the user stored under that
  organization and address, when the password matches the stored hash and the code matches
  the decrypted secret at that time. An unknown address and a wrong password give the same
  error, and only a correct password can lead to the error that names the code.
\<close>

theorem login_decision:
  assumes "identity_steps c service NewIdentityStore st"
  shows "(VerifyCredentials c service now organizationID email password code st = Inr user \<longleftrightarrow>
      (\<exists>i secret. IdentityStore_usersByEmail st (emailKey organizationID email) = Some i
         \<and> IdentityStore_usersByID st i = Some user \<and> User_ID user = i
         \<and> emailKey (User_OrganizationID user) (User_Email user) = emailKey organizationID email
         \<and> VerifyPassword c (User_PasswordHash user) password = Inr True
         \<and> DecryptTOTPSecret c (User_TOTPSecretEncrypted user) (IdentityService_totpEncryptionKey service) = Inr secret
         \<and> VerifyTOTPCode c secret code now))
    \<and> (VerifyCredentials c service now organizationID email password code st = Inl e \<longrightarrow>
        e = ErrInvalidCredentials \<or> e = ErrInvalidTOTPCode)
    \<and> (VerifyCredentials c service now organizationID email password code st = Inl ErrInvalidTOTPCode \<longrightarrow>
        (\<exists>i v. IdentityStore_usersByEmail st (emailKey organizationID email) = Some i
          \<and> IdentityStore_usersByID st i = Some v \<and> VerifyPassword c (User_PasswordHash v) password = Inr True))"
proof -
  have users: "users_ok st" using identity_reach_inv [OF assms] by (simp add: identity_inv_def)
  show ?thesis
  proof (cases "check_password c organizationID email password st")
    case (Inl e)
    then have "e = ErrInvalidCredentials" by (rule check_password_Inl)
    with Inl have refused: "check_password c organizationID email password st = Inl ErrInvalidCredentials" by simp
    then have "check_password c organizationID email password st \<noteq> Inr v" for v by simp
    then have "\<not> (\<exists>i. IdentityStore_usersByEmail st (emailKey organizationID email) = Some i
       \<and> IdentityStore_usersByID st i = Some v \<and> VerifyPassword c (User_PasswordHash v) password = Inr True)" for v
      unfolding check_password_Inr [OF users] .
    with refused show ?thesis by (simp add: VerifyCredentials_def) blast
  next
    case (Inr v)
    then obtain i where i: "IdentityStore_usersByEmail st (emailKey organizationID email) = Some i"
      "IdentityStore_usersByID st i = Some v" "VerifyPassword c (User_PasswordHash v) password = Inr True"
      unfolding check_password_Inr [OF users] by blast
    then have "User_ID v = i"
      "emailKey (User_OrganizationID v) (User_Email v) = emailKey organizationID email"
      using users unfolding users_ok_def by (blast, metis option.inject)
    with Inr i show ?thesis
      by (cases "DecryptTOTPSecret c (User_TOTPSecretEncrypted v) (IdentityService_totpEncryptionKey service)")
        (auto simp: VerifyCredentials_def)
  qed
qed

text \<open>
  C35. Bootstrap. It succeeds only on a hub that is not bootstrapped. The account it makes is
  a platform administrator that can log in at once, with its password and the code an
  authenticator set up from the returned address shows at any time, or with each of the
  ten recovery codes. Through any further operations every other bootstrap is refused and
  leaves the store as it is.
\<close>

theorem bootstrap_once:
  assumes "crypto_ok c" and "identity_steps c service NewIdentityStore st" and "fresh_user_id env st"
    and "Bootstrap c service env organizationID email password st = (Inr (user, enrollment), st1)"
  shows "\<not> IdentityStore_bootstrapped st \<and> IsPlatformAdmin (User_ID user) st1 = Inr True
    \<and> (\<exists>secret. TOTPEnrollment_ProvisioningURI enrollment = TOTPProvisioningURI ''bazUSOP'' email secret
        \<and> (\<forall>now. VerifyCredentials c service now organizationID email password (GenerateTOTPCode c secret now) st1 = Inr user))
    \<and> length (TOTPEnrollment_RecoveryCodes enrollment) = 10
    \<and> (\<forall>code \<in> set (TOTPEnrollment_RecoveryCodes enrollment).
         fst (VerifyCredentialsWithRecoveryCode c organizationID email password code st1) = Inr user)
    \<and> (\<forall>st2 env' o' e' p'. identity_steps c service st1 st2 \<longrightarrow>
         Bootstrap c service env' o' e' p' st2 = (Inl ErrAlreadyBootstrapped, st2))"
  using assms(4)
proof (cases rule: Bootstrap_cases)
  case (created passwordHash totpSecret encryptedSecret i u)
  have inv: "identity_inv st" by (rule identity_reach_inv [OF assms(2)])
  from created(4) obtain codes where gen: "GenerateRecoveryCodes (map (IdentityEnv_codes env) [0..<10]) = Inr codes"
    and enr: "enrollment = \<lparr>TOTPEnrollment_ProvisioningURI = TOTPProvisioningURI ''bazUSOP'' email totpSecret,
        TOTPEnrollment_RecoveryCodes = codes\<rparr>" and u: "u = user"
    and st1: "st1 = SaveRecoveryCodes i (map (HashRecoveryCode c) codes)
        (CreateUser user (st\<lparr>IdentityStore_bootstrapped := True\<rparr>))" by auto
  have fields: "User_ID user = i" "User_OrganizationID user = organizationID" "User_Email user = email"
    "User_Role user = RolePlatformAdmin" "User_PasswordHash user = passwordHash"
    "User_TOTPSecretEncrypted user = encryptedSecret" "User_OIDCSubject user = []"
    using created(3) by (simp_all add: u new_local_user_def no_user_def)
  have stored: "IdentityStore_usersByID st1 i = Some user"
    "IdentityStore_usersByEmail st1 (emailKey organizationID email) = Some i" "IdentityStore_bootstrapped st1"
    "IdentityStore_recoveryHashes st1 i = Some (fold (\<lambda>hash m. m(hash \<mapsto> False)) (map (HashRecoveryCode c) codes) Map.empty)"
    by (simp_all add: st1 write_defs fields)
  have changes: "identity_changes st st1" by (rule Bootstrap_changes [OF inv assms(3,4)])
  then have inv1: "identity_inv st1" using inv by (rule identity_inv_changes)
  then have users: "users_ok st1" by (simp add: identity_inv_def)
  note login = login_new_user [OF assms(1) users created(2) fields(5,6) stored(1,2)]
  have recover: "fst (VerifyCredentialsWithRecoveryCode c organizationID email password code st1) = Inr user"
    if "code \<in> set codes" for code
    using that stored(4)
    by (simp add: VerifyCredentialsWithRecoveryCode_def login(1) ConsumeRecoveryCode_def saved_codes fields(1) comp_def)
  have later: "Bootstrap c service env' o' e' p' st2 = (Inl ErrAlreadyBootstrapped, st2)"
    if "identity_steps c service st1 st2" for st2 env' o' e' p'
  proof -
    have "IdentityStore_bootstrapped st2"
      using identity_steps_changes [OF that inv1] stored(3) by (blast intro: flag_changes)
    then show ?thesis by (simp add: Bootstrap_def)
  qed
  have "length codes = 10" using GenerateRecoveryCodes_Inr [OF gen] by simp
  then show ?thesis
    using created(1) stored(1) fields(1,4) login(2) VerifyTOTPCode_now recover later
    by (simp add: enr IsPlatformAdmin_def UserByID_def) (intro exI [of _ totpSecret], simp)
qed simp

theorem bootstrap_once_witness:
  "\<exists>user enrollment st1.
     Bootstrap toy_crypto toy_service toy_env ''org'' ''a@b'' ''pw'' NewIdentityStore = (Inr (user, enrollment), st1)
     \<and> (\<exists>secret. VerifyCredentials toy_crypto toy_service unix_epoch ''org'' ''a@b'' ''pw''
            (GenerateTOTPCode toy_crypto secret unix_epoch) st1 = Inr user)
     \<and> Bootstrap toy_crypto toy_service toy_env ''org'' ''x@y'' ''other'' st1 = (Inl ErrAlreadyBootstrapped, st1)"
proof -
  obtain user enrollment st1 where boot:
    "Bootstrap toy_crypto toy_service toy_env ''org'' ''a@b'' ''pw'' NewIdentityStore = (Inr (user, enrollment), st1)"
    "fresh_user_id toy_env NewIdentityStore" using toy_bootstrap by blast
  from bootstrap_once [OF toy_crypto_ok rtranclp.rtrancl_refl boot(2,1)] boot(1) show ?thesis by blast
qed

theorem login_decision_witness:
  "\<exists>user st1 secret. VerifyCredentials toy_crypto toy_service unix_epoch ''org'' ''a@b'' ''pw''
       (GenerateTOTPCode toy_crypto secret unix_epoch) st1 = Inr user
     \<and> emailKey (User_OrganizationID user) (User_Email user) = emailKey ''org'' ''a@b''
     \<and> identity_steps toy_crypto toy_service NewIdentityStore st1"
proof -
  obtain user enrollment st1 where boot:
    "Bootstrap toy_crypto toy_service toy_env ''org'' ''a@b'' ''pw'' NewIdentityStore = (Inr (user, enrollment), st1)"
    "fresh_user_id toy_env NewIdentityStore" using toy_bootstrap by blast
  have reach: "identity_steps toy_crypto toy_service NewIdentityStore st1"
    by (rule r_into_rtranclp) (rule identity_step.bootstrap [OF boot(2,1)])
  from boot(1) have "\<exists>secret. VerifyCredentials toy_crypto toy_service unix_epoch ''org'' ''a@b'' ''pw''
      (GenerateTOTPCode toy_crypto secret unix_epoch) st1 = Inr user"
  proof (cases rule: Bootstrap_cases)
    case (created passwordHash totpSecret encryptedSecret i u)
    have "users_ok st1" using identity_reach_inv [OF reach] by (simp add: identity_inv_def)
    with created show ?thesis
      by (intro exI [of _ totpSecret] login_new_user(2) [OF toy_crypto_ok _ created(2)] VerifyTOTPCode_now)
        (auto simp: write_defs new_local_user_def no_user_def)
  qed simp
  then obtain secret where login: "VerifyCredentials toy_crypto toy_service unix_epoch ''org'' ''a@b'' ''pw''
      (GenerateTOTPCode toy_crypto secret unix_epoch) st1 = Inr user" by blast
  from login_decision [OF reach, THEN conjunct1, THEN iffD1, OF login] login reach show ?thesis by blast
qed

text \<open>
  Recovery codes. A recovery code that was accepted is never accepted again for that
  user, through any further operations; using it does not spend any other code.
\<close>

theorem recovery_code_single_use:
  assumes "identity_steps c service NewIdentityStore st"
    and "VerifyCredentialsWithRecoveryCode c organizationID email password code st = (Inr user, st1)"
    and "identity_steps c service st1 st2"
  shows "(\<forall>o2 e2 p2 user2 st3. VerifyCredentialsWithRecoveryCode c o2 e2 p2 code st2 = (Inr user2, st3) \<longrightarrow>
        User_ID user2 \<noteq> User_ID user)
    \<and> (\<forall>other. HashRecoveryCode c other \<noteq> HashRecoveryCode c code \<longrightarrow>
        (fst (VerifyCredentialsWithRecoveryCode c organizationID email password other st1) = Inr user \<longleftrightarrow>
         fst (VerifyCredentialsWithRecoveryCode c organizationID email password other st) = Inr user))"
  using assms(2)
proof (cases rule: VerifyCredentialsWithRecoveryCode_cases)
  case (used u m)
  have inv: "identity_inv st" by (rule identity_reach_inv [OF assms(1)])
  have inv1: "identity_inv st1"
    using identity_inv_changes [OF VerifyCredentialsWithRecoveryCode_changes [OF assms(2)] inv] .
  have u: "u = user" using used(2) by simp
  have dead: "code_dead st1 (User_ID user, HashRecoveryCode c code)"
    by (simp add: code_dead_def used(5) u)
  have refused: "\<not> code_accepted c st2 (User_ID user, HashRecoveryCode c code)"
    by (rule recovery_codes.refused_forever [OF assms(3) inv1 dead])
  have same: "check_password c organizationID email password st1 = check_password c organizationID email password st"
  proof -
    have "user_at st1 = user_at st" by (rule ext) (simp add: used(5) user_at_def)
    moreover have "IdentityStore_usersByEmail st1 = IdentityStore_usersByEmail st" by (simp add: used(5))
    ultimately have "UserByEmail organizationID email st1 = UserByEmail organizationID email st"
      by (simp only: UserByEmail_def)
    then show ?thesis by (simp add: check_password_def)
  qed
  have "fst (VerifyCredentialsWithRecoveryCode c organizationID email password other st1) = Inr user \<longleftrightarrow>
     fst (VerifyCredentialsWithRecoveryCode c organizationID email password other st) = Inr user"
    if "HashRecoveryCode c other \<noteq> HashRecoveryCode c code" for other
    using that used(1,3) same
    by (simp add: VerifyCredentialsWithRecoveryCode_def ConsumeRecoveryCode_def used(5) u)
  moreover have "User_ID user2 \<noteq> User_ID user"
    if "VerifyCredentialsWithRecoveryCode c o2 e2 p2 code st2 = (Inr user2, st3)" for o2 e2 p2 user2 st3
    using refused that unfolding code_accepted_def by (metis fst_conv snd_conv)
  ultimately show ?thesis by blast
qed simp

text \<open>
  Accounts of an identity provider. A login through the provider either finds the account
  already linked to that issuer and subject and writes nothing, or makes a new one from a
  live invite of that organization and address that is meant for the provider, with the
  role of the invite, which is consumed. From then on, through any further operations and
  whatever address the provider reports, that issuer and subject log in to that account.
\<close>

theorem oidc_link_permanent:
  assumes "identity_steps c service NewIdentityStore st" and "fresh_user_id env st"
    and "ranges it1 (IdentityStore_invites st)" and "ranges it2 (IdentityStore_invites st)"
    and "LoginOrLinkOIDCUser service env it1 it2 organizationID issuer subject email (st, g) = (Inr user, st1, g1)"
    and "subject \<noteq> []"
  shows "(st1 = st \<and> IdentityStore_usersByOIDC st (oidcKey organizationID issuer subject) = Some (User_ID user)
      \<or> (\<exists>h rcd. IdentityStore_invites st h = Some rcd
           \<and> \<not> invite_ended (IdentityEnv_now env 0) (inviteRecord_invite rcd)
           \<and> Invite_IdentityType (inviteRecord_invite rcd) = IdentityTypeOIDC
           \<and> Invite_OrganizationID (inviteRecord_invite rcd) = organizationID
           \<and> Invite_Email (inviteRecord_invite rcd) = email
           \<and> User_Role user = Invite_Role (inviteRecord_invite rcd)
           \<and> (\<exists>rcd1. IdentityStore_invites st1 h = Some rcd1 \<and> Invite_ConsumedAt (inviteRecord_invite rcd1) \<noteq> None)))
    \<and> (\<forall>st2 env' it3 it4 email' g2. identity_steps c service st1 st2 \<longrightarrow>
         (\<exists>v. LoginOrLinkOIDCUser service env' it3 it4 organizationID issuer subject email' (st2, g2) = (Inr v, st2, g2)
            \<and> User_ID v = User_ID user))"
proof -
  have inv: "identity_inv st" by (rule identity_reach_inv [OF assms(1)])
  have ok: "invites_ok st" using inv by (simp add: identity_inv_def)
  have inv1: "identity_inv st1"
    using identity_inv_changes [OF LoginOrLinkOIDCUser_changes [OF inv assms(2-5)] inv] .
  let ?key = "oidcKey organizationID issuer subject"
  have first: "IdentityStore_usersByOIDC st1 ?key = Some (User_ID user)
      \<and> (st1 = st \<or> (\<exists>h rcd. IdentityStore_invites st h = Some rcd
           \<and> \<not> invite_ended (IdentityEnv_now env 0) (inviteRecord_invite rcd)
           \<and> Invite_IdentityType (inviteRecord_invite rcd) = IdentityTypeOIDC
           \<and> Invite_OrganizationID (inviteRecord_invite rcd) = organizationID
           \<and> Invite_Email (inviteRecord_invite rcd) = email
           \<and> User_Role user = Invite_Role (inviteRecord_invite rcd)
           \<and> (\<exists>rcd1. IdentityStore_invites st1 h = Some rcd1 \<and> Invite_ConsumedAt (inviteRecord_invite rcd1) \<noteq> None)))"
    using ok assms(3-5)
  proof (cases rule: LoginOrLinkOIDCUser_cases)
    case (known i)
    obtain u where u: "IdentityStore_usersByID st i = Some u"
      using inv known(1) unfolding identity_inv_def users_ok_def by blast
    then have "User_ID u = i" using inv by (simp add: identity_inv_def users_ok_def)
    with known u show ?thesis by (simp add: user_at_def)
  next
    case (linked h rcd invite i u)
    from linked(10) have u: "u = user" and st1: "st1 = (CreateUser user st)\<lparr>IdentityStore_invites :=
        (IdentityStore_invites st)(h \<mapsto> consumed_record (IdentityEnv_now env 2) rcd)\<rparr>" by auto
    have fields: "User_ID user = i" "User_OrganizationID user = organizationID" "User_OIDCIssuer user = issuer"
      "User_OIDCSubject user = subject" "User_Role user = Invite_Role invite"
      using linked(4,9) by (simp_all add: u new_oidc_user_def no_user_def)
    have "IdentityStore_usersByOIDC st1 ?key = Some (User_ID user)"
      using fields assms(6) by (simp add: st1 write_defs)
    moreover have "\<exists>rcd1. IdentityStore_invites st1 h = Some rcd1 \<and> Invite_ConsumedAt (inviteRecord_invite rcd1) \<noteq> None"
      by (simp add: st1 consumed_record_def)
    ultimately show ?thesis using linked(2,4-7) fields(5) unfolding linked(3) by blast
  qed simp
  have later: "\<exists>v. LoginOrLinkOIDCUser service env' it3 it4 organizationID issuer subject email' (st2, g2) = (Inr v, st2, g2)
      \<and> User_ID v = User_ID user" if "identity_steps c service st1 st2" for st2 env' it3 it4 email' g2
  proof -
    have "identity_changes st1 st2" and inv2: "identity_inv st2"
      using identity_steps_changes [OF that inv1] by simp_all
    then have key: "IdentityStore_usersByOIDC st2 ?key = Some (User_ID user)"
      using first by (blast intro: oidc_changes)
    then obtain v where v: "IdentityStore_usersByID st2 (User_ID user) = Some v"
      using inv2 unfolding identity_inv_def users_ok_def by blast
    then have "User_ID v = User_ID user" using inv2 by (simp add: identity_inv_def users_ok_def)
    with key v show ?thesis
      by (simp add: LoginOrLinkOIDCUser_def UserByOIDCIdentity_def user_at_def)
  qed
  from first later show ?thesis by metis
qed

section \<open>Invites and codes at work\<close>

lemma toy_invite:
  assumes ty: "ty = IdentityTypeLocal \<or> ty = IdentityTypeOIDC"
  obtains st token rcd where "identity_steps toy_crypto service NewIdentityStore st"
    "IdentityStore_invites st = [identity_hashToken toy_crypto token \<mapsto> rcd]"
    "IdentityStore_usersByID st = Map.empty" "IdentityStore_usersByOIDC st = Map.empty"
    "\<not> invite_ended unix_epoch (inviteRecord_invite rcd)"
    "Invite_IdentityType (inviteRecord_invite rcd) = ty"
    "Invite_OrganizationID (inviteRecord_invite rcd) = ''org''" "Invite_Email (inviteRecord_invite rcd) = ''c@d''"
    "Invite_SiteRoleGrants (inviteRecord_invite rcd) = [\<lparr>SiteRoleGrant_SiteID = ''site'', SiteRoleGrant_Role = ''viewer''\<rparr>]"
proof -
  let ?grants = "[\<lparr>SiteRoleGrant_SiteID = ''site'', SiteRoleGrant_Role = ''viewer''\<rparr>]"
  obtain token i where ids: "identity_newID (IdentityEnv_token toy_env) = Inr token"
    "identity_newID (IdentityEnv_id toy_env) = Inr i"
    by (simp add: toy_env_def identity_newID_def rand_hex_def)
  define invite where "invite = \<lparr>Invite_ID = i, Invite_OrganizationID = ''org'', Invite_Email = ''c@d'',
      Invite_Role = RoleOther [], Invite_SiteRoleGrants = ?grants, Invite_IdentityType = ty,
      Invite_CreatedBy = ''admin'', Invite_ExpiresAt = unix_epoch + 24 * hour, Invite_ConsumedAt = None,
      Invite_RevokedAt = None, Invite_CreatedAt = unix_epoch\<rparr>"
  let ?st = "SaveInvite invite (identity_hashToken toy_crypto token) NewIdentityStore"
  have made: "CreateInvite toy_crypto toy_env ''admin'' ''org'' ''c@d'' (RoleOther []) ?grants ty NewIdentityStore
      = (Inr (invite, token), ?st)"
    using ty ids by (auto simp: CreateInvite_def Let_def invite_def) (simp_all add: toy_env_def)
  have "fresh_invite toy_crypto toy_env NewIdentityStore"
    by (simp add: fresh_invite_def NewIdentityStore_def)
  then have "identity_step toy_crypto service NewIdentityStore ?st"
    by (rule identity_step.create_invite [OF _ made])
  then have "identity_steps toy_crypto service NewIdentityStore ?st" by (rule r_into_rtranclp)
  then show thesis
    by (rule that [where rcd = "\<lparr>inviteRecord_invite = invite, inviteRecord_tokenHash = identity_hashToken toy_crypto token\<rparr>"])
      (simp_all add: SaveInvite_def NewIdentityStore_def invite_def invite_ended_def duration_simps)
qed

theorem recovery_code_single_use_witness:
  "\<exists>user st st1 code. VerifyCredentialsWithRecoveryCode toy_crypto ''org'' ''a@b'' ''pw'' code st = (Inr user, st1)
     \<and> fst (VerifyCredentialsWithRecoveryCode toy_crypto ''org'' ''a@b'' ''pw'' code st1) \<noteq> Inr user"
proof -
  obtain user enrollment st where boot:
    "Bootstrap toy_crypto toy_service toy_env ''org'' ''a@b'' ''pw'' NewIdentityStore = (Inr (user, enrollment), st)"
    "fresh_user_id toy_env NewIdentityStore" using toy_bootstrap by blast
  have reach: "identity_steps toy_crypto toy_service NewIdentityStore st"
    by (rule r_into_rtranclp) (rule identity_step.bootstrap [OF boot(2,1)])
  from boot(1) have "\<exists>code st1. VerifyCredentialsWithRecoveryCode toy_crypto ''org'' ''a@b'' ''pw'' code st = (Inr user, st1)"
  proof (cases rule: Bootstrap_cases)
    case (created passwordHash totpSecret encryptedSecret i u)
    then obtain codes where codes: "GenerateRecoveryCodes (map (IdentityEnv_codes toy_env) [0..<10]) = Inr codes"
      "st = SaveRecoveryCodes i (map (HashRecoveryCode toy_crypto) codes)
         (CreateUser user (NewIdentityStore\<lparr>IdentityStore_bootstrapped := True\<rparr>))" "u = user" by auto
    have users: "users_ok st" using identity_reach_inv [OF reach] by (simp add: identity_inv_def)
    have fields: "User_ID user = i" "User_OrganizationID user = ''org''" "User_Email user = ''a@b''"
      "User_PasswordHash user = passwordHash" "User_TOTPSecretEncrypted user = encryptedSecret"
      using created(3) by (simp_all add: codes(3) new_local_user_def no_user_def)
    have login: "check_password toy_crypto ''org'' ''a@b'' ''pw'' st = Inr user"
      by (rule login_new_user(1) [OF toy_crypto_ok users created(2) fields(4,5)])
        (simp_all add: codes(2) write_defs fields)
    have "length codes = 10" using GenerateRecoveryCodes_Inr [OF codes(1)] by simp
    then obtain code rest where "codes = code # rest" by (cases codes) auto
    then have "VerifyCredentialsWithRecoveryCode toy_crypto ''org'' ''a@b'' ''pw'' code st
      = (Inr user, snd (VerifyCredentialsWithRecoveryCode toy_crypto ''org'' ''a@b'' ''pw'' code st))"
      using login by (simp add: VerifyCredentialsWithRecoveryCode_def ConsumeRecoveryCode_def codes(2)
          SaveRecoveryCodes_def saved_codes fields(1))
    then show ?thesis by blast
  qed simp
  then obtain code st1 where used:
    "VerifyCredentialsWithRecoveryCode toy_crypto ''org'' ''a@b'' ''pw'' code st = (Inr user, st1)" by blast
  from recovery_code_single_use [OF reach used rtranclp.rtrancl_refl]
  have "fst (VerifyCredentialsWithRecoveryCode toy_crypto ''org'' ''a@b'' ''pw'' code st1) \<noteq> Inr user"
    by (metis prod.collapse)
  with used show ?thesis by blast
qed

theorem oidc_link_permanent_witness:
  "\<exists>st it user st1. LoginOrLinkOIDCUser toy_service toy_env it it ''org'' ''idp'' ''sub'' ''c@d'' (st, ()) = (Inr user, st1, ())
     \<and> st1 \<noteq> st
     \<and> (\<exists>v. LoginOrLinkOIDCUser toy_service toy_env [] [] ''org'' ''idp'' ''sub'' ''new@address'' (st1, ()) = (Inr v, st1, ())
          \<and> User_ID v = User_ID user)"
proof -
  obtain st token rcd where st: "identity_steps toy_crypto toy_service NewIdentityStore st"
    "IdentityStore_invites st = [identity_hashToken toy_crypto token \<mapsto> rcd]"
    "IdentityStore_usersByID st = Map.empty" "IdentityStore_usersByOIDC st = Map.empty"
    "\<not> invite_ended unix_epoch (inviteRecord_invite rcd)"
    "Invite_IdentityType (inviteRecord_invite rcd) = IdentityTypeOIDC"
    "Invite_OrganizationID (inviteRecord_invite rcd) = ''org''" "Invite_Email (inviteRecord_invite rcd) = ''c@d''"
    using toy_invite [OF disjI2 [OF refl], of toy_service] by blast
  let ?it = "[(identity_hashToken toy_crypto token, rcd)]"
  have it: "ranges ?it (IdentityStore_invites st)" by (simp add: st(2))
  have fresh: "fresh_user_id toy_env st" by (simp add: fresh_user_id_def st(3))
  have found: "InviteByEmail ?it ''org'' ''c@d'' = Inr (inviteRecord_invite rcd)"
    by (simp add: InviteByEmail_def st)
  have now: "IdentityEnv_now toy_env k = unix_epoch" for k by (simp add: toy_env_def)
  obtain i where i: "identity_newID (IdentityEnv_id toy_env) = Inr i"
    by (simp add: toy_env_def identity_newID_def rand_hex_def)
  have "\<exists>user st1. LoginOrLinkOIDCUser toy_service toy_env ?it ?it ''org'' ''idp'' ''sub'' ''c@d'' (st, ()) = (Inr user, st1, ())"
    by (simp add: LoginOrLinkOIDCUser_def UserByOIDCIdentity_def st(4) found now st(5,6) i toy_service_def
        run_grantor_def ConsumeInviteByID_def Let_def)
  then obtain user st1 where linked:
    "LoginOrLinkOIDCUser toy_service toy_env ?it ?it ''org'' ''idp'' ''sub'' ''c@d'' (st, ()) = (Inr user, st1, ())"
    by blast
  note result = oidc_link_permanent [OF st(1) fresh it it linked]
  then have again: "\<exists>v. LoginOrLinkOIDCUser toy_service toy_env [] [] ''org'' ''idp'' ''sub'' ''new@address'' (st1, ()) = (Inr v, st1, ())
      \<and> User_ID v = User_ID user" by simp
  have "st1 \<noteq> st"
  proof
    assume same: "st1 = st"
    from again obtain v where "LoginOrLinkOIDCUser toy_service toy_env [] [] ''org'' ''idp'' ''sub'' ''new@address'' (st, ())
        = (Inr v, st, ())" unfolding same by blast
    then show False by (simp add: LoginOrLinkOIDCUser_def UserByOIDCIdentity_def st(4) InviteByEmail_def)
  qed
  with linked again show ?thesis by blast
qed

end
