(* ===== verification/Serviceaccounts.thy ===== *)
theory Serviceaccounts
  imports Authorization
begin

text \<open>
  \<open>internal/serviceaccounts\<close>: machine accounts of a site and their bearer tokens
  \<open>bazusop_sat_<id>_<secret>\<close>. HMAC-SHA-256 is the parameter \<open>mac\<close> (key, then message). The
  theory holds the service and its in-memory store, the writes the operations consist of,
  and the interpretation of \<open>revocation\<close> for tokens.
\<close>

section \<open>Data and store\<close>

definition TokenPrefix :: string where "TokenPrefix = ''bazusop_sat_''"
definition defaultExpiryDays :: int where "defaultExpiryDays = 90"
definition maxExpiryDays :: int where "maxExpiryDays = 365"
definition pepperKeyVersion :: char where "pepperKeyVersion = CHR 0x01"

record ServiceAccount =
  ServiceAccount_ID :: string
  ServiceAccount_OrganizationID :: string
  ServiceAccount_SiteID :: string
  ServiceAccount_Name :: string
  ServiceAccount_Role :: SiteRole
  ServiceAccount_CreatedAt :: time
  ServiceAccount_DisabledAt :: "time option"

record Token =
  Token_ID :: string
  Token_ServiceAccountID :: string
  Token_CreatedAt :: time
  Token_ExpiresAt :: time
  Token_LastUsedAt :: "time option"
  Token_LastUsedIP :: string
  Token_RevokedAt :: "time option"

record AccountSummary =
  AccountSummary_ServiceAccount :: ServiceAccount
  AccountSummary_ActiveToken :: "Token option"

record tokenRecord =
  tokenRecord_token :: Token
  tokenRecord_secretHash :: string

record SAStore =
  SAStore_accounts :: "string \<rightharpoonup> ServiceAccount"
  SAStore_tokens :: "string \<rightharpoonup> tokenRecord"

definition NewSAStore :: SAStore where
  "NewSAStore = \<lparr>SAStore_accounts = Map.empty, SAStore_tokens = Map.empty\<rparr>"

definition SA_CreateAccount :: "ServiceAccount \<Rightarrow> SAStore \<Rightarrow> SAStore" where
  "SA_CreateAccount account st =
     st\<lparr>SAStore_accounts := (SAStore_accounts st)(ServiceAccount_ID account \<mapsto> account)\<rparr>"

definition AccountByID :: "string \<Rightarrow> SAStore \<Rightarrow> ServiceAccount res" where
  "AccountByID i st = (case SAStore_accounts st i of None \<Rightarrow> Inl ErrAccountNotFound | Some account \<Rightarrow> Inr account)"

definition SA_DisableAccount :: "string \<Rightarrow> time \<Rightarrow> SAStore \<Rightarrow> (unit, SAStore) op" where
  "SA_DisableAccount i tm st =
     (case SAStore_accounts st i of
        None \<Rightarrow> (Inl ErrAccountNotFound, st)
      | Some account \<Rightarrow> (Inr (), st\<lparr>SAStore_accounts :=
          (SAStore_accounts st)(i \<mapsto> account\<lparr>ServiceAccount_DisabledAt := Some tm\<rparr>)\<rparr>))"

definition AccountsForSite :: "(string \<times> ServiceAccount) list \<Rightarrow> string \<Rightarrow> ServiceAccount list" where
  "AccountsForSite it siteID = filter (\<lambda>account. ServiceAccount_SiteID account = siteID) (map snd it)"

text \<open>The newest unrevoked token of each account of the site.\<close>

definition ActiveTokensForSite ::
  "(string \<times> tokenRecord) list \<Rightarrow> string \<Rightarrow> SAStore \<Rightarrow> (string \<rightharpoonup> Token)" where
  "ActiveTokensForSite it siteID st =
     fold (\<lambda>(_, rcd) result.
       let token = tokenRecord_token rcd; accountID = Token_ServiceAccountID token in
       if Token_RevokedAt token \<noteq> None then result
       else case SAStore_accounts st accountID of
           None \<Rightarrow> result
         | Some account \<Rightarrow>
             if ServiceAccount_SiteID account \<noteq> siteID then result
             else (case result accountID of
                 None \<Rightarrow> result(accountID \<mapsto> token)
               | Some existing \<Rightarrow>
                   if Token_CreatedAt existing < Token_CreatedAt token then result(accountID \<mapsto> token)
                   else result)) it Map.empty"

definition CreateToken :: "Token \<Rightarrow> string \<Rightarrow> SAStore \<Rightarrow> SAStore" where
  "CreateToken token secretHash st =
     st\<lparr>SAStore_tokens := (SAStore_tokens st)
          (Token_ID token \<mapsto> \<lparr>tokenRecord_token = token, tokenRecord_secretHash = secretHash\<rparr>)\<rparr>"

definition TokenByID :: "string \<Rightarrow> SAStore \<Rightarrow> (Token \<times> string) res" where
  "TokenByID i st =
     (case SAStore_tokens st i of
        None \<Rightarrow> Inl ErrSATokenNotFound
      | Some rcd \<Rightarrow> Inr (tokenRecord_token rcd, tokenRecord_secretHash rcd))"

definition update_token :: "(Token \<Rightarrow> Token) \<Rightarrow> string \<Rightarrow> SAStore \<Rightarrow> (unit, SAStore) op" where
  "update_token f i st =
     (case SAStore_tokens st i of
        None \<Rightarrow> (Inl ErrSATokenNotFound, st)
      | Some rcd \<Rightarrow> (Inr (), st\<lparr>SAStore_tokens := (SAStore_tokens st)
          (i \<mapsto> rcd\<lparr>tokenRecord_token := f (tokenRecord_token rcd)\<rparr>)\<rparr>))"

definition SA_RevokeToken :: "string \<Rightarrow> time \<Rightarrow> SAStore \<Rightarrow> (unit, SAStore) op" where
  "SA_RevokeToken i tm = update_token (\<lambda>token. token\<lparr>Token_RevokedAt := Some tm\<rparr>) i"

text \<open>Each entry is visited once and replaced on its own, so the order does not matter.\<close>

definition RevokeActiveTokensForAccount :: "string \<Rightarrow> time \<Rightarrow> SAStore \<Rightarrow> SAStore" where
  "RevokeActiveTokensForAccount accountID tm st =
     st\<lparr>SAStore_tokens := (\<lambda>i. map_option (\<lambda>rcd.
          if Token_ServiceAccountID (tokenRecord_token rcd) = accountID
             \<and> Token_RevokedAt (tokenRecord_token rcd) = None
          then rcd\<lparr>tokenRecord_token := (tokenRecord_token rcd)\<lparr>Token_RevokedAt := Some tm\<rparr>\<rparr> else rcd)
        (SAStore_tokens st i))\<rparr>"

definition TouchToken :: "string \<Rightarrow> time \<Rightarrow> string \<Rightarrow> SAStore \<Rightarrow> (unit, SAStore) op" where
  "TouchToken i tm sourceIP =
     update_token (\<lambda>token. token\<lparr>Token_LastUsedAt := Some tm, Token_LastUsedIP := sourceIP\<rparr>) i"

section \<open>The service\<close>

definition ParseToken :: "string \<Rightarrow> (string \<times> string) option" where
  "ParseToken token =
     (if \<not> has_prefix token TokenPrefix then None
      else case cut_at (CHR ''_'') (drop (length TokenPrefix) token) of
          None \<Rightarrow> None
        | Some (tokenID, secret) \<Rightarrow> if tokenID = [] \<or> secret = [] then None else Some (tokenID, secret))"

type_synonym hmac = "string \<Rightarrow> string \<Rightarrow> string"

definition SA_NewService :: "string \<Rightarrow> string res" where
  "SA_NewService pepper =
     (if pepper = [] then Inl (ErrOther ''service account token pepper is required'') else Inr pepper)"

definition hashSecret :: "hmac \<Rightarrow> string \<Rightarrow> string \<Rightarrow> string" where
  "hashSecret mac secret pepper = hex_encode (pepperKeyVersion # mac pepper secret)"

definition newOpaqueHex :: "nat \<Rightarrow> entropy \<Rightarrow> string res" where
  "newOpaqueHex byteLen r = rand_hex byteLen r"

definition add_days :: "time \<Rightarrow> int \<Rightarrow> time" where
  "add_days tm days = tm + days * (24 * hour)"

definition issueToken ::
  "hmac \<Rightarrow> string \<Rightarrow> entropy \<Rightarrow> entropy \<Rightarrow> time \<Rightarrow> string \<Rightarrow> int \<Rightarrow> SAStore \<Rightarrow> (string, SAStore) op" where
  "issueToken mac pepper r1 r2 now accountID expiryDays st =
     (let expiryDays = (if expiryDays = 0 then defaultExpiryDays else expiryDays) in
      if expiryDays < 1 \<or> maxExpiryDays < expiryDays then (Inl ErrInvalidExpiry, st)
      else case newOpaqueHex 8 r1 of
          Inl e \<Rightarrow> (Inl e, st)
        | Inr tokenID \<Rightarrow>
            (case newOpaqueHex 32 r2 of
               Inl e \<Rightarrow> (Inl e, st)
             | Inr secret \<Rightarrow>
                 let token = \<lparr>Token_ID = tokenID, Token_ServiceAccountID = accountID, Token_CreatedAt = now,
                       Token_ExpiresAt = add_days now expiryDays, Token_LastUsedAt = None,
                       Token_LastUsedIP = [], Token_RevokedAt = None\<rparr>
                 in (Inr (TokenPrefix @ tokenID @ ''_'' @ secret),
                     CreateToken token (hashSecret mac secret pepper) st)))"

definition CreateAccount ::
  "hmac \<Rightarrow> string \<Rightarrow> entropy \<Rightarrow> entropy \<Rightarrow> entropy \<Rightarrow> time \<Rightarrow> time \<Rightarrow> string \<Rightarrow> string \<Rightarrow> string \<Rightarrow> SiteRole \<Rightarrow> int
   \<Rightarrow> SAStore \<Rightarrow> (ServiceAccount \<times> string, SAStore) op" where
  "CreateAccount mac pepper r0 r1 r2 now1 now2 organizationID siteID name role expiryDays st =
     (if role \<noteq> SiteRoleAdmin \<and> role \<noteq> SiteRoleOperator \<and> role \<noteq> SiteRoleViewer then (Inl ErrInvalidRole, st)
      else case newOpaqueHex 16 r0 of
          Inl e \<Rightarrow> (Inl e, st)
        | Inr i \<Rightarrow>
            let account = \<lparr>ServiceAccount_ID = i, ServiceAccount_OrganizationID = organizationID,
                  ServiceAccount_SiteID = siteID, ServiceAccount_Name = name, ServiceAccount_Role = role,
                  ServiceAccount_CreatedAt = now1, ServiceAccount_DisabledAt = None\<rparr>;
                st1 = SA_CreateAccount account st in
            (case issueToken mac pepper r1 r2 now2 i expiryDays st1 of
               (Inl e, st2) \<Rightarrow> (Inl e, st2)
             | (Inr token, st2) \<Rightarrow> (Inr (account, token), st2)))"

definition RotateToken ::
  "hmac \<Rightarrow> string \<Rightarrow> entropy \<Rightarrow> entropy \<Rightarrow> time \<Rightarrow> time \<Rightarrow> string \<Rightarrow> string \<Rightarrow> int \<Rightarrow> SAStore \<Rightarrow> (string, SAStore) op" where
  "RotateToken mac pepper r1 r2 now1 now2 siteID accountID expiryDays st =
     (case AccountByID accountID st of
        Inl e \<Rightarrow> (Inl e, st)
      | Inr account \<Rightarrow>
          if ServiceAccount_SiteID account \<noteq> siteID then (Inl ErrAccountNotFound, st)
          else issueToken mac pepper r1 r2 now2 accountID expiryDays
                 (RevokeActiveTokensForAccount accountID now1 st))"

definition RevokeToken :: "time \<Rightarrow> string \<Rightarrow> string \<Rightarrow> SAStore \<Rightarrow> (unit, SAStore) op" where
  "RevokeToken now siteID tokenID st =
     (case TokenByID tokenID st of
        Inl e \<Rightarrow> (Inl e, st)
      | Inr (token, _) \<Rightarrow>
          (case AccountByID (Token_ServiceAccountID token) st of
             Inl e \<Rightarrow> (Inl e, st)
           | Inr account \<Rightarrow>
               if ServiceAccount_SiteID account \<noteq> siteID then (Inl ErrSATokenNotFound, st)
               else SA_RevokeToken tokenID now st))"

definition DisableAccount :: "time \<Rightarrow> time \<Rightarrow> string \<Rightarrow> string \<Rightarrow> SAStore \<Rightarrow> (unit, SAStore) op" where
  "DisableAccount now1 now2 siteID accountID st =
     (case AccountByID accountID st of
        Inl e \<Rightarrow> (Inl e, st)
      | Inr account \<Rightarrow>
          if ServiceAccount_SiteID account \<noteq> siteID then (Inl ErrAccountNotFound, st)
          else SA_DisableAccount accountID now2 (RevokeActiveTokensForAccount accountID now1 st))"

definition ListForSite ::
  "(string \<times> ServiceAccount) list \<Rightarrow> (string \<times> tokenRecord) list \<Rightarrow> string \<Rightarrow> SAStore \<Rightarrow> AccountSummary list" where
  "ListForSite it1 it2 siteID st =
     (let accounts = AccountsForSite it1 siteID; activeTokens = ActiveTokensForSite it2 siteID st in
      map (\<lambda>account. \<lparr>AccountSummary_ServiceAccount = account,
                       AccountSummary_ActiveToken = activeTokens (ServiceAccount_ID account)\<rparr>) accounts)"

definition SA_Validate ::
  "hmac \<Rightarrow> string \<Rightarrow> time \<Rightarrow> time \<Rightarrow> string \<Rightarrow> string \<Rightarrow> SAStore \<Rightarrow> (ServiceAccount, SAStore) op" where
  "SA_Validate mac pepper now1 now2 presented sourceIP st =
     (case ParseToken presented of
        None \<Rightarrow> (Inl ErrSATokenNotFound, st)
      | Some (tokenID, secret) \<Rightarrow>
          (case TokenByID tokenID st of
             Inl e \<Rightarrow> if e = ErrSATokenNotFound then (Inl ErrSATokenNotFound, st) else (Inl e, st)
           | Inr (token, storedHash) \<Rightarrow>
               if hashSecret mac secret pepper \<noteq> storedHash then (Inl ErrSATokenNotFound, st)
               else if Token_RevokedAt token \<noteq> None then (Inl ErrSATokenRevoked, st)
               else if Token_ExpiresAt token < now1 then (Inl ErrSATokenExpired, st)
               else (case AccountByID (Token_ServiceAccountID token) st of
                   Inl e \<Rightarrow> (Inl e, st)
                 | Inr account \<Rightarrow>
                     if ServiceAccount_DisabledAt account \<noteq> None then (Inl ErrAccountDisabled, st)
                     else (case TouchToken (Token_ID token) now2 sourceIP st of
                         (Inl e, st1) \<Rightarrow> (Inl e, st1)
                       | (Inr _, st1) \<Rightarrow> (Inr account, st1)))))"

end
