(* ===== verification/Serviceaccounts_Properties.thy ===== *)
theory Serviceaccounts_Properties
  imports Serviceaccounts
begin

text \<open>
  What service account tokens promise. \<open>sa_change\<close> lists the writes of the store, each
  operation is a sequence of them, and the interpretation of \<open>revocation\<close> gives that a
  revoked, expired or disabled token is refused for good.
\<close>

section \<open>The writes and the invariant\<close>

inductive sa_change :: "SAStore \<Rightarrow> SAStore \<Rightarrow> bool" where
  account: "SAStore_accounts st (ServiceAccount_ID a) = None \<Longrightarrow> sa_change st (SA_CreateAccount a st)"
| disable: "SAStore_accounts st i = Some a \<Longrightarrow>
    sa_change st (st\<lparr>SAStore_accounts := (SAStore_accounts st)(i \<mapsto> a\<lparr>ServiceAccount_DisabledAt := Some tm\<rparr>)\<rparr>)"
| token: "SAStore_tokens st (Token_ID t) = None \<Longrightarrow> SAStore_accounts st (Token_ServiceAccountID t) \<noteq> None \<Longrightarrow>
    sa_change st (CreateToken t h st)"
| update: "SAStore_tokens st i = Some rcd \<Longrightarrow> f = (\<lambda>t. t\<lparr>Token_RevokedAt := Some tm\<rparr>)
      \<or> f = (\<lambda>t. t\<lparr>Token_LastUsedAt := Some tm, Token_LastUsedIP := ip\<rparr>) \<Longrightarrow>
    sa_change st (st\<lparr>SAStore_tokens := (SAStore_tokens st)(i \<mapsto> rcd\<lparr>tokenRecord_token := f (tokenRecord_token rcd)\<rparr>)\<rparr>)"
| revoke_all: "sa_change st (RevokeActiveTokensForAccount i tm st)"

abbreviation sa_changes :: "SAStore \<Rightarrow> SAStore \<Rightarrow> bool" where "sa_changes \<equiv> rtranclp sa_change"

lemma sa_two: "sa_change st st1 \<Longrightarrow> sa_change st1 st' \<Longrightarrow> sa_changes st st'"
  using rtranclp.rtrancl_into_rtrancl [of sa_change st st1 st'] r_into_rtranclp [of sa_change] by blast

definition sa_inv :: "SAStore \<Rightarrow> bool" where
  "sa_inv st \<longleftrightarrow>
     (\<forall>i a. SAStore_accounts st i = Some a \<longrightarrow> ServiceAccount_ID a = i)
     \<and> (\<forall>i rcd. SAStore_tokens st i = Some rcd \<longrightarrow> Token_ID (tokenRecord_token rcd) = i
          \<and> SAStore_accounts st (Token_ServiceAccountID (tokenRecord_token rcd)) \<noteq> None)"

lemma sa_inv_init: "sa_inv NewSAStore"
  by (simp add: sa_inv_def NewSAStore_def)

lemma sa_inv_change: "sa_change st st' \<Longrightarrow> sa_inv st \<Longrightarrow> sa_inv st'"
proof (induction rule: sa_change.induct)
  case (account st a)
  then show ?case by (simp add: sa_inv_def SA_CreateAccount_def)
next
  case (disable st i a tm)
  then show ?case by (simp add: sa_inv_def)
next
  case (token st t h)
  then show ?case by (simp add: sa_inv_def CreateToken_def)
next
  case (update st i rcd f tm ip)
  then show ?case by (auto simp: sa_inv_def)
next
  case (revoke_all st i tm)
  then show ?case by (auto simp: sa_inv_def RevokeActiveTokensForAccount_def)
qed

lemma sa_inv_changes: "sa_changes st st' \<Longrightarrow> sa_inv st \<Longrightarrow> sa_inv st'"
  by (induction rule: rtranclp_induct) (blast intro: sa_inv_change)+

text \<open>A token of an account, and what never changes in it.\<close>

abbreviation token_at :: "SAStore \<Rightarrow> string \<Rightarrow> Token option" where
  "token_at st i \<equiv> map_option tokenRecord_token (SAStore_tokens st i)"

definition same_token :: "tokenRecord \<Rightarrow> tokenRecord \<Rightarrow> bool" where
  "same_token r s \<longleftrightarrow> tokenRecord_secretHash s = tokenRecord_secretHash r
     \<and> Token_ServiceAccountID (tokenRecord_token s) = Token_ServiceAccountID (tokenRecord_token r)
     \<and> Token_ExpiresAt (tokenRecord_token s) = Token_ExpiresAt (tokenRecord_token r)
     \<and> (Token_RevokedAt (tokenRecord_token r) \<noteq> None \<longrightarrow> Token_RevokedAt (tokenRecord_token s) \<noteq> None)"

lemma same_token_change:
  "sa_change st st' \<Longrightarrow> SAStore_tokens st i = Some r \<Longrightarrow> \<exists>s. SAStore_tokens st' i = Some s \<and> same_token r s"
  by (induction rule: sa_change.induct)
    (auto simp: SA_CreateAccount_def CreateToken_def RevokeActiveTokensForAccount_def same_token_def)

lemma disabled_change:
  "sa_change st st' \<Longrightarrow> SAStore_accounts st i = Some a \<Longrightarrow> ServiceAccount_DisabledAt a \<noteq> None \<Longrightarrow>
     \<exists>b. SAStore_accounts st' i = Some b \<and> ServiceAccount_DisabledAt b \<noteq> None"
  by (induction rule: sa_change.induct)
    (auto simp: SA_CreateAccount_def CreateToken_def RevokeActiveTokensForAccount_def)

definition token_dead :: "time \<Rightarrow> SAStore \<Rightarrow> string \<Rightarrow> bool" where
  "token_dead now st i \<longleftrightarrow>
     (\<exists>r. SAStore_tokens st i = Some r
        \<and> (Token_RevokedAt (tokenRecord_token r) \<noteq> None \<or> Token_ExpiresAt (tokenRecord_token r) < now
           \<or> (\<exists>a. SAStore_accounts st (Token_ServiceAccountID (tokenRecord_token r)) = Some a
                \<and> ServiceAccount_DisabledAt a \<noteq> None)))"

lemma token_dead_change: "sa_change st st' \<Longrightarrow> token_dead now st i \<Longrightarrow> token_dead now st' i"
proof -
  assume step: "sa_change st st'" and "token_dead now st i"
  then obtain r where r: "SAStore_tokens st i = Some r"
    and dead: "Token_RevokedAt (tokenRecord_token r) \<noteq> None \<or> Token_ExpiresAt (tokenRecord_token r) < now
       \<or> (\<exists>a. SAStore_accounts st (Token_ServiceAccountID (tokenRecord_token r)) = Some a
                \<and> ServiceAccount_DisabledAt a \<noteq> None)"
    unfolding token_dead_def by blast
  obtain s where s: "SAStore_tokens st' i = Some s" "same_token r s"
    using same_token_change [OF step r] by blast
  show "token_dead now st' i"
    using dead s disabled_change [OF step] unfolding token_dead_def same_token_def by metis
qed

lemma token_dead_changes: "sa_changes st st' \<Longrightarrow> token_dead now st i \<Longrightarrow> token_dead now st' i"
  by (induction rule: rtranclp_induct) (blast intro: token_dead_change)+

section \<open>The operations as sequences of writes\<close>

definition fresh_token :: "entropy \<Rightarrow> SAStore \<Rightarrow> bool" where
  "fresh_token r st \<longleftrightarrow> (\<forall>i. newOpaqueHex 8 r = Inr i \<longrightarrow> SAStore_tokens st i = None)"

definition fresh_account :: "entropy \<Rightarrow> SAStore \<Rightarrow> bool" where
  "fresh_account r st \<longleftrightarrow> (\<forall>i. newOpaqueHex 16 r = Inr i \<longrightarrow> SAStore_accounts st i = None)"

lemma issueToken_cases:
  assumes "issueToken mac pepper r1 r2 now accountID expiryDays st = (res, st')"
  obtains (refused) e where "res = Inl e" "st' = st"
  | (issued) tokenID secret token days where "newOpaqueHex 8 r1 = Inr tokenID" "newOpaqueHex 32 r2 = Inr secret"
      "res = Inr (TokenPrefix @ tokenID @ ''_'' @ secret)"
      "Token_ID token = tokenID" "Token_ServiceAccountID token = accountID" "Token_RevokedAt token = None"
      "Token_ExpiresAt token = add_days now days" "1 \<le> days" "days \<le> maxExpiryDays"
      "days = (if expiryDays = 0 then defaultExpiryDays else expiryDays)"
      "st' = CreateToken token (hashSecret mac secret pepper) st"
proof -
  let ?days = "if expiryDays = 0 then defaultExpiryDays else expiryDays"
  show ?thesis
  proof (cases "(?days < 1 \<or> maxExpiryDays < ?days)
      \<or> (\<exists>e. newOpaqueHex 8 r1 = Inl e) \<or> (\<exists>e. newOpaqueHex 32 r2 = Inl e)")
    case True
    define q1 q2 where "q1 = newOpaqueHex 8 r1" and "q2 = newOpaqueHex 32 r2"
    from True have "st' = st \<and> (\<exists>e. res = Inl e)"
      using assms unfolding issueToken_def Let_def q1_def [symmetric] q2_def [symmetric]
      by (cases q1; cases q2) (auto split: if_splits)
    then show ?thesis using refused by blast
  next
    case False
    then obtain tokenID secret where ids: "newOpaqueHex 8 r1 = Inr tokenID" "newOpaqueHex 32 r2 = Inr secret"
      by (meson old.sum.exhaust)
    from False assms ids show ?thesis
      by (intro issued [of tokenID secret "\<lparr>Token_ID = tokenID, Token_ServiceAccountID = accountID,
            Token_CreatedAt = now, Token_ExpiresAt = add_days now ?days, Token_LastUsedAt = None,
            Token_LastUsedIP = [], Token_RevokedAt = None\<rparr>" ?days])
        (simp_all add: issueToken_def Let_def)
  qed
qed

lemma issueToken_changes:
  assumes "issueToken mac pepper r1 r2 now accountID expiryDays st = (res, st')"
    and "fresh_token r1 st" "SAStore_accounts st accountID \<noteq> None"
  shows "sa_changes st st'"
  using assms(1)
proof (cases rule: issueToken_cases)
  case (issued tokenID secret token days)
  have "sa_change st st'"
    unfolding issued(11) by (rule sa_change.token) (use assms(2,3) issued(1,4,5) in \<open>auto simp: fresh_token_def\<close>)
  then show ?thesis by blast
qed simp

lemma CreateAccount_changes:
  assumes "CreateAccount mac pepper r0 r1 r2 now1 now2 org site name role days st = (res, st')"
    and "fresh_account r0 st" "fresh_token r1 st"
  shows "sa_changes st st'"
proof (cases "newOpaqueHex 16 r0")
  case (Inl e)
  with assms(1) show ?thesis by (auto simp: CreateAccount_def split: if_splits)
next
  case (Inr i)
  let ?a = "\<lparr>ServiceAccount_ID = i, ServiceAccount_OrganizationID = org, ServiceAccount_SiteID = site,
     ServiceAccount_Name = name, ServiceAccount_Role = role, ServiceAccount_CreatedAt = now1,
     ServiceAccount_DisabledAt = None\<rparr>"
  have new: "sa_change st (SA_CreateAccount ?a st)"
    by (rule sa_change.account) (use assms(2) Inr in \<open>simp add: fresh_account_def\<close>)
  obtain r st2 where issue: "issueToken mac pepper r1 r2 now2 i days (SA_CreateAccount ?a st) = (r, st2)"
    by (cases "issueToken mac pepper r1 r2 now2 i days (SA_CreateAccount ?a st)")
  have "sa_changes (SA_CreateAccount ?a st) st2"
    by (rule issueToken_changes [OF issue]) (use assms(3) in \<open>simp_all add: SA_CreateAccount_def fresh_token_def\<close>)
  with new have "sa_changes st st2" by (rule converse_rtranclp_into_rtranclp)
  moreover have "st' = st \<or> st' = st2"
    using assms(1) Inr issue by (auto simp: CreateAccount_def Let_def split: if_splits sum.splits)
  ultimately show ?thesis by auto
qed

lemma RotateToken_cases:
  assumes "RotateToken mac pepper r1 r2 now1 now2 siteID accountID days st = (res, st')"
  obtains (refused) e where "res = Inl e" "st' = st"
  | (issue) a where "SAStore_accounts st accountID = Some a" "ServiceAccount_SiteID a = siteID"
      "issueToken mac pepper r1 r2 now2 accountID days (RevokeActiveTokensForAccount accountID now1 st) = (res, st')"
  using assms
  by (cases "SAStore_accounts st accountID") (auto simp: RotateToken_def AccountByID_def split: if_splits)

lemma RotateToken_changes:
  assumes op: "RotateToken mac pepper r1 r2 now1 now2 siteID accountID days st = (res, st')"
    and fresh: "fresh_token r1 st"
  shows "sa_changes st st'"
  using op
proof (cases rule: RotateToken_cases)
  case (issue a)
  have rev: "sa_change st (RevokeActiveTokensForAccount accountID now1 st)" by (rule sa_change.revoke_all)
  have "sa_changes (RevokeActiveTokensForAccount accountID now1 st) st'"
    by (rule issueToken_changes [OF issue(3)])
      (use fresh issue(1) in \<open>auto simp: fresh_token_def RevokeActiveTokensForAccount_def\<close>)
  with rev show ?thesis by (rule converse_rtranclp_into_rtranclp)
qed simp

lemma update_token_change:
  assumes "update_token f i st = (res, st')"
    and "f = (\<lambda>t. t\<lparr>Token_RevokedAt := Some tm\<rparr>) \<or> f = (\<lambda>t. t\<lparr>Token_LastUsedAt := Some tm, Token_LastUsedIP := ip\<rparr>)"
  shows "sa_changes st st'"
proof (cases "SAStore_tokens st i")
  case (Some rcd)
  with assms(1) have st': "st' = st\<lparr>SAStore_tokens := (SAStore_tokens st)
      (i \<mapsto> rcd\<lparr>tokenRecord_token := f (tokenRecord_token rcd)\<rparr>)\<rparr>" by (simp add: update_token_def)
  have "sa_change st st'" unfolding st' by (rule sa_change.update [OF Some assms(2)])
  then show ?thesis by blast
qed (use assms(1) in \<open>simp add: update_token_def\<close>)

lemma RevokeToken_changes: "RevokeToken now siteID i st = (res, st') \<Longrightarrow> sa_changes st st'"
  using update_token_change [where f = "Token_RevokedAt_update (\<lambda>_. Some now)", OF _ disjI1 [OF refl], of i st res st']
  by (auto simp: RevokeToken_def SA_RevokeToken_def split: sum.splits if_splits)

lemma DisableAccount_changes:
  assumes "DisableAccount now1 now2 siteID i st = (res, st')"
  shows "sa_changes st st'"
proof (cases "SAStore_accounts st i")
  case (Some a)
  let ?st1 = "RevokeActiveTokensForAccount i now1 st"
  have two: "sa_changes st (?st1\<lparr>SAStore_accounts := (SAStore_accounts ?st1)(i \<mapsto> a\<lparr>ServiceAccount_DisabledAt := Some now2\<rparr>)\<rparr>)"
    by (rule sa_two [OF sa_change.revoke_all sa_change.disable])
      (simp add: RevokeActiveTokensForAccount_def Some)
  from assms Some have "st' = st \<or> st' = ?st1\<lparr>SAStore_accounts := (SAStore_accounts ?st1)(i \<mapsto> a\<lparr>ServiceAccount_DisabledAt := Some now2\<rparr>)\<rparr>"
    by (auto simp: DisableAccount_def AccountByID_def SA_DisableAccount_def RevokeActiveTokensForAccount_def split: if_splits)
  with two show ?thesis by auto
qed (use assms in \<open>simp add: DisableAccount_def AccountByID_def\<close>)

text \<open>The outcome of a validation.\<close>

lemma SA_Validate_cases:
  assumes inv: "sa_inv st" and op: "SA_Validate mac pepper now1 now2 presented ip st = (res, st')"
  obtains (refused) e where "res = Inl e" "st' = st"
      "\<And>i secret r a. ParseToken presented = Some (i, secret) \<Longrightarrow> SAStore_tokens st i = Some r \<Longrightarrow>
         hashSecret mac secret pepper = tokenRecord_secretHash r \<Longrightarrow>
         SAStore_accounts st (Token_ServiceAccountID (tokenRecord_token r)) = Some a \<Longrightarrow>
         Token_RevokedAt (tokenRecord_token r) \<noteq> None \<or> Token_ExpiresAt (tokenRecord_token r) < now1
         \<or> ServiceAccount_DisabledAt a \<noteq> None"
  | (accepted) i secret r a where "ParseToken presented = Some (i, secret)" "SAStore_tokens st i = Some r"
      "hashSecret mac secret pepper = tokenRecord_secretHash r"
      "Token_RevokedAt (tokenRecord_token r) = None" "now1 \<le> Token_ExpiresAt (tokenRecord_token r)"
      "SAStore_accounts st (Token_ServiceAccountID (tokenRecord_token r)) = Some a"
      "ServiceAccount_DisabledAt a = None" "res = Inr a" "TouchToken i now2 ip st = (Inr (), st')"
proof (cases "\<exists>i secret r. ParseToken presented = Some (i, secret) \<and> SAStore_tokens st i = Some r
    \<and> hashSecret mac secret pepper = tokenRecord_secretHash r")
  case False
  then have "st' = st \<and> (\<exists>e. res = Inl e)"
    using op by (auto simp: SA_Validate_def TokenByID_def split: option.splits if_splits)
  with False show ?thesis using refused by blast
next
  case True
  then obtain i secret r where tok: "ParseToken presented = Some (i, secret)" "SAStore_tokens st i = Some r"
    "hashSecret mac secret pepper = tokenRecord_secretHash r" by blast
  obtain a where a: "SAStore_accounts st (Token_ServiceAccountID (tokenRecord_token r)) = Some a"
    using inv tok(2) unfolding sa_inv_def by blast
  have i: "Token_ID (tokenRecord_token r) = i" using inv tok(2) unfolding sa_inv_def by blast
  show ?thesis
  proof (cases "Token_RevokedAt (tokenRecord_token r) = None \<and> now1 \<le> Token_ExpiresAt (tokenRecord_token r)
      \<and> ServiceAccount_DisabledAt a = None")
    case True
    obtain st1 where touch: "TouchToken i now2 ip st = (Inr (), st1)"
      by (simp add: TouchToken_def update_token_def tok(2))
    with op tok a i True show ?thesis
      by (intro accepted [OF tok _ _ a]) (auto simp: SA_Validate_def TokenByID_def AccountByID_def)
  next
    case False
    then have "st' = st \<and> (\<exists>e. res = Inl e)"
      using op tok a by (auto simp: SA_Validate_def TokenByID_def AccountByID_def split: if_splits)
    then obtain e where e: "st' = st" "res = Inl e" by blast
    show ?thesis by (rule refused [OF e(2,1)]) (use False tok a in auto)
  qed
qed

lemma SA_Validate_changes:
  assumes "sa_inv st" "SA_Validate mac pepper now1 now2 presented ip st = (res, st')"
  shows "sa_changes st st'"
  using assms
proof (cases rule: SA_Validate_cases)
  case (accepted i secret r a)
  then show ?thesis using update_token_change [of _ i st "Inr ()" st'] unfolding TouchToken_def by blast
qed simp

inductive sa_step :: "hmac \<Rightarrow> string \<Rightarrow> SAStore \<Rightarrow> SAStore \<Rightarrow> bool" for mac pepper where
  create: "fresh_account r0 st \<Longrightarrow> fresh_token r1 st \<Longrightarrow>
    CreateAccount mac pepper r0 r1 r2 now1 now2 org site name role days st = (res, st') \<Longrightarrow> sa_step mac pepper st st'"
| rotate: "fresh_token r1 st \<Longrightarrow>
    RotateToken mac pepper r1 r2 now1 now2 site accountID days st = (res', st') \<Longrightarrow> sa_step mac pepper st st'"
| revoke: "RevokeToken now1 site i st = (res'', st') \<Longrightarrow> sa_step mac pepper st st'"
| disable: "DisableAccount now1 now2 site i st = (res'', st') \<Longrightarrow> sa_step mac pepper st st'"
| use_token: "SA_Validate mac pepper now1 now2 presented ip st = (res3, st') \<Longrightarrow> sa_step mac pepper st st'"

lemma sa_step_changes: "sa_step mac pepper st st' \<Longrightarrow> sa_inv st \<Longrightarrow> sa_changes st st'"
  by (induction rule: sa_step.induct)
    (blast intro: CreateAccount_changes RotateToken_changes RevokeToken_changes DisableAccount_changes
       SA_Validate_changes)+

definition token_accepted :: "hmac \<Rightarrow> string \<Rightarrow> time \<Rightarrow> SAStore \<Rightarrow> string \<Rightarrow> bool" where
  "token_accepted mac pepper now st i \<longleftrightarrow>
     (\<exists>presented secret now1 now2 ip a st'. ParseToken presented = Some (i, secret) \<and> now \<le> now1
        \<and> SA_Validate mac pepper now1 now2 presented ip st = (Inr a, st'))"

interpretation service_tokens: revocation sa_inv "sa_step mac pepper" "token_dead now" "token_accepted mac pepper now"
  for mac pepper now
proof
  show "sa_step mac pepper st st' \<Longrightarrow> sa_inv st \<Longrightarrow> sa_inv st'" for st st'
    using sa_step_changes sa_inv_changes by blast
  show "sa_step mac pepper st st' \<Longrightarrow> sa_inv st \<Longrightarrow> token_dead now st i \<Longrightarrow> token_dead now st' i" for st st' i
    using sa_step_changes token_dead_changes by blast
  show "\<not> token_accepted mac pepper now st i" if "sa_inv st" "token_dead now st i" for st i
  proof
    assume "token_accepted mac pepper now st i"
    then obtain presented secret now1 now2 ip a st' where acc: "ParseToken presented = Some (i, secret)" "now \<le> now1"
      "SA_Validate mac pepper now1 now2 presented ip st = (Inr a, st')" unfolding token_accepted_def by blast
    from that(1) acc(3) show False
    proof (cases rule: SA_Validate_cases)
      case (accepted j secret' r a')
      with that(2) acc(1,2) show False by (auto simp: token_dead_def)
    qed simp
  qed
qed

section \<open>Token strings\<close>

lemma ParseToken_iff:
  "ParseToken presented = Some (i, secret) \<longleftrightarrow>
     presented = TokenPrefix @ i @ ''_'' @ secret \<and> i \<noteq> [] \<and> secret \<noteq> [] \<and> CHR ''_'' \<notin> set i"
proof
  assume parsed: "ParseToken presented = Some (i, secret)"
  then have "has_prefix presented TokenPrefix" by (auto simp: ParseToken_def split: if_splits)
  then obtain rest where rest: "presented = TokenPrefix @ rest" by (auto simp: has_prefix_iff)
  with parsed have "cut_at (CHR ''_'') rest = Some (i, secret)" "i \<noteq> []" "secret \<noteq> []"
    by (auto simp: ParseToken_def has_prefix_iff split: option.splits if_splits)
  with cut_at_Some [of "CHR ''_''" rest i secret] rest
  show "presented = TokenPrefix @ i @ ''_'' @ secret \<and> i \<noteq> [] \<and> secret \<noteq> [] \<and> CHR ''_'' \<notin> set i" by simp
qed (simp add: ParseToken_def has_prefix_iff)

lemma hex_no_underscore: "list_all is_lower_hex s \<Longrightarrow> CHR ''_'' \<notin> set s"
  by (auto simp: list_all_iff is_lower_hex_def)

lemma ParseToken_issued:
  assumes "newOpaqueHex 8 r1 = Inr i" "newOpaqueHex 32 r2 = Inr secret"
  shows "ParseToken (TokenPrefix @ i @ ''_'' @ secret) = Some (i, secret)"
  using assms rand_hex_Inr [of 8 r1 i] rand_hex_Inr [of 32 r2 secret] hex_no_underscore [of i]
  unfolding ParseToken_iff newOpaqueHex_def by auto

abbreviation sa_reach :: "hmac \<Rightarrow> string \<Rightarrow> SAStore \<Rightarrow> bool" where
  "sa_reach mac pepper st \<equiv> rtranclp (sa_step mac pepper) NewSAStore st"

lemma sa_reach_inv: "sa_reach mac pepper st \<Longrightarrow> sa_inv st"
  using service_tokens.inv_steps sa_inv_init by blast

section \<open>A store with one account\<close>

definition toy_mac :: hmac where "toy_mac k s = k @ s"

definition toy_bytes :: "char \<Rightarrow> entropy" where "toy_bytes c = Some (\<lambda>_. c)"

definition toy_hex :: "nat \<Rightarrow> char \<Rightarrow> string" where "toy_hex n c = hex_encode (map (\<lambda>_. c) [0..<n])"

lemma newOpaqueHex_toy [simp]: "newOpaqueHex n (toy_bytes c) = Inr (toy_hex n c)"
  by (simp add: newOpaqueHex_def toy_bytes_def rand_hex_def toy_hex_def)

lemma toy_hex_inj [simp]: "0 < n \<Longrightarrow> toy_hex n c = toy_hex n d \<longleftrightarrow> c = d"
  by (auto simp: toy_hex_def hex_encode_inj)

lemma toy_account:
  obtains st rcd a where "sa_reach toy_mac ''pepper'' st" "SAStore_tokens st = [toy_hex 8 (CHR ''b'') \<mapsto> rcd]"
    "Token_ServiceAccountID (tokenRecord_token rcd) = toy_hex 16 (CHR ''a'')"
    "tokenRecord_secretHash rcd = hashSecret toy_mac (toy_hex 32 (CHR ''s'')) ''pepper''"
    "Token_RevokedAt (tokenRecord_token rcd) = None" "0 \<le> Token_ExpiresAt (tokenRecord_token rcd)"
    "SAStore_accounts st (toy_hex 16 (CHR ''a'')) = Some a" "ServiceAccount_DisabledAt a = None"
    "ServiceAccount_SiteID a = ''site''"
proof -
  let ?op = "CreateAccount toy_mac ''pepper'' (toy_bytes (CHR ''a'')) (toy_bytes (CHR ''b'')) (toy_bytes (CHR ''s''))
      0 0 ''org'' ''site'' ''ci'' SiteRoleViewer 0 NewSAStore"
  have "fresh_account (toy_bytes (CHR ''a'')) NewSAStore" "fresh_token (toy_bytes (CHR ''b'')) NewSAStore"
    by (simp_all add: fresh_account_def fresh_token_def NewSAStore_def)
  then have "sa_step toy_mac ''pepper'' NewSAStore (snd ?op)"
    by (rule sa_step.create) (rule prod.collapse [symmetric])
  then have "sa_reach toy_mac ''pepper'' (snd ?op)" by (rule r_into_rtranclp)
  then show thesis
    by (rule that [where rcd = "the (SAStore_tokens (snd ?op) (toy_hex 8 (CHR ''b'')))"
          and a = "the (SAStore_accounts (snd ?op) (toy_hex 16 (CHR ''a'')))"])
      (simp_all add: CreateAccount_def issueToken_def defaultExpiryDays_def maxExpiryDays_def Let_def
        SA_CreateAccount_def CreateToken_def NewSAStore_def add_days_def duration_simps)
qed

text \<open>
  When a service account token is accepted. A presented token is accepted exactly when it
  is the prefix, an identifier without underscore, an underscore and a secret, the keyed
  hash of the secret is the one stored under that identifier, the token is neither revoked
  nor expired and its account is not disabled; only the time and address of its last use
  change then, and a refusal changes nothing. An unknown identifier and a wrong secret are
  answered alike.
\<close>

theorem service_token_decision:
  assumes "sa_reach mac pepper st"
  shows "(SA_Validate mac pepper now1 now2 presented ip st = (Inr account, st1) \<longleftrightarrow>
      (\<exists>i secret r. presented = TokenPrefix @ i @ ''_'' @ secret \<and> i \<noteq> [] \<and> secret \<noteq> [] \<and> CHR ''_'' \<notin> set i
         \<and> SAStore_tokens st i = Some r \<and> hashSecret mac secret pepper = tokenRecord_secretHash r
         \<and> Token_RevokedAt (tokenRecord_token r) = None \<and> now1 \<le> Token_ExpiresAt (tokenRecord_token r)
         \<and> SAStore_accounts st (Token_ServiceAccountID (tokenRecord_token r)) = Some account
         \<and> ServiceAccount_DisabledAt account = None
         \<and> st1 = st\<lparr>SAStore_tokens := (SAStore_tokens st)(i \<mapsto> r\<lparr>tokenRecord_token := (tokenRecord_token r)
               \<lparr>Token_LastUsedAt := Some now2, Token_LastUsedIP := ip\<rparr>\<rparr>)\<rparr>))
    \<and> (SA_Validate mac pepper now1 now2 presented ip st = (Inl e, st1) \<longrightarrow> st1 = st)
    \<and> (ParseToken presented = Some (i, secret) \<and>
        (SAStore_tokens st i = None
          \<or> (\<exists>r. SAStore_tokens st i = Some r \<and> hashSecret mac secret pepper \<noteq> tokenRecord_secretHash r)) \<longrightarrow>
       SA_Validate mac pepper now1 now2 presented ip st = (Inl ErrSATokenNotFound, st))"
    (is "(?lhs \<longleftrightarrow> ?rhs) \<and> ?refuse \<and> ?same")
proof (intro conjI)
  have inv: "sa_inv st" using assms by (rule sa_reach_inv)
  show "?lhs \<longleftrightarrow> ?rhs"
  proof
    assume ?lhs
    with inv show ?rhs
    proof (cases rule: SA_Validate_cases)
      case (accepted i secret r a)
      then show ?rhs
        unfolding ParseToken_iff by (auto simp: TouchToken_def update_token_def)
    qed simp
  next
    assume ?rhs
    then obtain i secret r where r: "ParseToken presented = Some (i, secret)" "SAStore_tokens st i = Some r"
      "hashSecret mac secret pepper = tokenRecord_secretHash r"
      "Token_RevokedAt (tokenRecord_token r) = None" "now1 \<le> Token_ExpiresAt (tokenRecord_token r)"
      "SAStore_accounts st (Token_ServiceAccountID (tokenRecord_token r)) = Some account"
      "ServiceAccount_DisabledAt account = None"
      "st1 = st\<lparr>SAStore_tokens := (SAStore_tokens st)(i \<mapsto> r\<lparr>tokenRecord_token := (tokenRecord_token r)
               \<lparr>Token_LastUsedAt := Some now2, Token_LastUsedIP := ip\<rparr>\<rparr>)\<rparr>"
      unfolding ParseToken_iff by blast
    moreover have "Token_ID (tokenRecord_token r) = i" using inv r(2) unfolding sa_inv_def by blast
    ultimately show ?lhs
      by (simp add: SA_Validate_def TokenByID_def AccountByID_def TouchToken_def update_token_def)
  qed
  show ?refuse
  proof
    assume "SA_Validate mac pepper now1 now2 presented ip st = (Inl e, st1)"
    with inv show "st1 = st" by (cases rule: SA_Validate_cases) simp_all
  qed
  show ?same by (auto simp: SA_Validate_def TokenByID_def)
qed

text \<open>The three ways in which a token ends, and what a rotation leaves and issues.\<close>

lemma ended_token_dead:
  assumes tok: "SAStore_tokens st i = Some r" and acct: "acct = Token_ServiceAccountID (tokenRecord_token r)"
    and op: "(\<exists>now site. RevokeToken now site i st = (Inr (), st1))
      \<or> (\<exists>now1 now2 site. DisableAccount now1 now2 site acct st = (Inr (), st1))
      \<or> fresh_token r1 st \<and> RotateToken mac pepper r1 r2 at1 at2 site acct days st = (Inr fresh, st1)"
  shows "token_dead now st1 i"
proof -
  have revoked_all: "\<exists>s. SAStore_tokens (RevokeActiveTokensForAccount acct tm st) i = Some s
      \<and> Token_RevokedAt (tokenRecord_token s) \<noteq> None" for tm
    using tok by (simp add: RevokeActiveTokensForAccount_def acct)
  from op show ?thesis
  proof (elim disjE exE conjE)
    fix tm site assume "RevokeToken tm site i st = (Inr (), st1)"
    then have "SA_RevokeToken i tm st = (Inr (), st1)"
      using tok by (auto simp: RevokeToken_def TokenByID_def split: sum.splits if_splits)
    then show ?thesis using tok by (auto simp: SA_RevokeToken_def update_token_def token_dead_def)
  next
    fix tm1 tm2 site assume "DisableAccount tm1 tm2 site acct st = (Inr (), st1)"
    then have "SA_DisableAccount acct tm2 (RevokeActiveTokensForAccount acct tm1 st) = (Inr (), st1)"
      by (auto simp: DisableAccount_def split: sum.splits if_splits)
    then have "SAStore_tokens st1 i = SAStore_tokens (RevokeActiveTokensForAccount acct tm1 st) i"
      by (auto simp: SA_DisableAccount_def split: option.splits)
    then show ?thesis using revoked_all [of tm1] by (auto simp: token_dead_def)
  next
    assume new: "fresh_token r1 st" and rot: "RotateToken mac pepper r1 r2 at1 at2 site acct days st = (Inr fresh, st1)"
    from rot show ?thesis
    proof (cases rule: RotateToken_cases)
      case (issue a)
      from issue(3) show ?thesis
      proof (cases rule: issueToken_cases)
        case (issued j secret token d)
        then have "j \<noteq> i" using new tok by (auto simp: fresh_token_def)
        then have "SAStore_tokens st1 i = SAStore_tokens (RevokeActiveTokensForAccount acct at1 st) i"
          using issued(4,11) by (simp add: CreateToken_def)
        then show ?thesis using revoked_all [of at1] by (auto simp: token_dead_def)
      qed simp
    qed simp
  qed
qed

definition expiry_days :: "int \<Rightarrow> int" where
  "expiry_days days = (if days = 0 then 90 else days)"

text \<open>What a rotation leaves behind: the old tokens of other accounts and one new token.\<close>

lemma rotation_issues:
  assumes rot: "RotateToken mac pepper r1 r2 at1 at2 site acct days st = (Inr fresh, st1)" and new: "fresh_token r1 st"
  obtains k secret rcd where "ParseToken fresh = Some (k, secret)" "SAStore_tokens st1 k = Some rcd"
    "tokenRecord_secretHash rcd = hashSecret mac secret pepper" "Token_ID (tokenRecord_token rcd) = k"
    "Token_ServiceAccountID (tokenRecord_token rcd) = acct" "Token_RevokedAt (tokenRecord_token rcd) = None"
    "Token_ExpiresAt (tokenRecord_token rcd) = add_days at2 (expiry_days days)"
    "1 \<le> expiry_days days" "expiry_days days \<le> 365" "SAStore_accounts st1 = SAStore_accounts st"
    "\<forall>j s. SAStore_tokens st j = Some s \<and> Token_ServiceAccountID (tokenRecord_token s) \<noteq> acct \<longrightarrow> SAStore_tokens st1 j = Some s"
proof -
  from rot show thesis
  proof (cases rule: RotateToken_cases)
    case (issue a)
    from issue(3) show thesis
    proof (cases rule: issueToken_cases)
      case (issued k secret token d)
      have unused: "SAStore_tokens st k = None" using new issued(1) by (simp add: fresh_token_def)
      have d: "d = expiry_days days" using issued(10) by (simp add: expiry_days_def defaultExpiryDays_def)
      show thesis
      proof (rule that [where k = k and secret = secret and
            rcd = "\<lparr>tokenRecord_token = token, tokenRecord_secretHash = hashSecret mac secret pepper\<rparr>"])
        show "ParseToken fresh = Some (k, secret)" using ParseToken_issued [OF issued(1,2)] issued(3) by simp
        show "\<forall>j s. SAStore_tokens st j = Some s \<and> Token_ServiceAccountID (tokenRecord_token s) \<noteq> acct \<longrightarrow> SAStore_tokens st1 j = Some s"
          using unused issued(4,11) by (auto simp: CreateToken_def RevokeActiveTokensForAccount_def)
      qed (use issued(4-11) d in \<open>simp_all add: CreateToken_def RevokeActiveTokensForAccount_def maxExpiryDays_def\<close>)
    qed simp
  qed simp
qed

lemma refused_later:
  assumes "sa_inv st1" and "token_dead now1 st1 i" and "rtranclp (sa_step mac pepper) st1 st2" and "ParseToken presented = Some (i, secret)"
  shows "\<exists>e. SA_Validate mac pepper now1 now2 presented ip st2 = (Inl e, st2)"
proof -
  have "\<not> token_accepted mac pepper now1 st2 i"
    by (rule service_tokens.refused_forever [OF assms(3,1,2)])
  then have "SA_Validate mac pepper now1 now2 presented ip st2 \<noteq> (Inr a, st3)" for a st3
    using assms(4) unfolding token_accepted_def by blast
  moreover have "sa_inv st2" by (rule service_tokens.inv_steps [OF assms(3,1)])
  ultimately show ?thesis
    by (cases "SA_Validate mac pepper now1 now2 presented ip st2") (elim SA_Validate_cases, auto)
qed

text \<open>
  C37. Ending service account tokens. After a token was revoked, its account disabled, or its
  account's token rotated, no presented token with that identifier is accepted any more, in
  any store later operations lead to and at any time. A rotation (with a new random token id)
  leaves the tokens of other accounts alone. The token it returns expires after exactly the days
  asked for, 90 when none are given and never less than 1 or more than 365: it is accepted up to
  that time if the account is not disabled, and refused after it, or if the account is disabled
  (which a rotation does not look at), whatever operations come in between.
\<close>

theorem service_token_ended:
  assumes "sa_reach mac pepper st" and "SAStore_tokens st i = Some r"
    and "acct = Token_ServiceAccountID (tokenRecord_token r)"
    and "(\<exists>now site. RevokeToken now site i st = (Inr (), st1))
      \<or> (\<exists>now1 now2 site. DisableAccount now1 now2 site acct st = (Inr (), st1))
      \<or> fresh_token r1 st \<and> RotateToken mac pepper r1 r2 at1 at2 site acct days st = (Inr fresh, st1)"
  shows "(\<forall>st2 presented secret now1 now2 ip. rtranclp (sa_step mac pepper) st1 st2 \<longrightarrow>
        ParseToken presented = Some (i, secret) \<longrightarrow>
        (\<exists>e. SA_Validate mac pepper now1 now2 presented ip st2 = (Inl e, st2)))
    \<and> (fresh_token r1 st \<and> RotateToken mac pepper r1 r2 at1 at2 site acct days st = (Inr fresh, st1) \<longrightarrow>
        1 \<le> expiry_days days \<and> expiry_days days \<le> 365
        \<and> (\<forall>j s. SAStore_tokens st j = Some s \<and> Token_ServiceAccountID (tokenRecord_token s) \<noteq> acct \<longrightarrow> SAStore_tokens st1 j = Some s)
        \<and> (\<forall>now ip a. SAStore_accounts st acct = Some a \<and> ServiceAccount_DisabledAt a = None
             \<and> now \<le> add_days at2 (expiry_days days) \<longrightarrow> fst (SA_Validate mac pepper now now fresh ip st1) = Inr a)
        \<and> (\<forall>st2 now1 now2 ip. rtranclp (sa_step mac pepper) st1 st2
             \<and> (add_days at2 (expiry_days days) < now1
                \<or> (\<exists>a. SAStore_accounts st acct = Some a \<and> ServiceAccount_DisabledAt a \<noteq> None)) \<longrightarrow>
             (\<exists>e. SA_Validate mac pepper now1 now2 fresh ip st2 = (Inl e, st2))))"
proof (intro conjI impI)
  have inv1: "sa_inv st1"
    using assms(4) sa_reach_inv [OF assms(1)] RevokeToken_changes DisableAccount_changes RotateToken_changes sa_inv_changes by metis
  then show "\<forall>st2 presented secret now1 now2 ip. rtranclp (sa_step mac pepper) st1 st2 \<longrightarrow>
        ParseToken presented = Some (i, secret) \<longrightarrow> (\<exists>e. SA_Validate mac pepper now1 now2 presented ip st2 = (Inl e, st2))"
    using refused_later ended_token_dead [OF assms(2,3,4)] by blast
  assume rot: "fresh_token r1 st \<and> RotateToken mac pepper r1 r2 at1 at2 site acct days st = (Inr fresh, st1)"
  obtain k secret rcd where k: "ParseToken fresh = Some (k, secret)" "SAStore_tokens st1 k = Some rcd"
    "tokenRecord_secretHash rcd = hashSecret mac secret pepper" "Token_ID (tokenRecord_token rcd) = k"
    "Token_ServiceAccountID (tokenRecord_token rcd) = acct" "Token_RevokedAt (tokenRecord_token rcd) = None"
    "Token_ExpiresAt (tokenRecord_token rcd) = add_days at2 (expiry_days days)"
    and d: "1 \<le> expiry_days days" "expiry_days days \<le> 365" and accounts: "SAStore_accounts st1 = SAStore_accounts st"
    and others: "\<forall>j s. SAStore_tokens st j = Some s \<and> Token_ServiceAccountID (tokenRecord_token s) \<noteq> acct \<longrightarrow> SAStore_tokens st1 j = Some s"
    by (rule rotation_issues [OF rot [THEN conjunct2] rot [THEN conjunct1]])
  show "1 \<le> expiry_days days" "expiry_days days \<le> 365" by (rule d)+
  show "\<forall>j s. SAStore_tokens st j = Some s \<and> Token_ServiceAccountID (tokenRecord_token s) \<noteq> acct \<longrightarrow> SAStore_tokens st1 j = Some s"
    by (rule others)
  show "\<forall>now ip a. SAStore_accounts st acct = Some a \<and> ServiceAccount_DisabledAt a = None
             \<and> now \<le> add_days at2 (expiry_days days) \<longrightarrow> fst (SA_Validate mac pepper now now fresh ip st1) = Inr a"
    using k accounts by (auto simp: SA_Validate_def TokenByID_def AccountByID_def TouchToken_def update_token_def)
  show "\<forall>st2 now1 now2 ip. rtranclp (sa_step mac pepper) st1 st2
             \<and> (add_days at2 (expiry_days days) < now1
                \<or> (\<exists>a. SAStore_accounts st acct = Some a \<and> ServiceAccount_DisabledAt a \<noteq> None)) \<longrightarrow>
             (\<exists>e. SA_Validate mac pepper now1 now2 fresh ip st2 = (Inl e, st2))"
    using refused_later [OF inv1 _ _ k(1)] k(2,5,7) accounts unfolding token_dead_def by metis
qed

theorem service_token_decision_witness:
  "\<exists>st account st1. SA_Validate toy_mac ''pepper'' 0 0
       (TokenPrefix @ toy_hex 8 (CHR ''b'') @ ''_'' @ toy_hex 32 (CHR ''s'')) ''::1'' st = (Inr account, st1)"
proof -
  obtain st rcd a where st: "sa_reach toy_mac ''pepper'' st" "SAStore_tokens st = [toy_hex 8 (CHR ''b'') \<mapsto> rcd]"
    "Token_ServiceAccountID (tokenRecord_token rcd) = toy_hex 16 (CHR ''a'')"
    "tokenRecord_secretHash rcd = hashSecret toy_mac (toy_hex 32 (CHR ''s'')) ''pepper''"
    "Token_RevokedAt (tokenRecord_token rcd) = None" "0 \<le> Token_ExpiresAt (tokenRecord_token rcd)"
    "SAStore_accounts st (toy_hex 16 (CHR ''a'')) = Some a" "ServiceAccount_DisabledAt a = None"
    "ServiceAccount_SiteID a = ''site''" using toy_account .
  have ids: "newOpaqueHex 8 (toy_bytes (CHR ''b'')) = Inr (toy_hex 8 (CHR ''b''))"
    "newOpaqueHex 32 (toy_bytes (CHR ''s'')) = Inr (toy_hex 32 (CHR ''s''))" by simp_all
  note parsed = ParseToken_issued [OF ids, unfolded ParseToken_iff]
  show ?thesis
    by (intro exI, rule service_token_decision [OF st(1), THEN conjunct1, THEN iffD2], intro exI conjI, rule refl)
      (use parsed st in auto)
qed

theorem service_token_ended_witness:
  "\<exists>st st1 fresh. RotateToken toy_mac ''pepper'' (toy_bytes (CHR ''c'')) (toy_bytes (CHR ''t'')) 0 0 ''site''
       (toy_hex 16 (CHR ''a'')) 30 st = (Inr fresh, st1)
     \<and> (\<exists>e. SA_Validate toy_mac ''pepper'' 0 0
          (TokenPrefix @ toy_hex 8 (CHR ''b'') @ ''_'' @ toy_hex 32 (CHR ''s'')) ''::1'' st1 = (Inl e, st1))
     \<and> (\<exists>a. fst (SA_Validate toy_mac ''pepper'' 0 0 fresh ''::1'' st1) = Inr a)
     \<and> (\<exists>e. SA_Validate toy_mac ''pepper'' (31 * 24 * hour) 0 fresh ''::1'' st1 = (Inl e, st1))"
proof -
  obtain st rcd a where st: "sa_reach toy_mac ''pepper'' st" "SAStore_tokens st = [toy_hex 8 (CHR ''b'') \<mapsto> rcd]"
    "Token_ServiceAccountID (tokenRecord_token rcd) = toy_hex 16 (CHR ''a'')"
    "SAStore_accounts st (toy_hex 16 (CHR ''a'')) = Some a" "ServiceAccount_DisabledAt a = None"
    "ServiceAccount_SiteID a = ''site''" using toy_account by blast
  let ?op = "RotateToken toy_mac ''pepper'' (toy_bytes (CHR ''c'')) (toy_bytes (CHR ''t'')) 0 0 ''site''
       (toy_hex 16 (CHR ''a'')) 30 st"
  have "\<exists>fresh st1. ?op = (Inr fresh, st1)"
    by (simp add: RotateToken_def AccountByID_def st issueToken_def maxExpiryDays_def Let_def)
  then obtain fresh st1 where op: "?op = (Inr fresh, st1)" by blast
  have old: "SAStore_tokens st (toy_hex 8 (CHR ''b'')) = Some rcd" by (simp add: st(2))
  have unused: "fresh_token (toy_bytes (CHR ''c'')) st" by (simp add: fresh_token_def st(2))
  have rotation: "fresh_token (toy_bytes (CHR ''c'')) st \<and> RotateToken toy_mac ''pepper'' (toy_bytes (CHR ''c''))
      (toy_bytes (CHR ''t'')) 0 0 ''site'' (Token_ServiceAccountID (tokenRecord_token rcd)) 30 st = (Inr fresh, st1)"
    using unused op by (simp add: st(3))
  note ended = service_token_ended [OF st(1) old refl disjI2 [OF disjI2 [OF rotation]]]
  have ids: "newOpaqueHex 8 (toy_bytes (CHR ''b'')) = Inr (toy_hex 8 (CHR ''b''))"
    "newOpaqueHex 32 (toy_bytes (CHR ''s'')) = Inr (toy_hex 32 (CHR ''s''))" by simp_all
  have "\<exists>e. SA_Validate toy_mac ''pepper'' 0 0
          (TokenPrefix @ toy_hex 8 (CHR ''b'') @ ''_'' @ toy_hex 32 (CHR ''s'')) ''::1'' st1 = (Inl e, st1)"
    using ended [THEN conjunct1] ParseToken_issued [OF ids] by blast
  moreover have "0 \<le> add_days 0 (expiry_days 30)" by (simp add: expiry_days_def add_days_def duration_simps)
  then have "fst (SA_Validate toy_mac ''pepper'' 0 0 fresh ''::1'' st1) = Inr a"
    using ended [THEN conjunct2, rule_format, OF rotation] st(3-5) by simp
  moreover have "\<exists>e. SA_Validate toy_mac ''pepper'' (31 * 24 * hour) 0 fresh ''::1'' st1 = (Inl e, st1)"
    by (rule ended [THEN conjunct2, THEN mp, OF rotation, THEN conjunct2, THEN conjunct2, THEN conjunct2, THEN conjunct2, rule_format])
      (simp add: expiry_days_def add_days_def duration_simps)
  ultimately show ?thesis using op by blast
qed

end
