(* ===== verification/Enrollment.thy ===== *)
theory Enrollment
  imports Tenancy
begin

text \<open>
  \<open>internal/enrollment/authority.go\<close>: the certificate authority of the agents. A single-use
  bootstrap token enrolls one agent; its certificate carries the agent's identifier in a
  SPIFFE address and is checked on every call. Certificates are records of the fields the
  code reads and writes; encoding, parsing, signing and the verification of a chain are the
  functions of the record \<open>X509\<close>, and \<open>x509_ok\<close> states what the code relies on.
\<close>

section \<open>Certificates\<close>

record URL =
  URL_Scheme :: string
  URL_Host :: string
  URL_Path :: string

record Certificate =
  Certificate_SerialNumber :: int
  Certificate_CommonName :: string
  Certificate_Organization :: "string list"
  Certificate_OrganizationalUnit :: "string list"
  Certificate_URIs :: "URL list"
  Certificate_NotBefore :: time
  Certificate_NotAfter :: time
  Certificate_ClientAuth :: bool
  Certificate_IsCA :: bool
  Certificate_PublicKey :: string

text \<open>
  \<open>pem.EncodeToMemory\<close> and \<open>pem.Decode\<close> (type and bytes), \<open>ParseCertificateRequest\<close> (the
  public key of the request), \<open>CheckSignature\<close>, \<open>CreateCertificate\<close> (template, parent, public
  key, signing key), \<open>ParseCertificate\<close>, the private key encodings, the public key of a
  private key, \<open>url.Parse\<close>, \<open>AddDate\<close> for years, and \<open>Verify\<close> for client authentication
  (root, current time, certificate).
\<close>

record X509 =
  X509_pem_encode :: "string \<Rightarrow> string \<Rightarrow> string"
  X509_pem_decode :: "string \<Rightarrow> (string \<times> string) option"
  X509_parse_request :: "string \<Rightarrow> string option"
  X509_check_signature :: "string \<Rightarrow> bool"
  X509_create :: "Certificate \<Rightarrow> Certificate \<Rightarrow> string \<Rightarrow> string \<Rightarrow> string res"
  X509_parse :: "string \<Rightarrow> Certificate option"
  X509_marshal_key :: "string \<Rightarrow> string res"
  X509_parse_key :: "string \<Rightarrow> string option"
  X509_public :: "string \<Rightarrow> string"
  X509_url_parse :: "string \<Rightarrow> URL res"
  X509_add_years :: "time \<Rightarrow> int \<Rightarrow> time"
  X509_verify :: "Certificate \<Rightarrow> time \<Rightarrow> Certificate \<Rightarrow> bool"

definition spiffe_url :: "string \<Rightarrow> URL" where
  "spiffe_url agentID = \<lparr>URL_Scheme = ''spiffe'', URL_Host = ''bazusop'', URL_Path = ''/agent/'' @ agentID\<rparr>"

text \<open>
  What a certificate keeps of its template: the times are stored in whole seconds.
\<close>

definition stored_certificate :: "Certificate \<Rightarrow> string \<Rightarrow> Certificate" where
  "stored_certificate template pub =
     template\<lparr>Certificate_PublicKey := pub,
       Certificate_NotBefore := Certificate_NotBefore template - Certificate_NotBefore template mod second,
       Certificate_NotAfter := Certificate_NotAfter template - Certificate_NotAfter template mod second\<rparr>"

definition valid_at :: "Certificate \<Rightarrow> time \<Rightarrow> bool" where
  "valid_at certificate tm \<longleftrightarrow> Certificate_NotBefore certificate \<le> tm \<and> tm \<le> Certificate_NotAfter certificate"

text \<open>
  Decoding undoes encoding, a created certificate reads back as what it stores, and one
  created under a root for client authentication verifies against that root exactly while
  both are valid.
\<close>

definition x509_ok :: "X509 \<Rightarrow> bool" where
  "x509_ok x \<longleftrightarrow>
     (\<forall>t b. X509_pem_decode x (X509_pem_encode x t b) = Some (t, b))
     \<and> (\<forall>k b. X509_marshal_key x k = Inr b \<longrightarrow> X509_parse_key x b = Some k)
     \<and> (\<forall>template parent pub key der. X509_create x template parent pub key = Inr der \<longrightarrow>
          X509_parse x der = Some (stored_certificate template pub))
     \<and> (\<forall>agentID. hex32_pattern agentID \<longrightarrow>
          X509_url_parse x (''spiffe://bazusop/agent/'' @ agentID) = Inr (spiffe_url agentID))
     \<and> (\<forall>template root pub key der tm. X509_create x template root pub key = Inr der \<longrightarrow>
          Certificate_IsCA root \<longrightarrow> Certificate_PublicKey root = X509_public x key \<longrightarrow>
          Certificate_ClientAuth template \<longrightarrow>
          X509_verify x root tm (stored_certificate template pub)
            = (valid_at (stored_certificate template pub) tm \<and> valid_at root tm))"

section \<open>Requests and helpers\<close>

record EnrollRequest =
  EnrollRequest_BootstrapToken :: string
  EnrollRequest_Name :: string
  EnrollRequest_OperatingSystem :: string
  EnrollRequest_CSRPEM :: string

record AgentIdentity =
  AgentIdentity_AgentID :: string
  AgentIdentity_CertificatePEM :: string
  AgentIdentity_CACertificatePEM :: string
  AgentIdentity_ExpiresAt :: time

record AuthorityState =
  AuthorityState_CertificatePEM :: string
  AuthorityState_PrivateKeyPEM :: string

record Authority =
  Authority_caCertificate :: Certificate
  Authority_caPrivateKey :: string
  Authority_caPEM :: string

definition certificateLifetime :: duration where "certificateLifetime = 24 * hour"

definition validateBootstrapToken :: "string \<Rightarrow> err option" where
  "validateBootstrapToken token = (if trim_space token = [] then Some ErrInvalidToken else None)"

definition GenerateBootstrapToken :: "entropy \<Rightarrow> string res" where
  "GenerateBootstrapToken r = (case r of
     None \<Rightarrow> Inl (ErrOther ''generate bootstrap token'')
   | Some f \<Rightarrow> Inr (b64_raw_encode b64url_digit (map f [0..<32])))"

definition parseCSR :: "X509 \<Rightarrow> string \<Rightarrow> string res" where
  "parseCSR x csrPEM =
     (case X509_pem_decode x csrPEM of
        None \<Rightarrow> Inl ErrInvalidRequest
      | Some (ty, bytes) \<Rightarrow>
          if ty \<noteq> ''CERTIFICATE REQUEST'' then Inl ErrInvalidRequest
          else (case X509_parse_request x bytes of
              None \<Rightarrow> Inl ErrInvalidRequest
            | Some pub \<Rightarrow> if \<not> X509_check_signature x bytes then Inl ErrInvalidRequest else Inr pub))"

definition supportedOS :: "(string \<Rightarrow> string) \<Rightarrow> string \<Rightarrow> bool" where
  "supportedOS uni s \<longleftrightarrow> to_lower uni (trim_space s) \<in> {''linux'', ''windows''}"

definition trim_slash :: "string \<Rightarrow> string" where
  "trim_slash s = rev (dropWhile ((=) (CHR ''/'')) (rev (dropWhile ((=) (CHR ''/'')) s)))"

fun agent_of_urls :: "URL list \<Rightarrow> string" where
  "agent_of_urls [] = []"
| "agent_of_urls (u # us) =
     (if URL_Scheme u = ''spiffe'' \<and> URL_Host u = ''bazusop''
      then case split_on (CHR ''/'') (trim_slash (URL_Path u)) of
          [p, q] \<Rightarrow> if p = ''agent'' \<and> q \<noteq> [] then q else agent_of_urls us
        | _ \<Rightarrow> agent_of_urls us
      else agent_of_urls us)"

definition agentIDFromCertificate :: "Certificate \<Rightarrow> string" where
  "agentIDFromCertificate certificate = agent_of_urls (Certificate_URIs certificate)"

definition randomAgentID :: "entropy \<Rightarrow> string res" where
  "randomAgentID r = rand_hex 16 r"

definition encodeCertificate :: "X509 \<Rightarrow> string \<Rightarrow> string" where
  "encodeCertificate x der = X509_pem_encode x ''CERTIFICATE'' der"

section \<open>The authority\<close>

text \<open>Arguments: the key pair and the serial number that were generated, and the time.\<close>

definition ca_template :: "X509 \<Rightarrow> int \<Rightarrow> time \<Rightarrow> Certificate" where
  "ca_template x serial now =
     \<lparr>Certificate_SerialNumber = serial, Certificate_CommonName = ''bazUSOP Agent CA'',
      Certificate_Organization = [''bazUSOP''], Certificate_OrganizationalUnit = [], Certificate_URIs = [],
      Certificate_NotBefore = now - minute, Certificate_NotAfter = X509_add_years x now 10,
      Certificate_ClientAuth = False, Certificate_IsCA = True, Certificate_PublicKey = []\<rparr>"

definition generateAuthorityState ::
  "X509 \<Rightarrow> (string \<times> string) res \<Rightarrow> time \<Rightarrow> int res \<Rightarrow> AuthorityState res" where
  "generateAuthorityState x keypair now serial =
     (case keypair of
        Inl e \<Rightarrow> Inl (ErrOther ''generate CA key'')
      | Inr (publicKey, privateKey) \<Rightarrow>
          (case serial of
             Inl e \<Rightarrow> Inl (ErrOther ''generate CA serial'')
           | Inr n \<Rightarrow>
               let template = ca_template x n now in
               (case X509_create x template template publicKey privateKey of
                  Inl e \<Rightarrow> Inl (ErrOther ''create CA certificate'')
                | Inr der \<Rightarrow>
                    (case X509_marshal_key x privateKey of
                       Inl e \<Rightarrow> Inl (ErrOther ''encode CA private key'')
                     | Inr privateDER \<Rightarrow>
                         Inr \<lparr>AuthorityState_CertificatePEM = encodeCertificate x der,
                              AuthorityState_PrivateKeyPEM = X509_pem_encode x ''PRIVATE KEY'' privateDER\<rparr>))))"

definition authorityFromState :: "X509 \<Rightarrow> AuthorityState \<Rightarrow> Authority res" where
  "authorityFromState x state =
     (case (X509_pem_decode x (AuthorityState_CertificatePEM state),
            X509_pem_decode x (AuthorityState_PrivateKeyPEM state)) of
        (Some (ct, cb), Some (kt, kb)) \<Rightarrow>
          if ct \<noteq> ''CERTIFICATE'' \<or> kt \<noteq> ''PRIVATE KEY''
          then Inl (ErrOther ''stored enrollment authority is invalid'')
          else (case X509_parse x cb of
              None \<Rightarrow> Inl (ErrOther ''stored enrollment CA certificate is invalid'')
            | Some certificate \<Rightarrow>
                if \<not> Certificate_IsCA certificate
                then Inl (ErrOther ''stored enrollment CA certificate is invalid'')
                else (case X509_parse_key x kb of
                    None \<Rightarrow> Inl (ErrOther ''stored enrollment CA private key is invalid'')
                  | Some privateKey \<Rightarrow>
                      if Certificate_PublicKey certificate \<noteq> X509_public x privateKey
                      then Inl (ErrOther ''stored enrollment CA key does not match certificate'')
                      else Inr \<lparr>Authority_caCertificate = certificate, Authority_caPrivateKey = privateKey,
                                Authority_caPEM = AuthorityState_CertificatePEM state\<rparr>))
      | _ \<Rightarrow> Inl (ErrOther ''stored enrollment authority is invalid''))"

section \<open>The tokens\<close>

record TokenStore =
  TokenStore_bootstrapHash :: string
  TokenStore_consumed :: bool
  TokenStore_agents :: "string \<rightharpoonup> Agent"

definition ConsumeEnrollmentToken :: "string \<Rightarrow> string \<Rightarrow> TokenStore \<Rightarrow> (Agent, TokenStore) op" where
  "ConsumeEnrollmentToken providedHash agentID st =
     (if providedHash \<noteq> TokenStore_bootstrapHash st then (Inl ErrInvalidToken, st)
      else if TokenStore_consumed st then (Inl ErrTokenConsumed, st)
      else
        let agent = \<lparr>Agent_ID = agentID, Agent_OrganizationID = Scope_OrganizationID DefaultScope,
                     Agent_SiteID = Scope_SiteID DefaultScope\<rparr>
        in (Inr agent, st\<lparr>TokenStore_agents := (TokenStore_agents st)(agentID \<mapsto> agent),
                          TokenStore_consumed := True\<rparr>))"

definition ResolveAgent :: "string \<Rightarrow> TokenStore \<Rightarrow> Agent res" where
  "ResolveAgent agentID st =
     (case TokenStore_agents st agentID of None \<Rightarrow> Inl ErrTenancyNotFound | Some agent \<Rightarrow> Inr agent)"

definition NewAuthority ::
  "X509 \<Rightarrow> (string \<Rightarrow> string) \<Rightarrow> (string \<times> string) res \<Rightarrow> time \<Rightarrow> int res \<Rightarrow> string \<Rightarrow> (Authority \<times> TokenStore) res" where
  "NewAuthority x sha keypair now serial bootstrapToken =
     (case validateBootstrapToken bootstrapToken of
        Some e \<Rightarrow> Inl e
      | None \<Rightarrow>
          (case generateAuthorityState x keypair now serial of
             Inl e \<Rightarrow> Inl e
           | Inr state \<Rightarrow>
               (case authorityFromState x state of
                  Inl e \<Rightarrow> Inl e
                | Inr authority \<Rightarrow>
                    Inr (authority, \<lparr>TokenStore_bootstrapHash = sha bootstrapToken, TokenStore_consumed = False,
                                     TokenStore_agents = Map.empty\<rparr>))))"

section \<open>Enrolling, authenticating and renewing\<close>

definition agent_template :: "URL \<Rightarrow> int \<Rightarrow> time \<Rightarrow> string \<Rightarrow> string \<Rightarrow> Certificate" where
  "agent_template identityURL serial now agentID operatingSystem =
     \<lparr>Certificate_SerialNumber = serial, Certificate_CommonName = ''bazusop-agent-'' @ agentID,
      Certificate_Organization = [''bazUSOP Agents''], Certificate_OrganizationalUnit = [operatingSystem],
      Certificate_URIs = [identityURL], Certificate_NotBefore = now - minute,
      Certificate_NotAfter = now + certificateLifetime, Certificate_ClientAuth = True,
      Certificate_IsCA = False, Certificate_PublicKey = []\<rparr>"

definition issue ::
  "X509 \<Rightarrow> Authority \<Rightarrow> time \<Rightarrow> int res \<Rightarrow> string \<Rightarrow> string \<Rightarrow> string \<Rightarrow> AgentIdentity res" where
  "issue x authority now serial agentID operatingSystem csr =
     (case serial of
        Inl e \<Rightarrow> Inl (ErrOther ''generate certificate serial'')
      | Inr n \<Rightarrow>
          (case X509_url_parse x (''spiffe://bazusop/agent/'' @ agentID) of
             Inl e \<Rightarrow> Inl (ErrOther ''build agent identity'')
           | Inr identityURL \<Rightarrow>
               let template = agent_template identityURL n now agentID operatingSystem in
               (case X509_create x template (Authority_caCertificate authority) csr (Authority_caPrivateKey authority) of
                  Inl e \<Rightarrow> Inl (ErrOther ''issue agent certificate'')
                | Inr der \<Rightarrow>
                    Inr \<lparr>AgentIdentity_AgentID = agentID, AgentIdentity_CertificatePEM = encodeCertificate x der,
                         AgentIdentity_CACertificatePEM = Authority_caPEM authority,
                         AgentIdentity_ExpiresAt = Certificate_NotAfter template\<rparr>)))"

definition EnrollContext ::
  "X509 \<Rightarrow> (string \<Rightarrow> string) \<Rightarrow> (string \<Rightarrow> string) \<Rightarrow> Authority \<Rightarrow> entropy \<Rightarrow> time \<Rightarrow> int res \<Rightarrow> EnrollRequest
   \<Rightarrow> TokenStore \<Rightarrow> (AgentIdentity, TokenStore) op" where
  "EnrollContext x sha uni authority r now serial request st =
     (case parseCSR x (EnrollRequest_CSRPEM request) of
        Inl e \<Rightarrow> (Inl ErrInvalidRequest, st)
      | Inr csr \<Rightarrow>
          if trim_space (EnrollRequest_Name request) = [] \<or> \<not> supportedOS uni (EnrollRequest_OperatingSystem request)
          then (Inl ErrInvalidRequest, st)
          else (case randomAgentID r of
              Inl e \<Rightarrow> (Inl (ErrOther ''generate agent ID''), st)
            | Inr agentID \<Rightarrow>
                (case issue x authority now serial agentID (to_lower uni (EnrollRequest_OperatingSystem request)) csr of
                   Inl e \<Rightarrow> (Inl e, st)
                 | Inr identity \<Rightarrow>
                     (case ConsumeEnrollmentToken (sha (EnrollRequest_BootstrapToken request)) agentID st of
                        (Inl e, st1) \<Rightarrow> (Inl e, st1)
                      | (Inr _, st1) \<Rightarrow> (Inr identity, st1)))))"

definition Authenticate :: "X509 \<Rightarrow> Authority \<Rightarrow> time \<Rightarrow> Certificate option \<Rightarrow> string res" where
  "Authenticate x authority now peer =
     (case peer of
        None \<Rightarrow> Inl ErrInvalidIdentity
      | Some certificate \<Rightarrow>
          if \<not> X509_verify x (Authority_caCertificate authority) now certificate then Inl ErrInvalidIdentity
          else let agentID = agentIDFromCertificate certificate in
            if agentID = [] then Inl ErrInvalidIdentity else Inr agentID)"

definition AuthenticateContext ::
  "X509 \<Rightarrow> Authority \<Rightarrow> time \<Rightarrow> Certificate option \<Rightarrow> TokenStore \<Rightarrow> Agent res" where
  "AuthenticateContext x authority now peer st =
     (case Authenticate x authority now peer of
        Inl e \<Rightarrow> Inl e
      | Inr agentID \<Rightarrow>
          (case ResolveAgent agentID st of
             Inl e \<Rightarrow> Inl ErrInvalidIdentity
           | Inr agent \<Rightarrow>
               if Agent_ID agent \<noteq> agentID \<or> Agent_Validate agent \<noteq> None then Inl ErrInvalidIdentity else Inr agent))"

definition RenewContext ::
  "X509 \<Rightarrow> Authority \<Rightarrow> time \<Rightarrow> time \<Rightarrow> int res \<Rightarrow> Certificate option \<Rightarrow> string \<Rightarrow> TokenStore \<Rightarrow> AgentIdentity res" where
  "RenewContext x authority now1 now2 serial peer csrPEM st =
     (case (parseCSR x csrPEM, peer) of
        (Inr csr, Some certificate) \<Rightarrow>
          (case AuthenticateContext x authority now1 peer st of
             Inl e \<Rightarrow> Inl e
           | Inr agent \<Rightarrow>
               let operatingSystem = (if 0 < length (Certificate_OrganizationalUnit certificate)
                     then Certificate_OrganizationalUnit certificate ! 0 else ''unknown'')
               in issue x authority now2 serial (Agent_ID agent) operatingSystem csr)
      | _ \<Rightarrow> Inl ErrInvalidIdentity)"

end
