(* ===== verification/Enrollment_Properties.thy ===== *)
theory Enrollment_Properties
  imports Enrollment
begin

text \<open>
  What enrollment promises: one agent per bootstrap token, and certificates that stand for
  exactly that agent while they are valid, renewals included.
\<close>

section \<open>The identifier in a certificate\<close>

lemma hex_no_slash: "list_all is_lower_hex s \<Longrightarrow> CHR ''/'' \<notin> set s"
  by (auto simp: list_all_iff is_lower_hex_def)

lemma trim_slash_path:
  assumes "CHR ''/'' \<notin> set s" "s \<noteq> []"
  shows "trim_slash (''/agent/'' @ s) = ''agent/'' @ s"
proof -
  obtain ys y where s: "s = ys @ [y]" using assms(2) by (cases s rule: rev_cases) auto
  with assms(1) have "y \<noteq> CHR ''/''" by auto
  then show ?thesis by (simp add: trim_slash_def s)
qed

lemma agent_of_spiffe:
  assumes "hex32_pattern agentID"
  shows "agent_of_urls (spiffe_url agentID # us) = agentID"
proof -
  have plain: "CHR ''/'' \<notin> set agentID" "agentID \<noteq> []"
    using assms hex_no_slash hex32_nonempty by (auto simp: hex32_pattern_def)
  have "split_on (CHR ''/'') (''agent/'' @ agentID) = [''agent'', agentID]"
    using split_on_append [of "CHR ''/''" "''agent''" agentID] split_on_plain [OF plain(1)] by simp
  then show ?thesis using trim_slash_path [OF plain] plain(2) by (simp add: spiffe_url_def)
qed

section \<open>Certificates the authority issues\<close>

definition sound_authority :: "X509 \<Rightarrow> Authority \<Rightarrow> bool" where
  "sound_authority x authority \<longleftrightarrow>
     Certificate_IsCA (Authority_caCertificate authority)
     \<and> Certificate_PublicKey (Authority_caCertificate authority) = X509_public x (Authority_caPrivateKey authority)"

lemma authorityFromState_sound: "authorityFromState x state = Inr authority \<Longrightarrow> sound_authority x authority"
  by (auto simp: authorityFromState_def sound_authority_def split: option.splits if_splits prod.splits)

lemma NewAuthority_sound:
  assumes "NewAuthority x sha keypair now serial token = Inr (authority, st)"
  shows "sound_authority x authority" "TokenStore_bootstrapHash st = sha token" "\<not> TokenStore_consumed st"
    "TokenStore_agents st = Map.empty"
  using assms authorityFromState_sound
  by (auto simp: NewAuthority_def split: option.splits sum.splits)

text \<open>The certificate of an identity, as the peer presents it.\<close>

definition presents :: "X509 \<Rightarrow> AgentIdentity \<Rightarrow> Certificate \<Rightarrow> bool" where
  "presents x identity certificate \<longleftrightarrow>
     (\<exists>der. X509_pem_decode x (AgentIdentity_CertificatePEM identity) = Some (''CERTIFICATE'', der)
        \<and> X509_parse x der = Some certificate)"

lemma issue_Inr:
  assumes ok: "x509_ok x" and sound: "sound_authority x authority" and hex: "hex32_pattern agentID"
    and op: "issue x authority now serial agentID os csr = Inr identity"
  obtains certificate where "\<forall>c. presents x identity c \<longleftrightarrow> c = certificate"
    "AgentIdentity_AgentID identity = agentID"
    "AgentIdentity_ExpiresAt identity = now + certificateLifetime"
    "agentIDFromCertificate certificate = agentID"
    "Certificate_NotBefore certificate = now - minute - (now - minute) mod second"
    "Certificate_NotAfter certificate = now + certificateLifetime - (now + certificateLifetime) mod second"
    "Certificate_OrganizationalUnit certificate = [os]" "Certificate_PublicKey certificate = csr"
    "\<forall>tm. Authenticate x authority tm (Some certificate)
       = (if valid_at certificate tm \<and> valid_at (Authority_caCertificate authority) tm
          then Inr agentID else Inl ErrInvalidIdentity)"
proof -
  have url: "X509_url_parse x (''spiffe://bazusop/agent/'' @ agentID) = Inr (spiffe_url agentID)"
    using ok hex by (simp add: x509_ok_def)
  from op url obtain n der where der:
    "X509_create x (agent_template (spiffe_url agentID) n now agentID os) (Authority_caCertificate authority) csr
       (Authority_caPrivateKey authority) = Inr der"
    "identity = \<lparr>AgentIdentity_AgentID = agentID, AgentIdentity_CertificatePEM = encodeCertificate x der,
       AgentIdentity_CACertificatePEM = Authority_caPEM authority,
       AgentIdentity_ExpiresAt = now + certificateLifetime\<rparr>"
    by (auto simp: issue_def Let_def agent_template_def split: sum.splits)
  let ?t = "agent_template (spiffe_url agentID) n now agentID os"
  let ?c = "stored_certificate ?t csr"
  have parse: "X509_parse x der = Some ?c" using ok der(1) unfolding x509_ok_def by blast
  have pem: "X509_pem_decode x (encodeCertificate x der) = Some (''CERTIFICATE'', der)"
    using ok by (simp add: x509_ok_def encodeCertificate_def)
  have "Certificate_ClientAuth ?t" by (simp add: agent_template_def)
  then have verify: "X509_verify x (Authority_caCertificate authority) tm ?c
      = (valid_at ?c tm \<and> valid_at (Authority_caCertificate authority) tm)" for tm
    using ok sound der(1) unfolding x509_ok_def sound_authority_def by blast
  have agent: "agentIDFromCertificate ?c = agentID"
    using agent_of_spiffe [OF hex]
    by (simp add: agentIDFromCertificate_def stored_certificate_def agent_template_def)
  show thesis
  proof (rule that [of ?c])
    show "\<forall>c. presents x identity c \<longleftrightarrow> c = ?c"
      using parse pem by (auto simp: presents_def der(2))
    show "\<forall>tm. Authenticate x authority tm (Some ?c)
       = (if valid_at ?c tm \<and> valid_at (Authority_caCertificate authority) tm
          then Inr agentID else Inl ErrInvalidIdentity)"
      using hex32_nonempty [OF hex] by (simp add: Authenticate_def verify agent)
    show "agentIDFromCertificate ?c = agentID" by (rule agent)
  qed (simp_all add: der(2) stored_certificate_def agent_template_def)
qed

section \<open>Enrolling\<close>

lemma EnrollContext_cases:
  assumes "EnrollContext x sha uni authority r now serial request st = (res, st')"
  obtains (refused) e where "res = Inl e" "st' = st"
  | (enrolled) csr agentID identity os where "randomAgentID r = Inr agentID"
      "issue x authority now serial agentID os csr = Inr identity"
      "sha (EnrollRequest_BootstrapToken request) = TokenStore_bootstrapHash st" "\<not> TokenStore_consumed st"
      "res = Inr identity"
      "st' = st\<lparr>TokenStore_agents := (TokenStore_agents st)(agentID \<mapsto>
           \<lparr>Agent_ID = agentID, Agent_OrganizationID = Scope_OrganizationID DefaultScope,
            Agent_SiteID = Scope_SiteID DefaultScope\<rparr>), TokenStore_consumed := True\<rparr>"
      "os = to_lower uni (EnrollRequest_OperatingSystem request)"
proof -
  let ?os = "to_lower uni (EnrollRequest_OperatingSystem request)"
  show ?thesis
  proof (cases "\<exists>csr agentID identity. parseCSR x (EnrollRequest_CSRPEM request) = Inr csr
      \<and> trim_space (EnrollRequest_Name request) \<noteq> [] \<and> supportedOS uni (EnrollRequest_OperatingSystem request)
      \<and> randomAgentID r = Inr agentID \<and> issue x authority now serial agentID ?os csr = Inr identity
      \<and> sha (EnrollRequest_BootstrapToken request) = TokenStore_bootstrapHash st \<and> \<not> TokenStore_consumed st")
    case True
    then obtain csr agentID identity where ok: "parseCSR x (EnrollRequest_CSRPEM request) = Inr csr"
      "trim_space (EnrollRequest_Name request) \<noteq> []" "supportedOS uni (EnrollRequest_OperatingSystem request)"
      "randomAgentID r = Inr agentID" "issue x authority now serial agentID ?os csr = Inr identity"
      "sha (EnrollRequest_BootstrapToken request) = TokenStore_bootstrapHash st" "\<not> TokenStore_consumed st"
      by blast
    with assms show ?thesis
      by (intro enrolled [OF ok(4-7)]) (auto simp: EnrollContext_def ConsumeEnrollmentToken_def Let_def)
  next
    case False
    define q where "q = parseCSR x (EnrollRequest_CSRPEM request)"
    from False have "st' = st \<and> (\<exists>e. res = Inl e)"
      using assms unfolding EnrollContext_def ConsumeEnrollmentToken_def Let_def q_def [symmetric]
      by (cases q; cases "randomAgentID r") (auto split: if_splits sum.splits, metis+)
    then show ?thesis using refused by blast
  qed
qed

definition enroll_step :: "X509 \<Rightarrow> (string \<Rightarrow> string) \<Rightarrow> (string \<Rightarrow> string) \<Rightarrow> Authority \<Rightarrow> TokenStore \<Rightarrow> TokenStore \<Rightarrow> bool" where
  "enroll_step x sha uni authority st st' \<longleftrightarrow>
     (\<exists>r now serial request res. EnrollContext x sha uni authority r now serial request st = (res, st'))"

abbreviation enroll_steps :: "X509 \<Rightarrow> (string \<Rightarrow> string) \<Rightarrow> (string \<Rightarrow> string) \<Rightarrow> Authority \<Rightarrow> TokenStore \<Rightarrow> TokenStore \<Rightarrow> bool" where
  "enroll_steps x sha uni authority \<equiv> rtranclp (enroll_step x sha uni authority)"

lemma consumed_unchanged:
  "enroll_steps x sha uni authority st st' \<Longrightarrow> TokenStore_consumed st \<Longrightarrow> st' = st"
proof (induction rule: rtranclp_induct)
  case (step y z)
  then obtain r now serial request res where "EnrollContext x sha uni authority r now serial request st = (res, z)"
    by (auto simp: enroll_step_def)
  with step.prems show ?case by (elim EnrollContext_cases) simp_all
qed simp

text \<open>Until the token is consumed nobody is enrolled.\<close>

lemma unconsumed_empty:
  "enroll_steps x sha uni authority st0 st \<Longrightarrow> TokenStore_agents st0 = Map.empty \<Longrightarrow> \<not> TokenStore_consumed st0 \<Longrightarrow>
     TokenStore_bootstrapHash st = TokenStore_bootstrapHash st0
     \<and> (\<not> TokenStore_consumed st \<longrightarrow> st = st0)"
proof (induction rule: rtranclp_induct)
  case (step y z)
  then obtain r now serial request res where op: "EnrollContext x sha uni authority r now serial request y = (res, z)"
    by (auto simp: enroll_step_def)
  from op step show ?case by (elim EnrollContext_cases) auto
qed simp

lemma valid_enrolled:
  assumes hex: "hex32_pattern (Agent_ID agent)" and scope: "Agent_Scope agent = DefaultScope"
  shows "valid_agent agent"
proof -
  have "length (Agent_ID agent) = 32" "nul \<notin> set (Agent_ID agent)"
    using hex by (auto simp: hex32_pattern_def list_all_iff is_lower_hex_def nul_def)
  then show ?thesis
    using valid_DefaultScope scope hex32_trim [OF hex] hex32_nonempty [OF hex] by (simp add: Agent_Validate_def)
qed

lemma AuthenticateContext_eq:
  assumes "TokenStore_agents st agentID = Some agent" "Agent_ID agent = agentID" "valid_agent agent"
    and "Authenticate x authority tm peer = (if P then Inr agentID else Inl ErrInvalidIdentity)"
  shows "AuthenticateContext x authority tm peer st = (if P then Inr agent else Inl ErrInvalidIdentity)"
  using assms by (simp add: AuthenticateContext_def ResolveAgent_def)

text \<open>What an enrollment leaves at the hub, and what the certificate it returns is worth there.\<close>

lemma enrolled_agent:
  assumes "x509_ok x"
    and "NewAuthority x sha keypair now0 serial0 token = Inr (authority, st0)"
    and "enroll_steps x sha uni authority st0 st"
    and "EnrollContext x sha uni authority r now serial request st = (Inr identity, st1)"
  obtains agent certificate where "sha (EnrollRequest_BootstrapToken request) = sha token" "st = st0"
    "hex32_pattern (AgentIdentity_AgentID identity)" "TokenStore_consumed st1"
    "TokenStore_agents st1 = [AgentIdentity_AgentID identity \<mapsto> agent]"
    "Agent_ID agent = AgentIdentity_AgentID identity" "Agent_Scope agent = DefaultScope"
    "\<forall>c. presents x identity c \<longleftrightarrow> c = certificate"
    "AgentIdentity_ExpiresAt identity = now + certificateLifetime"
    "Certificate_NotBefore certificate = now - minute - (now - minute) mod second"
    "Certificate_NotAfter certificate = now + certificateLifetime - (now + certificateLifetime) mod second"
    "\<forall>tm. AuthenticateContext x authority tm (Some certificate) st1
       = (if valid_at certificate tm \<and> valid_at (Authority_caCertificate authority) tm
          then Inr agent else Inl ErrInvalidIdentity)"
    "Certificate_OrganizationalUnit certificate = [to_lower uni (EnrollRequest_OperatingSystem request)]"
  using assms(4)
proof (cases rule: EnrollContext_cases)
  case (enrolled csr agentID ident os)
  note sound = NewAuthority_sound [OF assms(2)]
  have st: "st = st0" "TokenStore_bootstrapHash st = sha token"
    using unconsumed_empty [OF assms(3) sound(4,3)] enrolled(4) sound(2) by simp_all
  have ident: "ident = identity" using enrolled(5) by simp
  have hex: "hex32_pattern agentID" using enrolled(1) rand_hex_hex32 by (simp add: randomAgentID_def)
  obtain certificate where cert: "\<forall>c. presents x identity c \<longleftrightarrow> c = certificate"
    "AgentIdentity_AgentID identity = agentID" "AgentIdentity_ExpiresAt identity = now + certificateLifetime"
    and times: "Certificate_NotBefore certificate = now - minute - (now - minute) mod second"
    "Certificate_NotAfter certificate = now + certificateLifetime - (now + certificateLifetime) mod second"
    and unit: "Certificate_OrganizationalUnit certificate = [os]"
    and recognised: "\<forall>tm. Authenticate x authority tm (Some certificate)
       = (if valid_at certificate tm \<and> valid_at (Authority_caCertificate authority) tm
          then Inr agentID else Inl ErrInvalidIdentity)"
    using issue_Inr [OF assms(1) sound(1) hex enrolled(2) [unfolded ident]] .
  define agent where "agent = \<lparr>Agent_ID = agentID, Agent_OrganizationID = Scope_OrganizationID DefaultScope,
            Agent_SiteID = Scope_SiteID DefaultScope\<rparr>"
  have scope: "Agent_Scope agent = DefaultScope" by (simp add: agent_def Agent_Scope_def)
  have agent: "Agent_ID agent = agentID" "TokenStore_agents st1 = [agentID \<mapsto> agent]" "TokenStore_consumed st1"
    using sound(4) by (simp_all add: agent_def enrolled(6) st(1))
  have "valid_agent agent" using valid_enrolled [OF _ scope] hex agent(1) by simp
  then have auth: "AuthenticateContext x authority tm (Some certificate) st1
      = (if valid_at certificate tm \<and> valid_at (Authority_caCertificate authority) tm
         then Inr agent else Inl ErrInvalidIdentity)" for tm
    using agent recognised by (intro AuthenticateContext_eq [of _ agentID]) simp_all
  have "sha (EnrollRequest_BootstrapToken request) = sha token" using enrolled(3) st(2) by simp
  with st(1) hex agent scope cert times auth unit enrolled(7) show ?thesis
    by (intro that [of agent certificate]) simp_all
qed simp

text \<open>A renewal, whoever asks for it, is for an agent the authority knows.\<close>

lemma RenewContext_agent:
  assumes "x509_ok x" "sound_authority x authority" "hex32_pattern agentID" "Agent_ID agent = agentID"
    and "\<forall>tm. AuthenticateContext x authority tm peer st \<in> {Inr agent, Inl ErrInvalidIdentity}"
    and "RenewContext x authority now1 now2 serial peer csrPEM st = Inr renewed"
  shows "AgentIdentity_AgentID renewed = agentID \<and> (\<exists>c. presents x renewed c \<and> agentIDFromCertificate c = agentID)"
proof -
  have "AuthenticateContext x authority now1 peer st = Inr agent \<or> AuthenticateContext x authority now1 peer st = Inl ErrInvalidIdentity"
    using assms(5) by auto
  with assms(6) obtain os csr where "issue x authority now2 serial agentID os csr = Inr renewed"
    by (auto simp: RenewContext_def assms(4) Let_def split: sum.splits if_splits option.splits)
  then show ?thesis
    by (rule issue_Inr [OF assms(1-3)]) blast
qed

lemma enrolled_once:
  assumes "TokenStore_consumed st1" "enroll_steps x sha uni authority st1 st2"
  shows "st2 = st1 \<and> (\<exists>e. EnrollContext x sha uni authority r now serial request st2 = (Inl e, st2))"
proof -
  have same: "st2 = st1" by (rule consumed_unchanged [OF assms(2,1)])
  obtain res st3 where run: "EnrollContext x sha uni authority r now serial request st1 = (res, st3)" by fastforce
  then have "st3 = st1 \<and> (\<exists>e. res = Inl e)" using assms(1) by (elim EnrollContext_cases) simp_all
  with run same show ?thesis by auto
qed

text \<open>
  C38. One agent per bootstrap token. An enrollment succeeds only with the token the authority
  was set up with and only the first time; every later attempt is refused and changes
  nothing. It registers one agent, with a fresh 32-digit identifier, in the default scope,
  and returns one certificate, by which the hub recognises exactly that agent from one
  minute before the enrollment until the stated expiry (in whole seconds), 24 hours later. A renewal with that
  certificate, for any request, again gives a certificate of the same agent.
\<close>

theorem enrollment_single_use:
  assumes "x509_ok x"
    and "NewAuthority x sha keypair now0 serial0 token = Inr (authority, st0)"
    and "enroll_steps x sha uni authority st0 st"
    and "EnrollContext x sha uni authority r now serial request st = (Inr identity, st1)"
  shows "sha (EnrollRequest_BootstrapToken request) = sha token \<and> st = st0
    \<and> hex32_pattern (AgentIdentity_AgentID identity)
    \<and> (\<forall>st2 r' now' serial' request'. enroll_steps x sha uni authority st1 st2 \<longrightarrow>
         st2 = st1 \<and> (\<exists>e. EnrollContext x sha uni authority r' now' serial' request' st2 = (Inl e, st2)))
    \<and> (\<exists>agent certificate. TokenStore_agents st1 = [AgentIdentity_AgentID identity \<mapsto> agent]
         \<and> Agent_ID agent = AgentIdentity_AgentID identity \<and> Agent_Scope agent = DefaultScope
         \<and> (\<forall>c. presents x identity c \<longleftrightarrow> c = certificate)
         \<and> AgentIdentity_ExpiresAt identity = now + certificateLifetime
         \<and> Certificate_NotBefore certificate = now - minute - (now - minute) mod second
         \<and> Certificate_NotAfter certificate = now + certificateLifetime - (now + certificateLifetime) mod second
         \<and> (\<forall>tm. AuthenticateContext x authority tm (Some certificate) st1
              = (if valid_at certificate tm \<and> valid_at (Authority_caCertificate authority) tm
                 then Inr agent else Inl ErrInvalidIdentity))
         \<and> (\<forall>now1 now2 serial2 csrPEM renewed. RenewContext x authority now1 now2 serial2 (Some certificate) csrPEM st1
              = Inr renewed \<longrightarrow> AgentIdentity_AgentID renewed = AgentIdentity_AgentID identity
              \<and> (\<exists>c. presents x renewed c \<and> agentIDFromCertificate c = AgentIdentity_AgentID identity)))"
proof -
  obtain agent certificate where facts: "sha (EnrollRequest_BootstrapToken request) = sha token" "st = st0"
    "hex32_pattern (AgentIdentity_AgentID identity)" and consumed: "TokenStore_consumed st1"
    and agent: "TokenStore_agents st1 = [AgentIdentity_AgentID identity \<mapsto> agent]"
    "Agent_ID agent = AgentIdentity_AgentID identity" "Agent_Scope agent = DefaultScope"
    and cert: "\<forall>c. presents x identity c \<longleftrightarrow> c = certificate"
    "AgentIdentity_ExpiresAt identity = now + certificateLifetime"
    "Certificate_NotBefore certificate = now - minute - (now - minute) mod second"
    "Certificate_NotAfter certificate = now + certificateLifetime - (now + certificateLifetime) mod second"
    and auth: "\<forall>tm. AuthenticateContext x authority tm (Some certificate) st1
       = (if valid_at certificate tm \<and> valid_at (Authority_caCertificate authority) tm
          then Inr agent else Inl ErrInvalidIdentity)"
    by (rule enrolled_agent [OF assms])
  have "\<forall>tm. AuthenticateContext x authority tm (Some certificate) st1 \<in> {Inr agent, Inl ErrInvalidIdentity}"
    using auth by simp
  note renewed = RenewContext_agent [OF assms(1) NewAuthority_sound(1) [OF assms(2)] facts(3) agent(2) this]
  have later: "\<forall>st2 r' now' serial' request'. enroll_steps x sha uni authority st1 st2 \<longrightarrow>
         st2 = st1 \<and> (\<exists>e. EnrollContext x sha uni authority r' now' serial' request' st2 = (Inl e, st2))"
    using enrolled_once [OF consumed] by blast
  have renewals: "\<forall>now1 now2 serial2 csrPEM renewed. RenewContext x authority now1 now2 serial2 (Some certificate) csrPEM st1
      = Inr renewed \<longrightarrow> AgentIdentity_AgentID renewed = AgentIdentity_AgentID identity
      \<and> (\<exists>c. presents x renewed c \<and> agentIDFromCertificate c = AgentIdentity_AgentID identity)"
    using renewed by blast
  show ?thesis
    by (intro conjI exI [of _ agent] exI [of _ certificate] facts later agent cert auth renewals)
qed

section \<open>A concrete authority\<close>

text \<open>
  Toy encodings: a PEM block is its type, its length in unary in front, and its bytes; the
  authority knows three certificates, its own, one for the agent of the witness and a renewed one.
\<close>

definition toy_agent :: string where "toy_agent = hex_encode (map (\<lambda>_. CHR ''a'') [0..<16])"

definition toy_ca :: Certificate where
  "toy_ca = stored_certificate
     \<lparr>Certificate_SerialNumber = 1, Certificate_CommonName = ''bazUSOP Agent CA'',
      Certificate_Organization = [''bazUSOP''], Certificate_OrganizationalUnit = [], Certificate_URIs = [],
      Certificate_NotBefore = - minute, Certificate_NotAfter = 1000000 * hour,
      Certificate_ClientAuth = False, Certificate_IsCA = True, Certificate_PublicKey = []\<rparr> ''root''"

definition toy_template :: Certificate where
  "toy_template = agent_template (spiffe_url toy_agent) 2 0 toy_agent ''linux''"

definition toy_renewal_time :: time where "toy_renewal_time = 23 * hour + 30 * minute"

definition toy_renewed :: Certificate where
  "toy_renewed = agent_template (spiffe_url toy_agent) 3 toy_renewal_time toy_agent ''linux''"

definition toy_create :: "Certificate \<Rightarrow> Certificate \<Rightarrow> string \<Rightarrow> string \<Rightarrow> string res" where
  "toy_create template parent pub key =
     (if stored_certificate template pub = toy_ca then Inr ''ca''
      else if template = toy_template \<and> pub = ''pub'' then Inr ''agent''
      else if template = toy_renewed \<and> pub = ''pub'' then Inr ''renewed'' else Inl (ErrOther ''unknown''))"

definition toy_x509 :: X509 where
  "toy_x509 = \<lparr>X509_pem_encode = (\<lambda>t b. replicate (length t) (CHR ''1'') @ CHR ''0'' # t @ b),
     X509_pem_decode = (\<lambda>s. let n = length (takeWhile ((=) (CHR ''1'')) s); u = drop (Suc n) s in Some (take n u, drop n u)),
     X509_parse_request = Some, X509_check_signature = (\<lambda>_. True), X509_create = toy_create,
     X509_parse = (\<lambda>s. if s = ''ca'' then Some toy_ca else if s = ''agent'' then Some (stored_certificate toy_template ''pub'')
       else if s = ''renewed'' then Some (stored_certificate toy_renewed ''pub'') else None),
     X509_marshal_key = Inr, X509_parse_key = Some, X509_public = (\<lambda>_. ''root''),
     X509_url_parse = (\<lambda>s. Inr (spiffe_url (drop 23 s))), X509_add_years = (\<lambda>_ _. 1000000 * hour),
     X509_verify = (\<lambda>root tm c. valid_at c tm \<and> valid_at root tm)\<rparr>"

lemma toy_pem: "X509_pem_decode toy_x509 (X509_pem_encode toy_x509 t b) = Some (t, b)"
proof -
  have "length (takeWhile ((=) (CHR ''1'')) (replicate (length t) (CHR ''1'') @ CHR ''0'' # t @ b)) = length t"
    by (subst takeWhile_append2) auto
  then show ?thesis by (simp add: toy_x509_def Let_def)
qed

lemma toy_x509_ok: "x509_ok toy_x509"
  unfolding x509_ok_def
proof (intro conjI allI impI)
  fix t b show "X509_pem_decode toy_x509 (X509_pem_encode toy_x509 t b) = Some (t, b)" by (rule toy_pem)
next
  fix template parent pub key der
  assume "X509_create toy_x509 template parent pub key = Inr der"
  then show "X509_parse toy_x509 der = Some (stored_certificate template pub)"
    by (auto simp: toy_x509_def toy_create_def split: if_splits)
qed (simp_all add: toy_x509_def)

definition toy_request :: EnrollRequest where
  "toy_request = \<lparr>EnrollRequest_BootstrapToken = ''token'', EnrollRequest_Name = ''host'',
     EnrollRequest_OperatingSystem = ''linux'',
     EnrollRequest_CSRPEM = X509_pem_encode toy_x509 ''CERTIFICATE REQUEST'' ''pub''\<rparr>"

lemma toy_csr: "parseCSR toy_x509 (EnrollRequest_CSRPEM toy_request) = Inr ''pub''"
  by (simp add: parseCSR_def toy_request_def toy_pem) (simp add: toy_x509_def)

lemma toy_agent_hex: "hex32_pattern toy_agent"
  using rand_hex_hex32 [of "Some (\<lambda>_. CHR ''a'')" toy_agent] by (simp add: rand_hex_def toy_agent_def)

lemma toy_authority:
  obtains authority where "NewAuthority toy_x509 (\<lambda>s. s) (Inr (''root'', ''key'')) 0 (Inr 1) ''token''
      = Inr (authority, \<lparr>TokenStore_bootstrapHash = ''token'', TokenStore_consumed = False, TokenStore_agents = Map.empty\<rparr>)"
    "Authority_caCertificate authority = toy_ca" "Authority_caPrivateKey authority = ''key''"
proof -
  have token: "trim_space ''token'' = ''token''" by (rule trim_space_plain) (simp_all add: plain_char_def)
  have ca: "stored_certificate (ca_template toy_x509 1 0) ''root'' = toy_ca"
    by (simp add: toy_ca_def ca_template_def toy_x509_def)
  have parts: "X509_create toy_x509 t p ''root'' k = Inr ''ca''" if "stored_certificate t ''root'' = toy_ca" for t p k
    using that by (simp add: toy_x509_def toy_create_def)
  have "X509_marshal_key toy_x509 k = Inr k" "X509_parse_key toy_x509 k = Some k" "X509_public toy_x509 k = ''root''"
    "X509_parse toy_x509 ''ca'' = Some toy_ca" for k by (simp_all add: toy_x509_def)
  moreover have "Certificate_IsCA toy_ca" "Certificate_PublicKey toy_ca = ''root''"
    by (simp_all add: toy_ca_def stored_certificate_def)
  ultimately show thesis
    by (intro that [of "\<lparr>Authority_caCertificate = toy_ca, Authority_caPrivateKey = ''key'',
            Authority_caPEM = encodeCertificate toy_x509 ''ca''\<rparr>"])
      (simp_all add: NewAuthority_def validateBootstrapToken_def token generateAuthorityState_def Let_def parts [OF ca]
        authorityFromState_def encodeCertificate_def toy_pem)
qed

lemma toy_enrolls:
  obtains authority st0 identity st1 where
    "NewAuthority toy_x509 (\<lambda>s. s) (Inr (''root'', ''key'')) 0 (Inr 1) ''token'' = Inr (authority, st0)"
    "EnrollContext toy_x509 (\<lambda>s. s) (\<lambda>s. s) authority (Some (\<lambda>_. CHR ''a'')) 0 (Inr 2) toy_request st0 = (Inr identity, st1)"
    "AgentIdentity_AgentID identity = toy_agent" "AgentIdentity_ExpiresAt identity = certificateLifetime"
proof -
  obtain authority where auth: "NewAuthority toy_x509 (\<lambda>s. s) (Inr (''root'', ''key'')) 0 (Inr 1) ''token''
      = Inr (authority, \<lparr>TokenStore_bootstrapHash = ''token'', TokenStore_consumed = False, TokenStore_agents = Map.empty\<rparr>)"
    "Authority_caCertificate authority = toy_ca" "Authority_caPrivateKey authority = ''key''"
    using toy_authority .
  let ?st0 = "\<lparr>TokenStore_bootstrapHash = ''token'', TokenStore_consumed = False, TokenStore_agents = Map.empty\<rparr>"
  let ?op = "EnrollContext toy_x509 (\<lambda>s. s) (\<lambda>s. s) authority (Some (\<lambda>_. CHR ''a'')) 0 (Inr 2) toy_request ?st0"
  note csr = toy_csr
  have names: "trim_space ''host'' = ''host''" "trim_space ''linux'' = ''linux''"
    by (rule trim_space_plain; simp add: plain_char_def)+
  have lower: "to_lower (\<lambda>s. s) ''linux'' = ''linux''"
    by (simp add: to_lower_def is_ascii_def lower_char_def Let_def)
  have agent: "randomAgentID (Some (\<lambda>_. CHR ''a'')) = Inr toy_agent"
    by (simp add: randomAgentID_def rand_hex_def toy_agent_def)
  have hex: "hex32_pattern toy_agent" using agent rand_hex_hex32 by (simp add: randomAgentID_def)
  then have url: "X509_url_parse toy_x509 (''spiffe://bazusop/agent/'' @ toy_agent) = Inr (spiffe_url toy_agent)"
    using toy_x509_ok by (simp add: x509_ok_def)
  have "\<not> Certificate_IsCA (stored_certificate toy_template ''pub'')" "Certificate_IsCA toy_ca"
    by (simp_all add: stored_certificate_def toy_template_def agent_template_def toy_ca_def)
  then have "stored_certificate toy_template ''pub'' \<noteq> toy_ca" by metis
  then have "X509_create toy_x509 toy_template p ''pub'' k = Inr ''agent''" for p k
    by (simp add: toy_x509_def toy_create_def)
  then have "\<exists>identity. issue toy_x509 authority 0 (Inr 2) toy_agent ''linux'' ''pub'' = Inr identity"
    unfolding issue_def url by (simp add: toy_template_def [symmetric] Let_def)
  then obtain identity where "issue toy_x509 authority 0 (Inr 2) toy_agent ''linux'' ''pub'' = Inr identity" by blast
  moreover have "AgentIdentity_AgentID identity = toy_agent" "AgentIdentity_ExpiresAt identity = certificateLifetime"
    using calculation issue_Inr [OF toy_x509_ok NewAuthority_sound(1) [OF auth(1)] hex] by (metis, metis add_0)
  moreover have "EnrollRequest_Name toy_request = ''host''" "EnrollRequest_OperatingSystem toy_request = ''linux''"
    "EnrollRequest_BootstrapToken toy_request = ''token''" by (simp_all add: toy_request_def)
  ultimately obtain st1 where run: "?op = (Inr identity, st1)" "AgentIdentity_AgentID identity = toy_agent"
    by (simp add: EnrollContext_def csr names supportedOS_def lower agent ConsumeEnrollmentToken_def Let_def)
  with auth(1) that \<open>AgentIdentity_ExpiresAt identity = certificateLifetime\<close> show ?thesis by blast
qed

theorem enrollment_single_use_witness:
  "\<exists>authority st0 identity st1.
     NewAuthority toy_x509 (\<lambda>s. s) (Inr (''root'', ''key'')) 0 (Inr 1) ''token'' = Inr (authority, st0)
     \<and> EnrollContext toy_x509 (\<lambda>s. s) (\<lambda>s. s) authority (Some (\<lambda>_. CHR ''a'')) 0 (Inr 2) toy_request st0 = (Inr identity, st1)
     \<and> AgentIdentity_AgentID identity = toy_agent
     \<and> (\<exists>e. EnrollContext toy_x509 (\<lambda>s. s) (\<lambda>s. s) authority (Some (\<lambda>_. CHR ''b'')) 0 (Inr 3) toy_request st1 = (Inl e, st1))"
proof -
  obtain authority st0 identity st1 where toy:
    "NewAuthority toy_x509 (\<lambda>s. s) (Inr (''root'', ''key'')) 0 (Inr 1) ''token'' = Inr (authority, st0)"
    "EnrollContext toy_x509 (\<lambda>s. s) (\<lambda>s. s) authority (Some (\<lambda>_. CHR ''a'')) 0 (Inr 2) toy_request st0 = (Inr identity, st1)"
    "AgentIdentity_AgentID identity = toy_agent"
    using toy_enrolls .
  from enrollment_single_use [OF toy_x509_ok toy(1) rtranclp.rtrancl_refl toy(2)]
  have "\<exists>e. EnrollContext toy_x509 (\<lambda>s. s) (\<lambda>s. s) authority (Some (\<lambda>_. CHR ''b'')) 0 (Inr 3) toy_request st1 = (Inl e, st1)"
    by blast
  with toy show ?thesis by blast
qed

end
