(* ===== verification/Logstream.thy ===== *)
theory Logstream
  imports Tenancy
begin

text \<open>
  \<open>internal/logstream\<close>: the logs agents send, searched by operators and followed live. A
  live stream is a buffered channel; the state keeps its buffer, so sending is appending
  unless the buffer is full. Collectors and severities are the strings of the code, which
  normalises them itself. \<open>uni\<close> is Unicode lower-casing and \<open>srt\<close> is \<open>sort.Slice\<close>.
\<close>

section \<open>Data\<close>

definition MaxBatchEntries :: nat where "MaxBatchEntries = 1000"
definition LiveSubscriberBuffer :: nat where "LiveSubscriberBuffer = MaxBatchEntries"
definition maxKeptEntries :: nat where "maxKeptEntries = 10000"

definition CollectorJournald :: string where "CollectorJournald = ''journald''"
definition CollectorFile :: string where "CollectorFile = ''file''"
definition CollectorWindowsEvent :: string where "CollectorWindowsEvent = ''windows_event''"

definition LogDebug :: string where "LogDebug = ''debug''"
definition LogInfo :: string where "LogInfo = ''info''"
definition LogWarn :: string where "LogWarn = ''warn''"
definition LogError :: string where "LogError = ''error''"
definition LogCritical :: string where "LogCritical = ''critical''"

record LogEntry =
  LogEntry_OrganizationID :: string
  LogEntry_SiteID :: string
  LogEntry_ID :: string
  LogEntry_AgentID :: string
  LogEntry_OccurredAt :: time
  LogEntry_Collector :: string
  LogEntry_Source :: string
  LogEntry_Severity :: string
  LogEntry_Message :: string
  LogEntry_SourceID :: string

record LogQuery =
  LogQuery_Scope :: Scope
  LogQuery_AgentID :: string
  LogQuery_From :: time
  LogQuery_To :: time
  LogQuery_Collector :: string
  LogQuery_Severity :: string
  LogQuery_Source :: string
  LogQuery_Text :: string
  LogQuery_Limit :: int

definition normalizeCollector :: "(string \<Rightarrow> string) \<Rightarrow> string \<Rightarrow> string option" where
  "normalizeCollector uni s =
     (let v = to_lower uni (trim_space s) in
      if v = ''journald'' then Some CollectorJournald
      else if v = ''file'' then Some CollectorFile
      else if v \<in> {''windows_event'', ''windows-event'', ''eventlog''} then Some CollectorWindowsEvent
      else None)"

definition normalizeSeverity :: "(string \<Rightarrow> string) \<Rightarrow> string \<Rightarrow> string option" where
  "normalizeSeverity uni s =
     (let v = to_lower uni (trim_space s) in
      if v = ''debug'' then Some LogDebug
      else if v \<in> {''info'', ''information''} then Some LogInfo
      else if v \<in> {''warn'', ''warning''} then Some LogWarn
      else if v \<in> {''error'', ''err''} then Some LogError
      else if v \<in> {''critical'', ''fatal''} then Some LogCritical
      else None)"

section \<open>The in-memory store\<close>

type_synonym LogStore = "Agent \<rightharpoonup> LogEntry list"

definition NewLogStore :: LogStore where "NewLogStore = Map.empty"

definition logs_at :: "LogStore \<Rightarrow> Agent \<Rightarrow> LogEntry list" where
  "logs_at st agent = (case st agent of None \<Rightarrow> [] | Some entries \<Rightarrow> entries)"

definition log_agent :: "LogEntry \<Rightarrow> Agent" where
  "log_agent entry = \<lparr>Agent_ID = LogEntry_AgentID entry, Agent_OrganizationID = LogEntry_OrganizationID entry,
                      Agent_SiteID = LogEntry_SiteID entry\<rparr>"

type_synonym log_key = "Scope \<times> string \<times> time"

definition log_key :: "LogEntry \<Rightarrow> log_key" where
  "log_key entry = (\<lparr>Scope_OrganizationID = LogEntry_OrganizationID entry, Scope_SiteID = LogEntry_SiteID entry\<rparr>,
                    LogEntry_ID entry, LogEntry_OccurredAt entry)"

definition log_before :: "LogEntry \<Rightarrow> LogEntry \<Rightarrow> bool" where
  "log_before a b \<longleftrightarrow>
     (if LogEntry_OccurredAt a = LogEntry_OccurredAt b then LogEntry_ID a < LogEntry_ID b
      else LogEntry_OccurredAt a < LogEntry_OccurredAt b)"

text \<open>The entries that are stored: those whose key is neither in the store nor earlier in the batch.\<close>

fun append_new :: "log_key set \<Rightarrow> LogEntry list \<Rightarrow> LogStore \<Rightarrow> LogEntry list \<times> LogStore" where
  "append_new keys [] st = ([], st)"
| "append_new keys (entry # entries) st =
     (if log_key entry \<in> keys then append_new keys entries st
      else case append_new (insert (log_key entry) keys) entries
                  (st(log_agent entry \<mapsto> logs_at st (log_agent entry) @ [entry])) of
          (stored, st') \<Rightarrow> (entry # stored, st'))"

definition stored_keys :: "(Agent \<times> LogEntry list) list \<Rightarrow> log_key set" where
  "stored_keys it = set (concat (map (\<lambda>(_, entries). map log_key entries) it))"

definition keep_newest :: "LogEntry sorter \<Rightarrow> Agent list \<Rightarrow> LogStore \<Rightarrow> LogStore" where
  "keep_newest srt affected st = (\<lambda>agent.
     if agent \<in> set affected then Some (last_n maxKeptEntries (srt log_before (logs_at st agent))) else st agent)"

text \<open>\<open>it\<close> is the visit of the map by which the keys in the store are collected.\<close>

definition AppendLogs ::
  "LogEntry sorter \<Rightarrow> (Agent \<times> LogEntry list) list \<Rightarrow> LogEntry list \<Rightarrow> LogStore \<Rightarrow> (LogEntry list, LogStore) op" where
  "AppendLogs srt it entries st =
     (case find (\<lambda>entry. Agent_Validate (log_agent entry) \<noteq> None) entries of
        Some entry \<Rightarrow> (Inl (the (Agent_Validate (log_agent entry))), st)
      | None \<Rightarrow>
          let (stored, st1) = append_new (stored_keys it) entries st in
          (Inr stored, keep_newest srt (map log_agent stored) st1))"

definition log_matches :: "(string \<Rightarrow> string) \<Rightarrow> LogQuery \<Rightarrow> LogEntry \<Rightarrow> bool" where
  "log_matches uni query entry \<longleftrightarrow>
     \<not> (LogEntry_OccurredAt entry < LogQuery_From query \<or> LogQuery_To query < LogEntry_OccurredAt entry)
     \<and> \<not> (LogQuery_Collector query \<noteq> [] \<and> LogEntry_Collector entry \<noteq> LogQuery_Collector query)
     \<and> \<not> (LogQuery_Severity query \<noteq> [] \<and> LogEntry_Severity entry \<noteq> LogQuery_Severity query)
     \<and> \<not> (LogQuery_Source query \<noteq> []
            \<and> \<not> contains (to_lower uni (LogEntry_Source entry)) (to_lower uni (LogQuery_Source query)))
     \<and> \<not> (LogQuery_Text query \<noteq> []
            \<and> \<not> contains (to_lower uni (LogEntry_Message entry)) (to_lower uni (LogQuery_Text query)))"

definition query_agent :: "LogQuery \<Rightarrow> Agent" where
  "query_agent query = \<lparr>Agent_ID = LogQuery_AgentID query,
     Agent_OrganizationID = Scope_OrganizationID (LogQuery_Scope query), Agent_SiteID = Scope_SiteID (LogQuery_Scope query)\<rparr>"

definition SearchLogs :: "LogEntry sorter \<Rightarrow> (string \<Rightarrow> string) \<Rightarrow> LogQuery \<Rightarrow> LogStore \<Rightarrow> LogEntry list res" where
  "SearchLogs srt uni query st =
     (case Scope_Validate (LogQuery_Scope query) of
        Some e \<Rightarrow> Inl e
      | None \<Rightarrow>
          let result = srt log_before (filter (log_matches uni query) (logs_at st (query_agent query))) in
          Inr (last_n (nat (LogQuery_Limit query)) result))"

section \<open>The service\<close>

text \<open>Each subscriber of an agent is a stream number with the entries waiting in its channel.\<close>

record LogService =
  LogService_store :: LogStore
  LogService_subscribers :: "Agent \<Rightarrow> (nat \<rightharpoonup> LogEntry list)"

definition NewLogService :: LogService where
  "NewLogService = \<lparr>LogService_store = NewLogStore, LogService_subscribers = (\<lambda>_. Map.empty)\<rparr>"

definition publish :: "LogEntry \<Rightarrow> LogService \<Rightarrow> LogService" where
  "publish entry service =
     (let agent = log_agent entry; streams = LogService_subscribers service agent in
      service\<lparr>LogService_subscribers := (LogService_subscribers service)
        (agent := (\<lambda>stream. map_option
           (\<lambda>buffer. if length buffer < LiveSubscriberBuffer then buffer @ [entry] else buffer) (streams stream)))\<rparr>)"

text \<open>The validation loop of \<open>Ingest\<close>; \<open>r i\<close> are the random bytes read for entry \<open>i\<close>, if any.\<close>

definition normalize_entry ::
  "(string \<Rightarrow> string) \<Rightarrow> Agent \<Rightarrow> string \<Rightarrow> entropy \<Rightarrow> LogEntry \<Rightarrow> LogEntry res" where
  "normalize_entry uni agent agentID r candidate =
     (let source = trim_space (LogEntry_Source candidate); message = trim_space (LogEntry_Message candidate) in
      case (normalizeCollector uni (LogEntry_Collector candidate), normalizeSeverity uni (LogEntry_Severity candidate)) of
        (Some collector, Some severity) \<Rightarrow>
          if LogEntry_OccurredAt candidate = 0 \<or> source = [] \<or> 512 < length source
             \<or> message = [] \<or> 64 * 1024 < length message
          then Inl ErrInvalidLogs
          else let i = trim_space (LogEntry_ID candidate) in
            (case (if i = [] then rand_hex 16 r
                   else if \<not> hex32_pattern i then Inl ErrInvalidLogs else Inr i) of
               Inl e \<Rightarrow> Inl e
             | Inr i \<Rightarrow> Inr \<lparr>LogEntry_OrganizationID = Agent_OrganizationID agent, LogEntry_SiteID = Agent_SiteID agent,
                            LogEntry_ID = i, LogEntry_AgentID = agentID,
                            LogEntry_OccurredAt = LogEntry_OccurredAt candidate, LogEntry_Collector = collector,
                            LogEntry_Source = source, LogEntry_Severity = severity, LogEntry_Message = message,
                            LogEntry_SourceID = []\<rparr>)
      | _ \<Rightarrow> Inl ErrInvalidLogs)"

fun normalize_batch ::
  "(string \<Rightarrow> string) \<Rightarrow> Agent \<Rightarrow> string \<Rightarrow> (nat \<Rightarrow> entropy) \<Rightarrow> LogEntry list \<Rightarrow> LogEntry list res" where
  "normalize_batch uni agent agentID r [] = Inr []"
| "normalize_batch uni agent agentID r (candidate # candidates) =
     (case normalize_entry uni agent agentID (r 0) candidate of
        Inl e \<Rightarrow> Inl e
      | Inr entry \<Rightarrow>
          (case normalize_batch uni agent agentID (\<lambda>i. r (Suc i)) candidates of
             Inl e \<Rightarrow> Inl e
           | Inr entries \<Rightarrow> Inr (entry # entries)))"

definition Ingest ::
  "LogEntry sorter \<Rightarrow> (string \<Rightarrow> string) \<Rightarrow> (Agent \<times> LogEntry list) list \<Rightarrow> (nat \<Rightarrow> entropy) \<Rightarrow> Agent \<Rightarrow> LogEntry list \<Rightarrow> LogService
   \<Rightarrow> (unit, LogService) op" where
  "Ingest srt uni it r agent batch service =
     (case Agent_Validate agent of
        Some e \<Rightarrow> (Inl e, service)
      | None \<Rightarrow>
          let agentID = trim_space (Agent_ID agent) in
          if agentID = [] \<or> length batch = 0 \<or> MaxBatchEntries < length batch then (Inl ErrInvalidLogs, service)
          else (case normalize_batch uni agent agentID r batch of
              Inl e \<Rightarrow> (Inl e, service)
            | Inr entries \<Rightarrow>
                (case AppendLogs srt it entries (LogService_store service) of
                   (Inl e, st) \<Rightarrow> (Inl e, service\<lparr>LogService_store := st\<rparr>)
                 | (Inr stored, st) \<Rightarrow> (Inr (), fold publish stored (service\<lparr>LogService_store := st\<rparr>)))))"

definition normalize_query :: "(string \<Rightarrow> string) \<Rightarrow> LogQuery \<Rightarrow> LogQuery res" where
  "normalize_query uni query =
     (case Scope_Validate (LogQuery_Scope query) of
        Some e \<Rightarrow> Inl e
      | None \<Rightarrow>
          let query = query\<lparr>LogQuery_AgentID := trim_space (LogQuery_AgentID query),
                LogQuery_Source := trim_space (LogQuery_Source query), LogQuery_Text := trim_space (LogQuery_Text query)\<rparr> in
          if LogQuery_AgentID query = [] \<or> LogQuery_From query = 0 \<or> LogQuery_To query = 0
             \<or> \<not> LogQuery_From query < LogQuery_To query \<or> LogQuery_Limit query < 1 \<or> 500 < LogQuery_Limit query
             \<or> 512 < length (LogQuery_Source query) \<or> 512 < length (LogQuery_Text query)
          then Inl ErrInvalidLogs
          else (case (if LogQuery_Collector query \<noteq> [] then normalizeCollector uni (LogQuery_Collector query) else Some []) of
              None \<Rightarrow> Inl ErrInvalidLogs
            | Some collector \<Rightarrow>
                (case (if LogQuery_Severity query \<noteq> [] then normalizeSeverity uni (LogQuery_Severity query) else Some []) of
                   None \<Rightarrow> Inl ErrInvalidLogs
                 | Some severity \<Rightarrow> Inr (query\<lparr>LogQuery_Collector := collector, LogQuery_Severity := severity\<rparr>))))"

definition Search :: "LogEntry sorter \<Rightarrow> (string \<Rightarrow> string) \<Rightarrow> LogQuery \<Rightarrow> LogService \<Rightarrow> LogEntry list res" where
  "Search srt uni query service =
     (case normalize_query uni query of
        Inl e \<Rightarrow> Inl e
      | Inr query \<Rightarrow> SearchLogs srt uni query (LogService_store service))"

text \<open>\<open>Subscribe\<close> makes a channel (a number not in use); cancelling its context removes it.\<close>

definition Subscribe :: "nat \<Rightarrow> Scope \<Rightarrow> string \<Rightarrow> LogService \<Rightarrow> (nat, LogService) op" where
  "Subscribe stream scope agentID service =
     (case Scope_Validate scope of
        Some e \<Rightarrow> (Inl e, service)
      | None \<Rightarrow>
          let agentID = trim_space agentID in
          if agentID = [] then (Inl ErrInvalidLogs, service)
          else let key = \<lparr>Agent_ID = agentID, Agent_OrganizationID = Scope_OrganizationID scope,
                          Agent_SiteID = Scope_SiteID scope\<rparr>
            in (Inr stream, service\<lparr>LogService_subscribers := (LogService_subscribers service)
                 (key := (LogService_subscribers service key)(stream \<mapsto> []))\<rparr>))"

definition Unsubscribe :: "nat \<Rightarrow> Agent \<Rightarrow> LogService \<Rightarrow> LogService" where
  "Unsubscribe stream key service =
     service\<lparr>LogService_subscribers := (LogService_subscribers service)
       (key := (LogService_subscribers service key)(stream := None))\<rparr>"

definition Receive :: "nat \<Rightarrow> Agent \<Rightarrow> LogService \<Rightarrow> LogEntry option \<times> LogService" where
  "Receive stream key service =
     (case LogService_subscribers service key stream of
        Some (entry # buffer) \<Rightarrow>
          (Some entry, service\<lparr>LogService_subscribers := (LogService_subscribers service)
             (key := (LogService_subscribers service key)(stream \<mapsto> buffer))\<rparr>)
      | _ \<Rightarrow> (None, service))"

end
