(* ===== verification/Logstream_Properties.thy ===== *)
theory Logstream_Properties
  imports Logstream
begin

text \<open>
  What the log store promises: entries are kept under the agent that sent them, each once, in
  order and bounded; a batch sent again changes nothing; a search sees only the requested
  agent of the requested tenant; live followers get the stored entries in order.
\<close>

section \<open>Appending\<close>

lemma weak_order_log [simp]: "weak_order log_before"
  unfolding weak_order_def log_before_def by (auto split: if_splits)

fun new_entries :: "log_key set \<Rightarrow> LogEntry list \<Rightarrow> LogEntry list" where
  "new_entries keys [] = []"
| "new_entries keys (entry # entries) =
     (if log_key entry \<in> keys then new_entries keys entries
      else entry # new_entries (insert (log_key entry) keys) entries)"

lemma logs_at_upd [simp]: "logs_at (st(a \<mapsto> xs)) b = (if b = a then xs else logs_at st b)"
  by (simp add: logs_at_def)

lemma append_new_step:
  "append_new keys (e # es) st =
     (if log_key e \<in> keys then append_new keys es st
      else let r = append_new (insert (log_key e) keys) es (st(log_agent e \<mapsto> logs_at st (log_agent e) @ [e]))
        in (e # fst r, snd r))"
  by (simp add: Let_def split: prod.splits)

lemma append_new_dom: "dom (snd (append_new keys entries st)) \<subseteq> dom st \<union> log_agent ` set entries"
proof (induction entries arbitrary: keys st)
  case Nil
  then show ?case by simp
next
  case (Cons e es)
  define st1 where "st1 = st(log_agent e \<mapsto> logs_at st (log_agent e) @ [e])"
  have "dom st1 \<subseteq> insert (log_agent e) (dom st)" by (auto simp: st1_def)
  then show ?case
    unfolding append_new_step st1_def [symmetric] Let_def
    using Cons.IH [of keys st] Cons.IH [of "insert (log_key e) keys" st1] by (cases "log_key e \<in> keys") (simp, blast)+
qed

lemma append_new_eq:
  "fst (append_new keys entries st) = new_entries keys entries
   \<and> logs_at (snd (append_new keys entries st)) agent
       = logs_at st agent @ filter (\<lambda>entry. log_agent entry = agent) (new_entries keys entries)"
proof (induction entries arbitrary: keys st)
  case Nil
  then show ?case by simp
next
  case (Cons e es)
  define st1 where "st1 = st(log_agent e \<mapsto> logs_at st (log_agent e) @ [e])"
  have here: "logs_at st1 agent = logs_at st agent @ (if log_agent e = agent then [e] else [])"
    by (simp add: st1_def)
  show ?case unfolding append_new_step st1_def [symmetric] Let_def using Cons.IH [of keys st] Cons.IH [of "insert (log_key e) keys" st1] here by simp
qed

lemma new_entries_props:
  "distinct (map log_key (new_entries keys entries))
   \<and> log_key ` set (new_entries keys entries) \<inter> keys = {}
   \<and> set (new_entries keys entries) \<subseteq> set entries"
  by (induction keys entries rule: new_entries.induct) auto

lemma new_entries_covers: "entry \<in> set entries \<Longrightarrow> log_key entry \<in> keys \<union> log_key ` set (new_entries keys entries)"
  by (induction keys entries rule: new_entries.induct) auto

lemma new_entries_none: "log_key ` set entries \<subseteq> keys \<Longrightarrow> new_entries keys entries = []"
  by (induction entries) auto

lemma stored_keys_ranges:
  assumes "ranges it st"
  shows "stored_keys it = {log_key entry |agent entry. entry \<in> set (logs_at st agent)}"
proof -
  have "stored_keys it = {log_key entry |agent entries entry. (agent, entries) \<in> set it \<and> entry \<in> set entries}"
    by (auto simp: stored_keys_def)
  also have "\<dots> = {log_key entry |agent entry. entry \<in> set (logs_at st agent)}"
    unfolding ranges_entry [OF assms] logs_at_def
    by (rule Collect_cong) (metis empty_iff list.set(1) option.case_eq_if option.collapse option.discI option.sel)
  finally show ?thesis .
qed

section \<open>The invariant\<close>

definition log_inv :: "LogStore \<Rightarrow> bool" where
  "log_inv st \<longleftrightarrow>
     (\<forall>agent. sorted_wrt (\<lambda>a b. \<not> log_before b a) (logs_at st agent) \<and> length (logs_at st agent) \<le> maxKeptEntries
        \<and> distinct (map log_key (logs_at st agent)) \<and> (\<forall>entry \<in> set (logs_at st agent). log_agent entry = agent))
     \<and> (\<forall>a b e f. e \<in> set (logs_at st a) \<longrightarrow> f \<in> set (logs_at st b) \<longrightarrow> log_key e = log_key f \<longrightarrow> a = b)
     \<and> finite (dom st)"

lemma log_inv_init: "log_inv NewLogStore"
  by (simp add: log_inv_def NewLogStore_def logs_at_def)

lemma AppendLogs_Inr:
  assumes srt: "slice_sort srt" and it: "ranges it st" and inv: "log_inv st"
    and same: "\<forall>entry \<in> set entries. log_agent entry = key"
    and op: "AppendLogs srt it entries st = (Inr stored, st')"
  shows "stored = new_entries (stored_keys it) entries" and "valid_agent key \<or> entries = []"
    and "agent \<noteq> key \<Longrightarrow> logs_at st' agent = logs_at st agent"
    and "stored = [] \<Longrightarrow> st' = st"
    and "newest_of log_before maxKeptEntries (logs_at st key @ stored) (logs_at st' key)"
    and "log_inv st'"
proof -
  let ?keys = "stored_keys it"
  define new where "new = new_entries ?keys entries"
  define st1 where "st1 = snd (append_new ?keys entries st)"
  from op have all_valid: "find (\<lambda>entry. Agent_Validate (log_agent entry) \<noteq> None) entries = None"
    by (auto simp: AppendLogs_def split: option.splits)
  have app: "append_new ?keys entries st = (new, st1)"
    using append_new_eq [of ?keys entries st] by (simp add: new_def st1_def prod_eq_iff)
  with op all_valid have stored: "stored = new" and st': "st' = keep_newest srt (map log_agent new) st1"
    by (auto simp: AppendLogs_def)
  show "stored = new_entries ?keys entries" by (simp add: stored new_def)
  show "valid_agent key \<or> entries = []"
  proof (cases entries)
    case (Cons e es)
    then have "log_agent e = key" "valid_agent (log_agent e)"
      using same all_valid by (auto simp: find_None_iff split: if_splits)
    then show ?thesis by simp
  qed simp
  have new_key: "\<forall>entry \<in> set new. log_agent entry = key"
    using same new_entries_props [of ?keys entries] by (auto simp: new_def)
  then have filters: "filter (\<lambda>entry. log_agent entry = a) new = (if a = key then new else [])" for a
    by (auto simp: filter_id_conv filter_empty_conv)
  have logs1: "logs_at st1 a = logs_at st a @ (if a = key then new else [])" for a
    using append_new_eq [of ?keys entries st a] filters [of a] by (simp add: st1_def new_def [symmetric])
  have affected: "key \<in> set (map log_agent new)" if "new \<noteq> []"
    using that new_key by (cases new) auto
  have others: "agent \<noteq> key \<Longrightarrow> logs_at st' agent = logs_at st agent" for agent
    using new_key logs1 [of agent] by (auto simp: st' keep_newest_def logs_at_def)
  then show "agent \<noteq> key \<Longrightarrow> logs_at st' agent = logs_at st agent" .
  have unchanged: "stored = [] \<Longrightarrow> st' = st"
  proof -
    assume none: "stored = []"
    have "append_new ks es s = ([], s')  \<Longrightarrow> s' = s" for ks es s s'
      by (induction ks es s arbitrary: s' rule: append_new.induct) (auto split: if_splits prod.splits)
    then have "st1 = st" using app none stored by blast
    then show "st' = st" using none by (simp add: st' stored keep_newest_def)
  qed
  then show "stored = [] \<Longrightarrow> st' = st" .
  have newest: "newest_of log_before maxKeptEntries (logs_at st key @ stored) (logs_at st' key)"
  proof (cases "new = []")
    case True
    then have "logs_at st' key = logs_at st key" using unchanged stored by simp
    with inv True stored show ?thesis by (simp add: newest_of_def log_inv_def)
  next
    case False
    have "newest_of log_before maxKeptEntries (logs_at st1 key) (last_n maxKeptEntries (srt log_before (logs_at st1 key)))"
      by (rule slice_sort.last_n_srt [OF srt weak_order_log])
    then show ?thesis
      using affected [OF False] logs1 [of key] by (simp add: st' keep_newest_def logs_at_def stored)
  qed
  then show "newest_of log_before maxKeptEntries (logs_at st key @ stored) (logs_at st' key)" .
  have sub: "set (logs_at st' key) \<subseteq> set (logs_at st key) \<union> set new"
    using newest_of_set [OF newest] stored by auto
  have fresh: "log_key ` set new \<inter> log_key ` set (logs_at st a) = {}" for a
    using new_entries_props [of ?keys entries] stored_keys_ranges [OF it] unfolding new_def by blast
  have dist: "distinct (map log_key (logs_at st' key))"
  proof -
    have "distinct (map log_key (logs_at st key @ new))"
      using inv fresh [of key] new_entries_props [of ?keys entries] by (auto simp: log_inv_def new_def)
    moreover have "mset (map log_key (logs_at st' key)) \<subseteq># mset (map log_key (logs_at st key @ new))"
      using newest image_mset_subseteq_mono [of "mset (logs_at st' key)" "mset (logs_at st key @ new)" log_key]
      unfolding stored newest_of_def mset_map by blast
    ultimately show ?thesis by (rule distinct_sub_mset [rotated])
  qed
  show "log_inv st'"
    unfolding log_inv_def
  proof (intro conjI allI impI ballI)
    fix agent
    show "sorted_wrt (\<lambda>a b. \<not> log_before b a) (logs_at st' agent)"
      using newest inv others by (cases "agent = key") (auto simp: newest_of_def log_inv_def)
    show "length (logs_at st' agent) \<le> maxKeptEntries"
      using newest inv others by (cases "agent = key") (auto simp: newest_of_def log_inv_def)
    show "distinct (map log_key (logs_at st' agent))"
      using dist inv others by (cases "agent = key") (auto simp: log_inv_def)
    fix entry assume "entry \<in> set (logs_at st' agent)"
    then show "log_agent entry = agent"
      using sub new_key inv others by (cases "agent = key") (auto simp: log_inv_def)
  next
    have old: "log_key e = log_key f \<Longrightarrow> e \<in> set (logs_at st a) \<Longrightarrow> f \<in> set (logs_at st b) \<Longrightarrow> a = b" for a b e f
      using inv unfolding log_inv_def by blast
    fix a b e f
    assume e: "e \<in> set (logs_at st' a)" and f: "f \<in> set (logs_at st' b)" and eq: "log_key e = log_key f"
    have cases: "x \<in> set (logs_at st c) \<or> c = key \<and> x \<in> set new" if "x \<in> set (logs_at st' c)" for x c
      using that sub others by (cases "c = key") auto
    from cases [OF e] cases [OF f] show "a = b"
      using old [OF eq] fresh [of a] fresh [of b] eq by (metis IntI empty_iff imageI)
  next
    have "dom st1 \<subseteq> dom st \<union> {key}"
      using append_new_dom [of ?keys entries st] same by (auto simp: st1_def)
    moreover have "dom st' \<subseteq> dom st1 \<union> {key}"
      using new_key by (auto simp: st' keep_newest_def split: if_splits)
    ultimately have "dom st' \<subseteq> dom st \<union> {key}" by blast
    then show "finite (dom st')" using inv finite_subset by (fastforce simp: log_inv_def)
  qed
qed

section \<open>Ingesting\<close>

definition trimmed_agent :: "Agent \<Rightarrow> Agent" where
  "trimmed_agent agent = agent\<lparr>Agent_ID := trim_space (Agent_ID agent)\<rparr>"

lemma normalize_entry_agent:
  "normalize_entry uni agent (trim_space (Agent_ID agent)) r candidate = Inr entry \<Longrightarrow> log_agent entry = trimmed_agent agent"
  by (auto simp: normalize_entry_def log_agent_def trimmed_agent_def Let_def split: option.splits if_splits sum.splits)

lemma normalize_batch_agent:
  "normalize_batch uni agent (trim_space (Agent_ID agent)) r batch = Inr entries
     \<Longrightarrow> length entries = length batch \<and> (\<forall>entry \<in> set entries. log_agent entry = trimmed_agent agent)"
  by (induction batch arbitrary: r entries) (auto split: sum.splits dest: normalize_entry_agent)

lemma publish_store [simp]: "LogService_store (publish entry service) = LogService_store service"
  by (simp add: publish_def Let_def)

lemma publish_all_store [simp]: "LogService_store (fold publish entries service) = LogService_store service"
  by (induction entries arbitrary: service) auto

lemma publish_subscriber:
  "LogService_subscribers (publish entry service) agent stream =
     (if agent = log_agent entry
      then map_option (\<lambda>buffer. if length buffer < LiveSubscriberBuffer then buffer @ [entry] else buffer)
             (LogService_subscribers service agent stream)
      else LogService_subscribers service agent stream)"
  by (simp add: publish_def Let_def)

lemma publish_all_other:
  "\<forall>entry \<in> set entries. log_agent entry \<noteq> agent
     \<Longrightarrow> LogService_subscribers (fold publish entries service) agent = LogService_subscribers service agent"
  by (induction entries arbitrary: service) (auto simp: publish_subscriber fun_eq_iff)

lemma publish_all_buffer:
  assumes "\<forall>entry \<in> set entries. log_agent entry = agent"
    and "LogService_subscribers service agent stream = Some buffer" and "length buffer \<le> LiveSubscriberBuffer"
  shows "LogService_subscribers (fold publish entries service) agent stream = Some (take LiveSubscriberBuffer (buffer @ entries))"
  using assms
proof (induction entries arbitrary: service buffer)
  case Nil
  then show ?case by simp
next
  case (Cons e es)
  have e: "agent = log_agent e" using Cons.prems(1) by simp
  show ?case
  proof (cases "length buffer < LiveSubscriberBuffer")
    case True
    have "LogService_subscribers (publish e service) agent stream = Some (buffer @ [e])"
      using True Cons.prems(2) e by (simp add: publish_subscriber)
    from Cons.IH [OF _ this] True Cons.prems(1) show ?thesis by simp
  next
    case False
    then have "LogService_subscribers (publish e service) agent stream = Some buffer"
      using Cons.prems(2) e by (simp add: publish_subscriber)
    from Cons.IH [OF _ this Cons.prems(3)] False Cons.prems(1,3) show ?thesis by simp
  qed
qed

lemma Ingest_cases:
  assumes "Ingest srt uni it r agent batch service = (result, service')"
  obtains (refused) e where "result = Inl e" "service' = service"
  | (stored) entries stored st' where "result = Inr ()"
      "normalize_batch uni agent (trim_space (Agent_ID agent)) r batch = Inr entries"
      "AppendLogs srt it entries (LogService_store service) = (Inr stored, st')"
      "service' = fold publish stored (service\<lparr>LogService_store := st'\<rparr>)"
proof -
  have failed: "AppendLogs srt it entries st = (Inl e, st') \<Longrightarrow> st' = st" for entries st e st'
    by (auto simp: AppendLogs_def split: option.splits prod.splits)
  have "(\<exists>e. result = Inl e \<and> service' = service) \<or> (\<exists>entries stored st'. result = Inr ()
      \<and> normalize_batch uni agent (trim_space (Agent_ID agent)) r batch = Inr entries
      \<and> AppendLogs srt it entries (LogService_store service) = (Inr stored, st')
      \<and> service' = fold publish stored (service\<lparr>LogService_store := st'\<rparr>))"
    using assms by (auto simp: Ingest_def Let_def split: option.splits if_splits sum.splits prod.splits dest!: failed)
  then show ?thesis using refused stored by blast
qed

lemma new_entries_subseq: "subseq (new_entries keys entries) entries"
  by (induction keys entries rule: new_entries.induct) auto

lemma normalize_batch_ids:
  "(\<forall>candidate \<in> set batch. trim_space (LogEntry_ID candidate) \<noteq> [])
     \<Longrightarrow> normalize_batch uni agent agentID r batch = normalize_batch uni agent agentID r' batch"
proof (induction batch arbitrary: r r')
  case (Cons c cs)
  have "normalize_entry uni agent agentID (r 0) c = normalize_entry uni agent agentID (r' 0) c"
    using Cons.prems by (simp add: normalize_entry_def Let_def split: option.splits)
  moreover have "normalize_batch uni agent agentID (\<lambda>i. r (Suc i)) cs = normalize_batch uni agent agentID (\<lambda>i. r' (Suc i)) cs"
    using Cons.prems by (intro Cons.IH) simp
  ultimately show ?case by (simp only: normalize_batch.simps)
qed simp

text \<open>
  An accepted batch is stored under the sending agent alone: the entries whose (scope, id,
  time) is not stored yet are added once each, in the order sent, the newest
  \<open>maxKeptEntries\<close> entries are kept in order, followers of the agent receive
  exactly the stored entries in order as far as their channel has room, and no other agent's
  entries or followers are touched; the store's invariant is kept.
\<close>

theorem log_ingest:
  assumes "slice_sort srt" and "ranges it (LogService_store service)" and "log_inv (LogService_store service)"
    and op: "Ingest srt uni it r agent batch service = (Inr (), service')"
  shows "\<exists>entries stored. normalize_batch uni agent (trim_space (Agent_ID agent)) r batch = Inr entries
     \<and> subseq stored entries \<and> distinct (map log_key stored)
     \<and> (\<forall>entry \<in> set entries. log_key entry \<in> log_key ` set stored \<or>
          (\<exists>a. \<exists>old \<in> set (logs_at (LogService_store service) a). log_key old = log_key entry))
     \<and> newest_of log_before maxKeptEntries (logs_at (LogService_store service) (trimmed_agent agent) @ stored)
          (logs_at (LogService_store service') (trimmed_agent agent))
     \<and> (\<forall>stream buffer. LogService_subscribers service (trimmed_agent agent) stream = Some buffer
          \<and> length buffer \<le> LiveSubscriberBuffer
          \<longrightarrow> LogService_subscribers service' (trimmed_agent agent) stream = Some (take LiveSubscriberBuffer (buffer @ stored)))
     \<and> (\<forall>other. other \<noteq> trimmed_agent agent
          \<longrightarrow> logs_at (LogService_store service') other = logs_at (LogService_store service) other
            \<and> LogService_subscribers service' other = LogService_subscribers service other)
     \<and> log_inv (LogService_store service')"
  using op
proof (cases rule: Ingest_cases)
  case (stored entries stored st')
  let ?key = "trimmed_agent agent"
  have key: "\<forall>entry \<in> set entries. log_agent entry = ?key"
    using normalize_batch_agent [OF stored(2)] by blast
  note app = AppendLogs_Inr [OF assms(1-3) key stored(3)]
  have sub: "\<forall>entry \<in> set stored. log_agent entry = ?key"
    using key new_entries_props [of "stored_keys it" entries] unfolding app(1) by blast
  have st': "LogService_store service' = st'" unfolding stored(4) by simp
  let ?mid = "service\<lparr>LogService_store := st'\<rparr>"
  have others: "LogService_subscribers service' other = LogService_subscribers service other" if "other \<noteq> ?key" for other
    using publish_all_other [of stored other ?mid] sub that unfolding stored(4) by simp
  have buffers: "LogService_subscribers service' ?key stream = Some (take LiveSubscriberBuffer (buffer @ stored))"
    if "LogService_subscribers service ?key stream = Some buffer \<and> length buffer \<le> LiveSubscriberBuffer" for stream buffer
    unfolding stored(4) by (rule publish_all_buffer [OF sub]) (use that in simp_all)
  have covered: "log_key entry \<in> log_key ` set stored \<or>
      (\<exists>a. \<exists>old \<in> set (logs_at (LogService_store service) a). log_key old = log_key entry)"
    if "entry \<in> set entries" for entry
    using new_entries_covers [OF that, of "stored_keys it"] unfolding app(1) stored_keys_ranges [OF assms(2)] by force
  have fresh: "subseq stored entries" "distinct (map log_key stored)"
    unfolding app(1) using new_entries_subseq new_entries_props by blast+
  show ?thesis
    unfolding st' using stored(2) fresh covered app(3,5,6) others buffers by blast
qed simp_all

text \<open>What was accepted stays: the keys in the store, as long as the bound pushes nothing out.\<close>

definition log_keys :: "LogStore \<Rightarrow> log_key set" where
  "log_keys st = log_key ` (\<Union>agent. set (logs_at st agent))"

lemma log_keys_ranges: "ranges it st \<Longrightarrow> stored_keys it = log_keys st"
  by (auto simp: stored_keys_ranges log_keys_def)

lemma Ingest_keeps:
  assumes "slice_sort srt" and "ranges it (LogService_store service)" and "log_inv (LogService_store service)"
    and op: "Ingest srt uni it r agent batch service = (Inr (), service')"
    and room: "length (logs_at (LogService_store service) (trimmed_agent agent)) + length batch \<le> maxKeptEntries"
  obtains entries where "normalize_batch uni agent (trim_space (Agent_ID agent)) r batch = Inr entries"
    "log_keys (LogService_store service') = log_keys (LogService_store service) \<union> log_key ` set entries"
    "length (logs_at (LogService_store service') (trimmed_agent agent))
       \<le> length (logs_at (LogService_store service) (trimmed_agent agent)) + length batch"
  using op
proof (cases rule: Ingest_cases)
  case (stored entries stored st')
  let ?key = "trimmed_agent agent"
  have key: "\<forall>entry \<in> set entries. log_agent entry = ?key"
    and len: "length entries = length batch"
    using normalize_batch_agent [OF stored(2)] by blast+
  note app = AppendLogs_Inr [OF assms(1-3) key stored(3)]
  have st': "LogService_store service' = st'" unfolding stored(4) by simp
  have few: "length stored \<le> length batch"
    using list_emb_length [OF new_entries_subseq [of "stored_keys it" entries]] len app(1) by simp
  then have same: "mset (logs_at st' ?key) = mset (logs_at (LogService_store service) ?key @ stored)"
    using newest_of_all [OF app(5)] room by simp
  then have kept: "set (logs_at st' ?key) = set (logs_at (LogService_store service) ?key) \<union> set stored"
    by (metis set_append set_mset_mset)
  have "set (logs_at st' a) = set (logs_at (LogService_store service) a) \<union> (if a = ?key then set stored else {})" for a
    using kept app(3) by simp
  then have "(\<Union>a. set (logs_at st' a)) = (\<Union>a. set (logs_at (LogService_store service) a)) \<union> set stored"
    by (auto split: if_splits)
  then have "log_keys st' = log_keys (LogService_store service) \<union> log_key ` set stored"
    by (simp add: log_keys_def image_Un)
  moreover have "log_keys (LogService_store service) \<union> log_key ` set stored
      = log_keys (LogService_store service) \<union> log_key ` set entries"
    using new_entries_covers [of _ entries "stored_keys it"] new_entries_props [of "stored_keys it" entries]
    unfolding app(1) log_keys_ranges [OF assms(2)] by blast
  moreover have "length (logs_at st' ?key) \<le> length (logs_at (LogService_store service) ?key) + length batch"
    using few mset_eq_length [OF same] by simp
  ultimately show thesis using that stored(2) by (simp add: st')
qed simp_all

text \<open>A batch of which every key is in the store changes nothing, in the store or in any stream.\<close>

lemma Ingest_known:
  assumes "ranges it (LogService_store service)" and batch: "normalize_batch uni agent (trim_space (Agent_ID agent)) r batch = Inr entries"
    and known: "log_key ` set entries \<subseteq> log_keys (LogService_store service)"
    and valid: "valid_agent (trimmed_agent agent)" "Agent_Validate agent = None"
    and size: "trim_space (Agent_ID agent) \<noteq> []" "batch \<noteq> []" "length batch \<le> MaxBatchEntries"
  shows "Ingest srt uni it r agent batch service = (Inr (), service)"
proof -
  let ?st = "LogService_store service"
  have "\<forall>entry \<in> set entries. log_agent entry = trimmed_agent agent" using normalize_batch_agent [OF batch] by blast
  then have "find (\<lambda>entry. Agent_Validate (log_agent entry) \<noteq> None) entries = None"
    using valid(1) by (auto simp: find_None_iff)
  moreover have "append_new (stored_keys it) entries ?st = ([], ?st)"
    if "log_key ` set entries \<subseteq> stored_keys it" using that by (induction entries) auto
  moreover have "stored_keys it = log_keys ?st" using assms(1) by (rule log_keys_ranges)
  ultimately have "AppendLogs srt it entries ?st = (Inr [], ?st)"
    using known by (simp add: AppendLogs_def keep_newest_def)
  then show ?thesis using batch valid(2) size by (simp add: Ingest_def Let_def)
qed

lemma Ingest_valid:
  assumes "Ingest srt uni it r agent batch service = (Inr (), service')"
  shows "valid_agent (trimmed_agent agent)" "Agent_Validate agent = None" "trim_space (Agent_ID agent) \<noteq> []" "batch \<noteq> []"
    "length batch \<le> MaxBatchEntries"
proof -
  show "Agent_Validate agent = None" "trim_space (Agent_ID agent) \<noteq> []" "batch \<noteq> []" "length batch \<le> MaxBatchEntries"
    using assms by (auto simp: Ingest_def Let_def split: option.splits if_splits)
  then show "valid_agent (trimmed_agent agent)"
    using length_trim_space [of "Agent_ID agent"] set_trim_space [of "Agent_ID agent"]
    by (auto simp: Agent_Validate_def trimmed_agent_def Agent_Scope_def split: option.splits if_splits)
qed

text \<open>
  A batch whose entries carry their ids can be sent again, whole, after it was accepted
  (as an agent does that never saw the answer): nothing is stored or published twice, and the
  service is as before. The bound says that the batch did not push entries out of the store.
\<close>

theorem log_resend:
  assumes "slice_sort srt" and "ranges it (LogService_store service)" and "log_inv (LogService_store service)"
    and op: "Ingest srt uni it r agent batch service = (Inr (), service')"
    and "ranges it' (LogService_store service')"
    and ids: "\<forall>candidate \<in> set batch. trim_space (LogEntry_ID candidate) \<noteq> []"
    and room: "length (logs_at (LogService_store service) (trimmed_agent agent)) + length batch \<le> maxKeptEntries"
  shows "Ingest srt uni it' r' agent batch service' = (Inr (), service')"
proof -
  obtain entries where entries: "normalize_batch uni agent (trim_space (Agent_ID agent)) r batch = Inr entries"
    "log_keys (LogService_store service') = log_keys (LogService_store service) \<union> log_key ` set entries"
    by (rule Ingest_keeps [OF assms(1-3) op room])
  have "normalize_batch uni agent (trim_space (Agent_ID agent)) r' batch = Inr entries"
    using normalize_batch_ids [OF ids] entries(1) by metis
  then show ?thesis
    by (rule Ingest_known [OF assms(5) _ _ Ingest_valid [OF op]]) (simp add: entries(2))
qed

text \<open>
  A search answers with the newest \<open>Limit\<close> (at most 500) of the entries that match its
  filters, in order, from the requested agent in the requested tenant and within the requested
  time range only; nothing that any other agent or tenant sends changes the answer.
\<close>

theorem log_search:
  assumes "slice_sort srt" and "log_inv (LogService_store service)"
    and "Search srt uni query service = Inr rows"
  shows "\<exists>q. normalize_query uni query = Inr q
     \<and> newest_of log_before (nat (LogQuery_Limit query))
         (filter (log_matches uni q) (logs_at (LogService_store service) (query_agent q))) rows
     \<and> length rows \<le> 500
     \<and> (\<forall>row \<in> set rows. Agent_Scope (log_agent row) = LogQuery_Scope query
          \<and> LogEntry_AgentID row = trim_space (LogQuery_AgentID query)
          \<and> LogQuery_From query \<le> LogEntry_OccurredAt row \<and> LogEntry_OccurredAt row \<le> LogQuery_To query)
     \<and> (\<forall>it r agent batch result service'. ranges it (LogService_store service) \<and> trimmed_agent agent \<noteq> query_agent q
          \<and> Ingest srt uni it r agent batch service = (result, service') \<longrightarrow> Search srt uni query service' = Inr rows)"
proof -
  obtain q where q: "normalize_query uni query = Inr q" and found: "SearchLogs srt uni q (LogService_store service) = Inr rows"
    using assms(3) by (auto simp: Search_def split: sum.splits)
  have same: "LogQuery_Scope q = LogQuery_Scope query" "LogQuery_AgentID q = trim_space (LogQuery_AgentID query)"
    "LogQuery_From q = LogQuery_From query" "LogQuery_To q = LogQuery_To query" "LogQuery_Limit q = LogQuery_Limit query"
    and limit: "LogQuery_Limit query \<le> 500"
    using q by (auto simp: normalize_query_def Let_def split: option.splits if_splits)
  define matching where "matching = filter (log_matches uni q) (logs_at (LogService_store service) (query_agent q))"
  have rows: "rows = last_n (nat (LogQuery_Limit query)) (srt log_before matching)"
    using found by (auto simp: SearchLogs_def matching_def same split: option.splits)
  have newest: "newest_of log_before (nat (LogQuery_Limit query)) matching rows"
    unfolding rows by (rule slice_sort.last_n_srt [OF assms(1) weak_order_log])
  then have short: "length rows \<le> 500" using limit by (simp add: newest_of_def min_def split: if_splits)
  have row: "log_agent row = query_agent q \<and> log_matches uni q row" if "row \<in> set rows" for row
    using newest_of_set [OF newest] that assms(2) by (auto simp: matching_def log_inv_def)
  have fields: "Agent_Scope (log_agent row) = LogQuery_Scope query \<and> LogEntry_AgentID row = trim_space (LogQuery_AgentID query)
      \<and> LogQuery_From query \<le> LogEntry_OccurredAt row \<and> LogEntry_OccurredAt row \<le> LogQuery_To query" if "row \<in> set rows" for row
    using row [OF that] by (auto simp: scope_eq_iff log_agent_def query_agent_def same log_matches_def)
  have unaffected: "Search srt uni query service' = Inr rows"
    if it: "ranges it (LogService_store service)" and other: "trimmed_agent agent \<noteq> query_agent q"
      and op: "Ingest srt uni it r agent batch service = (result, service')" for it r agent batch result service'
  proof -
    have "logs_at (LogService_store service') (query_agent q) = logs_at (LogService_store service) (query_agent q)"
      using op
    proof (cases rule: Ingest_cases)
      case (stored entries stored st')
      have "\<forall>entry \<in> set entries. log_agent entry = trimmed_agent agent"
        using normalize_batch_agent [OF stored(2)] by blast
      from AppendLogs_Inr(3) [OF assms(1) it assms(2) this stored(3)] other show ?thesis
        unfolding stored(4) by auto
    qed simp
    then show ?thesis using found by (simp add: Search_def q SearchLogs_def split: option.splits)
  qed
  show ?thesis
    by (intro exI [of _ q] conjI ballI allI impI) (use q newest short fields unaffected in \<open>auto simp: matching_def\<close>)
qed

section \<open>Witnesses\<close>

text \<open>One agent sends one entry to an empty hub that has one follower of it.\<close>

definition toy_log :: LogEntry where
  "toy_log = \<lparr>LogEntry_OrganizationID = ''org'', LogEntry_SiteID = ''site'', LogEntry_ID = replicate 32 (CHR ''a''),
     LogEntry_AgentID = ''agent'', LogEntry_OccurredAt = 5, LogEntry_Collector = ''file'', LogEntry_Source = ''app'',
     LogEntry_Severity = ''info'', LogEntry_Message = ''up'', LogEntry_SourceID = []\<rparr>"

definition toy_log_agent :: Agent where
  "toy_log_agent = \<lparr>Agent_ID = ''agent'', Agent_OrganizationID = ''org'', Agent_SiteID = ''site''\<rparr>"

definition toy_follower :: LogService where
  "toy_follower = NewLogService\<lparr>LogService_subscribers := (\<lambda>_. Map.empty)(toy_log_agent := [0 \<mapsto> []])\<rparr>"

definition toy_logged :: LogService where
  "toy_logged = \<lparr>LogService_store = [toy_log_agent \<mapsto> [toy_log]],
     LogService_subscribers = (\<lambda>_. Map.empty)(toy_log_agent := [0 \<mapsto> [toy_log]])\<rparr>"

definition toy_query :: LogQuery where
  "toy_query = \<lparr>LogQuery_Scope = \<lparr>Scope_OrganizationID = ''org'', Scope_SiteID = ''site''\<rparr>, LogQuery_AgentID = ''agent'',
     LogQuery_From = 1, LogQuery_To = 9, LogQuery_Collector = [], LogQuery_Severity = ''info'', LogQuery_Source = [],
     LogQuery_Text = [], LogQuery_Limit = 10\<rparr>"

lemma toy_trims:
  "trim_space ''agent'' = ''agent''" "trim_space ''org'' = ''org''" "trim_space ''site'' = ''site''"
  "trim_space ''app'' = ''app''" "trim_space ''up'' = ''up''" "trim_space ''file'' = ''file''" "trim_space ''info'' = ''info''"
  by (rule trim_space_plain; simp add: plain_char_def)+

lemma toy_log_id: "hex32_pattern (replicate 32 (CHR ''a''))" "trim_space (replicate 32 (CHR ''a'')) = replicate 32 (CHR ''a'')"
  by (simp_all add: hex32_pattern_def is_lower_hex_def trim_space_hex list_all_iff)

lemma toy_lowers: "to_lower uni ''file'' = ''file''" "to_lower uni ''info'' = ''info''"
  by (simp_all add: to_lower_def is_ascii_def lower_char_def)

lemma toy_log_agent_valid: "valid_agent toy_log_agent"
  by (simp add: Agent_Validate_def Scope_Validate_def toy_log_agent_def toy_trims nul_def)

lemma toy_normalized: "normalize_batch uni toy_log_agent ''agent'' r [toy_log] = Inr [toy_log]"
  by (simp add: normalize_entry_def toy_log_def toy_log_agent_def toy_trims toy_lowers toy_log_id Let_def
      normalizeCollector_def normalizeSeverity_def CollectorFile_def LogInfo_def)

lemma toy_log_at: "log_agent toy_log = toy_log_agent"
  by (simp add: log_agent_def toy_log_def toy_log_agent_def)

lemma toy_last: "last_n maxKeptEntries [toy_log] = [toy_log]"
  by (simp add: last_n_def maxKeptEntries_def)

lemma toy_ingested: "Ingest insertion_sort uni [] r toy_log_agent [toy_log] toy_follower = (Inr (), toy_logged)"
proof -
  have "AppendLogs insertion_sort [] [toy_log] Map.empty = (Inr [toy_log], [toy_log_agent \<mapsto> [toy_log]])"
    by (auto simp: AppendLogs_def toy_log_at toy_log_agent_valid stored_keys_def keep_newest_def logs_at_def
        insertion_sort_def toy_last fun_eq_iff)
  moreover have "trim_space (Agent_ID toy_log_agent) = ''agent''" by (simp add: toy_log_agent_def toy_trims)
  ultimately show ?thesis
    by (simp add: Ingest_def toy_log_agent_valid toy_normalized [simplified] toy_follower_def NewLogService_def NewLogStore_def
        MaxBatchEntries_def publish_def toy_log_at toy_logged_def LiveSubscriberBuffer_def fun_eq_iff Let_def)
qed

lemma toy_ranges: "ranges [] (LogService_store toy_follower)" "ranges [(toy_log_agent, [toy_log])] (LogService_store toy_logged)"
  and toy_inv: "log_inv (LogService_store toy_follower)"
  using log_inv_init by (simp_all add: toy_follower_def toy_logged_def NewLogService_def NewLogStore_def)

lemma toy_logged_inv: "log_inv (LogService_store toy_logged)"
  by (auto simp: log_inv_def toy_logged_def logs_at_def toy_log_at maxKeptEntries_def split: if_splits)

lemma toy_agent_trimmed: "trimmed_agent toy_log_agent = toy_log_agent"
  by (simp add: trimmed_agent_def toy_log_agent_def toy_trims)

theorem log_ingest_witness: "\<exists>stored. subseq stored [toy_log]
    \<and> LogService_subscribers toy_logged toy_log_agent 0 = Some (take LiveSubscriberBuffer stored)"
proof -
  have follower: "LogService_subscribers toy_follower (trimmed_agent toy_log_agent) 0 = Some [] \<and> length ([] :: LogEntry list) \<le> LiveSubscriberBuffer"
    by (simp add: toy_follower_def toy_agent_trimmed)
  have trimmed: "trim_space (Agent_ID toy_log_agent) = ''agent''" by (simp add: toy_log_agent_def toy_trims)
  obtain entries stored where
    "normalize_batch (\<lambda>s. s) toy_log_agent (trim_space (Agent_ID toy_log_agent)) (\<lambda>_. None) [toy_log] = Inr entries"
    "subseq stored entries"
    "\<forall>stream buffer. LogService_subscribers toy_follower (trimmed_agent toy_log_agent) stream = Some buffer
          \<and> length buffer \<le> LiveSubscriberBuffer
          \<longrightarrow> LogService_subscribers toy_logged (trimmed_agent toy_log_agent) stream = Some (take LiveSubscriberBuffer (buffer @ stored))"
    using log_ingest [OF insertion.slice_sort_axioms toy_ranges(1) toy_inv
        toy_ingested [of "\<lambda>s. s" "\<lambda>_. None"]] by (elim exE conjE)
  moreover from this(1) have "entries = [toy_log]" unfolding trimmed toy_normalized by simp
  ultimately show ?thesis using follower unfolding toy_agent_trimmed by (metis append_Nil)
qed

theorem log_resend_witness:
  "Ingest insertion_sort (\<lambda>s. s) [(toy_log_agent, [toy_log])] (\<lambda>_. None) toy_log_agent [toy_log] toy_logged = (Inr (), toy_logged)"
  by (rule log_resend [OF insertion.slice_sort_axioms toy_ranges(1) toy_inv toy_ingested toy_ranges(2)])
    (simp_all add: toy_log_def toy_log_id toy_follower_def NewLogService_def NewLogStore_def logs_at_def maxKeptEntries_def
     )

theorem log_search_witness: "\<exists>rows. Search insertion_sort (\<lambda>s. s) toy_query toy_logged = Inr rows \<and> length rows = 1"
proof -
  have "Search insertion_sort (\<lambda>s. s) toy_query toy_logged = Inr [toy_log]"
    by (simp add: Search_def normalize_query_def toy_query_def Scope_Validate_def toy_trims nul_def toy_lowers
        normalizeSeverity_def LogInfo_def SearchLogs_def query_agent_def toy_logged_def logs_at_def toy_log_agent_def
        log_matches_def toy_log_def insertion_sort_def last_n_def Let_def)
  from this log_search [OF insertion.slice_sort_axioms toy_logged_inv this] show ?thesis by auto
qed

end
