(* ===== verification/Telemetry.thy ===== *)
theory Telemetry
  imports Float64 "HOL-Library.Word"
begin

text \<open>
  \<open>internal/telemetry\<close>: the samples agents send, their history and the average load of the
  fleet. Counters are 64-bit words, percentages \<open>float64\<close> values; \<open>srt\<close> is \<open>sort.Slice\<close>, \<open>rnd\<close>
  the rounding of floating-point results, \<open>it\<close> the visit of the sample map.
\<close>

section \<open>Data\<close>

record Sample =
  Sample_OrganizationID :: string
  Sample_SiteID :: string
  Sample_AgentID :: string
  Sample_RecordedAt :: time
  Sample_CPUPercent :: f64
  Sample_MemoryPercent :: f64
  Sample_DiskPercent :: f64
  Sample_NetworkRXBytes :: "64 word"
  Sample_NetworkTXBytes :: "64 word"

record FleetAverage =
  FleetAverage_AverageCPUPercent :: f64
  FleetAverage_DeviceCount :: nat

definition math_MaxInt64 :: "64 word" where "math_MaxInt64 = 2 ^ 63 - 1"

definition validPercent :: "f64 \<Rightarrow> bool" where
  "validPercent x \<longleftrightarrow> x \<noteq> NaN \<and> \<not> (x = PosInf \<or> x = NegInf) \<and> f64_le (Fin 0) x \<and> f64_le x (Fin 100)"

section \<open>The in-memory store\<close>

type_synonym SampleStore = "Agent \<rightharpoonup> Sample list"

definition NewSampleStore :: SampleStore where "NewSampleStore = Map.empty"

definition samples_at :: "SampleStore \<Rightarrow> Agent \<Rightarrow> Sample list" where
  "samples_at st agent = (case st agent of None \<Rightarrow> [] | Some samples \<Rightarrow> samples)"

definition sample_agent :: "Sample \<Rightarrow> Agent" where
  "sample_agent sample = \<lparr>Agent_ID = Sample_AgentID sample, Agent_OrganizationID = Sample_OrganizationID sample,
                          Agent_SiteID = Sample_SiteID sample\<rparr>"

definition sample_before :: "Sample \<Rightarrow> Sample \<Rightarrow> bool" where
  "sample_before a b \<longleftrightarrow> Sample_RecordedAt a < Sample_RecordedAt b"

text \<open>The loop that looks for a sample of the same instant: None when there is none.\<close>

fun replace_sample :: "Sample \<Rightarrow> Sample list \<Rightarrow> Sample list option" where
  "replace_sample sample [] = None"
| "replace_sample sample (x # xs) =
     (if Sample_RecordedAt x = Sample_RecordedAt sample then Some (sample # xs)
      else map_option ((#) x) (replace_sample sample xs))"

definition Append :: "Sample sorter \<Rightarrow> Sample \<Rightarrow> SampleStore \<Rightarrow> (unit, SampleStore) op" where
  "Append srt sample st =
     (let key = sample_agent sample in
      case Agent_Validate key of
        Some e \<Rightarrow> (Inl e, st)
      | None \<Rightarrow>
          let samples = (case replace_sample sample (samples_at st key) of
                           None \<Rightarrow> samples_at st key @ [sample] | Some samples \<Rightarrow> samples)
          in (Inr (), st(key \<mapsto> srt sample_before samples)))"

definition SampleHistory :: "Scope \<Rightarrow> string \<Rightarrow> time \<Rightarrow> time \<Rightarrow> int \<Rightarrow> SampleStore \<Rightarrow> Sample list res" where
  "SampleHistory scope agentID since to limit st =
     (case Scope_Validate scope of
        Some e \<Rightarrow> Inl e
      | None \<Rightarrow>
          let key = \<lparr>Agent_ID = agentID, Agent_OrganizationID = Scope_OrganizationID scope, Agent_SiteID = Scope_SiteID scope\<rparr>;
              result = filter (\<lambda>sample. \<not> (Sample_RecordedAt sample < since \<or> to < Sample_RecordedAt sample)) (samples_at st key)
          in Inr (if int (length result) > limit then drop (nat (int (length result) - limit)) result else result))"

text \<open>The agents of a scope whose newest sample is recent, with that sample, in the order of the visit.\<close>

fun recent_samples :: "Scope \<Rightarrow> time \<Rightarrow> (Agent \<times> Sample list) list \<Rightarrow> Sample list" where
  "recent_samples scope since [] = []"
| "recent_samples scope since ((agent, samples) # it) =
     (if Agent_OrganizationID agent \<noteq> Scope_OrganizationID scope \<or> Agent_SiteID agent \<noteq> Scope_SiteID scope
         \<or> length samples = 0 \<or> Sample_RecordedAt (last samples) < since
      then recent_samples scope since it
      else last samples # recent_samples scope since it)"

definition StoreFleetAverage :: "rounding \<Rightarrow> (Agent \<times> Sample list) list \<Rightarrow> Scope \<Rightarrow> time \<Rightarrow> FleetAverage res" where
  "StoreFleetAverage rnd it scope since =
     (let recent = recent_samples scope since it;
          sum = fold (\<lambda>sample sum. f64_add rnd sum (Sample_CPUPercent sample)) recent (Fin 0) in
      if length recent = 0 then Inr \<lparr>FleetAverage_AverageCPUPercent = Fin 0, FleetAverage_DeviceCount = 0\<rparr>
      else Inr \<lparr>FleetAverage_AverageCPUPercent = f64_div rnd sum (of_nat (length recent)),
                FleetAverage_DeviceCount = length recent\<rparr>)"

section \<open>The service\<close>

definition normalize_sample :: "Agent \<Rightarrow> Sample \<Rightarrow> Sample" where
  "normalize_sample agent sample =
     sample\<lparr>Sample_AgentID := trim_space (Agent_ID agent), Sample_OrganizationID := Agent_OrganizationID agent,
            Sample_SiteID := Agent_SiteID agent, Sample_RecordedAt := truncate_micro (Sample_RecordedAt sample)\<rparr>"

definition valid_sample :: "Sample \<Rightarrow> bool" where
  "valid_sample sample \<longleftrightarrow>
     \<not> (Sample_AgentID sample = [] \<or> Sample_RecordedAt sample = 0 \<or> \<not> validPercent (Sample_CPUPercent sample)
         \<or> \<not> validPercent (Sample_MemoryPercent sample) \<or> \<not> validPercent (Sample_DiskPercent sample)
         \<or> math_MaxInt64 < Sample_NetworkRXBytes sample \<or> math_MaxInt64 < Sample_NetworkTXBytes sample)"

definition Telemetry_Report :: "Sample sorter \<Rightarrow> Agent \<Rightarrow> Sample \<Rightarrow> SampleStore \<Rightarrow> (unit, SampleStore) op" where
  "Telemetry_Report srt agent sample0 st =
     (case Agent_Validate agent of
        Some e \<Rightarrow> (Inl e, st)
      | None \<Rightarrow>
          let sample = normalize_sample agent sample0 in
          if \<not> valid_sample sample then (Inl ErrInvalidSample, st) else Append srt sample st)"

definition Telemetry_History :: "Scope \<Rightarrow> string \<Rightarrow> time \<Rightarrow> time \<Rightarrow> int \<Rightarrow> SampleStore \<Rightarrow> Sample list res" where
  "Telemetry_History scope agentID0 since to limit st =
     (case Scope_Validate scope of
        Some e \<Rightarrow> Inl e
      | None \<Rightarrow>
          let agentID = trim_space agentID0 in
          if agentID = [] \<or> since = 0 \<or> to = 0 \<or> \<not> since < to \<or> limit < 1 \<or> 2000 < limit then Inl ErrInvalidSample
          else SampleHistory scope agentID since to limit st)"

definition Telemetry_FleetAverage :: "rounding \<Rightarrow> (Agent \<times> Sample list) list \<Rightarrow> Scope \<Rightarrow> time \<Rightarrow> FleetAverage res" where
  "Telemetry_FleetAverage rnd it scope since =
     (case Scope_Validate scope of Some e \<Rightarrow> Inl e | None \<Rightarrow> StoreFleetAverage rnd it scope since)"

section \<open>The invariant\<close>

text \<open>Per agent: one sample an instant, in order, each the agent's own and valid.\<close>

definition sample_inv :: "SampleStore \<Rightarrow> bool" where
  "sample_inv st \<longleftrightarrow>
     (\<forall>agent. sorted_wrt sample_before (samples_at st agent)
        \<and> (\<forall>sample \<in> set (samples_at st agent). sample_agent sample = agent \<and> valid_sample sample))"

lemma weak_order_sample: "weak_order sample_before"
  unfolding sample_before_def [abs_def] by (rule weak_order_key)

lemma samples_at_upd [simp]: "samples_at (st(a \<mapsto> xs)) b = (if b = a then xs else samples_at st b)"
  by (simp add: samples_at_def)

lemma sample_inv_init: "sample_inv NewSampleStore"
  by (simp add: sample_inv_def NewSampleStore_def samples_at_def)

lemma sorted_before_iff:
  "sorted_wrt sample_before xs \<longleftrightarrow>
     sorted_wrt (\<lambda>a b. \<not> sample_before b a) xs \<and> distinct (map Sample_RecordedAt xs)"
  by (induction xs) (auto simp: sample_before_def not_less order_le_less)

lemma replace_sample_None:
  "replace_sample sample xs = None \<longleftrightarrow> Sample_RecordedAt sample \<notin> Sample_RecordedAt ` set xs"
  by (induction xs) auto

lemma replace_sample_Some:
  "replace_sample sample xs = Some ys \<Longrightarrow>
     map Sample_RecordedAt ys = map Sample_RecordedAt xs \<and> set ys \<subseteq> insert sample (set xs) \<and> sample \<in> set ys
     \<and> (distinct (map Sample_RecordedAt xs) \<longrightarrow>
          set ys = insert sample {x \<in> set xs. Sample_RecordedAt x \<noteq> Sample_RecordedAt sample})"
proof (induction xs arbitrary: ys)
  case (Cons x xs)
  show ?case
  proof (cases "Sample_RecordedAt x = Sample_RecordedAt sample")
    case True
    then show ?thesis using Cons.prems by (auto simp: image_iff) metis+
  next
    case False
    then obtain zs where zs: "replace_sample sample xs = Some zs" "ys = x # zs" using Cons.prems by auto
    from Cons.IH [OF zs(1)] zs(2) False show ?thesis by auto
  qed
qed simp

text \<open>What an accepted sample does to its agent's samples.\<close>

lemma Append_effect:
  assumes srt: "slice_sort srt" and inv: "sample_inv st" and valid: "valid_sample sample"
    and op: "Append srt sample st = (Inr (), st')"
  shows "set (samples_at st' (sample_agent sample)) =
      insert sample {old \<in> set (samples_at st (sample_agent sample)). Sample_RecordedAt old \<noteq> Sample_RecordedAt sample}"
    and "other \<noteq> sample_agent sample \<Longrightarrow> samples_at st' other = samples_at st other"
    and "sample_inv st'"
proof -
  let ?key = "sample_agent sample" and ?old = "samples_at st (sample_agent sample)"
  define new where "new = (case replace_sample sample ?old of None \<Rightarrow> ?old @ [sample] | Some samples \<Rightarrow> samples)"
  have st': "st' = st(?key \<mapsto> srt sample_before new)"
    using op by (auto simp: Append_def Let_def new_def split: option.splits)
  have old: "distinct (map Sample_RecordedAt ?old)" "\<forall>s \<in> set ?old. sample_agent s = ?key \<and> valid_sample s"
    using inv by (simp_all add: sample_inv_def sorted_before_iff)
  have new: "set new = insert sample {s \<in> set ?old. Sample_RecordedAt s \<noteq> Sample_RecordedAt sample}"
    "distinct (map Sample_RecordedAt new)"
  proof -
    show "set new = insert sample {s \<in> set ?old. Sample_RecordedAt s \<noteq> Sample_RecordedAt sample}"
    proof (cases "replace_sample sample ?old")
      case None
      then show ?thesis using replace_sample_None [of sample ?old] by (auto simp: new_def) (metis image_eqI)
    next
      case (Some ys)
      then show ?thesis using replace_sample_Some [OF Some] old(1) by (simp add: new_def)
    qed
    show "distinct (map Sample_RecordedAt new)"
    proof (cases "replace_sample sample ?old")
      case None
      then show ?thesis using replace_sample_None [of sample ?old] old(1) by (simp add: new_def)
    next
      case (Some ys)
      then show ?thesis using replace_sample_Some [OF Some] old(1) by (simp add: new_def)
    qed
  qed
  have sorted: "sorted_wrt sample_before (srt sample_before new)"
  proof -
    have "distinct (map Sample_RecordedAt (srt sample_before new))"
    proof (rule distinct_sub_mset [OF _ new(2)])
      show "mset (map Sample_RecordedAt (srt sample_before new)) \<subseteq># mset (map Sample_RecordedAt new)"
        by (simp add: slice_sort.mset_srt [OF srt])
    qed
    then show ?thesis unfolding sorted_before_iff using slice_sort.ordered_srt [OF srt weak_order_sample] by blast
  qed
  show eq: "set (samples_at st' ?key) = insert sample {s \<in> set ?old. Sample_RecordedAt s \<noteq> Sample_RecordedAt sample}"
    unfolding st' using new(1) by (simp add: slice_sort.set_srt [OF srt])
  show "other \<noteq> ?key \<Longrightarrow> samples_at st' other = samples_at st other" unfolding st' by simp
  show "sample_inv st'"
    unfolding sample_inv_def
  proof (intro allI conjI ballI)
    fix agent
    show "sorted_wrt sample_before (samples_at st' agent)"
      unfolding st' using sorted inv by (simp add: sample_inv_def)
    fix s assume "s \<in> set (samples_at st' agent)"
    then show "sample_agent s = agent" "valid_sample s"
      using eq inv valid old(2) by (cases "agent = ?key"; auto simp: sample_inv_def st' simp del: fun_upd_apply)+
  qed
qed

section \<open>Properties\<close>

lemma validPercent_iff: "validPercent x \<longleftrightarrow> (\<exists>c. x = Fin c \<and> 0 \<le> c \<and> c \<le> 100)"
  by (cases x) (auto simp: validPercent_def)

lemma sorted_drop: "sorted_wrt P xs \<Longrightarrow> sorted_wrt P (drop n xs)"
  by (metis append_take_drop_id sorted_wrt_append)

text \<open>
  An accepted sample becomes the agent's one sample of its instant (in microseconds),
  replacing an earlier one of the same instant; no other agent's samples change; counters and
  percentages in the store are within their bounds and each agent's samples are in order. The
  history returns, in order, the newest \<open>limit\<close> (at most 2000) samples of exactly the requested agent
  and tenant within the requested time.
\<close>

theorem telemetry_history:
  assumes srt: "slice_sort srt" and inv: "sample_inv st"
    and op: "Telemetry_Report srt agent sample0 st = (Inr (), st')"
  shows "(let sample = normalize_sample agent sample0; key = sample_agent sample in
       Agent_Scope key = Agent_Scope agent \<and> Agent_ID key = trim_space (Agent_ID agent) \<and> valid_sample sample
       \<and> set (samples_at st' key)
           = insert sample {old \<in> set (samples_at st key). Sample_RecordedAt old \<noteq> Sample_RecordedAt sample}
       \<and> (\<forall>other. other \<noteq> key \<longrightarrow> samples_at st' other = samples_at st other))
     \<and> sample_inv st'
     \<and> (\<forall>scope agentID since to limit rows. Telemetry_History scope agentID since to limit st' = Inr rows \<longrightarrow>
          rows = last_n (nat limit) (filter (\<lambda>sample. since \<le> Sample_RecordedAt sample \<and> Sample_RecordedAt sample \<le> to)
             (samples_at st' \<lparr>Agent_ID = trim_space agentID, Agent_OrganizationID = Scope_OrganizationID scope,
                              Agent_SiteID = Scope_SiteID scope\<rparr>))
          \<and> length rows \<le> 2000 \<and> sorted_wrt sample_before rows
          \<and> (\<forall>row \<in> set rows. Agent_Scope (sample_agent row) = scope \<and> Sample_AgentID row = trim_space agentID
               \<and> since \<le> Sample_RecordedAt row \<and> Sample_RecordedAt row \<le> to \<and> valid_sample row))"
proof -
  define sample where "sample = normalize_sample agent sample0"
  have valid: "valid_sample sample" and append: "Append srt sample st = (Inr (), st')"
    using op by (auto simp: Telemetry_Report_def sample_def Let_def split: option.splits if_splits)
  note effect = Append_effect [OF srt inv valid append]
  have key: "Agent_Scope (sample_agent sample) = Agent_Scope agent" "Agent_ID (sample_agent sample) = trim_space (Agent_ID agent)"
    by (simp_all add: sample_def normalize_sample_def sample_agent_def scope_eq_iff)
  have history: "rows = last_n (nat limit) (filter (\<lambda>sample. since \<le> Sample_RecordedAt sample \<and> Sample_RecordedAt sample \<le> to)
        (samples_at st' \<lparr>Agent_ID = trim_space agentID, Agent_OrganizationID = Scope_OrganizationID scope, Agent_SiteID = Scope_SiteID scope\<rparr>))
      \<and> length rows \<le> 2000 \<and> sorted_wrt sample_before rows
      \<and> (\<forall>row \<in> set rows. Agent_Scope (sample_agent row) = scope \<and> Sample_AgentID row = trim_space agentID
           \<and> since \<le> Sample_RecordedAt row \<and> Sample_RecordedAt row \<le> to \<and> valid_sample row)"
    if rows: "Telemetry_History scope agentID since to limit st' = Inr rows" for scope agentID since to limit rows
  proof -
    let ?who = "\<lparr>Agent_ID = trim_space agentID, Agent_OrganizationID = Scope_OrganizationID scope, Agent_SiteID = Scope_SiteID scope\<rparr>"
    define found where "found = filter (\<lambda>sample. since \<le> Sample_RecordedAt sample \<and> Sample_RecordedAt sample \<le> to) (samples_at st' ?who)"
    have limit: "1 \<le> limit" "limit \<le> 2000"
      using rows by (auto simp: Telemetry_History_def Let_def split: option.splits if_splits)
    have cut: "rows = (if int (length found) > limit then drop (nat (int (length found) - limit)) found else found)"
      using rows by (auto simp: Telemetry_History_def SampleHistory_def Let_def found_def not_less split: option.splits if_splits)
    have last: "rows = last_n (nat limit) found"
    proof (cases "int (length found) > limit")
      case True
      then have "nat (int (length found) - limit) = length found - nat limit" using limit by simp
      with True cut show ?thesis by (simp add: last_n_drop)
    next
      case False
      then show ?thesis using cut by (simp add: last_n_drop)
    qed
    then have drop: "rows = drop (length found - nat limit) found" by (simp add: last_n_drop)
    have inv': "sorted_wrt sample_before (samples_at st' ?who)"
      "\<forall>s \<in> set (samples_at st' ?who). sample_agent s = ?who \<and> valid_sample s"
      using effect(3) by (simp_all add: sample_inv_def)
    have "sorted_wrt sample_before rows"
      unfolding drop found_def by (intro sorted_drop sorted_wrt_filter inv'(1))
    moreover have "set rows \<subseteq> set found" unfolding drop by (rule set_drop_subset)
    moreover have "length rows \<le> 2000" using drop limit by simp
    ultimately show ?thesis
      using last inv'(2) by (fastforce simp: found_def scope_eq_iff sample_agent_def)
  qed
  show ?thesis
    unfolding Let_def sample_def [symmetric] using key valid effect history by blast
qed

lemma recent_samples_set:
  "set (recent_samples scope since it) = {last samples |agent samples. (agent, samples) \<in> set it
     \<and> Agent_Scope agent = scope \<and> samples \<noteq> [] \<and> since \<le> Sample_RecordedAt (last samples)}"
  by (induction scope since it rule: recent_samples.induct) (auto simp: scope_eq_iff not_less)

lemma recent_samples_length:
  "length (recent_samples scope since it) = length (filter (\<lambda>(agent, samples). Agent_Scope agent = scope
     \<and> samples \<noteq> [] \<and> since \<le> Sample_RecordedAt (last samples)) it)"
  by (induction scope since it rule: recent_samples.induct) (auto simp: scope_eq_iff not_less)

lemma sum_bounds:
  assumes "ieee_rounding rnd" and "\<forall>sample \<in> set xs. validPercent (Sample_CPUPercent sample)"
    and "\<exists>c. start = Fin c \<and> 0 \<le> c \<and> c \<le> of_int (100 * int k)" and "100 * int (k + length xs) \<le> 2 ^ 53"
  shows "\<exists>c. fold (\<lambda>sample sum. f64_add rnd sum (Sample_CPUPercent sample)) xs start = Fin c
    \<and> 0 \<le> c \<and> c \<le> of_int (100 * int (k + length xs))"
  using assms(2-4)
proof (induction xs arbitrary: start k)
  case (Cons x xs)
  obtain c where c: "start = Fin c" "0 \<le> c" "c \<le> of_int (100 * int k)" using Cons.prems(2) by blast
  obtain p where p: "Sample_CPUPercent x = Fin p" "0 \<le> p" "p \<le> 100"
    using Cons.prems(1) by (auto simp: validPercent_iff)
  have "of_int 0 \<le> c + p" "c + p \<le> of_int (100 * int (Suc k))" using c(2,3) p(2,3) by (simp_all add: algebra_simps)
  moreover have "\<bar>0 :: int\<bar> \<le> 2 ^ 53" "\<bar>100 * int (Suc k)\<bar> \<le> 2 ^ 53" using Cons.prems(3) by simp_all
  ultimately obtain d where "rnd (c + p) = Fin d" "0 \<le> d" "d \<le> of_int (100 * int (Suc k))"
    using rounding_bounds [OF assms(1), of 0 "c + p" "100 * int (Suc k)"] by auto
  then have "\<exists>d. f64_add rnd start (Sample_CPUPercent x) = Fin d \<and> 0 \<le> d \<and> d \<le> of_int (100 * int (Suc k))"
    using c p by simp
  from Cons.IH [OF _ this] Cons.prems show ?case by simp
qed auto

text \<open>
  The fleet average counts exactly the agents of the tenant whose newest sample is recent, and
  is a number between 0 and 100 (0 when no agent counts), whatever order the map is visited in and
  however the sums round.
\<close>

theorem fleet_average_bounds:
  assumes it: "ranges it st" and inv: "sample_inv st" and rnd: "ieee_rounding rnd"
    and small: "100 * int (length it) \<le> 2 ^ 53"
    and op: "Telemetry_FleetAverage rnd it scope since = Inr average"
  shows "FleetAverage_DeviceCount average = card {agent. Agent_Scope agent = scope \<and> samples_at st agent \<noteq> []
       \<and> since \<le> Sample_RecordedAt (last (samples_at st agent))}
    \<and> (\<exists>c. FleetAverage_AverageCPUPercent average = Fin c \<and> 0 \<le> c \<and> c \<le> 100
       \<and> (FleetAverage_DeviceCount average = 0 \<longrightarrow> c = 0))"
proof (rule conjI)
  define recent where "recent = recent_samples scope since it"
  define counted where "counted = {agent. Agent_Scope agent = scope \<and> samples_at st agent \<noteq> []
       \<and> since \<le> Sample_RecordedAt (last (samples_at st agent))}"
  define sum where "sum = fold (\<lambda>sample sum. f64_add rnd sum (Sample_CPUPercent sample)) recent (Fin 0)"
  have avg: "average = (if length recent = 0 then \<lparr>FleetAverage_AverageCPUPercent = Fin 0, FleetAverage_DeviceCount = 0\<rparr>
      else \<lparr>FleetAverage_AverageCPUPercent = f64_div rnd sum (of_nat (length recent)), FleetAverage_DeviceCount = length recent\<rparr>)"
    using op by (auto simp: Telemetry_FleetAverage_def StoreFleetAverage_def Let_def recent_def sum_def split: option.splits if_splits)
  define rows where "rows = filter (\<lambda>(agent, samples). Agent_Scope agent = scope \<and> samples \<noteq> []
      \<and> since \<le> Sample_RecordedAt (last samples)) it"
  have distinct: "distinct (map fst rows)"
  proof -
    have "distinct (map fst it)" using it by (simp add: ranges_def)
    then show ?thesis by (auto simp: rows_def distinct_map_filter)
  qed
  have entry: "(agent, samples) \<in> set it \<Longrightarrow> samples_at st agent = samples" for agent samples
    using it by (simp add: ranges_entry samples_at_def)
  have "counted = set (map fst rows)"
  proof (intro set_eqI iffI)
    fix agent assume "agent \<in> counted"
    then have counted: "Agent_Scope agent = scope" "samples_at st agent \<noteq> []" "since \<le> Sample_RecordedAt (last (samples_at st agent))"
      by (simp_all add: counted_def)
    then obtain samples where "st agent = Some samples" by (cases "st agent") (auto simp: samples_at_def)
    then have "(agent, samples) \<in> set it" "samples_at st agent = samples" using it by (simp_all add: ranges_entry samples_at_def)
    then have "(agent, samples) \<in> set rows" using counted by (simp add: rows_def)
    then show "agent \<in> set (map fst rows)" by force
  next
    fix agent assume "agent \<in> set (map fst rows)"
    then obtain samples where "(agent, samples) \<in> set rows" by auto
    then show "agent \<in> counted" using entry by (auto simp: rows_def counted_def)
  qed
  then have card: "length recent = card counted"
    using distinct_card [OF distinct] by (simp add: recent_def recent_samples_length rows_def)
  show "FleetAverage_DeviceCount average = card {agent. Agent_Scope agent = scope \<and> samples_at st agent \<noteq> []
       \<and> since \<le> Sample_RecordedAt (last (samples_at st agent))}"
    using avg card by (simp add: counted_def)
  have valid: "\<forall>sample \<in> set recent. validPercent (Sample_CPUPercent sample)"
  proof
    fix sample assume "sample \<in> set recent"
    then obtain agent samples where "(agent, samples) \<in> set it" "samples \<noteq> []" "sample = last samples"
      by (auto simp: recent_def recent_samples_set)
    then have "sample \<in> set (samples_at st agent)" using entry by simp
    then show "validPercent (Sample_CPUPercent sample)" using inv by (auto simp: sample_inv_def valid_sample_def)
  qed
  have "length recent \<le> length it" by (simp add: recent_def recent_samples_length)
  then have "int (length recent) \<le> int (length it)" by simp
  then have few: "100 * int (0 + length recent) \<le> 2 ^ 53" using small by simp
  have start: "\<exists>c. Fin 0 = Fin c \<and> 0 \<le> c \<and> c \<le> of_int (100 * int 0)" by simp
  obtain total where total: "sum = Fin total" "0 \<le> total" "total \<le> of_int (100 * int (0 + length recent))"
    using sum_bounds [OF rnd valid start few] by (auto simp: sum_def)
  show "\<exists>c. FleetAverage_AverageCPUPercent average = Fin c \<and> 0 \<le> c \<and> c \<le> 100
       \<and> (FleetAverage_DeviceCount average = 0 \<longrightarrow> c = 0)"
  proof (cases "length recent = 0")
    case True
    then show ?thesis using avg by simp
  next
    case False
    then have pos: "0 < (of_nat (length recent) :: rat)" by simp
    have "of_int 0 \<le> total / of_nat (length recent)" "total / of_nat (length recent) \<le> of_int 100"
      using total pos by (simp_all add: divide_le_eq)
    from rounding_bounds [OF rnd this] show ?thesis using avg False total(1) by auto
  qed
qed

section \<open>Witnesses\<close>

definition toy_host_agent :: Agent where
  "toy_host_agent = \<lparr>Agent_ID = ''a'', Agent_OrganizationID = DefaultOrganizationID, Agent_SiteID = DefaultSiteID\<rparr>"

definition toy_sample :: Sample where
  "toy_sample = \<lparr>Sample_OrganizationID = DefaultOrganizationID, Sample_SiteID = DefaultSiteID, Sample_AgentID = ''a'',
     Sample_RecordedAt = 5000, Sample_CPUPercent = Fin 40, Sample_MemoryPercent = Fin 50, Sample_DiskPercent = Fin 60,
     Sample_NetworkRXBytes = 7, Sample_NetworkTXBytes = 8\<rparr>"

lemma toy_sample_agent: "sample_agent toy_sample = toy_host_agent"
  by (simp add: sample_agent_def toy_sample_def toy_host_agent_def)

lemma toy_agent_trim: "trim_space ''a'' = ''a''"
  by (rule trim_space_plain) (simp_all add: plain_char_def)

lemma toy_host_valid: "valid_agent toy_host_agent"
proof -
  have "Agent_Scope toy_host_agent = DefaultScope" by (simp add: toy_host_agent_def Agent_Scope_def DefaultScope_def)
  then show ?thesis unfolding Agent_Validate_def by (simp add: toy_agent_trim) (simp add: toy_host_agent_def toy_agent_trim nul_def)
qed

lemma toy_sample_valid: "valid_sample toy_sample" "normalize_sample toy_host_agent toy_sample = toy_sample"
  by (simp_all add: valid_sample_def toy_sample_def validPercent_def math_MaxInt64_def normalize_sample_def
      toy_host_agent_def toy_agent_trim truncate_micro_def)

lemma toy_reported:
  "Telemetry_Report insertion_sort toy_host_agent toy_sample NewSampleStore = (Inr (), [toy_host_agent \<mapsto> [toy_sample]])"
  by (simp add: Telemetry_Report_def toy_host_valid toy_sample_valid Append_def toy_sample_agent NewSampleStore_def
      samples_at_def insertion_sort_def)

theorem telemetry_history_witness:
  "\<exists>rows. Telemetry_History DefaultScope ''a'' 1 9000 10 [toy_host_agent \<mapsto> [toy_sample]] = Inr rows \<and> rows = [toy_sample]"
proof -
  have at: "samples_at [toy_host_agent \<mapsto> [toy_sample]]
      \<lparr>Agent_ID = ''a'', Agent_OrganizationID = Scope_OrganizationID DefaultScope, Agent_SiteID = Scope_SiteID DefaultScope\<rparr> = [toy_sample]"
    by (simp add: samples_at_def toy_host_agent_def DefaultScope_def)
  have "\<exists>rows. Telemetry_History DefaultScope ''a'' 1 9000 10 [toy_host_agent \<mapsto> [toy_sample]] = Inr rows"
    by (simp add: Telemetry_History_def SampleHistory_def toy_agent_trim Let_def)
  then obtain rows where rows: "Telemetry_History DefaultScope ''a'' 1 9000 10 [toy_host_agent \<mapsto> [toy_sample]] = Inr rows" by blast
  have "rows = last_n (nat 10) (filter (\<lambda>sample. 1 \<le> Sample_RecordedAt sample \<and> Sample_RecordedAt sample \<le> 9000)
      (samples_at [toy_host_agent \<mapsto> [toy_sample]] \<lparr>Agent_ID = trim_space ''a'',
         Agent_OrganizationID = Scope_OrganizationID DefaultScope, Agent_SiteID = Scope_SiteID DefaultScope\<rparr>))"
    using telemetry_history [OF insertion.slice_sort_axioms sample_inv_init toy_reported] rows by blast
  then have "rows = last_n 10 (filter (\<lambda>sample. 1 \<le> Sample_RecordedAt sample \<and> Sample_RecordedAt sample \<le> 9000) [toy_sample])"
    unfolding toy_agent_trim at by simp
  then show ?thesis using rows by (simp add: last_n_def toy_sample_def)
qed

lemma exact_ieee: "ieee_rounding Fin"
  by (simp add: ieee_rounding_def)

theorem fleet_average_bounds_witness:
  "\<exists>c. Telemetry_FleetAverage Fin [(toy_host_agent, [toy_sample])] DefaultScope 1
     = Inr \<lparr>FleetAverage_AverageCPUPercent = Fin c, FleetAverage_DeviceCount = 1\<rparr> \<and> 0 \<le> c \<and> c \<le> 100"
proof -
  have scope: "Agent_OrganizationID toy_host_agent = Scope_OrganizationID DefaultScope"
    "Agent_SiteID toy_host_agent = Scope_SiteID DefaultScope" "Sample_RecordedAt toy_sample = 5000" "Sample_CPUPercent toy_sample = Fin 40"
    by (simp_all add: toy_host_agent_def DefaultScope_def toy_sample_def)
  have run: "Telemetry_FleetAverage Fin [(toy_host_agent, [toy_sample])] DefaultScope 1
     = Inr \<lparr>FleetAverage_AverageCPUPercent = Fin 40, FleetAverage_DeviceCount = 1\<rparr>"
    by (simp add: Telemetry_FleetAverage_def StoreFleetAverage_def scope Let_def)
  have "ranges [(toy_host_agent, [toy_sample])] [toy_host_agent \<mapsto> [toy_sample]]" by simp
  moreover have "sample_inv [toy_host_agent \<mapsto> [toy_sample]]"
    by (auto simp: sample_inv_def samples_at_def toy_sample_agent toy_sample_valid)
  ultimately show ?thesis using fleet_average_bounds [OF _ _ exact_ieee _ run] run by fastforce
qed

end
