(* ===== verification/Inventory.thy ===== *)
theory Inventory
  imports Tenancy "HOL-Library.Word"
begin

text \<open>
  \<open>internal/inventory\<close>: the hosts that agents report, the listing of a site with the
  connection status, and \<open>HasHost\<close>, which \<open>cmd/bazusop-hub\<close> hands to the job and alert
  services as their host check. \<open>parse_ip\<close> stands for \<open>net.ParseIP\<close> followed by \<open>String\<close>,
  \<open>uni\<close> for \<open>strings.ToLower\<close> outside ASCII, \<open>it\<close> for the visit of the host map.
\<close>

section \<open>Data\<close>

type_synonym HostStatus = string

definition StatusConnected :: HostStatus where "StatusConnected = ''connected''"
definition StatusStale :: HostStatus where "StatusStale = ''stale''"
definition ConnectedWindow :: duration where "ConnectedWindow = 2 * minute"

record Facts =
  Facts_Hostname :: string
  Facts_OSFamily :: string
  Facts_OSName :: string
  Facts_OSVersion :: string
  Facts_Architecture :: string
  Facts_KernelVersion :: string
  Facts_CPUCores :: int
  Facts_MemoryBytes :: "64 word"
  Facts_IPAddresses :: "string list"
  Facts_AgentVersion :: string

record Host =
  Host_OrganizationID :: string
  Host_SiteID :: string
  Host_AgentID :: string
  Host_Hostname :: string
  Host_OSFamily :: string
  Host_OSName :: string
  Host_OSVersion :: string
  Host_Architecture :: string
  Host_KernelVersion :: string
  Host_CPUCores :: int
  Host_MemoryBytes :: "64 word"
  Host_IPAddresses :: "string list"
  Host_AgentVersion :: string
  Host_FirstSeenAt :: time
  Host_LastSeenAt :: time
  Host_Status :: HostStatus

definition Host_Scope :: "Host \<Rightarrow> Scope" where
  "Host_Scope host = \<lparr>Scope_OrganizationID = Host_OrganizationID host, Scope_SiteID = Host_SiteID host\<rparr>"

definition Host_Agent :: "Host \<Rightarrow> Agent" where
  "Host_Agent host = \<lparr>Agent_ID = Host_AgentID host, Agent_OrganizationID = Host_OrganizationID host,
                      Agent_SiteID = Host_SiteID host\<rparr>"

section \<open>Normalization of the facts\<close>

definition supportedHostOS :: "string \<Rightarrow> bool" where
  "supportedHostOS s \<longleftrightarrow> s = ''linux'' \<or> s = ''windows''"

definition normalizeArchitecture :: "(string \<Rightarrow> string) \<Rightarrow> string \<Rightarrow> string" where
  "normalizeArchitecture uni s =
     (let v = to_lower uni (trim_space s) in
      if v \<in> {''amd64'', ''x86_64'', ''x64''} then ''amd64''
      else if v \<in> {''arm64'', ''aarch64''} then ''arm64''
      else if v \<in> {''386'', ''i386'', ''i686'', ''x86''} then ''386''
      else [])"

fun address_loop :: "(string \<Rightarrow> string option) \<Rightarrow> string set \<Rightarrow> string list \<Rightarrow> string list" where
  "address_loop parse_ip seen [] = []"
| "address_loop parse_ip seen (s # ss) =
     (case parse_ip (trim_space s) of
        None \<Rightarrow> address_loop parse_ip seen ss
      | Some normalized \<Rightarrow>
          if normalized \<in> seen then address_loop parse_ip seen ss
          else normalized # address_loop parse_ip (insert normalized seen) ss)"

definition normalizeAddresses :: "(string \<Rightarrow> string option) \<Rightarrow> string list \<Rightarrow> string list" where
  "normalizeAddresses parse_ip ss = address_loop parse_ip {} ss"

definition bounded :: "string \<Rightarrow> nat \<Rightarrow> string" where
  "bounded s limit = (if length s \<le> limit then s else take limit s)"

definition trim_suffix :: "string \<Rightarrow> string \<Rightarrow> string" where
  "trim_suffix s sfx = (if has_suffix s sfx then take (length s - length sfx) s else s)"

definition invalid_facts :: "string \<Rightarrow> string \<Rightarrow> string \<Rightarrow> Facts \<Rightarrow> bool" where
  "invalid_facts hostname osFamily architecture facts \<longleftrightarrow>
     (hostname = [] \<or> length hostname > 253 \<or> \<not> supportedHostOS osFamily \<or> architecture = [])
     \<or> (Facts_CPUCores facts < 1 \<or> Facts_CPUCores facts > 4096
         \<or> Facts_MemoryBytes facts = 0 \<or> 2 ^ 63 - 1 < Facts_MemoryBytes facts)"

definition normalize_facts ::
  "(string \<Rightarrow> string) \<Rightarrow> (string \<Rightarrow> string option) \<Rightarrow> Agent \<Rightarrow> Facts \<Rightarrow> time \<Rightarrow> Host res" where
  "normalize_facts uni parse_ip agent facts observedAt =
     (let hostname = to_lower uni (trim_suffix (trim_space (Facts_Hostname facts)) ''.'');
          osFamily = to_lower uni (trim_space (Facts_OSFamily facts));
          architecture = normalizeArchitecture uni (Facts_Architecture facts) in
      if invalid_facts hostname osFamily architecture facts then Inl ErrInvalidFacts
      else Inr
        \<lparr>Host_OrganizationID = Agent_OrganizationID agent,
         Host_SiteID = Agent_SiteID agent,
         Host_AgentID = Agent_ID agent,
         Host_Hostname = hostname,
         Host_OSFamily = osFamily,
         Host_OSName = bounded (trim_space (Facts_OSName facts)) 128,
         Host_OSVersion = bounded (trim_space (Facts_OSVersion facts)) 128,
         Host_Architecture = architecture,
         Host_KernelVersion = bounded (trim_space (Facts_KernelVersion facts)) 256,
         Host_CPUCores = Facts_CPUCores facts,
         Host_MemoryBytes = Facts_MemoryBytes facts,
         Host_IPAddresses = normalizeAddresses parse_ip (Facts_IPAddresses facts),
         Host_AgentVersion = bounded (trim_space (Facts_AgentVersion facts)) 64,
         Host_FirstSeenAt = observedAt,
         Host_LastSeenAt = observedAt,
         Host_Status = []\<rparr>)"

definition Host_ValidateStored :: "(string \<Rightarrow> string) \<Rightarrow> Host \<Rightarrow> err option" where
  "Host_ValidateStored uni host =
     (case Agent_Validate (Host_Agent host) of
        Some e \<Rightarrow> Some e
      | None \<Rightarrow>
          if Host_AgentID host = [] \<or> Host_Hostname host = [] \<or> \<not> supportedHostOS (Host_OSFamily host)
             \<or> normalizeArchitecture uni (Host_Architecture host) = []
          then Some ErrInvalidFacts else None)"

section \<open>The in-memory store\<close>

type_synonym HostStore = "string \<rightharpoonup> Host"

definition NewHostStore :: HostStore where "NewHostStore = Map.empty"

definition host_key :: "Host \<Rightarrow> string" where
  "host_key host = Host_OrganizationID host @ [nul] @ Host_SiteID host @ [nul] @ Host_AgentID host"

definition Upsert :: "(string \<Rightarrow> string) \<Rightarrow> Host \<Rightarrow> HostStore \<Rightarrow> (unit, HostStore) op" where
  "Upsert uni host st =
     (case Host_ValidateStored uni host of
        Some e \<Rightarrow> (Inl e, st)
      | None \<Rightarrow>
          let key = host_key host in
          (Inr (), st(key \<mapsto> (case st key of
                                None \<Rightarrow> host
                              | Some existing \<Rightarrow> host\<lparr>Host_FirstSeenAt := Host_FirstSeenAt existing\<rparr>))))"

definition ListHosts :: "(string \<times> Host) list \<Rightarrow> Scope \<Rightarrow> Host list res" where
  "ListHosts it scope =
     (case Scope_Validate scope of
        Some e \<Rightarrow> Inl e
      | None \<Rightarrow> Inr (filter (\<lambda>host. Host_Scope host = scope) (map snd it)))"

section \<open>The service\<close>

definition Inventory_Report ::
  "(string \<Rightarrow> string) \<Rightarrow> (string \<Rightarrow> string option) \<Rightarrow> time \<Rightarrow> Agent \<Rightarrow> Facts \<Rightarrow> HostStore \<Rightarrow> (unit, HostStore) op" where
  "Inventory_Report uni parse_ip now agent facts st =
     (case Agent_Validate agent of
        Some e \<Rightarrow> (Inl e, st)
      | None \<Rightarrow>
          (case normalize_facts uni parse_ip agent facts now of
             Inl e \<Rightarrow> (Inl e, st)
           | Inr host \<Rightarrow> Upsert uni host st))"

definition connection_status :: "time \<Rightarrow> Host \<Rightarrow> Host" where
  "connection_status now host =
     host\<lparr>Host_Status := (if sub_time now (Host_LastSeenAt host) \<le> ConnectedWindow then StatusConnected else StatusStale)\<rparr>"

definition hostname_before :: "Host \<Rightarrow> Host \<Rightarrow> bool" where
  "hostname_before a b \<longleftrightarrow> Host_Hostname a < Host_Hostname b"

definition Inventory_List :: "Host sorter \<Rightarrow> (string \<times> Host) list \<Rightarrow> time \<Rightarrow> Scope \<Rightarrow> Host list res" where
  "Inventory_List srt it now scope =
     (case Scope_Validate scope of
        Some e \<Rightarrow> Inl e
      | None \<Rightarrow>
          (case ListHosts it scope of
             Inl e \<Rightarrow> Inl e
           | Inr hosts \<Rightarrow> Inr (srt hostname_before (map (connection_status now) hosts))))"

definition Inventory_HasHost :: "(string \<times> Host) list \<Rightarrow> Scope \<Rightarrow> string \<Rightarrow> bool res" where
  "Inventory_HasHost it scope agentID =
     (let agent = \<lparr>Agent_ID = trim_space agentID, Agent_OrganizationID = Scope_OrganizationID scope,
                   Agent_SiteID = Scope_SiteID scope\<rparr> in
      case Agent_Validate agent of
        Some e \<Rightarrow> Inl e
      | None \<Rightarrow>
          (case ListHosts it scope of
             Inl e \<Rightarrow> Inl e
           | Inr hosts \<Rightarrow>
               Inr (\<exists>host \<in> set hosts. Host_AgentID host = Agent_ID agent
                      \<and> Host_OrganizationID host = Scope_OrganizationID scope \<and> Host_SiteID host = Scope_SiteID scope)))"

section \<open>What the store holds\<close>

text \<open>
  A run of reports, and what it should leave behind: of every agent the facts it last got
  accepted, seen first when it first got some accepted. \<open>accepted\<close> lists the hosts of the
  accepted reports of an agent in their order.
\<close>

definition agent_key :: "Agent \<Rightarrow> string" where
  "agent_key agent = Agent_OrganizationID agent @ [nul] @ Agent_SiteID agent @ [nul] @ Agent_ID agent"

definition run_reports ::
  "(string \<Rightarrow> string) \<Rightarrow> (string \<Rightarrow> string option) \<Rightarrow> (time \<times> Agent \<times> Facts) list \<Rightarrow> HostStore" where
  "run_reports uni parse_ip reports =
     fold (\<lambda>(now, agent, facts) st. snd (Inventory_Report uni parse_ip now agent facts st)) reports NewHostStore"

definition accepted_host ::
  "(string \<Rightarrow> string) \<Rightarrow> (string \<Rightarrow> string option) \<Rightarrow> (time \<times> Agent \<times> Facts) \<Rightarrow> Host option" where
  "accepted_host uni parse_ip report = (case report of (now, agent, facts) \<Rightarrow>
     if Agent_Validate agent \<noteq> None then None
     else (case normalize_facts uni parse_ip agent facts now of Inl _ \<Rightarrow> None | Inr host \<Rightarrow> Some host))"

definition accepted ::
  "(string \<Rightarrow> string) \<Rightarrow> (string \<Rightarrow> string option) \<Rightarrow> Agent \<Rightarrow> (time \<times> Agent \<times> Facts) list \<Rightarrow> Host list" where
  "accepted uni parse_ip agent reports =
     List.map_filter (accepted_host uni parse_ip) (filter (\<lambda>(_, a, _). a = agent) reports)"

definition latest_host :: "Host list \<Rightarrow> Host option" where
  "latest_host hosts =
     (if hosts = [] then None else Some ((last hosts)\<lparr>Host_FirstSeenAt := Host_FirstSeenAt (hd hosts)\<rparr>))"

lemma agent_eta [simp]:
  "\<lparr>Agent_ID = Agent_ID a, Agent_OrganizationID = Agent_OrganizationID a, Agent_SiteID = Agent_SiteID a\<rparr> = a"
  by (cases a) simp

lemma separated_inj:
  "x \<notin> set a \<Longrightarrow> x \<notin> set b \<Longrightarrow> a @ x # c = b @ x # d \<longleftrightarrow> a = b \<and> c = d"
proof (induction a arbitrary: b)
  case Nil
  then show ?case by (cases b) auto
next
  case (Cons y a)
  then show ?case by (cases b) auto
qed

lemma agent_key_inj:
  assumes "valid_agent a" "valid_agent b"
  shows "agent_key a = agent_key b \<longleftrightarrow> a = b"
proof -
  have "nul \<notin> set (Agent_OrganizationID a)" "nul \<notin> set (Agent_SiteID a)" "nul \<notin> set (Agent_ID a)"
    "nul \<notin> set (Agent_OrganizationID b)" "nul \<notin> set (Agent_SiteID b)" "nul \<notin> set (Agent_ID b)"
    using assms by (auto simp: Agent_Validate_def Scope_Validate_def Agent_Scope_def split: if_splits)
  then have "agent_key a = agent_key b \<longleftrightarrow> Agent_OrganizationID a = Agent_OrganizationID b
      \<and> Agent_SiteID a = Agent_SiteID b \<and> Agent_ID a = Agent_ID b"
    by (auto simp: agent_key_def separated_inj)
  then show ?thesis by (cases a, cases b) auto
qed

lemma trim_arch [simp]:
  "trim_space ''amd64'' = ''amd64''" "trim_space ''arm64'' = ''arm64''" "trim_space ''386'' = ''386''"
  by (rule trim_space_plain; simp add: plain_char_def)+

lemma arch_again:
  assumes "normalizeArchitecture uni s \<noteq> []"
  shows "normalizeArchitecture uni (normalizeArchitecture uni s) \<noteq> []"
proof -
  have "normalizeArchitecture uni s \<in> {''amd64'', ''arm64'', ''386''}"
    using assms by (simp add: normalizeArchitecture_def Let_def split: if_splits)
  moreover have "normalizeArchitecture uni ''amd64'' \<noteq> []" "normalizeArchitecture uni ''arm64'' \<noteq> []"
    "normalizeArchitecture uni ''386'' \<noteq> []"
    by (simp_all add: normalizeArchitecture_def Let_def to_lower_def is_ascii_def lower_char_def)
  ultimately show ?thesis by auto
qed

lemma normalized_valid:
  assumes "valid_agent agent" "normalize_facts uni parse_ip agent facts now = Inr host"
  shows "Host_ValidateStored uni host = None" "Host_Agent host = agent" "host_key host = agent_key agent"
    "Host_FirstSeenAt host = now" "Host_LastSeenAt host = now"
  using assms valid_agent_nonempty [OF assms(1)]
  by (auto simp: normalize_facts_def Let_def invalid_facts_def Host_ValidateStored_def Host_Agent_def
      host_key_def agent_key_def arch_again split: if_splits)

lemma report_step:
  "Inventory_Report uni parse_ip now agent facts st =
     (case accepted_host uni parse_ip (now, agent, facts) of
        Some host \<Rightarrow> (Inr (), st(agent_key agent \<mapsto>
          (case st (agent_key agent) of None \<Rightarrow> host
           | Some existing \<Rightarrow> host\<lparr>Host_FirstSeenAt := Host_FirstSeenAt existing\<rparr>)))
      | None \<Rightarrow> (Inl (if Agent_Validate agent \<noteq> None then ErrInvalidScope else ErrInvalidFacts), st))"
proof (cases "Agent_Validate agent")
  case None
  then show ?thesis
  proof (cases "normalize_facts uni parse_ip agent facts now")
    case (Inl e)
    then have "e = ErrInvalidFacts" by (auto simp: normalize_facts_def Let_def split: if_splits)
    with Inl None show ?thesis by (simp add: Inventory_Report_def accepted_host_def)
  next
    case (Inr host)
    with None normalized_valid [OF None Inr] show ?thesis
      by (simp add: Inventory_Report_def accepted_host_def Upsert_def Let_def)
  qed
next
  case (Some e)
  then show ?thesis
    using Agent_Validate_Some [OF Some] by (simp add: Inventory_Report_def accepted_host_def)
qed

lemma run_reports_snoc:
  "run_reports uni parse_ip (reports @ [(now, agent, facts)])
   = snd (Inventory_Report uni parse_ip now agent facts (run_reports uni parse_ip reports))"
  by (simp add: run_reports_def)

lemma accepted_snoc:
  "accepted uni parse_ip agent (reports @ [(now, a, facts)])
   = accepted uni parse_ip agent reports
     @ (if a = agent then (case accepted_host uni parse_ip (now, a, facts) of None \<Rightarrow> [] | Some host \<Rightarrow> [host]) else [])"
  by (auto simp: accepted_def List.map_filter_def)

lemma latest_snoc:
  "latest_host (hosts @ [host]) =
     Some (case latest_host hosts of None \<Rightarrow> host | Some existing \<Rightarrow> host\<lparr>Host_FirstSeenAt := Host_FirstSeenAt existing\<rparr>)"
  by (simp add: latest_host_def)

lemma accepted_host_agent:
  "accepted_host uni parse_ip (now, a, facts) = Some host \<Longrightarrow> valid_agent a \<and> Host_Agent host = a"
  by (auto simp: accepted_host_def normalized_valid split: if_splits sum.splits)

lemma run_reports_at:
  assumes "valid_agent agent"
  shows "run_reports uni parse_ip reports (agent_key agent) = latest_host (accepted uni parse_ip agent reports)"
proof (induction reports rule: rev_induct)
  case Nil
  show ?case by (simp add: run_reports_def NewHostStore_def accepted_def latest_host_def)
next
  case (snoc r reports)
  obtain now a facts where r: "r = (now, a, facts)" by (cases r)
  show ?case
  proof (cases "accepted_host uni parse_ip (now, a, facts)")
    case None
    then show ?thesis using snoc by (auto simp: r run_reports_snoc accepted_snoc report_step)
  next
    case (Some host)
    then have "agent_key a = agent_key agent \<longleftrightarrow> a = agent"
      using accepted_host_agent agent_key_inj assms by blast
    then show ?thesis
      using snoc Some by (auto simp: r run_reports_snoc accepted_snoc report_step latest_snoc)
  qed
qed

lemma run_reports_dom:
  "run_reports uni parse_ip reports k = Some host \<Longrightarrow>
     valid_agent (Host_Agent host) \<and> k = agent_key (Host_Agent host)"
proof (induction reports arbitrary: k host rule: rev_induct)
  case Nil
  then show ?case by (simp add: run_reports_def NewHostStore_def)
next
  case (snoc r reports)
  obtain now a facts where r: "r = (now, a, facts)" by (cases r)
  show ?case
  proof (cases "accepted_host uni parse_ip (now, a, facts)")
    case None
    then show ?thesis using snoc by (simp add: r run_reports_snoc report_step)
  next
    case (Some h)
    note h = accepted_host_agent [OF Some]
    have "Host_Agent (x\<lparr>Host_FirstSeenAt := f\<rparr>) = Host_Agent x" for x f by (simp add: Host_Agent_def)
    then show ?thesis
      using snoc Some h by (auto simp: r run_reports_snoc report_step split: if_splits option.splits)
  qed
qed

lemma run_reports_rows:
  assumes "ranges it (run_reports uni parse_ip reports)"
  shows "host \<in> set (map snd it) \<longleftrightarrow>
    valid_agent (Host_Agent host) \<and> latest_host (accepted uni parse_ip (Host_Agent host) reports) = Some host"
proof -
  have "host \<in> set (map snd it) \<longleftrightarrow> (\<exists>k. run_reports uni parse_ip reports k = Some host)"
    by (simp add: ranges_values [OF assms, unfolded set_map] ran_def)
  then show ?thesis using run_reports_dom run_reports_at by metis
qed

end
