(* ===== verification/Serviceinventory.thy ===== *)
theory Serviceinventory
  imports Inventory
begin

text \<open>
  \<open>internal/serviceinventory\<close>: the services an agent reports as one snapshot that replaces
  its previous one, and the filtered listing. \<open>srt\<close> is \<open>sort.Slice\<close>, \<open>uni\<close> is
  \<open>strings.ToLower\<close> outside ASCII. \<open>bounded\<close> is the function of the same text in
  \<open>internal/inventory\<close>.
\<close>

section \<open>Data\<close>

type_synonym ServiceState = string
type_synonym StartupType = string

definition StateRunning :: ServiceState where "StateRunning = ''running''"
definition StateStopped :: ServiceState where "StateStopped = ''stopped''"
definition StateFailed :: ServiceState where "StateFailed = ''failed''"
definition StateUnknown :: ServiceState where "StateUnknown = ''unknown''"
definition StartupAutomatic :: StartupType where "StartupAutomatic = ''automatic''"
definition StartupManual :: StartupType where "StartupManual = ''manual''"
definition StartupDisabled :: StartupType where "StartupDisabled = ''disabled''"
definition StartupUnknown :: StartupType where "StartupUnknown = ''unknown''"

record Fact =
  Fact_Name :: string
  Fact_DisplayName :: string
  Fact_State :: string
  Fact_StartupType :: string

record Snapshot =
  Snapshot_ObservedAt :: time
  Snapshot_Services :: "Fact list"

record HostService =
  HostService_OrganizationID :: string
  HostService_SiteID :: string
  HostService_AgentID :: string
  HostService_Name :: string
  HostService_DisplayName :: string
  HostService_State :: ServiceState
  HostService_StartupType :: StartupType
  HostService_ObservedAt :: time

record ServiceFilter =
  ServiceFilter_State :: ServiceState
  ServiceFilter_Query :: string

definition normalizeState :: "(string \<Rightarrow> string) \<Rightarrow> string \<Rightarrow> ServiceState option" where
  "normalizeState uni s =
     (let v = to_lower uni (trim_space s) in
      if v \<in> {''running'', ''active'', ''started''} then Some StateRunning
      else if v \<in> {''stopped'', ''inactive''} then Some StateStopped
      else if v = ''failed'' then Some StateFailed
      else if v \<in> {[], ''unknown''} then Some StateUnknown
      else None)"

definition normalizeStartupType :: "(string \<Rightarrow> string) \<Rightarrow> string \<Rightarrow> StartupType option" where
  "normalizeStartupType uni s =
     (let v = to_lower uni (trim_space s) in
      if v \<in> {''automatic'', ''auto'', ''enabled''} then Some StartupAutomatic
      else if v \<in> {''manual'', ''static''} then Some StartupManual
      else if v \<in> {''disabled'', ''masked''} then Some StartupDisabled
      else if v \<in> {[], ''unknown''} then Some StartupUnknown
      else None)"

definition validNormalizedState :: "ServiceState \<Rightarrow> bool" where
  "validNormalizedState state \<longleftrightarrow>
     state = StateRunning \<or> state = StateStopped \<or> state = StateFailed \<or> state = StateUnknown"

section \<open>The in-memory store\<close>

type_synonym ServiceStore = "Agent \<rightharpoonup> HostService list"

definition NewServiceStore :: ServiceStore where "NewServiceStore = Map.empty"

definition services_at :: "ServiceStore \<Rightarrow> Agent \<Rightarrow> HostService list" where
  "services_at st agent = (case st agent of None \<Rightarrow> [] | Some services \<Rightarrow> services)"

definition scope_agent :: "Scope \<Rightarrow> string \<Rightarrow> Agent" where
  "scope_agent scope agentID = \<lparr>Agent_ID = agentID, Agent_OrganizationID = Scope_OrganizationID scope,
                               Agent_SiteID = Scope_SiteID scope\<rparr>"

definition HostService_Agent :: "HostService \<Rightarrow> Agent" where
  "HostService_Agent s = \<lparr>Agent_ID = HostService_AgentID s, Agent_OrganizationID = HostService_OrganizationID s,
                         Agent_SiteID = HostService_SiteID s\<rparr>"

definition ReplaceServices ::
  "Scope \<Rightarrow> string \<Rightarrow> HostService list \<Rightarrow> ServiceStore \<Rightarrow> (unit, ServiceStore) op" where
  "ReplaceServices scope agentID services st =
     (let key = scope_agent scope agentID in
      case Agent_Validate key of
        Some e \<Rightarrow> (Inl e, st)
      | None \<Rightarrow>
          if \<exists>s \<in> set services. HostService_AgentID s \<noteq> agentID
               \<or> HostService_OrganizationID s \<noteq> Scope_OrganizationID scope \<or> HostService_SiteID s \<noteq> Scope_SiteID scope
          then (Inl ErrInvalidScope, st)
          else (Inr (), st(key \<mapsto> services)))"

definition service_matches :: "(string \<Rightarrow> string) \<Rightarrow> ServiceFilter \<Rightarrow> HostService \<Rightarrow> bool" where
  "service_matches uni flt s \<longleftrightarrow>
     (let query = to_lower uni (ServiceFilter_Query flt) in
      \<not> (ServiceFilter_State flt \<noteq> [] \<and> HostService_State s \<noteq> ServiceFilter_State flt)
      \<and> \<not> (query \<noteq> [] \<and> \<not> contains (to_lower uni (HostService_Name s)) query
            \<and> \<not> contains (to_lower uni (HostService_DisplayName s)) query))"

definition service_before :: "HostService \<Rightarrow> HostService \<Rightarrow> bool" where
  "service_before a b \<longleftrightarrow> HostService_Name a < HostService_Name b"

definition ListServices ::
  "(string \<Rightarrow> string) \<Rightarrow> HostService sorter \<Rightarrow> Scope \<Rightarrow> string \<Rightarrow> ServiceFilter \<Rightarrow> ServiceStore \<Rightarrow> HostService list res" where
  "ListServices uni srt scope agentID flt st =
     (case Scope_Validate scope of
        Some e \<Rightarrow> Inl e
      | None \<Rightarrow> Inr (srt service_before (filter (service_matches uni flt) (services_at st (scope_agent scope agentID)))))"

section \<open>The service\<close>

definition new_host_service ::
  "Agent \<Rightarrow> string \<Rightarrow> time \<Rightarrow> string \<Rightarrow> Fact \<Rightarrow> ServiceState \<Rightarrow> StartupType \<Rightarrow> HostService" where
  "new_host_service agent agentID observedAt nm entry state startup =
     \<lparr>HostService_OrganizationID = Agent_OrganizationID agent,
      HostService_SiteID = Agent_SiteID agent,
      HostService_AgentID = agentID,
      HostService_Name = nm,
      HostService_DisplayName = bounded (trim_space (Fact_DisplayName entry)) 256,
      HostService_State = state,
      HostService_StartupType = startup,
      HostService_ObservedAt = observedAt\<rparr>"

text \<open>The loop of \<open>Report\<close>: None is \<open>ErrInvalidSnapshot\<close>.\<close>

fun normalize_services ::
  "(string \<Rightarrow> string) \<Rightarrow> Agent \<Rightarrow> string \<Rightarrow> time \<Rightarrow> string set \<Rightarrow> Fact list \<Rightarrow> HostService list option" where
  "normalize_services uni agent agentID observedAt seen [] = Some []"
| "normalize_services uni agent agentID observedAt seen (entry # entries) =
     (let nm = to_lower uni (trim_space (Fact_Name entry)) in
      case (normalizeState uni (Fact_State entry), normalizeStartupType uni (Fact_StartupType entry)) of
        (Some state, Some startup) \<Rightarrow>
          if nm = [] \<or> length nm > 256 \<or> nm \<in> seen then None
          else map_option ((#) (new_host_service agent agentID observedAt nm entry state startup))
                 (normalize_services uni agent agentID observedAt (insert nm seen) entries)
      | _ \<Rightarrow> None)"

definition Services_Report ::
  "(string \<Rightarrow> string) \<Rightarrow> Agent \<Rightarrow> Snapshot \<Rightarrow> ServiceStore \<Rightarrow> (unit, ServiceStore) op" where
  "Services_Report uni agent snapshot st =
     (case Agent_Validate agent of
        Some e \<Rightarrow> (Inl e, st)
      | None \<Rightarrow>
          let agentID = trim_space (Agent_ID agent) in
          if agentID = [] \<or> Snapshot_ObservedAt snapshot = 0 \<or> length (Snapshot_Services snapshot) > 5000
          then (Inl ErrInvalidSnapshot, st)
          else (case normalize_services uni agent agentID (Snapshot_ObservedAt snapshot) {} (Snapshot_Services snapshot) of
              None \<Rightarrow> (Inl ErrInvalidSnapshot, st)
            | Some services \<Rightarrow> ReplaceServices (Agent_Scope agent) agentID services st))"

definition Services_List ::
  "(string \<Rightarrow> string) \<Rightarrow> HostService sorter \<Rightarrow> Scope \<Rightarrow> string \<Rightarrow> ServiceFilter \<Rightarrow> ServiceStore \<Rightarrow> HostService list res" where
  "Services_List uni srt scope agentID0 flt0 st =
     (case Scope_Validate scope of
        Some e \<Rightarrow> Inl e
      | None \<Rightarrow>
          let agentID = trim_space agentID0; flt = flt0\<lparr>ServiceFilter_Query := trim_space (ServiceFilter_Query flt0)\<rparr> in
          if agentID = [] \<or> length (ServiceFilter_Query flt) > 256
             \<or> ServiceFilter_State flt \<noteq> [] \<and> \<not> validNormalizedState (ServiceFilter_State flt)
          then Inl ErrInvalidSnapshot
          else ListServices uni srt scope agentID flt st)"

section \<open>Snapshots\<close>

text \<open>Per agent the names are distinct and every service carries the agent's identity.\<close>

definition service_inv :: "ServiceStore \<Rightarrow> bool" where
  "service_inv st \<longleftrightarrow> (\<forall>agent. distinct (map HostService_Name (services_at st agent))
      \<and> (\<forall>s \<in> set (services_at st agent). HostService_Agent s = agent \<and> validNormalizedState (HostService_State s)))"

lemma normalize_services_props:
  "normalize_services uni agent agentID observedAt seen entries = Some services \<Longrightarrow>
     distinct (map HostService_Name services) \<and> set (map HostService_Name services) \<inter> seen = {}
     \<and> (\<forall>s \<in> set services. HostService_AgentID s = agentID \<and> HostService_OrganizationID s = Agent_OrganizationID agent
          \<and> HostService_SiteID s = Agent_SiteID agent \<and> validNormalizedState (HostService_State s)
          \<and> HostService_StartupType s \<in> {StartupAutomatic, StartupManual, StartupDisabled, StartupUnknown})"
proof (induction entries arbitrary: seen services)
  case Nil
  then show ?case by simp
next
  case (Cons entry entries)
  let ?nm = "to_lower uni (trim_space (Fact_Name entry))"
  obtain state startup rest where parts: "normalizeState uni (Fact_State entry) = Some state"
      "normalizeStartupType uni (Fact_StartupType entry) = Some startup" "?nm \<notin> seen"
      "normalize_services uni agent agentID observedAt (insert ?nm seen) entries = Some rest"
      "services = new_host_service agent agentID observedAt ?nm entry state startup # rest"
    using Cons.prems by (auto simp: Let_def split: option.splits if_splits)
  have "validNormalizedState state"
    using parts(1) by (auto simp: normalizeState_def validNormalizedState_def Let_def split: if_splits)
  moreover have "startup \<in> {StartupAutomatic, StartupManual, StartupDisabled, StartupUnknown}"
    using parts(2) by (auto simp: normalizeStartupType_def Let_def split: if_splits)
  ultimately show ?case using Cons.IH [OF parts(4)] parts(3,5) by (auto simp: new_host_service_def)
qed

lemma normalize_services_names:
  "normalize_services uni agent agentID observedAt seen entries = Some services \<Longrightarrow>
     map HostService_Name services = map (\<lambda>entry. to_lower uni (trim_space (Fact_Name entry))) entries"
  by (induction entries arbitrary: seen services)
    (auto simp: Let_def new_host_service_def split: option.splits if_splits)

lemma Services_Report_cases:
  assumes "Services_Report uni agent snapshot st = (res, st')"
  obtains (refused) e where "res = Inl e" "st' = st"
  | (replaced) services where "res = Inr ()" "st' = st(scope_agent (Agent_Scope agent) (trim_space (Agent_ID agent)) \<mapsto> services)"
      "normalize_services uni agent (trim_space (Agent_ID agent)) (Snapshot_ObservedAt snapshot) {} (Snapshot_Services snapshot)
       = Some services"
proof -
  have "(\<exists>e. res = Inl e \<and> st' = st) \<or> (\<exists>services. res = Inr ()
      \<and> st' = st(scope_agent (Agent_Scope agent) (trim_space (Agent_ID agent)) \<mapsto> services)
      \<and> normalize_services uni agent (trim_space (Agent_ID agent)) (Snapshot_ObservedAt snapshot) {} (Snapshot_Services snapshot)
       = Some services)"
    using assms unfolding Services_Report_def Let_def ReplaceServices_def
    by (auto split: option.splits if_splits)
  then show ?thesis using refused replaced by blast
qed

lemma service_inv_report:
  assumes "service_inv st" "Services_Report uni agent snapshot st = (res, st')"
  shows "service_inv st'"
  using assms(2)
proof (cases rule: Services_Report_cases)
  case (replaced services)
  show ?thesis
    using assms(1) normalize_services_props [OF replaced(3)] unfolding replaced(2) service_inv_def
    by (auto simp: services_at_def HostService_Agent_def scope_agent_def)
qed (use assms(1) in simp)

end
