(* ===== verification/Cloudinventory.thy ===== *)
theory Cloudinventory
  imports Inventory
begin

text \<open>
  \<open>internal/cloudinventory\<close>: cloud accounts, and the reconciliation of the instances a
  provider lists with the hosts that report. An embedded struct is a field of the record.
  \<open>hosts\<close> is what \<open>inventory.Service.List\<close> returns, \<open>parse_ip\<close> stands for \<open>net.ParseIP\<close>
  followed by \<open>String\<close>, \<open>uni\<close> for \<open>strings.ToLower\<close> outside ASCII, \<open>srt\<close> for
  \<open>sort.Slice\<close> and \<open>it\<close> for the visit of a map.
\<close>

section \<open>Data\<close>

type_synonym Provider = string
type_synonym AccountStatus = string
type_synonym MatchStatus = string

definition ProviderAWS :: Provider where "ProviderAWS = ''aws''"
definition ProviderAzure :: Provider where "ProviderAzure = ''azure''"
definition ProviderGCP :: Provider where "ProviderGCP = ''gcp''"
definition AccountPending :: AccountStatus where "AccountPending = ''pending''"
definition AccountConnected :: AccountStatus where "AccountConnected = ''connected''"
definition MatchVerified :: MatchStatus where "MatchVerified = ''verified''"
definition MatchCandidate :: MatchStatus where "MatchCandidate = ''candidate''"
definition MatchUnmatched :: MatchStatus where "MatchUnmatched = ''unmatched''"

record AccountRequest =
  AccountRequest_Name :: string
  AccountRequest_Provider :: Provider
  AccountRequest_ExternalID :: string

record Account =
  Account_OrganizationID :: string
  Account_SiteID :: string
  Account_ID :: string
  Account_Request :: AccountRequest
  Account_Status :: AccountStatus
  Account_LastSyncAt :: "time option"
  Account_CreatedAt :: time

record DiscoveredInstance =
  Discovered_ProviderInstanceID :: string
  Discovered_Name :: string
  Discovered_Region :: string
  Discovered_Zone :: string
  Discovered_State :: string
  Discovered_OSFamily :: string
  Discovered_PrivateIPs :: "string list"
  Discovered_PublicIPs :: "string list"
  Discovered_AgentIDHint :: string
  Discovered_Metadata :: "string \<rightharpoonup> string"

record Instance =
  Instance_OrganizationID :: string
  Instance_SiteID :: string
  Instance_AccountID :: string
  Instance_AccountName :: string
  Instance_Provider :: Provider
  Instance_Discovered :: DiscoveredInstance
  Instance_AgentID :: string
  Instance_CandidateAgentID :: string
  Instance_MatchStatus :: MatchStatus
  Instance_MatchReason :: string
  Instance_DiscoveredAt :: time

definition validProvider :: "Provider \<Rightarrow> bool" where
  "validProvider provider \<longleftrightarrow> provider = ProviderAWS \<or> provider = ProviderAzure \<or> provider = ProviderGCP"

section \<open>Normalization and matching\<close>

fun normalizeIPs_loop :: "(string \<Rightarrow> string option) \<Rightarrow> string set \<Rightarrow> string list \<Rightarrow> string list" where
  "normalizeIPs_loop parse_ip seen [] = []"
| "normalizeIPs_loop parse_ip seen (s # ss) =
     (case parse_ip (trim_space s) of
        Some normalized \<Rightarrow>
          if normalized \<notin> seen then normalized # normalizeIPs_loop parse_ip (insert normalized seen) ss
          else normalizeIPs_loop parse_ip seen ss
      | None \<Rightarrow> normalizeIPs_loop parse_ip seen ss)"

definition normalizeIPs :: "(string \<Rightarrow> string option) \<Rightarrow> string list \<Rightarrow> string list" where
  "normalizeIPs parse_ip ss = normalizeIPs_loop parse_ip {} ss"

definition trim_discovery ::
  "(string \<Rightarrow> string) \<Rightarrow> (string \<Rightarrow> string option) \<Rightarrow> DiscoveredInstance \<Rightarrow> DiscoveredInstance" where
  "trim_discovery uni parse_ip d =
     d\<lparr>Discovered_ProviderInstanceID := trim_space (Discovered_ProviderInstanceID d),
       Discovered_Name := trim_space (Discovered_Name d),
       Discovered_Region := trim_space (Discovered_Region d),
       Discovered_Zone := trim_space (Discovered_Zone d),
       Discovered_State := to_lower uni (trim_space (Discovered_State d)),
       Discovered_OSFamily := to_lower uni (trim_space (Discovered_OSFamily d)),
       Discovered_AgentIDHint := trim_space (Discovered_AgentIDHint d),
       Discovered_PrivateIPs := normalizeIPs parse_ip (Discovered_PrivateIPs d),
       Discovered_PublicIPs := normalizeIPs parse_ip (Discovered_PublicIPs d)\<rparr>"

definition normalizeDiscovery ::
  "(string \<Rightarrow> string) \<Rightarrow> (string \<Rightarrow> string option) \<Rightarrow> DiscoveredInstance \<Rightarrow> DiscoveredInstance res" where
  "normalizeDiscovery uni parse_ip d0 =
     (let d = trim_discovery uni parse_ip d0 in
      if Discovered_ProviderInstanceID d = [] \<or> length (Discovered_ProviderInstanceID d) > 256
         \<or> Discovered_Name d = [] \<or> length (Discovered_Name d) > 253
         \<or> Discovered_Region d = [] \<or> length (Discovered_Region d) > 128
         \<or> Discovered_State d = []
         \<or> Discovered_OSFamily d \<noteq> ''linux'' \<and> Discovered_OSFamily d \<noteq> ''windows'' \<and> Discovered_OSFamily d \<noteq> ''unknown''
         \<or> length (Discovered_AgentIDHint d) > 256
      then Inl ErrInvalidCloudInventory else Inr d)"

definition host_matches :: "(string \<Rightarrow> string) \<Rightarrow> DiscoveredInstance \<Rightarrow> Host \<Rightarrow> bool" where
  "host_matches uni d host \<longleftrightarrow>
     to_lower uni (trim_suffix (Host_Hostname host) ''.'') = to_lower uni (trim_suffix (Discovered_Name d) ''.'')
     \<or> (\<exists>address \<in> set (Host_IPAddresses host). address \<in> set (Discovered_PrivateIPs d))"

text \<open>The candidates are a set of identifiers: only when it has one element is that element returned.\<close>

definition uniqueCandidate :: "(string \<Rightarrow> string) \<Rightarrow> DiscoveredInstance \<Rightarrow> Host list \<Rightarrow> string" where
  "uniqueCandidate uni d hosts =
     (case remdups (map Host_AgentID (filter (host_matches uni d) hosts)) of
        [agentID] \<Rightarrow> agentID
      | _ \<Rightarrow> [])"

section \<open>The in-memory store\<close>

record CloudStore =
  CloudStore_accounts :: "string \<rightharpoonup> Account"
  CloudStore_instances :: "string \<rightharpoonup> Instance list"

definition NewCloudStore :: CloudStore where
  "NewCloudStore = \<lparr>CloudStore_accounts = Map.empty, CloudStore_instances = Map.empty\<rparr>"

definition account_in :: "Scope \<Rightarrow> Account \<Rightarrow> bool" where
  "account_in scope account \<longleftrightarrow>
     \<not> (Account_OrganizationID account \<noteq> Scope_OrganizationID scope \<or> Account_SiteID account \<noteq> Scope_SiteID scope)"

definition instance_in :: "Scope \<Rightarrow> Instance \<Rightarrow> bool" where
  "instance_in scope i \<longleftrightarrow>
     Instance_OrganizationID i = Scope_OrganizationID scope \<and> Instance_SiteID i = Scope_SiteID scope"

definition CreateCloudAccount :: "Scope \<Rightarrow> Account \<Rightarrow> CloudStore \<Rightarrow> (unit, CloudStore) op" where
  "CreateCloudAccount scope account st =
     (case Scope_Validate scope of
        Some e \<Rightarrow> (Inl e, st)
      | None \<Rightarrow>
          if \<not> account_in scope account then (Inl ErrInvalidScope, st)
          else (Inr (), st\<lparr>CloudStore_accounts := (CloudStore_accounts st)(Account_ID account \<mapsto> account)\<rparr>))"

definition GetCloudAccount :: "Scope \<Rightarrow> string \<Rightarrow> CloudStore \<Rightarrow> Account res" where
  "GetCloudAccount scope i st =
     (case Scope_Validate scope of
        Some e \<Rightarrow> Inl e
      | None \<Rightarrow>
          (case CloudStore_accounts st i of
             None \<Rightarrow> Inl ErrCloudAccountNotFound
           | Some account \<Rightarrow> if \<not> account_in scope account then Inl ErrCloudAccountNotFound else Inr account))"

definition account_before :: "Account \<Rightarrow> Account \<Rightarrow> bool" where
  "account_before a b \<longleftrightarrow> AccountRequest_Name (Account_Request a) < AccountRequest_Name (Account_Request b)"

definition ListCloudAccounts :: "Account sorter \<Rightarrow> (string \<times> Account) list \<Rightarrow> Scope \<Rightarrow> Account list res" where
  "ListCloudAccounts srt it scope =
     (case Scope_Validate scope of
        Some e \<Rightarrow> Inl e
      | None \<Rightarrow> Inr (srt account_before (filter (account_in scope) (map snd it))))"

definition ReplaceCloudInstances ::
  "Scope \<Rightarrow> Account \<Rightarrow> Instance list \<Rightarrow> CloudStore \<Rightarrow> (unit, CloudStore) op" where
  "ReplaceCloudInstances scope account instances st =
     (case Scope_Validate scope of
        Some e \<Rightarrow> (Inl e, st)
      | None \<Rightarrow>
          if \<not> account_in scope account then (Inl ErrInvalidScope, st)
          else if (case CloudStore_accounts st (Account_ID account) of
                     None \<Rightarrow> True | Some existing \<Rightarrow> \<not> account_in scope existing)
          then (Inl ErrCloudAccountNotFound, st)
          else if \<exists>i \<in> set instances. \<not> instance_in scope i \<or> Instance_AccountID i \<noteq> Account_ID account
          then (Inl ErrInvalidScope, st)
          else (Inr (), st\<lparr>CloudStore_accounts := (CloudStore_accounts st)(Account_ID account \<mapsto> account),
                           CloudStore_instances := (CloudStore_instances st)(Account_ID account \<mapsto> instances)\<rparr>))"

definition instance_before :: "Instance \<Rightarrow> Instance \<Rightarrow> bool" where
  "instance_before a b \<longleftrightarrow>
     (if Instance_AccountName a = Instance_AccountName b
      then Discovered_Name (Instance_Discovered a) < Discovered_Name (Instance_Discovered b)
      else Instance_AccountName a < Instance_AccountName b)"

definition ListCloudInstances :: "Instance sorter \<Rightarrow> (string \<times> Instance list) list \<Rightarrow> Scope \<Rightarrow> Instance list res" where
  "ListCloudInstances srt it scope =
     (case Scope_Validate scope of
        Some e \<Rightarrow> Inl e
      | None \<Rightarrow> Inr (srt instance_before (filter (instance_in scope) (concat (map snd it)))))"

section \<open>The service\<close>

definition Cloud_CreateAccount ::
  "entropy \<Rightarrow> time \<Rightarrow> Scope \<Rightarrow> AccountRequest \<Rightarrow> CloudStore \<Rightarrow> (Account, CloudStore) op" where
  "Cloud_CreateAccount r now scope request0 st =
     (case Scope_Validate scope of
        Some e \<Rightarrow> (Inl e, st)
      | None \<Rightarrow>
          let request = request0\<lparr>AccountRequest_Name := trim_space (AccountRequest_Name request0),
                                 AccountRequest_ExternalID := trim_space (AccountRequest_ExternalID request0)\<rparr> in
          if AccountRequest_Name request = [] \<or> length (AccountRequest_Name request) > 128
             \<or> AccountRequest_ExternalID request = [] \<or> length (AccountRequest_ExternalID request) > 256
             \<or> \<not> validProvider (AccountRequest_Provider request)
          then (Inl ErrInvalidCloudInventory, st)
          else (case rand_hex 16 r of
              Inl e \<Rightarrow> (Inl e, st)
            | Inr i \<Rightarrow>
                let account = \<lparr>Account_OrganizationID = Scope_OrganizationID scope, Account_SiteID = Scope_SiteID scope,
                      Account_ID = i, Account_Request = request, Account_Status = AccountPending,
                      Account_LastSyncAt = None, Account_CreatedAt = truncate_micro now\<rparr>
                in (case CreateCloudAccount scope account st of
                      (Inl e, st') \<Rightarrow> (Inl e, st') | (Inr _, st') \<Rightarrow> (Inr account, st'))))"

definition Cloud_ListAccounts :: "Account sorter \<Rightarrow> (string \<times> Account) list \<Rightarrow> Scope \<Rightarrow> Account list res" where
  "Cloud_ListAccounts srt it scope =
     (case Scope_Validate scope of Some e \<Rightarrow> Inl e | None \<Rightarrow> ListCloudAccounts srt it scope)"

definition Cloud_ListInstances ::
  "Instance sorter \<Rightarrow> (string \<times> Instance list) list \<Rightarrow> Scope \<Rightarrow> Instance list res" where
  "Cloud_ListInstances srt it scope =
     (case Scope_Validate scope of Some e \<Rightarrow> Inl e | None \<Rightarrow> ListCloudInstances srt it scope)"

definition scoped_hosts :: "Scope \<Rightarrow> Host list \<Rightarrow> Host list" where
  "scoped_hosts scope hosts =
     filter (\<lambda>host. \<not> (Host_OrganizationID host \<noteq> Scope_OrganizationID scope \<or> Host_SiteID host \<noteq> Scope_SiteID scope)) hosts"

text \<open>\<open>hostByID\<close>: a later host of the same identifier overwrites an earlier one.\<close>

definition host_by_id :: "Host list \<Rightarrow> string \<rightharpoonup> Host" where
  "host_by_id hosts = map_of (rev (map (\<lambda>host. (Host_AgentID host, host)) hosts))"

definition new_instance :: "Scope \<Rightarrow> Account \<Rightarrow> time \<Rightarrow> DiscoveredInstance \<Rightarrow> Instance" where
  "new_instance scope account now d =
     \<lparr>Instance_OrganizationID = Scope_OrganizationID scope, Instance_SiteID = Scope_SiteID scope,
      Instance_AccountID = Account_ID account, Instance_AccountName = AccountRequest_Name (Account_Request account),
      Instance_Provider = AccountRequest_Provider (Account_Request account), Instance_Discovered = d,
      Instance_AgentID = [], Instance_CandidateAgentID = [], Instance_MatchStatus = MatchUnmatched,
      Instance_MatchReason = ''no_agent_signal'', Instance_DiscoveredAt = now\<rparr>"

definition match_instance :: "(string \<Rightarrow> string) \<Rightarrow> Host list \<Rightarrow> Instance \<Rightarrow> Instance" where
  "match_instance uni hosts i =
     (let d = Instance_Discovered i; hint = Discovered_AgentIDHint d in
      case (if hint \<noteq> [] then host_by_id hosts hint else None) of
        Some host \<Rightarrow>
          i\<lparr>Instance_AgentID := Host_AgentID host, Instance_MatchStatus := MatchVerified,
            Instance_MatchReason := ''provider_agent_id''\<rparr>
      | None \<Rightarrow>
          if hint \<noteq> [] then i\<lparr>Instance_MatchReason := ''agent_identity_not_found''\<rparr>
          else let candidate = uniqueCandidate uni d hosts in
            if candidate \<noteq> [] then
              i\<lparr>Instance_CandidateAgentID := candidate, Instance_MatchStatus := MatchCandidate,
                Instance_MatchReason := ''hostname_or_private_ip''\<rparr>
            else i)"

text \<open>The loop over the discovered instances; \<open>Inl\<close> is the error it returns with.\<close>

fun reconcile_loop ::
  "(string \<Rightarrow> string) \<Rightarrow> (string \<Rightarrow> string option) \<Rightarrow> Scope \<Rightarrow> Account \<Rightarrow> time \<Rightarrow> Host list \<Rightarrow> string set
   \<Rightarrow> DiscoveredInstance list \<Rightarrow> Instance list res" where
  "reconcile_loop uni parse_ip scope account now hosts seen [] = Inr []"
| "reconcile_loop uni parse_ip scope account now hosts seen (d # ds) =
     (case normalizeDiscovery uni parse_ip d of
        Inl e \<Rightarrow> Inl e
      | Inr normalized \<Rightarrow>
          if Discovered_ProviderInstanceID normalized \<in> seen then Inl ErrInvalidCloudInventory
          else (case reconcile_loop uni parse_ip scope account now hosts
                       (insert (Discovered_ProviderInstanceID normalized) seen) ds of
              Inl e \<Rightarrow> Inl e
            | Inr instances \<Rightarrow>
                Inr (match_instance uni hosts (new_instance scope account now normalized) # instances)))"

definition Cloud_Reconcile ::
  "(string \<Rightarrow> string) \<Rightarrow> (string \<Rightarrow> string option) \<Rightarrow> time \<Rightarrow> (Scope \<Rightarrow> Host list res) \<Rightarrow> Scope \<Rightarrow> string
   \<Rightarrow> DiscoveredInstance list \<Rightarrow> CloudStore \<Rightarrow> (Instance list, CloudStore) op" where
  "Cloud_Reconcile uni parse_ip now0 list_hosts scope accountID0 discovered st =
     (case Scope_Validate scope of
        Some e \<Rightarrow> (Inl e, st)
      | None \<Rightarrow>
          let accountID = trim_space accountID0 in
          if accountID = [] \<or> length discovered > 10000 then (Inl ErrInvalidCloudInventory, st)
          else (case GetCloudAccount scope accountID st of
              Inl e \<Rightarrow> (Inl e, st)
            | Inr account \<Rightarrow>
                (case list_hosts scope of
                   Inl e \<Rightarrow> (Inl e, st)
                 | Inr hosts \<Rightarrow>
                     let now = truncate_micro now0 in
                     (case reconcile_loop uni parse_ip scope account now (scoped_hosts scope hosts) {} discovered of
                        Inl e \<Rightarrow> (Inl e, st)
                      | Inr instances \<Rightarrow>
                          let account' = account\<lparr>Account_Status := AccountConnected, Account_LastSyncAt := Some now\<rparr> in
                          (case ReplaceCloudInstances scope account' instances st of
                             (Inl e, st') \<Rightarrow> (Inl e, st')
                           | (Inr _, st') \<Rightarrow> (Inr instances, st'))))))"

end
