(* ===== verification/Inventory_Properties.thy ===== *)
theory Inventory_Properties
  imports Inventory Jobs_Lifecycle Alerting
begin

text \<open>
  The host inventory against its specification, and the contract between it and its two
  clients: \<open>cmd/bazusop-hub\<close> gives \<open>inventory.Service.HasHost\<close> to the job service and to the
  alert service as their host check. \<open>host_directory\<close> states what the clients rely on and
  proves once what follows for them; the interpretation discharges it for the inventory.
\<close>

section \<open>The contract of a host check\<close>

locale host_directory =
  fixes ok :: "'q \<Rightarrow> bool"
    and check :: "'q \<Rightarrow> Scope \<Rightarrow> string \<Rightarrow> bool res"
    and known :: "'q \<Rightarrow> Agent \<Rightarrow> bool"
  assumes found: "ok q \<Longrightarrow> check q scope agentID = Inr True \<Longrightarrow>
      known q \<lparr>Agent_ID = trim_space agentID, Agent_OrganizationID = Scope_OrganizationID scope, Agent_SiteID = Scope_SiteID scope\<rparr>"
    and known_found: "ok q \<Longrightarrow> known q agent \<Longrightarrow> trim_space (Agent_ID agent) = Agent_ID agent \<Longrightarrow>
      check q (Agent_Scope agent) (Agent_ID agent) = Inr True"
begin

text \<open>A job is created for a known host only.\<close>

lemma job_host_known:
  assumes "ok q" and "JobsService_hostExists service = Some (check q)"
    and "Jobs_Create ed fmt service r now scope agentID request st = (Inr job, st')"
  shows "known q \<lparr>Agent_ID = Job_AgentID job, Agent_OrganizationID = Job_OrganizationID job, Agent_SiteID = Job_SiteID job\<rparr>
      \<and> Job_Scope job = scope"
proof -
  have exists: "host_exists service scope (trim_space agentID) = Inr True"
    and job: "job = sign_job ed fmt service
        (unsigned_job service (Job_ID job) scope (trim_space agentID) (trim_request request) now)"
    using assms(3) unfolding Jobs_Create_Inr by (auto simp: sign_job_def unsigned_job_def)
  from exists assms(2) have "check q scope (trim_space agentID) = Inr True" by (simp add: host_exists_def)
  from found [OF assms(1) this]
  have "known q \<lparr>Agent_ID = trim_space agentID, Agent_OrganizationID = Scope_OrganizationID scope, Agent_SiteID = Scope_SiteID scope\<rparr>"
    by simp
  then show ?thesis
    using arg_cong [OF job, of Job_AgentID] arg_cong [OF job, of Job_OrganizationID]
      arg_cong [OF job, of Job_SiteID]
    by (simp add: sign_job_def unsigned_job_def Job_Scope_def)
qed

text \<open>A maintenance window names a known host, or none and then covers the site.\<close>

lemma maintenance_host_known:
  assumes "ok q" and "CreateMaintenance (check q) r now scope request st = (Inr window, st')"
    and "MaintenanceRequest_AgentID (MaintenanceWindow_Request window) \<noteq> []"
  shows "known q \<lparr>Agent_ID = MaintenanceRequest_AgentID (MaintenanceWindow_Request window),
      Agent_OrganizationID = Scope_OrganizationID scope, Agent_SiteID = Scope_SiteID scope\<rparr>"
proof -
  have "check q scope (MaintenanceRequest_AgentID (MaintenanceWindow_Request window)) = Inr True
      \<and> MaintenanceWindow_Request window = trim_maintenance request"
    using assms(2,3) by (auto simp: CreateMaintenance_def Let_def new_window_def split: if_splits option.splits sum.splits prod.splits)
  then show ?thesis using found [OF assms(1)] by (fastforce simp: trim_maintenance_def)
qed

text \<open>The job service refuses a complete request for a host that is not known, and stores nothing.\<close>

lemma unknown_host_refused:
  assumes "ok q" and "JobsService_hostExists service = Some (check q)"
    and "\<not> known q \<lparr>Agent_ID = trim_space agentID, Agent_OrganizationID = Scope_OrganizationID scope, Agent_SiteID = Scope_SiteID scope\<rparr>"
  shows "\<exists>e. Jobs_Create ed fmt service r now scope agentID request st = (Inl e, st)"
proof (cases "Jobs_Create ed fmt service r now scope agentID request st")
  case (Pair res st')
  show ?thesis
  proof (cases res)
    case (Inl e)
    with Pair show ?thesis using Jobs_Create_Inl by metis
  next
    case (Inr job)
    have "host_exists service scope (trim_space agentID) = Inr True"
      using Pair unfolding Inr Jobs_Create_Inr by blast
    with assms found [OF assms(1), of scope "trim_space agentID"] show ?thesis by (simp add: host_exists_def)
  qed
qed

end

section \<open>The inventory keeps the contract\<close>

definition reported :: "(string \<Rightarrow> string) \<Rightarrow> (string \<Rightarrow> string option) \<Rightarrow> (time \<times> Agent \<times> Facts) list \<Rightarrow> Agent \<Rightarrow> bool" where
  "reported uni parse_ip reports agent \<longleftrightarrow> (\<exists>report \<in> set reports. fst (snd report) = agent \<and> accepted_host uni parse_ip report \<noteq> None)"

lemma accepted_reported: "accepted uni parse_ip agent reports \<noteq> [] \<longleftrightarrow> reported uni parse_ip reports agent"
  unfolding accepted_def reported_def List.map_filter_def filter_empty_conv by (simp add: filter_empty_conv case_prod_unfold)

lemma reported_valid: "reported uni parse_ip reports agent \<Longrightarrow> valid_agent agent"
  unfolding reported_def using accepted_host_agent by fastforce

lemma HasHost_reported:
  assumes "ranges it (run_reports uni parse_ip reports)"
    and "agent = \<lparr>Agent_ID = trim_space agentID, Agent_OrganizationID = Scope_OrganizationID scope, Agent_SiteID = Scope_SiteID scope\<rparr>"
  shows "Inventory_HasHost it scope agentID =
    (case Agent_Validate agent of Some e \<Rightarrow> Inl e | None \<Rightarrow> Inr (reported uni parse_ip reports agent))"
proof (cases "Agent_Validate agent")
  case None
  have "Agent_Scope agent = scope" by (simp add: assms(2) scope_eq_iff)
  with None have scope: "Scope_Validate scope = None" using valid_agent_scope by fastforce
  have rows: "(\<exists>host \<in> set (filter (\<lambda>host. Host_Scope host = scope) (map snd it)). Host_AgentID host = Agent_ID agent
      \<and> Host_OrganizationID host = Scope_OrganizationID scope \<and> Host_SiteID host = Scope_SiteID scope)
    \<longleftrightarrow> (\<exists>host \<in> set (map snd it). Host_Agent host = agent)"
    by (auto simp: assms(2) Host_Agent_def Host_Scope_def scope_eq_iff)
  have latest: "Host_Agent host = agent" if "latest_host (accepted uni parse_ip agent reports) = Some host" for host
    using run_reports_dom [of uni parse_ip reports "agent_key agent" host] that run_reports_at [OF None]
      agent_key_inj [OF None] by metis
  have "(\<exists>host \<in> set (map snd it). Host_Agent host = agent) \<longleftrightarrow> accepted uni parse_ip agent reports \<noteq> []"
    unfolding Bex_def run_reports_rows [OF assms(1)]
  proof
    assume "accepted uni parse_ip agent reports \<noteq> []"
    then obtain host where "latest_host (accepted uni parse_ip agent reports) = Some host" by (simp add: latest_host_def)
    then show "\<exists>host. (valid_agent (Host_Agent host) \<and> latest_host (accepted uni parse_ip (Host_Agent host) reports) = Some host)
        \<and> Host_Agent host = agent" using None latest by metis
  qed (auto simp: latest_host_def)
  with None scope rows show ?thesis
    unfolding Inventory_HasHost_def Let_def assms(2) [symmetric] ListHosts_def
    by (simp add: accepted_reported)
qed (simp add: Inventory_HasHost_def Let_def assms(2))

interpretation inventory: host_directory
  "\<lambda>(it, reports). ranges it (run_reports uni parse_ip reports)"
  "\<lambda>(it, reports). Inventory_HasHost it" "\<lambda>(it, reports). reported uni parse_ip reports"
  for uni parse_ip
proof
  fix q :: "(string \<times> Host) list \<times> (time \<times> Agent \<times> Facts) list"
  assume ok: "case q of (it, reports) \<Rightarrow> ranges it (run_reports uni parse_ip reports)"
  obtain it reports where q: "q = (it, reports)" by (cases q)
  have run: "ranges it (run_reports uni parse_ip reports)" using ok by (simp add: q)
  show "(case q of (it, reports) \<Rightarrow> reported uni parse_ip reports)
      \<lparr>Agent_ID = trim_space agentID, Agent_OrganizationID = Scope_OrganizationID scope, Agent_SiteID = Scope_SiteID scope\<rparr>"
    if "(case q of (it, reports) \<Rightarrow> Inventory_HasHost it) scope agentID = Inr True" for scope agentID
    using that unfolding q prod.case HasHost_reported [OF run refl] by (simp split: option.splits)
  show "(case q of (it, reports) \<Rightarrow> Inventory_HasHost it) (Agent_Scope agent) (Agent_ID agent) = Inr True"
    if "(case q of (it, reports) \<Rightarrow> reported uni parse_ip reports) agent" "trim_space (Agent_ID agent) = Agent_ID agent" for agent
    using that reported_valid unfolding q prod.case HasHost_reported [OF run refl] by fastforce
qed

section \<open>Properties\<close>

lemma weak_order_hostname: "weak_order hostname_before"
  unfolding hostname_before_def [abs_def] by (rule weak_order_key)

lemma listed_distinct:
  assumes "ranges it (run_reports uni parse_ip reports)"
  shows "distinct (map Host_AgentID (filter (\<lambda>host. Host_Scope host = scope) (map snd it)))"
proof -
  let ?hosts = "map snd it"
  have keys: "map fst it = map (\<lambda>host. agent_key (Host_Agent host)) ?hosts"
    using run_reports_dom ranges_entry [OF assms] by (fastforce simp: map_eq_conv)
  have "distinct ?hosts" "inj_on (\<lambda>host. agent_key (Host_Agent host)) (set ?hosts)"
    using assms keys by (metis ranges_def distinct_map)+
  then have "inj_on Host_AgentID (set (filter (\<lambda>host. Host_Scope host = scope) ?hosts))"
  proof (unfold inj_on_def, intro ballI impI)
    fix a b assume a: "a \<in> set (filter (\<lambda>host. Host_Scope host = scope) ?hosts)"
      and b: "b \<in> set (filter (\<lambda>host. Host_Scope host = scope) ?hosts)" and "Host_AgentID a = Host_AgentID b"
    then have "Host_Agent a = Host_Agent b" by (auto simp: Host_Agent_def Host_Scope_def)
    with a b \<open>inj_on _ _\<close> show "a = b" by (metis (no_types, lifting) filter_is_subset inj_onD subsetD)
  qed
  with \<open>distinct ?hosts\<close> show ?thesis by (simp only: distinct_map distinct_filter)
qed

lemma listed_set:
  assumes "ranges it (run_reports uni parse_ip reports)"
  shows "set (filter (\<lambda>host. Host_Scope host = scope) (map snd it))
    = {host. \<exists>agent. valid_agent agent \<and> Agent_Scope agent = scope
        \<and> latest_host (accepted uni parse_ip agent reports) = Some host}" (is "_ = ?hosts")
proof (rule set_eqI)
  fix host
  have "Agent_Scope (Host_Agent host) = Host_Scope host" by (simp add: Agent_Scope_def Host_Agent_def Host_Scope_def)
  moreover have "Host_Agent host = agent"
    if "valid_agent agent" "latest_host (accepted uni parse_ip agent reports) = Some host" for agent
    using that run_reports_dom [of uni parse_ip reports "agent_key agent" host] run_reports_at agent_key_inj by metis
  ultimately show "host \<in> set (filter (\<lambda>host. Host_Scope host = scope) (map snd it)) \<longleftrightarrow> host \<in> ?hosts"
    unfolding set_filter mem_Collect_eq run_reports_rows [OF assms] by metis
qed

text \<open>
  What the inventory shows. After any sequence of reports, accepted or refused, the
  listing of a valid scope has exactly one row for every agent of that scope that got a
  report accepted and no other: the normalized facts of its last accepted report, first
  seen at the first one and last seen at the last one, marked connected exactly when the
  last one is at most two minutes old, in the order of the host names. The host check
  answers yes exactly for these agents.
\<close>

theorem inventory_view:
  assumes "ranges it (run_reports uni parse_ip reports)" and "slice_sort srt" and "valid_scope scope"
  shows "(\<exists>rows. Inventory_List srt it now scope = Inr rows
      \<and> sorted_wrt (\<lambda>a b. Host_Hostname a \<le> Host_Hostname b) rows \<and> distinct (map Host_AgentID rows)
      \<and> set rows = {host\<lparr>Host_Status := if sub_time now (Host_LastSeenAt host) \<le> 2 * minute then ''connected'' else ''stale''\<rparr>
          | host. \<exists>agent. valid_agent agent \<and> Agent_Scope agent = scope
              \<and> latest_host (accepted uni parse_ip agent reports) = Some host})
    \<and> (\<forall>agent. valid_agent agent \<and> Agent_Scope agent = scope \<and> trim_space (Agent_ID agent) = Agent_ID agent \<longrightarrow>
        Inventory_HasHost it scope (Agent_ID agent) = Inr (accepted uni parse_ip agent reports \<noteq> []))"
proof
  let ?listed = "filter (\<lambda>host. Host_Scope host = scope) (map snd it)"
  let ?rows = "srt hostname_before (map (connection_status now) ?listed)"
  have "Inventory_List srt it now scope = Inr ?rows" using assms(3) by (simp add: Inventory_List_def ListHosts_def)
  moreover have "sorted_wrt (\<lambda>a b. Host_Hostname a \<le> Host_Hostname b) ?rows"
    using slice_sort.ordered_srt [OF assms(2) weak_order_hostname] by (simp add: hostname_before_def not_less)
  moreover have "distinct (map Host_AgentID ?rows)"
  proof -
    have "mset (map Host_AgentID ?rows) = mset (map Host_AgentID ?listed)"
      unfolding mset_map slice_sort.mset_srt [OF assms(2)] by (simp add: connection_status_def multiset.map_comp comp_def)
    then show ?thesis using listed_distinct [OF assms(1)] mset_eq_imp_distinct_iff by blast
  qed
  moreover have "set ?rows = connection_status now ` set ?listed"
    by (simp only: slice_sort.set_srt [OF assms(2)] set_map)
  ultimately show "\<exists>rows. Inventory_List srt it now scope = Inr rows
      \<and> sorted_wrt (\<lambda>a b. Host_Hostname a \<le> Host_Hostname b) rows \<and> distinct (map Host_AgentID rows)
      \<and> set rows = {host\<lparr>Host_Status := if sub_time now (Host_LastSeenAt host) \<le> 2 * minute then ''connected'' else ''stale''\<rparr>
          | host. \<exists>agent. valid_agent agent \<and> Agent_Scope agent = scope
              \<and> latest_host (accepted uni parse_ip agent reports) = Some host}"
    unfolding listed_set [OF assms(1)] connection_status_def ConnectedWindow_def StatusConnected_def StatusStale_def
      setcompr_eq_image by blast
next
  have "Inventory_HasHost it scope (Agent_ID agent) = Inr (accepted uni parse_ip agent reports \<noteq> [])"
    if "valid_agent agent" "Agent_Scope agent = scope" "trim_space (Agent_ID agent) = Agent_ID agent" for agent
  proof -
    have "agent = \<lparr>Agent_ID = trim_space (Agent_ID agent), Agent_OrganizationID = Scope_OrganizationID scope,
        Agent_SiteID = Scope_SiteID scope\<rparr>" using that by (simp add: scope_eq_iff)
    from HasHost_reported [OF assms(1) this] show ?thesis using that(1) by (simp add: accepted_reported)
  qed
  then show "\<forall>agent. valid_agent agent \<and> Agent_Scope agent = scope \<and> trim_space (Agent_ID agent) = Agent_ID agent \<longrightarrow>
        Inventory_HasHost it scope (Agent_ID agent) = Inr (accepted uni parse_ip agent reports \<noteq> [])" by blast
qed

text \<open>
  Jobs and maintenance windows only for hosts that reported. With the host check wired
  to the inventory as \<open>cmd/bazusop-hub\<close> does, every job that is created carries the scope of
  the request and the agent of an accepted report of exactly that organization and site; a
  request for any other agent is refused and stores nothing; and a maintenance window that
  names an agent names one of these.
\<close>

theorem work_needs_reported_host:
  assumes "ranges it (run_reports uni parse_ip reports)"
    and "JobsService_hostExists service = Some (Inventory_HasHost it)"
  shows "(case Jobs_Create ed fmt service r now scope agentID request st of
       (Inr job, _) \<Rightarrow> Job_Scope job = scope
         \<and> reported uni parse_ip reports \<lparr>Agent_ID = Job_AgentID job, Agent_OrganizationID = Job_OrganizationID job,
             Agent_SiteID = Job_SiteID job\<rparr>
     | (Inl _, st') \<Rightarrow> st' = st)
    \<and> (\<not> reported uni parse_ip reports \<lparr>Agent_ID = trim_space agentID, Agent_OrganizationID = Scope_OrganizationID scope,
          Agent_SiteID = Scope_SiteID scope\<rparr> \<longrightarrow>
        (\<exists>e. Jobs_Create ed fmt service r now scope agentID request st = (Inl e, st)))
    \<and> (case CreateMaintenance (Inventory_HasHost it) r now scope maintenance alerts of
         (Inr window, _) \<Rightarrow> MaintenanceRequest_AgentID (MaintenanceWindow_Request window) \<noteq> [] \<longrightarrow>
           reported uni parse_ip reports \<lparr>Agent_ID = MaintenanceRequest_AgentID (MaintenanceWindow_Request window),
             Agent_OrganizationID = Scope_OrganizationID scope, Agent_SiteID = Scope_SiteID scope\<rparr>
       | (Inl _, _) \<Rightarrow> True)"
proof (intro conjI)
  note facts = inventory.job_host_known [where q = "(it, reports)", unfolded prod.case, OF assms]
  show "case Jobs_Create ed fmt service r now scope agentID request st of
       (Inr job, _) \<Rightarrow> Job_Scope job = scope
         \<and> reported uni parse_ip reports \<lparr>Agent_ID = Job_AgentID job, Agent_OrganizationID = Job_OrganizationID job,
             Agent_SiteID = Job_SiteID job\<rparr>
     | (Inl _, st') \<Rightarrow> st' = st"
    using facts Jobs_Create_Inl by (fastforce split: prod.splits sum.splits)
  show "\<not> reported uni parse_ip reports \<lparr>Agent_ID = trim_space agentID, Agent_OrganizationID = Scope_OrganizationID scope,
          Agent_SiteID = Scope_SiteID scope\<rparr> \<longrightarrow>
        (\<exists>e. Jobs_Create ed fmt service r now scope agentID request st = (Inl e, st))"
    using inventory.unknown_host_refused [where q = "(it, reports)", unfolded prod.case, OF assms] by blast
  show "case CreateMaintenance (Inventory_HasHost it) r now scope maintenance alerts of
         (Inr window, _) \<Rightarrow> MaintenanceRequest_AgentID (MaintenanceWindow_Request window) \<noteq> [] \<longrightarrow>
           reported uni parse_ip reports \<lparr>Agent_ID = MaintenanceRequest_AgentID (MaintenanceWindow_Request window),
             Agent_OrganizationID = Scope_OrganizationID scope, Agent_SiteID = Scope_SiteID scope\<rparr>
       | (Inl _, _) \<Rightarrow> True"
    using inventory.maintenance_host_known [where q = "(it, reports)", unfolded prod.case, OF assms(1)]
    by (fastforce split: prod.splits sum.splits)
qed

section \<open>Witnesses\<close>

definition web_agent :: Agent where
  "web_agent = \<lparr>Agent_ID = ''a1'', Agent_OrganizationID = ''org_default'', Agent_SiteID = ''site_default''\<rparr>"

definition web_facts :: Facts where
  "web_facts = \<lparr>Facts_Hostname = ''Web1'', Facts_OSFamily = ''linux'', Facts_OSName = ''d'', Facts_OSVersion = ''d'',
     Facts_Architecture = ''x64'', Facts_KernelVersion = ''d'', Facts_CPUCores = 4, Facts_MemoryBytes = 1024,
     Facts_IPAddresses = [], Facts_AgentVersion = ''d''\<rparr>"

definition web_host :: Host where
  "web_host = \<lparr>Host_OrganizationID = ''org_default'', Host_SiteID = ''site_default'', Host_AgentID = ''a1'',
     Host_Hostname = ''web1'', Host_OSFamily = ''linux'', Host_OSName = ''d'', Host_OSVersion = ''d'',
     Host_Architecture = ''amd64'', Host_KernelVersion = ''d'', Host_CPUCores = 4, Host_MemoryBytes = 1024,
     Host_IPAddresses = [], Host_AgentVersion = ''d'', Host_FirstSeenAt = 5000, Host_LastSeenAt = 5000, Host_Status = []\<rparr>"

lemma web_trim [simp]: "trim_space ''a1'' = ''a1''" "trim_space ''Web1'' = ''Web1''" "trim_space ''linux'' = ''linux''"
  "trim_space ''d'' = ''d''" "trim_space ''x64'' = ''x64''"
  by (rule trim_space_plain; simp add: plain_char_def)+

lemma web_scope: "Agent_Scope web_agent = DefaultScope"
  by (simp add: Agent_Scope_def web_agent_def DefaultScope_def DefaultOrganizationID_def DefaultSiteID_def)

lemma web_valid: "valid_agent web_agent"
  unfolding Agent_Validate_def web_scope by (simp add: web_agent_def nul_def)

lemma web_lower:
  "map lower_char ''Web1'' = ''web1''" "map lower_char ''linux'' = ''linux''" "map lower_char ''x64'' = ''x64''"
  by code_simp+

lemma web_lowered: "to_lower (\<lambda>s. s) ''Web1'' = ''web1''" "to_lower (\<lambda>s. s) ''linux'' = ''linux''"
  "to_lower (\<lambda>s. s) ''x64'' = ''x64''"
  by (simp_all only: to_lower_def web_lower if_True) (simp_all add: is_ascii_def)

lemma web_accepted: "accepted_host (\<lambda>s. s) (\<lambda>_. None) (5000, web_agent, web_facts) = Some web_host"
proof -
  have suffix: "trim_suffix ''Web1'' ''.'' = ''Web1''" by (simp add: trim_suffix_def has_suffix_def has_prefix_def)
  have arch: "normalizeArchitecture (\<lambda>s. s) ''x64'' = ''amd64''" by (simp add: normalizeArchitecture_def web_lowered)
  show ?thesis
    using web_valid
    by (simp add: accepted_host_def normalize_facts_def web_facts_def web_host_def web_agent_def suffix arch web_lowered
        normalizeAddresses_def invalid_facts_def supportedHostOS_def bounded_def)
qed

lemma web_run: "ranges [(agent_key web_agent, web_host)] (run_reports (\<lambda>s. s) (\<lambda>_. None) [(5000, web_agent, web_facts)])"
  by (simp add: run_reports_def report_step web_accepted NewHostStore_def ranges_def)

lemma web_directory: "Inventory_HasHost [(agent_key web_agent, web_host)] DefaultScope ''a1'' = Inr True"
  by (simp add: Inventory_HasHost_def ListHosts_def web_valid [unfolded web_agent_def] DefaultScope_def
      DefaultOrganizationID_def DefaultSiteID_def web_host_def Host_Scope_def
      valid_DefaultScope [unfolded DefaultScope_def DefaultOrganizationID_def DefaultSiteID_def])

theorem inventory_view_witness:
  "\<exists>rows. Inventory_List insertion_sort [(agent_key web_agent, web_host)] 6000 DefaultScope = Inr rows
     \<and> set rows = {web_host\<lparr>Host_Status := ''connected''\<rparr>}"
proof -
  have "accepted (\<lambda>s. s) (\<lambda>_. None) agent [(5000, web_agent, web_facts)] = (if agent = web_agent then [web_host] else [])" for agent
    by (simp add: accepted_def web_accepted)
  then have "latest_host (accepted (\<lambda>s. s) (\<lambda>_. None) agent [(5000, web_agent, web_facts)])
      = (if agent = web_agent then Some web_host else None)" for agent
    by (simp add: latest_host_def web_host_def)
  moreover have "sub_time 6000 (Host_LastSeenAt web_host) \<le> 2 * minute"
    by (simp add: web_host_def sub_time_def minute_def second_def max_duration_def min_duration_def)
  ultimately show ?thesis
    using inventory_view [OF web_run insertion.slice_sort_axioms valid_DefaultScope, of 6000] web_valid web_scope by auto
qed

definition web_ed :: Ed25519 where "web_ed = \<lparr>Ed_Sign = (\<lambda>k m. []), Ed_Verify = (\<lambda>k m s. True)\<rparr>"

definition web_service :: JobsService where
  "web_service = \<lparr>JobsService_privateKey = [], JobsService_publicKey = [], JobsService_jobLease = 0,
     JobsService_hostExists = Some (Inventory_HasHost [(agent_key web_agent, web_host)])\<rparr>"

definition web_request :: CreateRequest where
  "web_request = \<lparr>CreateRequest_Action = ActionHostReboot, CreateRequest_Target = [],
     CreateRequest_ApprovedBy = ''d'', CreateRequest_Reason = ''d''\<rparr>"

lemma web_job_created:
  "\<exists>job st. Jobs_Create web_ed (\<lambda>_. []) web_service (Some (\<lambda>_. CHR ''x'')) 9000 DefaultScope ''a1'' web_request NewJobStore
     = (Inr job, st)"
proof -
  have "trim_request web_request = web_request" by (simp add: trim_request_def web_request_def)
  then show ?thesis
    unfolding Jobs_Create_Inr
    by (simp add: invalid_request_def web_request_def validActionTarget_def host_exists_def web_service_def
        web_directory rand_hex_def)
qed

theorem work_needs_reported_host_witness:
  "\<exists>job st. Jobs_Create web_ed (\<lambda>_. []) web_service (Some (\<lambda>_. CHR ''x'')) 9000 DefaultScope ''a1'' web_request NewJobStore
       = (Inr job, st) \<and> Job_Scope job = DefaultScope
     \<and> reported (\<lambda>s. s) (\<lambda>_. None) [(5000, web_agent, web_facts)]
         \<lparr>Agent_ID = Job_AgentID job, Agent_OrganizationID = Job_OrganizationID job, Agent_SiteID = Job_SiteID job\<rparr>"
proof -
  have wired: "JobsService_hostExists web_service = Some (Inventory_HasHost [(agent_key web_agent, web_host)])"
    by (simp add: web_service_def)
  obtain job st where created: "Jobs_Create web_ed (\<lambda>_. []) web_service (Some (\<lambda>_. CHR ''x'')) 9000 DefaultScope ''a1''
      web_request NewJobStore = (Inr job, st)" using web_job_created by blast
  show ?thesis
    using work_needs_reported_host [OF web_run wired, where ed = web_ed and fmt = "\<lambda>_. []" and r = "Some (\<lambda>_. CHR ''x'')"
        and now = 9000 and scope = DefaultScope and agentID = "''a1''" and request = web_request and st = NewJobStore] created by auto
qed

end
