(* ===== verification/Cloudinventory_Properties.thy ===== *)
theory Cloudinventory_Properties
  imports Cloudinventory Inventory_Properties
begin

text \<open>
  What a reconciliation decides, with the hosts of the inventory: which instances are
  verified, which are candidates, and what the store keeps of it.
\<close>

section \<open>The matching\<close>

lemma host_by_id_Some:
  "host_by_id hosts i = Some host \<Longrightarrow> host \<in> set hosts \<and> Host_AgentID host = i"
  unfolding host_by_id_def using map_of_SomeD by fastforce

lemma host_by_id_None: "host_by_id hosts i = None \<longleftrightarrow> i \<notin> Host_AgentID ` set hosts"
  by (simp add: host_by_id_def map_of_eq_None_iff image_image)

lemma singleton_remdups: "remdups xs = [a] \<longleftrightarrow> set xs = {a}"
proof
  assume "set xs = {a}"
  then have "set (remdups xs) = {a}" "distinct (remdups xs)" by simp_all
  then show "remdups xs = [a]"
    by (metis card.empty card_insert_disjoint distinct_card empty_iff finite.emptyI length_0_conv length_Suc_conv list.set_intros(1) singletonD)
qed (metis empty_set list.simps(15) set_remdups)

lemma uniqueCandidate_iff:
  assumes "\<forall>host \<in> set hosts. Host_AgentID host \<noteq> []" and "a \<noteq> []"
  shows "uniqueCandidate uni d hosts = a \<longleftrightarrow> Host_AgentID ` {host \<in> set hosts. host_matches uni d host} = {a}"
proof -
  let ?ids = "map Host_AgentID (filter (host_matches uni d) hosts)"
  have "uniqueCandidate uni d hosts = a \<longleftrightarrow> remdups ?ids = [a]"
    using assms(2) by (auto simp: uniqueCandidate_def split: list.splits)
  then show ?thesis by (simp add: singleton_remdups)
qed

text \<open>The three outcomes for one instance, with \<open>ids\<close> the identifiers of the matching hosts.\<close>

definition matched_to :: "(string \<Rightarrow> string) \<Rightarrow> Host list \<Rightarrow> Instance \<Rightarrow> bool" where
  "matched_to uni hosts i \<longleftrightarrow>
     (let d = Instance_Discovered i; hint = Discovered_AgentIDHint d;
          ids = Host_AgentID ` {host \<in> set hosts. host_matches uni d host} in
      (Instance_MatchStatus i = MatchVerified \<longleftrightarrow> hint \<noteq> [] \<and> hint \<in> Host_AgentID ` set hosts)
      \<and> (Instance_MatchStatus i = MatchCandidate \<longleftrightarrow> hint = [] \<and> card ids = 1)
      \<and> Instance_MatchStatus i \<in> {MatchVerified, MatchCandidate, MatchUnmatched}
      \<and> Instance_AgentID i = (if Instance_MatchStatus i = MatchVerified then hint else [])
      \<and> (if Instance_MatchStatus i = MatchCandidate then ids = {Instance_CandidateAgentID i}
         else Instance_CandidateAgentID i = []))"

lemma match_status_distinct [simp]:
  "MatchVerified \<noteq> MatchCandidate" "MatchCandidate \<noteq> MatchVerified" "MatchUnmatched \<noteq> MatchVerified"
  "MatchUnmatched \<noteq> MatchCandidate"
  by (simp_all add: MatchVerified_def MatchCandidate_def MatchUnmatched_def)

lemma match_instance_matched:
  assumes ids: "\<forall>host \<in> set hosts. Host_AgentID host \<noteq> []"
  shows "matched_to uni hosts (match_instance uni hosts (new_instance scope account now d))"
proof (cases "Discovered_AgentIDHint d = []")
  case True
  show ?thesis
  proof (cases "uniqueCandidate uni d hosts = []")
    case none: True
    have "card (Host_AgentID ` {host \<in> set hosts. host_matches uni d host}) \<noteq> 1"
    proof
      assume "card (Host_AgentID ` {host \<in> set hosts. host_matches uni d host}) = 1"
      then obtain a where a: "Host_AgentID ` {host \<in> set hosts. host_matches uni d host} = {a}"
        by (auto simp: card_1_singleton_iff)
      then have "a \<noteq> []" using ids by blast
      then have "uniqueCandidate uni d hosts = a" using a uniqueCandidate_iff [OF ids] by metis
      with \<open>a \<noteq> []\<close> none show False by simp
    qed
    with True none show ?thesis by (simp add: matched_to_def match_instance_def new_instance_def Let_def)
  next
    case False
    then have "Host_AgentID ` {host \<in> set hosts. host_matches uni d host} = {uniqueCandidate uni d hosts}"
      using uniqueCandidate_iff [OF ids] by blast
    with True False show ?thesis
      by (simp add: matched_to_def match_instance_def new_instance_def Let_def)
  qed
next
  case False
  then show ?thesis
  proof (cases "host_by_id hosts (Discovered_AgentIDHint d)")
    case None
    moreover have "Discovered_AgentIDHint d \<notin> Host_AgentID ` set hosts" using None host_by_id_None by blast
    ultimately show ?thesis
      using False by (simp add: matched_to_def match_instance_def new_instance_def Let_def)
  next
    case (Some host)
    then have "Discovered_AgentIDHint d \<in> Host_AgentID ` set hosts" using host_by_id_Some by (metis image_eqI)
    with False Some host_by_id_Some [OF Some] show ?thesis
      by (simp add: matched_to_def match_instance_def new_instance_def Let_def)
  qed
qed

lemma match_instance_fields [simp]:
  "Instance_Discovered (match_instance uni hosts i) = Instance_Discovered i"
  "Instance_AccountID (match_instance uni hosts i) = Instance_AccountID i"
  "Instance_OrganizationID (match_instance uni hosts i) = Instance_OrganizationID i"
  "Instance_SiteID (match_instance uni hosts i) = Instance_SiteID i"
  by (simp_all add: match_instance_def Let_def split: option.splits)

section \<open>The loop\<close>

lemma normalizeDiscovery_Inr: "normalizeDiscovery uni parse_ip d = Inr d' \<Longrightarrow> d' = trim_discovery uni parse_ip d"
  by (simp add: normalizeDiscovery_def Let_def split: if_splits)

lemma reconcile_loop_Inr:
  assumes "\<forall>host \<in> set hosts. Host_AgentID host \<noteq> []"
    and "reconcile_loop uni parse_ip scope account now hosts seen ds = Inr instances"
  shows "map Instance_Discovered instances = map (trim_discovery uni parse_ip) ds
    \<and> distinct (map (Discovered_ProviderInstanceID \<circ> Instance_Discovered) instances)
    \<and> (Discovered_ProviderInstanceID \<circ> Instance_Discovered) ` set instances \<inter> seen = {}
    \<and> (\<forall>i \<in> set instances. matched_to uni hosts i \<and> instance_in scope i \<and> Instance_AccountID i = Account_ID account)"
  using assms(2)
proof (induction ds arbitrary: seen instances)
  case Nil
  then show ?case by simp
next
  case (Cons d ds)
  obtain normalized rest where step: "normalizeDiscovery uni parse_ip d = Inr normalized"
      "Discovered_ProviderInstanceID normalized \<notin> seen"
      "reconcile_loop uni parse_ip scope account now hosts (insert (Discovered_ProviderInstanceID normalized) seen) ds = Inr rest"
      "instances = match_instance uni hosts (new_instance scope account now normalized) # rest"
    using Cons.prems by (auto split: sum.splits if_splits)
  show ?case
    using Cons.IH [OF step(3)] step(2,4) normalizeDiscovery_Inr [OF step(1)] match_instance_matched [OF assms(1)]
    by (auto simp: new_instance_def instance_in_def)
qed

lemma Cloud_Reconcile_cases:
  assumes "Cloud_Reconcile uni parse_ip now list_hosts scope accountID discovered st = (res, st')"
  obtains (refused) e where "res = Inl e" "st' = st"
  | (stored) account hosts instances where "res = Inr instances" "valid_scope scope"
      "GetCloudAccount scope (trim_space accountID) st = Inr account" "list_hosts scope = Inr hosts"
      "reconcile_loop uni parse_ip scope account (truncate_micro now) (scoped_hosts scope hosts) {} discovered = Inr instances"
      "st' = st\<lparr>CloudStore_accounts := (CloudStore_accounts st)(Account_ID account \<mapsto>
            account\<lparr>Account_Status := AccountConnected, Account_LastSyncAt := Some (truncate_micro now)\<rparr>),
          CloudStore_instances := (CloudStore_instances st)(Account_ID account \<mapsto> instances)\<rparr>"
proof -
  show ?thesis
  proof (cases res)
    case (Inl e)
    have "st' = st"
      using assms unfolding Inl Cloud_Reconcile_def Let_def ReplaceCloudInstances_def
      by (simp split: option.splits if_splits sum.splits prod.splits)
    with Inl show ?thesis by (rule refused)
  next
    case (Inr instances)
    have "valid_scope scope \<and> (\<exists>account hosts.
        GetCloudAccount scope (trim_space accountID) st = Inr account \<and> list_hosts scope = Inr hosts
      \<and> reconcile_loop uni parse_ip scope account (truncate_micro now) (scoped_hosts scope hosts) {} discovered = Inr instances
      \<and> st' = st\<lparr>CloudStore_accounts := (CloudStore_accounts st)(Account_ID account \<mapsto>
            account\<lparr>Account_Status := AccountConnected, Account_LastSyncAt := Some (truncate_micro now)\<rparr>),
          CloudStore_instances := (CloudStore_instances st)(Account_ID account \<mapsto> instances)\<rparr>)"
      using assms unfolding Inr Cloud_Reconcile_def Let_def ReplaceCloudInstances_def
      by (simp split: option.splits if_splits sum.splits prod.splits)
    with Inr show ?thesis using stored by blast
  qed
qed

section \<open>The property\<close>

lemma listed_rows:
  assumes "slice_sort srt" and "Inventory_List srt it now scope = Inr hosts"
  shows "set hosts = connection_status now ` set (filter (\<lambda>host. Host_Scope host = scope) (map snd it))"
proof -
  have "hosts = srt hostname_before (map (connection_status now) (filter (\<lambda>host. Host_Scope host = scope) (map snd it)))"
    using assms(2) by (simp add: Inventory_List_def ListHosts_def split: option.splits)
  then show ?thesis by (simp only: slice_sort.set_srt [OF assms(1)] list.set_map)
qed

lemma scoped_hosts_listed:
  assumes "slice_sort srt" and "Inventory_List srt it now scope = Inr hosts"
  shows "set (scoped_hosts scope hosts) = set hosts"
  unfolding scoped_hosts_def set_filter listed_rows [OF assms] by (auto simp: connection_status_def Host_Scope_def)

lemma listed_agents:
  assumes "ranges it (run_reports uni parse_ip reports)" and "slice_sort srt" and "Inventory_List srt it now scope = Inr hosts"
  shows "Host_AgentID ` set (scoped_hosts scope hosts) = {i. reported uni parse_ip reports
            \<lparr>Agent_ID = i, Agent_OrganizationID = Scope_OrganizationID scope, Agent_SiteID = Scope_SiteID scope\<rparr>}"
    and "\<forall>host \<in> set (scoped_hosts scope hosts). Host_AgentID host \<noteq> []"
proof -
  have rows: "set hosts = connection_status now ` {host. \<exists>agent. valid_agent agent \<and> Agent_Scope agent = scope
        \<and> latest_host (accepted uni parse_ip agent reports) = Some host}"
    by (simp only: listed_rows [OF assms(2,3)] listed_set [OF assms(1)])
  have agent: "Host_Agent host = agent"
    if "valid_agent agent" "latest_host (accepted uni parse_ip agent reports) = Some host" for agent host
    using that run_reports_dom [of uni parse_ip reports "agent_key agent" host] run_reports_at agent_key_inj by metis
  have "set (scoped_hosts scope hosts) = set hosts" using scoped_hosts_listed [OF assms(2,3)] .
  moreover have "Host_AgentID ` set hosts = Agent_ID ` {agent. Agent_Scope agent = scope \<and> reported uni parse_ip reports agent}"
  proof
    show "Host_AgentID ` set hosts \<subseteq> Agent_ID ` {agent. Agent_Scope agent = scope \<and> reported uni parse_ip reports agent}"
      unfolding rows
    proof clarsimp
      fix host agent
      assume a: "valid_agent agent" "latest_host (accepted uni parse_ip agent reports) = Some host" "scope = Agent_Scope agent"
      then have "Host_Agent host = agent" "accepted uni parse_ip agent reports \<noteq> []"
        using agent by (auto simp: latest_host_def split: if_splits)
      then have "Host_AgentID (connection_status now host) = Agent_ID agent" "reported uni parse_ip reports agent"
        by (auto simp: connection_status_def Host_Agent_def accepted_reported)
      then show "Host_AgentID (connection_status now host)
          \<in> Agent_ID ` {a. Agent_Scope a = Agent_Scope agent \<and> reported uni parse_ip reports a}" by blast
    qed
    show "Agent_ID ` {agent. Agent_Scope agent = scope \<and> reported uni parse_ip reports agent} \<subseteq> Host_AgentID ` set hosts"
    proof clarsimp
      fix a assume a: "scope = Agent_Scope a" "reported uni parse_ip reports a"
      then obtain host where host: "latest_host (accepted uni parse_ip a reports) = Some host"
        using accepted_reported by (fastforce simp: latest_host_def)
      then have "connection_status now host \<in> set hosts"
        unfolding rows using a reported_valid by blast
      moreover have "Host_AgentID (connection_status now host) = Agent_ID a"
        using agent [OF reported_valid [OF a(2)] host] by (auto simp: connection_status_def Host_Agent_def)
      ultimately show "Agent_ID a \<in> Host_AgentID ` set hosts" by (metis image_eqI)
    qed
  qed
  moreover have "Agent_ID ` {agent. Agent_Scope agent = scope \<and> reported uni parse_ip reports agent}
      = {i. reported uni parse_ip reports
            \<lparr>Agent_ID = i, Agent_OrganizationID = Scope_OrganizationID scope, Agent_SiteID = Scope_SiteID scope\<rparr>}"
  proof (rule set_eqI)
    fix i
    let ?a = "\<lparr>Agent_ID = i, Agent_OrganizationID = Scope_OrganizationID scope, Agent_SiteID = Scope_SiteID scope\<rparr>"
    have "a = ?a" if "Agent_Scope a = scope" "i = Agent_ID a" for a
      using that by (cases a) (auto simp: Agent_Scope_def)
    moreover have "Agent_Scope ?a = scope" "Agent_ID ?a = i" by (simp_all add: scope_eq_iff)
    ultimately show "i \<in> Agent_ID ` {agent. Agent_Scope agent = scope \<and> reported uni parse_ip reports agent}
        \<longleftrightarrow> i \<in> {i. reported uni parse_ip reports
            \<lparr>Agent_ID = i, Agent_OrganizationID = Scope_OrganizationID scope, Agent_SiteID = Scope_SiteID scope\<rparr>}"
      unfolding image_iff Bex_def mem_Collect_eq by metis
  qed
  ultimately show ids: "Host_AgentID ` set (scoped_hosts scope hosts) = {i. reported uni parse_ip reports
            \<lparr>Agent_ID = i, Agent_OrganizationID = Scope_OrganizationID scope, Agent_SiteID = Scope_SiteID scope\<rparr>}" by simp
  show "\<forall>host \<in> set (scoped_hosts scope hosts). Host_AgentID host \<noteq> []"
  proof
    fix host assume "host \<in> set (scoped_hosts scope hosts)"
    then have "reported uni parse_ip reports \<lparr>Agent_ID = Host_AgentID host,
        Agent_OrganizationID = Scope_OrganizationID scope, Agent_SiteID = Scope_SiteID scope\<rparr>" using ids by blast
    from valid_agent_nonempty [OF reported_valid [OF this]] show "Host_AgentID host \<noteq> []" by simp
  qed
qed

text \<open>
  C39. Reconciling a cloud account with the hosts of the inventory. A reconciliation either
  fails and stores nothing, or replaces the instances of exactly that account with one row
  for every discovered instance, in order and without a repeated provider identifier. A row
  is verified exactly when the provider names an agent that reported in this scope, and only
  then it carries that agent; it is a candidate exactly when the provider names no agent and
  the name or a private address fits the hosts of exactly one agent, which it then names. A
  match by name or address is never taken for a verified one.
\<close>

theorem cloud_reconcile:
  assumes "ranges it (run_reports uni parse_ip reports)" and "slice_sort srt"
    and "Cloud_Reconcile uni parse_ip now (Inventory_List srt it now') scope accountID discovered st = (res, st')"
  shows "case res of
      Inl e \<Rightarrow> st' = st
    | Inr instances \<Rightarrow> (\<exists>account hosts. GetCloudAccount scope (trim_space accountID) st = Inr account
        \<and> Inventory_List srt it now' scope = Inr hosts
        \<and> CloudStore_instances st' = (CloudStore_instances st)(Account_ID account \<mapsto> instances)
        \<and> map Instance_Discovered instances = map (trim_discovery uni parse_ip) discovered
        \<and> distinct (map (Discovered_ProviderInstanceID \<circ> Instance_Discovered) instances)
        \<and> (\<forall>i \<in> set instances. instance_in scope i \<and> Instance_AccountID i = Account_ID account
            \<and> (let hint = Discovered_AgentIDHint (Instance_Discovered i);
                   fitting = Host_AgentID ` {host \<in> set hosts. host_matches uni (Instance_Discovered i) host} in
               (Instance_MatchStatus i = ''verified'' \<longleftrightarrow> hint \<noteq> [] \<and> reported uni parse_ip reports
                  \<lparr>Agent_ID = hint, Agent_OrganizationID = Scope_OrganizationID scope, Agent_SiteID = Scope_SiteID scope\<rparr>)
               \<and> (Instance_MatchStatus i = ''candidate'' \<longleftrightarrow> hint = [] \<and> card fitting = 1)
               \<and> Instance_MatchStatus i \<in> {''verified'', ''candidate'', ''unmatched''}
               \<and> Instance_AgentID i = (if Instance_MatchStatus i = ''verified'' then hint else [])
               \<and> (if Instance_MatchStatus i = ''candidate'' then fitting = {Instance_CandidateAgentID i}
                  else Instance_CandidateAgentID i = []))))"
  using assms(3)
proof (cases rule: Cloud_Reconcile_cases)
  case (stored account hosts instances)
  note hosts = listed_agents [OF assms(1,2) stored(4)]
  have same: "set (scoped_hosts scope hosts) = set hosts" by (rule scoped_hosts_listed [OF assms(2) stored(4)])
  have ids: "Host_AgentID ` set hosts = {i. reported uni parse_ip reports
            \<lparr>Agent_ID = i, Agent_OrganizationID = Scope_OrganizationID scope, Agent_SiteID = Scope_SiteID scope\<rparr>}"
    using hosts(1) unfolding same .
  have loop: "map Instance_Discovered instances = map (trim_discovery uni parse_ip) discovered
    \<and> distinct (map (Discovered_ProviderInstanceID \<circ> Instance_Discovered) instances)
    \<and> (\<forall>i \<in> set instances. matched_to uni (scoped_hosts scope hosts) i \<and> instance_in scope i
        \<and> Instance_AccountID i = Account_ID account)"
    using reconcile_loop_Inr [OF hosts(2) stored(5)] by blast
  have match: "matched_to uni (scoped_hosts scope hosts) i" if "i \<in> set instances" for i using loop that by blast
  show ?thesis
    unfolding stored(1) sum.case
  proof (intro exI [of _ account] exI [of _ hosts] conjI ballI)
    show "CloudStore_instances st' = (CloudStore_instances st)(Account_ID account \<mapsto> instances)" by (simp add: stored(6))
    fix i assume i: "i \<in> set instances"
    show "let hint = Discovered_AgentIDHint (Instance_Discovered i);
              fitting = Host_AgentID ` {host \<in> set hosts. host_matches uni (Instance_Discovered i) host} in
               (Instance_MatchStatus i = ''verified'' \<longleftrightarrow> hint \<noteq> [] \<and> reported uni parse_ip reports
                  \<lparr>Agent_ID = hint, Agent_OrganizationID = Scope_OrganizationID scope, Agent_SiteID = Scope_SiteID scope\<rparr>)
               \<and> (Instance_MatchStatus i = ''candidate'' \<longleftrightarrow> hint = [] \<and> card fitting = 1)
               \<and> Instance_MatchStatus i \<in> {''verified'', ''candidate'', ''unmatched''}
               \<and> Instance_AgentID i = (if Instance_MatchStatus i = ''verified'' then hint else [])
               \<and> (if Instance_MatchStatus i = ''candidate'' then fitting = {Instance_CandidateAgentID i}
                  else Instance_CandidateAgentID i = [])"
      using match [OF i] unfolding matched_to_def Let_def same ids mem_Collect_eq
        MatchVerified_def MatchCandidate_def MatchUnmatched_def .
  qed (use loop stored(3,4) in blast)+
qed simp

definition web_instance :: DiscoveredInstance where
  "web_instance = \<lparr>Discovered_ProviderInstanceID = ''d'', Discovered_Name = ''d'', Discovered_Region = ''d'',
     Discovered_Zone = ''d'', Discovered_State = ''linux'', Discovered_OSFamily = ''linux'', Discovered_PrivateIPs = [],
     Discovered_PublicIPs = [], Discovered_AgentIDHint = ''a1'', Discovered_Metadata = Map.empty\<rparr>"

definition web_account :: Account where
  "web_account = \<lparr>Account_OrganizationID = ''org_default'', Account_SiteID = ''site_default'', Account_ID = ''d'',
     Account_Request = \<lparr>AccountRequest_Name = ''d'', AccountRequest_Provider = ''aws'', AccountRequest_ExternalID = ''d''\<rparr>,
     Account_Status = AccountPending, Account_LastSyncAt = None, Account_CreatedAt = 1\<rparr>"

definition web_cloud :: CloudStore where
  "web_cloud = NewCloudStore\<lparr>CloudStore_accounts := [''d'' \<mapsto> web_account]\<rparr>"

lemma web_normalized: "normalizeDiscovery (\<lambda>s. s) (\<lambda>_. None) web_instance = Inr web_instance"
  by (simp add: normalizeDiscovery_def Let_def trim_discovery_def web_instance_def web_lowered normalizeIPs_def)

lemma web_account_in: "account_in DefaultScope web_account"
  by (simp add: account_in_def DefaultScope_def DefaultOrganizationID_def DefaultSiteID_def web_account_def)

lemma web_reconciled:
  assumes "list_hosts DefaultScope = Inr hosts"
  shows "\<exists>instances st'. Cloud_Reconcile (\<lambda>s. s) (\<lambda>_. None) 7000 list_hosts DefaultScope ''d'' [web_instance] web_cloud
    = (Inr instances, st')"
proof -
  have get: "GetCloudAccount DefaultScope ''d'' web_cloud = Inr web_account"
    by (simp add: GetCloudAccount_def web_cloud_def web_account_in)
  have store: "CloudStore_accounts web_cloud (Account_ID web_account) = Some web_account"
    by (simp add: web_cloud_def web_account_def)
  have account: "account_in DefaultScope (web_account\<lparr>Account_Status := s, Account_LastSyncAt := t\<rparr>)" for s t
    using web_account_in by (simp add: account_in_def)
  show ?thesis
    by (simp add: Cloud_Reconcile_def Let_def get assms web_normalized ReplaceCloudInstances_def account store
        web_account_in new_instance_def instance_in_def)
qed

theorem cloud_reconcile_witness:
  "\<exists>instances st' i. Cloud_Reconcile (\<lambda>s. s) (\<lambda>_. None) 7000
      (Inventory_List insertion_sort [(agent_key web_agent, web_host)] 6000) DefaultScope ''d'' [web_instance] web_cloud
      = (Inr instances, st') \<and> i \<in> set instances \<and> Instance_MatchStatus i = ''verified'' \<and> Instance_AgentID i = ''a1''"
proof -
  obtain hosts where hosts: "Inventory_List insertion_sort [(agent_key web_agent, web_host)] 6000 DefaultScope = Inr hosts"
    by (simp add: Inventory_List_def ListHosts_def)
  obtain instances st' where run: "Cloud_Reconcile (\<lambda>s. s) (\<lambda>_. None) 7000
      (Inventory_List insertion_sort [(agent_key web_agent, web_host)] 6000) DefaultScope ''d'' [web_instance] web_cloud
      = (Inr instances, st')" using web_reconciled [of "Inventory_List insertion_sort [(agent_key web_agent, web_host)] 6000", OF hosts] by blast
  have agent: "\<lparr>Agent_ID = ''a1'', Agent_OrganizationID = Scope_OrganizationID DefaultScope,
      Agent_SiteID = Scope_SiteID DefaultScope\<rparr> = web_agent"
    by (simp add: web_agent_def DefaultScope_def DefaultOrganizationID_def DefaultSiteID_def)
  have reported: "reported (\<lambda>s. s) (\<lambda>_. None) [(5000, web_agent, web_facts)] web_agent"
    by (simp add: reported_def web_accepted)
  have trimmed: "trim_discovery (\<lambda>s. s) (\<lambda>_. None) web_instance = web_instance"
    using normalizeDiscovery_Inr [OF web_normalized] by simp
  note spec = cloud_reconcile [OF web_run insertion.slice_sort_axioms run, unfolded sum.case]
  from spec have "map Instance_Discovered instances = [web_instance]" by (auto simp: trimmed)
  then obtain i where i: "instances = [i]" "Instance_Discovered i = web_instance" by (cases instances) auto
  have hint: "Discovered_AgentIDHint web_instance = ''a1''" by (simp add: web_instance_def)
  from spec have "Instance_MatchStatus i = ''verified'' \<and> Instance_AgentID i = ''a1''"
    unfolding i Let_def by (auto simp: i hint agent reported)
  with run i show ?thesis by auto
qed

end
