(* ===== verification/Audittrail.thy ===== *)
theory Audittrail
  imports Tenancy
begin

text \<open>
  \<open>internal/audittrail\<close>: the append-only trail of requests and its filtered listing, newest
  first. \<open>srt\<close> is \<open>sort.Slice\<close>; an empty filter field filters nothing.
\<close>

section \<open>Data\<close>

type_synonym ActorType = string
type_synonym Outcome = string

definition ActorAgent :: ActorType where "ActorAgent = ''agent''"
definition ActorHuman :: ActorType where "ActorHuman = ''human''"
definition ActorServiceAccount :: ActorType where "ActorServiceAccount = ''service_account''"
definition ActorLegacyToken :: ActorType where "ActorLegacyToken = ''legacy_token''"
definition ActorAnonymous :: ActorType where "ActorAnonymous = ''anonymous''"
definition OutcomeSuccess :: Outcome where "OutcomeSuccess = ''success''"
definition OutcomeFailure :: Outcome where "OutcomeFailure = ''failure''"

record AuditEvent =
  Audit_EventID :: string
  Audit_OccurredAt :: time
  Audit_CorrelationID :: string
  Audit_ActorType :: ActorType
  Audit_ActorID :: string
  Audit_SessionOrTokenID :: string
  Audit_OrganizationID :: string
  Audit_SiteID :: string
  Audit_Action :: string
  Audit_Permission :: string
  Audit_ResourceType :: string
  Audit_ResourceID :: string
  Audit_Outcome :: Outcome
  Audit_ErrorCode :: string
  Audit_SourceIP :: string
  Audit_UserAgent :: string
  Audit_ChangeSummary :: string

record AuditFilter =
  AuditFilter_ActorType :: ActorType
  AuditFilter_ResourceType :: string
  AuditFilter_Outcome :: Outcome
  AuditFilter_Since :: time
  AuditFilter_Until :: time

section \<open>The in-memory store\<close>

type_synonym AuditStore = "AuditEvent list"

definition NewAuditStore :: AuditStore where "NewAuditStore = []"

definition RecordAudit :: "AuditEvent \<Rightarrow> AuditStore \<Rightarrow> (unit, AuditStore) op" where
  "RecordAudit event st = (Inr (), st @ [event])"

definition audit_matches :: "Scope \<Rightarrow> AuditFilter \<Rightarrow> AuditEvent \<Rightarrow> bool" where
  "audit_matches scope flt event \<longleftrightarrow>
     \<not> (Audit_OrganizationID event \<noteq> Scope_OrganizationID scope \<or> Audit_SiteID event \<noteq> Scope_SiteID scope)
     \<and> \<not> (AuditFilter_ActorType flt \<noteq> [] \<and> Audit_ActorType event \<noteq> AuditFilter_ActorType flt)
     \<and> \<not> (AuditFilter_ResourceType flt \<noteq> [] \<and> Audit_ResourceType event \<noteq> AuditFilter_ResourceType flt)
     \<and> \<not> (AuditFilter_Outcome flt \<noteq> [] \<and> Audit_Outcome event \<noteq> AuditFilter_Outcome flt)
     \<and> \<not> (AuditFilter_Since flt \<noteq> 0 \<and> Audit_OccurredAt event < AuditFilter_Since flt)
     \<and> \<not> (AuditFilter_Until flt \<noteq> 0 \<and> AuditFilter_Until flt < Audit_OccurredAt event)"

definition audit_after :: "AuditEvent \<Rightarrow> AuditEvent \<Rightarrow> bool" where
  "audit_after a b \<longleftrightarrow> Audit_OccurredAt b < Audit_OccurredAt a"

definition ListAuditTrail ::
  "AuditEvent sorter \<Rightarrow> Scope \<Rightarrow> AuditFilter \<Rightarrow> int \<Rightarrow> AuditStore \<Rightarrow> AuditEvent list res" where
  "ListAuditTrail srt scope flt limit st =
     (case Scope_Validate scope of
        Some e \<Rightarrow> Inl e
      | None \<Rightarrow>
          let matched = srt audit_after (filter (audit_matches scope flt) st) in
          Inr (if int (length matched) > limit then take (nat limit) matched else matched))"

section \<open>The service\<close>

definition Audit_Record :: "entropy \<Rightarrow> time \<Rightarrow> AuditEvent \<Rightarrow> AuditStore \<Rightarrow> (unit, AuditStore) op" where
  "Audit_Record r now event0 st =
     (case (if Audit_EventID event0 = [] then rand_hex 16 r else Inr (Audit_EventID event0)) of
        Inl e \<Rightarrow> (Inl e, st)
      | Inr i \<Rightarrow>
          let event = event0\<lparr>Audit_EventID := i\<rparr>;
              event' = (if Audit_OccurredAt event = 0 then event\<lparr>Audit_OccurredAt := now\<rparr> else event)
          in RecordAudit event' st)"

definition Audit_List ::
  "AuditEvent sorter \<Rightarrow> Scope \<Rightarrow> AuditFilter \<Rightarrow> int \<Rightarrow> AuditStore \<Rightarrow> AuditEvent list res" where
  "Audit_List srt scope flt limit st =
     (case Scope_Validate scope of
        Some e \<Rightarrow> Inl e
      | None \<Rightarrow>
          if limit < 1 \<or> 500 < limit then Inl ErrInvalidQuery else ListAuditTrail srt scope flt limit st)"

section \<open>The trail grows, and a listing shows the newest matching part of it\<close>

lemma Audit_Record_appends:
  "\<exists>rest. snd (Audit_Record r now event st) = st @ rest \<and> length rest \<le> 1"
  by (auto simp: Audit_Record_def RecordAudit_def Let_def split: sum.splits)

lemma weak_order_audit: "weak_order audit_after"
  unfolding audit_after_def [abs_def] by (rule weak_order_key_desc)

lemma Audit_List_newest:
  assumes "slice_sort srt" and "Audit_List srt scope flt limit st = Inr rows"
  shows "valid_scope scope \<and> 1 \<le> limit \<and> limit \<le> 500
    \<and> top_of audit_after (nat limit) (filter (audit_matches scope flt) st) rows"
proof -
  let ?xs = "filter (audit_matches scope flt) st"
  have "valid_scope scope" "1 \<le> limit" "limit \<le> 500"
    and rows: "rows = (if int (length (srt audit_after ?xs)) > limit then take (nat limit) (srt audit_after ?xs) else srt audit_after ?xs)"
    using assms(2) by (auto simp: Audit_List_def ListAuditTrail_def Let_def split: option.splits if_splits)
  moreover have "rows = take (nat limit) (srt audit_after ?xs)"
    using rows by (auto simp: not_less nat_le_iff)
  ultimately show ?thesis
    using slice_sort.take_srt [OF assms(1) weak_order_audit] by simp
qed

interpretation audit_listing: scoped_listing
  "\<lambda>(srt, flt, limit) scope st. Audit_List srt scope flt limit st"
  "\<lambda>(srt, flt, limit) st. slice_sort srt" "\<lambda>st event. event \<in> set st"
  "\<lambda>event. \<lparr>Scope_OrganizationID = Audit_OrganizationID event, Scope_SiteID = Audit_SiteID event\<rparr>"
proof
  show "(case q of (srt, flt, limit) \<Rightarrow> \<lambda>scope st. Audit_List srt scope flt limit st) scope st = Inl e"
    if "Scope_Validate scope = Some e" for scope e q and st :: AuditStore
    using that by (cases q) (simp add: Audit_List_def)
  show "row \<in> set st \<and> \<lparr>Scope_OrganizationID = Audit_OrganizationID row, Scope_SiteID = Audit_SiteID row\<rparr> = scope"
    if "(case q of (srt, flt, limit) \<Rightarrow> \<lambda>st. slice_sort srt) st" "row \<in> set rows"
      "(case q of (srt, flt, limit) \<Rightarrow> \<lambda>scope st. Audit_List srt scope flt limit st) scope st = Inr rows"
    for q scope rows row and st :: AuditStore
  proof -
    obtain srt flt limit where q: "q = (srt, flt, limit)" by (cases q)
    have "top_of audit_after (nat limit) (filter (audit_matches scope flt) st) rows"
      using Audit_List_newest [of srt scope flt limit st rows] that(1,3) by (simp add: q)
    then have "mset rows \<subseteq># mset (filter (audit_matches scope flt) st)" unfolding top_of_def by blast
    then have "row \<in> set (filter (audit_matches scope flt) st)"
      using that(2) by (metis mset_subset_eqD set_mset_mset)
    then show ?thesis by (auto simp: audit_matches_def scope_eq_iff)
  qed
qed

end
