(* ===== verification/Activity.thy ===== *)
theory Activity
  imports Jobs Alerting
begin

text \<open>
  \<open>internal/activity\<close>: the feed that merges the events of jobs and alerts with the events
  the server records. The sources are visited as \<open>jobs.AllEvents\<close> and \<open>alerting.AllEvents\<close>
  do (\<open>itj\<close>, \<open>vis\<close>).
\<close>

section \<open>Data\<close>

type_synonym ActivitySource = string

definition SourceJob :: ActivitySource where "SourceJob = ''job''"
definition SourceAlert :: ActivitySource where "SourceAlert = ''alert''"
definition SourceIdentity :: ActivitySource where "SourceIdentity = ''identity''"
definition SourceSiteRole :: ActivitySource where "SourceSiteRole = ''site_role''"
definition SourceServiceAccount :: ActivitySource where "SourceServiceAccount = ''service_account''"

record ActivityEvent =
  Activity_OrganizationID :: string
  Activity_SiteID :: string
  Activity_Source :: ActivitySource
  Activity_ReferenceID :: string
  Activity_AgentID :: string
  Activity_Type :: string
  Activity_Actor :: string
  Activity_Message :: string
  Activity_OccurredAt :: time

definition job_event_text :: "JobEventType \<Rightarrow> string" where
  "job_event_text ty = (case ty of EventApproved \<Rightarrow> ''approved'' | EventClaimed \<Rightarrow> ''claimed'' | EventOutput \<Rightarrow> ''output''
     | EventSucceeded \<Rightarrow> ''succeeded'' | EventFailed \<Rightarrow> ''failed'' | EventUnknown s \<Rightarrow> s)"

definition alert_event_text :: "AlertEventType \<Rightarrow> string" where
  "alert_event_text ty = (case ty of EventOpened \<Rightarrow> ''opened'' | EventAcknowledged \<Rightarrow> ''acknowledged'' | EventResolved \<Rightarrow> ''resolved'')"

section \<open>The in-memory store\<close>

text \<open>The job and alert stores are shared with their services; only \<open>recorded\<close> is the feed's own.\<close>

type_synonym ActivityStore = "ActivityEvent list"

definition NewActivityStore :: ActivityStore where "NewActivityStore = []"

definition RecordActivityEvent :: "ActivityEvent \<Rightarrow> ActivityStore \<Rightarrow> (unit, ActivityStore) op" where
  "RecordActivityEvent event st = (Inr (), st @ [event])"

definition job_activity :: "JobEventRecord \<Rightarrow> ActivityEvent" where
  "job_activity rec =
     (let event = JobEventRecord_Event rec in
      \<lparr>Activity_OrganizationID = JobEvent_OrganizationID event, Activity_SiteID = JobEvent_SiteID event,
       Activity_Source = SourceJob, Activity_ReferenceID = JobEvent_JobID event,
       Activity_AgentID = JobEventRecord_AgentID rec, Activity_Type = job_event_text (JobEvent_Type event),
       Activity_Actor = JobEvent_Actor event, Activity_Message = JobEvent_Message event,
       Activity_OccurredAt = JobEvent_OccurredAt event\<rparr>)"

definition alert_activity :: "AlertEventRecord \<Rightarrow> ActivityEvent" where
  "alert_activity rec =
     (let event = AlertEventRecord_Event rec in
      \<lparr>Activity_OrganizationID = AlertEvent_OrganizationID event, Activity_SiteID = AlertEvent_SiteID event,
       Activity_Source = SourceAlert, Activity_ReferenceID = AlertEvent_IncidentID event,
       Activity_AgentID = AlertEventRecord_AgentID rec, Activity_Type = alert_event_text (AlertEvent_Type event),
       Activity_Actor = AlertEvent_Actor event, Activity_Message = AlertEvent_Message event,
       Activity_OccurredAt = AlertEvent_OccurredAt event\<rparr>)"

definition activity_in :: "Scope \<Rightarrow> ActivityEvent \<Rightarrow> bool" where
  "activity_in scope event \<longleftrightarrow>
     Activity_OrganizationID event = Scope_OrganizationID scope \<and> Activity_SiteID event = Scope_SiteID scope"

definition activity_before :: "ActivityEvent \<Rightarrow> ActivityEvent \<Rightarrow> bool" where
  "activity_before a b \<longleftrightarrow>
     (if Activity_OccurredAt a = Activity_OccurredAt b then
        (if Activity_Source a \<noteq> Activity_Source b then Activity_Source a < Activity_Source b
         else Activity_ReferenceID a < Activity_ReferenceID b)
      else Activity_OccurredAt b < Activity_OccurredAt a)"

definition ListActivityEvents ::
  "ActivityEvent sorter \<Rightarrow> (jobKey \<times> JobEvent list) list \<Rightarrow> (string, AlertEvent list) visit \<Rightarrow> JobStore \<Rightarrow> AlertStore
   \<Rightarrow> Scope \<Rightarrow> int \<Rightarrow> ActivityStore \<Rightarrow> ActivityEvent list res" where
  "ListActivityEvents srt itj vis jobs alerts scope limit st =
     (case Scope_Validate scope of
        Some e \<Rightarrow> Inl e
      | None \<Rightarrow>
          (case AllJobEvents itj scope jobs of
             Inl e \<Rightarrow> Inl e
           | Inr jobRecords \<Rightarrow>
               (case AllAlertEvents vis scope alerts of
                  Inl e \<Rightarrow> Inl e
                | Inr alertRecords \<Rightarrow>
                    let events = srt activity_before
                          (map job_activity jobRecords @ map alert_activity alertRecords @ filter (activity_in scope) st) in
                    Inr (if int (length events) > limit then take (nat limit) events else events))))"

section \<open>The service\<close>

definition Activity_Record :: "time \<Rightarrow> ActivityEvent \<Rightarrow> ActivityStore \<Rightarrow> (unit, ActivityStore) op" where
  "Activity_Record now event st =
     RecordActivityEvent (if Activity_OccurredAt event = 0 then event\<lparr>Activity_OccurredAt := now\<rparr> else event) st"

definition Activity_List ::
  "ActivityEvent sorter \<Rightarrow> (jobKey \<times> JobEvent list) list \<Rightarrow> (string, AlertEvent list) visit \<Rightarrow> JobStore \<Rightarrow> AlertStore
   \<Rightarrow> Scope \<Rightarrow> int \<Rightarrow> ActivityStore \<Rightarrow> ActivityEvent list res" where
  "Activity_List srt itj vis jobs alerts scope limit st =
     (case Scope_Validate scope of
        Some e \<Rightarrow> Inl e
      | None \<Rightarrow>
          if limit < 1 \<or> 500 < limit then Inl ErrInvalidActivity
          else ListActivityEvents srt itj vis jobs alerts scope limit st)"

section \<open>The feed is the newest part of the three sources\<close>

lemma weak_order_activity: "weak_order activity_before"
  unfolding weak_order_def activity_before_def by (auto split: if_splits)

definition activity_sources ::
  "(jobKey \<times> JobEvent list) list \<Rightarrow> (string, AlertEvent list) visit \<Rightarrow> JobStore \<Rightarrow> AlertStore \<Rightarrow> Scope
   \<Rightarrow> ActivityStore \<Rightarrow> ActivityEvent list" where
  "activity_sources itj vis jobs alerts scope st =
     map job_activity (case AllJobEvents itj scope jobs of Inl _ \<Rightarrow> [] | Inr rows \<Rightarrow> rows)
     @ map alert_activity (case AllAlertEvents vis scope alerts of Inl _ \<Rightarrow> [] | Inr rows \<Rightarrow> rows)
     @ filter (activity_in scope) st"

lemma Activity_List_newest:
  assumes "slice_sort srt" and "Activity_List srt itj vis jobs alerts scope limit st = Inr rows"
  shows "valid_scope scope \<and> 1 \<le> limit \<and> limit \<le> 500
    \<and> top_of activity_before (nat limit) (activity_sources itj vis jobs alerts scope st) rows"
proof -
  let ?xs = "activity_sources itj vis jobs alerts scope st"
  have "valid_scope scope" "1 \<le> limit" "limit \<le> 500"
    and rows: "rows = (if int (length (srt activity_before ?xs)) > limit then take (nat limit) (srt activity_before ?xs)
        else srt activity_before ?xs)"
    using assms(2)
    by (auto simp: Activity_List_def ListActivityEvents_def activity_sources_def Let_def split: option.splits sum.splits if_splits)
  moreover have "rows = take (nat limit) (srt activity_before ?xs)"
    using rows by (auto simp: not_less nat_le_iff)
  ultimately show ?thesis
    using slice_sort.take_srt [OF assms(1) weak_order_activity] by simp
qed

end
