(* ===== verification/Oidc.thy ===== *)
theory Oidc
  imports Encoding
begin

text \<open>
  \<open>internal/oidc\<close>: the authorization code flow with PKCE. The identity provider and the
  libraries that talk to it (\<open>golang.org/x/oauth2\<close>, \<open>go-oidc\<close>, \<open>net/http\<close>) are the
  parameter \<open>OIDCLib\<close>: what the discovery document names as issuer, whether the provider of
  an issuer can be set up, the token endpoint's answer to a code, and the verification of an
  ID token against issuer, client and expiry.
\<close>

record OIDCSettings =
  OIDC_DiscoveryURL :: string
  OIDC_Issuer :: string
  OIDC_ClientID :: string
  OIDC_ClientSecret :: string
  OIDC_RedirectURL :: string

record OIDCFlow =
  Flow_State :: string
  Flow_Nonce :: string
  Flow_CodeVerifier :: string

record OIDCClaims =
  Claims_Subject :: string
  Claims_Email :: string
  Claims_EmailVerified :: bool
  Claims_ACR :: string
  Claims_AMR :: "string list"

text \<open>A verified ID token: its subject and nonce, and the decoding of its other claims.\<close>

record IDToken =
  IDToken_Subject :: string
  IDToken_Nonce :: string
  IDToken_Claims :: "(string \<times> bool \<times> string \<times> string list) option"

record OIDCLib =
  OIDCLib_discover :: "string \<Rightarrow> string option"
  OIDCLib_provider :: "string \<Rightarrow> bool"
  OIDCLib_verifier :: "entropy \<Rightarrow> string"
  OIDCLib_auth_url :: "OIDCSettings \<Rightarrow> OIDCFlow \<Rightarrow> string"
  OIDCLib_token :: "OIDCSettings \<Rightarrow> string \<Rightarrow> string \<Rightarrow> string option option"
  OIDCLib_verify :: "string \<Rightarrow> string \<Rightarrow> string \<Rightarrow> IDToken option"

definition randomString :: "entropy \<Rightarrow> string res" where
  "randomString r = rand_hex 16 r"

definition NewFlow :: "OIDCLib \<Rightarrow> entropy \<Rightarrow> entropy \<Rightarrow> entropy \<Rightarrow> OIDCFlow res" where
  "NewFlow lib r1 r2 r3 =
     (case randomString r1 of
        Inl e \<Rightarrow> Inl e
      | Inr state \<Rightarrow>
          (case randomString r2 of
             Inl e \<Rightarrow> Inl e
           | Inr nonce \<Rightarrow>
               Inr \<lparr>Flow_State = state, Flow_Nonce = nonce, Flow_CodeVerifier = OIDCLib_verifier lib r3\<rparr>))"

definition verifyDiscoveredIssuer :: "OIDCLib \<Rightarrow> string \<Rightarrow> string \<Rightarrow> err option" where
  "verifyDiscoveredIssuer lib discoveryURL expectedIssuer =
     (case OIDCLib_discover lib discoveryURL of
        None \<Rightarrow> Some (ErrOther ''fetch discovery document'')
      | Some issuer \<Rightarrow> if issuer \<noteq> expectedIssuer then Some (ErrOther ''issuer mismatch'') else None)"

text \<open>The provider keeps the settings its OAuth2 configuration and verifier are built from.\<close>

definition NewProvider :: "OIDCLib \<Rightarrow> OIDCSettings \<Rightarrow> OIDCSettings res" where
  "NewProvider lib configuration =
     (case verifyDiscoveredIssuer lib (OIDC_DiscoveryURL configuration) (OIDC_Issuer configuration) of
        Some e \<Rightarrow> Inl e
      | None \<Rightarrow>
          if \<not> OIDCLib_provider lib (OIDC_Issuer configuration) then Inl (ErrOther ''discover oidc provider'')
          else Inr configuration)"

definition AuthCodeURL :: "OIDCLib \<Rightarrow> OIDCSettings \<Rightarrow> OIDCFlow \<Rightarrow> string" where
  "AuthCodeURL lib provider flow = OIDCLib_auth_url lib provider flow"

definition Exchange :: "OIDCLib \<Rightarrow> OIDCSettings \<Rightarrow> string \<Rightarrow> OIDCFlow \<Rightarrow> OIDCClaims res" where
  "Exchange lib provider code flow =
     (case OIDCLib_token lib provider code (Flow_CodeVerifier flow) of
        None \<Rightarrow> Inl (ErrOther ''exchange authorization code'')
      | Some extra \<Rightarrow>
          (case extra of
             None \<Rightarrow> Inl (ErrOther ''token response did not include an id_token'')
           | Some rawIDToken \<Rightarrow>
               if rawIDToken = [] then Inl (ErrOther ''token response did not include an id_token'')
               else (case OIDCLib_verify lib (OIDC_Issuer provider) (OIDC_ClientID provider) rawIDToken of
                   None \<Rightarrow> Inl (ErrOther ''verify id token'')
                 | Some idToken \<Rightarrow>
                     if IDToken_Nonce idToken \<noteq> Flow_Nonce flow then Inl (ErrOther ''nonce mismatch'')
                     else (case IDToken_Claims idToken of
                         None \<Rightarrow> Inl (ErrOther ''decode id token claims'')
                       | Some (email, verified, acr, amr) \<Rightarrow>
                           Inr \<lparr>Claims_Subject = IDToken_Subject idToken, Claims_Email = email,
                                Claims_EmailVerified = verified, Claims_ACR = acr, Claims_AMR = amr\<rparr>))))"

text \<open>Claims come from a verified token of this provider and client that carries the flow's nonce.\<close>

lemma Exchange_Inr:
  "Exchange lib provider code flow = Inr claims \<longleftrightarrow>
     (\<exists>raw idToken. OIDCLib_token lib provider code (Flow_CodeVerifier flow) = Some (Some raw) \<and> raw \<noteq> []
        \<and> OIDCLib_verify lib (OIDC_Issuer provider) (OIDC_ClientID provider) raw = Some idToken
        \<and> IDToken_Nonce idToken = Flow_Nonce flow
        \<and> IDToken_Claims idToken = Some (Claims_Email claims, Claims_EmailVerified claims, Claims_ACR claims, Claims_AMR claims)
        \<and> IDToken_Subject idToken = Claims_Subject claims)"
  by (cases claims) (auto simp: Exchange_def split: option.splits prod.splits)

lemma NewProvider_Inr:
  "NewProvider lib configuration = Inr provider \<longleftrightarrow>
     provider = configuration \<and> OIDCLib_discover lib (OIDC_DiscoveryURL configuration) = Some (OIDC_Issuer configuration)
     \<and> OIDCLib_provider lib (OIDC_Issuer configuration)"
  by (auto simp: NewProvider_def verifyDiscoveredIssuer_def split: option.splits)

end
