(* ===== verification/Server.thy ===== *)
theory Server
  imports Jobs Alerting Sessions Authorization Ratelimit Identity Serviceaccounts Enrollment Logstream
    Telemetry Inventory Serviceinventory Cloudinventory Audittrail Activity Oidc
begin

text \<open>
  \<open>internal/server\<close>, the part all routes share: requests and replies, the state of the hub,
  the services as \<open>cmd/bazusop-hub\<close> wires them, the authentication of agents, sessions and
  service accounts, and \<open>requirePermission\<close>. \<open>Server_Handlers\<close> has the handlers,
  \<open>Server_Routes\<close> the dispatch, the audit record of every request and CORS.

  A handler that writes a reply and returns is a function to the reply and the hub
  afterwards. A request is what \<open>net/http\<close> hands to the handler: its headers, cookies, path
  and query values, the TLS peer certificates and the body. \<open>Lib\<close> holds the libraries that
  are not under \<open>src/\<close> (cryptography, X.509) and the parts of the standard library that are
  left abstract (JSON decoding of a body into a type, formatting); \<open>Env\<close> is what one request
  reads from outside: clock readings, random bytes and the orders in which maps are visited.
\<close>

section \<open>Requests and replies\<close>

record Request =
  Request_Method :: string
  Request_Path :: string
  Request_PathValue :: "string \<Rightarrow> string"
  Request_Query :: "string \<Rightarrow> string"
  Request_Cookie :: "string \<Rightarrow> string option"
  Request_Header :: "string \<Rightarrow> string"
  Request_RemoteAddr :: string
  Request_PeerCertificates :: "Certificate list option"
  Request_Body :: string

record Cookie =
  Cookie_Name :: string
  Cookie_Value :: string
  Cookie_Path :: string
  Cookie_HttpOnly :: bool
  Cookie_Secure :: bool
  Cookie_MaxAge :: int

record RuntimeConfiguration =
  Runtime_Storage :: string
  Runtime_TimescaleEnabled :: bool
  Runtime_TelemetryRetentionDays :: int
  Runtime_LogRetentionDays :: int
  Runtime_Version :: string
  Runtime_Commit :: string
  Runtime_BuildDate :: string

text \<open>
  The bodies of users, sessions, identity provider settings and service accounts are the fields
  the handlers copy, not the stored records: no hash and no encrypted secret is among them.
\<close>

record SessionPayload =
  SessionPayload_UserID :: string
  SessionPayload_Email :: string
  SessionPayload_Role :: Role
  SessionPayload_CSRFToken :: string
  SessionPayload_ExpiresAt :: time

record UserPayload =
  UserPayload_ID :: string
  UserPayload_Email :: string
  UserPayload_Role :: Role
  UserPayload_DisabledAt :: "time option"
  UserPayload_TOTPConfirmedAt :: "time option"
  UserPayload_SiteRoles :: "(string \<times> SiteRole) list"

record ProviderPayload =
  ProviderPayload_DiscoveryURL :: string
  ProviderPayload_Issuer :: string
  ProviderPayload_ClientID :: string
  ProviderPayload_RedirectURL :: string
  ProviderPayload_UpdatedAt :: time
  ProviderPayload_UpdatedBy :: string

record AccountPayload =
  AccountPayload_ID :: string
  AccountPayload_Name :: string
  AccountPayload_Role :: SiteRole
  AccountPayload_CreatedAt :: time
  AccountPayload_DisabledAt :: "time option"
  AccountPayload_ActiveToken :: "(string \<times> time \<times> time option) option"

text \<open>The values handlers encode into a body; \<open>StatusText\<close> is the text of \<open>http.Error\<close>.\<close>

datatype Payload =
    NoBody | StatusText nat | HealthBody | RuntimeBody RuntimeConfiguration
  | AgentIdentityBody AgentIdentity | HostsBody "Host list"
  | SamplesBody "Sample option" "Sample list" | FleetBody FleetAverage
  | ServicesBody "HostService list" | LogsBody "LogEntry list" | StreamBody nat
  | JobBody Job | JobsBody "Job list" | JobEventsBody "JobEvent list"
  | RuleBody Rule | RulesBody "Rule list" | WindowBody MaintenanceWindow | WindowsBody "MaintenanceWindow list"
  | IncidentBody Incident | IncidentsBody "Incident list" | AlertEventsBody "AlertEvent list"
  | CloudAccountBody Account | CloudAccountsBody "Account list" | CloudInstancesBody "Instance list"
  | ActivityBody "ActivityEvent list" | AuditBody "AuditEvent list"
  | EnrolledBody string "string list" | ConsumedBody string string
  | InviteBody string string | UsersBody "UserPayload list"
  | ProviderBody ProviderPayload | RedirectBody string
  | SessionBody SessionPayload
  | AccountBody string string SiteRole string | SummariesBody "AccountPayload list" | TokenBody string
  | WebPage string

record Reply =
  Reply_Status :: nat
  Reply_Cookies :: "Cookie list"
  Reply_Headers :: "(string \<times> string) list"
  Reply_Payload :: Payload

definition writeJSON :: "nat \<Rightarrow> Payload \<Rightarrow> Reply" where
  "writeJSON status payload =
     \<lparr>Reply_Status = status, Reply_Cookies = [],
      Reply_Headers = [(''Content-Type'', ''application/json''), (''Cache-Control'', ''no-store'')],
      Reply_Payload = payload\<rparr>"

definition http_error :: "nat \<Rightarrow> Reply" where
  "http_error status =
     \<lparr>Reply_Status = status, Reply_Cookies = [], Reply_Headers = [], Reply_Payload = StatusText status\<rparr>"

definition no_content :: Reply where
  "no_content = \<lparr>Reply_Status = 204, Reply_Cookies = [], Reply_Headers = [], Reply_Payload = NoBody\<rparr>"

definition with_cookies :: "Cookie list \<Rightarrow> Reply \<Rightarrow> Reply" where
  "with_cookies cookies reply = reply\<lparr>Reply_Cookies := cookies @ Reply_Cookies reply\<rparr>"

section \<open>The libraries and what a request reads from outside\<close>

record LoginRequest =
  Login_Email :: string
  Login_Password :: string
  Login_TOTPCode :: string
  Login_RecoveryCode :: string

record InviteRequest =
  InviteRequest_Email :: string
  InviteRequest_Role :: string
  InviteRequest_SiteIDs :: "string list"
  InviteRequest_IdentityType :: string

record OIDCRequest =
  OIDCRequest_DiscoveryURL :: string
  OIDCRequest_Issuer :: string
  OIDCRequest_ClientID :: string
  OIDCRequest_ClientSecret :: string
  OIDCRequest_RedirectURL :: string

text \<open>\<open>Decode\<close>: \<open>json.Decoder.Decode\<close> into the type a handler declares, unknown fields refused.\<close>

record Decode =
  Decode_enroll :: "string \<Rightarrow> EnrollRequest option"
  Decode_csr :: "string \<Rightarrow> string option"
  Decode_facts :: "string \<Rightarrow> Facts option"
  Decode_sample :: "string \<Rightarrow> Sample option"
  Decode_snapshot :: "string \<Rightarrow> Snapshot option"
  Decode_batch :: "string \<Rightarrow> LogEntry list option"
  Decode_job :: "string \<Rightarrow> CreateRequest option"
  Decode_event :: "string \<Rightarrow> EventRequest option"
  Decode_rule :: "string \<Rightarrow> RuleRequest option"
  Decode_maintenance :: "string \<Rightarrow> MaintenanceRequest option"
  Decode_actor :: "string \<Rightarrow> string option"
  Decode_account :: "string \<Rightarrow> AccountRequest option"
  Decode_instances :: "string \<Rightarrow> DiscoveredInstance list option"
  Decode_bootstrap :: "string \<Rightarrow> (string \<times> string \<times> string) option"
  Decode_invite :: "string \<Rightarrow> InviteRequest option"
  Decode_password :: "string \<Rightarrow> string option"
  Decode_code :: "string \<Rightarrow> string option"
  Decode_oidc :: "string \<Rightarrow> OIDCRequest option"
  Decode_login :: "string \<Rightarrow> LoginRequest option"
  Decode_membership :: "string \<Rightarrow> (string \<times> string) option"
  Decode_service_account :: "string \<Rightarrow> (string \<times> string \<times> int) option"
  Decode_expiry :: "string \<Rightarrow> int option"
  Decode_flow :: "string \<Rightarrow> OIDCFlow option"

record Lib =
  Lib_crypto :: Crypto
  Lib_mac :: hmac
  Lib_x509 :: X509
  Lib_ed :: Ed25519
  Lib_rfc3339 :: rfc3339
  Lib_parse_time :: "string \<Rightarrow> time option"
  Lib_atoi :: "string \<Rightarrow> int option"
  Lib_lower :: "string \<Rightarrow> string"
  Lib_parse_ip :: "string \<Rightarrow> string option"
  Lib_is_loopback :: "string \<Rightarrow> bool"
  Lib_round :: rounding
  Lib_format :: "f64 \<Rightarrow> string"
  Lib_url_text :: "URL \<Rightarrow> string"
  Lib_decode :: Decode
  Lib_encode_flow :: "OIDCFlow \<Rightarrow> string"
  Lib_oidc :: OIDCLib

record Env =
  Env_now :: "nat \<Rightarrow> time"
  Env_rand :: "nat \<Rightarrow> entropy"
  Env_serial :: "int res"
  Env_identity :: IdentityEnv
  Env_eval :: "nat \<Rightarrow> EvalEnv"
  Env_hosts :: "(string, Host) visit"
  Env_jobs1 :: "(jobKey, Job) visit"
  Env_jobs2 :: "(jobKey, Job) visit"
  Env_job_events :: "(jobKey, JobEvent list) visit"
  Env_rules :: "(string, Rule) visit"
  Env_windows :: "(string, MaintenanceWindow) visit"
  Env_incidents :: "(string, Incident) visit"
  Env_alert_events :: "(string, AlertEvent list) visit"
  Env_samples :: "(Agent, Sample list) visit"
  Env_logs :: "(Agent, LogEntry list) visit"
  Env_cloud_accounts :: "(string, Account) visit"
  Env_cloud_instances :: "(string, Instance list) visit"
  Env_invites1 :: "(string, inviteRecord) visit"
  Env_invites2 :: "(string, inviteRecord) visit"
  Env_users :: "(string, User) visit"
  Env_memberships :: "(string, SiteMembership) visit"
  Env_accounts :: "(string, ServiceAccount) visit"
  Env_tokens :: "(string, tokenRecord) visit"
  Env_sort_hosts :: "Host sorter"
  Env_sort_samples :: "Sample sorter"
  Env_sort_services :: "HostService sorter"
  Env_sort_logs :: "LogEntry sorter"
  Env_sort_jobs :: "Job sorter"
  Env_sort_rules :: "Rule sorter"
  Env_sort_windows :: "MaintenanceWindow sorter"
  Env_sort_incidents :: "Incident sorter"
  Env_sort_accounts :: "Account sorter"
  Env_sort_instances :: "Instance sorter"
  Env_sort_users :: "User sorter"
  Env_sort_audit :: "AuditEvent sorter"
  Env_sort_activity :: "ActivityEvent sorter"
  Env_stream_id :: nat

section \<open>The hub and its configuration\<close>

record HubConfig =
  Hub_scope :: Scope
  Hub_bootstrapSecret :: string
  Hub_totpKey :: string
  Hub_pepper :: string
  Hub_trustedOrigins :: "string list"
  Hub_runtime :: RuntimeConfiguration
  Hub_authority :: Authority
  Hub_publicKey :: string
  Hub_auditing :: bool

record Hub =
  Hub_tokens :: TokenStore
  Hub_hosts :: HostStore
  Hub_samples :: SampleStore
  Hub_services :: ServiceStore
  Hub_logs :: LogService
  Hub_jobs :: JobStore
  Hub_alerts :: AlertStore
  Hub_cloud :: CloudStore
  Hub_activity :: ActivityStore
  Hub_audit :: AuditStore
  Hub_identity :: IdentityStore
  Hub_sessions :: SessionStore
  Hub_memberships :: MembershipStore
  Hub_accounts :: SAStore
  Hub_loginLimiter :: Limiter
  Hub_confirmLimiter :: Limiter
  Hub_inviteLimiter :: Limiter

definition NewHub :: "TokenStore \<Rightarrow> Hub" where
  "NewHub tokens =
     \<lparr>Hub_tokens = tokens, Hub_hosts = NewHostStore, Hub_samples = NewSampleStore, Hub_services = NewServiceStore,
      Hub_logs = NewLogService, Hub_jobs = NewJobStore, Hub_alerts = NewAlertStore, Hub_cloud = NewCloudStore,
      Hub_activity = NewActivityStore, Hub_audit = NewAuditStore, Hub_identity = NewIdentityStore,
      Hub_sessions = NewSessionStore, Hub_memberships = NewMembershipStore, Hub_accounts = NewSAStore,
      Hub_loginLimiter = Ratelimit_New 10 (5 * minute), Hub_confirmLimiter = Ratelimit_New 10 (5 * minute),
      Hub_inviteLimiter = Ratelimit_New 10 (5 * minute)\<rparr>"

text \<open>
  The wiring of \<open>cmd/bazusop-hub\<close>: local identity (and with it sessions and authorization)
  exists when both secrets are set, service accounts when there is also a pepper; the audit
  trail always exists there (\<open>Hub_auditing\<close>), and so do the other services.
\<close>

definition identity_enabled :: "HubConfig \<Rightarrow> bool" where
  "identity_enabled cfg \<longleftrightarrow> Hub_bootstrapSecret cfg \<noteq> [] \<and> Hub_totpKey cfg \<noteq> []"

definition accounts_enabled :: "HubConfig \<Rightarrow> bool" where
  "accounts_enabled cfg \<longleftrightarrow> identity_enabled cfg \<and> Hub_pepper cfg \<noteq> []"

definition sessions_service :: "Hub \<Rightarrow> SessionsService" where
  "sessions_service hub =
     \<lparr>SessionsService_userActive = Some (\<lambda>userID. IsUserActive userID (Hub_identity hub)),
      SessionsService_idleTimeout = 30 * minute, SessionsService_absoluteTimeout = 8 * hour\<rparr>"

definition platform_admin :: "Hub \<Rightarrow> PlatformAdminChecker" where
  "platform_admin hub = (\<lambda>userID. IsPlatformAdmin userID (Hub_identity hub))"

definition site_role :: "string \<Rightarrow> SiteRole" where
  "site_role s = (if s = ''site-admin'' then SiteRoleAdmin else if s = ''operator'' then SiteRoleOperator
     else if s = ''viewer'' then SiteRoleViewer else SiteRoleUnknown s)"

definition site_role_text :: "SiteRole \<Rightarrow> string" where
  "site_role_text role = (case role of SiteRoleAdmin \<Rightarrow> ''site-admin'' | SiteRoleOperator \<Rightarrow> ''operator''
     | SiteRoleViewer \<Rightarrow> ''viewer'' | SiteRoleUnknown s \<Rightarrow> s)"

text \<open>\<open>siteRoleGrantor\<close>: the roles of a consumed invite, assigned one after the other.\<close>

fun grant_roles :: "Env \<Rightarrow> nat \<Rightarrow> string \<Rightarrow> SiteRoleGrant list \<Rightarrow> MembershipStore \<Rightarrow> (unit, MembershipStore) op" where
  "grant_roles env n userID [] g = (Inr (), g)"
| "grant_roles env n userID (grant # grants) g =
     (case AssignRole (Env_rand env n) (Env_now env n) userID DefaultOrganizationID (SiteRoleGrant_SiteID grant)
             (site_role (SiteRoleGrant_Role grant)) g of
        (Inl e, g') \<Rightarrow> (Inl e, g')
      | (Inr _, g') \<Rightarrow> grant_roles env (Suc n) userID grants g')"

definition identity_service :: "HubConfig \<Rightarrow> Env \<Rightarrow> MembershipStore IdentityService" where
  "identity_service cfg env =
     \<lparr>IdentityService_totpEncryptionKey = Hub_totpKey cfg,
      IdentityService_siteRoleGrantor = Some (grant_roles env 10)\<rparr>"

definition host_check :: "Env \<Rightarrow> Hub \<Rightarrow> HostScopeChecker" where
  "host_check env hub = Inventory_HasHost (Env_hosts env (Hub_hosts hub))"

definition jobs_service :: "HubConfig \<Rightarrow> Env \<Rightarrow> Hub \<Rightarrow> JobsService" where
  "jobs_service cfg env hub =
     \<lparr>JobsService_privateKey = Authority_caPrivateKey (Hub_authority cfg), JobsService_publicKey = Hub_publicKey cfg,
      JobsService_jobLease = defaultJobLease, JobsService_hostExists = Some (host_check env hub)\<rparr>"

section \<open>Shared steps of the handlers\<close>

text \<open>\<open>decodeJSON\<close> reads at most 1 MiB of the body; None is the 400 it writes.\<close>

definition decodeJSON :: "(string \<Rightarrow> 'a option) \<Rightarrow> Request \<Rightarrow> 'a option" where
  "decodeJSON decode request = decode (take (2 ^ 20) (Request_Body request))"

definition with_body :: "(string \<Rightarrow> 'a option) \<Rightarrow> Request \<Rightarrow> Hub \<Rightarrow> ('a \<Rightarrow> Reply \<times> Hub) \<Rightarrow> Reply \<times> Hub" where
  "with_body decode request hub k =
     (case decodeJSON decode request of None \<Rightarrow> (http_error 400, hub) | Some body \<Rightarrow> k body)"

text \<open>\<open>net.SplitHostPort\<close>: the host part, None for its errors.\<close>

definition index_of :: "char \<Rightarrow> string \<Rightarrow> nat option" where
  "index_of c s = (let n = length (takeWhile (\<lambda>d. d \<noteq> c) s) in if n < length s then Some n else None)"

definition last_index_of :: "char \<Rightarrow> string \<Rightarrow> nat option" where
  "last_index_of c s = map_option (\<lambda>n. length s - 1 - n) (index_of c (rev s))"

definition split_host_port :: "string \<Rightarrow> string option" where
  "split_host_port s =
     (case last_index_of (CHR '':'') s of
        None \<Rightarrow> None
      | Some i \<Rightarrow>
          if s ! 0 = CHR ''['' then
            (case index_of (CHR '']'') s of
               None \<Rightarrow> None
             | Some e \<Rightarrow>
                 if e + 1 \<noteq> i then None
                 else if CHR ''['' \<in> set (drop 1 s) \<or> CHR '']'' \<in> set (drop (e + 1) s) then None
                 else Some (take (e - 1) (drop 1 s)))
          else if CHR '':'' \<in> set (take i s) then None
          else if CHR ''['' \<in> set s \<or> CHR '']'' \<in> set s then None
          else Some (take i s))"

definition sourceIP :: "Request \<Rightarrow> string" where
  "sourceIP request =
     (case split_host_port (Request_RemoteAddr request) of
        None \<Rightarrow> Request_RemoteAddr request | Some host \<Rightarrow> host)"

definition secureEnrollmentTransport :: "Lib \<Rightarrow> Request \<Rightarrow> bool" where
  "secureEnrollmentTransport lib request =
     (if Request_PeerCertificates request \<noteq> None then True
      else case split_host_port (Request_RemoteAddr request) of
          None \<Rightarrow> False
        | Some host \<Rightarrow> Lib_is_loopback lib host)"

text \<open>Authentication of an agent by its client certificate: \<open>Inl\<close> is the reply already written.\<close>

definition authenticateAgent :: "Lib \<Rightarrow> HubConfig \<Rightarrow> Env \<Rightarrow> Request \<Rightarrow> Hub \<Rightarrow> Reply + Agent" where
  "authenticateAgent lib cfg env request hub =
     (case Request_PeerCertificates request of
        None \<Rightarrow> Inl (http_error 401)
      | Some [] \<Rightarrow> Inl (http_error 401)
      | Some (certificate # _) \<Rightarrow>
          (case AuthenticateContext (Lib_x509 lib) (Hub_authority cfg) (Env_now env 0) (Some certificate) (Hub_tokens hub) of
             Inl _ \<Rightarrow> Inl (http_error 401)
           | Inr agent \<Rightarrow> Inr agent))"

definition sessionCookieName :: string where "sessionCookieName = ''bazusop_session''"
definition csrfCookieName :: string where "csrfCookieName = ''bazusop_csrf''"
definition oidcFlowCookieName :: string where "oidcFlowCookieName = ''bazusop_oidc_flow''"

definition is_tls :: "Request \<Rightarrow> bool" where "is_tls request \<longleftrightarrow> Request_PeerCertificates request \<noteq> None"

definition setSessionCookies :: "Request \<Rightarrow> string \<Rightarrow> string \<Rightarrow> Cookie list" where
  "setSessionCookies request token csrfToken =
     [\<lparr>Cookie_Name = sessionCookieName, Cookie_Value = token, Cookie_Path = ''/api'', Cookie_HttpOnly = True,
       Cookie_Secure = is_tls request, Cookie_MaxAge = 0\<rparr>,
      \<lparr>Cookie_Name = csrfCookieName, Cookie_Value = csrfToken, Cookie_Path = ''/api'', Cookie_HttpOnly = False,
       Cookie_Secure = is_tls request, Cookie_MaxAge = 0\<rparr>]"

definition clearSessionCookies :: "Request \<Rightarrow> Cookie list" where
  "clearSessionCookies request =
     [\<lparr>Cookie_Name = sessionCookieName, Cookie_Value = [], Cookie_Path = ''/api'', Cookie_HttpOnly = True,
       Cookie_Secure = is_tls request, Cookie_MaxAge = -1\<rparr>,
      \<lparr>Cookie_Name = csrfCookieName, Cookie_Value = [], Cookie_Path = ''/api'', Cookie_HttpOnly = False,
       Cookie_Secure = is_tls request, Cookie_MaxAge = -1\<rparr>]"

text \<open>\<open>validate_session\<close>: the call of \<open>sessions.Service.Validate\<close> on the hub.\<close>

definition validate_session :: "Lib \<Rightarrow> Env \<Rightarrow> string \<Rightarrow> Hub \<Rightarrow> Session res \<times> Hub" where
  "validate_session lib env token hub =
     (case Sessions_Validate (Crypto_sha256 (Lib_crypto lib)) (sessions_service hub) (Env_now env 0) token (Hub_sessions hub) of
        (res, st) \<Rightarrow> (res, hub\<lparr>Hub_sessions := st\<rparr>))"

definition authenticateSession :: "Lib \<Rightarrow> Env \<Rightarrow> Request \<Rightarrow> Hub \<Rightarrow> (Reply + Session \<times> string) \<times> Hub" where
  "authenticateSession lib env request hub =
     (case Request_Cookie request sessionCookieName of
        None \<Rightarrow> (Inl (http_error 401), hub)
      | Some token \<Rightarrow>
          if token = [] then (Inl (http_error 401), hub)
          else (case validate_session lib env token hub of
              (Inl _, hub') \<Rightarrow> (Inl (with_cookies (clearSessionCookies request) (http_error 401)), hub')
            | (Inr session, hub') \<Rightarrow> (Inr (session, token), hub')))"

definition matching_csrf :: "Request \<Rightarrow> Session \<Rightarrow> bool" where
  "matching_csrf request session \<longleftrightarrow>
     \<not> (Request_Header request ''X-CSRF-Token'' = []
         \<or> Request_Header request ''X-CSRF-Token'' \<noteq> Session_CSRFToken session)"

definition bearerToken :: "Request \<Rightarrow> string option" where
  "bearerToken request =
     (let header = Request_Header request ''Authorization'' in
      if has_prefix header ''Bearer '' then Some (drop (length ''Bearer '') header) else None)"

definition validate_account :: "Lib \<Rightarrow> HubConfig \<Rightarrow> Env \<Rightarrow> string \<Rightarrow> string \<Rightarrow> Hub \<Rightarrow> ServiceAccount res \<times> Hub" where
  "validate_account lib cfg env bearer ip hub =
     (case SA_Validate (Lib_mac lib) (Hub_pepper cfg) (Env_now env 0) (Env_now env 1) bearer ip (Hub_accounts hub) of
        (res, st) \<Rightarrow> (res, hub\<lparr>Hub_accounts := st\<rparr>))"

text \<open>
  \<open>requirePermission\<close>: \<open>Inl\<close> is the reply it wrote, \<open>Inr\<close> the acting user or account.
  \<open>accounts\<close> says whether the route hands it the service account service.
\<close>

definition permit_session ::
  "Lib \<Rightarrow> Env \<Rightarrow> Permission \<Rightarrow> string \<Rightarrow> Request \<Rightarrow> string \<Rightarrow> Hub \<Rightarrow> (Reply + string) \<times> Hub" where
  "permit_session lib env permission siteID request token hub =
     (case validate_session lib env token hub of
        (Inl _, hub') \<Rightarrow> (Inl (with_cookies (clearSessionCookies request) (http_error 401)), hub')
      | (Inr session, hub') \<Rightarrow>
          if Request_Method request \<noteq> ''GET'' \<and> Request_Method request \<noteq> ''HEAD'' \<and> \<not> matching_csrf request session
          then (Inl (http_error 403), hub')
          else (case Can (platform_admin hub') (Session_UserID session) permission siteID (Hub_memberships hub') of
              Inl _ \<Rightarrow> (Inl (http_error 500), hub')
            | Inr allowed \<Rightarrow>
                if \<not> allowed then (Inl (http_error 403), hub') else (Inr (Session_UserID session), hub')))"

definition permit_account ::
  "Lib \<Rightarrow> HubConfig \<Rightarrow> Env \<Rightarrow> Permission \<Rightarrow> string \<Rightarrow> Request \<Rightarrow> string \<Rightarrow> Hub \<Rightarrow> (Reply + string) \<times> Hub" where
  "permit_account lib cfg env permission siteID request bearer hub =
     (case validate_account lib cfg env bearer (sourceIP request) hub of
        (Inl _, hub') \<Rightarrow> (Inl (http_error 401), hub')
      | (Inr account, hub') \<Rightarrow>
          if ServiceAccount_OrganizationID account \<noteq> DefaultOrganizationID \<or> ServiceAccount_SiteID account \<noteq> siteID
             \<or> \<not> PermissionAllowsRole permission (ServiceAccount_Role account)
          then (Inl (http_error 403), hub') else (Inr (ServiceAccount_ID account), hub'))"

definition session_cookie :: "HubConfig \<Rightarrow> Request \<Rightarrow> string option" where
  "session_cookie cfg request =
     (if identity_enabled cfg then
        (case Request_Cookie request sessionCookieName of Some token \<Rightarrow> if token \<noteq> [] then Some token else None | None \<Rightarrow> None)
      else None)"

definition account_bearer :: "HubConfig \<Rightarrow> bool \<Rightarrow> Request \<Rightarrow> string option" where
  "account_bearer cfg accounts request =
     (if accounts \<and> accounts_enabled cfg then
        (case bearerToken request of
           Some bearer \<Rightarrow> if has_prefix bearer TokenPrefix then Some bearer else None
         | None \<Rightarrow> None)
      else None)"

definition requirePermission ::
  "Lib \<Rightarrow> HubConfig \<Rightarrow> Env \<Rightarrow> bool \<Rightarrow> Permission \<Rightarrow> string \<Rightarrow> Request \<Rightarrow> Hub \<Rightarrow> (Reply + string) \<times> Hub" where
  "requirePermission lib cfg env accounts permission siteID request hub =
     (case session_cookie cfg request of
        Some token \<Rightarrow> permit_session lib env permission siteID request token hub
      | None \<Rightarrow>
          (case account_bearer cfg accounts request of
             Some bearer \<Rightarrow> permit_account lib cfg env permission siteID request bearer hub
           | None \<Rightarrow> (Inl (http_error 401), hub)))"

definition gated ::
  "Lib \<Rightarrow> HubConfig \<Rightarrow> Env \<Rightarrow> bool \<Rightarrow> Permission \<Rightarrow> Request \<Rightarrow> Hub \<Rightarrow> (string \<Rightarrow> Hub \<Rightarrow> Reply \<times> Hub) \<Rightarrow> Reply \<times> Hub" where
  "gated lib cfg env accounts permission request hub k =
     (case requirePermission lib cfg env accounts permission (Scope_SiteID (Hub_scope cfg)) request hub of
        (Inl reply, hub') \<Rightarrow> (reply, hub')
      | (Inr actor, hub') \<Rightarrow> k actor hub')"

definition by_agent ::
  "Lib \<Rightarrow> HubConfig \<Rightarrow> Env \<Rightarrow> Request \<Rightarrow> Hub \<Rightarrow> (Agent \<Rightarrow> Reply \<times> Hub) \<Rightarrow> Reply \<times> Hub" where
  "by_agent lib cfg env request hub k =
     (case authenticateAgent lib cfg env request hub of Inl reply \<Rightarrow> (reply, hub) | Inr agent \<Rightarrow> k agent)"

text \<open>Handlers record an event of the activity feed after a change; its failure is ignored.\<close>

definition record_activity ::
  "HubConfig \<Rightarrow> Env \<Rightarrow> ActivitySource \<Rightarrow> string \<Rightarrow> string \<Rightarrow> string \<Rightarrow> string \<Rightarrow> Hub \<Rightarrow> Hub" where
  "record_activity cfg env source reference ty actor message hub =
     hub\<lparr>Hub_activity := snd (Activity_Record (Env_now env 5)
       \<lparr>Activity_OrganizationID = Scope_OrganizationID (Hub_scope cfg), Activity_SiteID = Scope_SiteID (Hub_scope cfg),
        Activity_Source = source, Activity_ReferenceID = reference, Activity_AgentID = [], Activity_Type = ty,
        Activity_Actor = actor, Activity_Message = message, Activity_OccurredAt = 0\<rparr> (Hub_activity hub))\<rparr>"

end
