(* ===== verification/Server_Handlers.thy ===== *)
theory Server_Handlers
  imports Server
begin

text \<open>
  The handlers of \<open>internal/server\<close>, file by file, each the whole handler: authentication or
  permission first, then the body, then the service call, its errors as status codes, and the
  activity record. Random bytes and clock readings are numbered per handler (\<open>Env_rand env n\<close>,
  \<open>Env_now env n\<close>).
\<close>

section \<open>Query values\<close>

text \<open>\<open>Query().Get\<close> gives the empty string for an absent value; None is the 400 a handler writes.\<close>

definition query_int :: "Lib \<Rightarrow> Request \<Rightarrow> string \<Rightarrow> int \<Rightarrow> int option" where
  "query_int lib request key dflt =
     (if Request_Query request key \<noteq> [] then Lib_atoi lib (Request_Query request key) else Some dflt)"

definition query_time :: "Lib \<Rightarrow> Request \<Rightarrow> string \<Rightarrow> time \<Rightarrow> time option" where
  "query_time lib request key dflt =
     (if Request_Query request key \<noteq> [] then Lib_parse_time lib (Request_Query request key) else Some dflt)"

section \<open>Health and configuration\<close>

definition handleHealth :: Reply where
  "handleHealth = \<lparr>Reply_Status = 200, Reply_Cookies = [],
     Reply_Headers = [(''Content-Type'', ''application/json'')], Reply_Payload = HealthBody\<rparr>"

definition handleRuntimeConfiguration :: "HubConfig \<Rightarrow> Reply" where
  "handleRuntimeConfiguration cfg = writeJSON 200 (RuntimeBody (Hub_runtime cfg))"

section \<open>Enrollment\<close>

definition handleEnroll :: "Lib \<Rightarrow> HubConfig \<Rightarrow> Env \<Rightarrow> Request \<Rightarrow> Hub \<Rightarrow> Reply \<times> Hub" where
  "handleEnroll lib cfg env request hub =
     (if \<not> secureEnrollmentTransport lib request then (http_error 426, hub)
      else with_body (Decode_enroll (Lib_decode lib)) request hub (\<lambda>body.
        case EnrollContext (Lib_x509 lib) (Crypto_sha256 (Lib_crypto lib)) (Lib_lower lib) (Hub_authority cfg)
               (Env_rand env 0) (Env_now env 0) (Env_serial env) body (Hub_tokens hub) of
          (Inl e, st) \<Rightarrow>
            (http_error (if e = ErrInvalidToken then 401 else if e = ErrTokenConsumed then 409
                         else if e = ErrInvalidRequest then 400 else 500), hub\<lparr>Hub_tokens := st\<rparr>)
        | (Inr identity, st) \<Rightarrow> (writeJSON 201 (AgentIdentityBody identity), hub\<lparr>Hub_tokens := st\<rparr>)))"

definition handleRenew :: "Lib \<Rightarrow> HubConfig \<Rightarrow> Env \<Rightarrow> Request \<Rightarrow> Hub \<Rightarrow> Reply \<times> Hub" where
  "handleRenew lib cfg env request hub =
     by_agent lib cfg env request hub (\<lambda>agent.
       with_body (Decode_csr (Lib_decode lib)) request hub (\<lambda>csr.
         case RenewContext (Lib_x509 lib) (Hub_authority cfg) (Env_now env 1) (Env_now env 2) (Env_serial env)
                (case Request_PeerCertificates request of Some (certificate # _) \<Rightarrow> Some certificate | _ \<Rightarrow> None)
                csr (Hub_tokens hub) of
           Inl e \<Rightarrow> (http_error (if e = ErrInvalidIdentity then 401 else 500), hub)
         | Inr identity \<Rightarrow> (writeJSON 200 (AgentIdentityBody identity), hub)))"

section \<open>Reports of agents and their listings\<close>

definition handleInventoryReport :: "Lib \<Rightarrow> HubConfig \<Rightarrow> Env \<Rightarrow> Request \<Rightarrow> Hub \<Rightarrow> Reply \<times> Hub" where
  "handleInventoryReport lib cfg env request hub =
     by_agent lib cfg env request hub (\<lambda>agent.
       with_body (Decode_facts (Lib_decode lib)) request hub (\<lambda>facts.
         case Inventory_Report (Lib_lower lib) (Lib_parse_ip lib) (Env_now env 1) agent facts (Hub_hosts hub) of
           (Inl e, st) \<Rightarrow> (http_error (if e = ErrInvalidFacts then 400 else 500), hub\<lparr>Hub_hosts := st\<rparr>)
         | (Inr _, st) \<Rightarrow> (no_content, hub\<lparr>Hub_hosts := st\<rparr>)))"

definition handleListInstances :: "HubConfig \<Rightarrow> Env \<Rightarrow> Hub \<Rightarrow> Reply" where
  "handleListInstances cfg env hub =
     (case Inventory_List (Env_sort_hosts env) (Env_hosts env (Hub_hosts hub)) (Env_now env 0) (Hub_scope cfg) of
        Inl _ \<Rightarrow> http_error 503 | Inr hosts \<Rightarrow> writeJSON 200 (HostsBody hosts))"

definition handleTelemetryReport :: "Lib \<Rightarrow> HubConfig \<Rightarrow> Env \<Rightarrow> Request \<Rightarrow> Hub \<Rightarrow> Reply \<times> Hub" where
  "handleTelemetryReport lib cfg env request hub =
     by_agent lib cfg env request hub (\<lambda>agent.
       with_body (Decode_sample (Lib_decode lib)) request hub (\<lambda>sample0.
         let sample = sample0\<lparr>Sample_RecordedAt := truncate_micro (Sample_RecordedAt sample0)\<rparr> in
         case Telemetry_Report (Env_sort_samples env) agent sample (Hub_samples hub) of
           (Inl e, st) \<Rightarrow> (http_error (if e = ErrInvalidSample then 400 else 500), hub\<lparr>Hub_samples := st\<rparr>)
         | (Inr _, st) \<Rightarrow>
             let hub1 = hub\<lparr>Hub_samples := st\<rparr>;
                 upper0 = Env_now env 1 + second;
                 upper = (if \<not> Sample_RecordedAt sample < upper0 then Sample_RecordedAt sample + second else upper0) in
             (case Telemetry_History (Agent_Scope agent) (Agent_ID agent) (Sample_RecordedAt sample) upper 1 st of
                Inl _ \<Rightarrow> (http_error 500, hub1)
              | Inr latest \<Rightarrow>
                  if 0 < length latest \<and> Sample_RecordedAt (last latest) = Sample_RecordedAt sample then
                    (case EvaluateTelemetry (Lib_format lib) (Env_sort_rules env) (Env_rules env) (Env_eval env)
                            (Agent_Scope agent) (Agent_ID agent)
                            \<lparr>AlertTelemetry_CPUPercent = Sample_CPUPercent sample, AlertTelemetry_MemoryPercent = Sample_MemoryPercent sample,
                             AlertTelemetry_DiskPercent = Sample_DiskPercent sample\<rparr> (Hub_alerts hub1) of
                       (Inl _, al) \<Rightarrow> (http_error 500, hub1\<lparr>Hub_alerts := al\<rparr>)
                     | (Inr _, al) \<Rightarrow> (no_content, hub1\<lparr>Hub_alerts := al\<rparr>))
                  else (no_content, hub1))))"

definition handleTelemetryHistory :: "Lib \<Rightarrow> HubConfig \<Rightarrow> Env \<Rightarrow> Request \<Rightarrow> Hub \<Rightarrow> Reply" where
  "handleTelemetryHistory lib cfg env request hub =
     (case (query_time lib request ''from'' (Env_now env 0 - 24 * hour), query_time lib request ''to'' (Env_now env 0),
            query_int lib request ''limit'' 288) of
        (Some since, Some to, Some limit) \<Rightarrow>
          (case Telemetry_History (Hub_scope cfg) (Request_PathValue request ''agentID'') since to limit (Hub_samples hub) of
             Inl e \<Rightarrow> http_error (if e = ErrInvalidSample then 400 else 503)
           | Inr samples \<Rightarrow>
               writeJSON 200 (SamplesBody (if 0 < length samples then Some (last samples) else None) samples))
      | _ \<Rightarrow> http_error 400)"

definition handleFleetAverageTelemetry :: "Lib \<Rightarrow> HubConfig \<Rightarrow> Env \<Rightarrow> Hub \<Rightarrow> Reply" where
  "handleFleetAverageTelemetry lib cfg env hub =
     (case Telemetry_FleetAverage (Lib_round lib) (Env_samples env (Hub_samples hub)) (Hub_scope cfg)
             (Env_now env 0 - ConnectedWindow) of
        Inl _ \<Rightarrow> http_error 503 | Inr average \<Rightarrow> writeJSON 200 (FleetBody average))"

definition handleServiceReport :: "Lib \<Rightarrow> HubConfig \<Rightarrow> Env \<Rightarrow> Request \<Rightarrow> Hub \<Rightarrow> Reply \<times> Hub" where
  "handleServiceReport lib cfg env request hub =
     by_agent lib cfg env request hub (\<lambda>agent.
       with_body (Decode_snapshot (Lib_decode lib)) request hub (\<lambda>snapshot.
         case Services_Report (Lib_lower lib) agent snapshot (Hub_services hub) of
           (Inl e, st) \<Rightarrow> (http_error (if e = ErrInvalidSnapshot then 400 else 500), hub\<lparr>Hub_services := st\<rparr>)
         | (Inr _, st) \<Rightarrow> (no_content, hub\<lparr>Hub_services := st\<rparr>)))"

definition handleListServices :: "Lib \<Rightarrow> HubConfig \<Rightarrow> Env \<Rightarrow> Request \<Rightarrow> Hub \<Rightarrow> Reply" where
  "handleListServices lib cfg env request hub =
     (case Services_List (Lib_lower lib) (Env_sort_services env) (Hub_scope cfg) (Request_PathValue request ''agentID'')
             \<lparr>ServiceFilter_State = Request_Query request ''state'', ServiceFilter_Query = Request_Query request ''q''\<rparr>
             (Hub_services hub) of
        Inl e \<Rightarrow> http_error (if e = ErrInvalidSnapshot then 400 else 503)
      | Inr services \<Rightarrow> writeJSON 200 (ServicesBody services))"

section \<open>Logs\<close>

definition handleLogIngest :: "Lib \<Rightarrow> HubConfig \<Rightarrow> Env \<Rightarrow> Request \<Rightarrow> Hub \<Rightarrow> Reply \<times> Hub" where
  "handleLogIngest lib cfg env request hub =
     by_agent lib cfg env request hub (\<lambda>agent.
       with_body (Decode_batch (Lib_decode lib)) request hub (\<lambda>batch.
         case Ingest (Env_sort_logs env) (Lib_lower lib) (Env_logs env (LogService_store (Hub_logs hub))) (Env_rand env)
                agent batch (Hub_logs hub) of
           (Inl e, st) \<Rightarrow> (http_error (if e = ErrInvalidLogs then 400 else 500), hub\<lparr>Hub_logs := st\<rparr>)
         | (Inr _, st) \<Rightarrow> (no_content, hub\<lparr>Hub_logs := st\<rparr>)))"

definition handleSearchLogs :: "Lib \<Rightarrow> HubConfig \<Rightarrow> Env \<Rightarrow> Request \<Rightarrow> Hub \<Rightarrow> Reply" where
  "handleSearchLogs lib cfg env request hub =
     (case (query_time lib request ''from'' (Env_now env 0 - hour), query_time lib request ''to'' (Env_now env 0),
            query_int lib request ''limit'' 100) of
        (Some since, Some to, Some limit) \<Rightarrow>
          (case Search (Env_sort_logs env) (Lib_lower lib)
                  \<lparr>LogQuery_Scope = Hub_scope cfg, LogQuery_AgentID = Request_PathValue request ''agentID'',
                   LogQuery_From = since, LogQuery_To = to, LogQuery_Collector = Request_Query request ''collector'',
                   LogQuery_Severity = Request_Query request ''severity'', LogQuery_Source = Request_Query request ''source'',
                   LogQuery_Text = Request_Query request ''q'', LogQuery_Limit = limit\<rparr> (Hub_logs hub) of
             Inl e \<Rightarrow> http_error (if e = ErrInvalidLogs then 400 else 503)
           | Inr entries \<Rightarrow> writeJSON 200 (LogsBody entries))
      | _ \<Rightarrow> http_error 400)"

text \<open>
  What a handler writes to: the writer of Go's HTTP server, or \<open>statusRecorder\<close> around another
  writer. The server's writer implements \<open>http.Flusher\<close>. \<open>statusRecorder\<close> embeds the interface
  \<open>http.ResponseWriter\<close>, so it has the three operations of that interface and no \<open>Flush\<close>,
  whatever the writer inside it can do.
\<close>

datatype ResponseWriter = ServerWriter | StatusRecorder ResponseWriter

fun is_Flusher :: "ResponseWriter \<Rightarrow> bool" where
  "is_Flusher ServerWriter = True"
| "is_Flusher (StatusRecorder _) = False"

text \<open>
  The stream stays open after the reply: \<open>Receive\<close> and \<open>Unsubscribe\<close> of \<open>Logstream\<close> are its
  later steps.
\<close>

definition handleStreamLogs :: "ResponseWriter \<Rightarrow> HubConfig \<Rightarrow> Env \<Rightarrow> Request \<Rightarrow> Hub \<Rightarrow> Reply \<times> Hub" where
  "handleStreamLogs response cfg env request hub =
     (if \<not> is_Flusher response then (http_error 501, hub)
      else case Subscribe (Env_stream_id env) (Hub_scope cfg) (Request_PathValue request ''agentID'') (Hub_logs hub) of
        (Inl _, st) \<Rightarrow> (http_error 400, hub\<lparr>Hub_logs := st\<rparr>)
      | (Inr stream, st) \<Rightarrow>
          (\<lparr>Reply_Status = 200, Reply_Cookies = [],
            Reply_Headers = [(''Content-Type'', ''text/event-stream''), (''Cache-Control'', ''no-cache''),
              (''X-Accel-Buffering'', ''no'')], Reply_Payload = StreamBody stream\<rparr>, hub\<lparr>Hub_logs := st\<rparr>))"

end
