(* ===== verification/Server_Operations.thy ===== *)
theory Server_Operations
  imports Server_Handlers
begin

text \<open>
  The handlers of \<open>internal/server\<close> for jobs, alerts, cloud accounts, the activity feed and
  the audit trail.
\<close>

section \<open>Jobs\<close>

definition handleCreateJob :: "Lib \<Rightarrow> HubConfig \<Rightarrow> Env \<Rightarrow> Request \<Rightarrow> Hub \<Rightarrow> Reply \<times> Hub" where
  "handleCreateJob lib cfg env request hub =
     gated lib cfg env True PermissionCreateJobs request hub (\<lambda>_ hub.
       with_body (Decode_job (Lib_decode lib)) request hub (\<lambda>body.
         case Jobs_Create (Lib_ed lib) (Lib_rfc3339 lib) (jobs_service cfg env hub) (Env_rand env 0) (Env_now env 2)
                (Hub_scope cfg) (Request_PathValue request ''agentID'') body (Hub_jobs hub) of
           (Inl e, st) \<Rightarrow> (http_error (if e = ErrInvalidJob then 400 else 500), hub\<lparr>Hub_jobs := st\<rparr>)
         | (Inr job, st) \<Rightarrow> (writeJSON 201 (JobBody job), hub\<lparr>Hub_jobs := st\<rparr>)))"

definition handleListJobs :: "Lib \<Rightarrow> HubConfig \<Rightarrow> Env \<Rightarrow> Request \<Rightarrow> Hub \<Rightarrow> Reply" where
  "handleListJobs lib cfg env request hub =
     (case query_int lib request ''limit'' 50 of
        None \<Rightarrow> http_error 400
      | Some limit \<Rightarrow>
          (case Jobs_List (Env_sort_jobs env) (Env_jobs1 env (JobStore_jobs (Hub_jobs hub))) (Hub_scope cfg)
                  (Request_PathValue request ''agentID'') limit of
             Inl e \<Rightarrow> http_error (if e = ErrInvalidJob then 400 else 503)
           | Inr jobs \<Rightarrow> writeJSON 200 (JobsBody jobs)))"

definition handleJobEvents :: "HubConfig \<Rightarrow> Request \<Rightarrow> Hub \<Rightarrow> Reply" where
  "handleJobEvents cfg request hub =
     (case Jobs_Events (Hub_scope cfg) (Request_PathValue request ''agentID'') (Request_PathValue request ''jobID'')
             (Hub_jobs hub) of
        Inl e \<Rightarrow> http_error (if e = ErrInvalidJob then 400 else if e = ErrJobNotFound then 404 else 503)
      | Inr events \<Rightarrow> writeJSON 200 (JobEventsBody events))"

definition handleClaimJob :: "Lib \<Rightarrow> HubConfig \<Rightarrow> Env \<Rightarrow> Request \<Rightarrow> Hub \<Rightarrow> Reply \<times> Hub" where
  "handleClaimJob lib cfg env request hub =
     by_agent lib cfg env request hub (\<lambda>agent.
       case Jobs_ClaimNext (jobs_service cfg env hub) (Env_jobs1 env (JobStore_jobs (Hub_jobs hub)))
              (Env_jobs2 env (JobStore_jobs (Hub_jobs hub))) (Env_now env 1) agent (Hub_jobs hub) of
         (Inl e, st) \<Rightarrow> (http_error (if e = ErrInvalidJob then 400 else 503), hub\<lparr>Hub_jobs := st\<rparr>)
       | (Inr None, st) \<Rightarrow> (no_content, hub\<lparr>Hub_jobs := st\<rparr>)
       | (Inr (Some job), st) \<Rightarrow> (writeJSON 200 (JobBody job), hub\<lparr>Hub_jobs := st\<rparr>))"

definition handleReportJobEvent :: "Lib \<Rightarrow> HubConfig \<Rightarrow> Env \<Rightarrow> Request \<Rightarrow> Hub \<Rightarrow> Reply \<times> Hub" where
  "handleReportJobEvent lib cfg env request hub =
     by_agent lib cfg env request hub (\<lambda>agent.
       with_body (Decode_event (Lib_decode lib)) request hub (\<lambda>body.
         case Jobs_Report (Env_now env 1) agent (Request_PathValue request ''jobID'') body (Hub_jobs hub) of
           (Inl e, st) \<Rightarrow>
             (http_error (if e = ErrInvalidJob then 400 else if e = ErrJobNotFound then 404
                          else if e = ErrJobConflict then 409 else 500), hub\<lparr>Hub_jobs := st\<rparr>)
         | (Inr job, st) \<Rightarrow> (writeJSON 200 (JobBody job), hub\<lparr>Hub_jobs := st\<rparr>)))"

section \<open>Alerts\<close>

definition handleCreateAlertRule :: "Lib \<Rightarrow> HubConfig \<Rightarrow> Env \<Rightarrow> Request \<Rightarrow> Hub \<Rightarrow> Reply \<times> Hub" where
  "handleCreateAlertRule lib cfg env request hub =
     gated lib cfg env True PermissionManageAlerts request hub (\<lambda>_ hub.
       with_body (Decode_rule (Lib_decode lib)) request hub (\<lambda>body.
         case CreateRule (Env_rand env 0) (Env_now env 2) (Hub_scope cfg) body (Hub_alerts hub) of
           (Inl e, st) \<Rightarrow> (http_error (if e = ErrInvalidAlert then 400 else 500), hub\<lparr>Hub_alerts := st\<rparr>)
         | (Inr rule, st) \<Rightarrow> (writeJSON 201 (RuleBody rule), hub\<lparr>Hub_alerts := st\<rparr>)))"

definition handleListAlertRules :: "HubConfig \<Rightarrow> Env \<Rightarrow> Hub \<Rightarrow> Reply" where
  "handleListAlertRules cfg env hub =
     (case ListRules (Env_sort_rules env) (Env_rules env) (Hub_scope cfg) (Hub_alerts hub) of
        Inl _ \<Rightarrow> http_error 503 | Inr rules \<Rightarrow> writeJSON 200 (RulesBody rules))"

definition handleCreateMaintenance :: "Lib \<Rightarrow> HubConfig \<Rightarrow> Env \<Rightarrow> Request \<Rightarrow> Hub \<Rightarrow> Reply \<times> Hub" where
  "handleCreateMaintenance lib cfg env request hub =
     gated lib cfg env True PermissionManageAlerts request hub (\<lambda>_ hub.
       with_body (Decode_maintenance (Lib_decode lib)) request hub (\<lambda>body.
         case CreateMaintenance (host_check env hub) (Env_rand env 0) (Env_now env 2) (Hub_scope cfg) body (Hub_alerts hub) of
           (Inl e, st) \<Rightarrow>
             (http_error (if e = ErrInvalidAlert then 400 else if e = ErrAlertNotFound then 404 else 500),
              hub\<lparr>Hub_alerts := st\<rparr>)
         | (Inr window, st) \<Rightarrow> (writeJSON 201 (WindowBody window), hub\<lparr>Hub_alerts := st\<rparr>)))"

definition handleListMaintenance :: "HubConfig \<Rightarrow> Env \<Rightarrow> Hub \<Rightarrow> Reply" where
  "handleListMaintenance cfg env hub =
     (case ListMaintenance (Env_sort_windows env) (Env_windows env) (Hub_scope cfg) (Hub_alerts hub) of
        Inl _ \<Rightarrow> http_error 503 | Inr windows \<Rightarrow> writeJSON 200 (WindowsBody windows))"

definition handleListIncidents :: "Lib \<Rightarrow> HubConfig \<Rightarrow> Env \<Rightarrow> Request \<Rightarrow> Hub \<Rightarrow> Reply" where
  "handleListIncidents lib cfg env request hub =
     (case query_int lib request ''limit'' 100 of
        None \<Rightarrow> http_error 400
      | Some limit \<Rightarrow>
          (case ListIncidents (Env_sort_incidents env) (Env_incidents env) (Hub_scope cfg) limit (Hub_alerts hub) of
             Inl e \<Rightarrow> http_error (if e = ErrInvalidAlert then 400 else 503)
           | Inr incidents \<Rightarrow> writeJSON 200 (IncidentsBody incidents)))"

definition handleAlertEvents :: "HubConfig \<Rightarrow> Request \<Rightarrow> Hub \<Rightarrow> Reply" where
  "handleAlertEvents cfg request hub =
     (case ListEvents (Hub_scope cfg) (Request_PathValue request ''incidentID'') (Hub_alerts hub) of
        Inl e \<Rightarrow> http_error (if e = ErrAlertNotFound then 404 else if e = ErrInvalidAlert then 400 else 503)
      | Inr events \<Rightarrow> writeJSON 200 (AlertEventsBody events))"

definition handleAcknowledgeIncident :: "Lib \<Rightarrow> HubConfig \<Rightarrow> Env \<Rightarrow> Request \<Rightarrow> Hub \<Rightarrow> Reply \<times> Hub" where
  "handleAcknowledgeIncident lib cfg env request hub =
     gated lib cfg env True PermissionAcknowledgeIncidents request hub (\<lambda>_ hub.
       with_body (Decode_actor (Lib_decode lib)) request hub (\<lambda>actor.
         case Acknowledge (Env_rand env 0) (Env_now env 2) (Hub_scope cfg) (Request_PathValue request ''incidentID'') actor
                (Hub_alerts hub) of
           (Inl e, st) \<Rightarrow>
             (http_error (if e = ErrInvalidAlert then 400 else if e = ErrAlertNotFound then 404
                          else if e = ErrAlertConflict then 409 else 500), hub\<lparr>Hub_alerts := st\<rparr>)
         | (Inr incident, st) \<Rightarrow> (writeJSON 200 (IncidentBody incident), hub\<lparr>Hub_alerts := st\<rparr>)))"

section \<open>Cloud accounts\<close>

definition handleCreateCloudAccount :: "Lib \<Rightarrow> HubConfig \<Rightarrow> Env \<Rightarrow> Request \<Rightarrow> Hub \<Rightarrow> Reply \<times> Hub" where
  "handleCreateCloudAccount lib cfg env request hub =
     gated lib cfg env True PermissionManageCloudAccounts request hub (\<lambda>_ hub.
       with_body (Decode_account (Lib_decode lib)) request hub (\<lambda>body.
         case Cloud_CreateAccount (Env_rand env 0) (Env_now env 2) (Hub_scope cfg) body (Hub_cloud hub) of
           (Inl e, st) \<Rightarrow> (http_error (if e = ErrInvalidCloudInventory then 400 else 500), hub\<lparr>Hub_cloud := st\<rparr>)
         | (Inr account, st) \<Rightarrow> (writeJSON 201 (CloudAccountBody account), hub\<lparr>Hub_cloud := st\<rparr>)))"

definition handleListCloudAccounts :: "HubConfig \<Rightarrow> Env \<Rightarrow> Hub \<Rightarrow> Reply" where
  "handleListCloudAccounts cfg env hub =
     (case Cloud_ListAccounts (Env_sort_accounts env) (Env_cloud_accounts env (CloudStore_accounts (Hub_cloud hub)))
             (Hub_scope cfg) of
        Inl _ \<Rightarrow> http_error 503 | Inr accounts \<Rightarrow> writeJSON 200 (CloudAccountsBody accounts))"

definition handleReconcileCloudInstances :: "Lib \<Rightarrow> HubConfig \<Rightarrow> Env \<Rightarrow> Request \<Rightarrow> Hub \<Rightarrow> Reply \<times> Hub" where
  "handleReconcileCloudInstances lib cfg env request hub =
     gated lib cfg env True PermissionManageCloudAccounts request hub (\<lambda>_ hub.
       with_body (Decode_instances (Lib_decode lib)) request hub (\<lambda>discovered.
         case Cloud_Reconcile (Lib_lower lib) (Lib_parse_ip lib) (Env_now env 3)
                (Inventory_List (Env_sort_hosts env) (Env_hosts env (Hub_hosts hub)) (Env_now env 2)) (Hub_scope cfg)
                (Request_PathValue request ''accountID'') discovered (Hub_cloud hub) of
           (Inl e, st) \<Rightarrow>
             (http_error (if e = ErrInvalidCloudInventory then 400 else if e = ErrCloudAccountNotFound then 404 else 500),
              hub\<lparr>Hub_cloud := st\<rparr>)
         | (Inr instances, st) \<Rightarrow> (writeJSON 200 (CloudInstancesBody instances), hub\<lparr>Hub_cloud := st\<rparr>)))"

definition handleListCloudInstances :: "HubConfig \<Rightarrow> Env \<Rightarrow> Hub \<Rightarrow> Reply" where
  "handleListCloudInstances cfg env hub =
     (case Cloud_ListInstances (Env_sort_instances env) (Env_cloud_instances env (CloudStore_instances (Hub_cloud hub)))
             (Hub_scope cfg) of
        Inl _ \<Rightarrow> http_error 503 | Inr instances \<Rightarrow> writeJSON 200 (CloudInstancesBody instances))"

section \<open>Activity and audit\<close>

definition handleListActivityEvents :: "Lib \<Rightarrow> HubConfig \<Rightarrow> Env \<Rightarrow> Request \<Rightarrow> Hub \<Rightarrow> Reply \<times> Hub" where
  "handleListActivityEvents lib cfg env request hub =
     gated lib cfg env True PermissionViewActivity request hub (\<lambda>_ hub.
       case query_int lib request ''limit'' 100 of
         None \<Rightarrow> (http_error 400, hub)
       | Some limit \<Rightarrow>
           (case Activity_List (Env_sort_activity env) (Env_job_events env (JobStore_events (Hub_jobs hub)))
                   (Env_alert_events env) (Hub_jobs hub) (Hub_alerts hub) (Hub_scope cfg) limit (Hub_activity hub) of
              Inl e \<Rightarrow> (http_error (if e = ErrInvalidActivity then 400 else 503), hub)
            | Inr events \<Rightarrow> (writeJSON 200 (ActivityBody events), hub)))"

definition handleListAuditTrail :: "Lib \<Rightarrow> HubConfig \<Rightarrow> Env \<Rightarrow> Request \<Rightarrow> Hub \<Rightarrow> Reply \<times> Hub" where
  "handleListAuditTrail lib cfg env request hub =
     gated lib cfg env True PermissionViewAuditEvents request hub (\<lambda>_ hub.
       case (query_int lib request ''limit'' 100, query_time lib request ''since'' 0, query_time lib request ''until'' 0) of
         (Some limit, Some since, Some until) \<Rightarrow>
           (case Audit_List (Env_sort_audit env) (Hub_scope cfg)
                   \<lparr>AuditFilter_ActorType = Request_Query request ''actor_type'',
                    AuditFilter_ResourceType = Request_Query request ''resource_type'',
                    AuditFilter_Outcome = Request_Query request ''outcome'', AuditFilter_Since = since,
                    AuditFilter_Until = until\<rparr> limit (Hub_audit hub) of
              Inl e \<Rightarrow> (http_error (if e = ErrInvalidQuery then 400 else 500), hub)
            | Inr events \<Rightarrow> (writeJSON 200 (AuditBody events), hub))
       | _ \<Rightarrow> (http_error 400, hub))"

end
