(* ===== verification/Server_Accounts.thy ===== *)
theory Server_Accounts
  imports Server_Handlers
begin

text \<open>
  The handlers of \<open>internal/server\<close> for identity, OIDC login, sessions, site roles and service
  accounts. Texts that are not ASCII are written as the bytes of their UTF-8 encoding.
\<close>

definition u_umlaut :: string where "u_umlaut = [CHR 0xC3, CHR 0xBC]"
definition dotless_i :: string where "dotless_i = [CHR 0xC4, CHR 0xB1]"
definition s_cedilla :: string where "s_cedilla = [CHR 0xC5, CHR 0x9F]"

section \<open>Identity\<close>

definition handleBootstrap :: "Lib \<Rightarrow> HubConfig \<Rightarrow> Env \<Rightarrow> Request \<Rightarrow> Hub \<Rightarrow> Reply \<times> Hub" where
  "handleBootstrap lib cfg env request hub =
     with_body (Decode_bootstrap (Lib_decode lib)) request hub (\<lambda>(secret, email, password).
       if secret \<noteq> Hub_bootstrapSecret cfg then (http_error 401, hub)
       else case Bootstrap (Lib_crypto lib) (identity_service cfg env) (Env_identity env) DefaultOrganizationID email password
                   (Hub_identity hub) of
           (Inl e, st) \<Rightarrow> (http_error (if e = ErrAlreadyBootstrapped then 409 else 500), hub\<lparr>Hub_identity := st\<rparr>)
         | (Inr (_, enrollment), st) \<Rightarrow>
             (writeJSON 201 (EnrolledBody (TOTPEnrollment_ProvisioningURI enrollment) (TOTPEnrollment_RecoveryCodes enrollment)),
              hub\<lparr>Hub_identity := st\<rparr>))"

definition invite_grants :: "InviteRequest \<Rightarrow> Role \<times> SiteRoleGrant list" where
  "invite_grants body =
     (if InviteRequest_Role body \<noteq> [] then
        (RoleOther [], map (\<lambda>siteID. \<lparr>SiteRoleGrant_SiteID = siteID, SiteRoleGrant_Role = InviteRequest_Role body\<rparr>)
                           (InviteRequest_SiteIDs body))
      else (RolePlatformAdmin, []))"

definition handleCreateInvite :: "Lib \<Rightarrow> HubConfig \<Rightarrow> Env \<Rightarrow> Request \<Rightarrow> Hub \<Rightarrow> Reply \<times> Hub" where
  "handleCreateInvite lib cfg env request hub =
     gated lib cfg env False PermissionManageUsers request hub (\<lambda>actor hub.
       with_body (Decode_invite (Lib_decode lib)) request hub (\<lambda>body.
         let createdBy = (if actor \<noteq> [] then actor else ''admin'');
             (role, grants) = invite_grants body;
             identityType = (if InviteRequest_IdentityType body = ''oidc'' then IdentityTypeOIDC else IdentityTypeLocal) in
         case CreateInvite (Lib_crypto lib) (Env_identity env) createdBy DefaultOrganizationID (InviteRequest_Email body)
                role grants identityType (Hub_identity hub) of
           (Inl e, st) \<Rightarrow> (http_error (if e = ErrInvalidInviteRole then 400 else 500), hub\<lparr>Hub_identity := st\<rparr>)
         | (Inr (invite, token), st) \<Rightarrow>
             (writeJSON 201 (InviteBody (Invite_Email invite) token),
              record_activity cfg env SourceIdentity (Invite_ID invite) ''invite_created'' createdBy
                (Invite_Email invite @ '' davet edildi'') (hub\<lparr>Hub_identity := st\<rparr>))))"

definition handleConsumeInvite :: "Lib \<Rightarrow> HubConfig \<Rightarrow> Env \<Rightarrow> Request \<Rightarrow> Hub \<Rightarrow> Reply \<times> Hub" where
  "handleConsumeInvite lib cfg env request hub =
     (case Allow (Env_now env 0) (sourceIP request) (Hub_inviteLimiter hub) of
        (allowed, limiter) \<Rightarrow>
          let hub1 = hub\<lparr>Hub_inviteLimiter := limiter\<rparr> in
          if \<not> allowed then (http_error 429, hub1)
          else with_body (Decode_password (Lib_decode lib)) request hub1 (\<lambda>password.
            case Identity_ConsumeInvite (Lib_crypto lib) (identity_service cfg env) (Env_identity env)
                   (Request_PathValue request ''token'') password (Hub_identity hub1, Hub_memberships hub1) of
              (res, (st, roles)) \<Rightarrow>
                let hub2 = hub1\<lparr>Hub_identity := st, Hub_memberships := roles\<rparr> in
                (case res of
                   Inl e \<Rightarrow> (http_error (if e = ErrInviteNotFound then 404 else if e = ErrInviteExpired then 409
                                          else if e = ErrInviteWrongIdentityType then 403 else 500), hub2)
                 | Inr (user, enrollment) \<Rightarrow>
                     (writeJSON 201 (ConsumedBody (User_ID user) (TOTPEnrollment_ProvisioningURI enrollment)), hub2))))"

definition handleConfirmTOTP :: "Lib \<Rightarrow> HubConfig \<Rightarrow> Env \<Rightarrow> Request \<Rightarrow> Hub \<Rightarrow> Reply \<times> Hub" where
  "handleConfirmTOTP lib cfg env request hub =
     (case Allow (Env_now env 0) (sourceIP request) (Hub_confirmLimiter hub) of
        (allowed, limiter) \<Rightarrow>
          let hub1 = hub\<lparr>Hub_confirmLimiter := limiter\<rparr> in
          if \<not> allowed then (http_error 429, hub1)
          else with_body (Decode_code (Lib_decode lib)) request hub1 (\<lambda>code.
            case ConfirmTOTP (Lib_crypto lib) (identity_service cfg env) (Env_identity env)
                   (Request_PathValue request ''userID'') (\<lambda>_. code) (Env_now env 1) (Hub_identity hub1) of
              (Inl e, st) \<Rightarrow>
                (http_error (if e = ErrInvalidTOTPCode then 400 else if e = ErrTOTPAlreadyConfirmed then 409 else 500),
                 hub1\<lparr>Hub_identity := st\<rparr>)
            | (Inr enrollment, st) \<Rightarrow>
                (writeJSON 200 (EnrolledBody (TOTPEnrollment_ProvisioningURI enrollment) (TOTPEnrollment_RecoveryCodes enrollment)),
                 hub1\<lparr>Hub_identity := st\<rparr>)))"

definition user_payload :: "User \<Rightarrow> SiteMembership list \<Rightarrow> UserPayload" where
  "user_payload user memberships =
     \<lparr>UserPayload_ID = User_ID user, UserPayload_Email = User_Email user, UserPayload_Role = User_Role user,
      UserPayload_DisabledAt = User_DisabledAt user, UserPayload_TOTPConfirmedAt = User_TOTPConfirmedAt user,
      UserPayload_SiteRoles = map (\<lambda>membership. (SiteMembership_SiteID membership, SiteMembership_Role membership)) memberships\<rparr>"

definition handleListUsers :: "Lib \<Rightarrow> HubConfig \<Rightarrow> Env \<Rightarrow> Request \<Rightarrow> Hub \<Rightarrow> Reply \<times> Hub" where
  "handleListUsers lib cfg env request hub =
     gated lib cfg env False PermissionManageUsers request hub (\<lambda>_ hub.
       let users = UsersForOrganization (Env_sort_users env) (Env_users env (IdentityStore_usersByID (Hub_identity hub)))
                     (Scope_OrganizationID (Hub_scope cfg)) in
       (writeJSON 200 (UsersBody (map (\<lambda>user.
          user_payload user (MembershipsForUser (Env_memberships env (Hub_memberships hub)) (User_ID user))) users)), hub))"

section \<open>OIDC\<close>

definition settings_of :: "OIDCConfiguration \<Rightarrow> string \<Rightarrow> OIDCSettings" where
  "settings_of config secret =
     \<lparr>OIDC_DiscoveryURL = OIDCConfiguration_DiscoveryURL config, OIDC_Issuer = OIDCConfiguration_Issuer config,
      OIDC_ClientID = OIDCConfiguration_ClientID config, OIDC_ClientSecret = secret,
      OIDC_RedirectURL = OIDCConfiguration_RedirectURL config\<rparr>"

text \<open>The flow cookie holds the JSON of the flow in base64url without padding.\<close>

definition flow_cookie :: "Request \<Rightarrow> string \<Rightarrow> int \<Rightarrow> Cookie" where
  "flow_cookie request v age =
     \<lparr>Cookie_Name = oidcFlowCookieName, Cookie_Value = v, Cookie_Path = ''/api/v1/oidc'', Cookie_HttpOnly = True,
      Cookie_Secure = is_tls request, Cookie_MaxAge = age\<rparr>"

definition setOIDCFlowCookie :: "Lib \<Rightarrow> Request \<Rightarrow> OIDCFlow \<Rightarrow> Cookie list" where
  "setOIDCFlowCookie lib request flow =
     [flow_cookie request (b64_raw_encode b64url_digit (Lib_encode_flow lib flow)) 600]"

definition readAndClearOIDCFlowCookie :: "Lib \<Rightarrow> Request \<Rightarrow> Cookie list \<times> OIDCFlow option" where
  "readAndClearOIDCFlowCookie lib request =
     (case Request_Cookie request oidcFlowCookieName of
        None \<Rightarrow> ([], None)
      | Some v \<Rightarrow>
          if v = [] then ([], None)
          else ([flow_cookie request [] (-1)],
            (case b64_raw_decode b64url_val v of
               None \<Rightarrow> None
             | Some decoded \<Rightarrow> Decode_flow (Lib_decode lib) decoded)))"

definition oidcConfigurationResponse :: "OIDCConfiguration \<Rightarrow> ProviderPayload" where
  "oidcConfigurationResponse config =
     \<lparr>ProviderPayload_DiscoveryURL = OIDCConfiguration_DiscoveryURL config, ProviderPayload_Issuer = OIDCConfiguration_Issuer config,
      ProviderPayload_ClientID = OIDCConfiguration_ClientID config, ProviderPayload_RedirectURL = OIDCConfiguration_RedirectURL config,
      ProviderPayload_UpdatedAt = OIDCConfiguration_UpdatedAt config, ProviderPayload_UpdatedBy = OIDCConfiguration_UpdatedBy config\<rparr>"

definition handleSetOIDCConfiguration :: "Lib \<Rightarrow> HubConfig \<Rightarrow> Env \<Rightarrow> Request \<Rightarrow> Hub \<Rightarrow> Reply \<times> Hub" where
  "handleSetOIDCConfiguration lib cfg env request hub =
     gated lib cfg env False PermissionManageOrgSecurity request hub (\<lambda>actor hub.
       with_body (Decode_oidc (Lib_decode lib)) request hub (\<lambda>body.
         case SetOIDCConfiguration (Lib_crypto lib) (identity_service cfg env) (Env_identity env)
                (Scope_OrganizationID (Hub_scope cfg)) (OIDCRequest_DiscoveryURL body) (OIDCRequest_Issuer body)
                (OIDCRequest_ClientID body) (OIDCRequest_ClientSecret body) (OIDCRequest_RedirectURL body) actor
                (Hub_identity hub) of
           (Inl _, st) \<Rightarrow> (http_error 500, hub\<lparr>Hub_identity := st\<rparr>)
         | (Inr config, st) \<Rightarrow> (writeJSON 200 (ProviderBody (oidcConfigurationResponse config)), hub\<lparr>Hub_identity := st\<rparr>)))"

definition handleGetOIDCConfiguration :: "Lib \<Rightarrow> HubConfig \<Rightarrow> Env \<Rightarrow> Request \<Rightarrow> Hub \<Rightarrow> Reply \<times> Hub" where
  "handleGetOIDCConfiguration lib cfg env request hub =
     gated lib cfg env False PermissionManageOrgSecurity request hub (\<lambda>_ hub.
       case Identity_OIDCConfiguration (Scope_OrganizationID (Hub_scope cfg)) (Hub_identity hub) of
         Inl e \<Rightarrow> (http_error (if e = ErrOIDCNotConfigured then 404 else 500), hub)
       | Inr config \<Rightarrow> (writeJSON 200 (ProviderBody (oidcConfigurationResponse config)), hub))"

definition redirect :: "string \<Rightarrow> Reply" where
  "redirect url =
     \<lparr>Reply_Status = 302, Reply_Cookies = [], Reply_Headers = [(''Location'', url)], Reply_Payload = RedirectBody url\<rparr>"

definition handleOIDCLogin :: "Lib \<Rightarrow> HubConfig \<Rightarrow> Env \<Rightarrow> Request \<Rightarrow> Hub \<Rightarrow> Reply" where
  "handleOIDCLogin lib cfg env request hub =
     (case OIDCConfigurationWithSecret (Lib_crypto lib) (identity_service cfg env) (Scope_OrganizationID (Hub_scope cfg))
             (Hub_identity hub) of
        Inl e \<Rightarrow> http_error (if e = ErrOIDCNotConfigured then 404 else 500)
      | Inr (config, secret) \<Rightarrow>
          (case NewProvider (Lib_oidc lib) (settings_of config secret) of
             Inl _ \<Rightarrow> http_error 502
           | Inr provider \<Rightarrow>
               (case NewFlow (Lib_oidc lib) (Env_rand env 0) (Env_rand env 1) (Env_rand env 2) of
                  Inl _ \<Rightarrow> http_error 500
                | Inr flow \<Rightarrow>
                    with_cookies (setOIDCFlowCookie lib request flow) (redirect (AuthCodeURL (Lib_oidc lib) provider flow)))))"

text \<open>\<open>new_session\<close> of both login handlers: \<open>sessions.Service.Create\<close> on the hub.\<close>

definition create_session :: "Lib \<Rightarrow> Env \<Rightarrow> User \<Rightarrow> Hub \<Rightarrow> (Session \<times> string \<times> string) res \<times> Hub" where
  "create_session lib env user hub =
     (case Sessions_Create (Crypto_sha256 (Lib_crypto lib)) (sessions_service hub) (Env_rand env 3) (Env_rand env 4)
             (Env_rand env 5) (Env_now env 3) (User_ID user) (User_OrganizationID user) (Hub_sessions hub) of
        (res, st) \<Rightarrow> (res, hub\<lparr>Hub_sessions := st\<rparr>))"

definition callback_login ::
  "Lib \<Rightarrow> HubConfig \<Rightarrow> Env \<Rightarrow> Request \<Rightarrow> OIDCConfiguration \<Rightarrow> OIDCClaims \<Rightarrow> Hub \<Rightarrow> Reply \<times> Hub" where
  "callback_login lib cfg env request config claims hub =
     (case LoginOrLinkOIDCUser (identity_service cfg env) (Env_identity env)
             (Env_invites1 env (IdentityStore_invites (Hub_identity hub)))
             (Env_invites2 env (IdentityStore_invites (Hub_identity hub))) (Scope_OrganizationID (Hub_scope cfg))
             (OIDCConfiguration_Issuer config) (Claims_Subject claims) (Claims_Email claims)
             (Hub_identity hub, Hub_memberships hub) of
        (res, (st, roles)) \<Rightarrow>
          let hub1 = hub\<lparr>Hub_identity := st, Hub_memberships := roles\<rparr> in
          (case res of
             Inl e \<Rightarrow> (http_error (if e = ErrInviteNotFound \<or> e = ErrInviteExpired \<or> e = ErrInviteWrongIdentityType
                                    then 403 else 500), hub1)
           | Inr user \<Rightarrow>
               (case create_session lib env user hub1 of
                  (Inl _, hub2) \<Rightarrow> (http_error 500, hub2)
                | (Inr (_, token, csrf), hub2) \<Rightarrow>
                    (with_cookies (setSessionCookies request token csrf) (redirect ''/''),
                     record_activity cfg env SourceIdentity (User_ID user) ''oidc_login'' (User_ID user)
                       (User_Email user @ '' OIDC ile giri'' @ s_cedilla @ '' yapt'' @ dotless_i) hub2))))"

definition handleOIDCCallback :: "Lib \<Rightarrow> HubConfig \<Rightarrow> Env \<Rightarrow> Request \<Rightarrow> Hub \<Rightarrow> Reply \<times> Hub" where
  "handleOIDCCallback lib cfg env request hub =
     (let (cleared, found) = readAndClearOIDCFlowCookie lib request in
      case found of
        None \<Rightarrow> (with_cookies cleared (http_error 400), hub)
      | Some flow \<Rightarrow>
          if Request_Query request ''state'' \<noteq> Flow_State flow then (with_cookies cleared (http_error 400), hub)
          else if Request_Query request ''code'' = [] then (with_cookies cleared (http_error 400), hub)
          else (case OIDCConfigurationWithSecret (Lib_crypto lib) (identity_service cfg env)
                       (Scope_OrganizationID (Hub_scope cfg)) (Hub_identity hub) of
              Inl _ \<Rightarrow> (with_cookies cleared (http_error 500), hub)
            | Inr (config, secret) \<Rightarrow>
                (case NewProvider (Lib_oidc lib) (settings_of config secret) of
                   Inl _ \<Rightarrow> (with_cookies cleared (http_error 502), hub)
                 | Inr provider \<Rightarrow>
                     (case Exchange (Lib_oidc lib) provider (Request_Query request ''code'') flow of
                        Inl _ \<Rightarrow> (with_cookies cleared (http_error 401), hub)
                      | Inr claims \<Rightarrow>
                          (case callback_login lib cfg env request config claims hub of
                             (reply, hub') \<Rightarrow> (with_cookies cleared reply, hub'))))))"

section \<open>Sessions\<close>

definition session_payload :: "User \<Rightarrow> string \<Rightarrow> Session \<Rightarrow> SessionPayload" where
  "session_payload user csrfToken session =
     \<lparr>SessionPayload_UserID = User_ID user, SessionPayload_Email = User_Email user, SessionPayload_Role = User_Role user,
      SessionPayload_CSRFToken = csrfToken, SessionPayload_ExpiresAt = Session_AbsoluteExpiresAt session\<rparr>"

definition handleLogin :: "Lib \<Rightarrow> HubConfig \<Rightarrow> Env \<Rightarrow> Request \<Rightarrow> Hub \<Rightarrow> Reply \<times> Hub" where
  "handleLogin lib cfg env request hub =
     (case Allow (Env_now env 0) (sourceIP request) (Hub_loginLimiter hub) of
        (allowed, limiter) \<Rightarrow>
          let hub1 = hub\<lparr>Hub_loginLimiter := limiter\<rparr> in
          if \<not> allowed then (http_error 429, hub1)
          else with_body (Decode_login (Lib_decode lib)) request hub1 (\<lambda>body.
            case (if Login_RecoveryCode body \<noteq> [] then
                    VerifyCredentialsWithRecoveryCode (Lib_crypto lib) DefaultOrganizationID (Login_Email body)
                      (Login_Password body) (Login_RecoveryCode body) (Hub_identity hub1)
                  else (VerifyCredentials (Lib_crypto lib) (identity_service cfg env) (Env_now env 1) DefaultOrganizationID
                          (Login_Email body) (Login_Password body) (Login_TOTPCode body) (Hub_identity hub1),
                        Hub_identity hub1)) of
              (Inl _, st) \<Rightarrow> (http_error 401, hub1\<lparr>Hub_identity := st\<rparr>)
            | (Inr user, st) \<Rightarrow>
                (case create_session lib env user (hub1\<lparr>Hub_identity := st\<rparr>) of
                   (Inl _, hub2) \<Rightarrow> (http_error 500, hub2)
                 | (Inr (session, token, csrf), hub2) \<Rightarrow>
                     (with_cookies (setSessionCookies request token csrf)
                        (writeJSON 201 (SessionBody (session_payload user csrf session))), hub2))))"

definition handleWhoAmI :: "Lib \<Rightarrow> Env \<Rightarrow> Request \<Rightarrow> Hub \<Rightarrow> Reply \<times> Hub" where
  "handleWhoAmI lib env request hub =
     (case authenticateSession lib env request hub of
        (Inl reply, hub') \<Rightarrow> (reply, hub')
      | (Inr (session, _), hub') \<Rightarrow>
          (case UserByID (Session_UserID session) (Hub_identity hub') of
             Inl _ \<Rightarrow> (http_error 500, hub')
           | Inr user \<Rightarrow>
               (writeJSON 200 (SessionBody (session_payload user (Session_CSRFToken session) session)), hub')))"

definition handleLogout :: "Lib \<Rightarrow> Env \<Rightarrow> Request \<Rightarrow> Hub \<Rightarrow> Reply \<times> Hub" where
  "handleLogout lib env request hub =
     (case authenticateSession lib env request hub of
        (Inl reply, hub') \<Rightarrow> (reply, hub')
      | (Inr (session, token), hub') \<Rightarrow>
          if \<not> matching_csrf request session then (http_error 403, hub')
          else (case Sessions_Revoke (Crypto_sha256 (Lib_crypto lib)) (Env_now env 1) token (Hub_sessions hub') of
              (Inl _, st) \<Rightarrow> (http_error 500, hub'\<lparr>Hub_sessions := st\<rparr>)
            | (Inr _, st) \<Rightarrow> (with_cookies (clearSessionCookies request) no_content, hub'\<lparr>Hub_sessions := st\<rparr>)))"

definition handleRevokeUserSessions :: "Lib \<Rightarrow> HubConfig \<Rightarrow> Env \<Rightarrow> Request \<Rightarrow> Hub \<Rightarrow> Reply \<times> Hub" where
  "handleRevokeUserSessions lib cfg env request hub =
     gated lib cfg env False PermissionManageUsers request hub (\<lambda>_ hub.
       (no_content, hub\<lparr>Hub_sessions := RevokeAllForUser (Request_PathValue request ''userID'') (Env_now env 2) (Hub_sessions hub)\<rparr>))"

definition handleRevokeAllSessions :: "Lib \<Rightarrow> HubConfig \<Rightarrow> Env \<Rightarrow> Request \<Rightarrow> Hub \<Rightarrow> Reply \<times> Hub" where
  "handleRevokeAllSessions lib cfg env request hub =
     gated lib cfg env False PermissionManageUsers request hub (\<lambda>_ hub.
       (no_content, hub\<lparr>Hub_sessions := RevokeAllForOrganization DefaultOrganizationID (Env_now env 2) (Hub_sessions hub)\<rparr>))"

section \<open>Site roles\<close>

definition handleAssignSiteRole :: "Lib \<Rightarrow> HubConfig \<Rightarrow> Env \<Rightarrow> Request \<Rightarrow> Hub \<Rightarrow> Reply \<times> Hub" where
  "handleAssignSiteRole lib cfg env request hub =
     gated lib cfg env False PermissionManageUsers request hub (\<lambda>actor hub.
       with_body (Decode_membership (Lib_decode lib)) request hub (\<lambda>(userID, role).
         case AssignRole (Env_rand env 0) (Env_now env 2) userID (Scope_OrganizationID (Hub_scope cfg))
                (Request_PathValue request ''siteID'') (site_role role) (Hub_memberships hub) of
           (Inl _, st) \<Rightarrow> (http_error 500, hub\<lparr>Hub_memberships := st\<rparr>)
         | (Inr _, st) \<Rightarrow>
             (no_content, record_activity cfg env SourceSiteRole userID ''assigned'' actor
                (role @ '' rol'' @ u_umlaut @ '' atand'' @ dotless_i) (hub\<lparr>Hub_memberships := st\<rparr>))))"

definition handleRevokeSiteRole :: "Lib \<Rightarrow> HubConfig \<Rightarrow> Env \<Rightarrow> Request \<Rightarrow> Hub \<Rightarrow> Reply \<times> Hub" where
  "handleRevokeSiteRole lib cfg env request hub =
     gated lib cfg env False PermissionManageUsers request hub (\<lambda>actor hub.
       let userID = Request_PathValue request ''userID'' in
       (no_content, record_activity cfg env SourceSiteRole userID ''revoked'' actor
          (''site rol'' @ u_umlaut @ '' kald'' @ dotless_i @ ''r'' @ dotless_i @ ''ld'' @ dotless_i)
          (hub\<lparr>Hub_memberships := RevokeRole userID (Request_PathValue request ''siteID'') (Hub_memberships hub)\<rparr>)))"

section \<open>Service accounts\<close>

definition handleCreateServiceAccount :: "Lib \<Rightarrow> HubConfig \<Rightarrow> Env \<Rightarrow> Request \<Rightarrow> Hub \<Rightarrow> Reply \<times> Hub" where
  "handleCreateServiceAccount lib cfg env request hub =
     gated lib cfg env False PermissionManageServiceAccounts request hub (\<lambda>actor hub.
       if Request_PathValue request ''siteID'' \<noteq> Scope_SiteID (Hub_scope cfg) then (http_error 404, hub)
       else with_body (Decode_service_account (Lib_decode lib)) request hub (\<lambda>(nm, role, days).
         case CreateAccount (Lib_mac lib) (Hub_pepper cfg) (Env_rand env 0) (Env_rand env 1) (Env_rand env 2) (Env_now env 2)
                (Env_now env 3) (Scope_OrganizationID (Hub_scope cfg)) (Request_PathValue request ''siteID'') nm
                (site_role role) days (Hub_accounts hub) of
           (Inl e, st) \<Rightarrow>
             (http_error (if e = ErrInvalidRole \<or> e = ErrInvalidExpiry then 400 else 500), hub\<lparr>Hub_accounts := st\<rparr>)
         | (Inr (account, token), st) \<Rightarrow>
             (writeJSON 201 (AccountBody (ServiceAccount_ID account) (ServiceAccount_Name account) (ServiceAccount_Role account) token),
              record_activity cfg env SourceServiceAccount (ServiceAccount_ID account) ''created'' actor
                (ServiceAccount_Name account @ '' servis hesab'' @ dotless_i @ '' olu'' @ s_cedilla @ ''turuldu (''
                 @ site_role_text (ServiceAccount_Role account) @ '')'') (hub\<lparr>Hub_accounts := st\<rparr>))))"

definition account_payload :: "AccountSummary \<Rightarrow> AccountPayload" where
  "account_payload summary =
     (let account = AccountSummary_ServiceAccount summary in
      \<lparr>AccountPayload_ID = ServiceAccount_ID account, AccountPayload_Name = ServiceAccount_Name account,
       AccountPayload_Role = ServiceAccount_Role account, AccountPayload_CreatedAt = ServiceAccount_CreatedAt account,
       AccountPayload_DisabledAt = ServiceAccount_DisabledAt account,
       AccountPayload_ActiveToken =
         map_option (\<lambda>token. (Token_ID token, Token_ExpiresAt token, Token_LastUsedAt token)) (AccountSummary_ActiveToken summary)\<rparr>)"

definition handleListServiceAccounts :: "Lib \<Rightarrow> HubConfig \<Rightarrow> Env \<Rightarrow> Request \<Rightarrow> Hub \<Rightarrow> Reply \<times> Hub" where
  "handleListServiceAccounts lib cfg env request hub =
     gated lib cfg env False PermissionManageServiceAccounts request hub (\<lambda>_ hub.
       if Request_PathValue request ''siteID'' \<noteq> Scope_SiteID (Hub_scope cfg) then (http_error 404, hub)
       else (writeJSON 200 (SummariesBody (map account_payload
               (ListForSite (Env_accounts env (SAStore_accounts (Hub_accounts hub)))
                 (Env_tokens env (SAStore_tokens (Hub_accounts hub))) (Request_PathValue request ''siteID'') (Hub_accounts hub)))), hub))"

definition handleRotateServiceAccountToken :: "Lib \<Rightarrow> HubConfig \<Rightarrow> Env \<Rightarrow> Request \<Rightarrow> Hub \<Rightarrow> Reply \<times> Hub" where
  "handleRotateServiceAccountToken lib cfg env request hub =
     gated lib cfg env False PermissionManageServiceAccounts request hub (\<lambda>actor hub.
       with_body (Decode_expiry (Lib_decode lib)) request hub (\<lambda>days.
         let accountID = Request_PathValue request ''accountID'' in
         case RotateToken (Lib_mac lib) (Hub_pepper cfg) (Env_rand env 1) (Env_rand env 2) (Env_now env 2) (Env_now env 3)
                (Scope_SiteID (Hub_scope cfg)) accountID days (Hub_accounts hub) of
           (Inl e, st) \<Rightarrow>
             (http_error (if e = ErrAccountNotFound then 404 else if e = ErrInvalidExpiry then 400 else 500),
              hub\<lparr>Hub_accounts := st\<rparr>)
         | (Inr token, st) \<Rightarrow>
             (writeJSON 201 (TokenBody token),
              record_activity cfg env SourceServiceAccount accountID ''token_rotated'' actor
                (''servis hesab'' @ dotless_i @ '' token'' @ [CHR 0x27] @ dotless_i @ '' rotate edildi'') (hub\<lparr>Hub_accounts := st\<rparr>))))"

definition handleRevokeServiceAccountToken :: "Lib \<Rightarrow> HubConfig \<Rightarrow> Env \<Rightarrow> Request \<Rightarrow> Hub \<Rightarrow> Reply \<times> Hub" where
  "handleRevokeServiceAccountToken lib cfg env request hub =
     gated lib cfg env False PermissionManageServiceAccounts request hub (\<lambda>actor hub.
       let tokenID = Request_PathValue request ''tokenID'' in
       case RevokeToken (Env_now env 2) (Scope_SiteID (Hub_scope cfg)) tokenID (Hub_accounts hub) of
         (Inl e, st) \<Rightarrow> (http_error (if e = ErrSATokenNotFound then 404 else 500), hub\<lparr>Hub_accounts := st\<rparr>)
       | (Inr _, st) \<Rightarrow>
           (no_content, record_activity cfg env SourceServiceAccount tokenID ''token_revoked'' actor
              (''servis hesab'' @ dotless_i @ '' token'' @ [CHR 0x27] @ dotless_i @ '' iptal edildi'') (hub\<lparr>Hub_accounts := st\<rparr>)))"

definition handleDisableServiceAccount :: "Lib \<Rightarrow> HubConfig \<Rightarrow> Env \<Rightarrow> Request \<Rightarrow> Hub \<Rightarrow> Reply \<times> Hub" where
  "handleDisableServiceAccount lib cfg env request hub =
     gated lib cfg env False PermissionManageServiceAccounts request hub (\<lambda>actor hub.
       let accountID = Request_PathValue request ''accountID'' in
       case DisableAccount (Env_now env 2) (Env_now env 3) (Scope_SiteID (Hub_scope cfg)) accountID (Hub_accounts hub) of
         (Inl e, st) \<Rightarrow> (http_error (if e = ErrAccountNotFound then 404 else 500), hub\<lparr>Hub_accounts := st\<rparr>)
       | (Inr _, st) \<Rightarrow>
           (no_content, record_activity cfg env SourceServiceAccount accountID ''disabled'' actor
              (''servis hesab'' @ dotless_i @ '' devre d'' @ dotless_i @ s_cedilla @ dotless_i @ '' b'' @ dotless_i @ ''rak''
               @ dotless_i @ ''ld'' @ dotless_i) (hub\<lparr>Hub_accounts := st\<rparr>)))"

end
