(* ===== verification/Server_Routes.thy ===== *)
theory Server_Routes
  imports Server_Operations Server_Accounts
begin

text \<open>
  \<open>NewHandler\<close>: the table of routes, the dispatch to a handler, \<open>registerAudited\<close>, and the
  CORS middleware around it. \<open>serve\<close> is the whole of one request. A path is matched segment by
  segment as \<open>http.ServeMux\<close> does; a pattern for GET also takes HEAD. Static pages
  (\<open>internal/webui\<close>) are the reply \<open>WebPage\<close>.
\<close>

section \<open>The table of routes\<close>

datatype Route =
    R_Health | R_Configuration | R_Enroll | R_Renew | R_ListInstances | R_InventoryReport
  | R_TelemetryHistory | R_FleetAverage | R_TelemetryReport | R_ListServices | R_ServiceReport
  | R_SearchLogs | R_StreamLogs | R_LogIngest
  | R_CreateJob | R_ListJobs | R_JobEvents | R_ClaimJob | R_ReportJobEvent
  | R_ListAlertRules | R_CreateAlertRule | R_ListMaintenance | R_CreateMaintenance
  | R_ListIncidents | R_AlertEvents | R_Acknowledge
  | R_ListCloudAccounts | R_CreateCloudAccount | R_ListCloudInstances | R_Reconcile
  | R_Activity | R_Audit
  | R_Bootstrap | R_ListUsers | R_CreateInvite | R_ConsumeInvite | R_ConfirmTOTP
  | R_SetOIDC | R_GetOIDC | R_OIDCLogin | R_OIDCCallback
  | R_Login | R_WhoAmI | R_Logout | R_RevokeUserSessions | R_RevokeAllSessions
  | R_AssignRole | R_RevokeRole
  | R_CreateAccount | R_ListAccounts | R_Rotate | R_RevokeToken | R_DisableAccount

record RouteEntry =
  Entry_Route :: Route
  Entry_Method :: string
  Entry_Pattern :: string
  Entry_Resource :: string
  Entry_Params :: "string list"

definition entry :: "Route \<Rightarrow> string \<Rightarrow> string \<Rightarrow> string \<Rightarrow> string list \<Rightarrow> RouteEntry" where
  "entry route method pat resource params =
     \<lparr>Entry_Route = route, Entry_Method = method, Entry_Pattern = pat, Entry_Resource = resource, Entry_Params = params\<rparr>"

definition route_table :: "RouteEntry list" where
  "route_table =
    [entry R_Health ''GET'' ''/api/v1/health'' ''health'' [],
     entry R_Configuration ''GET'' ''/api/v1/system/configuration'' ''system_configuration'' [],
     entry R_Enroll ''POST'' ''/api/v1/agents/enroll'' ''enrollment'' [],
     entry R_Renew ''POST'' ''/api/v1/agents/renew'' ''enrollment_renewal'' [],
     entry R_ListInstances ''GET'' ''/api/v1/instances'' ''inventory'' [],
     entry R_InventoryReport ''PUT'' ''/api/v1/agents/inventory'' ''inventory'' [],
     entry R_TelemetryHistory ''GET'' ''/api/v1/instances/{agentID}/telemetry'' ''telemetry'' [''agentID''],
     entry R_FleetAverage ''GET'' ''/api/v1/telemetry/fleet-average'' ''telemetry'' [],
     entry R_TelemetryReport ''POST'' ''/api/v1/agents/telemetry'' ''telemetry'' [],
     entry R_ListServices ''GET'' ''/api/v1/instances/{agentID}/services'' ''services'' [''agentID''],
     entry R_ServiceReport ''PUT'' ''/api/v1/agents/services'' ''services'' [],
     entry R_SearchLogs ''GET'' ''/api/v1/instances/{agentID}/logs'' ''logs'' [''agentID''],
     entry R_StreamLogs ''GET'' ''/api/v1/instances/{agentID}/logs/stream'' ''log_stream'' [''agentID''],
     entry R_LogIngest ''POST'' ''/api/v1/agents/logs'' ''logs'' [],
     entry R_CreateJob ''POST'' ''/api/v1/instances/{agentID}/jobs'' ''jobs'' [''agentID''],
     entry R_ListJobs ''GET'' ''/api/v1/instances/{agentID}/jobs'' ''jobs'' [''agentID''],
     entry R_JobEvents ''GET'' ''/api/v1/instances/{agentID}/jobs/{jobID}/events'' ''job_events'' [''agentID'', ''jobID''],
     entry R_ClaimJob ''GET'' ''/api/v1/agents/jobs/next'' ''jobs'' [],
     entry R_ReportJobEvent ''POST'' ''/api/v1/agents/jobs/{jobID}/events'' ''job_events'' [''jobID''],
     entry R_ListAlertRules ''GET'' ''/api/v1/alert-rules'' ''alert_rules'' [],
     entry R_CreateAlertRule ''POST'' ''/api/v1/alert-rules'' ''alert_rules'' [],
     entry R_ListMaintenance ''GET'' ''/api/v1/maintenance-windows'' ''maintenance_windows'' [],
     entry R_CreateMaintenance ''POST'' ''/api/v1/maintenance-windows'' ''maintenance_windows'' [],
     entry R_ListIncidents ''GET'' ''/api/v1/incidents'' ''incidents'' [],
     entry R_AlertEvents ''GET'' ''/api/v1/incidents/{incidentID}/events'' ''incident_events'' [''incidentID''],
     entry R_Acknowledge ''POST'' ''/api/v1/incidents/{incidentID}/acknowledge'' ''incidents'' [''incidentID''],
     entry R_ListCloudAccounts ''GET'' ''/api/v1/cloud/accounts'' ''cloud_accounts'' [],
     entry R_CreateCloudAccount ''POST'' ''/api/v1/cloud/accounts'' ''cloud_accounts'' [],
     entry R_ListCloudInstances ''GET'' ''/api/v1/cloud/instances'' ''cloud_instances'' [],
     entry R_Reconcile ''PUT'' ''/api/v1/cloud/accounts/{accountID}/instances'' ''cloud_instances'' [''accountID''],
     entry R_Activity ''GET'' ''/api/v1/activity/events'' ''activity_timeline'' [],
     entry R_Audit ''GET'' ''/api/v1/audit/events'' ''audit_trail'' [],
     entry R_Bootstrap ''POST'' ''/api/v1/bootstrap'' ''bootstrap'' [],
     entry R_ListUsers ''GET'' ''/api/v1/users'' ''users'' [],
     entry R_CreateInvite ''POST'' ''/api/v1/users/invites'' ''invites'' [],
     entry R_ConsumeInvite ''POST'' ''/api/v1/invites/{token}/consume'' ''invites'' [''token''],
     entry R_ConfirmTOTP ''POST'' ''/api/v1/users/{userID}/confirm-totp'' ''users'' [''userID''],
     entry R_SetOIDC ''PUT'' ''/api/v1/organization/oidc'' ''oidc_configuration'' [],
     entry R_GetOIDC ''GET'' ''/api/v1/organization/oidc'' ''oidc_configuration'' [],
     entry R_OIDCLogin ''GET'' ''/api/v1/oidc/login'' ''oidc_login'' [],
     entry R_OIDCCallback ''GET'' ''/api/v1/oidc/callback'' ''oidc_login'' [],
     entry R_Login ''POST'' ''/api/v1/sessions'' ''sessions'' [],
     entry R_WhoAmI ''GET'' ''/api/v1/session'' ''sessions'' [],
     entry R_Logout ''DELETE'' ''/api/v1/sessions'' ''sessions'' [],
     entry R_RevokeUserSessions ''DELETE'' ''/api/v1/users/{userID}/sessions'' ''sessions'' [''userID''],
     entry R_RevokeAllSessions ''DELETE'' ''/api/v1/sessions/all'' ''sessions'' [],
     entry R_AssignRole ''POST'' ''/api/v1/sites/{siteID}/memberships'' ''site_memberships'' [''siteID''],
     entry R_RevokeRole ''DELETE'' ''/api/v1/sites/{siteID}/memberships/{userID}'' ''site_memberships'' [''siteID'', ''userID''],
     entry R_CreateAccount ''POST'' ''/api/v1/sites/{siteID}/service-accounts'' ''service_accounts'' [''siteID''],
     entry R_ListAccounts ''GET'' ''/api/v1/sites/{siteID}/service-accounts'' ''service_accounts'' [''siteID''],
     entry R_Rotate ''POST'' ''/api/v1/service-accounts/{accountID}/rotate'' ''service_accounts'' [''accountID''],
     entry R_RevokeToken ''DELETE'' ''/api/v1/service-accounts/tokens/{tokenID}'' ''service_accounts'' [''tokenID''],
     entry R_DisableAccount ''DELETE'' ''/api/v1/service-accounts/{accountID}'' ''service_accounts'' [''accountID'']]"

definition identity_routes :: "Route set" where
  "identity_routes = {R_Audit, R_Bootstrap, R_ListUsers, R_CreateInvite, R_ConsumeInvite, R_ConfirmTOTP, R_SetOIDC, R_GetOIDC,
     R_OIDCLogin, R_OIDCCallback, R_Login, R_WhoAmI, R_Logout, R_RevokeUserSessions, R_RevokeAllSessions,
     R_AssignRole, R_RevokeRole}"

definition account_routes :: "Route set" where
  "account_routes = {R_CreateAccount, R_ListAccounts, R_Rotate, R_RevokeToken, R_DisableAccount}"

definition registered :: "HubConfig \<Rightarrow> Route \<Rightarrow> bool" where
  "registered cfg route \<longleftrightarrow>
     (if route = R_Audit then Hub_auditing cfg \<and> identity_enabled cfg
      else if route \<in> identity_routes then identity_enabled cfg
      else if route \<in> account_routes then accounts_enabled cfg
      else True)"

section \<open>Dispatch\<close>

definition wildcard :: "string \<Rightarrow> string option" where
  "wildcard seg = (if has_prefix seg ''{'' \<and> has_suffix seg ''}'' then Some (butlast (drop 1 seg)) else None)"

fun match_segments :: "string list \<Rightarrow> string list \<Rightarrow> (string \<times> string) list option" where
  "match_segments [] [] = Some []"
| "match_segments (p # ps) (s # ss) =
     (case wildcard p of
        Some nm \<Rightarrow> if s = [] then None else map_option ((#) (nm, s)) (match_segments ps ss)
      | None \<Rightarrow> if p = s then match_segments ps ss else None)"
| "match_segments _ _ = None"

definition path_value :: "(string \<times> string) list \<Rightarrow> string \<Rightarrow> string" where
  "path_value binds nm = (case map_of binds nm of None \<Rightarrow> [] | Some v \<Rightarrow> v)"

definition method_matches :: "string \<Rightarrow> Request \<Rightarrow> bool" where
  "method_matches method request \<longleftrightarrow>
     Request_Method request = method \<or> method = ''GET'' \<and> Request_Method request = ''HEAD''"

definition entry_match :: "RouteEntry \<Rightarrow> Request \<Rightarrow> (string \<times> string) list option" where
  "entry_match e request =
     (if method_matches (Entry_Method e) request
      then match_segments (split_on (CHR ''/'') (Entry_Pattern e)) (split_on (CHR ''/'') (Request_Path request))
      else None)"

definition dispatch :: "HubConfig \<Rightarrow> Request \<Rightarrow> (RouteEntry \<times> Request) option" where
  "dispatch cfg request =
     (case find (\<lambda>e. registered cfg (Entry_Route e) \<and> entry_match e request \<noteq> None) route_table of
        None \<Rightarrow> None
      | Some e \<Rightarrow>
          Some (e, request\<lparr>Request_PathValue := path_value (case entry_match e request of Some binds \<Rightarrow> binds | None \<Rightarrow> [])\<rparr>))"

definition handle :: "Lib \<Rightarrow> HubConfig \<Rightarrow> Env \<Rightarrow> ResponseWriter \<Rightarrow> Route \<Rightarrow> Request \<Rightarrow> Hub \<Rightarrow> Reply \<times> Hub" where
  "handle lib cfg env response route request hub =
     (case route of
        R_Health \<Rightarrow> (handleHealth, hub)
      | R_Configuration \<Rightarrow> (handleRuntimeConfiguration cfg, hub)
      | R_Enroll \<Rightarrow> handleEnroll lib cfg env request hub
      | R_Renew \<Rightarrow> handleRenew lib cfg env request hub
      | R_ListInstances \<Rightarrow> (handleListInstances cfg env hub, hub)
      | R_InventoryReport \<Rightarrow> handleInventoryReport lib cfg env request hub
      | R_TelemetryHistory \<Rightarrow> (handleTelemetryHistory lib cfg env request hub, hub)
      | R_FleetAverage \<Rightarrow> (handleFleetAverageTelemetry lib cfg env hub, hub)
      | R_TelemetryReport \<Rightarrow> handleTelemetryReport lib cfg env request hub
      | R_ListServices \<Rightarrow> (handleListServices lib cfg env request hub, hub)
      | R_ServiceReport \<Rightarrow> handleServiceReport lib cfg env request hub
      | R_SearchLogs \<Rightarrow> (handleSearchLogs lib cfg env request hub, hub)
      | R_StreamLogs \<Rightarrow> handleStreamLogs response cfg env request hub
      | R_LogIngest \<Rightarrow> handleLogIngest lib cfg env request hub
      | R_CreateJob \<Rightarrow> handleCreateJob lib cfg env request hub
      | R_ListJobs \<Rightarrow> (handleListJobs lib cfg env request hub, hub)
      | R_JobEvents \<Rightarrow> (handleJobEvents cfg request hub, hub)
      | R_ClaimJob \<Rightarrow> handleClaimJob lib cfg env request hub
      | R_ReportJobEvent \<Rightarrow> handleReportJobEvent lib cfg env request hub
      | R_ListAlertRules \<Rightarrow> (handleListAlertRules cfg env hub, hub)
      | R_CreateAlertRule \<Rightarrow> handleCreateAlertRule lib cfg env request hub
      | R_ListMaintenance \<Rightarrow> (handleListMaintenance cfg env hub, hub)
      | R_CreateMaintenance \<Rightarrow> handleCreateMaintenance lib cfg env request hub
      | R_ListIncidents \<Rightarrow> (handleListIncidents lib cfg env request hub, hub)
      | R_AlertEvents \<Rightarrow> (handleAlertEvents cfg request hub, hub)
      | R_Acknowledge \<Rightarrow> handleAcknowledgeIncident lib cfg env request hub
      | R_ListCloudAccounts \<Rightarrow> (handleListCloudAccounts cfg env hub, hub)
      | R_CreateCloudAccount \<Rightarrow> handleCreateCloudAccount lib cfg env request hub
      | R_ListCloudInstances \<Rightarrow> (handleListCloudInstances cfg env hub, hub)
      | R_Reconcile \<Rightarrow> handleReconcileCloudInstances lib cfg env request hub
      | R_Activity \<Rightarrow> handleListActivityEvents lib cfg env request hub
      | R_Audit \<Rightarrow> handleListAuditTrail lib cfg env request hub
      | R_Bootstrap \<Rightarrow> handleBootstrap lib cfg env request hub
      | R_ListUsers \<Rightarrow> handleListUsers lib cfg env request hub
      | R_CreateInvite \<Rightarrow> handleCreateInvite lib cfg env request hub
      | R_ConsumeInvite \<Rightarrow> handleConsumeInvite lib cfg env request hub
      | R_ConfirmTOTP \<Rightarrow> handleConfirmTOTP lib cfg env request hub
      | R_SetOIDC \<Rightarrow> handleSetOIDCConfiguration lib cfg env request hub
      | R_GetOIDC \<Rightarrow> handleGetOIDCConfiguration lib cfg env request hub
      | R_OIDCLogin \<Rightarrow> (handleOIDCLogin lib cfg env request hub, hub)
      | R_OIDCCallback \<Rightarrow> handleOIDCCallback lib cfg env request hub
      | R_Login \<Rightarrow> handleLogin lib cfg env request hub
      | R_WhoAmI \<Rightarrow> handleWhoAmI lib env request hub
      | R_Logout \<Rightarrow> handleLogout lib env request hub
      | R_RevokeUserSessions \<Rightarrow> handleRevokeUserSessions lib cfg env request hub
      | R_RevokeAllSessions \<Rightarrow> handleRevokeAllSessions lib cfg env request hub
      | R_AssignRole \<Rightarrow> handleAssignSiteRole lib cfg env request hub
      | R_RevokeRole \<Rightarrow> handleRevokeSiteRole lib cfg env request hub
      | R_CreateAccount \<Rightarrow> handleCreateServiceAccount lib cfg env request hub
      | R_ListAccounts \<Rightarrow> handleListServiceAccounts lib cfg env request hub
      | R_Rotate \<Rightarrow> handleRotateServiceAccountToken lib cfg env request hub
      | R_RevokeToken \<Rightarrow> handleRevokeServiceAccountToken lib cfg env request hub
      | R_DisableAccount \<Rightarrow> handleDisableServiceAccount lib cfg env request hub)"

section \<open>The audit record of a request\<close>

definition newCorrelationID :: "entropy \<Rightarrow> string res" where
  "newCorrelationID r = rand_hex 16 r"

definition deriveActor :: "Lib \<Rightarrow> Request \<Rightarrow> ActorType \<times> string" where
  "deriveActor lib request =
     (case Request_PeerCertificates request of
        Some (certificate # _) \<Rightarrow>
          (case Certificate_URIs certificate of
             uri # _ \<Rightarrow> (ActorAgent, Lib_url_text lib uri)
           | [] \<Rightarrow> (ActorAgent, Certificate_CommonName certificate))
      | _ \<Rightarrow>
          (case Request_Cookie request sessionCookieName of
             Some (c # cs) \<Rightarrow> (ActorHuman, hex_encode (Crypto_sha256 (Lib_crypto lib) (c # cs)))
           | _ \<Rightarrow>
               let header = Request_Header request ''Authorization'' in
               (case (if has_prefix header (''Bearer '' @ TokenPrefix) then ParseToken (drop (length ''Bearer '') header) else None) of
                  Some (tokenID, _) \<Rightarrow> (ActorServiceAccount, tokenID)
                | None \<Rightarrow> if header \<noteq> [] then (ActorLegacyToken, ''bearer'') else (ActorAnonymous, []))))"

definition resource_id :: "RouteEntry \<Rightarrow> Request \<Rightarrow> string" where
  "resource_id e request = join_with ''/'' (map (Request_PathValue request) (Entry_Params e))"

definition audit_event :: "Lib \<Rightarrow> HubConfig \<Rightarrow> RouteEntry \<Rightarrow> Request \<Rightarrow> string \<Rightarrow> nat \<Rightarrow> AuditEvent" where
  "audit_event lib cfg e request correlationID status =
     \<lparr>Audit_EventID = [], Audit_OccurredAt = 0, Audit_CorrelationID = correlationID,
      Audit_ActorType = fst (deriveActor lib request), Audit_ActorID = snd (deriveActor lib request),
      Audit_SessionOrTokenID = [], Audit_OrganizationID = Scope_OrganizationID (Hub_scope cfg),
      Audit_SiteID = Scope_SiteID (Hub_scope cfg), Audit_Action = Entry_Method e, Audit_Permission = [],
      Audit_ResourceType = Entry_Resource e, Audit_ResourceID = resource_id e request,
      Audit_Outcome = (if 400 \<le> status then OutcomeFailure else OutcomeSuccess),
      Audit_ErrorCode = (if 400 \<le> status then itoa (int status) else []),
      Audit_SourceIP = sourceIP request, Audit_UserAgent = Request_Header request ''User-Agent'', Audit_ChangeSummary = []\<rparr>"

definition registerAudited :: "Lib \<Rightarrow> HubConfig \<Rightarrow> Env \<Rightarrow> ResponseWriter \<Rightarrow> RouteEntry \<Rightarrow> Request \<Rightarrow> Hub \<Rightarrow> Reply \<times> Hub" where
  "registerAudited lib cfg env response e request hub =
     (if \<not> Hub_auditing cfg then handle lib cfg env response (Entry_Route e) request hub
      else case newCorrelationID (Env_rand env 8) of
        Inl _ \<Rightarrow> (http_error 500, hub)
      | Inr correlationID \<Rightarrow>
          (case handle lib cfg env (StatusRecorder response) (Entry_Route e) request hub of
             (reply, hub') \<Rightarrow>
               (reply, hub'\<lparr>Hub_audit := snd (Audit_Record (Env_rand env 9) (Env_now env 9)
                  (audit_event lib cfg e request correlationID (Reply_Status reply)) (Hub_audit hub'))\<rparr>)))"

section \<open>CORS and the whole request\<close>

definition newTrustedOrigins :: "string list \<Rightarrow> string set" where
  "newTrustedOrigins origins = set (filter (\<lambda>origin. origin \<noteq> []) origins)"

definition add_headers :: "(string \<times> string) list \<Rightarrow> Reply \<Rightarrow> Reply" where
  "add_headers headers reply = reply\<lparr>Reply_Headers := headers @ Reply_Headers reply\<rparr>"

definition corsMiddleware :: "string set \<Rightarrow> (Request \<Rightarrow> Hub \<Rightarrow> Reply \<times> Hub) \<Rightarrow> Request \<Rightarrow> Hub \<Rightarrow> Reply \<times> Hub" where
  "corsMiddleware trusted handler request hub =
     (let origin = Request_Header request ''Origin'';
          isPreflight = Request_Method request = ''OPTIONS'' \<and> Request_Header request ''Access-Control-Request-Method'' \<noteq> [];
          allowed = [(''Access-Control-Allow-Origin'', origin), (''Access-Control-Allow-Credentials'', ''true''),
                     (''Vary'', ''Origin'')] in
      if origin = [] then handler request hub
      else if origin \<notin> trusted then
        (if isPreflight then (http_error 403, hub) else handler request hub)
      else if isPreflight then
        (add_headers (allowed @ [(''Access-Control-Allow-Methods'', ''GET, POST, PUT, DELETE, OPTIONS''),
           (''Access-Control-Allow-Headers'', ''Content-Type, X-CSRF-Token, Authorization'')]) no_content, hub)
      else (case handler request hub of (reply, hub') \<Rightarrow> (add_headers allowed reply, hub')))"

definition route_request :: "Lib \<Rightarrow> HubConfig \<Rightarrow> Env \<Rightarrow> Request \<Rightarrow> Hub \<Rightarrow> Reply \<times> Hub" where
  "route_request lib cfg env request hub =
     (case dispatch cfg request of
        Some (e, request') \<Rightarrow> registerAudited lib cfg env ServerWriter e request' hub
      | None \<Rightarrow>
          if has_prefix (Request_Path request) ''/api/'' then (http_error 404, hub)
          else (writeJSON 200 (WebPage (Request_Path request)), hub))"

definition serve :: "Lib \<Rightarrow> HubConfig \<Rightarrow> Env \<Rightarrow> Request \<Rightarrow> Hub \<Rightarrow> Reply \<times> Hub" where
  "serve lib cfg env request hub =
     corsMiddleware (newTrustedOrigins (Hub_trustedOrigins cfg)) (route_request lib cfg env) request hub"

end
