(* ===== verification/Server_Steps.thy ===== *)
theory Server_Steps
  imports Server_Routes Jobs_Lifecycle Alerting_Lifecycle Identity_Lifecycle Serviceaccounts_Properties Logstream_Properties
begin

text \<open>
  A request of the hub is a few steps of the components behind it. \<open>hub_moves\<close> says so, one
  component a line: the hub is the product of the component machines and \<open>serve\<close> is simulated
  by them. From this every invariant of a component is an invariant of the hub, and what one
  machine promises for all its runs (\<open>revocation\<close>: a dead credential is never accepted again)
  holds for every sequence of requests: the locale \<open>revocation_view\<close> lifts it.
\<close>

named_theorems handler_moves

section \<open>Steps of the components, whatever the service around them\<close>

text \<open>
  The services of sessions and identity hold functions of the hub (is the user active, grant
  the roles), which differ from request to request; their steps quantify over them.
\<close>

definition session_move :: "Lib \<Rightarrow> SessionStore \<Rightarrow> SessionStore \<Rightarrow> bool" where
  "session_move lib st st' \<longleftrightarrow> (\<exists>service. session_step (Crypto_sha256 (Lib_crypto lib)) service st st')"

definition identity_move :: "Lib \<Rightarrow> IdentityStore \<Rightarrow> IdentityStore \<Rightarrow> bool" where
  "identity_move lib st st' \<longleftrightarrow>
     (\<exists>service :: MembershipStore IdentityService. identity_step (Lib_crypto lib) service st st')"

definition job_move :: "Lib \<Rightarrow> JobStore \<Rightarrow> JobStore \<Rightarrow> bool" where
  "job_move lib st st' \<longleftrightarrow> (\<exists>service. job_step (Lib_ed lib) (Lib_rfc3339 lib) service st st')"

abbreviation account_move :: "Lib \<Rightarrow> HubConfig \<Rightarrow> SAStore \<Rightarrow> SAStore \<Rightarrow> bool" where
  "account_move lib cfg \<equiv> sa_step (Lib_mac lib) (Hub_pepper cfg)"

text \<open>Reports of agents, and what operators change at cloud accounts and memberships.\<close>

inductive host_move :: "Lib \<Rightarrow> HostStore \<Rightarrow> HostStore \<Rightarrow> bool" for lib where
  "Inventory_Report (Lib_lower lib) (Lib_parse_ip lib) now agent facts st = (res, st') \<Longrightarrow> host_move lib st st'"

inductive sample_move :: "SampleStore \<Rightarrow> SampleStore \<Rightarrow> bool" where
  "slice_sort srt \<Longrightarrow> Telemetry_Report srt agent sample st = (res, st') \<Longrightarrow> sample_move st st'"

inductive service_move :: "Lib \<Rightarrow> ServiceStore \<Rightarrow> ServiceStore \<Rightarrow> bool" for lib where
  "Services_Report (Lib_lower lib) agent snapshot st = (res, st') \<Longrightarrow> service_move lib st st'"

inductive log_move :: "Lib \<Rightarrow> LogService \<Rightarrow> LogService \<Rightarrow> bool" for lib where
  ingest: "slice_sort srt \<Longrightarrow> ranges it (LogService_store st) \<Longrightarrow>
    Ingest srt (Lib_lower lib) it r agent batch st = (res, st') \<Longrightarrow> log_move lib st st'"
| subscribe: "Subscribe stream scope agentID st = (res', st') \<Longrightarrow> log_move lib st st'"

inductive cloud_move :: "Lib \<Rightarrow> CloudStore \<Rightarrow> CloudStore \<Rightarrow> bool" for lib where
  account: "Cloud_CreateAccount r now scope request st = (res, st') \<Longrightarrow> cloud_move lib st st'"
| reconcile: "Cloud_Reconcile (Lib_lower lib) (Lib_parse_ip lib) now hosts scope accountID discovered st = (res', st') \<Longrightarrow>
    cloud_move lib st st'"

inductive membership_move :: "MembershipStore \<Rightarrow> MembershipStore \<Rightarrow> bool" where
  assign: "AssignRole r now userID organizationID siteID role st = (res, st') \<Longrightarrow> membership_move st st'"
| revoke: "membership_move st (RevokeRole userID siteID st)"

inductive token_move :: "Lib \<Rightarrow> HubConfig \<Rightarrow> TokenStore \<Rightarrow> TokenStore \<Rightarrow> bool" for lib cfg where
  "EnrollContext (Lib_x509 lib) (Crypto_sha256 (Lib_crypto lib)) (Lib_lower lib) (Hub_authority cfg) r now serial body st = (res, st') \<Longrightarrow>
    token_move lib cfg st st'"

section \<open>The moves of a request\<close>

definition hub_moves :: "Lib \<Rightarrow> HubConfig \<Rightarrow> Hub \<Rightarrow> Hub \<Rightarrow> bool" where
  "hub_moves lib cfg hub hub' \<longleftrightarrow>
     (session_move lib)\<^sup>*\<^sup>* (Hub_sessions hub) (Hub_sessions hub')
   \<and> (identity_move lib)\<^sup>*\<^sup>* (Hub_identity hub) (Hub_identity hub')
   \<and> (account_move lib cfg)\<^sup>*\<^sup>* (Hub_accounts hub) (Hub_accounts hub')
   \<and> (job_move lib)\<^sup>*\<^sup>* (Hub_jobs hub) (Hub_jobs hub')
   \<and> alert_step\<^sup>*\<^sup>* (Hub_alerts hub) (Hub_alerts hub')
   \<and> (host_move lib)\<^sup>*\<^sup>* (Hub_hosts hub) (Hub_hosts hub')
   \<and> sample_move\<^sup>*\<^sup>* (Hub_samples hub) (Hub_samples hub')
   \<and> (service_move lib)\<^sup>*\<^sup>* (Hub_services hub) (Hub_services hub')
   \<and> (log_move lib)\<^sup>*\<^sup>* (Hub_logs hub) (Hub_logs hub')
   \<and> (cloud_move lib)\<^sup>*\<^sup>* (Hub_cloud hub) (Hub_cloud hub')
   \<and> membership_move\<^sup>*\<^sup>* (Hub_memberships hub) (Hub_memberships hub')
   \<and> (token_move lib cfg)\<^sup>*\<^sup>* (Hub_tokens hub) (Hub_tokens hub')
   \<and> (\<exists>events. Hub_activity hub' = Hub_activity hub @ events)
   \<and> (\<exists>events. Hub_audit hub' = Hub_audit hub @ events)"

text \<open>
  What is asked of the randomness and the orders a request meets: identifiers and secrets
  drawn are not in use (they are at least 64 random bits), maps are visited completely and
  slices sorted.
\<close>

definition fitting_env :: "Lib \<Rightarrow> Env \<Rightarrow> Hub \<Rightarrow> bool" where
  "fitting_env lib env hub \<longleftrightarrow>
     fresh_session (Crypto_sha256 (Lib_crypto lib)) (Env_rand env 3) (Env_rand env 4) (Hub_sessions hub)
   \<and> fresh_user_id (Env_identity env) (Hub_identity hub)
   \<and> fresh_invite (Lib_crypto lib) (Env_identity env) (Hub_identity hub)
   \<and> fresh_account (Env_rand env 0) (Hub_accounts hub) \<and> fresh_token (Env_rand env 1) (Hub_accounts hub)
   \<and> (\<forall>scope jid. rand_hex 16 (Env_rand env 0) = Inr jid \<longrightarrow> JobStore_jobs (Hub_jobs hub) (scope, jid) = None)
   \<and> (\<forall>k. env_ok (Env_eval env k)) \<and> fresh_ids 0 (Env_eval env) (Hub_alerts hub)
   \<and> ranges (Env_jobs1 env (JobStore_jobs (Hub_jobs hub))) (JobStore_jobs (Hub_jobs hub))
   \<and> ranges (Env_jobs2 env (JobStore_jobs (Hub_jobs hub))) (JobStore_jobs (Hub_jobs hub))
   \<and> ranges (Env_invites1 env (IdentityStore_invites (Hub_identity hub))) (IdentityStore_invites (Hub_identity hub))
   \<and> ranges (Env_invites2 env (IdentityStore_invites (Hub_identity hub))) (IdentityStore_invites (Hub_identity hub))
   \<and> ranges (Env_logs env (LogService_store (Hub_logs hub))) (LogService_store (Hub_logs hub))
   \<and> slice_sort (Env_sort_samples env) \<and> slice_sort (Env_sort_logs env)"

lemma hub_moves_refl [simp]: "hub_moves lib cfg hub hub"
  by (simp add: hub_moves_def)

lemma hub_moves_trans: "hub_moves lib cfg a b \<Longrightarrow> hub_moves lib cfg b c \<Longrightarrow> hub_moves lib cfg a c"
  unfolding hub_moves_def by (elim conjE, intro conjI; (rule rtranclp_trans, assumption, assumption)?) (metis append.assoc)+

text \<open>One rule per component: the hub with that component moved.\<close>

lemma moves_updates:
  assumes "hub_moves lib cfg hub hub1"
  shows "session_move lib (Hub_sessions hub1) st1 \<Longrightarrow> hub_moves lib cfg hub (hub1\<lparr>Hub_sessions := st1\<rparr>)"
    and "identity_move lib (Hub_identity hub1) st2 \<Longrightarrow> hub_moves lib cfg hub (hub1\<lparr>Hub_identity := st2\<rparr>)"
    and "account_move lib cfg (Hub_accounts hub1) st3 \<Longrightarrow> hub_moves lib cfg hub (hub1\<lparr>Hub_accounts := st3\<rparr>)"
    and "job_move lib (Hub_jobs hub1) st4 \<Longrightarrow> hub_moves lib cfg hub (hub1\<lparr>Hub_jobs := st4\<rparr>)"
    and "alert_step (Hub_alerts hub1) st5 \<Longrightarrow> hub_moves lib cfg hub (hub1\<lparr>Hub_alerts := st5\<rparr>)"
    and "host_move lib (Hub_hosts hub1) st6 \<Longrightarrow> hub_moves lib cfg hub (hub1\<lparr>Hub_hosts := st6\<rparr>)"
    and "sample_move (Hub_samples hub1) st7 \<Longrightarrow> hub_moves lib cfg hub (hub1\<lparr>Hub_samples := st7\<rparr>)"
    and "service_move lib (Hub_services hub1) st8 \<Longrightarrow> hub_moves lib cfg hub (hub1\<lparr>Hub_services := st8\<rparr>)"
    and "log_move lib (Hub_logs hub1) st9 \<Longrightarrow> hub_moves lib cfg hub (hub1\<lparr>Hub_logs := st9\<rparr>)"
    and "cloud_move lib (Hub_cloud hub1) st10 \<Longrightarrow> hub_moves lib cfg hub (hub1\<lparr>Hub_cloud := st10\<rparr>)"
    and "membership_move (Hub_memberships hub1) st11 \<Longrightarrow> hub_moves lib cfg hub (hub1\<lparr>Hub_memberships := st11\<rparr>)"
    and "token_move lib cfg (Hub_tokens hub1) st12 \<Longrightarrow> hub_moves lib cfg hub (hub1\<lparr>Hub_tokens := st12\<rparr>)"
  using assms unfolding hub_moves_def by (auto intro: rtranclp.rtrancl_into_rtrancl)

lemma moves_other:
  assumes "hub_moves lib cfg hub hub1"
  shows "hub_moves lib cfg hub (record_activity cfg env source reference ty actor message hub1)"
    and "hub_moves lib cfg hub (hub1\<lparr>Hub_audit := snd (Audit_Record r now event (Hub_audit hub1))\<rparr>)"
    and "hub_moves lib cfg hub (hub1\<lparr>Hub_loginLimiter := l\<rparr>)"
    and "hub_moves lib cfg hub (hub1\<lparr>Hub_confirmLimiter := l\<rparr>)"
    and "hub_moves lib cfg hub (hub1\<lparr>Hub_inviteLimiter := l\<rparr>)"
proof -
  obtain rest where "snd (Audit_Record r now event (Hub_audit hub1)) = Hub_audit hub1 @ rest"
    using Audit_Record_appends by blast
  then show "hub_moves lib cfg hub (hub1\<lparr>Hub_audit := snd (Audit_Record r now event (Hub_audit hub1))\<rparr>)"
    using assms unfolding hub_moves_def by auto
  show "hub_moves lib cfg hub (record_activity cfg env source reference ty actor message hub1)"
    using assms unfolding hub_moves_def record_activity_def
    by (auto simp: Activity_Record_def RecordActivityEvent_def Let_def split: sum.splits option.splits if_splits)
qed (use assms in \<open>simp_all add: hub_moves_def\<close>)

section \<open>Authentication\<close>

lemma validate_session_hub:
  obtains st where "snd (validate_session lib env token hub) = hub\<lparr>Hub_sessions := st\<rparr>"
    "session_move lib (Hub_sessions hub) st"
proof (rule that)
  show "snd (validate_session lib env token hub) = hub\<lparr>Hub_sessions := snd (Sessions_Validate
      (Crypto_sha256 (Lib_crypto lib)) (sessions_service hub) (Env_now env 0) token (Hub_sessions hub))\<rparr>"
    by (simp add: validate_session_def split: prod.splits)
  show "session_move lib (Hub_sessions hub) (snd (Sessions_Validate
      (Crypto_sha256 (Lib_crypto lib)) (sessions_service hub) (Env_now env 0) token (Hub_sessions hub)))"
    unfolding session_move_def by (rule exI, rule session_step.validate, rule surjective_pairing)
qed

lemma validate_account_hub:
  obtains st where "snd (validate_account lib cfg env bearer ip hub) = hub\<lparr>Hub_accounts := st\<rparr>"
    "account_move lib cfg (Hub_accounts hub) st"
proof (rule that)
  show "snd (validate_account lib cfg env bearer ip hub) = hub\<lparr>Hub_accounts := snd (SA_Validate (Lib_mac lib)
      (Hub_pepper cfg) (Env_now env 0) (Env_now env 1) bearer ip (Hub_accounts hub))\<rparr>"
    by (simp add: validate_account_def split: prod.splits)
  show "account_move lib cfg (Hub_accounts hub) (snd (SA_Validate (Lib_mac lib)
      (Hub_pepper cfg) (Env_now env 0) (Env_now env 1) bearer ip (Hub_accounts hub)))"
    by (rule sa_step.use_token, rule surjective_pairing)
qed

lemma permit_session_hub:
  "snd (permit_session lib env permission siteID request token hub) = snd (validate_session lib env token hub)"
  by (auto simp: permit_session_def split: prod.splits sum.splits)

lemma permit_account_hub:
  "snd (permit_account lib cfg env permission siteID request bearer hub)
     = snd (validate_account lib cfg env bearer (sourceIP request) hub)"
  by (auto simp: permit_account_def split: prod.splits sum.splits)

text \<open>\<open>requirePermission\<close> touches the session or the token it was given, and nothing else.\<close>

lemma requirePermission_hub:
  obtains (nothing) "snd (requirePermission lib cfg env accounts permission siteID request hub) = hub"
  | (session) st where "snd (requirePermission lib cfg env accounts permission siteID request hub) = hub\<lparr>Hub_sessions := st\<rparr>"
      "session_move lib (Hub_sessions hub) st"
  | (account) st where "accounts"
      "snd (requirePermission lib cfg env accounts permission siteID request hub) = hub\<lparr>Hub_accounts := st\<rparr>"
      "account_move lib cfg (Hub_accounts hub) st"
proof (cases "session_cookie cfg request")
  case (Some token)
  with session show ?thesis
    by (metis requirePermission_def option.simps(5) permit_session_hub validate_session_hub)
next
  case None
  show ?thesis
  proof (cases "account_bearer cfg accounts request")
    case (Some bearer)
    have "snd (requirePermission lib cfg env accounts permission siteID request hub)
        = snd (validate_account lib cfg env bearer (sourceIP request) hub)"
      using None Some by (simp add: requirePermission_def permit_account_hub)
    moreover have accounts using Some by (auto simp: account_bearer_def split: if_splits)
    ultimately show ?thesis using account validate_account_hub by metis
  qed (rule nothing, simp add: requirePermission_def None)
qed

text \<open>What a handler behind the gate finds: the hub with at most a session or a token touched.\<close>

definition after_gate :: "Lib \<Rightarrow> HubConfig \<Rightarrow> bool \<Rightarrow> Hub \<Rightarrow> Hub \<Rightarrow> bool" where
  "after_gate lib cfg accounts hub hub1 \<longleftrightarrow> hub_moves lib cfg hub hub1
     \<and> (\<exists>ss sa. hub1 = hub\<lparr>Hub_sessions := ss, Hub_accounts := sa\<rparr> \<and> (accounts \<or> sa = Hub_accounts hub))"

lemma after_gateD:
  assumes "after_gate lib cfg accounts hub hub1"
  shows "hub_moves lib cfg hub hub1" "Hub_jobs hub1 = Hub_jobs hub" "Hub_alerts hub1 = Hub_alerts hub"
    "Hub_hosts hub1 = Hub_hosts hub" "Hub_cloud hub1 = Hub_cloud hub" "Hub_identity hub1 = Hub_identity hub"
    "Hub_memberships hub1 = Hub_memberships hub" "\<not> accounts \<Longrightarrow> Hub_accounts hub1 = Hub_accounts hub"
  using assms by (auto simp: after_gate_def)

lemma after_gateI:
  assumes "hub_moves lib cfg hub (hub\<lparr>Hub_sessions := ss, Hub_accounts := sa\<rparr>)" "accounts \<or> sa = Hub_accounts hub"
  shows "after_gate lib cfg accounts hub (hub\<lparr>Hub_sessions := ss, Hub_accounts := sa\<rparr>)"
  using assms unfolding after_gate_def by blast

lemma requirePermission_gate:
  assumes "requirePermission lib cfg env accounts permission siteID request hub = (res, hub1)"
  shows "after_gate lib cfg accounts hub hub1"
proof (cases rule: requirePermission_hub [of lib cfg env accounts permission siteID request hub])
  case nothing
  with assms after_gateI [where hub = hub and ss = "Hub_sessions hub" and sa = "Hub_accounts hub"] show ?thesis by simp
next
  case (session st)
  with assms moves_updates(1) [OF hub_moves_refl session(2)]
    after_gateI [where hub = hub and ss = st and sa = "Hub_accounts hub"] show ?thesis by simp
next
  case (account st)
  with assms moves_updates(3) [OF hub_moves_refl account(3)]
    after_gateI [where hub = hub and ss = "Hub_sessions hub" and sa = st] show ?thesis by simp
qed

lemma gated_moves:
  assumes "\<And>actor hub1. after_gate lib cfg accounts hub hub1 \<Longrightarrow> hub_moves lib cfg hub (snd (k actor hub1))"
  shows "hub_moves lib cfg hub (snd (gated lib cfg env accounts permission request hub k))"
proof -
  obtain res hub1 where call: "requirePermission lib cfg env accounts permission (Scope_SiteID (Hub_scope cfg)) request hub = (res, hub1)"
    by fastforce
  then have gate: "after_gate lib cfg accounts hub hub1" by (rule requirePermission_gate)
  show ?thesis
    unfolding gated_def call using gate assms after_gateD(1) by (cases res) auto
qed

lemma with_body_moves:
  assumes "hub_moves lib cfg hub hub1" "\<And>body. hub_moves lib cfg hub (snd (k body))"
  shows "hub_moves lib cfg hub (snd (with_body decode request hub1 k))"
  using assms by (simp add: with_body_def split: option.splits)

lemma by_agent_moves:
  assumes "\<And>agent. hub_moves lib cfg hub (snd (k agent))"
  shows "hub_moves lib cfg hub (snd (by_agent lib cfg env request hub k))"
  using assms by (simp add: by_agent_def split: sum.splits)

section \<open>The handlers of agents\<close>

lemma handleEnroll_moves [handler_moves]: "hub_moves lib cfg hub (snd (handleEnroll lib cfg env request hub))"
  unfolding handleEnroll_def
  by (auto intro!: with_body_moves moves_updates(12) token_move.intros split: prod.splits sum.splits)

lemma handleRenew_moves [handler_moves]: "hub_moves lib cfg hub (snd (handleRenew lib cfg env request hub))"
  unfolding handleRenew_def by (auto intro!: by_agent_moves with_body_moves split: sum.splits)

lemma handleInventoryReport_moves [handler_moves]:
  "hub_moves lib cfg hub (snd (handleInventoryReport lib cfg env request hub))"
  unfolding handleInventoryReport_def
  by (auto intro!: by_agent_moves with_body_moves moves_updates(6) host_move.intros split: prod.splits sum.splits)

lemma handleServiceReport_moves [handler_moves]:
  "hub_moves lib cfg hub (snd (handleServiceReport lib cfg env request hub))"
  unfolding handleServiceReport_def
  by (auto intro!: by_agent_moves with_body_moves moves_updates(8) service_move.intros split: prod.splits sum.splits)

lemma handleLogIngest_moves [handler_moves]:
  "fitting_env lib env hub \<Longrightarrow> hub_moves lib cfg hub (snd (handleLogIngest lib cfg env request hub))"
  unfolding handleLogIngest_def fitting_env_def
  by (auto intro!: by_agent_moves with_body_moves moves_updates(9) log_move.ingest split: prod.splits sum.splits)

lemma handleStreamLogs_moves [handler_moves]:
  "hub_moves lib cfg hub (snd (handleStreamLogs response cfg env request hub))"
  unfolding handleStreamLogs_def
  by (auto intro!: moves_updates(9) log_move.subscribe split: prod.splits sum.splits)

lemma handleTelemetryReport_moves [handler_moves]:
  assumes "fitting_env lib env hub"
  shows "hub_moves lib cfg hub (snd (handleTelemetryReport lib cfg env request hub))"
proof -
  have fits: "slice_sort (Env_sort_samples env)" "\<And>k. env_ok (Env_eval env k)" "fresh_ids 0 (Env_eval env) (Hub_alerts hub)"
    using assms by (auto simp: fitting_env_def)
  show ?thesis
    unfolding handleTelemetryReport_def Let_def
    by (rule by_agent_moves, rule with_body_moves, simp)
      (auto intro!: moves_updates(5,7) sample_move.intros [OF fits(1)] alert_step.telemetry [OF _ fits(2,3)]
        split: prod.splits sum.splits)
qed

section \<open>The handlers of operators\<close>

lemma handleCreateJob_moves [handler_moves]:
  assumes "fitting_env lib env hub"
  shows "hub_moves lib cfg hub (snd (handleCreateJob lib cfg env request hub))"
  unfolding handleCreateJob_def
proof (rule gated_moves, rule with_body_moves)
  fix actor hub1 body
  assume gate: "after_gate lib cfg True hub hub1"
  then show "hub_moves lib cfg hub hub1" by (rule after_gateD)
  have "job_move lib (Hub_jobs hub1) st"
    if "Jobs_Create (Lib_ed lib) (Lib_rfc3339 lib) service (Env_rand env 0) (Env_now env 2) scope agentID body (Hub_jobs hub1)
        = (res, st)" for service scope agentID res st
    using assms after_gateD(2) [OF gate] job_step.create [OF that] unfolding job_move_def fitting_env_def by metis
  then show "hub_moves lib cfg hub (snd (case Jobs_Create (Lib_ed lib) (Lib_rfc3339 lib) (jobs_service cfg env hub1)
      (Env_rand env 0) (Env_now env 2) (Hub_scope cfg) (Request_PathValue request ''agentID'') body (Hub_jobs hub1) of
        (Inl e, st) \<Rightarrow> (http_error (if e = ErrInvalidJob then 400 else 500), hub1\<lparr>Hub_jobs := st\<rparr>)
      | (Inr job, st) \<Rightarrow> (writeJSON 201 (JobBody job), hub1\<lparr>Hub_jobs := st\<rparr>)))"
    using after_gateD(1) [OF gate] by (auto intro!: moves_updates(4) split: prod.splits sum.splits)
qed

lemma handleClaimJob_moves [handler_moves]:
  assumes "fitting_env lib env hub"
  shows "hub_moves lib cfg hub (snd (handleClaimJob lib cfg env request hub))"
proof -
  have "job_move lib (Hub_jobs hub) st"
    if "Jobs_ClaimNext service (Env_jobs1 env (JobStore_jobs (Hub_jobs hub))) (Env_jobs2 env (JobStore_jobs (Hub_jobs hub)))
        now agent (Hub_jobs hub) = (res, st)" for service now agent res st
    using assms job_step.claim [OF that] unfolding job_move_def fitting_env_def by metis
  then show ?thesis
    unfolding handleClaimJob_def
    by (auto intro!: by_agent_moves moves_updates(4) split: prod.splits sum.splits option.splits)
qed

lemma handleReportJobEvent_moves [handler_moves]:
  "hub_moves lib cfg hub (snd (handleReportJobEvent lib cfg env request hub))"
proof -
  have "job_move lib (Hub_jobs hub) st"
    if "Jobs_Report now agent jobID body (Hub_jobs hub) = (res, st)" for now agent jobID body res st
    using job_step.report [OF that] unfolding job_move_def by metis
  then show ?thesis
    unfolding handleReportJobEvent_def
    by (auto intro!: by_agent_moves with_body_moves moves_updates(4) split: prod.splits sum.splits)
qed

lemma handleCreateAlertRule_moves [handler_moves]:
  "hub_moves lib cfg hub (snd (handleCreateAlertRule lib cfg env request hub))"
  unfolding handleCreateAlertRule_def
  by (auto intro!: gated_moves with_body_moves moves_updates(5) intro: alert_step.create_rule
      dest: after_gateD(1) split: prod.splits sum.splits)

lemma handleCreateMaintenance_moves [handler_moves]:
  "hub_moves lib cfg hub (snd (handleCreateMaintenance lib cfg env request hub))"
  unfolding handleCreateMaintenance_def
  by (auto intro!: gated_moves with_body_moves moves_updates(5) intro: alert_step.create_maintenance
      dest: after_gateD(1) split: prod.splits sum.splits)

lemma handleAcknowledgeIncident_moves [handler_moves]:
  "hub_moves lib cfg hub (snd (handleAcknowledgeIncident lib cfg env request hub))"
  unfolding handleAcknowledgeIncident_def
  by (auto intro!: gated_moves with_body_moves moves_updates(5) intro: alert_step.acknowledge
      dest: after_gateD(1) split: prod.splits sum.splits)

lemma handleCreateCloudAccount_moves [handler_moves]:
  "hub_moves lib cfg hub (snd (handleCreateCloudAccount lib cfg env request hub))"
  unfolding handleCreateCloudAccount_def
  by (auto intro!: gated_moves with_body_moves moves_updates(10) intro: cloud_move.account
      dest: after_gateD(1) split: prod.splits sum.splits)

lemma handleReconcileCloudInstances_moves [handler_moves]:
  "hub_moves lib cfg hub (snd (handleReconcileCloudInstances lib cfg env request hub))"
  unfolding handleReconcileCloudInstances_def
  by (auto intro!: gated_moves with_body_moves moves_updates(10) intro: cloud_move.reconcile
      dest: after_gateD(1) split: prod.splits sum.splits)

lemma reading_moves [handler_moves]:
  "hub_moves lib cfg hub (snd (handleListActivityEvents lib cfg env request hub))"
  "hub_moves lib cfg hub (snd (handleListAuditTrail lib cfg env request hub))"
  "hub_moves lib cfg hub (snd (handleListUsers lib cfg env request hub))"
  "hub_moves lib cfg hub (snd (handleGetOIDCConfiguration lib cfg env request hub))"
  "hub_moves lib cfg hub (snd (handleListServiceAccounts lib cfg env request hub))"
  unfolding handleListActivityEvents_def handleListAuditTrail_def handleListUsers_def Let_def
    handleGetOIDCConfiguration_def handleListServiceAccounts_def
  by (auto intro!: gated_moves dest: after_gateD(1) split: prod.splits sum.splits option.splits)

section \<open>The handlers of identity and sessions\<close>

lemma identity_moveI:
  fixes service :: "MembershipStore IdentityService"
  shows "identity_step (Lib_crypto lib) service st st' \<Longrightarrow> identity_move lib st st'"
  unfolding identity_move_def by blast

lemma handleBootstrap_moves [handler_moves]:
  assumes "fitting_env lib env hub"
  shows "hub_moves lib cfg hub (snd (handleBootstrap lib cfg env request hub))"
proof -
  have fresh: "fresh_user_id (Env_identity env) (Hub_identity hub)" using assms by (simp add: fitting_env_def)
  show ?thesis
    unfolding handleBootstrap_def
    by (auto intro!: with_body_moves moves_updates(2) identity_moveI identity_step.bootstrap [OF fresh]
        split: prod.splits sum.splits)
qed

lemma handleCreateInvite_moves [handler_moves]:
  assumes "fitting_env lib env hub"
  shows "hub_moves lib cfg hub (snd (handleCreateInvite lib cfg env request hub))"
proof -
  have move: "hub_moves lib cfg hub (hub1\<lparr>Hub_identity := st\<rparr>)"
    if gate: "after_gate lib cfg accounts hub hub1"
      and "CreateInvite (Lib_crypto lib) (Env_identity env) createdBy org email role grants ty (Hub_identity hub1) = (res, st)"
    for accounts hub1 createdBy org email role grants ty res st
    using assms that(2) after_gateD(1,6) [OF gate]
    by (auto intro!: moves_updates(2) identity_moveI [OF identity_step.create_invite] simp: fitting_env_def)
  show ?thesis
    unfolding handleCreateInvite_def Let_def
    by (auto intro!: gated_moves with_body_moves moves_other(1) move
        dest: after_gateD(1) split: prod.splits sum.splits)
qed

lemma limited_moves:
  "hub_moves lib cfg hub (hub\<lparr>Hub_loginLimiter := l\<rparr>)"
  "hub_moves lib cfg hub (hub\<lparr>Hub_confirmLimiter := l\<rparr>)"
  "hub_moves lib cfg hub (hub\<lparr>Hub_inviteLimiter := l\<rparr>)"
  by (rule moves_other [OF hub_moves_refl])+

lemma grant_roles_moves: "membership_move\<^sup>*\<^sup>* g (snd (grant_roles env n userID grants g))"
proof (induction env n userID grants g rule: grant_roles.induct)
  case (2 env n userID grant grants g)
  obtain res g1 where call: "AssignRole (Env_rand env n) (Env_now env n) userID DefaultOrganizationID
      (SiteRoleGrant_SiteID grant) (site_role (SiteRoleGrant_Role grant)) g = (res, g1)" by fastforce
  then have "membership_move g g1" by (rule membership_move.assign)
  with 2 [OF call [symmetric]] call show ?case
    by (cases res) (auto intro: converse_rtranclp_into_rtranclp)
qed simp

lemma run_grantor_moves:
  "membership_move\<^sup>*\<^sup>* g (snd (run_grantor (identity_service cfg env) userID grants g))"
  using grant_roles_moves by (simp add: run_grantor_def identity_service_def)

lemma ConsumeInvite_grants:
  assumes "Identity_ConsumeInvite c (identity_service cfg env) ienv token password (st, g) = (res, st', g')"
  shows "membership_move\<^sup>*\<^sup>* g g'"
  using assms
proof (cases rule: Identity_ConsumeInvite_cases)
  case (consumed rcd invite passwordHash totpSecret encryptedSecret i user)
  then have "g' = snd (run_grantor (identity_service cfg env) i (Invite_SiteRoleGrants invite) g)"
    by (metis snd_conv)
  then show ?thesis using run_grantor_moves by simp
qed simp

lemma LoginOrLink_grants:
  assumes "LoginOrLinkOIDCUser (identity_service cfg env) ienv it1 it2 org issuer subject email (st, g) = (res, st', g')"
  shows "membership_move\<^sup>*\<^sup>* g g'"
proof -
  have "g' = g \<or> (\<exists>i grants. g' = snd (run_grantor (identity_service cfg env) i grants g))"
    using assms unfolding LoginOrLinkOIDCUser_def Let_def
    by (auto split: sum.splits if_splits prod.splits) (metis snd_conv)+
  then show ?thesis using run_grantor_moves by auto
qed

text \<open>Identity and the roles it grants move together.\<close>

lemma moves_identity_roles:
  assumes "hub_moves lib cfg hub hub1" "identity_move lib (Hub_identity hub1) st"
    and "membership_move\<^sup>*\<^sup>* (Hub_memberships hub1) roles"
  shows "hub_moves lib cfg hub (hub1\<lparr>Hub_identity := st, Hub_memberships := roles\<rparr>)"
  using assms unfolding hub_moves_def by (auto intro: rtranclp.rtrancl_into_rtrancl rtranclp_trans)

lemma handleConsumeInvite_moves [handler_moves]:
  assumes "fitting_env lib env hub"
  shows "hub_moves lib cfg hub (snd (handleConsumeInvite lib cfg env request hub))"
proof -
  have "hub_moves lib cfg hub (hub\<lparr>Hub_inviteLimiter := l, Hub_identity := st, Hub_memberships := roles\<rparr>)"
    if op: "Identity_ConsumeInvite (Lib_crypto lib) (identity_service cfg env) (Env_identity env) token password
        (Hub_identity hub, Hub_memberships hub) = (res, st, roles)" for l token password res st roles
  proof -
    have "identity_move lib (Hub_identity hub) st"
      using assms identity_moveI [OF identity_step.consume_invite [OF _ op]] by (simp add: fitting_env_def)
    with ConsumeInvite_grants [OF op] show ?thesis
      by (intro moves_identity_roles limited_moves) simp_all
  qed
  then show ?thesis
    unfolding handleConsumeInvite_def Let_def
    by (auto intro!: with_body_moves limited_moves split: prod.splits sum.splits)
qed

lemma handleConfirmTOTP_moves [handler_moves]:
  "hub_moves lib cfg hub (snd (handleConfirmTOTP lib cfg env request hub))"
proof -
  have "hub_moves lib cfg hub (hub\<lparr>Hub_confirmLimiter := l, Hub_identity := st\<rparr>)"
    if op: "ConfirmTOTP (Lib_crypto lib) (identity_service cfg env) (Env_identity env) userID code tm (Hub_identity hub)
        = (res, st)" for l userID code tm res st
    using moves_updates(2) [OF limited_moves(2)] identity_moveI [OF identity_step.confirm_totp [OF op]] by simp
  then show ?thesis
    unfolding handleConfirmTOTP_def Let_def
    by (auto intro!: with_body_moves limited_moves split: prod.splits sum.splits)
qed

lemma handleSetOIDC_moves [handler_moves]:
  "hub_moves lib cfg hub (snd (handleSetOIDCConfiguration lib cfg env request hub))"
  unfolding handleSetOIDCConfiguration_def
  by (auto intro!: gated_moves with_body_moves moves_updates(2) intro: identity_moveI [OF identity_step.set_oidc]
      dest: after_gateD(1) split: prod.splits sum.splits)

text \<open>A new session, opened on a hub whose session store the request has not touched yet.\<close>

lemma create_session_moves:
  assumes "fitting_env lib env hub" "hub_moves lib cfg hub hub1" "Hub_sessions hub1 = Hub_sessions hub"
    and op: "create_session lib env user hub1 = (res, hub2)"
  shows "hub_moves lib cfg hub hub2"
proof -
  obtain st where st: "Sessions_Create (Crypto_sha256 (Lib_crypto lib)) (sessions_service hub1) (Env_rand env 3) (Env_rand env 4)
      (Env_rand env 5) (Env_now env 3) (User_ID user) (User_OrganizationID user) (Hub_sessions hub1) = (res, st)"
    "hub2 = hub1\<lparr>Hub_sessions := st\<rparr>"
    using op by (auto simp: create_session_def split: prod.splits)
  have "session_move lib (Hub_sessions hub1) st"
    unfolding session_move_def using assms(1,3) session_step.create [OF _ st(1)] by (auto simp: fitting_env_def)
  with assms(2) st(2) show ?thesis by (simp add: moves_updates(1))
qed

lemma callback_login_moves:
  assumes fits: "fitting_env lib env hub"
  shows "hub_moves lib cfg hub (snd (callback_login lib cfg env request config claims hub))"
proof -
  obtain res st roles where op: "LoginOrLinkOIDCUser (identity_service cfg env) (Env_identity env)
       (Env_invites1 env (IdentityStore_invites (Hub_identity hub)))
       (Env_invites2 env (IdentityStore_invites (Hub_identity hub))) (Scope_OrganizationID (Hub_scope cfg))
       (OIDCConfiguration_Issuer config) (Claims_Subject claims) (Claims_Email claims)
       (Hub_identity hub, Hub_memberships hub) = (res, st, roles)" by (metis prod_cases3)
  have "identity_move lib (Hub_identity hub) st"
    using fits by (intro identity_moveI [OF identity_step.oidc_login [OF _ _ _ op]]) (simp_all add: fitting_env_def)
  then have linked: "hub_moves lib cfg hub (hub\<lparr>Hub_identity := st, Hub_memberships := roles\<rparr>)"
    using LoginOrLink_grants [OF op] moves_identity_roles [OF hub_moves_refl] by simp
  show ?thesis
    unfolding callback_login_def Let_def op
    using linked create_session_moves [OF fits linked]
    by (auto intro!: moves_other(1) split: prod.splits sum.splits)
qed

lemma handleOIDCCallback_moves [handler_moves]:
  assumes "fitting_env lib env hub"
  shows "hub_moves lib cfg hub (snd (handleOIDCCallback lib cfg env request hub))"
  unfolding handleOIDCCallback_def Let_def
  using callback_login_moves [OF assms] by (auto split: prod.splits sum.splits option.splits) (metis snd_conv)

lemma checked_login_moves:
  assumes "hub_moves lib cfg hub hub1"
    and "(if b then VerifyCredentialsWithRecoveryCode (Lib_crypto lib) org email password code (Hub_identity hub1)
     else (checked, Hub_identity hub1)) = (res, st)"
  shows "hub_moves lib cfg hub (hub1\<lparr>Hub_identity := st\<rparr>)"
proof (cases b)
  case True
  with assms(2) have "VerifyCredentialsWithRecoveryCode (Lib_crypto lib) org email password code (Hub_identity hub1) = (res, st)"
    by simp
  then show ?thesis using moves_updates(2) [OF assms(1)] identity_moveI [OF identity_step.recovery_login] by simp
next
  case False
  with assms show ?thesis by auto
qed

lemma handleLogin_moves [handler_moves]:
  assumes fits: "fitting_env lib env hub"
  shows "hub_moves lib cfg hub (snd (handleLogin lib cfg env request hub))"
proof -
  obtain allowed l where allow: "Allow (Env_now env 0) (sourceIP request) (Hub_loginLimiter hub) = (allowed, l)" by fastforce
  have opened: "hub_moves lib cfg hub hub2"
    if "create_session lib env user (hub\<lparr>Hub_loginLimiter := l, Hub_identity := st\<rparr>) = (res, hub2)"
      "hub_moves lib cfg hub (hub\<lparr>Hub_loginLimiter := l, Hub_identity := st\<rparr>)" for user st res hub2
    using create_session_moves [OF fits that(2) _ that(1)] by simp
  show ?thesis
  proof (cases allowed)
    case False
    then show ?thesis by (simp add: handleLogin_def allow limited_moves)
  next
    case True
    then show ?thesis
      unfolding handleLogin_def allow Let_def
      by (auto intro!: with_body_moves limited_moves
          intro: checked_login_moves [OF limited_moves(1)] opened [OF _ checked_login_moves [OF limited_moves(1)]]
          split: prod.splits sum.splits split del: if_split)
  qed
qed

lemma authenticateSession_moves:
  assumes "authenticateSession lib env request hub = (res, hub1)"
  shows "hub_moves lib cfg hub hub1"
proof -
  have "hub1 = hub \<or> (\<exists>token. hub1 = snd (validate_session lib env token hub))"
    using assms by (auto simp: authenticateSession_def split: option.splits if_splits prod.splits sum.splits) (metis snd_conv)+
  then show ?thesis using validate_session_hub moves_updates(1) [OF hub_moves_refl] hub_moves_refl by metis
qed

lemma session_moveI: "session_step (Crypto_sha256 (Lib_crypto lib)) service st st' \<Longrightarrow> session_move lib st st'"
  unfolding session_move_def by blast

lemma handleWhoAmI_moves [handler_moves]: "hub_moves lib cfg hub (snd (handleWhoAmI lib env request hub))"
  unfolding handleWhoAmI_def by (auto dest: authenticateSession_moves split: prod.splits sum.splits)

lemma handleLogout_moves [handler_moves]: "hub_moves lib cfg hub (snd (handleLogout lib env request hub))"
  unfolding handleLogout_def
  by (auto intro!: moves_updates(1) intro: authenticateSession_moves session_moveI [OF session_step.revoke]
      split: prod.splits sum.splits)

lemma handleRevokeSessions_moves [handler_moves]:
  "hub_moves lib cfg hub (snd (handleRevokeUserSessions lib cfg env request hub))"
  "hub_moves lib cfg hub (snd (handleRevokeAllSessions lib cfg env request hub))"
  unfolding handleRevokeUserSessions_def handleRevokeAllSessions_def
  by (auto intro!: gated_moves moves_updates(1) dest: after_gateD(1)
      intro: session_moveI [OF session_step.revoke_user] session_moveI [OF session_step.revoke_organization])

lemma handleSiteRole_moves [handler_moves]:
  "hub_moves lib cfg hub (snd (handleAssignSiteRole lib cfg env request hub))"
  "hub_moves lib cfg hub (snd (handleRevokeSiteRole lib cfg env request hub))"
  unfolding handleAssignSiteRole_def handleRevokeSiteRole_def Let_def
  by (auto intro!: gated_moves with_body_moves moves_other(1) moves_updates(11)
      intro: membership_move.intros dest: after_gateD(1) split: prod.splits sum.splits)

section \<open>The handlers of service accounts\<close>

lemma handleCreateServiceAccount_moves [handler_moves]:
  assumes "fitting_env lib env hub"
  shows "hub_moves lib cfg hub (snd (handleCreateServiceAccount lib cfg env request hub))"
proof -
  have move: "hub_moves lib cfg hub (hub1\<lparr>Hub_accounts := st\<rparr>)"
    if gate: "after_gate lib cfg False hub hub1"
      and op: "CreateAccount (Lib_mac lib) (Hub_pepper cfg) (Env_rand env 0) (Env_rand env 1) (Env_rand env 2) t1 t2 org site nm role days
          (Hub_accounts hub1) = (res, st)" for hub1 t1 t2 org site nm role days res st
    using assms after_gateD(1,8) [OF gate]
    by (auto intro!: moves_updates(3) sa_step.create [OF _ _ op] simp: fitting_env_def)
  show ?thesis
    unfolding handleCreateServiceAccount_def
    by (rule gated_moves, frule after_gateD(1))
      (auto intro!: with_body_moves moves_other(1) move split: prod.splits sum.splits)
qed

lemma handleRotateServiceAccountToken_moves [handler_moves]:
  assumes "fitting_env lib env hub"
  shows "hub_moves lib cfg hub (snd (handleRotateServiceAccountToken lib cfg env request hub))"
proof -
  have "hub_moves lib cfg hub (hub1\<lparr>Hub_accounts := st\<rparr>)"
    if gate: "after_gate lib cfg False hub hub1"
      and op: "RotateToken (Lib_mac lib) (Hub_pepper cfg) (Env_rand env 1) (Env_rand env 2) t1 t2 site accountID days
          (Hub_accounts hub1) = (res, st)" for hub1 t1 t2 site accountID days res st
    using assms after_gateD(1,8) [OF gate]
    by (auto intro!: moves_updates(3) sa_step.rotate [OF _ op] simp: fitting_env_def)
  then show ?thesis
    unfolding handleRotateServiceAccountToken_def Let_def
    by (auto intro!: gated_moves with_body_moves moves_other(1) dest: after_gateD(1) split: prod.splits sum.splits)
qed

lemma handleRevokeAccount_moves [handler_moves]:
  "hub_moves lib cfg hub (snd (handleRevokeServiceAccountToken lib cfg env request hub))"
  "hub_moves lib cfg hub (snd (handleDisableServiceAccount lib cfg env request hub))"
  unfolding handleRevokeServiceAccountToken_def handleDisableServiceAccount_def Let_def
  by (auto intro!: gated_moves moves_other(1) moves_updates(3) intro: sa_step.revoke sa_step.disable
      dest: after_gateD(1) split: prod.splits sum.splits)

section \<open>The whole request\<close>

lemma handle_moves:
  assumes "fitting_env lib env hub"
  shows "hub_moves lib cfg hub (snd (handle lib cfg env response route request hub))"
  using assms unfolding handle_def by (cases route) (simp_all add: handler_moves)

lemma registerAudited_moves:
  assumes "fitting_env lib env hub"
  shows "hub_moves lib cfg hub (snd (registerAudited lib cfg env response e request hub))"
  using handle_moves [OF assms, of cfg _ "Entry_Route e" request]
  by (auto simp: registerAudited_def intro!: moves_other(2) split: sum.splits prod.splits) (metis snd_conv)

lemma serve_moves:
  assumes "fitting_env lib env hub"
  shows "hub_moves lib cfg hub (snd (serve lib cfg env request hub))"
  using registerAudited_moves [OF assms]
  by (auto simp: serve_def corsMiddleware_def route_request_def Let_def split: option.splits prod.splits)
    (metis snd_conv)+

end
