(* ===== verification/Hub_Main.thy ===== *)
theory Hub_Main
  imports Server_Routes
begin

text \<open>
  The program around the server: \<open>internal/config\<close> and \<open>cmd/bazusop-hub\<close>. \<open>start_hub\<close> is
  the wiring of \<open>main\<close> up to the running server, with the in-memory stores, which is its branch
  for an empty \<open>DATABASE_URL\<close>; an error is an exit with status 1. \<open>evaluateReachability\<close> is one tick of
  the loop that runs beside the server.
\<close>

section \<open>Configuration\<close>

record Config =
  Config_HTTPAddress :: string
  Config_EnrollmentToken :: string
  Config_TLSCertificate :: string
  Config_TLSPrivateKey :: string
  Config_DatabaseURL :: string
  Config_TimescaleEnabled :: bool
  Config_TelemetryRetentionDays :: int
  Config_LogRetentionDays :: int
  Config_BootstrapSecret :: string
  Config_TOTPEncryptionKey :: string
  Config_TrustedOrigins :: "string list"
  Config_ServiceAccountPepper :: string

definition enabled :: "string \<Rightarrow> bool" where
  "enabled v \<longleftrightarrow> v \<in> {''1'', ''true'', ''TRUE'', ''yes'', ''YES''}"

definition trustedOrigins :: "string \<Rightarrow> string list" where
  "trustedOrigins raw =
     (let trimmed = trim_space raw in
      if trimmed = [] then []
      else filter (\<lambda>part. part \<noteq> []) (map trim_space (split_on (CHR '','') trimmed)))"

definition retentionDays :: "(string \<Rightarrow> int option) \<Rightarrow> (string \<Rightarrow> string) \<Rightarrow> string \<Rightarrow> int \<Rightarrow> int" where
  "retentionDays atoi getenv nm fallback =
     (let v = trim_space (getenv nm) in
      if v = [] then fallback else (case atoi v of None \<Rightarrow> 0 | Some days \<Rightarrow> days))"

definition Config_Load :: "(string \<Rightarrow> int option) \<Rightarrow> (string \<Rightarrow> string) \<Rightarrow> Config" where
  "Config_Load atoi getenv =
     \<lparr>Config_HTTPAddress = (if getenv ''BAZUSOP_HTTP_ADDR'' = [] then '':8080'' else getenv ''BAZUSOP_HTTP_ADDR''),
      Config_EnrollmentToken = getenv ''BAZUSOP_ENROLLMENT_TOKEN'',
      Config_TLSCertificate = getenv ''BAZUSOP_TLS_CERT_FILE'',
      Config_TLSPrivateKey = getenv ''BAZUSOP_TLS_KEY_FILE'',
      Config_DatabaseURL = getenv ''DATABASE_URL'',
      Config_TimescaleEnabled = enabled (getenv ''BAZUSOP_TIMESCALE_ENABLED''),
      Config_TelemetryRetentionDays = retentionDays atoi getenv ''BAZUSOP_TELEMETRY_RETENTION_DAYS'' 30,
      Config_LogRetentionDays = retentionDays atoi getenv ''BAZUSOP_LOG_RETENTION_DAYS'' 14,
      Config_BootstrapSecret = getenv ''BAZUSOP_BOOTSTRAP_SECRET'',
      Config_TOTPEncryptionKey = getenv ''BAZUSOP_TOTP_ENCRYPTION_KEY'',
      Config_TrustedOrigins = trustedOrigins (getenv ''BAZUSOP_TRUSTED_ORIGINS''),
      Config_ServiceAccountPepper = getenv ''BAZUSOP_SERVICE_ACCOUNT_PEPPER''\<rparr>"

definition Config_Validate :: "Config \<Rightarrow> err option" where
  "Config_Validate configuration =
     (if Config_TelemetryRetentionDays configuration < 1 \<or> 3650 < Config_TelemetryRetentionDays configuration
      then Some (ErrOther ''BAZUSOP_TELEMETRY_RETENTION_DAYS must be between 1 and 3650'')
      else if Config_LogRetentionDays configuration < 1 \<or> 3650 < Config_LogRetentionDays configuration
      then Some (ErrOther ''BAZUSOP_LOG_RETENTION_DAYS must be between 1 and 3650'')
      else None)"

section \<open>The wiring of \<open>main\<close>\<close>

text \<open>
  What \<open>main\<close> reads besides the configuration: random bytes of the generated token, the key
  pair and serial number of a new authority, the clock and the build identity.
\<close>

record Startup =
  Startup_token :: entropy
  Startup_keypair :: "(string \<times> string) res"
  Startup_serial :: "int res"
  Startup_now :: time
  Startup_version :: "string \<times> string \<times> string"

definition bootstrap_token :: "Config \<Rightarrow> entropy \<Rightarrow> string res" where
  "bootstrap_token configuration r =
     (if Config_EnrollmentToken configuration = [] then GenerateBootstrapToken r
      else Inr (Config_EnrollmentToken configuration))"

definition hub_config :: "Config \<Rightarrow> Startup \<Rightarrow> Authority \<Rightarrow> HubConfig" where
  "hub_config configuration startup authority =
     (let (ver, commit, date) = Startup_version startup in
      \<lparr>Hub_scope = DefaultScope, Hub_bootstrapSecret = Config_BootstrapSecret configuration,
       Hub_totpKey = Config_TOTPEncryptionKey configuration, Hub_pepper = Config_ServiceAccountPepper configuration,
       Hub_trustedOrigins = Config_TrustedOrigins configuration,
       Hub_runtime = \<lparr>Runtime_Storage = ''memory'', Runtime_TimescaleEnabled = False,
         Runtime_TelemetryRetentionDays = Config_TelemetryRetentionDays configuration,
         Runtime_LogRetentionDays = Config_LogRetentionDays configuration,
         Runtime_Version = ver, Runtime_Commit = commit, Runtime_BuildDate = date\<rparr>,
       Hub_authority = authority, Hub_publicKey = drop 32 (Authority_caPrivateKey authority), Hub_auditing = True\<rparr>)"

text \<open>The signing key of jobs is the authority's; its public half are the last 32 bytes.\<close>

definition start_hub :: "Lib \<Rightarrow> Config \<Rightarrow> Startup \<Rightarrow> Env \<Rightarrow> (HubConfig \<times> Hub) res" where
  "start_hub lib configuration startup env =
     (case Config_Validate configuration of
        Some e \<Rightarrow> Inl e
      | None \<Rightarrow>
          (case bootstrap_token configuration (Startup_token startup) of
             Inl e \<Rightarrow> Inl e
           | Inr token \<Rightarrow>
               (case NewAuthority (Lib_x509 lib) (Crypto_sha256 (Lib_crypto lib)) (Startup_keypair startup)
                       (Startup_now startup) (Startup_serial startup) token of
                  Inl e \<Rightarrow> Inl e
                | Inr (authority, tokens) \<Rightarrow>
                    let cfg = hub_config configuration startup authority; hub = NewHub tokens in
                    (case Jobs_NewService (jobs_service cfg env hub) of
                       Inl e \<Rightarrow> Inl e
                     | Inr _ \<Rightarrow>
                         if (Config_TLSCertificate configuration = []) \<noteq> (Config_TLSPrivateKey configuration = [])
                         then Inl (ErrOther ''BAZUSOP_TLS_CERT_FILE and BAZUSOP_TLS_KEY_FILE must be configured together'')
                         else Inr (cfg, hub)))))"

section \<open>The reachability loop\<close>

text \<open>One tick: every listed host in turn; an error of one host is logged and the next is evaluated.\<close>

fun evaluate_hosts ::
  "rounding \<Rightarrow> (f64 \<Rightarrow> string) \<Rightarrow> Env \<Rightarrow> (nat \<Rightarrow> nat \<Rightarrow> time) \<Rightarrow> (nat \<Rightarrow> nat \<Rightarrow> EvalEnv) \<Rightarrow> nat \<Rightarrow> Host list \<Rightarrow> AlertStore \<Rightarrow> AlertStore" where
  "evaluate_hosts rnd fmt env stale envs n [] st = st"
| "evaluate_hosts rnd fmt env stale envs n (host # hosts) st =
     evaluate_hosts rnd fmt env stale envs (Suc n) hosts
       (snd (EvaluateReachability rnd fmt (Env_sort_rules env) (Env_rules env) (stale n) (envs n) (Host_Scope host)
          (Host_AgentID host) (Host_LastSeenAt host) st))"

definition evaluateReachability ::
  "Lib \<Rightarrow> HubConfig \<Rightarrow> Env \<Rightarrow> (nat \<Rightarrow> nat \<Rightarrow> time) \<Rightarrow> (nat \<Rightarrow> nat \<Rightarrow> EvalEnv) \<Rightarrow> Hub \<Rightarrow> Hub" where
  "evaluateReachability lib cfg env stale envs hub =
     (case Inventory_List (Env_sort_hosts env) (Env_hosts env (Hub_hosts hub)) (Env_now env 0) (Hub_scope cfg) of
        Inl _ \<Rightarrow> hub
      | Inr hosts \<Rightarrow>
          hub\<lparr>Hub_alerts := evaluate_hosts (Lib_round lib) (Lib_format lib) env stale envs 0 hosts (Hub_alerts hub)\<rparr>)"

end
