(* ===== verification/Hub_Runs.thy ===== *)
theory Hub_Runs
  imports Server_Steps Hub_Main
begin

text \<open>
  Runs of the hub: from the start of the program, requests and ticks of the reachability loop in
  any order. Here are its invariant and the lifting of what holds for every run of one
  component to every run of the hub.
\<close>

section \<open>The invariant of the hub\<close>

definition hub_inv :: "Hub \<Rightarrow> bool" where
  "hub_inv hub \<longleftrightarrow>
     session_inv (Hub_sessions hub) \<and> identity_inv (Hub_identity hub) \<and> sa_inv (Hub_accounts hub)
   \<and> job_inv (Hub_jobs hub) \<and> alert_inv (Hub_alerts hub) \<and> sample_inv (Hub_samples hub)
   \<and> service_inv (Hub_services hub) \<and> log_inv (LogService_store (Hub_logs hub))"

lemma hub_inv_init: "hub_inv (NewHub tokens)"
  by (simp add: hub_inv_def NewHub_def session_inv_init identity_inv_init sa_inv_init job_inv_init alert_inv_init
      sample_inv_init log_inv_init NewLogService_def service_inv_def NewServiceStore_def services_at_def)

lemma session_move_inv: "session_move lib st st' \<Longrightarrow> session_inv st \<Longrightarrow> session_inv st'"
  unfolding session_move_def using session_step_keeps by blast

lemma identity_move_inv: "identity_move lib st st' \<Longrightarrow> identity_inv st \<Longrightarrow> identity_inv st'"
  unfolding identity_move_def using identity_step_changes identity_inv_changes by blast

lemma account_move_inv: "account_move lib cfg st st' \<Longrightarrow> sa_inv st \<Longrightarrow> sa_inv st'"
  using sa_step_changes sa_inv_changes by blast

lemma job_move_inv: "job_move lib st st' \<Longrightarrow> job_inv st \<Longrightarrow> job_inv st'"
  unfolding job_move_def using job_step_inv by blast

lemma sample_move_inv: "sample_move st st' \<Longrightarrow> sample_inv st \<Longrightarrow> sample_inv st'"
proof (induction rule: sample_move.induct)
  case (1 srt agent sample st res st')
  have "st' = st \<or> valid_sample (normalize_sample agent sample) \<and> Append srt (normalize_sample agent sample) st = (Inr (), st')"
    using 1(2) by (auto simp: Telemetry_Report_def Append_def Let_def split: option.splits if_splits)
  with 1 Append_effect(3) show ?case by blast
qed

lemma service_move_inv: "service_move lib st st' \<Longrightarrow> service_inv st \<Longrightarrow> service_inv st'"
  by (induction rule: service_move.induct) (rule service_inv_report)

lemma log_move_inv:
  "log_move lib st st' \<Longrightarrow> log_inv (LogService_store st) \<Longrightarrow> log_inv (LogService_store st')"
proof (induction rule: log_move.induct)
  case (ingest srt it st r agent batch res st')
  from ingest(3) show ?case
  proof (cases rule: Ingest_cases)
    case (stored entries stored st1)
    have "\<forall>entry \<in> set entries. log_agent entry = trimmed_agent agent"
      using normalize_batch_agent [OF stored(2)] by blast
    from AppendLogs_Inr(6) [OF ingest(1,2,4) this stored(3)] show ?thesis by (simp add: stored(4))
  qed (use ingest.prems in simp)
next
  case (subscribe stream scope agentID st res st')
  then show ?case by (auto simp: Subscribe_def Let_def split: option.splits if_splits)
qed

lemma moves_inv:
  assumes "rtranclp step st st'" "P st" "\<And>a b. step a b \<Longrightarrow> P a \<Longrightarrow> P b"
  shows "P st'"
  using assms(1,2) by (induction rule: rtranclp_induct) (blast intro: assms(3))+

lemma hub_moves_inv:
  assumes "hub_moves lib cfg hub hub'" "hub_inv hub"
  shows "hub_inv hub'"
proof -
  have moves: "(session_move lib)\<^sup>*\<^sup>* (Hub_sessions hub) (Hub_sessions hub')"
    "(identity_move lib)\<^sup>*\<^sup>* (Hub_identity hub) (Hub_identity hub')"
    "(account_move lib cfg)\<^sup>*\<^sup>* (Hub_accounts hub) (Hub_accounts hub')"
    "(job_move lib)\<^sup>*\<^sup>* (Hub_jobs hub) (Hub_jobs hub')" "alert_step\<^sup>*\<^sup>* (Hub_alerts hub) (Hub_alerts hub')"
    "sample_move\<^sup>*\<^sup>* (Hub_samples hub) (Hub_samples hub')" "(service_move lib)\<^sup>*\<^sup>* (Hub_services hub) (Hub_services hub')"
    "(log_move lib)\<^sup>*\<^sup>* (Hub_logs hub) (Hub_logs hub')"
    using assms(1) by (auto simp: hub_moves_def)
  have "session_inv (Hub_sessions hub')" "identity_inv (Hub_identity hub')" "sa_inv (Hub_accounts hub')"
    "job_inv (Hub_jobs hub')" "alert_inv (Hub_alerts hub')" "sample_inv (Hub_samples hub')"
    "service_inv (Hub_services hub')"
    using assms(2) unfolding hub_inv_def
    by (blast intro: moves_inv [OF moves(1)] moves_inv [OF moves(2)] moves_inv [OF moves(3)] moves_inv [OF moves(4)]
        moves_inv [OF moves(5)] moves_inv [OF moves(6)] moves_inv [OF moves(7)]
        session_move_inv identity_move_inv account_move_inv job_move_inv alert_step_inv sample_move_inv
        service_move_inv)+
  moreover have "log_inv (LogService_store (Hub_logs hub'))"
    using moves_inv [OF moves(8), of "\<lambda>st. log_inv (LogService_store st)"] assms(2) log_move_inv
    by (auto simp: hub_inv_def)
  ultimately show ?thesis by (simp add: hub_inv_def)
qed

section \<open>Ticks\<close>

fun fitting_hosts ::
  "rounding \<Rightarrow> (f64 \<Rightarrow> string) \<Rightarrow> Env \<Rightarrow> (nat \<Rightarrow> nat \<Rightarrow> time) \<Rightarrow> (nat \<Rightarrow> nat \<Rightarrow> EvalEnv) \<Rightarrow> nat \<Rightarrow> Host list \<Rightarrow> AlertStore \<Rightarrow> bool" where
  "fitting_hosts rnd fmt env stale envs n [] st \<longleftrightarrow> True"
| "fitting_hosts rnd fmt env stale envs n (host # hosts) st \<longleftrightarrow>
     (\<forall>k. env_ok (envs n k)) \<and> fresh_ids 0 (envs n) st
     \<and> fitting_hosts rnd fmt env stale envs (Suc n) hosts
         (snd (EvaluateReachability rnd fmt (Env_sort_rules env) (Env_rules env) (stale n) (envs n) (Host_Scope host)
            (Host_AgentID host) (Host_LastSeenAt host) st))"

definition fitting_tick :: "Lib \<Rightarrow> HubConfig \<Rightarrow> Env \<Rightarrow> (nat \<Rightarrow> nat \<Rightarrow> time) \<Rightarrow> (nat \<Rightarrow> nat \<Rightarrow> EvalEnv) \<Rightarrow> Hub \<Rightarrow> bool" where
  "fitting_tick lib cfg env stale envs hub \<longleftrightarrow>
     (\<forall>hosts. Inventory_List (Env_sort_hosts env) (Env_hosts env (Hub_hosts hub)) (Env_now env 0) (Hub_scope cfg) = Inr hosts \<longrightarrow>
        fitting_hosts (Lib_round lib) (Lib_format lib) env stale envs 0 hosts (Hub_alerts hub))"

lemma evaluate_hosts_moves:
  "fitting_hosts rnd fmt env stale envs n hosts st \<Longrightarrow>
     alert_step\<^sup>*\<^sup>* st (evaluate_hosts rnd fmt env stale envs n hosts st)"
proof (induction rnd fmt env stale envs n hosts st rule: evaluate_hosts.induct)
  case (2 rnd fmt env stale envs n host hosts st)
  obtain res st1 where call: "EvaluateReachability rnd fmt (Env_sort_rules env) (Env_rules env) (stale n) (envs n)
      (Host_Scope host) (Host_AgentID host) (Host_LastSeenAt host) st = (res, st1)" by fastforce
  have "alert_step st st1" using alert_step.reachability [OF call] 2(2) by simp
  with 2 call show ?case by (auto intro: converse_rtranclp_into_rtranclp)
qed simp

lemma evaluateReachability_moves:
  assumes "fitting_tick lib cfg env stale envs hub"
  shows "hub_moves lib cfg hub (evaluateReachability lib cfg env stale envs hub)"
  using assms evaluate_hosts_moves
  by (auto simp: evaluateReachability_def fitting_tick_def hub_moves_def split: sum.splits)

section \<open>Runs\<close>

inductive hub_step :: "Lib \<Rightarrow> HubConfig \<Rightarrow> Hub \<Rightarrow> Hub \<Rightarrow> bool" for lib cfg where
  request: "fitting_env lib env hub \<Longrightarrow> serve lib cfg env req hub = (reply, hub') \<Longrightarrow> hub_step lib cfg hub hub'"
| tick: "fitting_tick lib cfg env stale envs hub \<Longrightarrow>
    hub_step lib cfg hub (evaluateReachability lib cfg env stale envs hub)"

inductive hub_reach :: "Lib \<Rightarrow> HubConfig \<Rightarrow> Hub \<Rightarrow> bool" for lib cfg where
  start: "Config_DatabaseURL configuration = [] \<Longrightarrow> start_hub lib configuration startup env = Inr (cfg, hub)
    \<Longrightarrow> hub_reach lib cfg hub"
| step: "hub_reach lib cfg hub \<Longrightarrow> hub_step lib cfg hub hub' \<Longrightarrow> hub_reach lib cfg hub'"

lemma hub_step_moves: "hub_step lib cfg hub hub' \<Longrightarrow> hub_moves lib cfg hub hub'"
proof (induction rule: hub_step.induct)
  case (request env hub req reply hub')
  from serve_moves [OF request(1), of cfg req] request(2) show ?case by simp
qed (rule evaluateReachability_moves)

lemma hub_steps_moves: "(hub_step lib cfg)\<^sup>*\<^sup>* hub hub' \<Longrightarrow> hub_moves lib cfg hub hub'"
  by (induction rule: rtranclp_induct) (blast intro: hub_moves_refl hub_moves_trans hub_step_moves)+

lemma start_hub_new: "start_hub lib configuration startup env = Inr (cfg, hub) \<Longrightarrow> \<exists>tokens. hub = NewHub tokens"
  by (auto simp: start_hub_def Let_def split: option.splits sum.splits if_splits)

lemma hub_reach_inv: "hub_reach lib cfg hub \<Longrightarrow> hub_inv hub"
  by (induction rule: hub_reach.induct) (use start_hub_new hub_inv_init hub_moves_inv hub_step_moves in blast)+

section \<open>What a component promises for all its runs\<close>

text \<open>
  The client is the hub, the provider a component whose credentials end for good: every step
  of the hub is a sequence of the component's steps, so the hub refuses the dead credential too.
\<close>

locale revocation_view = low: revocation inv step dead accepted
  for inv :: "'s \<Rightarrow> bool" and step :: "'s \<Rightarrow> 's \<Rightarrow> bool" and dead :: "'s \<Rightarrow> 'h \<Rightarrow> bool" and accepted :: "'s \<Rightarrow> 'h \<Rightarrow> bool" +
  fixes view :: "'w \<Rightarrow> 's" and world_step :: "'w \<Rightarrow> 'w \<Rightarrow> bool"
  assumes simulated: "world_step w w' \<Longrightarrow> rtranclp step (view w) (view w')"

sublocale revocation_view \<subseteq> high: revocation "\<lambda>w. inv (view w)" world_step "\<lambda>w. dead (view w)" "\<lambda>w. accepted (view w)"
  using low.inv_steps low.dead_steps low.dead_refused simulated by unfold_locales blast+

text \<open>Sessions, whatever service validates them; likewise tokens of accounts and invites.\<close>

definition session_taken :: "Lib \<Rightarrow> time \<Rightarrow> SessionStore \<Rightarrow> string \<Rightarrow> bool" where
  "session_taken lib now st h \<longleftrightarrow> (\<exists>service. session_accepted (Crypto_sha256 (Lib_crypto lib)) service now st h)"

interpretation any_sessions: revocation session_inv "session_move lib" "session_ended now" "session_taken lib now"
  for lib now
  unfolding session_move_def session_taken_def
  by unfold_locales
    (blast intro: session_tokens.inv_step session_tokens.dead_step dest: session_tokens.dead_refused)+

interpretation hub_sessions: revocation_view session_inv "session_move lib" "session_ended now" "session_taken lib now"
  Hub_sessions "hub_step lib cfg" for lib now cfg
  by unfold_locales (drule hub_step_moves, simp add: hub_moves_def)

interpretation hub_accounts: revocation_view sa_inv "account_move lib cfg" "token_dead now"
  "token_accepted (Lib_mac lib) (Hub_pepper cfg) now" Hub_accounts "hub_step lib cfg" for lib cfg now
  by unfold_locales (drule hub_step_moves, simp add: hub_moves_def)

definition invite_taken :: "Lib \<Rightarrow> time \<Rightarrow> IdentityStore \<Rightarrow> string \<Rightarrow> bool" where
  "invite_taken lib now st h \<longleftrightarrow>
     (\<exists>service :: MembershipStore IdentityService. invite_accepted (Lib_crypto lib) service now st h)"

interpretation any_invites: revocation identity_inv "identity_move lib" "invite_dead now" "invite_taken lib now" for lib now
  unfolding identity_move_def invite_taken_def
  by unfold_locales (blast intro: invites.inv_step invites.dead_step dest: invites.dead_refused)+

interpretation hub_invites: revocation_view identity_inv "identity_move lib" "invite_dead now" "invite_taken lib now"
  Hub_identity "hub_step lib cfg" for lib now cfg
  by unfold_locales (drule hub_step_moves, simp add: hub_moves_def)

end
