(* ===== verification/Hub_Access.thy ===== *)
theory Hub_Access
  imports Hub_Runs
begin

text \<open>
  Who may change what: for every route the guard a request has to pass (\<open>route_guard\<close>) and the
  parts of the hub it can change at all (\<open>footprint\<close>), and the exact decision of the guard.
\<close>

section \<open>Parts of the hub\<close>

datatype Part =
    Tokens | Hosts | Samples | Services | Logs | Jobs | Alerts | Cloud | Feed | Trail | Users | Sessions
  | Memberships | Accounts | Limits

fun same_part :: "Part \<Rightarrow> Hub \<Rightarrow> Hub \<Rightarrow> bool" where
  "same_part Tokens a b \<longleftrightarrow> Hub_tokens b = Hub_tokens a"
| "same_part Hosts a b \<longleftrightarrow> Hub_hosts b = Hub_hosts a"
| "same_part Samples a b \<longleftrightarrow> Hub_samples b = Hub_samples a"
| "same_part Services a b \<longleftrightarrow> Hub_services b = Hub_services a"
| "same_part Logs a b \<longleftrightarrow> Hub_logs b = Hub_logs a"
| "same_part Jobs a b \<longleftrightarrow> Hub_jobs b = Hub_jobs a"
| "same_part Alerts a b \<longleftrightarrow> Hub_alerts b = Hub_alerts a"
| "same_part Cloud a b \<longleftrightarrow> Hub_cloud b = Hub_cloud a"
| "same_part Feed a b \<longleftrightarrow> Hub_activity b = Hub_activity a"
| "same_part Trail a b \<longleftrightarrow> Hub_audit b = Hub_audit a"
| "same_part Users a b \<longleftrightarrow> Hub_identity b = Hub_identity a"
| "same_part Sessions a b \<longleftrightarrow> Hub_sessions b = Hub_sessions a"
| "same_part Memberships a b \<longleftrightarrow> Hub_memberships b = Hub_memberships a"
| "same_part Accounts a b \<longleftrightarrow> Hub_accounts b = Hub_accounts a"
| "same_part Limits a b \<longleftrightarrow> Hub_loginLimiter b = Hub_loginLimiter a \<and> Hub_confirmLimiter b = Hub_confirmLimiter a
     \<and> Hub_inviteLimiter b = Hub_inviteLimiter a"

text \<open>\<open>differs_in S a b\<close>: \<open>b\<close> is \<open>a\<close> but for parts of \<open>S\<close>.\<close>

definition differs_in :: "Part set \<Rightarrow> Hub \<Rightarrow> Hub \<Rightarrow> bool" where
  "differs_in S a b \<longleftrightarrow> (\<forall>p. p \<in> S \<or> same_part p a b)"

lemma same_part_refl [simp]: "same_part p a a"
  by (cases p) simp_all

lemma same_part_trans: "same_part p a b \<Longrightarrow> same_part p b c \<Longrightarrow> same_part p a c"
  by (cases p) simp_all

lemma differs_refl [simp]: "differs_in S a a"
  by (simp add: differs_in_def)

lemma differs_mono: "differs_in S a b \<Longrightarrow> S \<subseteq> T \<Longrightarrow> differs_in T a b"
  unfolding differs_in_def by blast

lemma differs_trans: "differs_in S a b \<Longrightarrow> differs_in S b c \<Longrightarrow> differs_in S a c"
  unfolding differs_in_def using same_part_trans by blast

lemma same_part_updates:
    "p \<noteq> Tokens \<Longrightarrow> same_part p b (b\<lparr>Hub_tokens := x1\<rparr>)"
    "p \<noteq> Hosts \<Longrightarrow> same_part p b (b\<lparr>Hub_hosts := x2\<rparr>)"
    "p \<noteq> Samples \<Longrightarrow> same_part p b (b\<lparr>Hub_samples := x3\<rparr>)"
    "p \<noteq> Services \<Longrightarrow> same_part p b (b\<lparr>Hub_services := x4\<rparr>)"
    "p \<noteq> Logs \<Longrightarrow> same_part p b (b\<lparr>Hub_logs := x5\<rparr>)"
    "p \<noteq> Jobs \<Longrightarrow> same_part p b (b\<lparr>Hub_jobs := x6\<rparr>)"
    "p \<noteq> Alerts \<Longrightarrow> same_part p b (b\<lparr>Hub_alerts := x7\<rparr>)"
    "p \<noteq> Cloud \<Longrightarrow> same_part p b (b\<lparr>Hub_cloud := x8\<rparr>)"
    "p \<noteq> Trail \<Longrightarrow> same_part p b (b\<lparr>Hub_audit := x9\<rparr>)"
    "p \<noteq> Users \<Longrightarrow> same_part p b (b\<lparr>Hub_identity := x10\<rparr>)"
    "p \<noteq> Sessions \<Longrightarrow> same_part p b (b\<lparr>Hub_sessions := x11\<rparr>)"
    "p \<noteq> Memberships \<Longrightarrow> same_part p b (b\<lparr>Hub_memberships := x12\<rparr>)"
    "p \<noteq> Accounts \<Longrightarrow> same_part p b (b\<lparr>Hub_accounts := x13\<rparr>)"
    "p \<noteq> Limits \<Longrightarrow> same_part p b (b\<lparr>Hub_loginLimiter := x14\<rparr>)"
    "p \<noteq> Limits \<Longrightarrow> same_part p b (b\<lparr>Hub_confirmLimiter := x14\<rparr>)"
    "p \<noteq> Limits \<Longrightarrow> same_part p b (b\<lparr>Hub_inviteLimiter := x14\<rparr>)"
    "p \<noteq> Feed \<Longrightarrow> same_part p b (record_activity cfg env source reference ty actor message b)"
  unfolding record_activity_def by (cases p; simp)+

lemma differs_updates:
  assumes "differs_in S a b"
  shows "Tokens \<in> S \<Longrightarrow> differs_in S a (b\<lparr>Hub_tokens := x1\<rparr>)"
    "Hosts \<in> S \<Longrightarrow> differs_in S a (b\<lparr>Hub_hosts := x2\<rparr>)"
    "Samples \<in> S \<Longrightarrow> differs_in S a (b\<lparr>Hub_samples := x3\<rparr>)"
    "Services \<in> S \<Longrightarrow> differs_in S a (b\<lparr>Hub_services := x4\<rparr>)"
    "Logs \<in> S \<Longrightarrow> differs_in S a (b\<lparr>Hub_logs := x5\<rparr>)"
    "Jobs \<in> S \<Longrightarrow> differs_in S a (b\<lparr>Hub_jobs := x6\<rparr>)"
    "Alerts \<in> S \<Longrightarrow> differs_in S a (b\<lparr>Hub_alerts := x7\<rparr>)"
    "Cloud \<in> S \<Longrightarrow> differs_in S a (b\<lparr>Hub_cloud := x8\<rparr>)"
    "Trail \<in> S \<Longrightarrow> differs_in S a (b\<lparr>Hub_audit := x9\<rparr>)"
    "Users \<in> S \<Longrightarrow> differs_in S a (b\<lparr>Hub_identity := x10\<rparr>)"
    "Sessions \<in> S \<Longrightarrow> differs_in S a (b\<lparr>Hub_sessions := x11\<rparr>)"
    "Memberships \<in> S \<Longrightarrow> differs_in S a (b\<lparr>Hub_memberships := x12\<rparr>)"
    "Accounts \<in> S \<Longrightarrow> differs_in S a (b\<lparr>Hub_accounts := x13\<rparr>)"
    "Limits \<in> S \<Longrightarrow> differs_in S a (b\<lparr>Hub_loginLimiter := x14\<rparr>)"
    "Limits \<in> S \<Longrightarrow> differs_in S a (b\<lparr>Hub_confirmLimiter := x14\<rparr>)"
    "Limits \<in> S \<Longrightarrow> differs_in S a (b\<lparr>Hub_inviteLimiter := x14\<rparr>)"
    "Feed \<in> S \<Longrightarrow> differs_in S a (record_activity cfg env source reference ty actor message b)"
  using assms unfolding differs_in_def by (metis same_part_updates same_part_trans)+

section \<open>Guards and footprints of the routes\<close>

datatype Guard = Open | ByAgent | ByPermission bool Permission

fun route_guard :: "Route \<Rightarrow> Guard" where
  "route_guard R_Renew = ByAgent"
| "route_guard R_InventoryReport = ByAgent"
| "route_guard R_TelemetryReport = ByAgent"
| "route_guard R_ServiceReport = ByAgent"
| "route_guard R_LogIngest = ByAgent"
| "route_guard R_ClaimJob = ByAgent"
| "route_guard R_ReportJobEvent = ByAgent"
| "route_guard R_CreateJob = ByPermission True PermissionCreateJobs"
| "route_guard R_CreateAlertRule = ByPermission True PermissionManageAlerts"
| "route_guard R_CreateMaintenance = ByPermission True PermissionManageAlerts"
| "route_guard R_Acknowledge = ByPermission True PermissionAcknowledgeIncidents"
| "route_guard R_CreateCloudAccount = ByPermission True PermissionManageCloudAccounts"
| "route_guard R_Reconcile = ByPermission True PermissionManageCloudAccounts"
| "route_guard R_Activity = ByPermission True PermissionViewActivity"
| "route_guard R_Audit = ByPermission True PermissionViewAuditEvents"
| "route_guard R_ListUsers = ByPermission False PermissionManageUsers"
| "route_guard R_CreateInvite = ByPermission False PermissionManageUsers"
| "route_guard R_SetOIDC = ByPermission False PermissionManageOrgSecurity"
| "route_guard R_GetOIDC = ByPermission False PermissionManageOrgSecurity"
| "route_guard R_RevokeUserSessions = ByPermission False PermissionManageUsers"
| "route_guard R_RevokeAllSessions = ByPermission False PermissionManageUsers"
| "route_guard R_AssignRole = ByPermission False PermissionManageUsers"
| "route_guard R_RevokeRole = ByPermission False PermissionManageUsers"
| "route_guard R_CreateAccount = ByPermission False PermissionManageServiceAccounts"
| "route_guard R_ListAccounts = ByPermission False PermissionManageServiceAccounts"
| "route_guard R_Rotate = ByPermission False PermissionManageServiceAccounts"
| "route_guard R_RevokeToken = ByPermission False PermissionManageServiceAccounts"
| "route_guard R_DisableAccount = ByPermission False PermissionManageServiceAccounts"
| "route_guard _ = Open"

definition permitted :: "Lib \<Rightarrow> HubConfig \<Rightarrow> Env \<Rightarrow> bool \<Rightarrow> Permission \<Rightarrow> Request \<Rightarrow> Hub \<Rightarrow> bool" where
  "permitted lib cfg env accounts permission request hub \<longleftrightarrow>
     (\<exists>actor. fst (requirePermission lib cfg env accounts permission (Scope_SiteID (Hub_scope cfg)) request hub) = Inr actor)"

fun guard_passed :: "Lib \<Rightarrow> HubConfig \<Rightarrow> Env \<Rightarrow> Request \<Rightarrow> Hub \<Rightarrow> Guard \<Rightarrow> bool" where
  "guard_passed lib cfg env request hub Open \<longleftrightarrow> True"
| "guard_passed lib cfg env request hub ByAgent \<longleftrightarrow> (\<exists>agent. authenticateAgent lib cfg env request hub = Inr agent)"
| "guard_passed lib cfg env request hub (ByPermission accounts permission) \<longleftrightarrow>
     permitted lib cfg env accounts permission request hub"

text \<open>What the handler behind the guard can change; the guard itself may touch the session or token.\<close>

fun footprint :: "Route \<Rightarrow> Part set" where
  "footprint R_Enroll = {Tokens}"
| "footprint R_InventoryReport = {Hosts}"
| "footprint R_TelemetryReport = {Samples, Alerts}"
| "footprint R_ServiceReport = {Services}"
| "footprint R_StreamLogs = {Logs}"
| "footprint R_LogIngest = {Logs}"
| "footprint R_CreateJob = {Jobs}"
| "footprint R_ClaimJob = {Jobs}"
| "footprint R_ReportJobEvent = {Jobs}"
| "footprint R_CreateAlertRule = {Alerts}"
| "footprint R_CreateMaintenance = {Alerts}"
| "footprint R_Acknowledge = {Alerts}"
| "footprint R_CreateCloudAccount = {Cloud}"
| "footprint R_Reconcile = {Cloud}"
| "footprint R_Bootstrap = {Users}"
| "footprint R_CreateInvite = {Users, Feed}"
| "footprint R_ConsumeInvite = {Users, Memberships, Limits}"
| "footprint R_ConfirmTOTP = {Users, Limits}"
| "footprint R_SetOIDC = {Users}"
| "footprint R_OIDCCallback = {Users, Memberships, Sessions, Feed}"
| "footprint R_Login = {Users, Sessions, Limits}"
| "footprint R_WhoAmI = {Sessions}"
| "footprint R_Logout = {Sessions}"
| "footprint R_RevokeUserSessions = {Sessions}"
| "footprint R_RevokeAllSessions = {Sessions}"
| "footprint R_AssignRole = {Memberships, Feed}"
| "footprint R_RevokeRole = {Memberships, Feed}"
| "footprint R_CreateAccount = {Accounts, Feed}"
| "footprint R_Rotate = {Accounts, Feed}"
| "footprint R_RevokeToken = {Accounts, Feed}"
| "footprint R_DisableAccount = {Accounts, Feed}"
| "footprint _ = {}"

fun guard_parts :: "Guard \<Rightarrow> Part set" where
  "guard_parts Open = {}"
| "guard_parts ByAgent = {}"
| "guard_parts (ByPermission accounts permission) = (if accounts then {Sessions, Accounts} else {Sessions})"

section \<open>The guard refuses\<close>

lemma requirePermission_differs:
  "differs_in (guard_parts (ByPermission accounts permission)) hub
     (snd (requirePermission lib cfg env accounts permission siteID request hub))"
  by (cases rule: requirePermission_hub [of lib cfg env accounts permission siteID request hub])
    (simp_all add: differs_updates)

lemma gated_refuses:
  assumes "\<not> permitted lib cfg env accounts permission request hub"
    and "gated lib cfg env accounts permission request hub k = (reply, hub')"
  shows "requirePermission lib cfg env accounts permission (Scope_SiteID (Hub_scope cfg)) request hub = (Inl reply, hub')"
  using assms by (cases "requirePermission lib cfg env accounts permission (Scope_SiteID (Hub_scope cfg)) request hub")
    (auto simp: permitted_def gated_def split: sum.splits)

lemma refused_status:
  "requirePermission lib cfg env accounts permission siteID request hub = (Inl reply, hub') \<Longrightarrow>
     Reply_Status reply \<in> {401, 403, 500} \<and> Reply_Payload reply = StatusText (Reply_Status reply)"
  by (auto simp: requirePermission_def permit_session_def permit_account_def http_error_def with_cookies_def
      split: option.splits prod.splits sum.splits if_splits)

lemma handle_gated:
  "route_guard route = ByPermission accounts permission \<Longrightarrow>
     \<exists>k. handle lib cfg env response route request hub = gated lib cfg env accounts permission request hub k"
  by (cases route; simp add: handle_def handleCreateJob_def handleCreateAlertRule_def handleCreateMaintenance_def
      handleAcknowledgeIncident_def handleCreateCloudAccount_def handleReconcileCloudInstances_def
      handleListActivityEvents_def handleListAuditTrail_def handleListUsers_def handleCreateInvite_def
      handleSetOIDCConfiguration_def handleGetOIDCConfiguration_def handleRevokeUserSessions_def handleRevokeAllSessions_def
      handleAssignSiteRole_def handleRevokeSiteRole_def handleCreateServiceAccount_def handleListServiceAccounts_def
      handleRotateServiceAccountToken_def handleRevokeServiceAccountToken_def handleDisableServiceAccount_def)
    (rule exI, rule refl)+

lemma handle_by_agent:
  "route_guard route = ByAgent \<Longrightarrow> \<exists>k. handle lib cfg env response route request hub = by_agent lib cfg env request hub k"
  by (cases route; simp add: handle_def handleRenew_def handleInventoryReport_def handleTelemetryReport_def
      handleServiceReport_def handleLogIngest_def handleClaimJob_def handleReportJobEvent_def)
    (rule exI, rule refl)+

section \<open>What a handler changes\<close>

lemma gated_differs:
  assumes "guard_parts (ByPermission accounts permission) \<subseteq> S"
    and "\<And>actor hub1. differs_in S hub hub1 \<Longrightarrow> differs_in S hub (snd (k actor hub1))"
  shows "differs_in S hub (snd (gated lib cfg env accounts permission request hub k))"
proof -
  obtain res hub1 where call: "requirePermission lib cfg env accounts permission (Scope_SiteID (Hub_scope cfg)) request hub = (res, hub1)"
    by fastforce
  then have "differs_in S hub hub1"
    using requirePermission_differs differs_mono [OF _ assms(1)] by (metis snd_conv)
  with assms(2) show ?thesis unfolding gated_def call by (cases res) auto
qed

lemma with_body_differs:
  assumes "differs_in S hub hub1" "\<And>body. differs_in S hub (snd (k body))"
  shows "differs_in S hub (snd (with_body decode request hub1 k))"
  using assms by (simp add: with_body_def split: option.splits)

lemma by_agent_differs:
  assumes "\<And>agent. differs_in S hub (snd (k agent))"
  shows "differs_in S hub (snd (by_agent lib cfg env request hub k))"
  using assms by (simp add: by_agent_def split: sum.splits)

lemmas differs_intros = gated_differs with_body_differs by_agent_differs differs_updates

lemma agent_handlers_differ:
  "differs_in {Tokens} hub (snd (handleEnroll lib cfg env request hub))"
  "differs_in {} hub (snd (handleRenew lib cfg env request hub))"
  "differs_in {Hosts} hub (snd (handleInventoryReport lib cfg env request hub))"
  "differs_in {Samples, Alerts} hub (snd (handleTelemetryReport lib cfg env request hub))"
  "differs_in {Services} hub (snd (handleServiceReport lib cfg env request hub))"
  "differs_in {Logs} hub (snd (handleLogIngest lib cfg env request hub))"
  "differs_in {Logs} hub (snd (handleStreamLogs response cfg env request hub))"
  "differs_in {Jobs} hub (snd (handleClaimJob lib cfg env request hub))"
  "differs_in {Jobs} hub (snd (handleReportJobEvent lib cfg env request hub))"
  unfolding handleEnroll_def handleRenew_def handleInventoryReport_def handleTelemetryReport_def handleServiceReport_def
    handleLogIngest_def handleStreamLogs_def handleClaimJob_def handleReportJobEvent_def Let_def
  by (auto intro!: differs_intros split: prod.splits sum.splits option.splits)

lemma operator_handlers_differ:
  "differs_in {Sessions, Accounts, Jobs} hub (snd (handleCreateJob lib cfg env request hub))"
  "differs_in {Sessions, Accounts, Alerts} hub (snd (handleCreateAlertRule lib cfg env request hub))"
  "differs_in {Sessions, Accounts, Alerts} hub (snd (handleCreateMaintenance lib cfg env request hub))"
  "differs_in {Sessions, Accounts, Alerts} hub (snd (handleAcknowledgeIncident lib cfg env request hub))"
  "differs_in {Sessions, Accounts, Cloud} hub (snd (handleCreateCloudAccount lib cfg env request hub))"
  "differs_in {Sessions, Accounts, Cloud} hub (snd (handleReconcileCloudInstances lib cfg env request hub))"
  "differs_in {Sessions, Accounts} hub (snd (handleListActivityEvents lib cfg env request hub))"
  "differs_in {Sessions, Accounts} hub (snd (handleListAuditTrail lib cfg env request hub))"
  unfolding handleCreateJob_def handleCreateAlertRule_def handleCreateMaintenance_def handleAcknowledgeIncident_def
    handleCreateCloudAccount_def handleReconcileCloudInstances_def handleListActivityEvents_def handleListAuditTrail_def
  by (auto intro!: differs_intros split: prod.splits sum.splits option.splits)

lemma identity_handlers_differ:
  "differs_in {Users} hub (snd (handleBootstrap lib cfg env request hub))"
  "differs_in {Sessions} hub (snd (handleListUsers lib cfg env request hub))"
  "differs_in {Sessions, Users, Feed} hub (snd (handleCreateInvite lib cfg env request hub))"
  "differs_in {Users, Memberships, Limits} hub (snd (handleConsumeInvite lib cfg env request hub))"
  "differs_in {Users, Limits} hub (snd (handleConfirmTOTP lib cfg env request hub))"
  "differs_in {Sessions, Users} hub (snd (handleSetOIDCConfiguration lib cfg env request hub))"
  "differs_in {Sessions} hub (snd (handleGetOIDCConfiguration lib cfg env request hub))"
  unfolding handleBootstrap_def handleListUsers_def handleCreateInvite_def handleConsumeInvite_def handleConfirmTOTP_def
    handleSetOIDCConfiguration_def handleGetOIDCConfiguration_def Let_def
  by (auto intro!: differs_intros split: prod.splits sum.splits option.splits)

lemma create_session_differs:
  "create_session lib env user hub1 = (res, hub2) \<Longrightarrow> Sessions \<in> S \<Longrightarrow> differs_in S hub hub1 \<Longrightarrow> differs_in S hub hub2"
  by (auto simp: create_session_def intro!: differs_updates split: prod.splits)

lemma authenticateSession_differs:
  assumes "authenticateSession lib env request hub = (res, hub1)"
  shows "differs_in {Sessions} hub hub1"
proof -
  have "hub1 = hub \<or> (\<exists>token. hub1 = snd (validate_session lib env token hub))"
    using assms by (auto simp: authenticateSession_def split: option.splits if_splits prod.splits sum.splits) (metis snd_conv)+
  then show ?thesis using validate_session_hub differs_updates(11) [of "{Sessions}"] by (metis differs_refl insertI1)
qed

lemma callback_login_differs:
  "differs_in {Users, Memberships, Sessions, Feed} hub (snd (callback_login lib cfg env request config claims hub))"
proof -
  obtain res st roles where op: "LoginOrLinkOIDCUser (identity_service cfg env) (Env_identity env)
       (Env_invites1 env (IdentityStore_invites (Hub_identity hub)))
       (Env_invites2 env (IdentityStore_invites (Hub_identity hub))) (Scope_OrganizationID (Hub_scope cfg))
       (OIDCConfiguration_Issuer config) (Claims_Subject claims) (Claims_Email claims)
       (Hub_identity hub, Hub_memberships hub) = (res, st, roles)" by (metis prod_cases3)
  have linked: "differs_in {Users, Memberships, Sessions, Feed} hub (hub\<lparr>Hub_identity := st, Hub_memberships := roles\<rparr>)"
    by (simp add: differs_updates)
  show ?thesis
    unfolding callback_login_def Let_def op
    using linked create_session_differs [OF _ _ linked]
    by (auto intro!: differs_updates(17) split: prod.splits sum.splits)
qed

lemma handleOIDCCallback_differs:
  "differs_in {Users, Memberships, Sessions, Feed} hub (snd (handleOIDCCallback lib cfg env request hub))"
  unfolding handleOIDCCallback_def Let_def
  using callback_login_differs by (auto split: prod.splits sum.splits option.splits) (metis snd_conv)

lemma handleLogin_differs: "differs_in {Users, Sessions, Limits} hub (snd (handleLogin lib cfg env request hub))"
proof -
  obtain allowed l where allow: "Allow (Env_now env 0) (sourceIP request) (Hub_loginLimiter hub) = (allowed, l)" by fastforce
  have limited: "differs_in {Users, Sessions, Limits} hub (hub\<lparr>Hub_loginLimiter := l\<rparr>)"
    by (simp add: differs_updates)
  show ?thesis
  proof (cases allowed)
    case True
    then show ?thesis
      unfolding handleLogin_def allow Let_def
      using create_session_differs [OF _ _ differs_updates(10) [OF limited]]
      by (auto intro!: with_body_differs limited intro: differs_updates(10) [OF limited]
          split: prod.splits sum.splits split del: if_split)
  qed (use limited in \<open>simp add: handleLogin_def allow\<close>)
qed

lemma session_handlers_differ:
  "differs_in {Sessions} hub (snd (handleWhoAmI lib env request hub))"
  "differs_in {Sessions} hub (snd (handleLogout lib env request hub))"
  "differs_in {Sessions} hub (snd (handleRevokeUserSessions lib cfg env request hub))"
  "differs_in {Sessions} hub (snd (handleRevokeAllSessions lib cfg env request hub))"
  unfolding handleWhoAmI_def handleLogout_def handleRevokeUserSessions_def handleRevokeAllSessions_def
  by (auto intro!: differs_intros intro: authenticateSession_differs split: prod.splits sum.splits)

lemma role_handlers_differ:
  "differs_in {Sessions, Memberships, Feed} hub (snd (handleAssignSiteRole lib cfg env request hub))"
  "differs_in {Sessions, Memberships, Feed} hub (snd (handleRevokeSiteRole lib cfg env request hub))"
  "differs_in {Sessions, Accounts, Feed} hub (snd (handleCreateServiceAccount lib cfg env request hub))"
  "differs_in {Sessions} hub (snd (handleListServiceAccounts lib cfg env request hub))"
  "differs_in {Sessions, Accounts, Feed} hub (snd (handleRotateServiceAccountToken lib cfg env request hub))"
  "differs_in {Sessions, Accounts, Feed} hub (snd (handleRevokeServiceAccountToken lib cfg env request hub))"
  "differs_in {Sessions, Accounts, Feed} hub (snd (handleDisableServiceAccount lib cfg env request hub))"
  unfolding handleAssignSiteRole_def handleRevokeSiteRole_def handleCreateServiceAccount_def handleListServiceAccounts_def
    handleRotateServiceAccountToken_def handleRevokeServiceAccountToken_def handleDisableServiceAccount_def Let_def
  by (auto intro!: differs_intros split: prod.splits sum.splits)

lemma handle_differs:
  "differs_in (footprint route \<union> guard_parts (route_guard route)) hub (snd (handle lib cfg env response route request hub))"
  by (cases route; simp add: handle_def agent_handlers_differ operator_handlers_differ identity_handlers_differ
      handleOIDCCallback_differs handleLogin_differs session_handlers_differ role_handlers_differ)

section \<open>The decision of \<open>requirePermission\<close>\<close>

lemma validate_session_Inr:
  assumes "hub_inv hub"
  shows "fst (validate_session lib env token hub) = Inr session \<longleftrightarrow>
     (\<exists>rcd user. SessionStore_byTokenHash (Hub_sessions hub) (hashToken (Crypto_sha256 (Lib_crypto lib)) token) = Some rcd
        \<and> Session_RevokedAt (sessionRecord_session rcd) = None
        \<and> Env_now env 0 \<le> Session_AbsoluteExpiresAt (sessionRecord_session rcd)
        \<and> sub_time (Env_now env 0) (Session_LastSeenAt (sessionRecord_session rcd)) \<le> 30 * minute
        \<and> IdentityStore_usersByID (Hub_identity hub) (Session_UserID (sessionRecord_session rcd)) = Some user
        \<and> User_DisabledAt user = None
        \<and> session = (sessionRecord_session rcd)\<lparr>Session_LastSeenAt := Env_now env 0\<rparr>)"
proof -
  have inv: "session_inv (Hub_sessions hub)" using assms by (simp add: hub_inv_def)
  obtain res st where call: "Sessions_Validate (Crypto_sha256 (Lib_crypto lib)) (sessions_service hub) (Env_now env 0) token
      (Hub_sessions hub) = (res, st)" by fastforce
  have active: "user_active (sessions_service hub) i = Inr True \<longleftrightarrow>
      (\<exists>user. IdentityStore_usersByID (Hub_identity hub) i = Some user \<and> User_DisabledAt user = None)" for i
    by (auto simp: user_active_def sessions_service_def IsUserActive_def UserByID_def split: option.splits)
  have "fst (validate_session lib env token hub) = Inr session \<longleftrightarrow> (\<exists>st. Sessions_Validate (Crypto_sha256 (Lib_crypto lib))
      (sessions_service hub) (Env_now env 0) token (Hub_sessions hub) = (Inr session, st))"
    by (simp add: validate_session_def call)
  then show ?thesis
    unfolding Sessions_Validate_Inr [OF inv] active by (auto simp: sessions_service_def)
qed

lemma validate_session_frame: "Hub_memberships (snd (validate_session lib env token hub)) = Hub_memberships hub"
  "Hub_identity (snd (validate_session lib env token hub)) = Hub_identity hub"
  by (simp_all add: validate_session_def split: prod.splits)

lemma permit_session_Inr:
  assumes "hub_inv hub"
  shows "fst (permit_session lib env permission siteID request token hub) = Inr actor \<longleftrightarrow>
     (\<exists>rcd session user.
            SessionStore_byTokenHash (Hub_sessions hub) (hashToken (Crypto_sha256 (Lib_crypto lib)) token) = Some rcd
          \<and> session = sessionRecord_session rcd \<and> actor = Session_UserID session
          \<and> Session_RevokedAt session = None \<and> Env_now env 0 \<le> Session_AbsoluteExpiresAt session
          \<and> sub_time (Env_now env 0) (Session_LastSeenAt session) \<le> 30 * minute
          \<and> IdentityStore_usersByID (Hub_identity hub) actor = Some user \<and> User_DisabledAt user = None
          \<and> (Request_Method request \<in> {''GET'', ''HEAD''} \<or> Request_Header request ''X-CSRF-Token'' \<noteq> []
               \<and> Request_Header request ''X-CSRF-Token'' = Session_CSRFToken session)
          \<and> (User_Role user = RolePlatformAdmin
             \<or> (\<exists>m. Hub_memberships hub (membershipKey actor siteID) = Some m
                   \<and> PermissionAllowsRole permission (SiteMembership_Role m))))"
    (is "_ \<longleftrightarrow> ?granted")
proof -
  obtain res hub1 where call: "validate_session lib env token hub = (res, hub1)" by fastforce
  have frame: "Hub_memberships hub1 = Hub_memberships hub" "Hub_identity hub1 = Hub_identity hub"
    using validate_session_frame [of lib env token hub] call by simp_all
  have can: "Can (platform_admin hub1) i permission siteID (Hub_memberships hub) = Inr True \<longleftrightarrow>
      User_Role user = RolePlatformAdmin \<or> (\<exists>m. Hub_memberships hub (membershipKey i siteID) = Some m
        \<and> PermissionAllowsRole permission (SiteMembership_Role m))"
    if "IdentityStore_usersByID (Hub_identity hub) i = Some user" for i user
    using that frame(2) by (auto simp: Can_Inr_True platform_admin_def IsPlatformAdmin_def UserByID_def)
  have "fst (permit_session lib env permission siteID request token hub) = Inr actor \<longleftrightarrow>
      (\<exists>session. res = Inr session \<and> actor = Session_UserID session
         \<and> (Request_Method request \<in> {''GET'', ''HEAD''} \<or> matching_csrf request session)
         \<and> Can (platform_admin hub1) actor permission siteID (Hub_memberships hub) = Inr True)"
    by (auto simp: permit_session_def call frame(1) split: sum.splits)
  also have "\<dots> \<longleftrightarrow> ?granted"
    using validate_session_Inr [OF assms, of lib env token] call can by (auto simp: matching_csrf_def)
  finally show ?thesis .
qed

lemma permit_account_Inr:
  assumes "hub_inv hub"
  shows "fst (permit_account lib cfg env permission siteID request bearer hub) = Inr actor \<longleftrightarrow>
     (\<exists>i secret r account. ParseToken bearer = Some (i, secret)
          \<and> SAStore_tokens (Hub_accounts hub) i = Some r
          \<and> hashSecret (Lib_mac lib) secret (Hub_pepper cfg) = tokenRecord_secretHash r
          \<and> Token_RevokedAt (tokenRecord_token r) = None \<and> Env_now env 0 \<le> Token_ExpiresAt (tokenRecord_token r)
          \<and> SAStore_accounts (Hub_accounts hub) (Token_ServiceAccountID (tokenRecord_token r)) = Some account
          \<and> ServiceAccount_DisabledAt account = None \<and> actor = ServiceAccount_ID account
          \<and> ServiceAccount_OrganizationID account = DefaultOrganizationID \<and> ServiceAccount_SiteID account = siteID
          \<and> PermissionAllowsRole permission (ServiceAccount_Role account))"
proof -
  have inv: "sa_inv (Hub_accounts hub)" using assms by (simp add: hub_inv_def)
  obtain res st where call: "SA_Validate (Lib_mac lib) (Hub_pepper cfg) (Env_now env 0) (Env_now env 1) bearer
      (sourceIP request) (Hub_accounts hub) = (res, st)" by fastforce
  have account: "fst (permit_account lib cfg env permission siteID request bearer hub) = Inr actor \<longleftrightarrow>
      (\<exists>account. res = Inr account \<and> actor = ServiceAccount_ID account
         \<and> ServiceAccount_OrganizationID account = DefaultOrganizationID \<and> ServiceAccount_SiteID account = siteID
         \<and> PermissionAllowsRole permission (ServiceAccount_Role account))"
    unfolding permit_account_def validate_account_def call by (auto split: sum.splits)
  from inv call show ?thesis
  proof (cases rule: SA_Validate_cases)
    case (refused e)
    then show ?thesis unfolding account by fastforce
  next
    case (accepted i secret r a)
    then show ?thesis unfolding account by auto
  qed
qed

section \<open>Ended sessions\<close>

definition session_revoked :: "SessionStore \<Rightarrow> string \<Rightarrow> bool" where
  "session_revoked st h \<longleftrightarrow>
     (\<exists>rcd. SessionStore_byTokenHash st h = Some rcd \<and> Session_RevokedAt (sessionRecord_session rcd) \<noteq> None)"

lemma session_revoked_ended: "session_revoked st h \<Longrightarrow> session_ended now st h"
  by (auto simp: session_revoked_def session_ended_def)

lemma Sessions_Revoke_revokes:
  assumes inv: "session_inv st" and op: "Sessions_Revoke sha now token st = (Inr res, st')"
  shows "session_revoked st' (hashToken sha token)"
proof -
  obtain rcd where rcd: "SessionStore_byTokenHash st (hashToken sha token) = Some rcd"
    using op by (auto simp: Sessions_Revoke_def SessionByTokenHash_def split: option.splits)
  then have "SessionStore_byID st (Session_ID (sessionRecord_session rcd)) = Some (hashToken sha token)"
    using inv by (auto simp: session_inv_def)
  then show ?thesis
    using op rcd by (auto simp: Sessions_Revoke_def SessionByTokenHash_def RevokeSession_def update_session_def
        session_revoked_def)
qed

lemma handleLogout_revokes:
  assumes inv: "session_inv (Hub_sessions hub)" and op: "handleLogout lib env request hub = (reply, hub1)"
    and accepted: "Reply_Status reply = 204" and cookie: "Request_Cookie request sessionCookieName = Some token"
  shows "session_revoked (Hub_sessions hub1) (hashToken (Crypto_sha256 (Lib_crypto lib)) token)"
proof -
  obtain res hub2 where auth: "validate_session lib env token hub = (res, hub2)" by fastforce
  have inv2: "session_inv (Hub_sessions hub2)"
    using validate_session_hub [of lib env token hub] session_move_inv [OF _ inv] auth
    by (metis (mono_tags, lifting) Hub.select_convs(12) Hub.surjective Hub.update_convs(12) snd_conv)
  have "\<exists>st. Sessions_Revoke (Crypto_sha256 (Lib_crypto lib)) (Env_now env 1) token (Hub_sessions hub2) = (Inr (), st)
      \<and> Hub_sessions hub1 = st"
    using op accepted cookie auth
    by (auto simp: handleLogout_def authenticateSession_def http_error_def with_cookies_def no_content_def
        split: if_splits sum.splits prod.splits)
  then show ?thesis using Sessions_Revoke_revokes [OF inv2] by blast
qed

text \<open>The session store behind the gate: extended, that is no session lost, changed or revived.\<close>

lemma gated_204:
  assumes "gated lib cfg env accounts permission request hub (\<lambda>_ h. (no_content, f h)) = (reply, hub1)"
    and "Reply_Status reply = 204" "session_inv (Hub_sessions hub)"
  obtains hub2 where "hub1 = f hub2" "sessions_extend (Hub_sessions hub) (Hub_sessions hub2)"
proof -
  obtain res hub2 where call: "requirePermission lib cfg env accounts permission (Scope_SiteID (Hub_scope cfg)) request hub = (res, hub2)"
    by fastforce
  have "hub1 = f hub2"
    using assms(1,2) call by (auto simp: gated_def dest: refused_status split: sum.splits)
  moreover have "sessions_extend (Hub_sessions hub) (Hub_sessions hub2)"
  proof (cases rule: requirePermission_hub [of lib cfg env accounts permission "Scope_SiteID (Hub_scope cfg)" request hub])
    case (session st)
    then show ?thesis using call session_step_keeps [OF _ assms(3)] by (auto simp: session_move_def)
  qed (use call in \<open>auto simp: sessions_extend_refl\<close>)
  ultimately show ?thesis by (rule that)
qed

lemma revoke_where_revokes:
  assumes "sessions_extend st0 st" "SessionStore_byTokenHash st0 h = Some rcd" "P (sessionRecord_session rcd)"
    and "\<And>s t. same_session s t \<Longrightarrow> P s \<Longrightarrow> P t"
  shows "session_revoked (revoke_where P tm st) h"
proof -
  obtain rcd' where "SessionStore_byTokenHash st h = Some rcd'" "same_session (sessionRecord_session rcd) (sessionRecord_session rcd')"
    using assms(1,2) unfolding sessions_extend_def by blast
  moreover from this have "P (sessionRecord_session rcd')" using assms(3,4) by blast
  ultimately show ?thesis by (simp add: session_revoked_def del: not_None_eq)
qed

lemma handleRevokeSessions_revoke:
  assumes inv: "session_inv (Hub_sessions hub)" and accepted: "Reply_Status reply = 204"
    and stored: "SessionStore_byTokenHash (Hub_sessions hub) h = Some rcd"
  shows "handleRevokeUserSessions lib cfg env request hub = (reply, hub1) \<Longrightarrow>
      Session_UserID (sessionRecord_session rcd) = Request_PathValue request ''userID'' \<Longrightarrow> session_revoked (Hub_sessions hub1) h"
    and "handleRevokeAllSessions lib cfg env request hub = (reply, hub1) \<Longrightarrow>
      Session_OrganizationID (sessionRecord_session rcd) = DefaultOrganizationID \<Longrightarrow> session_revoked (Hub_sessions hub1) h"
proof -
  assume op: "handleRevokeUserSessions lib cfg env request hub = (reply, hub1)"
    and user: "Session_UserID (sessionRecord_session rcd) = Request_PathValue request ''userID''"
  from op obtain hub2 where "sessions_extend (Hub_sessions hub) (Hub_sessions hub2)"
    "hub1 = hub2\<lparr>Hub_sessions := RevokeAllForUser (Request_PathValue request ''userID'') (Env_now env 2) (Hub_sessions hub2)\<rparr>"
    unfolding handleRevokeUserSessions_def by (rule gated_204 [OF _ accepted inv])
  then show "session_revoked (Hub_sessions hub1) h"
    using user revoke_where_revokes [OF _ stored] by (auto simp: RevokeAllForUser_def same_session_def)
next
  assume op: "handleRevokeAllSessions lib cfg env request hub = (reply, hub1)"
    and org: "Session_OrganizationID (sessionRecord_session rcd) = DefaultOrganizationID"
  from op obtain hub2 where "sessions_extend (Hub_sessions hub) (Hub_sessions hub2)"
    "hub1 = hub2\<lparr>Hub_sessions := RevokeAllForOrganization DefaultOrganizationID (Env_now env 2) (Hub_sessions hub2)\<rparr>"
    unfolding handleRevokeAllSessions_def by (rule gated_204 [OF _ accepted inv])
  then show "session_revoked (Hub_sessions hub1) h"
    using org revoke_where_revokes [OF _ stored] by (auto simp: RevokeAllForOrganization_def same_session_def)
qed

section \<open>The audit trail\<close>

lemma handle_trail: "Hub_audit (snd (handle lib cfg env response route request hub)) = Hub_audit hub"
proof -
  have "Trail \<notin> footprint route \<union> guard_parts (route_guard route)" by (cases route) simp_all
  then show ?thesis
    using handle_differs [of route hub lib cfg env response request] unfolding differs_in_def by (metis same_part.simps(10))
qed

lemma hub_reach_auditing: "hub_reach lib cfg hub \<Longrightarrow> Hub_auditing cfg"
  by (induction rule: hub_reach.induct)
    (auto simp: start_hub_def hub_config_def Let_def split: option.splits sum.splits if_splits prod.splits)

section \<open>The live log stream\<close>

abbreviation no_listener :: "Hub \<Rightarrow> bool" where
  "no_listener hub \<equiv> (\<forall>agent. LogService_subscribers (Hub_logs hub) agent = Map.empty)"

lemma publish_no_listener:
  "LogService_subscribers service = (\<lambda>_. Map.empty) \<Longrightarrow> LogService_subscribers (publish e service) = (\<lambda>_. Map.empty)"
  by (auto simp: publish_def Let_def fun_eq_iff)

lemma publishes_no_listener:
  "LogService_subscribers service = (\<lambda>_. Map.empty) \<Longrightarrow> LogService_subscribers (fold publish entries service) = (\<lambda>_. Map.empty)"
  by (induction entries arbitrary: service) (simp_all add: publish_no_listener)

lemma Ingest_no_listener:
  "LogService_subscribers service = (\<lambda>_. Map.empty) \<Longrightarrow>
     LogService_subscribers (snd (Ingest srt uni it r agent batch service)) = (\<lambda>_. Map.empty)"
  by (auto simp: Ingest_def Let_def publishes_no_listener split: option.splits sum.splits prod.splits)

lemma handle_no_listener:
  assumes "no_listener hub"
  shows "no_listener (snd (handle lib cfg env (StatusRecorder response) route request hub))"
proof (cases "route = R_StreamLogs \<or> route = R_LogIngest")
  case True
  have "LogService_subscribers (Hub_logs hub) = (\<lambda>_. Map.empty)" using assms by blast
  with True assms show ?thesis
    using Ingest_no_listener [of "Hub_logs hub"]
    by (auto simp: handle_def handleStreamLogs_def handleLogIngest_def by_agent_def with_body_def Let_def
        split: sum.splits option.splits prod.splits) (metis snd_conv)+
next
  case False
  then have "Logs \<notin> footprint route \<union> guard_parts (route_guard route)"
    by (cases route) auto
  then have "same_part Logs hub (snd (handle lib cfg env (StatusRecorder response) route request hub))"
    using handle_differs [of route hub lib cfg env "StatusRecorder response" request] unfolding differs_in_def by blast
  with assms show ?thesis by simp
qed

lemma serve_no_listener:
  assumes "Hub_auditing cfg" "no_listener hub"
  shows "no_listener (snd (serve lib cfg env request hub))"
  using assms handle_no_listener [OF assms(2)]
  by (auto simp: serve_def corsMiddleware_def route_request_def registerAudited_def Let_def
      split: option.splits prod.splits sum.splits) (metis snd_conv)+

lemma hub_reach_no_listener: "hub_reach lib cfg hub \<Longrightarrow> no_listener hub"
proof (induction rule: hub_reach.induct)
  case (start configuration startup env hub)
  then show ?case using start_hub_new by (fastforce simp: NewHub_def NewLogService_def)
next
  case (step hub hub')
  from step(2) show ?case
  proof cases
    case (request env req reply)
    then show ?thesis using serve_no_listener [OF hub_reach_auditing [OF step(1)] step.IH, of lib env req] by simp
  next
    case (tick env stale envs)
    then show ?thesis using step.IH by (simp add: evaluateReachability_def split: sum.splits)
  qed
qed

section \<open>Login through an identity provider\<close>

text \<open>Whom \<open>LoginOrLinkOIDCUser\<close> returns: the linked user, or the one it made from an invite.\<close>

definition login_user ::
  "(string \<times> inviteRecord) list \<Rightarrow> time \<Rightarrow> string \<Rightarrow> string \<Rightarrow> string \<Rightarrow> string \<Rightarrow> IdentityStore \<Rightarrow> User \<Rightarrow> bool" where
  "login_user it now organizationID issuer subject email st user \<longleftrightarrow>
     (case IdentityStore_usersByOIDC st (oidcKey organizationID issuer subject) of
        Some i \<Rightarrow> user = user_at st i
      | None \<Rightarrow> (\<exists>invite. InviteByEmail it organizationID email = Inr invite \<and> \<not> invite_ended now invite
          \<and> Invite_IdentityType invite = IdentityTypeOIDC \<and> User_Email user = Invite_Email invite
          \<and> User_Role user = Invite_Role invite \<and> User_OrganizationID user = Invite_OrganizationID invite
          \<and> User_OIDCIssuer user = issuer \<and> User_OIDCSubject user = subject))"

lemma LoginOrLinkOIDCUser_user:
  assumes "LoginOrLinkOIDCUser service env it1 it2 organizationID issuer subject email (st, g) = (Inr user, st', g')"
  shows "login_user it1 (IdentityEnv_now env 0) organizationID issuer subject email st user"
  using assms
  by (auto simp: login_user_def LoginOrLinkOIDCUser_def UserByOIDCIdentity_def user_at_def Let_def
      split: option.splits sum.splits if_splits prod.splits)

lemma create_session_Inr:
  assumes "create_session lib env user hub = (Inr (session, token, csrf), hub')"
  shows "Session_UserID session = User_ID user \<and> Session_OrganizationID session = User_OrganizationID user
    \<and> Session_CSRFToken session = csrf
    \<and> hub' = hub\<lparr>Hub_sessions := CreateSession session (hashToken (Crypto_sha256 (Lib_crypto lib)) token) (Hub_sessions hub)\<rparr>"
  using assms by (auto simp: create_session_def Sessions_Create_def new_session_def Let_def split: sum.splits)

lemma create_session_Inl: "create_session lib env user hub = (Inl e, hub') \<Longrightarrow> hub' = hub"
  by (auto simp: create_session_def Sessions_Create_def Let_def split: sum.splits)

text \<open>\<open>opened_for user\<close>: the only new session is one of this user, and its token and CSRF token go back as cookies.\<close>

definition opened_for :: "Lib \<Rightarrow> Request \<Rightarrow> User \<Rightarrow> Hub \<Rightarrow> Reply \<Rightarrow> Hub \<Rightarrow> bool" where
  "opened_for lib request user hub reply hub' \<longleftrightarrow>
     (\<exists>session token csrf. Session_UserID session = User_ID user \<and> Session_OrganizationID session = User_OrganizationID user
        \<and> Session_CSRFToken session = csrf
        \<and> Hub_sessions hub' = CreateSession session (hashToken (Crypto_sha256 (Lib_crypto lib)) token) (Hub_sessions hub)
        \<and> set (setSessionCookies request token csrf) \<subseteq> set (Reply_Cookies reply))"

lemma callback_login_sessions:
  assumes call: "callback_login lib cfg env request config claims hub = (reply, hub1)" and new: "Hub_sessions hub1 \<noteq> Hub_sessions hub"
  shows "\<exists>user st roles. LoginOrLinkOIDCUser (identity_service cfg env) (Env_identity env)
       (Env_invites1 env (IdentityStore_invites (Hub_identity hub)))
       (Env_invites2 env (IdentityStore_invites (Hub_identity hub))) (Scope_OrganizationID (Hub_scope cfg))
       (OIDCConfiguration_Issuer config) (Claims_Subject claims) (Claims_Email claims)
       (Hub_identity hub, Hub_memberships hub) = (Inr user, st, roles)
     \<and> opened_for lib request user hub reply hub1"
proof -
  obtain res st roles where login: "LoginOrLinkOIDCUser (identity_service cfg env) (Env_identity env)
       (Env_invites1 env (IdentityStore_invites (Hub_identity hub)))
       (Env_invites2 env (IdentityStore_invites (Hub_identity hub))) (Scope_OrganizationID (Hub_scope cfg))
       (OIDCConfiguration_Issuer config) (Claims_Subject claims) (Claims_Email claims)
       (Hub_identity hub, Hub_memberships hub) = (res, st, roles)" by (metis prod_cases3)
  let ?hub = "hub\<lparr>Hub_identity := st, Hub_memberships := roles\<rparr>"
  obtain user where user: "res = Inr user"
    using call new by (cases res) (auto simp: callback_login_def login Let_def)
  obtain made hub2 where create: "create_session lib env user ?hub = (made, hub2)" by fastforce
  obtain session token csrf where made: "made = Inr (session, token, csrf)"
    using call new create_session_Inl [of lib env user ?hub] create
    by (cases made) (auto simp: callback_login_def login user Let_def)
  have "opened_for lib request user hub reply hub1"
    using create_session_Inr [OF create [unfolded made]] call
    unfolding opened_for_def
    by (intro exI [of _ session] exI [of _ token] exI [of _ csrf])
      (auto simp: callback_login_def login user create made with_cookies_def record_activity_def Let_def)
  with login user show ?thesis by blast
qed

text \<open>\<open>callback_login\<close> reads subject and address of the claims; whether the address is verified is not asked.\<close>

lemma callback_ignores_email_verified:
  "callback_login lib cfg env request config (claims\<lparr>Claims_EmailVerified := verified\<rparr>) hub
     = callback_login lib cfg env request config claims hub"
  by (simp add: callback_login_def)

lemma callback_steps:
  assumes "handle lib cfg env response R_OIDCCallback request hub = (reply, hub')" and "Hub_sessions hub' \<noteq> Hub_sessions hub"
  shows "\<exists>flow config secret provider claims reply1.
     snd (readAndClearOIDCFlowCookie lib request) = Some flow \<and> Request_Query request ''state'' = Flow_State flow
   \<and> OIDCConfigurationWithSecret (Lib_crypto lib) (identity_service cfg env) (Scope_OrganizationID (Hub_scope cfg))
       (Hub_identity hub) = Inr (config, secret)
   \<and> NewProvider (Lib_oidc lib) (settings_of config secret) = Inr provider
   \<and> Exchange (Lib_oidc lib) provider (Request_Query request ''code'') flow = Inr claims
   \<and> callback_login lib cfg env request config claims hub = (reply1, hub')
   \<and> set (Reply_Cookies reply1) \<subseteq> set (Reply_Cookies reply)"
  using assms by (auto simp: handle_def handleOIDCCallback_def with_cookies_def Let_def split: prod.splits option.splits sum.splits if_splits)

section \<open>Refused requests\<close>

lemma unguarded_route:
  assumes op: "handle lib cfg env response route request hub = (reply, hub')"
    and refused: "\<not> guard_passed lib cfg env request hub (route_guard route)"
  shows "differs_in (guard_parts (route_guard route)) hub hub'
    \<and> Reply_Status reply \<in> (if route_guard route = ByAgent then {401} else {401, 403, 500})
    \<and> Reply_Payload reply = StatusText (Reply_Status reply)"
proof (cases "route_guard route")
  case ByAgent
  then obtain k where "by_agent lib cfg env request hub k = (reply, hub')"
    using handle_by_agent [of route lib cfg env response request hub] op by auto
  then show ?thesis
    using refused ByAgent
    by (auto simp: by_agent_def authenticateAgent_def http_error_def split: sum.splits option.splits list.splits)
next
  case (ByPermission accounts permission)
  then obtain k where "gated lib cfg env accounts permission request hub k = (reply, hub')"
    using handle_gated [of route accounts permission lib cfg env response request hub] op by auto
  then have call: "requirePermission lib cfg env accounts permission (Scope_SiteID (Hub_scope cfg)) request hub = (Inl reply, hub')"
    using refused ByPermission gated_refuses by simp
  show ?thesis
    using refused_status [OF call] call ByPermission
      requirePermission_differs [of accounts permission hub lib cfg env "Scope_SiteID (Hub_scope cfg)" request] by auto
qed (use refused in simp)

lemma session_route_inv:
  assumes "handle lib cfg env response route request hub = (reply, hub1)"
    and "route \<in> {R_Logout, R_RevokeUserSessions, R_RevokeAllSessions}" and "session_inv (Hub_sessions hub)"
  shows "session_inv (Hub_sessions hub1)"
proof -
  have "hub_moves lib cfg hub (snd (handle lib cfg env response route request hub))"
    using assms(2) by (auto simp: handle_def handleLogout_moves handleRevokeSessions_moves)
  then have "(session_move lib)\<^sup>*\<^sup>* (Hub_sessions hub) (Hub_sessions hub1)" using assms(1) by (simp add: hub_moves_def)
  then show ?thesis using assms(3) moves_inv [of "session_move lib" _ _ session_inv] session_move_inv by blast
qed

lemma refused_session:
  assumes "\<not> session_taken lib (Env_now env 0) (Hub_sessions hub) (hashToken (Crypto_sha256 (Lib_crypto lib)) token)"
  shows "fst (permit_session lib env permission siteID request token hub)
    = Inl (with_cookies (clearSessionCookies request) (http_error 401))"
proof -
  obtain res st where call: "Sessions_Validate (Crypto_sha256 (Lib_crypto lib)) (sessions_service hub) (Env_now env 0) token
      (Hub_sessions hub) = (res, st)" by fastforce
  have "\<exists>e. res = Inl e"
    using assms call by (cases res) (auto simp: session_taken_def session_accepted_def)
  then show ?thesis by (auto simp: permit_session_def validate_session_def call)
qed

end
