(* ===== verification/Hub_Examples.thy ===== *)
theory Hub_Examples
  imports Hub_Access Alerting_Properties Identity_Properties Enrollment_Properties Sessions_Properties
begin

text \<open>
  A concrete hub for the witnesses: toy primitives, a configuration, an environment that fits,
  the hub \<open>cmd/bazusop-hub\<close> starts with them, and that hub with an administrator who has a
  session and is linked to an identity provider.
\<close>

definition toy_decode :: Decode where
  "toy_decode = \<lparr>Decode_enroll = (\<lambda>_. None), Decode_csr = (\<lambda>_. None), Decode_facts = (\<lambda>_. None), Decode_sample = (\<lambda>_. None),
     Decode_snapshot = (\<lambda>_. None), Decode_batch = (\<lambda>_. None), Decode_job = (\<lambda>_. None), Decode_event = (\<lambda>_. None),
     Decode_rule = (\<lambda>_. None), Decode_maintenance = (\<lambda>_. None), Decode_actor = (\<lambda>_. None), Decode_account = (\<lambda>_. None),
     Decode_instances = (\<lambda>_. None), Decode_bootstrap = (\<lambda>_. None), Decode_invite = (\<lambda>_. None), Decode_password = (\<lambda>_. None),
     Decode_code = (\<lambda>_. None), Decode_oidc = (\<lambda>_. None), Decode_login = (\<lambda>_. None), Decode_membership = (\<lambda>_. None),
     Decode_service_account = (\<lambda>_. None), Decode_expiry = (\<lambda>_. None),
     Decode_flow = (\<lambda>_. Some \<lparr>Flow_State = ''state'', Flow_Nonce = ''nonce'', Flow_CodeVerifier = ''verifier''\<rparr>)\<rparr>"

definition toy_oidc :: OIDCLib where
  "toy_oidc = \<lparr>OIDCLib_discover = (\<lambda>_. Some ''issuer''), OIDCLib_provider = (\<lambda>_. True), OIDCLib_verifier = (\<lambda>_. ''verifier''),
     OIDCLib_auth_url = (\<lambda>_ _. ''url''), OIDCLib_token = (\<lambda>_ _ _. Some (Some ''raw'')),
     OIDCLib_verify = (\<lambda>_ _ _. Some \<lparr>IDToken_Subject = ''subject'', IDToken_Nonce = ''nonce'',
        IDToken_Claims = Some (''a@b'', True, [], [])\<rparr>)\<rparr>"

definition toy_lib :: Lib where
  "toy_lib = \<lparr>Lib_crypto = toy_crypto, Lib_mac = (\<lambda>k s. k @ s), Lib_x509 = toy_x509,
     Lib_ed = \<lparr>Ed_Sign = (\<lambda>k m. m), Ed_Verify = (\<lambda>k m s. m = s)\<rparr>, Lib_rfc3339 = (\<lambda>_. []), Lib_parse_time = (\<lambda>_. None),
     Lib_atoi = (\<lambda>_. None), Lib_lower = (\<lambda>s. s), Lib_parse_ip = Some, Lib_is_loopback = (\<lambda>_. True), Lib_round = Fin,
     Lib_format = (\<lambda>_. []), Lib_url_text = (\<lambda>_. []), Lib_decode = toy_decode, Lib_encode_flow = (\<lambda>_. []),
     Lib_oidc = toy_oidc\<rparr>"

definition toy_hub_env :: Env where
  "toy_hub_env = \<lparr>Env_now = (\<lambda>_. 2000), Env_rand = (\<lambda>k. Some (\<lambda>_. char_of (k + 65))), Env_serial = Inr 2,
     Env_identity = toy_env, Env_eval = ex_env, Env_hosts = visit_by_key, Env_jobs1 = (\<lambda>_. []), Env_jobs2 = (\<lambda>_. []),
     Env_job_events = (\<lambda>_. []), Env_rules = visit_by_key, Env_windows = visit_by_key, Env_incidents = visit_by_key,
     Env_alert_events = visit_by_key, Env_samples = (\<lambda>_. []), Env_logs = (\<lambda>_. []), Env_cloud_accounts = visit_by_key,
     Env_cloud_instances = visit_by_key, Env_invites1 = visit_by_key, Env_invites2 = visit_by_key, Env_users = visit_by_key,
     Env_memberships = visit_by_key, Env_accounts = visit_by_key, Env_tokens = visit_by_key,
     Env_sort_hosts = insertion_sort, Env_sort_samples = insertion_sort, Env_sort_services = insertion_sort,
     Env_sort_logs = insertion_sort, Env_sort_jobs = insertion_sort, Env_sort_rules = insertion_sort,
     Env_sort_windows = insertion_sort, Env_sort_incidents = insertion_sort, Env_sort_accounts = insertion_sort,
     Env_sort_instances = insertion_sort, Env_sort_users = insertion_sort, Env_sort_audit = insertion_sort,
     Env_sort_activity = insertion_sort, Env_stream_id = 0\<rparr>"

definition toy_configuration :: Config where
  "toy_configuration = \<lparr>Config_HTTPAddress = '':8080'', Config_EnrollmentToken = ''token'', Config_TLSCertificate = [],
     Config_TLSPrivateKey = [], Config_DatabaseURL = [], Config_TimescaleEnabled = False, Config_TelemetryRetentionDays = 30,
     Config_LogRetentionDays = 14, Config_BootstrapSecret = ''boot'', Config_TOTPEncryptionKey = ''key'',
     Config_TrustedOrigins = [], Config_ServiceAccountPepper = ''pepper''\<rparr>"

definition toy_signing_key :: string where "toy_signing_key = replicate 64 (CHR ''k'')"

definition toy_startup :: Startup where
  "toy_startup = \<lparr>Startup_token = None, Startup_keypair = Inr (''root'', toy_signing_key), Startup_serial = Inr 1, Startup_now = 0,
     Startup_version = (''dev'', ''unknown'', ''unknown'')\<rparr>"

definition toy_hub_authority :: Authority where
  "toy_hub_authority = \<lparr>Authority_caCertificate = toy_ca, Authority_caPrivateKey = toy_signing_key,
     Authority_caPEM = encodeCertificate toy_x509 ''ca''\<rparr>"

definition toy_tokens :: TokenStore where
  "toy_tokens = \<lparr>TokenStore_bootstrapHash = Crypto_sha256 toy_crypto ''token'', TokenStore_consumed = False, TokenStore_agents = Map.empty\<rparr>"

definition toy_cfg :: HubConfig where
  "toy_cfg = hub_config toy_configuration toy_startup toy_hub_authority"

lemma toy_hub_authority:
  "NewAuthority toy_x509 (Crypto_sha256 toy_crypto) (Inr (''root'', toy_signing_key)) 0 (Inr 1) ''token'' = Inr (toy_hub_authority, toy_tokens)"
proof -
  have token: "trim_space ''token'' = ''token''" by (rule trim_space_plain) (simp_all add: plain_char_def)
  have ca: "stored_certificate (ca_template toy_x509 1 0) ''root'' = toy_ca"
    by (simp add: toy_ca_def ca_template_def toy_x509_def)
  have parts: "X509_create toy_x509 t p ''root'' k = Inr ''ca''" if "stored_certificate t ''root'' = toy_ca" for t p k
    using that by (simp add: toy_x509_def toy_create_def)
  have "X509_marshal_key toy_x509 k = Inr k" "X509_parse_key toy_x509 k = Some k" "X509_public toy_x509 k = ''root''"
    "X509_parse toy_x509 ''ca'' = Some toy_ca" for k by (simp_all add: toy_x509_def)
  moreover have "Certificate_IsCA toy_ca" "Certificate_PublicKey toy_ca = ''root''"
    by (simp_all add: toy_ca_def stored_certificate_def)
  ultimately show ?thesis
    by (simp add: NewAuthority_def validateBootstrapToken_def token generateAuthorityState_def Let_def parts [OF ca]
        authorityFromState_def encodeCertificate_def toy_pem toy_hub_authority_def toy_tokens_def)
qed

lemma toy_started: "start_hub toy_lib toy_configuration toy_startup toy_hub_env = Inr (toy_cfg, NewHub toy_tokens)"
proof -
  have "Jobs_NewService (jobs_service toy_cfg toy_hub_env hub) = Inr (jobs_service toy_cfg toy_hub_env hub)" for hub
    by (simp add: Jobs_NewService_def jobs_service_def toy_cfg_def hub_config_def toy_startup_def toy_hub_authority_def
        toy_signing_key_def PrivateKeySize_def PublicKeySize_def defaultJobLease_def duration_simps)
  moreover have "Lib_x509 toy_lib = toy_x509" "Lib_crypto toy_lib = toy_crypto" by (simp_all add: toy_lib_def)
  moreover have "Config_Validate toy_configuration = None" "bootstrap_token toy_configuration r = Inr ''token''" for r
    by (simp_all add: Config_Validate_def toy_configuration_def bootstrap_token_def)
  moreover have "Startup_keypair toy_startup = Inr (''root'', toy_signing_key)" "Startup_now toy_startup = 0"
    "Startup_serial toy_startup = Inr 1" by (simp_all add: toy_startup_def)
  ultimately show ?thesis
    unfolding start_hub_def by (simp add: toy_hub_authority Let_def toy_cfg_def [symmetric])
      (simp add: toy_configuration_def)
qed

lemma toy_hub_reach: "hub_reach toy_lib toy_cfg (NewHub toy_tokens)"
  by (rule hub_reach.start [OF _ toy_started]) (simp add: toy_configuration_def)

lemma toy_hub_fits: "fitting_env toy_lib toy_hub_env (NewHub toy_tokens)"
proof -
  have "fresh_ids 0 ex_env NewAlertStore"
    by (auto simp: fresh_ids_def fresh_id_def distinct_ids_def ex_env_def NewAlertStore_def rand_hex_def)
  then show ?thesis
    by (simp add: fitting_env_def NewHub_def toy_hub_env_def ex_env_ok insertion.slice_sort_axioms fresh_session_def
        fresh_user_id_def fresh_invite_def fresh_account_def fresh_token_def NewSessionStore_def NewIdentityStore_def
        NewSAStore_def NewJobStore_def NewLogService_def NewLogStore_def ranges_def)
qed

section \<open>A hub with an administrator\<close>

definition toy_admin :: User where
  "toy_admin = no_user\<lparr>User_ID := ''u1'', User_OrganizationID := DefaultOrganizationID, User_Email := ''a@b'',
     User_Role := RolePlatformAdmin, User_OIDCIssuer := ''issuer'', User_OIDCSubject := ''subject''\<rparr>"

definition toy_cipher :: string where
  "toy_cipher = (case EncryptTOTPSecret toy_crypto (Some (\<lambda>_. CHR ''n'')) ''secret'' ''key'' of Inl _ \<Rightarrow> [] | Inr c \<Rightarrow> c)"

definition toy_provider :: OIDCConfiguration where
  "toy_provider = \<lparr>OIDCConfiguration_OrganizationID = DefaultOrganizationID, OIDCConfiguration_DiscoveryURL = ''discovery'',
     OIDCConfiguration_Issuer = ''issuer'', OIDCConfiguration_ClientID = ''client'',
     OIDCConfiguration_ClientSecretEncrypted = toy_cipher, OIDCConfiguration_RedirectURL = ''redirect'',
     OIDCConfiguration_UpdatedAt = 0, OIDCConfiguration_UpdatedBy = ''u1''\<rparr>"

definition toy_token_hash :: string where "toy_token_hash = hashToken (Crypto_sha256 toy_crypto) ''t''"

definition toy_hub_sessions :: SessionStore where
  "toy_hub_sessions = CreateSession (new_session ex_sessions ''s1'' ''u1'' DefaultOrganizationID ''csrf'' 1000) toy_token_hash NewSessionStore"

definition toy_hub :: Hub where
  "toy_hub = (NewHub toy_tokens)\<lparr>Hub_sessions := toy_hub_sessions,
     Hub_identity := SaveOIDCConfiguration toy_provider (CreateUser toy_admin NewIdentityStore)\<rparr>"

definition toy_hub_request :: Request where
  "toy_hub_request = \<lparr>Request_Method = ''DELETE'', Request_Path = ''/api/v1/sessions'', Request_PathValue = (\<lambda>_. []),
     Request_Query = (\<lambda>k. if k = ''state'' then ''state'' else ''code''),
     Request_Cookie = [sessionCookieName \<mapsto> ''t'', oidcFlowCookieName \<mapsto> ''QUJD''],
     Request_Header = (\<lambda>k. if k = ''X-CSRF-Token'' then ''csrf'' else []), Request_RemoteAddr = ''10.0.0.1:5000'',
     Request_PeerCertificates = None, Request_Body = []\<rparr>"

lemma toy_hub_inv: "hub_inv toy_hub"
proof -
  have "session_inv toy_hub_sessions"
    unfolding toy_hub_sessions_def
    by (rule session_inv_create [OF session_inv_init]) (simp_all add: NewSessionStore_def)
  moreover have "identity_change NewIdentityStore (CreateUser toy_admin NewIdentityStore)"
    by (rule identity_change.user) (simp_all add: NewIdentityStore_def toy_admin_def)
  then have "identity_inv (SaveOIDCConfiguration toy_provider (CreateUser toy_admin NewIdentityStore))"
    using identity_inv_change [OF identity_change.config] identity_inv_change identity_inv_init by blast
  ultimately show ?thesis using hub_inv_init [of toy_tokens] by (simp add: toy_hub_def hub_inv_def)
qed

section \<open>What that hub answers\<close>

lemmas toy_hub_simps = toy_hub_def toy_hub_sessions_def NewHub_def CreateUser_def SaveOIDCConfiguration_def put_user_def
  NewIdentityStore_def toy_admin_def

lemma toy_stored:
  "SessionStore_byTokenHash (Hub_sessions toy_hub) (hashToken (Crypto_sha256 toy_crypto) ''t'')
     = Some \<lparr>sessionRecord_session = new_session ex_sessions ''s1'' ''u1'' DefaultOrganizationID ''csrf'' 1000,
             sessionRecord_tokenHash = toy_token_hash\<rparr>"
  "SessionStore_byTokenHash (Hub_sessions toy_hub) h = None
     \<longleftrightarrow> h \<noteq> hashToken (Crypto_sha256 toy_crypto) ''t''"
  by (simp_all add: toy_hub_def toy_hub_sessions_def CreateSession_def NewSessionStore_def toy_token_hash_def)

lemma toy_user: "IdentityStore_usersByID (Hub_identity toy_hub) ''u1'' = Some toy_admin"
  by (simp add: toy_hub_simps)

lemma toy_session_cookie: "session_cookie toy_cfg toy_hub_request = Some ''t''"
  by (simp add: session_cookie_def toy_hub_request_def sessionCookieName_def oidcFlowCookieName_def identity_enabled_def
      toy_cfg_def hub_config_def toy_configuration_def toy_startup_def)

lemma toy_request_simps:
  "Request_Method toy_hub_request = ''DELETE''" "Request_Header toy_hub_request ''X-CSRF-Token'' = ''csrf''"
  "Request_Cookie toy_hub_request sessionCookieName = Some ''t''" "Request_Cookie toy_hub_request oidcFlowCookieName = Some ''QUJD''"
  "Request_Query toy_hub_request ''state'' = ''state''" "Request_Query toy_hub_request ''code'' = ''code''"
  by (simp_all add: toy_hub_request_def sessionCookieName_def oidcFlowCookieName_def)

lemma toy_lib_simps:
  "Lib_crypto toy_lib = toy_crypto" "Lib_oidc toy_lib = toy_oidc" "Lib_decode toy_lib = toy_decode"
  by (simp_all add: toy_lib_def)

lemma toy_validated:
  "\<exists>session hub'. validate_session toy_lib toy_hub_env ''t'' toy_hub = (Inr session, hub')
     \<and> Session_CSRFToken session = ''csrf'' \<and> session_inv (Hub_sessions hub')
     \<and> (\<exists>rcd. SessionStore_byTokenHash (Hub_sessions hub') (hashToken (Crypto_sha256 toy_crypto) ''t'') = Some rcd)"
proof -
  obtain res hub' where call: "validate_session toy_lib toy_hub_env ''t'' toy_hub = (res, hub')" by fastforce
  have "Env_now toy_hub_env 0 = 2000" by (simp add: toy_hub_env_def)
  then have "fst (validate_session toy_lib toy_hub_env ''t'' toy_hub)
      = Inr ((new_session ex_sessions ''s1'' ''u1'' DefaultOrganizationID ''csrf'' 1000)\<lparr>Session_LastSeenAt := 2000\<rparr>)"
    unfolding validate_session_Inr [OF toy_hub_inv] toy_lib_simps
    by (simp add: toy_stored toy_user new_session_def ex_sessions_def duration_simps sub_time_def toy_admin_def no_user_def)
  moreover from this have "\<exists>session. res = Inr session \<and> Session_CSRFToken session = ''csrf''"
    using call by (auto simp: new_session_def)
  moreover have "session_inv (Hub_sessions hub') \<and> sessions_extend (Hub_sessions toy_hub) (Hub_sessions hub')"
    using Sessions_Validate_store toy_hub_inv call
    by (auto simp: validate_session_def hub_inv_def split: prod.splits)
  moreover have "\<exists>rcd. SessionStore_byTokenHash (Hub_sessions hub') (hashToken (Crypto_sha256 toy_crypto) ''t'') = Some rcd"
    if "sessions_extend (Hub_sessions toy_hub) (Hub_sessions hub')"
    using that toy_stored(1) unfolding sessions_extend_def by blast
  ultimately show ?thesis using call by blast
qed

lemma toy_unguarded:
  "\<not> permitted toy_lib toy_cfg toy_hub_env accounts permission toy_hub_request (NewHub toy_tokens)"
  using toy_session_cookie
  by (simp add: permitted_def requirePermission_def permit_session_def validate_session_def Sessions_Validate_def
      SessionByTokenHash_def NewHub_def NewSessionStore_def)

lemma toy_audit_ids:
  "\<exists>cid. newCorrelationID (Env_rand toy_hub_env k) = Inr cid" "\<exists>i. rand_hex 16 (Env_rand toy_hub_env k) = Inr i"
  by (simp_all add: newCorrelationID_def rand_hex_def toy_hub_env_def)

lemma toy_dispatch:
  obtains e request' where "dispatch toy_cfg toy_hub_request = Some (e, request')" "Entry_Method e = ''DELETE''"
proof -
  have path: "Request_Path toy_hub_request = ''/api/v1/sessions''" by (simp add: toy_hub_request_def)
  have "entry_match (entry R_Logout ''DELETE'' ''/api/v1/sessions'' ''sessions'' []) toy_hub_request \<noteq> None"
    by (simp add: entry_match_def entry_def method_matches_def toy_request_simps path wildcard_def has_prefix_def)
  moreover have "registered toy_cfg R_Logout"
    by (simp add: registered_def identity_routes_def identity_enabled_def toy_cfg_def hub_config_def toy_configuration_def toy_startup_def)
  moreover have "entry R_Logout ''DELETE'' ''/api/v1/sessions'' ''sessions'' [] \<in> set route_table"
    by (simp add: route_table_def)
  ultimately obtain e where found: "find (\<lambda>e. registered toy_cfg (Entry_Route e) \<and> entry_match e toy_hub_request \<noteq> None) route_table = Some e"
    by (cases "find (\<lambda>e. registered toy_cfg (Entry_Route e) \<and> entry_match e toy_hub_request \<noteq> None) route_table")
      (auto simp: find_None_iff entry_def)
  then have "entry_match e toy_hub_request \<noteq> None" by (auto simp: find_Some_iff)
  then have "Entry_Method e = ''DELETE''"
    by (auto simp: entry_match_def method_matches_def toy_request_simps split: if_splits)
  with found show thesis by (intro that) (auto simp: dispatch_def)
qed

definition toy_stream_request :: Request where
  "toy_stream_request = toy_hub_request\<lparr>Request_Method := ''GET'', Request_Path := ''/api/v1/instances/a/logs/stream''\<rparr>"

lemma toy_stream_dispatch:
  obtains e request' where "dispatch toy_cfg toy_stream_request = Some (e, request')" "Entry_Route e = R_StreamLogs"
proof -
  have verb: "method_matches m toy_stream_request \<longleftrightarrow> m = ''GET''" for m
    by (auto simp: method_matches_def toy_stream_request_def)
  have path: "split_on (CHR ''/'') (Request_Path toy_stream_request) = [[], ''api'', ''v1'', ''instances'', ''a'', ''logs'', ''stream'']"
    by (simp add: toy_stream_request_def)
  have "entry_match (entry R_StreamLogs ''GET'' ''/api/v1/instances/{agentID}/logs/stream'' ''log_stream'' [''agentID'']) toy_stream_request \<noteq> None"
    by (simp add: entry_match_def entry_def verb path wildcard_def has_prefix_def has_suffix_def)
  moreover have "registered toy_cfg R_StreamLogs" by (simp add: registered_def identity_routes_def account_routes_def)
  moreover have "entry R_StreamLogs ''GET'' ''/api/v1/instances/{agentID}/logs/stream'' ''log_stream'' [''agentID''] \<in> set route_table"
    by (simp add: route_table_def)
  ultimately obtain e where found: "find (\<lambda>e. registered toy_cfg (Entry_Route e) \<and> entry_match e toy_stream_request \<noteq> None) route_table = Some e"
    by (cases "find (\<lambda>e. registered toy_cfg (Entry_Route e) \<and> entry_match e toy_stream_request \<noteq> None) route_table")
      (auto simp: find_None_iff entry_def)
  then have "entry_match e toy_stream_request \<noteq> None" "e \<in> set route_table" by (auto simp: find_Some_iff)
  then have "Entry_Route e = R_StreamLogs"
    by (auto simp: entry_match_def verb path route_table_def entry_def wildcard_def has_prefix_def has_suffix_def split: if_splits)
  with found show thesis by (intro that) (auto simp: dispatch_def)
qed

lemma toy_logout: "Reply_Status (fst (handle toy_lib toy_cfg toy_hub_env (StatusRecorder ServerWriter) R_Logout toy_hub_request toy_hub)) = 204"
proof -
  obtain session hub' where v: "validate_session toy_lib toy_hub_env ''t'' toy_hub = (Inr session, hub')"
    "Session_CSRFToken session = ''csrf''" "session_inv (Hub_sessions hub')"
    "\<exists>rcd. SessionStore_byTokenHash (Hub_sessions hub') (hashToken (Crypto_sha256 toy_crypto) ''t'') = Some rcd"
    using toy_validated by blast
  have "authenticateSession toy_lib toy_hub_env toy_hub_request toy_hub = (Inr (session, ''t''), hub')"
    by (simp add: authenticateSession_def toy_request_simps v)
  moreover have "\<exists>st. Sessions_Revoke (Crypto_sha256 toy_crypto) now ''t'' (Hub_sessions hub') = (Inr (), st)" for now
    using v(3,4) unfolding session_inv_def
    by (fastforce simp: Sessions_Revoke_def SessionByTokenHash_def RevokeSession_def update_session_def split: option.splits)
  then obtain st where "Sessions_Revoke (Crypto_sha256 toy_crypto) (Env_now toy_hub_env 1) ''t'' (Hub_sessions hub') = (Inr (), st)"
    by blast
  ultimately show ?thesis
    using v(2) by (simp add: handle_def handleLogout_def matching_csrf_def toy_request_simps toy_lib_simps
        with_cookies_def no_content_def)
qed

lemma toy_secret:
  "OIDCConfigurationWithSecret toy_crypto (identity_service toy_cfg toy_hub_env) DefaultOrganizationID (Hub_identity toy_hub)
    = Inr (toy_provider\<lparr>OIDCConfiguration_ClientSecretEncrypted := []\<rparr>, ''secret'')"
proof -
  have key: "IdentityService_totpEncryptionKey (identity_service toy_cfg toy_hub_env) = ''key''"
    by (simp add: identity_service_def toy_cfg_def hub_config_def toy_configuration_def toy_startup_def)
  have "OIDCConfigurationByOrganization DefaultOrganizationID (Hub_identity toy_hub) = Inr toy_provider"
    by (simp add: OIDCConfigurationByOrganization_def toy_hub_simps toy_provider_def)
  moreover have "EncryptTOTPSecret toy_crypto (Some (\<lambda>_. CHR ''n'')) ''secret'' ''key'' = Inr toy_cipher"
    by (simp add: toy_cipher_def EncryptTOTPSecret_def aesCipher_def rand_bytes_def toy_crypto_def Let_def)
  then have "DecryptTOTPSecret toy_crypto toy_cipher ''key'' = Inr ''secret''"
    by (rule DecryptTOTPSecret_encrypted [OF toy_crypto_ok])
  ultimately show ?thesis
    by (simp add: OIDCConfigurationWithSecret_def key toy_provider_def)
qed

lemma toy_created:
  "\<exists>created hub'. create_session toy_lib toy_hub_env user toy_hub = (Inr created, hub') \<and> Hub_sessions hub' \<noteq> Hub_sessions toy_hub"
proof -
  have i: "newOpaqueID (Env_rand toy_hub_env k) = Inr (hex_encode (replicate 32 (char_of (k + 65))))" for k
    by (simp add: newOpaqueID_def rand_hex_def toy_hub_env_def map_replicate_const)
  let ?i = "hex_encode (replicate 32 (char_of (3 + 65 :: nat)))"
  have "?i \<noteq> ''s1''" by (rule notI, drule arg_cong [of _ _ length]) simp
  then have "SessionStore_byID (Hub_sessions toy_hub) ?i = None"
    by (simp add: toy_hub_def toy_hub_sessions_def CreateSession_def NewSessionStore_def new_session_def)
  then have "CreateSession (new_session service ?i u org csrf now) h (Hub_sessions toy_hub) \<noteq> Hub_sessions toy_hub"
    for service u org csrf now h
    by (auto simp: CreateSession_def new_session_def dest!: arg_cong [of _ _ SessionStore_byID] fun_cong [of _ _ ?i])
  then show ?thesis
    unfolding create_session_def Sessions_Create_def i by (auto simp: Let_def)
qed

lemma toy_login:
  "LoginOrLinkOIDCUser service env it1 it2 DefaultOrganizationID ''issuer'' ''subject'' email (Hub_identity toy_hub, roles)
    = (Inr toy_admin, Hub_identity toy_hub, roles)"
  by (simp add: LoginOrLinkOIDCUser_def UserByOIDCIdentity_def toy_hub_simps user_at_def Let_def)

lemma toy_callback:
  "\<exists>reply hub'. handle toy_lib toy_cfg toy_hub_env (StatusRecorder ServerWriter) R_OIDCCallback toy_hub_request toy_hub = (reply, hub')
     \<and> Hub_sessions hub' \<noteq> Hub_sessions toy_hub"
proof -
  let ?config = "toy_provider\<lparr>OIDCConfiguration_ClientSecretEncrypted := []\<rparr>"
  let ?claims = "\<lparr>Claims_Subject = ''subject'', Claims_Email = ''a@b'', Claims_EmailVerified = True, Claims_ACR = [], Claims_AMR = []\<rparr>"
  obtain decoded where decoded: "b64_raw_decode b64url_val ''QUJD'' = Some decoded"
    by (simp add: b64_raw_decode_def b64url_val_def b64_val_def)
  have org: "Scope_OrganizationID (Hub_scope toy_cfg) = DefaultOrganizationID"
    by (simp add: toy_cfg_def hub_config_def DefaultScope_def toy_startup_def)
  have "NewProvider toy_oidc (settings_of ?config ''secret'') = Inr (settings_of ?config ''secret'')"
    by (simp add: NewProvider_Inr settings_of_def toy_oidc_def toy_provider_def)
  moreover have "Exchange toy_oidc (settings_of ?config ''secret'') code
      \<lparr>Flow_State = ''state'', Flow_Nonce = ''nonce'', Flow_CodeVerifier = ''verifier''\<rparr> = Inr ?claims" for code
    by (simp add: Exchange_Inr toy_oidc_def)
  moreover obtain created hub2 where "create_session toy_lib toy_hub_env toy_admin toy_hub = (Inr created, hub2)"
    "Hub_sessions hub2 \<noteq> Hub_sessions toy_hub" using toy_created by blast
  then obtain reply hub3 where "callback_login toy_lib toy_cfg toy_hub_env toy_hub_request ?config ?claims toy_hub = (reply, hub3)"
    "Hub_sessions hub3 \<noteq> Hub_sessions toy_hub"
    by (cases created) (auto simp: callback_login_def org toy_provider_def toy_login record_activity_def)
  ultimately show ?thesis
    by (auto simp: handle_def handleOIDCCallback_def readAndClearOIDCFlowCookie_def toy_request_simps decoded toy_lib_simps
        toy_decode_def toy_secret org)
qed

end
