(* ===== verification/Hub_Properties.thy ===== *)
theory Hub_Properties
  imports Hub_Examples
begin

text \<open>
  What the hub as a whole promises: its components keep their invariants whatever requests
  come, each guarded request is decided by credentials, roles and CSRF token alone, ended
  sessions are refused for good, every request leaves its audit event.
\<close>

section \<open>The invariant\<close>

text \<open>
  C8. The invariant of the running hub. From the start of the program, through any requests and
  ticks of the reachability loop: sessions, users, invites, accounts and tokens are stored under
  their own keys, a recovery code belongs to a confirmed user, every job and incident is in the
  state its event log leads to, an agent has at most one running job in a scope and an incident
  is open at most once per rule and agent, samples and logs are in order, bounded and filed
  under the agent that sent them.
\<close>

theorem hub_invariant:
  assumes "hub_reach lib cfg hub"
  shows "session_inv (Hub_sessions hub) \<and> identity_inv (Hub_identity hub) \<and> sa_inv (Hub_accounts hub)
    \<and> job_inv (Hub_jobs hub) \<and> alert_inv (Hub_alerts hub) \<and> sample_inv (Hub_samples hub)
    \<and> service_inv (Hub_services hub) \<and> log_inv (LogService_store (Hub_logs hub))
    \<and> one_running (Hub_jobs hub) \<and> one_unresolved (Hub_alerts hub)"
  using hub_reach_inv [OF assms] by (auto simp: hub_inv_def job_inv_def alert_inv_def)

lemma hub_invariant_witness:
  "one_running (Hub_jobs (NewHub toy_tokens)) \<and> one_unresolved (Hub_alerts (NewHub toy_tokens))"
  using hub_invariant [OF toy_hub_reach] by blast

section \<open>Permission\<close>

text \<open>
  C1. Who passes \<open>requirePermission\<close>. With a session cookie: exactly the user of a stored session
  under the hash of the cookie that is not revoked, within its absolute lifetime and used in the
  last 30 minutes, who exists and is not disabled, who repeats the session's CSRF token unless the
  method is GET or HEAD, and who is a platform administrator or has at that site a role the matrix
  allows. Without a cookie, where the route takes service accounts: exactly the account of an
  unrevoked, unexpired token with the right secret that is not disabled, belongs to the default
  organization and that very site and has a role the matrix allows. Nobody else, and a bad cookie
  is never made up for by a good token.
\<close>

theorem permission_decision:
  assumes "hub_inv hub"
  shows "fst (requirePermission lib cfg env accounts permission siteID request hub) = Inr actor \<longleftrightarrow>
    (case session_cookie cfg request of
       Some token \<Rightarrow>
         (\<exists>rcd session user.
            SessionStore_byTokenHash (Hub_sessions hub) (hashToken (Crypto_sha256 (Lib_crypto lib)) token) = Some rcd
          \<and> session = sessionRecord_session rcd \<and> actor = Session_UserID session
          \<and> Session_RevokedAt session = None \<and> Env_now env 0 \<le> Session_AbsoluteExpiresAt session
          \<and> sub_time (Env_now env 0) (Session_LastSeenAt session) \<le> 30 * minute
          \<and> IdentityStore_usersByID (Hub_identity hub) actor = Some user \<and> User_DisabledAt user = None
          \<and> (Request_Method request \<in> {''GET'', ''HEAD''} \<or> Request_Header request ''X-CSRF-Token'' \<noteq> []
               \<and> Request_Header request ''X-CSRF-Token'' = Session_CSRFToken session)
          \<and> (User_Role user = RolePlatformAdmin
             \<or> (\<exists>m. Hub_memberships hub (membershipKey actor siteID) = Some m
                   \<and> PermissionAllowsRole permission (SiteMembership_Role m))))
     | None \<Rightarrow>
         (\<exists>bearer i secret r account.
            account_bearer cfg accounts request = Some bearer \<and> ParseToken bearer = Some (i, secret)
          \<and> SAStore_tokens (Hub_accounts hub) i = Some r
          \<and> hashSecret (Lib_mac lib) secret (Hub_pepper cfg) = tokenRecord_secretHash r
          \<and> Token_RevokedAt (tokenRecord_token r) = None \<and> Env_now env 0 \<le> Token_ExpiresAt (tokenRecord_token r)
          \<and> SAStore_accounts (Hub_accounts hub) (Token_ServiceAccountID (tokenRecord_token r)) = Some account
          \<and> ServiceAccount_DisabledAt account = None \<and> actor = ServiceAccount_ID account
          \<and> ServiceAccount_OrganizationID account = DefaultOrganizationID \<and> ServiceAccount_SiteID account = siteID
          \<and> PermissionAllowsRole permission (ServiceAccount_Role account)))"
proof (cases "session_cookie cfg request")
  case (Some token)
  show ?thesis
    using permit_session_Inr [OF assms] by (simp add: requirePermission_def Some)
next
  case None
  show ?thesis
    using permit_account_Inr [OF assms] by (auto simp: requirePermission_def None split: option.splits)
qed

lemma permission_decision_witness:
  "fst (requirePermission toy_lib toy_cfg toy_hub_env False PermissionManageUsers [] toy_hub_request toy_hub) = Inr ''u1''"
  unfolding permission_decision [OF toy_hub_inv]
  by (simp add: toy_session_cookie toy_lib_simps toy_stored toy_user toy_request_simps toy_hub_env_def new_session_def
      ex_sessions_def duration_simps sub_time_def toy_admin_def no_user_def)

text \<open>
  C9. Every route, its guard and its reach. Whatever a request is, the handler of its route
  changes at most the parts listed for the route (\<open>footprint\<close>) and, behind a permission, the
  session or service token that was presented. When the guard does not pass, that is all: the
  reply is an error (401 for an agent; 401, 403 or 500 for a permission), no other part of the hub
  has changed, and behind an agent's guard nothing has.
\<close>

theorem guarded_routes:
  assumes "handle lib cfg env response route request hub = (reply, hub')"
  shows "differs_in (footprint route \<union> guard_parts (route_guard route)) hub hub'
    \<and> (\<not> guard_passed lib cfg env request hub (route_guard route) \<longrightarrow>
         differs_in (guard_parts (route_guard route)) hub hub'
       \<and> Reply_Status reply \<in> (if route_guard route = ByAgent then {401} else {401, 403, 500})
       \<and> Reply_Payload reply = StatusText (Reply_Status reply))"
proof (intro conjI impI)
  show "differs_in (footprint route \<union> guard_parts (route_guard route)) hub hub'"
    using handle_differs [of route hub lib cfg env response request] assms by simp
next
  assume "\<not> guard_passed lib cfg env request hub (route_guard route)"
  then show "differs_in (guard_parts (route_guard route)) hub hub'"
    "Reply_Status reply \<in> (if route_guard route = ByAgent then {401} else {401, 403, 500})"
    "Reply_Payload reply = StatusText (Reply_Status reply)"
    using unguarded_route [OF assms] by blast+
qed

lemma guarded_routes_witness:
  "Reply_Status (fst (handle toy_lib toy_cfg toy_hub_env (StatusRecorder ServerWriter) R_RevokeAllSessions toy_hub_request (NewHub toy_tokens))) \<in> {401, 403, 500}
   \<and> differs_in {Sessions} (NewHub toy_tokens)
       (snd (handle toy_lib toy_cfg toy_hub_env (StatusRecorder ServerWriter) R_RevokeAllSessions toy_hub_request (NewHub toy_tokens)))"
  using guarded_routes [OF surjective_pairing [of "handle toy_lib toy_cfg toy_hub_env (StatusRecorder ServerWriter) R_RevokeAllSessions toy_hub_request (NewHub toy_tokens)"]]
  by (simp add: toy_unguarded)

text \<open>
  C10. One audit event a request. On a hub with the audit trail (\<open>cmd/bazusop-hub\<close> always sets
  it), a request to any registered route gets exactly the reply of its handler, and after it one
  event more in the trail: with a fresh correlation id, the tenant of the hub, the method and
  resource of the route, the path values, the peer's address, and the outcome, which is failure
  with the status as error code exactly when the status is 400 or more. The handler itself never
  writes to the trail. Without random bytes for the correlation id the request is refused unheard;
  without those for the event id the reply stands and the event is lost.
\<close>

theorem every_request_audited:
  assumes "Hub_auditing cfg" and "dispatch cfg request = Some (e, request')"
    and "route_request lib cfg env request hub = (reply, hub')"
  shows "case newCorrelationID (Env_rand env 8) of
      Inl _ \<Rightarrow> reply = http_error 500 \<and> hub' = hub
    | Inr cid \<Rightarrow>
        fst (handle lib cfg env (StatusRecorder ServerWriter) (Entry_Route e) request' hub) = reply
      \<and> hub'\<lparr>Hub_audit := Hub_audit hub\<rparr> = snd (handle lib cfg env (StatusRecorder ServerWriter) (Entry_Route e) request' hub)
      \<and> (case rand_hex 16 (Env_rand env 9) of
           Inl _ \<Rightarrow> Hub_audit hub' = Hub_audit hub
         | Inr eid \<Rightarrow>
             (\<exists>event. Hub_audit hub' = Hub_audit hub @ [event] \<and> Audit_EventID event = eid \<and> Audit_CorrelationID event = cid
                \<and> Audit_OccurredAt event = Env_now env 9
                \<and> Audit_OrganizationID event = Scope_OrganizationID (Hub_scope cfg) \<and> Audit_SiteID event = Scope_SiteID (Hub_scope cfg)
                \<and> Audit_Action event = Entry_Method e \<and> Audit_ResourceType event = Entry_Resource e
                \<and> Audit_ResourceID event = resource_id e request' \<and> Audit_SourceIP event = sourceIP request'
                \<and> (Audit_ActorType event, Audit_ActorID event) = deriveActor lib request'
                \<and> (Audit_Outcome event = OutcomeFailure \<longleftrightarrow> 400 \<le> Reply_Status reply)
                \<and> Audit_ErrorCode event = (if 400 \<le> Reply_Status reply then itoa (int (Reply_Status reply)) else [])))"
proof -
  have route: "registerAudited lib cfg env ServerWriter e request' hub = (reply, hub')"
    using assms(2,3) by (simp add: route_request_def)
  obtain reply1 hub1 where call: "handle lib cfg env (StatusRecorder ServerWriter) (Entry_Route e) request' hub = (reply1, hub1)" by fastforce
  have trail: "Hub_audit hub1 = Hub_audit hub" using handle_trail [of lib cfg env "StatusRecorder ServerWriter" "Entry_Route e" request' hub] call by simp
  show ?thesis
  proof (cases "newCorrelationID (Env_rand env 8)")
    case (Inl x)
    then show ?thesis using route assms(1) by (simp add: registerAudited_def)
  next
    case (Inr cid)
    then have reply: "reply = reply1" and hub': "hub' = hub1\<lparr>Hub_audit := snd (Audit_Record (Env_rand env 9) (Env_now env 9)
        (audit_event lib cfg e request' cid (Reply_Status reply1)) (Hub_audit hub))\<rparr>"
      using route assms(1) call trail by (auto simp: registerAudited_def)
    show ?thesis
      unfolding Inr sum.case call reply hub' using trail
      by (auto simp: Audit_Record_def RecordAudit_def audit_event_def Let_def OutcomeFailure_def OutcomeSuccess_def
          split: sum.splits)
  qed
qed

lemma every_request_audited_witness:
  "\<exists>event. Hub_audit (snd (route_request toy_lib toy_cfg toy_hub_env toy_hub_request toy_hub)) = [event]
     \<and> Audit_Action event = ''DELETE''"
proof -
  obtain e request' where d: "dispatch toy_cfg toy_hub_request = Some (e, request')" "Entry_Method e = ''DELETE''"
    using toy_dispatch by blast
  have "Hub_auditing toy_cfg" "Hub_audit toy_hub = []"
    by (simp_all add: toy_cfg_def hub_config_def toy_startup_def toy_hub_def NewHub_def NewAuditStore_def)
  moreover obtain cid eid where "newCorrelationID (Env_rand toy_hub_env 8) = Inr cid" "rand_hex 16 (Env_rand toy_hub_env 9) = Inr eid"
    using toy_audit_ids by blast
  ultimately show ?thesis
    using every_request_audited [OF _ d(1) surjective_pairing, of toy_lib toy_hub_env toy_hub] d(2) by auto
qed

text \<open>
  C11. A session that was ended stays ended. After a logout answered with 204, the session of the
  cookie it carried, after an administrator's revocation answered with 204, every session of that
  user, or of the whole organization, is refused for good: through any further requests and
  ticks, no request that carries its cookie passes a permission check; it is told to drop the
  cookie and gets 401.
\<close>

theorem ended_session_refused:
  assumes "hub_inv hub" and "handle lib cfg env response route request hub = (reply, hub1)" and "Reply_Status reply = 204"
    and "h = hashToken (Crypto_sha256 (Lib_crypto lib)) token"
    and "route = R_Logout \<and> Request_Cookie request sessionCookieName = Some token
      \<or> route = R_RevokeUserSessions \<and> (\<exists>rcd. SessionStore_byTokenHash (Hub_sessions hub) h = Some rcd
           \<and> Session_UserID (sessionRecord_session rcd) = Request_PathValue request ''userID'')
      \<or> route = R_RevokeAllSessions \<and> (\<exists>rcd. SessionStore_byTokenHash (Hub_sessions hub) h = Some rcd
           \<and> Session_OrganizationID (sessionRecord_session rcd) = DefaultOrganizationID)"
    and "rtranclp (hub_step lib cfg) hub1 hub2" and "session_cookie cfg request2 = Some token"
  shows "fst (requirePermission lib cfg env2 accounts permission siteID request2 hub2)
    = Inl (with_cookies (clearSessionCookies request2) (http_error 401))"
proof -
  have inv: "session_inv (Hub_sessions hub)" using assms(1) by (simp add: hub_inv_def)
  have "session_revoked (Hub_sessions hub1) h"
    using assms(2-5) handleLogout_revokes [OF inv] handleRevokeSessions_revoke [OF inv assms(3)]
    by (auto simp: handle_def)
  then have dead: "session_ended (Env_now env2 0) (Hub_sessions hub1) h" by (rule session_revoked_ended)
  have "session_inv (Hub_sessions hub1)"
    using session_route_inv [OF assms(2) _ inv] assms(5) by blast
  then have "\<not> session_taken lib (Env_now env2 0) (Hub_sessions hub2) h"
    using hub_sessions.high.refused_forever [OF assms(6)] dead by blast
  then show ?thesis
    using assms(7) unfolding requirePermission_def assms(4) by (simp add: refused_session)
qed

lemma ended_session_refused_witness:
  "fst (requirePermission toy_lib toy_cfg toy_hub_env False PermissionManageUsers [] toy_hub_request
      (snd (handle toy_lib toy_cfg toy_hub_env (StatusRecorder ServerWriter) R_Logout toy_hub_request toy_hub)))
    = Inl (with_cookies (clearSessionCookies toy_hub_request) (http_error 401))"
  by (rule ended_session_refused [OF toy_hub_inv surjective_pairing toy_logout refl _ rtranclp.rtrancl_refl toy_session_cookie])
    (simp add: toy_hub_request_def sessionCookieName_def oidcFlowCookieName_def)

text \<open>
  C40. The live log stream is never served. On a hub with the in-memory store that
  \<open>cmd/bazusop-hub\<close> started, after any requests and ticks of the reachability loop, a request that
  is dispatched to the route of the stream is answered with 501 (500 when there are no random
  bytes for the correlation id) and the log service is as before it: the hub audits, so the
  handler writes to a \<open>statusRecorder\<close>, which is no \<open>http.Flusher\<close>. No stream has ever been opened,
  so no entry that agents send is ever pushed to anybody.
\<close>

theorem log_stream_unavailable:
  assumes "hub_reach lib cfg hub" and "dispatch cfg request = Some (e, request')" and "Entry_Route e = R_StreamLogs"
    and "route_request lib cfg env request hub = (reply, hub')"
  shows "reply = http_error (case newCorrelationID (Env_rand env 8) of Inl _ \<Rightarrow> 500 | Inr _ \<Rightarrow> 501)
    \<and> Hub_logs hub' = Hub_logs hub \<and> (\<forall>agent. LogService_subscribers (Hub_logs hub') agent = Map.empty)"
  using hub_reach_auditing [OF assms(1)] hub_reach_no_listener [OF assms(1)] assms(2-4)
  by (auto simp: route_request_def registerAudited_def handle_def handleStreamLogs_def split: sum.splits)

lemma log_stream_unavailable_witness:
  "fst (route_request toy_lib toy_cfg toy_hub_env toy_stream_request (NewHub toy_tokens)) = http_error 501"
proof -
  obtain e request' where "dispatch toy_cfg toy_stream_request = Some (e, request')" "Entry_Route e = R_StreamLogs"
    using toy_stream_dispatch by blast
  moreover obtain cid where "newCorrelationID (Env_rand toy_hub_env 8) = Inr cid" using toy_audit_ids by blast
  ultimately show ?thesis
    using log_stream_unavailable [OF toy_hub_reach _ _ surjective_pairing, of toy_stream_request e request' toy_hub_env] by simp
qed

text \<open>
  C16. What an OIDC callback has to bring. A callback opens a session only when the browser
  returns the flow cookie and its state, and the code, exchanged with that flow's PKCE verifier at
  the provider configured for the organization (its discovery document naming the configured
  issuer), yields an ID token verified for that issuer and client that carries the flow's nonce.
  Exactly one session is then added: of the user linked to this issuer and the token's subject
  or, when nobody is, of the user just made from an open OIDC invite to the token's e-mail
  address and linked to them; its token and CSRF token go back in the cookies of the reply.
\<close>

theorem oidc_callback_bound:
  assumes "handle lib cfg env response R_OIDCCallback request hub = (reply, hub')" and "Hub_sessions hub' \<noteq> Hub_sessions hub"
  shows "\<exists>v decoded flow config secret raw idToken email verified acr amr user st roles.
      Request_Cookie request oidcFlowCookieName = Some v \<and> b64_raw_decode b64url_val v = Some decoded
    \<and> Decode_flow (Lib_decode lib) decoded = Some flow \<and> Request_Query request ''state'' = Flow_State flow
    \<and> OIDCConfigurationWithSecret (Lib_crypto lib) (identity_service cfg env) (Scope_OrganizationID (Hub_scope cfg))
        (Hub_identity hub) = Inr (config, secret)
    \<and> OIDCLib_discover (Lib_oidc lib) (OIDCConfiguration_DiscoveryURL config) = Some (OIDCConfiguration_Issuer config)
    \<and> OIDCLib_token (Lib_oidc lib) (settings_of config secret) (Request_Query request ''code'') (Flow_CodeVerifier flow) = Some (Some raw)
    \<and> OIDCLib_verify (Lib_oidc lib) (OIDCConfiguration_Issuer config) (OIDCConfiguration_ClientID config) raw = Some idToken
    \<and> IDToken_Nonce idToken = Flow_Nonce flow \<and> IDToken_Claims idToken = Some (email, verified, acr, amr)
    \<and> LoginOrLinkOIDCUser (identity_service cfg env) (Env_identity env)
        (Env_invites1 env (IdentityStore_invites (Hub_identity hub)))
        (Env_invites2 env (IdentityStore_invites (Hub_identity hub))) (Scope_OrganizationID (Hub_scope cfg))
        (OIDCConfiguration_Issuer config) (IDToken_Subject idToken) email
        (Hub_identity hub, Hub_memberships hub) = (Inr user, st, roles)
    \<and> login_user (Env_invites1 env (IdentityStore_invites (Hub_identity hub))) (IdentityEnv_now (Env_identity env) 0)
        (Scope_OrganizationID (Hub_scope cfg)) (OIDCConfiguration_Issuer config) (IDToken_Subject idToken) email
        (Hub_identity hub) user
    \<and> opened_for lib request user hub reply hub'"
proof -
  obtain flow config secret provider claims reply1 where steps:
    "snd (readAndClearOIDCFlowCookie lib request) = Some flow" "Request_Query request ''state'' = Flow_State flow"
    "OIDCConfigurationWithSecret (Lib_crypto lib) (identity_service cfg env) (Scope_OrganizationID (Hub_scope cfg))
       (Hub_identity hub) = Inr (config, secret)"
    "NewProvider (Lib_oidc lib) (settings_of config secret) = Inr provider"
    "Exchange (Lib_oidc lib) provider (Request_Query request ''code'') flow = Inr claims"
    "callback_login lib cfg env request config claims hub = (reply1, hub')"
    "set (Reply_Cookies reply1) \<subseteq> set (Reply_Cookies reply)"
    using callback_steps [OF assms] by blast
  have provider: "provider = settings_of config secret"
    "OIDCLib_discover (Lib_oidc lib) (OIDCConfiguration_DiscoveryURL config) = Some (OIDCConfiguration_Issuer config)"
    using steps(4) by (auto simp: NewProvider_Inr settings_of_def)
  obtain raw idToken where token:
    "OIDCLib_token (Lib_oidc lib) (settings_of config secret) (Request_Query request ''code'') (Flow_CodeVerifier flow) = Some (Some raw)"
    "OIDCLib_verify (Lib_oidc lib) (OIDCConfiguration_Issuer config) (OIDCConfiguration_ClientID config) raw = Some idToken"
    "IDToken_Nonce idToken = Flow_Nonce flow"
    "IDToken_Claims idToken = Some (Claims_Email claims, Claims_EmailVerified claims, Claims_ACR claims, Claims_AMR claims)"
    and subject: "IDToken_Subject idToken = Claims_Subject claims"
    using steps(5) unfolding provider(1) Exchange_Inr by (auto simp: settings_of_def)
  obtain v decoded where cookie: "Request_Cookie request oidcFlowCookieName = Some v"
    "b64_raw_decode b64url_val v = Some decoded" "Decode_flow (Lib_decode lib) decoded = Some flow"
    using steps(1) by (auto simp: readAndClearOIDCFlowCookie_def split: option.splits if_splits)
  obtain user st roles where login: "LoginOrLinkOIDCUser (identity_service cfg env) (Env_identity env)
      (Env_invites1 env (IdentityStore_invites (Hub_identity hub)))
      (Env_invites2 env (IdentityStore_invites (Hub_identity hub))) (Scope_OrganizationID (Hub_scope cfg))
      (OIDCConfiguration_Issuer config) (IDToken_Subject idToken) (Claims_Email claims)
      (Hub_identity hub, Hub_memberships hub) = (Inr user, st, roles)"
    and "opened_for lib request user hub reply1 hub'"
    using callback_login_sessions [OF steps(6) assms(2)] unfolding subject by blast
  then have opened: "opened_for lib request user hub reply hub'" using steps(7) unfolding opened_for_def by blast
  show ?thesis
    by (intro exI conjI) (rule cookie steps(2,3) provider(2) token login LoginOrLinkOIDCUser_user [OF login] opened)+
qed

lemma oidc_callback_bound_witness:
  "\<exists>idToken. OIDCLib_verify toy_oidc ''issuer'' ''client'' ''raw'' = Some idToken \<and> IDToken_Nonce idToken = ''nonce''"
proof -
  obtain reply hub' where "handle toy_lib toy_cfg toy_hub_env (StatusRecorder ServerWriter) R_OIDCCallback toy_hub_request toy_hub = (reply, hub')"
    "Hub_sessions hub' \<noteq> Hub_sessions toy_hub"
    using toy_callback by blast
  from oidc_callback_bound [OF this] show ?thesis by (auto simp: toy_lib_def toy_oidc_def)
qed

end
