(* ===== verification/Invite_Properties.thy ===== *)
theory Invite_Properties
  imports Hub_Examples
begin

text \<open>
  The invite of a new user together with the site roles it carries: \<open>identity.ConsumeInvite\<close> with
  the grantor of \<open>cmd/bazusop-hub\<close>, which assigns one role after the other in \<open>internal/authorization\<close>.
\<close>

section \<open>The roles of an invite\<close>

definition granted_role :: "SiteRoleGrant list \<Rightarrow> string \<Rightarrow> SiteRole option" where
  "granted_role grants = map_of (rev (map (\<lambda>gr. (SiteRoleGrant_SiteID gr, site_role (SiteRoleGrant_Role gr))) grants))"

lemma granted_role_Nil [simp]: "granted_role [] = Map.empty"
  by (simp add: granted_role_def)

lemma granted_role_Cons [simp]:
  "granted_role (gr # grants) site =
     (case granted_role grants site of Some role \<Rightarrow> Some role
      | None \<Rightarrow> if site = SiteRoleGrant_SiteID gr then Some (site_role (SiteRoleGrant_Role gr)) else None)"
  by (simp add: granted_role_def map_add_def split: option.split)

lemma AssignRole_assigned:
  assumes "nul \<notin> set userID" "AssignRole r now userID organizationID siteID role g = (Inr (), g')"
  shows "RoleForUserAtSite userID site g' = (if site = siteID then Inr role else RoleForUserAtSite userID site g)"
    and "nul \<notin> set other \<Longrightarrow> other \<noteq> userID \<Longrightarrow> RoleForUserAtSite other site g' = RoleForUserAtSite other site g"
  using assms membershipKey_inj [of other userID site siteID] membershipKey_inj [of userID userID site siteID]
  by (auto simp: AssignRole_def AssignMembership_def Let_def RoleForUserAtSite_def split: sum.splits option.splits)

lemma grant_roles_assigned:
  assumes "nul \<notin> set userID" "grant_roles env n userID grants g = (Inr (), g')"
  shows "(\<forall>site. RoleForUserAtSite userID site g' =
        (case granted_role grants site of Some role \<Rightarrow> Inr role | None \<Rightarrow> RoleForUserAtSite userID site g))
    \<and> (\<forall>other site. nul \<notin> set other \<and> other \<noteq> userID \<longrightarrow> RoleForUserAtSite other site g' = RoleForUserAtSite other site g)"
  using assms(2)
proof (induction grants arbitrary: n g)
  case (Cons gr grants)
  from Cons.prems obtain g1 where g1: "AssignRole (Env_rand env n) (Env_now env n) userID DefaultOrganizationID
      (SiteRoleGrant_SiteID gr) (site_role (SiteRoleGrant_Role gr)) g = (Inr (), g1)"
    "grant_roles env (Suc n) userID grants g1 = (Inr (), g')"
    by (auto split: prod.splits sum.splits)
  note first = AssignRole_assigned [OF assms(1) g1(1)]
  from Cons.IH [OF g1(2)] show ?case
    by (simp add: first split: option.split)
qed simp

lemma identity_newID_nul: "identity_newID r = Inr i \<Longrightarrow> nul \<notin> set i"
  using rand_hex_Inr [of 16 r i] by (force simp: identity_newID_def nul_def list_all_iff is_lower_hex_def Let_def)

section \<open>Accepting an invite\<close>

text \<open>
  C36. An invite makes one account. When a local invite is accepted, it was not consumed,
  revoked or expired and is not for an identity provider; the new user has the
  organization, address and role of the invite and can log in with the chosen password.
  With the grantor that \<open>cmd/bazusop-hub\<close> sets, it has at each site the role the invite grants there
  (the last one, if it grants several), at every other site what it had, and no other
  user's role has changed. Through any further operations that token is refused, and
  refusing it writes nothing.
\<close>

theorem invite_single_use:
  assumes "crypto_ok c" and "identity_steps c service NewIdentityStore st" and "fresh_user_id env st"
    and "IdentityService_siteRoleGrantor service = Some (grant_roles henv n)"
    and "Identity_ConsumeInvite c service env token password (st, g) = (Inr (user, enrollment), st1, g1)"
  shows "\<exists>rcd. IdentityStore_invites st (identity_hashToken c token) = Some rcd
    \<and> \<not> invite_ended (IdentityEnv_now env 0) (inviteRecord_invite rcd)
    \<and> Invite_IdentityType (inviteRecord_invite rcd) \<noteq> IdentityTypeOIDC
    \<and> User_OrganizationID user = Invite_OrganizationID (inviteRecord_invite rcd)
    \<and> User_Email user = Invite_Email (inviteRecord_invite rcd)
    \<and> User_Role user = Invite_Role (inviteRecord_invite rcd)
    \<and> (\<forall>site. RoleForUserAtSite (User_ID user) site g1 =
         (case granted_role (Invite_SiteRoleGrants (inviteRecord_invite rcd)) site of
            Some role \<Rightarrow> Inr role | None \<Rightarrow> RoleForUserAtSite (User_ID user) site g))
    \<and> (\<forall>other site. nul \<notin> set other \<and> other \<noteq> User_ID user \<longrightarrow> RoleForUserAtSite other site g1 = RoleForUserAtSite other site g)
    \<and> (\<exists>secret. \<forall>now. VerifyCredentials c service now (User_OrganizationID user) (User_Email user) password
         (GenerateTOTPCode c secret now) st1 = Inr user)
    \<and> (\<forall>st2 env' password' g2. identity_steps c service st1 st2 \<longrightarrow>
         Identity_ConsumeInvite c service env' token password' (st2, g2) = (Inl ErrInviteExpired, st2, g2))"
  using assms(5)
proof (cases rule: Identity_ConsumeInvite_cases)
  case (consumed rcd invite passwordHash totpSecret encryptedSecret i u)
  let ?h = "identity_hashToken c token"
  have inv: "identity_inv st" by (rule identity_reach_inv [OF assms(2)])
  from consumed(7) have u: "u = user"
    and granted: "run_grantor service i (Invite_SiteRoleGrants invite) g = (Inr (), g1)"
    and st1: "st1 = (CreateUser user st)\<lparr>IdentityStore_invites := (IdentityStore_invites st)
        (?h \<mapsto> consumed_record (IdentityEnv_now env 2) rcd)\<rparr>" by auto
  have fields: "User_ID user = i" "User_OrganizationID user = Invite_OrganizationID invite"
    "User_Email user = Invite_Email invite" "User_Role user = Invite_Role invite"
    "User_PasswordHash user = passwordHash" "User_TOTPSecretEncrypted user = encryptedSecret"
    "User_OIDCSubject user = []"
    using consumed(6) by (simp_all add: u new_local_user_def no_user_def)
  have inv1: "identity_inv st1"
    using identity_inv_changes [OF Identity_ConsumeInvite_changes [OF assms(3,5)] inv] .
  then have users: "users_ok st1" by (simp add: identity_inv_def)
  have stored: "IdentityStore_usersByID st1 i = Some user"
    "IdentityStore_usersByEmail st1 (emailKey (User_OrganizationID user) (User_Email user)) = Some i"
    by (simp_all add: st1 write_defs fields)
  note login = login_new_user(2) [OF assms(1) users consumed(5) fields(5,6) stored VerifyTOTPCode_now]
  have dead: "invite_dead now st1 ?h" for now
    by (simp add: invite_dead_def st1 consumed_record_def invite_ended_def)
  have later: "Identity_ConsumeInvite c service env' token password' (st2, g2) = (Inl ErrInviteExpired, st2, g2)"
    if "identity_steps c service st1 st2" for st2 env' password' g2
    by (rule invite_dead_refused [OF invites.dead_steps [OF that inv1 dead] order_refl])
  have id: "nul \<notin> set (User_ID user)"
    using new_credentials_id [OF consumed(5)] identity_newID_nul fields(1) by blast
  have "grant_roles henv n (User_ID user) (Invite_SiteRoleGrants invite) g = (Inr (), g1)"
    using granted assms(4) by (cases "Invite_SiteRoleGrants invite") (simp_all add: run_grantor_def fields(1))
  note roles = grant_roles_assigned [OF id this]
  show ?thesis
    using consumed(1,3,4) roles login later fields(2-4) unfolding consumed(2) by blast
qed simp

text \<open>The witness accepts an invite that makes the user a viewer of one site.\<close>

definition toy_hub_service :: "MembershipStore IdentityService" where
  "toy_hub_service = \<lparr>IdentityService_totpEncryptionKey = ''key'', IdentityService_siteRoleGrantor = Some (grant_roles toy_hub_env 10)\<rparr>"

theorem invite_single_use_witness:
  "\<exists>st token user enrollment st1 roles.
     Identity_ConsumeInvite toy_crypto toy_hub_service toy_env token ''pw'' (st, Map.empty) = (Inr (user, enrollment), st1, roles)
     \<and> User_Email user = ''c@d'' \<and> RoleForUserAtSite (User_ID user) ''site'' roles = Inr SiteRoleViewer
     \<and> Identity_ConsumeInvite toy_crypto toy_hub_service toy_env token ''again'' (st1, roles) = (Inl ErrInviteExpired, st1, roles)"
proof -
  obtain st token rcd where st: "identity_steps toy_crypto toy_hub_service NewIdentityStore st"
    "IdentityStore_invites st = [identity_hashToken toy_crypto token \<mapsto> rcd]"
    "IdentityStore_usersByID st = Map.empty" "IdentityStore_usersByOIDC st = Map.empty"
    "\<not> invite_ended unix_epoch (inviteRecord_invite rcd)"
    "Invite_IdentityType (inviteRecord_invite rcd) = IdentityTypeLocal"
    "Invite_OrganizationID (inviteRecord_invite rcd) = ''org''" "Invite_Email (inviteRecord_invite rcd) = ''c@d''"
    "Invite_SiteRoleGrants (inviteRecord_invite rcd) = [\<lparr>SiteRoleGrant_SiteID = ''site'', SiteRoleGrant_Role = ''viewer''\<rparr>]"
    using toy_invite [OF disjI1 [OF refl], of toy_hub_service] by blast
  obtain h t x where cred: "new_credentials toy_crypto ''key'' toy_env ''pw'' = Inr (h, t, x, hex_encode (replicate 16 (CHR ''i'')))"
    using toy_credentials .
  obtain i where i: "rand_hex 16 (Env_rand toy_hub_env 10) = Inr i"
    by (simp add: toy_hub_env_def rand_hex_def)
  have "\<exists>user enrollment st1 roles. Identity_ConsumeInvite toy_crypto toy_hub_service toy_env token ''pw'' (st, Map.empty)
      = (Inr (user, enrollment), st1, roles)"
    using st(2-9) cred i
    by (simp add: Identity_ConsumeInvite_def InviteByTokenHash_def toy_hub_service_def run_grantor_def ConsumeInvite_def
        AssignRole_def Let_def) (simp add: toy_env_def)
  then obtain user enrollment st1 roles where used: "Identity_ConsumeInvite toy_crypto toy_hub_service toy_env token ''pw'' (st, Map.empty)
      = (Inr (user, enrollment), st1, roles)" by blast
  have fresh: "fresh_user_id toy_env st" by (simp add: fresh_user_id_def st(3))
  have grantor: "IdentityService_siteRoleGrantor toy_hub_service = Some (grant_roles toy_hub_env 10)"
    by (simp add: toy_hub_service_def)
  from invite_single_use [OF toy_crypto_ok st(1) fresh grantor used] st(2,8,9)
  have "User_Email user = ''c@d''" "RoleForUserAtSite (User_ID user) ''site'' roles = Inr SiteRoleViewer"
    "Identity_ConsumeInvite toy_crypto toy_hub_service toy_env token ''again'' (st1, roles) = (Inl ErrInviteExpired, st1, roles)"
    by (auto simp: site_role_def)
  with used show ?thesis by blast
qed

end
