(* ===== verification/Json_Text.thy ===== *)
theory Json_Text
  imports GoText
begin

text \<open>
  What a text becomes on its way through \<open>encoding/json\<close>, from \<open>Marshal\<close> on one side to
  \<open>Unmarshal\<close> on the other: the encoder writes every byte that is not part of a UTF-8 rune as
  the replacement character U+FFFD, and the decoder gives that back as three bytes. Text in
  UTF-8 arrives as it is; other text arrives longer than it was sent.
\<close>

definition replacement :: string where "replacement = [CHR 0xEF, CHR 0xBF, CHR 0xBD]"

function json_text :: "string \<Rightarrow> string" where
  "json_text s =
     (case s of [] \<Rightarrow> []
      | c # cs \<Rightarrow>
          (case rune_len s of
             None \<Rightarrow> replacement @ json_text cs
           | Some n \<Rightarrow> take n s @ json_text (drop n s)))"
  by pat_completeness auto
termination
  by (relation "measure length") (auto dest!: rune_len_bounds)

declare json_text.simps [simp del]

lemma json_text_Nil [simp]: "json_text [] = []"
  by (simp add: json_text.simps)

lemma json_text_rune: "rune_len s = Some n \<Longrightarrow> json_text s = take n s @ json_text (drop n s)"
  by (subst json_text.simps) (cases s; simp)

lemma json_text_byte: "rune_len (c # s) = None \<Longrightarrow> json_text (c # s) = replacement @ json_text s"
  by (subst json_text.simps) simp

lemma rune_len_replacement: "rune_len (replacement @ s) = Some 3"
  by (simp add: replacement_def rune_len.simps byte_in_def)

lemma length_replacement [simp]: "length replacement = 3"
  by (simp add: replacement_def)

text \<open>The three ways a text can start, with what the transport makes of it.\<close>

lemma json_text_cases:
  obtains (empty) "s = []" "json_text s = []"
  | (byte) c t where "s = c # t" "rune_len s = None" "json_text s = replacement @ json_text t"
  | (rune) n where "rune_len s = Some n" "json_text s = take n s @ json_text (drop n s)" "0 < n" "n \<le> length s"
proof (cases "rune_len s")
  case None
  then show ?thesis using empty byte json_text_byte by (cases s) auto
next
  case (Some n)
  then show ?thesis using rune json_text_rune rune_len_bounds by blast
qed

lemma valid_json_text: "valid_utf8 (json_text s)"
proof (induction s rule: length_induct)
  case (1 s)
  show ?case
  proof (cases s rule: json_text_cases)
    case (byte c t)
    then have "valid_utf8 (json_text t)" using 1 by simp
    then show ?thesis using valid_utf8_rune [OF rune_len_replacement] byte(3) by simp
  next
    case (rune n)
    have "rune_len (take n s @ json_text (drop n s)) = Some n"
      using rune_len_append [OF rune_len_take [OF rune(1)]] .
    moreover have "valid_utf8 (json_text (drop n s))" using 1 rune(3,4) by simp
    ultimately show ?thesis using valid_utf8_rune rune(2,4) by simp
  qed simp
qed

lemma json_text_valid [simp]: "valid_utf8 s \<Longrightarrow> json_text s = s"
proof (induction s rule: length_induct)
  case (1 s)
  show ?case
  proof (cases s rule: json_text_cases)
    case (byte c t)
    then show ?thesis using "1.prems" by (subst (asm) valid_utf8.simps) simp
  next
    case (rune n)
    then show ?thesis using 1 valid_utf8_rune [OF rune(1)] by simp
  qed simp
qed

lemma json_text_idem [simp]: "json_text (json_text s) = json_text s"
  by (rule json_text_valid [OF valid_json_text])

lemma json_text_eq_Nil [simp]: "json_text s = [] \<longleftrightarrow> s = []"
  by (cases s rule: json_text_cases) (auto simp: replacement_def)

lemma length_json_text: "length (json_text s) \<le> 3 * length s"
proof (induction s rule: length_induct)
  case (1 s)
  show ?case
  proof (cases s rule: json_text_cases)
    case (byte c t)
    then have "length (json_text t) \<le> 3 * length t" using 1 by simp
    then show ?thesis using byte by simp
  next
    case (rune n)
    then have "length (drop n s) < length s" by simp
    with 1 have "length (json_text (drop n s)) \<le> 3 * length (drop n s)" by blast
    then show ?thesis using rune(2,4) by simp
  qed simp
qed

lemma json_text_ascii [simp]: "is_ascii s \<Longrightarrow> json_text s = s"
  by (simp add: valid_utf8_ascii)

lemma hex_ascii: "list_all is_lower_hex s \<Longrightarrow> is_ascii s"
  by (auto simp: list_all_iff is_ascii_def is_lower_hex_def Let_def)

lemma json_text_hex32 [simp]: "hex32_pattern s \<Longrightarrow> json_text s = s"
  by (simp add: hex32_pattern_def hex_ascii)

end
