(* ===== verification/Agent_Jobs.thy ===== *)
theory Agent_Jobs
  imports Jobs Json_Text
begin

text \<open>
  \<open>internal/agent/job_executor.go\<close>, \<open>job_state.go\<close> and the Linux command table: the agent's
  side of the job protocol. The executor keeps a journal, the file \<open>job-state.json\<close>, written
  before a job is executed and after every report, so that an agent that dies at any moment
  knows on its next start what it had begun.

  Every effect (reading, writing or removing the journal, a call of the hub, the execution)
  uses one unit of \<open>JobHost_power\<close>; without power the process is dead and nothing after that
  happens. An effect can also fail, having happened or not. So a run with any power and any
  faults is a run with a crash and errors at any places.

  An event travels to the hub, and into the journal, as JSON: its message arrives as \<open>json_text\<close>
  makes it. (The job of a journal came from the hub's JSON answer, so its texts are UTF-8 and
  stay as they are; the types of the events are constants.)
\<close>

section \<open>Data\<close>

record Identity =
  Identity_AgentID :: string
  Identity_CertificatePEM :: string
  Identity_PrivateKeyPEM :: string
  Identity_CACertificatePEM :: string
  Identity_ExpiresAt :: time

definition jobPhaseExecuting :: string where "jobPhaseExecuting = ''executing''"
definition jobPhaseCompleted :: string where "jobPhaseCompleted = ''completed''"

record jobExecutionState =
  State_Job :: Job
  State_Phase :: string
  State_Events :: "EventRequest list"

text \<open>
  The host: the hub, the journal (None when there is no file, an error when it cannot be
  decoded), the jobs given to \<open>execute\<close> so far, and the power left.
\<close>

record 'h JobHost =
  JobHost_hub :: 'h
  JobHost_file :: "jobExecutionState res option"
  JobHost_executed :: "Job list"
  JobHost_power :: nat

datatype fault = Fine | Refused err | Unacknowledged err

text \<open>
  The surroundings, each at the moment given by the power left: the interface \<open>JobClient\<close>, the
  result of \<open>execute\<close> (output and, when it failed, the text of the error), and the faults.
\<close>

record 'h JobEnv =
  JobEnv_claim :: "nat \<Rightarrow> 'h \<Rightarrow> (Job option, 'h) op"
  JobEnv_report :: "nat \<Rightarrow> string \<Rightarrow> EventRequest \<Rightarrow> 'h \<Rightarrow> (unit, 'h) op"
  JobEnv_run :: "nat \<Rightarrow> Job \<Rightarrow> string \<times> string option"
  JobEnv_fault :: "nat \<Rightarrow> fault"

datatype 'a outcome = Ret 'a | Fail err | Crash

definition event_json :: "EventRequest \<Rightarrow> EventRequest" where
  "event_json event = event\<lparr>EventRequest_Message := json_text (EventRequest_Message event)\<rparr>"

definition journal_json :: "jobExecutionState \<Rightarrow> jobExecutionState" where
  "journal_json state = state\<lparr>State_Events := map event_json (State_Events state)\<rparr>"

lemma event_json_simps [simp]:
  "EventRequest_Sequence (event_json event) = EventRequest_Sequence event"
  "EventRequest_Type (event_json event) = EventRequest_Type event"
  "EventRequest_Message (event_json event) = json_text (EventRequest_Message event)"
  "event_json (event_json event) = event_json event"
  by (simp_all add: event_json_def)

lemma journal_json_simps [simp]:
  "State_Job (journal_json state) = State_Job state" "State_Phase (journal_json state) = State_Phase state"
  "State_Events (journal_json state) = map event_json (State_Events state)"
  "journal_json (journal_json state) = journal_json state"
  by (simp_all add: journal_json_def comp_def)

section \<open>Effects\<close>

definition and_then :: "'a outcome \<times> 'w \<Rightarrow> ('a \<Rightarrow> 'w \<Rightarrow> 'b outcome \<times> 'w) \<Rightarrow> 'b outcome \<times> 'w" where
  "and_then r k = (case r of (Ret a, w) \<Rightarrow> k a w | (Fail e, w) \<Rightarrow> (Fail e, w) | (Crash, w) \<Rightarrow> (Crash, w))"

definition effect ::
  "'h JobEnv \<Rightarrow> (nat \<Rightarrow> 'h JobHost \<Rightarrow> 'a res \<times> 'h JobHost) \<Rightarrow> 'h JobHost \<Rightarrow> 'a outcome \<times> 'h JobHost" where
  "effect env f w =
     (case JobHost_power w of
        0 \<Rightarrow> (Crash, w)
      | Suc n \<Rightarrow>
          (case JobEnv_fault env n of
             Fine \<Rightarrow> (case f n (w\<lparr>JobHost_power := n\<rparr>) of (Inl e, w') \<Rightarrow> (Fail e, w') | (Inr a, w') \<Rightarrow> (Ret a, w'))
           | Refused e \<Rightarrow> (Fail e, w\<lparr>JobHost_power := n\<rparr>)
           | Unacknowledged e \<Rightarrow> (Fail e, snd (f n (w\<lparr>JobHost_power := n\<rparr>)))))"

definition valid_state :: "jobExecutionState \<Rightarrow> bool" where
  "valid_state state \<longleftrightarrow>
     \<not> (Job_ID (State_Job state) = []
         \<or> State_Phase state \<noteq> jobPhaseExecuting \<and> State_Phase state \<noteq> jobPhaseCompleted)"

text \<open>\<open>Load\<close> answers None for a file that does not exist. Writing is atomic: a new file is renamed over the old one.\<close>

definition State_Load :: "'h JobEnv \<Rightarrow> 'h JobHost \<Rightarrow> jobExecutionState option outcome \<times> 'h JobHost" where
  "State_Load env = effect env (\<lambda>_ w.
     (case JobHost_file w of
        None \<Rightarrow> Inr None
      | Some (Inl e) \<Rightarrow> Inl e
      | Some (Inr state) \<Rightarrow>
          if valid_state state then Inr (Some state) else Inl (ErrOther ''stored job execution state is invalid''), w))"

definition State_Save :: "'h JobEnv \<Rightarrow> jobExecutionState \<Rightarrow> 'h JobHost \<Rightarrow> unit outcome \<times> 'h JobHost" where
  "State_Save env state w =
     (if \<not> valid_state state then (Fail (ErrOther ''job execution state is invalid''), w)
      else effect env (\<lambda>_ w. (Inr (), w\<lparr>JobHost_file := Some (Inr (journal_json state))\<rparr>)) w)"

definition State_Delete :: "'h JobEnv \<Rightarrow> 'h JobHost \<Rightarrow> unit outcome \<times> 'h JobHost" where
  "State_Delete env = effect env (\<lambda>_ w. (Inr (), w\<lparr>JobHost_file := None\<rparr>))"

definition hub_claim :: "'h JobEnv \<Rightarrow> 'h JobHost \<Rightarrow> Job option outcome \<times> 'h JobHost" where
  "hub_claim env = effect env (\<lambda>n w.
     (case JobEnv_claim env n (JobHost_hub w) of (result, h) \<Rightarrow> (result, w\<lparr>JobHost_hub := h\<rparr>)))"

definition hub_report :: "'h JobEnv \<Rightarrow> string \<Rightarrow> EventRequest \<Rightarrow> 'h JobHost \<Rightarrow> unit outcome \<times> 'h JobHost" where
  "hub_report env jobID event = effect env (\<lambda>n w.
     (case JobEnv_report env n jobID (event_json event) (JobHost_hub w) of (result, h) \<Rightarrow> (result, w\<lparr>JobHost_hub := h\<rparr>)))"

definition execute_job :: "'h JobEnv \<Rightarrow> Job \<Rightarrow> 'h JobHost \<Rightarrow> (string \<times> string option) outcome \<times> 'h JobHost" where
  "execute_job env job w =
     (case JobHost_power w of
        0 \<Rightarrow> (Crash, w)
      | Suc n \<Rightarrow> (Ret (JobEnv_run env n job),
                  w\<lparr>JobHost_power := n, JobHost_executed := JobHost_executed w @ [job]\<rparr>))"

section \<open>The checks on a claimed job\<close>

text \<open>The certificate of the authority pinned at enrollment: PEM block and the public key of the certificate.\<close>

datatype public_key = Ed25519Key string | OtherKey

record PinnedX509 =
  Pinned_pem_decode :: "string \<Rightarrow> (string \<times> string) option"
  Pinned_public_key :: "string \<Rightarrow> public_key option"

definition enrollmentCAPublicKey :: "PinnedX509 \<Rightarrow> string \<Rightarrow> string + string" where
  "enrollmentCAPublicKey x certificatePEM =
     (case Pinned_pem_decode x certificatePEM of
        None \<Rightarrow> Inl ''pinned enrollment authority certificate is invalid''
      | Some (ty, bytes) \<Rightarrow>
          if ty \<noteq> ''CERTIFICATE'' then Inl ''pinned enrollment authority certificate is invalid''
          else (case Pinned_public_key x bytes of
              None \<Rightarrow> Inl ''pinned enrollment authority certificate is invalid''
            | Some OtherKey \<Rightarrow> Inl ''pinned enrollment authority key is not Ed25519''
            | Some (Ed25519Key key) \<Rightarrow> Inr key))"

text \<open>\<open>strings.EqualFold\<close> on ASCII text, which is what the target pattern leaves.\<close>

definition equal_fold :: "string \<Rightarrow> string \<Rightarrow> bool" where
  "equal_fold s t \<longleftrightarrow> map lower_char s = map lower_char t"

definition valid_service_target :: "string \<Rightarrow> bool" where
  "valid_service_target target \<longleftrightarrow>
     \<not> (\<not> serviceTargetPattern target \<or> has_prefix target ''-'' \<or> equal_fold target ''bazusop-agent''
         \<or> equal_fold target ''bazusop-agent.service'')"

definition validateClaimedJob :: "Ed25519 \<Rightarrow> rfc3339 \<Rightarrow> PinnedX509 \<Rightarrow> Job \<Rightarrow> Identity \<Rightarrow> string option" where
  "validateClaimedJob ed fmt x job identity =
     (if Job_ID job = [] \<or> Job_AgentID job \<noteq> Identity_AgentID identity \<or> Job_Status job \<noteq> StatusRunning
         \<or> Job_LastSequence job < 1
      then Some ''claimed job identity or state is invalid''
      else if \<not> Verify ed fmt job then Some ''job signature verification failed''
      else (case enrollmentCAPublicKey x (Identity_CACertificatePEM identity) of
          Inl e \<Rightarrow> Some e
        | Inr trustedKey \<Rightarrow>
            if b64_decode (Job_SigningPublicKey job) \<noteq> Some trustedKey
            then Some ''job signer does not match pinned enrollment authority''
            else if Job_Action job = ActionServiceRestart then
              (if \<not> valid_service_target (Job_Target job) then Some ''service restart target is invalid'' else None)
            else if Job_Action job = ActionHostReboot then
              (if Job_Target job \<noteq> [] then Some ''host reboot target must be empty'' else None)
            else Some ''job action is not allowed''))"

function cut_invalid :: "string \<Rightarrow> string" where
  "cut_invalid s = (if valid_utf8 s then s else cut_invalid (butlast s))"
  by pat_completeness auto

termination
proof (relation "measure length")
  fix s :: string
  assume "\<not> valid_utf8 s"
  then have "s \<noteq> []" by auto
  then show "(butlast s, s) \<in> measure length" by simp
qed simp

declare cut_invalid.simps [simp del]

definition truncateUTF8 :: "string \<Rightarrow> nat \<Rightarrow> string" where
  "truncateUTF8 s limit = (if length s \<le> limit then s else cut_invalid (take limit s))"

text \<open>Text that does not start with a UTF-8 rune is cut down to nothing.\<close>

lemma cut_invalid_no_rune: "rune_len s = None \<Longrightarrow> cut_invalid s = []"
proof (induction s rule: rev_induct)
  case Nil
  show ?case by (simp add: cut_invalid.simps [of "[]"])
next
  case (snoc c s)
  have "rune_len s = None"
    using snoc.prems rune_len_append [of s _ "[c]"] by (cases "rune_len s") auto
  moreover have "\<not> valid_utf8 (s @ [c])" using snoc.prems by (subst valid_utf8.simps) simp
  ultimately show ?case using snoc.IH by (simp add: cut_invalid.simps [of "s @ [c]"])
qed

lemma truncateUTF8_no_rune:
  assumes "rune_len s = None" "limit < length s"
  shows "truncateUTF8 s limit = []"
proof -
  have "rune_len (take limit s) = None"
    using assms(1) rune_len_append [of "take limit s" _ "drop limit s"] by (cases "rune_len (take limit s)") auto
  then show ?thesis using assms(2) by (simp add: truncateUTF8_def cut_invalid_no_rune)
qed

text \<open>Such a text, for the witnesses.\<close>

definition binary_text :: "nat \<Rightarrow> string" where
  "binary_text n = CHR 0xFF # replicate n (CHR ''a'') @ [CHR ''a'']"

lemma binary_text_simps [simp]: "rune_len (binary_text n) = None" "length (binary_text n) = n + 2" "binary_text n \<noteq> []"
  by (simp_all add: binary_text_def rune_len.simps byte_in_def)

lemma trim_space_binary [simp]: "trim_space (binary_text n) = binary_text n"
proof -
  have "strip_any space_runes (binary_text n) = None"
    by (auto simp: strip_any_None space_runes_def binary_text_def)
  then have left: "trim_left_by space_runes (binary_text n) = binary_text n" by (rule trim_left_by_id)
  have high: "CHR ''a'' \<noteq> char_of n" if "128 \<le> n" "n < 256" for n :: nat
    using that by (auto dest!: arg_cong [of _ _ "of_char :: char \<Rightarrow> nat"])
  then have "strip_any (map rev space_runes) (rev (binary_text n)) = None"
    by (auto simp: strip_any_None space_runes_def binary_text_def)
  then show ?thesis unfolding trim_space_def left by (simp add: trim_left_by_id)
qed

definition maxEventMessage :: nat where "maxEventMessage = 32 * 1024"

section \<open>The executor\<close>

fun flush_events :: "'h JobEnv \<Rightarrow> Job \<Rightarrow> string \<Rightarrow> EventRequest list \<Rightarrow> 'h JobHost \<Rightarrow> unit outcome \<times> 'h JobHost" where
  "flush_events env job phase [] w = State_Delete env w"
| "flush_events env job phase (event # events) w =
     and_then (hub_report env (Job_ID job) event w) (\<lambda>_ w.
       if 0 < length events then
         and_then (State_Save env \<lparr>State_Job = job, State_Phase = phase, State_Events = events\<rparr> w)
           (\<lambda>_. flush_events env job phase events)
       else flush_events env job phase events w)"

definition flushState :: "'h JobEnv \<Rightarrow> jobExecutionState \<Rightarrow> 'h JobHost \<Rightarrow> unit outcome \<times> 'h JobHost" where
  "flushState env state = flush_events env (State_Job state) (State_Phase state) (State_Events state)"

definition reportEvents :: "'h JobEnv \<Rightarrow> Job \<Rightarrow> EventRequest list \<Rightarrow> 'h JobHost \<Rightarrow> unit outcome \<times> 'h JobHost" where
  "reportEvents env job events w =
     (let state = \<lparr>State_Job = job, State_Phase = jobPhaseCompleted, State_Events = events\<rparr> in
      and_then (State_Save env state w) (\<lambda>_. flushState env state))"

definition failed_event :: "int \<Rightarrow> string \<Rightarrow> EventRequest" where
  "failed_event seq message =
     \<lparr>EventRequest_Sequence = seq, EventRequest_Type = EventFailed, EventRequest_Message = message\<rparr>"

definition interrupted :: "jobExecutionState \<Rightarrow> jobExecutionState" where
  "interrupted state =
     state\<lparr>State_Phase := jobPhaseCompleted,
           State_Events := [failed_event (Job_LastSequence (State_Job state) + 1)
             ''agent restarted during execution; outcome unknown'']\<rparr>"

definition recoverState :: "'h JobEnv \<Rightarrow> Identity \<Rightarrow> 'h JobHost \<Rightarrow> bool outcome \<times> 'h JobHost" where
  "recoverState env identity w =
     and_then (State_Load env w) (\<lambda>loaded w.
       case loaded of
         None \<Rightarrow> (Ret False, w)
       | Some state \<Rightarrow>
           if Job_AgentID (State_Job state) \<noteq> Identity_AgentID identity \<or> \<not> hex32_pattern (Job_ID (State_Job state))
           then (Fail (ErrOther ''stored job execution state belongs to another identity''), w)
           else if State_Phase state = jobPhaseExecuting then
             and_then (State_Save env (interrupted state) w) (\<lambda>_ w.
               and_then (flushState env (interrupted state) w) (\<lambda>_ w. (Ret True, w)))
           else and_then (flushState env state w) (\<lambda>_ w. (Ret True, w)))"

definition result_events :: "Job \<Rightarrow> string \<times> string option \<Rightarrow> EventRequest list" where
  "result_events job result =
     (let (output0, executeErr) = result;
          trimmed = trim_space output0;
          output = (if trimmed = [] then Job_Action job @ '' produced no output'' else trimmed);
          reported = \<lparr>EventRequest_Sequence = 2, EventRequest_Type = EventOutput,
                       EventRequest_Message = truncateUTF8 output maxEventMessage\<rparr> in
      case executeErr of
        Some message \<Rightarrow> [reported, failed_event 3 (truncateUTF8 message maxEventMessage)]
      | None \<Rightarrow> [reported, \<lparr>EventRequest_Sequence = 3, EventRequest_Type = EventSucceeded,
                            EventRequest_Message = Job_Action job @ '' completed''\<rparr>])"

definition process_claimed ::
  "Ed25519 \<Rightarrow> rfc3339 \<Rightarrow> PinnedX509 \<Rightarrow> 'h JobEnv \<Rightarrow> Identity \<Rightarrow> Job \<Rightarrow> 'h JobHost \<Rightarrow> unit outcome \<times> 'h JobHost" where
  "process_claimed ed fmt x env identity job w =
     (if \<not> hex32_pattern (Job_ID job) then (Fail (ErrOther ''claimed job ID is invalid''), w)
      else (case validateClaimedJob ed fmt x job identity of
          Some message \<Rightarrow>
            reportEvents env job [failed_event (Job_LastSequence job + 1) (truncateUTF8 message maxEventMessage)] w
        | None \<Rightarrow>
            if Job_Resumed job then
              reportEvents env job [failed_event (Job_LastSequence job + 1)
                ''running job has no durable execution state; outcome unknown''] w
            else
              and_then (State_Save env \<lparr>State_Job = job, State_Phase = jobPhaseExecuting, State_Events = []\<rparr> w) (\<lambda>_ w.
                and_then (execute_job env job w) (\<lambda>result w.
                  reportEvents env job (result_events job result) w))))"

definition ProcessNext ::
  "Ed25519 \<Rightarrow> rfc3339 \<Rightarrow> PinnedX509 \<Rightarrow> 'h JobEnv \<Rightarrow> Identity \<Rightarrow> 'h JobHost \<Rightarrow> unit outcome \<times> 'h JobHost" where
  "ProcessNext ed fmt x env identity w =
     and_then (recoverState env identity w) (\<lambda>recovered w.
       if recovered then (Ret (), w)
       else and_then (hub_claim env w) (\<lambda>claimed w.
         case claimed of
           None \<Rightarrow> (Ret (), w)
         | Some job \<Rightarrow> process_claimed ed fmt x env identity job w))"

section \<open>The command of a job on Linux\<close>

text \<open>\<open>run\<close> executes a command line and returns its combined output and, if it failed, the error text.\<close>

definition executePlatformJob :: "(string list \<Rightarrow> string \<times> string option) \<Rightarrow> Job \<Rightarrow> string \<times> string option" where
  "executePlatformJob run job =
     (case (if Job_Action job = ActionServiceRestart then Some [''systemctl'', ''restart'', ''--'', Job_Target job]
            else if Job_Action job = ActionHostReboot then Some [''shutdown'', ''-r'', ''+1'', ''bazUSOP approved reboot'']
            else None) of
        None \<Rightarrow> ([], Some ''unsupported platform job'')
      | Some command \<Rightarrow>
          (case run command of
             (output, Some message) \<Rightarrow> (output, Some (''execute '' @ Job_Action job @ '': '' @ message))
           | (output, None) \<Rightarrow>
               if 0 < length output then (output, None)
               else if Job_Action job = ActionServiceRestart then (Job_Target job @ '' restarted'', None)
               else (''host reboot scheduled'', None)))"

end
