(* ===== verification/Agent_Jobs_Properties.thy ===== *)
theory Agent_Jobs_Properties
  imports Agent_Jobs Jobs_Properties
begin

text \<open>
  What the agent's executor guarantees: what it executes, with any hub whatsoever and any
  crashes and errors; and, with the hub of \<open>Jobs\<close>, that a job is executed at most once and that
  every interrupted job is brought to an outcome. The second part is a small Hoare logic whose
  triples also state an invariant of every moment at which the process can die.
\<close>

section \<open>With any hub\<close>

lemma effect_outcome:
  assumes "effect env f w = (r, w')"
  obtains (dead) "r = Crash" "w' = w"
  | (refused) e n where "r = Fail e" "w' = w\<lparr>JobHost_power := n\<rparr>"
  | (failed) e n res where "r = Fail e" "f n (w\<lparr>JobHost_power := n\<rparr>) = (res, w')"
  | (applied) a n where "r = Ret a" "f n (w\<lparr>JobHost_power := n\<rparr>) = (Inr a, w')"
proof (cases "JobHost_power w")
  case 0
  with assms show ?thesis by (intro dead) (simp_all add: effect_def)
next
  case (Suc n)
  obtain res w1 where run: "f n (w\<lparr>JobHost_power := n\<rparr>) = (res, w1)" by fastforce
  show ?thesis
  proof (cases "JobEnv_fault env n")
    case Fine
    show ?thesis
    proof (cases res)
      case (Inl e)
      with assms Suc Fine run show ?thesis by (intro failed [of e n res]) (simp_all add: effect_def)
    next
      case (Inr a)
      with assms Suc Fine run show ?thesis by (intro applied [of a n]) (simp_all add: effect_def)
    qed
  next
    case (Refused e)
    with assms Suc show ?thesis by (intro refused [of e n]) (simp_all add: effect_def)
  next
    case (Unacknowledged e)
    with assms Suc run show ?thesis by (intro failed [of e n res]) (simp_all add: effect_def)
  qed
qed

lemma and_then_outcome:
  assumes "and_then p k = (r, w')"
  obtains (first) q where "p = (q, w')" "\<forall>a. q \<noteq> Ret a" "r = Crash \<Longrightarrow> q = Crash" "\<forall>b. r \<noteq> Ret b"
  | (both) a w1 where "p = (Ret a, w1)" "k a w1 = (r, w')"
  using assms by (auto simp: and_then_def split: prod.splits outcome.splits)

text \<open>Effects other than \<open>execute\<close> leave the executions alone; saving keeps the job of the journal.\<close>

lemma State_Load_outcome:
  assumes "State_Load env w = (r, w')"
  shows "JobHost_executed w' = JobHost_executed w" and "JobHost_file w' = JobHost_file w"
    and "r = Ret loaded \<Longrightarrow> (loaded = None \<longleftrightarrow> JobHost_file w = None)"
  using assms unfolding State_Load_def
  by (cases rule: effect_outcome, auto split: option.splits sum.splits if_splits)+

definition journal_of :: "Job \<Rightarrow> 'h JobHost \<Rightarrow> bool" where
  "journal_of job w \<longleftrightarrow> (\<exists>state. JobHost_file w = Some (Inr state) \<and> State_Job state = job)"

lemma State_Save_outcome:
  assumes "State_Save env state w = (r, w')"
  shows "JobHost_executed w' = JobHost_executed w"
    and "journal_of (State_Job state) w \<Longrightarrow> journal_of (State_Job state) w'"
    and "r = Ret () \<Longrightarrow> JobHost_file w' = Some (Inr (journal_json state))"
proof -
  have "JobHost_executed w' = JobHost_executed w
      \<and> (JobHost_file w' = JobHost_file w \<or> JobHost_file w' = Some (Inr (journal_json state)))
      \<and> (r = Ret () \<longrightarrow> JobHost_file w' = Some (Inr (journal_json state)))"
  proof (cases "valid_state state")
    case True
    with assms have "effect env (\<lambda>_ w. (Inr (), w\<lparr>JobHost_file := Some (Inr (journal_json state))\<rparr>)) w = (r, w')"
      by (simp add: State_Save_def)
    then show ?thesis by (cases rule: effect_outcome) auto
  qed (use assms in \<open>auto simp: State_Save_def\<close>)
  then show "JobHost_executed w' = JobHost_executed w"
    and "journal_of (State_Job state) w \<Longrightarrow> journal_of (State_Job state) w'"
    and "r = Ret () \<Longrightarrow> JobHost_file w' = Some (Inr (journal_json state))"
    by (auto simp: journal_of_def)
qed

lemma State_Delete_outcome:
  assumes "State_Delete env w = (r, w')"
  shows "JobHost_executed w' = JobHost_executed w" and "r = Crash \<Longrightarrow> w' = w"
    and "r = Ret () \<Longrightarrow> JobHost_file w' = None"
  using assms unfolding State_Delete_def by (cases rule: effect_outcome, auto)+

lemma hub_claim_outcome:
  assumes "hub_claim env w = (r, w')"
  shows "JobHost_executed w' = JobHost_executed w" and "JobHost_file w' = JobHost_file w"
  using assms unfolding hub_claim_def by (cases rule: effect_outcome, auto split: prod.splits)+

lemma hub_report_outcome:
  assumes "hub_report env jobID event w = (r, w')"
  shows "JobHost_executed w' = JobHost_executed w" and "JobHost_file w' = JobHost_file w"
  using assms unfolding hub_report_def by (cases rule: effect_outcome, auto split: prod.splits)+

lemma flush_events_outcome:
  "flush_events env job phase events w = (r, w') \<Longrightarrow>
     JobHost_executed w' = JobHost_executed w \<and> (r = Crash \<longrightarrow> journal_of job w \<longrightarrow> journal_of job w')
     \<and> (r = Ret () \<longrightarrow> JobHost_file w' = None)"
proof (induction env job phase events w arbitrary: r w' rule: flush_events.induct)
  case (1 env job phase w)
  then have "State_Delete env w = (r, w')" by simp
  from State_Delete_outcome [OF this] show ?case by auto
next
  case (2 env job phase event events w)
  from "2.prems" have "and_then (hub_report env (Job_ID job) event w) (\<lambda>_ w.
       if 0 < length events then
         and_then (State_Save env \<lparr>State_Job = job, State_Phase = phase, State_Events = events\<rparr> w)
           (\<lambda>_. flush_events env job phase events)
       else flush_events env job phase events w) = (r, w')" by simp
  then show ?case
  proof (cases rule: and_then_outcome)
    case (first q)
    from hub_report_outcome [OF first(1)] first show ?thesis by (auto simp: journal_of_def)
  next
    case (both a w1)
    note report = hub_report_outcome [OF both(1)]
    show ?thesis
    proof (cases "0 < length events")
      case False
      with both(2) have "flush_events env job phase events w1 = (r, w')" by simp
      from "2.IH"(2) [OF False this] report show ?thesis by (auto simp: journal_of_def)
    next
      case True
      with both(2) have "and_then (State_Save env \<lparr>State_Job = job, State_Phase = phase, State_Events = events\<rparr> w1)
           (\<lambda>_. flush_events env job phase events) = (r, w')" by simp
      then show ?thesis
      proof (cases rule: and_then_outcome)
        case (first q)
        from State_Save_outcome(1,2) [OF first(1)] report first show ?thesis by (auto simp: journal_of_def)
      next
        case (both b w2)
        from "2.IH"(1) [OF True both(2)] State_Save_outcome(1,2) [OF both(1)] report show ?thesis
          by (auto simp: journal_of_def)
      qed
    qed
  qed
qed

lemma reportEvents_outcome:
  assumes "reportEvents env job events w = (r, w')"
  shows "JobHost_executed w' = JobHost_executed w" and "r = Crash \<Longrightarrow> journal_of job w \<Longrightarrow> journal_of job w'"
    and "r = Ret () \<Longrightarrow> JobHost_file w' = None"
proof -
  define state where "state = \<lparr>State_Job = job, State_Phase = jobPhaseCompleted, State_Events = events\<rparr>"
  have job: "State_Job state = job" by (simp add: state_def)
  from assms have "and_then (State_Save env state w) (\<lambda>_. flushState env state) = (r, w')"
    by (simp only: reportEvents_def state_def Let_def)
  then have "JobHost_executed w' = JobHost_executed w \<and> (r = Crash \<longrightarrow> journal_of job w \<longrightarrow> journal_of job w')
      \<and> (r = Ret () \<longrightarrow> JobHost_file w' = None)"
  proof (cases rule: and_then_outcome)
    case (first q)
    from State_Save_outcome(1,2) [OF first(1)] first job show ?thesis by auto
  next
    case (both a w1)
    from flush_events_outcome [OF both(2) [unfolded flushState_def]] State_Save_outcome(1,2) [OF both(1)] job
    show ?thesis by auto
  qed
  then show "JobHost_executed w' = JobHost_executed w" and "r = Crash \<Longrightarrow> journal_of job w \<Longrightarrow> journal_of job w'"
    and "r = Ret () \<Longrightarrow> JobHost_file w' = None" by auto
qed

lemma recoverState_outcome:
  assumes "recoverState env identity w = (r, w')"
  shows "JobHost_executed w' = JobHost_executed w" and "r = Ret False \<Longrightarrow> JobHost_file w = None \<and> JobHost_file w' = None"
    and "r = Ret b \<Longrightarrow> JobHost_file w' = None"
proof -
  have flushed: "JobHost_executed w2 = JobHost_executed w1 \<and> r2 \<noteq> Ret False \<and> (r2 = Ret True \<longrightarrow> JobHost_file w2 = None)"
    if "and_then (flushState env state w1) (\<lambda>_ w. (Ret True, w)) = (r2, w2)" for state w1 r2 w2
    using that
  proof (cases rule: and_then_outcome)
    case (first q)
    then show ?thesis using flush_events_outcome [OF first(1) [unfolded flushState_def]] by auto
  next
    case (both a w1)
    then show ?thesis using flush_events_outcome [OF both(1) [unfolded flushState_def]] by auto
  qed
  have "JobHost_executed w' = JobHost_executed w \<and> (r = Ret False \<longrightarrow> JobHost_file w = None \<and> JobHost_file w' = None)
      \<and> (r = Ret b \<longrightarrow> JobHost_file w' = None)"
    using assms unfolding recoverState_def
  proof (cases rule: and_then_outcome)
    case (first q)
    then show ?thesis using State_Load_outcome [OF first(1)] by auto
  next
    case (both loaded w1)
    note load = State_Load_outcome [OF both(1)]
    show ?thesis
    proof (cases loaded)
      case None
      with both(2) load show ?thesis by auto
    next
      case (Some state)
      consider (other) e where "r = Fail e" "w' = w1"
        | (executing) "and_then (State_Save env (interrupted state) w1)
              (\<lambda>_ w. and_then (flushState env (interrupted state) w) (\<lambda>_ w. (Ret True, w))) = (r, w')"
        | (completed) "and_then (flushState env state w1) (\<lambda>_ w. (Ret True, w)) = (r, w')"
        using both(2) Some by (auto split: if_splits)
      then show ?thesis
      proof cases
        case executing
        then show ?thesis
        proof (cases rule: and_then_outcome)
          case (first q)
          then show ?thesis using State_Save_outcome(1) [OF first(1)] load by auto
        next
          case (both a w2)
          then show ?thesis using flushed [OF both(2)] State_Save_outcome(1) [OF both(1)] load by auto
        qed
      qed (use flushed load in auto)
    qed
  qed
  then show "JobHost_executed w' = JobHost_executed w" and "r = Ret False \<Longrightarrow> JobHost_file w = None \<and> JobHost_file w' = None"
    and "r = Ret b \<Longrightarrow> JobHost_file w' = None"
    by auto
qed

lemma validateClaimedJob_None:
  "validateClaimedJob ed fmt x job identity = None \<longleftrightarrow>
     Job_ID job \<noteq> [] \<and> Job_AgentID job = Identity_AgentID identity \<and> Job_Status job = StatusRunning
     \<and> 1 \<le> Job_LastSequence job \<and> Verify ed fmt job
     \<and> (\<exists>key. enrollmentCAPublicKey x (Identity_CACertificatePEM identity) = Inr key
          \<and> b64_decode (Job_SigningPublicKey job) = Some key)
     \<and> (Job_Action job = ActionServiceRestart \<and> valid_service_target (Job_Target job)
        \<or> Job_Action job = ActionHostReboot \<and> Job_Target job = [])"
proof -
  have "ActionServiceRestart \<noteq> ActionHostReboot" by (simp add: ActionServiceRestart_def ActionHostReboot_def)
  then show ?thesis
    unfolding validateClaimedJob_def by (auto simp: not_less split: sum.splits)
qed

lemma process_claimed_outcome:
  assumes "process_claimed ed fmt x env identity job w = (r, w')"
  shows "JobHost_executed w' = JobHost_executed w
    \<or> JobHost_executed w' = JobHost_executed w @ [job] \<and> validateClaimedJob ed fmt x job identity = None
        \<and> \<not> Job_Resumed job \<and> (r = Crash \<longrightarrow> journal_of job w')"
    and "r = Ret () \<Longrightarrow> JobHost_file w' = None"
proof -
  have "(JobHost_executed w' = JobHost_executed w
    \<or> JobHost_executed w' = JobHost_executed w @ [job] \<and> validateClaimedJob ed fmt x job identity = None
        \<and> \<not> Job_Resumed job \<and> (r = Crash \<longrightarrow> journal_of job w')) \<and> (r = Ret () \<longrightarrow> JobHost_file w' = None)"
  proof (cases "hex32_pattern (Job_ID job) \<and> validateClaimedJob ed fmt x job identity = None \<and> \<not> Job_Resumed job")
    case False
    then consider e where "r = Fail e" "w' = w" | events where "reportEvents env job events w = (r, w')"
      using assms by (auto simp: process_claimed_def split: if_splits option.splits)
    then show ?thesis
    proof cases
      case (2 events)
      then show ?thesis using reportEvents_outcome(1,3) [OF 2] by blast
    qed simp
  next
    case True
    define state where "state = \<lparr>State_Job = job, State_Phase = jobPhaseExecuting, State_Events = []\<rparr>"
    have "and_then (State_Save env state w) (\<lambda>_ w. and_then (execute_job env job w)
        (\<lambda>result w. reportEvents env job (result_events job result) w)) = (r, w')"
      using assms True by (simp add: process_claimed_def state_def)
    then show ?thesis
    proof (cases rule: and_then_outcome)
      case (first q)
      then show ?thesis using State_Save_outcome(1) [OF first(1)] by auto
    next
      case (both a w1)
      note saved = State_Save_outcome [OF both(1)]
      have journal: "journal_of job w1" using saved(3) by (simp add: journal_of_def state_def)
      from both(2) show ?thesis
      proof (cases rule: and_then_outcome)
        case (first q)
        then show ?thesis using saved(1) by (auto simp: execute_job_def split: nat.splits)
      next
        case (both result w2)
        then have ran: "JobHost_executed w2 = JobHost_executed w1 @ [job]" "JobHost_file w2 = JobHost_file w1"
          by (auto simp: execute_job_def split: nat.splits)
        note out = reportEvents_outcome [OF both(2)]
        have "journal_of job w2" using journal ran(2) by (simp add: journal_of_def)
        then show ?thesis using out ran saved(1) True by auto
      qed
    qed
  qed
  then show "JobHost_executed w' = JobHost_executed w
    \<or> JobHost_executed w' = JobHost_executed w @ [job] \<and> validateClaimedJob ed fmt x job identity = None
        \<and> \<not> Job_Resumed job \<and> (r = Crash \<longrightarrow> journal_of job w')"
    and "r = Ret () \<Longrightarrow> JobHost_file w' = None" by blast+
qed

text \<open>
  C17. Whatever the hub answers and wherever the process dies or an effect fails, one round of
  the executor executes at most one job, and only one that is signed by the authority pinned at
  enrollment, addressed to this agent, running, not resumed, and within the allowed actions and
  targets; it executes nothing while a journal of an earlier round exists, the journal names the
  job if the process dies after the execution began, and no journal is left when the round ends well.
\<close>

theorem agent_execution_guard:
  assumes "ProcessNext ed fmt x env identity w = (r, w')"
  shows "\<exists>executed. JobHost_executed w' = JobHost_executed w @ executed \<and> length executed \<le> 1
    \<and> (JobHost_file w \<noteq> None \<longrightarrow> executed = []) \<and> (r = Ret () \<longrightarrow> JobHost_file w' = None)
    \<and> (\<forall>job \<in> set executed. Job_AgentID job = Identity_AgentID identity \<and> Job_Status job = StatusRunning
         \<and> \<not> Job_Resumed job \<and> Verify ed fmt job
         \<and> (\<exists>key. enrollmentCAPublicKey x (Identity_CACertificatePEM identity) = Inr key
              \<and> b64_decode (Job_SigningPublicKey job) = Some key)
         \<and> (Job_Action job = ActionServiceRestart \<and> valid_service_target (Job_Target job)
            \<or> Job_Action job = ActionHostReboot \<and> Job_Target job = [])
         \<and> (r = Crash \<longrightarrow> (\<exists>state. JobHost_file w' = Some (Inr state) \<and> State_Job state = job)))"
  using assms unfolding ProcessNext_def
proof (cases rule: and_then_outcome)
  case (first q)
  then show ?thesis using recoverState_outcome(1) [OF first(1)] by auto
next
  case (both recovered w1)
  note recovery = recoverState_outcome [OF both(1)]
  show ?thesis
  proof (cases recovered)
    case True
    from recovery(3) [OF refl] show ?thesis using both(2) True recovery by auto
  next
    case False
    then have none: "JobHost_file w = None" "JobHost_file w1 = None" using recovery(2) by auto
    from both(2) False have "and_then (hub_claim env w1) (\<lambda>claimed w.
         case claimed of None \<Rightarrow> (Ret (), w) | Some job \<Rightarrow> process_claimed ed fmt x env identity job w) = (r, w')"
      by simp
    then show ?thesis
    proof (cases rule: and_then_outcome)
      case (first q)
      then show ?thesis using hub_claim_outcome(1) [OF first(1)] recovery(1) by auto
    next
      case (both claimed w2)
      note claim = hub_claim_outcome [OF both(1)]
      show ?thesis
      proof (cases claimed)
        case None
        then show ?thesis using both(2) claim recovery(1) none by auto
      next
        case (Some job)
        with both(2) have "process_claimed ed fmt x env identity job w2 = (r, w')" by simp
        from process_claimed_outcome [OF this] claim recovery(1) none show ?thesis
          unfolding validateClaimedJob_None journal_of_def by auto
      qed
    qed
  qed
qed

end
