(* ===== verification/Agent_Protocol.thy ===== *)
theory Agent_Protocol
  imports Agent_Jobs_Properties
begin

text \<open>
  The executor together with the hub's job store. The agent runs round after round, each with
  its own faults and possibly dying; between the rounds, and after any time, the hub serves
  everybody else. The theory shows that the journal and the job of the hub agree at every moment
  at which the agent can die, and draws the two guarantees of the protocol from it.
\<close>

section \<open>Triples with an invariant for crashes\<close>

text \<open>
  \<open>triple fine I k P op Q\<close>: started in \<open>I\<close> and \<open>P\<close>, the operation ends in \<open>I\<close> however it ends, in
  \<open>Q\<close> when it returns, and it does return when the surroundings are \<open>fine\<close> (no effect fails and
  the hub takes what is reported to it) and there is power for \<open>k\<close>.
\<close>

definition no_faults :: "'h JobEnv \<Rightarrow> bool" where
  "no_faults env \<longleftrightarrow> (\<forall>n. JobEnv_fault env n = Fine)"

definition triple ::
  "bool \<Rightarrow> ('h JobHost \<Rightarrow> bool) \<Rightarrow> nat \<Rightarrow> ('h JobHost \<Rightarrow> bool)
   \<Rightarrow> ('h JobHost \<Rightarrow> 'a outcome \<times> 'h JobHost) \<Rightarrow> ('a \<Rightarrow> 'h JobHost \<Rightarrow> bool) \<Rightarrow> bool" where
  "triple fine I k P op Q \<longleftrightarrow> (\<forall>w r w'. I w \<longrightarrow> P w \<longrightarrow> op w = (r, w') \<longrightarrow>
     I w' \<and> (\<forall>a. r = Ret a \<longrightarrow> Q a w')
     \<and> (fine \<longrightarrow> k \<le> JobHost_power w \<longrightarrow> (\<exists>a. r = Ret a) \<and> JobHost_power w \<le> JobHost_power w' + k))"

lemma tripleI:
  assumes "\<And>w r w'. I w \<Longrightarrow> P w \<Longrightarrow> op w = (r, w') \<Longrightarrow>
     I w' \<and> (\<forall>a. r = Ret a \<longrightarrow> Q a w')
     \<and> (fine \<longrightarrow> k \<le> JobHost_power w \<longrightarrow> (\<exists>a. r = Ret a) \<and> JobHost_power w \<le> JobHost_power w' + k)"
  shows "triple fine I k P op Q"
  using assms by (simp add: triple_def)

lemma tripleD:
  assumes "triple fine I k P op Q" "I w" "P w" "op w = (r, w')"
  shows "I w'" "r = Ret a \<Longrightarrow> Q a w'"
    "fine \<Longrightarrow> k \<le> JobHost_power w \<Longrightarrow> (\<exists>a. r = Ret a) \<and> JobHost_power w \<le> JobHost_power w' + k"
  using assms unfolding triple_def by blast+

lemma triple_return: "(\<And>w. I w \<Longrightarrow> P w \<Longrightarrow> Q a w) \<Longrightarrow> triple fine I k P (\<lambda>w. (Ret a, w)) Q"
  by (rule tripleI) auto

lemma triple_cut:
  "triple fine I k P op Q \<Longrightarrow> (\<And>w. I w \<Longrightarrow> P' w \<Longrightarrow> P w) \<Longrightarrow> (\<And>a w. I w \<Longrightarrow> Q a w \<Longrightarrow> Q' a w) \<Longrightarrow> k \<le> k'
     \<Longrightarrow> triple fine I k' P' op Q'"
proof (rule tripleI)
  fix w r w'
  assume t: "triple fine I k P op Q" and P: "\<And>w. I w \<Longrightarrow> P' w \<Longrightarrow> P w" and Q: "\<And>a w. I w \<Longrightarrow> Q a w \<Longrightarrow> Q' a w"
    and k: "k \<le> k'" and w: "I w" "P' w" "op w = (r, w')"
  note out = tripleD [OF t w(1) P [OF w(1,2)] w(3)]
  have "(\<exists>a. r = Ret a) \<and> JobHost_power w \<le> JobHost_power w' + k'" if fine "k' \<le> JobHost_power w"
    using out(3) [OF that(1) le_trans [OF k that(2)]] k by auto
  then show "I w' \<and> (\<forall>a. r = Ret a \<longrightarrow> Q' a w')
     \<and> (fine \<longrightarrow> k' \<le> JobHost_power w \<longrightarrow> (\<exists>a. r = Ret a) \<and> JobHost_power w \<le> JobHost_power w' + k')"
    using out(1,2) Q [OF out(1)] by blast
qed

lemma triple_and_then:
  assumes first: "triple fine I k P op Q" and second: "\<And>a. triple fine I l (Q a) (f a) R"
  shows "triple fine I (k + l) P (\<lambda>w. and_then (op w) f) R"
proof (rule tripleI)
  fix w r w' assume w: "I w" "P w" and run: "and_then (op w) f = (r, w')"
  from run show "I w' \<and> (\<forall>a. r = Ret a \<longrightarrow> R a w')
     \<and> (fine \<longrightarrow> k + l \<le> JobHost_power w
         \<longrightarrow> (\<exists>a. r = Ret a) \<and> JobHost_power w \<le> JobHost_power w' + (k + l))"
  proof (cases rule: and_then_outcome)
    case (first q)
    with tripleD(1,3) [OF assms(1) w first(1)] show ?thesis by auto
  next
    case (both a w1)
    note one = tripleD [OF assms(1) w both(1)]
    note two = tripleD [OF second one(1) one(2) [OF refl] both(2)]
    show ?thesis
    proof (intro conjI allI impI)
      assume fine: fine and power: "k + l \<le> JobHost_power w"
      have left: "JobHost_power w \<le> JobHost_power w1 + k" using one(3) [OF fine] power by simp
      then have "l \<le> JobHost_power w1" using power by simp
      from two(3) [OF fine this] left show "\<exists>a. r = Ret a" "JobHost_power w \<le> JobHost_power w' + (k + l)" by auto
    qed (use two(1,2) in auto)
  qed
qed

text \<open>An effect may answer an error, which leaves the state in the invariant, but not when all is fine.\<close>

lemma triple_effect_may:
  assumes fine: "fine \<longrightarrow> no_faults env"
    and power: "\<And>w n. I w \<Longrightarrow> I (w\<lparr>JobHost_power := n\<rparr>)"
    and run: "\<And>w n. I w \<Longrightarrow> P w \<Longrightarrow>
      \<exists>res w'. f n (w\<lparr>JobHost_power := n\<rparr>) = (res, w') \<and> I w' \<and> (\<forall>a. res = Inr a \<longrightarrow> Q a w')
        \<and> (fine \<longrightarrow> (\<exists>a. res = Inr a)) \<and> JobHost_power w' = n"
  shows "triple fine I 1 P (effect env f) Q"
proof (rule tripleI)
  fix w r w' assume w: "I w" "P w" and op: "effect env f w = (r, w')"
  show "I w' \<and> (\<forall>a. r = Ret a \<longrightarrow> Q a w')
     \<and> (fine \<longrightarrow> 1 \<le> JobHost_power w \<longrightarrow> (\<exists>a. r = Ret a) \<and> JobHost_power w \<le> JobHost_power w' + 1)"
  proof (cases "JobHost_power w")
    case 0
    then show ?thesis using op w by (auto simp: effect_def)
  next
    case (Suc n)
    obtain res w1 where a: "f n (w\<lparr>JobHost_power := n\<rparr>) = (res, w1)" "I w1" "\<forall>a. res = Inr a \<longrightarrow> Q a w1"
      "fine \<longrightarrow> (\<exists>a. res = Inr a)" "JobHost_power w1 = n"
      using run [OF w] by blast
    show ?thesis
      using op a w Suc power [OF w(1), of n] fine
      by (cases "JobEnv_fault env n"; cases res) (auto simp: effect_def no_faults_def)
  qed
qed

lemma triple_effect:
  assumes "fine \<longrightarrow> no_faults env" and "\<And>w n. I w \<Longrightarrow> I (w\<lparr>JobHost_power := n\<rparr>)"
    and "\<And>w n. I w \<Longrightarrow> P w \<Longrightarrow>
      \<exists>a w'. f n (w\<lparr>JobHost_power := n\<rparr>) = (Inr a, w') \<and> I w' \<and> Q a w' \<and> JobHost_power w' = n"
  shows "triple fine I 1 P (effect env f) Q"
  using assms(1,2)
proof (rule triple_effect_may)
  fix w n assume "I w" "P w"
  from assms(3) [OF this, of n]
  show "\<exists>res w'. f n (w\<lparr>JobHost_power := n\<rparr>) = (res, w') \<and> I w' \<and> (\<forall>a. res = Inr a \<longrightarrow> Q a w')
        \<and> (fine \<longrightarrow> (\<exists>a. res = Inr a)) \<and> JobHost_power w' = n" by blast
qed

section \<open>The system\<close>

text \<open>
  The hub as the agent's client reaches it: its calls are the hub's \<open>ClaimNext\<close> and \<open>Report\<close> for
  this agent, at some time and with some visits of the job map.
\<close>

definition hub_env :: "JobsService \<Rightarrow> Agent \<Rightarrow> JobStore JobEnv \<Rightarrow> bool" where
  "hub_env service agent env \<longleftrightarrow>
     (\<forall>n h. finite (dom (JobStore_jobs h)) \<longrightarrow>
        (\<exists>it1 it2 now. ranges it1 (JobStore_jobs h) \<and> ranges it2 (JobStore_jobs h)
           \<and> JobEnv_claim env n h = Jobs_ClaimNext service it1 it2 now agent h))
     \<and> (\<forall>n jobID event h. \<exists>now. JobEnv_report env n jobID event h =
          (case Jobs_Report now agent jobID event h of (Inl e, h') \<Rightarrow> (Inl e, h') | (Inr _, h') \<Rightarrow> (Inr (), h')))"

text \<open>A message the hub accepts: it is trimmed there, and must not be empty or too long.\<close>

definition reportable :: "string \<Rightarrow> bool" where
  "reportable message \<longleftrightarrow> trim_space message \<noteq> [] \<and> length (trim_space message) \<le> 32 * 1024"

text \<open>An event the hub accepts: what JSON makes of its message is such a message.\<close>

definition deliverable :: "EventRequest \<Rightarrow> bool" where
  "deliverable event \<longleftrightarrow> reportable (json_text (EventRequest_Message event))"

lemma deliverable_json [simp]: "deliverable (event_json event) = deliverable event"
  by (simp add: deliverable_def)

definition reportable_results :: "JobStore JobEnv \<Rightarrow> bool" where
  "reportable_results env \<longleftrightarrow>
     (\<forall>n job. Job_Action job \<in> {ActionServiceRestart, ActionHostReboot} \<longrightarrow>
        (\<forall>event \<in> set (result_events job (JobEnv_run env n job)). deliverable event))"

text \<open>What the hub does for everybody else.\<close>

inductive foreign_step :: "Ed25519 \<Rightarrow> rfc3339 \<Rightarrow> JobsService \<Rightarrow> Agent \<Rightarrow> JobStore \<Rightarrow> JobStore \<Rightarrow> bool"
  for ed fmt service agent where
  create: "Jobs_Create ed fmt service r now scope agentID request st = (res, st') \<Longrightarrow>
    (\<And>jid. rand_hex 16 r = Inr jid \<Longrightarrow> JobStore_jobs st (scope, jid) = None) \<Longrightarrow>
    foreign_step ed fmt service agent st st'"
| claim: "Jobs_ClaimNext service it1 it2 now other st = (res, st') \<Longrightarrow>
    ranges it1 (JobStore_jobs st) \<Longrightarrow> ranges it2 (JobStore_jobs st) \<Longrightarrow>
    (Agent_Scope other, Agent_ID other) \<noteq> (Agent_Scope agent, Agent_ID agent) \<Longrightarrow>
    foreign_step ed fmt service agent st st'"
| report: "Jobs_Report now other jobID request st = (res, st') \<Longrightarrow>
    (Agent_Scope other, Agent_ID other) \<noteq> (Agent_Scope agent, Agent_ID agent) \<Longrightarrow>
    foreign_step ed fmt service agent st st'"

inductive_cases foreign_stepE: "foreign_step ed fmt service agent st st'"

inductive protocol_step ::
  "Ed25519 \<Rightarrow> rfc3339 \<Rightarrow> PinnedX509 \<Rightarrow> JobsService \<Rightarrow> Agent \<Rightarrow> Identity \<Rightarrow> JobStore JobHost \<Rightarrow> JobStore JobHost \<Rightarrow> bool"
  for ed fmt x service agent identity where
  round: "hub_env service agent env \<Longrightarrow>
    ProcessNext ed fmt x env identity (w\<lparr>JobHost_power := energy\<rparr>) = (r, w') \<Longrightarrow>
    protocol_step ed fmt x service agent identity w w'"
| hub: "foreign_step ed fmt service agent (JobHost_hub w) h \<Longrightarrow>
    protocol_step ed fmt x service agent identity w (w\<lparr>JobHost_hub := h\<rparr>)"

inductive protocol_reach ::
  "Ed25519 \<Rightarrow> rfc3339 \<Rightarrow> PinnedX509 \<Rightarrow> JobsService \<Rightarrow> Agent \<Rightarrow> Identity \<Rightarrow> JobStore JobHost \<Rightarrow> bool"
  for ed fmt x service agent identity where
  init: "protocol_reach ed fmt x service agent identity
    \<lparr>JobHost_hub = NewJobStore, JobHost_file = None, JobHost_executed = [], JobHost_power = 0\<rparr>"
| step: "protocol_reach ed fmt x service agent identity w \<Longrightarrow> protocol_step ed fmt x service agent identity w w' \<Longrightarrow>
    protocol_reach ed fmt x service agent identity w'"

section \<open>The agreement of journal and hub\<close>

text \<open>The events still to be reported: numbered on, output first, one outcome at the end.\<close>

fun plan :: "int \<Rightarrow> EventRequest list \<Rightarrow> bool" where
  "plan k [] = False"
| "plan k (event # events) =
     (EventRequest_Sequence event = k
      \<and> (if events = [] then EventRequest_Type event \<in> {EventSucceeded, EventFailed}
         else EventRequest_Type event = EventOutput \<and> plan (k + 1) events))"

definition awaits :: "Job \<Rightarrow> JobEvent list \<Rightarrow> EventRequest list \<Rightarrow> bool" where
  "awaits job recorded events \<longleftrightarrow>
     (\<exists>k\<ge>2. plan k events \<and>
        (Job_Status job = StatusRunning \<and> Job_LastSequence job = k - 1
         \<or> Job_LastSequence job = k \<and> (\<exists>event \<in> set recorded. same_report (trim_report (event_json (hd events))) event)
            \<and> Job_Status job = status_after (EventRequest_Type (hd events)) StatusRunning))"

definition agrees :: "Agent \<Rightarrow> JobStore \<Rightarrow> jobExecutionState \<Rightarrow> bool" where
  "agrees agent h state \<longleftrightarrow>
     valid_state state \<and> length (State_Events state) \<le> 2 \<and> Job_AgentID (State_Job state) = Agent_ID agent \<and> hex32_pattern (Job_ID (State_Job state))
     \<and> (\<exists>job. JobStore_jobs h (Agent_Scope agent, Job_ID (State_Job state)) = Some job \<and> Job_AgentID job = Agent_ID agent
          \<and> (State_Phase state = jobPhaseExecuting \<and> Job_Status job = StatusRunning \<and> 1 \<le> Job_LastSequence job
                \<and> Job_LastSequence job = Job_LastSequence (State_Job state)
             \<or> State_Phase state = jobPhaseCompleted
                \<and> awaits job (events_at h (Agent_Scope agent, Job_ID (State_Job state))) (State_Events state)))"

definition claimed_once :: "Agent \<Rightarrow> JobStore \<Rightarrow> Job list \<Rightarrow> bool" where
  "claimed_once agent h executed \<longleftrightarrow> distinct (map Job_ID executed)
     \<and> (\<forall>job \<in> set executed. JobStore_jobs h (Agent_Scope agent, Job_ID job) \<noteq> None
          \<and> 2 \<le> length (events_at h (Agent_Scope agent, Job_ID job)))"

definition hub_ok :: "JobStore \<Rightarrow> bool" where
  "hub_ok h \<longleftrightarrow> job_inv h \<and> finite (dom (JobStore_jobs h))"

definition protocol_inv :: "Agent \<Rightarrow> JobStore JobHost \<Rightarrow> bool" where
  "protocol_inv agent w \<longleftrightarrow> hub_ok (JobHost_hub w) \<and> claimed_once agent (JobHost_hub w) (JobHost_executed w)
     \<and> (\<forall>loaded. JobHost_file w = Some loaded \<longrightarrow> (\<exists>state. loaded = Inr state \<and> journal_json state = state
         \<and> agrees agent (JobHost_hub w) state))"

text \<open>Agreement does not depend on the way through JSON.\<close>

lemma plan_json [simp]: "plan k (map event_json events) = plan k events"
  by (induction events arbitrary: k) simp_all

lemma awaits_json [simp]: "awaits job recorded (map event_json events) = awaits job recorded events"
  by (cases events) (simp_all add: awaits_def)

lemma agrees_json [simp]: "agrees agent h (journal_json state) = agrees agent h state"
  by (simp add: agrees_def valid_state_def)

lemma protocol_inv_power [simp]: "protocol_inv agent (w\<lparr>JobHost_power := n\<rparr>) = protocol_inv agent w"
  by (simp add: protocol_inv_def)

section \<open>The hub's steps\<close>

text \<open>A step of the hub that may be taken: its effect on any job is one write, if any.\<close>

lemma claim_shape:
  assumes "Jobs_ClaimNext service it1 it2 now agent st = (res, st')" "job_inv st"
    and "ranges it1 (JobStore_jobs st)" "ranges it2 (JobStore_jobs st)"
  obtains (same) "st' = st" | (written) key job job' es where "JobStore_jobs st key = Some job"
    "fst key = Agent_Scope agent" "Job_AgentID job = Agent_ID agent" "st' = put_job key job' es st"
proof (cases "Agent_Validate agent")
  case None
  with assms(1) have "ClaimNextJob it1 it2 agent now (now - JobsService_jobLease service) st = (res, st')"
    by (simp add: Jobs_ClaimNext_def)
  then show ?thesis using assms(2-4)
  proof (cases rule: ClaimNextJob_cases)
    case (claimed job job' key)
    then show ?thesis by (intro written [of key job]) (simp_all add: is_candidate_iff)
  qed (rule same, assumption)+
next
  case (Some e)
  then have "st' = st" using assms(1) by (simp add: Jobs_ClaimNext_def)
  then show ?thesis by (rule same)
qed

lemma report_shape:
  assumes "Jobs_Report now agent jobID request st = (res, st')"
  obtains (same) "st' = st" | (written) key job job' es where "JobStore_jobs st key = Some job"
    "fst key = Agent_Scope agent" "Job_AgentID job = Agent_ID agent" "st' = put_job key job' es st"
  using assms
proof (cases rule: Jobs_Report_cases)
  case (stored job event)
  from stored(5) show ?thesis
  proof (cases rule: RecordJobEvent_cases)
    case (recorded old new event)
    then show ?thesis by (intro written [of "(Agent_Scope agent, trim_space jobID)" old]) auto
  qed (rule same, assumption)+
qed (rule same, assumption)

lemma foreign_job_step: "foreign_step ed fmt service agent st st' \<Longrightarrow> job_step ed fmt service st st'"
  by (induction rule: foreign_step.induct) (blast intro: job_step.intros)+

lemma foreign_finite:
  assumes "foreign_step ed fmt service agent st st'" "hub_ok st"
  shows "finite (dom (JobStore_jobs st'))"
  using assms(1)
proof (cases rule: foreign_step.cases)
  case (create r now scope agentID request res)
  then show ?thesis using assms(2)
    by (cases res) (auto simp: hub_ok_def Jobs_Create_Inr dest: Jobs_Create_Inl)
next
  case (claim it1 it2 now other res)
  have inv: "job_inv st" using assms(2) by (simp add: hub_ok_def)
  from claim(1) inv claim(2,3) show ?thesis
    by (cases rule: claim_shape) (use assms(2) in \<open>simp_all add: hub_ok_def\<close>)
next
  case (report now other jobID request res)
  from report(1) show ?thesis
    by (cases rule: report_shape) (use assms(2) in \<open>simp_all add: hub_ok_def\<close>)
qed

lemma foreign_keeps:
  assumes "foreign_step ed fmt service agent st st'" "job_inv st"
    and job: "JobStore_jobs st (Agent_Scope agent, jid) = Some job" "Job_AgentID job = Agent_ID agent"
  shows "JobStore_jobs st' (Agent_Scope agent, jid) = Some job
    \<and> events_at st' (Agent_Scope agent, jid) = events_at st (Agent_Scope agent, jid)"
  using assms(1)
proof (cases rule: foreign_step.cases)
  case (create r now scope agentID request res)
  show ?thesis
  proof (cases res)
    case (Inl e)
    then show ?thesis using create(1) job by (auto dest: Jobs_Create_Inl)
  next
    case (Inr new)
    from create(1) [unfolded Inr Jobs_Create_Inr] obtain id where
      "rand_hex 16 r = Inr id" "Job_ID new = id"
      and st': "st' = put_job (scope, Job_ID new) new [approved_event new] st" by auto
    with create(2) job(1) have "(Agent_Scope agent, jid) \<noteq> (scope, Job_ID new)" by auto
    then show ?thesis unfolding st' using job by auto
  qed
next
  case (claim it1 it2 now other res)
  from claim(1) assms(2) claim(2,3) show ?thesis
  proof (cases rule: claim_shape)
    case (written key j job' es)
    then have "key \<noteq> (Agent_Scope agent, jid)" using claim(4) job by auto
    then show ?thesis unfolding written(4) using job by auto
  qed (use job in simp)
next
  case (report now other jobID request res)
  from report(1) show ?thesis
  proof (cases rule: report_shape)
    case (written key j job' es)
    then have "key \<noteq> (Agent_Scope agent, jid)" using report(2) job by auto
    then show ?thesis unfolding written(4) using job by auto
  qed (use job in simp)
qed

lemma claimed_once_extends:
  assumes "job_extends st st'" "claimed_once agent st executed"
  shows "claimed_once agent st' executed"
  unfolding claimed_once_def
proof (intro conjI ballI)
  show "distinct (map Job_ID executed)" using assms(2) by (simp add: claimed_once_def)
  fix job assume "job \<in> set executed"
  then obtain j where j: "JobStore_jobs st (Agent_Scope agent, Job_ID job) = Some j"
    "2 \<le> length (events_at st (Agent_Scope agent, Job_ID job))"
    using assms(2) by (auto simp: claimed_once_def)
  then obtain j' es where "JobStore_jobs st' (Agent_Scope agent, Job_ID job) = Some j'"
    "events_at st' (Agent_Scope agent, Job_ID job) = events_at st (Agent_Scope agent, Job_ID job) @ es"
    using assms(1) unfolding job_extends_def by blast
  with j(2) show "JobStore_jobs st' (Agent_Scope agent, Job_ID job) \<noteq> None"
    "2 \<le> length (events_at st' (Agent_Scope agent, Job_ID job))" by auto
qed

lemma protocol_inv_foreign:
  assumes "foreign_step ed fmt service agent (JobHost_hub w) h" "protocol_inv agent w"
  shows "protocol_inv agent (w\<lparr>JobHost_hub := h\<rparr>)"
proof -
  have ok: "hub_ok (JobHost_hub w)" using assms(2) by (simp add: protocol_inv_def)
  then have inv: "job_inv (JobHost_hub w)" by (simp add: hub_ok_def)
  note step = foreign_job_step [OF assms(1)]
  have "hub_ok h"
    using job_step_inv [OF step inv] foreign_finite [OF assms(1) ok] by (simp add: hub_ok_def)
  moreover have "claimed_once agent h (JobHost_executed w)"
    using claimed_once_extends [OF job_step_extends [OF step inv]] assms(2) by (simp add: protocol_inv_def)
  moreover have "agrees agent h state" if agree: "agrees agent (JobHost_hub w) state" for state
  proof -
    obtain job where job: "JobStore_jobs (JobHost_hub w) (Agent_Scope agent, Job_ID (State_Job state)) = Some job"
      "Job_AgentID job = Agent_ID agent" using agree unfolding agrees_def by blast
    from foreign_keeps [OF assms(1) inv job] agree job show ?thesis by (simp add: agrees_def)
  qed
  ultimately show ?thesis using assms(2) by (auto simp: protocol_inv_def)
qed

section \<open>Reporting\<close>

text \<open>The hub accepts the next event, and an event it has recorded already.\<close>

lemma trim_hex [simp]: "hex32_pattern jid \<Longrightarrow> trim_space jid = jid" by simp

lemma report_next:
  assumes "valid_agent agent" "hex32_pattern jid" "JobStore_jobs h (Agent_Scope agent, jid) = Some job"
    and "Job_AgentID job = Agent_ID agent" "Job_Status job = StatusRunning"
    and "EventRequest_Sequence event = Job_LastSequence job + 1" "1 \<le> Job_LastSequence job"
    and "reportable (EventRequest_Message event)" "EventRequest_Type event \<in> report_types"
  shows "\<exists>job' e. Jobs_Report now agent jid event h =
      (Inr job', put_job (Agent_Scope agent, jid) job' (events_at h (Agent_Scope agent, jid) @ [e]) h)
    \<and> job' = job\<lparr>Job_Status := status_after (EventRequest_Type event) StatusRunning,
                  Job_LastSequence := EventRequest_Sequence event\<rparr>
    \<and> same_report (trim_report event) e"
  using assms
  by (auto simp: Jobs_Report_def RecordJobEvent_def Let_def reportable_def report_types_def same_report_def
      agent_event_def)

lemma report_again:
  assumes "valid_agent agent" "hex32_pattern jid" "JobStore_jobs h (Agent_Scope agent, jid) = Some job"
    and "Job_AgentID job = Agent_ID agent" "EventRequest_Sequence event = Job_LastSequence job"
    and "2 \<le> Job_LastSequence job" "reportable (EventRequest_Message event)" "EventRequest_Type event \<in> report_types"
    and "\<exists>e \<in> set (events_at h (Agent_Scope agent, jid)). same_report (trim_report event) e"
  shows "Jobs_Report now agent jid event h = (Inr job, h)"
proof -
  obtain e where "find (same_report (trim_report event)) (events_at h (Agent_Scope agent, jid)) = Some e"
    using assms(9) by (cases "find (same_report (trim_report event)) (events_at h (Agent_Scope agent, jid))")
      (auto simp: find_None_iff)
  then show ?thesis
    using assms(1-8) by (auto simp: Jobs_Report_def RecordJobEvent_def Let_def reportable_def report_types_def)
qed

lemma report_refused:
  assumes "\<not> reportable (EventRequest_Message event)"
  shows "\<exists>e. Jobs_Report now agent jid event h = (Inl e, h)"
  using assms by (auto simp: Jobs_Report_def Let_def reportable_def split: option.splits)

section \<open>The triples\<close>

definition protocol_ok :: "JobsService \<Rightarrow> Agent \<Rightarrow> Identity \<Rightarrow> JobStore JobEnv \<Rightarrow> bool \<Rightarrow> bool" where
  "protocol_ok service agent identity env fine \<longleftrightarrow> hub_env service agent env
     \<and> valid_agent agent \<and> Identity_AgentID identity = Agent_ID agent
     \<and> (fine \<longrightarrow> no_faults env \<and> reportable_results env)"

lemma protocol_ok_fine: "protocol_ok service agent identity env fine \<Longrightarrow> fine \<longrightarrow> no_faults env"
  by (simp add: protocol_ok_def)

definition finished :: "Agent \<Rightarrow> string \<Rightarrow> JobStore \<Rightarrow> bool" where
  "finished agent jid h \<longleftrightarrow> (\<exists>job. JobStore_jobs h (Agent_Scope agent, jid) = Some job
     \<and> Job_AgentID job = Agent_ID agent \<and> terminal (Job_Status job))"

abbreviation report_state :: "Job \<Rightarrow> EventRequest list \<Rightarrow> jobExecutionState" where
  "report_state job events \<equiv> \<lparr>State_Job = job, State_Phase = jobPhaseCompleted, State_Events = events\<rparr>"

lemma phases [simp]: "jobPhaseExecuting \<noteq> jobPhaseCompleted" "jobPhaseCompleted \<noteq> jobPhaseExecuting"
  by (simp_all add: jobPhaseExecuting_def jobPhaseCompleted_def)

lemma plan_report_types: "plan k (event # events) \<Longrightarrow> EventRequest_Type event \<in> report_types"
  by (auto simp: report_types_def split: if_splits)

lemma hex32_Nil [simp]: "\<not> hex32_pattern []"
  by (simp add: hex32_pattern_def)

lemma agrees_completed:
  "agrees agent h (report_state job events) \<longleftrightarrow>
     length events \<le> 2 \<and> Job_AgentID job = Agent_ID agent \<and> hex32_pattern (Job_ID job)
     \<and> (\<exists>j. JobStore_jobs h (Agent_Scope agent, Job_ID job) = Some j \<and> Job_AgentID j = Agent_ID agent
          \<and> awaits j (events_at h (Agent_Scope agent, Job_ID job)) events)"
  by (auto simp: agrees_def valid_state_def)

lemma triple_save:
  assumes fine: "fine \<longrightarrow> no_faults env" and agree: "\<And>h. A h \<Longrightarrow> agrees agent h state"
  shows "triple fine (protocol_inv agent) 1 (\<lambda>w. A (JobHost_hub w) \<and> R (JobHost_hub w) (JobHost_executed w))
    (State_Save env state)
    (\<lambda>_ w. JobHost_file w = Some (Inr (journal_json state)) \<and> A (JobHost_hub w) \<and> R (JobHost_hub w) (JobHost_executed w))"
proof (rule tripleI)
  fix w r w'
  assume w: "protocol_inv agent w" "A (JobHost_hub w) \<and> R (JobHost_hub w) (JobHost_executed w)"
    and op: "State_Save env state w = (r, w')"
  have "valid_state state" using agree w(2) by (auto simp: agrees_def)
  with op have op: "effect env (\<lambda>_ w. (Inr (), w\<lparr>JobHost_file := Some (Inr (journal_json state))\<rparr>)) w = (r, w')"
    by (simp add: State_Save_def)
  have "triple fine (protocol_inv agent) 1 (\<lambda>w. A (JobHost_hub w) \<and> R (JobHost_hub w) (JobHost_executed w))
    (effect env (\<lambda>_ w. (Inr (), w\<lparr>JobHost_file := Some (Inr (journal_json state))\<rparr>)))
    (\<lambda>_ w. JobHost_file w = Some (Inr (journal_json state)) \<and> A (JobHost_hub w) \<and> R (JobHost_hub w) (JobHost_executed w))"
    by (rule triple_effect [OF fine]) (use agree in \<open>auto simp: protocol_inv_def\<close>)
  from tripleD [OF this w op]
  show "protocol_inv agent w'
     \<and> (\<forall>a. r = Ret a \<longrightarrow> JobHost_file w' = Some (Inr (journal_json state)) \<and> A (JobHost_hub w') \<and> R (JobHost_hub w') (JobHost_executed w'))
     \<and> (fine \<longrightarrow> 1 \<le> JobHost_power w \<longrightarrow> (\<exists>a. r = Ret a) \<and> JobHost_power w \<le> JobHost_power w' + 1)"
    by blast
qed

lemma triple_delete:
  assumes "fine \<longrightarrow> no_faults env"
  shows "triple fine (protocol_inv agent) 1 (\<lambda>w. R (JobHost_hub w)) (State_Delete env)
     (\<lambda>_ w. JobHost_file w = None \<and> R (JobHost_hub w))"
  unfolding State_Delete_def by (rule triple_effect [OF assms]) (auto simp: protocol_inv_def)

lemma awaits_next:
  assumes "awaits job recorded (event # events)"
  shows "EventRequest_Sequence event = Job_LastSequence job + 1 \<and> Job_Status job = StatusRunning \<and> 1 \<le> Job_LastSequence job
    \<or> EventRequest_Sequence event = Job_LastSequence job \<and> 2 \<le> Job_LastSequence job
        \<and> (\<exists>e \<in> set recorded. same_report (trim_report (event_json event)) e)
        \<and> Job_Status job = status_after (EventRequest_Type event) StatusRunning"
    and "EventRequest_Type event \<in> report_types"
  using assms by (auto simp: awaits_def report_types_def split: if_splits)

lemma awaits_rest:
  assumes "awaits job recorded (event # events)" and "Job_LastSequence job' = EventRequest_Sequence event"
    and "Job_Status job' = status_after (EventRequest_Type event) StatusRunning"
  shows "events \<noteq> [] \<Longrightarrow> awaits job' recorded' events" and "events = [] \<Longrightarrow> terminal (Job_Status job')"
proof -
  obtain k where k: "2 \<le> k" "plan k (event # events)" using assms(1) by (auto simp: awaits_def)
  show "awaits job' recorded' events" if "events \<noteq> []"
    unfolding awaits_def using k assms(2,3) that by (intro exI [of _ "k + 1"]) (auto simp: status_after_def)
  show "terminal (Job_Status job')" if "events = []"
    using k assms(3) that by (auto simp: status_after_def terminal_def)
qed

lemma triple_report:
  assumes ok: "protocol_ok service agent identity env fine" and taken: "fine \<longrightarrow> deliverable event"
  shows "triple fine (protocol_inv agent) 1 (\<lambda>w. JobHost_file w = Some (Inr (journal_json (report_state job (event # events)))))
    (hub_report env (Job_ID job) event)
    (\<lambda>_ w. (events \<noteq> [] \<longrightarrow> agrees agent (JobHost_hub w) (report_state job events))
         \<and> (events = [] \<longrightarrow> finished agent (Job_ID job) (JobHost_hub w)))"
  unfolding hub_report_def
proof (rule triple_effect_may [OF protocol_ok_fine [OF ok]])
  fix w n
  assume w: "protocol_inv agent w" "JobHost_file w = Some (Inr (journal_json (report_state job (event # events))))"
  let ?key = "(Agent_Scope agent, Job_ID job)" and ?h = "JobHost_hub w" and ?sent = "event_json event"
  have agent: "valid_agent agent" using ok by (simp add: protocol_ok_def)
  have "agrees agent ?h (report_state job (event # events))" using w by (auto simp: protocol_inv_def)
  then obtain j where short: "length (event # events) \<le> 2" and ids: "Job_AgentID job = Agent_ID agent" "hex32_pattern (Job_ID job)"
    and j: "JobStore_jobs ?h ?key = Some j" "Job_AgentID j = Agent_ID agent"
    and awaits: "awaits j (events_at ?h ?key) (event # events)"
    by (auto simp: agrees_completed)
  note next_event = awaits_next [OF awaits]
  obtain now where call: "JobEnv_report env n (Job_ID job) ?sent ?h =
      (case Jobs_Report now agent (Job_ID job) ?sent ?h of (Inl e, h') \<Rightarrow> (Inl e, h') | (Inr _, h') \<Rightarrow> (Inr (), h'))"
    using ok unfolding protocol_ok_def hub_env_def by blast
  show "\<exists>res w'. (case JobEnv_report env n (Job_ID job) ?sent (JobHost_hub (w\<lparr>JobHost_power := n\<rparr>)) of
      (result, h) \<Rightarrow> (result, (w\<lparr>JobHost_power := n\<rparr>)\<lparr>JobHost_hub := h\<rparr>)) = (res, w')
    \<and> protocol_inv agent w'
    \<and> (\<forall>a. res = Inr a \<longrightarrow> (events \<noteq> [] \<longrightarrow> agrees agent (JobHost_hub w') (report_state job events))
       \<and> (events = [] \<longrightarrow> finished agent (Job_ID job) (JobHost_hub w')))
    \<and> (fine \<longrightarrow> (\<exists>a. res = Inr a)) \<and> JobHost_power w' = n"
  proof (cases "deliverable event")
    case False
    then have "\<exists>e. Jobs_Report now agent (Job_ID job) ?sent ?h = (Inl e, ?h)"
      by (intro report_refused) (simp add: deliverable_def)
    then obtain e where "Jobs_Report now agent (Job_ID job) ?sent ?h = (Inl e, ?h)" by blast
    then show ?thesis using call w taken False by auto
  next
    case True
    then have message: "reportable (EventRequest_Message ?sent)" "EventRequest_Type ?sent \<in> report_types"
      using next_event(2) by (simp_all add: deliverable_def)
    obtain j' h' where out: "Jobs_Report now agent (Job_ID job) ?sent ?h = (Inr j', h')"
      and j': "JobStore_jobs h' ?key = Some j'" "Job_AgentID j' = Agent_ID agent"
        "Job_LastSequence j' = EventRequest_Sequence event"
        "Job_Status j' = status_after (EventRequest_Type event) StatusRunning"
      and seen: "\<exists>e \<in> set (events_at h' ?key). same_report (trim_report ?sent) e"
      and fin: "finite (dom (JobStore_jobs h'))"
      using next_event(1)
    proof (elim disjE conjE)
      assume seq: "EventRequest_Sequence event = Job_LastSequence j + 1" "Job_Status j = StatusRunning" "1 \<le> Job_LastSequence j"
      then have "EventRequest_Sequence ?sent = Job_LastSequence j + 1" by simp
      from report_next [OF agent ids(2) j seq(2) this seq(3) message] obtain j' e where r:
        "Jobs_Report now agent (Job_ID job) ?sent ?h =
          (Inr j', put_job ?key j' (events_at ?h ?key @ [e]) ?h)"
        "j' = j\<lparr>Job_Status := status_after (EventRequest_Type ?sent) StatusRunning,
                Job_LastSequence := EventRequest_Sequence ?sent\<rparr>"
        "same_report (trim_report ?sent) e" by blast
      show thesis
        by (rule that [OF r(1)]) (use r(2,3) j w(1) in \<open>auto simp: protocol_inv_def hub_ok_def\<close>)
    next
      assume seq: "EventRequest_Sequence event = Job_LastSequence j" "2 \<le> Job_LastSequence j"
        and seen: "\<exists>e \<in> set (events_at ?h ?key). same_report (trim_report ?sent) e"
        and status: "Job_Status j = status_after (EventRequest_Type event) StatusRunning"
      from seq(1) have "EventRequest_Sequence ?sent = Job_LastSequence j" by simp
      note r = report_again [OF agent ids(2) j this seq(2) message seen]
      show thesis
        by (rule that [OF r]) (use j seq status seen w(1) in \<open>auto simp: protocol_inv_def hub_ok_def\<close>)
    qed
    let ?w = "w\<lparr>JobHost_power := n, JobHost_hub := h'\<rparr>"
    have inv: "job_inv ?h" using w(1) by (simp add: protocol_inv_def hub_ok_def)
    have step: "job_step ed fmt service ?h h'" for ed fmt by (rule job_step.report [OF out])
    have hub: "hub_ok h'" using job_step_inv [OF step inv] fin by (simp add: hub_ok_def)
    have once: "claimed_once agent h' (JobHost_executed w)"
      using claimed_once_extends [OF job_step_extends [OF step inv]] w(1) by (simp add: protocol_inv_def)
    obtain k where k: "2 \<le> k" "plan k (event # events)" using awaits by (auto simp: awaits_def)
    have "awaits j' (events_at h' ?key) (event # events)"
      unfolding awaits_def using k j'(3,4) seen by (intro exI [of _ k]) auto
    then have agree: "agrees agent h' (journal_json (report_state job (event # events)))"
      using short ids j'(1,2) by (simp add: agrees_completed)
    have "(case JobEnv_report env n (Job_ID job) ?sent (JobHost_hub (w\<lparr>JobHost_power := n\<rparr>)) of
        (result, h) \<Rightarrow> (result, (w\<lparr>JobHost_power := n\<rparr>)\<lparr>JobHost_hub := h\<rparr>)) = (Inr (), ?w)"
      by (simp add: call out)
    moreover have "protocol_inv agent ?w" using hub once agree w(2) by (simp add: protocol_inv_def)
    moreover have "events \<noteq> [] \<longrightarrow> agrees agent h' (report_state job events)"
      using awaits_rest(1) [OF awaits j'(3,4)] short ids j'(1,2) by (auto simp: agrees_completed)
    moreover have "events = [] \<longrightarrow> finished agent (Job_ID job) h'"
      using awaits_rest(2) [OF awaits j'(3,4)] j'(1,2) by (auto simp: finished_def)
    ultimately show ?thesis by (intro exI [of _ "Inr ()"] exI [of _ ?w]) simp
  qed
qed simp

lemma triple_flush:
  assumes ok: "protocol_ok service agent identity env fine" and "events \<noteq> []"
    and "fine \<longrightarrow> (\<forall>event \<in> set events. deliverable event)"
  shows "triple fine (protocol_inv agent) (2 * length events)
    (\<lambda>w. JobHost_file w = Some (Inr (journal_json (report_state job events))))
    (flush_events env job jobPhaseCompleted events)
    (\<lambda>_ w. JobHost_file w = None \<and> finished agent (Job_ID job) (JobHost_hub w))"
  using assms(2,3)
proof (induction events)
  case (Cons event events)
  have "fine \<longrightarrow> deliverable event" using Cons.prems(2) by simp
  note report = triple_report [OF ok this, of job events]
  note fine = protocol_ok_fine [OF ok]
  have "triple fine (protocol_inv agent) (1 + (2 * length events + 1))
     (\<lambda>w. JobHost_file w = Some (Inr (journal_json (report_state job (event # events)))))
     (\<lambda>w. and_then (hub_report env (Job_ID job) event w) (\<lambda>_ w.
       if 0 < length events then
         and_then (State_Save env (report_state job events) w) (\<lambda>_. flush_events env job jobPhaseCompleted events)
       else flush_events env job jobPhaseCompleted events w))
     (\<lambda>_ w. JobHost_file w = None \<and> finished agent (Job_ID job) (JobHost_hub w))"
  proof (rule triple_and_then [OF report])
    fix a :: unit
    show "triple fine (protocol_inv agent) (2 * length events + 1)
      (\<lambda>w. (events \<noteq> [] \<longrightarrow> agrees agent (JobHost_hub w) (report_state job events))
         \<and> (events = [] \<longrightarrow> finished agent (Job_ID job) (JobHost_hub w)))
      (\<lambda>w. if 0 < length events then
         and_then (State_Save env (report_state job events) w) (\<lambda>_. flush_events env job jobPhaseCompleted events)
       else flush_events env job jobPhaseCompleted events w)
      (\<lambda>_ w. JobHost_file w = None \<and> finished agent (Job_ID job) (JobHost_hub w))"
    proof (cases "events = []")
      case True
      have "(\<lambda>w. if 0 < length events then
         and_then (State_Save env (report_state job events) w) (\<lambda>_. flush_events env job jobPhaseCompleted events)
       else flush_events env job jobPhaseCompleted events w) = State_Delete env"
        using True by (simp add: fun_eq_iff)
      then show ?thesis
        using triple_cut [OF triple_delete [where R = "finished agent (Job_ID job)", OF fine]] True by simp
    next
      case False
      have save: "triple fine (protocol_inv agent) 1 (\<lambda>w. agrees agent (JobHost_hub w) (report_state job events))
          (State_Save env (report_state job events)) (\<lambda>_ w. JobHost_file w = Some (Inr (journal_json (report_state job events))))"
        by (rule triple_cut [OF triple_save [where A = "\<lambda>h. agrees agent h (report_state job events)" and agent = agent and R = "\<lambda>_ _. True", OF fine]]) auto
      have "triple fine (protocol_inv agent) (1 + 2 * length events)
          (\<lambda>w. agrees agent (JobHost_hub w) (report_state job events))
          (\<lambda>w. and_then (State_Save env (report_state job events) w) (\<lambda>_. flush_events env job jobPhaseCompleted events))
          (\<lambda>_ w. JobHost_file w = None \<and> finished agent (Job_ID job) (JobHost_hub w))"
        by (rule triple_and_then [OF save]) (rule Cons.IH [OF False], use Cons.prems(2) in simp)
      then show ?thesis using False by (auto elim: triple_cut)
    qed
  qed
  then show ?case by simp
qed simp

text \<open>Reporting, recovering, claiming and processing.\<close>

lemma triple_reportEvents:
  assumes ok: "protocol_ok service agent identity env fine" and "length events \<le> 2"
    and taken: "fine \<longrightarrow> (\<forall>event \<in> set events. deliverable event)"
  shows "triple fine (protocol_inv agent) 5
    (\<lambda>w. events \<noteq> [] \<and> agrees agent (JobHost_hub w) (report_state job events))
    (reportEvents env job events)
    (\<lambda>_ w. JobHost_file w = None \<and> finished agent (Job_ID job) (JobHost_hub w))"
proof (cases "events = []")
  case False
  have save: "triple fine (protocol_inv agent) 1 (\<lambda>w. events \<noteq> [] \<and> agrees agent (JobHost_hub w) (report_state job events))
      (State_Save env (report_state job events)) (\<lambda>_ w. JobHost_file w = Some (Inr (journal_json (report_state job events))))"
    by (rule triple_cut [OF triple_save [where A = "\<lambda>h. agrees agent h (report_state job events)" and agent = agent and R = "\<lambda>_ _. True", OF protocol_ok_fine [OF ok]]]) auto
  have flush: "triple fine (protocol_inv agent) 4 (\<lambda>w. JobHost_file w = Some (Inr (journal_json (report_state job events))))
      (flush_events env job jobPhaseCompleted events)
      (\<lambda>_ w. JobHost_file w = None \<and> finished agent (Job_ID job) (JobHost_hub w))"
    by (rule triple_cut [OF triple_flush [OF ok False taken]]) (use assms(2) in auto)
  have "triple fine (protocol_inv agent) (1 + 4)
      (\<lambda>w. events \<noteq> [] \<and> agrees agent (JobHost_hub w) (report_state job events))
      (\<lambda>w. and_then (State_Save env (report_state job events) w) (\<lambda>_. flush_events env job jobPhaseCompleted events))
      (\<lambda>_ w. JobHost_file w = None \<and> finished agent (Job_ID job) (JobHost_hub w))"
    by (rule triple_and_then [OF save flush])
  then show ?thesis by (simp add: reportEvents_def [abs_def] Let_def flushState_def [abs_def])
qed (simp add: triple_def)

lemma triple_load:
  assumes "fine \<longrightarrow> no_faults env"
  shows "triple fine (protocol_inv agent) 1 (\<lambda>w. JobHost_file w = found) (State_Load env)
     (\<lambda>loaded w. JobHost_file w = found \<and> map_option Inr loaded = found)"
  unfolding State_Load_def
proof (rule triple_effect [OF assms])
  fix w :: "JobStore JobHost" and n assume w: "protocol_inv agent w" "JobHost_file w = found"
  show "\<exists>a w'. (case JobHost_file (w\<lparr>JobHost_power := n\<rparr>) of
        None \<Rightarrow> Inr None
      | Some (Inl e) \<Rightarrow> Inl e
      | Some (Inr state) \<Rightarrow>
          if valid_state state then Inr (Some state) else Inl (ErrOther ''stored job execution state is invalid''),
        w\<lparr>JobHost_power := n\<rparr>) = (Inr a, w') \<and> protocol_inv agent w'
      \<and> (JobHost_file w' = found \<and> map_option Inr a = found) \<and> JobHost_power w' = n"
  proof (cases found)
    case (Some loaded)
    then obtain state where "loaded = Inr state" "agrees agent (JobHost_hub w) state"
      using w by (auto simp: protocol_inv_def)
    moreover from this have "valid_state state" by (simp add: agrees_def)
    ultimately show ?thesis using w Some by simp
  qed (use w in simp)
qed simp

lemma deliverable_restarted: "deliverable (failed_event k ''agent restarted during execution; outcome unknown'')"
proof -
  have "reportable ''agent restarted during execution; outcome unknown''"
    unfolding reportable_def by (subst trim_space_plain; simp add: plain_char_def)+
  then show ?thesis by (simp add: deliverable_def failed_event_def is_ascii_def)
qed

lemma agrees_interrupted:
  assumes "agrees agent h state" "State_Phase state = jobPhaseExecuting"
  shows "agrees agent h (interrupted state)" "State_Job (interrupted state) = State_Job state"
    "State_Phase (interrupted state) = jobPhaseCompleted" "State_Events (interrupted state) \<noteq> []"
    "interrupted state = report_state (State_Job state) (State_Events (interrupted state))"
proof -
  show eq: "State_Job (interrupted state) = State_Job state"
    "State_Phase (interrupted state) = jobPhaseCompleted" "State_Events (interrupted state) \<noteq> []"
    "interrupted state = report_state (State_Job state) (State_Events (interrupted state))"
    by (simp_all add: interrupted_def)
  let ?key = "(Agent_Scope agent, Job_ID (State_Job state))"
  obtain j where j: "JobStore_jobs h ?key = Some j" "Job_AgentID j = Agent_ID agent" "Job_Status j = StatusRunning"
    "1 \<le> Job_LastSequence j" "Job_LastSequence j = Job_LastSequence (State_Job state)"
    using assms by (auto simp: agrees_def)
  have "awaits j (events_at h ?key) (State_Events (interrupted state))"
    unfolding awaits_def using j
    by (intro exI [of _ "Job_LastSequence j + 1"]) (simp add: interrupted_def failed_event_def)
  then have "agrees agent h (report_state (State_Job state) (State_Events (interrupted state)))"
    using assms(1) j(1,2) unfolding agrees_completed
    by (intro conjI exI [of _ j]) (simp_all add: agrees_def interrupted_def)
  then show "agrees agent h (interrupted state)" using eq(4) by simp
qed

lemma triple_recover:
  assumes ok: "protocol_ok service agent identity env fine"
    and taken: "\<forall>state. fine \<longrightarrow> found = Some (Inr state) \<longrightarrow> (\<forall>event \<in> set (State_Events state). deliverable event)"
  shows "triple fine (protocol_inv agent) 6 (\<lambda>w. JobHost_file w = found) (recoverState env identity)
    (\<lambda>recovered w. JobHost_file w = None \<and> (recovered \<longleftrightarrow> found \<noteq> None)
       \<and> (\<forall>state. found = Some (Inr state) \<longrightarrow> finished agent (Job_ID (State_Job state)) (JobHost_hub w)))"
    (is "triple _ _ _ _ _ ?Q")
proof -
  have finish: "triple fine (protocol_inv agent) 4 (\<lambda>w. JobHost_file w = Some (Inr (journal_json state)) \<and> agrees agent (JobHost_hub w) state)
      (\<lambda>w. and_then (flushState env state w) (\<lambda>_ w. (Ret True, w)))
      (\<lambda>recovered w. recovered \<and> JobHost_file w = None \<and> finished agent (Job_ID (State_Job state)) (JobHost_hub w))"
    if completed: "State_Phase state = jobPhaseCompleted"
      and live: "fine \<longrightarrow> (\<forall>event \<in> set (State_Events state). deliverable event)" for state
  proof (cases "State_Events state = [] \<or> 2 < length (State_Events state)")
    case True
    then have "\<not> agrees agent h state" for h using completed by (auto simp: agrees_def awaits_def)
    then show ?thesis by (simp add: triple_def)
  next
    case False
    have state: "state = report_state (State_Job state) (State_Events state)"
      using completed by (cases state) simp
    have flush: "triple fine (protocol_inv agent) 4 (\<lambda>w. JobHost_file w = Some (Inr (journal_json state)) \<and> agrees agent (JobHost_hub w) state)
        (flushState env state)
        (\<lambda>_ w. JobHost_file w = None \<and> finished agent (Job_ID (State_Job state)) (JobHost_hub w))"
      using False triple_cut [OF triple_flush [OF ok _ live, of "State_Job state"],
          of "\<lambda>w. JobHost_file w = Some (Inr (journal_json state)) \<and> agrees agent (JobHost_hub w) state"
          "\<lambda>_ w. JobHost_file w = None \<and> finished agent (Job_ID (State_Job state)) (JobHost_hub w)" 4] state
      by (simp add: flushState_def [abs_def] completed)
    have "triple fine (protocol_inv agent) (4 + 0) (\<lambda>w. JobHost_file w = Some (Inr (journal_json state)) \<and> agrees agent (JobHost_hub w) state)
        (\<lambda>w. and_then (flushState env state w) (\<lambda>_ w. (Ret True, w)))
        (\<lambda>recovered w. recovered \<and> JobHost_file w = None \<and> finished agent (Job_ID (State_Job state)) (JobHost_hub w))"
      by (rule triple_and_then [OF flush]) (rule triple_return, simp)
    then show ?thesis by simp
  qed
  note fine = protocol_ok_fine [OF ok]
  show ?thesis
  proof (cases found)
    case None
    have "triple fine (protocol_inv agent) (1 + 5) (\<lambda>w. JobHost_file w = found) (recoverState env identity) ?Q"
      unfolding recoverState_def [abs_def]
    proof (rule triple_and_then [OF triple_load [OF fine]])
      fix loaded
      show "triple fine (protocol_inv agent) 5 (\<lambda>w. JobHost_file w = found \<and> map_option Inr loaded = found)
        (\<lambda>w. case loaded of None \<Rightarrow> (Ret False, w)
          | Some state \<Rightarrow>
           if Job_AgentID (State_Job state) \<noteq> Identity_AgentID identity \<or> \<not> hex32_pattern (Job_ID (State_Job state))
           then (Fail (ErrOther ''stored job execution state belongs to another identity''), w)
           else if State_Phase state = jobPhaseExecuting then
             and_then (State_Save env (interrupted state) w) (\<lambda>_ w.
               and_then (flushState env (interrupted state) w) (\<lambda>_ w. (Ret True, w)))
           else and_then (flushState env state w) (\<lambda>_ w. (Ret True, w))) ?Q"
        using None by (cases loaded) (auto simp: triple_def)
    qed
    then show ?thesis by simp
  next
    case (Some loaded)
    show ?thesis
    proof (cases "\<exists>state h. loaded = Inr state \<and> journal_json state = state \<and> agrees agent h state")
      case False
      then show ?thesis using Some by (auto simp: triple_def protocol_inv_def)
    next
      case True
      then obtain state h where loaded: "loaded = Inr state"
        and same: "journal_json state = state" and some: "agrees agent h state" by blast
      have ids: "Job_AgentID (State_Job state) = Identity_AgentID identity" "hex32_pattern (Job_ID (State_Job state))"
        "State_Phase state = jobPhaseExecuting \<or> State_Phase state = jobPhaseCompleted"
        using some ok by (auto simp: agrees_def protocol_ok_def)
      have here: "agrees agent (JobHost_hub w) state" if "protocol_inv agent w" "JobHost_file w = found" for w
        using that Some loaded by (auto simp: protocol_inv_def)
      have live: "fine \<longrightarrow> (\<forall>event \<in> set (State_Events state). deliverable event)" using taken Some loaded by simp
      have load: "triple fine (protocol_inv agent) 1 (\<lambda>w. JobHost_file w = found) (State_Load env)
          (\<lambda>l w. l = Some state \<and> JobHost_file w = Some (Inr state) \<and> agrees agent (JobHost_hub w) state)"
        by (rule triple_cut [OF triple_load [OF fine]]) (use Some loaded here in auto)
      have rest: "triple fine (protocol_inv agent) 5
          (\<lambda>w. JobHost_file w = Some (Inr state) \<and> agrees agent (JobHost_hub w) state)
          (\<lambda>w. if State_Phase state = jobPhaseExecuting then
             and_then (State_Save env (interrupted state) w) (\<lambda>_ w.
               and_then (flushState env (interrupted state) w) (\<lambda>_ w. (Ret True, w)))
           else and_then (flushState env state w) (\<lambda>_ w. (Ret True, w)))
          (\<lambda>recovered w. recovered \<and> JobHost_file w = None \<and> finished agent (Job_ID (State_Job state)) (JobHost_hub w))"
      proof (cases "State_Phase state = jobPhaseExecuting")
        case True
        note failed = agrees_interrupted [OF _ True]
        have save: "triple fine (protocol_inv agent) 1
            (\<lambda>w. JobHost_file w = Some (Inr state) \<and> agrees agent (JobHost_hub w) state)
            (State_Save env (interrupted state))
            (\<lambda>_ w. JobHost_file w = Some (Inr (journal_json (interrupted state))) \<and> agrees agent (JobHost_hub w) (interrupted state))"
          by (rule triple_cut [OF triple_save [where A = "\<lambda>h. agrees agent h (interrupted state)" and agent = agent and R = "\<lambda>_ _. True", OF fine]])
            (auto intro: failed(1))
        have "triple fine (protocol_inv agent) (1 + 4)
            (\<lambda>w. JobHost_file w = Some (Inr state) \<and> agrees agent (JobHost_hub w) state)
            (\<lambda>w. and_then (State_Save env (interrupted state) w) (\<lambda>_ w.
               and_then (flushState env (interrupted state) w) (\<lambda>_ w. (Ret True, w))))
            (\<lambda>recovered w. recovered \<and> JobHost_file w = None \<and> finished agent (Job_ID (State_Job (interrupted state))) (JobHost_hub w))"
          by (rule triple_and_then [OF save]) (rule finish [OF failed(3) [OF some]],
              simp add: interrupted_def deliverable_restarted)
        then show ?thesis using True failed(2) [OF some] by simp
      next
        case False
        then have completed: "State_Phase state = jobPhaseCompleted" using ids(3) by blast
        show ?thesis using False triple_cut [OF finish [OF completed live]] same by simp
      qed
      have "triple fine (protocol_inv agent) (1 + 5) (\<lambda>w. JobHost_file w = found) (recoverState env identity) ?Q"
        unfolding recoverState_def [abs_def]
      proof (rule triple_and_then [OF load])
        fix l
        show "triple fine (protocol_inv agent) 5
          (\<lambda>w. l = Some state \<and> JobHost_file w = Some (Inr state) \<and> agrees agent (JobHost_hub w) state)
          (\<lambda>w. case l of None \<Rightarrow> (Ret False, w)
          | Some state \<Rightarrow>
           if Job_AgentID (State_Job state) \<noteq> Identity_AgentID identity \<or> \<not> hex32_pattern (Job_ID (State_Job state))
           then (Fail (ErrOther ''stored job execution state belongs to another identity''), w)
           else if State_Phase state = jobPhaseExecuting then
             and_then (State_Save env (interrupted state) w) (\<lambda>_ w.
               and_then (flushState env (interrupted state) w) (\<lambda>_ w. (Ret True, w)))
           else and_then (flushState env state w) (\<lambda>_ w. (Ret True, w))) ?Q"
        proof (cases "l = Some state")
          case True
          have "triple fine (protocol_inv agent) 5
            (\<lambda>w. l = Some state \<and> JobHost_file w = Some (Inr state) \<and> agrees agent (JobHost_hub w) state)
            (\<lambda>w. if State_Phase state = jobPhaseExecuting then
               and_then (State_Save env (interrupted state) w) (\<lambda>_ w.
                 and_then (flushState env (interrupted state) w) (\<lambda>_ w. (Ret True, w)))
             else and_then (flushState env state w) (\<lambda>_ w. (Ret True, w))) ?Q"
            by (rule triple_cut [OF rest]) (use Some loaded in auto)
          then show ?thesis using True ids by simp
        qed (simp add: triple_def)
      qed
      then show ?thesis by simp
    qed
  qed
qed

text \<open>The job a claim hands over is the hub's, running, and new to the agent unless resumed.\<close>

definition claimed_ok :: "Agent \<Rightarrow> JobStore \<Rightarrow> JobStore \<Rightarrow> Job list \<Rightarrow> Job \<Rightarrow> bool" where
  "claimed_ok agent before h executed job \<longleftrightarrow>
     hex32_pattern (Job_ID job) \<and> Job_AgentID job = Agent_ID agent \<and> \<not> finished agent (Job_ID job) before
     \<and> (\<exists>j. JobStore_jobs h (Agent_Scope agent, Job_ID job) = Some j \<and> Job_AgentID j = Agent_ID agent
          \<and> Job_Status j = StatusRunning \<and> 1 \<le> Job_LastSequence j \<and> Job_LastSequence j = Job_LastSequence job)
     \<and> (\<not> Job_Resumed job \<longrightarrow> Job_LastSequence job = 1 \<and> Job_ID job \<notin> Job_ID ` set executed
          \<and> 2 \<le> length (events_at h (Agent_Scope agent, Job_ID job)))"

text \<open>There is nothing to claim: no job, or a running one whose lease is not over.\<close>

definition nothing_claimable :: "JobsService \<Rightarrow> time \<Rightarrow> Agent \<Rightarrow> JobStore \<Rightarrow> bool" where
  "nothing_claimable service now agent h \<longleftrightarrow>
     (\<forall>key job. JobStore_jobs h key = Some job \<longrightarrow>
        \<not> is_candidate agent StatusRunning job \<and> \<not> is_candidate agent StatusQueued job)
     \<or> (\<exists>job. JobStore_jobs h (Agent_Scope agent, Job_ID job) = Some job \<and> is_candidate agent StatusRunning job
          \<and> (\<exists>e \<in> set (events_at h (Agent_Scope agent, Job_ID job)).
               JobEvent_Type e = EventClaimed \<and> now - JobsService_jobLease service < JobEvent_OccurredAt e))"

lemma claim_result:
  assumes ok: "hub_ok h" and valid: "valid_agent agent" and once: "claimed_once agent h executed"
    and it: "ranges it1 (JobStore_jobs h)" "ranges it2 (JobStore_jobs h)"
  shows "\<exists>claimed h'. Jobs_ClaimNext service it1 it2 now agent h = (Inr claimed, h') \<and> hub_ok h'
    \<and> claimed_once agent h' executed
    \<and> (claimed = None \<longrightarrow> h' = h \<and> nothing_claimable service now agent h)
    \<and> (\<forall>job. claimed = Some job \<longrightarrow> claimed_ok agent h h' executed job)"
proof -
  obtain res h' where op: "Jobs_ClaimNext service it1 it2 now agent h = (res, h')" by fastforce
  then have store: "ClaimNextJob it1 it2 agent now (now - JobsService_jobLease service) h = (res, h')"
    using valid by (simp add: Jobs_ClaimNext_def)
  have inv: "job_inv h" using ok by (simp add: hub_ok_def)
  have step: "job_step ed fmt service h h'" for ed fmt by (rule job_step.claim [OF op it])
  have inv': "job_inv h'" by (rule job_step_inv [OF step inv])
  have once': "claimed_once agent h' executed"
    by (rule claimed_once_extends [OF job_step_extends [OF step inv] once])
  have "finite (dom (JobStore_jobs h'))"
    using op inv it by (cases rule: claim_shape) (use ok in \<open>simp_all add: hub_ok_def\<close>)
  with inv' have ok': "hub_ok h'" by (simp add: hub_ok_def)
  from store inv it show ?thesis
  proof (cases rule: ClaimNextJob_cases)
    case (refused e)
    then show ?thesis using valid by simp
  next
    case (leased job)
    have "nothing_claimable service now agent h" unfolding nothing_claimable_def using leased(3-5) by blast
    then show ?thesis using op leased(1,2) ok' once' by auto
  next
    case idle
    then have "nothing_claimable service now agent h" unfolding nothing_claimable_def by blast
    then show ?thesis using op idle(1,2) ok' once' by auto
  next
    case (resumed job)
    note job = job_invD [OF inv resumed(3)]
    have run: "Job_AgentID job = Agent_ID agent" "Job_Status job = StatusRunning"
      using resumed(4) by (simp_all add: is_candidate_iff)
    have "events_at h (Agent_Scope agent, Job_ID job) \<noteq> []"
      using job(2) job_run_nonempty by (force simp: job_log_ok_def)
    moreover have "length (events_at h (Agent_Scope agent, Job_ID job)) \<noteq> 1"
    proof
      assume "length (events_at h (Agent_Scope agent, Job_ID job)) = 1"
      then obtain e where "events_at h (Agent_Scope agent, Job_ID job) = [e]" by (auto simp: length_Suc_conv)
      then have "job_run [JobEvent_Type e] = Some StatusRunning" using job(2) run(2) by (simp add: job_log_ok_def)
      then show False by (auto split: if_splits)
    qed
    ultimately have "2 \<le> length (events_at h (Agent_Scope agent, Job_ID job))"
      by (cases "events_at h (Agent_Scope agent, Job_ID job)") (auto simp: Suc_le_eq)
    then have "1 \<le> Job_LastSequence job" using job(2) by (simp add: job_log_ok_def)
    then have "claimed_ok agent h h' executed (job\<lparr>Job_Resumed := True\<rparr>)"
      using resumed(2,3) run job(1) by (simp add: claimed_ok_def finished_def terminal_def job_at_key_def)
    then show ?thesis using op resumed(1) ok' once' by auto
  next
    case (claimed job job' key)
    note job = job_invD [OF inv claimed(4)]
    have run: "Job_AgentID job = Agent_ID agent" "Job_Status job = StatusQueued"
      using claimed(5) by (simp_all add: is_candidate_iff)
    have one: "length (events_at h key) = 1"
      using job(2) run(2) job_run_queued [of "map JobEvent_Type (events_at h key)"] by (simp add: job_log_ok_def)
    have "Job_ID job \<notin> Job_ID ` set executed"
    proof
      assume "Job_ID job \<in> Job_ID ` set executed"
      then have "2 \<le> length (events_at h key)" using once claimed(3) by (auto simp: claimed_once_def)
      with one show False by simp
    qed
    then have "claimed_ok agent h h' executed job'"
      using claimed(2-4,6) run job(1) one by (simp add: claimed_ok_def finished_def terminal_def job_at_key_def)
    then show ?thesis using op claimed(1) ok' once' by auto
  qed
qed

lemma triple_claim:
  assumes ok: "protocol_ok service agent identity env fine"
  shows "triple fine (protocol_inv agent) 1 (\<lambda>w. JobHost_file w = None \<and> JobHost_hub w = before) (hub_claim env)
    (\<lambda>claimed w. JobHost_file w = None
       \<and> (claimed = None \<longrightarrow> JobHost_hub w = before \<and> (\<exists>now. nothing_claimable service now agent before))
       \<and> (\<forall>job. claimed = Some job \<longrightarrow> claimed_ok agent before (JobHost_hub w) (JobHost_executed w) job))"
  unfolding hub_claim_def
proof (rule triple_effect [OF protocol_ok_fine [OF ok]])
  fix w n assume w: "protocol_inv agent w" "JobHost_file w = None \<and> JobHost_hub w = before"
  have hub: "hub_ok before" "claimed_once agent before (JobHost_executed w)" and valid: "valid_agent agent"
    using w ok by (auto simp: protocol_inv_def protocol_ok_def)
  have env: "hub_env service agent env" and "finite (dom (JobStore_jobs before))"
    using ok hub(1) by (simp_all add: protocol_ok_def hub_ok_def)
  then obtain it1 it2 now where it: "ranges it1 (JobStore_jobs before)" "ranges it2 (JobStore_jobs before)"
    and call: "JobEnv_claim env n before = Jobs_ClaimNext service it1 it2 now agent before"
    unfolding hub_env_def by blast
  obtain claimed h' where out: "Jobs_ClaimNext service it1 it2 now agent before = (Inr claimed, h')" "hub_ok h'"
    "claimed_once agent h' (JobHost_executed w)"
    "claimed = None \<longrightarrow> h' = before \<and> nothing_claimable service now agent before"
    "\<forall>job. claimed = Some job \<longrightarrow> claimed_ok agent before h' (JobHost_executed w) job"
    using claim_result [OF hub(1) valid hub(2) it] by blast
  let ?w = "w\<lparr>JobHost_power := n, JobHost_hub := h'\<rparr>"
  have "(case JobEnv_claim env n (JobHost_hub (w\<lparr>JobHost_power := n\<rparr>)) of
      (result, h) \<Rightarrow> (result, (w\<lparr>JobHost_power := n\<rparr>)\<lparr>JobHost_hub := h\<rparr>)) = (Inr claimed, ?w)"
    using w(2) by (simp add: call out(1))
  moreover have "protocol_inv agent ?w" using out(2,3) w(2) by (simp add: protocol_inv_def)
  ultimately show "\<exists>a w'. (case JobEnv_claim env n (JobHost_hub (w\<lparr>JobHost_power := n\<rparr>)) of
      (result, h) \<Rightarrow> (result, (w\<lparr>JobHost_power := n\<rparr>)\<lparr>JobHost_hub := h\<rparr>)) = (Inr a, w')
    \<and> protocol_inv agent w'
    \<and> (JobHost_file w' = None
       \<and> (a = None \<longrightarrow> JobHost_hub w' = before \<and> (\<exists>now. nothing_claimable service now agent before))
       \<and> (\<forall>job. a = Some job \<longrightarrow> claimed_ok agent before (JobHost_hub w') (JobHost_executed w') job))
    \<and> JobHost_power w' = n"
    using out(4,5) w(2) by (intro exI [of _ claimed] exI [of _ ?w]) auto
qed simp

lemma triple_execute:
  "triple fine (protocol_inv agent) 1
    (\<lambda>w. JobHost_file w = Some (Inr state) \<and> Job_ID job \<notin> Job_ID ` set (JobHost_executed w)
       \<and> JobStore_jobs (JobHost_hub w) (Agent_Scope agent, Job_ID job) \<noteq> None
       \<and> 2 \<le> length (events_at (JobHost_hub w) (Agent_Scope agent, Job_ID job)))
    (execute_job env job)
    (\<lambda>result w. (\<exists>n. result = JobEnv_run env n job) \<and> JobHost_file w = Some (Inr state))"
proof (rule tripleI)
  fix w r w'
  assume w: "protocol_inv agent w" "JobHost_file w = Some (Inr state) \<and> Job_ID job \<notin> Job_ID ` set (JobHost_executed w)
       \<and> JobStore_jobs (JobHost_hub w) (Agent_Scope agent, Job_ID job) \<noteq> None
       \<and> 2 \<le> length (events_at (JobHost_hub w) (Agent_Scope agent, Job_ID job))"
    and op: "execute_job env job w = (r, w')"
  show "protocol_inv agent w'
     \<and> (\<forall>a. r = Ret a \<longrightarrow> (\<exists>n. a = JobEnv_run env n job) \<and> JobHost_file w' = Some (Inr state))
     \<and> (fine \<longrightarrow> 1 \<le> JobHost_power w \<longrightarrow> (\<exists>a. r = Ret a) \<and> JobHost_power w \<le> JobHost_power w' + 1)"
  proof (cases "JobHost_power w")
    case 0
    then show ?thesis using op w by (auto simp: execute_job_def)
  next
    case (Suc n)
    then have r: "r = Ret (JobEnv_run env n job)"
      and w': "w' = w\<lparr>JobHost_power := n, JobHost_executed := JobHost_executed w @ [job]\<rparr>"
      using op by (simp_all add: execute_job_def)
    have "protocol_inv agent w'" using w unfolding w' by (auto simp: protocol_inv_def claimed_once_def)
    moreover have "JobHost_file w' = Some (Inr state)" "JobHost_power w = JobHost_power w' + 1"
      using w(2) Suc unfolding w' by simp_all
    ultimately show ?thesis unfolding r by auto
  qed
qed

lemma reportable_messages:
  "reportable ''claimed job identity or state is invalid''" "reportable ''job signature verification failed''"
  "reportable ''pinned enrollment authority certificate is invalid''"
  "reportable ''pinned enrollment authority key is not Ed25519''"
  "reportable ''job signer does not match pinned enrollment authority''" "reportable ''service restart target is invalid''"
  "reportable ''host reboot target must be empty''" "reportable ''job action is not allowed''"
  "reportable ''running job has no durable execution state; outcome unknown''"
  unfolding reportable_def by (subst trim_space_plain; simp add: plain_char_def)+

lemma short_message: "length message \<le> maxEventMessage \<Longrightarrow> truncateUTF8 message maxEventMessage = message"
  by (simp add: truncateUTF8_def)

lemma deliverable_no_state: "deliverable (failed_event k ''running job has no durable execution state; outcome unknown'')"
  using reportable_messages(9) by (simp add: deliverable_def failed_event_def is_ascii_def)

lemma validateClaimedJob_message:
  assumes "validateClaimedJob ed fmt x job identity = Some message"
  shows "deliverable (failed_event k (truncateUTF8 message maxEventMessage))"
proof -
  have "message \<in> {''claimed job identity or state is invalid'', ''job signature verification failed'',
     ''pinned enrollment authority certificate is invalid'', ''pinned enrollment authority key is not Ed25519'',
     ''job signer does not match pinned enrollment authority'', ''service restart target is invalid'',
     ''host reboot target must be empty'', ''job action is not allowed''}"
    using assms unfolding validateClaimedJob_def enrollmentCAPublicKey_def
    by (auto split: if_splits sum.splits option.splits public_key.splits prod.splits)
  then have "reportable message \<and> length message \<le> maxEventMessage \<and> is_ascii message"
    using reportable_messages by (auto simp: maxEventMessage_def is_ascii_def)
  then show ?thesis by (simp add: short_message deliverable_def failed_event_def)
qed

lemma agrees_failed:
  assumes "claimed_ok agent before h executed job"
  shows "agrees agent h (report_state job [failed_event (Job_LastSequence job + 1) message])"
proof -
  obtain j where j: "JobStore_jobs h (Agent_Scope agent, Job_ID job) = Some j" "Job_AgentID j = Agent_ID agent"
    "Job_Status j = StatusRunning" "1 \<le> Job_LastSequence j" "Job_LastSequence j = Job_LastSequence job"
    using assms(1) by (auto simp: claimed_ok_def)
  have "awaits j (events_at h (Agent_Scope agent, Job_ID job)) [failed_event (Job_LastSequence job + 1) message]"
    unfolding awaits_def using j
    by (intro exI [of _ "Job_LastSequence job + 1"]) (simp add: failed_event_def)
  then show ?thesis using assms j(1,2) by (auto simp: agrees_completed claimed_ok_def)
qed

lemma plan_results:
  "plan 2 (result_events job (JobEnv_run env n job)) \<and> length (result_events job (JobEnv_run env n job)) = 2"
  by (cases "JobEnv_run env n job"; cases "snd (JobEnv_run env n job)")
    (simp_all add: result_events_def Let_def failed_event_def)

lemma triple_process:
  assumes ok: "protocol_ok service agent identity env fine"
  shows "triple fine (protocol_inv agent) 7
    (\<lambda>w. JobHost_file w = None \<and> claimed_ok agent before (JobHost_hub w) (JobHost_executed w) job)
    (process_claimed ed fmt x env identity job)
    (\<lambda>_ w. JobHost_file w = None \<and> finished agent (Job_ID job) (JobHost_hub w))"
    (is "triple _ _ _ ?P _ ?Q")
proof (cases "hex32_pattern (Job_ID job)")
  case False
  then show ?thesis by (simp add: triple_def claimed_ok_def)
next
  case True
  have fail: "triple fine (protocol_inv agent) 7 ?P
      (reportEvents env job [failed_event (Job_LastSequence job + 1) message]) ?Q" 
    if "\<And>k. deliverable (failed_event k message)" for message
    by (rule triple_cut [OF triple_reportEvents [OF ok]]) (use agrees_failed that in auto)
  show ?thesis
  proof (cases "validateClaimedJob ed fmt x job identity")
    case (Some message)
    then show ?thesis
      using fail [OF validateClaimedJob_message [OF Some]] True by (simp add: process_claimed_def [abs_def])
  next
    case None
    show ?thesis
    proof (cases "Job_Resumed job")
      case resumed: True
      then show ?thesis using fail [OF deliverable_no_state] True None by (simp add: process_claimed_def [abs_def])
    next
      case False
      define state where "state = \<lparr>State_Job = job, State_Phase = jobPhaseExecuting, State_Events = []\<rparr>"
      define A where "A h \<longleftrightarrow> agrees agent h state" for h
      define R where "R h executed \<longleftrightarrow> Job_ID job \<notin> Job_ID ` set executed
         \<and> JobStore_jobs h (Agent_Scope agent, Job_ID job) \<noteq> None \<and> 2 \<le> length (events_at h (Agent_Scope agent, Job_ID job))"
        for h and executed :: "Job list"
      have start: "A (JobHost_hub w) \<and> R (JobHost_hub w) (JobHost_executed w)" if P: "?P w" for w
      proof -
        obtain j where j: "JobStore_jobs (JobHost_hub w) (Agent_Scope agent, Job_ID job) = Some j"
          "Job_AgentID j = Agent_ID agent" "Job_Status j = StatusRunning" "1 \<le> Job_LastSequence j"
          "Job_LastSequence j = Job_LastSequence job" using P by (auto simp: claimed_ok_def)
        then have "A (JobHost_hub w)" using P True
          unfolding A_def agrees_def by (intro conjI exI [of _ j]) (auto simp: state_def claimed_ok_def valid_state_def)
        then show ?thesis using P False j(1) by (simp add: R_def claimed_ok_def)
      qed
      have save: "triple fine (protocol_inv agent) 1 ?P (State_Save env state)
          (\<lambda>_ w. JobHost_file w = Some (Inr (journal_json state)) \<and> A (JobHost_hub w) \<and> R (JobHost_hub w) (JobHost_executed w))"
        by (rule triple_cut [OF triple_save [where A = A and agent = agent and R = R, OF protocol_ok_fine [OF ok]]]) (use start in \<open>auto simp: A_def\<close>)
      have run: "triple fine (protocol_inv agent) 1
          (\<lambda>w. JobHost_file w = Some (Inr (journal_json state)) \<and> A (JobHost_hub w) \<and> R (JobHost_hub w) (JobHost_executed w))
          (execute_job env job) (\<lambda>result w. (\<exists>n. result = JobEnv_run env n job) \<and> JobHost_file w = Some (Inr (journal_json state)))"
        by (rule triple_cut [OF triple_execute]) (auto simp: R_def)
      have action: "Job_Action job \<in> {ActionServiceRestart, ActionHostReboot}"
        using None unfolding validateClaimedJob_None by blast
      have one: "Job_LastSequence job = 1" if "?P w" for w using that False by (simp add: claimed_ok_def)
      have finish: "triple fine (protocol_inv agent) 5
          (\<lambda>w. (\<exists>n. result = JobEnv_run env n job) \<and> JobHost_file w = Some (Inr (journal_json state)))
          (reportEvents env job (result_events job result)) ?Q" if seq: "Job_LastSequence job = 1" for result
      proof (cases "\<exists>n. result = JobEnv_run env n job")
        case True
        then obtain n where n: "result = JobEnv_run env n job" by blast
        note plan = plan_results [of job env n, folded n]
        have taken: "fine \<longrightarrow> (\<forall>event \<in> set (result_events job result). deliverable event)"
          using ok action unfolding n protocol_ok_def reportable_results_def by blast
        have agree: "agrees agent (JobHost_hub w) (report_state job (result_events job result))"
          if w: "protocol_inv agent w" "JobHost_file w = Some (Inr (journal_json state))" for w
        proof -
          have "agrees agent (JobHost_hub w) (journal_json state)" using w by (auto simp: protocol_inv_def)
          then have "agrees agent (JobHost_hub w) state" by simp
          then obtain j where ids: "Job_AgentID job = Agent_ID agent" "hex32_pattern (Job_ID job)"
            and j: "JobStore_jobs (JobHost_hub w) (Agent_Scope agent, Job_ID job) = Some j" "Job_AgentID j = Agent_ID agent"
              "Job_Status j = StatusRunning" "Job_LastSequence j = 1"
            using seq by (auto simp: agrees_def state_def)
          have "awaits j (events_at (JobHost_hub w) (Agent_Scope agent, Job_ID job)) (result_events job result)"
            unfolding awaits_def using plan j(3,4) by (intro exI [of _ 2]) simp
          then show ?thesis using ids j(1,2) plan by (simp add: agrees_completed)
        qed
        have nonempty: "result_events job result \<noteq> []" using plan by auto
        show ?thesis
          by (rule triple_cut [OF triple_reportEvents [OF ok _ taken]]) (use agree nonempty plan in auto)
      qed (simp add: triple_def)
      have "triple fine (protocol_inv agent) (1 + (1 + 5)) ?P
          (\<lambda>w. and_then (State_Save env state w) (\<lambda>_ w. and_then (execute_job env job w)
             (\<lambda>result w. reportEvents env job (result_events job result) w))) ?Q" if "Job_LastSequence job = 1"
        by (rule triple_and_then [OF save], rule triple_and_then [OF run]) (rule finish [OF that])
      moreover have "triple fine (protocol_inv agent) 7 ?P op ?Q" if "Job_LastSequence job \<noteq> 1" for op :: "JobStore JobHost \<Rightarrow> unit outcome \<times> JobStore JobHost"
        using one that unfolding triple_def by blast
      ultimately show ?thesis
        using True None False by (cases "Job_LastSequence job = 1") (simp_all add: process_claimed_def [abs_def] state_def)
    qed
  qed
qed

text \<open>A whole round, started on a journal \<open>found\<close> and a hub \<open>before\<close>.\<close>

definition round_result ::
  "JobsService \<Rightarrow> Agent \<Rightarrow> jobExecutionState res option \<Rightarrow> JobStore \<Rightarrow> JobStore JobHost \<Rightarrow> bool" where
  "round_result service agent found before w \<longleftrightarrow> JobHost_file w = None
     \<and> (\<forall>state. found = Some (Inr state) \<longrightarrow> finished agent (Job_ID (State_Job state)) (JobHost_hub w))
     \<and> (found = None \<longrightarrow> (\<exists>now. nothing_claimable service now agent before)
          \<or> (\<exists>jid. \<not> finished agent jid before \<and> finished agent jid (JobHost_hub w)))"

lemma triple_round:
  assumes ok: "protocol_ok service agent identity env fine"
    and taken: "\<forall>state. fine \<longrightarrow> found = Some (Inr state) \<longrightarrow> (\<forall>event \<in> set (State_Events state). deliverable event)"
  shows "triple fine (protocol_inv agent) 14 (\<lambda>w. JobHost_file w = found \<and> JobHost_hub w = before)
    (ProcessNext ed fmt x env identity) (\<lambda>_. round_result service agent found before)"
proof -
  have recover: "triple fine (protocol_inv agent) 6 (\<lambda>w. JobHost_file w = found \<and> JobHost_hub w = before)
      (recoverState env identity)
      (\<lambda>recovered w. JobHost_file w = None \<and> (recovered \<longleftrightarrow> found \<noteq> None)
         \<and> (\<forall>state. found = Some (Inr state) \<longrightarrow> finished agent (Job_ID (State_Job state)) (JobHost_hub w))
         \<and> (found = None \<longrightarrow> JobHost_hub w = before))"
    (is "triple _ _ _ ?P _ ?R")
  proof (rule tripleI)
    fix w r w' assume w: "protocol_inv agent w" "?P w" and op: "recoverState env identity w = (r, w')"
    note out = tripleD [OF triple_recover [OF ok taken] w(1) conjunct1 [OF w(2)] op]
    have "JobHost_hub w' = before" if "found = None" "r = Ret a" for a
      using op that w(2) unfolding recoverState_def
    proof (cases rule: and_then_outcome)
      case (both loaded w1)
      have "w1 = w\<lparr>JobHost_power := JobHost_power w1\<rparr> \<and> loaded = None"
        using both(1) w(2) that(1) unfolding State_Load_def by (cases rule: effect_outcome) auto
      then show ?thesis using both(2) w(2) by (metis (no_types, lifting) JobHost.select_convs(1) JobHost.surjective
            JobHost.update_convs(4) Pair_inject option.simps(4))
    qed simp
    with out show "protocol_inv agent w' \<and> (\<forall>a. r = Ret a \<longrightarrow> ?R a w')
       \<and> (fine \<longrightarrow> 6 \<le> JobHost_power w \<longrightarrow> (\<exists>a. r = Ret a) \<and> JobHost_power w \<le> JobHost_power w' + 6)"
      by blast
  qed
  have claim: "triple fine (protocol_inv agent) (1 + 7) (\<lambda>w. JobHost_file w = None \<and> JobHost_hub w = before)
      (\<lambda>w. and_then (hub_claim env w) (\<lambda>claimed w.
         case claimed of None \<Rightarrow> (Ret (), w) | Some job \<Rightarrow> process_claimed ed fmt x env identity job w))
      (\<lambda>_ w. JobHost_file w = None \<and> ((\<exists>now. nothing_claimable service now agent before)
          \<or> (\<exists>jid. \<not> finished agent jid before \<and> finished agent jid (JobHost_hub w))))"
  proof (rule triple_and_then [OF triple_claim [OF ok]])
    fix claimed
    show "triple fine (protocol_inv agent) 7
      (\<lambda>w. JobHost_file w = None
         \<and> (claimed = None \<longrightarrow> JobHost_hub w = before \<and> (\<exists>now. nothing_claimable service now agent before))
         \<and> (\<forall>job. claimed = Some job \<longrightarrow> claimed_ok agent before (JobHost_hub w) (JobHost_executed w) job))
      (\<lambda>w. case claimed of None \<Rightarrow> (Ret (), w) | Some job \<Rightarrow> process_claimed ed fmt x env identity job w)
      (\<lambda>_ w. JobHost_file w = None \<and> ((\<exists>now. nothing_claimable service now agent before)
          \<or> (\<exists>jid. \<not> finished agent jid before \<and> finished agent jid (JobHost_hub w))))"
    proof (cases claimed)
      case None
      then show ?thesis by (simp add: triple_def)
    next
      case (Some job)
      show ?thesis
      proof (cases "finished agent (Job_ID job) before")
        case True
        then show ?thesis using Some by (simp add: triple_def claimed_ok_def)
      next
        case False
        show ?thesis unfolding Some option.case
          by (rule triple_cut [OF triple_process [OF ok]]) (use False in auto)
      qed
    qed
  qed
  have "triple fine (protocol_inv agent) (6 + (1 + 7)) (\<lambda>w. JobHost_file w = found \<and> JobHost_hub w = before)
    (ProcessNext ed fmt x env identity) (\<lambda>_. round_result service agent found before)"
    unfolding ProcessNext_def [abs_def]
  proof (rule triple_and_then [OF recover])
    fix recovered
    show "triple fine (protocol_inv agent) (1 + 7)
      (\<lambda>w. JobHost_file w = None \<and> (recovered \<longleftrightarrow> found \<noteq> None)
         \<and> (\<forall>state. found = Some (Inr state) \<longrightarrow> finished agent (Job_ID (State_Job state)) (JobHost_hub w))
         \<and> (found = None \<longrightarrow> JobHost_hub w = before))
      (\<lambda>w. if recovered then (Ret (), w)
       else and_then (hub_claim env w) (\<lambda>claimed w.
         case claimed of None \<Rightarrow> (Ret (), w) | Some job \<Rightarrow> process_claimed ed fmt x env identity job w))
      (\<lambda>_. round_result service agent found before)"
    proof (cases recovered)
      case True
      show ?thesis unfolding if_P [OF True]
        by (rule triple_cut [OF triple_return [of _ "\<lambda>w. round_result service agent found before w"]])
          (use True in \<open>auto simp: round_result_def\<close>)
    next
      case False
      show ?thesis
      proof (cases "found = None")
        case True
        show ?thesis unfolding if_not_P [OF False]
          by (rule triple_cut [OF claim]) (use False True in \<open>auto simp: round_result_def\<close>)
      qed (use False in \<open>simp add: triple_def\<close>)
    qed
  qed
  then show ?thesis by simp
qed

section \<open>Properties\<close>

lemma protocol_reach_inv:
  assumes "protocol_reach ed fmt x service agent identity w"
    and valid: "valid_agent agent" "Identity_AgentID identity = Agent_ID agent"
  shows "protocol_inv agent w"
  using assms(1)
proof (induction rule: protocol_reach.induct)
  case init
  show ?case
    using job_inv_init by (simp add: protocol_inv_def hub_ok_def claimed_once_def) (simp add: NewJobStore_def)
next
  case (step w w')
  from step.hyps(2) show ?case
  proof (cases rule: protocol_step.cases)
    case (round env energy r)
    have ok: "protocol_ok service agent identity env False" using round(1) valid by (simp add: protocol_ok_def)
    have inv: "protocol_inv agent (w\<lparr>JobHost_power := energy\<rparr>)" using step.IH by simp
    show ?thesis
      by (rule tripleD(1) [OF triple_round [where found = "JobHost_file w" and before = "JobHost_hub w", OF ok] inv _ round(2)]) simp_all
  next
    case (hub h)
    then show ?thesis using protocol_inv_foreign step.IH by blast
  qed
qed

text \<open>
  C4. A job is executed at most once: along every run of an agent with the hub, with crashes
  and failing effects at any place, answers of the hub that get lost, any output of the jobs
  (also output whose report the hub refuses), and everything the hub does for others in between,
  no job is given to the executor twice, and each one that was is a job the hub has recorded as
  claimed by the agent.
\<close>

theorem job_at_most_once:
  assumes "protocol_reach ed fmt x service agent identity w"
    and "valid_agent agent" and "Identity_AgentID identity = Agent_ID agent"
  shows "distinct (map Job_ID (JobHost_executed w))
    \<and> (\<forall>job \<in> set (JobHost_executed w). \<exists>stored. JobStore_jobs (JobHost_hub w) (Agent_Scope agent, Job_ID job) = Some stored
         \<and> Job_Status stored \<noteq> StatusQueued)"
proof -
  note inv = protocol_reach_inv [OF assms]
  show ?thesis
  proof (intro conjI ballI)
    show "distinct (map Job_ID (JobHost_executed w))" using inv by (simp add: protocol_inv_def claimed_once_def)
    fix job assume "job \<in> set (JobHost_executed w)"
    then obtain stored where stored: "JobStore_jobs (JobHost_hub w) (Agent_Scope agent, Job_ID job) = Some stored"
      "2 \<le> length (events_at (JobHost_hub w) (Agent_Scope agent, Job_ID job))"
      using inv by (auto simp: protocol_inv_def claimed_once_def)
    have "job_inv (JobHost_hub w)" using inv by (simp add: protocol_inv_def hub_ok_def)
    from job_invD(2) [OF this stored(1)] stored(2) have "Job_Status stored \<noteq> StatusQueued"
      using job_run_queued [of "map JobEvent_Type (events_at (JobHost_hub w) (Agent_Scope agent, Job_ID job))"]
      by (auto simp: job_log_ok_def)
    with stored(1) show "\<exists>stored. JobStore_jobs (JobHost_hub w) (Agent_Scope agent, Job_ID job) = Some stored
         \<and> Job_Status stored \<noteq> StatusQueued" by blast
  qed
qed


section \<open>A report the hub refuses\<close>

text \<open>
  The other side of the crash recovery: an executor never gives up a journal, so an event the
  hub refuses is reported again for ever.
\<close>

lemma refused_round:
  assumes env: "hub_env service agent env" and refused: "\<not> deliverable event"
    and w: "JobHost_file w = Some (Inr (report_state job (event # events)))"
    and op: "ProcessNext ed fmt x env identity w = (r, w')"
  shows "(\<forall>a. r \<noteq> Ret a) \<and> JobHost_file w' = JobHost_file w \<and> JobHost_hub w' = JobHost_hub w
    \<and> JobHost_executed w' = JobHost_executed w"
proof -
  define stuck :: "JobStore JobHost \<Rightarrow> JobStore JobHost \<Rightarrow> bool" where
    "stuck w0 w1 \<longleftrightarrow> JobHost_file w1 = JobHost_file w0 \<and> JobHost_hub w1 = JobHost_hub w0
      \<and> JobHost_executed w1 = JobHost_executed w0" for w0 w1
  have call: "\<exists>e. JobEnv_report env n jid (event_json event) h = (Inl e, h)" for n jid h
  proof -
    obtain now where "JobEnv_report env n jid (event_json event) h =
        (case Jobs_Report now agent jid (event_json event) h of (Inl e, h') \<Rightarrow> (Inl e, h') | (Inr _, h') \<Rightarrow> (Inr (), h'))"
      using env unfolding hub_env_def by blast
    moreover have "\<exists>e. Jobs_Report now agent jid (event_json event) h = (Inl e, h)"
      using refused by (intro report_refused) (simp add: deliverable_def)
    ultimately show ?thesis by auto
  qed
  have report: "(\<forall>a. q \<noteq> Ret a) \<and> stuck w0 w1" if "hub_report env jid event w0 = (q, w1)" for jid w0 q w1
    using that unfolding hub_report_def
  proof (cases rule: effect_outcome)
    case (failed e n res)
    with call [of n jid "JobHost_hub w0"] show ?thesis by (auto simp: stuck_def)
  next
    case (applied a n)
    with call [of n jid "JobHost_hub w0"] show ?thesis by auto
  qed (auto simp: stuck_def)
  have flush: "(\<forall>a. q \<noteq> Ret a) \<and> stuck w0 w1"
    if "flushState env (report_state job (event # events)) w0 = (q, w1)" for w0 q w1
  proof -
    obtain q1 w2 where "hub_report env (Job_ID job) event w0 = (q1, w2)" by fastforce
    with report [OF this] that show ?thesis by (cases q1) (auto simp: flushState_def and_then_def)
  qed
  have recover: "(\<forall>a. q \<noteq> Ret a) \<and> stuck w w1" if "recoverState env identity w = (q, w1)" for q w1
    using that unfolding recoverState_def
  proof (cases rule: and_then_outcome)
    case (first q0)
    have "JobHost_hub w1 = JobHost_hub w"
      using first(1) unfolding State_Load_def by (cases rule: effect_outcome) auto
    then show ?thesis using State_Load_outcome(1,2) [OF first(1)] first(2,4) by (auto simp: stuck_def)
  next
    case (both loaded w2)
    have same: "stuck w w2" "loaded = Some (report_state job (event # events))"
      using both(1) w unfolding State_Load_def by (cases rule: effect_outcome, auto simp: stuck_def split: if_splits)+
    show ?thesis
    proof (cases "Job_AgentID job \<noteq> Identity_AgentID identity \<or> \<not> hex32_pattern (Job_ID job)")
      case True
      then show ?thesis using both(2) same by auto
    next
      case False
      then have "and_then (flushState env (report_state job (event # events)) w2) (\<lambda>_ w. (Ret True, w)) = (q, w1)"
        using both(2) same by simp
      then show ?thesis
      proof (cases rule: and_then_outcome)
        case (first q0)
        then show ?thesis using flush [OF first(1)] same(1) by (auto simp: stuck_def)
      next
        case (both a w3)
        then show ?thesis using flush [OF both(1)] by auto
      qed
    qed
  qed
  from op show ?thesis unfolding ProcessNext_def
  proof (cases rule: and_then_outcome)
    case (first q)
    then show ?thesis using recover [OF first(1)] by (auto simp: stuck_def)
  next
    case (both a w1)
    then show ?thesis using recover [OF both(1)] by auto
  qed
qed

text \<open>
  C7. An agent whose journal starts with an event the hub refuses is stuck for ever: whatever
  rounds it runs from then on, with any restarts, faults and results, and whatever the hub does
  for others, the journal stays, no round ends well, no further job is executed, and the job's
  record and its events at the hub do not change. Such an event is a message that JSON makes empty
  after trimming or longer than 32 KiB; \<open>truncateUTF8\<close> makes an empty one of any output over the
  limit that does not start with a UTF-8 rune.
\<close>

theorem refused_report_blocks:
  assumes reach: "protocol_reach ed fmt x service agent identity w"
    and valid: "valid_agent agent" "Identity_AgentID identity = Agent_ID agent"
    and refused: "\<not> deliverable event"
    and w: "JobHost_file w = Some (Inr (report_state job (event # events)))"
    and run: "(protocol_step ed fmt x service agent identity)\<^sup>*\<^sup>* w w'"
  shows "JobHost_file w' = JobHost_file w \<and> JobHost_executed w' = JobHost_executed w
    \<and> (let key = (Agent_Scope agent, Job_ID job) in
         JobStore_jobs (JobHost_hub w') key = JobStore_jobs (JobHost_hub w) key
         \<and> events_at (JobHost_hub w') key = events_at (JobHost_hub w) key)
    \<and> (\<forall>env energy. hub_env service agent env \<longrightarrow>
         fst (ProcessNext ed fmt x env identity (w'\<lparr>JobHost_power := energy\<rparr>)) \<noteq> Ret ())"
proof -
  let ?key = "(Agent_Scope agent, Job_ID job)"
  have "protocol_reach ed fmt x service agent identity w' \<and> JobHost_file w' = JobHost_file w
      \<and> JobHost_executed w' = JobHost_executed w
      \<and> JobStore_jobs (JobHost_hub w') ?key = JobStore_jobs (JobHost_hub w) ?key
      \<and> events_at (JobHost_hub w') ?key = events_at (JobHost_hub w) ?key"
    using run
  proof (induction rule: rtranclp_induct)
    case (step w1 w2)
    then have kept: "JobHost_file w1 = Some (Inr (report_state job (event # events)))" using w by simp
    have inv: "protocol_inv agent w1" using step.IH protocol_reach_inv [OF _ valid] by blast
    from step.IH step.hyps(2) have reach2: "protocol_reach ed fmt x service agent identity w2"
      using protocol_reach.step by blast
    from step.hyps(2) show ?case
    proof (cases rule: protocol_step.cases)
      case (round env energy r)
      then show ?thesis using refused_round [OF round(1) refused _ round(2)] kept step.IH reach2 by simp
    next
      case (hub h)
      have "job_inv (JobHost_hub w1)" using inv by (simp add: protocol_inv_def hub_ok_def)
      moreover obtain j where "JobStore_jobs (JobHost_hub w1) ?key = Some j" "Job_AgentID j = Agent_ID agent"
        using inv kept by (auto simp: protocol_inv_def agrees_completed)
      ultimately show ?thesis using foreign_keeps [OF hub(2)] step.IH reach2 hub(1) by simp
    qed
  qed (use reach in simp)
  moreover have "fst (ProcessNext ed fmt x env identity (w'\<lparr>JobHost_power := energy\<rparr>)) \<noteq> Ret ()"
    if "hub_env service agent env" "JobHost_file w' = JobHost_file w" for env energy
  proof -
    obtain r v where out: "ProcessNext ed fmt x env identity (w'\<lparr>JobHost_power := energy\<rparr>) = (r, v)" by fastforce
    from refused_round [OF that(1) refused _ out] that(2) w show ?thesis unfolding out by simp
  qed
  ultimately show ?thesis by (simp add: Let_def)
qed

section \<open>Witnesses\<close>

definition ex_pinned :: PinnedX509 where
  "ex_pinned = \<lparr>Pinned_pem_decode = (\<lambda>s. Some (''CERTIFICATE'', s)), Pinned_public_key = (\<lambda>b. Some (Ed25519Key b))\<rparr>"

definition ex_identity :: Identity where
  "ex_identity = \<lparr>Identity_AgentID = ''web-1'', Identity_CertificatePEM = [], Identity_PrivateKeyPEM = [],
     Identity_CACertificatePEM = replicate 32 (CHR ''p''), Identity_ExpiresAt = 0\<rparr>"

lemma ex_id_hex: "hex32_pattern ex_id"
  using rand_hex_hex32 [OF ex_rand] .

lemma ex_running_simps [simp]:
  "Job_ID ex_running = ex_id" "\<not> Job_Resumed ex_running" "Job_Action ex_running = ActionServiceRestart"
  by (simp_all add: ex_running_def ex_job_def sign_job_def unsigned_job_def ex_request_def)

lemma ex_target_valid: "valid_service_target ''nginx.service''"
  by (simp add: valid_service_target_def serviceTargetPattern_def target_char_def has_prefix_def equal_fold_def
      lower_char_def Let_def)

lemma ex_validated: "validateClaimedJob ex_ed itoa ex_pinned ex_running ex_identity = None"
proof -
  have signed: "Verify ex_ed itoa ex_job" unfolding ex_job_def by (rule Verify_signed [OF ex_keypair(1)]) simp
  have same: "signingPayload itoa ex_running = signingPayload itoa ex_job"
    "signingPayloadV1 itoa ex_running = signingPayloadV1 itoa ex_job"
    "Job_SigningPublicKey ex_running = Job_SigningPublicKey ex_job" "Job_Signature ex_running = Job_Signature ex_job"
    "Job_OrganizationID ex_running = Job_OrganizationID ex_job" "Job_SiteID ex_running = Job_SiteID ex_job"
    by (simp_all add: ex_running_def signingPayload_def signingPayloadV1_def)
  have "Verify ex_ed itoa ex_running" using signed unfolding Verify_def same .
  moreover have "b64_decode (Job_SigningPublicKey ex_running) = Some (replicate 32 (CHR ''p''))"
    by (simp add: ex_running_def ex_job_def b64_roundtrip) (simp add: ex_service_def)
  moreover have "enrollmentCAPublicKey ex_pinned (Identity_CACertificatePEM ex_identity) = Inr (replicate 32 (CHR ''p''))"
    by (simp add: enrollmentCAPublicKey_def ex_pinned_def ex_identity_def)
  moreover have "Job_Target ex_running = ''nginx.service''" "Job_AgentID ex_running = Identity_AgentID ex_identity"
    "Job_Status ex_running = StatusRunning" "Job_LastSequence ex_running = 1"
    by (simp_all add: ex_running_def ex_job_def sign_job_def unsigned_job_def ex_request_def ex_identity_def)
  ultimately show ?thesis
    using ex_id_hex hex32_nonempty ex_target_valid unfolding validateClaimedJob_None by simp
qed

lemma ex_round_reports:
  assumes "no_faults env" and "JobHost_file w = None" and power: "JobHost_power w = Suc (Suc (Suc (Suc n)))"
    and claim: "JobEnv_claim env (Suc (Suc n)) (JobHost_hub w) = (Inr (Some ex_running), h)"
  shows "\<exists>saved. ProcessNext ex_ed itoa ex_pinned env ex_identity w
    = reportEvents env ex_running (result_events ex_running (JobEnv_run env n ex_running))
        (w\<lparr>JobHost_hub := h, JobHost_file := saved, JobHost_power := n,
           JobHost_executed := JobHost_executed w @ [ex_running]\<rparr>)"
proof -
  have fine: "JobEnv_fault env k = Fine" for k using assms(1) by (simp add: no_faults_def)
  let ?state = "\<lparr>State_Job = ex_running, State_Phase = jobPhaseExecuting, State_Events = []\<rparr>"
  let ?w = "w\<lparr>JobHost_hub := h, JobHost_file := Some (Inr ?state), JobHost_power := n,
     JobHost_executed := JobHost_executed w @ [ex_running]\<rparr>"
  have valid: "valid_state ?state" using ex_id_hex hex32_nonempty by (simp add: valid_state_def)
  have recover: "recoverState env ex_identity w = (Ret False, w\<lparr>JobHost_power := Suc (Suc (Suc n))\<rparr>)"
    by (simp add: recoverState_def and_then_def State_Load_def effect_def power fine assms(2))
  have claimed: "hub_claim env (w\<lparr>JobHost_power := Suc (Suc (Suc n))\<rparr>)
      = (Ret (Some ex_running), w\<lparr>JobHost_power := Suc (Suc n), JobHost_hub := h\<rparr>)"
    by (simp add: hub_claim_def effect_def fine claim)
  have processed: "process_claimed ex_ed itoa ex_pinned env ex_identity ex_running (w\<lparr>JobHost_power := Suc (Suc n), JobHost_hub := h\<rparr>)
      = reportEvents env ex_running (result_events ex_running (JobEnv_run env n ex_running)) ?w"
    by (simp add: process_claimed_def ex_id_hex ex_validated and_then_def State_Save_def valid effect_def fine execute_job_def
        journal_json_def)
  have "ProcessNext ex_ed itoa ex_pinned env ex_identity w
      = reportEvents env ex_running (result_events ex_running (JobEnv_run env n ex_running)) ?w"
    by (simp add: ProcessNext_def recover and_then_def claimed processed)
  then show ?thesis by blast
qed

lemma ex_round:
  assumes "no_faults env" and "JobHost_file w = None" and "JobHost_power w = Suc (Suc (Suc (Suc n)))"
    and "JobEnv_claim env (Suc (Suc n)) (JobHost_hub w) = (Inr (Some ex_running), h)"
  shows "JobHost_executed (snd (ProcessNext ex_ed itoa ex_pinned env ex_identity w)) = JobHost_executed w @ [ex_running]"
proof -
  obtain saved where reports: "ProcessNext ex_ed itoa ex_pinned env ex_identity w
    = reportEvents env ex_running (result_events ex_running (JobEnv_run env n ex_running))
        (w\<lparr>JobHost_hub := h, JobHost_file := saved, JobHost_power := n, JobHost_executed := JobHost_executed w @ [ex_running]\<rparr>)"
    using ex_round_reports [OF assms] by blast
  show ?thesis unfolding reports by (simp add: reportEvents_outcome(1) [OF surjective_pairing])
qed

text \<open>The surroundings of a run: the hub of the example, which visits its one job.\<close>

definition ex_visits :: "JobStore \<Rightarrow> (jobKey \<times> Job) list" where
  "ex_visits h = (if h = ex_store then [(ex_key, ex_job)] else (SOME it. ranges it (JobStore_jobs h)))"

definition ex_job_env :: "JobStore JobEnv" where
  "ex_job_env = \<lparr>JobEnv_claim = (\<lambda>_ h. Jobs_ClaimNext ex_service (ex_visits h) (ex_visits h) 9000 ex_agent h),
     JobEnv_report = (\<lambda>_ jobID event h. case Jobs_Report 9500 ex_agent jobID event h of
         (Inl e, h') \<Rightarrow> (Inl e, h') | (Inr _, h') \<Rightarrow> (Inr (), h')),
     JobEnv_run = (\<lambda>_ _. (''ok'', None)), JobEnv_fault = (\<lambda>_. Fine)\<rparr>"

lemma ex_visits_ranges: "finite (dom (JobStore_jobs h)) \<Longrightarrow> ranges (ex_visits h) (JobStore_jobs h)"
  using someI_ex [OF ranges_exists] ex_ranges by (auto simp: ex_visits_def)

lemma ex_hub_env: "hub_env ex_service ex_agent ex_job_env"
  unfolding hub_env_def ex_job_env_def using ex_visits_ranges by auto

lemma ex_reportable: "reportable_results ex_job_env"
proof -
  have "reportable ''ok''" "reportable (ActionServiceRestart @ '' completed'')" "reportable (ActionHostReboot @ '' completed'')"
    unfolding reportable_def ActionServiceRestart_def ActionHostReboot_def
    by (subst trim_space_plain; simp add: plain_char_def)+
  moreover have "trim_space ''ok'' = ''ok''" by (rule trim_space_plain; simp add: plain_char_def)
  moreover have "truncateUTF8 ''ok'' maxEventMessage = ''ok''" by (simp add: truncateUTF8_def maxEventMessage_def)
  ultimately show ?thesis
    by (auto simp: reportable_results_def ex_job_env_def result_events_def deliverable_def is_ascii_def
        ActionServiceRestart_def ActionHostReboot_def)
qed

definition ex_host :: "JobStore JobHost" where
  "ex_host = \<lparr>JobHost_hub = ex_store, JobHost_file = None, JobHost_executed = [], JobHost_power = 0\<rparr>"

lemma ex_host_reach: "protocol_reach ex_ed itoa ex_pinned ex_service ex_agent ex_identity ex_host"
proof -
  let ?start = "\<lparr>JobHost_hub = NewJobStore, JobHost_file = None, JobHost_executed = [], JobHost_power = 0\<rparr>"
  have "foreign_step ex_ed itoa ex_service ex_agent NewJobStore ex_store"
    by (rule foreign_step.create [OF ex_create]) (simp add: NewJobStore_def)
  then have "protocol_step ex_ed itoa ex_pinned ex_service ex_agent ex_identity ?start (?start\<lparr>JobHost_hub := ex_store\<rparr>)"
    by (intro protocol_step.hub) simp
  from protocol_reach.step [OF protocol_reach.init this] show ?thesis by (simp add: ex_host_def)
qed

lemma ex_agent_identity: "Identity_AgentID ex_identity = Agent_ID ex_agent"
  by (simp add: ex_identity_def)

lemma ex_host_claim: "JobEnv_claim ex_job_env n (JobHost_hub (ex_host\<lparr>JobHost_power := 14\<rparr>))
    = (Inr (Some ex_running), put_job ex_key ex_running
          [approved_event ex_job, agent_event ex_agent ex_id 1 EventClaimed ''agent claimed job'' 9000] ex_store)"
  using ex_claim by (simp add: ex_job_env_def ex_host_def ex_visits_def)

lemma ex_no_faults: "no_faults ex_job_env" by (simp add: no_faults_def ex_job_env_def)

lemma ex_host_round:
  "JobHost_executed (snd (ProcessNext ex_ed itoa ex_pinned ex_job_env ex_identity (ex_host\<lparr>JobHost_power := 14\<rparr>))) = [ex_running]"
proof -
  have power: "JobHost_power (ex_host\<lparr>JobHost_power := 14\<rparr>) = Suc (Suc (Suc (Suc 10)))" by simp
  from ex_round [OF ex_no_faults _ power ex_host_claim] show ?thesis by (simp add: ex_host_def)
qed

theorem agent_execution_guard_witness:
  "Verify ex_ed itoa ex_running \<and> \<not> Job_Resumed ex_running \<and> Job_AgentID ex_running = Identity_AgentID ex_identity"
proof -
  obtain r w' where out: "ProcessNext ex_ed itoa ex_pinned ex_job_env ex_identity (ex_host\<lparr>JobHost_power := 14\<rparr>) = (r, w')"
    by fastforce
  have "JobHost_executed w' = JobHost_executed (ex_host\<lparr>JobHost_power := 14\<rparr>) @ [ex_running]"
    using ex_host_round unfolding out by (simp add: ex_host_def)
  then show ?thesis using agent_execution_guard [OF out] by auto
qed

theorem job_at_most_once_witness:
  "\<exists>w. protocol_reach ex_ed itoa ex_pinned ex_service ex_agent ex_identity w
     \<and> JobHost_executed w = [ex_running] \<and> distinct (map Job_ID (JobHost_executed w))"
proof -
  obtain r w' where out: "ProcessNext ex_ed itoa ex_pinned ex_job_env ex_identity (ex_host\<lparr>JobHost_power := 14\<rparr>) = (r, w')"
    by fastforce
  have reach: "protocol_reach ex_ed itoa ex_pinned ex_service ex_agent ex_identity w'"
    by (rule protocol_reach.step [OF ex_host_reach protocol_step.round [OF ex_hub_env out]])
  from job_at_most_once [OF reach ex_valid_agent ex_agent_identity] ex_host_round reach show ?thesis
    unfolding out by auto
qed



text \<open>An output that is not UTF-8 and longer than the limit.\<close>

definition ex_binary_env :: "JobStore JobEnv" where
  "ex_binary_env = ex_job_env\<lparr>JobEnv_run := (\<lambda>_ _. (binary_text (40 * 1024), None))\<rparr>"

definition ex_binary_report :: EventRequest where
  "ex_binary_report = \<lparr>EventRequest_Sequence = 2, EventRequest_Type = EventOutput, EventRequest_Message = []\<rparr>"

lemma ex_binary_refused: "\<not> deliverable ex_binary_report"
  by (simp add: ex_binary_report_def deliverable_def reportable_def)

lemma ex_binary_results:
  "\<exists>rest. result_events job (JobEnv_run ex_binary_env n job) = ex_binary_report # rest"
  by (simp add: result_events_def ex_binary_env_def ex_binary_report_def truncateUTF8_no_rune maxEventMessage_def)

lemma ex_binary_hub_env: "hub_env ex_service ex_agent ex_binary_env"
  using ex_hub_env by (simp add: hub_env_def ex_binary_env_def)

lemma reportEvents_refused:
  assumes "no_faults env" and power: "JobHost_power w = Suc (Suc n)" and "Job_ID job \<noteq> []"
    and refused: "\<exists>e. JobEnv_report env n (Job_ID job) (event_json event) (JobHost_hub w) = (Inl e, JobHost_hub w)"
  shows "JobHost_file (snd (reportEvents env job (event # events) w))
    = Some (Inr (journal_json (report_state job (event # events))))"
proof -
  have fine: "JobEnv_fault env k = Fine" for k using assms(1) by (simp add: no_faults_def)
  obtain e where e: "JobEnv_report env n (Job_ID job) (event_json event) (JobHost_hub w) = (Inl e, JobHost_hub w)"
    using refused by blast
  have "valid_state (report_state job (event # events))" using assms(3) by (simp add: valid_state_def)
  then show ?thesis
    by (simp add: reportEvents_def and_then_def State_Save_def effect_def power fine flushState_def hub_report_def e Let_def)
qed

lemma ex_binary_round:
  "\<exists>rest. JobHost_file (snd (ProcessNext ex_ed itoa ex_pinned ex_binary_env ex_identity (ex_host\<lparr>JobHost_power := 14\<rparr>)))
    = Some (Inr (report_state ex_running (ex_binary_report # rest)))"
proof -
  have fine: "no_faults ex_binary_env" by (simp add: no_faults_def ex_binary_env_def ex_job_env_def)
  have power: "JobHost_power (ex_host\<lparr>JobHost_power := 14\<rparr>) = Suc (Suc (Suc (Suc 10)))" by simp
  have claim: "JobEnv_claim ex_binary_env (Suc (Suc 10)) (JobHost_hub (ex_host\<lparr>JobHost_power := 14\<rparr>))
      = (Inr (Some ex_running), put_job ex_key ex_running
          [approved_event ex_job, agent_event ex_agent ex_id 1 EventClaimed ''agent claimed job'' 9000] ex_store)"
    using ex_host_claim [of "Suc (Suc 10)"] by (simp add: ex_binary_env_def)
  have empty: "JobHost_file (ex_host\<lparr>JobHost_power := 14\<rparr>) = None" by (simp add: ex_host_def)
  from ex_round_reports [OF fine empty power claim] obtain w where
    reports: "ProcessNext ex_ed itoa ex_pinned ex_binary_env ex_identity (ex_host\<lparr>JobHost_power := 14\<rparr>)
      = reportEvents ex_binary_env ex_running (result_events ex_running (JobEnv_run ex_binary_env 10 ex_running)) w"
    and left: "JobHost_power w = Suc (Suc 8)" by auto
  obtain rest where rest: "result_events ex_running (JobEnv_run ex_binary_env 10 ex_running) = ex_binary_report # rest"
    using ex_binary_results by blast
  obtain e where "Jobs_Report 9500 ex_agent (Job_ID ex_running) (event_json ex_binary_report) (JobHost_hub w) = (Inl e, JobHost_hub w)"
    using report_refused [of "event_json ex_binary_report" 9500 ex_agent "Job_ID ex_running" "JobHost_hub w"] ex_binary_refused
    unfolding deliverable_def by auto
  then have "\<exists>e. JobEnv_report ex_binary_env 8 (Job_ID ex_running) (event_json ex_binary_report) (JobHost_hub w) = (Inl e, JobHost_hub w)"
    by (simp add: ex_binary_env_def ex_job_env_def)
  moreover have "Job_ID ex_running \<noteq> []" using ex_id_hex hex32_nonempty by simp
  ultimately show ?thesis
    unfolding reports rest using reportEvents_refused [OF fine left, of ex_running ex_binary_report rest]
    by (auto simp: journal_json_def ex_binary_report_def event_json_def)
qed

theorem refused_report_blocks_witness:
  "\<exists>w rest. protocol_reach ex_ed itoa ex_pinned ex_service ex_agent ex_identity w
     \<and> JobHost_file w = Some (Inr (report_state ex_running (ex_binary_report # rest)))
     \<and> fst (ProcessNext ex_ed itoa ex_pinned ex_job_env ex_identity (w\<lparr>JobHost_power := 14\<rparr>)) \<noteq> Ret ()"
proof -
  obtain r w where out: "ProcessNext ex_ed itoa ex_pinned ex_binary_env ex_identity (ex_host\<lparr>JobHost_power := 14\<rparr>) = (r, w)"
    by fastforce
  have reach: "protocol_reach ex_ed itoa ex_pinned ex_service ex_agent ex_identity w"
    by (rule protocol_reach.step [OF ex_host_reach protocol_step.round [OF ex_binary_hub_env out]])
  obtain rest where rest: "JobHost_file w = Some (Inr (report_state ex_running (ex_binary_report # rest)))"
    using ex_binary_round unfolding out by auto
  from refused_report_blocks [OF reach ex_valid_agent ex_agent_identity ex_binary_refused rest rtranclp.rtrancl_refl] ex_hub_env
  show ?thesis using reach rest by blast
qed

end
