(* ===== verification/Agent_Logs.thy ===== *)
theory Agent_Logs
  imports Agent_Jobs Credentials Logstream
begin

text \<open>
  \<open>internal/agent/log_collector.go\<close>, \<open>log_checkpoint.go\<close>, the platform collectors, and of
  \<open>client.go\<close> how a batch of logs is identified, split and sent. The collector reads the
  journal of the host in windows, keeps a batch until it is committed, and stores how far it has
  got in the checkpoint file.

  Parameters: the decoder of \<open>encoding/json\<close> (\<open>JournalJSON\<close>, \<open>EventJSON\<close>), the programs
  \<open>journalctl\<close> and \<open>Get-WinEvent\<close>, the format RFC 3339, SHA-256, and Unicode lower case.
\<close>

section \<open>Numbers and strings\<close>

text \<open>\<open>strconv.ParseInt(s, 10, 64)\<close>, which is also \<open>strconv.Atoi\<close>.\<close>

definition split_sign :: "string \<Rightarrow> bool \<times> string" where
  "split_sign s =
     (case s of
        [] \<Rightarrow> (False, [])
      | c # r \<Rightarrow> if c = CHR ''-'' then (True, r) else if c = CHR ''+'' then (False, r) else (False, s))"

definition parse_int64 :: "string \<Rightarrow> int option" where
  "parse_int64 s =
     (case split_sign s of
        (neg, digits) \<Rightarrow>
          if digits = [] \<or> \<not> list_all (byte_in 48 57) digits then None
          else let n = int (undec 0 digits); v = (if neg then - n else n) in
            if - (2 ^ 63) \<le> v \<and> v < 2 ^ 63 then Some v else None)"

text \<open>The arithmetic of \<open>int64\<close> wraps around.\<close>

definition int64 :: "int \<Rightarrow> int" where "int64 i = signed_take_bit 63 i"

fun firstNonEmpty :: "string list \<Rightarrow> string" where
  "firstNonEmpty [] = []"
| "firstNonEmpty (v # vs) = (let v = trim_space v in if v \<noteq> [] then v else firstNonEmpty vs)"

section \<open>The systemd journal\<close>

record journalRecord =
  journal_Cursor :: string
  journal_Timestamp :: string
  journal_Unit :: string
  journal_Identifier :: string
  journal_Command :: string
  journal_Priority :: string
  journal_Message :: string

text \<open>
  \<open>JSON_records\<close> gives the records of an output up to its end or to the first one that does not
  decode (True); \<open>JSON_text\<close> and \<open>JSON_bytes\<close> decode a raw value into a string and into bytes.
\<close>

record JournalJSON =
  JSON_records :: "string \<Rightarrow> journalRecord list \<times> bool"
  JSON_text :: "string \<Rightarrow> string option"
  JSON_bytes :: "string \<Rightarrow> string option"

definition decodeJournalMessage :: "JournalJSON \<Rightarrow> string \<Rightarrow> string" where
  "decodeJournalMessage json raw =
     (case JSON_text json raw of
        Some message \<Rightarrow> trim_space message
      | None \<Rightarrow> (case JSON_bytes json raw of Some encoded \<Rightarrow> trim_space encoded | None \<Rightarrow> []))"

definition syslogSeverity :: "string \<Rightarrow> string" where
  "syslogSeverity priority =
     (case parse_int64 priority of
        None \<Rightarrow> LogInfo
      | Some v \<Rightarrow>
          if v \<le> 2 then LogCritical else if v = 3 then LogError else if v = 4 then LogWarn
          else if v = 7 then LogDebug else LogInfo)"

definition new_log :: "time \<Rightarrow> string \<Rightarrow> string \<Rightarrow> string \<Rightarrow> string \<Rightarrow> string \<Rightarrow> LogEntry" where
  "new_log occurredAt collector source severity message sourceID =
     \<lparr>LogEntry_OrganizationID = [], LogEntry_SiteID = [], LogEntry_ID = [], LogEntry_AgentID = [],
      LogEntry_OccurredAt = occurredAt, LogEntry_Collector = collector, LogEntry_Source = source,
      LogEntry_Severity = severity, LogEntry_Message = message, LogEntry_SourceID = sourceID\<rparr>"

definition journal_entry :: "JournalJSON \<Rightarrow> journalRecord \<Rightarrow> LogEntry option" where
  "journal_entry json rcd =
     (case parse_int64 (journal_Timestamp rcd) of
        None \<Rightarrow> None
      | Some micros \<Rightarrow>
          let message = decodeJournalMessage json (journal_Message rcd) in
          if message = [] then None
          else let source = firstNonEmpty [journal_Unit rcd, journal_Identifier rcd, journal_Command rcd, ''journald''] in
            Some (new_log (unix_epoch + int64 (micros * 1000)) CollectorJournald (truncateUTF8 source 512)
              (syslogSeverity (journal_Priority rcd)) (truncateUTF8 message (64 * 1024)) (journal_Cursor rcd)))"

definition parseJournalEntries :: "JournalJSON \<Rightarrow> string \<Rightarrow> LogEntry list res" where
  "parseJournalEntries json output =
     (case JSON_records json output of
        (records, failed) \<Rightarrow>
          if failed then Inl (ErrOther ''decode journal entry'') else Inr (List.map_filter (journal_entry json) records))"

text \<open>
  \<open>journalctl --since=@a --until=@b --lines=n\<close> gets whole seconds: \<open>Time.Unix\<close> rounds down.
\<close>

definition collect_journal ::
  "JournalJSON \<Rightarrow> (int \<Rightarrow> int \<Rightarrow> nat \<Rightarrow> string res) \<Rightarrow> time \<Rightarrow> time \<Rightarrow> nat \<Rightarrow> LogEntry list res" where
  "collect_journal json journalctl since until limit =
     (case journalctl (unix_seconds since) (unix_seconds until) limit of
        Inl e \<Rightarrow> Inl (ErrOther ''journalctl'')
      | Inr output \<Rightarrow> parseJournalEntries json output)"

section \<open>The Windows event log\<close>

record windowsEventRecord =
  event_TimeCreated :: time
  event_ProviderName :: string
  event_Level :: int
  event_LevelDisplayName :: string
  event_Message :: string
  event_RecordID :: int

definition dotless :: string where "dotless = [CHR 0xC4, CHR 0xB1]"

definition windowsEventSeverity :: "(string \<Rightarrow> string) \<Rightarrow> int \<Rightarrow> string \<Rightarrow> string" where
  "windowsEventSeverity uni level display =
     (if level = 1 then LogCritical else if level = 2 then LogError else if level = 3 then LogWarn
      else if level = 5 then LogDebug else if level = 4 then LogInfo
      else let v = to_lower uni (trim_space display) in
        if v \<in> {''critical'', ''kritik''} then LogCritical
        else if v \<in> {''error'', ''hata''} then LogError
        else if v \<in> {''warning'', ''warn'', ''uyar'' @ dotless} then LogWarn
        else if v \<in> {''debug'', ''verbose''} then LogDebug
        else LogInfo)"

definition windows_entry :: "(string \<Rightarrow> string) \<Rightarrow> windowsEventRecord \<Rightarrow> LogEntry option" where
  "windows_entry uni rcd =
     (let message = trim_space (event_Message rcd) in
      if event_TimeCreated rcd = 0 \<or> message = [] then None
      else Some (new_log (event_TimeCreated rcd) CollectorWindowsEvent
        (truncateUTF8 (firstNonEmpty [event_ProviderName rcd, ''Windows Event Log'']) 512)
        (windowsEventSeverity uni (event_Level rcd) (event_LevelDisplayName rcd))
        (truncateUTF8 message (64 * 1024)) (itoa (event_RecordID rcd))))"

definition parseWindowsEventEntries ::
  "(string \<Rightarrow> string) \<Rightarrow> (string \<Rightarrow> windowsEventRecord list \<times> bool) \<Rightarrow> string \<Rightarrow> LogEntry list res" where
  "parseWindowsEventEntries uni json output =
     (case json output of
        (records, failed) \<Rightarrow>
          if failed then Inl (ErrOther ''decode Windows event'') else Inr (List.map_filter (windows_entry uni) records))"

text \<open>\<open>Get-WinEvent\<close> gets whole milliseconds: \<open>Time.UnixMilli\<close> rounds down.\<close>

definition unix_milli :: "time \<Rightarrow> int" where "unix_milli tm = (tm - unix_epoch) div 1000000"

definition collect_events ::
  "(string \<Rightarrow> string) \<Rightarrow> (string \<Rightarrow> windowsEventRecord list \<times> bool) \<Rightarrow> (int \<Rightarrow> int \<Rightarrow> nat \<Rightarrow> string res)
   \<Rightarrow> time \<Rightarrow> time \<Rightarrow> nat \<Rightarrow> LogEntry list res" where
  "collect_events uni json getWinEvent since until limit =
     (case getWinEvent (unix_milli since) (unix_milli until) limit of
        Inl e \<Rightarrow> Inl (ErrOther ''Get-WinEvent'')
      | Inr output \<Rightarrow> parseWindowsEventEntries uni json output)"

section \<open>The checkpoint file\<close>

text \<open>None is the absence of the file, an error a file that does not decode.\<close>

type_synonym checkpoint = "time res option"

definition Checkpoint_Load :: "checkpoint \<Rightarrow> time option res" where
  "Checkpoint_Load file =
     (case file of
        None \<Rightarrow> Inr None
      | Some (Inl e) \<Rightarrow> Inl e
      | Some (Inr cursor) \<Rightarrow>
          if cursor = 0 then Inl (ErrOther ''stored log checkpoint is invalid'') else Inr (Some cursor))"

text \<open>The file is replaced atomically; writing it can fail before or after that.\<close>

definition Checkpoint_Save :: "fault \<Rightarrow> time \<Rightarrow> checkpoint \<Rightarrow> (unit, checkpoint) op" where
  "Checkpoint_Save fault cursor file =
     (if cursor = 0 then (Inl (ErrOther ''log checkpoint cursor is invalid''), file)
      else (case fault of
          Fine \<Rightarrow> (Inr (), Some (Inr cursor))
        | Refused e \<Rightarrow> (Inl e, file)
        | Unacknowledged e \<Rightarrow> (Inl e, Some (Inr cursor))))"

section \<open>The collector\<close>

record LogCollector =
  LogCollector_cursor :: time
  LogCollector_pending :: time
  LogCollector_batch :: "LogEntry list"
  LogCollector_initialized :: bool

definition NewLogCollector :: "time \<Rightarrow> duration \<Rightarrow> LogCollector" where
  "NewLogCollector now lookback =
     \<lparr>LogCollector_cursor = now - (if lookback \<le> 0 then minute else lookback), LogCollector_pending = 0,
      LogCollector_batch = [], LogCollector_initialized = False\<rparr>"

definition Collector_initialize :: "checkpoint \<Rightarrow> time \<Rightarrow> LogCollector \<Rightarrow> (unit, LogCollector) op" where
  "Collector_initialize file now collector =
     (if LogCollector_initialized collector then (Inr (), collector)
      else (case Checkpoint_Load file of
          Inl e \<Rightarrow> (Inl (ErrOther ''load log checkpoint''), collector)
        | Inr None \<Rightarrow> (Inr (), collector\<lparr>LogCollector_initialized := True\<rparr>)
        | Inr (Some cursor) \<Rightarrow>
            if now < cursor then (Inl (ErrOther ''stored log checkpoint is in the future''), collector)
            else (Inr (), collector\<lparr>LogCollector_initialized := True, LogCollector_cursor := cursor\<rparr>)))"

definition window_entries :: "time \<Rightarrow> time \<Rightarrow> LogEntry list \<Rightarrow> LogEntry list" where
  "window_entries cursor until entries =
     last_n MaxBatchEntries (sort_key LogEntry_OccurredAt
       (filter (\<lambda>entry. cursor < LogEntry_OccurredAt entry \<and> LogEntry_OccurredAt entry \<le> until) entries))"

text \<open>
  \<open>collect\<close> is the platform's function; \<open>now 0\<close> is the clock read to check a stored checkpoint,
  \<open>now 1\<close> the one that ends the window.
\<close>

definition Collector_Collect ::
  "(time \<Rightarrow> time \<Rightarrow> nat \<Rightarrow> LogEntry list res) \<Rightarrow> checkpoint \<Rightarrow> (nat \<Rightarrow> time) \<Rightarrow> LogCollector
   \<Rightarrow> (LogEntry list, LogCollector) op" where
  "Collector_Collect collect file now collector =
     (case Collector_initialize file (now 0) collector of
        (Inl e, collector) \<Rightarrow> (Inl e, collector)
      | (Inr _, collector) \<Rightarrow>
          if LogCollector_cursor collector = 0 then (Inl (ErrOther ''log collector is incomplete''), collector)
          else if LogCollector_pending collector \<noteq> 0 then (Inr (LogCollector_batch collector), collector)
          else if \<not> LogCollector_cursor collector < now 1 then (Inr [], collector)
          else (case collect (LogCollector_cursor collector) (now 1) MaxBatchEntries of
              Inl e \<Rightarrow> (Inl e, collector)
            | Inr entries \<Rightarrow>
                let batch = window_entries (LogCollector_cursor collector) (now 1) entries in
                (Inr batch, collector\<lparr>LogCollector_pending := now 1, LogCollector_batch := batch\<rparr>)))"

definition Collector_Commit :: "fault \<Rightarrow> LogCollector \<Rightarrow> checkpoint \<Rightarrow> unit res \<times> LogCollector \<times> checkpoint" where
  "Collector_Commit fault collector file =
     (if LogCollector_pending collector = 0 then (Inr (), collector, file)
      else (case Checkpoint_Save fault (LogCollector_pending collector) file of
          (Inl e, file) \<Rightarrow> (Inl (ErrOther ''persist log checkpoint''), collector, file)
        | (Inr _, file) \<Rightarrow>
            (Inr (), collector\<lparr>LogCollector_cursor := LogCollector_pending collector, LogCollector_pending := 0,
                       LogCollector_batch := []\<rparr>, file)))"

section \<open>Sending a batch\<close>

definition maxRequestBodyBytes :: nat where "maxRequestBodyBytes = 2 ^ 20"

text \<open>
  \<open>deterministicLogID\<close>: 16 bytes of SHA-256 over the fields joined by NUL; \<open>fmt\<close> is RFC 3339 with
  nanoseconds.
\<close>

definition deterministicLogID :: "(string \<Rightarrow> string) \<Rightarrow> (time \<Rightarrow> string) \<Rightarrow> string \<Rightarrow> LogEntry \<Rightarrow> string" where
  "deterministicLogID sha fmt agentID entry =
     hex_encode (take 16 (sha (agentID @ CHR 0x00 # LogEntry_SourceID entry @ CHR 0x00 # fmt (LogEntry_OccurredAt entry)
       @ CHR 0x00 # LogEntry_Collector entry @ CHR 0x00 # LogEntry_Source entry @ CHR 0x00 # LogEntry_Severity entry
       @ CHR 0x00 # LogEntry_Message entry)))"

definition identified :: "(string \<Rightarrow> string) \<Rightarrow> (time \<Rightarrow> string) \<Rightarrow> string \<Rightarrow> LogEntry \<Rightarrow> LogEntry" where
  "identified sha fmt agentID entry = entry\<lparr>LogEntry_ID := deterministicLogID sha fmt agentID entry\<rparr>"

text \<open>
  \<open>json.Marshal\<close> of an entry; \<open>enc\<close> encodes a time, which fails outside the years 0 to 9999.
\<close>

definition log_entry_json :: "(time \<Rightarrow> string option) \<Rightarrow> LogEntry \<Rightarrow> string option" where
  "log_entry_json enc entry =
     (case enc (LogEntry_OccurredAt entry) of
        None \<Rightarrow> None
      | Some occurredAt \<Rightarrow>
          Some (json_object
            ([(''organization_id'', json_string (LogEntry_OrganizationID entry)), (''site_id'', json_string (LogEntry_SiteID entry))]
             @ (if LogEntry_ID entry = [] then [] else [(''id'', json_string (LogEntry_ID entry))])
             @ (if LogEntry_AgentID entry = [] then [] else [(''agent_id'', json_string (LogEntry_AgentID entry))])
             @ [(''occurred_at'', occurredAt), (''collector'', json_string (LogEntry_Collector entry)),
                (''source'', json_string (LogEntry_Source entry)), (''severity'', json_string (LogEntry_Severity entry)),
                (''message'', json_string (LogEntry_Message entry))])))"

definition batch_prefix :: string where "batch_prefix = ''{'' @ quote # ''entries'' @ quote # '':[''"
definition batch_suffix :: string where "batch_suffix = '']}''"
definition envelopeBytes :: nat where "envelopeBytes = length (batch_prefix @ batch_suffix)"

fun split_entries ::
  "(LogEntry \<Rightarrow> string option) \<Rightarrow> LogEntry list \<Rightarrow> LogEntry list list \<Rightarrow> LogEntry list \<Rightarrow> nat \<Rightarrow> LogEntry list list res" where
  "split_entries marshal [] batches current currentBytes = Inr (batches @ [current])"
| "split_entries marshal (entry # entries) batches current currentBytes =
     (case marshal entry of
        None \<Rightarrow> Inl (ErrOther ''encode log entry'')
      | Some encoded \<Rightarrow>
          let separatorBytes = (if current \<noteq> [] then 1 else 0) in
          if maxRequestBodyBytes < currentBytes + separatorBytes + length encoded then
            if current = [] then Inl (ErrOther ''encoded log entry exceeds request limit'')
            else split_entries marshal entries (batches @ [current]) [entry] (envelopeBytes + length encoded)
          else split_entries marshal entries batches (current @ [entry]) (currentBytes + separatorBytes + length encoded))"

definition splitLogBatch :: "(LogEntry \<Rightarrow> string option) \<Rightarrow> LogEntry list \<Rightarrow> LogEntry list list res" where
  "splitLogBatch marshal batch =
     (if batch = [] then Inr []
      else if MaxBatchEntries < length batch then Inl (ErrOther ''log batch exceeds 1000 entries'')
      else split_entries marshal batch [] [] envelopeBytes)"

text \<open>
  An entry as the hub decodes it: texts as JSON carries them, and no \<open>SourceID\<close>, which has no
  field in JSON. (A time arrives as it is: RFC 3339 with nanoseconds.)
\<close>

definition entry_json :: "LogEntry \<Rightarrow> LogEntry" where
  "entry_json entry =
     \<lparr>LogEntry_OrganizationID = json_text (LogEntry_OrganizationID entry), LogEntry_SiteID = json_text (LogEntry_SiteID entry),
      LogEntry_ID = json_text (LogEntry_ID entry), LogEntry_AgentID = json_text (LogEntry_AgentID entry),
      LogEntry_OccurredAt = LogEntry_OccurredAt entry, LogEntry_Collector = json_text (LogEntry_Collector entry),
      LogEntry_Source = json_text (LogEntry_Source entry), LogEntry_Severity = json_text (LogEntry_Severity entry),
      LogEntry_Message = json_text (LogEntry_Message entry), LogEntry_SourceID = []\<rparr>"

text \<open>
  The requests in their order, until one fails: \<open>post n\<close> is what the \<open>n\<close>-th request does to the
  hub and whether it was answered as expected.
\<close>

fun post_all :: "(nat \<Rightarrow> LogEntry list \<Rightarrow> 'h \<Rightarrow> (unit, 'h) op) \<Rightarrow> nat \<Rightarrow> LogEntry list list \<Rightarrow> 'h \<Rightarrow> (unit, 'h) op" where
  "post_all post n [] h = (Inr (), h)"
| "post_all post n (candidate # candidates) h =
     (case post n candidate h of
        (Inl e, h) \<Rightarrow> (Inl (ErrOther ''report logs''), h)
      | (Inr _, h) \<Rightarrow> post_all post (Suc n) candidates h)"

definition ReportLogs ::
  "(string \<Rightarrow> string) \<Rightarrow> (time \<Rightarrow> string) \<Rightarrow> (LogEntry \<Rightarrow> string option) \<Rightarrow> (nat \<Rightarrow> LogEntry list \<Rightarrow> 'h \<Rightarrow> (unit, 'h) op)
   \<Rightarrow> string \<Rightarrow> LogEntry list \<Rightarrow> 'h \<Rightarrow> (unit, 'h) op" where
  "ReportLogs sha fmt marshal post agentID batch h =
     (case splitLogBatch marshal (map (identified sha fmt agentID) batch) of
        Inl e \<Rightarrow> (Inl e, h)
      | Inr batches \<Rightarrow> post_all post 0 (map (map entry_json) batches) h)"

text \<open>The part of \<open>Runner.report\<close> that ships logs.\<close>

definition ship_logs ::
  "(time \<Rightarrow> time \<Rightarrow> nat \<Rightarrow> LogEntry list res) \<Rightarrow> (LogEntry list \<Rightarrow> 'h \<Rightarrow> (unit, 'h) op) \<Rightarrow> (nat \<Rightarrow> time) \<Rightarrow> fault
   \<Rightarrow> LogCollector \<times> checkpoint \<times> 'h \<Rightarrow> err option \<times> LogCollector \<times> checkpoint \<times> 'h" where
  "ship_logs collect report now fault w =
     (case w of (collector, file, h) \<Rightarrow>
        (case Collector_Collect collect file now collector of
           (Inl e, collector) \<Rightarrow> (Some (ErrOther ''collect host logs''), collector, file, h)
         | (Inr batch, collector) \<Rightarrow>
             (case (if batch = [] then (Inr (), h) else report batch h) of
                (Inl e, h) \<Rightarrow> (Some e, collector, file, h)
              | (Inr _, h) \<Rightarrow>
                  (case Collector_Commit fault collector file of
                     (Inl e, collector, file) \<Rightarrow> (Some e, collector, file, h)
                   | (Inr _, collector, file) \<Rightarrow> (None, collector, file, h)))))"

end
