(* ===== verification/Agent_Logs_Properties.thy ===== *)
theory Agent_Logs_Properties
  imports Agent_Logs Logstream_Properties
begin

text \<open>
  What the agent's log shipping promises: batches fit into requests, the checkpoint moves only
  past entries the hub has, a retry repeats nothing; and two ways in which entries get lost.
\<close>

section \<open>Splitting\<close>

definition batch_json :: "(LogEntry \<Rightarrow> string option) \<Rightarrow> LogEntry list \<Rightarrow> string" where
  "batch_json marshal batch =
     batch_prefix @ join_with '','' (map (\<lambda>entry. the (marshal entry)) batch) @ batch_suffix"

lemma length_join_snoc:
  "length (join_with [c] (xs @ [x])) = length (join_with [c] xs) + (if xs = [] then 0 else 1) + length x"
  by (induction "[c]" xs rule: join_with.induct) auto

lemma batch_json_Nil: "length (batch_json marshal []) = envelopeBytes"
  by (simp add: batch_json_def envelopeBytes_def)

lemma batch_json_snoc:
  assumes "marshal entry = Some encoded"
  shows "length (batch_json marshal (batch @ [entry])) = length (batch_json marshal batch) + (if batch \<noteq> [] then 1 else 0) + length encoded"
  using assms by (simp add: batch_json_def length_join_snoc)

definition fits :: "(LogEntry \<Rightarrow> string option) \<Rightarrow> LogEntry \<Rightarrow> bool" where
  "fits marshal entry \<longleftrightarrow> (\<exists>encoded. marshal entry = Some encoded \<and> envelopeBytes + length encoded \<le> maxRequestBodyBytes)"

definition request_sized :: "(LogEntry \<Rightarrow> string option) \<Rightarrow> LogEntry list \<Rightarrow> bool" where
  "request_sized marshal batch \<longleftrightarrow> batch \<noteq> [] \<and> length (batch_json marshal batch) \<le> maxRequestBodyBytes"

lemma split_entries_spec:
  assumes "\<forall>entry \<in> set entries. fits marshal entry" and "currentBytes = length (batch_json marshal current)"
    and "currentBytes \<le> maxRequestBodyBytes" and "current \<noteq> [] \<or> entries \<noteq> []"
  shows "\<exists>bs. split_entries marshal entries batches current currentBytes = Inr (batches @ bs)
     \<and> concat bs = current @ entries \<and> (\<forall>b \<in> set bs. request_sized marshal b)"
  using assms
proof (induction marshal entries batches current currentBytes rule: split_entries.induct)
  case (1 marshal batches current currentBytes)
  then show ?case by (intro exI [of _ "[current]"]) (simp add: request_sized_def)
next
  case (2 marshal entry entries batches current currentBytes)
  obtain encoded where e: "marshal entry = Some encoded" "envelopeBytes + length encoded \<le> maxRequestBodyBytes"
    using "2.prems"(1) by (auto simp: fits_def)
  let ?sep = "if current \<noteq> [] then 1 else 0 :: nat"
  have one: "length (batch_json marshal [entry]) = envelopeBytes + length encoded"
    using batch_json_snoc [of marshal entry encoded "[]"] e(1) by (simp add: batch_json_Nil)
  show ?case
  proof (cases "maxRequestBodyBytes < currentBytes + ?sep + length encoded")
    case over: True
    have current: "current \<noteq> []"
    proof
      assume "current = []"
      then show False using over e(2) "2.prems"(2) by (simp add: batch_json_Nil)
    qed
    have "\<exists>bs. split_entries marshal entries (batches @ [current]) [entry] (envelopeBytes + length encoded)
        = Inr ((batches @ [current]) @ bs) \<and> concat bs = [entry] @ entries \<and> (\<forall>b \<in> set bs. request_sized marshal b)"
      using "2.IH"(1) [OF e(1) refl over current] "2.prems"(1) e(2) one by simp
    then obtain bs where "split_entries marshal entries (batches @ [current]) [entry] (envelopeBytes + length encoded)
        = Inr (batches @ current # bs)" "concat bs = entry # entries" "\<forall>b \<in> set bs. request_sized marshal b" by auto
    then show ?thesis
      using over current e(1) "2.prems"(2,3)
      by (intro exI [of _ "current # bs"]) (simp add: Let_def request_sized_def)
  next
    case False
    have "\<exists>bs. split_entries marshal entries batches (current @ [entry]) (currentBytes + ?sep + length encoded)
        = Inr (batches @ bs) \<and> concat bs = (current @ [entry]) @ entries \<and> (\<forall>b \<in> set bs. request_sized marshal b)"
      using "2.IH"(2) [OF e(1) refl False] "2.prems"(1,2) batch_json_snoc [of marshal entry encoded current] e(1) False by simp
    then show ?thesis using False e(1) by (auto simp: Let_def)
  qed
qed

lemma splitLogBatch_spec:
  assumes "\<forall>entry \<in> set batch. fits marshal entry" "length batch \<le> MaxBatchEntries"
  shows "\<exists>bs. splitLogBatch marshal batch = Inr bs \<and> concat bs = batch \<and> (\<forall>b \<in> set bs. request_sized marshal b)"
proof (cases "batch = []")
  case False
  have "envelopeBytes \<le> maxRequestBodyBytes"
    by (simp add: envelopeBytes_def batch_prefix_def batch_suffix_def maxRequestBodyBytes_def)
  with split_entries_spec [OF assms(1), of envelopeBytes "[]" "[]"] assms(2) False show ?thesis
    by (auto simp: splitLogBatch_def batch_json_Nil)
qed (simp add: splitLogBatch_def)

lemma splitLogBatch_concat:
  assumes "splitLogBatch marshal batch = Inr bs"
  shows "concat bs = batch"
proof -
  have split: "concat bs = concat batches @ current @ entries"
    if "split_entries marshal entries batches current n = Inr bs" for entries batches current n
    using that
    by (induction marshal entries batches current n rule: split_entries.induct)
      (auto simp: Let_def split: option.splits if_splits)
  from assms show ?thesis by (auto simp: splitLogBatch_def split: if_splits dest: split)
qed

section \<open>The size of an encoded entry\<close>

text \<open>What the platform collectors make: no tenant, known words, bounded texts.\<close>

definition collected :: "LogEntry \<Rightarrow> bool" where
  "collected entry \<longleftrightarrow>
     LogEntry_OrganizationID entry = [] \<and> LogEntry_SiteID entry = [] \<and> LogEntry_AgentID entry = []
   \<and> LogEntry_Collector entry \<in> {CollectorJournald, CollectorWindowsEvent}
   \<and> LogEntry_Severity entry \<in> {LogDebug, LogInfo, LogWarn, LogError, LogCritical}
   \<and> length (LogEntry_Source entry) \<le> 512 \<and> length (LogEntry_Message entry) \<le> 64 * 1024"

lemma length_cut_invalid: "length (cut_invalid s) \<le> length s"
proof (induction s rule: cut_invalid.induct)
  case (1 s)
  then show ?case by (cases "valid_utf8 s") (simp_all add: cut_invalid.simps [of s])
qed

lemma length_truncateUTF8: "length (truncateUTF8 s limit) \<le> limit"
  using length_cut_invalid [of "take limit s"] by (auto simp: truncateUTF8_def)

lemma collected_new_log:
  assumes "collector \<in> {CollectorJournald, CollectorWindowsEvent}" "severity \<in> {LogDebug, LogInfo, LogWarn, LogError, LogCritical}"
  shows "collected (new_log t collector (truncateUTF8 source 512) severity (truncateUTF8 message (64 * 1024)) i)"
  using assms length_truncateUTF8 by (simp add: collected_def new_log_def)

lemma syslogSeverity_word: "syslogSeverity p \<in> {LogDebug, LogInfo, LogWarn, LogError, LogCritical}"
  by (simp add: syslogSeverity_def split: option.splits)

lemma windowsEventSeverity_word: "windowsEventSeverity uni l d \<in> {LogDebug, LogInfo, LogWarn, LogError, LogCritical}"
  by (simp add: windowsEventSeverity_def Let_def)

lemma journal_entry_collected: "journal_entry json rcd = Some entry \<Longrightarrow> collected entry"
  using collected_new_log syslogSeverity_word
  by (auto simp: journal_entry_def Let_def split: option.splits if_splits)

lemma windows_entry_collected: "windows_entry uni rcd = Some entry \<Longrightarrow> collected entry"
  using collected_new_log windowsEventSeverity_word
  by (auto simp: windows_entry_def Let_def split: if_splits)

lemma collect_collected:
  "collect_journal json journalctl since until limit = Inr entries \<Longrightarrow> entry \<in> set entries \<Longrightarrow> collected entry"
  "collect_events uni events getWinEvent since until limit = Inr entries \<Longrightarrow> entry \<in> set entries \<Longrightarrow> collected entry"
  by (auto simp: collect_journal_def parseJournalEntries_def collect_events_def parseWindowsEventEntries_def List.map_filter_def
      split: sum.splits prod.splits if_splits) (blast dest: journal_entry_collected windows_entry_collected)+

lemma set_window_entries: "set (window_entries cursor until entries) \<subseteq>
    {entry \<in> set entries. cursor < LogEntry_OccurredAt entry \<and> LogEntry_OccurredAt entry \<le> until}"
  using set_drop_subset by (fastforce simp: window_entries_def last_n_drop)

lemma length_window_entries: "length (window_entries cursor until entries) \<le> MaxBatchEntries"
  by (simp add: window_entries_def last_n_drop)

lemma collected_fits:
  assumes "collected entry" and "enc (LogEntry_OccurredAt entry) = Some t" "length t \<le> 64"
  shows "fits (log_entry_json enc) (identified sha fmt agentID entry)"
proof -
  let ?e = "identified sha fmt agentID entry"
  have words: "length (LogEntry_Collector entry) \<le> 20" "length (LogEntry_Severity entry) \<le> 20"
    using assms(1) by (auto simp: collected_def CollectorJournald_def CollectorWindowsEvent_def LogDebug_def LogInfo_def
        LogWarn_def LogError_def LogCritical_def)
  note j = length_json_string
  define fields where "fields = [(''organization_id'', json_string []), (''site_id'', json_string [])]
        @ (if LogEntry_ID ?e = [] then [] else [(''id'', json_string (LogEntry_ID ?e))])
        @ [(''occurred_at'', t), (''collector'', json_string (LogEntry_Collector entry)),
           (''source'', json_string (LogEntry_Source entry)), (''severity'', json_string (LogEntry_Severity entry)),
           (''message'', json_string (LogEntry_Message entry))]"
  have e: "log_entry_json enc ?e = Some (json_object fields)"
    using assms(1,2) unfolding fields_def by (simp add: log_entry_json_def identified_def collected_def del: json_object.simps)
  have sizes: "length (json_string (LogEntry_Collector entry)) \<le> 122" "length (json_string (LogEntry_Severity entry)) \<le> 122"
    "length (json_string (LogEntry_Source entry)) \<le> 3074" "length (json_string (LogEntry_Message entry)) \<le> 393218"
    "length (json_string (LogEntry_ID ?e)) \<le> 194"
    using words assms(1) j [of "LogEntry_Collector entry"] j [of "LogEntry_Severity entry"] j [of "LogEntry_Source entry"]
      j [of "LogEntry_Message entry"] j [of "LogEntry_ID ?e"]
    by (auto simp: collected_def identified_def deterministicLogID_def)
  have keys: "length (json_string []) \<le> 2" "length (json_string ''organization_id'') \<le> 92" "length (json_string ''site_id'') \<le> 44"
    "length (json_string ''id'') \<le> 14" "length (json_string ''occurred_at'') \<le> 68" "length (json_string ''collector'') \<le> 56"
    "length (json_string ''source'') \<le> 38" "length (json_string ''severity'') \<le> 50" "length (json_string ''message'') \<le> 44"
    using j [of "[]"] j [of "''organization_id''"] j [of "''site_id''"] j [of "''id''"] j [of "''occurred_at''"] j [of "''collector''"]
      j [of "''source''"] j [of "''severity''"] j [of "''message''"] by simp_all
  have "(\<Sum>(k, v) \<leftarrow> fields. length (json_string k) + length v + 2) \<le> 500000"
    using sizes keys assms(3) by (cases "LogEntry_ID ?e = []") (simp_all add: fields_def)
  then have "length (json_object fields) \<le> 600000" using length_object [of fields] by linarith
  then show ?thesis
    using e by (simp add: fits_def envelopeBytes_def batch_prefix_def batch_suffix_def maxRequestBodyBytes_def)
qed

text \<open>
  C31. A batch of logs always fits into requests. Whatever the platform collector returns and
  however much of it JSON has to escape, the window taken from it is split without an error: the
  requests together carry the entries in order, each once, no request is empty, and no body is
  longer than the 1 MiB the hub reads. The hypothesis says that an encoded time is short.
\<close>

theorem log_batch_split:
  assumes "collect_journal json journalctl since until limit = Inr entries
      \<or> collect_events uni events getWinEvent since until limit = Inr entries"
    and "\<forall>entry \<in> set entries. \<exists>t. enc (LogEntry_OccurredAt entry) = Some t \<and> length t \<le> 64"
  shows "\<exists>requests. splitLogBatch (log_entry_json enc) (map (identified sha fmt agentID) (window_entries since until entries))
        = Inr requests
     \<and> concat requests = map (identified sha fmt agentID) (window_entries since until entries)
     \<and> (\<forall>r \<in> set requests. r \<noteq> [] \<and> length (batch_json (log_entry_json enc) r) \<le> 2 ^ 20)"
proof -
  have "fits (log_entry_json enc) (identified sha fmt agentID entry)" if entry: "entry \<in> set entries" for entry
  proof -
    obtain t where "enc (LogEntry_OccurredAt entry) = Some t" "length t \<le> 64" using assms(2) entry by blast
    moreover have "collected entry" using assms(1) entry collect_collected by blast
    ultimately show ?thesis by (intro collected_fits)
  qed
  then have "\<forall>entry \<in> set (map (identified sha fmt agentID) (window_entries since until entries)). fits (log_entry_json enc) entry"
    using set_window_entries [of since until entries] by (simp add: subset_iff)
  from splitLogBatch_spec [OF this] length_window_entries show ?thesis
    by (auto simp: request_sized_def maxRequestBodyBytes_def)
qed

section \<open>What the hub holds of an entry\<close>

text \<open>
  An entry is held when its key is in the store, or when it was pushed out by newer ones: the
  agent's log is full and nothing in it is older.
\<close>

definition held :: "LogStore \<Rightarrow> LogEntry \<Rightarrow> bool" where
  "held st entry \<longleftrightarrow> log_key entry \<in> log_keys st
     \<or> length (logs_at st (log_agent entry)) = maxKeptEntries
       \<and> (\<forall>old \<in> set (logs_at st (log_agent entry)). \<not> log_before old entry)"

lemma log_before_key: "log_key a = log_key b \<Longrightarrow> log_before x a = log_before x b"
  by (simp add: log_key_def log_before_def)

lemma log_before_via: "log_before y e \<Longrightarrow> \<not> log_before y x \<Longrightarrow> log_before x e"
  by (auto simp: log_before_def split: if_splits)

lemma dropped: "x \<in> set xs \<Longrightarrow> x \<notin> set ys \<Longrightarrow> x \<in># mset xs - mset ys"
  by (metis in_diff_count not_in_iff count_greater_zero_iff set_mset_mset)

lemma newest_held:
  assumes "newest_of log_before maxKeptEntries xs ys" and "x \<in> set xs" and "log_key x = log_key e"
  shows "log_key e \<in> log_key ` set ys \<or> length ys = maxKeptEntries \<and> (\<forall>y \<in> set ys. \<not> log_before y e)"
proof (cases "x \<in> set ys")
  case True
  then have "log_key x \<in> log_key ` set ys" by (rule imageI)
  with assms(3) show ?thesis by simp
next
  case False
  with assms(2) have gone: "x \<in># mset xs - mset ys" by (rule dropped)
  then have "mset ys \<noteq> mset xs" by auto
  then have "\<not> length xs \<le> maxKeptEntries" using newest_of_all [OF assms(1)] by blast
  then have "length ys = maxKeptEntries" using assms(1) by (simp add: newest_of_def)
  moreover have "\<forall>y \<in> set ys. \<not> log_before y e"
    using assms(1) gone log_before_key [OF assms(3)] by (auto simp: newest_of_def)
  ultimately show ?thesis by blast
qed

lemma newest_full:
  assumes new: "newest_of log_before maxKeptEntries (old @ new) ys" and "length old = maxKeptEntries"
    and "distinct (old @ new)" and bound: "\<forall>x \<in> set old. \<not> log_before x e"
  shows "length ys = maxKeptEntries \<and> (\<forall>y \<in> set ys. \<not> log_before y e)"
proof (intro conjI ballI)
  show len: "length ys = maxKeptEntries" using new assms(2) by (simp add: newest_of_def)
  fix y assume y: "y \<in> set ys"
  show "\<not> log_before y e"
  proof (cases "y \<in> set old")
    case False
    have "\<not> set old \<subseteq> set ys"
    proof
      assume "set old \<subseteq> set ys"
      then have "card (insert y (set old)) \<le> card (set ys)" using y by (intro card_mono) auto
      moreover have "card (set ys) \<le> maxKeptEntries" using card_length [of ys] len by simp
      ultimately show False using False assms(2,3) by (simp add: distinct_card)
    qed
    then obtain x where x: "x \<in> set old" "x \<notin> set ys" by blast
    then have "x \<in># mset (old @ new) - mset ys" by (intro dropped) simp_all
    then have "\<not> log_before y x" using new y unfolding newest_of_def by blast
    then show ?thesis using bound x(1) log_before_via by blast
  qed (use bound in blast)
qed

lemma log_keysI: "entry \<in> set (logs_at st agent) \<Longrightarrow> log_key entry \<in> log_keys st"
  by (auto simp: log_keys_def)

lemma Append_held:
  assumes srt: "slice_sort srt" and it: "ranges it st" and inv: "log_inv st"
    and same: "\<forall>entry \<in> set entries. log_agent entry = key"
    and op: "AppendLogs srt it entries st = (Inr stored, st')" and e: "log_agent e = key"
    and or: "e \<in> set entries \<or> held st e"
  shows "held st' e"
proof -
  note app = AppendLogs_Inr [OF srt it inv same op]
  have props: "distinct (map log_key stored)" "log_key ` set stored \<inter> log_keys st = {}"
    using new_entries_props [of "stored_keys it" entries] unfolding app(1) log_keys_ranges [OF it] by auto
  have from_key: "held st' e" if "x \<in> set (logs_at st key @ stored)" "log_key x = log_key e" for x
    using newest_held [OF app(5) that] e log_keysI by (fastforce simp: held_def)
  consider (key) "log_key e \<in> log_keys st \<or> log_key e \<in> log_key ` set stored"
    | (full) "length (logs_at st key) = maxKeptEntries" "\<forall>old \<in> set (logs_at st key). \<not> log_before old e"
    using or e new_entries_covers [of e entries "stored_keys it"] unfolding app(1) log_keys_ranges [OF it] held_def by blast
  then show ?thesis
  proof cases
    case key
    then obtain x a where "log_key e = log_key x" and x: "x \<in> set stored \<or> x \<in> set (logs_at st a)"
      unfolding log_keys_def by blast
    then have x: "log_key x = log_key e" "x \<in> set stored \<or> x \<in> set (logs_at st a)" by simp_all
    show ?thesis
    proof (cases "x \<in> set stored \<or> a = key")
      case True
      then show ?thesis using x from_key by auto
    next
      case False
      then have "x \<in> set (logs_at st' a)" using x(2) app(3) by auto
      then show ?thesis using x(1) log_keysI by (metis held_def)
    qed
  next
    case full
    have "log_key ` set (logs_at st key) \<subseteq> log_keys st" using log_keysI by blast
    then have "distinct (map log_key (logs_at st key @ stored))"
      using inv props by (auto simp: log_inv_def)
    then have "distinct (logs_at st key @ stored)" unfolding distinct_map by (rule conjunct1)
    then show ?thesis using newest_full [OF app(5) full(1) _ full(2)] e by (simp add: held_def)
  qed
qed

definition hub_form :: "(string \<Rightarrow> string) \<Rightarrow> Agent \<Rightarrow> LogEntry \<Rightarrow> LogEntry \<Rightarrow> bool" where
  "hub_form uni agent sent entry \<longleftrightarrow> normalize_entry uni agent (trim_space (Agent_ID agent)) None sent = Inr entry"

definition has_id :: "LogEntry \<Rightarrow> bool" where "has_id entry \<longleftrightarrow> trim_space (LogEntry_ID entry) \<noteq> []"

lemma normalize_entry_id:
  "has_id c \<Longrightarrow> normalize_entry uni agent agentID r c = normalize_entry uni agent agentID None c"
  by (simp add: normalize_entry_def has_id_def Let_def split: option.splits)

lemma normalize_batch_Cons:
  "normalize_batch uni agent agentID r (c # cs) = Inr entries \<longleftrightarrow>
     (\<exists>e es. normalize_entry uni agent agentID (r 0) c = Inr e
        \<and> normalize_batch uni agent agentID (\<lambda>i. r (Suc i)) cs = Inr es \<and> entries = e # es)"
  by (auto split: sum.splits)

lemma normalize_batch_forms:
  "normalize_batch uni agent (trim_space (Agent_ID agent)) r batch = Inr entries \<Longrightarrow> \<forall>c \<in> set batch. has_id c
     \<Longrightarrow> \<forall>c \<in> set batch. \<exists>e \<in> set entries. hub_form uni agent c e"
proof (induction batch arbitrary: r entries)
  case (Cons c cs)
  obtain e es where split: "normalize_entry uni agent (trim_space (Agent_ID agent)) (r 0) c = Inr e"
    "normalize_batch uni agent (trim_space (Agent_ID agent)) (\<lambda>i. r (Suc i)) cs = Inr es" "entries = e # es"
    using Cons.prems(1) unfolding normalize_batch_Cons by (elim exE conjE)
  have "hub_form uni agent c e"
    using split(1) normalize_entry_id [of c uni agent "trim_space (Agent_ID agent)" "r 0"] Cons.prems(2) by (simp add: hub_form_def)
  moreover have "\<forall>c \<in> set cs. \<exists>e \<in> set es. hub_form uni agent c e"
    using Cons.IH [OF split(2)] Cons.prems(2) by simp
  ultimately show ?case by (auto simp: split(3))
qed simp

lemma has_id_identified:
  assumes "\<forall>s. length (sha s) = 32"
  shows "has_id (entry_json (identified sha fmt agentID entry))"
proof -
  let ?i = "deterministicLogID sha fmt agentID entry"
  have hex: "list_all is_lower_hex ?i" unfolding deterministicLogID_def by (rule hex_encode_lower)
  then have "is_ascii ?i" by (rule hex_ascii)
  moreover have "length ?i = 32" using assms by (simp add: deterministicLogID_def)
  moreover have "trim_space ?i = ?i" using hex by (rule trim_space_hex)
  ultimately show ?thesis by (auto simp: has_id_def identified_def entry_json_def)
qed

text \<open>
  \<open>lossy\<close>: a request reaches the hub or not, and its answer comes back or not; an answer as
  expected comes only from a hub that took the batch.
\<close>

definition lossy ::
  "LogEntry sorter \<Rightarrow> (string \<Rightarrow> string) \<Rightarrow> Agent \<Rightarrow> (nat \<Rightarrow> LogEntry list \<Rightarrow> LogService \<Rightarrow> (unit, LogService) op) \<Rightarrow> bool" where
  "lossy srt uni agent post \<longleftrightarrow>
     (\<forall>n candidate h res h'. log_inv (LogService_store h) \<longrightarrow> post n candidate h = (res, h') \<longrightarrow>
        res \<noteq> Inr () \<and> h' = h
      \<or> (\<exists>it r answer. ranges it (LogService_store h) \<and> Ingest srt uni it r agent candidate h = (answer, h')
           \<and> (res = Inr () \<longrightarrow> answer = Inr ())))"

definition keeps_held :: "Agent \<Rightarrow> LogService \<Rightarrow> LogService \<Rightarrow> bool" where
  "keeps_held agent h h' \<longleftrightarrow> log_inv (LogService_store h') \<and>
     (\<forall>e. log_agent e = trimmed_agent agent \<longrightarrow> held (LogService_store h) e \<longrightarrow> held (LogService_store h') e)"

lemma Ingest_held:
  assumes srt: "slice_sort srt" and it: "ranges it (LogService_store h)" and inv: "log_inv (LogService_store h)"
    and op: "Ingest srt uni it r agent batch h = (res, h')"
  shows "keeps_held agent h h'"
    and "res = Inr () \<Longrightarrow> \<forall>c \<in> set batch. has_id c \<Longrightarrow> \<forall>c \<in> set batch. \<exists>e. hub_form uni agent c e \<and> held (LogService_store h') e"
  using op
proof (induction rule: Ingest_cases)
  case (stored entries stored st')
  have st': "LogService_store h' = st'" unfolding stored(4) by simp
  have key: "\<forall>entry \<in> set entries. log_agent entry = trimmed_agent agent"
    using normalize_batch_agent [OF stored(2)] by blast
  note held = Append_held [OF srt it inv key stored(3)]
  case 1
  show ?case using AppendLogs_Inr(6) [OF srt it inv key stored(3)] held by (simp add: keeps_held_def st')
  case 2
  then show ?case using normalize_batch_forms [OF stored(2)] held key unfolding st' by blast
qed (use inv in \<open>simp_all add: keeps_held_def\<close>)

lemma keeps_held_trans: "keeps_held agent h h1 \<Longrightarrow> keeps_held agent h1 h2 \<Longrightarrow> keeps_held agent h h2"
  by (simp add: keeps_held_def)

lemma hub_form_agent: "hub_form uni agent c e \<Longrightarrow> log_agent e = trimmed_agent agent"
  unfolding hub_form_def by (rule normalize_entry_agent)

lemma lossy_held:
  assumes "slice_sort srt" and "lossy srt uni agent post" and "post n request h = (res, h')" and inv: "log_inv (LogService_store h)"
  shows "keeps_held agent h h'
    \<and> (res = Inr () \<longrightarrow> (\<forall>c \<in> set request. has_id c) \<longrightarrow>
         (\<forall>c \<in> set request. \<exists>e. hub_form uni agent c e \<and> held (LogService_store h') e))"
proof -
  consider "res \<noteq> Inr ()" "h' = h"
    | it r answer where "ranges it (LogService_store h)" "Ingest srt uni it r agent request h = (answer, h')" "res = Inr () \<longrightarrow> answer = Inr ()"
    using assms(2,3) inv unfolding lossy_def by blast
  then show ?thesis
  proof cases
    case 1
    then show ?thesis using inv by (simp add: keeps_held_def)
  next
    case 2
    from Ingest_held [OF assms(1) 2(1) inv 2(2)] 2(3) show ?thesis by blast
  qed
qed

lemma post_all_held:
  assumes "slice_sort srt" and "lossy srt uni agent post" and "post_all post n requests h = (res, h')"
    and "log_inv (LogService_store h)"
  shows "keeps_held agent h h'
    \<and> (res = Inr () \<longrightarrow> (\<forall>c \<in> set (concat requests). has_id c) \<longrightarrow>
         (\<forall>c \<in> set (concat requests). \<exists>e. hub_form uni agent c e \<and> held (LogService_store h') e))"
  using assms(2-4)
proof (induction post n requests h rule: post_all.induct)
  case (1 post n h)
  then show ?case by (simp add: keeps_held_def)
next
  case (2 post n request requests h)
  obtain r1 h1 where call: "post n request h = (r1, h1)" by fastforce
  have one: "keeps_held agent h h1"
    "r1 = Inr () \<Longrightarrow> \<forall>c \<in> set request. has_id c \<Longrightarrow> \<forall>c \<in> set request. \<exists>e. hub_form uni agent c e \<and> held (LogService_store h1) e"
    using lossy_held [OF assms(1) "2.prems"(1) call "2.prems"(3)] by blast+
  show ?case
  proof (cases r1)
    case (Inl e)
    then show ?thesis using "2.prems"(2) call one(1) by auto
  next
    case (Inr u)
    have rest: "post_all post (Suc n) requests h1 = (res, h')" "log_inv (LogService_store h1)"
      using "2.prems"(2) call Inr one(1) by (auto simp: keeps_held_def)
    note more = "2.IH" [OF call [symmetric] Inr "2.prems"(1) rest]
    have "\<exists>e. hub_form uni agent c e \<and> held (LogService_store h') e"
      if c: "c \<in> set request" and ids: "\<forall>c \<in> set request. has_id c" for c
    proof -
      obtain e where e: "hub_form uni agent c e" "held (LogService_store h1) e"
        using one(2) [OF _ ids] c Inr by auto
      moreover have "held (LogService_store h') e"
        using more e hub_form_agent unfolding keeps_held_def by blast
      ultimately show ?thesis by blast
    qed
    then show ?thesis using more keeps_held_trans [OF one(1)] by auto
  qed
qed

section \<open>Shipping\<close>

text \<open>
  The entries of the batch a cycle works on, if the cycle moved the cursor or the checkpoint.
\<close>

definition moved_past ::
  "(time \<Rightarrow> time \<Rightarrow> nat \<Rightarrow> LogEntry list res) \<Rightarrow> (nat \<Rightarrow> time) \<Rightarrow> LogCollector \<times> checkpoint \<Rightarrow> LogCollector \<times> checkpoint
   \<Rightarrow> LogEntry list" where
  "moved_past collect now w w' =
     (case Collector_Collect collect (snd w) now (fst w) of
        (Inl _, _) \<Rightarrow> []
      | (Inr batch, collector) \<Rightarrow>
          if LogCollector_cursor (fst w') = LogCollector_cursor collector \<and> snd w' = snd w then [] else batch)"

text \<open>
  The agent and the hub from the first start of the agent: cycles with any clock, journal, lost
  requests and faults of the disk, and restarts at any time. A crash within a cycle is a cycle
  that fails there, then a restart. The list is what the agent has moved past.
\<close>

inductive shipping ::
  "(string \<Rightarrow> string) \<Rightarrow> (time \<Rightarrow> string) \<Rightarrow> (LogEntry \<Rightarrow> string option) \<Rightarrow> LogEntry sorter \<Rightarrow> (string \<Rightarrow> string) \<Rightarrow> Agent
   \<Rightarrow> LogCollector \<times> checkpoint \<times> LogService \<Rightarrow> LogEntry list \<Rightarrow> bool"
  for sha fmt marshal srt uni agent where
  start: "log_inv (LogService_store h) \<Longrightarrow>
    shipping sha fmt marshal srt uni agent (NewLogCollector now lookback, file, h) []"
| cycle: "shipping sha fmt marshal srt uni agent (collector, file, h) acked \<Longrightarrow> lossy srt uni agent post \<Longrightarrow>
    ship_logs collect (ReportLogs sha fmt marshal post (Agent_ID agent)) now fault (collector, file, h)
      = (res, collector', file', h') \<Longrightarrow>
    shipping sha fmt marshal srt uni agent (collector', file', h')
      (acked @ moved_past collect now (collector, file) (collector', file'))"
| restart: "shipping sha fmt marshal srt uni agent (collector, file, h) acked \<Longrightarrow>
    shipping sha fmt marshal srt uni agent (NewLogCollector now lookback, file, h) acked"

lemma requests_json:
  "concat requests = map f batch \<Longrightarrow> concat (map (map entry_json) requests) = map (\<lambda>entry. entry_json (f entry)) batch"
  by (simp add: comp_def flip: map_concat)

lemma ReportLogs_held:
  assumes srt: "slice_sort srt" and sha: "\<forall>s. length (sha s) = 32" and "lossy srt uni agent post"
    and op: "ReportLogs sha fmt marshal post agentID batch h = (res, h')" and inv: "log_inv (LogService_store h)"
  shows "keeps_held agent h h'
    \<and> (res = Inr () \<longrightarrow> (\<forall>entry \<in> set batch. \<exists>e. hub_form uni agent (entry_json (identified sha fmt agentID entry)) e
         \<and> held (LogService_store h') e))"
proof (cases "splitLogBatch marshal (map (identified sha fmt agentID) batch)")
  case (Inl e)
  then show ?thesis using op inv by (auto simp: ReportLogs_def keeps_held_def)
next
  case (Inr requests)
  have sent: "post_all post 0 (map (map entry_json) requests) h = (res, h')" using op Inr by (simp add: ReportLogs_def)
  note all = requests_json [OF splitLogBatch_concat [OF Inr]]
  have "\<forall>c \<in> set (concat (map (map entry_json) requests)). has_id c" using has_id_identified [OF sha] unfolding all by simp
  with post_all_held [OF srt assms(3) sent inv] show ?thesis unfolding all by auto
qed

lemma Commit_moves:
  assumes "Collector_Commit fault collector file = (res, collector', file')" "LogCollector_pending collector = 0"
  shows "collector' = collector \<and> file' = file"
  using assms by (simp add: Collector_Commit_def)

lemma ship_logs_cases:
  assumes "ship_logs collect report now fault (collector, file, h) = (res, collector', file', h')"
  obtains (not_collected) e where "Collector_Collect collect file now collector = (Inl e, collector')" "file' = file" "h' = h"
      "res \<noteq> None"
  | (not_sent) batch e where "Collector_Collect collect file now collector = (Inr batch, collector')" "report batch h = (Inl e, h')"
      "file' = file" "res \<noteq> None"
  | (sent) batch collector1 commit where "Collector_Collect collect file now collector = (Inr batch, collector1)"
      "batch = [] \<and> h' = h \<or> report batch h = (Inr (), h')" "Collector_Commit fault collector1 file = (commit, collector', file')"
proof -
  obtain r collector1 where collect: "Collector_Collect collect file now collector = (r, collector1)" by fastforce
  show thesis
  proof (cases r)
    case (Inl e)
    then have "collector' = collector1" "file' = file" "h' = h" "res \<noteq> None"
      using assms collect by (auto simp: ship_logs_def)
    then show ?thesis using not_collected collect Inl by blast
  next
    case (Inr batch)
    obtain r2 h2 where rep: "(if batch = [] then (Inr (), h) else report batch h) = (r2, h2)" by fastforce
    obtain r3 collector3 file3 where com: "Collector_Commit fault collector1 file = (r3, collector3, file3)"
      by (metis prod_cases3)
    note calls = collect [unfolded Inr] rep com
    show ?thesis
    proof (cases r2)
      case (Inl e)
      then have "batch \<noteq> []" "report batch h = (Inl e, h2)" using rep by (auto split: if_splits)
      moreover have "h' = h2" "collector' = collector1" "file' = file" "res \<noteq> None"
        using assms calls Inl by (auto simp: ship_logs_def)
      ultimately show ?thesis using not_sent calls by blast
    next
      case (Inr u)
      then have "batch = [] \<and> h2 = h \<or> report batch h = (Inr (), h2)" using rep by (auto split: if_splits)
      moreover have "h' = h2" "collector' = collector3" "file' = file3"
        using assms calls Inr by (auto simp: ship_logs_def split: sum.splits)
      ultimately show ?thesis using sent calls by blast
    qed
  qed
qed

definition shipped :: "(string \<Rightarrow> string) \<Rightarrow> (time \<Rightarrow> string) \<Rightarrow> (string \<Rightarrow> string) \<Rightarrow> Agent \<Rightarrow> LogService \<Rightarrow> LogEntry \<Rightarrow> bool" where
  "shipped sha fmt uni agent h entry \<longleftrightarrow>
     (\<exists>e. hub_form uni agent (entry_json (identified sha fmt (Agent_ID agent) entry)) e \<and> held (LogService_store h) e)"

lemma keeps_held_shipped: "keeps_held agent h h' \<Longrightarrow> shipped sha fmt uni agent h entry \<Longrightarrow> shipped sha fmt uni agent h' entry"
  unfolding shipped_def keeps_held_def using hub_form_agent by blast

lemma ship_logs_shipped:
  assumes srt: "slice_sort srt" and sha: "\<forall>s. length (sha s) = 32" and post: "lossy srt uni agent post"
    and op: "ship_logs collect (ReportLogs sha fmt marshal post (Agent_ID agent)) now fault (collector, file, h)
      = (res, collector', file', h')" and inv: "log_inv (LogService_store h)"
  shows "keeps_held agent h h'
    \<and> (\<forall>entry \<in> set (moved_past collect now (collector, file) (collector', file')). shipped sha fmt uni agent h' entry)"
  using op
proof (cases rule: ship_logs_cases)
  case (not_collected e)
  then show ?thesis using inv by (simp add: keeps_held_def moved_past_def)
next
  case (not_sent batch e)
  then show ?thesis using ReportLogs_held [OF srt sha post not_sent(2) inv] by (simp add: moved_past_def)
next
  case (sent batch collector1 commit)
  have keeps: "keeps_held agent h h'" and held: "\<forall>entry \<in> set batch. shipped sha fmt uni agent h' entry"
    using sent(2) inv ReportLogs_held [OF srt sha post _ inv] by (auto simp: keeps_held_def shipped_def)
  have "set (moved_past collect now (collector, file) (collector', file')) \<subseteq> set batch"
    by (simp add: moved_past_def sent(1))
  with keeps held show ?thesis by blast
qed

text \<open>
  C20. The agent never moves past an entry it has collected before the hub holds it. Through any
  cycles, with requests or answers lost anywhere, failing writes of the checkpoint, crashes and
  restarts: whenever the cursor or the checkpoint file moves, every entry of that cycle's batch,
  as it arrives through JSON and the hub's normalization, is in the hub's store under the id the
  agent gave it, or was pushed out of a full store by newer entries, and that stays so. (Entries
  the platform's program never gave the collector are not covered; the next sections show that
  there are some.) The hypotheses fix the length of a SHA-256 digest and the contract of \<open>sort.Slice\<close>.
\<close>

theorem log_checkpoint_safe:
  assumes "slice_sort srt" and "\<forall>s. length (sha s) = 32"
    and "shipping sha fmt marshal srt uni agent (collector, saved, h) acked"
  shows "log_inv (LogService_store h) \<and> (\<forall>entry \<in> set acked. shipped sha fmt uni agent h entry)"
  using assms(3)
proof (induction "(collector, saved, h)" acked arbitrary: collector saved h rule: shipping.induct)
  case (cycle collector saved h acked post collect now fault res collector' saved' h')
  from ship_logs_shipped [OF assms(1,2) cycle(3,4)] cycle(2) show ?case
    using keeps_held_shipped unfolding keeps_held_def by auto
qed simp_all

section \<open>Retries\<close>

text \<open>The state of the hub after the first requests of a batch were taken, one after the other.\<close>

inductive taken :: "LogEntry sorter \<Rightarrow> (string \<Rightarrow> string) \<Rightarrow> Agent \<Rightarrow> LogService \<Rightarrow> LogEntry list list \<Rightarrow> LogService \<Rightarrow> bool"
  for srt uni agent h where
  none: "taken srt uni agent h [] h"
| more: "taken srt uni agent h requests h1 \<Longrightarrow> ranges it (LogService_store h1) \<Longrightarrow>
    Ingest srt uni it r agent request h1 = (Inr (), h2) \<Longrightarrow> taken srt uni agent h (requests @ [request]) h2"

lemma Ingest_det:
  assumes "ranges it (LogService_store h)" "ranges it' (LogService_store h)" and "\<forall>c \<in> set batch. has_id c"
  shows "Ingest srt uni it r agent batch h = Ingest srt uni it' r' agent batch h"
proof -
  have keys: "stored_keys it = stored_keys it'" using log_keys_ranges assms(1,2) by metis
  have app: "AppendLogs srt it entries (LogService_store h) = AppendLogs srt it' entries (LogService_store h)" for entries
    by (simp only: AppendLogs_def keys)
  have norm: "normalize_batch uni agent i r batch = normalize_batch uni agent i r' batch" for i
    using assms(3) by (intro normalize_batch_ids) (simp add: has_id_def)
  show ?thesis by (simp only: Ingest_def app norm)
qed

lemma taken_det:
  assumes "taken srt uni agent h requests h1" "taken srt uni agent h requests h2" "\<forall>c \<in> set (concat requests). has_id c"
  shows "h1 = h2"
  using assms
proof (induction requests h1 arbitrary: h2 rule: taken.induct)
  case none
  from none.prems(1) show ?case by (cases rule: taken.cases) simp_all
next
  case (more requests h1 it r request h1')
  from more.prems(1) obtain g it' r' where g: "taken srt uni agent h requests g" "ranges it' (LogService_store g)"
    "Ingest srt uni it' r' agent request g = (Inr (), h2)"
    by (cases rule: taken.cases) auto
  have "h1 = g" using more.IH [OF g(1)] more.prems(2) by simp
  then show ?case
    using Ingest_det [OF more.hyps(2), of it' request srt uni r agent r'] g(2,3) more.hyps(3) more.prems(2) by simp
qed

definition known_request :: "(string \<Rightarrow> string) \<Rightarrow> Agent \<Rightarrow> LogService \<Rightarrow> LogEntry list \<Rightarrow> bool" where
  "known_request uni agent h request \<longleftrightarrow>
     valid_agent (trimmed_agent agent) \<and> Agent_Validate agent = None \<and> trim_space (Agent_ID agent) \<noteq> []
   \<and> request \<noteq> [] \<and> length request \<le> MaxBatchEntries
   \<and> (\<forall>r. \<exists>es. normalize_batch uni agent (trim_space (Agent_ID agent)) r request = Inr es
        \<and> log_key ` set es \<subseteq> log_keys (LogService_store h))"

lemma known_request_mono:
  "known_request uni agent h request \<Longrightarrow> log_keys (LogService_store h) \<subseteq> log_keys (LogService_store h')
     \<Longrightarrow> known_request uni agent h' request"
  unfolding known_request_def by (meson subset_trans)

lemma known_request_noop:
  assumes "known_request uni agent h request" "ranges it (LogService_store h)"
  shows "Ingest srt uni it r agent request h = (Inr (), h)"
proof -
  obtain es where "normalize_batch uni agent (trim_space (Agent_ID agent)) r request = Inr es"
    "log_key ` set es \<subseteq> log_keys (LogService_store h)"
    using assms(1) unfolding known_request_def by blast
  then show ?thesis
    using assms unfolding known_request_def by (intro Ingest_known) simp_all
qed

lemma taken_room:
  assumes srt: "slice_sort srt" and inv: "log_inv (LogService_store h)"
    and "taken srt uni agent h requests h1" and ids: "\<forall>c \<in> set (concat requests). has_id c"
    and "length (logs_at (LogService_store h) (trimmed_agent agent)) + length (concat requests) \<le> maxKeptEntries"
  shows "log_inv (LogService_store h1)
    \<and> length (logs_at (LogService_store h1) (trimmed_agent agent))
        \<le> length (logs_at (LogService_store h) (trimmed_agent agent)) + length (concat requests)
    \<and> (\<forall>request \<in> set requests. known_request uni agent h1 request)"
  using assms(3-5)
proof (induction requests h1 rule: taken.induct)
  case none
  then show ?case using inv by simp
next
  case (more requests h1 it r request h2)
  have IH: "log_inv (LogService_store h1)" "length (logs_at (LogService_store h1) (trimmed_agent agent))
        \<le> length (logs_at (LogService_store h) (trimmed_agent agent)) + length (concat requests)"
    "\<forall>request \<in> set requests. known_request uni agent h1 request"
    using more.IH more.prems by auto
  have room: "length (logs_at (LogService_store h1) (trimmed_agent agent)) + length request \<le> maxKeptEntries"
    using IH(2) more.prems(2) by simp
  obtain entries where entries: "normalize_batch uni agent (trim_space (Agent_ID agent)) r request = Inr entries"
    "log_keys (LogService_store h2) = log_keys (LogService_store h1) \<union> log_key ` set entries"
    "length (logs_at (LogService_store h2) (trimmed_agent agent))
       \<le> length (logs_at (LogService_store h1) (trimmed_agent agent)) + length request"
    by (rule Ingest_keeps [OF srt more.hyps(2) IH(1) more.hyps(3) room])
  have "known_request uni agent h2 old" if "known_request uni agent h1 old" for old
    by (rule known_request_mono [OF that]) (simp add: entries(2))
  moreover have "normalize_batch uni agent (trim_space (Agent_ID agent)) r' request = Inr entries" for r'
    using entries(1) normalize_batch_ids [of request uni agent _ r r'] more.prems(1) by (simp add: has_id_def)
  then have "known_request uni agent h2 request"
    unfolding known_request_def using Ingest_valid [OF more.hyps(3)] entries(2) by simp
  ultimately show ?case
    using entries(3) IH keeps_held_def Ingest_held(1) [OF srt more.hyps(2) IH(1) more.hyps(3)] by auto
qed

text \<open>
  One attempt to send requests \<open>i\<close> and later, at a hub that took the first \<open>k\<close>: the hub takes
  some more, all of them when the attempt succeeds.
\<close>

lemma attempt_takes:
  assumes srt: "slice_sort srt" and inv: "log_inv (LogService_store h)" and ids: "\<forall>c \<in> set (concat all). has_id c"
    and room: "length (logs_at (LogService_store h) (trimmed_agent agent)) + length (concat all) \<le> maxKeptEntries"
    and "lossy srt uni agent post" and "post_all post n (drop i all) h1 = (res, h2)"
    and "taken srt uni agent h (take k all) h1" and "i \<le> k" "k \<le> length all"
  shows "\<exists>k'. k' \<le> length all \<and> taken srt uni agent h (take k' all) h2 \<and> (res = Inr () \<longrightarrow> k' = length all)"
  using assms(5-9)
proof (induction "length all - i" arbitrary: i k n h1)
  case 0
  then show ?case by auto
next
  case (Suc d)
  then have i: "i < length all" and all: "drop i all = all ! i # drop (Suc i) all" by (simp_all add: Cons_nth_drop_Suc)
  have "concat all = concat (take k all) @ concat (drop k all)" by (metis append_take_drop_id concat_append)
  then have prefix: "\<forall>c \<in> set (concat (take k all)). has_id c"
    "length (logs_at (LogService_store h) (trimmed_agent agent)) + length (concat (take k all)) \<le> maxKeptEntries"
    using ids room by simp_all
  note state = taken_room [OF srt inv Suc.prems(3) prefix]
  obtain r1 h' where call: "post n (all ! i) h1 = (r1, h')" by fastforce
  have goes_on: "\<exists>k'. k' \<le> length all \<and> taken srt uni agent h (take k' all) h2 \<and> (res = Inr () \<longrightarrow> k' = length all)"
    if k': "taken srt uni agent h (take k' all) h'" "k' \<le> length all" "r1 = Inr () \<longrightarrow> Suc i \<le> k'" for k'
  proof (cases r1)
    case (Inl e)
    then have "h2 = h'" "res \<noteq> Inr ()" using Suc.prems(2) call by (auto simp: all)
    with k' show ?thesis by blast
  next
    case (Inr u)
    then have rest: "post_all post (Suc n) (drop (Suc i) all) h' = (res, h2)" using Suc.prems(2) call by (simp add: all)
    show ?thesis by (rule Suc.hyps(1) [OF _ Suc.prems(1) rest k'(1)]) (use Suc.hyps(2) k' Inr in simp_all)
  qed
  consider (lost) "r1 \<noteq> Inr ()" "h' = h1"
    | (reached) it r answer where "ranges it (LogService_store h1)" "Ingest srt uni it r agent (all ! i) h1 = (answer, h')"
        "r1 = Inr () \<longrightarrow> answer = Inr ()"
    using Suc.prems(1) call state unfolding lossy_def by blast
  then show ?case
  proof cases
    case lost
    with goes_on [of k] Suc.prems show ?thesis by simp
  next
    case reached
    show ?thesis
    proof (cases "i < k")
      case True
      then have "all ! i \<in> set (take k all)" using i by (auto simp: in_set_conv_nth intro!: exI [of _ i])
      then have "h' = h1" using known_request_noop reached(1,2) state by fastforce
      with goes_on [of k] Suc.prems True show ?thesis by simp
    next
      case False
      then have k: "k = i" using Suc.prems(4) by simp
      show ?thesis
      proof (cases answer)
        case (Inl e)
        then have "h' = h1" using reached(2) by (auto elim!: Ingest_cases)
        with goes_on [of k] Suc.prems reached(3) Inl show ?thesis by auto
      next
        case (Inr u)
        have "taken srt uni agent h (take (Suc i) all) h'"
          using taken.more [OF Suc.prems(3) reached(1)] reached(2) Inr i unfolding k by (simp add: take_Suc_conv_app_nth)
        with goes_on [of "Suc i"] i show ?thesis by simp
      qed
    qed
  qed
qed

inductive attempt ::
  "(string \<Rightarrow> string) \<Rightarrow> (time \<Rightarrow> string) \<Rightarrow> (LogEntry \<Rightarrow> string option) \<Rightarrow> LogEntry sorter \<Rightarrow> (string \<Rightarrow> string) \<Rightarrow> Agent
   \<Rightarrow> LogEntry list \<Rightarrow> LogService \<Rightarrow> LogService \<Rightarrow> bool"
  for sha fmt marshal srt uni agent batch where
  "lossy srt uni agent post \<Longrightarrow> ReportLogs sha fmt marshal post (Agent_ID agent) batch h = (res, h')
     \<Longrightarrow> attempt sha fmt marshal srt uni agent batch h h'"

lemma attempts_take:
  assumes srt: "slice_sort srt" and inv: "log_inv (LogService_store h)" and ids: "\<forall>c \<in> set (concat all). has_id c"
    and room: "length (logs_at (LogService_store h) (trimmed_agent agent)) + length (concat all) \<le> maxKeptEntries"
    and split: "splitLogBatch marshal (map (identified sha fmt (Agent_ID agent)) batch) = Inr requests"
    and all: "all = map (map entry_json) requests"
    and "rtranclp (attempt sha fmt marshal srt uni agent batch) h h1"
  shows "\<exists>k \<le> length all. taken srt uni agent h (take k all) h1"
  using assms(7)
proof (induction rule: rtranclp_induct)
  case base
  show ?case by (intro exI [of _ 0]) (simp add: taken.none)
next
  case (step h1 h2)
  then obtain k where k: "k \<le> length all" "taken srt uni agent h (take k all) h1" by blast
  from step(2) obtain post res where post: "lossy srt uni agent post" "post_all post 0 (drop 0 all) h1 = (res, h2)"
    by (cases rule: attempt.cases) (simp add: ReportLogs_def split all)
  from attempt_takes [OF srt inv ids room post k(2) _ k(1)] show ?case by auto
qed

text \<open>
  C24. A batch arrives exactly once. However many attempts to send a batch fail, each cut off at
  any request, before the hub or after it, the first one that succeeds leaves the hub, store and
  live streams, exactly as a single undisturbed delivery would have. The hypotheses say that the
  agent's log is not full and that digests have 32 bytes.
\<close>

theorem log_retry_once:
  assumes "slice_sort srt" and "\<forall>s. length (sha s) = 32" and "log_inv (LogService_store h)"
    and "length (logs_at (LogService_store h) (trimmed_agent agent)) + length batch \<le> maxKeptEntries"
    and "rtranclp (attempt sha fmt marshal srt uni agent batch) h h1"
    and "lossy srt uni agent post" "ReportLogs sha fmt marshal post (Agent_ID agent) batch h1 = (Inr (), h2)"
    and "lossy srt uni agent post'" "ReportLogs sha fmt marshal post' (Agent_ID agent) batch h = (Inr (), h3)"
  shows "h2 = h3"
proof -
  obtain requests where split: "splitLogBatch marshal (map (identified sha fmt (Agent_ID agent)) batch) = Inr requests"
    using assms(7) by (auto simp: ReportLogs_def split: sum.splits)
  define all where "all = map (map entry_json) requests"
  have sent: "post_all post 0 (drop 0 all) h1 = (Inr (), h2)" "post_all post' 0 (drop 0 all) h = (Inr (), h3)"
    using assms(7,9) split by (simp_all add: ReportLogs_def all_def)
  note entries = requests_json [OF splitLogBatch_concat [OF split], folded all_def]
  have ids: "\<forall>c \<in> set (concat all). has_id c" using has_id_identified [OF assms(2)] unfolding entries by simp
  have room: "length (logs_at (LogService_store h) (trimmed_agent agent)) + length (concat all) \<le> maxKeptEntries"
    using assms(4) unfolding entries by simp
  note takes = attempt_takes [OF assms(1,3) ids room]
  obtain k where k: "k \<le> length all" "taken srt uni agent h (take k all) h1"
    using attempts_take [OF assms(1,3) ids room split all_def assms(5)] by blast
  have "taken srt uni agent h all h2" using takes [OF assms(6) sent(1) k(2) _ k(1)] by auto
  moreover have "taken srt uni agent h all h3"
    using takes [OF assms(8) sent(2), of 0] taken.none by auto
  ultimately show ?thesis using taken_det ids by blast
qed

section \<open>Entries that are never collected\<close>

text \<open>
  The agent alone, with any hub: cycles and restarts that find the checkpoint file.
\<close>

inductive agent_step :: "(time \<Rightarrow> time \<Rightarrow> nat \<Rightarrow> LogEntry list res) \<Rightarrow> LogCollector \<times> checkpoint \<Rightarrow> LogCollector \<times> checkpoint \<Rightarrow> bool"
  for collect where
  cycle: "ship_logs collect report now fault (collector, saved, h :: LogService) = (res, collector', saved', h') \<Longrightarrow>
    agent_step collect (collector, saved) (collector', saved')"
| restart: "agent_step collect (collector, saved) (NewLogCollector now lookback, saved)"

text \<open>All that the agent will ever send again is younger than \<open>t\<close>.\<close>

definition beyond :: "time \<Rightarrow> LogCollector \<times> checkpoint \<Rightarrow> bool" where
  "beyond t w \<longleftrightarrow>
     (\<exists>cursor. snd w = Some (Inr cursor) \<and> t \<le> cursor \<and> cursor \<noteq> 0)
   \<and> (LogCollector_initialized (fst w) \<longrightarrow> t \<le> LogCollector_cursor (fst w))
   \<and> (LogCollector_pending (fst w) \<noteq> 0 \<longrightarrow> LogCollector_initialized (fst w) \<and> t \<le> LogCollector_pending (fst w)
        \<and> (\<forall>entry \<in> set (LogCollector_batch (fst w)). t < LogEntry_OccurredAt entry))"

lemma beyond_collect:
  assumes "beyond t (collector, saved)" and "Collector_Collect collect saved now collector = (res, collector')"
  shows "beyond t (collector', saved) \<and> (\<forall>batch. res = Inr batch \<longrightarrow> (\<forall>entry \<in> set batch. t < LogEntry_OccurredAt entry))"
proof -
  obtain r c where init: "Collector_initialize saved (now 0) collector = (r, c)" by fastforce
  have b: "beyond t (c, saved)" "r = Inr () \<Longrightarrow> LogCollector_initialized c"
    using assms(1) init by (auto simp: Collector_initialize_def Checkpoint_Load_def beyond_def split: if_splits)
  show ?thesis
  proof (cases "r = Inr () \<and> LogCollector_cursor c \<noteq> 0 \<and> LogCollector_pending c = 0 \<and> LogCollector_cursor c < now 1
      \<and> (\<exists>entries. collect (LogCollector_cursor c) (now 1) MaxBatchEntries = Inr entries)")
    case True
    then obtain entries where entries: "collect (LogCollector_cursor c) (now 1) MaxBatchEntries = Inr entries" by blast
    have "\<forall>entry \<in> set (window_entries (LogCollector_cursor c) (now 1) entries). t < LogEntry_OccurredAt entry"
      using set_window_entries [of "LogCollector_cursor c" "now 1" entries] b True by (force simp: beyond_def)
    then show ?thesis
      using assms(2) init True entries b by (auto simp: Collector_Collect_def beyond_def Let_def)
  next
    case False
    then have "collector' = c" "\<And>batch. res = Inr batch \<Longrightarrow> batch = [] \<or> LogCollector_pending c \<noteq> 0 \<and> batch = LogCollector_batch c"
      using assms(2) init by (auto simp: Collector_Collect_def Let_def split: sum.splits if_splits)
    moreover have "\<forall>entry \<in> set (LogCollector_batch c). t < LogEntry_OccurredAt entry" if "LogCollector_pending c \<noteq> 0"
      using b(1) that by (simp add: beyond_def)
    ultimately show ?thesis using b(1) by (metis empty_iff list.set(1))
  qed
qed

lemma beyond_commit:
  assumes "beyond t (collector, saved)" and "Collector_Commit fault collector saved = (res, collector', saved')"
  shows "beyond t (collector', saved')"
  using assms
  by (auto simp: Collector_Commit_def Checkpoint_Save_def beyond_def split: if_splits fault.splits)

lemma committed_beyond:
  assumes "Collector_Commit fault collector saved = (Inr (), collector', saved')"
    and "LogCollector_pending collector \<noteq> 0" "t \<le> LogCollector_pending collector"
  shows "beyond t (collector', saved')"
proof (cases fault)
  case Fine
  with assms have "collector' = collector\<lparr>LogCollector_cursor := LogCollector_pending collector, LogCollector_pending := 0,
      LogCollector_batch := []\<rparr>" "saved' = Some (Inr (LogCollector_pending collector))"
    by (auto simp: Collector_Commit_def Checkpoint_Save_def)
  with assms(2,3) show ?thesis by (simp add: beyond_def)
qed (use assms in \<open>simp_all add: Collector_Commit_def Checkpoint_Save_def\<close>)

lemma beyond_step: "agent_step collect w w' \<Longrightarrow> beyond t w \<Longrightarrow> beyond t w'"
proof (induction rule: agent_step.induct)
  case (cycle report now fault collector saved h res collector' saved' h')
  from cycle(1) show ?case
  proof (cases rule: ship_logs_cases)
    case (not_collected e)
    from beyond_collect [OF cycle(2) this(1)] this(2) show ?thesis by simp
  next
    case (not_sent batch e)
    from beyond_collect [OF cycle(2) this(1)] this(3) show ?thesis by simp
  next
    case (sent batch collector1 commit)
    from beyond_collect [OF cycle(2) this(1)] have "beyond t (collector1, saved)" by (rule conjunct1)
    from beyond_commit [OF this sent(3)] show ?thesis .
  qed
qed (simp add: beyond_def NewLogCollector_def)

lemma beyond_steps: "rtranclp (agent_step collect) w w' \<Longrightarrow> beyond t w \<Longrightarrow> beyond t w'"
  by (induction rule: rtranclp_induct) (blast intro: beyond_step)+

text \<open>
  Entries of the last fraction of a second are lost. \<open>journalctl --until=@s\<close> gives nothing
  younger than the second \<open>s\<close>, which is the end of the window rounded down, while the cursor moves
  to the end itself. So when a cycle ends its window at \<open>until\<close> and commits it, an entry the host
  logged after the last whole second up to \<open>until\<close> is neither in that batch nor in any later one,
  whatever happens, restarts included.
\<close>

theorem log_fraction_lost:
  assumes journal: "\<And>a b n entries entry. collect_journal json journalctl a b n = Inr entries \<Longrightarrow> entry \<in> set entries
      \<Longrightarrow> LogEntry_OccurredAt entry \<le> unix_epoch + unix_seconds b * second"
    and "LogCollector_initialized collector" "LogCollector_pending collector = 0"
    and "LogCollector_cursor collector < now 1" "0 < now 1"
    and "Collector_Collect (collect_journal json journalctl) saved now collector = (Inr batch, collector1)"
    and "Collector_Commit fault collector1 saved = (Inr (), collector2, saved2)"
    and "unix_epoch + unix_seconds (now 1) * second < t" "t \<le> now 1"
    and "rtranclp (agent_step (collect_journal json journalctl)) (collector2, saved2) (collector3, saved3)"
    and "Collector_Collect (collect_journal json journalctl) saved3 now' collector3 = (Inr batch3, collector4)"
  shows "(\<forall>entry \<in> set batch. LogEntry_OccurredAt entry \<noteq> t) \<and> (\<forall>entry \<in> set batch3. LogEntry_OccurredAt entry \<noteq> t)"
proof -
  let ?collect = "collect_journal json journalctl"
  have init: "Collector_initialize saved (now 0) collector = (Inr (), collector)"
    using assms(2) by (simp add: Collector_initialize_def)
  consider (zero) "LogCollector_cursor collector = 0"
    | (window) entries where "LogCollector_cursor collector \<noteq> 0" "?collect (LogCollector_cursor collector) (now 1) MaxBatchEntries = Inr entries"
        "batch = window_entries (LogCollector_cursor collector) (now 1) entries"
        "collector1 = collector\<lparr>LogCollector_pending := now 1, LogCollector_batch := batch\<rparr>"
    using assms(3,4,6) init by (auto simp: Collector_Collect_def Let_def split: if_splits sum.splits)
  then show ?thesis
  proof cases
    case zero
    then show ?thesis using assms(6) init by (simp add: Collector_Collect_def)
  next
    case window
    have "LogEntry_OccurredAt entry < t" if "entry \<in> set batch" for entry
      using that set_window_entries [of "LogCollector_cursor collector" "now 1" entries] journal [OF window(2)] assms(8)
      unfolding window(3) by fastforce
    moreover have "beyond t (collector2, saved2)"
      by (rule committed_beyond [OF assms(7)]) (use assms(5,9) in \<open>simp_all add: window(4)\<close>)
    from beyond_steps [OF assms(10) this] have "beyond t (collector3, saved3)" .
    from beyond_collect [OF this assms(11)] have "t < LogEntry_OccurredAt entry" if "entry \<in> set batch3" for entry
      using that by simp
    ultimately show ?thesis by (metis less_irrefl)
  qed
qed

section \<open>An entry that stops everything\<close>

text \<open>
  A message of the journal that the hub refuses: what the agent truncates it to is, after JSON,
  empty or longer than the hub's limit. Any text over 64 KiB that does not start with a UTF-8 rune
  is one, and one of many bytes that are not UTF-8, which JSON makes three times as long.
\<close>

definition poison :: "string \<Rightarrow> bool" where
  "poison message \<longleftrightarrow>
     (let sent = trim_space (json_text (truncateUTF8 message (64 * 1024))) in sent = [] \<or> 64 * 1024 < length sent)"

lemma poison_no_rune: "rune_len message = None \<Longrightarrow> 64 * 1024 < length message \<Longrightarrow> poison message"
  by (simp add: poison_def truncateUTF8_no_rune)

lemma poison_unsendable:
  assumes "journal_entry json rcd = Some entry" and "poison (decodeJournalMessage json (journal_Message rcd))"
  shows "\<not> hub_form uni agent (entry_json (identified sha fmt agentID entry)) e"
proof -
  have "LogEntry_Message entry = truncateUTF8 (decodeJournalMessage json (journal_Message rcd)) (64 * 1024)"
    using assms(1) by (auto simp: journal_entry_def new_log_def Let_def split: option.splits if_splits)
  with assms(2) show ?thesis
    by (auto simp: hub_form_def identified_def entry_json_def normalize_entry_def poison_def Let_def split: option.splits)
qed

text \<open>The agent and the hub from some moment on: cycles, restarts, and anything else at the hub.\<close>

inductive ship_step ::
  "(string \<Rightarrow> string) \<Rightarrow> (time \<Rightarrow> string) \<Rightarrow> (LogEntry \<Rightarrow> string option) \<Rightarrow> LogEntry sorter \<Rightarrow> (string \<Rightarrow> string) \<Rightarrow> Agent
   \<Rightarrow> (time \<Rightarrow> time \<Rightarrow> nat \<Rightarrow> LogEntry list res)
   \<Rightarrow> LogCollector \<times> checkpoint \<times> LogService \<Rightarrow> LogCollector \<times> checkpoint \<times> LogService \<Rightarrow> bool"
  for sha fmt marshal srt uni agent collect where
  cycle: "lossy srt uni agent post \<Longrightarrow>
    ship_logs collect (ReportLogs sha fmt marshal post (Agent_ID agent)) now fault w = (res, w') \<Longrightarrow>
    ship_step sha fmt marshal srt uni agent collect w w'"
| restart: "ship_step sha fmt marshal srt uni agent collect (collector, saved, h) (NewLogCollector now lookback, saved, h)"
| hub: "log_inv (LogService_store h') \<Longrightarrow>
    ship_step sha fmt marshal srt uni agent collect (collector, saved, h) (collector, saved, h')"

text \<open>The collector stands at \<open>cursor\<close>: what it has collected from there, if anything, holds the entry.\<close>

definition stands_at :: "time \<Rightarrow> LogEntry \<Rightarrow> LogCollector \<Rightarrow> bool" where
  "stands_at cursor entry collector \<longleftrightarrow>
     (LogCollector_initialized collector \<longrightarrow> LogCollector_cursor collector = cursor)
   \<and> (LogCollector_pending collector \<noteq> 0 \<longrightarrow> LogCollector_initialized collector \<and> entry \<in> set (LogCollector_batch collector))"

definition gives_again :: "(time \<Rightarrow> time \<Rightarrow> nat \<Rightarrow> LogEntry list res) \<Rightarrow> time \<Rightarrow> LogEntry \<Rightarrow> bool" where
  "gives_again collect cursor entry \<longleftrightarrow>
     (\<forall>until entries. cursor < until \<longrightarrow> collect cursor until MaxBatchEntries = Inr entries
        \<longrightarrow> entry \<in> set (window_entries cursor until entries))"

lemma stands_collect:
  assumes "stands_at cursor entry collector" "cursor \<noteq> 0" "gives_again collect cursor entry"
    and "Collector_Collect collect (Some (Inr cursor)) now collector = (r, collector')"
  shows "stands_at cursor entry collector'
    \<and> (\<forall>batch. r = Inr batch \<longrightarrow> entry \<in> set batch \<or> batch = [] \<and> LogCollector_pending collector' = 0 \<and> \<not> cursor < now 1)"
proof -
  obtain r0 c where init: "Collector_initialize (Some (Inr cursor)) (now 0) collector = (r0, c)" by fastforce
  have c: "stands_at cursor entry c" "r0 = Inr () \<Longrightarrow> LogCollector_initialized c \<and> LogCollector_cursor c = cursor"
    using init assms(1,2) by (auto simp: Collector_initialize_def Checkpoint_Load_def stands_at_def split: if_splits)
  show ?thesis
  proof (cases r0)
    case (Inl e)
    then show ?thesis using assms(4) init c(1) by (auto simp: Collector_Collect_def)
  next
    case (Inr u)
    then have at: "LogCollector_initialized c" "LogCollector_cursor c = cursor" using c(2) by simp_all
    show ?thesis
    proof (cases "LogCollector_pending c \<noteq> 0 \<or> \<not> cursor < now 1")
      case True
      then show ?thesis using assms(2,4) init Inr at c(1)
        by (auto simp: Collector_Collect_def stands_at_def split: if_splits)
    next
      case False
      then show ?thesis using assms(2-4) init Inr at
        by (auto simp: Collector_Collect_def stands_at_def gives_again_def Let_def split: sum.splits)
    qed
  qed
qed

lemma stands_cycle:
  assumes srt: "slice_sort srt" and sha: "\<forall>s. length (sha s) = 32" and post: "lossy srt uni agent post"
    and unsendable: "\<And>e. \<not> hub_form uni agent (entry_json (identified sha fmt (Agent_ID agent) entry)) e"
    and stands: "stands_at cursor entry collector" "cursor \<noteq> 0" "gives_again collect cursor entry"
    and inv: "log_inv (LogService_store h)"
    and op: "ship_logs collect (ReportLogs sha fmt marshal post (Agent_ID agent)) now fault (collector, Some (Inr cursor), h)
      = (res, collector', saved', h')"
  shows "saved' = Some (Inr cursor) \<and> stands_at cursor entry collector' \<and> log_inv (LogService_store h')
    \<and> (res = None \<longrightarrow> \<not> cursor < now 1)"
  using op
proof (cases rule: ship_logs_cases)
  case (not_collected e)
  with stands_collect [OF stands not_collected(1)] inv show ?thesis by auto
next
  case (not_sent batch e)
  from stands_collect [OF stands not_sent(1)] ReportLogs_held [OF srt sha post not_sent(2) inv] not_sent(3,4)
  show ?thesis by (auto simp: keeps_held_def)
next
  case (sent batch collector1 commit)
  note collected = stands_collect [OF stands sent(1)]
  have "entry \<notin> set batch"
    using sent(2) ReportLogs_held [OF srt sha post _ inv] unsendable by fastforce
  with collected have "batch = []" "LogCollector_pending collector1 = 0" "\<not> cursor < now 1" by auto
  then show ?thesis
    using collected sent(2,3) inv ReportLogs_held [OF srt sha post _ inv]
    by (auto simp: Collector_Commit_def keeps_held_def)
qed


section \<open>Examples\<close>

definition toy_sha :: "string \<Rightarrow> string" where "toy_sha s = replicate 32 (CHR 0xAA)"
definition toy_fmt :: "time \<Rightarrow> string" where "toy_fmt t = []"
definition toy_marshal :: "LogEntry \<Rightarrow> string option" where "toy_marshal entry = Some []"

lemma toy_sha_length: "\<forall>s. length (toy_sha s) = 32" by (simp add: toy_sha_def)

lemma toy_hex: "hex_encode (replicate n (CHR 0xAA)) = replicate (2 * n) (CHR ''a'')"
proof (induction n)
  case (Suc n)
  have "hex_encode [CHR 0xAA] = ''aa''" by code_simp
  then show ?case using Suc by (simp add: hex_encode_def)
qed (simp add: hex_encode_def)

lemma toy_identified: "identified toy_sha toy_fmt i toy_log = toy_log"
  using toy_hex [of 16] by (simp add: identified_def deterministicLogID_def toy_sha_def toy_log_def)

definition toy_post :: "nat \<Rightarrow> LogEntry list \<Rightarrow> LogService \<Rightarrow> (unit, LogService) op" where
  "toy_post n batch h =
     (if LogService_store h = Map.empty then Ingest insertion_sort (\<lambda>s. s) [] (\<lambda>_. None) toy_log_agent batch h
      else if LogService_store h = LogService_store toy_logged
      then Ingest insertion_sort (\<lambda>s. s) [(toy_log_agent, [toy_log])] (\<lambda>_. None) toy_log_agent batch h
      else (Inl (ErrOther ''no route to host''), h))"

definition unanswered :: "(nat \<Rightarrow> LogEntry list \<Rightarrow> LogService \<Rightarrow> (unit, LogService) op) \<Rightarrow> nat \<Rightarrow> LogEntry list \<Rightarrow> LogService \<Rightarrow> (unit, LogService) op" where
  "unanswered post n batch h = (Inl (ErrOther ''timeout''), snd (post n batch h))"

lemma toy_post_lossy: "lossy insertion_sort (\<lambda>s. s) toy_log_agent toy_post"
  unfolding lossy_def
proof (intro allI impI)
  fix n candidate h res h'
  assume call: "toy_post n candidate h = (res, h')"
  have "LogService_store toy_follower = Map.empty"
    by (simp add: toy_follower_def NewLogService_def NewLogStore_def)
  then have it: "ranges [] (LogService_store h)" if "LogService_store h = Map.empty" using toy_ranges(1) that by simp
  have it': "ranges [(toy_log_agent, [toy_log])] (LogService_store h)" if "LogService_store h = LogService_store toy_logged"
    using toy_ranges(2) that by simp
  show "res \<noteq> Inr () \<and> h' = h \<or> (\<exists>it r answer. ranges it (LogService_store h)
      \<and> Ingest insertion_sort (\<lambda>s. s) it r toy_log_agent candidate h = (answer, h') \<and> (res = Inr () \<longrightarrow> answer = Inr ()))"
  proof (cases "LogService_store h = Map.empty")
    case True
    with call it show ?thesis by (intro disjI2 exI [of _ "[]"] exI [of _ "\<lambda>_. None"] exI [of _ res]) (simp add: toy_post_def)
  next
    case False
    then show ?thesis
    proof (cases "LogService_store h = LogService_store toy_logged")
      case True
      with False call it' show ?thesis
        by (intro disjI2 exI [of _ "[(toy_log_agent, [toy_log])]"] exI [of _ "\<lambda>_. None"] exI [of _ res]) (simp add: toy_post_def)
    qed (use False call in \<open>auto simp: toy_post_def\<close>)
  qed
qed

lemma unanswered_lossy:
  assumes "lossy srt uni agent post"
  shows "lossy srt uni agent (unanswered post)"
  unfolding lossy_def
proof (intro allI impI)
  fix n candidate h res h'
  assume inv: "log_inv (LogService_store h)" and call: "unanswered post n candidate h = (res, h')"
  obtain res0 where "post n candidate h = (res0, h')" "res \<noteq> Inr ()"
    using call by (cases "post n candidate h") (auto simp: unanswered_def)
  with assms inv show "res \<noteq> Inr () \<and> h' = h \<or> (\<exists>it r answer. ranges it (LogService_store h)
      \<and> Ingest srt uni it r agent candidate h = (answer, h') \<and> (res = Inr () \<longrightarrow> answer = Inr ()))"
    unfolding lossy_def by blast
qed

lemma toy_log_json: "entry_json toy_log = toy_log"
  by (simp add: entry_json_def toy_log_def is_ascii_def list_all_iff)

lemma toy_sent:
  "ReportLogs toy_sha toy_fmt toy_marshal toy_post i [toy_log] toy_follower = (Inr (), toy_logged)"
  "ReportLogs toy_sha toy_fmt toy_marshal toy_post i [toy_log] toy_logged = (Inr (), toy_logged)"
  "ReportLogs toy_sha toy_fmt toy_marshal (unanswered toy_post) i [toy_log] toy_follower = (Inl (ErrOther ''report logs''), toy_logged)"
proof -
  have split: "splitLogBatch toy_marshal [toy_log] = Inr [[toy_log]]"
    by (simp add: splitLogBatch_def toy_marshal_def MaxBatchEntries_def envelopeBytes_def batch_prefix_def batch_suffix_def
        maxRequestBodyBytes_def)
  have "LogService_store toy_follower = Map.empty" "LogService_store toy_logged \<noteq> Map.empty"
    by (simp_all add: toy_follower_def NewLogService_def NewLogStore_def toy_logged_def)
  then have "toy_post 0 [toy_log] toy_follower = (Inr (), toy_logged)" "toy_post 0 [toy_log] toy_logged = (Inr (), toy_logged)"
    using toy_ingested [of "\<lambda>s. s" "\<lambda>_. None"] log_resend_witness by (simp_all add: toy_post_def)
  then show "ReportLogs toy_sha toy_fmt toy_marshal toy_post i [toy_log] toy_follower = (Inr (), toy_logged)"
    "ReportLogs toy_sha toy_fmt toy_marshal toy_post i [toy_log] toy_logged = (Inr (), toy_logged)"
    "ReportLogs toy_sha toy_fmt toy_marshal (unanswered toy_post) i [toy_log] toy_follower = (Inl (ErrOther ''report logs''), toy_logged)"
    by (simp_all add: ReportLogs_def toy_identified split unanswered_def toy_log_json)
qed

theorem log_retry_once_witness:
  "snd (ReportLogs toy_sha toy_fmt toy_marshal toy_post (Agent_ID toy_log_agent) [toy_log] toy_logged)
    = snd (ReportLogs toy_sha toy_fmt toy_marshal toy_post (Agent_ID toy_log_agent) [toy_log] toy_follower)"
proof -
  have "attempt toy_sha toy_fmt toy_marshal insertion_sort (\<lambda>s. s) toy_log_agent [toy_log] toy_follower toy_logged"
    by (rule attempt.intros [OF unanswered_lossy [OF toy_post_lossy] toy_sent(3)])
  moreover have "length (logs_at (LogService_store toy_follower) (trimmed_agent toy_log_agent)) + length [toy_log] \<le> maxKeptEntries"
    by (simp add: toy_follower_def NewLogService_def NewLogStore_def logs_at_def maxKeptEntries_def)
  ultimately have "toy_logged = toy_logged"
    using log_retry_once [OF insertion.slice_sort_axioms toy_sha_length toy_inv _ r_into_rtranclp
      toy_post_lossy toy_sent(2) toy_post_lossy toy_sent(1)] by blast
  then show ?thesis by (simp add: toy_sent)
qed

section \<open>More examples\<close>

definition toy_record :: journalRecord where
  "toy_record = \<lparr>journal_Cursor = ''c'', journal_Timestamp = ''0'', journal_Unit = ''u'', journal_Identifier = [],
     journal_Command = [], journal_Priority = ''3'', journal_Message = ''up''\<rparr>"

definition toy_json :: JournalJSON where
  "toy_json = \<lparr>JSON_records = (\<lambda>_. ([toy_record], False)), JSON_text = Some, JSON_bytes = (\<lambda>_. None)\<rparr>"

definition toy_entry :: LogEntry where
  "toy_entry = new_log unix_epoch CollectorJournald ''u'' LogError ''up'' ''c''"

definition toy_journalctl :: "int \<Rightarrow> int \<Rightarrow> nat \<Rightarrow> string res" where
  "toy_journalctl since until limit = (if 0 \<le> until then Inr [] else Inl (ErrOther ''exit status 1''))"

lemma toy_journal: "collect_journal toy_json toy_journalctl since until limit =
    (if 0 \<le> unix_seconds until then Inr [toy_entry] else Inl (ErrOther ''journalctl''))"
proof -
  have num: "parse_int64 ''0'' = Some 0" "parse_int64 ''3'' = Some 3" by code_simp+
  have trims: "trim_space ''u'' = ''u''" "trim_space ''up'' = ''up''" by (rule trim_space_plain; simp add: plain_char_def)+
  have "journal_entry toy_json toy_record = Some toy_entry"
    by (simp add: journal_entry_def toy_record_def toy_json_def num trims decodeJournalMessage_def syslogSeverity_def
        truncateUTF8_def toy_entry_def int64_def Let_def)
  then show ?thesis
    by (simp add: collect_journal_def toy_journalctl_def parseJournalEntries_def toy_json_def List.map_filter_def)
qed

theorem log_batch_split_witness:
  "\<exists>requests. splitLogBatch (log_entry_json (\<lambda>_. Some ''0'')) (map (identified toy_sha toy_fmt ''agent'')
       (window_entries 0 (unix_epoch + second) [toy_entry])) = Inr requests
     \<and> concat requests = map (identified toy_sha toy_fmt ''agent'') (window_entries 0 (unix_epoch + second) [toy_entry])"
proof -
  have "0 \<le> unix_seconds (unix_epoch + second)" by (simp add: unix_seconds_def second_def)
  then have "collect_journal toy_json toy_journalctl 0 (unix_epoch + second) 1000 = Inr [toy_entry]
      \<or> collect_events (\<lambda>s. s) (\<lambda>_. ([], False)) (\<lambda>_ _ _. Inr []) 0 (unix_epoch + second) 1000 = Inr [toy_entry]"
    by (simp add: toy_journal)
  from log_batch_split [OF this, of "\<lambda>_. Some ''0''" toy_sha toy_fmt "''agent''"] show ?thesis by auto
qed

definition toy_collector :: LogCollector where
  "toy_collector = \<lparr>LogCollector_cursor = unix_epoch - 1, LogCollector_pending = 0, LogCollector_batch = [], LogCollector_initialized = True\<rparr>"

theorem log_fraction_lost_witness:
  "\<exists>batch collector1 collector2 saved2.
     Collector_Collect (collect_journal toy_json toy_journalctl) None (\<lambda>_. unix_epoch + 1500000000) toy_collector = (Inr batch, collector1)
   \<and> Collector_Commit Fine collector1 None = (Inr (), collector2, saved2) \<and> batch \<noteq> []
   \<and> (\<forall>batch3 collector4. Collector_Collect (collect_journal toy_json toy_journalctl) saved2 (\<lambda>_. unix_epoch + 3000000000) collector2
        = (Inr batch3, collector4) \<longrightarrow> (\<forall>entry \<in> set batch3. LogEntry_OccurredAt entry \<noteq> unix_epoch + 1200000000))"
proof -
  let ?now = "unix_epoch + 1500000000 :: time"
  have sec: "unix_seconds ?now = 1" "0 < unix_epoch" by (simp_all add: unix_seconds_def unix_epoch_def second_def)
  have bound: "LogEntry_OccurredAt entry \<le> unix_epoch + unix_seconds b * second"
    if "collect_journal toy_json toy_journalctl a b n = Inr entries" "entry \<in> set entries" for a b n entries entry
    using that by (auto simp: toy_journal toy_entry_def new_log_def second_def split: if_splits)
  have window: "window_entries (unix_epoch - 1) ?now [toy_entry] = [toy_entry]"
    by (simp add: window_entries_def toy_entry_def new_log_def last_n_def MaxBatchEntries_def)
  define collector1 where "collector1 = toy_collector\<lparr>LogCollector_pending := ?now, LogCollector_batch := [toy_entry]\<rparr>"
  have "Collector_initialize None (unix_epoch + 1500000000) toy_collector = (Inr (), toy_collector)"
    "LogCollector_cursor toy_collector = unix_epoch - 1" "LogCollector_pending toy_collector = 0"
    by (simp_all add: Collector_initialize_def toy_collector_def)
  moreover have "unix_epoch - 1 \<noteq> 0" by (simp add: unix_epoch_def second_def)
  ultimately have collect: "Collector_Collect (collect_journal toy_json toy_journalctl) None (\<lambda>_. ?now) toy_collector
      = (Inr [toy_entry], collector1)"
    using sec window by (simp add: Collector_Collect_def toy_journal collector1_def Let_def)
  have pending: "LogCollector_pending collector1 = ?now" by (simp add: collector1_def)
  obtain collector2 saved2 where commit: "Collector_Commit Fine collector1 None = (Inr (), collector2, saved2)"
    using sec(2) pending by (simp add: Collector_Commit_def Checkpoint_Save_def)
  have "\<forall>entry \<in> set batch3. LogEntry_OccurredAt entry \<noteq> unix_epoch + 1200000000"
    if later: "Collector_Collect (collect_journal toy_json toy_journalctl) saved2 (\<lambda>_. unix_epoch + 3000000000) collector2 = (Inr batch3, collector4)"
    for batch3 collector4
    by (rule conjunct2 [OF log_fraction_lost [OF bound _ _ _ _ collect commit _ _ rtranclp.rtrancl_refl later]])
      (use sec in \<open>simp_all add: toy_collector_def second_def\<close>)
  with collect commit show ?thesis by blast
qed

text \<open>A cycle that ships an entry, and one that is stuck at a message of bytes.\<close>

definition toy_start :: LogCollector where "toy_start = NewLogCollector 4 2"

lemma toy_cycle:
  "ship_logs (\<lambda>_ _ _. Inr [toy_log]) (ReportLogs toy_sha toy_fmt toy_marshal toy_post (Agent_ID toy_log_agent)) (\<lambda>_. 7) Fine
     (toy_start, None, toy_follower)
   = (None, \<lparr>LogCollector_cursor = 7, LogCollector_pending = 0, LogCollector_batch = [], LogCollector_initialized = True\<rparr>,
      Some (Inr 7), toy_logged)"
  "moved_past (\<lambda>_ _ _. Inr [toy_log]) (\<lambda>_. 7) (toy_start, None)
     (\<lparr>LogCollector_cursor = 7, LogCollector_pending = 0, LogCollector_batch = [], LogCollector_initialized = True\<rparr>, Some (Inr 7))
   = [toy_log]"
proof -
  have "window_entries 2 7 [toy_log] = [toy_log]"
    by (simp add: window_entries_def toy_log_def last_n_def MaxBatchEntries_def)
  then have "Collector_Collect (\<lambda>_ _ _. Inr [toy_log]) None (\<lambda>_. 7) toy_start = (Inr [toy_log],
      \<lparr>LogCollector_cursor = 2, LogCollector_pending = 7, LogCollector_batch = [toy_log], LogCollector_initialized = True\<rparr>)"
    by (simp add: Collector_Collect_def toy_start_def NewLogCollector_def Collector_initialize_def Checkpoint_Load_def Let_def)
  then show "ship_logs (\<lambda>_ _ _. Inr [toy_log]) (ReportLogs toy_sha toy_fmt toy_marshal toy_post (Agent_ID toy_log_agent)) (\<lambda>_. 7) Fine
     (toy_start, None, toy_follower)
   = (None, \<lparr>LogCollector_cursor = 7, LogCollector_pending = 0, LogCollector_batch = [], LogCollector_initialized = True\<rparr>,
      Some (Inr 7), toy_logged)"
    "moved_past (\<lambda>_ _ _. Inr [toy_log]) (\<lambda>_. 7) (toy_start, None)
     (\<lparr>LogCollector_cursor = 7, LogCollector_pending = 0, LogCollector_batch = [], LogCollector_initialized = True\<rparr>, Some (Inr 7))
   = [toy_log]"
    by (simp_all add: ship_logs_def toy_sent Collector_Commit_def Checkpoint_Save_def moved_past_def)
qed

theorem log_checkpoint_safe_witness:
  "shipped toy_sha toy_fmt (\<lambda>s. s) toy_log_agent toy_logged toy_log"
proof -
  have "shipping toy_sha toy_fmt toy_marshal insertion_sort (\<lambda>s. s) toy_log_agent (toy_start, None, toy_follower) []"
    unfolding toy_start_def by (rule shipping.start [OF toy_inv])
  from shipping.cycle [OF this toy_post_lossy toy_cycle(1)] log_checkpoint_safe [OF insertion.slice_sort_axioms toy_sha_length]
  show ?thesis unfolding toy_cycle(2) by fastforce
qed

definition toy_bytes :: JournalJSON where
  "toy_bytes = \<lparr>JSON_records = (\<lambda>_. ([], False)), JSON_text = (\<lambda>_. None), JSON_bytes = (\<lambda>_. Some (binary_text 65536))\<rparr>"

lemma toy_bytes_message: "decodeJournalMessage toy_bytes raw = binary_text 65536"
  by (simp add: decodeJournalMessage_def toy_bytes_def)


end
