(* ===== verification/Agent_Client.thy ===== *)
theory Agent_Client
  imports Agent_Logs Enrollment Telemetry Inventory Serviceinventory
begin

text \<open>
  \<open>internal/agent/identity.go\<close>, \<open>client.go\<close>, \<open>runner.go\<close> and \<open>config.go\<close>: the identity the agent
  keeps in four files, the requests it makes to the hub, and the cycle of reports.

  Parameters: \<open>Wire\<close> has \<open>tls.X509KeyPair\<close>, the JSON encoders of bodies and decoders of answers;
  \<open>http\<close> is the transport with the hub behind it. A write of a file replaces it atomically and can
  fail before or after that; a crash within a sequence of writes leaves the files as a failure at
  the same place does, and the process keeps nothing in memory between two calls.
\<close>

section \<open>Parameters\<close>

record Wire =
  Wire_key_pair :: "string \<Rightarrow> string \<Rightarrow> bool"
  Wire_metadata :: "string \<Rightarrow> time \<Rightarrow> string option"
  Wire_parse_metadata :: "string \<Rightarrow> (string \<times> time) option"
  Wire_enroll :: "EnrollRequest \<Rightarrow> string option"
  Wire_csr :: "string \<Rightarrow> string option"
  Wire_facts :: "Facts \<Rightarrow> string option"
  Wire_sample :: "Sample \<Rightarrow> string option"
  Wire_snapshot :: "Snapshot \<Rightarrow> string option"
  Wire_logs :: "LogEntry list \<Rightarrow> string option"
  Wire_event :: "EventRequest \<Rightarrow> string option"
  Wire_parse_identity :: "string \<Rightarrow> AgentIdentity option"
  Wire_parse_job :: "string \<Rightarrow> Job option"

record HTTPRequest =
  HTTP_Method :: string
  HTTP_Path :: string
  HTTP_Body :: string
  HTTP_JSON :: bool
  HTTP_Certificate :: "(string \<times> string) option"

text \<open>A transport answers with status and body, or fails, having reached the hub or not.\<close>

type_synonym 'h transport = "HTTPRequest \<Rightarrow> 'h \<Rightarrow> (nat \<times> string, 'h) op"

section \<open>The identity store\<close>

type_synonym files = "string \<rightharpoonup> string"

definition identityFile :: string where "identityFile = ''identity.json''"
definition privateKeyFile :: string where "privateKeyFile = ''agent.key''"
definition certificateFile :: string where "certificateFile = ''agent.crt''"
definition agentCAFile :: string where "agentCAFile = ''agent-ca.crt''"

definition TLSCertificate :: "Wire \<Rightarrow> Identity \<Rightarrow> bool" where
  "TLSCertificate wire identity = Wire_key_pair wire (Identity_CertificatePEM identity) (Identity_PrivateKeyPEM identity)"

text \<open>
  \<open>protect\<close> is the outcome of \<open>protectStateDirectory\<close>, \<open>broken\<close> an error of reading a file that
  exists. Reading answers None for a file that does not exist.
\<close>

definition read_file :: "(string \<Rightarrow> err option) \<Rightarrow> string \<Rightarrow> files \<Rightarrow> string option res" where
  "read_file broken path files =
     (case files path of
        None \<Rightarrow> Inr None
      | Some contents \<Rightarrow> (case broken path of None \<Rightarrow> Inr (Some contents) | Some e \<Rightarrow> Inl e))"

definition set_part :: "string \<Rightarrow> string \<Rightarrow> Identity \<Rightarrow> Identity" where
  "set_part path contents identity =
     (if path = certificateFile then identity\<lparr>Identity_CertificatePEM := contents\<rparr>
      else if path = privateKeyFile then identity\<lparr>Identity_PrivateKeyPEM := contents\<rparr>
      else identity\<lparr>Identity_CACertificatePEM := contents\<rparr>)"

fun read_parts :: "(string \<Rightarrow> err option) \<Rightarrow> files \<Rightarrow> string list \<Rightarrow> Identity \<Rightarrow> Identity option res" where
  "read_parts broken files [] identity = Inr (Some identity)"
| "read_parts broken files (path # paths) identity =
     (case read_file broken path files of
        Inl e \<Rightarrow> Inl e
      | Inr None \<Rightarrow> Inr None
      | Inr (Some contents) \<Rightarrow> read_parts broken files paths (set_part path contents identity))"

text \<open>
  None stands for an error that \<open>os.IsNotExist\<close> recognises. \<open>order\<close> is the order in which the map of
  the three files is visited.
\<close>

definition Identity_Load ::
  "Wire \<Rightarrow> err option \<Rightarrow> (string \<Rightarrow> err option) \<Rightarrow> string list \<Rightarrow> files \<Rightarrow> Identity option res" where
  "Identity_Load wire protect broken order files =
     (case protect of
        Some e \<Rightarrow> Inl (ErrOther ''protect agent state directory'')
      | None \<Rightarrow>
          (case read_file broken identityFile files of
             Inl e \<Rightarrow> Inl e
           | Inr None \<Rightarrow> Inr None
           | Inr (Some metadata) \<Rightarrow>
               (case Wire_parse_metadata wire metadata of
                  None \<Rightarrow> Inl (ErrOther ''decode agent identity'')
                | Some (agentID, expiresAt) \<Rightarrow>
                    (case read_parts broken files order
                            \<lparr>Identity_AgentID = agentID, Identity_CertificatePEM = [], Identity_PrivateKeyPEM = [],
                             Identity_CACertificatePEM = [], Identity_ExpiresAt = expiresAt\<rparr> of
                       Inl e \<Rightarrow> Inl e
                     | Inr None \<Rightarrow> Inr None
                     | Inr (Some identity) \<Rightarrow>
                         if agentID = [] \<or> expiresAt = 0 then Inl (ErrOther ''stored agent identity is incomplete'')
                         else if \<not> TLSCertificate wire identity then Inl (ErrOther ''load agent certificate'')
                         else Inr (Some identity)))))"

definition atomicWrite :: "fault \<Rightarrow> string \<Rightarrow> string \<Rightarrow> files \<Rightarrow> (unit, files) op" where
  "atomicWrite fault path contents files =
     (case fault of
        Fine \<Rightarrow> (Inr (), files(path \<mapsto> contents))
      | Refused e \<Rightarrow> (Inl e, files)
      | Unacknowledged e \<Rightarrow> (Inl e, files(path \<mapsto> contents)))"

fun write_all :: "(nat \<Rightarrow> fault) \<Rightarrow> nat \<Rightarrow> (string \<times> string) list \<Rightarrow> files \<Rightarrow> (unit, files) op" where
  "write_all faults n [] files = (Inr (), files)"
| "write_all faults n ((path, contents) # rest) files =
     (case atomicWrite (faults n) path contents files of
        (Inl e, files) \<Rightarrow> (Inl e, files)
      | (Inr _, files) \<Rightarrow> write_all faults (Suc n) rest files)"

text \<open>\<open>mkdir\<close> is the outcome of making and protecting the directory; \<open>faults\<close> are those of the writes.\<close>

definition Identity_Save :: "Wire \<Rightarrow> err option \<Rightarrow> (nat \<Rightarrow> fault) \<Rightarrow> Identity \<Rightarrow> files \<Rightarrow> (unit, files) op" where
  "Identity_Save wire mkdir faults identity files =
     (if Identity_AgentID identity = [] \<or> Identity_ExpiresAt identity = 0
      then (Inl (ErrOther ''agent identity is incomplete''), files)
      else if \<not> TLSCertificate wire identity then (Inl (ErrOther ''load agent certificate''), files)
      else (case mkdir of
          Some e \<Rightarrow> (Inl e, files)
        | None \<Rightarrow>
            (case Wire_metadata wire (Identity_AgentID identity) (Identity_ExpiresAt identity) of
               None \<Rightarrow> (Inl (ErrOther ''encode agent identity''), files)
             | Some metadata \<Rightarrow>
                 write_all faults 0
                   [(privateKeyFile, Identity_PrivateKeyPEM identity), (certificateFile, Identity_CertificatePEM identity),
                    (agentCAFile, Identity_CACertificatePEM identity), (identityFile, metadata @ [CHR 0x0A])] files)))"

section \<open>Requests\<close>

text \<open>
  \<open>payload\<close>: None for no body, else the encoded body if it could be encoded. \<open>decode\<close>: None for no
  destination. An answer is read up to 1 MiB.
\<close>

definition requestStatuses ::
  "Wire \<Rightarrow> 'h transport \<Rightarrow> string \<Rightarrow> string \<Rightarrow> string option option \<Rightarrow> Identity option \<Rightarrow> nat list \<Rightarrow> (string \<Rightarrow> 'a option) option
   \<Rightarrow> 'h \<Rightarrow> (nat \<times> 'a option, 'h) op" where
  "requestStatuses wire http method path payload identity expected decode h =
     (if payload = Some None then (Inl (ErrOther ''json''), h)
      else if \<exists>i. identity = Some i \<and> \<not> TLSCertificate wire i then (Inl (ErrOther ''load agent certificate''), h)
      else
        (case http \<lparr>HTTP_Method = method, HTTP_Path = path,
                   HTTP_Body = (case payload of Some (Some body) \<Rightarrow> body | _ \<Rightarrow> []), HTTP_JSON = (payload \<noteq> None),
                   HTTP_Certificate = map_option (\<lambda>i. (Identity_CertificatePEM i, Identity_PrivateKeyPEM i)) identity\<rparr> h of
           (Inl e, h) \<Rightarrow> (Inl e, h)
         | (Inr (status, body), h) \<Rightarrow>
             if status \<notin> set expected then (Inl (ErrOther ''hub returned''), h)
             else (case decode of
                 None \<Rightarrow> (Inr (status, None), h)
               | Some f \<Rightarrow>
                   if status = 204 then (Inr (status, None), h)
                   else (case f (take (2 ^ 20) body) of
                       None \<Rightarrow> (Inl (ErrOther ''decode hub response''), h)
                     | Some v \<Rightarrow> (Inr (status, Some v), h)))))"

definition request_nothing ::
  "Wire \<Rightarrow> 'h transport \<Rightarrow> string \<Rightarrow> string \<Rightarrow> string option \<Rightarrow> Identity \<Rightarrow> nat \<Rightarrow> 'h \<Rightarrow> (unit, 'h) op" where
  "request_nothing wire http method path body identity expected h =
     (case requestStatuses wire http method path (Some body) (Some identity) [expected] (None :: (string \<Rightarrow> unit option) option) h of
        (Inl e, h) \<Rightarrow> (Inl e, h)
      | (Inr _, h) \<Rightarrow> (Inr (), h))"

definition ReportInventory :: "Wire \<Rightarrow> 'h transport \<Rightarrow> Identity \<Rightarrow> Facts \<Rightarrow> 'h \<Rightarrow> (unit, 'h) op" where
  "ReportInventory wire http identity facts =
     request_nothing wire http ''PUT'' ''/api/v1/agents/inventory'' (Wire_facts wire facts) identity 204"

definition ReportTelemetry :: "Wire \<Rightarrow> 'h transport \<Rightarrow> Identity \<Rightarrow> Sample \<Rightarrow> 'h \<Rightarrow> (unit, 'h) op" where
  "ReportTelemetry wire http identity sample =
     request_nothing wire http ''POST'' ''/api/v1/agents/telemetry'' (Wire_sample wire sample) identity 204"

definition ReportServices :: "Wire \<Rightarrow> 'h transport \<Rightarrow> Identity \<Rightarrow> Snapshot \<Rightarrow> 'h \<Rightarrow> (unit, 'h) op" where
  "ReportServices wire http identity snapshot =
     request_nothing wire http ''PUT'' ''/api/v1/agents/services'' (Wire_snapshot wire snapshot) identity 204"

definition post_logs :: "Wire \<Rightarrow> 'h transport \<Rightarrow> Identity \<Rightarrow> nat \<Rightarrow> LogEntry list \<Rightarrow> 'h \<Rightarrow> (unit, 'h) op" where
  "post_logs wire http identity n candidate =
     request_nothing wire http ''POST'' ''/api/v1/agents/logs'' (Wire_logs wire candidate) identity 204"

definition ClaimNextJob_request :: "Wire \<Rightarrow> 'h transport \<Rightarrow> Identity \<Rightarrow> 'h \<Rightarrow> (Job option, 'h) op" where
  "ClaimNextJob_request wire http identity h =
     (case requestStatuses wire http ''GET'' ''/api/v1/agents/jobs/next'' None (Some identity) [200, 204] (Some (Wire_parse_job wire)) h of
        (Inl e, h) \<Rightarrow> (Inl (ErrOther ''claim next job''), h)
      | (Inr (status, job), h) \<Rightarrow> if status = 204 then (Inr None, h) else (Inr job, h))"

definition ReportJobEvent_request :: "Wire \<Rightarrow> 'h transport \<Rightarrow> Identity \<Rightarrow> string \<Rightarrow> EventRequest \<Rightarrow> 'h \<Rightarrow> (unit, 'h) op" where
  "ReportJobEvent_request wire http identity jobID event =
     request_nothing wire http ''POST'' (''/api/v1/agents/jobs/'' @ jobID @ ''/events'') (Wire_event wire event) identity 200"

section \<open>Enrolling and renewing\<close>

text \<open>
  What one call reads from outside: the clock, the new private key and the request for its
  certificate (\<open>generateIdentityMaterial\<close>), and the outcomes of the file system.
\<close>

record ClientEnv =
  ClientEnv_now :: "nat \<Rightarrow> time"
  ClientEnv_material :: "(string \<times> string) res"
  ClientEnv_protect :: "err option"
  ClientEnv_broken :: "string \<Rightarrow> err option"
  ClientEnv_order :: "string list"
  ClientEnv_mkdir :: "err option"
  ClientEnv_faults :: "nat \<Rightarrow> fault"

definition renewalWindow :: duration where "renewalWindow = hour"

definition identityFromEnrollment :: "AgentIdentity \<Rightarrow> string \<Rightarrow> Identity" where
  "identityFromEnrollment response privateKeyPEM =
     \<lparr>Identity_AgentID = AgentIdentity_AgentID response, Identity_CertificatePEM = AgentIdentity_CertificatePEM response,
      Identity_PrivateKeyPEM = privateKeyPEM, Identity_CACertificatePEM = AgentIdentity_CACertificatePEM response,
      Identity_ExpiresAt = AgentIdentity_ExpiresAt response\<rparr>"

definition client_enroll ::
  "Wire \<Rightarrow> 'h transport \<Rightarrow> string \<Rightarrow> ClientEnv \<Rightarrow> string \<Rightarrow> string \<Rightarrow> files \<times> 'h \<Rightarrow> (Identity, files \<times> 'h) op" where
  "client_enroll wire http token env name operatingSystem w =
     (case ClientEnv_material env of
        Inl e \<Rightarrow> (Inl e, w)
      | Inr (privateKeyPEM, csrPEM) \<Rightarrow>
          (case requestStatuses wire http ''POST'' ''/api/v1/agents/enroll''
                  (Some (Wire_enroll wire \<lparr>EnrollRequest_BootstrapToken = token, EnrollRequest_Name = name,
                     EnrollRequest_OperatingSystem = operatingSystem, EnrollRequest_CSRPEM = csrPEM\<rparr>))
                  None [201] (Some (Wire_parse_identity wire)) (snd w) of
             (Inr (_, Some response), h) \<Rightarrow>
               let identity = identityFromEnrollment response privateKeyPEM in
               if \<not> TLSCertificate wire identity then (Inl (ErrOther ''validate issued agent certificate''), fst w, h)
               else (case Identity_Save wire (ClientEnv_mkdir env) (ClientEnv_faults env) identity (fst w) of
                   (Inl e, files) \<Rightarrow> (Inl e, files, h)
                 | (Inr _, files) \<Rightarrow> (Inr identity, files, h))
           | (_, h) \<Rightarrow> (Inl (ErrOther ''enroll agent''), fst w, h)))"

definition client_renew ::
  "Wire \<Rightarrow> 'h transport \<Rightarrow> ClientEnv \<Rightarrow> Identity \<Rightarrow> files \<times> 'h \<Rightarrow> (Identity, files \<times> 'h) op" where
  "client_renew wire http env current w =
     (case ClientEnv_material env of
        Inl e \<Rightarrow> (Inl e, w)
      | Inr (privateKeyPEM, csrPEM) \<Rightarrow>
          (case requestStatuses wire http ''POST'' ''/api/v1/agents/renew'' (Some (Wire_csr wire csrPEM)) (Some current) [200]
                  (Some (Wire_parse_identity wire)) (snd w) of
             (Inr (_, Some response), h) \<Rightarrow>
               let identity = identityFromEnrollment response privateKeyPEM in
               if Identity_AgentID identity \<noteq> Identity_AgentID current
               then (Inl (ErrOther ''renewed identity changed agent ID''), fst w, h)
               else (case Identity_Save wire (ClientEnv_mkdir env) (ClientEnv_faults env) identity (fst w) of
                   (Inl e, files) \<Rightarrow> (Inl e, files, h)
                 | (Inr _, files) \<Rightarrow> (Inr identity, files, h))
           | (_, h) \<Rightarrow> (Inl (ErrOther ''renew agent identity''), fst w, h)))"

definition EnsureIdentity ::
  "Wire \<Rightarrow> 'h transport \<Rightarrow> string \<Rightarrow> ClientEnv \<Rightarrow> string \<Rightarrow> string \<Rightarrow> files \<times> 'h \<Rightarrow> (Identity, files \<times> 'h) op" where
  "EnsureIdentity wire http token env name operatingSystem w =
     (case Identity_Load wire (ClientEnv_protect env) (ClientEnv_broken env) (ClientEnv_order env) (fst w) of
        Inl e \<Rightarrow> (Inl (ErrOther ''load agent identity''), w)
      | Inr (Some identity) \<Rightarrow>
          if \<not> ClientEnv_now env 0 < Identity_ExpiresAt identity
          then (Inl (ErrOther ''agent certificate expired; a new enrollment token is required''), w)
          else if sub_time (Identity_ExpiresAt identity) (ClientEnv_now env 1) \<le> renewalWindow
          then client_renew wire http env identity w
          else (Inr identity, w)
      | Inr None \<Rightarrow>
          if trim_space token = [] then (Inl (ErrOther ''BAZUSOP_AGENT_ENROLLMENT_TOKEN is required for first enrollment''), w)
          else client_enroll wire http token env name operatingSystem w)"

end
