(* ===== verification/Agent_Runner.thy ===== *)
theory Agent_Runner
  imports Agent_Client
begin

text \<open>
  \<open>internal/agent/config.go\<close>, \<open>runner.go\<close> and the wiring of \<open>cmd/bazusop-agent/main.go\<close>: the
  configuration of the agent, the cycle that reports everything once, and the agent that
  \<open>main\<close> builds out of the client, the collectors and the job executor.

  Parameters: \<open>parse_url\<close> (\<open>url.Parse\<close>), \<open>parse_ip\<close> (\<open>net.ParseIP\<close>, giving \<open>IsLoopback\<close>),
  \<open>parse_duration\<close> (\<open>time.ParseDuration\<close>), the environment, \<open>join\<close> (\<open>filepath.Join\<close>).
\<close>

section \<open>Configuration\<close>

record AgentConfig =
  AgentConfig_HubURL :: string
  AgentConfig_EnrollmentToken :: string
  AgentConfig_StateDir :: string
  AgentConfig_ServerCAFile :: string
  AgentConfig_ReportInterval :: duration

record HubURL =
  HubURL_Scheme :: string
  HubURL_Host :: string
  HubURL_Hostname :: string
  HubURL_User :: bool
  HubURL_RawQuery :: string
  HubURL_Fragment :: string

definition defaultReportInterval :: duration where "defaultReportInterval = 30 * second"

definition trim_right_slash :: "string \<Rightarrow> string" where
  "trim_right_slash s = rev (dropWhile ((=) (CHR ''/'')) (rev s))"

definition configuredStateDir :: "bool \<Rightarrow> (string list \<Rightarrow> string) \<Rightarrow> (string \<Rightarrow> string) \<Rightarrow> string" where
  "configuredStateDir windows join getenv =
     (let v = trim_space (getenv ''BAZUSOP_AGENT_STATE_DIR'') in
      if v \<noteq> [] then v
      else if windows then
        (let programData = trim_space (getenv ''ProgramData'') in
         if programData \<noteq> [] then join [programData, ''bazUSOP'', ''agent'']
         else join [''C:'' @ backslash # ''ProgramData'', ''bazUSOP'', ''agent''])
      else ''/var/lib/bazusop-agent'')"

definition LoadConfig ::
  "(string \<Rightarrow> duration option) \<Rightarrow> bool \<Rightarrow> (string list \<Rightarrow> string) \<Rightarrow> (string \<Rightarrow> string) \<Rightarrow> AgentConfig" where
  "LoadConfig parse_duration windows join getenv =
     (let v = trim_space (getenv ''BAZUSOP_AGENT_REPORT_INTERVAL'');
          interval = (if v \<noteq> [] then (case parse_duration v of None \<Rightarrow> 0 | Some parsed \<Rightarrow> parsed) else defaultReportInterval)
      in \<lparr>AgentConfig_HubURL = trim_right_slash (trim_space (getenv ''BAZUSOP_AGENT_HUB_URL'')),
          AgentConfig_EnrollmentToken = getenv ''BAZUSOP_AGENT_ENROLLMENT_TOKEN'',
          AgentConfig_StateDir = configuredStateDir windows join getenv,
          AgentConfig_ServerCAFile = trim_space (getenv ''BAZUSOP_AGENT_SERVER_CA_FILE''),
          AgentConfig_ReportInterval = interval\<rparr>)"

text \<open>\<open>fold_equal\<close> is \<open>strings.EqualFold\<close>.\<close>

definition loopbackHost :: "(string \<Rightarrow> string \<Rightarrow> bool) \<Rightarrow> (string \<Rightarrow> bool option) \<Rightarrow> string \<Rightarrow> bool" where
  "loopbackHost fold_equal parse_ip host = (if fold_equal host ''localhost'' then True else parse_ip host = Some True)"

definition AgentConfig_Validate ::
  "(string \<Rightarrow> string \<Rightarrow> bool) \<Rightarrow> (string \<Rightarrow> bool option) \<Rightarrow> (string \<Rightarrow> HubURL option) \<Rightarrow> AgentConfig \<Rightarrow> err option" where
  "AgentConfig_Validate fold_equal parse_ip parse_url configuration =
     (case parse_url (AgentConfig_HubURL configuration) of
        None \<Rightarrow> Some (ErrOther ''BAZUSOP_AGENT_HUB_URL must be an absolute HTTP(S) URL without credentials, query, or fragment'')
      | Some parsed \<Rightarrow>
          if HubURL_Host parsed = [] \<or> HubURL_Scheme parsed \<noteq> ''https'' \<and> HubURL_Scheme parsed \<noteq> ''http''
             \<or> HubURL_User parsed \<or> HubURL_RawQuery parsed \<noteq> [] \<or> HubURL_Fragment parsed \<noteq> []
          then Some (ErrOther ''BAZUSOP_AGENT_HUB_URL must be an absolute HTTP(S) URL without credentials, query, or fragment'')
          else if HubURL_Scheme parsed = ''http'' \<and> \<not> loopbackHost fold_equal parse_ip (HubURL_Hostname parsed)
          then Some (ErrOther ''BAZUSOP_AGENT_HUB_URL must use HTTPS outside loopback development'')
          else if trim_space (AgentConfig_StateDir configuration) = [] then Some (ErrOther ''BAZUSOP_AGENT_STATE_DIR is required'')
          else if AgentConfig_ReportInterval configuration < 10 * second \<or> hour < AgentConfig_ReportInterval configuration
          then Some (ErrOther ''BAZUSOP_AGENT_REPORT_INTERVAL must be between 10s and 1h'')
          else None)"

text \<open>\<open>loadServerRoots\<close>: None is the system's pool; reading the file and parsing it are parameters.\<close>

definition loadServerRoots :: "(string \<Rightarrow> string res) \<Rightarrow> (string \<Rightarrow> 'pool option) \<Rightarrow> string \<Rightarrow> 'pool option res" where
  "loadServerRoots read parse_pool path =
     (if path = [] then Inr None
      else (case read path of
          Inl e \<Rightarrow> Inl (ErrOther ''read hub server CA'')
        | Inr contents \<Rightarrow>
            (case parse_pool contents of
               None \<Rightarrow> Inl (ErrOther ''hub server CA file does not contain a certificate'')
             | Some pool \<Rightarrow> Inr (Some pool))))"

definition NewClient ::
  "(AgentConfig \<Rightarrow> err option) \<Rightarrow> (string \<Rightarrow> string res) \<Rightarrow> (string \<Rightarrow> 'pool option) \<Rightarrow> AgentConfig \<Rightarrow> (AgentConfig \<times> 'pool option) res" where
  "NewClient validate read parse_pool configuration =
     (case validate configuration of
        Some e \<Rightarrow> Inl e
      | None \<Rightarrow>
          (case loadServerRoots read parse_pool (AgentConfig_ServerCAFile configuration) of
             Inl e \<Rightarrow> Inl e
           | Inr roots \<Rightarrow> Inr (configuration, roots)))"

section \<open>The runner\<close>

text \<open>
  The interfaces of \<open>Runner\<close>, on a world \<open>'w\<close>. Processing a job can end the process (\<open>Crash\<close>). A
  batch of logs is the list of its entries.
\<close>

record 'w Runner =
  Runner_EnsureIdentity :: "string \<Rightarrow> string \<Rightarrow> 'w \<Rightarrow> (Identity, 'w) op"
  Runner_ReportInventory :: "Identity \<Rightarrow> Facts \<Rightarrow> 'w \<Rightarrow> (unit, 'w) op"
  Runner_ReportTelemetry :: "Identity \<Rightarrow> Sample \<Rightarrow> 'w \<Rightarrow> (unit, 'w) op"
  Runner_ReportServices :: "Identity \<Rightarrow> Snapshot \<Rightarrow> 'w \<Rightarrow> (unit, 'w) op"
  Runner_ReportLogs :: "Identity \<Rightarrow> LogEntry list \<Rightarrow> 'w \<Rightarrow> (unit, 'w) op"
  Runner_Collector :: "'w \<Rightarrow> (Facts, 'w) op"
  Runner_Telemetry :: "'w \<Rightarrow> (Sample, 'w) op"
  Runner_Services :: "'w \<Rightarrow> (Snapshot, 'w) op"
  Runner_LogsCollect :: "'w \<Rightarrow> (LogEntry list, 'w) op"
  Runner_LogsCommit :: "'w \<Rightarrow> (unit, 'w) op"
  Runner_ProcessNext :: "Identity \<Rightarrow> 'w \<Rightarrow> unit outcome \<times> 'w"
  Runner_ReportInterval :: duration
  Runner_Hostname :: string
  Runner_OperatingSystem :: string

text \<open>The three parts that collect and report, with what they append to the errors.\<close>

definition collect_and_report ::
  "string \<Rightarrow> ('w \<Rightarrow> ('a, 'w) op) \<Rightarrow> ('a \<Rightarrow> 'w \<Rightarrow> (unit, 'w) op) \<Rightarrow> 'w \<Rightarrow> err list \<times> 'w" where
  "collect_and_report message collect report w =
     (case collect w of
        (Inl e, w) \<Rightarrow> ([ErrOther message], w)
      | (Inr v, w) \<Rightarrow> (case report v w of (Inl e, w) \<Rightarrow> ([e], w) | (Inr _, w) \<Rightarrow> ([], w)))"

definition report_logs :: "'w Runner \<Rightarrow> Identity \<Rightarrow> 'w \<Rightarrow> err list \<times> 'w" where
  "report_logs runner identity w =
     (case Runner_LogsCollect runner w of
        (Inl e, w) \<Rightarrow> ([ErrOther ''collect host logs''], w)
      | (Inr batch, w) \<Rightarrow>
          if 0 < length batch then
            (case Runner_ReportLogs runner identity batch w of
               (Inl e, w) \<Rightarrow> ([e], w)
             | (Inr _, w) \<Rightarrow> (case Runner_LogsCommit runner w of (Inl e, w) \<Rightarrow> ([e], w) | (Inr _, w) \<Rightarrow> ([], w)))
          else (case Runner_LogsCommit runner w of (Inl e, w) \<Rightarrow> ([e], w) | (Inr _, w) \<Rightarrow> ([], w)))"

text \<open>\<open>errors.Join\<close> of no error is nil: the empty list.\<close>

definition Runner_report :: "'w Runner \<Rightarrow> 'w \<Rightarrow> err list outcome \<times> 'w" where
  "Runner_report runner w =
     (case Runner_EnsureIdentity runner (Runner_Hostname runner) (Runner_OperatingSystem runner) w of
        (Inl e, w) \<Rightarrow> (Ret [ErrOther ''ensure agent identity''], w)
      | (Inr identity, w) \<Rightarrow>
          (case collect_and_report ''collect host inventory'' (Runner_Collector runner) (Runner_ReportInventory runner identity) w of
             (inventory, w) \<Rightarrow>
          (case collect_and_report ''collect host telemetry'' (Runner_Telemetry runner) (Runner_ReportTelemetry runner identity) w of
             (telemetry, w) \<Rightarrow>
          (case collect_and_report ''collect managed services'' (Runner_Services runner) (Runner_ReportServices runner identity) w of
             (services, w) \<Rightarrow>
          (case report_logs runner identity w of
             (logs, w) \<Rightarrow>
          (case Runner_ProcessNext runner identity w of
             (Crash, w) \<Rightarrow> (Crash, w)
           | (Fail e, w) \<Rightarrow> (Ret (inventory @ telemetry @ services @ logs @ [ErrOther ''process remote job'']), w)
           | (Ret _, w) \<Rightarrow> (Ret (inventory @ telemetry @ services @ logs), w)))))))"

text \<open>
  \<open>Run\<close> reports once and then at every tick until it is cancelled: one runner per report, the last
  one before the cancellation. The errors are logged. An incomplete runner returns an error.
\<close>

fun report_ticks :: "'w Runner list \<Rightarrow> 'w \<Rightarrow> err list list outcome \<times> 'w" where
  "report_ticks [] w = (Ret [], w)"
| "report_ticks (runner # runners) w =
     and_then (Runner_report runner w) (\<lambda>errors w. and_then (report_ticks runners w) (\<lambda>logged w. (Ret (errors # logged), w)))"

definition Runner_Run :: "duration \<Rightarrow> 'w Runner list \<Rightarrow> 'w \<Rightarrow> err list list outcome \<times> 'w" where
  "Runner_Run interval runners w =
     (if interval \<le> 0 then (Fail (ErrOther ''agent runner is incomplete''), w) else report_ticks runners w)"

section \<open>The agent that \<open>main\<close> builds\<close>

text \<open>The state of the agent: its files, its log collector, and the hub.\<close>

record 'h AgentWorld =
  AgentWorld_files :: files
  AgentWorld_collector :: LogCollector
  AgentWorld_checkpoint :: checkpoint
  AgentWorld_journal :: "jobExecutionState res option"
  AgentWorld_executed :: "Job list"
  AgentWorld_power :: nat
  AgentWorld_hub :: 'h

text \<open>Functions that stay the same, and what one cycle reads from outside.\<close>

record AgentLib =
  AgentLib_wire :: Wire
  AgentLib_sha :: "string \<Rightarrow> string"
  AgentLib_nano :: "time \<Rightarrow> string"
  AgentLib_marshal :: "LogEntry \<Rightarrow> string option"
  AgentLib_ed25519 :: Ed25519
  AgentLib_rfc3339 :: rfc3339
  AgentLib_pinned :: PinnedX509

record 'h Cycle =
  Cycle_http :: "'h transport"
  Cycle_client :: ClientEnv
  Cycle_facts :: "Facts res"
  Cycle_sample :: "Sample res"
  Cycle_services :: "Snapshot res"
  Cycle_collect :: "time \<Rightarrow> time \<Rightarrow> nat \<Rightarrow> LogEntry list res"
  Cycle_now :: "nat \<Rightarrow> time"
  Cycle_commit :: fault
  Cycle_run :: "nat \<Rightarrow> Job \<Rightarrow> string \<times> string option"
  Cycle_fault :: "nat \<Rightarrow> fault"

definition on_hub :: "('h \<Rightarrow> ('a, 'h) op) \<Rightarrow> 'h AgentWorld \<Rightarrow> ('a, 'h AgentWorld) op" where
  "on_hub f w = (case f (AgentWorld_hub w) of (result, h) \<Rightarrow> (result, w\<lparr>AgentWorld_hub := h\<rparr>))"

definition agent_job_env :: "AgentLib \<Rightarrow> 'h Cycle \<Rightarrow> Identity \<Rightarrow> 'h JobEnv" where
  "agent_job_env lib cycle identity =
     \<lparr>JobEnv_claim = (\<lambda>_. ClaimNextJob_request (AgentLib_wire lib) (Cycle_http cycle) identity),
      JobEnv_report = (\<lambda>_. ReportJobEvent_request (AgentLib_wire lib) (Cycle_http cycle) identity),
      JobEnv_run = Cycle_run cycle, JobEnv_fault = Cycle_fault cycle\<rparr>"

definition agent_process :: "AgentLib \<Rightarrow> 'h Cycle \<Rightarrow> Identity \<Rightarrow> 'h AgentWorld \<Rightarrow> unit outcome \<times> 'h AgentWorld" where
  "agent_process lib cycle identity w =
     (case ProcessNext (AgentLib_ed25519 lib) (AgentLib_rfc3339 lib) (AgentLib_pinned lib) (agent_job_env lib cycle identity) identity
        \<lparr>JobHost_hub = AgentWorld_hub w, JobHost_file = AgentWorld_journal w, JobHost_executed = AgentWorld_executed w,
         JobHost_power = AgentWorld_power w\<rparr> of
        (result, host) \<Rightarrow>
          (result, w\<lparr>AgentWorld_hub := JobHost_hub host, AgentWorld_journal := JobHost_file host,
                     AgentWorld_executed := JobHost_executed host, AgentWorld_power := JobHost_power host\<rparr>))"

definition agent_ensure :: "AgentLib \<Rightarrow> string \<Rightarrow> 'h Cycle \<Rightarrow> string \<Rightarrow> string \<Rightarrow> 'h AgentWorld \<Rightarrow> (Identity, 'h AgentWorld) op" where
  "agent_ensure lib token cycle name os w =
     (case EnsureIdentity (AgentLib_wire lib) (Cycle_http cycle) token (Cycle_client cycle) name os (AgentWorld_files w, AgentWorld_hub w) of
        (result, files, h) \<Rightarrow> (result, w\<lparr>AgentWorld_files := files, AgentWorld_hub := h\<rparr>))"

definition agent_collect :: "'h Cycle \<Rightarrow> 'h AgentWorld \<Rightarrow> (LogEntry list, 'h AgentWorld) op" where
  "agent_collect cycle w =
     (case Collector_Collect (Cycle_collect cycle) (AgentWorld_checkpoint w) (Cycle_now cycle) (AgentWorld_collector w) of
        (result, collector) \<Rightarrow> (result, w\<lparr>AgentWorld_collector := collector\<rparr>))"

definition agent_commit :: "'h Cycle \<Rightarrow> 'h AgentWorld \<Rightarrow> (unit, 'h AgentWorld) op" where
  "agent_commit cycle w =
     (case Collector_Commit (Cycle_commit cycle) (AgentWorld_collector w) (AgentWorld_checkpoint w) of
        (result, collector, checkpoint) \<Rightarrow> (result, w\<lparr>AgentWorld_collector := collector, AgentWorld_checkpoint := checkpoint\<rparr>))"

definition agent_runner :: "AgentLib \<Rightarrow> AgentConfig \<Rightarrow> string \<Rightarrow> string \<Rightarrow> 'h Cycle \<Rightarrow> 'h AgentWorld Runner" where
  "agent_runner lib configuration hostname os cycle =
     (let wire = AgentLib_wire lib; http = Cycle_http cycle in
      \<lparr>Runner_EnsureIdentity = agent_ensure lib (AgentConfig_EnrollmentToken configuration) cycle,
       Runner_ReportInventory = (\<lambda>identity facts. on_hub (ReportInventory wire http identity facts)),
       Runner_ReportTelemetry = (\<lambda>identity sample. on_hub (ReportTelemetry wire http identity sample)),
       Runner_ReportServices = (\<lambda>identity snapshot. on_hub (ReportServices wire http identity snapshot)),
       Runner_ReportLogs = (\<lambda>identity batch. on_hub (ReportLogs (AgentLib_sha lib) (AgentLib_nano lib) (AgentLib_marshal lib)
          (post_logs wire http identity) (Identity_AgentID identity) batch)),
       Runner_Collector = (\<lambda>w. (Cycle_facts cycle, w)), Runner_Telemetry = (\<lambda>w. (Cycle_sample cycle, w)),
       Runner_Services = (\<lambda>w. (Cycle_services cycle, w)),
       Runner_LogsCollect = agent_collect cycle, Runner_LogsCommit = agent_commit cycle,
       Runner_ProcessNext = agent_process lib cycle,
       Runner_ReportInterval = AgentConfig_ReportInterval configuration, Runner_Hostname = hostname, Runner_OperatingSystem = os\<rparr>)"

definition agent_run ::
  "AgentLib \<Rightarrow> AgentConfig \<Rightarrow> string \<Rightarrow> string \<Rightarrow> 'h Cycle list \<Rightarrow> 'h AgentWorld \<Rightarrow> err list list outcome \<times> 'h AgentWorld" where
  "agent_run lib configuration hostname os cycles =
     Runner_Run (AgentConfig_ReportInterval configuration) (map (agent_runner lib configuration hostname os) cycles)"

end
