(* ===== verification/Agent_Client_Properties.thy ===== *)
theory Agent_Client_Properties
  imports Agent_Client Enrollment_Properties
begin

text \<open>
  The identity of the agent: what the four files give after a save that was or was not
  interrupted, the run of \<open>EnsureIdentity\<close> over the cycles of the agent, and its composition with
  the authority of the hub.
\<close>

section \<open>The four files\<close>

text \<open>
  Decoding the metadata undoes encoding them, but for what JSON does to an agent ID that is not
  UTF-8; the loop visits the three other files once each.
\<close>

definition wire_ok :: "Wire \<Rightarrow> bool" where
  "wire_ok wire \<longleftrightarrow> (\<forall>agentID tm metadata. Wire_metadata wire agentID tm = Some metadata \<longrightarrow>
     Wire_parse_metadata wire (metadata @ [CHR 0x0A]) = Some (json_text agentID, tm))"

definition saved_identity :: "Identity \<Rightarrow> Identity" where
  "saved_identity identity = identity\<lparr>Identity_AgentID := json_text (Identity_AgentID identity)\<rparr>"

lemma saved_identity_same [simp]: "json_text (Identity_AgentID identity) = Identity_AgentID identity \<Longrightarrow> saved_identity identity = identity"
  by (simp add: saved_identity_def)

definition part_order :: "string list \<Rightarrow> bool" where
  "part_order order \<longleftrightarrow> distinct order \<and> set order = {certificateFile, privateKeyFile, agentCAFile}"

lemma file_names [simp]:
  "identityFile \<noteq> privateKeyFile" "identityFile \<noteq> certificateFile" "identityFile \<noteq> agentCAFile"
  "privateKeyFile \<noteq> identityFile" "certificateFile \<noteq> identityFile" "agentCAFile \<noteq> identityFile"
  "privateKeyFile \<noteq> certificateFile" "privateKeyFile \<noteq> agentCAFile" "certificateFile \<noteq> privateKeyFile"
  "certificateFile \<noteq> agentCAFile" "agentCAFile \<noteq> privateKeyFile" "agentCAFile \<noteq> certificateFile"
  by (simp_all add: identityFile_def privateKeyFile_def certificateFile_def agentCAFile_def)

lemma part_order_cases:
  assumes "part_order order"
  obtains a b c where "order = [a, b, c]" "{a, b, c} = {certificateFile, privateKeyFile, agentCAFile}"
    "a \<noteq> b" "a \<noteq> c" "b \<noteq> c"
proof -
  have "length order = 3"
    using assms distinct_card [of order] by (simp add: part_order_def)
  then obtain a b c where "order = [a, b, c]"
    by (auto simp: numeral_3_eq_3 length_Suc_conv)
  with assms that show ?thesis by (simp add: part_order_def)
qed

lemma read_parts_full:
  assumes "part_order order" "files certificateFile = Some c" "files privateKeyFile = Some k" "files agentCAFile = Some a"
  shows "read_parts (\<lambda>_. None) files order
      \<lparr>Identity_AgentID = i, Identity_CertificatePEM = [], Identity_PrivateKeyPEM = [], Identity_CACertificatePEM = [], Identity_ExpiresAt = t\<rparr>
    = Inr (Some \<lparr>Identity_AgentID = i, Identity_CertificatePEM = c, Identity_PrivateKeyPEM = k, Identity_CACertificatePEM = a, Identity_ExpiresAt = t\<rparr>)"
proof -
  obtain p q r where order: "order = [p, q, r]" and parts: "{p, q, r} = {certificateFile, privateKeyFile, agentCAFile}"
    and "p \<noteq> q" "p \<noteq> r" "q \<noteq> r"
    using part_order_cases [OF assms(1)] .
  have "p \<in> {certificateFile, privateKeyFile, agentCAFile}" "q \<in> {certificateFile, privateKeyFile, agentCAFile}"
    "r \<in> {certificateFile, privateKeyFile, agentCAFile}"
    unfolding parts [symmetric] by simp_all
  then show ?thesis
    using \<open>p \<noteq> q\<close> \<open>p \<noteq> r\<close> \<open>q \<noteq> r\<close> assms(2-4) unfolding order
    by (elim insertE emptyE) (simp_all add: read_file_def set_part_def)
qed

lemma read_parts_not_None:
  "set paths \<subseteq> dom files \<Longrightarrow> read_parts broken files paths identity \<noteq> Inr None"
proof (induction paths arbitrary: identity)
  case (Cons p paths)
  then obtain contents where "files p = Some contents" by auto
  with Cons show ?case by (cases "broken p") (simp_all add: read_file_def)
qed simp

lemma read_parts_Inr:
  "read_parts broken files paths identity = Inr (Some result) \<Longrightarrow> read_parts (\<lambda>_. None) files paths identity = Inr (Some result)"
proof (induction paths arbitrary: identity)
  case (Cons p paths)
  then show ?case by (auto simp: read_file_def split: option.splits sum.splits)
qed simp

text \<open>What a readable directory gives, in whatever order the files are visited.\<close>

lemma Load_files:
  assumes "part_order order" "files identityFile = Some m" "files certificateFile = Some c" "files privateKeyFile = Some k"
    "files agentCAFile = Some a" "Wire_parse_metadata wire m = Some (i, t)"
  shows "Identity_Load wire None (\<lambda>_. None) order files
    = (if i = [] \<or> t = 0 then Inl (ErrOther ''stored agent identity is incomplete'')
       else if \<not> Wire_key_pair wire c k then Inl (ErrOther ''load agent certificate'')
       else Inr (Some \<lparr>Identity_AgentID = i, Identity_CertificatePEM = c, Identity_PrivateKeyPEM = k,
              Identity_CACertificatePEM = a, Identity_ExpiresAt = t\<rparr>))"
  using assms(2,6) read_parts_full [OF assms(1,3-5)]
  by (simp add: Identity_Load_def read_file_def TLSCertificate_def)

text \<open>Files that do not give an identity, whatever goes wrong while reading them.\<close>

lemma Load_bad_pair:
  assumes "part_order order" "files identityFile = Some m" "files certificateFile = Some c" "files privateKeyFile = Some k"
    "files agentCAFile = Some a" "\<not> Wire_key_pair wire c k"
  shows "\<exists>e. Identity_Load wire protect broken order files = Inl e"
proof -
  have "set order \<subseteq> dom files" using assms by (auto simp: part_order_def)
  note not_None = read_parts_not_None [OF this]
  have "\<not> TLSCertificate wire result"
    if "read_parts broken files order \<lparr>Identity_AgentID = i, Identity_CertificatePEM = [], Identity_PrivateKeyPEM = [],
        Identity_CACertificatePEM = [], Identity_ExpiresAt = t\<rparr> = Inr (Some result)" for i t result
    using read_parts_Inr [OF that] assms(6) unfolding read_parts_full [OF assms(1,3-5)] by (auto simp: TLSCertificate_def)
  moreover have "read_file broken identityFile files \<noteq> Inr None"
    using assms(2) by (simp add: read_file_def split: option.splits)
  ultimately show ?thesis
    using not_None [of broken] by (auto simp: Identity_Load_def split: option.splits sum.splits)
qed

lemma Load_no_metadata:
  "files identityFile = None \<Longrightarrow> Identity_Load wire protect broken order files \<in> {Inr None, Inl (ErrOther ''protect agent state directory'')}"
  by (simp add: Identity_Load_def read_file_def split: option.splits)

subsection \<open>Saving\<close>

definition identity_writes :: "Identity \<Rightarrow> string \<Rightarrow> (string \<times> string) list" where
  "identity_writes identity metadata =
     [(privateKeyFile, Identity_PrivateKeyPEM identity), (certificateFile, Identity_CertificatePEM identity),
      (agentCAFile, Identity_CACertificatePEM identity), (identityFile, metadata @ [CHR 0x0A])]"

text \<open>The files of an identity.\<close>

definition holds_identity :: "Wire \<Rightarrow> Identity \<Rightarrow> files \<Rightarrow> bool" where
  "holds_identity wire identity files \<longleftrightarrow>
     Identity_AgentID identity \<noteq> [] \<and> Identity_ExpiresAt identity \<noteq> 0 \<and> TLSCertificate wire identity
     \<and> files privateKeyFile = Some (Identity_PrivateKeyPEM identity)
     \<and> files certificateFile = Some (Identity_CertificatePEM identity)
     \<and> files agentCAFile = Some (Identity_CACertificatePEM identity)
     \<and> (\<exists>m. files identityFile = Some m \<and> Wire_parse_metadata wire m = Some (Identity_AgentID identity, Identity_ExpiresAt identity))"

lemma Load_holds:
  assumes "part_order order" "holds_identity wire identity files"
  shows "Identity_Load wire None (\<lambda>_. None) order files = Inr (Some identity)"
  using assms Load_files [OF assms(1)] unfolding holds_identity_def
  by (cases identity) (auto simp: TLSCertificate_def)

lemma write_all_prefix:
  "write_all faults n ws files = (res, files') \<Longrightarrow>
     (\<exists>k \<le> length ws. files' = files ++ map_of (rev (take k ws)) \<and> (res = Inr () \<longrightarrow> k = length ws))"
proof (induction ws arbitrary: n files)
  case (Cons w ws)
  obtain path contents where w: "w = (path, contents)" by fastforce
  show ?case
  proof (cases "faults n")
    case Fine
    with Cons.prems w have "write_all faults (Suc n) ws (files(path \<mapsto> contents)) = (res, files')"
      by (simp add: atomicWrite_def)
    from Cons.IH [OF this] obtain k where k: "k \<le> length ws"
      "files' = files(path \<mapsto> contents) ++ map_of (rev (take k ws))" "res = Inr () \<longrightarrow> k = length ws" by blast
    then show ?thesis by (intro exI [of _ "Suc k"]) (simp add: w map_add_def fun_eq_iff split: option.splits)
  next
    case (Refused e)
    with Cons.prems w show ?thesis by (intro exI [of _ 0]) (auto simp: atomicWrite_def)
  next
    case (Unacknowledged e)
    with Cons.prems w show ?thesis by (intro exI [of _ 1]) (auto simp: atomicWrite_def map_add_def split: if_splits)
  qed
qed simp

lemma Save_cases:
  assumes "Identity_Save wire mkdir faults identity files = (res, files')"
  obtains (refused) e where "res = Inl e" "files' = files"
  | (written) metadata where "Identity_AgentID identity \<noteq> []" "Identity_ExpiresAt identity \<noteq> 0" "TLSCertificate wire identity"
      "mkdir = None" "Wire_metadata wire (Identity_AgentID identity) (Identity_ExpiresAt identity) = Some metadata"
      "write_all faults 0 (identity_writes identity metadata) files = (res, files')"
proof (cases "Identity_AgentID identity \<noteq> [] \<and> Identity_ExpiresAt identity \<noteq> 0 \<and> TLSCertificate wire identity
     \<and> mkdir = None \<and> Wire_metadata wire (Identity_AgentID identity) (Identity_ExpiresAt identity) \<noteq> None")
  case True
  with assms written show ?thesis by (auto simp: Identity_Save_def identity_writes_def)
next
  case False
  with assms refused show ?thesis by (auto simp: Identity_Save_def split: if_splits option.splits)
qed

lemma writes_hold:
  assumes "wire_ok wire" "Identity_AgentID identity \<noteq> []" "Identity_ExpiresAt identity \<noteq> 0" "TLSCertificate wire identity"
    "Wire_metadata wire (Identity_AgentID identity) (Identity_ExpiresAt identity) = Some metadata"
  shows "holds_identity wire (saved_identity identity) (files ++ map_of (rev (identity_writes identity metadata)))"
  using assms unfolding holds_identity_def wire_ok_def saved_identity_def
  by (simp add: identity_writes_def map_add_def TLSCertificate_def)

lemma Save_holds:
  assumes "wire_ok wire" "Identity_Save wire mkdir faults identity files = (Inr (), files')"
  shows "holds_identity wire (saved_identity identity) files'"
  using assms(2)
proof (cases rule: Save_cases)
  case (written metadata)
  from write_all_prefix [OF written(6)] show ?thesis
    using writes_hold [OF assms(1) written(1-3,5)] by (simp add: identity_writes_def)
qed simp

text \<open>
  C30. What the identity store gives back. A save that succeeds is read back as the same identity,
  in whatever order the files are visited (its agent ID as JSON carries it: the same text, unless
  it was not UTF-8; the hub's are hexadecimal). An identity that is incomplete, or whose key is not
  that of its certificate, is refused before any file changes. A save that fails has written the
  first files of the order key, certificate, authority, metadata, and no others.
\<close>

theorem identity_store:
  assumes "wire_ok wire" and "Identity_Save wire mkdir faults identity files = (res, files')"
  shows "(res = Inr () \<longrightarrow> (\<forall>order. part_order order \<longrightarrow>
        Identity_Load wire None (\<lambda>_. None) order files' = Inr (Some (saved_identity identity))))
    \<and> (json_text (Identity_AgentID identity) = Identity_AgentID identity \<longrightarrow> saved_identity identity = identity)
    \<and> (Identity_AgentID identity = [] \<or> Identity_ExpiresAt identity = 0 \<or> \<not> TLSCertificate wire identity \<longrightarrow>
        res \<noteq> Inr () \<and> files' = files)
    \<and> (files' = files \<or> (\<exists>metadata k. Wire_metadata wire (Identity_AgentID identity) (Identity_ExpiresAt identity) = Some metadata
         \<and> files' = files ++ map_of (rev (take k (identity_writes identity metadata)))))"
  using assms(2)
proof (cases rule: Save_cases)
  case (written metadata)
  have "Identity_Load wire None (\<lambda>_. None) order files' = Inr (Some (saved_identity identity))" if "res = Inr ()" "part_order order" for order
    using that Save_holds [OF assms(1)] assms(2) Load_holds by blast
  with written write_all_prefix [OF written(6)] saved_identity_same [of identity] show ?thesis by blast
qed simp

section \<open>Renewing\<close>

lemma client_renew_answered:
  assumes "ClientEnv_material env = Inr (key, csr)"
    and "requestStatuses wire http ''POST'' ''/api/v1/agents/renew'' (Some (Wire_csr wire csr)) (Some old) [200]
           (Some (Wire_parse_identity wire)) h = (Inr (200, Some response), h')"
    and "AgentIdentity_AgentID response = Identity_AgentID old"
  shows "client_renew wire http env old (files, h)
    = (case Identity_Save wire (ClientEnv_mkdir env) (ClientEnv_faults env) (identityFromEnrollment response key) files of
         (Inl e, files) \<Rightarrow> (Inl e, files, h') | (Inr _, files) \<Rightarrow> (Inr (identityFromEnrollment response key), files, h'))"
proof -
  have "Identity_AgentID (identityFromEnrollment response key) = Identity_AgentID old"
    using assms(3) by (simp add: identityFromEnrollment_def)
  with assms(1,2) show ?thesis by (simp add: client_renew_def Let_def)
qed

text \<open>
  C29. A renewal that is interrupted between the first and the second file leaves an agent without
  an identity. The hub has answered, the new key is in place of the old one and the certificate is
  still the old one. From then on no cycle gets an identity, whatever the network, the clock, the
  token and the file system do: the pair on disk never loads, nothing is sent and nothing is written.
\<close>

theorem renewal_interrupted:
  assumes "holds_identity wire old files"
    and "ClientEnv_material env = Inr (key, csr)"
    and "requestStatuses wire http ''POST'' ''/api/v1/agents/renew'' (Some (Wire_csr wire csr)) (Some old) [200]
           (Some (Wire_parse_identity wire)) h = (Inr (200, Some response), h')"
    and "AgentIdentity_AgentID response = Identity_AgentID old" "AgentIdentity_ExpiresAt response \<noteq> 0"
    and "Wire_key_pair wire (AgentIdentity_CertificatePEM response) key"
    and "Wire_metadata wire (Identity_AgentID old) (AgentIdentity_ExpiresAt response) \<noteq> None"
    and "ClientEnv_mkdir env = None"
    and "ClientEnv_faults env 0 = Unacknowledged e \<or> ClientEnv_faults env 0 = Fine \<and> ClientEnv_faults env 1 = Refused e"
    and "\<not> Wire_key_pair wire (Identity_CertificatePEM old) key"
  shows "client_renew wire http env old (files, h) = (Inl e, files(privateKeyFile \<mapsto> key), h')
    \<and> (\<forall>http2 token2 env2 name2 os2 h2. part_order (ClientEnv_order env2) \<longrightarrow>
         EnsureIdentity wire http2 token2 env2 name2 os2 (files(privateKeyFile \<mapsto> key), h2)
           = (Inl (ErrOther ''load agent identity''), files(privateKeyFile \<mapsto> key), h2))"
proof (intro conjI allI impI)
  have id: "Identity_AgentID old \<noteq> []" using assms(1) by (simp add: holds_identity_def)
  have "Identity_Save wire None (ClientEnv_faults env) (identityFromEnrollment response key) files
      = (Inl e, files(privateKeyFile \<mapsto> key))"
    using assms(4-7,9) id
    by (auto simp: Identity_Save_def identityFromEnrollment_def TLSCertificate_def atomicWrite_def)
  then show "client_renew wire http env old (files, h) = (Inl e, files(privateKeyFile \<mapsto> key), h')"
    unfolding client_renew_answered [OF assms(2-4)] assms(8) by simp
next
  fix http2 :: "'b transport" and token2 name2 os2 h2 and env2 :: ClientEnv
  assume order: "part_order (ClientEnv_order env2)"
  from assms(1) obtain m a where "files identityFile = Some m"
    "files certificateFile = Some (Identity_CertificatePEM old)" "files agentCAFile = Some a"
    by (auto simp: holds_identity_def)
  then obtain f where "Identity_Load wire (ClientEnv_protect env2) (ClientEnv_broken env2) (ClientEnv_order env2)
      (files(privateKeyFile \<mapsto> key)) = Inl f"
    using Load_bad_pair [OF order, of "files(privateKeyFile \<mapsto> key)" m "Identity_CertificatePEM old" key a wire] assms(10)
    by fastforce
  then show "EnsureIdentity wire http2 token2 env2 name2 os2 (files(privateKeyFile \<mapsto> key), h2)
           = (Inl (ErrOther ''load agent identity''), files(privateKeyFile \<mapsto> key), h2)"
    by (simp add: EnsureIdentity_def)
qed

section \<open>Cycle after cycle\<close>

text \<open>
  The cycles of the agent, as far as they concern the identity: each has its own network, clock
  and file system, and reports the outcome of \<open>EnsureIdentity\<close>.
\<close>

fun ensure_cycles ::
  "Wire \<Rightarrow> string \<Rightarrow> string \<Rightarrow> string \<Rightarrow> ('h transport \<times> ClientEnv) list \<Rightarrow> files \<times> 'h \<Rightarrow> Identity res list \<times> files \<times> 'h" where
  "ensure_cycles wire token name os [] w = ([], w)"
| "ensure_cycles wire token name os ((http, env) # cycles) w =
     (case EnsureIdentity wire http token env name os w of
        (res, w) \<Rightarrow> (case ensure_cycles wire token name os cycles w of (results, w) \<Rightarrow> (res # results, w)))"

text \<open>A cycle in which the files can be read and the clock does not run backwards.\<close>

definition readable :: "ClientEnv \<Rightarrow> bool" where
  "readable env \<longleftrightarrow> ClientEnv_protect env = None \<and> ClientEnv_broken env = (\<lambda>_. None) \<and> part_order (ClientEnv_order env)
     \<and> ClientEnv_now env 0 \<le> ClientEnv_now env 1"

text \<open>A cycle in which no request gets through.\<close>

definition offline :: "'h transport \<Rightarrow> ClientEnv \<Rightarrow> bool" where
  "offline http env \<longleftrightarrow> readable env \<and> (\<forall>request h. \<exists>e. http request h = (Inl e, h))"

lemma window_cases: "sub_time a b \<le> renewalWindow \<longleftrightarrow> a \<le> b + renewalWindow"
  using sub_time_gt [of renewalWindow a b] by (auto simp: renewalWindow_def duration_simps)

lemma Ensure_holding:
  assumes "holds_identity wire i files" "readable env" "ClientEnv_now env 0 < Identity_ExpiresAt i"
  shows "EnsureIdentity wire http token env name os (files, h)
    = (if Identity_ExpiresAt i \<le> ClientEnv_now env 1 + renewalWindow then client_renew wire http env i (files, h)
       else (Inr i, files, h))"
  using assms Load_holds [OF _ assms(1), of "ClientEnv_order env"]
  by (simp add: EnsureIdentity_def readable_def window_cases del: One_nat_def)

lemma Ensure_offline:
  assumes "holds_identity wire i files" "offline http env" "ClientEnv_now env 0 < Identity_ExpiresAt i"
  shows "\<exists>res. EnsureIdentity wire http token env name os (files, h) = (res, files, h)"
proof -
  have sent: "\<exists>e. requestStatuses wire http verb path payload identity expected decode h = (Inl e, h)"
    for verb path payload identity expected and decode :: "(string \<Rightarrow> AgentIdentity option) option"
  proof -
    have "\<exists>e. http request h = (Inl e, h)" for request using assms(2) by (simp add: offline_def)
    then obtain f where f: "http request h = (Inl (f request), h)" for request by metis
    show ?thesis by (simp add: requestStatuses_def f)
  qed
  have "\<exists>res. client_renew wire http env i (files, h) = (res, files, h)"
  proof (cases "ClientEnv_material env")
    case (Inr material)
    obtain key csr where "material = (key, csr)" by fastforce
    with Inr sent [of "''POST''" "''/api/v1/agents/renew''" "Some (Wire_csr wire csr)" "Some i" "[200]" "Some (Wire_parse_identity wire)"]
    show ?thesis by (auto simp: client_renew_def)
  qed (simp add: client_renew_def)
  with assms Ensure_holding [OF assms(1) _ assms(3), of http token name os h] show ?thesis
    by (auto simp: offline_def)
qed

section \<open>Renewing at the authority of the hub\<close>

text \<open>
  A network with the authority of the hub behind it, for a request that renews: the hub reads the
  client certificate of the connection and the signing request in the body, and answers 200 with
  what \<open>RenewContext\<close> issues, or another status. \<open>n\<close> is the serial number it draws, \<open>t1\<close> and \<open>t2\<close> are
  its readings of the clock.
\<close>

definition renews_at :: "X509 \<Rightarrow> Authority \<Rightarrow> int \<Rightarrow> time \<Rightarrow> time \<Rightarrow> Wire \<Rightarrow> TokenStore transport \<Rightarrow> bool" where
  "renews_at x authority n t1 t2 wire http \<longleftrightarrow>
     (\<forall>sent st csr pem key der c. HTTP_Path sent = ''/api/v1/agents/renew'' \<longrightarrow> Wire_csr wire csr = Some (HTTP_Body sent) \<longrightarrow>
        HTTP_Certificate sent = Some (pem, key) \<longrightarrow> X509_pem_decode x pem = Some (''CERTIFICATE'', der) \<longrightarrow> X509_parse x der = Some c \<longrightarrow>
        (\<exists>status answer. http sent st = (Inr (status, answer), st)
           \<and> (case RenewContext x authority t1 t2 (Inr n) (Some c) csr st of
                Inl e \<Rightarrow> status \<noteq> 200
              | Inr identity \<Rightarrow> status = 200 \<and> Wire_parse_identity wire (take (2 ^ 20) answer) = Some identity)))"

text \<open>
  A cycle online: the network leads to the hub, the agent can make a key and a signing request that
  the authority can sign, and can save the result; the clocks of agent and hub are within a minute.
\<close>

definition online ::
  "X509 \<Rightarrow> Authority \<Rightarrow> Wire \<Rightarrow> string \<Rightarrow> string \<Rightarrow> TokenStore transport \<times> ClientEnv \<times> int \<times> time \<times> time \<Rightarrow> bool" where
  "online x authority wire agentID os c \<longleftrightarrow>
     (case c of (http, env, n, t1, t2) \<Rightarrow>
        readable env \<and> ClientEnv_mkdir env = None \<and> ClientEnv_faults env = (\<lambda>_. Fine) \<and> renews_at x authority n t1 t2 wire http
      \<and> t1 \<le> ClientEnv_now env 0 + minute \<and> ClientEnv_now env 1 \<le> t1 + minute \<and> t1 \<le> t2 \<and> t2 \<le> t1 + minute
      \<and> valid_at (Authority_caCertificate authority) t1 \<and> t2 + certificateLifetime \<noteq> 0
      \<and> (\<exists>key csr pub der. ClientEnv_material env = Inr (key, csr) \<and> Wire_csr wire csr \<noteq> None \<and> parseCSR x csr = Inr pub
           \<and> X509_create x (agent_template (spiffe_url agentID) n t2 agentID os) (Authority_caCertificate authority) pub
               (Authority_caPrivateKey authority) = Inr der
           \<and> Wire_key_pair wire (encodeCertificate x der) key
           \<and> Wire_metadata wire agentID (t2 + certificateLifetime) \<noteq> None))"

text \<open>
  Cycles that follow the last one online within 58 minutes: \<open>limit\<close> is the latest reading of the
  agent's clock allowed. The clock of the hub does not run backwards: it is past \<open>since\<close>.
\<close>

fun timely ::
  "X509 \<Rightarrow> Authority \<Rightarrow> Wire \<Rightarrow> string \<Rightarrow> string \<Rightarrow> time \<Rightarrow> time
   \<Rightarrow> (TokenStore transport \<times> ClientEnv \<times> int \<times> time \<times> time) list \<Rightarrow> bool" where
  "timely x authority wire agentID os limit since [] = True"
| "timely x authority wire agentID os limit since ((http, env, n, t1, t2) # cycles) =
     (ClientEnv_now env 0 \<le> limit
      \<and> (if online x authority wire agentID os (http, env, n, t1, t2)
         then since \<le> t1 \<and> timely x authority wire agentID os (ClientEnv_now env 1 + 58 * minute) t1 cycles
         else offline http env \<and> timely x authority wire agentID os limit since cycles))"

text \<open>
  The certificate of an identity is one the hub takes for the agent from \<open>since\<close> to the expiry,
  which is cut to whole seconds.
\<close>

definition recognised :: "X509 \<Rightarrow> Authority \<Rightarrow> TokenStore \<Rightarrow> Agent \<Rightarrow> string \<Rightarrow> time \<Rightarrow> Identity \<Rightarrow> bool" where
  "recognised x authority st agent os since i \<longleftrightarrow> Identity_AgentID i = Agent_ID agent
     \<and> (\<exists>der c. X509_pem_decode x (Identity_CertificatePEM i) = Some (''CERTIFICATE'', der) \<and> X509_parse x der = Some c
          \<and> Certificate_OrganizationalUnit c = [os] \<and> Certificate_NotBefore c \<le> since
          \<and> Identity_ExpiresAt i - second < Certificate_NotAfter c
          \<and> (\<forall>tm. AuthenticateContext x authority tm (Some c) st
                = (if valid_at c tm \<and> valid_at (Authority_caCertificate authority) tm
                   then Inr agent else Inl ErrInvalidIdentity)))"

lemma recognised_later: "recognised x authority st agent os since i \<Longrightarrow> since \<le> t \<Longrightarrow> recognised x authority st agent os t i"
  unfolding recognised_def by (meson order_trans)

definition admitted :: "X509 \<Rightarrow> Authority \<Rightarrow> TokenStore \<Rightarrow> time \<Rightarrow> Identity \<Rightarrow> Agent \<Rightarrow> bool" where
  "admitted x authority st t i agent \<longleftrightarrow>
     (\<exists>der c. X509_pem_decode x (Identity_CertificatePEM i) = Some (''CERTIFICATE'', der) \<and> X509_parse x der = Some c
        \<and> AuthenticateContext x authority t (Some c) st = Inr agent)"

lemma recognised_admitted:
  "recognised x authority st agent os t i \<Longrightarrow> t + second \<le> Identity_ExpiresAt i \<Longrightarrow> valid_at (Authority_caCertificate authority) t
     \<Longrightarrow> admitted x authority st t i agent"
  unfolding recognised_def admitted_def by (elim conjE exE) (auto simp: valid_at_def)

text \<open>What a renewal issues for an agent the hub knows.\<close>

lemma issue_recognised:
  assumes "x509_ok x" "sound_authority x authority" "hex32_pattern (Agent_ID agent)" "valid_agent agent"
    and "TokenStore_agents st (Agent_ID agent) = Some agent"
    and "issue x authority t serial (Agent_ID agent) os csr = Inr identity" "t \<le> since + minute"
  shows "recognised x authority st agent os since (identityFromEnrollment identity key)
    \<and> Identity_ExpiresAt (identityFromEnrollment identity key) = t + certificateLifetime"
proof -
  obtain c where c: "\<forall>d. presents x identity d \<longleftrightarrow> d = c" "AgentIdentity_AgentID identity = Agent_ID agent"
    "AgentIdentity_ExpiresAt identity = t + certificateLifetime" "Certificate_OrganizationalUnit c = [os]"
    "Certificate_NotBefore c = t - minute - (t - minute) mod second"
    "Certificate_NotAfter c = t + certificateLifetime - (t + certificateLifetime) mod second"
    "\<forall>tm. Authenticate x authority tm (Some c)
       = (if valid_at c tm \<and> valid_at (Authority_caCertificate authority) tm
          then Inr (Agent_ID agent) else Inl ErrInvalidIdentity)"
    by (rule issue_Inr [OF assms(1-3,6)])
  from c(1) obtain der where der: "X509_pem_decode x (AgentIdentity_CertificatePEM identity) = Some (''CERTIFICATE'', der)"
    "X509_parse x der = Some c" unfolding presents_def by blast
  have auth: "AuthenticateContext x authority tm (Some c) st
      = (if valid_at c tm \<and> valid_at (Authority_caCertificate authority) tm then Inr agent else Inl ErrInvalidIdentity)" for tm
    by (rule AuthenticateContext_eq [OF assms(5) refl assms(4)]) (use c(7) in blast)
  have "0 \<le> (t - minute) mod second" "(t + certificateLifetime) mod second < second"
    by (simp_all add: duration_simps)
  then have "Certificate_NotBefore c \<le> since" "t + certificateLifetime - second < Certificate_NotAfter c"
    using c(5,6) assms(7) by linarith+
  with der c(2-4) auth show ?thesis by (auto simp: recognised_def identityFromEnrollment_def)
qed

text \<open>The hub's view of the agent, which renewals do not change.\<close>

definition agent_known :: "X509 \<Rightarrow> Authority \<Rightarrow> TokenStore \<Rightarrow> Agent \<Rightarrow> bool" where
  "agent_known x authority st agent \<longleftrightarrow> x509_ok x \<and> sound_authority x authority \<and> hex32_pattern (Agent_ID agent)
     \<and> valid_agent agent \<and> TokenStore_agents st (Agent_ID agent) = Some agent"

lemma renewal_answered:
  assumes known: "agent_known x authority st agent" and on: "online x authority wire (Agent_ID agent) os (http, env, n, t1, t2)"
    and "recognised x authority st agent os t1 i" "TLSCertificate wire i" "t1 + second \<le> Identity_ExpiresAt i"
  obtains key csr identity where "ClientEnv_material env = Inr (key, csr)"
    "requestStatuses wire http ''POST'' ''/api/v1/agents/renew'' (Some (Wire_csr wire csr)) (Some i) [200]
       (Some (Wire_parse_identity wire)) st = (Inr (200, Some identity), st)"
    "recognised x authority st agent os t1 (identityFromEnrollment identity key)"
    "Identity_ExpiresAt (identityFromEnrollment identity key) = t2 + certificateLifetime"
    "TLSCertificate wire (identityFromEnrollment identity key)"
proof -
  from on obtain key csr pub der2 body where material: "ClientEnv_material env = Inr (key, csr)" "Wire_csr wire csr = Some body"
    "parseCSR x csr = Inr pub"
    "X509_create x (agent_template (spiffe_url (Agent_ID agent)) n t2 (Agent_ID agent) os) (Authority_caCertificate authority) pub
       (Authority_caPrivateKey authority) = Inr der2" "Wire_key_pair wire (encodeCertificate x der2) key"
    and clocks: "t2 \<le> t1 + minute" "valid_at (Authority_caCertificate authority) t1"
    and hub: "renews_at x authority n t1 t2 wire http"
    unfolding online_def by auto
  from assms(3) obtain der c where c: "X509_pem_decode x (Identity_CertificatePEM i) = Some (''CERTIFICATE'', der)"
    "X509_parse x der = Some c" "Certificate_OrganizationalUnit c = [os]" "Certificate_NotBefore c \<le> t1"
    "Identity_ExpiresAt i - second < Certificate_NotAfter c"
    "\<forall>tm. AuthenticateContext x authority tm (Some c) st
       = (if valid_at c tm \<and> valid_at (Authority_caCertificate authority) tm then Inr agent else Inl ErrInvalidIdentity)"
    unfolding recognised_def by blast
  from known have ok: "x509_ok x" "sound_authority x authority" "hex32_pattern (Agent_ID agent)" "valid_agent agent"
    "TokenStore_agents st (Agent_ID agent) = Some agent" by (simp_all add: agent_known_def)
  have "valid_at c t1" using c(4,5) assms(5) by (simp add: valid_at_def)
  then have auth: "AuthenticateContext x authority t1 (Some c) st = Inr agent" using c(6) clocks(2) by simp
  have url: "X509_url_parse x (''spiffe://bazusop/agent/'' @ Agent_ID agent) = Inr (spiffe_url (Agent_ID agent))"
    using ok(1,3) by (simp add: x509_ok_def)
  obtain identity where issued: "issue x authority t2 (Inr n) (Agent_ID agent) os pub = Inr identity"
    and pem: "AgentIdentity_CertificatePEM identity = encodeCertificate x der2"
    using url material(4) by (simp add: issue_def Let_def)
  have renewed: "RenewContext x authority t1 t2 (Inr n) (Some c) csr st = Inr identity"
    by (simp add: RenewContext_def material(3) auth c(3) issued Let_def)
  define sent where "sent = \<lparr>HTTP_Method = ''POST'', HTTP_Path = ''/api/v1/agents/renew'', HTTP_Body = body, HTTP_JSON = True,
      HTTP_Certificate = Some (Identity_CertificatePEM i, Identity_PrivateKeyPEM i)\<rparr>"
  have "Wire_csr wire csr = Some (HTTP_Body sent)" "HTTP_Path sent = ''/api/v1/agents/renew''"
    "HTTP_Certificate sent = Some (Identity_CertificatePEM i, Identity_PrivateKeyPEM i)"
    by (simp_all add: sent_def material(2))
  from hub [unfolded renews_at_def, rule_format, OF this(2,1,3) c(1,2), of st] renewed obtain answer where
    "http sent st = (Inr (200, answer), st)" "Wire_parse_identity wire (take (2 ^ 20) answer) = Some identity" by auto
  then have "requestStatuses wire http ''POST'' ''/api/v1/agents/renew'' (Some (Wire_csr wire csr)) (Some i) [200]
       (Some (Wire_parse_identity wire)) st = (Inr (200, Some identity), st)"
    using assms(4) by (simp add: requestStatuses_def material(2) sent_def)
  moreover have "TLSCertificate wire (identityFromEnrollment identity key)"
    using material(5) pem by (simp add: TLSCertificate_def identityFromEnrollment_def)
  ultimately show thesis
    using that material(1) issue_recognised [OF ok issued clocks(1), of key] by blast
qed

lemma Ensure_online:
  assumes known: "agent_known x authority st agent" and wire: "wire_ok wire"
    and on: "online x authority wire (Agent_ID agent) os (http, env, n, t1, t2)"
    and i: "holds_identity wire i files" "recognised x authority st agent os t1 i"
    and late: "ClientEnv_now env 0 + 2 * minute \<le> Identity_ExpiresAt i"
  obtains j files' where "EnsureIdentity wire http token env name system (files, st) = (Inr j, files', st)"
    "holds_identity wire j files'" "recognised x authority st agent os t1 j" "admitted x authority st t1 j agent"
    "ClientEnv_now env 1 + renewalWindow < Identity_ExpiresAt j"
proof -
  from on have env: "readable env" "ClientEnv_mkdir env = None" "ClientEnv_faults env = (\<lambda>_. Fine)"
    and clocks: "t1 \<le> ClientEnv_now env 0 + minute" "ClientEnv_now env 1 \<le> t1 + minute" "t1 \<le> t2" "t2 + certificateLifetime \<noteq> 0"
    and ca: "valid_at (Authority_caCertificate authority) t1"
    and metadata: "Wire_metadata wire (Agent_ID agent) (t2 + certificateLifetime) \<noteq> None"
    by (auto simp: online_def)
  have in_time: "ClientEnv_now env 0 < Identity_ExpiresAt i" "t1 + second \<le> Identity_ExpiresAt i"
    using late clocks(1) by (simp_all add: duration_simps)
  note ensure = Ensure_holding [OF i(1) env(1) in_time(1), of http token name system st]
  show thesis
  proof (cases "Identity_ExpiresAt i \<le> ClientEnv_now env 1 + renewalWindow")
    case False
    then show ?thesis using that ensure i recognised_admitted [OF i(2) in_time(2) ca] by simp
  next
    case True
    have tls: "TLSCertificate wire i" using i(1) by (simp add: holds_identity_def)
    obtain key csr identity where answered: "ClientEnv_material env = Inr (key, csr)"
      "requestStatuses wire http ''POST'' ''/api/v1/agents/renew'' (Some (Wire_csr wire csr)) (Some i) [200]
         (Some (Wire_parse_identity wire)) st = (Inr (200, Some identity), st)"
      and j: "recognised x authority st agent os t1 (identityFromEnrollment identity key)"
      "Identity_ExpiresAt (identityFromEnrollment identity key) = t2 + certificateLifetime"
      "TLSCertificate wire (identityFromEnrollment identity key)"
      by (rule renewal_answered [OF known on i(2) tls in_time(2)])
    let ?j = "identityFromEnrollment identity key"
    have hex: "hex32_pattern (Agent_ID agent)" using known by (simp add: agent_known_def)
    have ids: "Identity_AgentID ?j = Agent_ID agent" "Identity_AgentID i = Agent_ID agent" using j(1) i(2) by (simp_all add: recognised_def)
    then have same: "saved_identity ?j = ?j" "Identity_AgentID ?j \<noteq> []" using json_text_hex32 [OF hex] hex32_nonempty [OF hex] by simp_all
    obtain files' where save: "Identity_Save wire None (\<lambda>_. Fine) ?j files = (Inr (), files')"
      using j(2,3) ids(1) same(2) clocks(4) metadata by (auto simp: Identity_Save_def atomicWrite_def)
    have "EnsureIdentity wire http token env name system (files, st) = (Inr ?j, files', st)"
      using True ensure save client_renew_answered [OF answered, of files] ids env(2,3)
      by (simp add: identityFromEnrollment_def)
    moreover have "holds_identity wire ?j files'" using Save_holds [OF wire save] same(1) by simp
    moreover have "ClientEnv_now env 1 + renewalWindow < Identity_ExpiresAt ?j" "t1 + second \<le> Identity_ExpiresAt ?j"
      using j(2) clocks(2,3) by (simp_all add: renewalWindow_def certificateLifetime_def duration_simps)
    ultimately show ?thesis using that j(1) recognised_admitted [OF j(1) _ ca] by blast
  qed
qed


section \<open>Enrolling against the authority of the hub\<close>

text \<open>
  A network with the authority of the hub behind it, for the request that enrolls: the hub reads
  the request that was sent at the time \<open>now\<close> and answers 201 with the identity or another status;
  the answer may be lost, before or after the hub has acted.
\<close>

definition enrolls_by ::
  "X509 \<Rightarrow> (string \<Rightarrow> string) \<Rightarrow> (string \<Rightarrow> string) \<Rightarrow> Authority \<Rightarrow> time \<Rightarrow> Wire \<Rightarrow> TokenStore transport \<Rightarrow> bool" where
  "enrolls_by x sha uni authority now wire http \<longleftrightarrow>
     (\<forall>sent st. HTTP_Path sent = ''/api/v1/agents/enroll'' \<longrightarrow>
        (\<exists>r serial res st1. (\<forall>request. Wire_enroll wire request = Some (HTTP_Body sent) \<longrightarrow>
             EnrollContext x sha uni authority r now serial request st = (res, st1))
           \<and> (case http sent st of
                (Inl e, st2) \<Rightarrow> st2 = st \<or> st2 = st1
              | (Inr (status, answer), st2) \<Rightarrow> st2 = st1
                  \<and> (case res of Inl e \<Rightarrow> status \<noteq> 201
                     | Inr identity \<Rightarrow> status = 201 \<and> Wire_parse_identity wire (take (2 ^ 20) answer) = Some identity))))"

lemma enroll_request:
  assumes "enrolls_by x sha uni authority now wire http"
    and "requestStatuses wire http ''POST'' ''/api/v1/agents/enroll'' (Some (Wire_enroll wire request)) None [201]
           (Some (Wire_parse_identity wire)) st = (res, st2)"
  obtains (unsent) e where "res = Inl e" "st2 = st"
  | (lost) e r serial identity where "res = Inl e" "EnrollContext x sha uni authority r now serial request st = (Inr identity, st2)"
  | (enrolled) r serial identity where "res = Inr (201, Some identity)"
      "EnrollContext x sha uni authority r now serial request st = (Inr identity, st2)"
proof (cases "Wire_enroll wire request")
  case None
  with assms(2) unsent show ?thesis by (auto simp: requestStatuses_def)
next
  case (Some body)
  define sent where "sent = \<lparr>HTTP_Method = ''POST'', HTTP_Path = ''/api/v1/agents/enroll'', HTTP_Body = body, HTTP_JSON = True,
      HTTP_Certificate = None :: (string \<times> string) option\<rparr>"
  obtain r serial ans st1 where hub: "EnrollContext x sha uni authority r now serial request st = (ans, st1)"
    and answered: "case http sent st of
                (Inl e, st2) \<Rightarrow> st2 = st \<or> st2 = st1
              | (Inr (status, answer), st2) \<Rightarrow> st2 = st1
                  \<and> (case ans of Inl e \<Rightarrow> status \<noteq> 201
                     | Inr identity \<Rightarrow> status = 201 \<and> Wire_parse_identity wire (take (2 ^ 20) answer) = Some identity)"
    using assms(1) [unfolded enrolls_by_def, rule_format, of sent st] Some by (auto simp: sent_def)
  have refused: "st1 = st" if "ans = Inl e" for e
    using hub that by (auto elim: EnrollContext_cases)
  obtain http_res st3 where run: "http sent st = (http_res, st3)" by fastforce
  have res: "requestStatuses wire http ''POST'' ''/api/v1/agents/enroll'' (Some (Wire_enroll wire request)) None [201]
      (Some (Wire_parse_identity wire)) st
    = (case http_res of Inl e \<Rightarrow> (Inl e, st3) | Inr (status, body) \<Rightarrow>
         if status \<noteq> 201 then (Inl (ErrOther ''hub returned''), st3)
         else (case Wire_parse_identity wire (take (2 ^ 20) body) of
            None \<Rightarrow> (Inl (ErrOther ''decode hub response''), st3) | Some v \<Rightarrow> (Inr (status, Some v), st3)))"
    using run by (simp add: requestStatuses_def Some sent_def split: sum.splits prod.splits)
  show ?thesis
  proof (cases http_res)
    case (Inl e)
    with res assms(2) have "res = Inl e" "st2 = st3" by simp_all
    moreover have "st3 = st \<or> st3 = st1" using answered run Inl by simp
    ultimately show ?thesis using unsent lost hub refused by (cases ans) auto
  next
    case (Inr reply)
    obtain status body where reply: "reply = (status, body)" by fastforce
    with answered run Inr have st3: "st3 = st1" by simp
    show ?thesis
    proof (cases ans)
      case (Inl e)
      with answered run Inr reply have "status \<noteq> 201" by simp
      with res assms(2) Inr reply st3 refused [OF Inl] show ?thesis by (intro unsent) simp_all
    next
      case (Inr identity)
      with answered run \<open>http_res = Inr reply\<close> reply have "status = 201"
        "Wire_parse_identity wire (take (2 ^ 20) body) = Some identity" by simp_all
      with res assms(2) \<open>http_res = Inr reply\<close> reply st3 hub Inr show ?thesis by (intro enrolled) simp_all
    qed
  qed
qed

text \<open>An agent without metadata on disk, facing a hub whose token has been used.\<close>

lemma stranded:
  assumes "TokenStore_consumed st" "files identityFile = None" "enrolls_by x sha uni authority now wire http"
  shows "\<exists>e. EnsureIdentity wire http token env name os (files, st) = (Inl e, files, st)"
proof (cases "Identity_Load wire (ClientEnv_protect env) (ClientEnv_broken env) (ClientEnv_order env) files")
  case (Inr loaded)
  then have loaded: "loaded = None"
    using Load_no_metadata [of files wire "ClientEnv_protect env" "ClientEnv_broken env" "ClientEnv_order env"] assms(2) by auto
  show ?thesis
  proof (cases "ClientEnv_material env")
    case (Inr material)
    obtain key csr where material: "material = (key, csr)" by fastforce
    define request where "request = \<lparr>EnrollRequest_BootstrapToken = token, EnrollRequest_Name = name,
                     EnrollRequest_OperatingSystem = os, EnrollRequest_CSRPEM = csr\<rparr>"
    obtain res st2 where run: "requestStatuses wire http ''POST'' ''/api/v1/agents/enroll'' (Some (Wire_enroll wire request)) None [201]
           (Some (Wire_parse_identity wire)) st = (res, st2)" by fastforce
    have "\<exists>e. res = Inl e \<and> st2 = st"
      using enroll_request [OF assms(3) run] assms(1) by (metis EnrollContext_cases sum.distinct(1))
    with run Inr material \<open>Identity_Load wire _ _ _ files = Inr loaded\<close> loaded show ?thesis
      by (auto simp: EnsureIdentity_def client_enroll_def request_def)
  qed (use Inr loaded in \<open>simp add: EnsureIdentity_def client_enroll_def\<close>)
qed (simp add: EnsureIdentity_def)

lemma stranded_forever:
  "TokenStore_consumed st \<Longrightarrow> files identityFile = None \<Longrightarrow> \<forall>(http, env) \<in> set cycles. \<exists>now. enrolls_by x sha uni authority now wire http \<Longrightarrow>
   \<exists>errors. ensure_cycles wire token name os cycles (files, st) = (map Inl errors, files, st)"
proof (induction cycles)
  case (Cons c cycles)
  obtain http env where c: "c = (http, env)" by fastforce
  with Cons obtain errors where "ensure_cycles wire token name os cycles (files, st) = (map Inl errors, files, st)" by auto
  moreover obtain e where "EnsureIdentity wire http token env name os (files, st) = (Inl e, files, st)"
    using stranded [of st files x sha uni authority _ wire http token env name os] Cons.prems c by auto
  ultimately show ?case by (intro exI [of _ "e # errors"]) (simp add: c)
qed (intro exI [of _ "[]"], simp)

lemma client_enroll_cases:
  assumes "wire_ok wire" "enrolls_by x sha uni authority now wire http"
    and "client_enroll wire http token env name os (files, st) = (res, files', st')"
  obtains (unsent) e where "res = Inl e" "files' = files" "st' = st"
  | (burned) e r serial request identity where "res = Inl e"
      "EnrollContext x sha uni authority r now serial request st = (Inr identity, st')"
  | (enrolled) key r serial request identity where "res = Inr (identityFromEnrollment identity key)"
      "EnrollContext x sha uni authority r now serial request st = (Inr identity, st')"
      "holds_identity wire (saved_identity (identityFromEnrollment identity key)) files'"
proof (cases "ClientEnv_material env")
  case (Inl e)
  with assms(3) show ?thesis by (intro unsent [of e]) (simp_all add: client_enroll_def)
next
  case (Inr material)
  obtain key csr where material: "material = (key, csr)" by fastforce
  define request where "request = \<lparr>EnrollRequest_BootstrapToken = token, EnrollRequest_Name = name,
                     EnrollRequest_OperatingSystem = os, EnrollRequest_CSRPEM = csr\<rparr>"
  obtain answer st2 where run: "requestStatuses wire http ''POST'' ''/api/v1/agents/enroll'' (Some (Wire_enroll wire request)) None [201]
         (Some (Wire_parse_identity wire)) st = (answer, st2)" by fastforce
  note client = assms(3) [unfolded client_enroll_def Inr material] run [unfolded request_def]
  from assms(2) run show ?thesis
  proof (cases rule: enroll_request)
    case (unsent e)
    with client show ?thesis by (intro that(1)) auto
  next
    case (lost e r serial identity)
    with client have "res = Inl (ErrOther ''enroll agent'')" "st' = st2" by auto
    with lost that(2) show ?thesis by blast
  next
    case (enrolled r serial identity)
    obtain saved files1 where save: "Identity_Save wire (ClientEnv_mkdir env) (ClientEnv_faults env)
        (identityFromEnrollment identity key) files = (saved, files1)" by fastforce
    from enrolled(1) client have res: "(res, files', st') =
        (if \<not> TLSCertificate wire (identityFromEnrollment identity key) then (Inl (ErrOther ''validate issued agent certificate''), files, st2)
         else (case saved of Inl e \<Rightarrow> (Inl e, files1, st2) | Inr _ \<Rightarrow> (Inr (identityFromEnrollment identity key), files1, st2)))"
      by (cases "TLSCertificate wire (identityFromEnrollment identity key)"; cases saved) (simp_all add: save Let_def)
    show ?thesis
    proof (cases "TLSCertificate wire (identityFromEnrollment identity key) \<and> saved = Inr ()")
      case True
      with res enrolled(2) Save_holds [OF assms(1), of _ _ "identityFromEnrollment identity key" files] save
      show ?thesis by (intro that(3)) auto
    next
      case False
      with res have "st' = st2" "\<exists>e. res = Inl e" by (auto split: if_splits sum.splits)
      with enrolled(2) that(2) show ?thesis by blast
    qed
  qed
qed

text \<open>
  C18. The first enrollment, agent and hub together. If an agent without an identity gets one from
  a hub that was set up with a bootstrap token, then it can load it again, the hub has registered
  exactly this agent, and the certificate on the agent's disk is the one by which the hub
  recognises it, valid from a minute before the enrollment until 24 hours after it by the
  hub's clock (in whole seconds) and while the authority's own certificate is. If it gets none, then either the hub has
  not changed, or the token is used up; and if in that case the metadata file was not written, the
  agent stays without an identity in all cycles to come, with every token and every network to this
  hub: the enrollment cannot be repeated.
\<close>

theorem agent_enrollment:
  assumes "x509_ok x" "NewAuthority x sha keys0 now0 serial0 bootstrap = Inr (authority, st0)"
    and "enroll_steps x sha uni authority st0 st"
    and "wire_ok wire" "enrolls_by x sha uni authority now wire http" "files identityFile = None"
    and "EnsureIdentity wire http token env name os (files, st) = (res, files', st')"
  shows "case res of
      Inr i \<Rightarrow> (\<forall>order. part_order order \<longrightarrow> Identity_Load wire None (\<lambda>_. None) order files' = Inr (Some i))
        \<and> Identity_ExpiresAt i = now + 24 * hour
        \<and> (\<exists>agent certificate der. TokenStore_agents st' = [Identity_AgentID i \<mapsto> agent] \<and> Agent_ID agent = Identity_AgentID i
             \<and> X509_pem_decode x (Identity_CertificatePEM i) = Some (''CERTIFICATE'', der) \<and> X509_parse x der = Some certificate
             \<and> Certificate_NotBefore certificate = now - minute - (now - minute) mod second
             \<and> Certificate_NotAfter certificate = now + 24 * hour - (now + 24 * hour) mod second
             \<and> (\<forall>tm. AuthenticateContext x authority tm (Some certificate) st'
                  = (if valid_at certificate tm \<and> valid_at (Authority_caCertificate authority) tm
                     then Inr agent else Inl ErrInvalidIdentity)))
    | Inl _ \<Rightarrow> st' = st \<or> TokenStore_consumed st' \<and> (files' identityFile = None \<longrightarrow>
        (\<forall>cycles token2 name2 os2. (\<forall>(http2, env2) \<in> set cycles. \<exists>now2. enrolls_by x sha uni authority now2 wire http2) \<longrightarrow>
           (\<exists>errors. ensure_cycles wire token2 name2 os2 cycles (files', st') = (map Inl errors, files', st'))))"
proof -
  have loaded: "Identity_Load wire (ClientEnv_protect env) (ClientEnv_broken env) (ClientEnv_order env) files
      \<in> {Inr None, Inl (ErrOther ''protect agent state directory'')}"
    by (rule Load_no_metadata [of files, OF assms(6)])
  consider "\<exists>e. res = Inl e" "st' = st" | "client_enroll wire http token env name os (files, st) = (res, files', st')"
    using loaded assms(7) by (auto simp: EnsureIdentity_def split: if_splits)
  then show ?thesis
  proof cases
    case 2
    from assms(4,5) this show ?thesis
    proof (cases rule: client_enroll_cases)
      case (burned e r serial request identity)
      obtain "TokenStore_consumed st'"
        by (rule enrolled_agent [OF assms(1-3) burned(2)])
      with burned(1) stranded_forever [of st' files'] show ?thesis by simp
    next
      case (enrolled key r serial request identity)
      obtain agent certificate where hex: "hex32_pattern (AgentIdentity_AgentID identity)"
        and "TokenStore_agents st' = [AgentIdentity_AgentID identity \<mapsto> agent]"
        "Agent_ID agent = AgentIdentity_AgentID identity" "\<forall>c. presents x identity c \<longleftrightarrow> c = certificate"
        "AgentIdentity_ExpiresAt identity = now + certificateLifetime"
        "Certificate_NotBefore certificate = now - minute - (now - minute) mod second"
        "Certificate_NotAfter certificate = now + certificateLifetime - (now + certificateLifetime) mod second"
        "\<forall>tm. AuthenticateContext x authority tm (Some certificate) st'
          = (if valid_at certificate tm \<and> valid_at (Authority_caCertificate authority) tm
             then Inr agent else Inl ErrInvalidIdentity)"
        by (rule enrolled_agent [OF assms(1-3) enrolled(2)])
      moreover from \<open>\<forall>c. presents x identity c \<longleftrightarrow> c = certificate\<close> obtain der
        where "X509_pem_decode x (AgentIdentity_CertificatePEM identity) = Some (''CERTIFICATE'', der)"
          "X509_parse x der = Some certificate" unfolding presents_def by blast
      moreover have "Identity_AgentID (identityFromEnrollment identity key) = AgentIdentity_AgentID identity"
        "Identity_CertificatePEM (identityFromEnrollment identity key) = AgentIdentity_CertificatePEM identity"
        "Identity_ExpiresAt (identityFromEnrollment identity key) = AgentIdentity_ExpiresAt identity"
        by (simp_all add: identityFromEnrollment_def)
      ultimately show ?thesis
        using Load_holds [OF _ enrolled(3)] hex unfolding enrolled(1) sum.case
        by (intro conjI exI [of _ agent] exI [of _ certificate] exI [of _ der]) (simp_all add: certificateLifetime_def)
    qed simp
  qed auto
qed

section \<open>A concrete agent\<close>

text \<open>
  A key belongs to the certificate with the same text. Two moments of expiry can be written down.
  The network of the interrupted renewal answers with a certificate for the key the agent generates.
\<close>

definition toy_late :: time where "toy_late = toy_renewal_time + certificateLifetime"

definition toy_wire :: Wire where
  "toy_wire = \<lparr>Wire_key_pair = (=),
     Wire_metadata = (\<lambda>i t. if t = certificateLifetime then Some (CHR ''0'' # json_text i) else if t = toy_late then Some (CHR ''1'' # json_text i) else None),
     Wire_parse_metadata = (\<lambda>s. Some (butlast (tl s), if hd s = CHR ''0'' then certificateLifetime else toy_late)),
     Wire_enroll = (\<lambda>r. if r = toy_request then Some ''enroll'' else None), Wire_csr = Some, Wire_facts = (\<lambda>_. None),
     Wire_sample = (\<lambda>_. None), Wire_snapshot = (\<lambda>_. None), Wire_logs = (\<lambda>_. None), Wire_event = (\<lambda>_. None),
     Wire_parse_identity = (\<lambda>_. Some \<lparr>AgentIdentity_AgentID = ''a'', AgentIdentity_CertificatePEM = ''new'',
        AgentIdentity_CACertificatePEM = ''ca'', AgentIdentity_ExpiresAt = toy_late\<rparr>), Wire_parse_job = (\<lambda>_. None)\<rparr>"

definition toy_identity :: Identity where
  "toy_identity = \<lparr>Identity_AgentID = ''a'', Identity_CertificatePEM = ''old'', Identity_PrivateKeyPEM = ''old'',
     Identity_CACertificatePEM = ''ca'', Identity_ExpiresAt = certificateLifetime\<rparr>"

definition toy_files :: files where
  "toy_files = Map.empty ++ map_of (rev (identity_writes toy_identity (CHR ''0'' # ''a'')))"

definition toy_client_env :: "time \<Rightarrow> (nat \<Rightarrow> fault) \<Rightarrow> ClientEnv" where
  "toy_client_env now faults = \<lparr>ClientEnv_now = (\<lambda>_. now), ClientEnv_material = Inr (''new'', ''csr''), ClientEnv_protect = None,
     ClientEnv_broken = (\<lambda>_. None), ClientEnv_order = [certificateFile, privateKeyFile, agentCAFile], ClientEnv_mkdir = None,
     ClientEnv_faults = faults\<rparr>"

definition toy_network :: "unit transport" where
  "toy_network request h = (Inr (200, ''identity''), h)"

definition toy_no_network :: "'h transport" where
  "toy_no_network request h = (Inl (ErrOther ''no route''), h)"

lemma toy_wire_ok: "wire_ok toy_wire"
  by (auto simp: wire_ok_def toy_wire_def toy_late_def toy_renewal_time_def certificateLifetime_def duration_simps split: if_splits)

lemma toy_identity_json [simp]: "saved_identity toy_identity = toy_identity"
  by (simp add: toy_identity_def is_ascii_def)

lemma toy_holds: "holds_identity toy_wire toy_identity toy_files"
  using writes_hold [OF toy_wire_ok, of toy_identity "CHR ''0'' # ''a''" Map.empty]
  by (simp add: toy_files_def) (simp add: toy_identity_def toy_wire_def TLSCertificate_def certificateLifetime_def duration_simps is_ascii_def)

lemma toy_part_order: "part_order [certificateFile, privateKeyFile, agentCAFile]"
  by (auto simp: part_order_def)

lemma toy_renewal:
  "Wire_key_pair toy_wire (Identity_CertificatePEM old) (Identity_PrivateKeyPEM old) \<Longrightarrow>
   requestStatuses toy_wire toy_network method path (Some (Wire_csr toy_wire csr)) (Some old) [200]
     (Some (Wire_parse_identity toy_wire)) h
   = (Inr (200, Some \<lparr>AgentIdentity_AgentID = ''a'', AgentIdentity_CertificatePEM = ''new'',
        AgentIdentity_CACertificatePEM = ''ca'', AgentIdentity_ExpiresAt = toy_late\<rparr>), h)"
  by (simp add: requestStatuses_def TLSCertificate_def toy_wire_def toy_network_def)

theorem identity_store_witness:
  "\<exists>files'. Identity_Save toy_wire None (\<lambda>_. Fine) toy_identity Map.empty = (Inr (), files')
     \<and> Identity_Load toy_wire None (\<lambda>_. None) [certificateFile, privateKeyFile, agentCAFile] files' = Inr (Some toy_identity)"
proof -
  have save: "Identity_Save toy_wire None (\<lambda>_. Fine) toy_identity Map.empty = (Inr (), toy_files)"
    by (simp add: Identity_Save_def toy_identity_def toy_wire_def TLSCertificate_def atomicWrite_def toy_files_def
        identity_writes_def map_add_def fun_eq_iff certificateLifetime_def duration_simps is_ascii_def)
  with identity_store [OF toy_wire_ok save] toy_part_order show ?thesis by auto
qed

theorem renewal_interrupted_witness:
  "\<exists>files'. client_renew toy_wire toy_network (toy_client_env (23 * hour) (\<lambda>n. if n = 0 then Fine else Refused (ErrOther ''disk''))) toy_identity (toy_files, ())
       = (Inl (ErrOther ''disk''), files', ())
     \<and> EnsureIdentity toy_wire toy_network ''token'' (toy_client_env (24 * hour) (\<lambda>_. Fine)) ''host'' ''linux'' (files', ())
       = (Inl (ErrOther ''load agent identity''), files', ())"
proof -
  let ?env = "toy_client_env (23 * hour) (\<lambda>n. if n = 0 then Fine else Refused (ErrOther ''disk''))"
  let ?env2 = "toy_client_env (24 * hour) (\<lambda>_. Fine)"
  have pair: "Wire_key_pair toy_wire (Identity_CertificatePEM toy_identity) (Identity_PrivateKeyPEM toy_identity)"
    using toy_holds by (simp add: holds_identity_def TLSCertificate_def)
  have run: "client_renew toy_wire toy_network ?env toy_identity (toy_files, ()) = (Inl (ErrOther ''disk''), toy_files(privateKeyFile \<mapsto> ''new''), ())
    \<and> (\<forall>(http2 :: unit transport) token2 env2 name2 os2 h2. part_order (ClientEnv_order env2) \<longrightarrow>
         EnsureIdentity toy_wire http2 token2 env2 name2 os2 (toy_files(privateKeyFile \<mapsto> ''new''), h2)
           = (Inl (ErrOther ''load agent identity''), toy_files(privateKeyFile \<mapsto> ''new''), h2))"
    by (rule renewal_interrupted [OF toy_holds _ toy_renewal [OF pair, of _ _ "''csr''"]])
      (simp_all add: toy_client_env_def toy_identity_def toy_wire_def toy_late_def toy_renewal_time_def certificateLifetime_def duration_simps)
  have "part_order (ClientEnv_order ?env2)" using toy_part_order by (simp add: toy_client_env_def)
  with run show ?thesis by blast
qed

text \<open>The authority behind a network that carries one request and one answer.\<close>

definition toy_answers :: "AgentIdentity \<Rightarrow> Wire" where
  "toy_answers identity = toy_wire\<lparr>Wire_parse_identity := \<lambda>_. Some identity, Wire_key_pair := \<lambda>_ _. True\<rparr>"

definition toy_authority_network :: "Authority \<Rightarrow> TokenStore transport" where
  "toy_authority_network authority sent st =
     (case EnrollContext toy_x509 (\<lambda>s. s) (\<lambda>s. s) authority (Some (\<lambda>_. CHR ''a'')) 0 (Inr 2) toy_request st of
        (Inl e, st1) \<Rightarrow> (Inr (401, []), st1) | (Inr identity, st1) \<Rightarrow> (Inr (201, ''identity''), st1))"

lemma toy_enrolls_by:
  assumes only: "\<And>st other st1. EnrollContext toy_x509 (\<lambda>s. s) (\<lambda>s. s) authority (Some (\<lambda>_. CHR ''a'')) 0 (Inr 2) toy_request st = (Inr other, st1)
      \<Longrightarrow> other = identity"
  shows "enrolls_by toy_x509 (\<lambda>s. s) (\<lambda>s. s) authority 0 (toy_answers identity) (toy_authority_network authority)"
  unfolding enrolls_by_def
proof (intro allI impI)
  fix sent :: HTTPRequest and st
  obtain res st1 where run: "EnrollContext toy_x509 (\<lambda>s. s) (\<lambda>s. s) authority (Some (\<lambda>_. CHR ''a'')) 0 (Inr 2) toy_request st = (res, st1)"
    by fastforce
  have "\<forall>request. Wire_enroll (toy_answers identity) request = Some (HTTP_Body sent) \<longrightarrow> request = toy_request"
    by (simp add: toy_answers_def toy_wire_def)
  with run have "\<forall>request. Wire_enroll (toy_answers identity) request = Some (HTTP_Body sent) \<longrightarrow>
      EnrollContext toy_x509 (\<lambda>s. s) (\<lambda>s. s) authority (Some (\<lambda>_. CHR ''a'')) 0 (Inr 2) request st = (res, st1)" by blast
  moreover have "case toy_authority_network authority sent st of
                (Inl e, st2) \<Rightarrow> st2 = st \<or> st2 = st1
              | (Inr (status, answer), st2) \<Rightarrow> st2 = st1
                  \<and> (case res of Inl e \<Rightarrow> status \<noteq> 201
                     | Inr identity2 \<Rightarrow> status = 201 \<and> Wire_parse_identity (toy_answers identity) (take (2 ^ 20) answer) = Some identity2)"
    using run only by (cases res) (simp_all add: toy_authority_network_def toy_answers_def)
  ultimately show "\<exists>r serial res st1. (\<forall>request. Wire_enroll (toy_answers identity) request = Some (HTTP_Body sent) \<longrightarrow>
             EnrollContext toy_x509 (\<lambda>s. s) (\<lambda>s. s) authority r 0 serial request st = (res, st1))
           \<and> (case toy_authority_network authority sent st of
                (Inl e, st2) \<Rightarrow> st2 = st \<or> st2 = st1
              | (Inr (status, answer), st2) \<Rightarrow> st2 = st1
                  \<and> (case res of Inl e \<Rightarrow> status \<noteq> 201
                     | Inr identity2 \<Rightarrow> status = 201 \<and> Wire_parse_identity (toy_answers identity) (take (2 ^ 20) answer) = Some identity2))"
    by (intro exI [of _ "Some (\<lambda>_. CHR ''a'')"] exI [of _ "Inr 2"] exI [of _ res] exI [of _ st1] conjI)
qed

lemma EnrollContext_answer:
  "EnrollContext x sha uni authority r now serial request st = (Inr a, st1) \<Longrightarrow>
   EnrollContext x sha uni authority r now serial request st' = (Inr b, st1') \<Longrightarrow> a = b"
  by (auto simp: EnrollContext_def split: sum.splits if_splits prod.splits)

theorem agent_enrollment_witness:
  "\<exists>authority wire st0 i files' st'.
     EnsureIdentity wire (toy_authority_network authority) ''token'' ((toy_client_env 0 (\<lambda>_. Fine))\<lparr>ClientEnv_material :=
         Inr (''new'', EnrollRequest_CSRPEM toy_request)\<rparr>) ''host'' ''linux'' (Map.empty, st0) = (Inr i, files', st')
     \<and> Identity_Load wire None (\<lambda>_. None) [certificateFile, privateKeyFile, agentCAFile] files' = Inr (Some i)
     \<and> Identity_AgentID i = toy_agent \<and> dom (TokenStore_agents st') = {toy_agent}"
proof -
  obtain authority st0 identity st1 where toy:
    "NewAuthority toy_x509 (\<lambda>s. s) (Inr (''root'', ''key'')) 0 (Inr 1) ''token'' = Inr (authority, st0)"
    "EnrollContext toy_x509 (\<lambda>s. s) (\<lambda>s. s) authority (Some (\<lambda>_. CHR ''a'')) 0 (Inr 2) toy_request st0 = (Inr identity, st1)"
    "AgentIdentity_AgentID identity = toy_agent" "AgentIdentity_ExpiresAt identity = certificateLifetime"
    using toy_enrolls .
  let ?wire = "toy_answers identity" and ?http = "toy_authority_network authority"
  let ?env = "(toy_client_env 0 (\<lambda>_. Fine))\<lparr>ClientEnv_material := Inr (''new'', EnrollRequest_CSRPEM toy_request)\<rparr>"
  have ok: "wire_ok ?wire" using toy_wire_ok by (simp add: wire_ok_def toy_answers_def)
  have by_hub: "enrolls_by toy_x509 (\<lambda>s. s) (\<lambda>s. s) authority 0 ?wire ?http"
    using toy(2) by (intro toy_enrolls_by) (blast dest: EnrollContext_answer)
  have req: "\<lparr>EnrollRequest_BootstrapToken = ''token'', EnrollRequest_Name = ''host'', EnrollRequest_OperatingSystem = ''linux'',
      EnrollRequest_CSRPEM = EnrollRequest_CSRPEM toy_request\<rparr> = toy_request" by (simp add: toy_request_def)
  have answered: "requestStatuses ?wire ?http ''POST'' ''/api/v1/agents/enroll'' (Some (Wire_enroll ?wire toy_request)) None [201]
      (Some (Wire_parse_identity ?wire)) st0 = (Inr (201, Some identity), st1)"
    by (simp add: requestStatuses_def toy_answers_def toy_wire_def toy_authority_network_def toy(2))
  have nonempty: "toy_agent \<noteq> []" by (simp add: toy_agent_def hex_encode_def upt_rec)
  have "\<exists>i files'. client_enroll ?wire ?http ''token'' ?env ''host'' ''linux'' (Map.empty, st0) = (Inr i, files', st1)"
    using toy(3,4) nonempty answered
    by (simp add: client_enroll_def toy_client_env_def req Let_def Identity_Save_def identityFromEnrollment_def TLSCertificate_def
        atomicWrite_def) (simp add: toy_answers_def toy_wire_def atomicWrite_def certificateLifetime_def duration_simps)
  then obtain i files' where run: "EnsureIdentity ?wire ?http ''token'' ?env ''host'' ''linux'' (Map.empty, st0) = (Inr i, files', st1)"
    by (auto simp: EnsureIdentity_def Identity_Load_def read_file_def toy_client_env_def trim_space_plain plain_char_def)
  from agent_enrollment [OF toy_x509_ok toy(1) rtranclp.rtrancl_refl ok by_hub _ run] toy_part_order
  have "Identity_Load ?wire None (\<lambda>_. None) [certificateFile, privateKeyFile, agentCAFile] files' = Inr (Some i)"
    "dom (TokenStore_agents st1) = {Identity_AgentID i}" by (auto split: if_splits)
  moreover obtain agent where "TokenStore_agents st1 = [AgentIdentity_AgentID identity \<mapsto> agent]"
    by (rule enrolled_agent [OF toy_x509_ok toy(1) rtranclp.rtrancl_refl toy(2)])
  ultimately show ?thesis using run toy(3)
    by (intro exI [of _ authority] exI [of _ ?wire] exI [of _ st0] exI [of _ i] exI [of _ files'] exI [of _ st1]) simp
qed

text \<open>The same agent 23.5 hours later: the authority behind a network that carries one renewal.\<close>

definition toy_renewed_identity :: "Authority \<Rightarrow> AgentIdentity" where
  "toy_renewed_identity authority = \<lparr>AgentIdentity_AgentID = toy_agent, AgentIdentity_CertificatePEM = encodeCertificate toy_x509 ''renewed'',
     AgentIdentity_CACertificatePEM = Authority_caPEM authority, AgentIdentity_ExpiresAt = toy_renewal_time + certificateLifetime\<rparr>"

definition toy_renewing :: "Authority \<Rightarrow> TokenStore transport" where
  "toy_renewing authority sent st =
     (let peer = map_option fst (HTTP_Certificate sent);
          certificate = Option.bind (Option.bind peer (X509_pem_decode toy_x509)) (\<lambda>(_, der). X509_parse toy_x509 der) in
      case RenewContext toy_x509 authority toy_renewal_time toy_renewal_time (Inr 3) certificate (HTTP_Body sent) st of
        Inl e \<Rightarrow> (Inr (401, []), st) | Inr identity \<Rightarrow> (Inr (200, ''identity''), st))"

lemma toy_renewed_create:
  "toy_create (agent_template (spiffe_url i) 3 toy_renewal_time i os) parent pub key = Inr der
     \<longleftrightarrow> i = toy_agent \<and> os = ''linux'' \<and> pub = ''pub'' \<and> der = ''renewed''"
proof -
  have "stored_certificate (agent_template (spiffe_url i) 3 toy_renewal_time i os) pub \<noteq> toy_ca"
    by (auto simp: stored_certificate_def agent_template_def toy_ca_def)
  moreover have "agent_template (spiffe_url i) 3 toy_renewal_time i os \<noteq> toy_template"
    by (auto simp: agent_template_def toy_template_def)
  ultimately show ?thesis by (auto simp: toy_create_def toy_renewed_def agent_template_def)
qed

lemma toy_renewed_only:
  assumes "RenewContext toy_x509 authority t toy_renewal_time (Inr 3) peer csr st = Inr identity"
  shows "identity = toy_renewed_identity authority"
proof -
  obtain i os pub where "issue toy_x509 authority toy_renewal_time (Inr 3) i os pub = Inr identity"
    using assms by (auto simp: RenewContext_def Let_def split: sum.splits option.splits)
  moreover have "X509_url_parse toy_x509 (''spiffe://bazusop/agent/'' @ i) = Inr (spiffe_url i)" by (simp add: toy_x509_def)
  moreover have "X509_create toy_x509 = toy_create" by (simp add: toy_x509_def)
  ultimately obtain der where "toy_create (agent_template (spiffe_url i) 3 toy_renewal_time i os) (Authority_caCertificate authority) pub
      (Authority_caPrivateKey authority) = Inr der"
    "identity = \<lparr>AgentIdentity_AgentID = i, AgentIdentity_CertificatePEM = encodeCertificate toy_x509 der,
       AgentIdentity_CACertificatePEM = Authority_caPEM authority,
       AgentIdentity_ExpiresAt = Certificate_NotAfter (agent_template (spiffe_url i) 3 toy_renewal_time i os)\<rparr>"
    by (auto simp: issue_def Let_def split: sum.splits)
  then have "i = toy_agent \<and> der = ''renewed''"
    "AgentIdentity_ExpiresAt identity = Certificate_NotAfter (agent_template (spiffe_url i) 3 toy_renewal_time i os)"
    and identity: "identity = \<lparr>AgentIdentity_AgentID = i, AgentIdentity_CertificatePEM = encodeCertificate toy_x509 der,
       AgentIdentity_CACertificatePEM = Authority_caPEM authority,
       AgentIdentity_ExpiresAt = Certificate_NotAfter (agent_template (spiffe_url i) 3 toy_renewal_time i os)\<rparr>"
    by (simp_all add: toy_renewed_create)
  then show ?thesis by (simp add: toy_renewed_identity_def) (simp add: agent_template_def)
qed

lemma toy_renews_at:
  "renews_at toy_x509 authority 3 toy_renewal_time toy_renewal_time (toy_answers (toy_renewed_identity authority)) (toy_renewing authority)"
  unfolding renews_at_def
proof (intro allI impI)
  fix sent :: HTTPRequest and st csr pem key der c
  assume a: "Wire_csr (toy_answers (toy_renewed_identity authority)) csr = Some (HTTP_Body sent)" "HTTP_Certificate sent = Some (pem, key)"
    "X509_pem_decode toy_x509 pem = Some (''CERTIFICATE'', der)" "X509_parse toy_x509 der = Some c"
  then have "HTTP_Body sent = csr" by (simp add: toy_answers_def toy_wire_def)
  then show "\<exists>status answer. toy_renewing authority sent st = (Inr (status, answer), st)
           \<and> (case RenewContext toy_x509 authority toy_renewal_time toy_renewal_time (Inr 3) (Some c) csr st of
                Inl e \<Rightarrow> status \<noteq> 200
              | Inr identity \<Rightarrow> status = 200
                  \<and> Wire_parse_identity (toy_answers (toy_renewed_identity authority)) (take (2 ^ 20) answer) = Some identity)"
    using a toy_renewed_only [of authority toy_renewal_time "Some c" csr st]
    by (auto simp: toy_renewing_def Let_def toy_answers_def split: sum.splits)
qed

lemma toy_online:
  assumes "Authority_caCertificate authority = toy_ca"
  shows "online toy_x509 authority (toy_answers (toy_renewed_identity authority)) toy_agent ''linux''
    (toy_renewing authority, (toy_client_env toy_renewal_time (\<lambda>_. Fine))\<lparr>ClientEnv_material := Inr (''new'', EnrollRequest_CSRPEM toy_request)\<rparr>,
     3, toy_renewal_time, toy_renewal_time)"
proof -
  have "toy_create (agent_template (spiffe_url toy_agent) 3 toy_renewal_time toy_agent ''linux'') toy_ca ''pub'' key = Inr ''renewed''" for key
    by (simp add: toy_renewed_create)
  then have "X509_create toy_x509 (agent_template (spiffe_url toy_agent) 3 toy_renewal_time toy_agent ''linux'') toy_ca ''pub'' key = Inr ''renewed''" for key
    by (simp add: toy_x509_def)
  moreover have "valid_at toy_ca toy_renewal_time" "toy_renewal_time + certificateLifetime \<noteq> 0"
    by (simp_all add: valid_at_def toy_ca_def stored_certificate_def toy_renewal_time_def certificateLifetime_def duration_simps)
  moreover have "Wire_metadata (toy_answers identity) toy_agent (toy_renewal_time + certificateLifetime) \<noteq> None" for identity
    by (simp add: toy_answers_def toy_wire_def toy_late_def)
  ultimately show ?thesis
    using toy_renews_at [of authority] toy_part_order toy_csr assms
    by (auto simp: online_def readable_def toy_client_env_def duration_simps)
      (simp_all add: toy_answers_def toy_wire_def)
qed


end
