(* ===== verification/Agent_Runner_Properties.thy ===== *)
theory Agent_Runner_Properties
  imports Agent_Runner Agent_Client_Properties
begin

text \<open>
  One cycle of the agent as a whole, and what the longest report interval does to its identity.
\<close>

section \<open>A cycle touches each part of the agent once\<close>

lemma agent_runner_parts [simp]:
  "Runner_EnsureIdentity (agent_runner lib configuration hostname os cycle) = agent_ensure lib (AgentConfig_EnrollmentToken configuration) cycle"
  "Runner_ReportInventory (agent_runner lib configuration hostname os cycle)
     = (\<lambda>identity v. on_hub (ReportInventory (AgentLib_wire lib) (Cycle_http cycle) identity v))"
  "Runner_ReportTelemetry (agent_runner lib configuration hostname os cycle)
     = (\<lambda>identity v. on_hub (ReportTelemetry (AgentLib_wire lib) (Cycle_http cycle) identity v))"
  "Runner_ReportServices (agent_runner lib configuration hostname os cycle)
     = (\<lambda>identity v. on_hub (ReportServices (AgentLib_wire lib) (Cycle_http cycle) identity v))"
  "Runner_ReportLogs (agent_runner lib configuration hostname os cycle)
     = (\<lambda>identity batch. on_hub (ReportLogs (AgentLib_sha lib) (AgentLib_nano lib) (AgentLib_marshal lib)
          (post_logs (AgentLib_wire lib) (Cycle_http cycle) identity) (Identity_AgentID identity) batch))"
  "Runner_Collector (agent_runner lib configuration hostname os cycle) = (\<lambda>w. (Cycle_facts cycle, w))"
  "Runner_Telemetry (agent_runner lib configuration hostname os cycle) = (\<lambda>w. (Cycle_sample cycle, w))"
  "Runner_Services (agent_runner lib configuration hostname os cycle) = (\<lambda>w. (Cycle_services cycle, w))"
  "Runner_LogsCollect (agent_runner lib configuration hostname os cycle) = agent_collect cycle"
  "Runner_LogsCommit (agent_runner lib configuration hostname os cycle) = agent_commit cycle"
  "Runner_ProcessNext (agent_runner lib configuration hostname os cycle) = agent_process lib cycle"
  "Runner_Hostname (agent_runner lib configuration hostname os cycle) = hostname"
  "Runner_OperatingSystem (agent_runner lib configuration hostname os cycle) = os"
  by (simp_all add: agent_runner_def Let_def)

lemma on_hub_frame: "on_hub f w = (result, w') \<Longrightarrow> \<exists>h. w' = w\<lparr>AgentWorld_hub := h\<rparr>"
  by (auto simp: on_hub_def split: prod.splits)

lemma collect_and_report_frame:
  assumes "collect_and_report message (\<lambda>w. (collected, w)) (\<lambda>v. on_hub (f v)) w = (errors, w')"
  shows "\<exists>h. w' = w\<lparr>AgentWorld_hub := h\<rparr>"
proof (cases collected)
  case (Inl e)
  with assms have "w' = w\<lparr>AgentWorld_hub := AgentWorld_hub w\<rparr>" by (simp add: collect_and_report_def)
  then show ?thesis ..
next
  case (Inr v)
  obtain result w1 where run: "on_hub (f v) w = (result, w1)" by fastforce
  with assms Inr have "w' = w1" by (cases result) (auto simp: collect_and_report_def)
  with on_hub_frame [OF run] show ?thesis by simp
qed

text \<open>The log part of a cycle is \<open>ship_logs\<close> on the collector, the checkpoint and the hub.\<close>

lemma report_logs_ship:
  fixes lib :: AgentLib
  assumes "ship_logs (Cycle_collect cycle) (ReportLogs (AgentLib_sha lib) (AgentLib_nano lib) (AgentLib_marshal lib)
        (post_logs (AgentLib_wire lib) (Cycle_http cycle) identity) (Identity_AgentID identity)) (Cycle_now cycle) (Cycle_commit cycle)
      (AgentWorld_collector w, AgentWorld_checkpoint w, AgentWorld_hub w) = (failure, collector, checkpoint, h)"
  shows "report_logs (agent_runner lib configuration hostname os cycle) identity w
    = (case failure of None \<Rightarrow> [] | Some e \<Rightarrow> [e],
       w\<lparr>AgentWorld_collector := collector, AgentWorld_checkpoint := checkpoint, AgentWorld_hub := h\<rparr>)"
proof -
  let ?reports = "ReportLogs (AgentLib_sha lib) (AgentLib_nano lib) (AgentLib_marshal lib)
        (post_logs (AgentLib_wire lib) (Cycle_http cycle) identity) (Identity_AgentID identity)"
  obtain batch c1 where collect: "Collector_Collect (Cycle_collect cycle) (AgentWorld_checkpoint w) (Cycle_now cycle) (AgentWorld_collector w)
      = (batch, c1)" by fastforce
  show ?thesis
  proof (cases batch)
    case (Inl e)
    with assms collect show ?thesis by (auto simp: ship_logs_def report_logs_def agent_collect_def)
  next
    case (Inr entries)
    obtain sent h1 where sent: "(if entries = [] then (Inr (), AgentWorld_hub w) else ?reports entries (AgentWorld_hub w)) = (sent, h1)"
      by fastforce
    obtain committed c2 f2 where commit: "Collector_Commit (Cycle_commit cycle) c1 (AgentWorld_checkpoint w) = (committed, c2, f2)"
      by (metis prod_cases3)
    show ?thesis
      using assms collect sent commit Inr
      by (cases sent; cases committed; cases "entries = []")
        (auto simp: ship_logs_def report_logs_def agent_collect_def agent_commit_def on_hub_def)
  qed
qed

text \<open>
  A cycle of the agent that \<open>main\<close> builds. Without an identity it does nothing else: nothing is
  collected, sent or executed, and only the identity files and the hub can have changed, by the call
  that failed. With an identity every part runs, whatever the parts before it did: the errors are
  those of the parts in their order, the collector and its checkpoint move exactly as shipping the
  logs moves them, with the hub as the three reports left it, and the identity files are not touched
  again.
\<close>

theorem agent_cycle:
  "case EnsureIdentity (AgentLib_wire lib) (Cycle_http cycle) (AgentConfig_EnrollmentToken configuration) (Cycle_client cycle)
      hostname os (AgentWorld_files w, AgentWorld_hub w) of
      (Inl _, files, h0) \<Rightarrow> Runner_report (agent_runner lib configuration hostname os cycle) w
        = (Ret [ErrOther ''ensure agent identity''], w\<lparr>AgentWorld_files := files, AgentWorld_hub := h0\<rparr>)
    | (Inr identity, files, h0) \<Rightarrow> (\<exists>reported h1 failure collector checkpoint h2 processed w3.
        ship_logs (Cycle_collect cycle) (ReportLogs (AgentLib_sha lib) (AgentLib_nano lib) (AgentLib_marshal lib)
            (post_logs (AgentLib_wire lib) (Cycle_http cycle) identity) (Identity_AgentID identity)) (Cycle_now cycle) (Cycle_commit cycle)
          (AgentWorld_collector w, AgentWorld_checkpoint w, h1) = (failure, collector, checkpoint, h2)
        \<and> agent_process lib cycle identity (w\<lparr>AgentWorld_files := files, AgentWorld_hub := h2, AgentWorld_collector := collector,
            AgentWorld_checkpoint := checkpoint\<rparr>) = (processed, w3)
        \<and> AgentWorld_files w3 = files \<and> AgentWorld_collector w3 = collector \<and> AgentWorld_checkpoint w3 = checkpoint
        \<and> Runner_report (agent_runner lib configuration hostname os cycle) w
          = (case processed of Crash \<Rightarrow> Crash
             | Fail _ \<Rightarrow> Ret (reported @ (case failure of None \<Rightarrow> [] | Some e \<Rightarrow> [e]) @ [ErrOther ''process remote job''])
             | Ret _ \<Rightarrow> Ret (reported @ (case failure of None \<Rightarrow> [] | Some e \<Rightarrow> [e])), w3))"
proof -
  obtain result files h0 where ensure: "EnsureIdentity (AgentLib_wire lib) (Cycle_http cycle) (AgentConfig_EnrollmentToken configuration)
      (Cycle_client cycle) hostname os (AgentWorld_files w, AgentWorld_hub w) = (result, files, h0)" by (metis prod_cases3)
  show ?thesis
  proof (cases result)
    case (Inl e)
    with ensure show ?thesis by (simp add: Runner_report_def agent_ensure_def)
  next
    case (Inr identity)
    let ?r = "agent_runner lib configuration hostname os cycle"
    define w0 where "w0 = w\<lparr>AgentWorld_files := files, AgentWorld_hub := h0\<rparr>"
    have ensured: "agent_ensure lib (AgentConfig_EnrollmentToken configuration) cycle hostname os w = (Inr identity, w0)"
      using ensure Inr by (simp add: agent_ensure_def w0_def)
    obtain e1 w1 where p1: "collect_and_report ''collect host inventory'' (\<lambda>w. (Cycle_facts cycle, w))
        (\<lambda>v. on_hub (ReportInventory (AgentLib_wire lib) (Cycle_http cycle) identity v)) w0 = (e1, w1)" by fastforce
    obtain e2 w2 where p2: "collect_and_report ''collect host telemetry'' (\<lambda>w. (Cycle_sample cycle, w))
        (\<lambda>v. on_hub (ReportTelemetry (AgentLib_wire lib) (Cycle_http cycle) identity v)) w1 = (e2, w2)" by fastforce
    obtain e3 w3 where p3: "collect_and_report ''collect managed services'' (\<lambda>w. (Cycle_services cycle, w))
        (\<lambda>v. on_hub (ReportServices (AgentLib_wire lib) (Cycle_http cycle) identity v)) w2 = (e3, w3)" by fastforce
    obtain h3 where frame: "w3 = w\<lparr>AgentWorld_files := files, AgentWorld_hub := h3\<rparr>"
      using collect_and_report_frame [OF p1] collect_and_report_frame [OF p2] collect_and_report_frame [OF p3]
      by (auto simp: w0_def)
    obtain failure collector checkpoint h2 where ship: "ship_logs (Cycle_collect cycle)
        (ReportLogs (AgentLib_sha lib) (AgentLib_nano lib) (AgentLib_marshal lib)
          (post_logs (AgentLib_wire lib) (Cycle_http cycle) identity) (Identity_AgentID identity)) (Cycle_now cycle) (Cycle_commit cycle)
        (AgentWorld_collector w3, AgentWorld_checkpoint w3, AgentWorld_hub w3) = (failure, collector, checkpoint, h2)"
      by (metis prod_cases4)
    define w4 where "w4 = w3\<lparr>AgentWorld_collector := collector, AgentWorld_checkpoint := checkpoint, AgentWorld_hub := h2\<rparr>"
    obtain processed w5 where process: "agent_process lib cycle identity w4 = (processed, w5)" by fastforce
    have w4: "w4 = w\<lparr>AgentWorld_files := files, AgentWorld_hub := h2, AgentWorld_collector := collector, AgentWorld_checkpoint := checkpoint\<rparr>"
      unfolding w4_def by (simp add: frame)
    have same: "AgentWorld_collector w3 = AgentWorld_collector w" "AgentWorld_checkpoint w3 = AgentWorld_checkpoint w"
      by (simp_all add: frame)
    have "AgentWorld_files w5 = files" "AgentWorld_collector w5 = collector" "AgentWorld_checkpoint w5 = checkpoint"
      using process w4 by (auto simp: agent_process_def split: prod.splits)
    moreover have "Runner_report ?r w = (case processed of Crash \<Rightarrow> Crash
        | Fail _ \<Rightarrow> Ret ((e1 @ e2 @ e3) @ (case failure of None \<Rightarrow> [] | Some e \<Rightarrow> [e]) @ [ErrOther ''process remote job''])
        | Ret _ \<Rightarrow> Ret ((e1 @ e2 @ e3) @ (case failure of None \<Rightarrow> [] | Some e \<Rightarrow> [e])), w5)"
      unfolding Runner_report_def agent_runner_parts ensured prod.case sum.case p1 p2 p3 report_logs_ship [OF ship] w4_def [symmetric] process
      by (simp split: outcome.splits)
    ultimately show ?thesis
      unfolding ensure Inr prod.case sum.case
      by (intro exI [of _ "e1 @ e2 @ e3"] exI [of _ "AgentWorld_hub w3"] exI [of _ failure] exI [of _ collector] exI [of _ checkpoint]
          exI [of _ h2] exI [of _ processed] exI [of _ w5] conjI ship [unfolded same] process [unfolded w4])
  qed
qed

section \<open>The longest report interval\<close>

text \<open>
  A network with the authority behind it, for a request that renews with the certificate \<open>c\<close> and
  reaches the hub at \<open>tm\<close>: it is answered 200 only by \<open>RenewContext\<close> at that time.
\<close>

definition renewed_by :: "X509 \<Rightarrow> Authority \<Rightarrow> TokenStore \<Rightarrow> time \<Rightarrow> 'h transport \<Rightarrow> bool" where
  "renewed_by x authority st tm http \<longleftrightarrow>
     (\<forall>sent pem key der c h answer h'. HTTP_Path sent = ''/api/v1/agents/renew'' \<longrightarrow> HTTP_Certificate sent = Some (pem, key) \<longrightarrow>
        X509_pem_decode x pem = Some (''CERTIFICATE'', der) \<longrightarrow> X509_parse x der = Some c \<longrightarrow>
        http sent h = (Inr (200, answer), h') \<longrightarrow>
        (\<exists>now serial csr renewed. RenewContext x authority tm now serial (Some c) csr st = Inr renewed))"

lemma renewal_refused:
  assumes "renewed_by x authority st tm http"
    and "X509_pem_decode x (Identity_CertificatePEM i) = Some (''CERTIFICATE'', der)" "X509_parse x der = Some c"
    and "Authenticate x authority tm (Some c) = Inl ErrInvalidIdentity"
  shows "\<exists>e h'. client_renew wire http env i (files, h) = (Inl e, files, h')"
proof (cases "ClientEnv_material env")
  case (Inl e)
  then show ?thesis by (simp add: client_renew_def)
next
  case (Inr material)
  obtain key csr where material: "material = (key, csr)" by fastforce
  obtain answer h' where run: "requestStatuses wire http ''POST'' ''/api/v1/agents/renew'' (Some (Wire_csr wire csr)) (Some i) [200]
      (Some (Wire_parse_identity wire)) h = (answer, h')" by fastforce
  have refused: "RenewContext x authority tm now serial (Some c) csr2 st \<noteq> Inr renewed" for now serial csr2 renewed
    using assms(4) by (auto simp: RenewContext_def AuthenticateContext_def split: sum.splits)
  have "\<exists>e. answer = Inl e"
  proof (rule ccontr)
    assume "\<not> ?thesis"
    then obtain sent body where "http sent h = (Inr (200, body), h')" "HTTP_Path sent = ''/api/v1/agents/renew''"
      "HTTP_Certificate sent = Some (Identity_CertificatePEM i, Identity_PrivateKeyPEM i)"
      using run by (auto simp: requestStatuses_def split: if_splits prod.splits sum.splits option.splits)
    with assms(1-3) refused show False unfolding renewed_by_def by blast
  qed
  with run Inr material show ?thesis by (auto simp: client_renew_def)
qed

lemma ensure_cycles_append:
  "ensure_cycles wire token name os (cycles @ others) w =
     (case ensure_cycles wire token name os cycles w of
        (results, w1) \<Rightarrow> (case ensure_cycles wire token name os others w1 of (results2, w2) \<Rightarrow> (results @ results2, w2)))"
proof (induction cycles arbitrary: w)
  case (Cons c cycles)
  then show ?case by (cases c) (simp split: prod.splits)
qed simp

text \<open>Hourly cycles after the one that read the clock at \<open>start\<close>, the \<open>k\<close>-th of them late by less than \<open>slack\<close>.\<close>

definition hourly :: "time \<Rightarrow> duration \<Rightarrow> nat \<Rightarrow> ClientEnv \<Rightarrow> bool" where
  "hourly start slack k env \<longleftrightarrow> readable env
     \<and> start + int k * hour \<le> ClientEnv_now env 0 \<and> ClientEnv_now env 1 < start + int k * hour + slack"

lemma hourly_quiet:
  assumes "holds_identity wire i files" "Identity_ExpiresAt i = start + slack + 24 * hour" "0 < slack" "slack < hour"
    and "\<forall>k < length cycles. hourly start slack (Suc (n + k)) (snd (cycles ! k))" "n + length cycles \<le> 23"
  shows "ensure_cycles wire token name os cycles (files, h) = (replicate (length cycles) (Inr i), files, h)"
  using assms(5,6)
proof (induction cycles arbitrary: n)
  case (Cons c cycles)
  obtain http env where c: "c = (http, env)" by fastforce
  from Cons.prems(1) have now: "hourly start slack (Suc n) env" by (force simp: c)
  from Cons.prems(1) have rest: "\<forall>k < length cycles. hourly start slack (Suc (Suc n + k)) (snd (cycles ! k))" by force
  have "int (Suc n) * hour \<le> 23 * hour" using Cons.prems(2) by (simp add: duration_simps)
  then have "ClientEnv_now env 1 + renewalWindow < Identity_ExpiresAt i" "ClientEnv_now env 0 < Identity_ExpiresAt i"
    using now assms(2,3) by (auto simp: hourly_def readable_def renewalWindow_def duration_simps)
  then have "EnsureIdentity wire http token env name os (files, h) = (Inr i, files, h)"
    using Ensure_holding [OF assms(1), of env http token name os h] now by (simp add: hourly_def)
  with Cons.IH [OF rest] Cons.prems(2) show ?case by (simp add: c)
qed simp

text \<open>
  An agent that reports once an hour, the longest interval its configuration accepts, loses its
  identity. Let it have renewed in a cycle that began at \<open>start\<close>, the hub issuing \<open>slack\<close> later, and
  let the cycles that follow begin on the hour, each less than \<open>slack\<close> late. For 23 cycles the expiry
  is still more than the renewal window of one hour away, so nothing is sent. The 24th cycle renews,
  but its request reaches the hub when the certificate has run out (its end is cut to whole
  seconds): it is refused, the files keep the old identity, and every cycle from then on fails
  without calling the hub.
\<close>

theorem hourly_agent_expires:
  fixes cycles :: "('h transport \<times> ClientEnv) list"
  assumes "AgentConfig_Validate fold_equal parse_ip parse_url configuration = None"
    and "x509_ok x" "sound_authority x authority" "hex32_pattern (AgentIdentity_AgentID renewed)"
    and "issue x authority (start + slack) serial (AgentIdentity_AgentID renewed) system csr = Inr renewed"
    and "holds_identity wire (identityFromEnrollment renewed key) files" "0 < slack" "slack < hour"
    and "length cycles = 23" "\<forall>k < 23. hourly start slack (Suc k) (snd (cycles ! k))"
    and "hourly start slack 24 env" "renewed_by x authority st tm http"
    and "start + slack + 24 * hour - (start + slack + 24 * hour) mod second < tm"
  shows "AgentConfig_Validate fold_equal parse_ip parse_url (configuration\<lparr>AgentConfig_ReportInterval := hour\<rparr>) = None
    \<and> (\<exists>e h'. ensure_cycles wire token name os (cycles @ [(http, env)]) (files, h)
         = (replicate 23 (Inr (identityFromEnrollment renewed key)) @ [Inl e], files, h'))
    \<and> (\<forall>(http2 :: 'h transport) env2 h2. readable env2 \<longrightarrow> start + slack + 24 * hour \<le> ClientEnv_now env2 0 \<longrightarrow>
         (\<exists>e. EnsureIdentity wire http2 token env2 name os (files, h2) = (Inl e, files, h2)))"
proof (intro conjI allI impI)
  let ?i = "identityFromEnrollment renewed key"
  show "AgentConfig_Validate fold_equal parse_ip parse_url (configuration\<lparr>AgentConfig_ReportInterval := hour\<rparr>) = None"
    using assms(1) by (auto simp: AgentConfig_Validate_def duration_simps split: option.splits if_splits)
  obtain c where "\<forall>d. presents x renewed d \<longleftrightarrow> d = c" and expires: "AgentIdentity_ExpiresAt renewed = start + slack + certificateLifetime"
    and ends: "Certificate_NotAfter c = start + slack + certificateLifetime - (start + slack + certificateLifetime) mod second"
    and known: "\<forall>tm. Authenticate x authority tm (Some c) = (if valid_at c tm \<and> valid_at (Authority_caCertificate authority) tm
          then Inr (AgentIdentity_AgentID renewed) else Inl ErrInvalidIdentity)"
    by (rule issue_Inr [OF assms(2-5)])
  then obtain der where der: "X509_pem_decode x (Identity_CertificatePEM ?i) = Some (''CERTIFICATE'', der)" "X509_parse x der = Some c"
    by (auto simp: presents_def identityFromEnrollment_def)
  have i: "Identity_ExpiresAt ?i = start + slack + 24 * hour"
    using expires by (simp add: identityFromEnrollment_def certificateLifetime_def)
  have "\<not> valid_at c tm" using assms(13) ends by (simp add: valid_at_def certificateLifetime_def)
  then have late: "Authenticate x authority tm (Some c) = Inl ErrInvalidIdentity" using known by simp
  have quiet: "ensure_cycles wire token name os cycles (files, h) = (replicate 23 (Inr ?i), files, h)"
    using hourly_quiet [OF assms(6) i assms(7,8), of cycles 0] assms(9,10) by simp
  have now: "readable env" "start + 24 * hour \<le> ClientEnv_now env 0" "ClientEnv_now env 1 < start + 24 * hour + slack"
    using assms(11) by (simp_all add: hourly_def)
  then have "EnsureIdentity wire http token env name os (files, h) = client_renew wire http env ?i (files, h)"
    using Ensure_holding [OF assms(6), of env http token name os h] assms(8)
    by (simp add: i readable_def renewalWindow_def)
  with renewal_refused [OF assms(12) der late, of wire env files h]
  show "\<exists>e h'. ensure_cycles wire token name os (cycles @ [(http, env)]) (files, h) = (replicate 23 (Inr ?i) @ [Inl e], files, h')"
    by (auto simp: ensure_cycles_append quiet)
  fix http2 :: "'h transport" and env2 h2
  assume "readable env2" "start + slack + 24 * hour \<le> ClientEnv_now env2 0"
  then show "\<exists>e. EnsureIdentity wire http2 token env2 name os (files, h2) = (Inl e, files, h2)"
    using Load_holds [OF _ assms(6), of "ClientEnv_order env2"] by (simp add: EnsureIdentity_def readable_def i)
qed

definition toy_refusing :: "TokenStore transport" where
  "toy_refusing sent st = (Inr (401, []), st)"

definition toy_agent_config :: AgentConfig where
  "toy_agent_config = \<lparr>AgentConfig_HubURL = ''https://hub'', AgentConfig_EnrollmentToken = [], AgentConfig_StateDir = ''state'',
     AgentConfig_ServerCAFile = [], AgentConfig_ReportInterval = minute\<rparr>"

definition toy_parse_url :: "string \<Rightarrow> HubURL option" where
  "toy_parse_url s = Some \<lparr>HubURL_Scheme = ''https'', HubURL_Host = ''hub'', HubURL_Hostname = ''hub'', HubURL_User = False,
     HubURL_RawQuery = [], HubURL_Fragment = []\<rparr>"

theorem hourly_agent_expires_witness:
  "\<exists>wire i files e h' st.
     ensure_cycles wire [] ''host'' ''linux'' (map (\<lambda>k. (toy_refusing, toy_client_env (int (Suc k) * hour - 1) (\<lambda>_. Fine))) [0..<23]
        @ [(toy_refusing, toy_client_env (24 * hour - 1) (\<lambda>_. Fine))]) (files, st)
     = (replicate 23 (Inr i) @ [Inl e], files, h')"
proof -
  obtain authority st0 identity st1 where toy:
    "NewAuthority toy_x509 (\<lambda>s. s) (Inr (''root'', ''key'')) 0 (Inr 1) ''token'' = Inr (authority, st0)"
    "EnrollContext toy_x509 (\<lambda>s. s) (\<lambda>s. s) authority (Some (\<lambda>_. CHR ''a'')) 0 (Inr 2) toy_request st0 = (Inr identity, st1)"
    "AgentIdentity_AgentID identity = toy_agent" "AgentIdentity_ExpiresAt identity = certificateLifetime"
    using toy_enrolls .
  from toy(2) obtain csr agentID os where agent: "randomAgentID (Some (\<lambda>_. CHR ''a'')) = Inr agentID"
    "issue toy_x509 authority 0 (Inr 2) agentID os csr = Inr identity"
    by (cases rule: EnrollContext_cases) auto
  have hex: "hex32_pattern agentID" using agent(1) rand_hex_hex32 by (simp add: randomAgentID_def)
  have same: "agentID = AgentIdentity_AgentID identity"
    using issue_Inr [OF toy_x509_ok NewAuthority_sound(1) [OF toy(1)] hex agent(2)] by metis
  let ?i = "identityFromEnrollment identity ''new''" and ?wire = "toy_answers identity"
  let ?files = "Map.empty ++ map_of (rev (identity_writes ?i (CHR ''0'' # toy_agent)))"
  have "wire_ok ?wire" using toy_wire_ok by (simp add: wire_ok_def toy_answers_def)
  moreover have "saved_identity ?i = ?i" using hex same by (simp add: identityFromEnrollment_def)
  ultimately have holds: "holds_identity ?wire ?i ?files"
    using writes_hold [of ?wire ?i "CHR ''0'' # toy_agent" Map.empty] hex32_nonempty [OF hex] hex toy(3,4) same
    by (simp add: identityFromEnrollment_def TLSCertificate_def toy_answers_def toy_wire_def
        certificateLifetime_def duration_simps)
  have fits: "AgentConfig_Validate (=) (\<lambda>_. None) toy_parse_url toy_agent_config = None"
    by (simp add: AgentConfig_Validate_def toy_agent_config_def toy_parse_url_def duration_simps trim_space_plain plain_char_def)
  let ?cycles = "map (\<lambda>k. (toy_refusing, toy_client_env (int (Suc k) * hour - 1) (\<lambda>_. Fine))) [0..<23]"
  have on_time: "hourly (- 1) 1 k (toy_client_env (int k * hour - 1) (\<lambda>_. Fine))" for k
    using toy_part_order by (simp add: hourly_def readable_def toy_client_env_def)
  have times: "\<forall>k < 23. hourly (- 1) 1 (Suc k) (snd (?cycles ! k))"
    using on_time [of "Suc _"] by simp
  have last_cycle: "hourly (- 1) 1 24 (toy_client_env (24 * hour - 1) (\<lambda>_. Fine))" using on_time [of 24] by simp
  have refusing: "renewed_by toy_x509 authority st1 (24 * hour + 1) toy_refusing"
    by (simp add: renewed_by_def toy_refusing_def)
  from hourly_agent_expires [OF fits toy_x509_ok NewAuthority_sound(1) [OF toy(1)] hex [unfolded same], of "- 1" 1 "Inr 2" os csr ?wire "''new''"
      ?files ?cycles "toy_client_env (24 * hour - 1) (\<lambda>_. Fine)" st1 "24 * hour + 1" toy_refusing "[]" "''host''" "''linux''" st1]
  show ?thesis
    using agent(2) same holds times last_cycle refusing by (simp add: duration_simps) blast
qed

end
