(* ===== verification/Agent_Collectors.thy ===== *)
theory Agent_Collectors
  imports Telemetry Serviceinventory Inventory
begin

text \<open>
  \<open>internal/agent/collector.go\<close>, \<open>platform_linux.go\<close>, \<open>platform_parse.go\<close>,
  \<open>service_collector.go\<close>, \<open>telemetry_collector.go\<close> and their Linux parts: what the agent reads of
  its host before it reports. The files, the commands and the counters of gopsutil are inputs,
  as is \<open>net.ParseIP\<close>; \<open>srt\<close> is \<open>sort.Slice\<close>, \<open>vis\<close> the order of a map, \<open>rnd\<close> rounds to \<open>float64\<close>.
\<close>

section \<open>Text\<close>

text \<open>\<open>strings.Fields\<close>: the runs of bytes between space runes.\<close>

function fields_loop :: "string \<Rightarrow> string \<Rightarrow> string list" where
  "fields_loop word s =
     (if s = [] then (if word = [] then [] else [word])
      else case strip_any space_runes s of
          None \<Rightarrow> fields_loop (word @ [hd s]) (tl s)
        | Some r \<Rightarrow>
            if length r < length s then (if word = [] then fields_loop [] r else word # fields_loop [] r)
            else [])"
  by pat_completeness auto
termination
  by (relation "measure (\<lambda>(word, s). length s)") auto

declare fields_loop.simps [simp del]

definition string_fields :: "string \<Rightarrow> string list" where
  "string_fields s = fields_loop [] s"

text \<open>On ASCII the fields are read byte by byte.\<close>

lemma fields_word:
  assumes "byte_in 33 126 c"
  shows "fields_loop word (c # s) = fields_loop (word @ [c]) s"
proof -
  have "\<not> prefix p (c # s)" if "p \<in> set space_runes" for p
    using that assms by (auto simp: space_runes_def byte_in_def)
  then have "strip_any space_runes (c # s) = None" unfolding strip_any_None by blast
  then show ?thesis by (subst fields_loop.simps) simp
qed

lemma fields_blank: "fields_loop word (CHR '' '' # s) = (if word = [] then fields_loop [] s else word # fields_loop [] s)"
proof -
  have "strip_any space_runes (CHR '' '' # s) = Some s" by (simp add: space_runes_def)
  then show ?thesis by (subst fields_loop.simps) simp
qed

lemma fields_end: "fields_loop word [] = (if word = [] then [] else [word])"
  by (subst fields_loop.simps) simp

lemmas fields_ascii = string_fields_def fields_word fields_blank fields_end byte_in_def

text \<open>
  \<open>bufio.Scanner\<close> over lines: a last line without a line break counts, the carriage return of a
  line does not; a line of 65536 bytes or more ends the scan with an error.
\<close>

definition drop_cr :: "string \<Rightarrow> string" where
  "drop_cr line = (if line \<noteq> [] \<and> last line = CHR 0x0D then butlast line else line)"

definition maxScanTokenSize :: nat where "maxScanTokenSize = 64 * 1024"

definition raw_lines :: "string \<Rightarrow> string list" where
  "raw_lines contents =
     (let parts = split_on (CHR 0x0A) contents in if last parts = [] then butlast parts else parts)"

definition scan_lines :: "string \<Rightarrow> string list" where
  "scan_lines contents = map drop_cr (takeWhile (\<lambda>line. length line < maxScanTokenSize) (raw_lines contents))"

definition scan_too_long :: "string \<Rightarrow> bool" where
  "scan_too_long contents \<longleftrightarrow> list_ex (\<lambda>line. maxScanTokenSize \<le> length line) (raw_lines contents)"

text \<open>\<open>strconv.ParseUint(s, 10, 64)\<close>.\<close>

definition parse_uint64 :: "string \<Rightarrow> 64 word option" where
  "parse_uint64 s =
     (if s = [] \<or> \<not> list_all (byte_in 48 57) s \<or> 2 ^ 64 \<le> undec 0 s then None else Some (of_nat (undec 0 s)))"

section \<open>The platform\<close>

record PlatformFacts =
  Platform_OSFamily :: string
  Platform_OSName :: string
  Platform_OSVersion :: string
  Platform_KernelVersion :: string
  Platform_MemoryBytes :: "64 word"

text \<open>The first line of \<open>MemTotal:\<close> decides.\<close>

fun memory_loop :: "string list \<Rightarrow> 64 word res" where
  "memory_loop [] = Inl (ErrOther ''linux MemTotal is unavailable'')"
| "memory_loop (line # rest) =
     (let fields = string_fields line in
      if length fields \<ge> 2 \<and> fields ! 0 = ''MemTotal:'' then
        (case parse_uint64 (fields ! 1) of
           Some kilobytes \<Rightarrow>
             if kilobytes > 0 then Inr (kilobytes * 1024) else Inl (ErrOther ''linux MemTotal is unavailable'')
         | None \<Rightarrow> Inl (ErrOther ''linux MemTotal is unavailable''))
      else memory_loop rest)"

definition parseLinuxMemory :: "string \<Rightarrow> 64 word res" where
  "parseLinuxMemory contents = memory_loop (scan_lines contents)"

definition trim_quotes :: "string \<Rightarrow> string" where
  "trim_quotes s = rev (dropWhile ((=) quote) (rev (dropWhile ((=) quote) s)))"

definition os_release_value :: "string \<Rightarrow> (string \<rightharpoonup> string) \<Rightarrow> (string \<rightharpoonup> string)" where
  "os_release_value line values =
     (case cut_at (CHR ''='') line of
        None \<Rightarrow> values
      | Some (key, v) \<Rightarrow> values(key \<mapsto> trim_quotes (trim_space v)))"

definition parseOSRelease :: "string \<Rightarrow> string \<times> string" where
  "parseOSRelease contents =
     (let values = fold os_release_value (scan_lines contents) Map.empty;
          get = (\<lambda>key. case values key of None \<Rightarrow> [] | Some v \<Rightarrow> v)
      in (get ''NAME'', get ''VERSION_ID''))"

text \<open>\<open>os.ReadFile\<close>: what was read, and an error.\<close>

definition platformFacts :: "(string \<Rightarrow> string \<times> err option) \<Rightarrow> PlatformFacts res" where
  "platformFacts read_file =
     (case read_file ''/proc/meminfo'' of
        (_, Some e) \<Rightarrow> Inl (ErrOther ''read Linux memory'')
      | (memoryContents, None) \<Rightarrow>
          (case parseLinuxMemory memoryContents of
             Inl e \<Rightarrow> Inl e
           | Inr memory \<Rightarrow>
               (case (parseOSRelease (fst (read_file ''/etc/os-release'')), read_file ''/proc/sys/kernel/osrelease'') of
                  (_, _, Some e) \<Rightarrow> Inl (ErrOther ''read Linux kernel'')
                | ((name, version), kernelContents, None) \<Rightarrow>
                    Inr \<lparr>Platform_OSFamily = ''linux'', Platform_OSName = name, Platform_OSVersion = version,
                         Platform_KernelVersion = trim_space kernelContents, Platform_MemoryBytes = memory\<rparr>)))"

section \<open>Facts\<close>

record ParsedIP =
  ParsedIP_String :: string
  ParsedIP_IsLoopback :: bool
  ParsedIP_IsUnspecified :: bool
  ParsedIP_IsMulticast :: bool

record FactSources =
  Source_Hostname :: "string res"
  Source_Interfaces :: "string list res"
  Source_Platform :: "PlatformFacts res"
  Source_Architecture :: string
  Source_CPUCores :: int
  Source_AgentVersion :: string

definition interfaceAddresses :: "(string \<Rightarrow> string option) \<Rightarrow> string list res \<Rightarrow> string list res" where
  "interfaceAddresses parse_cidr values =
     (case values of Inl e \<Rightarrow> Inl e | Inr values \<Rightarrow> Inr (List.map_filter parse_cidr values))"

definition routable :: "ParsedIP \<Rightarrow> bool" where
  "routable ip \<longleftrightarrow> \<not> (ParsedIP_IsLoopback ip \<or> ParsedIP_IsUnspecified ip \<or> ParsedIP_IsMulticast ip)"

text \<open>A set of texts, sorted.\<close>

definition routableAddresses :: "(string \<Rightarrow> ParsedIP option) \<Rightarrow> string list \<Rightarrow> string list" where
  "routableAddresses parse_ip values =
     sort (remdups (map ParsedIP_String (filter routable (List.map_filter parse_ip values))))"

definition NewCollector ::
  "(string \<Rightarrow> string \<times> err option) \<Rightarrow> (string \<Rightarrow> string option) \<Rightarrow> string res \<Rightarrow> string list res \<Rightarrow> string \<Rightarrow> int \<Rightarrow> string
   \<Rightarrow> FactSources" where
  "NewCollector read_file parse_cidr hostname interfaces goarch numCPU agentVersion =
     \<lparr>Source_Hostname = hostname, Source_Interfaces = interfaceAddresses parse_cidr interfaces,
      Source_Platform = platformFacts read_file, Source_Architecture = goarch, Source_CPUCores = numCPU,
      Source_AgentVersion = agentVersion\<rparr>"

definition Facts_Collect :: "(string \<Rightarrow> ParsedIP option) \<Rightarrow> FactSources \<Rightarrow> Facts res" where
  "Facts_Collect parse_ip sources =
     (case Source_Hostname sources of
        Inl e \<Rightarrow> Inl (ErrOther ''read hostname'')
      | Inr hostname \<Rightarrow>
          (case Source_Interfaces sources of
             Inl e \<Rightarrow> Inl (ErrOther ''read network interfaces'')
           | Inr addresses \<Rightarrow>
               (case Source_Platform sources of
                  Inl e \<Rightarrow> Inl e
                | Inr platform \<Rightarrow>
                    Inr \<lparr>Facts_Hostname = hostname, Facts_OSFamily = Platform_OSFamily platform,
                         Facts_OSName = Platform_OSName platform, Facts_OSVersion = Platform_OSVersion platform,
                         Facts_Architecture = Source_Architecture sources,
                         Facts_KernelVersion = Platform_KernelVersion platform,
                         Facts_CPUCores = Source_CPUCores sources, Facts_MemoryBytes = Platform_MemoryBytes platform,
                         Facts_IPAddresses = routableAddresses parse_ip addresses,
                         Facts_AgentVersion = Source_AgentVersion sources\<rparr>)))"

section \<open>Services\<close>

definition systemdRuntimeState :: "string \<Rightarrow> string" where
  "systemdRuntimeState activeState =
     (if activeState = ''active'' then ''running''
      else if activeState = ''inactive'' then ''stopped''
      else if activeState = ''failed'' then ''failed''
      else ''unknown'')"

definition systemdStartupType :: "string \<Rightarrow> string" where
  "systemdStartupType unitFileState =
     (if unitFileState \<in> {''enabled'', ''enabled-runtime'', ''alias'', ''linked'', ''linked-runtime'', ''generated''} then ''automatic''
      else if unitFileState \<in> {''disabled'', ''masked'', ''masked-runtime''} then ''disabled''
      else if unitFileState \<in> {''static'', ''indirect''} then ''manual''
      else ''unknown'')"

text \<open>The two loops over the lines; the services found so far are a map by name.\<close>

fun unit_loop :: "string list \<Rightarrow> (string \<rightharpoonup> Fact) \<Rightarrow> (string \<rightharpoonup> Fact) res" where
  "unit_loop [] services = Inr services"
| "unit_loop (line # rest) services =
     (let fields = string_fields line in
      if fields = [] then unit_loop rest services
      else if length fields < 4 \<or> \<not> has_suffix (fields ! 0) ''.service''
      then Inl (ErrOther ''invalid systemd service row'')
      else unit_loop rest (services(fields ! 0 \<mapsto>
        \<lparr>Fact_Name = fields ! 0, Fact_DisplayName = (if length fields > 4 then join_with '' '' (drop 4 fields) else []),
         Fact_State = systemdRuntimeState (fields ! 2), Fact_StartupType = ''unknown''\<rparr>)))"

fun unit_file_loop :: "string list \<Rightarrow> (string \<rightharpoonup> Fact) \<Rightarrow> (string \<rightharpoonup> Fact) res" where
  "unit_file_loop [] services = Inr services"
| "unit_file_loop (line # rest) services =
     (let fields = string_fields line in
      if fields = [] then unit_file_loop rest services
      else if length fields < 2 \<or> \<not> has_suffix (fields ! 0) ''.service''
      then Inl (ErrOther ''invalid systemd unit-file row'')
      else
        let found = (case services (fields ! 0) of
              Some v \<Rightarrow> v
            | None \<Rightarrow> \<lparr>Fact_Name = fields ! 0, Fact_DisplayName = [], Fact_State = ''stopped'', Fact_StartupType = []\<rparr>)
        in unit_file_loop rest (services(Fact_Name found \<mapsto> found\<lparr>Fact_StartupType := systemdStartupType (fields ! 1)\<rparr>)))"

definition fact_before :: "Fact \<Rightarrow> Fact \<Rightarrow> bool" where
  "fact_before a b \<longleftrightarrow> Fact_Name a < Fact_Name b"

definition parseSystemdServices :: "Fact sorter \<Rightarrow> (string, Fact) visit \<Rightarrow> string \<Rightarrow> string \<Rightarrow> Fact list res" where
  "parseSystemdServices srt vis unitsOutput unitFilesOutput =
     (case unit_loop (split_on (CHR 0x0A) unitsOutput) Map.empty of
        Inl e \<Rightarrow> Inl e
      | Inr services \<Rightarrow>
          (case unit_file_loop (split_on (CHR 0x0A) unitFilesOutput) services of
             Inl e \<Rightarrow> Inl e
           | Inr services \<Rightarrow> Inr (srt fact_before (map snd (vis services)))))"

text \<open>\<open>systemctl\<close> is the answer of the command to its arguments.\<close>

definition collectPlatformServices ::
  "Fact sorter \<Rightarrow> (string, Fact) visit \<Rightarrow> (string list \<Rightarrow> string res) \<Rightarrow> Fact list res" where
  "collectPlatformServices srt vis systemctl =
     (case systemctl [''list-units'', ''--type=service'', ''--all'', ''--plain'', ''--no-legend'', ''--no-pager''] of
        Inl e \<Rightarrow> Inl e
      | Inr units \<Rightarrow>
          (case systemctl [''list-unit-files'', ''--type=service'', ''--no-legend'', ''--no-pager''] of
             Inl e \<Rightarrow> Inl e
           | Inr unitFiles \<Rightarrow> parseSystemdServices srt vis units unitFiles))"

definition Services_Collect :: "Fact sorter \<Rightarrow> time \<Rightarrow> Fact list res \<Rightarrow> Snapshot res" where
  "Services_Collect srt now collected =
     (case collected of
        Inl e \<Rightarrow> Inl e
      | Inr services \<Rightarrow>
          if length services > 5000 then Inl (ErrOther ''service snapshot exceeds 5000 entries'')
          else Inr \<lparr>Snapshot_ObservedAt = now, Snapshot_Services = srt fact_before services\<rparr>)"

section \<open>Telemetry\<close>

record systemSnapshot =
  System_CPUTotal :: f64
  System_CPUIdle :: f64
  System_MemoryTotal :: "64 word"
  System_MemoryAvailable :: "64 word"
  System_DiskTotal :: "64 word"
  System_DiskFree :: "64 word"
  System_NetworkRXBytes :: "64 word"
  System_NetworkTXBytes :: "64 word"

definition snapshot_invalid :: "systemSnapshot \<Rightarrow> bool" where
  "snapshot_invalid s \<longleftrightarrow>
     f64_le (System_CPUTotal s) (Fin 0) \<or> System_CPUTotal s = NaN \<or> System_CPUTotal s = PosInf \<or> System_CPUTotal s = NegInf
     \<or> f64_lt (System_CPUIdle s) (Fin 0) \<or> f64_lt (System_CPUTotal s) (System_CPUIdle s)
     \<or> System_MemoryTotal s = 0 \<or> System_MemoryTotal s < System_MemoryAvailable s
     \<or> System_DiskTotal s = 0 \<or> System_DiskTotal s < System_DiskFree s
     \<or> math_MaxInt64 < System_NetworkRXBytes s \<or> math_MaxInt64 < System_NetworkTXBytes s"

text \<open>Floating-point subtraction, multiplication by 100 and division; a zero divisor is positive here.\<close>

fun f64_neg :: "f64 \<Rightarrow> f64" where
  "f64_neg (Fin a) = Fin (- a)"
| "f64_neg NaN = NaN"
| "f64_neg PosInf = NegInf"
| "f64_neg NegInf = PosInf"

definition f64_sub :: "rounding \<Rightarrow> f64 \<Rightarrow> f64 \<Rightarrow> f64" where
  "f64_sub rnd a b = f64_add rnd a (f64_neg b)"

fun f64_hundred :: "rounding \<Rightarrow> f64 \<Rightarrow> f64" where
  "f64_hundred rnd (Fin a) = rnd (100 * a)"
| "f64_hundred rnd x = x"

fun f64_quot :: "rounding \<Rightarrow> f64 \<Rightarrow> f64 \<Rightarrow> f64" where
  "f64_quot rnd x (Fin b) =
     (if b \<noteq> 0 then f64_div rnd x b
      else case x of NaN \<Rightarrow> NaN | PosInf \<Rightarrow> PosInf | NegInf \<Rightarrow> NegInf
        | Fin a \<Rightarrow> if a = 0 then NaN else if 0 < a then PosInf else NegInf)"
| "f64_quot rnd (Fin a) NaN = NaN"
| "f64_quot rnd (Fin a) _ = Fin 0"
| "f64_quot rnd _ _ = NaN"

text \<open>\<open>math.Min\<close> and \<open>math.Max\<close>.\<close>

definition f64_min :: "f64 \<Rightarrow> f64 \<Rightarrow> f64" where
  "f64_min x y =
     (if x = NegInf \<or> y = NegInf then NegInf else if x = NaN \<or> y = NaN then NaN else if f64_lt x y then x else y)"

definition f64_max :: "f64 \<Rightarrow> f64 \<Rightarrow> f64" where
  "f64_max x y =
     (if x = PosInf \<or> y = PosInf then PosInf else if x = NaN \<or> y = NaN then NaN else if f64_lt y x then x else y)"

definition percentUsed :: "rounding \<Rightarrow> f64 \<Rightarrow> f64 \<Rightarrow> f64" where
  "percentUsed rnd whole available =
     (let v = f64_quot rnd (f64_hundred rnd (f64_sub rnd whole available)) whole
      in f64_max (Fin 0) (f64_min (Fin 100) v))"

definition float64_of :: "rounding \<Rightarrow> 64 word \<Rightarrow> f64" where
  "float64_of rnd w = rnd (of_nat (unat w))"

text \<open>The collector keeps the snapshot before: with it the processor time is that of the interval.\<close>

definition cpu_interval :: "rounding \<Rightarrow> systemSnapshot option \<Rightarrow> systemSnapshot \<Rightarrow> f64 \<times> f64" where
  "cpu_interval rnd previous current =
     (case previous of
        None \<Rightarrow> (System_CPUTotal current, System_CPUIdle current)
      | Some p \<Rightarrow>
          if f64_lt (System_CPUTotal p) (System_CPUTotal current) \<and> f64_le (System_CPUIdle p) (System_CPUIdle current)
          then (f64_sub rnd (System_CPUTotal current) (System_CPUTotal p), f64_sub rnd (System_CPUIdle current) (System_CPUIdle p))
          else (System_CPUTotal current, System_CPUIdle current))"

definition Telemetry_Collect ::
  "rounding \<Rightarrow> systemSnapshot res \<Rightarrow> time \<Rightarrow> systemSnapshot option \<Rightarrow> Sample res \<times> systemSnapshot option" where
  "Telemetry_Collect rnd snapshot now previous =
     (case snapshot of
        Inl e \<Rightarrow> (Inl e, previous)
      | Inr current \<Rightarrow>
          if snapshot_invalid current then (Inl (ErrOther ''invalid system telemetry snapshot''), previous)
          else (case cpu_interval rnd previous current of (cpuTotal, cpuIdle) \<Rightarrow>
            (Inr \<lparr>Sample_OrganizationID = [], Sample_SiteID = [], Sample_AgentID = [], Sample_RecordedAt = now,
                  Sample_CPUPercent = percentUsed rnd cpuTotal cpuIdle,
                  Sample_MemoryPercent = percentUsed rnd (float64_of rnd (System_MemoryTotal current))
                    (float64_of rnd (System_MemoryAvailable current)),
                  Sample_DiskPercent = percentUsed rnd (float64_of rnd (System_DiskTotal current))
                    (float64_of rnd (System_DiskFree current)),
                  Sample_NetworkRXBytes = System_NetworkRXBytes current, Sample_NetworkTXBytes = System_NetworkTXBytes current\<rparr>,
             Some current)))"

text \<open>The rows of \<open>/proc/net/dev\<close>; the sums of 64-bit counters wrap around.\<close>

fun network_loop :: "string list \<Rightarrow> 64 word \<Rightarrow> 64 word \<Rightarrow> (64 word \<times> 64 word) res" where
  "network_loop [] receiveBytes transmitBytes = Inr (receiveBytes, transmitBytes)"
| "network_loop (text # rest) receiveBytes transmitBytes =
     (case cut_at (CHR '':'') (trim_space text) of
        None \<Rightarrow> network_loop rest receiveBytes transmitBytes
      | Some (device, counters) \<Rightarrow>
          if trim_space device = ''lo'' then network_loop rest receiveBytes transmitBytes
          else let fields = string_fields counters in
            if length fields < 9 then Inl (ErrOther ''invalid /proc/net/dev row'')
            else (case parse_uint64 (fields ! 0) of
                None \<Rightarrow> Inl (ErrOther ''parse received bytes'')
              | Some received \<Rightarrow>
                  (case parse_uint64 (fields ! 8) of
                     None \<Rightarrow> Inl (ErrOther ''parse transmitted bytes'')
                   | Some transmitted \<Rightarrow> network_loop rest (receiveBytes + received) (transmitBytes + transmitted))))"

definition parseLinuxNetworkCounters :: "string \<times> err option \<Rightarrow> (64 word \<times> 64 word) res" where
  "parseLinuxNetworkCounters contents =
     (case network_loop (scan_lines (fst contents)) 0 0 of
        Inl e \<Rightarrow> Inl e
      | Inr counters \<Rightarrow>
          if scan_too_long (fst contents) then Inl (ErrOther ''token too long'')
          else (case snd contents of Some e \<Rightarrow> Inl e | None \<Rightarrow> Inr counters))"

text \<open>\<open>os.Open\<close> may fail; what is read may end with an error.\<close>

definition networkCounters :: "(string \<times> err option) res \<Rightarrow> (64 word \<times> 64 word) res" where
  "networkCounters opened = (case opened of Inl e \<Rightarrow> Inl e | Inr contents \<Rightarrow> parseLinuxNetworkCounters contents)"

record TimesStat =
  Times_User :: f64
  Times_System :: f64
  Times_Idle :: f64
  Times_Nice :: f64
  Times_Iowait :: f64
  Times_Irq :: f64
  Times_Softirq :: f64
  Times_Steal :: f64
  Times_Guest :: f64
  Times_GuestNice :: f64

text \<open>The answers of gopsutil: processor times, memory and root disk (total and what is available).\<close>

record Counters =
  Counters_CPU :: "TimesStat list res"
  Counters_Memory :: "(64 word \<times> 64 word) res"
  Counters_Disk :: "(64 word \<times> 64 word) res"
  Counters_Network :: "(string \<times> err option) res"

definition cpu_total :: "rounding \<Rightarrow> TimesStat \<Rightarrow> f64" where
  "cpu_total rnd t = fold (\<lambda>x sum. f64_add rnd sum x)
     [Times_System t, Times_Idle t, Times_Nice t, Times_Iowait t, Times_Irq t, Times_Softirq t, Times_Steal t,
      Times_Guest t, Times_GuestNice t] (Times_User t)"

definition collectSystemSnapshot :: "rounding \<Rightarrow> Counters \<Rightarrow> systemSnapshot res" where
  "collectSystemSnapshot rnd c =
     (case Counters_CPU c of
        Inl e \<Rightarrow> Inl (ErrOther ''read CPU counters'')
      | Inr [] \<Rightarrow> Inl (ErrOther ''read CPU counters: no aggregate sample'')
      | Inr (stat # _) \<Rightarrow>
          (case Counters_Memory c of
             Inl e \<Rightarrow> Inl (ErrOther ''read memory counters'')
           | Inr (memoryTotal, memoryAvailable) \<Rightarrow>
               (case Counters_Disk c of
                  Inl e \<Rightarrow> Inl (ErrOther ''read root disk counters'')
                | Inr (diskTotal, diskFree) \<Rightarrow>
                    (case networkCounters (Counters_Network c) of
                       Inl e \<Rightarrow> Inl (ErrOther ''read network counters'')
                     | Inr (receiveBytes, transmitBytes) \<Rightarrow>
                         Inr \<lparr>System_CPUTotal = cpu_total rnd stat,
                              System_CPUIdle = f64_add rnd (Times_Idle stat) (Times_Iowait stat),
                              System_MemoryTotal = memoryTotal, System_MemoryAvailable = memoryAvailable,
                              System_DiskTotal = diskTotal, System_DiskFree = diskFree,
                              System_NetworkRXBytes = receiveBytes, System_NetworkTXBytes = transmitBytes\<rparr>))))"

section \<open>What the hub accepts of a sample\<close>

text \<open>
  IEEE 754: rounding is monotone, keeps floats (small whole numbers and \<open>2 ^ 64\<close> among them), and the difference of
  two different floats is not rounded to zero (gradual underflow).
\<close>

definition float64_rounding :: "rounding \<Rightarrow> bool" where
  "float64_rounding rnd \<longleftrightarrow>
     ieee_rounding rnd \<and> rnd (2 ^ 64) = Fin (2 ^ 64) \<and> (\<forall>a c. rnd a = Fin c \<longrightarrow> rnd c = Fin c)
     \<and> (\<forall>a b. rnd a = Fin a \<longrightarrow> rnd b = Fin b \<longrightarrow> a \<noteq> b \<longrightarrow> rnd (a - b) \<noteq> Fin 0)"

definition is_float :: "rounding \<Rightarrow> f64 \<Rightarrow> bool" where
  "is_float rnd x \<longleftrightarrow> (case x of Fin a \<Rightarrow> rnd a = Fin a | _ \<Rightarrow> True)"

lemma rounded_number: "ieee_rounding rnd \<Longrightarrow> rnd a \<noteq> NaN"
proof -
  assume "ieee_rounding rnd"
  then have "f64_le (rnd a) (rnd a)" unfolding ieee_rounding_def by blast
  then show "rnd a \<noteq> NaN" by (auto simp: f64_le_def)
qed

lemma rounded_between:
  assumes "ieee_rounding rnd" "rnd a = Fin a" "rnd b = Fin b" "a \<le> x" "x \<le> b"
  shows "\<exists>c. rnd x = Fin c \<and> a \<le> c \<and> c \<le> b"
  using assms unfolding ieee_rounding_def by (intro f64_le_bounds) metis+

lemma rounded_int: "ieee_rounding rnd \<Longrightarrow> \<bar>n\<bar> \<le> 2 ^ 53 \<Longrightarrow> rnd (of_int n) = Fin (of_int n)"
  unfolding ieee_rounding_def by blast

lemma clamp_valid: "x \<noteq> NaN \<Longrightarrow> validPercent (f64_max (Fin 0) (f64_min (Fin 100) x))"
  by (cases x) (auto simp: f64_max_def f64_min_def validPercent_def)

lemma percentUsed_valid:
  assumes "ieee_rounding rnd" "0 < t"
  shows "validPercent (percentUsed rnd (Fin t) (Fin c))" "\<not> validPercent (percentUsed rnd (Fin t) NaN)"
proof -
  have "f64_sub rnd (Fin t) (Fin c) \<noteq> NaN" using rounded_number [OF assms(1)] by (simp add: f64_sub_def)
  then have "f64_hundred rnd (f64_sub rnd (Fin t) (Fin c)) \<noteq> NaN"
    using rounded_number [OF assms(1)] by (cases "f64_sub rnd (Fin t) (Fin c)") auto
  then have "f64_quot rnd (f64_hundred rnd (f64_sub rnd (Fin t) (Fin c))) (Fin t) \<noteq> NaN"
    using rounded_number [OF assms(1)] assms(2) by (cases "f64_hundred rnd (f64_sub rnd (Fin t) (Fin c))") auto
  then show "validPercent (percentUsed rnd (Fin t) (Fin c))" by (simp add: percentUsed_def clamp_valid)
  show "\<not> validPercent (percentUsed rnd (Fin t) NaN)"
    using assms(2) by (simp add: percentUsed_def f64_sub_def validPercent_def f64_max_def f64_min_def)
qed

lemma float64_of_bounds:
  assumes "float64_rounding rnd"
  shows "\<exists>a. float64_of rnd w = Fin a \<and> (w \<noteq> 0 \<longrightarrow> 0 < a)"
proof -
  have r: "ieee_rounding rnd" "rnd (2 ^ 64) = Fin (2 ^ 64)" using assms by (simp_all add: float64_rounding_def)
  have top: "(of_nat (unat w) :: rat) \<le> 2 ^ 64"
  proof -
    have "unat w \<le> 2 ^ 64" using unsigned_less [of w, where ?'a = nat] by simp
    then have "(of_nat (unat w) :: rat) \<le> of_nat (2 ^ 64)" by (rule of_nat_mono)
    then show ?thesis by simp
  qed
  show ?thesis
  proof (cases "w = 0")
    case True
    then show ?thesis using rounded_int [OF r(1), of 0] by (simp add: float64_of_def)
  next
    case False
    then have "1 \<le> unat w" using unat_eq_zero [of w] by linarith
    then have "(of_nat 1 :: rat) \<le> of_nat (unat w)" by (rule of_nat_mono)
    then have "(1 :: rat) \<le> of_nat (unat w)" by simp
    then obtain c where "rnd (of_nat (unat w)) = Fin c" "1 \<le> c"
      using rounded_between [OF r(1) _ r(2) _ top, of 1] rounded_int [OF r(1), of 1] by auto
    then show ?thesis by (simp add: float64_of_def)
  qed
qed

text \<open>The processor time of an interval: a positive float, and what of it was idle.\<close>

lemma cpu_interval_valid:
  assumes rnd: "float64_rounding rnd" and current: "\<not> snapshot_invalid current"
    and floats: "is_float rnd (System_CPUTotal current)" "is_float rnd (System_CPUIdle current)"
    and previous: "\<forall>p. previous = Some p \<longrightarrow> \<not> snapshot_invalid p \<and> is_float rnd (System_CPUTotal p) \<and> is_float rnd (System_CPUIdle p)"
  shows "\<exists>t i. cpu_interval rnd previous current = (Fin t, i) \<and> 0 < t
    \<and> (if System_CPUIdle current = NaN then i = NaN else \<exists>c. i = Fin c)"
proof -
  have r: "ieee_rounding rnd" using rnd by (simp add: float64_rounding_def)
  have valid: "\<exists>t. System_CPUTotal s = Fin t \<and> 0 < t \<and> (System_CPUIdle s = NaN \<or> (\<exists>i. System_CPUIdle s = Fin i \<and> 0 \<le> i \<and> i \<le> t))"
    if "\<not> snapshot_invalid s" for s
    using that by (cases "System_CPUTotal s"; cases "System_CPUIdle s") (auto simp: snapshot_invalid_def f64_le_def)
  obtain t where t: "System_CPUTotal current = Fin t" "0 < t"
      "System_CPUIdle current = NaN \<or> (\<exists>i. System_CPUIdle current = Fin i \<and> 0 \<le> i \<and> i \<le> t)"
    using valid [OF current] by blast
  show ?thesis
  proof (cases "\<exists>p. previous = Some p \<and> f64_lt (System_CPUTotal p) (System_CPUTotal current)
      \<and> f64_le (System_CPUIdle p) (System_CPUIdle current)")
    case True
    then obtain p where p: "previous = Some p" "f64_lt (System_CPUTotal p) (System_CPUTotal current)"
      "f64_le (System_CPUIdle p) (System_CPUIdle current)" by blast
    then obtain pt where pt: "System_CPUTotal p = Fin pt" "0 < pt"
        "System_CPUIdle p = NaN \<or> (\<exists>i. System_CPUIdle p = Fin i \<and> 0 \<le> i \<and> i \<le> pt)"
      using valid [of p] previous by blast
    obtain i pi where idle: "System_CPUIdle current = Fin i" "System_CPUIdle p = Fin pi" "0 \<le> pi" "pi \<le> i"
      using p(3) pt(3) t(3) by (auto simp: f64_le_def)
    have exact: "rnd t = Fin t" "rnd pt = Fin pt" "rnd i = Fin i" "rnd 0 = Fin 0"
      using floats t(1) pt(1) idle previous p(1) rounded_int [OF r, of 0] by (auto simp: is_float_def)
    have less: "pt < t" using p(2) t(1) pt(1) by simp
    obtain dt where dt: "rnd (t - pt) = Fin dt" "0 \<le> dt"
      using rounded_between [OF r exact(4,1), of "t - pt"] less pt(2) by auto
    have "rnd (t - pt) \<noteq> Fin 0"
    proof -
      have "t \<noteq> pt" using less by simp
      with rnd exact(1,2) show ?thesis unfolding float64_rounding_def by blast
    qed
    with dt have "0 < dt" by auto
    moreover obtain di where "rnd (i - pi) = Fin di"
      using rounded_between [OF r exact(4,3), of "i - pi"] idle(3,4) by auto
    ultimately show ?thesis using p t(1) pt(1) idle dt(1) by (simp add: cpu_interval_def f64_sub_def)
  next
    case False
    then have "cpu_interval rnd previous current = (System_CPUTotal current, System_CPUIdle current)"
      by (auto simp: cpu_interval_def split: option.split)
    then show ?thesis using t by auto
  qed
qed

text \<open>The collector over time, from a start without a snapshot before.\<close>

fun telemetry_run ::
  "rounding \<Rightarrow> (systemSnapshot res \<times> time) list \<Rightarrow> systemSnapshot option \<Rightarrow> Sample res list" where
  "telemetry_run rnd [] previous = []"
| "telemetry_run rnd ((snapshot, now) # inputs) previous =
     (case Telemetry_Collect rnd snapshot now previous of
        (answer, previous') \<Rightarrow> answer # telemetry_run rnd inputs previous')"

definition snapshot_floats :: "rounding \<Rightarrow> systemSnapshot \<Rightarrow> bool" where
  "snapshot_floats rnd s \<longleftrightarrow> is_float rnd (System_CPUTotal s) \<and> is_float rnd (System_CPUIdle s)"

lemma collected_sample:
  assumes rnd: "float64_rounding rnd" and floats: "\<forall>s. snapshot = Inr s \<longrightarrow> snapshot_floats rnd s"
    and previous: "\<forall>p. previous = Some p \<longrightarrow> \<not> snapshot_invalid p \<and> snapshot_floats rnd p"
    and time: "truncate_micro now \<noteq> 0" and agent: "trim_space (Agent_ID agent) \<noteq> []"
    and run: "Telemetry_Collect rnd snapshot now previous = (answer, previous')"
  shows "(case snapshot of
           Inl e \<Rightarrow> answer = Inl e
         | Inr s \<Rightarrow> if snapshot_invalid s then isl answer
             else \<exists>sample. answer = Inr sample \<and> (valid_sample (normalize_sample agent sample) \<longleftrightarrow> System_CPUIdle s \<noteq> NaN))"
    and "\<forall>p. previous' = Some p \<longrightarrow> \<not> snapshot_invalid p \<and> snapshot_floats rnd p"
proof -
  have r: "ieee_rounding rnd" using rnd by (simp add: float64_rounding_def)
  have used: "validPercent (percentUsed rnd (float64_of rnd a) (float64_of rnd b))" if "a \<noteq> 0" for a b
    using float64_of_bounds [OF rnd, of a] float64_of_bounds [OF rnd, of b] percentUsed_valid(1) [OF r] that by auto
  show "case snapshot of
           Inl e \<Rightarrow> answer = Inl e
         | Inr s \<Rightarrow> if snapshot_invalid s then isl answer
             else \<exists>sample. answer = Inr sample \<and> (valid_sample (normalize_sample agent sample) \<longleftrightarrow> System_CPUIdle s \<noteq> NaN)"
  proof (cases snapshot)
    case (Inr s)
    show ?thesis
    proof (cases "snapshot_invalid s")
      case False
      obtain t i where cpu: "cpu_interval rnd previous s = (Fin t, i)" "0 < t"
          "if System_CPUIdle s = NaN then i = NaN else \<exists>c. i = Fin c"
        using cpu_interval_valid [OF rnd False, of previous] floats previous Inr unfolding snapshot_floats_def by blast
      have cpu_ok: "validPercent (percentUsed rnd (Fin t) i) \<longleftrightarrow> System_CPUIdle s \<noteq> NaN"
        using cpu(3) percentUsed_valid [OF r cpu(2)] by (auto split: if_splits)
      have counters: "\<not> math_MaxInt64 < System_NetworkRXBytes s" "\<not> math_MaxInt64 < System_NetworkTXBytes s"
        "System_MemoryTotal s \<noteq> 0" "System_DiskTotal s \<noteq> 0"
        using False by (simp_all add: snapshot_invalid_def)
      note answer = run [unfolded Telemetry_Collect_def Inr, simplified, unfolded cpu(1)] False
      from answer show ?thesis using Inr False counters used [OF counters(3)] used [OF counters(4)] cpu_ok time agent
        by (auto simp: valid_sample_def normalize_sample_def)
    qed (use run Inr in \<open>auto simp: Telemetry_Collect_def\<close>)
  qed (use run in \<open>auto simp: Telemetry_Collect_def\<close>)
  show "\<forall>p. previous' = Some p \<longrightarrow> \<not> snapshot_invalid p \<and> snapshot_floats rnd p"
    using run previous floats by (auto simp: Telemetry_Collect_def split: sum.splits if_splits prod.splits)
qed

end
