(* ===== verification/Agent_Collectors_Properties.thy ===== *)
theory Agent_Collectors_Properties
  imports Agent_Collectors Json_Text
begin

text \<open>
  What the collectors promise the hub: every telemetry sample passes its validation, and a snapshot
  of services is sorted, complete and accepted unless two names differ only in case.
\<close>

section \<open>Telemetry\<close>

lemma f64_add_is_float: "float64_rounding rnd \<Longrightarrow> is_float rnd (f64_add rnd a b)"
  by (cases a; cases b) (auto simp: is_float_def float64_rounding_def split: f64.split)

lemma collected_floats:
  "float64_rounding rnd \<Longrightarrow> collectSystemSnapshot rnd c = Inr s \<Longrightarrow> snapshot_floats rnd s"
  by (auto simp: collectSystemSnapshot_def snapshot_floats_def cpu_total_def f64_add_is_float
      split: sum.splits list.splits prod.splits)

text \<open>A sum that is a number has no NaN in it and no two different infinities.\<close>

lemma f64_add_number:
  assumes "ieee_rounding rnd" "f64_add rnd x y \<noteq> NaN"
  shows "x \<noteq> NaN" "y \<noteq> NaN" "x = PosInf \<Longrightarrow> y \<noteq> NegInf \<and> f64_add rnd x y = PosInf"
    "x = NegInf \<Longrightarrow> y \<noteq> PosInf \<and> f64_add rnd x y = NegInf"
  using assms by (cases x; cases y; simp)+

lemma f64_add_ok:
  assumes "ieee_rounding rnd" "x \<noteq> NaN" "y \<noteq> NaN" "\<not> (x = PosInf \<and> y = NegInf)" "\<not> (x = NegInf \<and> y = PosInf)"
  shows "f64_add rnd x y \<noteq> NaN"
  using assms rounded_number by (cases x; cases y) auto

lemma idle_counted:
  assumes r: "ieee_rounding rnd" and total: "cpu_total rnd t \<noteq> NaN"
  shows "f64_add rnd (Times_Idle t) (Times_Iowait t) \<noteq> NaN"
proof -
  let ?add = "f64_add rnd"
  define a where "a = ?add (Times_User t) (Times_System t)"
  define b where "b = ?add a (Times_Idle t)"
  define c where "c = ?add b (Times_Nice t)"
  have "?add c (Times_Iowait t) \<noteq> NaN"
    using total f64_add_number(1) [OF r] unfolding cpu_total_def a_def b_def c_def by force
  then have c: "c \<noteq> NaN" "Times_Iowait t \<noteq> NaN" "c = PosInf \<Longrightarrow> Times_Iowait t \<noteq> NegInf"
      "c = NegInf \<Longrightarrow> Times_Iowait t \<noteq> PosInf"
    using f64_add_number [OF r] by blast+
  have b: "b \<noteq> NaN" "b = PosInf \<Longrightarrow> c = PosInf" "b = NegInf \<Longrightarrow> c = NegInf"
    using f64_add_number [OF r c(1) [unfolded c_def]] unfolding c_def by blast+
  have idle: "Times_Idle t \<noteq> NaN" using f64_add_number(2) [OF r b(1) [unfolded b_def]] .
  have "Times_Idle t = PosInf \<Longrightarrow> b = PosInf" "Times_Idle t = NegInf \<Longrightarrow> b = NegInf"
    using b(1) unfolding b_def by (cases a; simp)+
  then show ?thesis using f64_add_ok [OF r idle c(2)] b c by blast
qed

lemma snapshot_number:
  assumes "ieee_rounding rnd" "collectSystemSnapshot rnd c = Inr s" "\<not> snapshot_invalid s"
  shows "System_CPUIdle s \<noteq> NaN"
  using assms(2,3) idle_counted [OF assms(1)]
  by (auto simp: collectSystemSnapshot_def snapshot_invalid_def split: sum.splits list.splits prod.splits)

definition sample_due :: "rounding \<Rightarrow> Agent \<Rightarrow> Counters \<times> time \<Rightarrow> Sample res \<Rightarrow> bool" where
  "sample_due rnd agent = (\<lambda>(counters, now) answer.
     case collectSystemSnapshot rnd counters of
       Inl e \<Rightarrow> answer = Inl e
     | Inr s \<Rightarrow> if snapshot_invalid s then isl answer
         else \<exists>sample. answer = Inr sample \<and> Sample_RecordedAt sample = now \<and> valid_sample (normalize_sample agent sample))"

definition readings :: "rounding \<Rightarrow> (Counters \<times> time) list \<Rightarrow> (systemSnapshot res \<times> time) list" where
  "readings rnd inputs = map (\<lambda>(counters, now). (collectSystemSnapshot rnd counters, now)) inputs"

lemma telemetry_run_due:
  assumes "float64_rounding rnd" "\<forall>input \<in> set inputs. truncate_micro (snd input) \<noteq> 0" "trim_space (Agent_ID agent) \<noteq> []"
    and "\<forall>p. previous = Some p \<longrightarrow> \<not> snapshot_invalid p \<and> snapshot_floats rnd p"
  shows "list_all2 (sample_due rnd agent) inputs (telemetry_run rnd (readings rnd inputs) previous)"
  using assms(2,4)
proof (induction inputs arbitrary: previous)
  case (Cons input inputs)
  obtain counters now where input: "input = (counters, now)" by fastforce
  obtain answer previous' where run: "Telemetry_Collect rnd (collectSystemSnapshot rnd counters) now previous = (answer, previous')"
    by fastforce
  have floats: "\<forall>s. collectSystemSnapshot rnd counters = Inr s \<longrightarrow> snapshot_floats rnd s"
    using collected_floats [OF assms(1)] by blast
  note step = collected_sample [OF assms(1) floats Cons.prems(2) _ assms(3) run]
  have time: "truncate_micro now \<noteq> 0" using Cons.prems(1) input by simp
  have number: "System_CPUIdle s \<noteq> NaN" if "collectSystemSnapshot rnd counters = Inr s" "\<not> snapshot_invalid s" for s
    using snapshot_number that assms(1) unfolding float64_rounding_def by blast
  have at: "Sample_RecordedAt sample = now" if "answer = Inr sample" for sample
    using run that by (auto simp: Telemetry_Collect_def split: sum.splits if_splits prod.splits)
  have "list_all2 (sample_due rnd agent) inputs (telemetry_run rnd (readings rnd inputs) previous')"
    using Cons.IH Cons.prems(1) step(2) [OF time] by simp
  then show ?case using step(1) [OF time] number at unfolding input
    by (auto simp: run sample_due_def readings_def split: sum.splits if_splits)
qed (simp add: readings_def)

text \<open>
  C26. Every sample the agent collects is one the hub accepts. Over any sequence of readings of the
  host's counters, from the start of the agent on, each collection answers with the error of the
  reading, or with an error because the counters contradict each other, or with a sample that
  carries the time of the reading and passes the validation of the hub: percentages that are
  numbers between 0 and 100, traffic counters within 63 bits.
\<close>

theorem collected_samples_valid:
  assumes "float64_rounding rnd" and "\<forall>input \<in> set inputs. truncate_micro (snd input) \<noteq> 0"
    and "trim_space (Agent_ID agent) \<noteq> []"
  shows "list_all2 (\<lambda>(counters, now) answer.
       case collectSystemSnapshot rnd counters of
         Inl e \<Rightarrow> answer = Inl e
       | Inr s \<Rightarrow> if snapshot_invalid s then isl answer
           else \<exists>sample. answer = Inr sample \<and> Sample_RecordedAt sample = now \<and> valid_sample (normalize_sample agent sample))
     inputs (telemetry_run rnd (map (\<lambda>(counters, now). (collectSystemSnapshot rnd counters, now)) inputs) None)"
  using telemetry_run_due [OF assms, of None] by (simp add: sample_due_def readings_def)

lemma exact_float64: "float64_rounding Fin"
  by (simp add: float64_rounding_def exact_ieee)

definition toy_counters :: "rat \<Rightarrow> rat \<Rightarrow> Counters" where
  "toy_counters user idle =
     \<lparr>Counters_CPU = Inr [\<lparr>Times_User = Fin user, Times_System = Fin 0, Times_Idle = Fin idle, Times_Nice = Fin 0,
        Times_Iowait = Fin 0, Times_Irq = Fin 0, Times_Softirq = Fin 0, Times_Steal = Fin 0, Times_Guest = Fin 0,
        Times_GuestNice = Fin 0\<rparr>],
      Counters_Memory = Inr (8, 2), Counters_Disk = Inr (10, 5), Counters_Network = Inr (''eth0: 3 0 0 0 0 0 0 0 4'', None)\<rparr>"

lemma toy_network: "networkCounters (Inr (''eth0: 3 0 0 0 0 0 0 0 4'', None)) = Inr (3, 4)"
proof -
  have "scan_lines ''eth0: 3 0 0 0 0 0 0 0 4'' = [''eth0: 3 0 0 0 0 0 0 0 4'']"
    by (simp add: scan_lines_def raw_lines_def maxScanTokenSize_def drop_cr_def)
  moreover have "\<not> scan_too_long ''eth0: 3 0 0 0 0 0 0 0 4''"
    by (simp add: scan_too_long_def raw_lines_def maxScanTokenSize_def)
  moreover have "trim_space ''eth0: 3 0 0 0 0 0 0 0 4'' = ''eth0: 3 0 0 0 0 0 0 0 4''" "trim_space ''eth0'' = ''eth0''"
    by code_simp+
  moreover have "string_fields '' 3 0 0 0 0 0 0 0 4'' = [''3'', ''0'', ''0'', ''0'', ''0'', ''0'', ''0'', ''0'', ''4'']"
    by (simp add: fields_ascii)
  moreover have "parse_uint64 ''3'' = Some 3" "parse_uint64 ''4'' = Some 4"
    by (simp_all add: parse_uint64_def byte_in_def)
  ultimately show ?thesis by (simp add: networkCounters_def parseLinuxNetworkCounters_def)
qed

theorem collected_samples_valid_witness:
  "\<exists>a b. telemetry_run Fin (map (\<lambda>(counters, now). (collectSystemSnapshot Fin counters, now))
       [(toy_counters 10 20, 1000), (toy_counters 20 50, 2000)]) None = [Inr a, Inr b]
     \<and> valid_sample (normalize_sample toy_host_agent a) \<and> valid_sample (normalize_sample toy_host_agent b)"
proof -
  have snapshot: "collectSystemSnapshot Fin (toy_counters u i) = Inr \<lparr>System_CPUTotal = Fin (u + i), System_CPUIdle = Fin i,
      System_MemoryTotal = 8, System_MemoryAvailable = 2, System_DiskTotal = 10, System_DiskFree = 5,
      System_NetworkRXBytes = 3, System_NetworkTXBytes = 4\<rparr>" for u i
    by (simp add: collectSystemSnapshot_def toy_counters_def toy_network cpu_total_def)
  have agent: "trim_space (Agent_ID toy_host_agent) \<noteq> []" unfolding toy_host_agent_def by code_simp
  have "\<forall>input \<in> set [(toy_counters 10 20, 1000), (toy_counters 20 50, 2000)]. truncate_micro (snd input) \<noteq> 0"
    by (simp add: truncate_micro_def)
  from collected_samples_valid [OF exact_float64 this agent] show ?thesis
    by (auto simp: snapshot snapshot_invalid_def math_MaxInt64_def list_all2_Cons1)
qed

section \<open>Services\<close>

text \<open>The rows of an output of \<open>systemctl\<close>, and the last row of a unit.\<close>

definition unit_rows :: "string \<Rightarrow> string list list" where
  "unit_rows output = filter (\<lambda>row. row \<noteq> []) (map string_fields (split_on (CHR 0x0A) output))"

definition last_row :: "string \<Rightarrow> string list list \<Rightarrow> string list option" where
  "last_row n rows = find (\<lambda>row. hd row = n) (rev rows)"

definition unit_row :: "nat \<Rightarrow> string list \<Rightarrow> bool" where
  "unit_row columns row \<longleftrightarrow> columns \<le> length row \<and> has_suffix (hd row) ''.service''"

definition reported_unit :: "string list list \<Rightarrow> string list list \<Rightarrow> string \<Rightarrow> Fact" where
  "reported_unit units unitFiles n =
     \<lparr>Fact_Name = n,
      Fact_DisplayName = (case last_row n units of Some row \<Rightarrow> join_with '' '' (drop 4 row) | None \<Rightarrow> []),
      Fact_State = (case last_row n units of Some row \<Rightarrow> systemdRuntimeState (row ! 2) | None \<Rightarrow> ''stopped''),
      Fact_StartupType = (case last_row n unitFiles of Some row \<Rightarrow> systemdStartupType (row ! 1) | None \<Rightarrow> ''unknown'')\<rparr>"

lemma last_row_Cons: "last_row n (row # rows) =
    (case last_row n rows of Some r \<Rightarrow> Some r | None \<Rightarrow> if hd row = n then Some row else None)"
proof -
  have "find P (xs @ [x]) = (case find P xs of Some r \<Rightarrow> Some r | None \<Rightarrow> if P x then Some x else None)"
    for P :: "string list \<Rightarrow> bool" and xs x by (induction xs) auto
  then show ?thesis by (simp add: last_row_def)
qed

lemma last_row_None: "last_row n rows = None \<longleftrightarrow> n \<notin> hd ` set rows"
  by (auto simp: last_row_def find_None_iff)

lemma unit_loop_rows:
  "unit_loop lines services =
     (let rows = filter (\<lambda>row. row \<noteq> []) (map string_fields lines) in
      if list_all (unit_row 4) rows
      then Inr (\<lambda>n. case last_row n rows of
          None \<Rightarrow> services n
        | Some row \<Rightarrow> Some \<lparr>Fact_Name = n, Fact_DisplayName = join_with '' '' (drop 4 row),
            Fact_State = systemdRuntimeState (row ! 2), Fact_StartupType = ''unknown''\<rparr>)
      else Inl (ErrOther ''invalid systemd service row''))"
proof (induction lines arbitrary: services)
  case Nil
  then show ?case by (simp add: last_row_def)
next
  case (Cons line lines)
  let ?row = "string_fields line"
  show ?case
  proof (cases "?row = [] \<or> \<not> unit_row 4 ?row")
    case True
    then show ?thesis using Cons.IH by (auto simp: unit_row_def hd_conv_nth Let_def)
  next
    case False
    then have "(if length ?row > 4 then join_with '' '' (drop 4 ?row) else []) = join_with '' '' (drop 4 ?row)" by simp
    with False show ?thesis using Cons.IH
      by (auto simp: unit_row_def hd_conv_nth Let_def last_row_Cons fun_eq_iff split: option.split)
  qed
qed

lemma unit_file_loop_rows:
  assumes "\<forall>n f. services n = Some f \<longrightarrow> Fact_Name f = n"
  shows "unit_file_loop lines services =
     (let rows = filter (\<lambda>row. row \<noteq> []) (map string_fields lines) in
      if list_all (unit_row 2) rows
      then Inr (\<lambda>n. case last_row n rows of
          None \<Rightarrow> services n
        | Some row \<Rightarrow> Some ((case services n of Some f \<Rightarrow> f
            | None \<Rightarrow> \<lparr>Fact_Name = n, Fact_DisplayName = [], Fact_State = ''stopped'', Fact_StartupType = []\<rparr>)
            \<lparr>Fact_StartupType := systemdStartupType (row ! 1)\<rparr>))
      else Inl (ErrOther ''invalid systemd unit-file row''))"
  using assms
proof (induction lines arbitrary: services)
  case Nil
  then show ?case by (simp add: last_row_def)
next
  case (Cons line lines)
  let ?row = "string_fields line"
  show ?case
  proof (cases "?row = [] \<or> \<not> unit_row 2 ?row")
    case True
    then show ?thesis using Cons by (auto simp: unit_row_def hd_conv_nth Let_def)
  next
    case False
    define found where "found = (case services (hd ?row) of Some v \<Rightarrow> v
      | None \<Rightarrow> \<lparr>Fact_Name = hd ?row, Fact_DisplayName = [], Fact_State = ''stopped'', Fact_StartupType = []\<rparr>)"
    let ?services = "services(hd ?row \<mapsto> found\<lparr>Fact_StartupType := systemdStartupType (?row ! 1)\<rparr>)"
    have found: "Fact_Name found = hd ?row" using Cons.prems by (auto simp: found_def split: option.split)
    then have "\<forall>n f. ?services n = Some f \<longrightarrow> Fact_Name f = n" using Cons.prems by simp
    note IH = Cons.IH [OF this]
    have hd: "?row ! 0 = hd ?row" using False by (simp add: hd_conv_nth)
    have step: "unit_file_loop (line # lines) services = unit_file_loop lines ?services"
      using False found hd unfolding found_def by (cases "services (hd ?row)") (simp_all add: unit_row_def Let_def)
    show ?thesis unfolding step IH unfolding found_def using False
      by (auto simp: Let_def last_row_Cons fun_eq_iff split: option.split)
  qed
qed

definition unit_names :: "string list list \<Rightarrow> string list list \<Rightarrow> string set" where
  "unit_names units unitFiles = hd ` set units \<union> hd ` set unitFiles"

definition well_listed :: "string list list \<Rightarrow> string list list \<Rightarrow> bool" where
  "well_listed units unitFiles \<longleftrightarrow> list_all (unit_row 4) units \<and> list_all (unit_row 2) unitFiles"

lemma Fact_Name_reported [simp]: "Fact_Name (reported_unit units unitFiles n) = n"
  by (simp add: reported_unit_def)

lemma parse_rows:
  assumes "units = unit_rows unitsOutput" "unitFiles = unit_rows unitFilesOutput"
  shows "(if well_listed units unitFiles
     then parseSystemdServices srt vis unitsOutput unitFilesOutput = Inr (srt fact_before (map snd (vis
       (\<lambda>n. if n \<in> unit_names units unitFiles then Some (reported_unit units unitFiles n) else None))))
     else isl (parseSystemdServices srt vis unitsOutput unitFilesOutput))"
proof -
  let ?lines = "split_on (CHR 0x0A)"
  define found where "found = (\<lambda>n. case last_row n units of
      None \<Rightarrow> None
    | Some row \<Rightarrow> Some \<lparr>Fact_Name = n, Fact_DisplayName = join_with '' '' (drop 4 row),
        Fact_State = systemdRuntimeState (row ! 2), Fact_StartupType = ''unknown''\<rparr>)"
  have first: "unit_loop (?lines unitsOutput) Map.empty =
      (if list_all (unit_row 4) units then Inr found else Inl (ErrOther ''invalid systemd service row''))"
    by (simp add: unit_loop_rows assms(1) unit_rows_def found_def)
  have "\<forall>n f. found n = Some f \<longrightarrow> Fact_Name f = n" by (auto simp: found_def split: option.splits)
  note second = unit_file_loop_rows [OF this, of "?lines unitFilesOutput", folded unit_rows_def, folded assms(2), unfolded Let_def]
  have merged: "(\<lambda>n. case last_row n unitFiles of
          None \<Rightarrow> found n
        | Some row \<Rightarrow> Some ((case found n of Some f \<Rightarrow> f
            | None \<Rightarrow> \<lparr>Fact_Name = n, Fact_DisplayName = [], Fact_State = ''stopped'', Fact_StartupType = []\<rparr>)
            \<lparr>Fact_StartupType := systemdStartupType (row ! 1)\<rparr>))
      = (\<lambda>n. if n \<in> unit_names units unitFiles then Some (reported_unit units unitFiles n) else None)"
  proof
    fix n
    have "n \<in> unit_names units unitFiles \<longleftrightarrow> last_row n units \<noteq> None \<or> last_row n unitFiles \<noteq> None"
      by (simp add: last_row_None unit_names_def)
    then show "(case last_row n unitFiles of
          None \<Rightarrow> found n
        | Some row \<Rightarrow> Some ((case found n of Some f \<Rightarrow> f
            | None \<Rightarrow> \<lparr>Fact_Name = n, Fact_DisplayName = [], Fact_State = ''stopped'', Fact_StartupType = []\<rparr>)
            \<lparr>Fact_StartupType := systemdStartupType (row ! 1)\<rparr>))
      = (if n \<in> unit_names units unitFiles then Some (reported_unit units unitFiles n) else None)"
      by (cases "last_row n units"; cases "last_row n unitFiles") (simp_all add: found_def reported_unit_def)
  qed
  show ?thesis by (simp add: parseSystemdServices_def first second merged well_listed_def)
qed

lemma collected_rows:
  assumes "slice_sort srt" "visits vis" "units = unit_rows unitsOutput" "unitFiles = unit_rows unitFilesOutput"
    and "well_listed units unitFiles"
  shows "\<exists>facts. parseSystemdServices srt vis unitsOutput unitFilesOutput = Inr facts
     \<and> sorted_wrt (<) (map Fact_Name facts) \<and> set facts = reported_unit units unitFiles ` unit_names units unitFiles"
proof -
  let ?m = "\<lambda>n. if n \<in> unit_names units unitFiles then Some (reported_unit units unitFiles n) else None"
  let ?facts = "srt fact_before (map snd (vis ?m))"
  have parse: "parseSystemdServices srt vis unitsOutput unitFilesOutput = Inr ?facts"
    using parse_rows [OF assms(3,4), of srt vis] assms(5) by simp
  have "dom ?m = unit_names units unitFiles" by (auto simp: dom_def)
  then have "finite (dom ?m)" by (simp add: unit_names_def)
  then have it: "ranges (vis ?m) ?m" by (rule visitsD [OF assms(2)])
  have names: "map Fact_Name (map snd (vis ?m)) = map fst (vis ?m)"
  proof -
    have "Fact_Name (snd entry) = fst entry" if "entry \<in> set (vis ?m)" for entry
    proof -
      have "reported_unit units unitFiles (fst entry) = snd entry"
        using that ranges_entry [OF it, of "fst entry" "snd entry"] by (simp split: if_splits)
      then show ?thesis using Fact_Name_reported [of units unitFiles "fst entry"] by simp
    qed
    then show ?thesis by simp
  qed
  have perm: "mset ?facts = mset (map snd (vis ?m))" by (rule slice_sort.mset_srt [OF assms(1)])
  then have "mset (map Fact_Name ?facts) = mset (map Fact_Name (map snd (vis ?m)))" by (simp only: mset_map)
  then have "mset (map Fact_Name ?facts) = mset (map fst (vis ?m))" unfolding names .
  then have "distinct (map Fact_Name ?facts) \<longleftrightarrow> distinct (map fst (vis ?m))" by (rule mset_eq_imp_distinct_iff)
  then have "distinct (map Fact_Name ?facts)" using it unfolding ranges_def by blast
  moreover have "weak_order fact_before" unfolding fact_before_def [abs_def] by (rule weak_order_key)
  then have "sorted_wrt (\<lambda>a b. \<not> fact_before b a) ?facts" by (rule slice_sort.ordered_srt [OF assms(1)])
  then have "sorted (map Fact_Name ?facts)" by (simp add: sorted_map fact_before_def not_less)
  moreover have "set ?facts = reported_unit units unitFiles ` unit_names units unitFiles"
    using ranges_values [OF it] slice_sort.set_srt [OF assms(1)] by (auto simp: ran_def image_iff)
  ultimately show ?thesis by (simp add: parse strict_sorted_iff)
qed

text \<open>A field has no space rune at either end.\<close>

lemma fields_loop_trimmed:
  assumes "w \<in> set (fields_loop word s)" "\<forall>u v. word = u @ v \<longrightarrow> v \<noteq> [] \<longrightarrow> strip_any space_runes (v @ s) = None"
  shows "trim_space w = w"
  using assms
proof (induction word s rule: fields_loop.induct)
  case (1 word s)
  have trimmed: "trim_space word = word"
  proof -
    have no: "\<not> prefix p (v @ s)" if "word = u @ v" "v \<noteq> []" "p \<in> set space_runes" for u v p
      using "1.prems"(2) that by (auto simp: strip_any_None)
    have "\<not> prefix p word" if p: "p \<in> set space_runes" for p
    proof
      assume "prefix p word"
      then have "prefix p (word @ s)" "word \<noteq> []" using p Nil_space_runes(1) by auto
      then show False using no [of "[]" word p] p by simp
    qed
    then have left: "trim_left_by space_runes word = word"
      by (intro trim_left_by_id) (simp add: strip_any_None)
    have "\<not> prefix (rev p) (rev word)" if p: "p \<in> set space_runes" for p
    proof
      assume "prefix (rev p) (rev word)"
      then obtain u where "word = u @ p" by (auto simp: suffix_to_prefix [symmetric] suffix_def)
      moreover have "p \<noteq> []" using p Nil_space_runes(1) by auto
      ultimately show False using no [of u p p] p by simp
    qed
    then have "trim_left_by (map rev space_runes) (rev word) = rev word"
      by (intro trim_left_by_id) (simp add: strip_any_None)
    with left show ?thesis by (simp add: trim_space_def)
  qed
  show ?case
  proof (cases "s = []")
    case True
    then show ?thesis using "1.prems"(1) trimmed by (simp add: fields_end split: if_splits)
  next
    case False
    show ?thesis
    proof (cases "strip_any space_runes s")
      case None
      have "strip_any space_runes (v @ tl s) = None" if "word @ [hd s] = u @ v" "v \<noteq> []" for u v
      proof -
        have "word @ [hd s] = (u @ butlast v) @ [last v]" using that by simp
        then have "word = u @ butlast v" "last v = hd s" unfolding append1_eq_conv by simp_all
        moreover have "v = butlast v @ [hd s]" using append_butlast_last_id [OF that(2)] \<open>last v = hd s\<close> by simp
        then have "v @ tl s = (butlast v @ [hd s]) @ tl s" by (rule arg_cong)
        then have "v @ tl s = butlast v @ s" using False by simp
        ultimately show ?thesis using "1.prems"(2) None by (cases "butlast v = []") simp_all
      qed
      moreover have "fields_loop word s = fields_loop (word @ [hd s]) (tl s)"
        using False None by (subst fields_loop.simps) simp
      ultimately show ?thesis using "1.IH"(1) [OF False None] "1.prems"(1) by simp
    next
      case (Some r)
      have "w = word \<or> length r < length s \<and> w \<in> set (fields_loop [] r)"
        using "1.prems"(1) False Some by (subst (asm) fields_loop.simps) (auto split: if_splits)
      then consider "w = word" | (rest) "length r < length s" "w \<in> set (fields_loop [] r)" by blast
      then show ?thesis
      proof cases
        case rest
        have none: "\<forall>u v. [] = u @ v \<longrightarrow> v \<noteq> [] \<longrightarrow> strip_any space_runes (v @ r) = None" by simp
        show ?thesis
        proof (cases "word = []")
          case True
          show ?thesis by (rule "1.IH"(2) [OF False Some rest(1) True rest(2) none])
        next
          case nonempty: False
          show ?thesis by (rule "1.IH"(3) [OF False Some rest(1) nonempty rest(2) none])
        qed
      qed (use trimmed in simp)
    qed
  qed
qed

lemma string_fields_trimmed: "w \<in> set (string_fields s) \<Longrightarrow> trim_space w = w"
  unfolding string_fields_def by (rule fields_loop_trimmed) auto

lemma unit_rows_trimmed: "row \<in> set (unit_rows output) \<Longrightarrow> trim_space (hd row) = hd row"
  using string_fields_trimmed hd_in_set unfolding unit_rows_def by fastforce

text \<open>The hub knows every state and startup type the collector reports.\<close>

lemma trim_ascii: "string_fields s = [s] \<Longrightarrow> trim_space s = s"
  using string_fields_trimmed [of s s] by simp

lemma trim_words:
  "trim_space ''running'' = ''running''" "trim_space ''stopped'' = ''stopped''" "trim_space ''failed'' = ''failed''"
  "trim_space ''unknown'' = ''unknown''" "trim_space ''automatic'' = ''automatic''" "trim_space ''manual'' = ''manual''"
  "trim_space ''disabled'' = ''disabled''"
  by (rule trim_ascii, simp add: fields_ascii)+

lemma lower_words:
  "to_lower uni ''running'' = ''running''" "to_lower uni ''stopped'' = ''stopped''" "to_lower uni ''failed'' = ''failed''"
  "to_lower uni ''unknown'' = ''unknown''" "to_lower uni ''automatic'' = ''automatic''" "to_lower uni ''manual'' = ''manual''"
  "to_lower uni ''disabled'' = ''disabled''"
  by (simp_all add: to_lower_def is_ascii_def lower_char_def)

lemma runtime_state_known:
  "normalizeState uni (systemdRuntimeState a) \<noteq> None" "normalizeState uni ''stopped'' \<noteq> None"
  by (simp_all add: systemdRuntimeState_def normalizeState_def trim_words lower_words)

lemma startup_type_known:
  "normalizeStartupType uni (systemdStartupType a) \<noteq> None" "normalizeStartupType uni ''unknown'' \<noteq> None"
  by (simp_all add: systemdStartupType_def normalizeStartupType_def trim_words lower_words)

lemma reported_unit_known:
  "normalizeState uni (Fact_State (reported_unit units unitFiles n)) \<noteq> None"
  "normalizeStartupType uni (Fact_StartupType (reported_unit units unitFiles n)) \<noteq> None"
  using runtime_state_known startup_type_known by (auto simp: reported_unit_def split: option.split)

lemma reported_unit_ascii:
  "is_ascii (Fact_State (reported_unit units unitFiles n))" "is_ascii (Fact_StartupType (reported_unit units unitFiles n))"
  by (auto simp: reported_unit_def systemdRuntimeState_def systemdStartupType_def is_ascii_def split: option.split)

text \<open>What the hub decodes of a snapshot the client has sent.\<close>

definition fact_json :: "Fact \<Rightarrow> Fact" where
  "fact_json entry = \<lparr>Fact_Name = json_text (Fact_Name entry), Fact_DisplayName = json_text (Fact_DisplayName entry),
     Fact_State = json_text (Fact_State entry), Fact_StartupType = json_text (Fact_StartupType entry)\<rparr>"

definition snapshot_json :: "Snapshot \<Rightarrow> Snapshot" where
  "snapshot_json snapshot = snapshot\<lparr>Snapshot_Services := map fact_json (Snapshot_Services snapshot)\<rparr>"

text \<open>What the hub makes of an entry it accepts.\<close>

definition stored_service :: "(string \<Rightarrow> string) \<Rightarrow> Agent \<Rightarrow> time \<Rightarrow> Fact \<Rightarrow> HostService" where
  "stored_service uni agent now entry = new_host_service agent (Agent_ID agent) now (to_lower uni (Fact_Name entry)) entry
     (the (normalizeState uni (Fact_State entry))) (the (normalizeStartupType uni (Fact_StartupType entry)))"

definition hub_knows :: "(string \<Rightarrow> string) \<Rightarrow> Fact \<Rightarrow> bool" where
  "hub_knows uni entry \<longleftrightarrow> normalizeState uni (Fact_State entry) \<noteq> None
     \<and> normalizeStartupType uni (Fact_StartupType entry) \<noteq> None \<and> trim_space (Fact_Name entry) = Fact_Name entry"

lemma normalize_services_stored:
  assumes "\<forall>entry \<in> set facts. hub_knows uni entry"
  shows "normalize_services uni agent (Agent_ID agent) now seen facts =
      (if distinct (map (\<lambda>entry. to_lower uni (Fact_Name entry)) facts)
         \<and> (\<forall>entry \<in> set facts. let n = to_lower uni (Fact_Name entry) in n \<notin> seen \<and> n \<noteq> [] \<and> length n \<le> 256)
       then Some (map (stored_service uni agent now) facts) else None)"
  using assms
proof (induction facts arbitrary: seen)
  case (Cons entry facts)
  obtain state startup where "normalizeState uni (Fact_State entry) = Some state"
      "normalizeStartupType uni (Fact_StartupType entry) = Some startup" "trim_space (Fact_Name entry) = Fact_Name entry"
    using Cons.prems by (auto simp: hub_knows_def)
  then show ?case using Cons.IH [of "insert (to_lower uni (Fact_Name entry)) seen"] Cons.prems
    by (auto simp: Let_def image_iff stored_service_def) metis+
qed simp

text \<open>
  C27. The service collector reports the host as \<open>systemctl\<close> lists it. It fails exactly if some row
  is malformed; otherwise its services are strictly sorted by name and are one for each unit of the
  two listings: the last row of a unit decides, its state and display name come from the listing of
  units (stopped where only the unit files know it), its startup type from that of the unit files
  (unknown where only the units know it). The order in which Go visits the map does not matter.
\<close>

theorem collected_services:
  assumes "slice_sort srt" "visits vis" "units = unit_rows unitsOutput" "unitFiles = unit_rows unitFilesOutput"
  shows "case parseSystemdServices srt vis unitsOutput unitFilesOutput of
     Inl e \<Rightarrow> \<not> well_listed units unitFiles
   | Inr facts \<Rightarrow> well_listed units unitFiles \<and> sorted_wrt (<) (map Fact_Name facts)
       \<and> set facts = reported_unit units unitFiles ` unit_names units unitFiles"
  using collected_rows [OF assms] parse_rows [OF assms(3,4), of srt vis]
  by (cases "well_listed units unitFiles") (auto simp: isl_def)

text \<open>Two units whose names differ only in case, one listed by \<open>list-units\<close>, one by \<open>list-unit-files\<close>.\<close>

definition toy_units :: string where "toy_units = ''a.service loaded active running''"
definition toy_unit_files :: string where "toy_unit_files = ''A.service masked''"

lemma toy_unit_rows:
  "unit_rows toy_units = [[''a.service'', ''loaded'', ''active'', ''running'']]"
  "unit_rows toy_unit_files = [[''A.service'', ''masked'']]"
  by (simp_all add: unit_rows_def toy_units_def toy_unit_files_def fields_ascii)

lemma toy_well_listed: "well_listed (unit_rows toy_units) (unit_rows toy_unit_files)"
  by (simp add: well_listed_def toy_unit_rows unit_row_def has_suffix_def has_prefix_def)

theorem collected_services_witness:
  "\<exists>facts. parseSystemdServices insertion_sort visit_by_key toy_units toy_unit_files = Inr facts
     \<and> \<lparr>Fact_Name = ''A.service'', Fact_DisplayName = [], Fact_State = ''stopped'', Fact_StartupType = ''disabled''\<rparr> \<in> set facts"
proof -
  have "reported_unit (unit_rows toy_units) (unit_rows toy_unit_files) ''A.service''
      = \<lparr>Fact_Name = ''A.service'', Fact_DisplayName = [], Fact_State = ''stopped'', Fact_StartupType = ''disabled''\<rparr>"
    by (simp add: reported_unit_def last_row_def toy_unit_rows systemdStartupType_def)
  moreover have "''A.service'' \<in> unit_names (unit_rows toy_units) (unit_rows toy_unit_files)"
    by (simp add: unit_names_def toy_unit_rows)
  ultimately show ?thesis
    using collected_services [OF insertion.slice_sort_axioms visits_by_key refl refl, of toy_units toy_unit_files]
    by (auto simp: toy_well_listed image_iff split: sum.splits) metis
qed



end
