(* ===== verification/Pg_Tables.thy ===== *)
theory Pg_Tables
  imports Tenancy
begin

text \<open>
  The SQL of \<open>internal/storage/postgres\<close>: tables as lists of rows, the statements the store
  sends, and the transactions they run in. PostgreSQL itself is modelled by what its
  documentation promises: a statement that violates a constraint changes nothing and fails, a
  transaction takes effect when it is committed and not at all otherwise. What the network and
  the server add is the record \<open>DB_Env\<close> of a call: any statement may fail, and the answer to a
  commit may be lost after it took effect. A call of the store is one step: the rows it reads
  are locked to the end of its transaction (\<open>FOR UPDATE\<close>, advisory locks, unique keys), and the
  interleaving of two replicas within a call is not modelled.
\<close>

named_theorems tx_intros \<open>closure of \<open>settled\<close> under the combinators of transactions\<close>
named_theorems tx_defs \<open>unfolding a transaction\<close>

section \<open>What can go wrong\<close>

text \<open>
  \<open>DB_fails n\<close>: statement number \<open>n\<close> of the call fails. \<open>DB_landed\<close>: a commit, or a statement
  outside a transaction, whose answer is lost has taken effect.
\<close>

record DB_Env =
  DB_begin_fails :: bool
  DB_fails :: "nat \<Rightarrow> bool"
  DB_commit_fails :: bool
  DB_landed :: bool

definition healthy :: DB_Env where
  "healthy = \<lparr>DB_begin_fails = False, DB_fails = (\<lambda>_. False), DB_commit_fails = False, DB_landed = False\<rparr>"

lemma healthy_simps [simp]:
  "DB_begin_fails healthy = False" "DB_fails healthy = (\<lambda>_. False)" "DB_commit_fails healthy = False"
  by (simp_all add: healthy_def)

section \<open>Statements and transactions\<close>

text \<open>
  The body of a transaction: from the number of the next statement and the database, an error
  or a value with both. \<open>tx_stmt msg f\<close> is a statement whose failure is returned under \<open>msg\<close>;
  \<open>f\<close> is None when a constraint, or the encoding of an argument, refuses it.
\<close>

type_synonym ('a, 'd) tx = "(nat \<Rightarrow> bool) \<Rightarrow> nat \<Rightarrow> 'd \<Rightarrow> err + ('a \<times> nat \<times> 'd)"

definition tx_ret :: "'a \<Rightarrow> ('a, 'd) tx" where
  "tx_ret a = (\<lambda>fails n d. Inr (a, n, d))"

definition tx_fail :: "err \<Rightarrow> ('a, 'd) tx" where
  "tx_fail e = (\<lambda>fails n d. Inl e)"

definition tx_bind :: "('a, 'd) tx \<Rightarrow> ('a \<Rightarrow> ('b, 'd) tx) \<Rightarrow> ('b, 'd) tx" where
  "tx_bind m f = (\<lambda>fails n d. case m fails n d of Inl e \<Rightarrow> Inl e | Inr (a, n', d') \<Rightarrow> f a fails n' d')"

definition tx_stmt :: "string \<Rightarrow> ('d \<Rightarrow> ('a \<times> 'd) option) \<Rightarrow> ('a, 'd) tx" where
  "tx_stmt msg f = (\<lambda>fails n d.
     if fails n then Inl (ErrOther msg)
     else case f d of None \<Rightarrow> Inl (ErrOther msg) | Some (a, d') \<Rightarrow> Inr (a, Suc n, d'))"

text \<open>A query, and a statement that returns nothing.\<close>

definition tx_query :: "string \<Rightarrow> ('d \<Rightarrow> 'a option) \<Rightarrow> ('a, 'd) tx" where
  "tx_query msg q = tx_stmt msg (\<lambda>d. map_option (\<lambda>a. (a, d)) (q d))"

definition tx_exec :: "string \<Rightarrow> ('d \<Rightarrow> 'd option) \<Rightarrow> (unit, 'd) tx" where
  "tx_exec msg u = tx_stmt msg (\<lambda>d. map_option (\<lambda>d'. ((), d')) (u d))"

text \<open>A loop that runs one body per element and collects the results.\<close>

fun tx_each :: "('x \<Rightarrow> ('a, 'd) tx) \<Rightarrow> 'x list \<Rightarrow> ('a list, 'd) tx" where
  "tx_each f [] = tx_ret []"
| "tx_each f (x # xs) = tx_bind (f x) (\<lambda>a. tx_bind (tx_each f xs) (\<lambda>as. tx_ret (a # as)))"

text \<open>
  How a function leaves its transaction without an error: after a commit (with the message of
  that commit), or by a return before one, where the deferred rollback undoes everything.
\<close>

datatype 'a finish = Commit string 'a | Rollback 'a

definition transaction ::
  "DB_Env \<Rightarrow> string \<Rightarrow> ('a finish, 'd) tx \<Rightarrow> 'd \<Rightarrow> ('a, 'd) op" where
  "transaction env msg m d =
     (if DB_begin_fails env then (Inl (ErrOther msg), d)
      else case m (DB_fails env) 0 d of
          Inl e \<Rightarrow> (Inl e, d)
        | Inr (Rollback a, _, _) \<Rightarrow> (Inr a, d)
        | Inr (Commit cmsg a, _, d') \<Rightarrow>
            if DB_commit_fails env then (Inl (ErrOther cmsg), if DB_landed env then d' else d)
            else (Inr a, d'))"

text \<open>\<open>pool.Exec\<close>: one statement that commits itself; \<open>f\<close> also gives what is returned.\<close>

definition exec_one :: "DB_Env \<Rightarrow> string \<Rightarrow> ('d \<Rightarrow> ('a \<times> 'd) option) \<Rightarrow> 'd \<Rightarrow> ('a, 'd) op" where
  "exec_one env msg f d =
     (case f d of
        None \<Rightarrow> (Inl (ErrOther msg), d)
      | Some (a, d') \<Rightarrow>
          if DB_fails env 0 then (Inl (ErrOther msg), if DB_landed env then d' else d) else (Inr a, d'))"

text \<open>\<open>pool.Query\<close>: the database stays as it is; the body may send several queries.\<close>

definition read_only :: "DB_Env \<Rightarrow> ('a, 'd) tx \<Rightarrow> 'd \<Rightarrow> 'a res" where
  "read_only env m d = (case m (DB_fails env) 0 d of Inl e \<Rightarrow> Inl e | Inr (a, _, _) \<Rightarrow> Inr a)"

text \<open>
  \<open>pool.Query\<close> and the loop over its rows: the query may be refused (first message) and the
  connection may break while the rows are read (second message).
\<close>

definition query_rows :: "string \<Rightarrow> string \<Rightarrow> ('d \<Rightarrow> 'a option) \<Rightarrow> ('a, 'd) tx" where
  "query_rows msg itmsg q = tx_bind (tx_query msg q) (\<lambda>rows. tx_query itmsg (\<lambda>_. Some rows))"

lemmas [tx_defs] = tx_ret_def tx_fail_def tx_bind_def tx_stmt_def tx_query_def tx_exec_def

section \<open>Failures only take away\<close>

text \<open>
  \<open>settled m\<close>: whatever fails, a body that gets to its end has done what it does when
  nothing fails.
\<close>

definition settled :: "('a, 'd) tx \<Rightarrow> bool" where
  "settled m \<longleftrightarrow> (\<forall>fails n d r. m fails n d = Inr r \<longrightarrow> m (\<lambda>_. False) n d = Inr r)"

lemma settledD: "settled m \<Longrightarrow> m fails n d = Inr r \<Longrightarrow> m (\<lambda>_. False) n d = Inr r"
  unfolding settled_def by blast

lemma settled_ret [tx_intros]: "settled (tx_ret a)"
  by (simp add: settled_def tx_ret_def)

lemma settled_fail [tx_intros]: "settled (tx_fail e)"
  by (simp add: settled_def tx_fail_def)

lemma settled_stmt [tx_intros]: "settled (tx_stmt msg f)"
  by (auto simp: settled_def tx_stmt_def split: if_splits)

lemma settled_query [tx_intros]: "settled (tx_query msg q)"
  by (simp add: tx_query_def settled_stmt)

lemma settled_exec [tx_intros]: "settled (tx_exec msg u)"
  by (simp add: tx_exec_def settled_stmt)

lemma settled_bind [tx_intros]:
  assumes "settled m" and "\<And>a. settled (f a)"
  shows "settled (tx_bind m f)"
  unfolding settled_def
proof (intro allI impI)
  fix fails n d r
  assume ok: "tx_bind m f fails n d = Inr r"
  then obtain a n' d' where m: "m fails n d = Inr (a, n', d')" and f: "f a fails n' d' = Inr r"
    by (auto simp: tx_bind_def split: sum.splits)
  show "tx_bind m f (\<lambda>_. False) n d = Inr r"
    using settledD [OF assms(1) m] settledD [OF assms(2) f] by (simp add: tx_bind_def)
qed

lemma settled_each [tx_intros]:
  assumes "\<And>x. settled (f x)"
  shows "settled (tx_each f xs)"
  by (induction xs) (simp_all add: assms settled_bind settled_ret)

lemma settled_rows [tx_intros]: "settled (query_rows msg itmsg q)"
  unfolding query_rows_def by (intro settled_bind settled_query)

lemma settled_if [tx_intros]: "settled m \<Longrightarrow> settled m' \<Longrightarrow> settled (if b then m else m')"
  by simp

lemma settled_option [tx_intros]:
  "settled m \<Longrightarrow> (\<And>x. settled (f x)) \<Longrightarrow> settled (case v of None \<Rightarrow> m | Some x \<Rightarrow> f x)"
  by (cases v) simp_all

lemma settled_sum [tx_intros]:
  "(\<And>x. settled (f x)) \<Longrightarrow> (\<And>x. settled (g x)) \<Longrightarrow> settled (case v of Inl x \<Rightarrow> f x | Inr x \<Rightarrow> g x)"
  by (cases v) simp_all

lemma settled_let [tx_intros]: "settled (f x) \<Longrightarrow> settled (let y = x in f y)"
  by simp

lemma settled_list [tx_intros]:
  "settled m \<Longrightarrow> (\<And>x xs. settled (f x xs)) \<Longrightarrow> settled (case v of [] \<Rightarrow> m | x # xs \<Rightarrow> f x xs)"
  by (cases v) simp_all

text \<open>
  The contract of an operation of the store: whatever fails during a call, the database is
  afterwards as before it or as after the call that nothing disturbed, and a call that returns
  no error is one that nothing disturbed.
\<close>

definition all_or_nothing :: "(DB_Env \<Rightarrow> 'd \<Rightarrow> ('a, 'd) op) \<Rightarrow> bool" where
  "all_or_nothing run \<longleftrightarrow>
     (\<forall>env d. (snd (run env d) = d \<or> snd (run env d) = snd (run healthy d))
        \<and> (isl (fst (run env d)) \<or> run env d = run healthy d))"

lemma all_or_nothingD:
  assumes "all_or_nothing run" and "run env d = (res, d')"
  shows "d' = d \<or> d' = snd (run healthy d)" "isl res \<or> run healthy d = (res, d')"
  using assms unfolding all_or_nothing_def by (metis fst_conv snd_conv)+

lemma all_or_nothing_same: "all_or_nothing (\<lambda>env d. (r d, d))"
  by (simp add: all_or_nothing_def)

lemma all_or_nothing_exec: "all_or_nothing (\<lambda>env. exec_one env msg f)"
  by (simp add: all_or_nothing_def exec_one_def split: option.split prod.split)

lemma all_or_nothing_transaction:
  assumes "settled m"
  shows "all_or_nothing (\<lambda>env. transaction env msg m)"
  unfolding all_or_nothing_def
proof (intro allI)
  fix env d
  show "(snd (transaction env msg m d) = d \<or> snd (transaction env msg m d) = snd (transaction healthy msg m d))
    \<and> (isl (fst (transaction env msg m d)) \<or> transaction env msg m d = transaction healthy msg m d)"
  proof (cases "m (DB_fails env) 0 d")
    case (Inr r)
    obtain fin n' d' where r: "r = (fin, n', d')" by (cases r)
    show ?thesis using settledD [OF assms Inr] Inr
      by (cases fin) (auto simp: transaction_def r)
  qed (simp add: transaction_def)
qed

lemma all_or_nothing_read:
  assumes "settled m"
  shows "all_or_nothing (\<lambda>env d. (read_only env m d, d))"
  unfolding all_or_nothing_def
proof (intro allI)
  fix env d
  show "(snd (read_only env m d, d) = d \<or> snd (read_only env m d, d) = snd (read_only healthy m d, d))
    \<and> (isl (fst (read_only env m d, d)) \<or> (read_only env m d, d) = (read_only healthy m d, d))"
    using settledD [OF assms, of "DB_fails env" 0 d]
    by (cases "m (DB_fails env) 0 d") (auto simp: read_only_def)
qed

lemma all_or_nothing_if:
  "all_or_nothing f \<Longrightarrow> all_or_nothing g \<Longrightarrow> all_or_nothing (\<lambda>env d. if b then f env d else g env d)"
  by (cases b) simp_all

lemma all_or_nothing_option:
  "all_or_nothing f \<Longrightarrow> (\<And>x. all_or_nothing (g x)) \<Longrightarrow>
   all_or_nothing (\<lambda>env d. case v of None \<Rightarrow> f env d | Some x \<Rightarrow> g x env d)"
  by (cases v) simp_all

text \<open>Renaming the value an operation returns.\<close>

definition map_op :: "('a \<Rightarrow> 'b) \<Rightarrow> ('a, 'd) op \<Rightarrow> ('b, 'd) op" where
  "map_op f r = (map_sum id f (fst r), snd r)"

lemma map_op_simps [simp]: "map_op f (Inl e, d) = (Inl e, d)" "map_op f (Inr a, d) = (Inr (f a), d)"
  by (simp_all add: map_op_def)

lemma all_or_nothing_map: "all_or_nothing run \<Longrightarrow> all_or_nothing (\<lambda>env d. map_op f (run env d))"
  unfolding all_or_nothing_def map_op_def
  by (metis fst_conv isl_map_sum snd_conv)

text \<open>An answer given after the statement took effect (from the number of affected rows, say).\<close>

definition answer :: "('a \<Rightarrow> 'b res) \<Rightarrow> ('a, 'd) op \<Rightarrow> ('b, 'd) op" where
  "answer f r = (case fst r of Inl e \<Rightarrow> Inl e | Inr a \<Rightarrow> f a, snd r)"

lemma all_or_nothing_answer: "all_or_nothing run \<Longrightarrow> all_or_nothing (\<lambda>env d. answer f (run env d))"
  unfolding all_or_nothing_def
proof (intro allI)
  fix env d
  assume "\<forall>env d. (snd (run env d) = d \<or> snd (run env d) = snd (run healthy d))
      \<and> (isl (fst (run env d)) \<or> run env d = run healthy d)"
  then have "snd (run env d) = d \<or> snd (run env d) = snd (run healthy d)"
    "isl (fst (run env d)) \<or> run env d = run healthy d" by blast+
  then show "(snd (answer f (run env d)) = d \<or> snd (answer f (run env d)) = snd (answer f (run healthy d)))
      \<and> (isl (fst (answer f (run env d))) \<or> answer f (run env d) = answer f (run healthy d))"
    by (cases "fst (run env d)") (auto simp: answer_def)
qed

text \<open>A statement without a result, and the number of rows one affects.\<close>

definition effect :: "('d \<Rightarrow> 'd option) \<Rightarrow> 'd \<Rightarrow> (unit \<times> 'd) option" where
  "effect u d = map_option (\<lambda>d'. ((), d')) (u d)"

definition affected :: "('r \<Rightarrow> bool) \<Rightarrow> 'r list \<Rightarrow> nat" where
  "affected P rows = length (filter P rows)"

section \<open>Values\<close>

text \<open>
  A TEXT value is valid UTF-8 without the zero byte; INTEGER has 32 bits and BIGINT 64;
  a TIMESTAMPTZ keeps microseconds, which the driver gets by cutting off the rest.
\<close>

definition pg_text :: "string \<Rightarrow> bool" where
  "pg_text s \<longleftrightarrow> valid_utf8 s \<and> nul \<notin> set s"

definition int4 :: "int \<Rightarrow> bool" where
  "int4 i \<longleftrightarrow> - 2147483648 \<le> i \<and> i \<le> 2147483647"

definition int8 :: "int \<Rightarrow> bool" where
  "int8 i \<longleftrightarrow> - 9223372036854775808 \<le> i \<and> i \<le> 9223372036854775807"

text \<open>A statement is refused when one of its text arguments is no text.\<close>

definition with_texts :: "string list \<Rightarrow> 'a option \<Rightarrow> 'a option" where
  "with_texts ts r = (if list_all pg_text ts then r else None)"

lemma with_texts_Some: "with_texts ts r = Some x \<longleftrightarrow> list_all pg_text ts \<and> r = Some x"
  by (simp add: with_texts_def)

lemma pg_text_plain: "list_all (\<lambda>c. byte_in 1 127 c) s \<Longrightarrow> pg_text s"
proof -
  assume s: "list_all (\<lambda>c. byte_in 1 127 c) s"
  have "is_ascii s" using s by (auto simp: is_ascii_def list_all_iff byte_in_def)
  moreover have "nul \<notin> set s" using s by (auto simp: list_all_iff byte_in_def nul_def)
  ultimately show ?thesis by (simp add: pg_text_def valid_utf8_ascii)
qed

lemma pg_text_prefix: "list_all (\<lambda>c. byte_in 1 127 c) s \<Longrightarrow> pg_text (s @ t) \<longleftrightarrow> pg_text t"
proof (induction s)
  case (Cons c s)
  then have "byte_in 0 127 c" "c \<noteq> nul" by (auto simp: byte_in_def nul_def)
  then have "pg_text (c # s @ t) \<longleftrightarrow> pg_text (s @ t)"
    using valid_utf8_rune [OF rune_len_ascii, of c "s @ t"] by (auto simp: pg_text_def)
  then show ?case using Cons by simp
qed simp

section \<open>Rows\<close>

text \<open>
  The statements on a table: \<open>clash x y\<close> says that \<open>x\<close> and \<open>y\<close> may not both be rows (a key or
  a unique constraint). \<open>SELECT\<close> is \<open>filter\<close>.
\<close>

definition insert_row :: "('r \<Rightarrow> 'r \<Rightarrow> bool) \<Rightarrow> 'r \<Rightarrow> 'r list \<Rightarrow> 'r list option" where
  "insert_row clash r rows = (if \<exists>x \<in> set rows. clash r x then None else Some (rows @ [r]))"

definition update_rows :: "('r \<Rightarrow> bool) \<Rightarrow> ('r \<Rightarrow> 'r) \<Rightarrow> 'r list \<Rightarrow> 'r list" where
  "update_rows P f rows = map (\<lambda>r. if P r then f r else r) rows"

definition delete_rows :: "('r \<Rightarrow> bool) \<Rightarrow> 'r list \<Rightarrow> 'r list" where
  "delete_rows P rows = filter (\<lambda>r. \<not> P r) rows"

text \<open>\<open>INSERT ... ON CONFLICT DO UPDATE\<close>: rows that clash are replaced by \<open>f r x\<close>.\<close>

definition upsert_row :: "('r \<Rightarrow> 'r \<Rightarrow> bool) \<Rightarrow> ('r \<Rightarrow> 'r \<Rightarrow> 'r) \<Rightarrow> 'r \<Rightarrow> 'r list \<Rightarrow> 'r list" where
  "upsert_row clash f r rows =
     (if \<exists>x \<in> set rows. clash r x then update_rows (clash r) (f r) rows else rows @ [r])"

text \<open>\<open>LIMIT\<close>: a negative limit is refused.\<close>

definition limit_rows :: "int \<Rightarrow> 'r list \<Rightarrow> 'r list option" where
  "limit_rows n rows = (if n < 0 then None else Some (take (nat n) rows))"

lemma set_update_rows [simp]: "set (update_rows P f rows) = (\<lambda>r. if P r then f r else r) ` set rows"
  by (simp add: update_rows_def)

lemma update_rows_Nil [simp]: "update_rows P f [] = []"
  by (simp add: update_rows_def)

lemma set_delete_rows [simp]: "set (delete_rows P rows) = {r \<in> set rows. \<not> P r}"
  by (simp add: delete_rows_def)

text \<open>Looking a row up by a key, and what the statements do to it.\<close>

lemma find_update_rows:
  assumes "\<And>r. r \<in> set rows \<Longrightarrow> key (if P r then f r else r) = key r"
  shows "find (\<lambda>r. key r = k) (update_rows P f rows)
       = map_option (\<lambda>r. if P r then f r else r) (find (\<lambda>r. key r = k) rows)"
  using assms by (induction rows) (auto simp: update_rows_def)

lemma find_delete_rows:
  assumes "distinct (map key rows)"
  shows "find (\<lambda>r. key r = k) (delete_rows P rows)
       = (case find (\<lambda>r. key r = k) rows of None \<Rightarrow> None | Some r \<Rightarrow> if P r then None else Some r)"
  using assms
proof (induction rows)
  case (Cons x rows)
  then have IH: "find (\<lambda>r. key r = k) (delete_rows P rows)
       = (case find (\<lambda>r. key r = k) rows of None \<Rightarrow> None | Some r \<Rightarrow> if P r then None else Some r)" by simp
  have "find (\<lambda>r. key r = k) rows = None" if "key x = k"
    using Cons.prems that by (auto simp: find_None_iff image_iff dest: sym)
  then show ?case using IH by (auto simp: delete_rows_def)
qed (simp add: delete_rows_def)

lemma find_append:
  "find P (xs @ ys) = (case find P xs of None \<Rightarrow> find P ys | Some x \<Rightarrow> Some x)"
  by (induction xs) auto

lemma find_SomeD: "find P xs = Some x \<Longrightarrow> x \<in> set xs \<and> P x"
  by (auto simp: find_Some_iff)

lemma find_key:
  assumes "distinct (map key rows)"
  shows "find (\<lambda>r. key r = k) rows = Some r \<longleftrightarrow> r \<in> set rows \<and> key r = k"
  using assms by (induction rows) force+

lemma find_key_and:
  assumes "distinct (map key rows)"
  shows "find (\<lambda>r. key r = k \<and> Q r) rows
       = (case find (\<lambda>r. key r = k) rows of None \<Rightarrow> None | Some r \<Rightarrow> if Q r then Some r else None)"
  using assms
proof (induction rows)
  case (Cons x rows)
  have "find (\<lambda>r. key r = k \<and> Q r) rows = None" if "key x = k"
    using Cons.prems that by (auto simp: find_None_iff image_iff dest: sym)
  then show ?case using Cons by auto
qed simp

lemma find_key_in: "distinct (map key rows) \<Longrightarrow> r \<in> set rows \<Longrightarrow> find (\<lambda>x. key x = key r) rows = Some r"
  by (simp add: find_key)

lemma map_key_update_rows:
  "(\<And>r. r \<in> set rows \<Longrightarrow> P r \<Longrightarrow> key (f r) = key r) \<Longrightarrow> map key (update_rows P f rows) = map key rows"
  by (simp add: update_rows_def)

lemma insert_row_key:
  "insert_row (\<lambda>a b. key a = key b) r rows = Some rows' \<longleftrightarrow> key r \<notin> key ` set rows \<and> rows' = rows @ [r]"
  by (auto simp: insert_row_def)

lemma find_filter: "find P (filter Q xs) = find (\<lambda>x. Q x \<and> P x) xs"
  by (induction xs) auto

text \<open>
  \<open>ORDER BY ... LIMIT 1\<close> under an order that separates the rows is the loop that picks the
  first of them.
\<close>


lemma sorted_unique:
  assumes "sorted_wrt (\<lambda>a b. \<not> lt b a) xs" "sorted_wrt lt ys" "mset xs = mset ys"
  shows "xs = ys"
  using assms
proof (induction ys arbitrary: xs)
  case (Cons y ys)
  obtain x xs' where xs: "xs = x # xs'" using Cons.prems(3) by (cases xs) auto
  have sets: "set (x # xs') = set (y # ys)" using Cons.prems(3) xs by (metis set_mset_mset)
  have "x = y \<or> lt y x" using sets Cons.prems(2) by auto
  moreover have "y = x \<or> \<not> lt y x" using sets Cons.prems(1) xs by auto
  ultimately have "x = y" by blast
  then show ?case using Cons xs by simp
qed simp

context slice_sort
begin

lemma srt_first:
  assumes order: "weak_order lt" and total: "\<And>a b. a \<in> set xs \<Longrightarrow> b \<in> set xs \<Longrightarrow> a \<noteq> b \<Longrightarrow> lt a b \<or> lt b a"
  shows "(case srt lt xs of [] \<Rightarrow> None | x # _ \<Rightarrow> Some x) = pick lt None xs"
proof (cases "srt lt xs")
  case Nil
  then have "xs = []" using set_srt [of lt xs] by simp
  then show ?thesis using Nil by simp
next
  case (Cons x rest)
  have x: "x \<in> set xs" using set_srt [of lt xs] Cons by auto
  then obtain y where y: "pick lt None xs = Some y" by (cases "pick lt None xs") (auto simp: pick_None_iff)
  have yx: "y \<in> set xs" "\<not> lt x y" using pick_in_list [OF y] pick_first [OF order y x] by auto
  have "y \<in> set (x # rest)" using yx(1) set_srt [of lt xs] Cons by simp
  moreover have "sorted_wrt (\<lambda>a b. \<not> lt b a) (x # rest)" using ordered_srt [OF order, of xs] Cons by simp
  ultimately have "y = x \<or> \<not> lt y x" by auto
  with total [OF x yx(1)] yx(2) have "y = x" by blast
  then show ?thesis using Cons y by simp
qed

text \<open>Sorting the elements of a strictly sorted list gives the list.\<close>

lemma srt_same:
  assumes "weak_order lt" and "sorted_wrt lt ys" and "mset ys = mset xs"
  shows "srt lt xs = ys"
  by (rule sorted_unique [OF ordered_srt [OF assms(1)] assms(2)]) (simp add: mset_srt assms(3))

end

section \<open>Refinement of the in-memory stores\<close>

text \<open>
  A component of the store as its calls: \<open>call c env d\<close> is call \<open>c\<close> in the surroundings
  \<open>env\<close>. A run makes calls one after another; \<open>calls_ok\<close> says that each is one the service
  may make (\<open>pre\<close>) when its turn comes.
\<close>

fun run_calls :: "('c \<Rightarrow> DB_Env \<Rightarrow> 'd \<Rightarrow> ('r, 'd) op) \<Rightarrow> ('c \<times> DB_Env) list \<Rightarrow> 'd \<Rightarrow> 'd" where
  "run_calls call [] d = d"
| "run_calls call ((c, env) # cs) d = run_calls call cs (snd (call c env d))"

fun calls_ok ::
  "('c \<Rightarrow> DB_Env \<Rightarrow> 'd \<Rightarrow> ('r, 'd) op) \<Rightarrow> ('c \<Rightarrow> 'd \<Rightarrow> bool) \<Rightarrow> ('c \<times> DB_Env) list \<Rightarrow> 'd \<Rightarrow> bool" where
  "calls_ok call pre [] d \<longleftrightarrow> True"
| "calls_ok call pre ((c, env) # cs) d \<longleftrightarrow> pre c d \<and> calls_ok call pre cs (snd (call c env d))"

text \<open>
  The contract of a component: no call is done by halves, and an undisturbed call on sound
  tables does to the abstract store what \<open>spec\<close>, the operation of the in-memory store, does,
  answers the same and leaves the tables sound.
\<close>

locale store_refinement =
  fixes call :: "'c \<Rightarrow> DB_Env \<Rightarrow> 'd \<Rightarrow> ('r, 'd) op"
    and spec :: "'c \<Rightarrow> 's \<Rightarrow> 'r res \<Rightarrow> 's \<Rightarrow> bool"
    and abs :: "'d \<Rightarrow> 's"
    and ok :: "'d \<Rightarrow> bool"
    and pre :: "'c \<Rightarrow> 'd \<Rightarrow> bool"
  assumes atomic: "all_or_nothing (call c)"
    and refine: "ok d \<Longrightarrow> pre c d \<Longrightarrow> call c healthy d = (res, d') \<Longrightarrow> ok d' \<and> spec c (abs d) res (abs d')"
begin

text \<open>A call that something disturbs: it is made or it is not, and an answer is a true answer.\<close>

lemma disturbed:
  assumes "ok d" "pre c d" "call c env d = (res, d')"
  shows "ok d'" "d' = d \<or> (\<exists>r. spec c (abs d) r (abs d'))" "isl res \<or> spec c (abs d) res (abs d')"
proof -
  obtain r e where healthy: "call c healthy d = (r, e)" by (cases "call c healthy d")
  note good = refine [OF assms(1,2) healthy]
  have d': "d' = d \<or> d' = e" using all_or_nothingD(1) [OF atomic assms(3)] healthy by simp
  with good assms(1) show "ok d'" by auto
  from d' good show "d' = d \<or> (\<exists>r. spec c (abs d) r (abs d'))" by auto
  show "isl res \<or> spec c (abs d) res (abs d')"
    using all_or_nothingD(2) [OF atomic assms(3)] healthy good by auto
qed

lemma run_ok: "ok d \<Longrightarrow> calls_ok call pre cs d \<Longrightarrow> ok (run_calls call cs d)"
proof (induction cs arbitrary: d)
  case (Cons x cs)
  obtain c env where x: "x = (c, env)" by (cases x)
  have "ok (snd (call c env d))"
    using disturbed(1) [OF Cons.prems(1), of c env] Cons.prems(2) x by (metis calls_ok.simps(2) prod.collapse)
  then show ?case using Cons x by simp
qed simp

text \<open>What every abstract step keeps, a run keeps.\<close>

lemma run_keeps:
  assumes step: "\<And>c d r s. ok d \<Longrightarrow> pre c d \<Longrightarrow> spec c (abs d) r s \<Longrightarrow> R (abs d) s"
    and refl: "\<And>s. R s s" and trans: "\<And>s t u. R s t \<Longrightarrow> R t u \<Longrightarrow> R s u"
  shows "ok d \<Longrightarrow> calls_ok call pre cs d \<Longrightarrow> R (abs d) (abs (run_calls call cs d))"
proof (induction cs arbitrary: d)
  case (Cons x cs)
  obtain c env where x: "x = (c, env)" by (cases x)
  let ?d = "snd (call c env d)"
  obtain res where call: "call c env d = (res, ?d)" by (metis prod.collapse)
  have pre: "pre c d" using Cons.prems(2) x by simp
  note once = disturbed [OF Cons.prems(1) pre call]
  have "R (abs d) (abs ?d)" using once(2) step [OF Cons.prems(1) pre] refl by metis
  moreover have "R (abs ?d) (abs (run_calls call cs ?d))" using Cons x once(1) by simp
  ultimately show ?case using trans x by simp
qed (simp add: refl)

end

end
