(* ===== verification/Pg_Database.thy ===== *)
theory Pg_Database
  imports Pg_Tables Jobs Alerting Sessions Serviceaccounts Identity Enrollment Logstream Telemetry
    Serviceinventory Cloudinventory Audittrail Activity
begin

text \<open>
  The database the migrations under \<open>internal/storage/postgres/migrations\<close> create: one list of
  rows per table. A row is the record of the domain whose columns it has; columns the Go code
  never reads are left out, and fields without a column are empty in a stored row. The tables
  \<open>organizations\<close> and \<open>sites\<close> are filled by the migrations and written by nothing else.
\<close>

section \<open>Rows without a domain record\<close>

text \<open>\<open>enrollment_tokens\<close>, \<open>invites\<close>, \<open>invite_site_roles\<close> and \<open>recovery_codes\<close>.\<close>

record EnrollmentTokenRow =
  TokenRow_Hash :: string
  TokenRow_Scope :: Scope
  TokenRow_ConsumedAt :: "time option"
  TokenRow_ConsumedBy :: string
  TokenRow_RevokedAt :: "time option"

record InviteRow =
  InviteRow_Invite :: Invite
  InviteRow_TokenHash :: string
  InviteRow_ConsumedBy :: string

record InviteSiteRoleRow =
  InviteSiteRole_InviteID :: string
  InviteSiteRole_SiteID :: string
  InviteSiteRole_Role :: string

record RecoveryCodeRow =
  RecoveryCode_ID :: string
  RecoveryCode_UserID :: string
  RecoveryCode_Hash :: string
  RecoveryCode_ConsumedAt :: "time option"

section \<open>The tables\<close>

record Database =
  Db_organizations :: "string list"
  Db_sites :: "Scope list"
  Db_agents :: "Agent list"
  Db_enrollment_authority :: "AuthorityState option"
  Db_enrollment_tokens :: "EnrollmentTokenRow list"
  Db_hosts :: "Host list"
  Db_services :: "HostService list"
  Db_telemetry_samples :: "Sample list"
  Db_log_entries :: "LogEntry list"
  Db_jobs :: "Job list"
  Db_job_events :: "JobEvent list"
  Db_alert_rules :: "Rule list"
  Db_maintenance_windows :: "MaintenanceWindow list"
  Db_alert_incidents :: "Incident list"
  Db_alert_events :: "AlertEvent list"
  Db_cloud_accounts :: "Account list"
  Db_cloud_instances :: "Instance list"
  Db_audit_events :: "AuditEvent list"
  Db_platform_bootstrap :: "string option"
  Db_users :: "User list"
  Db_invites :: "InviteRow list"
  Db_invite_site_roles :: "InviteSiteRoleRow list"
  Db_recovery_codes :: "RecoveryCodeRow list"
  Db_oidc_configurations :: "OIDCConfiguration list"
  Db_sessions :: "sessionRecord list"
  Db_site_memberships :: "SiteMembership list"
  Db_service_accounts :: "ServiceAccount list"
  Db_service_account_tokens :: "tokenRecord list"
  Db_activity_events :: "ActivityEvent list"

text \<open>The database after the migrations: the default organization with its site, and nothing else.\<close>

definition seeded :: Database where
  "seeded = \<lparr>Db_organizations = [DefaultOrganizationID], Db_sites = [DefaultScope], Db_agents = [],
     Db_enrollment_authority = None, Db_enrollment_tokens = [], Db_hosts = [], Db_services = [],
     Db_telemetry_samples = [], Db_log_entries = [], Db_jobs = [], Db_job_events = [], Db_alert_rules = [],
     Db_maintenance_windows = [], Db_alert_incidents = [], Db_alert_events = [], Db_cloud_accounts = [],
     Db_cloud_instances = [], Db_audit_events = [], Db_platform_bootstrap = None, Db_users = [], Db_invites = [],
     Db_invite_site_roles = [], Db_recovery_codes = [], Db_oidc_configurations = [], Db_sessions = [],
     Db_site_memberships = [], Db_service_accounts = [], Db_service_account_tokens = [], Db_activity_events = []\<rparr>"

section \<open>What the statements share\<close>

text \<open>
  The order of TEXT in \<open>ORDER BY\<close> is the collation of the database (\<open>col\<close>), not the order of
  bytes Go compares by. \<open>ORDER BY a, b\<close> for a number and a text:
\<close>

definition by_time_text :: "(string \<Rightarrow> string \<Rightarrow> bool) \<Rightarrow> ('r \<Rightarrow> time) \<Rightarrow> ('r \<Rightarrow> string) \<Rightarrow> 'r \<Rightarrow> 'r \<Rightarrow> bool" where
  "by_time_text col tm tx a b \<longleftrightarrow> tm a < tm b \<or> tm a = tm b \<and> col (tx a) (tx b)"

definition first_row :: "'r sorter \<Rightarrow> ('r \<Rightarrow> 'r \<Rightarrow> bool) \<Rightarrow> 'r list \<Rightarrow> 'r option" where
  "first_row srt lt rows = (case srt lt rows of [] \<Rightarrow> None | r # _ \<Rightarrow> Some r)"

definition host_row :: "string \<Rightarrow> string \<Rightarrow> string \<Rightarrow> Database \<Rightarrow> Host option" where
  "host_row organizationID siteID agentID d =
     find (\<lambda>h. Host_OrganizationID h = organizationID \<and> Host_SiteID h = siteID \<and> Host_AgentID h = agentID)
       (Db_hosts d)"

definition site_row :: "string \<Rightarrow> string \<Rightarrow> Database \<Rightarrow> bool" where
  "site_row organizationID siteID d \<longleftrightarrow>
     \<lparr>Scope_OrganizationID = organizationID, Scope_SiteID = siteID\<rparr> \<in> set (Db_sites d)"

lemma site_row_scope: "site_row (Scope_OrganizationID scope) (Scope_SiteID scope) d \<longleftrightarrow> scope \<in> set (Db_sites d)"
  by (cases scope) (simp add: site_row_def)

text \<open>
  A collation of PostgreSQL orders all texts (texts it does not tell apart are ordered by
  their bytes), and identifiers in lower-case hex digits as their bytes do.
\<close>

definition collation :: "(string \<Rightarrow> string \<Rightarrow> bool) \<Rightarrow> bool" where
  "collation col \<longleftrightarrow>
     (\<forall>s t. col s t \<longrightarrow> \<not> col t s) \<and> (\<forall>s t u. col s t \<longrightarrow> col t u \<longrightarrow> col s u)
     \<and> (\<forall>s t. s \<noteq> t \<longrightarrow> col s t \<or> col t s)
     \<and> (\<forall>s t. hex32_pattern s \<longrightarrow> hex32_pattern t \<longrightarrow> (col s t \<longleftrightarrow> s < t))"

lemma collation_hex: "collation col \<Longrightarrow> hex32_pattern s \<Longrightarrow> hex32_pattern t \<Longrightarrow> col s t \<longleftrightarrow> s < t"
  unfolding collation_def by blast

lemma collation_less: "collation (<)"
  unfolding collation_def by (auto dest: less_asym order.strict_trans)

lemma weak_order_converse: "weak_order lt \<Longrightarrow> weak_order (\<lambda>a b. lt b a)"
  unfolding weak_order_def by metis

lemma weak_order_time_text:
  assumes "collation col"
  shows "weak_order (by_time_text col tm tx)" "weak_order (\<lambda>a b. by_time_text col tm tx b a)"
proof -
  have col: "col s t \<Longrightarrow> \<not> col t s" "\<not> col t s \<Longrightarrow> \<not> col u t \<Longrightarrow> \<not> col u s" for s t u
    using assms unfolding collation_def by metis+
  have "\<not> by_time_text col tm tx c a" if "\<not> by_time_text col tm tx b a" "\<not> by_time_text col tm tx c b" for a b c
  proof
    assume "by_time_text col tm tx c a"
    with that have "tm c = tm a" "tm b = tm a" "col (tx c) (tx a)" "\<not> col (tx b) (tx a)" "\<not> col (tx c) (tx b)"
      unfolding by_time_text_def by linarith+
    with col(2) show False by blast
  qed
  moreover have "\<not> by_time_text col tm tx b a" if "by_time_text col tm tx a b" for a b
    using that col(1) unfolding by_time_text_def by auto
  ultimately show "weak_order (by_time_text col tm tx)" unfolding weak_order_def by blast
  then show "weak_order (\<lambda>a b. by_time_text col tm tx b a)" by (rule weak_order_converse)
qed

lemma by_time_text_total:
  "collation col \<Longrightarrow> tx a \<noteq> tx b \<Longrightarrow> by_time_text col tm tx a b \<or> by_time_text col tm tx b a"
  unfolding collation_def by_time_text_def by (metis linorder_less_linear)

lemma pick_cong:
  assumes "\<And>a b. a \<in> set xs \<union> set_option sel \<Longrightarrow> b \<in> set xs \<union> set_option sel \<Longrightarrow> lt a b = lt' a b"
  shows "pick lt sel xs = pick lt' sel xs"
  using assms
proof (induction xs arbitrary: sel)
  case (Cons x xs)
  define nxt where "nxt = (case sel of None \<Rightarrow> Some x | Some y \<Rightarrow> if lt x y then Some x else sel)"
  have same: "nxt = (case sel of None \<Rightarrow> Some x | Some y \<Rightarrow> if lt' x y then Some x else sel)"
    using Cons.prems by (auto simp: nxt_def split: option.splits)
  have "set_option nxt \<subseteq> set (x # xs) \<union> set_option sel" by (auto simp: nxt_def split: option.splits if_splits)
  then have "pick lt nxt xs = pick lt' nxt xs" using Cons.prems by (intro Cons.IH) auto
  then show ?case using same by (simp add: nxt_def)
qed simp

text \<open>\<open>ORDER BY time, id LIMIT 1\<close> is the loop of the in-memory stores.\<close>

lemma first_row_pick:
  assumes "slice_sort srt" "collation col" "distinct (map tx xs)" "\<And>r. r \<in> set xs \<Longrightarrow> hex32_pattern (tx r)"
  shows "first_row srt (by_time_text col tm tx) xs
       = pick (\<lambda>a b. tm a < tm b \<or> tm a = tm b \<and> tx a < tx b) None xs"
proof -
  have "first_row srt (by_time_text col tm tx) xs = pick (by_time_text col tm tx) None xs"
    unfolding first_row_def
  proof (rule slice_sort.srt_first [OF assms(1) weak_order_time_text(1) [OF assms(2)]])
    fix a b assume "a \<in> set xs" "b \<in> set xs" "a \<noteq> b"
    then have "tx a \<noteq> tx b" using assms(3) by (metis distinct_map inj_on_def)
    then show "by_time_text col tm tx a b \<or> by_time_text col tm tx b a"
      by (rule by_time_text_total [OF assms(2)])
  qed
  also have "\<dots> = pick (\<lambda>a b. tm a < tm b \<or> tm a = tm b \<and> tx a < tx b) None xs"
  proof (rule pick_cong)
    fix a b assume "a \<in> set xs \<union> set_option None" "b \<in> set xs \<union> set_option None"
    then have "col (tx a) (tx b) = (tx a < tx b)" using assms(4) by (simp add: collation_hex [OF assms(2)])
    then show "by_time_text col tm tx a b = (tm a < tm b \<or> tm a = tm b \<and> tx a < tx b)"
      by (simp add: by_time_text_def)
  qed
  finally show ?thesis .
qed

lemma find_map_of: "map_of (map (\<lambda>r. (key r, r)) rows) k = find (\<lambda>r. key r = k) rows"
  by (induction rows) auto

lemma ranges_rows:
  "distinct (map key rows) \<Longrightarrow> ranges (map (\<lambda>r. (key r, r)) rows) (\<lambda>k. find (\<lambda>r. key r = k) rows)"
  by (auto simp: ranges_def find_map_of comp_def)

lemma hex32_text: "hex32_pattern s \<Longrightarrow> pg_text s"
  by (rule pg_text_plain) (fastforce simp: hex32_pattern_def list_all_iff is_lower_hex_def byte_in_def Let_def)

end
