(* ===== verification/Pg_Jobs.thy ===== *)
theory Pg_Jobs
  imports Pg_Database Jobs_Lifecycle
begin

text \<open>
  \<open>internal/storage/postgres/jobs.go\<close>: the job store over the tables \<open>jobs\<close> and
  \<open>job_events\<close>. \<open>srt\<close> sorts for \<open>ORDER BY\<close>, \<open>col\<close> is the collation of the database.
\<close>

section \<open>Statements\<close>

text \<open>What a column keeps of a value: microseconds of a time; \<open>Resumed\<close> has no column.\<close>

definition stored_job :: "Job \<Rightarrow> Job" where
  "stored_job job = job\<lparr>Job_RequestedAt := truncate_micro (Job_RequestedAt job), Job_Resumed := False\<rparr>"

definition stored_job_event :: "JobEvent \<Rightarrow> JobEvent" where
  "stored_job_event event = event\<lparr>JobEvent_OccurredAt := truncate_micro (JobEvent_OccurredAt event)\<rparr>"

definition job_texts :: "Job \<Rightarrow> string list" where
  "job_texts job = [Job_ID job, Job_OrganizationID job, Job_SiteID job, Job_AgentID job, Job_Action job,
     Job_Target job, Job_ApprovedBy job, Job_Reason job, Job_Signature job, Job_SigningPublicKey job]"

text \<open>The CHECK and FOREIGN KEY constraints of \<open>jobs\<close> and \<open>job_events\<close>.\<close>

definition job_row_ok :: "Job \<Rightarrow> Database \<Rightarrow> bool" where
  "job_row_ok job d \<longleftrightarrow>
     (Job_Action job = ActionServiceRestart \<or> Job_Action job = ActionHostReboot)
     \<and> 0 \<le> Job_LastSequence job \<and> int4 (Job_LastSequence job)
     \<and> Job_AgentID job \<in> Host_AgentID ` set (Db_hosts d)
     \<and> site_row (Job_OrganizationID job) (Job_SiteID job) d"

definition job_event_texts :: "JobEvent \<Rightarrow> string list" where
  "job_event_texts event = [JobEvent_JobID event, JobEvent_OrganizationID event, JobEvent_SiteID event,
     JobEvent_Message event, JobEvent_Actor event]"

definition job_event_row_ok :: "JobEvent \<Rightarrow> Database \<Rightarrow> bool" where
  "job_event_row_ok event d \<longleftrightarrow>
     JobEvent_Type event \<in> {EventApproved, EventClaimed, EventOutput, EventSucceeded, EventFailed}
     \<and> 0 \<le> JobEvent_Sequence event \<and> int4 (JobEvent_Sequence event)
     \<and> JobEvent_JobID event \<in> Job_ID ` set (Db_jobs d)
     \<and> site_row (JobEvent_OrganizationID event) (JobEvent_SiteID event) d"

definition insert_job :: "Job \<Rightarrow> Database \<Rightarrow> Database option" where
  "insert_job job d = with_texts (job_texts job)
     (if \<not> job_row_ok job d then None
      else map_option (\<lambda>rows. d\<lparr>Db_jobs := rows\<rparr>)
        (insert_row (\<lambda>a b. Job_ID a = Job_ID b) (stored_job job) (Db_jobs d)))"

definition insert_job_event_row :: "JobEvent \<Rightarrow> Database \<Rightarrow> Database option" where
  "insert_job_event_row event d = with_texts (job_event_texts event)
     (if \<not> job_event_row_ok event d then None
      else map_option (\<lambda>rows. d\<lparr>Db_job_events := rows\<rparr>)
        (insert_row (\<lambda>a b. JobEvent_JobID a = JobEvent_JobID b \<and> JobEvent_Sequence a = JobEvent_Sequence b)
           (stored_job_event event) (Db_job_events d)))"

definition insertJobEvent :: "JobEvent \<Rightarrow> (unit, Database) tx" where
  "insertJobEvent event = tx_exec ''insert job event'' (insert_job_event_row event)"

definition agent_job_row :: "Agent \<Rightarrow> JobStatus \<Rightarrow> Job \<Rightarrow> bool" where
  "agent_job_row agent status job \<longleftrightarrow>
     Job_OrganizationID job = Agent_OrganizationID agent \<and> Job_SiteID job = Agent_SiteID agent
     \<and> Job_AgentID job = Agent_ID agent \<and> Job_Status job = status"

text \<open>\<open>UPDATE jobs SET status, last_sequence WHERE id AND organization_id AND site_id\<close>.\<close>

definition update_job :: "Agent \<Rightarrow> Job \<Rightarrow> Database \<Rightarrow> Database option" where
  "update_job agent job d = with_texts [Agent_OrganizationID agent, Agent_SiteID agent, Job_ID job]
     (if \<not> (0 \<le> Job_LastSequence job \<and> int4 (Job_LastSequence job)) then None
      else Some (d\<lparr>Db_jobs := update_rows
        (\<lambda>j. Job_ID j = Job_ID job \<and> Job_OrganizationID j = Agent_OrganizationID agent
              \<and> Job_SiteID j = Agent_SiteID agent)
        (\<lambda>j. j\<lparr>Job_Status := Job_Status job, Job_LastSequence := Job_LastSequence job\<rparr>) (Db_jobs d)\<rparr>))"

definition job_event_row :: "Agent \<Rightarrow> string \<Rightarrow> JobEvent \<Rightarrow> bool" where
  "job_event_row agent jobID event \<longleftrightarrow>
     JobEvent_JobID event = jobID \<and> JobEvent_OrganizationID event = Agent_OrganizationID agent
     \<and> JobEvent_SiteID event = Agent_SiteID agent"

section \<open>The store\<close>

definition pg_CreateJob :: "DB_Env \<Rightarrow> Job \<Rightarrow> JobEvent \<Rightarrow> Database \<Rightarrow> (unit, Database) op" where
  "pg_CreateJob env job event d =
     (let scope = Job_Scope job in
      if Scope_Validate scope \<noteq> None \<or> JobEvent_OrganizationID event \<noteq> Scope_OrganizationID scope
         \<or> JobEvent_SiteID event \<noteq> Scope_SiteID scope
      then (Inl ErrInvalidScope, d)
      else transaction env ''begin job creation''
        (tx_bind (tx_query ''lock job target host''
            (\<lambda>d. with_texts [Scope_OrganizationID scope, Scope_SiteID scope, Job_AgentID job]
               (Some (host_row (Scope_OrganizationID scope) (Scope_SiteID scope) (Job_AgentID job) d)))) (\<lambda>hostExists.
         case hostExists of
           None \<Rightarrow> tx_fail ErrJobNotFound
         | Some _ \<Rightarrow>
             tx_bind (tx_exec ''insert job'' (insert_job job)) (\<lambda>_.
             tx_bind (insertJobEvent event) (\<lambda>_.
             tx_ret (Commit ''commit job creation'' ()))))) d)"

text \<open>The lease of a running job: the time of its last claim. No such event is an error.\<close>

definition read_lease :: "JobEvent sorter \<Rightarrow> Agent \<Rightarrow> string \<Rightarrow> Database \<Rightarrow> time option" where
  "read_lease srt agent jobID d = with_texts [Agent_OrganizationID agent, Agent_SiteID agent, jobID]
     (map_option JobEvent_OccurredAt
       (first_row srt (\<lambda>a b. JobEvent_Sequence b < JobEvent_Sequence a)
         (filter (\<lambda>e. job_event_row agent jobID e \<and> JobEvent_Type e = EventClaimed) (Db_job_events d))))"

definition claim_running :: "JobEvent sorter \<Rightarrow> Agent \<Rightarrow> time \<Rightarrow> Job \<Rightarrow> (Job option finish, Database) tx" where
  "claim_running srt agent resumeBefore running =
     tx_bind (tx_query ''read running job lease'' (read_lease srt agent (Job_ID running))) (\<lambda>claimedAt.
     if resumeBefore < claimedAt then tx_ret (Commit ''commit active job lease check'' None)
     else tx_ret (Commit ''commit running job resume'' (Some (running\<lparr>Job_Resumed := True\<rparr>))))"

text \<open>\<open>ORDER BY requested_at, id LIMIT 1\<close> among the jobs of an agent in a status.\<close>

definition select_agent_job ::
  "Job sorter \<Rightarrow> (string \<Rightarrow> string \<Rightarrow> bool) \<Rightarrow> Agent \<Rightarrow> JobStatus \<Rightarrow> Database \<Rightarrow> Job option option" where
  "select_agent_job srt col agent status d =
     with_texts [Agent_OrganizationID agent, Agent_SiteID agent, Agent_ID agent]
       (Some (first_row srt (by_time_text col Job_RequestedAt Job_ID)
          (filter (agent_job_row agent status) (Db_jobs d))))"

definition claim_queued ::
  "Job sorter \<Rightarrow> (string \<Rightarrow> string \<Rightarrow> bool) \<Rightarrow> Agent \<Rightarrow> time \<Rightarrow> (Job option finish, Database) tx" where
  "claim_queued srt col agent occurredAt =
     tx_bind (tx_query ''select queued job'' (select_agent_job srt col agent StatusQueued)) (\<lambda>selected.
     case selected of
       None \<Rightarrow> tx_ret (Rollback None)
     | Some queued \<Rightarrow>
         let job = queued\<lparr>Job_Status := StatusRunning, Job_LastSequence := 1\<rparr> in
         tx_bind (tx_exec ''claim queued job'' (update_job agent job)) (\<lambda>_.
         tx_bind (insertJobEvent (agent_event agent (Job_ID job) 1 EventClaimed ''agent claimed job'' occurredAt)) (\<lambda>_.
         tx_ret (Commit ''commit job claim'' (Some job)))))"

definition pg_ClaimNextJob ::
  "DB_Env \<Rightarrow> Job sorter \<Rightarrow> JobEvent sorter \<Rightarrow> (string \<Rightarrow> string \<Rightarrow> bool) \<Rightarrow> Agent \<Rightarrow> time \<Rightarrow> time \<Rightarrow> Database
   \<Rightarrow> (Job option, Database) op" where
  "pg_ClaimNextJob env srt srte col agent occurredAt resumeBefore d =
     (case Agent_Validate agent of
        Some e \<Rightarrow> (Inl e, d)
      | None \<Rightarrow> transaction env ''begin job claim''
          (tx_bind (tx_query ''lock agent job queue''
              (\<lambda>d. with_texts [Agent_OrganizationID agent, Agent_SiteID agent, Agent_ID agent] (Some ()))) (\<lambda>_.
           tx_bind (tx_query ''select running job'' (select_agent_job srt col agent StatusRunning)) (\<lambda>running.
           case running of
             Some job \<Rightarrow> claim_running srte agent resumeBefore job
           | None \<Rightarrow> claim_queued srt col agent occurredAt))) d)"

text \<open>A report whose sequence was already used: it must be the event recorded then.\<close>

definition duplicate_report ::
  "Agent \<Rightarrow> string \<Rightarrow> EventRequest \<Rightarrow> Job \<Rightarrow> ((Job \<times> JobEvent) finish, Database) tx" where
  "duplicate_report agent jobID request job =
     tx_bind (tx_query ''read duplicate job event''
       (\<lambda>d. with_texts [jobID, Agent_OrganizationID agent, Agent_SiteID agent]
          (if \<not> int4 (EventRequest_Sequence request) then None
           else Some (find (\<lambda>e. job_event_row agent jobID e \<and> JobEvent_Sequence e = EventRequest_Sequence request)
                   (Db_job_events d))))) (\<lambda>found.
     case found of
       None \<Rightarrow> tx_fail ErrJobConflict
     | Some event \<Rightarrow>
         if JobEvent_Type event = EventRequest_Type request \<and> JobEvent_Message event = EventRequest_Message request
         then tx_ret (Commit ''commit duplicate job event'' (job, event))
         else tx_fail ErrJobConflict)"

definition new_report ::
  "Agent \<Rightarrow> string \<Rightarrow> EventRequest \<Rightarrow> time \<Rightarrow> Job \<Rightarrow> ((Job \<times> JobEvent) finish, Database) tx" where
  "new_report agent jobID request occurredAt job =
     (let job' = job\<lparr>Job_Status := status_after (EventRequest_Type request) (Job_Status job),
                     Job_LastSequence := EventRequest_Sequence request\<rparr>;
          event = agent_event agent (Job_ID job) (EventRequest_Sequence request) (EventRequest_Type request)
                    (EventRequest_Message request) occurredAt in
      tx_bind (tx_exec ''update job event state'' (update_job agent job')) (\<lambda>_.
      tx_bind (insertJobEvent event) (\<lambda>_.
      tx_ret (Commit ''commit job event'' (job', event)))))"

definition pg_RecordJobEvent ::
  "DB_Env \<Rightarrow> Agent \<Rightarrow> string \<Rightarrow> EventRequest \<Rightarrow> time \<Rightarrow> Database \<Rightarrow> (Job \<times> JobEvent, Database) op" where
  "pg_RecordJobEvent env agent jobID request occurredAt d =
     (case Agent_Validate agent of
        Some e \<Rightarrow> (Inl e, d)
      | None \<Rightarrow> transaction env ''begin job event''
          (tx_bind (tx_query ''lock job event''
              (\<lambda>d. with_texts [jobID, Agent_OrganizationID agent, Agent_SiteID agent, Agent_ID agent]
                 (Some (find (\<lambda>j. Job_ID j = jobID \<and> Job_OrganizationID j = Agent_OrganizationID agent
                               \<and> Job_SiteID j = Agent_SiteID agent \<and> Job_AgentID j = Agent_ID agent) (Db_jobs d)))))
            (\<lambda>found. case found of
               None \<Rightarrow> tx_fail ErrJobNotFound
             | Some job \<Rightarrow>
                 if EventRequest_Sequence request \<le> Job_LastSequence job then duplicate_report agent jobID request job
                 else if Job_Status job \<noteq> StatusRunning \<or> EventRequest_Sequence request \<noteq> Job_LastSequence job + 1
                 then tx_fail ErrJobConflict
                 else new_report agent jobID request occurredAt job)) d)"

definition pg_ListJobs ::
  "DB_Env \<Rightarrow> Job sorter \<Rightarrow> (string \<Rightarrow> string \<Rightarrow> bool) \<Rightarrow> Scope \<Rightarrow> string \<Rightarrow> int \<Rightarrow> Database \<Rightarrow> Job list res" where
  "pg_ListJobs env srt col scope agentID limit d =
     (case Scope_Validate scope of
        Some e \<Rightarrow> Inl e
      | None \<Rightarrow> read_only env (query_rows ''query jobs'' ''iterate jobs''
          (\<lambda>d. with_texts [Scope_OrganizationID scope, Scope_SiteID scope, agentID]
             (limit_rows limit (srt (\<lambda>a b. by_time_text col Job_RequestedAt Job_ID b a)
                (filter (\<lambda>job. Job_OrganizationID job = Scope_OrganizationID scope
                            \<and> Job_SiteID job = Scope_SiteID scope \<and> Job_AgentID job = agentID) (Db_jobs d)))))) d)"

definition pg_ListJobEvents ::
  "DB_Env \<Rightarrow> JobEvent sorter \<Rightarrow> Scope \<Rightarrow> string \<Rightarrow> string \<Rightarrow> Database \<Rightarrow> JobEvent list res" where
  "pg_ListJobEvents env srt scope agentID jobID d =
     (case Scope_Validate scope of
        Some e \<Rightarrow> Inl e
      | None \<Rightarrow>
          (case read_only env (query_rows ''query job events'' ''iterate job events''
             (\<lambda>d. with_texts [jobID, Scope_OrganizationID scope, Scope_SiteID scope, agentID]
                (Some (srt (\<lambda>a b. JobEvent_Sequence a < JobEvent_Sequence b)
                   (filter (\<lambda>e. JobEvent_JobID e = jobID \<and> JobEvent_OrganizationID e = Scope_OrganizationID scope
                        \<and> JobEvent_SiteID e = Scope_SiteID scope
                        \<and> (\<exists>job \<in> set (Db_jobs d). Job_ID job = JobEvent_JobID e
                             \<and> Job_OrganizationID job = Scope_OrganizationID scope
                             \<and> Job_SiteID job = Scope_SiteID scope \<and> Job_AgentID job = agentID)) (Db_job_events d)))))) d of
             Inl e \<Rightarrow> Inl e
           | Inr events \<Rightarrow> if events = [] then Inl ErrJobNotFound else Inr events))"

section \<open>Nothing is done by halves\<close>

lemma settled_claim_running [tx_intros]: "settled (claim_running srt agent before running)"
  unfolding claim_running_def by (intro tx_intros)

lemma settled_claim_queued [tx_intros]: "settled (claim_queued srt col agent tm)"
  unfolding claim_queued_def insertJobEvent_def by (intro tx_intros)

lemma settled_reports [tx_intros]:
  "settled (duplicate_report agent jobID request job)" "settled (new_report agent jobID request tm job)"
  unfolding duplicate_report_def new_report_def insertJobEvent_def by (intro tx_intros)+

lemma all_or_nothing_jobs:
  "all_or_nothing (\<lambda>env. pg_CreateJob env job event)"
  "all_or_nothing (\<lambda>env. pg_ClaimNextJob env srt srte col agent tm before)"
  "all_or_nothing (\<lambda>env. pg_RecordJobEvent env agent jobID request tm)"
  unfolding pg_CreateJob_def pg_ClaimNextJob_def pg_RecordJobEvent_def insertJobEvent_def Let_def
  by (intro all_or_nothing_if all_or_nothing_option all_or_nothing_same all_or_nothing_transaction tx_intros)+

end
