(* ===== verification/Pg_Accounts.thy ===== *)
theory Pg_Accounts
  imports Pg_Database
begin

text \<open>
  \<open>internal/storage/postgres/sessions.go\<close>, \<open>authorization.go\<close> and \<open>serviceaccounts.go\<close>: the tables
  \<open>sessions\<close>, \<open>site_memberships\<close>, \<open>service_accounts\<close> and \<open>service_account_tokens\<close>. Roles are
  stored as their text. \<open>srt\<close> gives the order rows come in where the query has no
  \<open>ORDER BY\<close> either.
\<close>

section \<open>Sessions\<close>

definition stored_session :: "Session \<Rightarrow> string \<Rightarrow> sessionRecord" where
  "stored_session session tokenHash =
     \<lparr>sessionRecord_session = session\<lparr>Session_CreatedAt := truncate_micro (Session_CreatedAt session),
        Session_LastSeenAt := truncate_micro (Session_LastSeenAt session),
        Session_AbsoluteExpiresAt := truncate_micro (Session_AbsoluteExpiresAt session),
        Session_RevokedAt := None\<rparr>,
      sessionRecord_tokenHash = tokenHash\<rparr>"

definition row_session_id :: "sessionRecord \<Rightarrow> string" where
  "row_session_id row = Session_ID (sessionRecord_session row)"

definition session_clash :: "sessionRecord \<Rightarrow> sessionRecord \<Rightarrow> bool" where
  "session_clash a b \<longleftrightarrow> row_session_id a = row_session_id b
     \<or> sessionRecord_tokenHash a = sessionRecord_tokenHash b"

definition insert_session :: "Session \<Rightarrow> string \<Rightarrow> Database \<Rightarrow> Database option" where
  "insert_session session tokenHash d =
     with_texts [Session_ID session, tokenHash, Session_UserID session, Session_OrganizationID session, Session_CSRFToken session]
       (if Session_UserID session \<notin> User_ID ` set (Db_users d)
           \<or> Session_OrganizationID session \<notin> set (Db_organizations d) then None
        else map_option (\<lambda>rows. d\<lparr>Db_sessions := rows\<rparr>)
          (insert_row session_clash (stored_session session tokenHash) (Db_sessions d)))"

definition pg_CreateSession :: "DB_Env \<Rightarrow> Session \<Rightarrow> string \<Rightarrow> Database \<Rightarrow> (unit, Database) op" where
  "pg_CreateSession env session tokenHash =
     exec_one env ''insert session'' (effect (insert_session session tokenHash))"

definition pg_SessionByTokenHash :: "DB_Env \<Rightarrow> string \<Rightarrow> Database \<Rightarrow> Session res" where
  "pg_SessionByTokenHash env tokenHash d =
     (case read_only env (tx_query ''query session''
        (\<lambda>d. with_texts [tokenHash] (Some (find (\<lambda>row. sessionRecord_tokenHash row = tokenHash) (Db_sessions d))))) d of
        Inl e \<Rightarrow> Inl e
      | Inr None \<Rightarrow> Inl ErrSessionNotFound
      | Inr (Some row) \<Rightarrow> Inr (sessionRecord_session row))"

definition update_sessions ::
  "string list \<Rightarrow> (Session \<Rightarrow> bool) \<Rightarrow> (Session \<Rightarrow> Session) \<Rightarrow> Database \<Rightarrow> Database option" where
  "update_sessions texts P f d = with_texts texts
     (Some (d\<lparr>Db_sessions := update_rows (\<lambda>row. P (sessionRecord_session row))
        (\<lambda>row. row\<lparr>sessionRecord_session := f (sessionRecord_session row)\<rparr>) (Db_sessions d)\<rparr>))"

definition set_revoked :: "time \<Rightarrow> Session \<Rightarrow> Session" where
  "set_revoked tm session = session\<lparr>Session_RevokedAt := Some (truncate_micro tm)\<rparr>"

definition pg_TouchSession :: "DB_Env \<Rightarrow> string \<Rightarrow> time \<Rightarrow> Database \<Rightarrow> (unit, Database) op" where
  "pg_TouchSession env sessionID lastSeenAt = exec_one env ''touch session'' (effect
     (update_sessions [sessionID] (\<lambda>session. Session_ID session = sessionID)
       (\<lambda>session. session\<lparr>Session_LastSeenAt := truncate_micro lastSeenAt\<rparr>)))"

definition pg_RevokeSession :: "DB_Env \<Rightarrow> string \<Rightarrow> time \<Rightarrow> Database \<Rightarrow> (unit, Database) op" where
  "pg_RevokeSession env sessionID tm = exec_one env ''revoke session'' (effect
     (update_sessions [sessionID]
       (\<lambda>session. Session_ID session = sessionID \<and> Session_RevokedAt session = None) (set_revoked tm)))"

definition pg_RevokeAllForUser :: "DB_Env \<Rightarrow> string \<Rightarrow> time \<Rightarrow> Database \<Rightarrow> (unit, Database) op" where
  "pg_RevokeAllForUser env userID tm = exec_one env ''revoke sessions for user'' (effect
     (update_sessions [userID]
       (\<lambda>session. Session_UserID session = userID \<and> Session_RevokedAt session = None) (set_revoked tm)))"

definition pg_RevokeAllForOrganization :: "DB_Env \<Rightarrow> string \<Rightarrow> time \<Rightarrow> Database \<Rightarrow> (unit, Database) op" where
  "pg_RevokeAllForOrganization env organizationID tm = exec_one env ''revoke sessions for organization'' (effect
     (update_sessions [organizationID]
       (\<lambda>session. Session_OrganizationID session = organizationID \<and> Session_RevokedAt session = None) (set_revoked tm)))"

section \<open>Memberships\<close>

fun role_column :: "SiteRole \<Rightarrow> string" where
  "role_column SiteRoleAdmin = ''site-admin''"
| "role_column SiteRoleOperator = ''operator''"
| "role_column SiteRoleViewer = ''viewer''"
| "role_column (SiteRoleUnknown s) = s"

definition membership_clash :: "SiteMembership \<Rightarrow> SiteMembership \<Rightarrow> bool" where
  "membership_clash a b \<longleftrightarrow>
     SiteMembership_UserID a = SiteMembership_UserID b \<and> SiteMembership_SiteID a = SiteMembership_SiteID b"

text \<open>
  \<open>ON CONFLICT (user_id, site_id)\<close> updates the role; an identifier in use by another row is an
  error, as are an unknown user and an unknown site.
\<close>

definition upsert_membership :: "SiteMembership \<Rightarrow> Database \<Rightarrow> Database option" where
  "upsert_membership membership d =
     with_texts [SiteMembership_ID membership, SiteMembership_UserID membership,
         SiteMembership_OrganizationID membership, SiteMembership_SiteID membership,
         role_column (SiteMembership_Role membership)]
       (if SiteMembership_UserID membership \<notin> User_ID ` set (Db_users d)
           \<or> SiteMembership_SiteID membership \<notin> Scope_SiteID ` set (Db_sites d)
           \<or> (\<exists>row \<in> set (Db_site_memberships d). SiteMembership_ID row = SiteMembership_ID membership
                \<and> \<not> membership_clash membership row)
        then None
        else Some (d\<lparr>Db_site_memberships := upsert_row membership_clash
          (\<lambda>new row. row\<lparr>SiteMembership_Role := SiteMembership_Role new\<rparr>)
          (membership\<lparr>SiteMembership_CreatedAt := truncate_micro (SiteMembership_CreatedAt membership)\<rparr>)
          (Db_site_memberships d)\<rparr>))"

definition pg_AssignRole :: "DB_Env \<Rightarrow> SiteMembership \<Rightarrow> Database \<Rightarrow> (unit, Database) op" where
  "pg_AssignRole env membership = exec_one env ''assign site role'' (effect (upsert_membership membership))"

definition pg_RevokeRole :: "DB_Env \<Rightarrow> string \<Rightarrow> string \<Rightarrow> Database \<Rightarrow> (unit, Database) op" where
  "pg_RevokeRole env userID siteID = exec_one env ''revoke site role'' (effect (\<lambda>d. with_texts [userID, siteID]
     (Some (d\<lparr>Db_site_memberships := delete_rows
        (\<lambda>row. SiteMembership_UserID row = userID \<and> SiteMembership_SiteID row = siteID) (Db_site_memberships d)\<rparr>))))"

definition pg_RoleForUserAtSite :: "DB_Env \<Rightarrow> string \<Rightarrow> string \<Rightarrow> Database \<Rightarrow> SiteRole res" where
  "pg_RoleForUserAtSite env userID siteID d =
     (case read_only env (tx_query ''query site role'' (\<lambda>d. with_texts [userID, siteID]
        (Some (find (\<lambda>row. SiteMembership_UserID row = userID \<and> SiteMembership_SiteID row = siteID)
           (Db_site_memberships d))))) d of
        Inl e \<Rightarrow> Inl e
      | Inr None \<Rightarrow> Inl ErrMembershipNotFound
      | Inr (Some row) \<Rightarrow> Inr (SiteMembership_Role row))"

definition pg_MembershipsForUser ::
  "DB_Env \<Rightarrow> SiteMembership sorter \<Rightarrow> string \<Rightarrow> Database \<Rightarrow> SiteMembership list res" where
  "pg_MembershipsForUser env srt userID =
     read_only env (query_rows ''query memberships'' ''iterate memberships'' (\<lambda>d. with_texts [userID]
       (Some (srt (\<lambda>_ _. False) (filter (\<lambda>row. SiteMembership_UserID row = userID) (Db_site_memberships d))))))"

section \<open>Service accounts\<close>

definition insert_account :: "ServiceAccount \<Rightarrow> Database \<Rightarrow> Database option" where
  "insert_account account d =
     with_texts [ServiceAccount_ID account, ServiceAccount_OrganizationID account, ServiceAccount_SiteID account,
         ServiceAccount_Name account, role_column (ServiceAccount_Role account)]
       (if ServiceAccount_OrganizationID account \<notin> set (Db_organizations d)
           \<or> ServiceAccount_SiteID account \<notin> Scope_SiteID ` set (Db_sites d) then None
        else map_option (\<lambda>rows. d\<lparr>Db_service_accounts := rows\<rparr>)
          (insert_row (\<lambda>a b. ServiceAccount_ID a = ServiceAccount_ID b)
             (account\<lparr>ServiceAccount_CreatedAt := truncate_micro (ServiceAccount_CreatedAt account),
                      ServiceAccount_DisabledAt := None\<rparr>) (Db_service_accounts d)))"

definition pg_CreateAccount :: "DB_Env \<Rightarrow> ServiceAccount \<Rightarrow> Database \<Rightarrow> (unit, Database) op" where
  "pg_CreateAccount env account = exec_one env ''insert service account'' (effect (insert_account account))"

definition pg_AccountByID :: "DB_Env \<Rightarrow> string \<Rightarrow> Database \<Rightarrow> ServiceAccount res" where
  "pg_AccountByID env i d =
     (case read_only env (tx_query ''query service account'' (\<lambda>d. with_texts [i]
        (Some (find (\<lambda>row. ServiceAccount_ID row = i) (Db_service_accounts d))))) d of
        Inl e \<Rightarrow> Inl e
      | Inr None \<Rightarrow> Inl ErrAccountNotFound
      | Inr (Some account) \<Rightarrow> Inr account)"

text \<open>The rows the update counts decide the answer; it is given after the statement took effect.\<close>

definition pg_DisableAccount :: "DB_Env \<Rightarrow> string \<Rightarrow> time \<Rightarrow> Database \<Rightarrow> (unit, Database) op" where
  "pg_DisableAccount env i tm d =
     (let P = (\<lambda>account. ServiceAccount_ID account = i \<and> ServiceAccount_DisabledAt account = None) in
      answer (\<lambda>n. if n \<noteq> 1 then Inl ErrAccountNotFound else Inr ())
        (exec_one env ''disable service account'' (\<lambda>d. with_texts [i]
          (Some (affected P (Db_service_accounts d),
             d\<lparr>Db_service_accounts := update_rows P
                 (\<lambda>account. account\<lparr>ServiceAccount_DisabledAt := Some (truncate_micro tm)\<rparr>) (Db_service_accounts d)\<rparr>))) d))"

definition pg_AccountsForSite ::
  "DB_Env \<Rightarrow> ServiceAccount sorter \<Rightarrow> string \<Rightarrow> Database \<Rightarrow> ServiceAccount list res" where
  "pg_AccountsForSite env srt siteID =
     read_only env (query_rows ''query service accounts'' ''iterate service accounts'' (\<lambda>d. with_texts [siteID]
       (Some (srt (\<lambda>a b. ServiceAccount_CreatedAt a < ServiceAccount_CreatedAt b)
          (filter (\<lambda>row. ServiceAccount_SiteID row = siteID) (Db_service_accounts d))))))"

text \<open>
  \<open>DISTINCT ON (service_account_id) ... ORDER BY service_account_id, created_at DESC\<close>: of every
  account the first row, which is the newest; the map has one entry an account.
\<close>

definition active_token_rows :: "string \<Rightarrow> Database \<Rightarrow> Token list" where
  "active_token_rows siteID d =
     filter (\<lambda>t. Token_RevokedAt t = None \<and> (\<exists>a \<in> set (Db_service_accounts d).
         ServiceAccount_ID a = Token_ServiceAccountID t \<and> ServiceAccount_SiteID a = siteID))
       (map tokenRecord_token (Db_service_account_tokens d))"

definition pg_ActiveTokensForSite ::
  "DB_Env \<Rightarrow> Token sorter \<Rightarrow> string \<Rightarrow> Database \<Rightarrow> (string \<rightharpoonup> Token) res" where
  "pg_ActiveTokensForSite env srt siteID =
     read_only env (query_rows ''query active service account tokens'' ''iterate active service account tokens''
       (\<lambda>d. with_texts [siteID] (Some (\<lambda>accountID.
          first_row srt (\<lambda>a b. Token_CreatedAt b < Token_CreatedAt a)
            (filter (\<lambda>t. Token_ServiceAccountID t = accountID) (active_token_rows siteID d))))))"

definition insert_token :: "Token \<Rightarrow> string \<Rightarrow> Database \<Rightarrow> Database option" where
  "insert_token token secretHash d =
     with_texts [Token_ID token, Token_ServiceAccountID token, secretHash]
       (if Token_ServiceAccountID token \<notin> ServiceAccount_ID ` set (Db_service_accounts d) then None
        else map_option (\<lambda>rows. d\<lparr>Db_service_account_tokens := rows\<rparr>)
          (insert_row (\<lambda>a b. Token_ID (tokenRecord_token a) = Token_ID (tokenRecord_token b))
             \<lparr>tokenRecord_token = token\<lparr>Token_CreatedAt := truncate_micro (Token_CreatedAt token),
                Token_ExpiresAt := truncate_micro (Token_ExpiresAt token), Token_LastUsedAt := None,
                Token_LastUsedIP := [], Token_RevokedAt := None\<rparr>,
              tokenRecord_secretHash = secretHash\<rparr> (Db_service_account_tokens d)))"

definition pg_CreateToken :: "DB_Env \<Rightarrow> Token \<Rightarrow> string \<Rightarrow> Database \<Rightarrow> (unit, Database) op" where
  "pg_CreateToken env token secretHash =
     exec_one env ''insert service account token'' (effect (insert_token token secretHash))"

definition pg_TokenByID :: "DB_Env \<Rightarrow> string \<Rightarrow> Database \<Rightarrow> (Token \<times> string) res" where
  "pg_TokenByID env i d =
     (case read_only env (tx_query ''query service account token'' (\<lambda>d. with_texts [i]
        (Some (find (\<lambda>row. Token_ID (tokenRecord_token row) = i) (Db_service_account_tokens d))))) d of
        Inl e \<Rightarrow> Inl e
      | Inr None \<Rightarrow> Inl ErrSATokenNotFound
      | Inr (Some row) \<Rightarrow> Inr (tokenRecord_token row, tokenRecord_secretHash row))"

definition update_tokens ::
  "string list \<Rightarrow> (Token \<Rightarrow> bool) \<Rightarrow> (Token \<Rightarrow> Token) \<Rightarrow> Database \<Rightarrow> Database option" where
  "update_tokens texts P f d = with_texts texts
     (Some (d\<lparr>Db_service_account_tokens := update_rows (\<lambda>row. P (tokenRecord_token row))
        (\<lambda>row. row\<lparr>tokenRecord_token := f (tokenRecord_token row)\<rparr>) (Db_service_account_tokens d)\<rparr>))"

definition set_token_revoked :: "time \<Rightarrow> Token \<Rightarrow> Token" where
  "set_token_revoked tm token = token\<lparr>Token_RevokedAt := Some (truncate_micro tm)\<rparr>"

definition pg_RevokeToken :: "DB_Env \<Rightarrow> string \<Rightarrow> time \<Rightarrow> Database \<Rightarrow> (unit, Database) op" where
  "pg_RevokeToken env i tm = exec_one env ''revoke service account token'' (effect
     (update_tokens [i] (\<lambda>token. Token_ID token = i \<and> Token_RevokedAt token = None) (set_token_revoked tm)))"

definition pg_RevokeActiveTokensForAccount :: "DB_Env \<Rightarrow> string \<Rightarrow> time \<Rightarrow> Database \<Rightarrow> (unit, Database) op" where
  "pg_RevokeActiveTokensForAccount env accountID tm = exec_one env ''revoke active service account tokens'' (effect
     (update_tokens [accountID]
       (\<lambda>token. Token_ServiceAccountID token = accountID \<and> Token_RevokedAt token = None) (set_token_revoked tm)))"

definition pg_TouchToken :: "DB_Env \<Rightarrow> string \<Rightarrow> time \<Rightarrow> string \<Rightarrow> Database \<Rightarrow> (unit, Database) op" where
  "pg_TouchToken env tokenID tm sourceIP = exec_one env ''touch service account token'' (effect
     (update_tokens [tokenID, sourceIP] (\<lambda>token. Token_ID token = tokenID)
       (\<lambda>token. token\<lparr>Token_LastUsedAt := Some (truncate_micro tm), Token_LastUsedIP := sourceIP\<rparr>)))"

section \<open>Nothing is done by halves\<close>

lemma all_or_nothing_accounts:
  "all_or_nothing (\<lambda>env. pg_CreateSession env session tokenHash)"
  "all_or_nothing (\<lambda>env. pg_TouchSession env i tm)"
  "all_or_nothing (\<lambda>env. pg_RevokeSession env i tm)"
  "all_or_nothing (\<lambda>env. pg_RevokeAllForUser env i tm)"
  "all_or_nothing (\<lambda>env. pg_RevokeAllForOrganization env i tm)"
  "all_or_nothing (\<lambda>env. pg_AssignRole env membership)"
  "all_or_nothing (\<lambda>env. pg_RevokeRole env userID siteID)"
  "all_or_nothing (\<lambda>env. pg_CreateAccount env account)"
  "all_or_nothing (\<lambda>env. pg_DisableAccount env i tm)"
  "all_or_nothing (\<lambda>env. pg_CreateToken env token secretHash)"
  "all_or_nothing (\<lambda>env. pg_RevokeToken env i tm)"
  "all_or_nothing (\<lambda>env. pg_RevokeActiveTokensForAccount env i tm)"
  "all_or_nothing (\<lambda>env. pg_TouchToken env i tm sourceIP)"
  unfolding pg_CreateSession_def pg_TouchSession_def pg_RevokeSession_def pg_RevokeAllForUser_def
    pg_RevokeAllForOrganization_def pg_AssignRole_def pg_RevokeRole_def pg_CreateAccount_def pg_DisableAccount_def
    pg_CreateToken_def pg_RevokeToken_def pg_RevokeActiveTokensForAccount_def pg_TouchToken_def Let_def
  by (intro all_or_nothing_answer all_or_nothing_exec)+

end
