(* ===== verification/Pg_Enrollment.thy ===== *)
theory Pg_Enrollment
  imports Pg_Database
begin

text \<open>
  \<open>internal/storage/postgres/enrollment_state.go\<close> and \<open>NewPersistentAuthority\<close> of
  \<open>internal/enrollment/authority.go\<close>: the certificate authority, the bootstrap tokens and the
  enrolled agents in the database. \<open>now\<close> is the time of the transaction.
\<close>

section \<open>The authority\<close>

text \<open>\<open>INSERT ... ON CONFLICT (singleton) DO NOTHING\<close>; the CHECK constraints come first.\<close>

definition create_authority :: "AuthorityState \<Rightarrow> Database \<Rightarrow> Database option" where
  "create_authority candidate d =
     with_texts [AuthorityState_CertificatePEM candidate, AuthorityState_PrivateKeyPEM candidate]
       (if AuthorityState_CertificatePEM candidate = [] \<or> AuthorityState_PrivateKeyPEM candidate = [] then None
        else Some (case Db_enrollment_authority d of
               None \<Rightarrow> d\<lparr>Db_enrollment_authority := Some candidate\<rparr> | Some _ \<Rightarrow> d))"

definition pg_LoadOrCreateEnrollmentAuthority ::
  "DB_Env \<Rightarrow> AuthorityState \<Rightarrow> Database \<Rightarrow> (AuthorityState, Database) op" where
  "pg_LoadOrCreateEnrollmentAuthority env candidate =
     transaction env ''begin enrollment authority transaction''
       (tx_bind (tx_exec ''create enrollment authority'' (create_authority candidate)) (\<lambda>_.
        tx_bind (tx_query ''load enrollment authority'' Db_enrollment_authority) (\<lambda>state.
        tx_ret (Commit ''commit enrollment authority'' state))))"

section \<open>The tokens\<close>

definition token_row :: "string \<Rightarrow> Database \<Rightarrow> EnrollmentTokenRow option" where
  "token_row h d = find (\<lambda>row. TokenRow_Hash row = h) (Db_enrollment_tokens d)"

text \<open>\<open>INSERT ... ON CONFLICT (token_hash) DO NOTHING RETURNING\<close>: whether a row was inserted.\<close>

definition insert_enrollment_token :: "string \<Rightarrow> Scope \<Rightarrow> Database \<Rightarrow> (bool \<times> Database) option" where
  "insert_enrollment_token h scope d =
     with_texts [Scope_OrganizationID scope, Scope_SiteID scope]
       (if length h \<noteq> 32 then None
        else if token_row h d \<noteq> None then Some (False, d)
        else if \<not> site_row (Scope_OrganizationID scope) (Scope_SiteID scope) d then None
        else Some (True, d\<lparr>Db_enrollment_tokens := Db_enrollment_tokens d @
               [\<lparr>TokenRow_Hash = h, TokenRow_Scope = scope, TokenRow_ConsumedAt = None, TokenRow_ConsumedBy = [],
                 TokenRow_RevokedAt = None\<rparr>]\<rparr>))"

definition open_token :: "EnrollmentTokenRow \<Rightarrow> bool" where
  "open_token row \<longleftrightarrow> TokenRow_ConsumedAt row = None \<and> TokenRow_RevokedAt row = None"

definition revoke_other_tokens :: "time \<Rightarrow> string \<Rightarrow> Scope \<Rightarrow> Database \<Rightarrow> Database option" where
  "revoke_other_tokens now h scope d =
     Some (d\<lparr>Db_enrollment_tokens := update_rows
       (\<lambda>row. TokenRow_Hash row \<noteq> h \<and> TokenRow_Scope row = scope \<and> open_token row)
       (\<lambda>row. row\<lparr>TokenRow_RevokedAt := Some now\<rparr>) (Db_enrollment_tokens d)\<rparr>)"

definition registerEnrollmentToken :: "DB_Env \<Rightarrow> time \<Rightarrow> string \<Rightarrow> Scope \<Rightarrow> Database \<Rightarrow> (unit, Database) op" where
  "registerEnrollmentToken env now h scope =
     transaction env ''begin enrollment token registration''
       (tx_bind (tx_stmt ''register enrollment token'' (insert_enrollment_token h scope)) (\<lambda>registered.
        if \<not> registered then tx_ret (Rollback ())
        else tx_bind (tx_exec ''revoke previous enrollment tokens'' (revoke_other_tokens now h scope)) (\<lambda>_.
             tx_ret (Commit ''commit enrollment token registration'' ()))))"

definition pg_RegisterEnrollmentToken :: "DB_Env \<Rightarrow> time \<Rightarrow> string \<Rightarrow> Scope \<Rightarrow> Database \<Rightarrow> (unit, Database) op" where
  "pg_RegisterEnrollmentToken = registerEnrollmentToken"

definition insert_agent :: "Agent \<Rightarrow> Database \<Rightarrow> Database option" where
  "insert_agent agent d = with_texts [Agent_ID agent, Agent_OrganizationID agent, Agent_SiteID agent]
     (if \<not> site_row (Agent_OrganizationID agent) (Agent_SiteID agent) d then None
      else map_option (\<lambda>rows. d\<lparr>Db_agents := rows\<rparr>)
        (insert_row (\<lambda>a b. Agent_ID a = Agent_ID b) agent (Db_agents d)))"

definition mark_consumed :: "time \<Rightarrow> string \<Rightarrow> string \<Rightarrow> Database \<Rightarrow> Database option" where
  "mark_consumed now h agentID d =
     Some (d\<lparr>Db_enrollment_tokens := update_rows (\<lambda>row. TokenRow_Hash row = h)
       (\<lambda>row. row\<lparr>TokenRow_ConsumedAt := Some now, TokenRow_ConsumedBy := agentID\<rparr>) (Db_enrollment_tokens d)\<rparr>)"

definition token_agent :: "EnrollmentTokenRow \<Rightarrow> string \<Rightarrow> Agent" where
  "token_agent row agentID =
     \<lparr>Agent_ID = agentID, Agent_OrganizationID = Scope_OrganizationID (TokenRow_Scope row),
      Agent_SiteID = Scope_SiteID (TokenRow_Scope row)\<rparr>"

definition consumeEnrollmentToken :: "DB_Env \<Rightarrow> time \<Rightarrow> string \<Rightarrow> string \<Rightarrow> Database \<Rightarrow> (Agent, Database) op" where
  "consumeEnrollmentToken env now h agentID =
     transaction env ''begin enrollment token consumption''
       (tx_bind (tx_query ''check enrollment token'' (\<lambda>d. Some (token_row h d))) (\<lambda>found.
        case found of
          None \<Rightarrow> tx_fail ErrInvalidToken
        | Some row \<Rightarrow>
            if TokenRow_RevokedAt row \<noteq> None then tx_fail ErrInvalidToken
            else if TokenRow_ConsumedAt row \<noteq> None then tx_fail ErrTokenConsumed
            else
              tx_bind (tx_exec ''insert enrolled agent'' (insert_agent (token_agent row agentID))) (\<lambda>_.
              tx_bind (tx_exec ''consume enrollment token'' (mark_consumed now h agentID)) (\<lambda>_.
              tx_ret (Commit ''commit enrollment token consumption'' (token_agent row agentID))))))"

definition pg_ConsumeEnrollmentToken :: "DB_Env \<Rightarrow> time \<Rightarrow> string \<Rightarrow> string \<Rightarrow> Database \<Rightarrow> (Agent, Database) op" where
  "pg_ConsumeEnrollmentToken = consumeEnrollmentToken"

definition resolveAgent :: "DB_Env \<Rightarrow> string \<Rightarrow> Database \<Rightarrow> Agent res" where
  "resolveAgent env agentID d =
     (case read_only env (tx_query ''resolve enrolled agent''
         (\<lambda>d. with_texts [agentID] (Some (find (\<lambda>row. Agent_ID row = agentID) (Db_agents d))))) d of
        Inl e \<Rightarrow> Inl e
      | Inr None \<Rightarrow> Inl ErrTenancyNotFound
      | Inr (Some agent) \<Rightarrow> Inr agent)"

definition pg_ResolveAgent :: "DB_Env \<Rightarrow> string \<Rightarrow> Database \<Rightarrow> Agent res" where
  "pg_ResolveAgent = resolveAgent"

section \<open>The authority of a hub with a database\<close>

text \<open>\<open>env1\<close> and \<open>env2\<close> are the surroundings of its two calls of the store.\<close>

definition NewPersistentAuthority ::
  "X509 \<Rightarrow> (string \<Rightarrow> string) \<Rightarrow> (string \<times> string) res \<Rightarrow> time \<Rightarrow> int res \<Rightarrow> DB_Env \<Rightarrow> DB_Env \<Rightarrow> time \<Rightarrow> string \<Rightarrow> Scope
   \<Rightarrow> Database \<Rightarrow> (Authority, Database) op" where
  "NewPersistentAuthority x sha kp now serial env1 env2 dbnow bootstrapToken scope d =
     (case validateBootstrapToken bootstrapToken of
        Some e \<Rightarrow> (Inl e, d)
      | None \<Rightarrow>
          (case Scope_Validate scope of
             Some e \<Rightarrow> (Inl e, d)
           | None \<Rightarrow>
               (case generateAuthorityState x kp now serial of
                  Inl e \<Rightarrow> (Inl e, d)
                | Inr candidate \<Rightarrow>
                    (case pg_LoadOrCreateEnrollmentAuthority env1 candidate d of
                       (Inl e, d1) \<Rightarrow> (Inl e, d1)
                     | (Inr state, d1) \<Rightarrow>
                         (case pg_RegisterEnrollmentToken env2 dbnow (sha bootstrapToken) scope d1 of
                            (Inl e, d2) \<Rightarrow> (Inl e, d2)
                          | (Inr _, d2) \<Rightarrow> (authorityFromState x state, d2))))))"

section \<open>Nothing is done by halves\<close>

lemma all_or_nothing_enrollment:
  "all_or_nothing (\<lambda>env. pg_LoadOrCreateEnrollmentAuthority env candidate)"
  "all_or_nothing (\<lambda>env. pg_RegisterEnrollmentToken env now h scope)"
  "all_or_nothing (\<lambda>env. pg_ConsumeEnrollmentToken env now h agentID)"
  unfolding pg_LoadOrCreateEnrollmentAuthority_def pg_RegisterEnrollmentToken_def registerEnrollmentToken_def
    pg_ConsumeEnrollmentToken_def consumeEnrollmentToken_def
  by (intro all_or_nothing_transaction tx_intros)+

section \<open>What the calls do\<close>

lemma load_authority:
  assumes "pg_LoadOrCreateEnrollmentAuthority env candidate d = (Inr state, d')"
  shows "Db_enrollment_authority d' = Some state"
    "state = (case Db_enrollment_authority d of None \<Rightarrow> candidate | Some old \<Rightarrow> old)"
    "d' = d\<lparr>Db_enrollment_authority := Some state\<rparr>"
  using assms
  by (auto simp: pg_LoadOrCreateEnrollmentAuthority_def transaction_def tx_defs create_authority_def with_texts_def
      split: if_splits sum.splits option.splits)

text \<open>The outcomes of a registration that returns no error.\<close>

lemma register_cases:
  assumes "pg_RegisterEnrollmentToken env now h scope d = (Inr (), d')"
  obtains (known) row where "token_row h d = Some row" "d' = d"
  | (new) "token_row h d = None" "length h = 32"
      "d' = d\<lparr>Db_enrollment_tokens := update_rows
         (\<lambda>row. TokenRow_Hash row \<noteq> h \<and> TokenRow_Scope row = scope \<and> open_token row)
         (\<lambda>row. row\<lparr>TokenRow_RevokedAt := Some now\<rparr>) (Db_enrollment_tokens d)
         @ [\<lparr>TokenRow_Hash = h, TokenRow_Scope = scope, TokenRow_ConsumedAt = None, TokenRow_ConsumedBy = [],
             TokenRow_RevokedAt = None\<rparr>]\<rparr>"
  using assms
  by (auto simp: pg_RegisterEnrollmentToken_def registerEnrollmentToken_def transaction_def tx_defs
      insert_enrollment_token_def with_texts_def revoke_other_tokens_def update_rows_def
      split: if_splits sum.splits option.splits)

lemma consume_cases:
  assumes "pg_ConsumeEnrollmentToken env now h agentID d = (Inr agent, d')"
  obtains row where "token_row h d = Some row" "open_token row" "agent = token_agent row agentID"
    "agentID \<notin> Agent_ID ` set (Db_agents d)"
    "d' = d\<lparr>Db_agents := Db_agents d @ [agent], Db_enrollment_tokens := update_rows (\<lambda>row. TokenRow_Hash row = h)
       (\<lambda>row. row\<lparr>TokenRow_ConsumedAt := Some now, TokenRow_ConsumedBy := agentID\<rparr>) (Db_enrollment_tokens d)\<rparr>"
  using assms
  by (auto simp: pg_ConsumeEnrollmentToken_def consumeEnrollmentToken_def transaction_def tx_defs insert_agent_def
      insert_row_def mark_consumed_def with_texts_def open_token_def token_agent_def image_iff
      split: if_splits sum.splits option.splits)

end
