(* ===== verification/Pg_Identity.thy ===== *)
theory Pg_Identity
  imports Pg_Database
begin

text \<open>
  \<open>internal/storage/postgres/identity.go\<close>: the tables \<open>platform_bootstrap\<close>, \<open>users\<close>, \<open>invites\<close>,
  \<open>invite_site_roles\<close>, \<open>recovery_codes\<close> and \<open>oidc_configurations\<close>. \<open>now\<close> is the time of the
  database. An empty password hash is stored as NULL and read back as empty.
\<close>

section \<open>Users\<close>

definition role_text :: "Role \<Rightarrow> string" where
  "role_text role = (case role of RolePlatformAdmin \<Rightarrow> ''platform-admin'' | RoleOther s \<Rightarrow> s)"

definition identity_type_text :: "IdentityType \<Rightarrow> string" where
  "identity_type_text ty = (case ty of IdentityTypeLocal \<Rightarrow> ''local'' | IdentityTypeOIDC \<Rightarrow> ''oidc''
     | IdentityTypeOther s \<Rightarrow> s)"

definition stored_user :: "User \<Rightarrow> User" where
  "stored_user user = user\<lparr>User_TOTPConfirmedAt := map_option truncate_micro (User_TOTPConfirmedAt user),
     User_CreatedAt := truncate_micro (User_CreatedAt user),
     User_DisabledAt := map_option truncate_micro (User_DisabledAt user)\<rparr>"

text \<open>
  The keys of \<open>users\<close>: the identifier, the email within an organization, and the external
  identity where there is one.
\<close>

definition user_clash :: "User \<Rightarrow> User \<Rightarrow> bool" where
  "user_clash a b \<longleftrightarrow>
     User_ID a = User_ID b
     \<or> User_OrganizationID a = User_OrganizationID b \<and> User_Email a = User_Email b
     \<or> User_OIDCSubject a \<noteq> [] \<and> User_OIDCSubject b \<noteq> [] \<and> User_OrganizationID a = User_OrganizationID b
       \<and> User_OIDCIssuer a = User_OIDCIssuer b \<and> User_OIDCSubject a = User_OIDCSubject b"

definition insert_user :: "User \<Rightarrow> Database \<Rightarrow> Database option" where
  "insert_user user d =
     with_texts [User_ID user, User_OrganizationID user, User_Email user, role_text (User_Role user),
         User_PasswordHash user, User_OIDCIssuer user, User_OIDCSubject user]
       (if User_OrganizationID user \<notin> set (Db_organizations d) then None
        else map_option (\<lambda>rows. d\<lparr>Db_users := rows\<rparr>) (insert_row user_clash (stored_user user) (Db_users d)))"

text \<open>\<open>insertUser\<close> on a transaction; \<open>CreateUser\<close> calls it on the pool.\<close>

definition insertUser :: "User \<Rightarrow> (unit, Database) tx" where
  "insertUser user = tx_exec ''insert user'' (insert_user user)"

definition pg_CreateUser :: "DB_Env \<Rightarrow> User \<Rightarrow> Database \<Rightarrow> (unit, Database) op" where
  "pg_CreateUser env user = exec_one env ''insert user'' (effect (insert_user user))"

definition pg_IsBootstrapped :: "DB_Env \<Rightarrow> Database \<Rightarrow> bool res" where
  "pg_IsBootstrapped env =
     read_only env (tx_query ''check bootstrap state'' (\<lambda>d. Some (Db_platform_bootstrap d \<noteq> None)))"

definition claim_bootstrap :: "string \<Rightarrow> Database \<Rightarrow> (bool \<times> Database) option" where
  "claim_bootstrap userID d = with_texts [userID]
     (Some (if Db_platform_bootstrap d \<noteq> None then (False, d)
            else (True, d\<lparr>Db_platform_bootstrap := Some userID\<rparr>)))"

definition pg_CompleteBootstrap :: "DB_Env \<Rightarrow> User \<Rightarrow> Database \<Rightarrow> (unit, Database) op" where
  "pg_CompleteBootstrap env user =
     transaction env ''begin bootstrap''
       (tx_bind (tx_stmt ''claim bootstrap'' (claim_bootstrap (User_ID user))) (\<lambda>claimed.
        if \<not> claimed then tx_fail ErrAlreadyBootstrapped
        else tx_bind (insertUser user) (\<lambda>_. tx_ret (Commit ''commit bootstrap'' ()))))"

definition scanUser :: "User option res \<Rightarrow> User res" where
  "scanUser found = (case found of
     Inl e \<Rightarrow> Inl e | Inr None \<Rightarrow> Inl ErrInvalidCredentials | Inr (Some user) \<Rightarrow> Inr user)"

definition pg_UserByEmail :: "DB_Env \<Rightarrow> string \<Rightarrow> string \<Rightarrow> Database \<Rightarrow> User res" where
  "pg_UserByEmail env organizationID email d = scanUser (read_only env (tx_query ''scan user''
     (\<lambda>d. with_texts [organizationID, email]
        (Some (find (\<lambda>u. User_OrganizationID u = organizationID \<and> User_Email u = email) (Db_users d))))) d)"

definition pg_UserByID :: "DB_Env \<Rightarrow> string \<Rightarrow> Database \<Rightarrow> User res" where
  "pg_UserByID env i d = scanUser (read_only env (tx_query ''scan user''
     (\<lambda>d. with_texts [i] (Some (find (\<lambda>u. User_ID u = i) (Db_users d))))) d)"

definition pg_UserByOIDCIdentity :: "DB_Env \<Rightarrow> string \<Rightarrow> string \<Rightarrow> string \<Rightarrow> Database \<Rightarrow> User res" where
  "pg_UserByOIDCIdentity env organizationID issuer subject d = scanUser (read_only env (tx_query ''scan user''
     (\<lambda>d. with_texts [organizationID, issuer, subject]
        (Some (find (\<lambda>u. User_OrganizationID u = organizationID \<and> User_OIDCIssuer u = issuer
                      \<and> User_OIDCSubject u = subject \<and> User_OIDCSubject u \<noteq> []) (Db_users d))))) d)"

text \<open>The only columns of a user that ever change.\<close>

definition pg_UpdateUser :: "DB_Env \<Rightarrow> User \<Rightarrow> Database \<Rightarrow> (unit, Database) op" where
  "pg_UpdateUser env user = exec_one env ''update user'' (effect (\<lambda>d. with_texts [User_ID user]
     (Some (d\<lparr>Db_users := update_rows (\<lambda>u. User_ID u = User_ID user)
        (\<lambda>u. u\<lparr>User_TOTPSecretEncrypted := User_TOTPSecretEncrypted user,
              User_TOTPConfirmedAt := map_option truncate_micro (User_TOTPConfirmedAt user),
              User_DisabledAt := map_option truncate_micro (User_DisabledAt user)\<rparr>) (Db_users d)\<rparr>))))"

definition pg_UsersForOrganization ::
  "DB_Env \<Rightarrow> User sorter \<Rightarrow> (string \<Rightarrow> string \<Rightarrow> bool) \<Rightarrow> string \<Rightarrow> Database \<Rightarrow> User list res" where
  "pg_UsersForOrganization env srt col organizationID =
     read_only env (query_rows ''query users for organization'' ''iterate users'' (\<lambda>d. with_texts [organizationID]
       (Some (srt (\<lambda>a b. col (User_Email a) (User_Email b))
          (filter (\<lambda>u. User_OrganizationID u = organizationID) (Db_users d))))))"

section \<open>Invites\<close>

definition stored_invite :: "Invite \<Rightarrow> string \<Rightarrow> InviteRow" where
  "stored_invite invite tokenHash =
     \<lparr>InviteRow_Invite = invite\<lparr>Invite_SiteRoleGrants := [], Invite_ExpiresAt := truncate_micro (Invite_ExpiresAt invite),
        Invite_CreatedAt := truncate_micro (Invite_CreatedAt invite), Invite_ConsumedAt := None, Invite_RevokedAt := None\<rparr>,
      InviteRow_TokenHash = tokenHash, InviteRow_ConsumedBy = []\<rparr>"

definition invite_clash :: "InviteRow \<Rightarrow> InviteRow \<Rightarrow> bool" where
  "invite_clash a b \<longleftrightarrow> Invite_ID (InviteRow_Invite a) = Invite_ID (InviteRow_Invite b)
     \<or> InviteRow_TokenHash a = InviteRow_TokenHash b"

definition insert_invite :: "Invite \<Rightarrow> string \<Rightarrow> Database \<Rightarrow> Database option" where
  "insert_invite invite tokenHash d =
     with_texts [Invite_ID invite, tokenHash, Invite_OrganizationID invite, Invite_Email invite,
         role_text (Invite_Role invite), identity_type_text (Invite_IdentityType invite), Invite_CreatedBy invite]
       (if Invite_OrganizationID invite \<notin> set (Db_organizations d) then None
        else map_option (\<lambda>rows. d\<lparr>Db_invites := rows\<rparr>)
          (insert_row invite_clash (stored_invite invite tokenHash) (Db_invites d)))"

definition insert_invite_grant :: "string \<Rightarrow> SiteRoleGrant \<Rightarrow> Database \<Rightarrow> Database option" where
  "insert_invite_grant inviteID grant d =
     with_texts [inviteID, SiteRoleGrant_SiteID grant, SiteRoleGrant_Role grant]
       (map_option (\<lambda>rows. d\<lparr>Db_invite_site_roles := rows\<rparr>)
          (insert_row (\<lambda>a b. InviteSiteRole_InviteID a = InviteSiteRole_InviteID b
                          \<and> InviteSiteRole_SiteID a = InviteSiteRole_SiteID b)
             \<lparr>InviteSiteRole_InviteID = inviteID, InviteSiteRole_SiteID = SiteRoleGrant_SiteID grant,
              InviteSiteRole_Role = SiteRoleGrant_Role grant\<rparr> (Db_invite_site_roles d)))"

definition pg_SaveInvite :: "DB_Env \<Rightarrow> Invite \<Rightarrow> string \<Rightarrow> Database \<Rightarrow> (unit, Database) op" where
  "pg_SaveInvite env invite tokenHash =
     transaction env ''begin save invite''
       (tx_bind (tx_exec ''save invite'' (insert_invite invite tokenHash)) (\<lambda>_.
        tx_bind (tx_each (\<lambda>grant. tx_exec ''save invite site role'' (insert_invite_grant (Invite_ID invite) grant))
                   (Invite_SiteRoleGrants invite)) (\<lambda>_.
        tx_ret (Commit ''commit save invite'' ()))))"

text \<open>The grants of an invite, in the order \<open>srt\<close> of a query without \<open>ORDER BY\<close>.\<close>

definition invite_grants :: "InviteSiteRoleRow sorter \<Rightarrow> string \<Rightarrow> Database \<Rightarrow> SiteRoleGrant list" where
  "invite_grants srt inviteID d =
     map (\<lambda>row. \<lparr>SiteRoleGrant_SiteID = InviteSiteRole_SiteID row, SiteRoleGrant_Role = InviteSiteRole_Role row\<rparr>)
       (srt (\<lambda>_ _. False) (filter (\<lambda>row. InviteSiteRole_InviteID row = inviteID) (Db_invite_site_roles d)))"

definition with_grants :: "InviteSiteRoleRow sorter \<Rightarrow> InviteRow option \<Rightarrow> (Invite option, Database) tx" where
  "with_grants srt found =
     (case found of
        None \<Rightarrow> tx_ret None
      | Some row \<Rightarrow>
          tx_bind (query_rows ''query invite site roles'' ''iterate invite site roles''
            (\<lambda>d. with_texts [Invite_ID (InviteRow_Invite row)] (Some (invite_grants srt (Invite_ID (InviteRow_Invite row)) d)))) (\<lambda>grants.
          tx_ret (Some ((InviteRow_Invite row)\<lparr>Invite_SiteRoleGrants := grants\<rparr>))))"

definition found_invite :: "Invite option res \<Rightarrow> Invite res" where
  "found_invite found = (case found of
     Inl e \<Rightarrow> Inl e | Inr None \<Rightarrow> Inl ErrInviteNotFound | Inr (Some invite) \<Rightarrow> Inr invite)"

definition pg_InviteByTokenHash :: "DB_Env \<Rightarrow> InviteSiteRoleRow sorter \<Rightarrow> string \<Rightarrow> Database \<Rightarrow> Invite res" where
  "pg_InviteByTokenHash env srt tokenHash d =
     found_invite (read_only env
       (tx_bind (tx_query ''query invite'' (\<lambda>d. with_texts [tokenHash]
           (Some (find (\<lambda>row. InviteRow_TokenHash row = tokenHash) (Db_invites d))))) (with_grants srt)) d)"

definition pg_InviteByEmail ::
  "DB_Env \<Rightarrow> InviteRow sorter \<Rightarrow> InviteSiteRoleRow sorter \<Rightarrow> string \<Rightarrow> string \<Rightarrow> Database \<Rightarrow> Invite res" where
  "pg_InviteByEmail env srti srt organizationID email d =
     found_invite (read_only env
       (tx_bind (tx_query ''query invite by email'' (\<lambda>d. with_texts [organizationID, email]
           (Some (first_row srti (\<lambda>a b. Invite_CreatedAt (InviteRow_Invite b) < Invite_CreatedAt (InviteRow_Invite a))
              (filter (\<lambda>row. Invite_OrganizationID (InviteRow_Invite row) = organizationID
                           \<and> Invite_Email (InviteRow_Invite row) = email) (Db_invites d)))))) (with_grants srt)) d)"

text \<open>
  Consuming an invite: an update of a row that is not consumed yet, by a user that exists; the
  number of rows decides the answer.
\<close>

definition consume_invite :: "(InviteRow \<Rightarrow> bool) \<Rightarrow> string list \<Rightarrow> string \<Rightarrow> time \<Rightarrow> Database \<Rightarrow> (nat \<times> Database) option" where
  "consume_invite sel texts userID tm d =
     (let P = (\<lambda>row. sel row \<and> Invite_ConsumedAt (InviteRow_Invite row) = None) in
      with_texts (userID # texts)
       (if 0 < affected P (Db_invites d) \<and> userID \<notin> User_ID ` set (Db_users d) then None
        else Some (affected P (Db_invites d), d\<lparr>Db_invites := update_rows P
          (\<lambda>row. row\<lparr>InviteRow_Invite := (InviteRow_Invite row)\<lparr>Invite_ConsumedAt := Some (truncate_micro tm)\<rparr>,
                     InviteRow_ConsumedBy := userID\<rparr>) (Db_invites d)\<rparr>)))"

definition pg_ConsumeInvite :: "DB_Env \<Rightarrow> string \<Rightarrow> string \<Rightarrow> time \<Rightarrow> Database \<Rightarrow> (unit, Database) op" where
  "pg_ConsumeInvite env tokenHash userID tm d =
     answer (\<lambda>n. if n \<noteq> 1 then Inl ErrInviteExpired else Inr ())
       (exec_one env ''consume invite''
          (consume_invite (\<lambda>row. InviteRow_TokenHash row = tokenHash) [tokenHash] userID tm) d)"

definition pg_ConsumeInviteByID :: "DB_Env \<Rightarrow> string \<Rightarrow> string \<Rightarrow> time \<Rightarrow> Database \<Rightarrow> (unit, Database) op" where
  "pg_ConsumeInviteByID env inviteID userID tm d =
     answer (\<lambda>n. if n \<noteq> 1 then Inl ErrInviteExpired else Inr ())
       (exec_one env ''consume invite by id''
          (consume_invite (\<lambda>row. Invite_ID (InviteRow_Invite row) = inviteID) [inviteID] userID tm) d)"

section \<open>Recovery codes\<close>

definition newRecoveryCodeID :: "entropy \<Rightarrow> string res" where
  "newRecoveryCodeID r = rand_hex 16 r"

definition recovery_clash :: "RecoveryCodeRow \<Rightarrow> RecoveryCodeRow \<Rightarrow> bool" where
  "recovery_clash a b \<longleftrightarrow> RecoveryCode_ID a = RecoveryCode_ID b
     \<or> RecoveryCode_UserID a = RecoveryCode_UserID b \<and> RecoveryCode_Hash a = RecoveryCode_Hash b"

definition insert_recovery_code :: "string \<Rightarrow> string \<Rightarrow> string \<Rightarrow> Database \<Rightarrow> Database option" where
  "insert_recovery_code i userID h d = with_texts [i, userID, h]
     (if userID \<notin> User_ID ` set (Db_users d) then None
      else map_option (\<lambda>rows. d\<lparr>Db_recovery_codes := rows\<rparr>)
        (insert_row recovery_clash \<lparr>RecoveryCode_ID = i, RecoveryCode_UserID = userID, RecoveryCode_Hash = h,
           RecoveryCode_ConsumedAt = None\<rparr> (Db_recovery_codes d)))"

text \<open>The codes already stored stay; \<open>r\<close> are the random bytes of the code with the hash.\<close>

definition pg_SaveRecoveryCodes :: "DB_Env \<Rightarrow> string \<Rightarrow> (entropy \<times> string) list \<Rightarrow> Database \<Rightarrow> (unit, Database) op" where
  "pg_SaveRecoveryCodes env userID codeHashes =
     transaction env ''begin save recovery codes''
       (tx_bind (tx_each (\<lambda>(r, h). case newRecoveryCodeID r of
             Inl e \<Rightarrow> tx_fail e
           | Inr i \<Rightarrow> tx_exec ''insert recovery code'' (insert_recovery_code i userID h)) codeHashes) (\<lambda>_.
        tx_ret (Commit ''commit recovery codes'' ())))"

definition pg_ConsumeRecoveryCode :: "DB_Env \<Rightarrow> time \<Rightarrow> string \<Rightarrow> string \<Rightarrow> Database \<Rightarrow> (bool, Database) op" where
  "pg_ConsumeRecoveryCode env now userID codeHash d =
     (let P = (\<lambda>row. RecoveryCode_UserID row = userID \<and> RecoveryCode_Hash row = codeHash
                   \<and> RecoveryCode_ConsumedAt row = None) in
      answer (\<lambda>n. Inr (n = 1)) (exec_one env ''consume recovery code'' (\<lambda>d. with_texts [userID, codeHash]
        (Some (affected P (Db_recovery_codes d), d\<lparr>Db_recovery_codes := update_rows P
           (\<lambda>row. row\<lparr>RecoveryCode_ConsumedAt := Some now\<rparr>) (Db_recovery_codes d)\<rparr>))) d))"

section \<open>The identity provider\<close>

definition upsert_oidc :: "OIDCConfiguration \<Rightarrow> Database \<Rightarrow> Database option" where
  "upsert_oidc config d =
     with_texts [OIDCConfiguration_OrganizationID config, OIDCConfiguration_DiscoveryURL config,
         OIDCConfiguration_Issuer config, OIDCConfiguration_ClientID config, OIDCConfiguration_RedirectURL config,
         OIDCConfiguration_UpdatedBy config]
       (if OIDCConfiguration_OrganizationID config \<notin> set (Db_organizations d) then None
        else Some (d\<lparr>Db_oidc_configurations :=
          upsert_row (\<lambda>a b. OIDCConfiguration_OrganizationID a = OIDCConfiguration_OrganizationID b) (\<lambda>new row. new)
            (config\<lparr>OIDCConfiguration_UpdatedAt := truncate_micro (OIDCConfiguration_UpdatedAt config)\<rparr>)
            (Db_oidc_configurations d)\<rparr>))"

definition pg_SaveOIDCConfiguration :: "DB_Env \<Rightarrow> OIDCConfiguration \<Rightarrow> Database \<Rightarrow> (unit, Database) op" where
  "pg_SaveOIDCConfiguration env config = exec_one env ''save oidc configuration'' (effect (upsert_oidc config))"

definition pg_OIDCConfigurationByOrganization :: "DB_Env \<Rightarrow> string \<Rightarrow> Database \<Rightarrow> OIDCConfiguration res" where
  "pg_OIDCConfigurationByOrganization env organizationID d =
     (case read_only env (tx_query ''query oidc configuration'' (\<lambda>d. with_texts [organizationID]
        (Some (find (\<lambda>row. OIDCConfiguration_OrganizationID row = organizationID) (Db_oidc_configurations d))))) d of
        Inl e \<Rightarrow> Inl e
      | Inr None \<Rightarrow> Inl ErrOIDCNotConfigured
      | Inr (Some config) \<Rightarrow> Inr config)"

section \<open>Nothing is done by halves\<close>

lemma settled_prod [tx_intros]: "(\<And>a b. settled (f a b)) \<Longrightarrow> settled (case p of (a, b) \<Rightarrow> f a b)"
  by (cases p) simp

lemma all_or_nothing_identity:
  "all_or_nothing (\<lambda>env. pg_CreateUser env user)"
  "all_or_nothing (\<lambda>env. pg_CompleteBootstrap env user)"
  "all_or_nothing (\<lambda>env. pg_UpdateUser env user)"
  "all_or_nothing (\<lambda>env. pg_SaveInvite env invite tokenHash)"
  "all_or_nothing (\<lambda>env. pg_ConsumeInvite env tokenHash userID tm)"
  "all_or_nothing (\<lambda>env. pg_ConsumeInviteByID env i userID tm)"
  "all_or_nothing (\<lambda>env. pg_SaveRecoveryCodes env userID codeHashes)"
  "all_or_nothing (\<lambda>env. pg_ConsumeRecoveryCode env now userID codeHash)"
  "all_or_nothing (\<lambda>env. pg_SaveOIDCConfiguration env config)"
  unfolding pg_CreateUser_def pg_CompleteBootstrap_def insertUser_def pg_UpdateUser_def pg_SaveInvite_def
    pg_ConsumeInvite_def pg_ConsumeInviteByID_def pg_SaveRecoveryCodes_def pg_ConsumeRecoveryCode_def
    pg_SaveOIDCConfiguration_def Let_def
  by (intro all_or_nothing_answer all_or_nothing_exec all_or_nothing_transaction tx_intros)+

end
