(* ===== verification/Pg_Hosts.thy ===== *)
theory Pg_Hosts
  imports Pg_Database
begin

text \<open>
  \<open>internal/storage/postgres/inventory.go\<close>, \<open>serviceinventory.go\<close> and \<open>telemetry.go\<close>: the tables
  \<open>hosts\<close>, \<open>services\<close> and \<open>telemetry_samples\<close>. Go's unsigned byte counts go through \<open>int64\<close>
  into BIGINT and back, so a row keeps the word, and its CHECK reads it as signed.
\<close>

section \<open>ILIKE\<close>

text \<open>
  \<open>LIKE\<close> by characters: \<open>%\<close> stands for any characters, \<open>_\<close> for one, a backslash takes the
  next character as it is. \<open>ILIKE\<close> compares in lower case; which text is the lower case of another
  the locale of the database decides (\<open>lower\<close>), not Go.
\<close>

definition rune_step :: "string \<Rightarrow> nat" where
  "rune_step t = (case rune_len t of None \<Rightarrow> 1 | Some n \<Rightarrow> n)"

lemma rune_step_pos: "0 < rune_step t"
  by (auto simp: rune_step_def dest: rune_len_bounds split: option.split)

function like :: "string \<Rightarrow> string \<Rightarrow> bool" where
  "like [] t \<longleftrightarrow> t = []"
| "like (c # p) t \<longleftrightarrow>
     (if c = CHR ''%'' then like p t \<or> (if t = [] then False else like (c # p) (drop (rune_step t) t))
      else if c = CHR ''_'' then if t = [] then False else like p (drop (rune_step t) t)
      else if c = CHR 0x5C then if p = [] \<or> t = [] \<or> hd t \<noteq> hd p then False else like (tl p) (tl t)
      else if t = [] \<or> hd t \<noteq> c then False else like p (tl t))"
  by pat_completeness auto
termination
  by (relation "measure (\<lambda>(p, t). length p + length t)") (auto simp: rune_step_pos length_greater_0_conv [symmetric] intro!: diff_less add_less_le_mono simp del: length_greater_0_conv)

declare like.simps(2) [simp del]

definition ilike :: "(string \<Rightarrow> string) \<Rightarrow> string \<Rightarrow> string \<Rightarrow> bool" where
  "ilike lower t pat \<longleftrightarrow> like (lower pat) (lower t)"

text \<open>\<open>column ILIKE '%' || q || '%'\<close>.\<close>

definition ilike_part :: "(string \<Rightarrow> string) \<Rightarrow> string \<Rightarrow> string \<Rightarrow> bool" where
  "ilike_part lower t q \<longleftrightarrow> ilike lower t (''%'' @ q @ ''%'')"

section \<open>Hosts\<close>

definition stored_host :: "Host \<Rightarrow> Host" where
  "stored_host host = host\<lparr>Host_FirstSeenAt := truncate_micro (Host_FirstSeenAt host),
     Host_LastSeenAt := truncate_micro (Host_LastSeenAt host), Host_Status := []\<rparr>"

definition host_texts :: "Host \<Rightarrow> string list" where
  "host_texts host = [Host_AgentID host, Host_OrganizationID host, Host_SiteID host, Host_Hostname host,
     Host_OSFamily host, Host_OSName host, Host_OSVersion host, Host_Architecture host, Host_KernelVersion host,
     Host_AgentVersion host] @ Host_IPAddresses host"

definition host_row_ok :: "Host \<Rightarrow> bool" where
  "host_row_ok host \<longleftrightarrow> Host_OSFamily host \<in> {''linux'', ''windows''}
     \<and> 0 < Host_CPUCores host \<and> int4 (Host_CPUCores host) \<and> 0 < sint (Host_MemoryBytes host)"

text \<open>
  \<open>INSERT ... ON CONFLICT (agent_id) DO UPDATE ... WHERE\<close>: a new row, a row of the same scope
  replaced but for the time it was first seen, or, for a row of another scope, nothing; the
  number of rows written is returned.
\<close>

definition upsert_host :: "Host \<Rightarrow> Database \<Rightarrow> (nat \<times> Database) option" where
  "upsert_host host d = with_texts (host_texts host)
     (if \<not> host_row_ok host then None
      else (case find (\<lambda>h. Host_AgentID h = Host_AgentID host) (Db_hosts d) of
          None \<Rightarrow> if \<not> site_row (Host_OrganizationID host) (Host_SiteID host) d then None
                  else Some (1, d\<lparr>Db_hosts := Db_hosts d @ [stored_host host]\<rparr>)
        | Some old \<Rightarrow>
            if Host_OrganizationID old \<noteq> Host_OrganizationID host \<or> Host_SiteID old \<noteq> Host_SiteID host
            then Some (0, d)
            else Some (1, d\<lparr>Db_hosts := update_rows (\<lambda>h. Host_AgentID h = Host_AgentID host)
                   (\<lambda>h. (stored_host host)\<lparr>Host_FirstSeenAt := Host_FirstSeenAt h\<rparr>) (Db_hosts d)\<rparr>)))"

definition lock_agent :: "Agent \<Rightarrow> Database \<Rightarrow> Agent option option" where
  "lock_agent agent d = with_texts [Agent_ID agent, Agent_OrganizationID agent, Agent_SiteID agent]
     (Some (find (\<lambda>a. a = agent) (Db_agents d)))"

definition upsertHost :: "(string \<Rightarrow> string) \<Rightarrow> DB_Env \<Rightarrow> Host \<Rightarrow> Database \<Rightarrow> (unit, Database) op" where
  "upsertHost uni env host d =
     (case Host_ValidateStored uni host of
        Some e \<Rightarrow> (Inl e, d)
      | None \<Rightarrow> transaction env ''begin host inventory transaction''
          (tx_bind (tx_query ''lock host agent assignment'' (lock_agent (Host_Agent host))) (\<lambda>found.
           case found of
             None \<Rightarrow> tx_fail ErrTenancyNotFound
           | Some _ \<Rightarrow>
               tx_bind (tx_stmt ''upsert host inventory'' (upsert_host host)) (\<lambda>n.
               if n \<noteq> 1 then tx_fail ErrTenancyNotFound
               else tx_ret (Commit ''commit host inventory'' ())))) d)"

definition pg_UpsertHost :: "(string \<Rightarrow> string) \<Rightarrow> DB_Env \<Rightarrow> Host \<Rightarrow> Database \<Rightarrow> (unit, Database) op" where
  "pg_UpsertHost = upsertHost"

definition pg_ListHosts ::
  "DB_Env \<Rightarrow> Host sorter \<Rightarrow> (string \<Rightarrow> string \<Rightarrow> bool) \<Rightarrow> Scope \<Rightarrow> Database \<Rightarrow> Host list res" where
  "pg_ListHosts env srt col scope d =
     (case Scope_Validate scope of
        Some e \<Rightarrow> Inl e
      | None \<Rightarrow> read_only env (query_rows ''query host inventory'' ''iterate host inventory''
          (\<lambda>d. with_texts [Scope_OrganizationID scope, Scope_SiteID scope]
             (Some (srt (\<lambda>a b. col (Host_Hostname a) (Host_Hostname b))
                (filter (\<lambda>h. Host_OrganizationID h = Scope_OrganizationID scope \<and> Host_SiteID h = Scope_SiteID scope)
                   (Db_hosts d)))))) d)"

section \<open>Services\<close>

definition stored_service :: "HostService \<Rightarrow> HostService" where
  "stored_service s = s\<lparr>HostService_ObservedAt := truncate_micro (HostService_ObservedAt s)\<rparr>"

definition service_row_ok :: "HostService \<Rightarrow> Database \<Rightarrow> bool" where
  "service_row_ok s d \<longleftrightarrow>
     HostService_State s \<in> {''running'', ''stopped'', ''failed'', ''unknown''}
     \<and> HostService_StartupType s \<in> {''automatic'', ''manual'', ''disabled'', ''unknown''}
     \<and> HostService_AgentID s \<in> Host_AgentID ` set (Db_hosts d)
     \<and> site_row (HostService_OrganizationID s) (HostService_SiteID s) d"

definition service_row_key :: "HostService \<Rightarrow> string \<times> string \<times> string \<times> string" where
  "service_row_key s = (HostService_OrganizationID s, HostService_SiteID s, HostService_AgentID s, HostService_Name s)"

definition insert_service :: "HostService \<Rightarrow> Database \<Rightarrow> Database option" where
  "insert_service s d =
     with_texts [HostService_OrganizationID s, HostService_SiteID s, HostService_AgentID s, HostService_Name s,
         HostService_DisplayName s, HostService_State s, HostService_StartupType s]
       (if \<not> service_row_ok s d then None
        else map_option (\<lambda>rows. d\<lparr>Db_services := rows\<rparr>)
          (insert_row (\<lambda>a b. service_row_key a = service_row_key b) (stored_service s) (Db_services d)))"

text \<open>A missing host is an error like any other here: the row that is scanned is not there.\<close>

definition pg_ReplaceServices :: "DB_Env \<Rightarrow> Scope \<Rightarrow> string \<Rightarrow> HostService list \<Rightarrow> Database \<Rightarrow> (unit, Database) op" where
  "pg_ReplaceServices env scope agentID services d =
     (case Agent_Validate (scope_agent scope agentID) of
        Some e \<Rightarrow> (Inl e, d)
      | None \<Rightarrow>
          if \<exists>s \<in> set services. HostService_AgentID s \<noteq> agentID
               \<or> HostService_OrganizationID s \<noteq> Scope_OrganizationID scope \<or> HostService_SiteID s \<noteq> Scope_SiteID scope
          then (Inl ErrInvalidScope, d)
          else transaction env ''begin service snapshot replacement''
            (tx_bind (tx_query ''lock service snapshot host''
                (\<lambda>d. with_texts [Scope_OrganizationID scope, Scope_SiteID scope, agentID]
                   (host_row (Scope_OrganizationID scope) (Scope_SiteID scope) agentID d))) (\<lambda>_.
             tx_bind (tx_exec ''clear previous service snapshot''
                (\<lambda>d. Some (d\<lparr>Db_services := delete_rows
                   (\<lambda>s. HostService_Agent s = scope_agent scope agentID) (Db_services d)\<rparr>))) (\<lambda>_.
             tx_bind (tx_each (\<lambda>s. tx_exec ''insert service snapshot'' (insert_service s)) services) (\<lambda>_.
             tx_ret (Commit ''commit service snapshot replacement'' ()))))) d)"

definition pg_service_matches :: "(string \<Rightarrow> string) \<Rightarrow> ServiceFilter \<Rightarrow> HostService \<Rightarrow> bool" where
  "pg_service_matches lower flt s \<longleftrightarrow>
     (ServiceFilter_State flt = [] \<or> HostService_State s = ServiceFilter_State flt)
     \<and> (ServiceFilter_Query flt = [] \<or> ilike_part lower (HostService_Name s) (ServiceFilter_Query flt)
          \<or> ilike_part lower (HostService_DisplayName s) (ServiceFilter_Query flt))"

definition pg_ListServices ::
  "(string \<Rightarrow> string) \<Rightarrow> DB_Env \<Rightarrow> HostService sorter \<Rightarrow> (string \<Rightarrow> string \<Rightarrow> bool) \<Rightarrow> Scope \<Rightarrow> string \<Rightarrow> ServiceFilter \<Rightarrow> Database
   \<Rightarrow> HostService list res" where
  "pg_ListServices lower env srt col scope agentID flt d =
     (case Scope_Validate scope of
        Some e \<Rightarrow> Inl e
      | None \<Rightarrow> read_only env (query_rows ''query service inventory'' ''iterate service inventory''
          (\<lambda>d. with_texts [Scope_OrganizationID scope, Scope_SiteID scope, agentID, ServiceFilter_State flt, ServiceFilter_Query flt]
             (Some (srt (\<lambda>a b. col (HostService_Name a) (HostService_Name b))
                (filter (\<lambda>s. HostService_Agent s = scope_agent scope agentID \<and> pg_service_matches lower flt s)
                   (Db_services d)))))) d)"

section \<open>Telemetry\<close>

definition stored_sample :: "Sample \<Rightarrow> Sample" where
  "stored_sample sample = sample\<lparr>Sample_RecordedAt := truncate_micro (Sample_RecordedAt sample)\<rparr>"

definition percent_column :: "f64 \<Rightarrow> bool" where
  "percent_column x \<longleftrightarrow> f64_le (Fin 0) x \<and> f64_le x (Fin 100)"

definition sample_row_ok :: "Sample \<Rightarrow> Database \<Rightarrow> bool" where
  "sample_row_ok sample d \<longleftrightarrow>
     percent_column (Sample_CPUPercent sample) \<and> percent_column (Sample_MemoryPercent sample)
     \<and> percent_column (Sample_DiskPercent sample)
     \<and> 0 \<le> sint (Sample_NetworkRXBytes sample) \<and> 0 \<le> sint (Sample_NetworkTXBytes sample)
     \<and> Sample_AgentID sample \<in> Host_AgentID ` set (Db_hosts d)
     \<and> site_row (Sample_OrganizationID sample) (Sample_SiteID sample) d"

definition sample_clash :: "Sample \<Rightarrow> Sample \<Rightarrow> bool" where
  "sample_clash a b \<longleftrightarrow> sample_agent a = sample_agent b \<and> Sample_RecordedAt a = Sample_RecordedAt b"

text \<open>On a conflict every column but the key is replaced, which replaces the row.\<close>

definition upsert_sample :: "Sample \<Rightarrow> Database \<Rightarrow> Database option" where
  "upsert_sample sample d =
     with_texts [Sample_OrganizationID sample, Sample_SiteID sample, Sample_AgentID sample]
       (if \<not> sample_row_ok sample d then None
        else Some (d\<lparr>Db_telemetry_samples := upsert_row sample_clash (\<lambda>new row. new) (stored_sample sample)
               (Db_telemetry_samples d)\<rparr>))"

definition pg_AppendSample :: "DB_Env \<Rightarrow> Sample \<Rightarrow> Database \<Rightarrow> (unit, Database) op" where
  "pg_AppendSample env sample d =
     (case Agent_Validate (sample_agent sample) of
        Some e \<Rightarrow> (Inl e, d)
      | None \<Rightarrow> exec_one env ''append telemetry sample'' (effect (upsert_sample sample)) d)"

definition pg_History ::
  "DB_Env \<Rightarrow> Sample sorter \<Rightarrow> Scope \<Rightarrow> string \<Rightarrow> time \<Rightarrow> time \<Rightarrow> int \<Rightarrow> Database \<Rightarrow> Sample list res" where
  "pg_History env srt scope agentID since to limit d =
     (case Scope_Validate scope of
        Some e \<Rightarrow> Inl e
      | None \<Rightarrow> read_only env (query_rows ''query telemetry history'' ''iterate telemetry history''
          (\<lambda>d. with_texts [Scope_OrganizationID scope, Scope_SiteID scope, agentID]
             (map_option (srt sample_before) (limit_rows limit (srt (\<lambda>a b. sample_before b a)
                (filter (\<lambda>s. sample_agent s = scope_agent scope agentID \<and> truncate_micro since \<le> Sample_RecordedAt s
                     \<and> Sample_RecordedAt s \<le> truncate_micro to) (Db_telemetry_samples d))))))) d)"

text \<open>
  \<open>SELECT DISTINCT ON (agent_id) ... ORDER BY agent_id, recorded_at DESC\<close>: the newest sample of
  every agent of the scope. \<open>avg\<close> is PostgreSQL's \<open>AVG\<close> of DOUBLE PRECISION values.
\<close>

definition latest_samples :: "Sample sorter \<Rightarrow> Scope \<Rightarrow> time \<Rightarrow> Database \<Rightarrow> Sample list" where
  "latest_samples srt scope since d =
     (let recent = filter (\<lambda>s. Sample_OrganizationID s = Scope_OrganizationID scope \<and> Sample_SiteID s = Scope_SiteID scope
                           \<and> truncate_micro since \<le> Sample_RecordedAt s) (Db_telemetry_samples d) in
      List.map_filter (\<lambda>agentID. first_row srt (\<lambda>a b. sample_before b a) (filter (\<lambda>s. Sample_AgentID s = agentID) recent))
        (remdups (map Sample_AgentID recent)))"

definition pg_FleetAverage ::
  "(f64 list \<Rightarrow> f64) \<Rightarrow> DB_Env \<Rightarrow> Sample sorter \<Rightarrow> Scope \<Rightarrow> time \<Rightarrow> Database \<Rightarrow> FleetAverage res" where
  "pg_FleetAverage avg env srt scope since d =
     (case Scope_Validate scope of
        Some e \<Rightarrow> Inl e
      | None \<Rightarrow> read_only env (tx_query ''query fleet average telemetry''
          (\<lambda>d. with_texts [Scope_OrganizationID scope, Scope_SiteID scope]
             (let cpu = map Sample_CPUPercent (latest_samples srt scope since d) in
              Some \<lparr>FleetAverage_AverageCPUPercent = (if cpu = [] then Fin 0 else avg cpu),
                    FleetAverage_DeviceCount = length cpu\<rparr>))) d)"

section \<open>Nothing is done by halves\<close>

lemma all_or_nothing_hosts:
  "all_or_nothing (\<lambda>env. pg_UpsertHost uni env host)"
  "all_or_nothing (\<lambda>env. pg_ReplaceServices env scope agentID services)"
  "all_or_nothing (\<lambda>env. pg_AppendSample env sample)"
  unfolding pg_UpsertHost_def upsertHost_def pg_ReplaceServices_def pg_AppendSample_def
  by (intro all_or_nothing_if all_or_nothing_option all_or_nothing_same all_or_nothing_exec
      all_or_nothing_transaction tx_intros)+

end
