(* ===== verification/Pg_Alerting.thy ===== *)
theory Pg_Alerting
  imports Pg_Database
begin

text \<open>
  \<open>internal/storage/postgres/alerting.go\<close>: the alert store over the tables \<open>alert_rules\<close>,
  \<open>maintenance_windows\<close>, \<open>alert_incidents\<close> and \<open>alert_events\<close>. A row of a constant that the
  CHECK constraints do not list is refused; \<open>KindUnknown\<close> and its like are such rows, but for
  the empty metric of a reachability rule.
\<close>

section \<open>Rules\<close>

definition stored_rule :: "Rule \<Rightarrow> Rule" where
  "stored_rule rule = rule\<lparr>Rule_CreatedAt := truncate_micro (Rule_CreatedAt rule)\<rparr>"

definition severity_listed :: "Severity \<Rightarrow> bool" where
  "severity_listed severity \<longleftrightarrow> severity = SeverityWarning \<or> severity = SeverityCritical"

definition rule_row_ok :: "Rule \<Rightarrow> bool" where
  "rule_row_ok rule \<longleftrightarrow>
     (let request = Rule_Request rule in
      (RuleRequest_Kind request = KindMetric \<or> RuleRequest_Kind request = KindReachability)
      \<and> (RuleRequest_Metric request = MetricUnknown [] \<or> RuleRequest_Metric request = MetricCPU
          \<or> RuleRequest_Metric request = MetricMemory \<or> RuleRequest_Metric request = MetricDisk)
      \<and> int4 (RuleRequest_StaleAfterSeconds request) \<and> severity_listed (RuleRequest_Severity request))"

definition rule_texts :: "Rule \<Rightarrow> string list" where
  "rule_texts rule = [Rule_OrganizationID rule, Rule_SiteID rule, Rule_ID rule, RuleRequest_Name (Rule_Request rule)]"

definition insert_rule :: "Rule \<Rightarrow> Database \<Rightarrow> Database option" where
  "insert_rule rule d = with_texts (rule_texts rule)
     (if \<not> (rule_row_ok rule \<and> site_row (Rule_OrganizationID rule) (Rule_SiteID rule) d) then None
      else map_option (\<lambda>rows. d\<lparr>Db_alert_rules := rows\<rparr>)
        (insert_row (\<lambda>a b. Rule_ID a = Rule_ID b) (stored_rule rule) (Db_alert_rules d)))"

definition pg_CreateAlertRule :: "DB_Env \<Rightarrow> Scope \<Rightarrow> Rule \<Rightarrow> Database \<Rightarrow> (unit, Database) op" where
  "pg_CreateAlertRule env scope rule d =
     (case Scope_Validate scope of
        Some e \<Rightarrow> (Inl e, d)
      | None \<Rightarrow>
          if Rule_OrganizationID rule \<noteq> Scope_OrganizationID scope \<or> Rule_SiteID rule \<noteq> Scope_SiteID scope
          then (Inl ErrInvalidScope, d)
          else exec_one env ''insert alert rule'' (effect (insert_rule rule)) d)"

definition pg_ListAlertRules ::
  "DB_Env \<Rightarrow> Rule sorter \<Rightarrow> (string \<Rightarrow> string \<Rightarrow> bool) \<Rightarrow> Scope \<Rightarrow> Database \<Rightarrow> Rule list res" where
  "pg_ListAlertRules env srt col scope d =
     (case Scope_Validate scope of
        Some e \<Rightarrow> Inl e
      | None \<Rightarrow> read_only env (query_rows ''query alert rules'' ''iterate alert rules''
          (\<lambda>d. with_texts [Scope_OrganizationID scope, Scope_SiteID scope]
             (Some (srt (by_time_text col Rule_CreatedAt Rule_ID)
                (filter (\<lambda>r. Rule_Scope r = scope) (Db_alert_rules d)))))) d)"

section \<open>Maintenance windows\<close>

definition stored_window :: "MaintenanceWindow \<Rightarrow> MaintenanceWindow" where
  "stored_window window = window\<lparr>
     MaintenanceWindow_Request := (MaintenanceWindow_Request window)\<lparr>
       MaintenanceRequest_StartsAt := truncate_micro (MaintenanceRequest_StartsAt (MaintenanceWindow_Request window)),
       MaintenanceRequest_EndsAt := truncate_micro (MaintenanceRequest_EndsAt (MaintenanceWindow_Request window))\<rparr>,
     MaintenanceWindow_CreatedAt := truncate_micro (MaintenanceWindow_CreatedAt window)\<rparr>"

definition window_row_ok :: "MaintenanceWindow \<Rightarrow> Database \<Rightarrow> bool" where
  "window_row_ok window d \<longleftrightarrow>
     MaintenanceRequest_StartsAt (MaintenanceWindow_Request (stored_window window))
       < MaintenanceRequest_EndsAt (MaintenanceWindow_Request (stored_window window))
     \<and> site_row (MaintenanceWindow_OrganizationID window) (MaintenanceWindow_SiteID window) d"

definition insert_window :: "MaintenanceWindow \<Rightarrow> Database \<Rightarrow> Database option" where
  "insert_window window d =
     with_texts [MaintenanceWindow_OrganizationID window, MaintenanceWindow_SiteID window, MaintenanceWindow_ID window,
         MaintenanceRequest_Name (MaintenanceWindow_Request window),
         MaintenanceRequest_AgentID (MaintenanceWindow_Request window),
         MaintenanceRequest_CreatedBy (MaintenanceWindow_Request window)]
       (if \<not> window_row_ok window d then None
        else map_option (\<lambda>rows. d\<lparr>Db_maintenance_windows := rows\<rparr>)
          (insert_row (\<lambda>a b. MaintenanceWindow_ID a = MaintenanceWindow_ID b) (stored_window window)
             (Db_maintenance_windows d)))"

definition host_query :: "Scope \<Rightarrow> string \<Rightarrow> Database \<Rightarrow> bool option" where
  "host_query scope agentID d = with_texts [Scope_OrganizationID scope, Scope_SiteID scope, agentID]
     (Some (host_row (Scope_OrganizationID scope) (Scope_SiteID scope) agentID d \<noteq> None))"

text \<open>
  The host is looked up and the window inserted by two statements of their own; the second is
  statement number 0 of its own call to the pool, so \<open>env'\<close> is what disturbs it.
\<close>

definition pg_CreateMaintenanceWindow ::
  "DB_Env \<Rightarrow> Scope \<Rightarrow> MaintenanceWindow \<Rightarrow> Database \<Rightarrow> (unit, Database) op" where
  "pg_CreateMaintenanceWindow env scope window d =
     (case Scope_Validate scope of
        Some e \<Rightarrow> (Inl e, d)
      | None \<Rightarrow>
          if MaintenanceWindow_OrganizationID window \<noteq> Scope_OrganizationID scope
             \<or> MaintenanceWindow_SiteID window \<noteq> Scope_SiteID scope
          then (Inl ErrInvalidScope, d)
          else let agentID = MaintenanceRequest_AgentID (MaintenanceWindow_Request window);
                   insert = exec_one (env\<lparr>DB_fails := \<lambda>n. DB_fails env (Suc n)\<rparr>) ''insert maintenance window''
                     (effect (insert_window window)) d in
            if agentID = [] then insert
            else (case read_only env (tx_query ''verify maintenance host'' (host_query scope agentID)) d of
                Inl e \<Rightarrow> (Inl e, d)
              | Inr found \<Rightarrow> if \<not> found then (Inl ErrAlertNotFound, d) else insert))"

definition pg_HasHost :: "DB_Env \<Rightarrow> Scope \<Rightarrow> string \<Rightarrow> Database \<Rightarrow> bool res" where
  "pg_HasHost env scope agentID d =
     (case Scope_Validate scope of
        Some e \<Rightarrow> Inl e
      | None \<Rightarrow> read_only env (tx_query ''query alert host'' (host_query scope agentID)) d)"

definition pg_ListMaintenanceWindows ::
  "DB_Env \<Rightarrow> MaintenanceWindow sorter \<Rightarrow> (string \<Rightarrow> string \<Rightarrow> bool) \<Rightarrow> Scope \<Rightarrow> Database \<Rightarrow> MaintenanceWindow list res" where
  "pg_ListMaintenanceWindows env srt col scope d =
     (case Scope_Validate scope of
        Some e \<Rightarrow> Inl e
      | None \<Rightarrow> read_only env (query_rows ''query maintenance windows'' ''iterate maintenance windows''
          (\<lambda>d. with_texts [Scope_OrganizationID scope, Scope_SiteID scope]
             (Some (srt (by_time_text col (\<lambda>w. MaintenanceRequest_StartsAt (MaintenanceWindow_Request w)) MaintenanceWindow_ID)
                (filter (\<lambda>w. Window_Scope w = scope) (Db_maintenance_windows d)))))) d)"

section \<open>Incidents\<close>

definition stored_incident :: "Incident \<Rightarrow> Incident" where
  "stored_incident incident = incident\<lparr>Incident_OpenedAt := truncate_micro (Incident_OpenedAt incident),
     Incident_AcknowledgedAt := None, Incident_AcknowledgedBy := [], Incident_ResolvedAt := None\<rparr>"

definition active :: "Incident \<Rightarrow> bool" where
  "active incident \<longleftrightarrow> Incident_Status incident = StatusOpen \<or> Incident_Status incident = StatusAcknowledged"

definition active_row :: "Scope \<Rightarrow> string \<Rightarrow> string \<Rightarrow> Incident \<Rightarrow> bool" where
  "active_row scope ruleID agentID v \<longleftrightarrow>
     Incident_Scope v = scope \<and> Incident_RuleID v = ruleID \<and> Incident_AgentID v = agentID \<and> active v"

text \<open>
  \<open>INSERT ... ON CONFLICT ... WHERE status IN ('open','acknowledged') DO NOTHING RETURNING id\<close>: the
  partial unique index lets one active incident of a rule and an agent be. CHECK constraints
  are looked at first, foreign keys only when a row is inserted.
\<close>

definition insert_incident :: "Scope \<Rightarrow> Incident \<Rightarrow> Database \<Rightarrow> (bool \<times> Database) option" where
  "insert_incident scope incident d =
     with_texts [Scope_OrganizationID scope, Scope_SiteID scope, Incident_ID incident, Incident_RuleID incident,
         Incident_RuleName incident, Incident_AgentID incident, Incident_Message incident]
       (if \<not> severity_listed (Incident_Severity incident) then None
        else if active incident
                \<and> (\<exists>v \<in> set (Db_alert_incidents d). active_row scope (Incident_RuleID incident) (Incident_AgentID incident) v)
        then Some (False, d)
        else if Incident_RuleID incident \<notin> Rule_ID ` set (Db_alert_rules d)
                \<or> \<not> site_row (Scope_OrganizationID scope) (Scope_SiteID scope) d then None
        else map_option (\<lambda>rows. (True, d\<lparr>Db_alert_incidents := rows\<rparr>))
          (insert_row (\<lambda>a b. Incident_ID a = Incident_ID b) (stored_incident incident) (Db_alert_incidents d)))"

definition insert_alert_event :: "AlertEvent \<Rightarrow> Database \<Rightarrow> Database option" where
  "insert_alert_event event d =
     with_texts [AlertEvent_OrganizationID event, AlertEvent_SiteID event, AlertEvent_ID event, AlertEvent_IncidentID event,
         AlertEvent_Actor event, AlertEvent_Message event]
       (if AlertEvent_IncidentID event \<notin> Incident_ID ` set (Db_alert_incidents d)
           \<or> \<not> site_row (AlertEvent_OrganizationID event) (AlertEvent_SiteID event) d then None
        else map_option (\<lambda>rows. d\<lparr>Db_alert_events := rows\<rparr>)
          (insert_row (\<lambda>a b. AlertEvent_ID a = AlertEvent_ID b)
             (event\<lparr>AlertEvent_OccurredAt := truncate_micro (AlertEvent_OccurredAt event)\<rparr>) (Db_alert_events d)))"

definition insertAlertEvent :: "AlertEvent \<Rightarrow> (unit, Database) tx" where
  "insertAlertEvent event = tx_exec ''insert alert event'' (insert_alert_event event)"

definition foreign_event :: "Scope \<Rightarrow> AlertEvent \<Rightarrow> bool" where
  "foreign_event scope event \<longleftrightarrow>
     AlertEvent_OrganizationID event \<noteq> Scope_OrganizationID scope \<or> AlertEvent_SiteID event \<noteq> Scope_SiteID scope"

definition pg_EnsureIncident ::
  "DB_Env \<Rightarrow> Scope \<Rightarrow> Incident \<Rightarrow> AlertEvent \<Rightarrow> Database \<Rightarrow> (Incident \<times> bool, Database) op" where
  "pg_EnsureIncident env scope incident event d =
     (case Scope_Validate scope of
        Some e \<Rightarrow> (Inl e, d)
      | None \<Rightarrow>
          if Incident_OrganizationID incident \<noteq> Scope_OrganizationID scope
             \<or> Incident_SiteID incident \<noteq> Scope_SiteID scope \<or> foreign_event scope event
          then (Inl ErrInvalidScope, d)
          else transaction env ''begin incident''
            (tx_bind (tx_stmt ''ensure incident'' (insert_incident scope incident)) (\<lambda>created.
             if created then
               tx_bind (insertAlertEvent (event\<lparr>AlertEvent_IncidentID := Incident_ID incident\<rparr>)) (\<lambda>_.
               tx_ret (Commit ''commit incident'' (incident, True)))
             else
               tx_bind (tx_query ''ensure incident'' (\<lambda>d.
                 find (active_row scope (Incident_RuleID incident) (Incident_AgentID incident)) (Db_alert_incidents d))) (\<lambda>v.
               tx_ret (Commit ''commit incident'' (v, False))))) d)"

definition update_incident :: "Scope \<Rightarrow> string \<Rightarrow> string list \<Rightarrow> (Incident \<Rightarrow> Incident) \<Rightarrow> Database \<Rightarrow> Database option" where
  "update_incident scope i texts f d = with_texts ([i, Scope_OrganizationID scope, Scope_SiteID scope] @ texts)
     (Some (d\<lparr>Db_alert_incidents := update_rows (\<lambda>v. Incident_ID v = i \<and> Incident_Scope v = scope) f
        (Db_alert_incidents d)\<rparr>))"

definition pg_ResolveIncident ::
  "DB_Env \<Rightarrow> Scope \<Rightarrow> string \<Rightarrow> string \<Rightarrow> f64 \<Rightarrow> string \<Rightarrow> AlertEvent \<Rightarrow> Database \<Rightarrow> (Incident option, Database) op" where
  "pg_ResolveIncident env scope ruleID agentID val message event d =
     (case Scope_Validate scope of
        Some e \<Rightarrow> (Inl e, d)
      | None \<Rightarrow>
          if foreign_event scope event then (Inl ErrInvalidScope, d)
          else let resolvedAt = AlertEvent_OccurredAt event;
                   resolve = (\<lambda>tm v. v\<lparr>Incident_Status := StatusResolved, Incident_ResolvedAt := Some tm,
                     Incident_LatestValue := val, Incident_Message := message\<rparr>) in
            transaction env ''begin incident resolution''
              (tx_bind (tx_query ''lock incident resolution''
                  (\<lambda>d. with_texts [Scope_OrganizationID scope, Scope_SiteID scope, ruleID, agentID]
                     (Some (find (active_row scope ruleID agentID) (Db_alert_incidents d))))) (\<lambda>found.
               case found of
                 None \<Rightarrow> tx_ret (Rollback None)
               | Some v \<Rightarrow>
                   tx_bind (tx_exec ''resolve incident''
                     (update_incident scope (Incident_ID v) [message] (resolve (truncate_micro resolvedAt)))) (\<lambda>_.
                   tx_bind (insertAlertEvent (event\<lparr>AlertEvent_IncidentID := Incident_ID v\<rparr>)) (\<lambda>_.
                   tx_ret (Commit ''commit incident resolution'' (Some (resolve resolvedAt v))))))) d)"

definition pg_AcknowledgeIncident ::
  "DB_Env \<Rightarrow> Scope \<Rightarrow> string \<Rightarrow> string \<Rightarrow> time \<Rightarrow> AlertEvent \<Rightarrow> Database \<Rightarrow> (Incident, Database) op" where
  "pg_AcknowledgeIncident env scope i actor tm event d =
     (case Scope_Validate scope of
        Some e \<Rightarrow> (Inl e, d)
      | None \<Rightarrow>
          if foreign_event scope event then (Inl ErrInvalidScope, d)
          else let acknowledge = (\<lambda>tm v. v\<lparr>Incident_Status := StatusAcknowledged, Incident_AcknowledgedAt := Some tm,
                     Incident_AcknowledgedBy := actor\<rparr>) in
            transaction env ''begin incident acknowledgement''
              (tx_bind (tx_query ''lock incident acknowledgement''
                  (\<lambda>d. with_texts [i, Scope_OrganizationID scope, Scope_SiteID scope]
                     (Some (find (\<lambda>v. Incident_ID v = i \<and> Incident_Scope v = scope) (Db_alert_incidents d))))) (\<lambda>found.
               case found of
                 None \<Rightarrow> tx_fail ErrAlertNotFound
               | Some v \<Rightarrow>
                   if Incident_Status v \<noteq> StatusOpen then tx_fail ErrAlertConflict
                   else
                     tx_bind (tx_exec ''acknowledge incident''
                       (update_incident scope i [actor] (acknowledge (truncate_micro tm)))) (\<lambda>_.
                     tx_bind (insertAlertEvent (event\<lparr>AlertEvent_IncidentID := Incident_ID v\<rparr>)) (\<lambda>_.
                     tx_ret (Commit ''commit incident acknowledgement'' (acknowledge tm v)))))) d)"

definition pg_ListAlertIncidents ::
  "DB_Env \<Rightarrow> Incident sorter \<Rightarrow> (string \<Rightarrow> string \<Rightarrow> bool) \<Rightarrow> Scope \<Rightarrow> int \<Rightarrow> Database \<Rightarrow> Incident list res" where
  "pg_ListAlertIncidents env srt col scope limit d =
     (case Scope_Validate scope of
        Some e \<Rightarrow> Inl e
      | None \<Rightarrow> read_only env (query_rows ''query alert incidents'' ''iterate alert incidents''
          (\<lambda>d. with_texts [Scope_OrganizationID scope, Scope_SiteID scope]
             (limit_rows limit (srt (\<lambda>a b. by_time_text col Incident_OpenedAt Incident_ID b a)
                (filter (\<lambda>v. Incident_Scope v = scope) (Db_alert_incidents d)))))) d)"

text \<open>The events of an incident of the scope; no event at all is reported as no incident.\<close>

definition event_rows :: "Scope \<Rightarrow> string \<Rightarrow> Database \<Rightarrow> AlertEvent list" where
  "event_rows scope incidentID d =
     filter (\<lambda>e. AlertEvent_IncidentID e = incidentID \<and> \<not> foreign_event scope e
        \<and> (\<exists>v \<in> set (Db_alert_incidents d). Incident_ID v = incidentID \<and> Incident_Scope v = scope))
       (Db_alert_events d)"

definition pg_ListAlertEvents ::
  "DB_Env \<Rightarrow> AlertEvent sorter \<Rightarrow> (string \<Rightarrow> string \<Rightarrow> bool) \<Rightarrow> Scope \<Rightarrow> string \<Rightarrow> Database \<Rightarrow> AlertEvent list res" where
  "pg_ListAlertEvents env srt col scope incidentID d =
     (case Scope_Validate scope of
        Some e \<Rightarrow> Inl e
      | None \<Rightarrow>
          (case read_only env (query_rows ''query alert events'' ''iterate alert events''
             (\<lambda>d. with_texts [incidentID, Scope_OrganizationID scope, Scope_SiteID scope]
                (Some (srt (by_time_text col AlertEvent_OccurredAt AlertEvent_ID) (event_rows scope incidentID d))))) d of
             Inl e \<Rightarrow> Inl e
           | Inr events \<Rightarrow> if events = [] then Inl ErrAlertNotFound else Inr events))"

section \<open>Nothing is done by halves\<close>

lemma all_or_nothing_after_read:
  assumes "settled m" and "\<And>r. all_or_nothing (g r)"
  shows "all_or_nothing (\<lambda>env d. case read_only env m d of Inl e \<Rightarrow> (Inl e, d) | Inr r \<Rightarrow> g r env d)"
  unfolding all_or_nothing_def
proof (intro allI)
  fix env d
  let ?run = "\<lambda>env d. case read_only env m d of Inl e \<Rightarrow> (Inl e, d) | Inr r \<Rightarrow> g r env d"
  have "read_only env m d = Inr r \<Longrightarrow> read_only healthy m d = Inr r" for r
    using settledD [OF assms(1), of "DB_fails env" 0 d]
    by (cases "m (DB_fails env) 0 d") (auto simp: read_only_def)
  then show "(snd (?run env d) = d \<or> snd (?run env d) = snd (?run healthy d))
      \<and> (isl (fst (?run env d)) \<or> ?run env d = ?run healthy d)"
    using assms(2) unfolding all_or_nothing_def by (cases "read_only env m d") simp_all
qed

lemma all_or_nothing_later:
  assumes "all_or_nothing run"
  shows "all_or_nothing (\<lambda>env. run (env\<lparr>DB_fails := \<lambda>n. DB_fails env (Suc n)\<rparr>))"
proof -
  have same: "healthy\<lparr>DB_fails := \<lambda>n. DB_fails healthy (Suc n)\<rparr> = healthy" by (simp add: healthy_def)
  show ?thesis using assms unfolding all_or_nothing_def same by blast
qed

lemma all_or_nothing_alerting:
  "all_or_nothing (\<lambda>env. pg_CreateAlertRule env scope rule)"
  "all_or_nothing (\<lambda>env. pg_CreateMaintenanceWindow env scope window)"
  "all_or_nothing (\<lambda>env. pg_EnsureIncident env scope incident event)"
  "all_or_nothing (\<lambda>env. pg_ResolveIncident env scope ruleID agentID val message event)"
  "all_or_nothing (\<lambda>env. pg_AcknowledgeIncident env scope i actor tm event)"
proof -
  show "all_or_nothing (\<lambda>env. pg_CreateMaintenanceWindow env scope window)"
    unfolding pg_CreateMaintenanceWindow_def Let_def
    by (intro all_or_nothing_if all_or_nothing_option all_or_nothing_same all_or_nothing_after_read
        all_or_nothing_later [OF all_or_nothing_exec] tx_intros)
qed (unfold pg_CreateAlertRule_def pg_EnsureIncident_def pg_ResolveIncident_def pg_AcknowledgeIncident_def
    insertAlertEvent_def Let_def, (intro all_or_nothing_if all_or_nothing_option all_or_nothing_same all_or_nothing_exec
      all_or_nothing_transaction tx_intros)+)

end
