(* ===== verification/Pg_Cloud.thy ===== *)
theory Pg_Cloud
  imports Pg_Database
begin

text \<open>
  \<open>internal/storage/postgres/cloudinventory.go\<close>: the tables \<open>cloud_accounts\<close> and
  \<open>cloud_instances\<close>. A row of an instance has no name or provider of its account: a query joins
  them. An agent identifier that is empty is stored as NULL and read back as empty.
\<close>

section \<open>Accounts\<close>

definition stored_account :: "Account \<Rightarrow> Account" where
  "stored_account account = account\<lparr>Account_LastSyncAt := map_option truncate_micro (Account_LastSyncAt account),
     Account_CreatedAt := truncate_micro (Account_CreatedAt account)\<rparr>"

definition account_status_listed :: "Account \<Rightarrow> bool" where
  "account_status_listed account \<longleftrightarrow> Account_Status account = AccountPending \<or> Account_Status account = AccountConnected"

definition account_row_ok :: "Account \<Rightarrow> Database \<Rightarrow> bool" where
  "account_row_ok account d \<longleftrightarrow>
     validProvider (AccountRequest_Provider (Account_Request account)) \<and> account_status_listed account
     \<and> site_row (Account_OrganizationID account) (Account_SiteID account) d"

text \<open>The keys: the identifier, and the external account within a site.\<close>

definition account_clash :: "Account \<Rightarrow> Account \<Rightarrow> bool" where
  "account_clash a b \<longleftrightarrow> Account_ID a = Account_ID b
     \<or> Account_OrganizationID a = Account_OrganizationID b \<and> Account_SiteID a = Account_SiteID b
       \<and> AccountRequest_Provider (Account_Request a) = AccountRequest_Provider (Account_Request b)
       \<and> AccountRequest_ExternalID (Account_Request a) = AccountRequest_ExternalID (Account_Request b)"

definition insert_account :: "Account \<Rightarrow> Database \<Rightarrow> Database option" where
  "insert_account account d =
     with_texts [Account_OrganizationID account, Account_SiteID account, Account_ID account,
         AccountRequest_Name (Account_Request account), AccountRequest_Provider (Account_Request account),
         AccountRequest_ExternalID (Account_Request account), Account_Status account]
       (if \<not> account_row_ok account d then None
        else map_option (\<lambda>rows. d\<lparr>Db_cloud_accounts := rows\<rparr>)
          (insert_row account_clash (stored_account account) (Db_cloud_accounts d)))"

definition pg_CreateCloudAccount :: "DB_Env \<Rightarrow> Scope \<Rightarrow> Account \<Rightarrow> Database \<Rightarrow> (unit, Database) op" where
  "pg_CreateCloudAccount env scope account d =
     (case Scope_Validate scope of
        Some e \<Rightarrow> (Inl e, d)
      | None \<Rightarrow>
          if \<not> account_in scope account then (Inl ErrInvalidScope, d)
          else exec_one env ''create cloud account'' (effect (insert_account account)) d)"

definition pg_GetCloudAccount :: "DB_Env \<Rightarrow> Scope \<Rightarrow> string \<Rightarrow> Database \<Rightarrow> Account res" where
  "pg_GetCloudAccount env scope i d =
     (case Scope_Validate scope of
        Some e \<Rightarrow> Inl e
      | None \<Rightarrow>
          (case read_only env (tx_query ''get cloud account''
             (\<lambda>d. with_texts [Scope_OrganizationID scope, Scope_SiteID scope, i]
                (Some (find (\<lambda>a. account_in scope a \<and> Account_ID a = i) (Db_cloud_accounts d))))) d of
             Inl e \<Rightarrow> Inl e
           | Inr None \<Rightarrow> Inl ErrCloudAccountNotFound
           | Inr (Some account) \<Rightarrow> Inr account))"

definition pg_ListCloudAccounts ::
  "DB_Env \<Rightarrow> Account sorter \<Rightarrow> (string \<Rightarrow> string \<Rightarrow> bool) \<Rightarrow> Scope \<Rightarrow> Database \<Rightarrow> Account list res" where
  "pg_ListCloudAccounts env srt col scope d =
     (case Scope_Validate scope of
        Some e \<Rightarrow> Inl e
      | None \<Rightarrow> read_only env (query_rows ''query cloud accounts'' ''iterate cloud accounts''
          (\<lambda>d. with_texts [Scope_OrganizationID scope, Scope_SiteID scope]
             (Some (srt (\<lambda>a b. let name = (\<lambda>v. AccountRequest_Name (Account_Request v)) in
                  col (name a) (name b) \<or> name a = name b \<and> col (Account_ID a) (Account_ID b))
                (filter (account_in scope) (Db_cloud_accounts d)))))) d)"

section \<open>Instances\<close>

definition stored_instance :: "(string \<rightharpoonup> string) \<Rightarrow> Instance \<Rightarrow> Instance" where
  "stored_instance metadata i = i\<lparr>Instance_AccountName := [], Instance_Provider := [],
     Instance_Discovered := (Instance_Discovered i)\<lparr>Discovered_Metadata := metadata\<rparr>,
     Instance_DiscoveredAt := truncate_micro (Instance_DiscoveredAt i)\<rparr>"

definition agent_reference_ok :: "string \<Rightarrow> Database \<Rightarrow> bool" where
  "agent_reference_ok agentID d \<longleftrightarrow> agentID = [] \<or> agentID \<in> Host_AgentID ` set (Db_hosts d)"

definition instance_row_ok :: "Instance \<Rightarrow> Database \<Rightarrow> bool" where
  "instance_row_ok i d \<longleftrightarrow>
     Discovered_OSFamily (Instance_Discovered i) \<in> {''linux'', ''windows'', ''unknown''}
     \<and> (Instance_MatchStatus i = MatchVerified \<or> Instance_MatchStatus i = MatchCandidate
         \<or> Instance_MatchStatus i = MatchUnmatched)
     \<and> Instance_AccountID i \<in> Account_ID ` set (Db_cloud_accounts d)
     \<and> agent_reference_ok (Instance_AgentID i) d \<and> agent_reference_ok (Instance_CandidateAgentID i) d
     \<and> site_row (Instance_OrganizationID i) (Instance_SiteID i) d"

definition instance_texts :: "Instance \<Rightarrow> string list" where
  "instance_texts i = (let v = Instance_Discovered i in
     [Instance_OrganizationID i, Instance_SiteID i, Instance_AccountID i, Discovered_ProviderInstanceID v, Discovered_Name v,
      Discovered_Region v, Discovered_Zone v, Discovered_State v, Discovered_OSFamily v]
     @ Discovered_PrivateIPs v @ Discovered_PublicIPs v
     @ [Discovered_AgentIDHint v, Instance_AgentID i, Instance_CandidateAgentID i, Instance_MatchStatus i, Instance_MatchReason i])"

definition instance_key :: "Instance \<Rightarrow> string \<times> string" where
  "instance_key i = (Instance_AccountID i, Discovered_ProviderInstanceID (Instance_Discovered i))"

text \<open>
  The metadata go through JSON into JSONB and back: \<open>jsonb\<close> is the map that is read back, None
  where PostgreSQL refuses it (a zero character).
\<close>

definition insert_instance ::
  "((string \<rightharpoonup> string) \<Rightarrow> (string \<rightharpoonup> string) option) \<Rightarrow> Instance \<Rightarrow> Database \<Rightarrow> Database option" where
  "insert_instance jsonb i d = with_texts (instance_texts i)
     (case jsonb (Discovered_Metadata (Instance_Discovered i)) of
        None \<Rightarrow> None
      | Some metadata \<Rightarrow>
          if \<not> instance_row_ok i d then None
          else map_option (\<lambda>rows. d\<lparr>Db_cloud_instances := rows\<rparr>)
            (insert_row (\<lambda>a b. instance_key a = instance_key b) (stored_instance metadata i) (Db_cloud_instances d)))"

definition sync_account :: "Scope \<Rightarrow> Account \<Rightarrow> Database \<Rightarrow> (nat \<times> Database) option" where
  "sync_account scope account d =
     (let P = (\<lambda>a. account_in scope a \<and> Account_ID a = Account_ID account) in
      with_texts [Scope_OrganizationID scope, Scope_SiteID scope, Account_Status account, Account_ID account]
        (if affected P (Db_cloud_accounts d) \<noteq> 0 \<and> \<not> account_status_listed account then None
         else Some (affected P (Db_cloud_accounts d), d\<lparr>Db_cloud_accounts := update_rows P
           (\<lambda>a. a\<lparr>Account_Status := Account_Status account,
                 Account_LastSyncAt := map_option truncate_micro (Account_LastSyncAt account)\<rparr>) (Db_cloud_accounts d)\<rparr>)))"

definition pg_ReplaceCloudInstances ::
  "((string \<rightharpoonup> string) \<Rightarrow> (string \<rightharpoonup> string) option) \<Rightarrow> DB_Env \<Rightarrow> Scope \<Rightarrow> Account \<Rightarrow> Instance list \<Rightarrow> Database
   \<Rightarrow> (unit, Database) op" where
  "pg_ReplaceCloudInstances jsonb env scope account instances d =
     (case Scope_Validate scope of
        Some e \<Rightarrow> (Inl e, d)
      | None \<Rightarrow>
          if \<not> account_in scope account then (Inl ErrInvalidScope, d)
          else if \<exists>i \<in> set instances. \<not> instance_in scope i \<or> Instance_AccountID i \<noteq> Account_ID account
          then (Inl ErrInvalidScope, d)
          else transaction env ''begin cloud reconciliation''
            (tx_bind (tx_stmt ''update cloud account sync'' (sync_account scope account)) (\<lambda>n.
             if n = 0 then tx_fail ErrCloudAccountNotFound
             else
               tx_bind (tx_exec ''replace cloud instances''
                 (\<lambda>d. Some (d\<lparr>Db_cloud_instances := delete_rows
                    (\<lambda>i. instance_in scope i \<and> Instance_AccountID i = Account_ID account) (Db_cloud_instances d)\<rparr>))) (\<lambda>_.
               tx_bind (tx_each (\<lambda>i. tx_exec ''insert cloud instance'' (insert_instance jsonb i)) instances) (\<lambda>_.
               tx_ret (Commit ''commit cloud reconciliation'' ()))))) d)"

definition joined_instance :: "Database \<Rightarrow> Instance \<Rightarrow> Instance option" where
  "joined_instance d i =
     map_option (\<lambda>a. i\<lparr>Instance_AccountName := AccountRequest_Name (Account_Request a),
                       Instance_Provider := AccountRequest_Provider (Account_Request a)\<rparr>)
       (find (\<lambda>a. Account_ID a = Instance_AccountID i \<and> Account_OrganizationID a = Instance_OrganizationID i
                \<and> Account_SiteID a = Instance_SiteID i) (Db_cloud_accounts d))"

definition instance_order :: "(string \<Rightarrow> string \<Rightarrow> bool) \<Rightarrow> Instance \<Rightarrow> Instance \<Rightarrow> bool" where
  "instance_order col a b \<longleftrightarrow>
     (let name = (\<lambda>v. Discovered_Name (Instance_Discovered v));
          provider_id = (\<lambda>v. Discovered_ProviderInstanceID (Instance_Discovered v)) in
      col (Instance_AccountName a) (Instance_AccountName b)
      \<or> Instance_AccountName a = Instance_AccountName b
        \<and> (col (name a) (name b) \<or> name a = name b \<and> col (provider_id a) (provider_id b)))"

definition pg_ListCloudInstances ::
  "DB_Env \<Rightarrow> Instance sorter \<Rightarrow> (string \<Rightarrow> string \<Rightarrow> bool) \<Rightarrow> Scope \<Rightarrow> Database \<Rightarrow> Instance list res" where
  "pg_ListCloudInstances env srt col scope d =
     (case Scope_Validate scope of
        Some e \<Rightarrow> Inl e
      | None \<Rightarrow> read_only env (query_rows ''query cloud instances'' ''iterate cloud instances''
          (\<lambda>d. with_texts [Scope_OrganizationID scope, Scope_SiteID scope]
             (Some (srt (instance_order col)
                (List.map_filter (joined_instance d) (filter (instance_in scope) (Db_cloud_instances d))))))) d)"

section \<open>Nothing is done by halves\<close>

lemma all_or_nothing_cloud:
  "all_or_nothing (\<lambda>env. pg_CreateCloudAccount env scope account)"
  "all_or_nothing (\<lambda>env. pg_ReplaceCloudInstances jsonb env scope account instances)"
  unfolding pg_CreateCloudAccount_def pg_ReplaceCloudInstances_def
  by (intro all_or_nothing_if all_or_nothing_option all_or_nothing_same all_or_nothing_exec
      all_or_nothing_transaction tx_intros)+

end
