(* ===== verification/Pg_Events.thy ===== *)
theory Pg_Events
  imports Pg_Database
begin

text \<open>
  \<open>internal/storage/postgres/audittrail.go\<close> and \<open>activity.go\<close>: the tables \<open>audit_events\<close> and
  \<open>activity_events\<close>. Triggers refuse to change or delete an audit event.
\<close>

section \<open>The audit trail\<close>

definition audit_texts :: "AuditEvent \<Rightarrow> string list" where
  "audit_texts event = [Audit_EventID event, Audit_CorrelationID event, Audit_ActorType event, Audit_ActorID event,
     Audit_SessionOrTokenID event, Audit_OrganizationID event, Audit_SiteID event, Audit_Action event, Audit_Permission event,
     Audit_ResourceType event, Audit_ResourceID event, Audit_Outcome event, Audit_ErrorCode event, Audit_SourceIP event,
     Audit_UserAgent event, Audit_ChangeSummary event]"

definition stored_audit :: "AuditEvent \<Rightarrow> AuditEvent" where
  "stored_audit event = event\<lparr>Audit_OccurredAt := truncate_micro (Audit_OccurredAt event)\<rparr>"

definition insert_audit :: "AuditEvent \<Rightarrow> Database \<Rightarrow> Database option" where
  "insert_audit event d = with_texts (audit_texts event)
     (map_option (\<lambda>rows. d\<lparr>Db_audit_events := rows\<rparr>)
       (insert_row (\<lambda>a b. Audit_EventID a = Audit_EventID b \<and> Audit_OccurredAt a = Audit_OccurredAt b)
          (stored_audit event) (Db_audit_events d)))"

definition pg_RecordAudit :: "DB_Env \<Rightarrow> AuditEvent \<Rightarrow> Database \<Rightarrow> (unit, Database) op" where
  "pg_RecordAudit env event = exec_one env ''record audit event'' (effect (insert_audit event))"

text \<open>The conditions are added to the query for the fields of the filter that are set.\<close>

definition audit_conditions :: "AuditFilter \<Rightarrow> (AuditEvent \<Rightarrow> bool) list" where
  "audit_conditions flt =
     (if AuditFilter_ActorType flt = [] then [] else [\<lambda>e. Audit_ActorType e = AuditFilter_ActorType flt])
     @ (if AuditFilter_ResourceType flt = [] then [] else [\<lambda>e. Audit_ResourceType e = AuditFilter_ResourceType flt])
     @ (if AuditFilter_Outcome flt = [] then [] else [\<lambda>e. Audit_Outcome e = AuditFilter_Outcome flt])
     @ (if AuditFilter_Since flt = 0 then [] else [\<lambda>e. truncate_micro (AuditFilter_Since flt) \<le> Audit_OccurredAt e])
     @ (if AuditFilter_Until flt = 0 then [] else [\<lambda>e. Audit_OccurredAt e \<le> truncate_micro (AuditFilter_Until flt)])"

definition pg_ListAuditTrail ::
  "DB_Env \<Rightarrow> AuditEvent sorter \<Rightarrow> Scope \<Rightarrow> AuditFilter \<Rightarrow> int \<Rightarrow> Database \<Rightarrow> AuditEvent list res" where
  "pg_ListAuditTrail env srt scope flt limit d =
     (case Scope_Validate scope of
        Some e \<Rightarrow> Inl e
      | None \<Rightarrow> read_only env (query_rows ''query audit trail'' ''iterate audit trail''
          (\<lambda>d. with_texts [Scope_OrganizationID scope, Scope_SiteID scope, AuditFilter_ActorType flt,
                 AuditFilter_ResourceType flt, AuditFilter_Outcome flt]
             (limit_rows limit (srt audit_after
                (filter (\<lambda>e. Audit_OrganizationID e = Scope_OrganizationID scope \<and> Audit_SiteID e = Scope_SiteID scope
                     \<and> list_all (\<lambda>P. P e) (audit_conditions flt)) (Db_audit_events d)))))) d)"

section \<open>The activity feed\<close>

definition activity_texts :: "ActivityEvent \<Rightarrow> string list" where
  "activity_texts event = [Activity_OrganizationID event, Activity_SiteID event, Activity_Source event,
     Activity_ReferenceID event, Activity_AgentID event, Activity_Type event, Activity_Actor event, Activity_Message event]"

definition insert_activity :: "ActivityEvent \<Rightarrow> Database \<Rightarrow> Database option" where
  "insert_activity event d = with_texts (activity_texts event)
     (Some (d\<lparr>Db_activity_events := Db_activity_events d
        @ [event\<lparr>Activity_OccurredAt := truncate_micro (Activity_OccurredAt event)\<rparr>]\<rparr>))"

definition pg_RecordActivityEvent :: "DB_Env \<Rightarrow> ActivityEvent \<Rightarrow> Database \<Rightarrow> (unit, Database) op" where
  "pg_RecordActivityEvent env event = exec_one env ''record activity event'' (effect (insert_activity event))"

text \<open>The three parts of the union: events of jobs and of incidents with the agent they concern.\<close>

definition job_part :: "Scope \<Rightarrow> Database \<Rightarrow> ActivityEvent list" where
  "job_part scope d = concat (map (\<lambda>event.
     map (\<lambda>job. job_activity \<lparr>JobEventRecord_Event = event, JobEventRecord_AgentID = Job_AgentID job\<rparr>)
       (filter (\<lambda>job. Job_ID job = JobEvent_JobID event \<and> Job_OrganizationID job = JobEvent_OrganizationID event
                    \<and> Job_SiteID job = JobEvent_SiteID event) (Db_jobs d)))
     (filter (\<lambda>event. JobEvent_OrganizationID event = Scope_OrganizationID scope
                    \<and> JobEvent_SiteID event = Scope_SiteID scope) (Db_job_events d)))"

definition alert_part :: "Scope \<Rightarrow> Database \<Rightarrow> ActivityEvent list" where
  "alert_part scope d = concat (map (\<lambda>event.
     map (\<lambda>incident. alert_activity \<lparr>AlertEventRecord_Event = event, AlertEventRecord_AgentID = Incident_AgentID incident\<rparr>)
       (filter (\<lambda>incident. Incident_ID incident = AlertEvent_IncidentID event
                    \<and> Incident_OrganizationID incident = AlertEvent_OrganizationID event
                    \<and> Incident_SiteID incident = AlertEvent_SiteID event) (Db_alert_incidents d)))
     (filter (\<lambda>event. AlertEvent_OrganizationID event = Scope_OrganizationID scope
                    \<and> AlertEvent_SiteID event = Scope_SiteID scope) (Db_alert_events d)))"

definition activity_row_order :: "(string \<Rightarrow> string \<Rightarrow> bool) \<Rightarrow> ActivityEvent \<Rightarrow> ActivityEvent \<Rightarrow> bool" where
  "activity_row_order col a b \<longleftrightarrow>
     Activity_OccurredAt b < Activity_OccurredAt a
     \<or> Activity_OccurredAt a = Activity_OccurredAt b
       \<and> (col (Activity_Source a) (Activity_Source b)
           \<or> Activity_Source a = Activity_Source b \<and> col (Activity_ReferenceID a) (Activity_ReferenceID b))"

definition pg_ListActivityEvents ::
  "DB_Env \<Rightarrow> ActivityEvent sorter \<Rightarrow> (string \<Rightarrow> string \<Rightarrow> bool) \<Rightarrow> Scope \<Rightarrow> int \<Rightarrow> Database \<Rightarrow> ActivityEvent list res" where
  "pg_ListActivityEvents env srt col scope limit d =
     (case Scope_Validate scope of
        Some e \<Rightarrow> Inl e
      | None \<Rightarrow> read_only env (query_rows ''query activity events'' ''iterate activity events''
          (\<lambda>d. with_texts [Scope_OrganizationID scope, Scope_SiteID scope]
             (limit_rows limit (srt (activity_row_order col)
                (job_part scope d @ alert_part scope d @ filter (activity_in scope) (Db_activity_events d)))))) d)"

section \<open>Nothing is done by halves\<close>

lemma all_or_nothing_events:
  "all_or_nothing (\<lambda>env. pg_RecordAudit env event)"
  "all_or_nothing (\<lambda>env. pg_RecordActivityEvent env activity)"
  unfolding pg_RecordAudit_def pg_RecordActivityEvent_def by (rule all_or_nothing_exec)+

end
