(* ===== verification/Pg_Logs.thy ===== *)
theory Pg_Logs
  imports Pg_Hosts
begin

text \<open>
  \<open>internal/storage/postgres/logstream.go\<close>: the table \<open>log_entries\<close>, and the live streams that
  every replica of the hub feeds from the notifications PostgreSQL sends. A notification is
  sent when the transaction that asked for it commits, so a transaction here works on the
  database with the notifications sent so far.
\<close>

section \<open>Notifications\<close>

definition postgresNotifyPayloadLimit :: nat where "postgresNotifyPayloadLimit = 8000"

record logNotificationIdentity =
  LogIdentity_OrganizationID :: string
  LogIdentity_SiteID :: string
  LogIdentity_ID :: string
  LogIdentity_OccurredAt :: time

definition log_identity :: "LogEntry \<Rightarrow> logNotificationIdentity" where
  "log_identity entry = \<lparr>LogIdentity_OrganizationID = LogEntry_OrganizationID entry, LogIdentity_SiteID = LogEntry_SiteID entry,
     LogIdentity_ID = LogEntry_ID entry, LogIdentity_OccurredAt = truncate_micro (LogEntry_OccurredAt entry)\<rparr>"

text \<open>\<open>json.Marshal\<close> of a list of identities; \<open>enc\<close> encodes a time and fails outside the years 0 to 9999.\<close>

definition identity_json :: "(time \<Rightarrow> string option) \<Rightarrow> logNotificationIdentity \<Rightarrow> string option" where
  "identity_json enc i = map_option (\<lambda>occurredAt. json_object
     [(''organization_id'', json_string (LogIdentity_OrganizationID i)), (''site_id'', json_string (LogIdentity_SiteID i)),
      (''id'', json_string (LogIdentity_ID i)), (''occurred_at'', occurredAt)]) (enc (LogIdentity_OccurredAt i))"

fun marshal_each :: "('a \<Rightarrow> string option) \<Rightarrow> 'a list \<Rightarrow> string list option" where
  "marshal_each f [] = Some []"
| "marshal_each f (x # xs) =
     (case f x of None \<Rightarrow> None | Some s \<Rightarrow> map_option (\<lambda>ss. s # ss) (marshal_each f xs))"

definition marshal_identities :: "(time \<Rightarrow> string option) \<Rightarrow> logNotificationIdentity list \<Rightarrow> string option" where
  "marshal_identities enc ids =
     map_option (\<lambda>ss. ''['' @ join_with '','' ss @ '']'') (marshal_each (identity_json enc) ids)"

text \<open>The loop: as many identities as fit into a payload, then the next payload.\<close>

fun encode_loop ::
  "(logNotificationIdentity list \<Rightarrow> string option) \<Rightarrow> LogEntry list \<Rightarrow> string list \<Rightarrow> logNotificationIdentity list
   \<Rightarrow> string list res" where
  "encode_loop marshal [] payloads current =
     (if current = [] then Inr payloads
      else case marshal current of
          None \<Rightarrow> Inl (ErrOther ''encode live log notification'')
        | Some encoded \<Rightarrow> Inr (payloads @ [encoded]))"
| "encode_loop marshal (entry # entries) payloads current =
     (case marshal (current @ [log_identity entry]) of
        None \<Rightarrow> Inl (ErrOther ''encode live log notification'')
      | Some encoded \<Rightarrow>
          if postgresNotifyPayloadLimit \<le> length encoded then
            if current = [] then Inl (ErrOther ''encode live log notification: log id exceeds PostgreSQL payload limit'')
            else (case marshal current of
                None \<Rightarrow> Inl (ErrOther ''encode live log notification'')
              | Some completed \<Rightarrow> encode_loop marshal entries (payloads @ [completed]) [log_identity entry])
          else encode_loop marshal entries payloads (current @ [log_identity entry]))"

definition encodeLogNotificationBatches :: "(time \<Rightarrow> string option) \<Rightarrow> LogEntry list \<Rightarrow> string list res" where
  "encodeLogNotificationBatches enc entries = encode_loop (marshal_identities enc) entries [] []"

section \<open>Appending\<close>

type_synonym LogBus = "Database \<times> string list"

definition log_row_ok :: "LogEntry \<Rightarrow> bool" where
  "log_row_ok entry \<longleftrightarrow>
     LogEntry_Collector entry \<in> {CollectorJournald, CollectorFile, CollectorWindowsEvent}
     \<and> LogEntry_Severity entry \<in> {LogDebug, LogInfo, LogWarn, LogError, LogCritical}"

definition stored_log :: "LogEntry \<Rightarrow> LogEntry" where
  "stored_log entry = entry\<lparr>LogEntry_OccurredAt := truncate_micro (LogEntry_OccurredAt entry), LogEntry_SourceID := []\<rparr>"

definition log_texts :: "LogEntry \<Rightarrow> string list" where
  "log_texts entry = [LogEntry_OrganizationID entry, LogEntry_SiteID entry, LogEntry_ID entry, LogEntry_AgentID entry,
     LogEntry_Collector entry, LogEntry_Source entry, LogEntry_Severity entry, LogEntry_Message entry]"

text \<open>
  \<open>INSERT ... ON CONFLICT (organization_id,site_id,id,occurred_at) DO NOTHING\<close>, with the number of
  rows it writes.
\<close>

definition insert_log :: "LogEntry \<Rightarrow> LogBus \<Rightarrow> (nat \<times> LogBus) option" where
  "insert_log entry bus = (case bus of (d, sent) \<Rightarrow> with_texts (log_texts entry)
     (if \<not> log_row_ok entry then None
      else if log_key (stored_log entry) \<in> log_key ` set (Db_log_entries d) then Some (0, d, sent)
      else if LogEntry_AgentID entry \<notin> Host_AgentID ` set (Db_hosts d)
              \<or> \<not> site_row (LogEntry_OrganizationID entry) (LogEntry_SiteID entry) d then None
      else Some (1, d\<lparr>Db_log_entries := Db_log_entries d @ [stored_log entry]\<rparr>, sent)))"

text \<open>\<open>pg_notify\<close> refuses a payload of 8000 bytes or more.\<close>

definition pg_notify :: "string \<Rightarrow> LogBus \<Rightarrow> LogBus option" where
  "pg_notify payload bus = (case bus of (d, sent) \<Rightarrow> with_texts [payload]
     (if postgresNotifyPayloadLimit \<le> length payload then None else Some (d, sent @ [payload])))"

definition append_all :: "LogEntry list \<Rightarrow> (LogEntry list, LogBus) tx" where
  "append_all entries =
     tx_bind (tx_each (\<lambda>entry. tx_bind (tx_stmt ''append log entry'' (insert_log entry))
       (\<lambda>n. tx_ret (if n = 1 then [entry] else []))) entries) (\<lambda>stored. tx_ret (concat stored))"

definition pg_AppendLogs ::
  "(time \<Rightarrow> string option) \<Rightarrow> DB_Env \<Rightarrow> LogEntry list \<Rightarrow> LogBus \<Rightarrow> (LogEntry list, LogBus) op" where
  "pg_AppendLogs enc env entries bus =
     (case find (\<lambda>entry. Agent_Validate (log_agent entry) \<noteq> None) entries of
        Some entry \<Rightarrow> (Inl (the (Agent_Validate (log_agent entry))), bus)
      | None \<Rightarrow> transaction env ''begin log batch''
          (tx_bind (append_all entries) (\<lambda>stored.
           case encodeLogNotificationBatches enc stored of
             Inl e \<Rightarrow> tx_fail e
           | Inr payloads \<Rightarrow>
               tx_bind (tx_each (\<lambda>payload. tx_exec ''notify live log batch'' (pg_notify payload)) payloads) (\<lambda>_.
               tx_ret (Commit ''commit log batch'' stored)))) bus)"

section \<open>Live streams\<close>

text \<open>The subscribers of a replica, each a number with the entries that wait in its channel.\<close>

type_synonym LiveSubscribers = "Agent \<Rightarrow> (nat \<rightharpoonup> LogEntry list)"

definition pg_SubscribeLogs :: "nat \<Rightarrow> Scope \<Rightarrow> string \<Rightarrow> LiveSubscribers \<Rightarrow> (nat, LiveSubscribers) op" where
  "pg_SubscribeLogs stream scope agentID live =
     (let key = \<lparr>Agent_ID = agentID, Agent_OrganizationID = Scope_OrganizationID scope, Agent_SiteID = Scope_SiteID scope\<rparr> in
      case Agent_Validate key of
        Some e \<Rightarrow> (Inl e, live)
      | None \<Rightarrow> (Inr stream, live(key := (live key)(stream \<mapsto> []))))"

definition pg_cancel :: "nat \<Rightarrow> Agent \<Rightarrow> LiveSubscribers \<Rightarrow> LiveSubscribers" where
  "pg_cancel stream key live = live(key := (live key)(stream := None))"

definition publishLiveLog :: "LogEntry \<Rightarrow> LiveSubscribers \<Rightarrow> LiveSubscribers" where
  "publishLiveLog entry live =
     live(log_agent entry := (\<lambda>stream. map_option
       (\<lambda>buffer. if length buffer < LiveSubscriberBuffer then buffer @ [entry] else buffer)
       (live (log_agent entry) stream)))"

definition identity_invalid :: "logNotificationIdentity \<Rightarrow> bool" where
  "identity_invalid i \<longleftrightarrow>
     Scope_Validate \<lparr>Scope_OrganizationID = LogIdentity_OrganizationID i, Scope_SiteID = LogIdentity_SiteID i\<rparr> \<noteq> None
     \<or> LogIdentity_ID i = [] \<or> LogIdentity_OccurredAt i = 0"

definition identified_rows ::
  "LogEntry sorter \<Rightarrow> (string \<Rightarrow> string \<Rightarrow> bool) \<Rightarrow> logNotificationIdentity list \<Rightarrow> Database \<Rightarrow> LogEntry list" where
  "identified_rows srt col ids d =
     srt (by_time_text col LogEntry_OccurredAt LogEntry_ID)
       (filter (\<lambda>entry. log_identity entry \<in> set ids) (Db_log_entries d))"

text \<open>
  The rows are published while they are read; row \<open>i\<close> is not read when the connection breaks
  before it (statement number \<open>Suc i\<close>). \<open>decode\<close> is \<open>json.Unmarshal\<close>.
\<close>

definition deliverLogNotification ::
  "(string \<Rightarrow> logNotificationIdentity list option) \<Rightarrow> DB_Env \<Rightarrow> LogEntry sorter \<Rightarrow> (string \<Rightarrow> string \<Rightarrow> bool) \<Rightarrow> Database
   \<Rightarrow> string \<Rightarrow> LiveSubscribers \<Rightarrow> LiveSubscribers" where
  "deliverLogNotification decode env srt col d payload live =
     (if \<forall>key. live key = Map.empty then live
      else case decode payload of
          None \<Rightarrow> live
        | Some ids \<Rightarrow>
            if ids = [] \<or> list_ex identity_invalid ids \<or> DB_fails env 0 then live
            else fold publishLiveLog
              (map snd (takeWhile (\<lambda>(i, _). \<not> DB_fails env (Suc i))
                 (enumerate 0 (identified_rows srt col ids d)))) live)"

text \<open>
  The goroutine that listens: it waits for a notification on its connection, and after an
  error connects again, a second apart, until its context ends. A notification that is sent
  while nothing listens is not received. A connection attempt is the outcome of
  \<open>ConnectConfig\<close> and of \<open>LISTEN\<close>.
\<close>

datatype ListenerEvent = Notification Database DB_Env string | ConnectionLost | ConnectAttempt bool bool

fun runLogListener ::
  "(string \<Rightarrow> logNotificationIdentity list option) \<Rightarrow> LogEntry sorter \<Rightarrow> (string \<Rightarrow> string \<Rightarrow> bool) \<Rightarrow> ListenerEvent list
   \<Rightarrow> bool \<Rightarrow> LiveSubscribers \<Rightarrow> bool \<times> LiveSubscribers" where
  "runLogListener decode srt col [] listening live = (listening, live)"
| "runLogListener decode srt col (Notification d env payload # es) listening live =
     runLogListener decode srt col es listening
       (if listening then deliverLogNotification decode env srt col d payload live else live)"
| "runLogListener decode srt col (ConnectionLost # es) listening live = runLogListener decode srt col es False live"
| "runLogListener decode srt col (ConnectAttempt opens listens # es) listening live =
     runLogListener decode srt col es (listening \<or> opens \<and> listens) live"

section \<open>Searching\<close>

definition pg_log_matches :: "(string \<Rightarrow> string) \<Rightarrow> LogQuery \<Rightarrow> LogEntry \<Rightarrow> bool" where
  "pg_log_matches lower query entry \<longleftrightarrow>
     log_agent entry = query_agent query
     \<and> truncate_micro (LogQuery_From query) \<le> LogEntry_OccurredAt entry
     \<and> LogEntry_OccurredAt entry \<le> truncate_micro (LogQuery_To query)
     \<and> (LogQuery_Collector query = [] \<or> LogEntry_Collector entry = LogQuery_Collector query)
     \<and> (LogQuery_Severity query = [] \<or> LogEntry_Severity entry = LogQuery_Severity query)
     \<and> (LogQuery_Source query = [] \<or> ilike_part lower (LogEntry_Source entry) (LogQuery_Source query))
     \<and> (LogQuery_Text query = [] \<or> ilike_part lower (LogEntry_Message entry) (LogQuery_Text query))"

definition pg_SearchLogs ::
  "(string \<Rightarrow> string) \<Rightarrow> DB_Env \<Rightarrow> LogEntry sorter \<Rightarrow> (string \<Rightarrow> string \<Rightarrow> bool) \<Rightarrow> LogQuery \<Rightarrow> Database \<Rightarrow> LogEntry list res" where
  "pg_SearchLogs lower env srt col query d =
     (case Scope_Validate (LogQuery_Scope query) of
        Some e \<Rightarrow> Inl e
      | None \<Rightarrow> read_only env (query_rows ''query logs'' ''iterate logs''
          (\<lambda>d. with_texts [Scope_OrganizationID (LogQuery_Scope query), Scope_SiteID (LogQuery_Scope query),
                 LogQuery_AgentID query, LogQuery_Collector query, LogQuery_Severity query, LogQuery_Source query,
                 LogQuery_Text query]
             (map_option (srt (by_time_text col LogEntry_OccurredAt LogEntry_ID))
               (limit_rows (LogQuery_Limit query)
                 (srt (\<lambda>a b. by_time_text col LogEntry_OccurredAt LogEntry_ID b a)
                   (filter (pg_log_matches lower query) (Db_log_entries d))))))) d)"

section \<open>Nothing is done by halves\<close>

lemma all_or_nothing_logs: "all_or_nothing (\<lambda>env. pg_AppendLogs enc env entries)"
  unfolding pg_AppendLogs_def append_all_def
  by (intro all_or_nothing_option all_or_nothing_same all_or_nothing_transaction tx_intros)

end
