(* ===== verification/Pg_Calls.thy ===== *)
theory Pg_Calls
  imports Pg_Jobs Pg_Accounts Pg_Enrollment Pg_Identity Pg_Hosts Pg_Alerting Pg_Cloud Pg_Events Pg_Logs
    "HOL-Library.Sublist"
begin

text \<open>
  Every call of \<open>internal/storage/postgres\<close> that writes, on one database with the notifications
  it has sent, and what a history of such calls leaves when any of them may be disturbed.
\<close>

section \<open>The writing calls\<close>

text \<open>
  What is not the source's own: the order in which the server sorts and collates, the lower-case
  form of \<open>lower\<close>, what \<open>jsonb\<close> makes of labels, and how a time is encoded in JSON.
\<close>

record Pg_Server =
  Pg_sort_jobs :: "Job sorter"
  Pg_sort_events :: "JobEvent sorter"
  Pg_collate :: "string \<Rightarrow> string \<Rightarrow> bool"
  Pg_lower :: "string \<Rightarrow> string"
  Pg_jsonb :: "(string \<rightharpoonup> string) \<Rightarrow> (string \<rightharpoonup> string) option"
  Pg_json_time :: "time \<Rightarrow> string option"

datatype Pg_Call =
    PG_CreateSession Session string
  | PG_TouchSession string time
  | PG_RevokeSession string time
  | PG_RevokeAllForUser string time
  | PG_RevokeAllForOrganization string time
  | PG_AssignRole SiteMembership
  | PG_RevokeRole string string
  | PG_CreateAccount ServiceAccount
  | PG_DisableAccount string time
  | PG_CreateToken Token string
  | PG_RevokeToken string time
  | PG_RevokeActiveTokensForAccount string time
  | PG_TouchToken string time string
  | PG_LoadOrCreateEnrollmentAuthority AuthorityState
  | PG_RegisterEnrollmentToken time string Scope
  | PG_ConsumeEnrollmentToken time string string
  | PG_CreateUser User
  | PG_CompleteBootstrap User
  | PG_UpdateUser User
  | PG_SaveInvite Invite string
  | PG_ConsumeInvite string string time
  | PG_ConsumeInviteByID string string time
  | PG_SaveRecoveryCodes string "(entropy \<times> string) list"
  | PG_ConsumeRecoveryCode time string string
  | PG_SaveOIDCConfiguration OIDCConfiguration
  | PG_UpsertHost Host
  | PG_ReplaceServices Scope string "HostService list"
  | PG_AppendSample Sample
  | PG_CreateAlertRule Scope Rule
  | PG_CreateMaintenanceWindow Scope MaintenanceWindow
  | PG_EnsureIncident Scope Incident AlertEvent
  | PG_ResolveIncident Scope string string f64 string AlertEvent
  | PG_AcknowledgeIncident Scope string string time AlertEvent
  | PG_CreateCloudAccount Scope Account
  | PG_ReplaceCloudInstances Scope Account "Instance list"
  | PG_RecordAudit AuditEvent
  | PG_RecordActivityEvent ActivityEvent
  | PG_CreateJob Job JobEvent
  | PG_ClaimNextJob Agent time time
  | PG_RecordJobEvent Agent string EventRequest time
  | PG_AppendLogs "LogEntry list"

datatype Pg_Reply =
    Wrote
  | Gave_Authority AuthorityState
  | Gave_Agent Agent
  | Gave_Code bool
  | Gave_Incident "Incident \<times> bool"
  | Gave_Resolved "Incident option"
  | Gave_Acknowledged Incident
  | Gave_Claim "Job option"
  | Gave_Report "Job \<times> JobEvent"
  | Gave_Logs "LogEntry list"

definition on_bus :: "('a \<Rightarrow> 'b) \<Rightarrow> (DB_Env \<Rightarrow> Database \<Rightarrow> ('a, Database) op) \<Rightarrow> DB_Env \<Rightarrow> LogBus \<Rightarrow> ('b, LogBus) op" where
  "on_bus f run env bus = (case bus of (d, sent) \<Rightarrow>
     (case map_op f (run env d) of (res, d') \<Rightarrow> (res, d', sent)))"

fun pg_write :: "Pg_Server \<Rightarrow> Pg_Call \<Rightarrow> DB_Env \<Rightarrow> LogBus \<Rightarrow> (Pg_Reply, LogBus) op" where
  "pg_write pg (PG_CreateSession a b) = on_bus (\<lambda>_. Wrote) (\<lambda>env. pg_CreateSession env a b)"
| "pg_write pg (PG_TouchSession a b) = on_bus (\<lambda>_. Wrote) (\<lambda>env. pg_TouchSession env a b)"
| "pg_write pg (PG_RevokeSession a b) = on_bus (\<lambda>_. Wrote) (\<lambda>env. pg_RevokeSession env a b)"
| "pg_write pg (PG_RevokeAllForUser a b) = on_bus (\<lambda>_. Wrote) (\<lambda>env. pg_RevokeAllForUser env a b)"
| "pg_write pg (PG_RevokeAllForOrganization a b) = on_bus (\<lambda>_. Wrote) (\<lambda>env. pg_RevokeAllForOrganization env a b)"
| "pg_write pg (PG_AssignRole a) = on_bus (\<lambda>_. Wrote) (\<lambda>env. pg_AssignRole env a)"
| "pg_write pg (PG_RevokeRole a b) = on_bus (\<lambda>_. Wrote) (\<lambda>env. pg_RevokeRole env a b)"
| "pg_write pg (PG_CreateAccount a) = on_bus (\<lambda>_. Wrote) (\<lambda>env. pg_CreateAccount env a)"
| "pg_write pg (PG_DisableAccount a b) = on_bus (\<lambda>_. Wrote) (\<lambda>env. pg_DisableAccount env a b)"
| "pg_write pg (PG_CreateToken a b) = on_bus (\<lambda>_. Wrote) (\<lambda>env. pg_CreateToken env a b)"
| "pg_write pg (PG_RevokeToken a b) = on_bus (\<lambda>_. Wrote) (\<lambda>env. pg_RevokeToken env a b)"
| "pg_write pg (PG_RevokeActiveTokensForAccount a b) = on_bus (\<lambda>_. Wrote) (\<lambda>env. pg_RevokeActiveTokensForAccount env a b)"
| "pg_write pg (PG_TouchToken a b c) = on_bus (\<lambda>_. Wrote) (\<lambda>env. pg_TouchToken env a b c)"
| "pg_write pg (PG_LoadOrCreateEnrollmentAuthority a) = on_bus Gave_Authority (\<lambda>env. pg_LoadOrCreateEnrollmentAuthority env a)"
| "pg_write pg (PG_RegisterEnrollmentToken a b c) = on_bus (\<lambda>_. Wrote) (\<lambda>env. pg_RegisterEnrollmentToken env a b c)"
| "pg_write pg (PG_ConsumeEnrollmentToken a b c) = on_bus Gave_Agent (\<lambda>env. pg_ConsumeEnrollmentToken env a b c)"
| "pg_write pg (PG_CreateUser a) = on_bus (\<lambda>_. Wrote) (\<lambda>env. pg_CreateUser env a)"
| "pg_write pg (PG_CompleteBootstrap a) = on_bus (\<lambda>_. Wrote) (\<lambda>env. pg_CompleteBootstrap env a)"
| "pg_write pg (PG_UpdateUser a) = on_bus (\<lambda>_. Wrote) (\<lambda>env. pg_UpdateUser env a)"
| "pg_write pg (PG_SaveInvite a b) = on_bus (\<lambda>_. Wrote) (\<lambda>env. pg_SaveInvite env a b)"
| "pg_write pg (PG_ConsumeInvite a b c) = on_bus (\<lambda>_. Wrote) (\<lambda>env. pg_ConsumeInvite env a b c)"
| "pg_write pg (PG_ConsumeInviteByID a b c) = on_bus (\<lambda>_. Wrote) (\<lambda>env. pg_ConsumeInviteByID env a b c)"
| "pg_write pg (PG_SaveRecoveryCodes a b) = on_bus (\<lambda>_. Wrote) (\<lambda>env. pg_SaveRecoveryCodes env a b)"
| "pg_write pg (PG_ConsumeRecoveryCode a b c) = on_bus Gave_Code (\<lambda>env. pg_ConsumeRecoveryCode env a b c)"
| "pg_write pg (PG_SaveOIDCConfiguration a) = on_bus (\<lambda>_. Wrote) (\<lambda>env. pg_SaveOIDCConfiguration env a)"
| "pg_write pg (PG_UpsertHost a) = on_bus (\<lambda>_. Wrote) (\<lambda>env. pg_UpsertHost (Pg_lower pg) env a)"
| "pg_write pg (PG_ReplaceServices a b c) = on_bus (\<lambda>_. Wrote) (\<lambda>env. pg_ReplaceServices env a b c)"
| "pg_write pg (PG_AppendSample a) = on_bus (\<lambda>_. Wrote) (\<lambda>env. pg_AppendSample env a)"
| "pg_write pg (PG_CreateAlertRule a b) = on_bus (\<lambda>_. Wrote) (\<lambda>env. pg_CreateAlertRule env a b)"
| "pg_write pg (PG_CreateMaintenanceWindow a b) = on_bus (\<lambda>_. Wrote) (\<lambda>env. pg_CreateMaintenanceWindow env a b)"
| "pg_write pg (PG_EnsureIncident a b c) = on_bus Gave_Incident (\<lambda>env. pg_EnsureIncident env a b c)"
| "pg_write pg (PG_ResolveIncident a b c d e f) = on_bus Gave_Resolved (\<lambda>env. pg_ResolveIncident env a b c d e f)"
| "pg_write pg (PG_AcknowledgeIncident a b c d e) = on_bus Gave_Acknowledged (\<lambda>env. pg_AcknowledgeIncident env a b c d e)"
| "pg_write pg (PG_CreateCloudAccount a b) = on_bus (\<lambda>_. Wrote) (\<lambda>env. pg_CreateCloudAccount env a b)"
| "pg_write pg (PG_ReplaceCloudInstances a b c) = on_bus (\<lambda>_. Wrote) (\<lambda>env. pg_ReplaceCloudInstances (Pg_jsonb pg) env a b c)"
| "pg_write pg (PG_RecordAudit a) = on_bus (\<lambda>_. Wrote) (\<lambda>env. pg_RecordAudit env a)"
| "pg_write pg (PG_RecordActivityEvent a) = on_bus (\<lambda>_. Wrote) (\<lambda>env. pg_RecordActivityEvent env a)"
| "pg_write pg (PG_CreateJob a b) = on_bus (\<lambda>_. Wrote) (\<lambda>env. pg_CreateJob env a b)"
| "pg_write pg (PG_ClaimNextJob a b c) =
     on_bus Gave_Claim (\<lambda>env. pg_ClaimNextJob env (Pg_sort_jobs pg) (Pg_sort_events pg) (Pg_collate pg) a b c)"
| "pg_write pg (PG_RecordJobEvent a b c d) = on_bus Gave_Report (\<lambda>env. pg_RecordJobEvent env a b c d)"
| "pg_write pg (PG_AppendLogs a) = (\<lambda>env bus. map_op Gave_Logs (pg_AppendLogs (Pg_json_time pg) env a bus))"

lemma all_or_nothing_on_bus:
  assumes "all_or_nothing run"
  shows "all_or_nothing (on_bus f run)"
  unfolding all_or_nothing_def
proof (intro allI)
  fix env :: DB_Env and bus :: LogBus
  obtain d sent where bus: "bus = (d, sent)" by fastforce
  show "(snd (on_bus f run env bus) = bus \<or> snd (on_bus f run env bus) = snd (on_bus f run healthy bus))
      \<and> (isl (fst (on_bus f run env bus)) \<or> on_bus f run env bus = on_bus f run healthy bus)"
    using all_or_nothing_map [OF assms, of f] unfolding all_or_nothing_def bus on_bus_def
    by (cases "map_op f (run env d)"; cases "map_op f (run healthy d)") (simp, metis fst_conv snd_conv)
qed

lemma all_or_nothing_write: "all_or_nothing (pg_write pg call)"
  by (cases call)
    (simp_all add: all_or_nothing_on_bus all_or_nothing_map all_or_nothing_accounts all_or_nothing_enrollment
      all_or_nothing_identity all_or_nothing_hosts all_or_nothing_alerting all_or_nothing_cloud all_or_nothing_events
      all_or_nothing_jobs all_or_nothing_logs)

section \<open>Histories\<close>

text \<open>Calls one after another, each in surroundings of its own, with their answers.\<close>

fun history :: "('c \<Rightarrow> DB_Env \<Rightarrow> 'd \<Rightarrow> ('a, 'd) op) \<Rightarrow> ('c \<times> DB_Env) list \<Rightarrow> 'd \<Rightarrow> ('c \<times> 'a res) list \<times> 'd" where
  "history run [] d = ([], d)"
| "history run ((c, env) # cs) d =
     (case run c env d of (res, d') \<Rightarrow> (case history run cs d' of (answers, d'') \<Rightarrow> ((c, res) # answers, d'')))"

definition undisturbed :: "'c list \<Rightarrow> ('c \<times> DB_Env) list" where
  "undisturbed cs = map (\<lambda>c. (c, healthy)) cs"

lemma undisturbed_simps [simp]: "undisturbed [] = []" "undisturbed (c # cs) = (c, healthy) # undisturbed cs"
  by (simp_all add: undisturbed_def)

locale atomic_store =
  fixes run :: "'c \<Rightarrow> DB_Env \<Rightarrow> 'd \<Rightarrow> ('a, 'd) op"
  assumes atomic: "all_or_nothing (run c)"
begin

text \<open>The calls that were made, in their order, explain the history.\<close>

lemma history_serial:
  "\<exists>made. subseq made (map fst cs) \<and> snd (history run (undisturbed made) d) = snd (history run cs d)
     \<and> subseq (filter (\<lambda>(c, res). \<not> isl res) (fst (history run cs d))) (fst (history run (undisturbed made) d))"
proof (induction cs arbitrary: d)
  case (Cons x cs)
  obtain c env where x: "x = (c, env)" by fastforce
  obtain res d' where call: "run c env d = (res, d')" by fastforce
  obtain made where made: "subseq made (map fst cs)" "snd (history run (undisturbed made) d') = snd (history run cs d')"
    "subseq (filter (\<lambda>(c, res). \<not> isl res) (fst (history run cs d'))) (fst (history run (undisturbed made) d'))"
    using Cons.IH by blast
  show ?case
  proof (cases "d' = d \<and> isl res")
    case True
    then show ?thesis using made by (intro exI [of _ made]) (simp add: x call case_prod_unfold list_emb_Cons)
  next
    case False
    then obtain r where good: "run c healthy d = (r, d')" "isl res \<or> r = res"
      using all_or_nothingD [OF atomic call] by (metis prod.collapse prod.inject)
    show ?thesis using made good(2) by (intro exI [of _ "c # made"]) (auto simp add: x call good(1) case_prod_unfold list_emb_Cons)
  qed
qed (simp add: exI [of _ "[]"])

end

interpretation pg_writes: atomic_store "pg_write pg" for pg
  by unfold_locales (rule all_or_nothing_write)

text \<open>
  C5. Whatever goes wrong around the writing calls of the store, nothing is done by halves.
  Take any sequence of calls, whatever statements fail, connections break or answers to commits
  are lost. What the database then holds, and what notifications it has sent, is what some of the
  calls leave when made one after another with nothing disturbing them; every call that returned no error
  is among them and got the answer it gets there.
\<close>

theorem pg_atomic:
  "\<exists>made. subseq made (map fst cs)
     \<and> snd (history (pg_write pg) (undisturbed made) bus) = snd (history (pg_write pg) cs bus)
     \<and> subseq (filter (\<lambda>(call, res). \<not> isl res) (fst (history (pg_write pg) cs bus)))
         (fst (history (pg_write pg) (undisturbed made) bus))"
  by (rule pg_writes.history_serial)

end
