(* ===== verification/Pg_Examples.thy ===== *)
theory Pg_Examples
  imports Pg_Database Jobs_Properties
begin

text \<open>A database with one agent and its host, at which the properties of the store are tried.\<close>

definition ex_row_host :: Host where
  "ex_row_host = \<lparr>Host_OrganizationID = DefaultOrganizationID, Host_SiteID = DefaultSiteID, Host_AgentID = ''web-1'',
     Host_Hostname = ''web-1'', Host_OSFamily = ''linux'', Host_OSName = ''Debian'', Host_OSVersion = ''12'',
     Host_Architecture = ''amd64'', Host_KernelVersion = ''6.1'', Host_CPUCores = 4, Host_MemoryBytes = 1024,
     Host_IPAddresses = [''10.0.0.8''], Host_AgentVersion = ''1.0'', Host_FirstSeenAt = 1000, Host_LastSeenAt = 1000,
     Host_Status = []\<rparr>"

definition ex_db :: Database where
  "ex_db = seeded\<lparr>Db_agents := [ex_agent], Db_hosts := [ex_row_host]\<rparr>"

lemma ex_db_tables [simp]:
  "Db_sites ex_db = [DefaultScope]" "Db_agents ex_db = [ex_agent]" "Db_hosts ex_db = [ex_row_host]" "Db_jobs ex_db = []"
  "Db_job_events ex_db = []" "Db_log_entries ex_db = []" "Db_enrollment_tokens ex_db = []"
  "Db_enrollment_authority ex_db = None"
  by (simp_all add: ex_db_def seeded_def)

lemma ex_site [simp]: "site_row DefaultOrganizationID DefaultSiteID ex_db"
  by (simp add: site_row_def DefaultScope_def)

lemma ex_host_fields [simp]:
  "Host_AgentID ex_row_host = ''web-1''" "Host_OrganizationID ex_row_host = DefaultOrganizationID"
  "Host_SiteID ex_row_host = DefaultSiteID"
  by (simp_all add: ex_row_host_def)

lemma ex_text: "list_all (\<lambda>c. byte_in 1 127 c) s \<Longrightarrow> pg_text s = True"
  by (simp add: pg_text_plain)

end
