(* ===== verification/Pg_Schema.thy ===== *)
theory Pg_Schema
  imports Pg_Calls Pg_Examples
begin

text \<open>
  What the services let through fits the tables: the values the normalization of a request can
  give are among those that the CHECK constraints of the migrations list, their numbers fit the
  columns, and the keys of one batch differ.
\<close>

section \<open>Rows one by one\<close>

lemma exec_healthy: "f d = Some d' \<Longrightarrow> exec_one healthy msg (effect f) d = (Inr (), d')"
  by (simp add: exec_one_def effect_def)

lemma query_healthy: "read_only healthy (tx_query msg q) d = Inr a \<longleftrightarrow> q d = Some a"
  by (simp add: read_only_def tx_defs split: option.split)

lemma later_healthy: "healthy\<lparr>DB_fails := \<lambda>n. False\<rparr> = healthy"
  by (simp add: healthy_def)

lemma sint_positive: "w \<noteq> 0 \<Longrightarrow> w \<le> 2 ^ 63 - 1 \<Longrightarrow> 0 < sint w" "w \<le> 2 ^ 63 - 1 \<Longrightarrow> 0 \<le> sint w" for w :: "64 word"
proof -
  have "- (2 ^ 63) \<le> uint w" by (rule order_trans [OF _ uint_ge_0]) simp
  then have same: "w \<le> 2 ^ 63 - 1 \<Longrightarrow> sint w = uint w"
    by (simp add: sint_uint word_le_def signed_take_bit_int_eq_self_iff)
  then show "w \<le> 2 ^ 63 - 1 \<Longrightarrow> 0 \<le> sint w" by simp
  show "0 < sint w" if "w \<noteq> 0" "w \<le> 2 ^ 63 - 1"
    using same [OF that(2)] that(1) by (simp add: uint_0_iff order_less_le)
qed

lemma host_row_agent: "host_row organizationID siteID agentID d \<noteq> None \<Longrightarrow> agentID \<in> Host_AgentID ` set (Db_hosts d)"
  by (auto simp: host_row_def find_None_iff)

lemma valid_rule_row: "validRule request \<Longrightarrow> rule_row_ok (new_rule scope i request now)"
  by (auto simp: validRule_def rule_row_ok_def new_rule_def severity_listed_def int4_def Let_def split: if_splits)

lemma created_rule_accepted:
  assumes "CreateRule r now scope request st = (Inr rule, st')" "scope \<in> set (Db_sites d)"
    and "list_all pg_text (rule_texts rule)" "Rule_ID rule \<notin> Rule_ID ` set (Db_alert_rules d)"
  shows "\<exists>d'. pg_CreateAlertRule healthy scope rule d = (Inr (), d')"
proof -
  obtain request' i where rule: "rule = new_rule scope i request' now" "validRule request'" "valid_scope scope"
    using assms(1) by (auto simp: CreateRule_def Let_def split: option.splits sum.splits if_splits prod.splits)
  have "Rule_OrganizationID rule = Scope_OrganizationID scope" "Rule_SiteID rule = Scope_SiteID scope"
    by (simp_all add: rule(1) new_rule_def)
  then show ?thesis using assms(2-4) rule(3) valid_rule_row [OF rule(2), of scope i now]
    by (auto simp: pg_CreateAlertRule_def exec_one_def effect_def insert_rule_def insert_row_def with_texts_def rule(1)
        site_row_scope stored_rule_def)
qed

lemma created_window_accepted:
  assumes "CreateMaintenance (\<lambda>scope agentID. pg_HasHost healthy scope agentID d) r now scope request st = (Inr window, st')"
    and "scope \<in> set (Db_sites d)"
    and "list_all pg_text [MaintenanceWindow_OrganizationID window, MaintenanceWindow_SiteID window, MaintenanceWindow_ID window,
         MaintenanceRequest_Name (MaintenanceWindow_Request window), MaintenanceRequest_AgentID (MaintenanceWindow_Request window),
         MaintenanceRequest_CreatedBy (MaintenanceWindow_Request window)]"
    and "MaintenanceWindow_ID window \<notin> MaintenanceWindow_ID ` set (Db_maintenance_windows d)"
  shows "\<exists>d'. pg_CreateMaintenanceWindow healthy scope window d = (Inr (), d')"
proof -
  let ?request = "trim_maintenance request"
  obtain i where window: "window = new_window scope i ?request now" "valid_scope scope"
      "MaintenanceRequest_StartsAt ?request < MaintenanceRequest_EndsAt ?request"
      "MaintenanceRequest_AgentID ?request \<noteq> [] \<Longrightarrow> pg_HasHost healthy scope (MaintenanceRequest_AgentID ?request) d = Inr True"
    using assms(1) unfolding CreateMaintenance_def Let_def
    by (auto split: option.splits sum.splits if_splits prod.splits)
  have same: "MaintenanceWindow_OrganizationID window = Scope_OrganizationID scope"
    "MaintenanceWindow_SiteID window = Scope_SiteID scope" "MaintenanceWindow_Request window = ?request"
    by (simp_all add: window(1) new_window_def)
  have "window_row_ok window d"
    using window(3) assms(2)
    by (simp add: window_row_ok_def stored_window_def same trim_maintenance_def truncate_micro_def site_row_scope)
  then have "\<exists>d'. insert_window window d = Some d'"
    using assms(3,4) by (auto simp: insert_window_def insert_row_def with_texts_def stored_window_def)
  then obtain d' where "insert_window window d = Some d'" by blast
  then have "exec_one healthy ''insert maintenance window'' (effect (insert_window window)) d = (Inr (), d')"
    by (rule exec_healthy)
  moreover have "read_only healthy (tx_query ''verify maintenance host'' (host_query scope (MaintenanceRequest_AgentID ?request))) d
      = Inr True" if "MaintenanceRequest_AgentID ?request \<noteq> []"
    using window(2) window(4) [OF that] by (simp add: pg_HasHost_def query_healthy)
  ultimately show ?thesis using window(2)
    by (simp add: pg_CreateMaintenanceWindow_def same later_healthy Let_def)
qed

lemma created_job_accepted:
  assumes "Jobs_Create ed fmt service r now scope agentID request st = (Inr job, st')"
    and "scope \<in> set (Db_sites d)" "host_row (Scope_OrganizationID scope) (Scope_SiteID scope) (trim_space agentID) d \<noteq> None"
    and "list_all pg_text (job_texts job)"
    and "Job_ID job \<notin> Job_ID ` set (Db_jobs d)" "Job_ID job \<notin> JobEvent_JobID ` set (Db_job_events d)"
  shows "\<exists>d'. pg_CreateJob healthy job (approved_event job) d = (Inr (), d')"
proof -
  let ?request = "trim_request request"
  obtain jid where job: "job = sign_job ed fmt service (unsigned_job service jid scope (trim_space agentID) ?request now)"
      "valid_scope scope" "\<not> invalid_request (trim_space agentID) ?request"
    using assms(1) unfolding Jobs_Create_def Let_def
    by (auto split: option.splits sum.splits if_splits prod.splits)
  have fields: "Job_OrganizationID job = Scope_OrganizationID scope" "Job_SiteID job = Scope_SiteID scope"
    "Job_AgentID job = trim_space agentID" "Job_LastSequence job = 0" "Job_Scope job = scope"
    "Job_Action job = ActionServiceRestart \<or> Job_Action job = ActionHostReboot"
    using job(3) by (auto simp: job(1) sign_job_def unsigned_job_def Job_Scope_def invalid_request_def validActionTarget_def)
  obtain host where host: "host_row (Scope_OrganizationID scope) (Scope_SiteID scope) (trim_space agentID) d = Some host"
    using assms(3) by auto
  let ?d = "d\<lparr>Db_jobs := Db_jobs d @ [stored_job job]\<rparr>"
  have texts: "pg_text (Job_ID job)" "pg_text (Scope_OrganizationID scope)" "pg_text (Scope_SiteID scope)"
    "pg_text (trim_space agentID)" "pg_text (Job_Reason job)" "pg_text (Job_ApprovedBy job)"
    using assms(4) by (simp_all add: job_texts_def fields)
  have site: "site_row (Scope_OrganizationID scope) (Scope_SiteID scope) ?d"
    using assms(2) unfolding site_row_scope by simp
  have [simp]: "Job_ID (stored_job job) = Job_ID job" by (simp add: stored_job_def)
  have "insert_job job d = Some ?d"
    using assms(2,4,5) fields host_row_agent [OF assms(3)]
    by (auto simp: insert_job_def insert_row_def with_texts_def job_row_ok_def int4_def site_row_scope stored_job_def)
  moreover have "\<exists>d'. insert_job_event_row (approved_event job) ?d = Some d'"
    using assms(2,6) texts fields site
    by (auto simp: insert_job_event_row_def insert_row_def with_texts_def job_event_row_ok_def job_event_texts_def
        approved_event_def int4_def site stored_job_event_def)
  ultimately show ?thesis using job(2) host texts
    by (auto simp: pg_CreateJob_def transaction_def tx_defs insertJobEvent_def fields approved_event_def Let_def with_texts_def)
qed

lemma reported_host_accepted:
  assumes "Inventory_Report uni parse_ip now agent facts st = (Inr (), st')" "normalize_facts uni parse_ip agent facts now = Inr host"
    and "agent \<in> set (Db_agents d)" "Agent_Scope agent \<in> set (Db_sites d)" "list_all pg_text (host_texts host)"
    and "\<forall>h \<in> set (Db_hosts d). Host_AgentID h = Agent_ID agent \<longrightarrow> Host_Scope h = Agent_Scope agent"
  shows "\<exists>d'. pg_UpsertHost uni healthy host d = (Inr (), d')"
proof -
  have valid: "Host_ValidateStored uni host = None"
    using assms(1,2) by (auto simp: Inventory_Report_def Upsert_def split: option.splits)
  have facts: "\<not> invalid_facts (Host_Hostname host) (Host_OSFamily host) (Host_Architecture host) facts"
    "Host_CPUCores host = Facts_CPUCores facts" "Host_MemoryBytes host = Facts_MemoryBytes facts"
    "Host_Agent host = agent" "Host_AgentID host = Agent_ID agent" "Host_OrganizationID host = Agent_OrganizationID agent"
    "Host_SiteID host = Agent_SiteID agent"
    using assms(2) by (auto simp: normalize_facts_def Let_def Host_Agent_def split: if_splits)
  have "0 < sint (Host_MemoryBytes host)"
    using facts(1) unfolding invalid_facts_def facts(3) by (intro sint_positive) auto
  then have "host_row_ok host"
    using facts(1,2) by (auto simp: host_row_ok_def invalid_facts_def supportedHostOS_def int4_def)
  moreover have "find (\<lambda>a. a = agent) (Db_agents d) \<noteq> None" using assms(3) by (simp add: find_None_iff)
  moreover have "Host_OrganizationID h = Agent_OrganizationID agent \<and> Host_SiteID h = Agent_SiteID agent"
    if "find (\<lambda>h. Host_AgentID h = Agent_ID agent) (Db_hosts d) = Some h" for h
  proof -
    have "h \<in> set (Db_hosts d)" "Host_AgentID h = Agent_ID agent" using that by (auto simp: find_Some_iff)
    then show ?thesis using assms(6) by (auto simp: Host_Scope_def Agent_Scope_def)
  qed
  ultimately show ?thesis using valid assms(4,5) facts(4-)
    by (auto simp: pg_UpsertHost_def upsertHost_def transaction_def tx_defs lock_agent_def upsert_host_def with_texts_def
        host_texts_def site_row_def Agent_Scope_def split: option.split)
qed

lemma reported_sample_accepted:
  assumes "valid_agent agent" "trim_space (Agent_ID agent) = Agent_ID agent" "valid_sample (normalize_sample agent sample)"
    and "Agent_Scope agent \<in> set (Db_sites d)" "Agent_ID agent \<in> Host_AgentID ` set (Db_hosts d)"
    and "list_all pg_text [Agent_OrganizationID agent, Agent_SiteID agent, Agent_ID agent]"
  shows "\<exists>d'. pg_AppendSample healthy (normalize_sample agent sample) d = (Inr (), d')"
proof -
  let ?sample = "normalize_sample agent sample"
  have agent: "sample_agent ?sample = agent" using assms(2) by (simp add: sample_agent_def normalize_sample_def)
  have "sample_row_ok ?sample d"
    using assms(2-5) by (auto simp: sample_row_ok_def valid_sample_def percent_column_def validPercent_def math_MaxInt64_def
        normalize_sample_def site_row_def Agent_Scope_def not_less intro!: sint_positive(2))
  moreover have "list_all pg_text [Sample_OrganizationID ?sample, Sample_SiteID ?sample, Sample_AgentID ?sample]"
    using assms(2,6) by (simp add: normalize_sample_def)
  ultimately have "\<exists>d'. upsert_sample ?sample d = Some d'" by (simp add: upsert_sample_def with_texts_def)
  then obtain d' where "upsert_sample ?sample d = Some d'" by blast
  then have "exec_one healthy ''append telemetry sample'' (effect (upsert_sample ?sample)) d = (Inr (), d')"
    by (rule exec_healthy)
  then show ?thesis using assms(1) agent by (simp add: pg_AppendSample_def)
qed

lemma created_account_accepted:
  assumes "Cloud_CreateAccount r now scope request st = (Inr account, st')" "scope \<in> set (Db_sites d)"
    and "list_all pg_text [Account_OrganizationID account, Account_SiteID account, Account_ID account,
         AccountRequest_Name (Account_Request account), AccountRequest_ExternalID (Account_Request account)]"
    and "\<not> (\<exists>row \<in> set (Db_cloud_accounts d). account_clash account row)"
  shows "\<exists>d'. pg_CreateCloudAccount healthy scope account d = (Inr (), d')"
proof -
  have account: "valid_scope scope" "validProvider (AccountRequest_Provider (Account_Request account))"
    "Account_Status account = AccountPending"
    "Account_OrganizationID account = Scope_OrganizationID scope" "Account_SiteID account = Scope_SiteID scope"
    using assms(1) unfolding Cloud_CreateAccount_def Let_def
    by (auto split: option.splits sum.splits if_splits prod.splits)
  have "pg_text (AccountRequest_Provider (Account_Request account))" "pg_text AccountPending"
    using account(2) by (auto simp: validProvider_def ProviderAWS_def ProviderAzure_def ProviderGCP_def AccountPending_def
        ex_text byte_in_def)
  moreover have "account_clash (stored_account account) row = account_clash account row" for row
    by (simp add: account_clash_def stored_account_def)
  ultimately have "\<exists>d'. insert_account account d = Some d'"
    using account assms(2-4)
    by (auto simp: insert_account_def insert_row_def with_texts_def account_row_ok_def account_status_listed_def site_row_scope)
  then obtain d' where "insert_account account d = Some d'" by blast
  then have "exec_one healthy ''create cloud account'' (effect (insert_account account)) d = (Inr (), d')"
    by (rule exec_healthy)
  then show ?thesis using account by (simp add: pg_CreateCloudAccount_def account_in_def)
qed

section \<open>Batches\<close>

lemma normalized_services:
  assumes "normalize_services uni agent agentID observedAt seen entries = Some services"
  shows "distinct (map HostService_Name services) \<and> HostService_Name ` set services \<inter> seen = {}
    \<and> (\<forall>s \<in> set services. HostService_OrganizationID s = Agent_OrganizationID agent \<and> HostService_SiteID s = Agent_SiteID agent
        \<and> HostService_AgentID s = agentID \<and> HostService_State s \<in> {''running'', ''stopped'', ''failed'', ''unknown''}
        \<and> HostService_StartupType s \<in> {''automatic'', ''manual'', ''disabled'', ''unknown''})"
  using normalize_services_props [OF assms]
  by (auto simp: validNormalizedState_def StateRunning_def StateStopped_def StateFailed_def StateUnknown_def
      StartupAutomatic_def StartupManual_def StartupDisabled_def StartupUnknown_def)

definition service_texts :: "HostService \<Rightarrow> string list" where
  "service_texts s = [HostService_OrganizationID s, HostService_SiteID s, HostService_AgentID s, HostService_Name s,
     HostService_DisplayName s, HostService_State s, HostService_StartupType s]"

lemma insert_services:
  assumes "\<forall>s \<in> set services. service_row_ok s d \<and> list_all pg_text (service_texts s)"
    and "distinct (map service_row_key services)"
    and "service_row_key ` set services \<inter> service_row_key ` set (Db_services d) = {}"
  shows "\<exists>us n' d'. tx_each (\<lambda>s. tx_exec msg (insert_service s)) services (\<lambda>_. False) n d = Inr (us, n', d')"
  using assms
proof (induction services arbitrary: d n)
  case (Cons s services)
  let ?d = "d\<lparr>Db_services := Db_services d @ [stored_service s]\<rparr>"
  have key: "service_row_key (stored_service s) = service_row_key s" by (simp add: service_row_key_def stored_service_def)
  have ins: "insert_service s d = Some ?d"
    using Cons.prems by (auto simp: insert_service_def insert_row_def with_texts_def service_texts_def key)
  have "\<exists>us n' d'. tx_each (\<lambda>s. tx_exec msg (insert_service s)) services (\<lambda>_. False) (Suc n) ?d = Inr (us, n', d')"
  proof (rule Cons.IH)
    show "\<forall>s \<in> set services. service_row_ok s ?d \<and> list_all pg_text (service_texts s)"
      using Cons.prems(1) by (simp add: service_row_ok_def site_row_def)
    show "service_row_key ` set services \<inter> service_row_key ` set (Db_services ?d) = {}"
      using Cons.prems(2,3) by (auto simp: key)
  qed (use Cons.prems(2) in simp)
  then show ?case using ins by (auto simp: tx_defs)
qed (simp add: tx_defs)

lemma reported_services_accepted:
  assumes "valid_agent agent" "normalize_services uni agent (Agent_ID agent) observedAt {} entries = Some services"
    and "Agent_Scope agent \<in> set (Db_sites d)"
    and "host_row (Agent_OrganizationID agent) (Agent_SiteID agent) (Agent_ID agent) d \<noteq> None"
    and "\<forall>s \<in> set services. list_all pg_text (service_texts s)"
    and "list_all pg_text [Agent_OrganizationID agent, Agent_SiteID agent, Agent_ID agent]"
  shows "\<exists>d'. pg_ReplaceServices healthy (Agent_Scope agent) (Agent_ID agent) services d = (Inr (), d')"
proof -
  note services = normalized_services [OF assms(2)]
  let ?d = "d\<lparr>Db_services := delete_rows (\<lambda>s. HostService_Agent s = scope_agent (Agent_Scope agent) (Agent_ID agent)) (Db_services d)\<rparr>"
  have agent: "scope_agent (Agent_Scope agent) (Agent_ID agent) = agent" by (simp add: scope_agent_def Agent_Scope_def)
  obtain host where host: "host_row (Agent_OrganizationID agent) (Agent_SiteID agent) (Agent_ID agent) d = Some host"
    using assms(4) by auto
  have "\<exists>us n' d'. tx_each (\<lambda>s. tx_exec ''insert service snapshot'' (insert_service s)) services (\<lambda>_. False) (Suc (Suc 0)) ?d
      = Inr (us, n', d')"
  proof (rule insert_services)
    show "\<forall>s \<in> set services. service_row_ok s ?d \<and> list_all pg_text (service_texts s)"
      using services assms(3,5) host_row_agent [OF assms(4)] by (simp add: service_row_ok_def site_row_def Agent_Scope_def)
    show "distinct (map service_row_key services)"
      using services by (auto simp: distinct_map service_row_key_def inj_on_def)
    show "service_row_key ` set services \<inter> service_row_key ` set (Db_services ?d) = {}"
      using services by (auto simp: delete_rows_def service_row_key_def HostService_Agent_def scope_agent_def)
  qed
  then show ?thesis using services assms(1,6) host
    by (auto simp: pg_ReplaceServices_def agent transaction_def tx_defs with_texts_def)
qed

lemma normalized_entry:
  assumes "normalize_entry uni agent agentID k candidate = Inr entry"
  shows "log_row_ok entry" "log_agent entry = agent\<lparr>Agent_ID := agentID\<rparr>"
proof -
  have collector: "normalizeCollector uni s = Some c \<Longrightarrow> c \<in> {CollectorJournald, CollectorFile, CollectorWindowsEvent}" for s c
    by (auto simp: normalizeCollector_def Let_def split: if_splits)
  have severity: "normalizeSeverity uni s = Some c \<Longrightarrow> c \<in> {LogDebug, LogInfo, LogWarn, LogError, LogCritical}" for s c
    by (auto simp: normalizeSeverity_def Let_def split: if_splits)
  obtain c v where parts: "normalizeCollector uni (LogEntry_Collector candidate) = Some c"
      "normalizeSeverity uni (LogEntry_Severity candidate) = Some v"
    and entry: "LogEntry_Collector entry = c" "LogEntry_Severity entry = v" "LogEntry_AgentID entry = agentID"
      "LogEntry_OrganizationID entry = Agent_OrganizationID agent" "LogEntry_SiteID entry = Agent_SiteID agent"
    using assms unfolding normalize_entry_def Let_def
    by (auto split: option.splits if_split_asm sum.splits)
  show "log_row_ok entry" using collector [OF parts(1)] severity [OF parts(2)] by (simp add: log_row_ok_def entry)
  show "log_agent entry = agent\<lparr>Agent_ID := agentID\<rparr>" by (simp add: log_agent_def entry)
qed

lemma normalized_log:
  assumes "normalize_batch uni agent agentID r batch = Inr entries" "entry \<in> set entries"
  shows "log_row_ok entry \<and> log_agent entry = agent\<lparr>Agent_ID := agentID\<rparr>"
  using assms
proof (induction batch arbitrary: r entries)
  case (Cons candidate batch)
  obtain e rest where parts: "normalize_entry uni agent agentID (r 0) candidate = Inr e"
      "normalize_batch uni agent agentID (\<lambda>i. r (Suc i)) batch = Inr rest" "entries = e # rest"
    using Cons.prems(1) by (auto split: sum.splits)
  show ?case using Cons.IH [OF parts(2)] normalized_entry [OF parts(1)] Cons.prems(2) parts(3) by auto
qed simp

lemma ingested_logs_accepted:
  assumes "\<forall>entry \<in> set entries. log_row_ok entry \<and> list_all pg_text (log_texts entry)
      \<and> LogEntry_AgentID entry \<in> Host_AgentID ` set (Db_hosts d) \<and> site_row (LogEntry_OrganizationID entry) (LogEntry_SiteID entry) d"
  shows "\<exists>stored n' bus'. append_all entries (\<lambda>_. False) n (d, sent) = Inr (stored, n', bus')"
proof -
  have "\<exists>stored n' bus'. tx_each (\<lambda>entry. tx_bind (tx_stmt ''append log entry'' (insert_log entry))
      (\<lambda>n. tx_ret (if n = 1 then [entry] else []))) entries (\<lambda>_. False) n (d, sent) = Inr (stored, n', bus')"
    using assms
  proof (induction entries arbitrary: d n)
    case (Cons entry entries)
    obtain k d' where ins: "insert_log entry (d, sent) = Some (k, d', sent)" "Db_hosts d' = Db_hosts d" "Db_sites d' = Db_sites d"
    proof (cases "log_key (stored_log entry) \<in> log_key ` set (Db_log_entries d)")
      case True
      then have "insert_log entry (d, sent) = Some (0, d, sent)" using Cons.prems by (simp add: insert_log_def with_texts_def)
      then show thesis using that by blast
    next
      case False
      then have "insert_log entry (d, sent) = Some (1, d\<lparr>Db_log_entries := Db_log_entries d @ [stored_log entry]\<rparr>, sent)"
        using Cons.prems by (simp add: insert_log_def with_texts_def)
      then show thesis by (rule that) simp_all
    qed
    have "\<forall>entry \<in> set entries. log_row_ok entry \<and> list_all pg_text (log_texts entry)
      \<and> LogEntry_AgentID entry \<in> Host_AgentID ` set (Db_hosts d') \<and> site_row (LogEntry_OrganizationID entry) (LogEntry_SiteID entry) d'"
      using Cons.prems by (simp add: ins(2,3) site_row_def)
    from Cons.IH [OF this, of "Suc n"] show ?case using ins(1) by (auto simp: tx_defs)
  qed (simp add: tx_defs)
  then show ?thesis by (auto simp: append_all_def tx_defs)
qed

section \<open>What a service lets through is accepted\<close>

definition window_texts :: "MaintenanceWindow \<Rightarrow> string list" where
  "window_texts window = [MaintenanceWindow_OrganizationID window, MaintenanceWindow_SiteID window, MaintenanceWindow_ID window,
     MaintenanceRequest_Name (MaintenanceWindow_Request window), MaintenanceRequest_AgentID (MaintenanceWindow_Request window),
     MaintenanceRequest_CreatedBy (MaintenanceWindow_Request window)]"

definition account_texts :: "Account \<Rightarrow> string list" where
  "account_texts account = [Account_OrganizationID account, Account_SiteID account, Account_ID account,
     AccountRequest_Name (Account_Request account), AccountRequest_ExternalID (Account_Request account)]"

definition agent_texts :: "Agent \<Rightarrow> string list" where
  "agent_texts agent = [Agent_OrganizationID agent, Agent_SiteID agent, Agent_ID agent]"

text \<open>The store accepts a call: with nothing in its way it returns no error.\<close>

definition accepts :: "Pg_Server \<Rightarrow> Database \<Rightarrow> Pg_Call \<Rightarrow> bool" where
  "accepts pg d call \<longleftrightarrow> (\<exists>reply bus. pg_write pg call healthy (d, []) = (Inr reply, bus))"

lemma acceptsI:
  assumes "pg_write pg call = on_bus (\<lambda>_. Wrote) run" "\<exists>d'. run healthy d = (Inr (), d')"
  shows "accepts pg d call"
  using assms by (auto simp: accepts_def on_bus_def)

lemma rule_accepted:
  assumes "fst (CreateRule r now scope request st) = Inr rule" "scope \<in> set (Db_sites d)" "list_all pg_text (rule_texts rule)"
    and "Rule_ID rule \<notin> Rule_ID ` set (Db_alert_rules d)"
  shows "accepts pg d (PG_CreateAlertRule scope rule)"
  using created_rule_accepted [OF _ assms(2-4)] assms(1) by (intro acceptsI) (auto simp: prod_eq_iff)

lemma window_accepted:
  assumes "fst (CreateMaintenance (\<lambda>scope agentID. pg_HasHost healthy scope agentID d) r now scope request st) = Inr window"
    and "scope \<in> set (Db_sites d)" "list_all pg_text (window_texts window)"
    and "MaintenanceWindow_ID window \<notin> MaintenanceWindow_ID ` set (Db_maintenance_windows d)"
  shows "accepts pg d (PG_CreateMaintenanceWindow scope window)"
  using created_window_accepted [OF _ assms(2) assms(3) [unfolded window_texts_def] assms(4)] assms(1)
  by (intro acceptsI) (auto simp: prod_eq_iff)

lemma job_accepted:
  assumes "fst (Jobs_Create ed fmt service r now scope agentID request st) = Inr job" "scope \<in> set (Db_sites d)"
    and "host_row (Scope_OrganizationID scope) (Scope_SiteID scope) (trim_space agentID) d \<noteq> None"
    and "list_all pg_text (job_texts job)" "Job_ID job \<notin> Job_ID ` set (Db_jobs d) \<union> JobEvent_JobID ` set (Db_job_events d)"
  shows "accepts pg d (PG_CreateJob job (approved_event job))"
  using created_job_accepted [OF _ assms(2-4)] assms(1,5) by (intro acceptsI) (auto simp: prod_eq_iff)

lemma account_accepted:
  assumes "fst (Cloud_CreateAccount r now scope request st) = Inr account" "scope \<in> set (Db_sites d)"
    and "list_all pg_text (account_texts account)" "\<forall>row \<in> set (Db_cloud_accounts d). \<not> account_clash account row"
  shows "accepts pg d (PG_CreateCloudAccount scope account)"
  using created_account_accepted [OF _ assms(2) assms(3) [unfolded account_texts_def]] assms(1,4)
  by (intro acceptsI) (auto simp: prod_eq_iff)

lemma host_accepted:
  assumes "fst (Inventory_Report (Pg_lower pg) parse_ip now agent facts st) = Inr ()"
    and "normalize_facts (Pg_lower pg) parse_ip agent facts now = Inr host" "agent \<in> set (Db_agents d)"
    and "Agent_Scope agent \<in> set (Db_sites d)" "list_all pg_text (host_texts host)"
    and "\<forall>h \<in> set (Db_hosts d). Host_AgentID h = Agent_ID agent \<longrightarrow> Host_Scope h = Agent_Scope agent"
  shows "accepts pg d (PG_UpsertHost host)"
  using reported_host_accepted [OF _ assms(2-6)] assms(1) by (intro acceptsI) (auto simp: prod_eq_iff)

lemma batch_accepted:
  assumes "normalize_batch uni agent (Agent_ID agent) k batch = Inr logs" "\<forall>entry \<in> set logs. list_all pg_text (log_texts entry)"
    and "Agent_Scope agent \<in> set (Db_sites d)" "Agent_ID agent \<in> Host_AgentID ` set (Db_hosts d)"
  shows "\<exists>made. append_all logs (\<lambda>_. False) 0 (d, []) = Inr made"
proof -
  have "log_row_ok entry \<and> LogEntry_AgentID entry = Agent_ID agent
      \<and> LogEntry_OrganizationID entry = Agent_OrganizationID agent \<and> LogEntry_SiteID entry = Agent_SiteID agent"
    if "entry \<in> set logs" for entry
    using normalized_log [OF assms(1) that] by (auto simp: log_agent_def)
  then show ?thesis using ingested_logs_accepted [of logs d 0 "[]"] assms(2-4) by (auto simp: site_row_def Agent_Scope_def)
qed

text \<open>
  C14. The types of the services are the types of the tables. In a database with the site and the
  enrolled agent or the host that a request names, and for texts a TEXT column can hold, nothing that a service has
  validated is refused by a constraint: an alert rule, a maintenance window, a job with its approval event, a cloud
  account, each with a new identifier; the normalized facts of a host; a telemetry sample; a whole snapshot of
  services; a whole batch of log entries.
\<close>

theorem schema_accepts:
  assumes "scope \<in> set (Db_sites d)" "agent \<in> set (Db_agents d)" "Agent_Scope agent = scope" "valid_agent agent"
    and "trim_space (Agent_ID agent) = Agent_ID agent" "list_all pg_text (agent_texts agent)"
    and "host_row (Agent_OrganizationID agent) (Agent_SiteID agent) (Agent_ID agent) d \<noteq> None"
    and "\<forall>h \<in> set (Db_hosts d). Host_AgentID h = Agent_ID agent \<longrightarrow> Host_Scope h = scope"
  shows "(fst (CreateRule r now scope rule_request rules) = Inr rule \<and> list_all pg_text (rule_texts rule)
        \<and> Rule_ID rule \<notin> Rule_ID ` set (Db_alert_rules d) \<longrightarrow> accepts pg d (PG_CreateAlertRule scope rule))
    \<and> (fst (CreateMaintenance (\<lambda>scope agentID. pg_HasHost healthy scope agentID d) r now scope window_request windows) = Inr window
        \<and> list_all pg_text (window_texts window)
        \<and> MaintenanceWindow_ID window \<notin> MaintenanceWindow_ID ` set (Db_maintenance_windows d)
        \<longrightarrow> accepts pg d (PG_CreateMaintenanceWindow scope window))
    \<and> (fst (Jobs_Create ed fmt service r now scope (Agent_ID agent) job_request jobs) = Inr job \<and> list_all pg_text (job_texts job)
        \<and> Job_ID job \<notin> Job_ID ` set (Db_jobs d) \<union> JobEvent_JobID ` set (Db_job_events d)
        \<longrightarrow> accepts pg d (PG_CreateJob job (approved_event job)))
    \<and> (fst (Cloud_CreateAccount r now scope account_request cloud) = Inr account \<and> list_all pg_text (account_texts account)
        \<and> (\<forall>row \<in> set (Db_cloud_accounts d). \<not> account_clash account row) \<longrightarrow> accepts pg d (PG_CreateCloudAccount scope account))
    \<and> (fst (Inventory_Report (Pg_lower pg) parse_ip now agent facts hosts) = Inr ()
        \<and> normalize_facts (Pg_lower pg) parse_ip agent facts now = Inr host \<and> list_all pg_text (host_texts host)
        \<longrightarrow> accepts pg d (PG_UpsertHost host))
    \<and> (valid_sample (normalize_sample agent sample) \<longrightarrow> accepts pg d (PG_AppendSample (normalize_sample agent sample)))
    \<and> (normalize_services uni agent (Agent_ID agent) observedAt {} entries = Some services
        \<and> (\<forall>s \<in> set services. list_all pg_text (service_texts s))
        \<longrightarrow> accepts pg d (PG_ReplaceServices scope (Agent_ID agent) services))
    \<and> (normalize_batch uni agent (Agent_ID agent) k batch = Inr logs \<and> (\<forall>entry \<in> set logs. list_all pg_text (log_texts entry))
        \<longrightarrow> (\<exists>made. append_all logs (\<lambda>_. False) 0 (d, []) = Inr made))"
proof -
  have scope: "Scope_OrganizationID scope = Agent_OrganizationID agent" "Scope_SiteID scope = Agent_SiteID agent"
    using assms(3) by (auto simp: Agent_Scope_def)
  have site: "Agent_Scope agent \<in> set (Db_sites d)" using assms(1,3) by simp
  note known = host_row_agent [OF assms(7)]
  note texts = assms(6) [unfolded agent_texts_def]
  have host: "host_row (Scope_OrganizationID scope) (Scope_SiteID scope) (trim_space (Agent_ID agent)) d \<noteq> None"
    using assms(5,7) scope by simp
  show ?thesis
  proof (intro conjI impI; (elim conjE)?)
    show "valid_sample (normalize_sample agent sample) \<Longrightarrow> accepts pg d (PG_AppendSample (normalize_sample agent sample))"
      using reported_sample_accepted [OF assms(4,5) _ site known texts] by (intro acceptsI) auto
    show "accepts pg d (PG_ReplaceServices scope (Agent_ID agent) services)"
      if "normalize_services uni agent (Agent_ID agent) observedAt {} entries = Some services"
        "\<forall>s \<in> set services. list_all pg_text (service_texts s)"
      using reported_services_accepted [OF assms(4) that(1) site assms(7) that(2) texts] assms(3) by (intro acceptsI) auto
  qed (use rule_accepted window_accepted job_accepted account_accepted host_accepted batch_accepted assms(1,2,3,8) site host known
      in \<open>blast | (simp; fail)\<close>)+
qed

text \<open>Tried at a sample of the agent of the example, with the greatest count a column takes.\<close>

definition ex_pg :: Pg_Server where
  "ex_pg = \<lparr>Pg_sort_jobs = (\<lambda>_ rows. rows), Pg_sort_events = (\<lambda>_ rows. rows), Pg_collate = (<), Pg_lower = id,
     Pg_jsonb = Some, Pg_json_time = (\<lambda>_. None)\<rparr>"

definition ex_reading :: Sample where
  "ex_reading = \<lparr>Sample_OrganizationID = [], Sample_SiteID = [], Sample_AgentID = [], Sample_RecordedAt = 5000, Sample_CPUPercent = Fin 100,
     Sample_MemoryPercent = Fin 40, Sample_DiskPercent = Fin 0, Sample_NetworkRXBytes = 2 ^ 63 - 1, Sample_NetworkTXBytes = 0\<rparr>"

theorem schema_accepts_witness: "accepts ex_pg ex_db (PG_AppendSample (normalize_sample ex_agent ex_reading))"
proof -
  have trim: "trim_space ''web-1'' = ''web-1''" by (rule trim_space_plain) (simp_all add: plain_char_def)
  have "valid_sample (normalize_sample ex_agent ex_reading)"
    by (simp add: valid_sample_def normalize_sample_def ex_reading_def validPercent_def math_MaxInt64_def trim truncate_micro_def)
  moreover have "list_all pg_text (agent_texts ex_agent)"
    by (simp add: agent_texts_def ex_agent_def DefaultOrganizationID_def DefaultSiteID_def ex_text byte_in_def)
  moreover have "host_row (Agent_OrganizationID ex_agent) (Agent_SiteID ex_agent) (Agent_ID ex_agent) ex_db \<noteq> None"
    by (simp add: host_row_def ex_agent_def)
  moreover have "Host_Scope ex_row_host = DefaultScope" by (simp add: Host_Scope_def DefaultScope_def)
  ultimately show ?thesis using schema_accepts [of DefaultScope ex_db ex_agent] trim by simp
qed

end
