(* ===== verification/Pg_Logs_Properties.thy ===== *)
theory Pg_Logs_Properties
  imports Pg_Logs Pg_Examples
begin

text \<open>
  The notifications of \<open>AppendLogs\<close> fit into PostgreSQL's limit and name every stored entry
  once, and a replica that listens gives each of them to the streams of its agent.
\<close>

section \<open>Payloads\<close>

text \<open>
  An entry of the hub: identifiers of at most 128 bytes, which validation sees to, and a time
  that JSON can carry; its encoding has at most 37 bytes in Go.
\<close>

definition notifiable :: "(time \<Rightarrow> string option) \<Rightarrow> LogEntry \<Rightarrow> bool" where
  "notifiable enc entry \<longleftrightarrow>
     length (LogEntry_OrganizationID entry) \<le> 128 \<and> length (LogEntry_SiteID entry) \<le> 128 \<and> length (LogEntry_ID entry) \<le> 128
     \<and> (case enc (truncate_micro (LogEntry_OccurredAt entry)) of None \<Rightarrow> False | Some s \<Rightarrow> length s \<le> 64)"

lemma marshal_single:
  assumes "notifiable enc entry"
  shows "\<exists>s. marshal_identities enc [log_identity entry] = Some s \<and> length s < postgresNotifyPayloadLimit"
proof -
  obtain t where t: "enc (truncate_micro (LogEntry_OccurredAt entry)) = Some t" "length t \<le> 64"
    using assms by (auto simp: notifiable_def split: option.splits)
  let ?fields = "[(''organization_id'', json_string (LogEntry_OrganizationID entry)),
    (''site_id'', json_string (LogEntry_SiteID entry)), (''id'', json_string (LogEntry_ID entry)), (''occurred_at'', t)]"
  have "length (json_object ?fields) < 7000"
    using length_object [of ?fields] t assms length_json_string [of "LogEntry_OrganizationID entry"]
      length_json_string [of "LogEntry_SiteID entry"] length_json_string [of "LogEntry_ID entry"]
      length_json_string [of "''organization_id''"] length_json_string [of "''site_id''"]
      length_json_string [of "''id''"] length_json_string [of "''occurred_at''"]
    by (simp add: notifiable_def)
  then show ?thesis
    using t by (simp add: marshal_identities_def identity_json_def log_identity_def postgresNotifyPayloadLimit_def)
qed

lemma marshal_each_append:
  "marshal_each f (xs @ ys) = (case marshal_each f xs of None \<Rightarrow> None | Some ss \<Rightarrow> map_option ((@) ss) (marshal_each f ys))"
proof (induction xs)
  case (Cons x xs)
  then show ?case by (cases "f x"; cases "marshal_each f xs"; cases "marshal_each f ys") simp_all
qed (cases "marshal_each f ys", simp_all)

lemma marshal_grows:
  assumes "notifiable enc entry" "current \<noteq> [] \<Longrightarrow> marshal_identities enc current \<noteq> None"
  shows "marshal_identities enc (current @ [log_identity entry]) \<noteq> None"
proof -
  obtain s where "identity_json enc (log_identity entry) = Some s"
    using marshal_single [OF assms(1)] by (auto simp: marshal_identities_def split: option.splits)
  then show ?thesis using assms(2)
    by (cases "current = []") (auto simp: marshal_identities_def marshal_each_append split: option.splits)
qed

lemma encode_loop_groups:
  assumes "\<forall>entry \<in> set entries. notifiable enc entry"
    and "current \<noteq> [] \<Longrightarrow> \<exists>s. marshal_identities enc current = Some s \<and> length s < postgresNotifyPayloadLimit"
  shows "\<exists>groups qs. encode_loop (marshal_identities enc) entries payloads current = Inr (payloads @ qs)
    \<and> concat groups = current @ map log_identity entries \<and> [] \<notin> set groups
    \<and> list_all2 (\<lambda>g q. marshal_identities enc g = Some q \<and> length q < postgresNotifyPayloadLimit) groups qs"
  using assms
proof (induction entries arbitrary: payloads current)
  case Nil
  show ?case
  proof (cases "current = []")
    case True
    then show ?thesis by (intro exI [of _ "[]"]) simp
  next
    case False
    then obtain s where "marshal_identities enc current = Some s" "length s < postgresNotifyPayloadLimit"
      using Nil.prems(2) by blast
    then show ?thesis using False by (intro exI [of _ "[current]"] exI [of _ "[s]"]) simp
  qed
next
  case (Cons entry entries)
  let ?i = "log_identity entry"
  have here: "notifiable enc entry" and there: "\<forall>entry \<in> set entries. notifiable enc entry" using Cons.prems(1) by simp_all
  obtain s where s: "marshal_identities enc (current @ [?i]) = Some s"
    using marshal_grows [OF here] Cons.prems(2) by (metis not_None_eq option.distinct(1))
  show ?case
  proof (cases "postgresNotifyPayloadLimit \<le> length s")
    case False
    then have fits: "\<exists>s. marshal_identities enc (current @ [?i]) = Some s \<and> length s < postgresNotifyPayloadLimit"
      using s by auto
    then show ?thesis using Cons.IH [of "current @ [?i]" payloads] there s False by simp
  next
    case True
    then have full: "current \<noteq> []" using s marshal_single [OF here] by auto
    then obtain c where c: "marshal_identities enc current = Some c" "length c < postgresNotifyPayloadLimit"
      using Cons.prems(2) by blast
    obtain groups qs where IH:
      "encode_loop (marshal_identities enc) entries (payloads @ [c]) [?i] = Inr ((payloads @ [c]) @ qs)"
      "concat groups = [?i] @ map log_identity entries" "[] \<notin> set groups"
      "list_all2 (\<lambda>g q. marshal_identities enc g = Some q \<and> length q < postgresNotifyPayloadLimit) groups qs"
      using Cons.IH [of "[?i]" "payloads @ [c]"] there marshal_single [OF here] by blast
    show ?thesis using IH c full s True
      by (intro exI [of _ "current # groups"] exI [of _ "c # qs"]) simp
  qed
qed

lemma notification_groups:
  assumes "\<forall>entry \<in> set entries. notifiable enc entry"
  shows "\<exists>groups payloads. encodeLogNotificationBatches enc entries = Inr payloads
    \<and> concat groups = map log_identity entries \<and> [] \<notin> set groups
    \<and> list_all2 (\<lambda>g q. marshal_identities enc g = Some q \<and> length q < postgresNotifyPayloadLimit) groups payloads"
  using encode_loop_groups [OF assms, of "[]" "[]"] by (simp add: encodeLogNotificationBatches_def)

section \<open>What a batch stores\<close>

lemma stored_identity [simp]: "log_identity (stored_log entry) = log_identity entry"
  by (simp add: log_identity_def stored_log_def)

lemma stored_agent [simp]: "log_agent (stored_log entry) = log_agent entry"
  by (simp add: log_agent_def stored_log_def)

lemma key_identity: "log_key (stored_log a) = log_key (stored_log b) \<longleftrightarrow> log_identity a = log_identity b"
  by (auto simp: log_key_def log_identity_def stored_log_def)

text \<open>The rows of the table: as the statements store them, and one per key.\<close>

definition log_rows_ok :: "LogEntry list \<Rightarrow> bool" where
  "log_rows_ok rows \<longleftrightarrow> (\<forall>row \<in> set rows. stored_log row = row) \<and> distinct (map log_identity rows)"

lemma insert_log_cases:
  assumes "insert_log entry (d, sent) = Some (n, bus')" "log_rows_ok (Db_log_entries d)"
  shows "bus' = (d\<lparr>Db_log_entries := Db_log_entries d @ map stored_log (if n = 1 then [entry] else [])\<rparr>, sent)"
    and "log_rows_ok (Db_log_entries (fst bus'))"
proof -
  have old: "log_key (stored_log entry) \<in> log_key ` set (Db_log_entries d)
      \<longleftrightarrow> log_identity entry \<in> log_identity ` set (Db_log_entries d)"
    using assms(2) key_identity unfolding log_rows_ok_def by (auto simp: image_iff) metis+
  show "bus' = (d\<lparr>Db_log_entries := Db_log_entries d @ map stored_log (if n = 1 then [entry] else [])\<rparr>, sent)"
    using assms(1) by (auto simp: insert_log_def with_texts_Some split: if_splits)
  then show "log_rows_ok (Db_log_entries (fst bus'))"
    using assms old by (auto simp: insert_log_def with_texts_Some log_rows_ok_def split: if_splits)
      (auto simp: stored_log_def)
qed

lemma append_all_stored:
  assumes "append_all entries (\<lambda>_. False) n (d, sent) = Inr (stored, n', bus')" "log_rows_ok (Db_log_entries d)"
  shows "bus' = (d\<lparr>Db_log_entries := Db_log_entries d @ map stored_log stored\<rparr>, sent)
    \<and> log_rows_ok (Db_log_entries (fst bus')) \<and> set stored \<subseteq> set entries"
  using assms
proof (induction entries arbitrary: n n' d stored)
  case (Cons entry entries)
  let ?body = "\<lambda>entry. tx_bind (tx_stmt ''append log entry'' (insert_log entry)) (\<lambda>n. tx_ret (if n = 1 then [entry] else []))"
  obtain k d1 s1 rest m where step: "insert_log entry (d, sent) = Some (k, d1, s1)"
    and rest: "tx_each ?body entries (\<lambda>_. False) (Suc n) (d1, s1) = Inr (rest, m, bus')"
    and stored: "stored = (if k = 1 then [entry] else []) @ concat rest"
    using Cons.prems(1) by (auto simp: append_all_def tx_defs split: sum.splits option.splits)
  note one = insert_log_cases [OF step Cons.prems(2)]
  have "append_all entries (\<lambda>_. False) (Suc n) (d1, sent) = Inr (concat rest, m, bus')"
    using rest one(1) by (simp add: append_all_def tx_bind_def tx_ret_def)
  then have "bus' = (d1\<lparr>Db_log_entries := Db_log_entries d1 @ map stored_log (concat rest)\<rparr>, sent)
      \<and> log_rows_ok (Db_log_entries (fst bus')) \<and> set (concat rest) \<subseteq> set entries"
    using one(2) by (intro Cons.IH) simp_all
  then show ?case using one(1) stored by auto
qed (auto simp: append_all_def tx_defs)

lemma notify_all:
  "tx_each (\<lambda>payload. tx_exec msg (pg_notify payload)) payloads (\<lambda>_. False) n (d, sent) = Inr (us, n', bus')
   \<Longrightarrow> bus' = (d, sent @ payloads)"
proof (induction payloads arbitrary: n n' sent us)
  case (Cons p payloads)
  from Cons.prems obtain vs m where
    "tx_each (\<lambda>payload. tx_exec msg (pg_notify payload)) payloads (\<lambda>_. False) (Suc n) (d, sent @ [p]) = Inr (vs, m, bus')"
    by (auto simp: tx_defs pg_notify_def with_texts_def split: sum.splits option.splits if_splits)
  then have "bus' = (d, (sent @ [p]) @ payloads)" by (rule Cons.IH)
  then show ?case by simp
qed (simp add: tx_ret_def)

text \<open>
  A batch that is accepted: its new entries are rows now, and the notifications that go out
  name them.
\<close>

lemma append_accepted:
  assumes "pg_AppendLogs enc env entries (d, sent) = (Inr stored, d', sent')" "log_rows_ok (Db_log_entries d)"
  shows "\<exists>payloads. encodeLogNotificationBatches enc stored = Inr payloads \<and> sent' = sent @ payloads
    \<and> d' = d\<lparr>Db_log_entries := Db_log_entries d @ map stored_log stored\<rparr> \<and> log_rows_ok (Db_log_entries d')
    \<and> set stored \<subseteq> set entries \<and> (\<forall>entry \<in> set entries. valid_agent (log_agent entry))"
proof -
  have good: "pg_AppendLogs enc healthy entries (d, sent) = (Inr stored, d', sent')"
    using all_or_nothingD(2) [OF all_or_nothing_logs assms(1)] by simp
  then have valid: "find (\<lambda>entry. Agent_Validate (log_agent entry) \<noteq> None) entries = None"
    by (auto simp: pg_AppendLogs_def split: option.splits)
  obtain stored1 n1 bus1 where first: "append_all entries (\<lambda>_. False) 0 (d, sent) = Inr (stored1, n1, bus1)"
    using good valid by (cases "append_all entries (\<lambda>_. False) 0 (d, sent)") (auto simp: pg_AppendLogs_def transaction_def tx_bind_def)
  note stored1 = append_all_stored [OF first assms(2)]
  obtain payloads where payloads: "encodeLogNotificationBatches enc stored1 = Inr payloads"
    using good valid first
    by (cases "encodeLogNotificationBatches enc stored1") (auto simp: pg_AppendLogs_def transaction_def tx_bind_def tx_fail_def)
  obtain us n2 bus2 where second:
      "tx_each (\<lambda>payload. tx_exec ''notify live log batch'' (pg_notify payload)) payloads (\<lambda>_. False) n1 bus1 = Inr (us, n2, bus2)"
    using good valid first payloads
    by (cases "tx_each (\<lambda>payload. tx_exec ''notify live log batch'' (pg_notify payload)) payloads (\<lambda>_. False) n1 bus1")
      (auto simp: pg_AppendLogs_def transaction_def tx_bind_def)
  have "stored1 = stored" "bus2 = (d', sent')"
    using good valid first payloads second by (auto simp: pg_AppendLogs_def transaction_def tx_bind_def tx_ret_def)
  moreover obtain d1 where "bus1 = (d1, sent)" "d1 = d\<lparr>Db_log_entries := Db_log_entries d @ map stored_log stored1\<rparr>"
    using stored1 by blast
  moreover have "bus2 = (d1, sent @ payloads)" using notify_all second calculation(3) by metis
  ultimately show ?thesis using stored1 payloads valid by (auto simp: find_None_iff)
qed

section \<open>What a stream receives\<close>

lemma publish_all:
  assumes "live key stream = Some buffer"
    and "length buffer + length (filter (\<lambda>row. log_agent row = key) rows) \<le> LiveSubscriberBuffer"
  shows "fold publishLiveLog rows live key stream = Some (buffer @ filter (\<lambda>row. log_agent row = key) rows)"
  using assms
proof (induction rows arbitrary: live buffer)
  case (Cons row rows)
  show ?case
  proof (cases "log_agent row = key")
    case True
    then have "publishLiveLog row live key stream = Some (buffer @ [row])"
      using Cons.prems by (simp add: publishLiveLog_def)
    then show ?thesis using Cons.IH [of "publishLiveLog row live" "buffer @ [row]"] Cons.prems(2) True by simp
  next
    case False
    then have "publishLiveLog row live key stream = Some buffer" using Cons.prems(1) by (simp add: publishLiveLog_def)
    then show ?thesis using Cons.IH [of "publishLiveLog row live" buffer] Cons.prems(2) False by simp
  qed
qed simp

lemma deliver_healthy:
  assumes "decode payload = Some ids" "ids \<noteq> []" "\<not> list_ex identity_invalid ids" "live key stream = Some buffer"
  shows "deliverLogNotification decode healthy srt col d payload live = fold publishLiveLog (identified_rows srt col ids d) live"
proof -
  have "map snd (takeWhile (\<lambda>(i, _). \<not> DB_fails healthy (Suc i)) (enumerate 0 rows)) = rows" for rows :: "LogEntry list"
    by (simp add: takeWhile_eq_all_conv [THEN iffD2])
  moreover have "(\<forall>key. live key = Map.empty) = False" using assms(4) by (metis option.distinct(1))
  ultimately show ?thesis unfolding deliverLogNotification_def using assms(1-3) by (simp only: if_False) simp
qed

text \<open>The rows a list of groups of identities names, together.\<close>

lemma grouped_rows:
  assumes "slice_sort srt" "distinct (concat groups)"
  shows "mset (concat (map (\<lambda>g. identified_rows srt col g d) groups))
       = mset (filter (\<lambda>row. log_identity row \<in> set (concat groups)) (Db_log_entries d))"
  using assms(2)
proof (induction groups)
  case (Cons g groups)
  have "mset (identified_rows srt col g d) = mset (filter (\<lambda>row. log_identity row \<in> set g) (Db_log_entries d))"
    by (simp add: identified_rows_def slice_sort.mset_srt [OF assms(1)])
  moreover have "filter_mset (\<lambda>row. log_identity row \<in> set g \<or> log_identity row \<in> set (concat groups)) M
      = filter_mset (\<lambda>row. log_identity row \<in> set g) M + filter_mset (\<lambda>row. log_identity row \<in> set (concat groups)) M" for M
    using Cons.prems by (induction M) auto
  ultimately show ?case using Cons by (simp add: Un_iff)
qed simp

lemma new_rows:
  assumes "log_rows_ok (rows @ map stored_log stored @ later)"
  shows "filter (\<lambda>row. log_identity row \<in> log_identity ` set stored) (rows @ map stored_log stored @ later) = map stored_log stored"
proof -
  have "filter (\<lambda>row. log_identity row \<in> log_identity ` set stored) rows = []"
    "filter (\<lambda>row. log_identity row \<in> log_identity ` set stored) later = []"
    using assms by (force simp: log_rows_ok_def filter_empty_conv)+
  moreover have "filter (\<lambda>row. log_identity row \<in> log_identity ` set stored) (map stored_log stored) = map stored_log stored"
    by (auto simp: filter_id_conv)
  ultimately show ?thesis by simp
qed

lemma valid_identity:
  assumes "valid_agent (log_agent entry)" "LogEntry_ID entry \<noteq> []" "truncate_micro (LogEntry_OccurredAt entry) \<noteq> 0"
  shows "\<not> identity_invalid (log_identity entry)"
  using assms by (auto simp: identity_invalid_def log_identity_def Agent_Validate_def Agent_Scope_def log_agent_def split: if_splits)

text \<open>The notifications of a batch, one after another, at a replica that listens.\<close>

lemma listener_delivers:
  assumes groups: "list_all2 (\<lambda>g q. decode q = Some g \<and> g \<noteq> [] \<and> \<not> list_ex identity_invalid g) groups payloads"
    and room: "live key stream = Some buffer"
      "length buffer + length (filter (\<lambda>row. log_agent row = key) (concat (map (\<lambda>g. identified_rows srt col g d) groups)))
         \<le> LiveSubscriberBuffer"
  shows "snd (runLogListener decode srt col (map (Notification d healthy) payloads) True live) key stream
       = Some (buffer @ filter (\<lambda>row. log_agent row = key) (concat (map (\<lambda>g. identified_rows srt col g d) groups)))"
  using assms
proof (induction groups payloads arbitrary: live buffer rule: list_all2_induct)
  case (Cons g groups q payloads)
  let ?rows = "identified_rows srt col g d"
  let ?live = "fold publishLiveLog ?rows live"
  have now: "deliverLogNotification decode healthy srt col d q live = ?live"
    using Cons.hyps(1) by (intro deliver_healthy [where key = key and stream = stream and buffer = buffer] Cons.prems(1)) simp_all
  have "?live key stream = Some (buffer @ filter (\<lambda>row. log_agent row = key) ?rows)"
    using Cons.prems(2) by (intro publish_all Cons.prems(1)) simp
  then show ?case using Cons.IH [of ?live] Cons.prems(2) now by simp
qed simp

section \<open>Notifications and their delivery\<close>

text \<open>
  C23. Notifications stay below PostgreSQL's limit. For entries with identifiers of at most 128
  bytes, which the hub's validation guarantees, and times that JSON can carry, whatever JSON has
  to escape: encoding never fails, every payload has less than 8000 bytes, none is empty, and the
  payloads together name every entry once and in order.
\<close>

theorem notification_bounds:
  assumes "\<forall>entry \<in> set entries. notifiable enc entry"
  shows "\<exists>groups payloads. encodeLogNotificationBatches enc entries = Inr payloads
    \<and> concat groups = map log_identity entries \<and> [] \<notin> set groups
    \<and> map (marshal_identities enc) groups = map Some payloads \<and> (\<forall>payload \<in> set payloads. length payload < 8000)"
proof -
  obtain groups payloads where g: "encodeLogNotificationBatches enc entries = Inr payloads"
    "concat groups = map log_identity entries" "[] \<notin> set groups"
    "list_all2 (\<lambda>g q. marshal_identities enc g = Some q \<and> length q < postgresNotifyPayloadLimit) groups payloads"
    using notification_groups [OF assms] by blast
  from g(4) have "map (marshal_identities enc) groups = map Some payloads \<and> (\<forall>payload \<in> set payloads. length payload < 8000)"
    by (induction rule: list_all2_induct) (simp_all add: postgresNotifyPayloadLimit_def)
  with g show ?thesis by blast
qed

text \<open>The listener of another replica reads back what the batches name.\<close>

lemma decoded_groups:
  assumes marshal: "list_all2 (\<lambda>g q. marshal_identities enc g = Some q \<and> P q) groups payloads"
    and groups: "[] \<notin> set groups" "distinct (concat groups)" "concat groups = map log_identity stored"
    and decode: "\<forall>ids s. distinct ids \<longrightarrow> set ids \<subseteq> log_identity ` set stored \<longrightarrow> marshal_identities enc ids = Some s \<longrightarrow> decode s = Some ids"
    and valid: "\<And>entry. entry \<in> set stored \<Longrightarrow> \<not> identity_invalid (log_identity entry)"
  shows "list_all2 (\<lambda>g q. decode q = Some g \<and> g \<noteq> [] \<and> \<not> list_ex identity_invalid g) groups payloads"
proof -
  have "decode q = Some g \<and> g \<noteq> [] \<and> \<not> list_ex identity_invalid g"
    if "g \<in> set groups" "marshal_identities enc g = Some q" for g q
  proof -
    have "set g \<subseteq> set (concat groups)" using that(1) by auto
    then have "set g \<subseteq> log_identity ` set stored" using groups(3) by simp
    moreover have "distinct g" "g \<noteq> []" using that(1) groups(1,2) by (auto simp: distinct_concat_iff)
    ultimately show ?thesis using decode that(2) valid by (auto simp: list_ex_iff)
  qed
  with marshal show ?thesis unfolding list_all2_conv_all_nth by (metis nth_mem)
qed

text \<open>
  C15. A stored log entry reaches the live streams. Let a batch be accepted by any replica, whatever
  else it had to overcome, and let another replica listen and process the notifications of the batch, at a time when
  the table has the rows of the batch and any others. Then a stream that follows an agent and has room receives, in
  addition to what waits in it, every entry of that agent the batch added to the table, once, and nothing else.
  \<open>json.Unmarshal\<close> reads back what \<open>json.Marshal\<close> wrote.
\<close>

theorem live_log_delivery:
  assumes sort: "slice_sort srt"
    and appended: "pg_AppendLogs enc env entries (d, sent) = (Inr stored, d', sent')"
    and rows: "Db_log_entries d'' = Db_log_entries d' @ later" "log_rows_ok (Db_log_entries d'')" "log_rows_ok (Db_log_entries d)"
    and entries: "\<forall>entry \<in> set entries. notifiable enc entry \<and> LogEntry_ID entry \<noteq> []
      \<and> truncate_micro (LogEntry_OccurredAt entry) \<noteq> 0"
    and decode: "\<forall>ids s. distinct ids \<longrightarrow> set ids \<subseteq> log_identity ` set stored \<longrightarrow> marshal_identities enc ids = Some s \<longrightarrow> decode s = Some ids"
    and stream: "live key stream = Some buffer"
      "length buffer + length (filter (\<lambda>entry. log_agent entry = key) stored) \<le> LiveSubscriberBuffer"
  shows "\<exists>payloads received. sent' = sent @ payloads
    \<and> snd (runLogListener decode srt col (map (Notification d'' healthy) payloads) True live) key stream = Some (buffer @ received)
    \<and> mset received = mset (map stored_log (filter (\<lambda>entry. log_agent entry = key) stored))"
proof -
  from append_accepted [OF appended rows(3)] obtain payloads where
    payloads: "encodeLogNotificationBatches enc stored = Inr payloads" "sent' = sent @ payloads"
    and d': "Db_log_entries d' = Db_log_entries d @ map stored_log stored" "log_rows_ok (Db_log_entries d')"
    and stored: "set stored \<subseteq> set entries" "\<forall>entry \<in> set entries. valid_agent (log_agent entry)"
    by auto
  from stored(1) entries have "\<forall>entry \<in> set stored. notifiable enc entry" by blast
  from notification_groups [OF this] obtain groups where
    groups: "concat groups = map log_identity stored" "[] \<notin> set groups"
    and marshal: "list_all2 (\<lambda>g q. marshal_identities enc g = Some q \<and> length q < postgresNotifyPayloadLimit) groups payloads"
    using payloads(1) by auto
  have distinct: "distinct (concat groups)" using d' groups(1) by (auto simp: log_rows_ok_def comp_def)
  have good: "list_all2 (\<lambda>g q. decode q = Some g \<and> g \<noteq> [] \<and> \<not> list_ex identity_invalid g) groups payloads"
    using entries stored by (intro decoded_groups [OF marshal groups(2) distinct groups(1) decode] valid_identity) auto
  let ?rows = "concat (map (\<lambda>g. identified_rows srt col g d'') groups)"
  have "mset ?rows = mset (filter (\<lambda>row. log_identity row \<in> log_identity ` set stored) (Db_log_entries d''))"
    using grouped_rows [OF sort distinct, of col d''] groups(1) by simp
  also have "\<dots> = mset (map stored_log stored)"
    using new_rows [of "Db_log_entries d" stored later] rows d'(1) by simp
  finally have all: "mset (filter (\<lambda>row. log_agent row = key) ?rows)
      = mset (map stored_log (filter (\<lambda>entry. log_agent entry = key) stored))"
    by (metis (mono_tags, lifting) filter_cong filter_map comp_apply mset_filter stored_agent)
  then have "length (filter (\<lambda>row. log_agent row = key) ?rows) = length (filter (\<lambda>entry. log_agent entry = key) stored)"
    by (metis length_map size_mset)
  then have "length buffer + length (filter (\<lambda>row. log_agent row = key) ?rows) \<le> LiveSubscriberBuffer"
    using stream(2) by simp
  with good have "snd (runLogListener decode srt col (map (Notification d'' healthy) payloads) True live) key stream
      = Some (buffer @ filter (\<lambda>row. log_agent row = key) ?rows)"
    by (intro listener_delivers stream(1))
  then show ?thesis using payloads(2) all by blast
qed

text \<open>Tried at one entry of the example's agent and one follower.\<close>

definition ex_log :: LogEntry where
  "ex_log = \<lparr>LogEntry_OrganizationID = DefaultOrganizationID, LogEntry_SiteID = DefaultSiteID, LogEntry_ID = ''a1'',
     LogEntry_AgentID = ''web-1'', LogEntry_OccurredAt = 5000, LogEntry_Collector = CollectorJournald,
     LogEntry_Source = ''sshd'', LogEntry_Severity = LogInfo, LogEntry_Message = ''session opened'', LogEntry_SourceID = []\<rparr>"

definition ex_enc :: "time \<Rightarrow> string option" where "ex_enc t = Some (itoa t)"

lemma ex_log_notifiable: "notifiable ex_enc ex_log"
  by (simp add: notifiable_def ex_log_def ex_enc_def truncate_micro_def itoa_def dec_nat.simps
      DefaultOrganizationID_def DefaultSiteID_def)

theorem notification_bounds_witness:
  "\<exists>groups payloads. encodeLogNotificationBatches ex_enc [ex_log] = Inr payloads
    \<and> concat groups = [log_identity ex_log] \<and> [] \<notin> set groups
    \<and> map (marshal_identities ex_enc) groups = map Some payloads \<and> (\<forall>payload \<in> set payloads. length payload < 8000)"
  using notification_bounds [of "[ex_log]" ex_enc] ex_log_notifiable by simp

definition ex_payload :: string where
  "ex_payload = (case marshal_identities ex_enc [log_identity ex_log] of None \<Rightarrow> [] | Some s \<Rightarrow> s)"

definition ex_decode :: "string \<Rightarrow> logNotificationIdentity list option" where
  "ex_decode s = Some (if s = ''[]'' then [] else [log_identity ex_log])"

lemma ex_marshal: "marshal_identities ex_enc [log_identity ex_log] = Some ex_payload" "ex_payload \<noteq> ''[]''"
    "length ex_payload < 8000" "hd ex_payload = CHR ''[''"
  using marshal_single [OF ex_log_notifiable]
  by (auto simp: ex_payload_def marshal_identities_def identity_json_def ex_enc_def postgresNotifyPayloadLimit_def)

lemma ex_log_texts: "list_all pg_text (log_texts ex_log)"
  by (simp add: log_texts_def ex_log_def DefaultOrganizationID_def DefaultSiteID_def CollectorJournald_def LogInfo_def
      ex_text byte_in_def)

lemma ex_payload_plain: "list_all (\<lambda>c. byte_in 1 127 c) ex_payload"
  by (simp add: ex_payload_def marshal_identities_def identity_json_def ex_enc_def log_identity_def ex_log_def
      json_string_plain json_plain_def json_ascii_def quote_def backslash_def byte_in_def DefaultOrganizationID_def
      DefaultSiteID_def truncate_micro_def itoa_def dec_nat.simps)

lemma ex_append:
  "pg_AppendLogs ex_enc healthy [ex_log] (ex_db, [])
   = (Inr [ex_log], ex_db\<lparr>Db_log_entries := [stored_log ex_log]\<rparr>, [ex_payload])"
proof -
  have agent: "log_agent ex_log = ex_agent" by (simp add: log_agent_def ex_log_def ex_agent_def)
  have inserted: "insert_log ex_log (ex_db, []) = Some (1, ex_db\<lparr>Db_log_entries := [stored_log ex_log]\<rparr>, [])"
    using ex_log_texts
    by (simp add: insert_log_def with_texts_def log_row_ok_def) (simp add: ex_log_def CollectorJournald_def LogInfo_def)
  have "encodeLogNotificationBatches ex_enc [ex_log] = Inr [ex_payload]"
    using ex_marshal by (simp add: encodeLogNotificationBatches_def postgresNotifyPayloadLimit_def)
  moreover have "pg_notify ex_payload (d, sent) = Some (d, sent @ [ex_payload])" for d sent
    using ex_marshal(3) ex_payload_plain
    by (simp add: pg_notify_def with_texts_def postgresNotifyPayloadLimit_def pg_text_plain)
  ultimately show ?thesis
    using inserted
    by (simp add: pg_AppendLogs_def append_all_def transaction_def tx_defs agent)
qed

theorem live_log_delivery_witness:
  "\<exists>received. snd (runLogListener ex_decode insertion_sort (<)
      [Notification (ex_db\<lparr>Db_log_entries := [stored_log ex_log]\<rparr>) healthy ex_payload] True
      (\<lambda>key. if key = ex_agent then [1 \<mapsto> []] else Map.empty)) ex_agent 1 = Some received
    \<and> mset received = {#stored_log ex_log#}"
proof -
  let ?d = "ex_db\<lparr>Db_log_entries := [stored_log ex_log]\<rparr>"
  let ?live = "\<lambda>key. if key = ex_agent then [1 \<mapsto> []] else Map.empty"
  have agent: "log_agent ex_log = ex_agent" by (simp add: log_agent_def ex_log_def ex_agent_def)
  have entries: "\<forall>entry \<in> set [ex_log]. notifiable ex_enc entry \<and> LogEntry_ID entry \<noteq> []
      \<and> truncate_micro (LogEntry_OccurredAt entry) \<noteq> 0"
    using ex_log_notifiable by simp (simp add: ex_log_def truncate_micro_def)
  have decode: "\<forall>ids s. distinct ids \<longrightarrow> set ids \<subseteq> log_identity ` set [ex_log] \<longrightarrow> marshal_identities ex_enc ids = Some s
      \<longrightarrow> ex_decode s = Some ids"
  proof (intro allI impI)
    fix ids s
    assume ids: "distinct ids" "set ids \<subseteq> log_identity ` set [ex_log]" and s: "marshal_identities ex_enc ids = Some s"
    then have "ids = [] \<or> ids = [log_identity ex_log]"
      by (cases ids; cases "tl ids") auto
    then show "ex_decode s = Some ids" using s ex_marshal by (auto simp: ex_decode_def marshal_identities_def)
  qed
  have "\<exists>payloads received. [ex_payload] = [] @ payloads
    \<and> snd (runLogListener ex_decode insertion_sort (<) (map (Notification ?d healthy) payloads) True ?live) ex_agent 1
        = Some ([] @ received)
    \<and> mset received = mset (map stored_log (filter (\<lambda>entry. log_agent entry = ex_agent) [ex_log]))"
    by (rule live_log_delivery [OF insertion.slice_sort_axioms ex_append _ _ _ entries decode, where later = "[]"])
      (simp_all add: log_rows_ok_def stored_log_def LiveSubscriberBuffer_def MaxBatchEntries_def)
  then show ?thesis by (auto simp: agent)
qed

end
