(* ===== verification/Pg_Search.thy ===== *)
theory Pg_Search
  imports Pg_Logs_Properties
begin

text \<open>
  The search for logs in the database is that of the in-memory store, for texts without the
  characters \<open>ILIKE\<close> reads as wildcards.
\<close>

section \<open>ILIKE of a plain text\<close>

definition no_wildcard :: "string \<Rightarrow> bool" where
  "no_wildcard q \<longleftrightarrow> set q \<inter> {CHR ''%'', CHR ''_'', CHR 0x5C} = {}"

lemma like_literal:
  assumes "no_wildcard q"
  shows "like (q @ p) t \<longleftrightarrow> (\<exists>t'. t = q @ t' \<and> like p t')"
  using assms
proof (induction q arbitrary: t)
  case (Cons c q)
  then have IH: "like (q @ p) t \<longleftrightarrow> (\<exists>t'. t = q @ t' \<and> like p t')" for t by (simp add: no_wildcard_def)
  have "c \<noteq> CHR ''%''" "c \<noteq> CHR ''_''" "c \<noteq> CHR 0x5C" using Cons.prems by (auto simp: no_wildcard_def)
  then have "like ((c # q) @ p) t \<longleftrightarrow> t \<noteq> [] \<and> hd t = c \<and> like (q @ p) (tl t)" by (simp add: like.simps(2))
  then show ?case by (cases t) (auto simp: IH)
qed simp

lemma like_any: "like ''%'' t"
proof (induction "length t" arbitrary: t rule: less_induct)
  case less
  show ?case
  proof (cases "t = []")
    case True
    then show ?thesis by (simp add: like.simps(2))
  next
    case False
    then have "length (drop (rune_step t) t) < length t" using rune_step_pos [of t] by (simp add: diff_less)
    from less [OF this] False show ?thesis by (subst like.simps(2)) simp
  qed
qed

lemma like_within: "no_wildcard q \<Longrightarrow> like (q @ ''%'') t \<longleftrightarrow> prefix q t"
  by (auto simp: like_literal like_any prefix_def)

text \<open>A valid text does not start within a character of another.\<close>

lemma cont_range: "byte_in 128 159 b \<Longrightarrow> cont b" "byte_in 160 191 b \<Longrightarrow> cont b" "byte_in 128 143 b \<Longrightarrow> cont b"
    "byte_in 144 191 b \<Longrightarrow> cont b"
  by (simp_all add: byte_in_def)

lemma rune_len_inner:
  assumes "rune_len t = Some n" "0 < k" "k < n"
  shows "\<exists>c s. drop k t = c # s \<and> cont c"
proof -
  consider "n = 1" | b s where "n = 2" "tl t = b # s" "cont b" | b c s where "n = 3" "tl t = b # c # s" "cont b" "cont c"
    | b c d s where "n = 4" "tl t = b # c # d # s" "cont b" "cont c" "cont d"
    using assms(1)
    by (cases t) (auto simp: rune_len.simps dest: cont_range split: if_splits list.splits)
  moreover have "drop k t = drop (k - 1) (tl t)" using assms(2) by (cases t; cases k) simp_all
  moreover have "k - 1 = 0 \<or> k - 1 = 1 \<or> k - 1 = 2" "k - 1 < n - 1" using assms rune_len_bounds [OF assms(1)] by auto
  ultimately show ?thesis using assms(2,3) by cases auto
qed

lemma valid_utf8_head: "valid_utf8 (c # s) \<Longrightarrow> \<not> cont c"
proof
  assume "valid_utf8 (c # s)" "cont c"
  then have "rune_len (c # s) \<noteq> None" by (subst (asm) valid_utf8.simps) (auto split: option.splits)
  then show False using \<open>cont c\<close> by (auto simp: rune_len.simps byte_in_def split: if_splits)
qed

lemma like_part:
  assumes "no_wildcard q" "q \<noteq> []" "valid_utf8 q" "valid_utf8 t"
  shows "like (''%'' @ q @ ''%'') t \<longleftrightarrow> contains t q"
  using assms(4)
proof (induction "length t" arbitrary: t rule: less_induct)
  case less
  obtain c q' where q: "q = c # q'" using assms(2) by (cases q) auto
  show ?case
  proof (cases "t = []")
    case True
    then show ?thesis using assms(1,2) by (auto simp: like.simps(2) like_within contains_def)
  next
    case False
    then obtain n where n: "rune_len t = Some n" "valid_utf8 (drop n t)"
      using less.prems by (subst (asm) valid_utf8.simps) (auto split: option.splits)
    have bounds: "0 < n" "n \<le> length t" using rune_len_bounds [OF n(1)] by auto
    have inner: "sublist q t \<longleftrightarrow> prefix q t \<or> sublist q (drop n t)"
    proof
      assume "sublist q t"
      then obtain ps ss where t: "t = ps @ q @ ss" by (auto simp: sublist_def)
      show "prefix q t \<or> sublist q (drop n t)"
      proof (cases "ps = [] \<or> n \<le> length ps")
        case True
        then have "ps = [] \<or> drop n t = drop n ps @ q @ ss" using t by auto
        then show ?thesis using t by (auto simp: sublist_def)
      next
        case False
        then obtain d s where "drop (length ps) t = d # s" "cont d" using rune_len_inner [OF n(1), of "length ps"] by auto
        then have "cont c" using t q by simp
        then show ?thesis using valid_utf8_head [of c q'] assms(3) q by simp
      qed
    next
      assume "prefix q t \<or> sublist q (drop n t)"
      then show "sublist q t"
      proof
        assume "sublist q (drop n t)"
        then obtain ps ss where "drop n t = ps @ q @ ss" by (auto simp: sublist_def)
        then have "t = (take n t @ ps) @ q @ ss" by (metis append_assoc append_take_drop_id)
        then show ?thesis unfolding sublist_def by blast
      qed (rule prefix_imp_sublist)
    qed
    have "like (''%'' @ q @ ''%'') t \<longleftrightarrow> like (q @ ''%'') t \<or> like (''%'' @ q @ ''%'') (drop n t)"
      using False n(1) by (simp add: like.simps(2) rune_step_def)
    then show ?thesis
      using less.hyps [OF _ n(2)] bounds inner assms(1) by (simp add: like_within contains_def)
  qed
qed

text \<open>What lowering of Unicode does: it works rune by rune, and no letter becomes a wildcard.\<close>

definition rune_wise :: "(string \<Rightarrow> string) \<Rightarrow> bool" where
  "rune_wise uni \<longleftrightarrow>
     (\<forall>s. uni (''%'' @ s @ ''%'') = ''%'' @ uni s @ ''%'')
     \<and> (\<forall>s. valid_utf8 s \<longrightarrow> valid_utf8 (uni s) \<and> (no_wildcard s \<longrightarrow> no_wildcard (uni s)) \<and> (s \<noteq> [] \<longrightarrow> uni s \<noteq> []))"

lemma lower_char_wildcard: "lower_char c \<in> {CHR ''%'', CHR ''_'', CHR 0x5C} \<Longrightarrow> c \<in> {CHR ''%'', CHR ''_'', CHR 0x5C}"
proof -
  assume "lower_char c \<in> {CHR ''%'', CHR ''_'', CHR 0x5C}"
  then have "(of_char (lower_char c) :: nat) \<in> {37, 95, 92}" by auto
  then have "(of_char (lower_char c) :: nat) = of_char c" by (auto simp: of_char_lower_char split: if_splits)
  then show ?thesis using \<open>lower_char c \<in> _\<close> by (metis of_char_eq_iff)
qed

lemma to_lower_part:
  assumes "rune_wise uni"
  shows "to_lower uni (''%'' @ s @ ''%'') = ''%'' @ to_lower uni s @ ''%''"
    and "valid_utf8 s \<Longrightarrow> valid_utf8 (to_lower uni s)"
    and "valid_utf8 s \<Longrightarrow> no_wildcard s \<Longrightarrow> no_wildcard (to_lower uni s)"
    and "valid_utf8 s \<Longrightarrow> s \<noteq> [] \<Longrightarrow> to_lower uni s \<noteq> []"
proof -
  have percent: "is_ascii (''%'' @ s @ ''%'') \<longleftrightarrow> is_ascii s" "lower_char (CHR ''%'') = CHR ''%''"
    by (simp_all add: is_ascii_def lower_char_def)
  then show "to_lower uni (''%'' @ s @ ''%'') = ''%'' @ to_lower uni s @ ''%''"
    using assms by (auto simp: to_lower_def rune_wise_def)
  show "valid_utf8 s \<Longrightarrow> valid_utf8 (to_lower uni s)"
    using assms by (simp add: to_lower_def rune_wise_def valid_utf8_ascii)
  show "valid_utf8 s \<Longrightarrow> s \<noteq> [] \<Longrightarrow> to_lower uni s \<noteq> []"
    using assms by (simp add: to_lower_def rune_wise_def)
  have "no_wildcard (map lower_char s)" if "no_wildcard s"
    using that lower_char_wildcard by (fastforce simp: no_wildcard_def)
  then show "valid_utf8 s \<Longrightarrow> no_wildcard s \<Longrightarrow> no_wildcard (to_lower uni s)"
    using assms by (simp add: to_lower_def rune_wise_def)
qed

text \<open>A database whose locale lowers a text as Go does.\<close>

lemma ilike_part_contains:
  assumes "rune_wise uni" "no_wildcard q" "q \<noteq> []" "valid_utf8 q" "valid_utf8 t"
    and "lower (''%'' @ q @ ''%'') = to_lower uni (''%'' @ q @ ''%'')" "lower t = to_lower uni t"
  shows "ilike_part lower t q \<longleftrightarrow> contains (to_lower uni t) (to_lower uni q)"
  unfolding ilike_part_def ilike_def assms(6,7) to_lower_part(1) [OF assms(1)]
  using assms(2-5) by (intro like_part to_lower_part [OF assms(1)])

section \<open>The same rows in the same order\<close>

definition log_store :: "Database \<Rightarrow> LogStore" where
  "log_store d = (\<lambda>agent. if agent \<in> log_agent ` set (Db_log_entries d)
     then Some (filter (\<lambda>row. log_agent row = agent) (Db_log_entries d)) else None)"

lemma logs_at_store: "logs_at (log_store d) agent = filter (\<lambda>row. log_agent row = agent) (Db_log_entries d)"
  by (auto simp: logs_at_def log_store_def intro!: filter_False [symmetric])

text \<open>
  What the two searches need to agree: no wildcard of \<open>ILIKE\<close> in what is searched for, and a
  locale of the database that lowers the texts compared, patterns and columns, as Go's
  \<open>strings.ToLower\<close> does. Bounds of the time reach PostgreSQL in whole microseconds.
\<close>

definition literal_query :: "LogQuery \<Rightarrow> bool" where
  "literal_query query \<longleftrightarrow> no_wildcard (LogQuery_Source query) \<and> no_wildcard (LogQuery_Text query)"

definition lowers_same :: "(string \<Rightarrow> string) \<Rightarrow> (string \<Rightarrow> string) \<Rightarrow> LogQuery \<Rightarrow> LogEntry set \<Rightarrow> bool" where
  "lowers_same lower uni query rows \<longleftrightarrow>
     (\<forall>s \<in> {''%'' @ LogQuery_Source query @ ''%'', ''%'' @ LogQuery_Text query @ ''%''} \<union> LogEntry_Source ` rows \<union> LogEntry_Message ` rows.
        lower s = to_lower uni s)"

definition query_texts :: "LogQuery \<Rightarrow> string list" where
  "query_texts query = [Scope_OrganizationID (LogQuery_Scope query), Scope_SiteID (LogQuery_Scope query), LogQuery_AgentID query,
     LogQuery_Collector query, LogQuery_Severity query, LogQuery_Source query, LogQuery_Text query]"

definition from_micro :: "LogQuery \<Rightarrow> LogQuery" where
  "from_micro query = query\<lparr>LogQuery_From := truncate_micro (LogQuery_From query)\<rparr>"

lemma truncate_upper:
  assumes "truncate_micro a = a"
  shows "a \<le> truncate_micro b \<longleftrightarrow> a \<le> b"
proof -
  have "a mod 1000 = 0" using assms by (simp add: truncate_micro_def)
  then obtain k where k: "a = 1000 * k" by auto
  define q r where "q = b div 1000" and "r = b mod 1000"
  have b: "b = 1000 * q + r" "0 \<le> r" "r < 1000" by (simp_all add: q_def r_def)
  have "truncate_micro b = 1000 * q" unfolding truncate_micro_def r_def [symmetric] using b(1) by simp
  moreover have "1000 * k \<le> 1000 * q + r \<longleftrightarrow> k \<le> q" using b(2,3) by auto
  ultimately show ?thesis using k b(1) by simp
qed

lemma matches_same:
  assumes "rune_wise uni" "literal_query query" "list_all pg_text (query_texts query)" "lowers_same lower uni query rows"
    and row: "row \<in> rows" "list_all pg_text (log_texts row)" "stored_log row = row"
  shows "pg_log_matches lower query row \<longleftrightarrow> log_agent row = query_agent query \<and> log_matches uni (from_micro query) row"
proof -
  have texts: "valid_utf8 (LogEntry_Source row)" "valid_utf8 (LogEntry_Message row)" "valid_utf8 (LogQuery_Source query)"
    "valid_utf8 (LogQuery_Text query)" "no_wildcard (LogQuery_Source query)" "no_wildcard (LogQuery_Text query)"
    using assms(2,3) row(2) by (simp_all add: literal_query_def query_texts_def pg_text_def log_texts_def)
  have lower: "lower (''%'' @ LogQuery_Source query @ ''%'') = to_lower uni (''%'' @ LogQuery_Source query @ ''%'')"
    "lower (''%'' @ LogQuery_Text query @ ''%'') = to_lower uni (''%'' @ LogQuery_Text query @ ''%'')"
    "lower (LogEntry_Source row) = to_lower uni (LogEntry_Source row)" "lower (LogEntry_Message row) = to_lower uni (LogEntry_Message row)"
    using assms(4) row(1) unfolding lowers_same_def by blast+
  have "ilike_part lower (LogEntry_Source row) (LogQuery_Source query)
      \<longleftrightarrow> contains (to_lower uni (LogEntry_Source row)) (to_lower uni (LogQuery_Source query))" if "LogQuery_Source query \<noteq> []"
    by (rule ilike_part_contains [OF assms(1) texts(5) that texts(3,1) lower(1,3)])
  moreover have "ilike_part lower (LogEntry_Message row) (LogQuery_Text query)
      \<longleftrightarrow> contains (to_lower uni (LogEntry_Message row)) (to_lower uni (LogQuery_Text query))" if "LogQuery_Text query \<noteq> []"
    by (rule ilike_part_contains [OF assms(1) texts(6) that texts(4,2) lower(2,4)])
  moreover have "truncate_micro (LogEntry_OccurredAt row) = LogEntry_OccurredAt row"
    using arg_cong [OF row(3), of LogEntry_OccurredAt] by (simp add: stored_log_def)
  ultimately show ?thesis unfolding pg_log_matches_def log_matches_def from_micro_def
    by (cases "LogQuery_Source query = []"; cases "LogQuery_Text query = []") (simp_all add: not_less conj_ac truncate_upper)
qed

lemma sorted_wrt_distinct: "distinct xs \<Longrightarrow> sorted_wrt P xs \<Longrightarrow> sorted_wrt (\<lambda>a b. a \<noteq> b \<and> P a b) xs"
  by (induction xs) auto

text \<open>\<open>ORDER BY ... DESC LIMIT n\<close>, sorted again, is the end of the sorted rows.\<close>

lemma descending_limit:
  assumes sort: "slice_sort srt" and col: "collation col" and hex: "\<forall>r \<in> set rows. hex32_pattern (LogEntry_ID r)"
    and key: "inj_on (\<lambda>r. (LogEntry_OccurredAt r, LogEntry_ID r)) (set rows)" and "distinct rows"
  shows "srt (by_time_text col LogEntry_OccurredAt LogEntry_ID)
      (take n (srt (\<lambda>a b. by_time_text col LogEntry_OccurredAt LogEntry_ID b a) rows))
    = last_n n (srt log_before rows)"
proof -
  let ?lt = "by_time_text col LogEntry_OccurredAt LogEntry_ID"
  let ?ys = "srt log_before rows"
  have log_order: "weak_order log_before"
    unfolding weak_order_def log_before_def by (auto split: if_splits)
  have set: "set ?ys = set rows" by (rule slice_sort.set_srt [OF sort])
  have before: "?lt a b \<longleftrightarrow> log_before a b" if "a \<in> set rows" "b \<in> set rows" for a b
    using that hex collation_hex [OF col] by (auto simp: by_time_text_def log_before_def)
  have "distinct ?ys" using assms(5) slice_sort.distinct_srt [OF sort] by blast
  moreover have "sorted_wrt (\<lambda>a b. \<not> log_before b a) ?ys" by (rule slice_sort.ordered_srt [OF sort log_order])
  ultimately have "sorted_wrt (\<lambda>a b. a \<noteq> b \<and> \<not> log_before b a) ?ys" by (rule sorted_wrt_distinct)
  then have strict: "sorted_wrt ?lt ?ys"
  proof (rule sorted_wrt_mono_rel [rotated])
    fix a b assume ab: "a \<in> set ?ys" "b \<in> set ?ys" "a \<noteq> b \<and> \<not> log_before b a"
    then have "a \<in> set rows" "b \<in> set rows" unfolding set by simp_all
    then have "(LogEntry_OccurredAt a, LogEntry_ID a) \<noteq> (LogEntry_OccurredAt b, LogEntry_ID b)"
      using inj_onD [OF key, of a b] ab(3) by auto
    then have "log_before a b" using ab(3) by (auto simp: log_before_def split: if_splits)
    then show "?lt a b" using before ab(1,2) set by simp
  qed
  have rev: "srt (\<lambda>a b. ?lt b a) rows = rev ?ys"
    using strict by (intro slice_sort.srt_same [OF sort] weak_order_time_text(2) [OF col])
      (simp_all add: sorted_wrt_rev slice_sort.mset_srt [OF sort])
  have cut: "take n (rev ?ys) = rev (last_n n ?ys)" by (simp add: take_rev last_n_drop)
  have "sorted_wrt ?lt (last_n n ?ys)" unfolding last_n_drop by (rule sorted_wrt_drop [OF strict])
  then show ?thesis
    unfolding rev cut by (intro slice_sort.srt_same [OF sort] weak_order_time_text(1) [OF col]) simp_all
qed

text \<open>
  C22. Searching logs in the database and in memory is the same. For a query without the wildcards of \<open>ILIKE\<close>
  (\<open>%\<close>, \<open>_\<close>, backslash, which the in-memory store takes literally) on a database whose locale lowers the texts
  compared as Go's \<open>strings.ToLower\<close> does (which works rune by rune), PostgreSQL returns exactly the rows, in
  exactly the order and with the same cut to the newest ones, that the in-memory store returns for the
  same entries and the same query with its start cut to whole microseconds, whatever the collation and however either
  sorts, and the same error for an invalid scope. Where a text of the query has a NUL or is not UTF-8, it answers with an error.
\<close>

theorem pg_search_same:
  assumes "slice_sort srt" "collation col" "rune_wise uni" "literal_query query" "0 \<le> LogQuery_Limit query"
    and "lowers_same lower uni query (set (Db_log_entries d))"
    and rows: "log_rows_ok (Db_log_entries d)"
      "\<forall>row \<in> set (Db_log_entries d). hex32_pattern (LogEntry_ID row) \<and> list_all pg_text (log_texts row)"
  shows "if list_all pg_text (query_texts query) \<or> Scope_Validate (LogQuery_Scope query) \<noteq> None
    then pg_SearchLogs lower healthy srt col query d = SearchLogs srt uni (from_micro query) (log_store d)
    else isl (pg_SearchLogs lower healthy srt col query d)"
proof (cases "list_all pg_text (query_texts query) \<and> Scope_Validate (LogQuery_Scope query) = None")
  case True
  let ?rows = "filter (pg_log_matches lower query) (Db_log_entries d)"
  let ?n = "nat (LogQuery_Limit query)"
  have same: "?rows = filter (log_matches uni (from_micro query)) (logs_at (log_store d) (query_agent query))"
    using matches_same [OF assms(3,4) _ assms(6)] True rows by (auto simp: logs_at_store log_rows_ok_def intro!: filter_cong)
  have agent: "log_agent r = query_agent query" if "r \<in> set ?rows" for r
    using that by (simp add: pg_log_matches_def)
  have stored: "distinct (map log_identity ?rows)" "\<forall>r \<in> set ?rows. stored_log r = r"
    using rows(1) by (auto simp: log_rows_ok_def distinct_map_filter)
  have "inj_on (\<lambda>r. (LogEntry_OccurredAt r, LogEntry_ID r)) (set ?rows)"
  proof (rule inj_onI)
    fix a b assume ab: "a \<in> set ?rows" "b \<in> set ?rows"
      "(LogEntry_OccurredAt a, LogEntry_ID a) = (LogEntry_OccurredAt b, LogEntry_ID b)"
    then have "log_agent a = log_agent b" using agent by metis
    then have "log_identity a = log_identity b" using ab(3) by (simp add: log_identity_def log_agent_def)
    then show "a = b" using stored(1) ab(1,2) by (metis distinct_map inj_onD)
  qed
  moreover have "distinct ?rows" using stored(1) by (simp add: distinct_map)
  ultimately have "srt (by_time_text col LogEntry_OccurredAt LogEntry_ID)
      (take ?n (srt (\<lambda>a b. by_time_text col LogEntry_OccurredAt LogEntry_ID b a) ?rows)) = last_n ?n (srt log_before ?rows)"
    using rows(2) by (intro descending_limit assms) auto
  then show ?thesis
    using True assms(5) same
    by (simp add: pg_SearchLogs_def SearchLogs_def read_only_def query_rows_def tx_defs with_texts_def limit_rows_def
        query_texts_def from_micro_def query_agent_def)
qed (auto simp: pg_SearchLogs_def SearchLogs_def from_micro_def read_only_def query_rows_def tx_defs with_texts_def query_texts_def
    split: option.split)

text \<open>Tried at a search for one word among two entries.\<close>

definition ex_search_db :: Database where
  "ex_search_db = ex_db\<lparr>Db_log_entries := [stored_log (ex_log\<lparr>LogEntry_ID := ex_id\<rparr>),
     stored_log (ex_log\<lparr>LogEntry_ID := ex_id, LogEntry_OccurredAt := 9000, LogEntry_Message := ''session closed''\<rparr>)]\<rparr>"

definition ex_search :: LogQuery where
  "ex_search = \<lparr>LogQuery_Scope = DefaultScope, LogQuery_AgentID = ''web-1'', LogQuery_From = 1000, LogQuery_To = 20000,
     LogQuery_Collector = [], LogQuery_Severity = [], LogQuery_Source = [], LogQuery_Text = ''Closed'', LogQuery_Limit = 10\<rparr>"

theorem pg_search_same_witness:
  "pg_SearchLogs (map lower_char) healthy insertion_sort (<) ex_search ex_search_db
    = SearchLogs insertion_sort id (from_micro ex_search) (log_store ex_search_db)"
proof -
  have "list_all pg_text (query_texts ex_search)"
    by (simp add: query_texts_def ex_search_def DefaultScope_def DefaultOrganizationID_def DefaultSiteID_def ex_text byte_in_def)
  moreover have "if list_all pg_text (query_texts ex_search) \<or> Scope_Validate (LogQuery_Scope ex_search) \<noteq> None
    then pg_SearchLogs (map lower_char) healthy insertion_sort (<) ex_search ex_search_db
      = SearchLogs insertion_sort id (from_micro ex_search) (log_store ex_search_db)
    else isl (pg_SearchLogs (map lower_char) healthy insertion_sort (<) ex_search ex_search_db)"
  proof (rule pg_search_same [OF insertion.slice_sort_axioms collation_less])
    show "rune_wise id" by (simp add: rune_wise_def)
    show "literal_query ex_search" by (simp add: literal_query_def ex_search_def no_wildcard_def)
    show "lowers_same (map lower_char) id ex_search (set (Db_log_entries ex_search_db))"
      by (simp add: lowers_same_def ex_search_def ex_search_db_def stored_log_def ex_log_def to_lower_def is_ascii_def)
    show "log_rows_ok (Db_log_entries ex_search_db)"
      by (simp add: log_rows_ok_def ex_search_db_def stored_log_def log_identity_def ex_log_def truncate_micro_def)
    have "pg_text ex_id" "hex32_pattern ex_id" using rand_hex_hex32 [OF ex_rand] hex32_text by blast+
    then show "\<forall>row \<in> set (Db_log_entries ex_search_db). hex32_pattern (LogEntry_ID row) \<and> list_all pg_text (log_texts row)"
      by (simp add: ex_search_db_def stored_log_def ex_log_def log_texts_def DefaultOrganizationID_def DefaultSiteID_def
          CollectorJournald_def LogInfo_def ex_text byte_in_def)
  qed (simp add: ex_search_def)
  ultimately show ?thesis by presburger
qed

end
