(* ===== verification/Pg_Jobs_Refinement.thy ===== *)
theory Pg_Jobs_Refinement
  imports Pg_Jobs
begin

text \<open>
  The tables of \<open>Pg_Jobs\<close> implement the in-memory store of \<open>Jobs\<close>: every call the service
  makes has the same effect and the same answer, and the lifecycle of jobs holds of the
  database whatever statements fail.
\<close>

section \<open>The abstract store\<close>

definition job_key :: "Job \<Rightarrow> jobKey" where "job_key job = (Job_Scope job, Job_ID job)"

definition event_key :: "JobEvent \<Rightarrow> jobKey" where
  "event_key e = (\<lparr>Scope_OrganizationID = JobEvent_OrganizationID e, Scope_SiteID = JobEvent_SiteID e\<rparr>,
                  JobEvent_JobID e)"

definition job_store :: "Database \<Rightarrow> JobStore" where
  "job_store d =
     \<lparr>JobStore_jobs = (\<lambda>key. find (\<lambda>j. job_key j = key) (Db_jobs d)),
      JobStore_events = (\<lambda>key. if key \<in> job_key ` set (Db_jobs d)
        then Some (filter (\<lambda>e. event_key e = key) (Db_job_events d)) else None)\<rparr>"

text \<open>
  What the constraints and the operations keep true of the two tables: keys are unique,
  foreign keys hold, times are whole microseconds, messages are texts a column can hold, and the abstract store is sound.
\<close>

definition job_tables :: "Database \<Rightarrow> bool" where
  "job_tables d \<longleftrightarrow>
     distinct (map Job_ID (Db_jobs d))
     \<and> (\<forall>job \<in> set (Db_jobs d). \<not> Job_Resumed job \<and> Job_Scope job \<in> set (Db_sites d))
     \<and> (\<forall>e \<in> set (Db_job_events d). event_key e \<in> job_key ` set (Db_jobs d) \<and> stored_job_event e = e
          \<and> pg_text (JobEvent_Message e))
     \<and> job_inv (job_store d)"

lemma job_store_simps [simp]:
  "JobStore_jobs (job_store d) key = find (\<lambda>j. job_key j = key) (Db_jobs d)"
  by (simp add: job_store_def)

lemma job_tablesD:
  assumes "job_tables d"
  shows "distinct (map Job_ID (Db_jobs d))" "job_inv (job_store d)"
    "job \<in> set (Db_jobs d) \<Longrightarrow> \<not> Job_Resumed job"
    "job \<in> set (Db_jobs d) \<Longrightarrow> site_row (Job_OrganizationID job) (Job_SiteID job) d"
    "e \<in> set (Db_job_events d) \<Longrightarrow> event_key e \<in> job_key ` set (Db_jobs d)"
    "e \<in> set (Db_job_events d) \<Longrightarrow> stored_job_event e = e"
    "e \<in> set (Db_job_events d) \<Longrightarrow> pg_text (JobEvent_Message e)"
  using assms by (auto simp: job_tables_def site_row_def Job_Scope_def)

lemma distinct_job_key: "distinct (map Job_ID rows) \<Longrightarrow> distinct (map job_key rows)"
  by (auto simp: distinct_map inj_on_def job_key_def)

lemma ranges_jobs: "job_tables d \<Longrightarrow> ranges (map (\<lambda>j. (job_key j, j)) (Db_jobs d)) (JobStore_jobs (job_store d))"
  unfolding job_store_def by (simp add: ranges_rows distinct_job_key job_tablesD(1))

lemma events_at_job_store:
  assumes "job_tables d"
  shows "events_at (job_store d) key = filter (\<lambda>e. event_key e = key) (Db_job_events d)"
proof -
  have "filter (\<lambda>e. event_key e = key) (Db_job_events d) = []" if "key \<notin> job_key ` set (Db_jobs d)"
    using job_tablesD(5) [OF assms] that by (auto simp: filter_empty_conv)
  then show ?thesis by (simp add: events_at_def job_store_def)
qed

text \<open>The row of a job, as the abstract store has it.\<close>

lemma job_row:
  assumes "job_tables d" "job \<in> set (Db_jobs d)"
  shows "JobStore_jobs (job_store d) (job_key job) = Some job" "hex32_pattern (Job_ID job)"
    "valid_scope (Job_Scope job)" "job_log_ok job (events_at (job_store d) (job_key job))"
proof -
  show job: "JobStore_jobs (job_store d) (job_key job) = Some job"
    using assms distinct_job_key [OF job_tablesD(1) [OF assms(1)]] by (simp add: find_key_in)
  show "hex32_pattern (Job_ID job)" "valid_scope (Job_Scope job)"
    "job_log_ok job (events_at (job_store d) (job_key job))"
    using job_invD [OF job_tablesD(2) [OF assms(1)] job] by (simp_all add: job_at_key_def)
qed

lemma same_job_row:
  "job_tables d \<Longrightarrow> a \<in> set (Db_jobs d) \<Longrightarrow> b \<in> set (Db_jobs d) \<Longrightarrow> Job_ID a = Job_ID b \<Longrightarrow> a = b"
  using job_tablesD(1) by (metis distinct_map inj_onD)

section \<open>The two writes\<close>

text \<open>A new job with its first event.\<close>

lemma job_store_create:
  assumes "job_tables d" "Job_ID job \<notin> Job_ID ` set (Db_jobs d)" "event_key event = job_key job"
  shows "job_store (d\<lparr>Db_jobs := Db_jobs d @ [job], Db_job_events := Db_job_events d @ [event]\<rparr>)
       = put_job (job_key job) job [event] (job_store d)"
proof -
  have new: "job_key job \<notin> job_key ` set (Db_jobs d)" using assms(2) by (auto simp: job_key_def)
  have no_events: "filter (\<lambda>e. event_key e = job_key job) (Db_job_events d) = []"
    using job_tablesD(5) [OF assms(1)] new by (metis (mono_tags) filter_empty_conv)
  have "find (\<lambda>j. job_key j = k) (Db_jobs d @ [job])
      = (if k = job_key job then Some job else find (\<lambda>j. job_key j = k) (Db_jobs d))" for k
  proof -
    have "find (\<lambda>j. job_key j = job_key job) (Db_jobs d) = None"
      unfolding find_None_iff using new by (metis imageI)
    then show ?thesis by (cases "k = job_key job") (auto simp: find_append split: option.split)
  qed
  then show ?thesis
    using new no_events assms(3) by (auto simp: job_store_def fun_eq_iff)
qed

text \<open>A changed job with one event more.\<close>

lemma job_store_update:
  assumes "job_tables d" "job \<in> set (Db_jobs d)" "event_key event = job_key job"
    and job': "job' = job\<lparr>Job_Status := status, Job_LastSequence := seq\<rparr>"
  shows "job_store (d\<lparr>Db_jobs := update_rows (\<lambda>j. Job_ID j = Job_ID job \<and> Job_Scope j = Job_Scope job)
             (\<lambda>j. j\<lparr>Job_Status := status, Job_LastSequence := seq\<rparr>) (Db_jobs d),
           Db_job_events := Db_job_events d @ [event]\<rparr>)
       = put_job (job_key job) job' (events_at (job_store d) (job_key job) @ [event]) (job_store d)"
proof -
  let ?P = "\<lambda>j. Job_ID j = Job_ID job \<and> Job_Scope j = Job_Scope job"
  let ?f = "\<lambda>j. j\<lparr>Job_Status := status, Job_LastSequence := seq\<rparr>"
  have keys: "job_key (if ?P j then ?f j else j) = job_key j" for j
    by (simp add: job_key_def Job_Scope_def)
  have "map job_key (update_rows ?P ?f (Db_jobs d)) = map job_key (Db_jobs d)"
    by (rule map_key_update_rows) (simp add: job_key_def Job_Scope_def)
  then have image: "job_key ` set (update_rows ?P ?f (Db_jobs d)) = job_key ` set (Db_jobs d)"
    by (simp only: set_map [symmetric])
  have "find (\<lambda>j. job_key j = k) (update_rows ?P ?f (Db_jobs d))
      = (if k = job_key job then Some job' else find (\<lambda>j. job_key j = k) (Db_jobs d))" for k
  proof -
    have step: "find (\<lambda>j. job_key j = k) (update_rows ?P ?f (Db_jobs d))
        = map_option (\<lambda>j. if ?P j then ?f j else j) (find (\<lambda>j. job_key j = k) (Db_jobs d))"
      by (rule find_update_rows) (rule keys)
    show ?thesis
    proof (cases "k = job_key job")
      case True
      then show ?thesis using step job_row(1) [OF assms(1,2)] job' by simp
    next
      case False
      show ?thesis
      proof (cases "find (\<lambda>j. job_key j = k) (Db_jobs d)")
        case (Some j)
        then have "\<not> ?P j" using False find_SomeD [OF Some] by (auto simp: job_key_def)
        then have "(if ?P j then ?f j else j) = j" by presburger
        then show ?thesis using False Some step by simp
      qed (use False step in simp)
    qed
  qed
  moreover have "job_key job \<in> job_key ` set (Db_jobs d)" using assms(2) by blast
  ultimately show ?thesis
    using image assms(3) by (auto simp del: set_update_rows simp: job_store_def fun_eq_iff events_at_def)
qed

section \<open>The calls of the service\<close>

datatype Job_Call =
    Call_Create Job JobEvent
  | Call_Claim Agent time time
  | Call_Record Agent string EventRequest time

datatype Job_Reply = Created | Claimed "Job option" | Recorded Job JobEvent

fun pg_job_call ::
  "Job sorter \<Rightarrow> JobEvent sorter \<Rightarrow> (string \<Rightarrow> string \<Rightarrow> bool) \<Rightarrow> Job_Call \<Rightarrow> DB_Env \<Rightarrow> Database
   \<Rightarrow> (Job_Reply, Database) op" where
  "pg_job_call srt srte col (Call_Create job event) = (\<lambda>env d.
     map_op (\<lambda>_. Created) (pg_CreateJob env job event d))"
| "pg_job_call srt srte col (Call_Claim agent tm before) = (\<lambda>env d.
     map_op Claimed (pg_ClaimNextJob env srt srte col agent tm before d))"
| "pg_job_call srt srte col (Call_Record agent jobID request tm) = (\<lambda>env d.
     map_op (\<lambda>(job, event). Recorded job event) (pg_RecordJobEvent env agent jobID request tm d))"

text \<open>
  What \<open>jobs.Service\<close> passes to its store: a signed job that is queued, under a fresh identifier in
  a scope it has checked, with its first event; a claim of any agent; a report of a type it has
  checked, of any sequence and message.
\<close>

fun job_call_due :: "Job_Call \<Rightarrow> Database \<Rightarrow> bool" where
  "job_call_due (Call_Create job event) d \<longleftrightarrow>
     Job_Action job \<in> {ActionServiceRestart, ActionHostReboot}
     \<and> Job_Status job = StatusQueued \<and> Job_LastSequence job = 0 \<and> event = approved_event job
     \<and> hex32_pattern (Job_ID job) \<and> valid_scope (Job_Scope job) \<and> Job_ID job \<notin> Job_ID ` set (Db_jobs d)"
| "job_call_due (Call_Claim agent tm before) d \<longleftrightarrow> True"
| "job_call_due (Call_Record agent jobID request tm) d \<longleftrightarrow> EventRequest_Type request \<in> report_types"

text \<open>
  What the tables can hold of it: texts in UTF-8 without NUL, a 32-bit sequence, a host and a
  site that have rows.
\<close>

definition agent_texts :: "Agent \<Rightarrow> string list" where
  "agent_texts agent = [Agent_ID agent, Agent_OrganizationID agent, Agent_SiteID agent]"

fun job_call_storable :: "Job_Call \<Rightarrow> Database \<Rightarrow> bool" where
  "job_call_storable (Call_Create job event) d \<longleftrightarrow>
     list_all pg_text (job_texts job) \<and> Job_Scope job \<in> set (Db_sites d)
     \<and> host_row (Job_OrganizationID job) (Job_SiteID job) (Job_AgentID job) d \<noteq> None"
| "job_call_storable (Call_Claim agent tm before) d \<longleftrightarrow> list_all pg_text (agent_texts agent)"
| "job_call_storable (Call_Record agent jobID request tm) d \<longleftrightarrow>
     list_all pg_text (agent_texts agent) \<and> pg_text jobID \<and> pg_text (EventRequest_Message request)
     \<and> int4 (EventRequest_Sequence request)"

abbreviation job_call_ok :: "Job_Call \<Rightarrow> Database \<Rightarrow> bool" where
  "job_call_ok c d \<equiv> job_call_due c d \<and> job_call_storable c d"

text \<open>The event of a reply, as it reads back from its row.\<close>

fun stored_reply :: "Job_Reply \<Rightarrow> Job_Reply" where
  "stored_reply (Recorded job event) = Recorded job (stored_job_event event)"
| "stored_reply reply = reply"

fun job_call_spec :: "Job_Call \<Rightarrow> JobStore \<Rightarrow> Job_Reply res \<Rightarrow> JobStore \<Rightarrow> bool" where
  "job_call_spec (Call_Create job event) st res st' \<longleftrightarrow>
     (res, st') = map_op (\<lambda>_. Created) (CreateJob (stored_job job) (stored_job_event event) st)"
| "job_call_spec (Call_Claim agent tm before) st res st' \<longleftrightarrow>
     (\<exists>it. ranges it (JobStore_jobs st)
        \<and> (res, st') = map_op Claimed (ClaimNextJob it it agent (truncate_micro tm) before st))"
| "job_call_spec (Call_Record agent jobID request tm) st res st' \<longleftrightarrow>
     (map_sum id stored_reply res, st')
       = map_op (\<lambda>(job, event). Recorded job event) (RecordJobEvent agent jobID request (truncate_micro tm) st)"

lemma atomic_job_call: "all_or_nothing (pg_job_call srt srte col c)"
  by (cases c) (simp_all add: all_or_nothing_map all_or_nothing_jobs)

lemma stored_job_simps [simp]:
  "Job_ID (stored_job job) = Job_ID job" "Job_Scope (stored_job job) = Job_Scope job"
  "job_key (stored_job job) = job_key job" "Job_Status (stored_job job) = Job_Status job"
  "Job_LastSequence (stored_job job) = Job_LastSequence job" "\<not> Job_Resumed (stored_job job)"
  "stored_job (stored_job job) = stored_job job"
  "Job_OrganizationID (stored_job job) = Job_OrganizationID job" "Job_SiteID (stored_job job) = Job_SiteID job"
  by (simp_all add: stored_job_def Job_Scope_def job_key_def)

lemma stored_job_event_simps [simp]:
  "stored_job_event (stored_job_event e) = stored_job_event e" "event_key (stored_job_event e) = event_key e"
  "JobEvent_JobID (stored_job_event e) = JobEvent_JobID e" "JobEvent_Message (stored_job_event e) = JobEvent_Message e"
  "JobEvent_Sequence (stored_job_event e) = JobEvent_Sequence e"
  "JobEvent_OrganizationID (stored_job_event e) = JobEvent_OrganizationID e"
  "JobEvent_SiteID (stored_job_event e) = JobEvent_SiteID e"
  "stored_job_event (approved_event job) = approved_event (stored_job job)"
  "stored_job_event (agent_event agent i n ty m tm) = agent_event agent i n ty m (truncate_micro tm)"
  by (simp_all add: stored_job_event_def event_key_def approved_event_def stored_job_def agent_event_def)

lemma stored_approved [simp]: "event_key (approved_event job) = job_key job"
  by (simp add: event_key_def approved_event_def job_key_def Job_Scope_def)

text \<open>Creating.\<close>

lemma refine_create:
  assumes ok: "job_tables d" and pre: "job_call_ok (Call_Create job event) d"
    and call: "pg_job_call srt srte col (Call_Create job event) healthy d = (res, d')"
  shows "job_tables d' \<and> job_call_spec (Call_Create job event) (job_store d) res (job_store d')"
proof -
  let ?e = "approved_event (stored_job job)"
  let ?d = "d\<lparr>Db_jobs := Db_jobs d @ [stored_job job], Db_job_events := Db_job_events d @ [?e]\<rparr>"
  have event: "event = approved_event job" using pre by simp
  have texts: "list_all pg_text (job_texts job)" "list_all pg_text (job_event_texts event)"
    using pre by (simp_all add: event job_event_texts_def approved_event_def job_texts_def)
  have host: "Job_AgentID job \<in> Host_AgentID ` set (Db_hosts d)"
  proof -
    obtain h where "host_row (Job_OrganizationID job) (Job_SiteID job) (Job_AgentID job) d = Some h" using pre by auto
    from find_SomeD [OF this [unfolded host_row_def]] show ?thesis by (metis imageI)
  qed
  have no_event: "\<forall>e \<in> set (Db_job_events d). Job_ID job \<noteq> JobEvent_JobID e"
    using job_tablesD(5) [OF ok] pre by (fastforce simp: event_key_def job_key_def)
  have job_in: "insert_job job d = Some (d\<lparr>Db_jobs := Db_jobs d @ [stored_job job]\<rparr>)"
    using pre texts host
    by (auto simp: insert_job_def job_row_ok_def with_texts_def int4_def site_row_def Job_Scope_def insert_row_def)
  have event_in: "insert_job_event_row event (d\<lparr>Db_jobs := Db_jobs d @ [stored_job job]\<rparr>) = Some ?d"
    using pre texts(2) no_event
    by (auto simp: insert_job_event_row_def with_texts_def job_event_row_ok_def event int4_def site_row_def
        Job_Scope_def insert_row_def)
  have "pg_CreateJob healthy job event d = (Inr (), ?d)"
    using pre texts(1) job_in event_in
    by (auto simp: pg_CreateJob_def transaction_def tx_defs insertJobEvent_def with_texts_def event job_texts_def
        Job_Scope_def approved_event_def)
  then have d': "d' = ?d" and res: "res = Inr Created" using call by simp_all
  have store: "job_store ?d = put_job (job_key job) (stored_job job) [?e] (job_store d)"
    using job_store_create [OF ok, of "stored_job job" ?e] pre by simp
  have "job_inv (job_store ?d)"
    unfolding store using job_tablesD(2) [OF ok] pre
    by (intro job_inv_put) (simp_all add: job_at_key_def job_log_ok_approved job_key_def)
  moreover have "pg_text (JobEvent_Message ?e)" using pre by (simp add: approved_event_def stored_job_def job_texts_def)
  ultimately have "job_tables ?d" using ok pre no_event by (auto simp: job_tables_def)
  moreover have "CreateJob (stored_job job) (stored_job_event event) (job_store d) = (Inr (), job_store ?d)"
    using pre store by (simp add: CreateJob_def event Let_def job_key_def Job_Scope_def)
  ultimately show ?thesis by (simp add: d' res)
qed

text \<open>Claiming: a log holds one claim from then on.\<close>

lemma job_run_claims:
  "job_run ts = Some status \<Longrightarrow> length (filter ((=) EventClaimed) ts) = (if status = StatusQueued then 0 else 1)"
proof (induction ts arbitrary: status rule: rev_induct)
  case (snoc t ts)
  show ?case
  proof (cases "ts = []")
    case True
    with snoc.prems show ?thesis by (auto split: if_splits)
  next
    case False
    with snoc.prems obtain s where s: "job_run ts = Some s" "job_next t s = Some status"
      by (auto simp: job_run_snoc bind_eq_Some_conv)
    have "status \<noteq> StatusQueued" "t = EventClaimed \<longleftrightarrow> s = StatusQueued" using s(2) by (cases t; cases s; auto)+
    then show ?thesis using snoc.IH [OF s(1)] by auto
  qed
qed simp

lemma one_claim:
  assumes "job_log_ok job es" "Job_Status job \<noteq> StatusQueued"
  obtains e where "filter (\<lambda>e. JobEvent_Type e = EventClaimed) es = [e]"
proof -
  have "length (filter ((=) EventClaimed) (map JobEvent_Type es)) = 1"
    using job_run_claims [of "map JobEvent_Type es"] assms by (auto simp: job_log_ok_def)
  then have "length (filter (\<lambda>e. JobEvent_Type e = EventClaimed) es) = 1"
    by (simp add: filter_map comp_def eq_commute)
  then show thesis using that by (auto simp: length_Suc_conv)
qed

lemma agent_job_row_candidate: "agent_job_row agent status = is_candidate agent status"
  by (auto simp: fun_eq_iff agent_job_row_def is_candidate_def)

lemma job_event_row_key:
  "job_event_row agent jobID e \<longleftrightarrow> event_key e = (Agent_Scope agent, jobID)"
  by (auto simp: job_event_row_def event_key_def Agent_Scope_def)

lemma select_agent_job:
  assumes "slice_sort srt" "collation col" "job_tables d" "list_all pg_text (agent_texts agent)"
  shows "select_agent_job srt col agent status d
       = Some (pick job_before None (filter (is_candidate agent status) (Db_jobs d)))"
proof -
  have "first_row srt (by_time_text col Job_RequestedAt Job_ID) (filter (agent_job_row agent status) (Db_jobs d))
      = pick (\<lambda>a b. Job_RequestedAt a < Job_RequestedAt b \<or> Job_RequestedAt a = Job_RequestedAt b \<and> Job_ID a < Job_ID b)
          None (filter (agent_job_row agent status) (Db_jobs d))"
    using job_tablesD(1) [OF assms(3)] job_row(2) [OF assms(3)]
    by (intro first_row_pick [OF assms(1,2)]) (auto simp: distinct_map_filter)
  then show ?thesis
    using assms(4)
    by (simp add: select_agent_job_def with_texts_def agent_texts_def agent_job_row_candidate job_before_def [abs_def])
qed

text \<open>The lease of a running job, and whether the in-memory store finds it alive.\<close>

lemma read_lease:
  assumes "slice_sort srte" "job_tables d" "list_all pg_text (agent_texts agent)"
    and "job \<in> set (Db_jobs d)" "is_candidate agent StatusRunning job"
  obtains tm where "read_lease srte agent (Job_ID job) d = Some tm"
    "(\<exists>e \<in> set (events_at (job_store d) (Agent_Scope agent, Job_ID job)).
        JobEvent_Type e = EventClaimed \<and> before < JobEvent_OccurredAt e) \<longleftrightarrow> before < tm"
proof -
  have key: "job_key job = (Agent_Scope agent, Job_ID job)" using assms(5) by (simp add: job_key_def is_candidate_iff)
  let ?es = "events_at (job_store d) (Agent_Scope agent, Job_ID job)"
  have "job_log_ok job ?es" "Job_Status job \<noteq> StatusQueued"
    using job_row(4) [OF assms(2,4)] assms(5) by (simp_all add: key is_candidate_iff)
  then obtain e where e: "filter (\<lambda>e. JobEvent_Type e = EventClaimed) ?es = [e]" by (rule one_claim)
  have rows: "filter (\<lambda>x. job_event_row agent (Job_ID job) x \<and> JobEvent_Type x = EventClaimed) (Db_job_events d) = [e]"
    using e unfolding events_at_job_store [OF assms(2)] by (simp add: job_event_row_key conj_commute)
  have "mset (srte lt [e]) = {#e#}" for lt using slice_sort.mset_srt [OF assms(1)] by simp
  then have sorted: "srte lt [e] = [e]" for lt by (metis mset_single_iff)
  have "pg_text (Job_ID job)" using job_row(2) [OF assms(2,4)] by (rule hex32_text)
  then have "read_lease srte agent (Job_ID job) d = Some (JobEvent_OccurredAt e)"
    using assms(3) rows by (simp add: read_lease_def with_texts_def agent_texts_def first_row_def sorted)
  moreover have "{x \<in> set ?es. JobEvent_Type x = EventClaimed} = {e}" using e by (metis empty_set list.simps(15) set_filter)
  ultimately show thesis by (intro that) auto
qed

text \<open>
  The two statements by which a job goes on: its row gets the new status and sequence, its
  log the next event.
\<close>

lemma write_event:
  assumes ok: "job_tables d" and job: "job \<in> set (Db_jobs d)" and agent: "Job_Scope job = Agent_Scope agent"
    and texts: "list_all pg_text (agent_texts agent)" "list_all pg_text (job_event_texts event)"
    and event: "event_key event = job_key job" "JobEvent_Sequence event = Job_LastSequence job + 1"
      "JobEvent_Type event \<in> {EventClaimed, EventOutput, EventSucceeded, EventFailed}"
    and seq: "int4 (Job_LastSequence job + 1)"
    and job': "job' = job\<lparr>Job_Status := status, Job_LastSequence := Job_LastSequence job + 1\<rparr>"
  obtains d1 d2 where "update_job agent job' d = Some d1" "insert_job_event_row event d1 = Some d2"
    "job_store d2 = put_job (job_key job) job'
       (events_at (job_store d) (job_key job) @ [stored_job_event event]) (job_store d)"
    "job_inv (job_store d2) \<Longrightarrow> job_tables d2"
proof -
  let ?f = "\<lambda>j. j\<lparr>Job_Status := status, Job_LastSequence := Job_LastSequence job + 1\<rparr>"
  let ?P = "\<lambda>j. Job_ID j = Job_ID job \<and> Job_Scope j = Job_Scope job"
  define d1 where "d1 = d\<lparr>Db_jobs := update_rows ?P ?f (Db_jobs d)\<rparr>"
  define d2 where "d2 = d1\<lparr>Db_job_events := Db_job_events d @ [stored_job_event event]\<rparr>"
  have log: "job_log_ok job (events_at (job_store d) (job_key job))" "pg_text (Job_ID job)"
    using job_row [OF ok job] hex32_text by auto
  then have seq0: "0 \<le> Job_LastSequence job + 1" by (simp add: job_log_ok_def)
  have P: "(\<lambda>j. Job_ID j = Job_ID job \<and> Job_OrganizationID j = Agent_OrganizationID agent
      \<and> Job_SiteID j = Agent_SiteID agent) = ?P"
    using scope_of_agent [OF agent] by (auto simp: fun_eq_iff Job_Scope_def)
  have update: "update_job agent job' d = Some d1"
    using texts(1) log(2) seq seq0 by (simp add: update_job_def with_texts_def agent_texts_def job' d1_def P)
  have ids: "map Job_ID (Db_jobs d1) = map Job_ID (Db_jobs d)"
    unfolding d1_def by (simp add: map_key_update_rows)
  have new: "JobEvent_Sequence e \<noteq> JobEvent_Sequence event"
    if e: "e \<in> set (Db_job_events d)" "JobEvent_JobID e = JobEvent_JobID event" for e
  proof -
    obtain j where j: "j \<in> set (Db_jobs d)" "event_key e = job_key j" using job_tablesD(5) [OF ok e(1)] by auto
    have "Job_ID j = Job_ID job" using j(2) e(2) event(1) by (auto simp: event_key_def job_key_def)
    then have "j = job" by (rule same_job_row [OF ok j(1) job])
    then have "e \<in> set (events_at (job_store d) (job_key job))"
      using e(1) j(2) by (simp add: events_at_job_store [OF ok])
    moreover have "JobEvent_Sequence ` set (events_at (job_store d) (job_key job))
        = int ` {0..<length (events_at (job_store d) (job_key job))}"
      using log(1) unfolding job_log_ok_def by (metis list.set_map set_upt)
    ultimately have "JobEvent_Sequence e \<in> int ` {0..<length (events_at (job_store d) (job_key job))}" by blast
    then show ?thesis using log(1) event(2) by (auto simp: job_log_ok_def)
  qed
  have fk: "JobEvent_JobID event \<in> Job_ID ` set (Db_jobs d1)"
    using job event(1) arg_cong [OF ids, of set] by (simp add: event_key_def job_key_def del: set_update_rows)
  have site: "site_row (JobEvent_OrganizationID event) (JobEvent_SiteID event) d1"
    using job_tablesD(4) [OF ok job] event(1) by (simp add: site_row_def d1_def event_key_def job_key_def Job_Scope_def)
  have "\<not> (\<exists>e \<in> set (Db_job_events d1). JobEvent_JobID event = JobEvent_JobID e
      \<and> JobEvent_Sequence event = JobEvent_Sequence e)"
    using new by (fastforce simp: d1_def)
  moreover have "job_event_row_ok event d1"
    using event(2,3) seq seq0 fk site by (auto simp: job_event_row_ok_def)
  ultimately have "insert_job_event_row event d1 = Some d2"
    using texts(2) by (simp add: insert_job_event_row_def with_texts_def insert_row_def d2_def d1_def)
  moreover have store: "job_store d2 = put_job (job_key job) job'
       (events_at (job_store d) (job_key job) @ [stored_job_event event]) (job_store d)"
    unfolding d2_def d1_def using job_store_update [OF ok job, of "stored_job_event event" job'] event(1) job' by simp
  moreover have "job_tables d2" if "job_inv (job_store d2)"
  proof -
    have "map job_key (Db_jobs d1) = map job_key (Db_jobs d)"
      unfolding d1_def by (simp add: map_key_update_rows job_key_def Job_Scope_def)
    then have keys: "job_key ` set (Db_jobs d2) = job_key ` set (Db_jobs d)" by (simp add: d2_def flip: set_map)
    have "pg_text (JobEvent_Message event)" using texts(2) by (simp add: job_event_texts_def)
    then have "event_key e \<in> job_key ` set (Db_jobs d2) \<and> stored_job_event e = e \<and> pg_text (JobEvent_Message e)"
      if "e \<in> set (Db_job_events d2)" for e
      using that job_tablesD(5-7) [OF ok] job event(1) unfolding keys by (auto simp: d2_def)
    moreover have "\<not> Job_Resumed j \<and> Job_Scope j \<in> set (Db_sites d2)" if "j \<in> set (Db_jobs d2)" for j
      using that ok by (auto simp: d2_def d1_def job_tables_def Job_Scope_def)
    moreover have "distinct (map Job_ID (Db_jobs d2))" using job_tablesD(1) [OF ok] ids by (simp add: d2_def)
    ultimately show ?thesis using that unfolding job_tables_def by blast
  qed
  ultimately show thesis using update that by blast
qed

lemma claim_event_texts:
  "pg_text jobID \<Longrightarrow> list_all pg_text (agent_texts agent) \<Longrightarrow>
   list_all pg_text (job_event_texts (agent_event agent jobID n ty ''agent claimed job'' tm))"
  using pg_text_prefix [of "''agent:''" "Agent_ID agent"]
  by (simp add: job_event_texts_def agent_event_def agent_texts_def pg_text_plain byte_in_def)

text \<open>Claiming.\<close>

lemma refine_claim:
  assumes srt: "slice_sort srt" "slice_sort srte" "collation col"
    and ok: "job_tables d" and pre: "job_call_ok (Call_Claim agent tm before) d"
    and call: "pg_job_call srt srte col (Call_Claim agent tm before) healthy d = (res, d')"
  shows "job_tables d' \<and> job_call_spec (Call_Claim agent tm before) (job_store d) res (job_store d')"
proof -
  define it where "it = map (\<lambda>j. (job_key j, j)) (Db_jobs d)"
  have it: "ranges it (JobStore_jobs (job_store d))" unfolding it_def by (rule ranges_jobs [OF ok])
  have snd_it: "map snd it = Db_jobs d" by (simp add: it_def comp_def)
  have texts: "list_all pg_text (agent_texts agent)" using pre by simp
  then have lock: "with_texts [Agent_OrganizationID agent, Agent_SiteID agent, Agent_ID agent] (Some x) = Some x" for x
    by (simp add: with_texts_def agent_texts_def)
  note select = select_agent_job [OF srt(1,3) ok texts]
  let ?memory = "ClaimNextJob it it agent (truncate_micro tm) before (job_store d)"
  have goal: "job_tables e \<and> pg_ClaimNextJob healthy srt srte col agent tm before d = (r, e) \<and> ?memory = (r, job_store e)
      \<Longrightarrow> ?thesis" for r e
    using call it by (auto simp: map_op_def intro!: exI [of _ it])
  show ?thesis
  proof (cases "Agent_Validate agent")
    case (Some e)
    with ok show ?thesis by (intro goal [of d "Inl e"]) (simp add: pg_ClaimNextJob_def ClaimNextJob_def)
  next
    case None
    note valid = None
    show ?thesis
    proof (cases "pick job_before None (filter (is_candidate agent StatusRunning) (Db_jobs d))")
      case (Some job)
      then have job: "job \<in> set (Db_jobs d)" "is_candidate agent StatusRunning job" by (auto dest: pick_in_list)
      obtain t where lease: "read_lease srte agent (Job_ID job) d = Some t"
        "(\<exists>e \<in> set (events_at (job_store d) (Agent_Scope agent, Job_ID job)).
            JobEvent_Type e = EventClaimed \<and> before < JobEvent_OccurredAt e) \<longleftrightarrow> before < t"
        by (rule read_lease [OF srt(2) ok texts job])
      let ?r = "Inr (if before < t then None else Some (job\<lparr>Job_Resumed := True\<rparr>))"
      have "pg_ClaimNextJob healthy srt srte col agent tm before d = (?r, d)"
        using valid Some lease(1)
        by (simp add: pg_ClaimNextJob_def transaction_def tx_defs select claim_running_def lock)
      moreover have "?memory = (?r, job_store d)"
        using valid Some lease(2) by (simp add: ClaimNextJob_def snd_it)
      ultimately show ?thesis using ok by (intro goal [of d ?r]) simp
    next
      case None
      note none = None
      show ?thesis
      proof (cases "pick job_before None (filter (is_candidate agent StatusQueued) (Db_jobs d))")
        case None
        with none valid ok show ?thesis
          by (intro goal [of d "Inr None"])
            (simp add: pg_ClaimNextJob_def transaction_def tx_defs select claim_queued_def lock ClaimNextJob_def snd_it)
      next
        case (Some queued)
        then have queued: "queued \<in> set (Db_jobs d)" "is_candidate agent StatusQueued queued" by (auto dest: pick_in_list)
        then have at: "Job_Scope queued = Agent_Scope agent" "Job_Status queued = StatusQueued"
          by (simp_all add: is_candidate_iff)
        then have key: "job_key queued = (Agent_Scope agent, Job_ID queued)" by (simp add: job_key_def)
        have first: "Job_LastSequence queued = 0"
          using job_row(4) [OF ok queued(1)] at(2) by (rule job_log_ok_queued)
        let ?e = "agent_event agent (Job_ID queued) 1 EventClaimed ''agent claimed job'' tm"
        let ?job = "queued\<lparr>Job_Status := StatusRunning, Job_LastSequence := 1\<rparr>"
        have et: "list_all pg_text (job_event_texts ?e)"
          using job_row(2) [OF ok queued(1)] texts by (intro claim_event_texts hex32_text)
        have ek: "event_key ?e = job_key queued" by (simp add: key event_key_def agent_event_def Agent_Scope_def)
        obtain d1 d2 where writes: "update_job agent ?job d = Some d1" "insert_job_event_row ?e d1 = Some d2"
          "job_store d2 = put_job (job_key queued) ?job
             (events_at (job_store d) (job_key queued) @ [stored_job_event ?e]) (job_store d)"
          "job_inv (job_store d2) \<Longrightarrow> job_tables d2"
          by (rule write_event [OF ok queued(1) at(1) texts et ek, of ?job StatusRunning])
            (simp_all add: first int4_def)
        have memory: "?memory = (Inr (Some ?job), job_store d2)"
          using valid none Some writes(3) by (simp add: ClaimNextJob_def snd_it Let_def key)
        have "job_inv (job_store d2)" by (rule ClaimNextJob_inv [OF memory job_tablesD(2) [OF ok] it it])
        moreover have "pg_ClaimNextJob healthy srt srte col agent tm before d = (Inr (Some ?job), d2)"
          using valid none Some writes(1,2)
          by (simp add: pg_ClaimNextJob_def transaction_def tx_defs select claim_queued_def lock insertJobEvent_def Let_def)
        ultimately show ?thesis using writes(4) memory by (intro goal [of d2 "Inr (Some ?job)"]) simp
      qed
    qed
  qed
qed

text \<open>Reporting.\<close>

lemma find_job_row:
  assumes "job_tables d"
  shows "find (\<lambda>j. Job_ID j = jobID \<and> Job_OrganizationID j = Agent_OrganizationID agent
               \<and> Job_SiteID j = Agent_SiteID agent \<and> Job_AgentID j = Agent_ID agent) (Db_jobs d)
       = (case JobStore_jobs (job_store d) (Agent_Scope agent, jobID) of
            None \<Rightarrow> None | Some job \<Rightarrow> if Job_AgentID job = Agent_ID agent then Some job else None)"
proof -
  from find_key_and [OF distinct_job_key [OF job_tablesD(1) [OF assms]],
      of "(Agent_Scope agent, jobID)" "\<lambda>j. Job_AgentID j = Agent_ID agent"]
  show ?thesis by (simp add: job_key_def Job_Scope_def Agent_Scope_def conj_ac)
qed

text \<open>The event of a sequence number, in the table and in the log of the in-memory store.\<close>

lemma find_event_row:
  assumes ok: "job_tables d" and job: "JobStore_jobs (job_store d) (Agent_Scope agent, jobID) = Some job"
  shows "(case find (\<lambda>e. job_event_row agent jobID e \<and> JobEvent_Sequence e = n) (Db_job_events d) of
            None \<Rightarrow> None | Some e \<Rightarrow> if Q e then Some e else None)
       = find (\<lambda>e. JobEvent_Sequence e = n \<and> Q e) (events_at (job_store d) (Agent_Scope agent, jobID))"
proof -
  let ?es = "events_at (job_store d) (Agent_Scope agent, jobID)"
  have "job_log_ok job ?es" by (rule job_invD(2) [OF job_tablesD(2) [OF ok] job])
  then have "distinct (map JobEvent_Sequence ?es)" by (simp add: job_log_ok_def distinct_map)
  then have "find (\<lambda>e. JobEvent_Sequence e = n \<and> Q e) ?es
      = (case find (\<lambda>e. JobEvent_Sequence e = n) ?es of None \<Rightarrow> None | Some e \<Rightarrow> if Q e then Some e else None)"
    by (rule find_key_and)
  then show ?thesis
    by (simp add: events_at_job_store [OF ok] find_filter job_event_row_key)
qed

lemma find_same_report:
  "find (same_report request) es
     = find (\<lambda>e. JobEvent_Sequence e = EventRequest_Sequence request
               \<and> (JobEvent_Type e = EventRequest_Type request \<and> JobEvent_Message e = EventRequest_Message request)) es"
  by (simp add: same_report_def [abs_def])

lemma refine_record:
  assumes ok: "job_tables d" and pre: "job_call_ok (Call_Record agent jobID request tm) d"
    and call: "pg_job_call srt srte col (Call_Record agent jobID request tm) healthy d = (res, d')"
  shows "job_tables d' \<and> job_call_spec (Call_Record agent jobID request tm) (job_store d) res (job_store d')"
proof -
  let ?call = "pg_RecordJobEvent healthy agent jobID request tm d"
  let ?memory = "RecordJobEvent agent jobID request (truncate_micro tm) (job_store d)"
  let ?seq = "EventRequest_Sequence request" and ?key = "(Agent_Scope agent, jobID)"
  have texts: "list_all pg_text (agent_texts agent)" "pg_text jobID" using pre by simp_all
  then have params: "with_texts [jobID, Agent_OrganizationID agent, Agent_SiteID agent, Agent_ID agent] x = x"
    "with_texts [jobID, Agent_OrganizationID agent, Agent_SiteID agent] y = y" for x :: "Job option option" and y :: "JobEvent option option"
    by (simp_all add: with_texts_def agent_texts_def)
  have goal: "job_tables e \<and> ?call = (r, e) \<and> ?memory = (map_sum id (map_prod id stored_job_event) r, job_store e) \<Longrightarrow> ?thesis"
    for r e
    using call by (cases r) (auto simp: map_op_def split: prod.splits)
  note unf = pg_RecordJobEvent_def transaction_def tx_defs params find_job_row [OF ok]
  show ?thesis
  proof (cases "Agent_Validate agent")
    case (Some e)
    with ok show ?thesis by (intro goal [of d "Inl e"]) (simp add: pg_RecordJobEvent_def RecordJobEvent_def)
  next
    case None
    note valid = None
    show ?thesis
    proof (cases "case JobStore_jobs (job_store d) ?key of None \<Rightarrow> None
             | Some job \<Rightarrow> if Job_AgentID job = Agent_ID agent then Some job else None")
      case None
      then have "?memory = (Inl ErrJobNotFound, job_store d)"
        using valid by (auto simp: RecordJobEvent_def split: option.splits if_splits)
      with None valid ok show ?thesis by (intro goal [of d "Inl ErrJobNotFound"]) (simp add: unf)
    next
      case (Some job)
      then have job: "JobStore_jobs (job_store d) ?key = Some job" "Job_AgentID job = Agent_ID agent"
        by (auto split: option.splits if_splits)
      show ?thesis
      proof (cases "?seq \<le> Job_LastSequence job")
        case True
        let ?Q = "\<lambda>e. JobEvent_Type e = EventRequest_Type request \<and> JobEvent_Message e = EventRequest_Message request"
        let ?row = "find (\<lambda>e. job_event_row agent jobID e \<and> JobEvent_Sequence e = ?seq) (Db_job_events d)"
        let ?found = "case ?row of None \<Rightarrow> None | Some e \<Rightarrow> if ?Q e then Some e else None"
        let ?r = "case ?found of None \<Rightarrow> Inl ErrJobConflict | Some e \<Rightarrow> Inr (job, e)"
        have "?memory = (?r, job_store d)"
          using valid job True find_event_row [OF ok job(1), where n = ?seq and Q = ?Q]
          by (simp add: RecordJobEvent_def find_same_report split: option.split)
        moreover have "map_sum id (map_prod id stored_job_event) ?r = ?r"
          using job_tablesD(6) [OF ok] find_SomeD by (fastforce split: option.splits)
        moreover have "?call = (?r, d)"
          using valid Some True pre by (simp add: unf duplicate_report_def split: option.split)
        ultimately show ?thesis using ok by (intro goal [of d ?r]) simp
      next
        case False
        note later = False
        show ?thesis
        proof (cases "Job_Status job \<noteq> StatusRunning \<or> ?seq \<noteq> Job_LastSequence job + 1")
          case True
          with valid Some job later ok show ?thesis
            by (intro goal [of d "Inl ErrJobConflict"]) (simp add: unf RecordJobEvent_def)
        next
          case False
          have row: "job \<in> set (Db_jobs d)" "job_key job = ?key" using job(1) by (auto dest: find_SomeD)
          then have at: "Job_Scope job = Agent_Scope agent" "Job_ID job = jobID" by (simp_all add: job_key_def)
          let ?status = "status_after (EventRequest_Type request) (Job_Status job)"
          let ?job = "job\<lparr>Job_Status := ?status, Job_LastSequence := ?seq\<rparr>"
          let ?e = "agent_event agent jobID ?seq (EventRequest_Type request) (EventRequest_Message request) tm"
          have et: "list_all pg_text (job_event_texts ?e)"
            using pre pg_text_prefix [of "''agent:''" "Agent_ID agent"]
            by (simp add: job_event_texts_def agent_event_def agent_texts_def byte_in_def)
          have ek: "event_key ?e = job_key job" by (simp add: row(2) event_key_def agent_event_def Agent_Scope_def)
          obtain d1 d2 where writes: "update_job agent ?job d = Some d1" "insert_job_event_row ?e d1 = Some d2"
            "job_store d2 = put_job (job_key job) ?job (events_at (job_store d) (job_key job) @ [stored_job_event ?e]) (job_store d)"
            "job_inv (job_store d2) \<Longrightarrow> job_tables d2"
            by (rule write_event [OF ok row(1) at(1) texts(1) et ek, of ?job ?status])
              (use False pre in \<open>auto simp: report_types_def\<close>)
          have memory: "?memory = (Inr (?job, stored_job_event ?e), job_store d2)"
            using valid job later False writes(3) row(2) by (simp add: RecordJobEvent_def Let_def)
          have "job_inv (job_store d2)"
            by (rule RecordJobEvent_inv [OF memory job_tablesD(2) [OF ok]]) (use pre in simp)
          moreover have "?call = (Inr (?job, ?e), d2)"
            using valid Some later False writes(1,2)
            by (simp add: unf new_report_def insertJobEvent_def at(2) Let_def)
          ultimately show ?thesis using writes(4) memory by (intro goal [of d2 "Inr (?job, ?e)"]) simp
        qed
      qed
    qed
  qed
qed

section \<open>What the tables cannot hold\<close>

text \<open>A call that is not storable gets an error and leaves the tables as they are.\<close>

lemma refused_create:
  assumes "job_call_due (Call_Create job event) d" "\<not> job_call_storable (Call_Create job event) d"
  shows "\<exists>e. pg_CreateJob env job event d = (Inl e, d)"
proof -
  have all: "\<not> list_all pg_text (job_texts job) \<Longrightarrow> insert_job job d = None"
    "Job_Scope job \<notin> set (Db_sites d) \<Longrightarrow> insert_job job d = None"
    by (simp_all add: insert_job_def with_texts_def job_row_ok_def site_row_def Job_Scope_def)
  then show ?thesis
    using assms
    by (cases "insert_job job d")
      (auto simp: pg_CreateJob_def transaction_def tx_defs Let_def Job_Scope_def with_texts_def split: option.split)
qed

lemma refused_claim:
  assumes "\<not> job_call_storable (Call_Claim agent tm before) d"
  shows "\<exists>e. pg_ClaimNextJob env srt srte col agent tm before d = (Inl e, d)"
  using assms
  by (auto simp: pg_ClaimNextJob_def transaction_def tx_defs with_texts_def agent_texts_def split: option.split)

lemma refused_record:
  assumes ok: "job_tables d" and out: "\<not> job_call_storable (Call_Record agent jobID request tm) d"
  shows "\<exists>e. pg_RecordJobEvent env agent jobID request tm d = (Inl e, d)"
proof -
  let ?seq = "EventRequest_Sequence request"
  have insert: "insert_job_event_row (agent_event agent i ?seq ty (EventRequest_Message request) tm) d1 = None"
    if "\<not> pg_text (EventRequest_Message request)" for i ty d1
    using that by (simp add: insert_job_event_row_def with_texts_def job_event_texts_def agent_event_def)
  have update: "update_job agent (job\<lparr>Job_Status := status, Job_LastSequence := ?seq\<rparr>) d = None"
    if "\<not> int4 ?seq" for job status
    using that by (simp add: update_job_def with_texts_def)
  have stored: "JobEvent_Message e \<noteq> EventRequest_Message request"
    if "\<not> pg_text (EventRequest_Message request)" "find P (Db_job_events d) = Some e" for P e
    using that job_tablesD(7) [OF ok] find_SomeD by metis
  show ?thesis
    using out insert update stored
    by (auto simp: pg_RecordJobEvent_def transaction_def tx_defs with_texts_def agent_texts_def duplicate_report_def
        new_report_def insertJobEvent_def Let_def split: option.splits)
qed

lemma job_call_refused:
  assumes "job_tables d" "job_call_due c d" "\<not> job_call_storable c d" and call: "pg_job_call srt srte col c env d = (res, d')"
  shows "isl res \<and> d' = d"
proof (cases c)
  case (Call_Create job event)
  with assms refused_create [of job event d env] show ?thesis by auto
next
  case (Call_Claim agent tm before)
  with assms refused_claim [of agent tm before d env srt srte col] show ?thesis by auto
next
  case (Call_Record agent jobID request tm)
  with assms refused_record [OF assms(1), of agent jobID request tm env] show ?thesis by auto
qed

section \<open>The contract\<close>

text \<open>A call together with the sort and the collation it meets.\<close>

type_synonym Job_Surroundings = "Job sorter \<times> JobEvent sorter \<times> (string \<Rightarrow> string \<Rightarrow> bool)"

fun pg_jobs_call :: "Job_Surroundings \<times> Job_Call \<Rightarrow> DB_Env \<Rightarrow> Database \<Rightarrow> (Job_Reply, Database) op" where
  "pg_jobs_call ((srt, srte, col), c) = pg_job_call srt srte col c"

fun jobs_call_due :: "Job_Surroundings \<times> Job_Call \<Rightarrow> Database \<Rightarrow> bool" where
  "jobs_call_due ((srt, srte, col), c) d \<longleftrightarrow>
     slice_sort srt \<and> slice_sort srte \<and> collation col \<and> job_call_due c d"

text \<open>The in-memory operation, or an error and no effect.\<close>

fun jobs_call_spec :: "Job_Surroundings \<times> Job_Call \<Rightarrow> JobStore \<Rightarrow> Job_Reply res \<Rightarrow> JobStore \<Rightarrow> bool" where
  "jobs_call_spec (x, c) st res st' \<longleftrightarrow> job_call_spec c st res st' \<or> isl res \<and> st' = st"

lemma refine_call:
  assumes "slice_sort srt" "slice_sort srte" "collation col" "job_tables d" "job_call_ok c d"
    and "pg_job_call srt srte col c healthy d = (res, d')"
  shows "job_tables d' \<and> job_call_spec c (job_store d) res (job_store d')"
proof (cases c)
  case (Call_Create job event)
  with assms show ?thesis using refine_create [of d job event srt srte col res d'] by simp
next
  case (Call_Claim agent tm before)
  with assms show ?thesis using refine_claim [of srt srte col d agent tm before res d'] by simp
next
  case (Call_Record agent jobID request tm)
  with assms show ?thesis using refine_record [of d agent jobID request tm srt srte col res d'] by simp
qed

interpretation pg_jobs: store_refinement pg_jobs_call jobs_call_spec job_store job_tables jobs_call_due
proof
  show "all_or_nothing (pg_jobs_call c)" for c
    by (cases c) (auto simp: atomic_job_call)
  show "job_tables d' \<and> jobs_call_spec c (job_store d) res (job_store d')"
    if "job_tables d" "jobs_call_due c d" "pg_jobs_call c healthy d = (res, d')" for d c res d'
  proof -
    obtain srt srte col c' where c: "c = ((srt, srte, col), c')" by (metis prod.collapse)
    show ?thesis
    proof (cases "job_call_storable c' d")
      case True
      then show ?thesis using that refine_call [of srt srte col d c' res d'] by (simp add: c)
    next
      case False
      then show ?thesis using that job_call_refused [of d c' srt srte col healthy res d'] by (simp add: c)
    qed
  qed
qed

lemma job_extends_trans:
  assumes "job_extends s t" "job_extends t u"
  shows "job_extends s u"
  unfolding job_extends_def
proof (intro allI impI)
  fix key job assume "JobStore_jobs s key = Some job"
  then obtain job1 es1 where one: "JobStore_jobs t key = Some job1" "events_at t key = events_at s key @ es1"
    "job1 = job\<lparr>Job_Status := Job_Status job1, Job_LastSequence := Job_LastSequence job1\<rparr>"
    "Job_LastSequence job1 = Job_LastSequence job + int (length es1)"
    "terminal (Job_Status job) \<Longrightarrow> job1 = job \<and> es1 = []"
    using assms(1) unfolding job_extends_def by metis
  obtain job2 es2 where two: "JobStore_jobs u key = Some job2" "events_at u key = events_at t key @ es2"
    "job2 = job1\<lparr>Job_Status := Job_Status job2, Job_LastSequence := Job_LastSequence job2\<rparr>"
    "Job_LastSequence job2 = Job_LastSequence job1 + int (length es2)"
    "terminal (Job_Status job1) \<Longrightarrow> job2 = job1 \<and> es2 = []"
    using assms(2) one(1) unfolding job_extends_def by metis
  have "job2 = job\<lparr>Job_Status := Job_Status job2, Job_LastSequence := Job_LastSequence job2\<rparr>"
    by (subst two(3), subst one(3)) simp
  with one two show "\<exists>job' es. JobStore_jobs u key = Some job' \<and> events_at u key = events_at s key @ es
      \<and> job' = job\<lparr>Job_Status := Job_Status job', Job_LastSequence := Job_LastSequence job'\<rparr>
      \<and> Job_LastSequence job' = Job_LastSequence job + int (length es)
      \<and> (terminal (Job_Status job) \<longrightarrow> job' = job \<and> es = [])"
    by (intro exI [of _ job2] exI [of _ "es1 @ es2"]) auto
qed

lemma job_call_extends:
  assumes ok: "job_tables d" and pre: "job_call_due c d" and spec: "job_call_spec c (job_store d) res st"
  shows "job_extends (job_store d) st"
proof (cases c)
  case (Call_Create job event)
  have "Job_ID job \<notin> Job_ID ` set (Db_jobs d)" using pre Call_Create by simp
  then have "find (\<lambda>j. job_key j = job_key job) (Db_jobs d) = None"
    unfolding find_None_iff job_key_def by (metis Pair_inject imageI)
  with spec pre Call_Create show ?thesis
    by (auto simp: CreateJob_def Let_def job_key_def Job_Scope_def intro!: job_extends_new)
next
  case (Call_Claim agent tm before)
  then obtain it where it: "ranges it (JobStore_jobs (job_store d))"
    and "(res, st) = map_op Claimed (ClaimNextJob it it agent (truncate_micro tm) before (job_store d))"
    using spec by auto
  then obtain r where claim: "ClaimNextJob it it agent (truncate_micro tm) before (job_store d) = (r, st)"
    by (metis map_op_def prod.collapse snd_conv)
  from claim job_tablesD(2) [OF ok] it it show ?thesis
  proof (cases rule: ClaimNextJob_cases)
    case (claimed job job' key)
    have "Job_LastSequence job = 0"
      using job_invD(2) [OF job_tablesD(2) [OF ok] claimed(4)] claimed(5) by (simp add: is_candidate_iff job_log_ok_queued)
    then show ?thesis unfolding claimed(6) using claimed
      by (intro job_extends_put) (auto simp: terminal_def is_candidate_iff)
  qed (simp_all add: job_extends_refl)
next
  case (Call_Record agent jobID request tm)
  then obtain r where reported: "RecordJobEvent agent jobID request (truncate_micro tm) (job_store d) = (r, st)"
    using spec by (auto simp: map_op_def) (metis prod.collapse)
  then show ?thesis
  proof (cases rule: RecordJobEvent_cases)
    case (recorded job job' event)
    then show ?thesis unfolding recorded(9) by (intro job_extends_put) (auto simp: terminal_def)
  qed (simp_all add: job_extends_refl)
qed

end
