(* ===== verification/Pg_Jobs_Properties.thy ===== *)
theory Pg_Jobs_Properties
  imports Pg_Jobs_Refinement Pg_Examples
begin

text \<open>The properties of the job queue in the database, over calls that anything may disturb.\<close>

section \<open>The in-memory store is implemented\<close>

text \<open>
  C6. The tables \<open>jobs\<close> and \<open>job_events\<close> implement the in-memory job store, whatever fails. On
  sound tables any call \<open>jobs.Service\<close> makes (a checked and signed new job under a fresh
  identifier, a claim, a report of a checked type) leaves sound tables. Let the tables be able to hold
  it: texts in UTF-8 without NUL, a 32-bit sequence, rows for host and site. Then, undisturbed, it answers
  what \<open>CreateJob\<close>, \<open>ClaimNextJob\<close> or \<open>RecordJobEvent\<close> answers on the abstract store, errors
  included, and has their effect; with any statement failing, the answer to a commit lost or not, an
  answer without an error is still that answer, and the tables are untouched or changed exactly as by
  that operation. A call the tables cannot hold, which the service does not refuse and the in-memory
  store may carry out, gets an error and changes nothing.
\<close>

theorem pg_jobs_refine:
  assumes "job_tables d" "slice_sort srt" "slice_sort srte" "collation col" "job_call_due c d"
    and "pg_job_call srt srte col c env d = (res, d')"
  shows "job_tables d'
    \<and> (if job_call_storable c d
       then (env = healthy \<or> \<not> isl res \<longrightarrow> job_call_spec c (job_store d) res (job_store d'))
         \<and> (d' = d \<or> (\<exists>r. job_call_spec c (job_store d) r (job_store d')))
       else isl res \<and> d' = d)"
proof (cases "job_call_storable c d")
  case True
  obtain r e where healthy: "pg_job_call srt srte col c healthy d = (r, e)" by fastforce
  note good = refine_call [OF assms(2-4,1) conjI [OF assms(5) True] healthy]
  note atomic = all_or_nothingD [OF atomic_job_call assms(6)]
  have "d' = d \<or> d' = e" using atomic(1) healthy by simp
  moreover have "isl res \<or> (r, e) = (res, d')" using atomic(2) healthy by simp
  moreover have "env = healthy \<Longrightarrow> (r, e) = (res, d')" using healthy assms(6) by simp
  ultimately show ?thesis using True good assms(1) by auto
next
  case False
  then show ?thesis using job_call_refused [OF assms(1,5) False assms(6)] assms(1) by simp
qed

section \<open>The lifecycle of a job\<close>

text \<open>
  C21. What the database keeps of jobs. Through any calls \<open>jobs.Service\<close> makes (those of C6, storable
  or not) on any replicas, disturbed in any way: each job is under its own scope and identifier and
  its status is the one its events lead to, no job and no event is lost or changed, the log only
  grows, and a job that has ended stays as it is.
\<close>

theorem pg_job_lifecycle:
  assumes "job_tables d" "calls_ok pg_jobs_call jobs_call_due cs d"
  shows "job_inv (job_store (run_calls pg_jobs_call cs d))
    \<and> job_extends (job_store d) (job_store (run_calls pg_jobs_call cs d))"
proof -
  have "job_tables (run_calls pg_jobs_call cs d)" by (rule pg_jobs.run_ok [OF assms])
  moreover have "job_extends (job_store d) (job_store (run_calls pg_jobs_call cs d))"
  proof (rule pg_jobs.run_keeps [OF _ _ _ assms])
    show "job_extends (job_store d) s"
      if "job_tables d" "jobs_call_due c d" "jobs_call_spec c (job_store d) r s" for c d r s
      using that job_call_extends job_extends_refl by (cases c) auto
  qed (rule job_extends_refl, rule job_extends_trans)
  ultimately show ?thesis using job_tablesD(2) by blast
qed

section \<open>Witnesses\<close>

definition ex_row_job :: Job where
  "ex_row_job = (unsigned_job ex_service ex_id DefaultScope ''web-1'' ex_request 5000)
     \<lparr>Job_Signature := ''c2ln'', Job_SigningPublicKey := ''a2V5''\<rparr>"

lemma ex_hex: "hex32_pattern ex_id"
  using rand_hex_hex32 [OF ex_rand] .

lemma ex_create_ok: "job_call_ok (Call_Create ex_row_job (approved_event ex_row_job)) ex_db"
proof -
  have "pg_text ex_id" by (rule hex32_text [OF ex_hex])
  moreover have "host_row DefaultOrganizationID DefaultSiteID ''web-1'' ex_db = Some ex_row_host"
    by (simp add: host_row_def)
  ultimately show ?thesis
    using ex_hex valid_DefaultScope
    by (simp add: ex_row_job_def unsigned_job_def job_texts_def ex_request_def Job_Scope_def DefaultScope_def
        DefaultOrganizationID_def DefaultSiteID_def ex_text byte_in_def ActionServiceRestart_def
        valid_DefaultScope [unfolded DefaultScope_def DefaultOrganizationID_def DefaultSiteID_def])
qed

lemma ex_job_tables: "job_tables ex_db"
  by (simp add: job_tables_def job_inv_def job_store_def one_running_def)

text \<open>A job is created, claimed by a call whose commit answers nothing, and claimed again.\<close>

definition ex_lost :: DB_Env where
  "ex_lost = healthy\<lparr>DB_commit_fails := True, DB_landed := True\<rparr>"

definition ex_surroundings :: Job_Surroundings where
  "ex_surroundings = (insertion_sort, insertion_sort, (<))"

definition ex_calls :: "((Job_Surroundings \<times> Job_Call) \<times> DB_Env) list" where
  "ex_calls = [((ex_surroundings, Call_Create ex_row_job (approved_event ex_row_job)), healthy),
     ((ex_surroundings, Call_Claim ex_agent 6000 0), ex_lost), ((ex_surroundings, Call_Claim ex_agent 7000 6000), healthy)]"

lemma ex_agent_texts: "list_all pg_text (agent_texts ex_agent)"
  by (simp add: agent_texts_def ex_agent_def DefaultOrganizationID_def DefaultSiteID_def ex_text byte_in_def)

lemma ex_calls_ok: "calls_ok pg_jobs_call jobs_call_due ex_calls ex_db"
proof -
  have "slice_sort (insertion_sort :: Job sorter)" "slice_sort (insertion_sort :: JobEvent sorter)"
    by (rule insertion.slice_sort_axioms)+
  then show ?thesis using ex_create_ok collation_less
    by (simp add: ex_calls_def ex_surroundings_def del: job_call_due.simps(1))
qed

theorem pg_job_lifecycle_witness:
  "job_inv (job_store (run_calls pg_jobs_call ex_calls ex_db))
    \<and> job_extends (job_store ex_db) (job_store (run_calls pg_jobs_call ex_calls ex_db))"
  by (rule pg_job_lifecycle [OF ex_job_tables ex_calls_ok])

theorem pg_jobs_refine_witness:
  "job_call_spec (Call_Create ex_row_job (approved_event ex_row_job)) (job_store ex_db)
     (fst (pg_job_call insertion_sort insertion_sort (<) (Call_Create ex_row_job (approved_event ex_row_job)) healthy ex_db))
     (job_store (snd (pg_job_call insertion_sort insertion_sort (<) (Call_Create ex_row_job (approved_event ex_row_job)) healthy ex_db)))"
  using pg_jobs_refine [OF ex_job_tables insertion.slice_sort_axioms insertion.slice_sort_axioms collation_less
    ex_create_ok [THEN conjunct1] prod.collapse [symmetric], of healthy] ex_create_ok [THEN conjunct2] by presburger

end
