(* ===== verification/Pg_Enrollment_Refinement.thy ===== *)
theory Pg_Enrollment_Refinement
  imports Pg_Enrollment
begin

text \<open>
  What the database of enrollments is for, as a registry: an authority that is made once, tokens
  that are open, consumed by one agent or revoked, and the agents. \<open>Pg_Enrollment\<close> refines it,
  and what the registry never takes back the database never takes back.
\<close>

section \<open>The registry\<close>

datatype Token_State = Token_Open | Token_Consumed string | Token_Revoked

record Registry =
  Registry_authority :: "AuthorityState option"
  Registry_tokens :: "string \<rightharpoonup> Scope \<times> Token_State"
  Registry_agents :: "string \<rightharpoonup> Agent"

definition registry_authority :: "AuthorityState \<Rightarrow> Registry \<Rightarrow> (AuthorityState, Registry) op" where
  "registry_authority candidate r =
     (let state = (case Registry_authority r of None \<Rightarrow> candidate | Some old \<Rightarrow> old)
      in (Inr state, r\<lparr>Registry_authority := Some state\<rparr>))"

text \<open>A new token closes the open tokens of its scope; a known one changes nothing.\<close>

definition registry_register :: "string \<Rightarrow> Scope \<Rightarrow> Registry \<Rightarrow> (unit, Registry) op" where
  "registry_register h scope r =
     (if Registry_tokens r h \<noteq> None then (Inr (), r)
      else (Inr (), r\<lparr>Registry_tokens := (\<lambda>k.
          if k = h then Some (scope, Token_Open)
          else if Registry_tokens r k = Some (scope, Token_Open) then Some (scope, Token_Revoked)
          else Registry_tokens r k)\<rparr>))"

definition registry_consume :: "string \<Rightarrow> string \<Rightarrow> Registry \<Rightarrow> (Agent, Registry) op" where
  "registry_consume h agentID r =
     (case Registry_tokens r h of
        None \<Rightarrow> (Inl ErrInvalidToken, r)
      | Some (scope, Token_Revoked) \<Rightarrow> (Inl ErrInvalidToken, r)
      | Some (scope, Token_Consumed _) \<Rightarrow> (Inl ErrTokenConsumed, r)
      | Some (scope, Token_Open) \<Rightarrow>
          if Registry_agents r agentID \<noteq> None then (Inl (ErrOther ''insert enrolled agent''), r)
          else
            let agent = \<lparr>Agent_ID = agentID, Agent_OrganizationID = Scope_OrganizationID scope,
                         Agent_SiteID = Scope_SiteID scope\<rparr>
            in (Inr agent, r\<lparr>Registry_tokens := (Registry_tokens r)(h \<mapsto> (scope, Token_Consumed agentID)),
                             Registry_agents := (Registry_agents r)(agentID \<mapsto> agent)\<rparr>))"

text \<open>What a later registry keeps of an earlier one.\<close>

definition registry_keeps :: "Registry \<Rightarrow> Registry \<Rightarrow> bool" where
  "registry_keeps r s \<longleftrightarrow>
     (\<forall>a. Registry_authority r = Some a \<longrightarrow> Registry_authority s = Some a)
     \<and> (\<forall>h t. Registry_tokens r h = Some t \<longrightarrow>
          (\<exists>u. Registry_tokens s h = Some u \<and> fst u = fst t \<and> (snd t \<noteq> Token_Open \<longrightarrow> u = t)))
     \<and> (\<forall>i a. Registry_agents r i = Some a \<longrightarrow> Registry_agents s i = Some a)"

lemma registry_keeps_refl: "registry_keeps r r"
  by (auto simp: registry_keeps_def)

lemma registry_keeps_trans: "registry_keeps r s \<Longrightarrow> registry_keeps s t \<Longrightarrow> registry_keeps r t"
  unfolding registry_keeps_def by (intro conjI allI impI; elim conjE; fastforce)

lemma registry_keeps_steps:
  "registry_authority candidate r = (a, s) \<Longrightarrow> registry_keeps r s"
  "registry_register h scope r = (b, s) \<Longrightarrow> registry_keeps r s"
  "registry_consume h agentID r = (c, s) \<Longrightarrow> registry_keeps r s"
  by (auto simp: registry_keeps_def registry_authority_def registry_register_def registry_consume_def Let_def
      split: option.splits if_splits Token_State.splits prod.splits)

section \<open>The calls\<close>

datatype Enroll_Call =
    Call_Authority AuthorityState
  | Call_Register time string Scope
  | Call_Consume time string string

datatype Enroll_Reply = Loaded AuthorityState | Registered | Enrolled Agent

fun pg_enroll_call :: "Enroll_Call \<Rightarrow> DB_Env \<Rightarrow> Database \<Rightarrow> (Enroll_Reply, Database) op" where
  "pg_enroll_call (Call_Authority candidate) =
     (\<lambda>env d. map_op Loaded (pg_LoadOrCreateEnrollmentAuthority env candidate d))"
| "pg_enroll_call (Call_Register now h scope) =
     (\<lambda>env d. map_op (\<lambda>_. Registered) (pg_RegisterEnrollmentToken env now h scope d))"
| "pg_enroll_call (Call_Consume now h agentID) =
     (\<lambda>env d. map_op Enrolled (pg_ConsumeEnrollmentToken env now h agentID d))"

text \<open>What the authority passes: PEM texts, SHA-256 hashes, a site of the database.\<close>

fun enroll_call_ok :: "Enroll_Call \<Rightarrow> Database \<Rightarrow> bool" where
  "enroll_call_ok (Call_Authority candidate) d \<longleftrightarrow>
     pg_text (AuthorityState_CertificatePEM candidate) \<and> pg_text (AuthorityState_PrivateKeyPEM candidate)
     \<and> AuthorityState_CertificatePEM candidate \<noteq> [] \<and> AuthorityState_PrivateKeyPEM candidate \<noteq> []"
| "enroll_call_ok (Call_Register now h scope) d \<longleftrightarrow>
     length h = 32 \<and> pg_text (Scope_OrganizationID scope) \<and> pg_text (Scope_SiteID scope) \<and> scope \<in> set (Db_sites d)"
| "enroll_call_ok (Call_Consume now h agentID) d \<longleftrightarrow> pg_text agentID"

fun enroll_call_spec :: "Enroll_Call \<Rightarrow> Registry \<Rightarrow> Enroll_Reply res \<Rightarrow> Registry \<Rightarrow> bool" where
  "enroll_call_spec (Call_Authority candidate) r res s \<longleftrightarrow> (res, s) = map_op Loaded (registry_authority candidate r)"
| "enroll_call_spec (Call_Register now h scope) r res s \<longleftrightarrow> (res, s) = map_op (\<lambda>_. Registered) (registry_register h scope r)"
| "enroll_call_spec (Call_Consume now h agentID) r res s \<longleftrightarrow> (res, s) = map_op Enrolled (registry_consume h agentID r)"

section \<open>The tables as a registry\<close>

definition token_state :: "EnrollmentTokenRow \<Rightarrow> Token_State" where
  "token_state row =
     (if TokenRow_RevokedAt row \<noteq> None then Token_Revoked
      else if TokenRow_ConsumedAt row \<noteq> None then Token_Consumed (TokenRow_ConsumedBy row) else Token_Open)"

definition enrollment_registry :: "Database \<Rightarrow> Registry" where
  "enrollment_registry d =
     \<lparr>Registry_authority = Db_enrollment_authority d,
      Registry_tokens = (\<lambda>h. map_option (\<lambda>row. (TokenRow_Scope row, token_state row)) (token_row h d)),
      Registry_agents = (\<lambda>i. find (\<lambda>a. Agent_ID a = i) (Db_agents d))\<rparr>"

definition enrollment_tables :: "Database \<Rightarrow> bool" where
  "enrollment_tables d \<longleftrightarrow>
     (\<forall>row \<in> set (Db_enrollment_tokens d). TokenRow_Scope row \<in> set (Db_sites d)
        \<and> pg_text (Scope_OrganizationID (TokenRow_Scope row)) \<and> pg_text (Scope_SiteID (TokenRow_Scope row)))"

lemma token_state_open: "token_state row = Token_Open \<longleftrightarrow> open_token row"
  by (auto simp: token_state_def open_token_def)

lemma find_update_tokens:
  "find (\<lambda>row. TokenRow_Hash row = h) (update_rows P (\<lambda>row. row\<lparr>TokenRow_RevokedAt := t\<rparr>) rows)
     = map_option (\<lambda>row. if P row then row\<lparr>TokenRow_RevokedAt := t\<rparr> else row) (find (\<lambda>row. TokenRow_Hash row = h) rows)"
  "find (\<lambda>row. TokenRow_Hash row = h)
       (update_rows P (\<lambda>row. row\<lparr>TokenRow_ConsumedAt := t, TokenRow_ConsumedBy := i\<rparr>) rows)
     = map_option (\<lambda>row. if P row then row\<lparr>TokenRow_ConsumedAt := t, TokenRow_ConsumedBy := i\<rparr> else row)
         (find (\<lambda>row. TokenRow_Hash row = h) rows)"
  by (rule find_update_rows, simp)+

lemma refine_authority:
  assumes "enroll_call_ok (Call_Authority candidate) d"
  shows "pg_LoadOrCreateEnrollmentAuthority healthy candidate d
    = (let state = (case Db_enrollment_authority d of None \<Rightarrow> candidate | Some old \<Rightarrow> old)
       in (Inr state, d\<lparr>Db_enrollment_authority := Some state\<rparr>))"
  using assms
  by (auto simp: pg_LoadOrCreateEnrollmentAuthority_def transaction_def tx_defs create_authority_def with_texts_def Let_def
      split: option.split)

lemma refine_register:
  assumes ok: "enrollment_tables d" and pre: "enroll_call_ok (Call_Register now h scope) d"
    and call: "pg_RegisterEnrollmentToken healthy now h scope d = (res, d')"
  shows "enrollment_tables d' \<and> (res, enrollment_registry d') = registry_register h scope (enrollment_registry d)"
proof -
  have "site_row (Scope_OrganizationID scope) (Scope_SiteID scope) d" using pre by (simp add: site_row_scope)
  then have "res = Inr ()" using pre call
    by (auto simp: pg_RegisterEnrollmentToken_def registerEnrollmentToken_def transaction_def tx_defs
        insert_enrollment_token_def with_texts_def revoke_other_tokens_def split: if_splits)
  with call have call: "pg_RegisterEnrollmentToken healthy now h scope d = (Inr (), d')" by simp
  then show ?thesis
  proof (cases rule: register_cases)
    case (known row)
    then show ?thesis using ok \<open>res = Inr ()\<close> by (simp add: registry_register_def enrollment_registry_def)
  next
    case new
    have row: "token_row k d' = (if k = h then Some \<lparr>TokenRow_Hash = h, TokenRow_Scope = scope, TokenRow_ConsumedAt = None,
          TokenRow_ConsumedBy = [], TokenRow_RevokedAt = None\<rparr>
        else map_option (\<lambda>row. if TokenRow_Scope row = scope \<and> open_token row
          then row\<lparr>TokenRow_RevokedAt := Some now\<rparr> else row) (token_row k d))" for k
    proof (cases "k = h")
      case True
      then show ?thesis using new(1) by (simp add: new(3) token_row_def find_append find_update_tokens)
    next
      case False
      have "map_option (\<lambda>row. if TokenRow_Hash row \<noteq> h \<and> TokenRow_Scope row = scope \<and> open_token row
            then row\<lparr>TokenRow_RevokedAt := Some now\<rparr> else row) (token_row k d)
          = map_option (\<lambda>row. if TokenRow_Scope row = scope \<and> open_token row
            then row\<lparr>TokenRow_RevokedAt := Some now\<rparr> else row) (token_row k d)"
        using False by (cases "token_row k d") (auto simp: token_row_def dest: find_SomeD)
      then show ?thesis using False
        by (simp add: new(3) token_row_def find_append find_update_tokens split: option.split)
    qed
    have "enrollment_tables d'" using ok pre by (auto simp: enrollment_tables_def new(3))
    moreover have "Registry_tokens (enrollment_registry d') k = (if k = h then Some (scope, Token_Open)
          else if Registry_tokens (enrollment_registry d) k = Some (scope, Token_Open) then Some (scope, Token_Revoked)
          else Registry_tokens (enrollment_registry d) k)" for k
      by (cases "token_row k d")
        (auto simp: enrollment_registry_def row token_state_open token_state_def open_token_def)
    moreover have "Registry_tokens (enrollment_registry d) h = None" using new(1) by (simp add: enrollment_registry_def)
    moreover have "Registry_authority (enrollment_registry d') = Registry_authority (enrollment_registry d)"
      "Registry_agents (enrollment_registry d') = Registry_agents (enrollment_registry d)"
      by (simp_all add: enrollment_registry_def new(3))
    ultimately show ?thesis using \<open>res = Inr ()\<close>
      by (auto simp: registry_register_def intro!: Registry.equality)
  qed
qed

lemma refine_consume:
  assumes ok: "enrollment_tables d" and pre: "enroll_call_ok (Call_Consume now h agentID) d"
    and call: "pg_ConsumeEnrollmentToken healthy now h agentID d = (res, d')"
  shows "enrollment_tables d' \<and> (res, enrollment_registry d') = registry_consume h agentID (enrollment_registry d)"
proof -
  let ?r = "enrollment_registry d"
  note unf = pg_ConsumeEnrollmentToken_def consumeEnrollmentToken_def transaction_def tx_defs
  show ?thesis
  proof (cases "token_row h d")
    case None
    then show ?thesis using ok call by (auto simp: unf registry_consume_def enrollment_registry_def)
  next
    case (Some row)
    have row: "row \<in> set (Db_enrollment_tokens d)" "TokenRow_Hash row = h" using Some by (auto simp: token_row_def dest: find_SomeD)
    show ?thesis
    proof (cases "open_token row")
      case False
      then show ?thesis using Some ok call
        by (auto simp: unf registry_consume_def enrollment_registry_def token_state_def open_token_def split: if_splits)
    next
      case True
      note isopen = True
      then have state: "Registry_tokens ?r h = Some (TokenRow_Scope row, Token_Open)"
        using Some by (simp add: enrollment_registry_def token_state_open)
      have row_ok: "TokenRow_Scope row \<in> set (Db_sites d)" "pg_text (Scope_OrganizationID (TokenRow_Scope row))"
        "pg_text (Scope_SiteID (TokenRow_Scope row))" using ok row(1) by (auto simp: enrollment_tables_def)
      then have site: "site_row (Scope_OrganizationID (TokenRow_Scope row)) (Scope_SiteID (TokenRow_Scope row)) d"
        by (simp add: site_row_scope)
      show ?thesis
      proof (cases "agentID \<in> Agent_ID ` set (Db_agents d)")
        case True
        then obtain a where "Registry_agents ?r agentID = Some a"
          by (cases "Registry_agents ?r agentID") (auto simp: enrollment_registry_def find_None_iff)
        moreover have "insert_agent (token_agent row agentID) d = None"
          using True by (auto simp: insert_agent_def with_texts_def insert_row_def token_agent_def)
        ultimately show ?thesis using Some isopen call ok state
          by (auto simp: unf open_token_def registry_consume_def)
      next
        case False
        let ?a = "token_agent row agentID"
        have "insert_agent ?a d = Some (d\<lparr>Db_agents := Db_agents d @ [?a]\<rparr>)"
          using False site row_ok pre
          by (auto simp: insert_agent_def with_texts_def insert_row_def token_agent_def)
        then have got: "res = Inr ?a" "d' = d\<lparr>Db_agents := Db_agents d @ [?a],
            Db_enrollment_tokens := update_rows (\<lambda>row. TokenRow_Hash row = h)
              (\<lambda>row. row\<lparr>TokenRow_ConsumedAt := Some now, TokenRow_ConsumedBy := agentID\<rparr>) (Db_enrollment_tokens d)\<rparr>"
          using Some isopen call by (auto simp: unf open_token_def mark_consumed_def)
        have tokens: "Registry_tokens (enrollment_registry d') k
            = (if k = h then Some (TokenRow_Scope row, Token_Consumed agentID) else Registry_tokens ?r k)" for k
        proof (cases "k = h")
          case True
          then show ?thesis using Some isopen
            by (simp add: enrollment_registry_def got(2) token_row_def find_update_tokens token_state_def open_token_def row(2))
        next
          case False
          have "map_option (\<lambda>row. if TokenRow_Hash row = h
                then row\<lparr>TokenRow_ConsumedAt := Some now, TokenRow_ConsumedBy := agentID\<rparr> else row) (token_row k d)
              = token_row k d"
            using False by (cases "token_row k d") (auto simp: token_row_def dest: find_SomeD)
          then show ?thesis using False
            by (simp add: enrollment_registry_def got(2) token_row_def find_update_tokens)
        qed
        have no_agent: "find (\<lambda>a. Agent_ID a = agentID) (Db_agents d) = None"
          using False by (auto simp: find_None_iff image_iff)
        have agents: "Registry_agents (enrollment_registry d') = (Registry_agents ?r)(agentID \<mapsto> ?a)"
          using no_agent by (auto simp: enrollment_registry_def got(2) find_append token_agent_def fun_eq_iff split: option.split)
        have "Registry_authority (enrollment_registry d') = Registry_authority ?r"
          by (simp add: enrollment_registry_def got(2))
        moreover have "Registry_tokens (enrollment_registry d') = (Registry_tokens ?r)(h \<mapsto> (TokenRow_Scope row, Token_Consumed agentID))"
          using tokens by (simp add: fun_eq_iff)
        moreover have "Registry_agents ?r agentID = None" using no_agent by (simp add: enrollment_registry_def)
        moreover have "enrollment_tables d'" using ok by (auto simp: enrollment_tables_def got(2))
        ultimately show ?thesis using state agents got(1)
          by (auto simp: registry_consume_def Let_def token_agent_def intro!: Registry.equality)
      qed
    qed
  qed
qed

interpretation pg_enrollment: store_refinement pg_enroll_call enroll_call_spec enrollment_registry enrollment_tables enroll_call_ok
proof
  show "all_or_nothing (pg_enroll_call c)" for c
    by (cases c) (simp_all add: all_or_nothing_map all_or_nothing_enrollment)
  show "enrollment_tables d' \<and> enroll_call_spec c (enrollment_registry d) res (enrollment_registry d')"
    if "enrollment_tables d" "enroll_call_ok c d" "pg_enroll_call c healthy d = (res, d')" for d c res d'
  proof (cases c)
    case (Call_Authority candidate)
    then show ?thesis using that refine_authority [of candidate d]
      by (auto simp: Let_def registry_authority_def enrollment_registry_def enrollment_tables_def token_row_def)
  next
    case (Call_Register now h scope)
    obtain r e where call: "pg_RegisterEnrollmentToken healthy now h scope d = (r, e)" by (metis prod.collapse)
    show ?thesis using that refine_register [OF that(1) _ call] Call_Register call
      by (auto simp: map_op_def simp flip: fst_conv [of r] snd_conv) (metis fst_conv snd_conv)+
  next
    case (Call_Consume now h agentID)
    obtain r e where call: "pg_ConsumeEnrollmentToken healthy now h agentID d = (r, e)" by (metis prod.collapse)
    show ?thesis using that refine_consume [OF that(1) _ call] Call_Consume call
      by (auto simp: map_op_def) (metis fst_conv snd_conv)+
  qed
qed

end
