(* ===== verification/Pg_Enrollment_Properties.thy ===== *)
theory Pg_Enrollment_Properties
  imports Pg_Enrollment_Refinement Pg_Examples
begin

text \<open>One agent for each bootstrap token, on all replicas and through failures.\<close>

lemma consumed_token:
  assumes "enrollment_tables d" "pg_text agentID" "pg_ConsumeEnrollmentToken env now h agentID d = (Inr agent, d1)"
  shows "enrollment_tables d1" "\<exists>scope. Registry_tokens (enrollment_registry d1) h = Some (scope, Token_Consumed agentID)"
    "Registry_agents (enrollment_registry d1) agentID = Some agent" "Agent_ID agent = agentID"
proof -
  have call: "pg_enroll_call (Call_Consume now h agentID) env d = (Inr (Enrolled agent), d1)" using assms(3) by simp
  have pre: "enroll_call_ok (Call_Consume now h agentID) d" using assms(2) by simp
  note once = pg_enrollment.disturbed [OF assms(1) pre call]
  show "enrollment_tables d1" by (rule once(1))
  have "(Inr (Enrolled agent), enrollment_registry d1) = map_op Enrolled (registry_consume h agentID (enrollment_registry d))"
    using once(3) by simp
  then show "\<exists>scope. Registry_tokens (enrollment_registry d1) h = Some (scope, Token_Consumed agentID)"
    "Registry_agents (enrollment_registry d1) agentID = Some agent" "Agent_ID agent = agentID"
    by (auto simp: registry_consume_def Let_def split: option.splits if_splits Token_State.splits prod.splits)
qed

lemma closed_token_refused:
  assumes "Registry_tokens (enrollment_registry d) h = Some (scope, Token_Consumed i)"
  shows "isl (fst (pg_ConsumeEnrollmentToken env now h agentID d)) \<and> snd (pg_ConsumeEnrollmentToken env now h agentID d) = d"
proof -
  obtain row where "token_row h d = Some row" "\<not> open_token row"
    using assms by (auto simp: enrollment_registry_def token_state_def open_token_def split: if_splits)
  then show ?thesis
    by (auto simp: pg_ConsumeEnrollmentToken_def consumeEnrollmentToken_def transaction_def tx_defs open_token_def)
qed

lemma authority_reloaded:
  assumes "Db_enrollment_authority d = Some state"
    and "NewPersistentAuthority x sha kp now serial env1 env2 dbnow bootstrapToken scope d = (Inr authority, d')"
  shows "authorityFromState x state = Inr authority"
proof -
  obtain candidate d1 st where load: "pg_LoadOrCreateEnrollmentAuthority env1 candidate d = (Inr st, d1)"
    and from_state: "authorityFromState x st = Inr authority"
    using assms(2) by (auto simp: NewPersistentAuthority_def split: option.splits sum.splits prod.splits)
  have "st = state" using load_authority(2) [OF load] assms(1) by simp
  with from_state show ?thesis by simp
qed

text \<open>
  C12. A bootstrap token enrolls at most one agent, for all replicas of the hub that share the database and over their
  restarts. After a token was answered with an agent, and any calls of any replicas with any
  statements failing and any answers lost: no attempt with the token succeeds or changes anything,
  the agent is the one registered under its identifier, and a certificate authority that was there is the
  one every hub that starts gets, whatever it generated itself.
\<close>

theorem pg_enrollment_once:
  assumes "enrollment_tables d" "pg_text agentID"
    and "pg_ConsumeEnrollmentToken env now h agentID d = (Inr agent, d1)"
    and "calls_ok pg_enroll_call enroll_call_ok cs d1" and "d2 = run_calls pg_enroll_call cs d1"
  shows "isl (fst (pg_ConsumeEnrollmentToken env' now' h other d2)) \<and> snd (pg_ConsumeEnrollmentToken env' now' h other d2) = d2
    \<and> find (\<lambda>a. Agent_ID a = agentID) (Db_agents d2) = Some agent
    \<and> (\<forall>state. Db_enrollment_authority d1 = Some state \<longrightarrow> Db_enrollment_authority d2 = Some state
        \<and> (\<forall>x sha kp tm serial env1 env2 dbnow bootstrapToken scope authority d3.
             NewPersistentAuthority x sha kp tm serial env1 env2 dbnow bootstrapToken scope d2 = (Inr authority, d3)
             \<longrightarrow> authorityFromState x state = Inr authority))"
proof -
  note first = consumed_token [OF assms(1-3)]
  have kept: "registry_keeps (enrollment_registry d1) (enrollment_registry d2)"
    unfolding assms(5)
  proof (rule pg_enrollment.run_keeps [OF _ _ _ first(1) assms(4)])
    show "registry_keeps (enrollment_registry d) s" if "enroll_call_spec c (enrollment_registry d) r s" for c d r s
      using that by (cases c) (auto simp: map_op_def intro: registry_keeps_steps prod.collapse [symmetric])
  qed (rule registry_keeps_refl, rule registry_keeps_trans)
  obtain scope where "Registry_tokens (enrollment_registry d1) h = Some (scope, Token_Consumed agentID)" using first(2) by blast
  then have "Registry_tokens (enrollment_registry d2) h = Some (scope, Token_Consumed agentID)"
    using kept unfolding registry_keeps_def by fastforce
  from closed_token_refused [OF this] have refused: "isl (fst (pg_ConsumeEnrollmentToken env' now' h other d2))
      \<and> snd (pg_ConsumeEnrollmentToken env' now' h other d2) = d2" .
  have "find (\<lambda>a. Agent_ID a = agentID) (Db_agents d2) = Some agent"
    using kept first(3) by (simp add: registry_keeps_def enrollment_registry_def)
  moreover have "Db_enrollment_authority d1 = Some state \<Longrightarrow> Db_enrollment_authority d2 = Some state" for state
    using kept by (simp add: registry_keeps_def enrollment_registry_def)
  ultimately show ?thesis using refused authority_reloaded by blast
qed

text \<open>Tried at one token, consumed, and then registered again by a hub that starts.\<close>

definition ex_token_hash :: string where "ex_token_hash = replicate 32 (CHR ''h'')"

definition ex_token_db :: Database where
  "ex_token_db = snd (pg_RegisterEnrollmentToken healthy 100 ex_token_hash DefaultScope ex_db)"

definition ex_consumed_db :: Database where
  "ex_consumed_db = snd (pg_ConsumeEnrollmentToken healthy 200 ex_token_hash ''db-1'' ex_token_db)"

lemma ex_scope_texts [simp]: "pg_text DefaultOrganizationID" "pg_text DefaultSiteID"
  by (simp_all add: DefaultOrganizationID_def DefaultSiteID_def ex_text byte_in_def)

lemma ex_token_row:
  "Db_enrollment_tokens ex_token_db = [\<lparr>TokenRow_Hash = ex_token_hash, TokenRow_Scope = DefaultScope, TokenRow_ConsumedAt = None,
     TokenRow_ConsumedBy = [], TokenRow_RevokedAt = None\<rparr>]"
  "Db_agents ex_token_db = [ex_agent]" "Db_sites ex_token_db = [DefaultScope]"
  by (simp_all add: ex_token_db_def pg_RegisterEnrollmentToken_def registerEnrollmentToken_def transaction_def tx_defs
      insert_enrollment_token_def with_texts_def token_row_def revoke_other_tokens_def update_rows_def site_row_def DefaultScope_def ex_token_hash_def)

lemma ex_token_tables: "enrollment_tables ex_token_db"
  by (simp add: enrollment_tables_def ex_token_row DefaultScope_def)

lemma ex_consume:
  "pg_ConsumeEnrollmentToken healthy 200 ex_token_hash ''db-1'' ex_token_db
   = (Inr \<lparr>Agent_ID = ''db-1'', Agent_OrganizationID = DefaultOrganizationID, Agent_SiteID = DefaultSiteID\<rparr>, ex_consumed_db)"
proof -
  have "fst (pg_ConsumeEnrollmentToken healthy 200 ex_token_hash ''db-1'' ex_token_db)
      = Inr \<lparr>Agent_ID = ''db-1'', Agent_OrganizationID = DefaultOrganizationID, Agent_SiteID = DefaultSiteID\<rparr>"
    by (simp add: pg_ConsumeEnrollmentToken_def consumeEnrollmentToken_def transaction_def tx_defs token_row_def ex_token_row
        insert_agent_def token_agent_def with_texts_def insert_row_def mark_consumed_def site_row_def DefaultScope_def
        ex_text byte_in_def ex_agent_def)
  then show ?thesis by (metis ex_consumed_db_def prod.collapse)
qed

theorem pg_enrollment_once_witness:
  "isl (fst (pg_ConsumeEnrollmentToken healthy 400 ex_token_hash ''db-2''
     (run_calls pg_enroll_call [(Call_Register 300 ex_token_hash DefaultScope, healthy)] ex_consumed_db)))"
proof -
  obtain rows agents where consumed: "ex_consumed_db = ex_token_db\<lparr>Db_agents := agents, Db_enrollment_tokens := rows\<rparr>"
    using consume_cases [OF ex_consume] by metis
  have sites: "Db_sites ex_consumed_db = [DefaultScope]" unfolding consumed by (simp add: ex_token_row)
  have "pg_text ''db-1''" by (simp add: ex_text byte_in_def)
  moreover have "calls_ok pg_enroll_call enroll_call_ok [(Call_Register 300 ex_token_hash DefaultScope, healthy)] ex_consumed_db"
    by (simp add: sites DefaultScope_def ex_token_hash_def)
  ultimately show ?thesis using pg_enrollment_once [OF ex_token_tables _ ex_consume _ refl] by blast
qed

end
