(* ===== verification/Pg_Store.thy ===== *)
theory Pg_Store
  imports Pg_Tables
begin

text \<open>
  \<open>internal/storage/postgres/store.go\<close>: opening the store, the migrations and the retention
  policies of TimescaleDB. The effect of a migration script is its own business: a script is
  here a partial function on the schema \<open>'s\<close>. Every call to the pool is disturbed on its own,
  so call number \<open>n\<close> has the surroundings \<open>envs n\<close>.
\<close>

section \<open>The store and its options\<close>

record StoreConfig =
  Store_timescaleEnabled :: bool
  Store_telemetryRetentionDays :: int
  Store_logRetentionDays :: int

definition defaultTelemetryRetentionDays :: int where "defaultTelemetryRetentionDays = 30"
definition defaultLogRetentionDays :: int where "defaultLogRetentionDays = 14"

datatype Option = WithTimescale bool | WithRetention int int

fun apply_option :: "Option \<Rightarrow> StoreConfig \<Rightarrow> StoreConfig" where
  "apply_option (WithTimescale enabled) config = config\<lparr>Store_timescaleEnabled := enabled\<rparr>"
| "apply_option (WithRetention telemetryDays logDays) config =
     config\<lparr>Store_telemetryRetentionDays := telemetryDays, Store_logRetentionDays := logDays\<rparr>"

definition new_store_config :: "Option list \<Rightarrow> StoreConfig" where
  "new_store_config options = fold apply_option options
     \<lparr>Store_timescaleEnabled = False, Store_telemetryRetentionDays = defaultTelemetryRetentionDays,
      Store_logRetentionDays = defaultLogRetentionDays\<rparr>"

record retentionPolicy =
  Policy_table :: string
  Policy_days :: int

definition retentionPolicies :: "StoreConfig \<Rightarrow> retentionPolicy list" where
  "retentionPolicies config =
     [\<lparr>Policy_table = ''telemetry_samples'', Policy_days = Store_telemetryRetentionDays config\<rparr>,
      \<lparr>Policy_table = ''log_entries'', Policy_days = Store_logRetentionDays config\<rparr>]"

definition validateRetention :: "StoreConfig \<Rightarrow> err option" where
  "validateRetention config =
     map_option (\<lambda>policy. ErrOther (Policy_table policy @ '' retention must be between 1 and 3650 days''))
       (find (\<lambda>policy. Policy_days policy < 1 \<or> 3650 < Policy_days policy) (retentionPolicies config))"

section \<open>Migrations\<close>

text \<open>
  \<open>Cluster_ledger\<close> is the table \<open>schema_migrations\<close>, None before it is created.
\<close>

record 's Cluster =
  Cluster_ledger :: "string list option"
  Cluster_schema :: 's
  Cluster_timescale :: bool
  Cluster_hypertables :: "string list"
  Cluster_policies :: "string \<rightharpoonup> int"

record 's Migration =
  Migration_Name :: string
  Migration_IsDir :: bool
  Migration_Script :: "'s \<Rightarrow> 's option"

definition create_ledger :: "'s Cluster \<Rightarrow> 's Cluster option" where
  "create_ledger c = Some (case Cluster_ledger c of None \<Rightarrow> c\<lparr>Cluster_ledger := Some []\<rparr> | Some _ \<Rightarrow> c)"

definition migrationApplied :: "DB_Env \<Rightarrow> string \<Rightarrow> 's Cluster \<Rightarrow> bool res" where
  "migrationApplied env name c = read_only env (tx_query (''check migration '' @ name)
     (\<lambda>c. map_option (\<lambda>names. name \<in> set names) (Cluster_ledger c))) c"

definition run_script :: "'s Migration \<Rightarrow> 's Cluster \<Rightarrow> 's Cluster option" where
  "run_script entry c = map_option (\<lambda>s. c\<lparr>Cluster_schema := s\<rparr>) (Migration_Script entry (Cluster_schema c))"

definition record_migration :: "string \<Rightarrow> 's Cluster \<Rightarrow> 's Cluster option" where
  "record_migration name c = (case Cluster_ledger c of
     None \<Rightarrow> None
   | Some names \<Rightarrow> if name \<in> set names then None else Some (c\<lparr>Cluster_ledger := Some (names @ [name])\<rparr>))"

definition apply_migration :: "DB_Env \<Rightarrow> 's Migration \<Rightarrow> 's Cluster \<Rightarrow> (unit, 's Cluster) op" where
  "apply_migration env entry =
     (let name = Migration_Name entry in
      transaction env (''begin migration '' @ name)
        (tx_bind (tx_exec (''apply migration '' @ name) (run_script entry)) (\<lambda>_.
         tx_bind (tx_exec (''record migration '' @ name) (record_migration name)) (\<lambda>_.
         tx_ret (Commit (''commit migration '' @ name) ())))))"

fun migrate_entries :: "(nat \<Rightarrow> DB_Env) \<Rightarrow> nat \<Rightarrow> 's Migration list \<Rightarrow> 's Cluster \<Rightarrow> (unit, 's Cluster) op" where
  "migrate_entries envs n [] c = (Inr (), c)"
| "migrate_entries envs n (entry # entries) c =
     (if Migration_IsDir entry then migrate_entries envs n entries c
      else case migrationApplied (envs n) (Migration_Name entry) c of
          Inl e \<Rightarrow> (Inl e, c)
        | Inr True \<Rightarrow> migrate_entries envs (Suc n) entries c
        | Inr False \<Rightarrow>
            (case apply_migration (envs (Suc n)) entry c of
               (Inl e, c) \<Rightarrow> (Inl e, c)
             | (Inr _, c) \<Rightarrow> migrate_entries envs (Suc (Suc n)) entries c))"

definition migrate :: "(nat \<Rightarrow> DB_Env) \<Rightarrow> 's Migration list \<Rightarrow> 's Cluster \<Rightarrow> (unit, 's Cluster) op" where
  "migrate envs entries c =
     (case exec_one (envs 0) ''create migration ledger'' (effect create_ledger) c of
        (Inl e, c) \<Rightarrow> (Inl e, c)
      | (Inr _, c) \<Rightarrow> migrate_entries envs 1 entries c)"

section \<open>TimescaleDB\<close>

definition create_extension :: "'s Cluster \<Rightarrow> 's Cluster option" where
  "create_extension c = Some (c\<lparr>Cluster_timescale := True\<rparr>)"

definition create_hypertable :: "string \<Rightarrow> 's Cluster \<Rightarrow> 's Cluster option" where
  "create_hypertable table c =
     (if \<not> Cluster_timescale c then None
      else Some (c\<lparr>Cluster_hypertables := List.insert table (Cluster_hypertables c)\<rparr>))"

definition remove_retention_policy :: "string \<Rightarrow> 's Cluster \<Rightarrow> 's Cluster option" where
  "remove_retention_policy table c =
     (if table \<notin> set (Cluster_hypertables c) then None
      else Some (c\<lparr>Cluster_policies := (Cluster_policies c)(table := None)\<rparr>))"

definition add_retention_policy :: "string \<Rightarrow> int \<Rightarrow> 's Cluster \<Rightarrow> 's Cluster option" where
  "add_retention_policy table days c =
     (if table \<notin> set (Cluster_hypertables c) \<or> Cluster_policies c table \<noteq> None then None
      else Some (c\<lparr>Cluster_policies := (Cluster_policies c)(table \<mapsto> days)\<rparr>))"

fun exec_each :: "(nat \<Rightarrow> DB_Env) \<Rightarrow> nat \<Rightarrow> string \<Rightarrow> ('d \<Rightarrow> 'd option) list \<Rightarrow> 'd \<Rightarrow> (unit, 'd) op" where
  "exec_each envs n msg [] d = (Inr (), d)"
| "exec_each envs n msg (f # fs) d =
     (case exec_one (envs n) msg (effect f) d of
        (Inl e, d) \<Rightarrow> (Inl e, d)
      | (Inr _, d) \<Rightarrow> exec_each envs (Suc n) msg fs d)"

definition set_policies :: "DB_Env \<Rightarrow> StoreConfig \<Rightarrow> 's Cluster \<Rightarrow> (unit, 's Cluster) op" where
  "set_policies env config =
     transaction env ''begin TimescaleDB retention configuration''
       (tx_bind (tx_query ''lock TimescaleDB retention configuration'' (\<lambda>_. Some ())) (\<lambda>_.
        tx_bind (tx_each (\<lambda>policy.
           tx_bind (tx_exec (''remove '' @ Policy_table policy @ '' retention policy'') (remove_retention_policy (Policy_table policy))) (\<lambda>_.
           tx_exec (''add '' @ Policy_table policy @ '' retention policy'')
             (add_retention_policy (Policy_table policy) (Policy_days policy)))) (retentionPolicies config)) (\<lambda>_.
        tx_ret (Commit ''commit TimescaleDB retention configuration'' ()))))"

definition enableTimescale :: "(nat \<Rightarrow> DB_Env) \<Rightarrow> StoreConfig \<Rightarrow> 's Cluster \<Rightarrow> (unit, 's Cluster) op" where
  "enableTimescale envs config c =
     (case exec_each envs 0 ''configure TimescaleDB''
        [create_extension, create_hypertable ''telemetry_samples'', create_hypertable ''log_entries''] c of
        (Inl e, c) \<Rightarrow> (Inl e, c)
      | (Inr _, c) \<Rightarrow> set_policies (envs 3) config c)"

section \<open>Opening\<close>

text \<open>
  What the driver answers while the store opens; \<open>Open_migrations\<close> and \<open>Open_timescale\<close> are the
  surroundings of the calls of those two steps.
\<close>

record Open_Env =
  Open_parses :: bool
  Open_pool :: bool
  Open_ping :: bool
  Open_migrations :: "nat \<Rightarrow> DB_Env"
  Open_timescale :: "nat \<Rightarrow> DB_Env"
  Open_connects :: bool
  Open_listens :: bool

definition startLogListener :: "Open_Env \<Rightarrow> unit res" where
  "startLogListener env =
     (if \<not> Open_connects env then Inl (ErrOther ''acquire live log listener'')
      else if \<not> Open_listens env then Inl (ErrOther ''listen for live logs'')
      else Inr ())"

definition pg_Open :: "Open_Env \<Rightarrow> 's Migration list \<Rightarrow> Option list \<Rightarrow> 's Cluster \<Rightarrow> (StoreConfig, 's Cluster) op" where
  "pg_Open env entries options c =
     (if \<not> Open_parses env then (Inl (ErrOther ''parse PostgreSQL configuration''), c)
      else if \<not> Open_pool env then (Inl (ErrOther ''open PostgreSQL pool''), c)
      else let config = new_store_config options in
        case validateRetention config of
          Some e \<Rightarrow> (Inl e, c)
        | None \<Rightarrow>
            if \<not> Open_ping env then (Inl (ErrOther ''ping PostgreSQL''), c)
            else (case migrate (Open_migrations env) entries c of
                (Inl e, c) \<Rightarrow> (Inl e, c)
              | (Inr _, c) \<Rightarrow>
                  (case (if Store_timescaleEnabled config then enableTimescale (Open_timescale env) config c else (Inr (), c)) of
                     (Inl e, c) \<Rightarrow> (Inl e, c)
                   | (Inr _, c) \<Rightarrow>
                       (case startLogListener env of Inl e \<Rightarrow> (Inl e, c) | Inr _ \<Rightarrow> (Inr config, c)))))"

section \<open>Every start takes the migrations further\<close>

text \<open>
  The scripts of the first \<open>k\<close> files have run, each once and in order, and the ledger has their
  names. A directory is not a migration.
\<close>

definition migrations :: "'s Migration list \<Rightarrow> 's Migration list" where
  "migrations entries = filter (\<lambda>entry. \<not> Migration_IsDir entry) entries"

fun run_scripts :: "'s Migration list \<Rightarrow> 's \<Rightarrow> 's option" where
  "run_scripts [] s = Some s"
| "run_scripts (entry # entries) s =
     (case Migration_Script entry s of None \<Rightarrow> None | Some s' \<Rightarrow> run_scripts entries s')"

definition migrated :: "'s \<Rightarrow> 's Migration list \<Rightarrow> 's Cluster \<Rightarrow> nat \<Rightarrow> bool" where
  "migrated s0 files c k \<longleftrightarrow>
     k \<le> length files
     \<and> run_scripts (take k files) s0 = Some (Cluster_schema c)
     \<and> (case Cluster_ledger c of None \<Rightarrow> k = 0 | Some names \<Rightarrow> names = map Migration_Name (take k files))"

lemma run_scripts_append:
  "run_scripts (xs @ ys) s = (case run_scripts xs s of None \<Rightarrow> None | Some s' \<Rightarrow> run_scripts ys s')"
  by (induction xs arbitrary: s) (auto split: option.split)

lemma run_scripts_take:
  "run_scripts xs s \<noteq> None \<Longrightarrow> run_scripts (take k xs) s \<noteq> None"
  using run_scripts_append [of "take k xs" "drop k xs" s] by (auto split: option.splits)

lemma all_or_nothing_migration: "all_or_nothing (\<lambda>env. apply_migration env entry)"
  unfolding apply_migration_def Let_def by (intro all_or_nothing_transaction tx_intros)

text \<open>Where nothing fails, the next script runs and is recorded.\<close>

lemma apply_next:
  assumes ok: "distinct (map Migration_Name files)" "run_scripts files s0 \<noteq> None"
    and c: "migrated s0 files c k" "Cluster_ledger c \<noteq> None" and k: "k < length files"
  obtains c' where "apply_migration healthy (files ! k) c = (Inr (), c')" "migrated s0 files c' (Suc k)"
    "Cluster_ledger c' \<noteq> None"
proof -
  let ?e = "files ! k"
  have take: "take (Suc k) files = take k files @ [?e]" by (rule take_Suc_conv_app_nth [OF k])
  have ledger: "Cluster_ledger c = Some (map Migration_Name (take k files))"
    using c by (auto simp: migrated_def split: option.splits)
  have "run_scripts (take (Suc k) files) s0 \<noteq> None" by (rule run_scripts_take [OF ok(2)])
  then obtain s' where s': "Migration_Script ?e (Cluster_schema c) = Some s'"
    using c(1) by (auto simp: take run_scripts_append migrated_def split: option.splits)
  have "distinct (map Migration_Name (take (Suc k) files))"
    using ok(1) by (metis distinct_take take_map)
  then have fresh: "Migration_Name ?e \<notin> set (map Migration_Name (take k files))" by (simp add: take)
  let ?c = "c\<lparr>Cluster_schema := s', Cluster_ledger := Some (map Migration_Name (take k files) @ [Migration_Name ?e])\<rparr>"
  have "apply_migration healthy ?e c = (Inr (), ?c)"
    using fresh s' ledger by (simp add: apply_migration_def transaction_def tx_defs run_script_def record_migration_def Let_def)
  moreover have "migrated s0 files ?c (Suc k)"
    using c(1) k s' by (simp add: migrated_def take run_scripts_append)
  ultimately show thesis using that by auto
qed

lemma applied_iff:
  assumes "distinct (map Migration_Name files)" "migrated s0 files c k" "Cluster_ledger c \<noteq> None" "j < length files"
  shows "migrationApplied env (Migration_Name (files ! j)) c = Inr b \<Longrightarrow> b \<longleftrightarrow> j < k"
    and "migrationApplied healthy (Migration_Name (files ! j)) c = Inr (j < k)"
proof -
  have ledger: "Cluster_ledger c = Some (map Migration_Name (take k files))" "k \<le> length files"
    using assms(2,3) by (auto simp: migrated_def split: option.splits)
  have "Migration_Name (files ! j) \<in> set (map Migration_Name (take k files)) \<longleftrightarrow> j < k"
  proof
    assume "Migration_Name (files ! j) \<in> set (map Migration_Name (take k files))"
    then obtain i where "i < k" "i < length files" "Migration_Name (files ! i) = Migration_Name (files ! j)"
      using ledger(2) by (auto simp: in_set_conv_nth)
    then show "j < k" using nth_eq_iff_index_eq [OF assms(1), of i j] assms(4) by simp
  next
    assume "j < k"
    then show "Migration_Name (files ! j) \<in> set (map Migration_Name (take k files))"
      using ledger(2) by (force simp: in_set_conv_nth)
  qed
  then show "migrationApplied env (Migration_Name (files ! j)) c = Inr b \<Longrightarrow> b \<longleftrightarrow> j < k"
    "migrationApplied healthy (Migration_Name (files ! j)) c = Inr (j < k)"
    by (auto simp: migrationApplied_def read_only_def tx_defs ledger split: if_splits)
qed

lemma migrate_entries_further:
  assumes ok: "distinct (map Migration_Name files)" "run_scripts files s0 \<noteq> None"
  shows "migrations entries = drop j files \<Longrightarrow> j \<le> k \<Longrightarrow> migrated s0 files c k \<Longrightarrow> Cluster_ledger c \<noteq> None \<Longrightarrow>
    migrate_entries envs n entries c = (res, c') \<Longrightarrow>
    (\<exists>k' \<ge> k. migrated s0 files c' k' \<and> Cluster_ledger c' \<noteq> None \<and> (res = Inr () \<longrightarrow> k' = length files))
    \<and> ((\<forall>n. envs n = healthy) \<longrightarrow> res = Inr ())"
proof (induction entries arbitrary: j k n c)
  case Nil
  then have "length files \<le> j" by (simp add: migrations_def)
  moreover have "k \<le> length files" using Nil.prems(3) by (simp add: migrated_def)
  ultimately have "k = length files" using Nil.prems(2) by linarith
  then show ?case using Nil.prems by auto
next
  case (Cons entry entries)
  show ?case
  proof (cases "Migration_IsDir entry")
    case True
    then show ?thesis using Cons.prems Cons.IH [of j k] by (simp add: migrations_def)
  next
    case False
    then have files: "drop j files = entry # migrations entries" using Cons.prems(1) by (simp add: migrations_def)
    then have j: "j < length files" by (metis drop_eq_Nil2 linorder_not_less list.distinct(1))
    then have entry: "files ! j = entry" and rest: "migrations entries = drop (Suc j) files"
      using files by (metis Cons_nth_drop_Suc list.inject)+
    note applied = applied_iff [OF ok(1) Cons.prems(3,4) j, unfolded entry]
    show ?thesis
    proof (cases "migrationApplied (envs n) (Migration_Name entry) c")
      case (Inl e)
      then show ?thesis using Cons.prems(3-5) False applied(2) by auto
    next
      case (Inr b)
      then have b: "b \<longleftrightarrow> j < k" by (rule applied(1))
      show ?thesis
      proof (cases "j < k")
        case True
        then have "migrate_entries envs (Suc n) entries c = (res, c')"
          using Cons.prems(5) False Inr b by simp
        then show ?thesis using Cons.IH [OF rest _ Cons.prems(3,4)] True by simp
      next
        case now: False
        then have k: "k = j" using Cons.prems(2) by simp
        obtain c1 where good: "apply_migration healthy entry c = (Inr (), c1)" "migrated s0 files c1 (Suc k)"
            "Cluster_ledger c1 \<noteq> None"
          using apply_next [OF ok Cons.prems(3,4), of thesis] j k entry by auto
        obtain r2 c2 where run: "apply_migration (envs (Suc n)) entry c = (r2, c2)" by fastforce
        have c2: "c2 = c \<or> c2 = c1" "isl r2 \<or> r2 = Inr () \<and> c2 = c1"
          using all_or_nothingD [OF all_or_nothing_migration run] good(1) by auto
        show ?thesis
        proof (cases r2)
          case (Inl e)
          then have out: "res = Inl e" "c' = c2" using Cons.prems(5) False Inr b now run by simp_all
          have "\<exists>k' \<ge> k. migrated s0 files c2 k' \<and> Cluster_ledger c2 \<noteq> None"
            using c2(1) Cons.prems(3,4) good(2,3) by (metis le_SucI order_refl)
          moreover have "envs (Suc n) \<noteq> healthy" using Inl run good(1) by auto
          ultimately show ?thesis using out by auto
        next
          case done': (Inr u)
          then have "c2 = c1" "migrate_entries envs (Suc (Suc n)) entries c1 = (res, c')"
            using c2(2) Cons.prems(5) False Inr b now run by auto
          then show ?thesis using Cons.IH [OF rest _ good(2,3)] k by (metis Suc_leD order_refl)
        qed
      qed
    qed
  qed
qed

lemma migrate_further:
  assumes ok: "distinct (map Migration_Name (migrations entries))" "run_scripts (migrations entries) s0 \<noteq> None"
    and c: "migrated s0 (migrations entries) c k" and run: "migrate envs entries c = (res, c')"
  shows "(\<exists>k' \<ge> k. migrated s0 (migrations entries) c' k' \<and> (res = Inr () \<longrightarrow> k' = length (migrations entries)))
    \<and> ((\<forall>n. envs n = healthy) \<longrightarrow> res = Inr ())"
proof -
  obtain c1 where c1: "create_ledger c = Some c1" "Cluster_ledger c1 \<noteq> None" "migrated s0 (migrations entries) c1 k"
    using c by (auto simp: create_ledger_def migrated_def split: option.splits)
  have "fst (exec_one (envs 0) ''create migration ledger'' (effect create_ledger) c) = Inr () \<longrightarrow>
      migrate_entries envs 1 entries c1 = (res, c')"
    using run c1(1) by (auto simp: migrate_def exec_one_def effect_def split: if_splits)
  moreover have "isl (fst (exec_one (envs 0) ''create migration ledger'' (effect create_ledger) c)) \<longrightarrow>
      isl res \<and> (c' = c \<or> c' = c1) \<and> envs 0 \<noteq> healthy"
    using run c1(1) by (auto simp: migrate_def exec_one_def effect_def split: if_splits)
  moreover have "(\<exists>k' \<ge> k. migrated s0 (migrations entries) c' k' \<and> (res = Inr () \<longrightarrow> k' = length (migrations entries)))
    \<and> ((\<forall>n. envs n = healthy) \<longrightarrow> res = Inr ())" if "migrate_entries envs 1 entries c1 = (res, c')"
    using migrate_entries_further [OF ok _ _ c1(3,2) that, of 0] by auto
  ultimately show ?thesis using c c1(3)
    by (cases "fst (exec_one (envs 0) ''create migration ledger'' (effect create_ledger) c)") auto
qed

section \<open>TimescaleDB leaves ledger and schema alone\<close>

lemma exec_each_keeps:
  "\<forall>f \<in> set fs. \<forall>d d'. P d \<longrightarrow> f d = Some d' \<longrightarrow> P d' \<Longrightarrow> P d \<Longrightarrow> P (snd (exec_each envs n msg fs d))"
proof (induction fs arbitrary: n d)
  case (Cons f fs)
  have step: "P (snd (exec_one (envs n) msg (effect f) d))"
    using Cons.prems by (auto simp: exec_one_def effect_def split: option.splits)
  obtain r d' where run: "exec_one (envs n) msg (effect f) d = (r, d')" by fastforce
  have d': "P d'" using step unfolding run by simp
  have "\<forall>f \<in> set fs. \<forall>d d'. P d \<longrightarrow> f d = Some d' \<longrightarrow> P d'" using Cons.prems(1) by (metis list.set_intros(2))
  then have "P (snd (exec_each envs (Suc n) msg fs d'))" using d' by (rule Cons.IH)
  with d' show ?case by (cases r) (simp_all add: run)
qed simp

fun run_all :: "('d \<Rightarrow> 'd option) list \<Rightarrow> 'd \<Rightarrow> 'd option" where
  "run_all [] d = Some d"
| "run_all (f # fs) d = (case f d of None \<Rightarrow> None | Some d' \<Rightarrow> run_all fs d')"

lemma exec_each_all:
  "exec_each envs n msg fs d = (Inr u, d') \<Longrightarrow> run_all fs d = Some d'"
  "run_all fs d = Some d' \<Longrightarrow> (\<forall>n. envs n = healthy) \<Longrightarrow> exec_each envs n msg fs d = (Inr (), d')"
proof (induction fs arbitrary: n d)
  case (Cons f fs)
  { case 1
    then show ?case using Cons.IH(1) by (auto simp: exec_one_def effect_def split: option.splits if_splits)
  next
    case 2
    then show ?case using Cons.IH(2) by (auto simp: exec_one_def effect_def split: option.splits)
  }
qed simp_all

definition timescale_part :: "'s Cluster \<Rightarrow> 's Cluster \<Rightarrow> bool" where
  "timescale_part c c' \<longleftrightarrow> Cluster_ledger c' = Cluster_ledger c \<and> Cluster_schema c' = Cluster_schema c"

lemma migrated_timescale: "timescale_part c c' \<Longrightarrow> migrated s0 files c' k \<longleftrightarrow> migrated s0 files c k"
  by (simp add: timescale_part_def migrated_def)

definition retention_set :: "StoreConfig \<Rightarrow> 's Cluster \<Rightarrow> bool" where
  "retention_set config c \<longleftrightarrow> list_all (\<lambda>policy. Cluster_policies c (Policy_table policy) = Some (Policy_days policy)) (retentionPolicies config)"

lemma set_policies_healthy:
  assumes "{''telemetry_samples'', ''log_entries''} \<subseteq> set (Cluster_hypertables c)"
  shows "\<exists>c'. set_policies healthy config c = (Inr (), c') \<and> timescale_part c c' \<and> retention_set config c'"
  using assms
  unfolding set_policies_def transaction_def retentionPolicies_def retention_set_def timescale_part_def tx_defs
    remove_retention_policy_def add_retention_policy_def
  by (simp add: tx_ret_def tx_bind_def)

lemma enableTimescale_done:
  assumes "enableTimescale envs config c = (res, c')"
  shows "timescale_part c c'" "res = Inr () \<Longrightarrow> retention_set config c'" "(\<forall>n. envs n = healthy) \<Longrightarrow> res = Inr ()"
proof -
  let ?fs = "[create_extension, create_hypertable ''telemetry_samples'', create_hypertable ''log_entries'']"
  obtain r1 c1 where first: "exec_each envs 0 ''configure TimescaleDB'' ?fs c = (r1, c1)" by fastforce
  have "timescale_part c (snd (exec_each envs 0 ''configure TimescaleDB'' ?fs c))"
    by (rule exec_each_keeps [where P = "timescale_part c"])
      (auto simp: timescale_part_def create_extension_def create_hypertable_def split: if_splits)
  then have t1: "timescale_part c c1" unfolding first by simp
  have all: "\<exists>c2. run_all ?fs c = Some c2 \<and> {''telemetry_samples'', ''log_entries''} \<subseteq> set (Cluster_hypertables c2)"
    by (simp add: create_extension_def create_hypertable_def)
  have anp: "all_or_nothing (\<lambda>env. set_policies env config :: 'a Cluster \<Rightarrow> _)"
    unfolding set_policies_def by (intro all_or_nothing_transaction tx_intros)
  have "timescale_part c c' \<and> (res = Inr () \<longrightarrow> retention_set config c') \<and> ((\<forall>n. envs n = healthy) \<longrightarrow> res = Inr ())"
  proof (cases r1)
    case (Inl e)
    obtain c2 where "run_all ?fs c = Some c2" using all by blast
    then have "(\<forall>n. envs n = healthy) \<Longrightarrow> exec_each envs 0 ''configure TimescaleDB'' ?fs c = (Inr (), c2)"
      by (rule exec_each_all(2))
    then have "\<not> (\<forall>n. envs n = healthy)" unfolding first Inl by blast
    moreover have "res = Inl e" "c' = c1" using assms unfolding enableTimescale_def first Inl by simp_all
    ultimately show ?thesis using t1 by simp
  next
    case (Inr u)
    then have "run_all ?fs c = Some c1" using exec_each_all(1) [OF first [unfolded Inr]] by simp
    then have "{''telemetry_samples'', ''log_entries''} \<subseteq> set (Cluster_hypertables c1)" using all by auto
    then obtain c2 where good: "set_policies healthy config c1 = (Inr (), c2)" "timescale_part c1 c2" "retention_set config c2"
      using set_policies_healthy by blast
    have run: "set_policies (envs 3) config c1 = (res, c')" using assms first Inr by (simp add: enableTimescale_def)
    then have "c' = c1 \<or> c' = c2" "isl res \<or> res = Inr () \<and> c' = c2" "envs 3 = healthy \<longrightarrow> res = Inr ()"
      using all_or_nothingD [OF anp run] good(1) run by auto
    moreover have "timescale_part c c2" using t1 good(2) by (simp add: timescale_part_def)
    ultimately show ?thesis using t1 good(3) by auto
  qed
  then show "timescale_part c c'" "res = Inr () \<Longrightarrow> retention_set config c'" "(\<forall>n. envs n = healthy) \<Longrightarrow> res = Inr ()"
    by blast+
qed

section \<open>Opening the store\<close>

definition quiet :: "Open_Env \<Rightarrow> bool" where
  "quiet env \<longleftrightarrow> Open_parses env \<and> Open_pool env \<and> Open_ping env \<and> (\<forall>n. Open_migrations env n = healthy)
     \<and> (\<forall>n. Open_timescale env n = healthy) \<and> Open_connects env \<and> Open_listens env"

definition opened :: "'s \<Rightarrow> 's Migration list \<Rightarrow> Option list \<Rightarrow> 's Cluster \<Rightarrow> bool" where
  "opened s0 entries options c \<longleftrightarrow>
     migrated s0 (migrations entries) c (length (migrations entries))
     \<and> (Store_timescaleEnabled (new_store_config options) \<longrightarrow> retention_set (new_store_config options) c)"

lemma pg_Open_cases:
  assumes "migrate (Open_migrations env) entries c = (r1, c1)"
    and "(if Store_timescaleEnabled (new_store_config options)
          then enableTimescale (Open_timescale env) (new_store_config options) c1 else (Inr (), c1)) = (r2, c2)"
    and "pg_Open env entries options c = (res, c')"
  shows "isl res \<and> c' = c \<and> \<not> (quiet env \<and> validateRetention (new_store_config options) = None)
    \<or> isl r1 \<and> isl res \<and> c' = c1
    \<or> r1 = Inr () \<and> isl r2 \<and> isl res \<and> c' = c2
    \<or> r1 = Inr () \<and> r2 = Inr () \<and> c' = c2 \<and> isl res \<and> \<not> quiet env
    \<or> r1 = Inr () \<and> r2 = Inr () \<and> c' = c2 \<and> res = Inr (new_store_config options)"
proof (cases "Open_parses env \<and> Open_pool env \<and> validateRetention (new_store_config options) = None \<and> Open_ping env")
  case True
  show ?thesis
  proof (cases r1)
    case (Inr u)
    then show ?thesis using True assms
      by (cases r2; cases "Open_connects env"; cases "Open_listens env")
        (auto simp add: pg_Open_def Let_def startLogListener_def quiet_def isl_def)
  qed (use True assms in \<open>auto simp: pg_Open_def Let_def\<close>)
next
  case False
  have "isl res \<and> c' = c"
    using assms(3) False by (simp add: pg_Open_def Let_def split: if_splits option.splits) auto
  then show ?thesis using False by (simp add: quiet_def) blast
qed

lemma pg_Open_further:
  assumes ok: "distinct (map Migration_Name (migrations entries))" "run_scripts (migrations entries) s0 \<noteq> None"
    and c: "migrated s0 (migrations entries) c k" and run: "pg_Open env entries options c = (res, c')"
  shows "\<exists>k' \<ge> k. migrated s0 (migrations entries) c' k'"
    and "\<not> isl res \<Longrightarrow> opened s0 entries options c'"
    and "quiet env \<Longrightarrow> validateRetention (new_store_config options) = None \<Longrightarrow> res = Inr (new_store_config options)"
proof -
  let ?config = "new_store_config options"
  obtain r1 c1 where m: "migrate (Open_migrations env) entries c = (r1, c1)" by fastforce
  obtain r2 c2 where t: "(if Store_timescaleEnabled ?config then enableTimescale (Open_timescale env) ?config c1 else (Inr (), c1)) = (r2, c2)"
    by fastforce
  note far = migrate_further [OF ok c m]
  note cases = pg_Open_cases [OF m t run]
  have "timescale_part c1 c2 \<and> (r2 = Inr () \<and> Store_timescaleEnabled ?config \<longrightarrow> retention_set ?config c2)
      \<and> (quiet env \<longrightarrow> r2 = Inr ())"
  proof (cases "Store_timescaleEnabled ?config")
    case True
    then have "enableTimescale (Open_timescale env) ?config c1 = (r2, c2)" using t by simp
    from enableTimescale_done [OF this] show ?thesis unfolding quiet_def by blast
  qed (use t in \<open>auto simp: timescale_part_def\<close>)
  then have t1: "timescale_part c1 c2" "r2 = Inr () \<Longrightarrow> Store_timescaleEnabled ?config \<Longrightarrow> retention_set ?config c2"
    "quiet env \<Longrightarrow> r2 = Inr ()" by simp_all
  note same = migrated_timescale [OF t1(1)]
  obtain k1 where k1: "k \<le> k1" "migrated s0 (migrations entries) c1 k1" using far by blast
  have "c' = c \<or> c' = c1 \<or> c' = c2" using cases by blast
  then show "\<exists>k' \<ge> k. migrated s0 (migrations entries) c' k'"
  proof (elim disjE)
    assume "c' = c"
    then show ?thesis using c by auto
  next
    assume "c' = c1"
    then show ?thesis using k1 by auto
  next
    assume "c' = c2"
    then show ?thesis using k1 same by auto
  qed
  show "opened s0 entries options c'" if "\<not> isl res"
  proof -
    have "r1 = Inr ()" "r2 = Inr ()" "c' = c2" using cases that by auto
    moreover have "migrated s0 (migrations entries) c1 (length (migrations entries))" using far \<open>r1 = Inr ()\<close> by auto
    ultimately show ?thesis using t1(2) same by (simp add: opened_def)
  qed
  show "res = Inr ?config" if "quiet env" "validateRetention ?config = None"
  proof -
    have "r1 = Inr ()" using far that(1) by (simp add: quiet_def)
    moreover have "r2 = Inr ()" by (rule t1(3) [OF that(1)])
    ultimately show ?thesis using cases that by auto
  qed
qed

text \<open>One start after another, each in surroundings of its own.\<close>

definition starts :: "'s Migration list \<Rightarrow> Option list \<Rightarrow> Open_Env list \<Rightarrow> 's Cluster \<Rightarrow> 's Cluster" where
  "starts entries options envs c = fold (\<lambda>env c. snd (pg_Open env entries options c)) envs c"

lemma starts_further:
  assumes ok: "distinct (map Migration_Name (migrations entries))" "run_scripts (migrations entries) s0 \<noteq> None"
  shows "migrated s0 (migrations entries) c k \<Longrightarrow> \<exists>k' \<ge> k. migrated s0 (migrations entries) (starts entries options envs c) k'"
proof (induction envs arbitrary: c k)
  case (Cons env envs)
  obtain res c' where run: "pg_Open env entries options c = (res, c')" by fastforce
  obtain k1 where "k \<le> k1" "migrated s0 (migrations entries) c' k1"
    using pg_Open_further(1) [OF ok Cons.prems run] by blast
  with Cons.IH [of c' k1] obtain k2 where "k \<le> k2"
    "migrated s0 (migrations entries) (starts entries options envs c') k2" using le_trans by blast
  then show ?case by (auto simp: starts_def run)
qed (auto simp: starts_def)

lemma migrated_schema:
  "migrated s0 files c (length files) \<Longrightarrow> run_scripts files s0 = Some (Cluster_schema c)"
  by (simp add: migrated_def)

lemma migrated_le: "migrated s0 files c k \<Longrightarrow> k \<le> length files"
  by (simp add: migrated_def)

lemma starts_append: "starts entries options (xs @ ys) c = starts entries options ys (starts entries options xs c)"
  by (simp add: starts_def)

lemma starts_Cons: "starts entries options (env # envs) c = starts entries options envs (snd (pg_Open env entries options c))"
  by (simp add: starts_def)

lemma starts_quiet:
  assumes ok: "distinct (map Migration_Name (migrations entries))" "run_scripts (migrations entries) s0 \<noteq> None"
    and retention: "validateRetention (new_store_config options) = None"
    and c: "migrated s0 (migrations entries) c k" and env: "env \<in> set envs" "quiet env"
  shows "migrated s0 (migrations entries) (starts entries options envs c) (length (migrations entries))"
proof -
  obtain before later where envs: "envs = before @ env # later" using env(1) by (meson split_list)
  obtain k1 where k1: "migrated s0 (migrations entries) (starts entries options before c) k1"
    using starts_further [OF ok c] by blast
  obtain res c2 where run: "pg_Open env entries options (starts entries options before c) = (res, c2)" by fastforce
  have "\<not> isl res" using pg_Open_further(3) [OF ok k1 run env(2) retention] by simp
  then have "migrated s0 (migrations entries) c2 (length (migrations entries))"
    using pg_Open_further(2) [OF ok k1 run] by (simp add: opened_def)
  from starts_further [OF ok this, of options later] obtain k2 where
    "length (migrations entries) \<le> k2" "migrated s0 (migrations entries) (starts entries options later c2) k2" by blast
  moreover from this have "k2 = length (migrations entries)" using migrated_le by (metis order_antisym)
  ultimately show ?thesis by (simp add: envs starts_append starts_Cons run)
qed

text \<open>
  C13. Starting comes to an end. Let the scripts of the migrations apply one after another, and let the retention be
  between 1 and 3650 days. However many starts are cut off, at whatever
  statement and with answers lost: what they leave is always the scripts of the first files, each run once and in
  order, with their names in the ledger, never fewer than before. One start that nothing disturbs is enough to have
  all of them, then and after any later starts. An undisturbed start after that opens the store, with the schema
  that all scripts make and, with TimescaleDB, with the retention that was configured.
\<close>

theorem store_migrates:
  assumes "distinct (map Migration_Name (migrations entries))" "run_scripts (migrations entries) s0 = Some s1"
    and "validateRetention (new_store_config options) = None" "migrated s0 (migrations entries) c k"
  shows "(\<exists>k' \<ge> k. migrated s0 (migrations entries) (starts entries options envs c) k')
    \<and> ((\<exists>env \<in> set envs. quiet env) \<longrightarrow> migrated s0 (migrations entries) (starts entries options envs c) (length (migrations entries)))
    \<and> (quiet env \<longrightarrow> (\<exists>c'. pg_Open env entries options (starts entries options envs c) = (Inr (new_store_config options), c')
         \<and> opened s0 entries options c' \<and> Cluster_schema c' = s1))"
proof -
  have ok: "run_scripts (migrations entries) s0 \<noteq> None" using assms(2) by simp
  obtain k' where k': "k' \<ge> k" "migrated s0 (migrations entries) (starts entries options envs c) k'"
    using starts_further [OF assms(1) ok assms(4)] by blast
  have "\<exists>c'. pg_Open env entries options (starts entries options envs c) = (Inr (new_store_config options), c')
         \<and> opened s0 entries options c' \<and> Cluster_schema c' = s1" if "quiet env"
  proof -
    obtain res c' where run: "pg_Open env entries options (starts entries options envs c) = (res, c')" by fastforce
    have res: "res = Inr (new_store_config options)" by (rule pg_Open_further(3) [OF assms(1) ok k'(2) run that assms(3)])
    moreover have open': "opened s0 entries options c'" using pg_Open_further(2) [OF assms(1) ok k'(2) run] res by simp
    moreover have "Cluster_schema c' = s1"
      using migrated_schema [of s0 "migrations entries" c'] open' assms(2) by (simp add: opened_def)
    ultimately show ?thesis using run by blast
  qed
  then show ?thesis using k' starts_quiet [OF assms(1) ok assms(3,4)] by blast
qed

text \<open>Tried at two scripts that count, after one start whose first migration landed without an answer.\<close>

definition ex_migrations :: "nat Migration list" where
  "ex_migrations = [\<lparr>Migration_Name = ''001'', Migration_IsDir = False, Migration_Script = (\<lambda>s. Some (s + 1))\<rparr>,
     \<lparr>Migration_Name = ''old'', Migration_IsDir = True, Migration_Script = (\<lambda>_. None)\<rparr>,
     \<lparr>Migration_Name = ''002'', Migration_IsDir = False, Migration_Script = (\<lambda>s. if s = 1 then Some 12 else None)\<rparr>]"

definition ex_cluster :: "nat Cluster" where
  "ex_cluster = \<lparr>Cluster_ledger = None, Cluster_schema = 0, Cluster_timescale = False, Cluster_hypertables = [],
     Cluster_policies = Map.empty\<rparr>"

definition ex_open :: Open_Env where
  "ex_open = \<lparr>Open_parses = True, Open_pool = True, Open_ping = True, Open_migrations = (\<lambda>_. healthy),
     Open_timescale = (\<lambda>_. healthy), Open_connects = True, Open_listens = True\<rparr>"

definition ex_cut_off :: Open_Env where
  "ex_cut_off = ex_open\<lparr>Open_migrations := \<lambda>_. healthy\<lparr>DB_commit_fails := True, DB_landed := True\<rparr>\<rparr>"

theorem store_migrates_witness:
  "\<exists>c'. pg_Open ex_open ex_migrations [WithTimescale True, WithRetention 7 7] (starts ex_migrations [WithTimescale True, WithRetention 7 7] [ex_cut_off] ex_cluster)
      = (Inr (new_store_config [WithTimescale True, WithRetention 7 7]), c') \<and> Cluster_schema c' = 12"
proof -
  have "distinct (map Migration_Name (migrations ex_migrations))" "run_scripts (migrations ex_migrations) 0 = Some 12"
    "migrated 0 (migrations ex_migrations) ex_cluster 0" "validateRetention (new_store_config [WithTimescale True, WithRetention 7 7]) = None"
    by (simp_all add: migrations_def ex_migrations_def migrated_def ex_cluster_def validateRetention_def retentionPolicies_def
        new_store_config_def)
  moreover have "quiet ex_open" by (simp add: quiet_def ex_open_def)
  ultimately show ?thesis using store_migrates [of ex_migrations 0 12 "[WithTimescale True, WithRetention 7 7]" ex_cluster 0 "[ex_cut_off]" ex_open]
    by blast
qed

end
