(* ===== verification/Spec2Isabelle.thy ===== *)
theory Spec2Isabelle
  imports Jobs_Properties Alerting_Properties Sessions_Properties Authorization Ratelimit Identity_Properties
    Serviceaccounts_Properties Enrollment_Properties Logstream_Properties Telemetry Serviceinventory
    Cloudinventory_Properties Audittrail Activity Hub_Properties
    Invite_Properties Agent_Protocol Agent_Logs_Properties Agent_Runner_Properties Agent_Collectors_Properties
    Pg_Calls Pg_Schema Pg_Search Pg_Jobs_Properties Pg_Enrollment_Properties Pg_Logs_Properties Pg_Store
begin

text \<open>
  \<^bold>\<open>The hub and the agent of Bazusop.\<close>

  Bazusop manages hosts. Operators use a hub (\<open>cmd/bazusop-hub\<close>, \<open>internal/server\<close>) that keeps
  organizations, sites, users, jobs, alerts and logs; an agent (\<open>cmd/bazusop-agent\<close>,
  \<open>internal/agent\<close>) runs on every host, enrolls with the hub once, reports facts and executes
  the jobs operators approved. Each domain of the hub is a package with a service (validation
  and decisions) over a store interface with two implementations: maps in memory, and PostgreSQL
  (\<open>internal/storage/postgres\<close>), which several hubs may share. The handlers of \<open>internal/server\<close>
  compose the services. The development models the services, both implementations of the stores,
  the handlers with their table of routes, the start of the hub, and the agent: its identity, its
  collectors, its report cycle and its job executor.

  \<^bold>\<open>The theories and the code.\<close>

  \<^item> \<open>Prelude\<close>: errors and results, time and durations, loops over Go maps (\<open>ranges\<close>: any order of
    visits), the selection loop, \<open>sort.Slice\<close> (\<open>slice_sort\<close>), the contract of credentials that
    end (\<open>revocation\<close>). \<open>GoText\<close> and \<open>Encoding\<close>: the string functions the code calls, UTF-8, hex,
    base64, JSON strings and objects. \<open>Json_Text\<close>: a text after its way through \<open>encoding/json\<close>, which
    replaces every byte that is not UTF-8. \<open>Float64\<close>: comparisons of Go's floats.
  \<^item> \<open>Tenancy\<close>: \<open>internal/tenancy\<close>; scopes and agents and their validation, and the contract of a
    listing within a scope (\<open>scoped_listing\<close>).
  \<^item> \<open>Jobs\<close>, \<open>Jobs_Lifecycle\<close>, \<open>Jobs_Properties\<close>: \<open>internal/jobs\<close>; signed jobs, claims with a lease,
    reports, event logs, as operations on \<open>JobStore\<close> and as the state machine they form.
  \<^item> \<open>Alerting\<close>, \<open>Alerting_Lifecycle\<close>, \<open>Alerting_Properties\<close>: \<open>internal/alerting\<close>; rules, maintenance
    windows, incidents, what a telemetry or inventory report does to them.
  \<^item> \<open>Sessions\<close>, \<open>Sessions_Properties\<close>: \<open>internal/sessions\<close>. \<open>Authorization\<close>: \<open>internal/authorization\<close>.
    \<open>Ratelimit\<close>: \<open>internal/ratelimit\<close>.
  \<^item> \<open>Credentials\<close>, \<open>Identity\<close>, \<open>Identity_Lifecycle\<close>, \<open>Identity_Properties\<close>: \<open>internal/identity\<close>;
    passwords, one-time codes, recovery codes, users, invites, the first administrator, OIDC links.
    \<open>Invite_Properties\<close>: an accepted invite with the site roles the hub's grantor assigns.
  \<^item> \<open>Serviceaccounts\<close>, \<open>Serviceaccounts_Properties\<close>: \<open>internal/serviceaccounts\<close>.
  \<^item> \<open>Enrollment\<close>, \<open>Enrollment_Properties\<close>: \<open>internal/enrollment/authority.go\<close>; bootstrap tokens and
    agent certificates.
  \<^item> \<open>Logstream\<close>, \<open>Logstream_Properties\<close>: \<open>internal/logstream\<close>; ingestion, search, live streams.
  \<^item> \<open>Inventory\<close>, \<open>Inventory_Properties\<close>, \<open>Telemetry\<close>, \<open>Serviceinventory\<close>, \<open>Cloudinventory\<close>,
    \<open>Cloudinventory_Properties\<close>: the packages of these names; what hosts report of themselves, and
    the reconciliation of cloud instances with hosts. \<open>Audittrail\<close>, \<open>Activity\<close>, \<open>Oidc\<close>: the audit
    trail, the activity feed, the login over an identity provider.
  \<^item> \<open>Server\<close>: \<open>internal/server\<close>, requests, replies, the record \<open>Hub\<close> of all stores, authentication and
    permissions (\<open>server.go\<close>, \<open>rbac.go\<close>, \<open>sessions.go\<close>, \<open>runtime.go\<close>). \<open>Server_Handlers\<close>,
    \<open>Server_Operations\<close>, \<open>Server_Accounts\<close>: one definition for each handler. \<open>Server_Routes\<close>: the table of
    \<open>NewHandler\<close>, \<open>registerAudited\<close>, CORS, \<open>serve\<close>. A handler gets the writer of the HTTP server or, when
    requests are audited, the \<open>statusRecorder\<close> around it (\<open>ResponseWriter\<close>). \<open>Server_Steps\<close>: a request as
    steps of the components.
  \<^item> \<open>Hub_Main\<close>: \<open>internal/config\<close> and \<open>cmd/bazusop-hub\<close>. \<open>Hub_Runs\<close>: runs of the hub and their invariant.
    \<open>Hub_Access\<close>: the guard of every route and what it may change, who a callback logs in, why no live
    stream opens. \<open>Hub_Properties\<close>, \<open>Hub_Examples\<close>.
  \<^item> \<open>Agent_Jobs\<close>, \<open>Agent_Jobs_Properties\<close>: \<open>internal/agent/job_executor.go\<close> and \<open>job_state.go\<close>; the
    executor with its journal. \<open>Agent_Protocol\<close> composes it with the hub of \<open>Jobs\<close>.
  \<^item> \<open>Agent_Client\<close>, \<open>Agent_Client_Properties\<close>: \<open>identity.go\<close> and \<open>client.go\<close>; the files of the identity,
    enrollment and renewal, the requests. \<open>Agent_Logs\<close>, \<open>Agent_Logs_Properties\<close>: the log collector with its
    checkpoint, the shipping of batches. \<open>Agent_Runner\<close>, \<open>Agent_Runner_Properties\<close>: configuration, the
    report cycle, \<open>cmd/bazusop-agent\<close>. \<open>Agent_Collectors\<close>, \<open>Agent_Collectors_Properties\<close>: facts, services
    and telemetry on Linux.
  \<^item> \<open>Pg_Database\<close>: the tables after the last migration. \<open>Pg_Tables\<close>: statements and transactions of the
    driver, with the ways they fail. \<open>Pg_Accounts\<close>, \<open>Pg_Alerting\<close>, \<open>Pg_Cloud\<close>, \<open>Pg_Enrollment\<close>, \<open>Pg_Events\<close>,
    \<open>Pg_Hosts\<close>, \<open>Pg_Identity\<close>, \<open>Pg_Jobs\<close>, \<open>Pg_Logs\<close>, \<open>Pg_Store\<close>: the files of \<open>internal/storage/postgres\<close>.
    \<open>Pg_Calls\<close>: every writing call as one type. \<open>Pg_Schema\<close>, \<open>Pg_Search\<close>, \<open>Pg_Jobs_Refinement\<close>,
    \<open>Pg_Jobs_Properties\<close>, \<open>Pg_Enrollment_Refinement\<close>, \<open>Pg_Enrollment_Properties\<close>,
    \<open>Pg_Logs_Properties\<close>, \<open>Pg_Examples\<close>: how the tables implement the stores in memory.

  \<^bold>\<open>How the code is read.\<close> A Go struct is a record with the struct's name as a prefix of its
  fields, a map is a partial function, a method of a store or service is a function of the same
  name that returns its result and the store afterwards: \<open>('a, 's) op\<close> is an error or a value,
  with the state. An early return is a branch. A string is its bytes, a time an integer count of
  nanoseconds with 0 for the zero time. Mutexes make each operation one step; a run is a sequence
  of steps. A table is a list of rows; a transaction works on a copy that its commit puts in place,
  so calls of several hubs are steps on one \<open>Database\<close>, as the row locks and constraints make them.

  \<^bold>\<open>Parameters and hypotheses.\<close> What is not code of the repository is an argument: clock readings,
  random bytes (\<open>entropy\<close>, None when reading fails), the order of map visits, sorting,
  Ed25519, HMAC, Argon2id, SHA, AES-GCM, X.509 and PEM, Unicode case mapping outside ASCII, the
  formatting of times; together they are the records \<open>Lib\<close> and \<open>Env\<close> of the hub, \<open>Wire\<close> and \<open>AgentLib\<close>
  of the agent. \<open>DB_Env\<close> says which statement of a call fails and whether a commit that failed
  landed all the same; \<open>Pg_Server\<close> holds sorting and collation, \<open>lower\<close>, \<open>jsonb\<close> and the encoding of times
  of the database server. Files under \<open>/proc\<close>, the output of commands and the counters of gopsutil
  are inputs of the collectors. Named hypotheses state their documented behaviour (\<open>keypair\<close>,
  \<open>unforgeable\<close>, \<open>x509_ok\<close> and others; \<open>lowers_same\<close>: the locale of the database lowers the texts of
  a search as Go does); fresh identifiers are hypotheses of the steps that create
  them. Every property with hypotheses is applied to concrete data in its witness.

  \<^bold>\<open>What is shown.\<close> For each component an invariant of every reachable store, the effect of each
  operation on every branch, and what the component is for: a job's history is a run of the job
  automaton and its signature binds its fields; one unresolved incident per rule and host; an
  ended session, token, invite or recovery code is refused for ever; the limiter equals its
  specification; passwords and codes verify exactly when they should; a batch of logs sent
  again changes nothing. Of the hub: every request is decided by credentials, roles and CSRF token
  alone, keeps the invariants of all components and leaves its audit event. Of PostgreSQL: each call
  happens whole or not at all, jobs and enrollments refine the stores in memory on all replicas and
  through failures (a call with texts or numbers no column can hold is refused and changes nothing), the migrations run once each and end, what the services accept the tables
  take, search and live streams are those of the memory. Of the agent: its certificate is renewed
  in time by the modelled hub, collected logs are sent until the hub has them and stored once,
  every sample it collects is valid.
  \<open>Agent_Protocol\<close> proves with a small Hoare logic, whose triples also
  hold at every moment a process can die, that a job is executed at most once, whatever the hub
  answers to its reports, and that every interrupted job whose reports the hub can accept is
  decided by the next undisturbed round. What the code gets wrong is proved too: a report or a
  batch of logs that the hub refuses for good blocks the executor or the log collector for ever,
  through crashes and restarts. Loops end by structural
  recursion or a length measure; there is no fuel in the model, except the power of an
  agent's round, where running out is the crash itself.

  \<^bold>\<open>Not modelled.\<close> The calls of the Windows API (service manager, performance counters, access lists;
  the Windows event log is modelled as far as Go parses it), since they are not code of the
  repository; \<open>internal/webui\<close>, which serves embedded files; \<open>internal/version\<close>, three strings of the
  linker; flags, logging, listening and signals in the two mains; the rewriting of old rows by
  migration scripts, which is SQL and a parameter of \<open>Pg_Store\<close>; interleavings inside one call
  of a store, beyond what its transaction isolates.
\<close>

end
